(* ===== verification/Prelude.thy ===== *)
theory Prelude
  imports Complex_Main "HOL-Library.AList"
begin

text \<open>
  What every component of the library shares: the JavaScript numbers the code tests with
  \<open>Number.isFinite\<close> and friends, thrown errors as the left summand of a sum, plain objects used
  as dictionaries (association lists in insertion order), event envelopes and payloads as the
  reducers receive them, and the contracts (locales) that several components implement:
  a sequence-checked stream fold, the same fold with an invariant, and a decision core whose
  emitted events its own reducer accepts.
\<close>

named_theorems core_defs \<open>definitions the component proofs unfold\<close>
named_theorems result_simps \<open>facts on error-or-value results\<close>

section \<open>Numbers\<close>

text \<open>
  A number stored in an event or a projection went through JSON or a numeric database column, so
  it is finite: \<open>number\<close>. Arithmetic on it is exact (the rounding of IEEE doubles beyond
  2^53 is not modelled). A number a client or an adapter supplies may be any JavaScript number:
  \<open>jsnum\<close>, with the comparisons of the language (every comparison with NaN is false).
\<close>

type_synonym number = rat

datatype jsnum = NaN | PosInf | NegInf | Fin number

fun is_finite :: "jsnum \<Rightarrow> bool" where
  "is_finite (Fin r) = True"
| "is_finite _ = False"

definition integral :: "number \<Rightarrow> bool" where
  "integral r \<longleftrightarrow> of_int \<lfloor>r\<rfloor> = r"

fun is_integer :: "jsnum \<Rightarrow> bool" where
  "is_integer (Fin r) = integral r"
| "is_integer _ = False"

definition max_safe_integer :: number where
  "max_safe_integer = 9007199254740991"

fun is_safe_integer :: "jsnum \<Rightarrow> bool" where
  "is_safe_integer (Fin r) = (integral r \<and> \<bar>r\<bar> \<le> max_safe_integer)"
| "is_safe_integer _ = False"

text \<open>The strict equality operator: NaN differs from itself.\<close>

definition js_eq :: "jsnum \<Rightarrow> jsnum \<Rightarrow> bool" where
  "js_eq a b \<longleftrightarrow> a \<noteq> NaN \<and> a = b"

fun js_le :: "jsnum \<Rightarrow> jsnum \<Rightarrow> bool" where
  "js_le NaN _ = False"
| "js_le _ NaN = False"
| "js_le NegInf _ = True"
| "js_le _ NegInf = False"
| "js_le _ PosInf = True"
| "js_le PosInf _ = False"
| "js_le (Fin a) (Fin b) = (a \<le> b)"

lemma js_le_Fin_NegInf [simp]: "\<not> js_le (Fin a) NegInf"
  by simp

lemma js_eq_Fin [simp]: "js_eq x (Fin r) \<longleftrightarrow> x = Fin r"
  by (auto simp: js_eq_def)

lemma integral_of_int [simp]: "integral (of_int k)"
  by (simp add: integral_def)

lemma integral_0 [simp]: "integral 0" and integral_1 [simp]: "integral 1"
  by (simp_all add: integral_def)

lemma integral_numeral [simp]: "integral (numeral n)"
  by (simp add: integral_def)

lemma integral_add_1 [simp]: "integral r \<Longrightarrow> integral (r + 1)"
  by (metis integral_def integral_of_int of_int_1 of_int_add)

text \<open>A numeric value the code has just tested to be finite.\<close>

fun finite_value :: "jsnum \<Rightarrow> number" where
  "finite_value (Fin r) = r"
| "finite_value _ = 0"

section \<open>Errors as values\<close>

text \<open>A function that may throw returns \<open>Inl error\<close> or \<open>Inr value\<close>.\<close>

fun bind_result :: "'e + 'a \<Rightarrow> ('a \<Rightarrow> 'e + 'b) \<Rightarrow> 'e + 'b" where
  "bind_result (Inl e) f = Inl e"
| "bind_result (Inr x) f = f x"

lemma bind_result_Inr [result_simps]:
  "bind_result r f = Inr y \<longleftrightarrow> (\<exists>x. r = Inr x \<and> f x = Inr y)"
  by (cases r) auto

lemma bind_result_Inl [result_simps]:
  "bind_result r f = Inl e \<longleftrightarrow> r = Inl e \<or> (\<exists>x. r = Inr x \<and> f x = Inl e)"
  by (cases r) auto

lemma bind_result_assoc:
  "bind_result (bind_result r f) g = bind_result r (\<lambda>x. bind_result (f x) g)"
  by (cases r) auto

text \<open>Whatever a computation returns, if it does not throw, satisfies \<open>P\<close>.\<close>

definition res_all :: "('a \<Rightarrow> bool) \<Rightarrow> 'e + 'a \<Rightarrow> bool" where
  "res_all P r \<longleftrightarrow> (case r of Inl _ \<Rightarrow> True | Inr x \<Rightarrow> P x)"

lemma res_all_simps [simp]: "res_all P (Inl e)" "res_all P (Inr x) \<longleftrightarrow> P x"
  by (simp_all add: res_all_def)

lemma res_all_bind: "res_all P (bind_result r f) \<longleftrightarrow> res_all (\<lambda>x. res_all P (f x)) r"
  by (cases r) simp_all

lemma res_allD: "res_all P r \<Longrightarrow> r = Inr x \<Longrightarrow> P x"
  by simp

section \<open>Plain objects\<close>

text \<open>
  A \<open>Record<string, V>\<close>: the own properties in insertion order. Assigning an existing key
  keeps its position, a new key goes last, which is what \<open>AList.update\<close> does. Identifiers
  used as keys are never names inherited from \<open>Object.prototype\<close>.
\<close>

type_synonym 'v obj = "(string \<times> 'v) list"

definition obj_get :: "'v obj \<Rightarrow> string \<Rightarrow> 'v option" where
  "obj_get ob k = map_of ob k"

definition obj_put :: "'v obj \<Rightarrow> string \<Rightarrow> 'v \<Rightarrow> 'v obj" where
  "obj_put ob k v = AList.update k v ob"

definition obj_values :: "'v obj \<Rightarrow> 'v list" where
  "obj_values ob = map snd ob"

definition obj_keys :: "'v obj \<Rightarrow> string list" where
  "obj_keys ob = map fst ob"

definition obj_wf :: "'v obj \<Rightarrow> bool" where
  "obj_wf ob \<longleftrightarrow> distinct (map fst ob)"

lemma obj_get_empty [simp]: "obj_get [] k = None"
  by (simp add: obj_get_def)

lemma obj_get_put [simp]: "obj_get (obj_put ob k v) k' = (if k' = k then Some v else obj_get ob k')"
  by (simp add: obj_get_def obj_put_def update_conv')

lemma obj_wf_empty [simp]: "obj_wf []"
  by (simp add: obj_wf_def)

lemma obj_wf_put [simp]: "obj_wf ob \<Longrightarrow> obj_wf (obj_put ob k v)"
  by (simp add: obj_wf_def obj_put_def distinct_update)

lemma obj_get_values: "obj_get ob k = Some v \<Longrightarrow> v \<in> set (obj_values ob)"
  by (force simp: obj_get_def obj_values_def dest: map_of_SomeD)

lemma obj_values_get: "obj_wf ob \<Longrightarrow> v \<in> set (obj_values ob) \<Longrightarrow> \<exists>k. obj_get ob k = Some v"
  by (auto simp: obj_get_def obj_values_def obj_wf_def)

text \<open>How many values satisfy a test, as in \<open>Object.values(o).filter(P).length\<close>.\<close>

definition obj_count :: "('v \<Rightarrow> bool) \<Rightarrow> 'v obj \<Rightarrow> nat" where
  "obj_count P ob = length (filter P (obj_values ob))"

lemma obj_count_empty [simp]: "obj_count P [] = 0"
  by (simp add: obj_count_def obj_values_def)

lemma obj_count_put_new:
  "obj_get ob k = None \<Longrightarrow> obj_count P (obj_put ob k v) = obj_count P ob + (if P v then 1 else 0)"
  by (induction ob) (auto simp: obj_count_def obj_values_def obj_get_def obj_put_def split: if_splits)

lemma obj_count_put_old:
  "obj_get ob k = Some w \<Longrightarrow>
     obj_count P (obj_put ob k v) + (if P w then 1 else 0) = obj_count P ob + (if P v then 1 else 0)"
  by (induction ob) (auto simp: obj_count_def obj_values_def obj_get_def obj_put_def split: if_splits)

lemma obj_count_pos: "obj_get ob k = Some v \<Longrightarrow> P v \<Longrightarrow> 0 < obj_count P ob"
  by (auto simp: obj_count_def filter_empty_conv dest: obj_get_values)

lemma obj_count_ge_2:
  assumes "obj_get ob k = Some v" and "P v" and "obj_get ob k' = Some v'" and "P v'" and "k \<noteq> k'"
  shows "2 \<le> obj_count P ob"
  using assms
proof (induction ob)
  case Nil
  then show ?case by simp
next
  case (Cons x xs)
  have pos: "1 \<le> length (filter P (map snd xs))" if "map_of xs q = Some w" "P w" for q w
    using obj_count_pos[of xs q w P] that by (simp add: obj_count_def obj_values_def obj_get_def Suc_le_eq)
  from Cons show ?case
    by (cases x) (auto simp: obj_count_def obj_values_def obj_get_def dest: pos split: if_splits)
qed

lemma obj_count_two:
  "obj_wf ob \<Longrightarrow> 2 \<le> obj_count P ob \<Longrightarrow>
     \<exists>k' v. k' \<noteq> k \<and> obj_get ob k' = Some v \<and> P v"
proof (induction ob)
  case (Cons x ob)
  have one: "\<exists>k' v. map_of ob k' = Some v \<and> P v" if "1 \<le> length (filter P (map snd ob))"
  proof -
    from that obtain v where "v \<in> set (map snd ob)" "P v"
      by (metis One_nat_def Suc_le_eq filter_False length_greater_0_conv)
    with Cons.prems(1) obj_values_get[of ob v] show ?thesis
      by (auto simp: obj_wf_def obj_values_def obj_get_def)
  qed
  obtain a b where x: "x = (a, b)" by (cases x)
  have fresh: "map_of ob a = None"
    using Cons.prems(1) x by (auto simp: obj_wf_def map_of_eq_None_iff)
  show ?case
  proof (cases "a = k")
    case True
    with Cons.prems(2) x have "1 \<le> length (filter P (map snd ob))"
      by (simp add: obj_count_def obj_values_def split: if_splits)
    then obtain k' v where kv: "map_of ob k' = Some v" "P v" using one by blast
    with fresh have "k' \<noteq> a" by auto
    with True x kv show ?thesis by (auto simp: obj_get_def intro!: exI[of _ k'])
  next
    case False
    show ?thesis
    proof (cases "P b")
      case True
      with False x show ?thesis by (auto simp: obj_get_def)
    next
      case nP: False
      with Cons.prems x have "obj_wf ob" "2 \<le> obj_count P ob"
        by (simp_all add: obj_wf_def obj_count_def obj_values_def)
      from Cons.IH[OF this] obtain k' v where "k' \<noteq> k" "obj_get ob k' = Some v" "P v" by blast
      moreover from this fresh have "k' \<noteq> a" by (auto simp: obj_get_def)
      ultimately show ?thesis using x by (auto simp: obj_get_def intro!: exI[of _ k'])
    qed
  qed
qed (simp add: obj_count_def obj_values_def)

section \<open>Events\<close>

text \<open>
  The canonical event envelope (\<open>EventEnvelope\<close> of \<open>src/protocol/events.ts\<close>), over the stream's
  event types and its payload fields. A payload is whatever the log holds: \<open>null\<close> (or absent), a primitive value,
  or an object whose fields are each present or \<open>undefined\<close> (\<open>None\<close>).
\<close>

datatype 'f payload = NullPayload | PrimitivePayload | Fields 'f

record ('t, 'f) envelope =
  ev_workspace_id :: string
  ev_stream_id :: string
  ev_seq :: number
  ev_event_id :: string
  ev_command_id :: string
  ev_type :: 't
  ev_schema_version :: number
  ev_actor_user :: "string option"
  ev_actor_agent_principal :: "string option"
  ev_actor_run :: "string option"
  ev_occurred_at_server :: number
  ev_admin_identity_id :: "string option"
  ev_grant_id :: "string option"
  ev_grant_manifest_digest :: "string option"
  ev_payload :: "'f payload"

text \<open>
  The field check of the reducers (\<open>req\<close>): a payload that is no object is refused, then the first
  listed key that is undefined. \<open>defd\<close> says whether a field object defines a key.
\<close>

datatype 'k req_error = NonObjectPayload | MissingPayloadField 'k

definition req :: "('f \<Rightarrow> 'k \<Rightarrow> bool) \<Rightarrow> 'f payload \<Rightarrow> 'k list \<Rightarrow> 'k req_error + 'f" where
  "req defd pl keys = (case pl of
     NullPayload \<Rightarrow> Inl NonObjectPayload
   | PrimitivePayload \<Rightarrow> Inl NonObjectPayload
   | Fields p \<Rightarrow>
       (case find (\<lambda>k. \<not> defd p k) keys of
          Some k \<Rightarrow> Inl (MissingPayloadField k)
        | None \<Rightarrow> Inr p))"

lemma req_Inr_iff:
  "req defd pl keys = Inr p \<longleftrightarrow> pl = Fields p \<and> (\<forall>k \<in> set keys. defd p k)"
  by (auto simp: req_def find_None_iff find_Some_iff split: payload.splits option.splits)

lemma req_not_object [simp]:
  "req defd NullPayload keys = Inl NonObjectPayload"
  "req defd PrimitivePayload keys = Inl NonObjectPayload"
  by (simp_all add: req_def)

lemma req_Fields_Nil [simp]: "req defd (Fields p) [] = Inr p"
  by (simp add: req_def)

lemma req_Fields_Cons [simp]:
  "req defd (Fields p) (k # ks) =
     (if defd p k then req defd (Fields p) ks else Inl (MissingPayloadField k))"
  by (simp add: req_def)

section \<open>Folding events\<close>

text \<open>
  A reducer takes the projection (\<open>null\<close> before the first event is \<open>None\<close>) and an event, and
  throws or returns the next projection. \<open>fold_events\<close> applies the events a command emitted.
\<close>

fun fold_events :: "('s option \<Rightarrow> 'ev \<Rightarrow> 'err + 's) \<Rightarrow> 's option \<Rightarrow> 'ev list \<Rightarrow> 'err + 's option" where
  "fold_events step s [] = Inr s"
| "fold_events step s (e # es) = bind_result (step s e) (\<lambda>s'. fold_events step (Some s') es)"

lemma fold_events_append:
  "fold_events step s (xs @ ys) = bind_result (fold_events step s xs) (\<lambda>s'. fold_events step s' ys)"
  by (induction xs arbitrary: s) (simp_all add: bind_result_assoc)

text \<open>A fact every present projection satisfies.\<close>

definition opt_all :: "('s \<Rightarrow> bool) \<Rightarrow> 's option \<Rightarrow> bool" where
  "opt_all P s \<longleftrightarrow> (case s of None \<Rightarrow> True | Some t \<Rightarrow> P t)"

lemma opt_all_simps [simp]: "opt_all P None" "opt_all P (Some t) \<longleftrightarrow> P t"
  by (simp_all add: opt_all_def)

subsection \<open>Interface: a sequence-checked stream fold\<close>

text \<open>
  \<open>reduceStream\<close>, \<open>reduceWorkspaceStream\<close> and \<open>reduceHostedAuthorityStream\<close> are the same loop:
  each event's sequence number must exceed the last one, then the reducer applies. The contract
  is the two equations of the loop; its clients get the order of accepted streams and replay in
  pieces.
\<close>

locale event_stream =
  fixes seq_of :: "'ev \<Rightarrow> number"
    and step :: "'s option \<Rightarrow> 'ev \<Rightarrow> 'err + 's"
    and order_error :: "'ev \<Rightarrow> jsnum \<Rightarrow> 'err"
    and loop :: "'s option \<Rightarrow> jsnum \<Rightarrow> 'ev list \<Rightarrow> 'err + 's option"
  assumes loop_Nil: "loop s lst [] = Inr s"
    and loop_Cons: "loop s lst (e # es) =
      (if js_le (Fin (seq_of e)) lst then Inl (order_error e lst)
       else bind_result (step s e) (\<lambda>s'. loop (Some s') (Fin (seq_of e)) es))"
begin

lemma loop_sorted:
  "loop s lst es = Inr s' \<Longrightarrow> lst \<noteq> NaN \<Longrightarrow>
     sorted_wrt (<) (map seq_of es) \<and> (\<forall>e \<in> set es. \<not> js_le (Fin (seq_of e)) lst)"
proof (induction es arbitrary: s lst)
  case Nil
  then show ?case by simp
next
  case (Cons e es)
  from Cons.prems obtain t where ok: "\<not> js_le (Fin (seq_of e)) lst"
    and rest: "loop (Some t) (Fin (seq_of e)) es = Inr s'"
    by (auto simp: loop_Cons bind_result_Inr split: if_splits)
  from Cons.IH[OF rest] have "sorted_wrt (<) (map seq_of es)" "\<forall>x \<in> set es. seq_of e < seq_of x"
    by auto
  with ok Cons.prems(2) show ?case by (cases lst) auto
qed

lemma loop_append:
  "loop s lst (xs @ ys) =
     bind_result (loop s lst xs)
       (\<lambda>s'. loop s' (if xs = [] then lst else Fin (seq_of (last xs))) ys)"
  by (induction xs arbitrary: s lst) (simp_all add: loop_Nil loop_Cons bind_result_assoc)

lemma loop_fold: "loop s lst es = Inr s' \<Longrightarrow> fold_events step s es = Inr s'"
proof (induction es arbitrary: s lst)
  case Nil
  then show ?case by (simp add: loop_Nil)
next
  case (Cons e es)
  then show ?case
    by (auto simp: loop_Cons bind_result_Inr split: if_splits)
qed

lemma loop_complete:
  "fold_events step s es = Inr s' \<Longrightarrow> sorted_wrt (<) (map seq_of es) \<Longrightarrow>
     (\<forall>e \<in> set es. \<not> js_le (Fin (seq_of e)) lst) \<Longrightarrow> loop s lst es = Inr s'"
proof (induction es arbitrary: s lst)
  case Nil
  then show ?case by (simp add: loop_Nil)
next
  case (Cons e es)
  from Cons.prems(1) obtain t where t: "step s e = Inr t" "fold_events step (Some t) es = Inr s'"
    by (auto simp: bind_result_Inr)
  from Cons.prems(2) have "\<forall>x \<in> set es. \<not> js_le (Fin (seq_of x)) (Fin (seq_of e))" by auto
  with Cons.IH[OF t(2)] Cons.prems t(1) show ?case by (simp add: loop_Cons)
qed

end

text \<open>The same loop when every step keeps an invariant of the projection.\<close>

locale invariant_stream = event_stream seq_of step order_error loop
  for seq_of :: "'ev \<Rightarrow> number" and step :: "'s option \<Rightarrow> 'ev \<Rightarrow> 'err + 's"
    and order_error :: "'ev \<Rightarrow> jsnum \<Rightarrow> 'err"
    and loop :: "'s option \<Rightarrow> jsnum \<Rightarrow> 'ev list \<Rightarrow> 'err + 's option" +
  fixes inv :: "'s \<Rightarrow> bool"
  assumes step_inv: "step s e = Inr t \<Longrightarrow> opt_all inv s \<Longrightarrow> inv t"
begin

lemma fold_inv: "fold_events step s es = Inr s' \<Longrightarrow> opt_all inv s \<Longrightarrow> opt_all inv s'"
proof (induction es arbitrary: s)
  case Nil
  then show ?case by simp
next
  case (Cons e es)
  from Cons.prems obtain t where "step s e = Inr t" "fold_events step (Some t) es = Inr s'"
    by (auto simp: bind_result_Inr)
  with Cons.IH[of "Some t"] step_inv Cons.prems(2) show ?case by auto
qed

lemma loop_inv: "loop s lst es = Inr s' \<Longrightarrow> opt_all inv s \<Longrightarrow> opt_all inv s'"
  using loop_fold fold_inv by blast

end

text \<open>The same loop when every step only moves the projection up in some preorder.\<close>

locale monotone_stream = event_stream seq_of step order_error loop
  for seq_of :: "'ev \<Rightarrow> number" and step :: "'s option \<Rightarrow> 'ev \<Rightarrow> 'err + 's"
    and order_error :: "'ev \<Rightarrow> jsnum \<Rightarrow> 'err"
    and loop :: "'s option \<Rightarrow> jsnum \<Rightarrow> 'ev list \<Rightarrow> 'err + 's option" +
  fixes le :: "'s \<Rightarrow> 's \<Rightarrow> bool"
  assumes le_refl: "le s s"
    and le_trans: "le r s \<Longrightarrow> le s t \<Longrightarrow> le r t"
    and step_le: "step (Some s) e = Inr t \<Longrightarrow> le s t"
begin

lemma fold_le: "fold_events step (Some s) es = Inr s' \<Longrightarrow> \<exists>t. s' = Some t \<and> le s t"
proof (induction es arbitrary: s)
  case Nil
  then show ?case by (auto simp: le_refl)
next
  case (Cons e es)
  from Cons.prems obtain r where "step (Some s) e = Inr r" "fold_events step (Some r) es = Inr s'"
    by (auto simp: bind_result_Inr)
  with Cons.IH step_le le_trans show ?case by blast
qed

text \<open>Replay of a stream passes only through projections below the final one.\<close>

lemma loop_prefix_le:
  assumes "loop None lst (xs @ ys) = Inr s'" and "loop None lst xs = Inr (Some r)"
  shows "\<exists>t. s' = Some t \<and> le r t"
proof -
  from loop_fold[OF assms(1)] loop_fold[OF assms(2)]
  have "fold_events step (Some r) ys = Inr s'" by (simp add: fold_events_append)
  then show ?thesis by (rule fold_le)
qed

end

subsection \<open>Interface: a decision core and its projection\<close>

text \<open>
  A handler decides a command against the projection and the transaction-time facts, and projects
  the events of the decision (\<open>project\<close>). \<open>reach\<close> are the projections such a handler can produce
  when every context it is called with agrees with the projection (\<open>ok\<close>). The contract: from a
  projection that satisfies the invariant, the events of any decision project without an error,
  to a projection that satisfies it.
\<close>

inductive reach ::
  "('s option \<Rightarrow> 'c \<Rightarrow> 'x \<Rightarrow> 'xerr + 'd) \<Rightarrow> ('d \<Rightarrow> 'ev list) \<Rightarrow>
   ('s option \<Rightarrow> 'ev list \<Rightarrow> 'err + 's option) \<Rightarrow> ('s option \<Rightarrow> 'c \<Rightarrow> 'x \<Rightarrow> bool) \<Rightarrow> 's option \<Rightarrow> bool"
  for decide events project ok where
  reach_start: "reach decide events project ok None"
| reach_step: "reach decide events project ok s \<Longrightarrow> ok s c x \<Longrightarrow> decide s c x = Inr d \<Longrightarrow>
     project s (events d) = Inr s' \<Longrightarrow> reach decide events project ok s'"

locale decision_core =
  fixes decide :: "'s option \<Rightarrow> 'c \<Rightarrow> 'x \<Rightarrow> 'xerr + 'd"
    and events :: "'d \<Rightarrow> 'ev list"
    and project :: "'s option \<Rightarrow> 'ev list \<Rightarrow> 'err + 's option"
    and ok :: "'s option \<Rightarrow> 'c \<Rightarrow> 'x \<Rightarrow> bool"
    and inv :: "'s \<Rightarrow> bool"
  assumes decided_project: "decide s c x = Inr d \<Longrightarrow> ok s c x \<Longrightarrow> opt_all inv s \<Longrightarrow>
      \<exists>s'. project s (events d) = Inr s' \<and> opt_all inv s'"
begin

lemma reach_inv: "reach decide events project ok s \<Longrightarrow> opt_all inv s"
proof (induction rule: reach.induct)
  case reach_start
  show ?case by simp
next
  case (reach_step s c x d s')
  from decided_project[OF reach_step(3) reach_step(2) reach_step(5)] reach_step(4)
  show ?case by auto
qed

lemma reach_never_halts:
  assumes "reach decide events project ok s" and "ok s c x" and "decide s c x = Inr d"
  shows "\<exists>s'. project s (events d) = Inr s' \<and> reach decide events project ok s'"
  using decided_project[OF assms(3,2) reach_inv[OF assms(1)]] assms by (blast intro: reach.reach_step)

end

end
