(* ===== verification/TaskEvents.thy ===== *)
theory TaskEvents
  imports Prelude
begin

text \<open>
  The task event model of \<open>src/protocol/events.ts\<close>: actors, the event types of a task stream with
  the payload fields they carry, the projection \<open>TaskState\<close> with its frozen submission, and the two
  helpers \<open>canonicalPrincipal\<close> and \<open>leaseLive\<close>.
\<close>

definition SCHEMA_VERSION :: number where
  "SCHEMA_VERSION = 1"

record actor =
  act_user :: "string option"
  act_agent_principal :: "string option"
  act_run :: "string option"

datatype actor_error = NoPrincipal

text \<open>
  \<open>agent_principal ?? user\<close>, then the truthiness test: \<open>null\<close> and the empty string both throw.
\<close>

definition canonicalPrincipal :: "actor \<Rightarrow> actor_error + string" where
  "canonicalPrincipal a =
     (let p = (case act_agent_principal a of Some x \<Rightarrow> Some x | None \<Rightarrow> act_user a)
      in case p of
           None \<Rightarrow> Inl NoPrincipal
         | Some q \<Rightarrow> if q = [] then Inl NoPrincipal else Inr q)"

lemma canonicalPrincipal_nonempty: "canonicalPrincipal a = Inr p \<Longrightarrow> p \<noteq> []"
  by (auto simp: canonicalPrincipal_def Let_def split: option.splits if_splits)

lemma canonicalPrincipal_agent:
  "act_agent_principal a = Some p \<Longrightarrow> p \<noteq> [] \<Longrightarrow> canonicalPrincipal a = Inr p"
  by (simp add: canonicalPrincipal_def)

lemma canonicalPrincipal_user:
  "act_agent_principal a = None \<Longrightarrow> act_user a = Some p \<Longrightarrow> p \<noteq> [] \<Longrightarrow> canonicalPrincipal a = Inr p"
  by (simp add: canonicalPrincipal_def)

text \<open>The event types; \<open>UnknownEventType\<close> is any other string a log may hold.\<close>

datatype event_type =
    TaskCreated | LeaseAcquired | LeaseRenewed | LeaseHandedOff | LeaseTakenOver
  | TaskSubmitted | TaskClosed | TaskReopened | CommandRejected
  | UnknownEventType string

definition EVENT_TYPES :: "event_type list" where
  "EVENT_TYPES = [TaskCreated, LeaseAcquired, LeaseRenewed, LeaseHandedOff, LeaseTakenOver,
     TaskSubmitted, TaskClosed, TaskReopened, CommandRejected]"

datatype rejection_reason =
    slug_not_unique | not_acquirable | not_owner | stale_epoch | lease_expired
  | recipient_not_member | live_lease_needs_grant | grant_invalid | evidence_incomplete
  | not_submitted | close_needs_grant | already_done | unknown_task | bad_state

text \<open>The detail sentence of a rejection: a fixed text, or one of the two templates.\<close>

datatype task_detail =
    Detail string
  | PresentedEpoch jsnum number
  | PresentedSubmissionEpoch jsnum number

text \<open>
  The fields a task payload may hold. \<open>f_id\<close> and \<open>f_name\<close> are those of the legacy (version 0)
  \<open>TaskCreated\<close>. A field whose declared type admits \<open>null\<close> is an option inside an option.
\<close>

record task_fields =
  f_task_id :: "string option"
  f_slug :: "string option"
  f_epoch :: "number option"
  f_owner :: "string option"
  f_lease_expiry :: "number option"
  f_from_owner :: "string option"
  f_to_owner :: "string option"
  f_grant_id :: "string option option"
  f_branch :: "string option"
  f_head_sha :: "string option"
  f_evidence_set :: "string list option"
  f_disposition :: "string option"
  f_version :: "number option"
  f_command :: "string option"
  f_reason :: "rejection_reason option"
  f_detail :: "task_detail option"
  f_id :: "string option"
  f_name :: "string option"

definition no_task_fields :: task_fields where
  "no_task_fields = \<lparr>f_task_id = None, f_slug = None, f_epoch = None, f_owner = None,
     f_lease_expiry = None, f_from_owner = None, f_to_owner = None, f_grant_id = None,
     f_branch = None, f_head_sha = None, f_evidence_set = None, f_disposition = None,
     f_version = None, f_command = None, f_reason = None, f_detail = None, f_id = None,
     f_name = None\<rparr>"

datatype task_key =
    K_task_id | K_slug | K_epoch | K_owner | K_lease_expiry | K_from_owner | K_to_owner
  | K_grant_id | K_branch | K_head_sha | K_evidence_set | K_disposition | K_version
  | K_command | K_reason | K_detail

fun task_defines :: "task_fields \<Rightarrow> task_key \<Rightarrow> bool" where
  "task_defines p K_task_id = (f_task_id p \<noteq> None)"
| "task_defines p K_slug = (f_slug p \<noteq> None)"
| "task_defines p K_epoch = (f_epoch p \<noteq> None)"
| "task_defines p K_owner = (f_owner p \<noteq> None)"
| "task_defines p K_lease_expiry = (f_lease_expiry p \<noteq> None)"
| "task_defines p K_from_owner = (f_from_owner p \<noteq> None)"
| "task_defines p K_to_owner = (f_to_owner p \<noteq> None)"
| "task_defines p K_grant_id = (f_grant_id p \<noteq> None)"
| "task_defines p K_branch = (f_branch p \<noteq> None)"
| "task_defines p K_head_sha = (f_head_sha p \<noteq> None)"
| "task_defines p K_evidence_set = (f_evidence_set p \<noteq> None)"
| "task_defines p K_disposition = (f_disposition p \<noteq> None)"
| "task_defines p K_version = (f_version p \<noteq> None)"
| "task_defines p K_command = (f_command p \<noteq> None)"
| "task_defines p K_reason = (f_reason p \<noteq> None)"
| "task_defines p K_detail = (f_detail p \<noteq> None)"

type_synonym task_event = "(event_type, task_fields) envelope"

datatype lifecycle = Open | Active | AwaitingReview | Reopened | Done

record submission =
  sub_epoch :: number
  sub_branch :: string
  sub_head_sha :: string
  sub_evidence_set :: "string list"

record task_state =
  ts_task_id :: string
  ts_slug :: string
  ts_lifecycle :: lifecycle
  ts_version :: number
  ts_epoch :: number
  ts_owner :: "string option"
  ts_lease_expiry :: "number option"
  ts_submission :: "submission option"
  ts_closed_disposition :: "string option"

definition leaseLive :: "task_state \<Rightarrow> number \<Rightarrow> bool" where
  "leaseLive s now \<longleftrightarrow>
     ts_owner s \<noteq> None \<and> (case ts_lease_expiry s of None \<Rightarrow> False | Some e \<Rightarrow> now < e)"

lemma leaseLiveD:
  "leaseLive s now \<Longrightarrow> \<exists>p e. ts_owner s = Some p \<and> ts_lease_expiry s = Some e \<and> now < e"
  by (auto simp: leaseLive_def split: option.splits)

lemma leaseLive_iff [simp]:
  "ts_owner s = Some p \<Longrightarrow> ts_lease_expiry s = Some e \<Longrightarrow> leaseLive s now \<longleftrightarrow> now < e"
  by (simp add: leaseLive_def)

end
