(* ===== verification/TaskReducer.thy ===== *)
theory TaskReducer
  imports TaskEvents
begin

text \<open>
  The pure task reducer of \<open>src/protocol/reducer.ts\<close>: one event onto the projection
  (\<open>reduceTask\<close>), a whole stream in sequence order (\<open>reduceStream\<close>), and the projection loop of the
  command function (\<open>updateProjection\<close> in \<open>supabase/functions/command/index.ts\<close>), which skips a
  rejection that precedes the task. A \<open>throw\<close> is the left summand.
\<close>

datatype task_integrity =
    BadPayload "task_key req_error"
  | WrongSchemaVersion number
  | RejectedBeforeTask
  | TaskAlreadyExists
  | BeforeTaskCreated
  | NonIncreasingEpoch number number
  | RenewedEpochMismatch number number
  | ReopenedVersionNotGreater number number
  | OutOfOrder jsnum

datatype reduce_error =
    UnknownEventTypeError event_type number
  | StreamIntegrityError event_type number task_integrity

text \<open>\<open>req\<close> at the event: the thrown error names the event's type and sequence number.\<close>

definition task_req :: "task_event \<Rightarrow> task_key list \<Rightarrow> reduce_error + task_fields" where
  "task_req env keys =
     (case req task_defines (ev_payload env) keys of
        Inl e \<Rightarrow> Inl (StreamIntegrityError (ev_type env) (ev_seq env) (BadPayload e))
      | Inr p \<Rightarrow> Inr p)"

definition assertEpochIncrease :: "task_state \<Rightarrow> task_event \<Rightarrow> number \<Rightarrow> reduce_error + unit" where
  "assertEpochIncrease s env ep =
     (if ep \<le> ts_epoch s
      then Inl (StreamIntegrityError (ev_type env) (ev_seq env) (NonIncreasingEpoch ep (ts_epoch s)))
      else Inr ())"

text \<open>The lifecycle after a lease event that changes the owner.\<close>

definition leaseLifecycle :: "task_state \<Rightarrow> lifecycle" where
  "leaseLifecycle s = (if ts_submission s \<noteq> None then AwaitingReview else Active)"

definition initial_task :: "string \<Rightarrow> string \<Rightarrow> task_state" where
  "initial_task tid slug = \<lparr>ts_task_id = tid, ts_slug = slug, ts_lifecycle = Open, ts_version = 1,
     ts_epoch = 0, ts_owner = None, ts_lease_expiry = None, ts_submission = None,
     ts_closed_disposition = None\<rparr>"

text \<open>The switch on the event type, for a task that exists.\<close>

definition reduce_existing :: "task_state \<Rightarrow> task_event \<Rightarrow> reduce_error + task_state" where
  "reduce_existing s env =
     (let halt = (\<lambda>x. Inl (StreamIntegrityError (ev_type env) (ev_seq env) x)) in
      case ev_type env of
        LeaseAcquired \<Rightarrow>
          bind_result (task_req env [K_task_id, K_epoch, K_owner, K_lease_expiry]) (\<lambda>p.
          bind_result (assertEpochIncrease s env (the (f_epoch p))) (\<lambda>_.
          Inr (s\<lparr>ts_lifecycle := leaseLifecycle s, ts_epoch := the (f_epoch p),
                 ts_owner := f_owner p, ts_lease_expiry := f_lease_expiry p\<rparr>)))
      | LeaseRenewed \<Rightarrow>
          bind_result (task_req env [K_task_id, K_epoch, K_lease_expiry]) (\<lambda>p.
          if the (f_epoch p) \<noteq> ts_epoch s
          then halt (RenewedEpochMismatch (the (f_epoch p)) (ts_epoch s))
          else Inr (s\<lparr>ts_lease_expiry := f_lease_expiry p\<rparr>))
      | LeaseHandedOff \<Rightarrow>
          bind_result (task_req env [K_task_id, K_epoch, K_from_owner, K_to_owner, K_lease_expiry]) (\<lambda>p.
          bind_result (assertEpochIncrease s env (the (f_epoch p))) (\<lambda>_.
          Inr (s\<lparr>ts_lifecycle := leaseLifecycle s, ts_epoch := the (f_epoch p),
                 ts_owner := f_to_owner p, ts_lease_expiry := f_lease_expiry p\<rparr>)))
      | LeaseTakenOver \<Rightarrow>
          bind_result (task_req env [K_task_id, K_epoch, K_owner, K_lease_expiry, K_grant_id]) (\<lambda>p.
          bind_result (assertEpochIncrease s env (the (f_epoch p))) (\<lambda>_.
          Inr (s\<lparr>ts_lifecycle := leaseLifecycle s, ts_epoch := the (f_epoch p),
                 ts_owner := f_owner p, ts_lease_expiry := f_lease_expiry p\<rparr>)))
      | TaskSubmitted \<Rightarrow>
          bind_result (task_req env [K_task_id, K_epoch, K_branch, K_head_sha, K_evidence_set]) (\<lambda>p.
          Inr (s\<lparr>ts_lifecycle := AwaitingReview,
                 ts_submission := Some \<lparr>sub_epoch = the (f_epoch p), sub_branch = the (f_branch p),
                   sub_head_sha = the (f_head_sha p),
                   sub_evidence_set = the (f_evidence_set p)\<rparr>\<rparr>))
      | TaskClosed \<Rightarrow>
          bind_result (task_req env [K_task_id, K_epoch, K_disposition, K_grant_id]) (\<lambda>p.
          Inr (s\<lparr>ts_lifecycle := Done, ts_closed_disposition := f_disposition p\<rparr>))
      | TaskReopened \<Rightarrow>
          bind_result (task_req env [K_task_id, K_version]) (\<lambda>p.
          if the (f_version p) \<le> ts_version s
          then halt (ReopenedVersionNotGreater (the (f_version p)) (ts_version s))
          else Inr (s\<lparr>ts_lifecycle := Reopened, ts_version := the (f_version p),
                      ts_submission := None, ts_owner := None, ts_lease_expiry := None\<rparr>))
      | t \<Rightarrow> Inl (UnknownEventTypeError t (ev_seq env)))"

definition reduceTask :: "task_state option \<Rightarrow> task_event \<Rightarrow> reduce_error + task_state" where
  "reduceTask prev env =
     (let halt = (\<lambda>x. Inl (StreamIntegrityError (ev_type env) (ev_seq env) x)) in
      if ev_type env \<notin> set EVENT_TYPES then Inl (UnknownEventTypeError (ev_type env) (ev_seq env))
      else if ev_schema_version env \<noteq> SCHEMA_VERSION
      then halt (WrongSchemaVersion (ev_schema_version env))
      else if ev_type env = CommandRejected then
        (case prev of
           None \<Rightarrow> halt RejectedBeforeTask
         | Some s \<Rightarrow>
             bind_result (task_req env [K_task_id, K_command, K_reason, K_detail]) (\<lambda>_. Inr s))
      else if ev_type env = TaskCreated then
        (case prev of
           Some _ \<Rightarrow> halt TaskAlreadyExists
         | None \<Rightarrow>
             bind_result (task_req env [K_task_id, K_slug]) (\<lambda>p.
               Inr (initial_task (the (f_task_id p)) (the (f_slug p)))))
      else
        (case prev of
           None \<Rightarrow> halt BeforeTaskCreated
         | Some s \<Rightarrow> reduce_existing s env))"

text \<open>The loop of \<open>reduceStream\<close> from a state and the last sequence number seen.\<close>

fun reduceStream_loop ::
  "task_state option \<Rightarrow> jsnum \<Rightarrow> task_event list \<Rightarrow> reduce_error + task_state option" where
  "reduceStream_loop s lastSeq [] = Inr s"
| "reduceStream_loop s lastSeq (env # es) =
     (if js_le (Fin (ev_seq env)) lastSeq
      then Inl (StreamIntegrityError (ev_type env) (ev_seq env) (OutOfOrder lastSeq))
      else bind_result (reduceTask s env) (\<lambda>s'.
             reduceStream_loop (Some s') (Fin (ev_seq env)) es))"

definition reduceStream :: "task_event list \<Rightarrow> reduce_error + task_state option" where
  "reduceStream events = reduceStream_loop None NegInf events"

text \<open>The projection loop of the command function.\<close>

fun project_events :: "task_state option \<Rightarrow> task_event list \<Rightarrow> reduce_error + task_state option" where
  "project_events projection [] = Inr projection"
| "project_events projection (env # es) =
     (if projection = None \<and> ev_type env = CommandRejected then project_events projection es
      else bind_result (reduceTask projection env) (\<lambda>s'. project_events (Some s') es))"

section \<open>What each accepted event does\<close>

lemma task_req_Inr_iff [result_simps]:
  "task_req env keys = Inr p \<longleftrightarrow> ev_payload env = Fields p \<and> (\<forall>k \<in> set keys. task_defines p k)"
  by (cases "req task_defines (ev_payload env) keys") (auto simp: task_req_def req_Inr_iff[symmetric])

lemma assertEpochIncrease_Inr [result_simps]:
  "assertEpochIncrease s env ep = Inr u \<longleftrightarrow> ts_epoch s < ep"
  by (auto simp: assertEpochIncrease_def)

lemmas reduce_defs = reduceTask_def reduce_existing_def Let_def EVENT_TYPES_def

lemma reduceTask_None:
  "reduceTask None env = Inr t \<Longrightarrow> ev_type env = TaskCreated \<and>
     (\<exists>p. ev_payload env = Fields p \<and> t = initial_task (the (f_task_id p)) (the (f_slug p)))"
  by (auto simp: reduceTask_def Let_def result_simps split: if_splits)

lemma reduceTask_Some:
  "reduceTask (Some s) env = Inr t \<Longrightarrow>
     (if ev_type env = CommandRejected then t = s else reduce_existing s env = Inr t)"
  by (auto simp: reduceTask_def Let_def result_simps split: if_splits)

text \<open>
  The effect of one event on an existing task, by its type: which fields it may change, and that
  epochs and versions never go down.
\<close>

lemma reduceTask_effect:
  assumes "reduceTask (Some s) env = Inr t"
  shows "ts_task_id t = ts_task_id s \<and> ts_slug t = ts_slug s \<and> ts_epoch s \<le> ts_epoch t \<and>
    ts_version s \<le> ts_version t"
  using reduceTask_Some[OF assms]
  by (auto simp: reduce_existing_def Let_def result_simps split: if_splits event_type.splits)

lemma reduceTask_owner_change:
  assumes "reduceTask (Some s) env = Inr t" and "ts_owner t \<noteq> ts_owner s" and "ts_owner t \<noteq> None"
  shows "ts_epoch s < ts_epoch t"
  using reduceTask_Some[OF assms(1)] assms(2,3)
  by (auto simp: reduce_existing_def Let_def result_simps split: if_splits event_type.splits)

interpretation task_stream: event_stream ev_seq reduceTask
  "\<lambda>env lst. StreamIntegrityError (ev_type env) (ev_seq env) (OutOfOrder lst)" reduceStream_loop
  by unfold_locales simp_all

end
