(* ===== verification/TaskCommands.thy ===== *)
theory TaskCommands
  imports TaskReducer
begin

text \<open>
  The command decision of \<open>src/protocol/commands.ts\<close>: the precondition table of the lease as one
  function from the projection, a command and the injected facts to the events to append or a
  typed rejection. Client-supplied numbers are \<open>jsnum\<close>; the oracles and the two counters of the
  context are functions of the context record.
\<close>

datatype disposition = Merged | Pr | Archive | Discard

definition DISPOSITIONS :: "disposition list" where
  "DISPOSITIONS = [Merged, Pr, Archive, Discard]"

fun disposition_name :: "disposition \<Rightarrow> string" where
  "disposition_name Merged = ''merged''"
| "disposition_name Pr = ''pr''"
| "disposition_name Archive = ''archive''"
| "disposition_name Discard = ''discard''"

text \<open>Each command names its task first; then its own fields in the order of the source.\<close>

datatype command =
    Create (cmd_task_id: string) string
  | Acquire (cmd_task_id: string) jsnum
  | Renew (cmd_task_id: string) jsnum jsnum
  | Handoff (cmd_task_id: string) jsnum string jsnum
  | Takeover (cmd_task_id: string) "string option" jsnum
  | Submit (cmd_task_id: string) jsnum string string "string list"
  | Close (cmd_task_id: string) jsnum disposition "string option"
  | Reopen (cmd_task_id: string) jsnum

fun cmd_kind :: "command \<Rightarrow> string" where
  "cmd_kind (Create _ _) = ''create''"
| "cmd_kind (Acquire _ _) = ''acquire''"
| "cmd_kind (Renew _ _ _) = ''renew''"
| "cmd_kind (Handoff _ _ _ _) = ''handoff''"
| "cmd_kind (Takeover _ _ _) = ''takeover''"
| "cmd_kind (Submit _ _ _ _ _) = ''submit''"
| "cmd_kind (Close _ _ _ _) = ''close''"
| "cmd_kind (Reopen _ _) = ''reopen''"

text \<open>\<open>'ttl_ms' in cmd\<close>, with its value.\<close>

fun cmd_ttl :: "command \<Rightarrow> jsnum option" where
  "cmd_ttl (Acquire _ ttl) = Some ttl"
| "cmd_ttl (Renew _ _ ttl) = Some ttl"
| "cmd_ttl (Handoff _ _ _ ttl) = Some ttl"
| "cmd_ttl (Takeover _ _ ttl) = Some ttl"
| "cmd_ttl _ = None"

datatype member_role = Owner | Admin | Member

record decide_ctx =
  dc_now :: number
  dc_actor :: actor
  dc_command_id :: string
  dc_isMember :: "string \<Rightarrow> bool"
  dc_role :: "string \<Rightarrow> member_role option"
  dc_isEligibleRecipient :: "string \<Rightarrow> bool"
  dc_claimRequiresGrant :: "string \<Rightarrow> bool"
  dc_evidenceComplete :: "string \<Rightarrow> string list \<Rightarrow> bool"
  dc_validTakeoverGrant :: "string \<Rightarrow> string option \<Rightarrow> number \<Rightarrow> string \<Rightarrow> bool"
  dc_validCloseGrant :: "string \<Rightarrow> string option \<Rightarrow> number \<times> number \<times> string \<Rightarrow> bool"
  dc_slugTaken :: "string \<Rightarrow> bool"
  dc_nextSeq :: "nat \<Rightarrow> number"
  dc_nextEventId :: "nat \<Rightarrow> string"
  dc_workspace_id :: string
  dc_stream_id :: string

datatype reject_class = Authz | Domain

datatype ('r, 'd, 'ev) decision =
    Accepted (decision_events: "'ev list")
  | Rejected (decision_class: reject_class) (decision_reason: 'r) (decision_detail: 'd)
      (decision_events: "'ev list")

fun decision_ok :: "('r, 'd, 'ev) decision \<Rightarrow> bool" where
  "decision_ok (Accepted _) = True"
| "decision_ok (Rejected _ _ _ _) = False"

type_synonym task_decision = "(rejection_reason, task_detail, task_event) decision"

text \<open>
  The envelope factory. \<open>nextSeq()\<close> and \<open>nextEventId()\<close> are called once each per envelope, so the
  \<open>k\<close>-th envelope of a decision takes their \<open>k\<close>-th values.
\<close>

definition task_env :: "decide_ctx \<Rightarrow> nat \<Rightarrow> event_type \<Rightarrow> task_fields \<Rightarrow> task_event" where
  "task_env ctx k typ pf = \<lparr>ev_workspace_id = dc_workspace_id ctx, ev_stream_id = dc_stream_id ctx,
     ev_seq = dc_nextSeq ctx k, ev_event_id = dc_nextEventId ctx k,
     ev_command_id = dc_command_id ctx, ev_type = typ, ev_schema_version = SCHEMA_VERSION,
     ev_actor_user = act_user (dc_actor ctx),
     ev_actor_agent_principal = act_agent_principal (dc_actor ctx),
     ev_actor_run = act_run (dc_actor ctx), ev_occurred_at_server = dc_now ctx,
     ev_admin_identity_id = None, ev_grant_id = None, ev_grant_manifest_digest = None,
     ev_payload = Fields pf\<rparr>"

definition task_authz :: "rejection_reason \<Rightarrow> task_detail \<Rightarrow> task_decision" where
  "task_authz reason det = Rejected Authz reason det []"

definition task_domain ::
  "decide_ctx \<Rightarrow> string \<Rightarrow> string \<Rightarrow> rejection_reason \<Rightarrow> task_detail \<Rightarrow> task_decision" where
  "task_domain ctx task_id cmd reason det = Rejected Domain reason det
     [task_env ctx 0 CommandRejected
        (no_task_fields\<lparr>f_task_id := Some task_id, f_command := Some cmd,
           f_reason := Some reason, f_detail := Some det\<rparr>)]"

definition task_accept :: "task_event list \<Rightarrow> task_decision" where
  "task_accept es = Accepted es"

definition isAdmin :: "decide_ctx \<Rightarrow> string \<Rightarrow> bool" where
  "isAdmin ctx me \<longleftrightarrow> dc_role ctx me = Some Owner \<or> dc_role ctx me = Some Admin"

text \<open>The cases of the switch, one definition each, for a task in state \<open>s\<close> and the caller \<open>me\<close>.\<close>

definition decide_acquire :: "decide_ctx \<Rightarrow> task_state \<Rightarrow> string \<Rightarrow> string \<Rightarrow> number \<Rightarrow> task_decision" where
  "decide_acquire ctx s me tid ttl =
     (let acquirable = ts_lifecycle s = Open \<or> ts_lifecycle s = Reopened \<or>
            ((ts_lifecycle s = Active \<or> ts_lifecycle s = AwaitingReview) \<and> \<not> leaseLive s (dc_now ctx))
      in if \<not> acquirable then
           task_domain ctx tid ''acquire'' not_acquirable
             (Detail (if ts_lifecycle s = Done then ''task is done; reopen first''
                      else ''lease is live; use takeover''))
         else task_accept [task_env ctx 0 LeaseAcquired
                (no_task_fields\<lparr>f_task_id := Some tid, f_epoch := Some (ts_epoch s + 1),
                   f_owner := Some me, f_lease_expiry := Some (dc_now ctx + ttl)\<rparr>)])"

definition decide_renew ::
  "decide_ctx \<Rightarrow> task_state \<Rightarrow> string \<Rightarrow> string \<Rightarrow> jsnum \<Rightarrow> number \<Rightarrow> task_decision" where
  "decide_renew ctx s me tid epoch ttl =
     (if ts_lifecycle s = Done then
        task_domain ctx tid ''renew'' already_done (Detail ''task is done; nothing to renew'')
      else if ts_owner s \<noteq> Some me then
        task_domain ctx tid ''renew'' not_owner (Detail ''only the lease owner may renew'')
      else if \<not> js_eq epoch (Fin (ts_epoch s)) then
        task_domain ctx tid ''renew'' stale_epoch (PresentedEpoch epoch (ts_epoch s))
      else if \<not> leaseLive s (dc_now ctx) then
        task_domain ctx tid ''renew'' lease_expired (Detail ''lease already expired; re-acquire'')
      else task_accept [task_env ctx 0 LeaseRenewed
             (no_task_fields\<lparr>f_task_id := Some tid, f_epoch := Some (ts_epoch s),
                f_lease_expiry := Some (dc_now ctx + ttl)\<rparr>)])"

definition decide_handoff ::
  "decide_ctx \<Rightarrow> task_state \<Rightarrow> string \<Rightarrow> string \<Rightarrow> jsnum \<Rightarrow> string \<Rightarrow> number \<Rightarrow> task_decision" where
  "decide_handoff ctx s me tid epoch to_owner ttl =
     (if ts_owner s \<noteq> Some me then
        task_domain ctx tid ''handoff'' not_owner (Detail ''only the lease owner may hand off'')
      else if \<not> js_eq epoch (Fin (ts_epoch s)) then
        task_domain ctx tid ''handoff'' stale_epoch (PresentedEpoch epoch (ts_epoch s))
      else if \<not> leaseLive s (dc_now ctx) then
        task_domain ctx tid ''handoff'' lease_expired (Detail ''lease expired; cannot hand off'')
      else if ts_lifecycle s = AwaitingReview then
        task_domain ctx tid ''handoff'' bad_state
          (Detail ''cannot hand off during awaiting_review; close or reopen first'')
      else if \<not> dc_isEligibleRecipient ctx to_owner then
        task_domain ctx tid ''handoff'' recipient_not_member
          (Detail ''recipient is not a current member/principal'')
      else task_accept [task_env ctx 0 LeaseHandedOff
             (no_task_fields\<lparr>f_task_id := Some tid, f_epoch := Some (ts_epoch s + 1),
                f_from_owner := Some me, f_to_owner := Some to_owner,
                f_lease_expiry := Some (dc_now ctx + ttl)\<rparr>)])"

definition decide_takeover ::
  "decide_ctx \<Rightarrow> task_state \<Rightarrow> string \<Rightarrow> string \<Rightarrow> string option \<Rightarrow> number \<Rightarrow> task_decision" where
  "decide_takeover ctx s me tid grant_id ttl =
     (let live = leaseLive s (dc_now ctx) in
      if ts_lifecycle s = Done then
        task_domain ctx tid ''takeover'' not_acquirable (Detail ''task is done; reopen first'')
      else if live \<and> ts_lifecycle s = AwaitingReview then
        task_domain ctx tid ''takeover'' bad_state
          (Detail ''cannot take over during awaiting_review; close or reopen first'')
      else if live \<and> \<not> dc_validTakeoverGrant ctx tid grant_id (ts_epoch s) me then
        task_domain ctx tid ''takeover'' live_lease_needs_grant
          (Detail ''live lease; a takeover grant bound to the current epoch and issued to you is required'')
      else task_accept [task_env ctx 0 LeaseTakenOver
             (no_task_fields\<lparr>f_task_id := Some tid, f_epoch := Some (ts_epoch s + 1),
                f_owner := Some me, f_lease_expiry := Some (dc_now ctx + ttl),
                f_grant_id := Some (if live then grant_id else None)\<rparr>)])"

definition decide_submit ::
  "decide_ctx \<Rightarrow> task_state \<Rightarrow> string \<Rightarrow> string \<Rightarrow> jsnum \<Rightarrow> string \<Rightarrow> string \<Rightarrow> string list \<Rightarrow> task_decision" where
  "decide_submit ctx s me tid epoch branch head_sha evidence_set =
     (if ts_owner s \<noteq> Some me then
        task_domain ctx tid ''submit'' not_owner (Detail ''only the lease owner may submit'')
      else if \<not> js_eq epoch (Fin (ts_epoch s)) then
        task_domain ctx tid ''submit'' stale_epoch (PresentedEpoch epoch (ts_epoch s))
      else if \<not> leaseLive s (dc_now ctx) then
        task_domain ctx tid ''submit'' lease_expired
          (Detail ''lease expired; re-acquire before submitting'')
      else if ts_lifecycle s = Done then
        task_domain ctx tid ''submit'' already_done (Detail ''task is done'')
      else if \<not> dc_evidenceComplete ctx tid evidence_set then
        task_domain ctx tid ''submit'' evidence_incomplete
          (Detail ''evidence bundle missing/invalid for this claim'')
      else task_accept [task_env ctx 0 TaskSubmitted
             (no_task_fields\<lparr>f_task_id := Some tid, f_epoch := Some (ts_epoch s),
                f_branch := Some branch, f_head_sha := Some head_sha,
                f_evidence_set := Some evidence_set\<rparr>)])"

definition decide_close ::
  "decide_ctx \<Rightarrow> task_state \<Rightarrow> string \<Rightarrow> string \<Rightarrow> jsnum \<Rightarrow> disposition \<Rightarrow> string option \<Rightarrow> task_decision" where
  "decide_close ctx s me tid epoch disposition grant_id =
     (if ts_lifecycle s = Done then
        task_domain ctx tid ''close'' already_done (Detail ''task is already done'')
      else case ts_submission s of
        None \<Rightarrow> task_domain ctx tid ''close'' not_submitted (Detail ''no frozen submission to close'')
      | Some sub \<Rightarrow>
          if \<not> js_eq epoch (Fin (sub_epoch sub)) then
            task_domain ctx tid ''close'' stale_epoch (PresentedSubmissionEpoch epoch (sub_epoch sub))
          else if \<not> isAdmin ctx me \<and> ts_owner s \<noteq> Some me then
            task_domain ctx tid ''close'' not_owner
              (Detail ''only the task owner or a workspace Owner/Admin may close'')
          else if dc_claimRequiresGrant ctx tid \<and> \<not> isAdmin ctx me \<and>
               \<not> dc_validCloseGrant ctx tid grant_id (ts_version s, sub_epoch sub, sub_head_sha sub) then
            task_domain ctx tid ''close'' close_needs_grant
              (Detail ''this claim requires a close grant bound to the current frozen submission (version+epoch+head SHA)'')
          else task_accept [task_env ctx 0 TaskClosed
                 (no_task_fields\<lparr>f_task_id := Some tid, f_epoch := Some (sub_epoch sub),
                    f_disposition := Some (disposition_name disposition),
                    f_grant_id := Some grant_id\<rparr>)])"

definition decide_reopen ::
  "decide_ctx \<Rightarrow> task_state \<Rightarrow> string \<Rightarrow> string \<Rightarrow> jsnum \<Rightarrow> task_decision" where
  "decide_reopen ctx s me tid epoch =
     (if ts_lifecycle s = Open \<or> ts_lifecycle s = Reopened then
        task_domain ctx tid ''reopen'' bad_state (Detail ''task is already open/reopened'')
      else if \<not> isAdmin ctx me \<and> ts_owner s \<noteq> Some me then
        task_domain ctx tid ''reopen'' not_owner
          (Detail ''reopen requires a workspace Owner/Admin or the task owner'')
      else if \<not> isAdmin ctx me \<and> \<not> js_eq epoch (Fin (ts_epoch s)) then
        task_domain ctx tid ''reopen'' stale_epoch (PresentedEpoch epoch (ts_epoch s))
      else task_accept [task_env ctx 0 TaskReopened
             (no_task_fields\<lparr>f_task_id := Some tid, f_version := Some (ts_version s + 1)\<rparr>)])"

definition decide_existing ::
  "decide_ctx \<Rightarrow> task_state \<Rightarrow> string \<Rightarrow> command \<Rightarrow> task_decision" where
  "decide_existing ctx s me cmd =
     (case cmd of
        Create tid _ \<Rightarrow> task_domain ctx tid ''create'' slug_not_unique (Detail ''task already exists'')
      | Acquire tid ttl \<Rightarrow> decide_acquire ctx s me tid (finite_value ttl)
      | Renew tid epoch ttl \<Rightarrow> decide_renew ctx s me tid epoch (finite_value ttl)
      | Handoff tid epoch to_owner ttl \<Rightarrow>
          decide_handoff ctx s me tid epoch to_owner (finite_value ttl)
      | Takeover tid grant_id ttl \<Rightarrow> decide_takeover ctx s me tid grant_id (finite_value ttl)
      | Submit tid epoch branch head_sha ev \<Rightarrow> decide_submit ctx s me tid epoch branch head_sha ev
      | Close tid epoch disp grant_id \<Rightarrow> decide_close ctx s me tid epoch disp grant_id
      | Reopen tid epoch \<Rightarrow> decide_reopen ctx s me tid epoch)"

definition ttl_refused :: "command \<Rightarrow> bool" where
  "ttl_refused cmd \<longleftrightarrow>
     (case cmd_ttl cmd of None \<Rightarrow> False | Some ttl \<Rightarrow> \<not> is_finite ttl \<or> js_le ttl (Fin 0))"

definition decide :: "task_state option \<Rightarrow> command \<Rightarrow> decide_ctx \<Rightarrow> actor_error + task_decision" where
  "decide state cmd ctx =
     bind_result (canonicalPrincipal (dc_actor ctx)) (\<lambda>me. Inr (
       if \<not> dc_isMember ctx me then
         task_authz bad_state (Detail ''caller is not a current member'')
       else case cmd of
         Create tid slug \<Rightarrow>
           (case state of
              Some _ \<Rightarrow> task_domain ctx tid ''create'' slug_not_unique (Detail ''task already exists'')
            | None \<Rightarrow>
                if dc_slugTaken ctx slug then
                  task_domain ctx tid ''create'' slug_not_unique
                    (Detail ''slug already in use in this stream'')
                else task_accept [task_env ctx 0 TaskCreated
                       (no_task_fields\<lparr>f_task_id := Some tid, f_slug := Some slug\<rparr>)])
       | _ \<Rightarrow>
           (case state of
              None \<Rightarrow> task_domain ctx (cmd_task_id cmd) (cmd_kind cmd) unknown_task
                        (Detail ''no such task in this stream'')
            | Some s \<Rightarrow>
                if ttl_refused cmd then
                  task_domain ctx (cmd_task_id cmd) (cmd_kind cmd) bad_state
                    (Detail ''ttl_ms must be a finite positive number'')
                else decide_existing ctx s me cmd)))"

section \<open>Facts every case shares\<close>

lemmas decide_case_defs =
  decide_acquire_def decide_renew_def decide_handoff_def decide_takeover_def decide_submit_def
  decide_close_def decide_reopen_def

lemma task_env_simps [simp]:
  "ev_type (task_env ctx k typ pf) = typ"
  "ev_payload (task_env ctx k typ pf) = Fields pf"
  "ev_schema_version (task_env ctx k typ pf) = SCHEMA_VERSION"
  "ev_seq (task_env ctx k typ pf) = dc_nextSeq ctx k"
  "ev_event_id (task_env ctx k typ pf) = dc_nextEventId ctx k"
  "ev_command_id (task_env ctx k typ pf) = dc_command_id ctx"
  "ev_actor_user (task_env ctx k typ pf) = act_user (dc_actor ctx)"
  "ev_actor_agent_principal (task_env ctx k typ pf) = act_agent_principal (dc_actor ctx)"
  "ev_occurred_at_server (task_env ctx k typ pf) = dc_now ctx"
  by (simp_all add: task_env_def)

lemma task_domain_simps [simp]:
  "task_domain ctx tid cmd r d \<noteq> Accepted es"
  "task_domain ctx tid cmd r d = Rejected c r' d' es \<longleftrightarrow>
     c = Domain \<and> r' = r \<and> d' = d \<and> es = [task_env ctx 0 CommandRejected
        (no_task_fields\<lparr>f_task_id := Some tid, f_command := Some cmd,
           f_reason := Some r, f_detail := Some d\<rparr>)]"
  by (auto simp: task_domain_def)

lemma task_authz_simps [simp]:
  "task_authz r d \<noteq> Accepted es"
  "task_authz r d = Rejected c r' d' es \<longleftrightarrow> c = Authz \<and> r' = r \<and> d' = d \<and> es = []"
  by (auto simp: task_authz_def)

lemma task_accept_simps [simp]:
  "task_accept es = Accepted es' \<longleftrightarrow> es = es'"
  "task_accept es \<noteq> Rejected c r d es'"
  by (simp_all add: task_accept_def)

lemma decide_Accepted_Some:
  assumes "decide (Some s) cmd ctx = Inr (Accepted es)"
  obtains me where "canonicalPrincipal (dc_actor ctx) = Inr me" and "dc_isMember ctx me"
    and "\<not> ttl_refused cmd" and "decide_existing ctx s me cmd = Accepted es"
  using assms
  by (cases cmd) (auto simp: decide_def bind_result_Inr split: if_splits)

lemma decide_Accepted_None:
  assumes "decide None cmd ctx = Inr (Accepted es)"
  obtains me tid slug where "canonicalPrincipal (dc_actor ctx) = Inr me" and "dc_isMember ctx me"
    and "cmd = Create tid slug" and "\<not> dc_slugTaken ctx slug"
    and "es = [task_env ctx 0 TaskCreated (no_task_fields\<lparr>f_task_id := Some tid, f_slug := Some slug\<rparr>)]"
  using assms
  by (cases cmd) (auto simp: decide_def bind_result_Inr split: if_splits)

lemma ttl_accepted: "\<not> ttl_refused cmd \<Longrightarrow> cmd_ttl cmd = Some ttl \<Longrightarrow> \<exists>r. ttl = Fin r \<and> 0 < r"
  by (cases ttl) (auto simp: ttl_refused_def)

text \<open>
  The shape of every decision: an accepted command has exactly one event, an authorisation
  refusal has none, a domain rejection has exactly one committed \<open>CommandRejected\<close>.
\<close>

fun task_shape :: "decide_ctx \<Rightarrow> task_decision \<Rightarrow> bool" where
  "task_shape ctx (Accepted es) \<longleftrightarrow>
     (\<exists>t p. es = [task_env ctx 0 t p] \<and> t \<noteq> CommandRejected)"
| "task_shape ctx (Rejected Authz r d es) \<longleftrightarrow> es = []"
| "task_shape ctx (Rejected Domain r d es) \<longleftrightarrow>
     (\<exists>p. es = [task_env ctx 0 CommandRejected p] \<and> f_reason p = Some r \<and> f_detail p = Some d \<and>
        (\<forall>k \<in> {K_task_id, K_command, K_reason, K_detail}. task_defines p k))"

lemma task_shape_simps [simp]:
  "task_shape ctx (task_domain ctx tid cmd r d)"
  "task_shape ctx (task_authz r d)"
  "task_shape ctx (task_accept [task_env ctx 0 t p]) \<longleftrightarrow> t \<noteq> CommandRejected"
  by (auto simp: task_domain_def task_authz_def task_accept_def task_env_def)

lemma decide_existing_shape: "task_shape ctx (decide_existing ctx s me cmd)"
  by (cases cmd)
     (simp_all add: decide_existing_def decide_case_defs Let_def split: option.split)

lemma decide_shape: "decide st cmd ctx = Inr d \<Longrightarrow> task_shape ctx d"
  using decide_existing_shape
  by (cases cmd)
     (auto simp: decide_def bind_result_Inr simp del: task_shape.simps task_domain_simps
        split: if_splits option.splits)

end
