(* ===== verification/TaskLifecycle.thy ===== *)
theory TaskLifecycle
  imports TaskCommands
begin

text \<open>
  What the task core guarantees: the precondition table of the lease as an abstract
  specification that \<open>decide\<close> and \<open>reduceTask\<close> together implement, the invariant of every
  reachable task, and the fencing of stale epochs over replayed streams.
\<close>

section \<open>The lease table as a specification\<close>

text \<open>
  The guards and effects of \<open>decide\<close> as a precondition and an effect per command, for a caller \<open>me\<close> at
  server time \<open>now\<close>: the table of \<open>docs/design/SWARM-CLOUD.md\<close>, section 2.2, but that a done task
  may be handed off (\<open>TaskProperties\<close> states the table itself).
\<close>

fun lease_pre :: "decide_ctx \<Rightarrow> task_state \<Rightarrow> string \<Rightarrow> command \<Rightarrow> bool" where
  "lease_pre ctx s me (Create _ _) = False"
| "lease_pre ctx s me (Acquire _ _) =
     (ts_lifecycle s \<in> {Open, Reopened} \<or>
      (ts_lifecycle s \<in> {Active, AwaitingReview} \<and> \<not> leaseLive s (dc_now ctx)))"
| "lease_pre ctx s me (Renew _ ep _) =
     (ts_lifecycle s \<noteq> Done \<and> ts_owner s = Some me \<and> ep = Fin (ts_epoch s) \<and> leaseLive s (dc_now ctx))"
| "lease_pre ctx s me (Handoff _ ep to_owner _) =
     (ts_lifecycle s \<noteq> AwaitingReview \<and> ts_owner s = Some me \<and> ep = Fin (ts_epoch s) \<and>
      leaseLive s (dc_now ctx) \<and> dc_isEligibleRecipient ctx to_owner)"
| "lease_pre ctx s me (Takeover tid g _) =
     (ts_lifecycle s \<noteq> Done \<and>
      (leaseLive s (dc_now ctx) \<longrightarrow>
         ts_lifecycle s \<noteq> AwaitingReview \<and> dc_validTakeoverGrant ctx tid g (ts_epoch s) me))"
| "lease_pre ctx s me (Submit tid ep _ _ ev) =
     (ts_lifecycle s \<noteq> Done \<and> ts_owner s = Some me \<and> ep = Fin (ts_epoch s) \<and>
      leaseLive s (dc_now ctx) \<and> dc_evidenceComplete ctx tid ev)"
| "lease_pre ctx s me (Close tid ep _ g) =
     (ts_lifecycle s \<noteq> Done \<and>
      (\<exists>sub. ts_submission s = Some sub \<and> ep = Fin (sub_epoch sub) \<and>
         (isAdmin ctx me \<or>
          (ts_owner s = Some me \<and>
           (dc_claimRequiresGrant ctx tid \<longrightarrow>
              dc_validCloseGrant ctx tid g (ts_version s, sub_epoch sub, sub_head_sha sub))))))"
| "lease_pre ctx s me (Reopen _ ep) =
     (ts_lifecycle s \<notin> {Open, Reopened} \<and>
      (isAdmin ctx me \<or> (ts_owner s = Some me \<and> ep = Fin (ts_epoch s))))"

definition take_lease :: "task_state \<Rightarrow> string \<Rightarrow> number \<Rightarrow> task_state" where
  "take_lease s p expiry = s\<lparr>ts_lifecycle := leaseLifecycle s, ts_epoch := ts_epoch s + 1,
     ts_owner := Some p, ts_lease_expiry := Some expiry\<rparr>"

fun lease_effect :: "number \<Rightarrow> task_state \<Rightarrow> string \<Rightarrow> command \<Rightarrow> task_state" where
  "lease_effect now s me (Create _ _) = s"
| "lease_effect now s me (Acquire _ ttl) = take_lease s me (now + finite_value ttl)"
| "lease_effect now s me (Renew _ _ ttl) = s\<lparr>ts_lease_expiry := Some (now + finite_value ttl)\<rparr>"
| "lease_effect now s me (Handoff _ _ to_owner ttl) = take_lease s to_owner (now + finite_value ttl)"
| "lease_effect now s me (Takeover _ _ ttl) = take_lease s me (now + finite_value ttl)"
| "lease_effect now s me (Submit _ _ branch sha ev) =
     s\<lparr>ts_lifecycle := AwaitingReview, ts_submission := Some \<lparr>sub_epoch = ts_epoch s,
        sub_branch = branch, sub_head_sha = sha, sub_evidence_set = ev\<rparr>\<rparr>"
| "lease_effect now s me (Close _ _ disp _) =
     s\<lparr>ts_lifecycle := Done, ts_closed_disposition := Some (disposition_name disp)\<rparr>"
| "lease_effect now s me (Reopen _ _) =
     s\<lparr>ts_lifecycle := Reopened, ts_version := ts_version s + 1, ts_submission := None,
        ts_owner := None, ts_lease_expiry := None\<rparr>"

lemma decide_existing_accepts_iff:
  "\<not> ttl_refused cmd \<Longrightarrow>
     (\<exists>es. decide_existing ctx s me cmd = Accepted es) \<longleftrightarrow> lease_pre ctx s me cmd"
  by (cases cmd) (auto simp: decide_existing_def decide_case_defs Let_def split: option.split)

lemma reduceTask_env:
  "t \<in> set EVENT_TYPES \<Longrightarrow> t \<noteq> CommandRejected \<Longrightarrow> t \<noteq> TaskCreated \<Longrightarrow>
     reduceTask (Some s) (task_env ctx k t p) = reduce_existing s (task_env ctx k t p)"
  by (simp add: reduceTask_def)

lemma decide_existing_event:
  "decide_existing ctx s me cmd = Accepted es \<Longrightarrow>
     \<exists>e. es = [e] \<and> reduceTask (Some s) e = Inr (lease_effect (dc_now ctx) s me cmd)"
  by (cases cmd)
     (auto simp: decide_existing_def decide_case_defs Let_def reduceTask_env EVENT_TYPES_def
        reduce_existing_def task_req_def assertEpochIncrease_def take_lease_def leaseLifecycle_def
        split: if_splits option.splits)

section \<open>The invariant of reachable tasks\<close>

definition task_wf :: "task_state \<Rightarrow> bool" where
  "task_wf s \<longleftrightarrow>
     1 \<le> ts_version s \<and> integral (ts_version s) \<and> 0 \<le> ts_epoch s \<and> integral (ts_epoch s) \<and>
     (ts_owner s = None \<longleftrightarrow> ts_lease_expiry s = None) \<and>
     (ts_owner s \<noteq> None \<longrightarrow> 1 \<le> ts_epoch s) \<and>
     (case ts_submission s of None \<Rightarrow> True | Some sub \<Rightarrow>
        1 \<le> sub_epoch sub \<and> sub_epoch sub \<le> ts_epoch s \<and> integral (sub_epoch sub)) \<and>
     (case ts_lifecycle s of
        Open \<Rightarrow> ts_epoch s = 0 \<and> ts_version s = 1 \<and> ts_submission s = None
      | Active \<Rightarrow> ts_owner s \<noteq> None \<and> ts_submission s = None
      | AwaitingReview \<Rightarrow> ts_owner s \<noteq> None \<and> ts_submission s \<noteq> None
      | Reopened \<Rightarrow> ts_owner s = None \<and> ts_submission s = None \<and> 2 \<le> ts_version s
      | Done \<Rightarrow> ts_owner s \<noteq> None \<and> ts_submission s \<noteq> None \<and> ts_closed_disposition s \<noteq> None)"

lemma task_wf_initial: "task_wf (initial_task tid slug)"
  by (simp add: task_wf_def initial_task_def)

lemma task_wf_take_lease: "task_wf s \<Longrightarrow> task_wf (take_lease s p e)"
  by (auto simp: task_wf_def take_lease_def leaseLifecycle_def split: option.splits lifecycle.splits)

lemma task_wf_effect: "task_wf s \<Longrightarrow> lease_pre ctx s me cmd \<Longrightarrow> task_wf (lease_effect now s me cmd)"
proof (cases cmd)
  case (Renew tid ep ttl)
  assume "task_wf s" "lease_pre ctx s me cmd"
  then show ?thesis using Renew
    by (auto simp: task_wf_def split: option.splits lifecycle.splits)
next
  case (Submit tid ep br sha ev)
  assume "task_wf s" "lease_pre ctx s me cmd"
  then show ?thesis using Submit
    by (auto simp: task_wf_def split: option.splits lifecycle.splits)
next
  case (Close tid ep disp g)
  assume "task_wf s" "lease_pre ctx s me cmd"
  then show ?thesis using Close
    by (cases "ts_lifecycle s") (auto simp: task_wf_def split: option.splits)
next
  case (Reopen tid ep)
  assume "task_wf s" "lease_pre ctx s me cmd"
  then show ?thesis using Reopen
    by (auto simp: task_wf_def split: option.splits lifecycle.splits)
qed (simp_all add: task_wf_take_lease)

lemma decide_Some_cases:
  assumes "decide (Some s) cmd ctx = Inr d"
  shows "(\<exists>me e. canonicalPrincipal (dc_actor ctx) = Inr me \<and> dc_isMember ctx me \<and>
            \<not> ttl_refused cmd \<and> lease_pre ctx s me cmd \<and> d = Accepted [e] \<and>
            reduceTask (Some s) e = Inr (lease_effect (dc_now ctx) s me cmd)) \<or>
         (\<not> decision_ok d \<and> (\<forall>e \<in> set (decision_events d). reduceTask (Some s) e = Inr s) \<and>
            length (decision_events d) \<le> 1)"
proof (cases d)
  case (Accepted es)
  then obtain me where me: "canonicalPrincipal (dc_actor ctx) = Inr me" "dc_isMember ctx me"
    "\<not> ttl_refused cmd" "decide_existing ctx s me cmd = Accepted es"
    using assms decide_Accepted_Some by blast
  from decide_existing_event[OF me(4)] obtain e where
    "es = [e]" "reduceTask (Some s) e = Inr (lease_effect (dc_now ctx) s me cmd)" by blast
  then show ?thesis using me decide_existing_accepts_iff[OF me(3)] Accepted by blast
next
  case (Rejected c r det es)
  with decide_shape[OF assms] have "\<forall>e \<in> set es. reduceTask (Some s) e = Inr s" "length es \<le> 1"
    by (cases c; auto simp: reduceTask_def EVENT_TYPES_def task_req_def req_def)+
  then show ?thesis using Rejected by simp
qed

lemma reduceTask_created:
  "reduceTask None (task_env ctx k TaskCreated
      (no_task_fields\<lparr>f_task_id := Some tid, f_slug := Some slug\<rparr>)) = Inr (initial_task tid slug)"
  by (simp add: reduceTask_def EVENT_TYPES_def task_req_def)

lemma decide_None_cases:
  assumes "decide None cmd ctx = Inr d"
  shows "(\<exists>e tid slug. cmd = Create tid slug \<and> d = Accepted [e] \<and> ev_type e = TaskCreated \<and>
            reduceTask None e = Inr (initial_task tid slug)) \<or>
         (\<not> decision_ok d \<and> (\<forall>e \<in> set (decision_events d). ev_type e = CommandRejected))"
proof (cases d)
  case (Accepted es)
  with assms obtain tid slug where "cmd = Create tid slug"
    "es = [task_env ctx 0 TaskCreated (no_task_fields\<lparr>f_task_id := Some tid, f_slug := Some slug\<rparr>)]"
    by (auto elim!: decide_Accepted_None)
  with Accepted show ?thesis using reduceTask_created by fastforce
next
  case (Rejected c r det es)
  with decide_shape[OF assms] show ?thesis by (cases c) auto
qed

lemma project_rejected:
  "\<forall>e \<in> set es. ev_type e = CommandRejected \<Longrightarrow> project_events None es = Inr None"
  by (induction es) auto

lemma project_Some: "project_events (Some s) es = fold_events reduceTask (Some s) es"
  by (induction es arbitrary: s) (auto intro!: arg_cong[where f = "bind_result _"])

text \<open>
  The outcome of any command on an existing task: accepted with the effect of the table, or
  rejected with the task as it was.
\<close>

lemma decide_existing_effect:
  assumes "canonicalPrincipal (dc_actor ctx) = Inr me"
  shows "\<exists>d. decide (Some s) cmd ctx = Inr d \<and>
    (if dc_isMember ctx me \<and> \<not> ttl_refused cmd \<and> lease_pre ctx s me cmd
     then decision_ok d \<and>
       project_events (Some s) (decision_events d) = Inr (Some (lease_effect (dc_now ctx) s me cmd))
     else \<not> decision_ok d \<and> project_events (Some s) (decision_events d) = Inr (Some s))"
proof -
  from assms obtain d where d: "decide (Some s) cmd ctx = Inr d"
    by (simp add: decide_def)
  have acc: "decision_ok d" if "dc_isMember ctx me" "\<not> ttl_refused cmd" "lease_pre ctx s me cmd"
    using d that assms decide_existing_accepts_iff[OF that(2), of ctx s me]
    by (cases cmd) (auto simp: decide_def)
  from decide_Some_cases[OF d] acc assms d show ?thesis
    by (cases "decision_events d") (auto simp: le_Suc_eq)
qed

lemma no_submission_without_submit:
  "fold_events reduceTask (Some s) es = Inr (Some t) \<Longrightarrow>
     \<forall>e \<in> set es. ev_type e \<noteq> TaskSubmitted \<Longrightarrow> ts_submission s = None \<Longrightarrow> ts_submission t = None"
proof (induction es arbitrary: s)
  case Nil
  then show ?case by simp
next
  case (Cons e es)
  from Cons.prems(1) obtain r where r: "reduceTask (Some s) e = Inr r"
    "fold_events reduceTask (Some r) es = Inr (Some t)" by (auto simp: bind_result_Inr)
  have "ts_submission r = None"
    using reduceTask_Some[OF r(1)] Cons.prems(2,3)
    by (auto simp: reduce_existing_def Let_def result_simps split: if_splits event_type.splits)
  with Cons.IH[OF r(2)] Cons.prems(2) show ?case by simp
qed

lemma decided_project_task:
  assumes "decide st cmd ctx = Inr d" and "opt_all task_wf st"
  shows "\<exists>st'. project_events st (decision_events d) = Inr st' \<and> opt_all task_wf st'"
proof (cases st)
  case None
  from decide_None_cases[OF assms(1)[unfolded None]] None show ?thesis
    by (auto simp: project_rejected task_wf_initial)
next
  case (Some s)
  show ?thesis
    using decide_Some_cases[OF assms(1)[unfolded Some]]
  proof
    assume "\<exists>me e. canonicalPrincipal (dc_actor ctx) = Inr me \<and> dc_isMember ctx me \<and>
      \<not> ttl_refused cmd \<and> lease_pre ctx s me cmd \<and> d = Accepted [e] \<and>
      reduceTask (Some s) e = Inr (lease_effect (dc_now ctx) s me cmd)"
    then show ?thesis using Some assms(2) by (auto intro: task_wf_effect)
  next
    assume "\<not> decision_ok d \<and> (\<forall>e \<in> set (decision_events d). reduceTask (Some s) e = Inr s) \<and>
      length (decision_events d) \<le> 1"
    then show ?thesis using Some assms(2)
      by (cases "decision_events d") (auto simp: le_Suc_eq)
  qed
qed

text \<open>Every context is allowed: the core never trusts a fact it has not been given.\<close>

definition any_context :: "task_state option \<Rightarrow> command \<Rightarrow> decide_ctx \<Rightarrow> bool" where
  "any_context s cmd ctx \<longleftrightarrow> True"

interpretation task_core: decision_core decide decision_events project_events any_context task_wf
  by unfold_locales (rule decided_project_task)

text \<open>The tasks the command function can have stored.\<close>

definition task_reachable :: "task_state option \<Rightarrow> bool" where
  "task_reachable = reach decide decision_events project_events any_context"

lemma task_reachable_None: "task_reachable None"
  unfolding task_reachable_def by (rule reach_start)

lemma task_reachable_step:
  "task_reachable st \<Longrightarrow> decide st cmd ctx = Inr d \<Longrightarrow>
     project_events st (decision_events d) = Inr st' \<Longrightarrow> task_reachable st'"
  unfolding task_reachable_def
  by (rule reach_step[of decide decision_events project_events any_context])
     (simp_all add: any_context_def)

lemma task_reachable_wf: "task_reachable st \<Longrightarrow> opt_all task_wf st"
  unfolding task_reachable_def by (rule task_core.reach_inv)

section \<open>Fencing\<close>

text \<open>
  Replay only moves a task up: the epoch never decreases, and while it stays the same nobody
  becomes the owner.
\<close>

definition fenced_le :: "task_state \<Rightarrow> task_state \<Rightarrow> bool" where
  "fenced_le s t \<longleftrightarrow>
     ts_task_id t = ts_task_id s \<and> ts_slug t = ts_slug s \<and> ts_version s \<le> ts_version t \<and>
     ts_epoch s \<le> ts_epoch t \<and>
     (ts_epoch t = ts_epoch s \<longrightarrow> ts_owner t = ts_owner s \<or> ts_owner t = None)"

lemma fenced_le_step: "reduceTask (Some s) env = Inr t \<Longrightarrow> fenced_le s t"
  using reduceTask_effect[of s env t] reduceTask_owner_change[of s env t]
  by (cases "ts_owner t = ts_owner s"; cases "ts_owner t") (auto simp: fenced_le_def)

interpretation task_fence: monotone_stream ev_seq reduceTask
  "\<lambda>env lst. StreamIntegrityError (ev_type env) (ev_seq env) (OutOfOrder lst)" reduceStream_loop
  fenced_le
proof unfold_locales
  fix r s t :: task_state
  show "fenced_le s s" by (simp add: fenced_le_def)
  show "fenced_le r s \<Longrightarrow> fenced_le s t \<Longrightarrow> fenced_le r t"
    by (auto simp: fenced_le_def)
qed (rule fenced_le_step)

end
