(* ===== verification/TaskProperties.thy ===== *)
theory TaskProperties
  imports TaskLifecycle
begin

text \<open>
  The properties of the task core: \<open>decide\<close> and the reducer implement the lease table, reachable
  tasks satisfy the invariant and never halt their projection, and stale or foreign authority is
  refused. The witnesses use one small context.
\<close>

section \<open>A concrete context\<close>

definition sample_actor :: "string \<Rightarrow> actor" where
  "sample_actor p = \<lparr>act_user = Some p, act_agent_principal = None, act_run = None\<rparr>"

definition sample_ctx :: "string \<Rightarrow> number \<Rightarrow> number \<Rightarrow> decide_ctx" where
  "sample_ctx p now seq = \<lparr>dc_now = now, dc_actor = sample_actor p, dc_command_id = ''c'',
     dc_isMember = (\<lambda>_. True), dc_role = (\<lambda>_. Some Member), dc_isEligibleRecipient = (\<lambda>_. True),
     dc_claimRequiresGrant = (\<lambda>_. False), dc_evidenceComplete = (\<lambda>_ ev. ev \<noteq> []),
     dc_validTakeoverGrant = (\<lambda>_ _ _ _. False), dc_validCloseGrant = (\<lambda>_ _ _. False),
     dc_slugTaken = (\<lambda>_. False), dc_nextSeq = (\<lambda>k. seq + of_nat k),
     dc_nextEventId = (\<lambda>_. ''e''), dc_workspace_id = ''w'', dc_stream_id = ''s''\<rparr>"

lemma sample_principal [simp]: "p \<noteq> [] \<Longrightarrow> canonicalPrincipal (sample_actor p) = Inr p"
  by (simp add: sample_actor_def canonicalPrincipal_def)

lemma sample_ctx_simps [simp]:
  "dc_now (sample_ctx p now seq) = now" "dc_actor (sample_ctx p now seq) = sample_actor p"
  "dc_isMember (sample_ctx p now seq) me" "dc_isEligibleRecipient (sample_ctx p now seq) me"
  "\<not> dc_claimRequiresGrant (sample_ctx p now seq) tid"
  "dc_evidenceComplete (sample_ctx p now seq) tid ev \<longleftrightarrow> ev \<noteq> []"
  "\<not> dc_validTakeoverGrant (sample_ctx p now seq) tid g ep me"
  "\<not> dc_slugTaken (sample_ctx p now seq) slug"
  "dc_nextSeq (sample_ctx p now seq) k = seq + of_nat k"
  "\<not> isAdmin (sample_ctx p now seq) me"
  by (simp_all add: sample_ctx_def isAdmin_def)

text \<open>A task created, then acquired by \<open>a\<close> at time 10 for 100 units.\<close>

definition sample_active :: task_state where
  "sample_active = take_lease (initial_task ''t'' ''slug'') ''a'' 110"

lemma sample_active_simps [simp]:
  "ts_lifecycle sample_active = Active" "ts_epoch sample_active = 1"
  "ts_owner sample_active = Some ''a''" "ts_lease_expiry sample_active = Some 110"
  "ts_submission sample_active = None" "ts_version sample_active = 1"
  by (simp_all add: sample_active_def take_lease_def initial_task_def leaseLifecycle_def)

section \<open>Refinement of the lease table\<close>

text \<open>
  The precondition column of the lease table in \<open>docs/design/SWARM-CLOUD.md\<close> 2.2: the guards of the code,
  with a done task terminal but for a reopening. The code lacks one guard of it: \<open>decide\<close> lets the owner
  of a done task hand its live lease off (\<open>handoff_revives_done_task\<close> below), which the table excludes.
\<close>

fun survives_done :: "command \<Rightarrow> bool" where
  "survives_done (Reopen _ _) = True"
| "survives_done _ = False"

definition table_pre :: "decide_ctx \<Rightarrow> task_state \<Rightarrow> string \<Rightarrow> command \<Rightarrow> bool" where
  "table_pre ctx s me cmd \<longleftrightarrow> lease_pre ctx s me cmd \<and> (ts_lifecycle s = Done \<longrightarrow> survives_done cmd)"

fun is_handoff :: "command \<Rightarrow> bool" where
  "is_handoff (Handoff _ _ _ _) = True"
| "is_handoff _ = False"

text \<open>
  C1. Outside the handoff of a done task, a command on an existing task is accepted exactly when the caller
  is a member, a lease duration it carries is finite and positive, and the precondition column of the lease table
  holds; then the projection moves to the effect column. Otherwise it is rejected and the projection does not
  move. In both cases the reducer accepts the emitted events.
\<close>

theorem decide_implements_lease_table:
  assumes "canonicalPrincipal (dc_actor ctx) = Inr me" and "\<not> (ts_lifecycle s = Done \<and> is_handoff cmd)"
  shows "\<exists>d. decide (Some s) cmd ctx = Inr d \<and>
    (if dc_isMember ctx me \<and> \<not> ttl_refused cmd \<and> table_pre ctx s me cmd
     then decision_ok d \<and>
       project_events (Some s) (decision_events d) = Inr (Some (lease_effect (dc_now ctx) s me cmd))
     else \<not> decision_ok d \<and> project_events (Some s) (decision_events d) = Inr (Some s))"
proof -
  have "table_pre ctx s me cmd \<longleftrightarrow> lease_pre ctx s me cmd"
    using assms(2) by (cases cmd) (auto simp: table_pre_def)
  with decide_existing_effect[OF assms(1), of s cmd] show ?thesis by simp
qed

theorem decide_implements_lease_table_witness:
  "\<exists>d. decide (Some sample_active) (Renew ''t'' (Fin 1) (Fin 50)) (sample_ctx ''a'' 20 7) = Inr d \<and>
     decision_ok d \<and>
     project_events (Some sample_active) (decision_events d) =
       Inr (Some (sample_active\<lparr>ts_lease_expiry := Some 70\<rparr>))"
  using decide_implements_lease_table[of "sample_ctx ''a'' 20 7" "''a''" sample_active
      "Renew ''t'' (Fin 1) (Fin 50)"]
  by (simp add: ttl_refused_def table_pre_def)

section \<open>Reachable tasks\<close>

text \<open>
  C2. Every task the command function can have stored satisfies the lifecycle invariant: for
  instance an active task has an owner and no frozen submission, a task under review has both an
  owner and a submission whose epoch does not exceed the current one, and versions and epochs are
  whole numbers.
\<close>

theorem reachable_task_wf:
  assumes "task_reachable (Some s)"
  shows "task_wf s"
  using task_core.reach_inv[OF assms[unfolded task_reachable_def]] by simp

lemma sample_create:
  "\<exists>e. decide None (Create ''t'' ''slug'') (sample_ctx ''a'' 5 1) = Inr (Accepted [e]) \<and>
     project_events None [e] = Inr (Some (initial_task ''t'' ''slug''))"
  by (simp add: decide_def task_accept_def reduceTask_created)

lemma sample_active_reachable: "task_reachable (Some sample_active)"
proof -
  obtain e where e: "decide None (Create ''t'' ''slug'') (sample_ctx ''a'' 5 1) = Inr (Accepted [e])"
    "project_events None [e] = Inr (Some (initial_task ''t'' ''slug''))"
    using sample_create by blast
  have 1: "task_reachable (Some (initial_task ''t'' ''slug''))"
    by (rule task_reachable_step[OF task_reachable_None e(1)]) (use e(2) in simp)
  obtain d where d: "decide (Some (initial_task ''t'' ''slug'')) (Acquire ''t'' (Fin 100))
      (sample_ctx ''a'' 10 2) = Inr d"
    "decision_ok d \<and> project_events (Some (initial_task ''t'' ''slug'')) (decision_events d) =
      Inr (Some sample_active)"
    using decide_existing_effect[of "sample_ctx ''a'' 10 2" "''a''"
        "initial_task ''t'' ''slug''" "Acquire ''t'' (Fin 100)"]
    by (auto simp: ttl_refused_def sample_active_def initial_task_def)
  show ?thesis by (rule task_reachable_step[OF 1 d(1)]) (use d(2) in simp)
qed

theorem reachable_task_wf_witness: "task_wf sample_active"
  by (rule reachable_task_wf[OF sample_active_reachable])

text \<open>
  The projection never halts: whatever command is decided, with whatever facts, on any stored
  task (or on none), the reducer accepts the events of the decision, and the result is again a
  task the command function can store.
\<close>

theorem task_projection_never_halts:
  assumes "task_reachable st" and "decide st cmd ctx = Inr d"
  shows "\<exists>st'. project_events st (decision_events d) = Inr st' \<and> task_reachable st'"
  using task_core.reach_never_halts[of st cmd ctx d] assms
  by (simp add: task_reachable_def any_context_def)

theorem task_projection_never_halts_witness:
  "\<exists>d st'. decide (Some sample_active) (Acquire ''t'' (Fin 9)) (sample_ctx ''b'' 20 7) = Inr d \<and>
     project_events (Some sample_active) (decision_events d) = Inr st' \<and> task_reachable st'"
proof -
  obtain d where "decide (Some sample_active) (Acquire ''t'' (Fin 9)) (sample_ctx ''b'' 20 7) = Inr d"
    by (simp add: decide_def)
  with task_projection_never_halts[OF sample_active_reachable this] show ?thesis by blast
qed

section \<open>Fencing of stale epochs\<close>

text \<open>
  C3. At most one owner per epoch: if a replayed stream passes through a task at some epoch and
  later shows it at the same epoch, with an owner both times, the owner is the same.
\<close>

theorem one_owner_per_epoch:
  assumes "reduceStream xs = Inr (Some s)" and "reduceStream (xs @ ys) = Inr (Some t)"
    and "ts_epoch t = ts_epoch s" and "ts_owner s = Some p" and "ts_owner t = Some q"
  shows "p = q"
  using task_fence.loop_prefix_le[of NegInf xs ys "Some t" s] assms
  by (auto simp: reduceStream_def fenced_le_def)

definition sample_log :: "task_event list" where
  "sample_log =
     [task_env (sample_ctx ''a'' 5 1) 0 TaskCreated
        (no_task_fields\<lparr>f_task_id := Some ''t'', f_slug := Some ''slug''\<rparr>),
      task_env (sample_ctx ''a'' 10 2) 0 LeaseAcquired
        (no_task_fields\<lparr>f_task_id := Some ''t'', f_epoch := Some 1, f_owner := Some ''a'',
           f_lease_expiry := Some 110\<rparr>)]"

definition sample_renewal :: "task_event list" where
  "sample_renewal =
     [task_env (sample_ctx ''a'' 20 3) 0 LeaseRenewed
        (no_task_fields\<lparr>f_task_id := Some ''t'', f_epoch := Some 1, f_lease_expiry := Some 150\<rparr>)]"

lemmas replay_defs = reduceStream_def reduceTask_def reduce_existing_def EVENT_TYPES_def Let_def
  task_req_def assertEpochIncrease_def initial_task_def leaseLifecycle_def

lemma sample_log_replay: "reduceStream sample_log = Inr (Some sample_active)"
  by (simp add: sample_log_def replay_defs no_task_fields_def sample_active_def take_lease_def)

lemma sample_renewal_replay:
  "reduceStream (sample_log @ sample_renewal) =
     Inr (Some (sample_active\<lparr>ts_lease_expiry := Some 150\<rparr>))"
  by (simp add: sample_log_def sample_renewal_def replay_defs no_task_fields_def sample_active_def
      take_lease_def)

theorem one_owner_per_epoch_witness:
  "\<exists>s t p q. reduceStream sample_log = Inr (Some s) \<and>
     reduceStream (sample_log @ sample_renewal) = Inr (Some t) \<and> ts_epoch t = ts_epoch s \<and>
     ts_owner s = Some p \<and> ts_owner t = Some q \<and> p = q"
  using one_owner_per_epoch[OF sample_log_replay sample_renewal_replay, of "''a''" "''a''"]
    sample_log_replay sample_renewal_replay by simp

text \<open>
  C4. A credential bound to an earlier epoch is fenced: once replay has moved a task past the
  epoch it had, no renew, handoff or submit presenting the old epoch is accepted, whoever sends
  it and whatever the other facts say.
\<close>

theorem stale_epoch_is_fenced:
  assumes "reduceStream xs = Inr (Some s)" and "reduceStream (xs @ ys) = Inr (Some t)"
    and "ts_epoch t \<noteq> ts_epoch s"
    and "cmd \<in> {Renew tid (Fin (ts_epoch s)) ttl, Handoff tid (Fin (ts_epoch s)) to_owner ttl,
                Submit tid (Fin (ts_epoch s)) branch sha ev}"
    and "decide (Some t) cmd ctx = Inr d"
  shows "ts_epoch s < ts_epoch t \<and> \<not> decision_ok d"
proof -
  from task_fence.loop_prefix_le[of NegInf xs ys "Some t" s] assms(1-3)
  have lt: "ts_epoch s < ts_epoch t" by (auto simp: reduceStream_def fenced_le_def)
  with decide_Some_cases[OF assms(5)] assms(4) show ?thesis by auto
qed

definition sample_takeover :: "task_event list" where
  "sample_takeover =
     [task_env (sample_ctx ''b'' 200 3) 0 LeaseTakenOver
        (no_task_fields\<lparr>f_task_id := Some ''t'', f_epoch := Some 2, f_owner := Some ''b'',
           f_lease_expiry := Some 300, f_grant_id := Some None\<rparr>)]"

lemma sample_takeover_replay:
  "reduceStream (sample_log @ sample_takeover) = Inr (Some (take_lease sample_active ''b'' 300))"
  by (simp add: sample_log_def sample_takeover_def replay_defs no_task_fields_def sample_active_def
      take_lease_def)

theorem stale_epoch_is_fenced_witness:
  "\<exists>t d. reduceStream (sample_log @ sample_takeover) = Inr (Some t) \<and>
     decide (Some t) (Submit ''t'' (Fin 1) ''br'' ''sha'' [''log'']) (sample_ctx ''a'' 210 9) = Inr d \<and>
     \<not> decision_ok d"
proof -
  obtain d where d: "decide (Some (take_lease sample_active ''b'' 300))
      (Submit ''t'' (Fin 1) ''br'' ''sha'' [''log'']) (sample_ctx ''a'' 210 9) = Inr d"
    by (simp add: decide_def)
  have "ts_epoch (take_lease sample_active ''b'' 300) \<noteq> ts_epoch sample_active"
    by (simp add: take_lease_def)
  from stale_epoch_is_fenced[OF sample_log_replay sample_takeover_replay this _ d,
      of "''t''" NaN "''x''" "''br''" "''sha''" "[''log'']"]
  show ?thesis using sample_takeover_replay d by auto
qed

text \<open>
  A live lease is not stolen: on any stored task a command by anybody other than the owner either leaves the owner
  in place, or is a takeover with a grant valid for this task, this epoch and this caller on a
  task that is not under review, or is a reopen by a workspace owner or administrator.
\<close>

theorem live_lease_not_stolen:
  assumes "task_reachable (Some s)" and "decide (Some s) cmd ctx = Inr d"
    and "project_events (Some s) (decision_events d) = Inr (Some t)"
    and "leaseLive s (dc_now ctx)" and "ts_owner s = Some p"
    and "canonicalPrincipal (dc_actor ctx) = Inr me" and "me \<noteq> p"
  shows "ts_owner t = Some p \<or>
    (\<exists>tid g ttl. cmd = Takeover tid g ttl \<and> ts_lifecycle s \<noteq> AwaitingReview \<and>
       dc_validTakeoverGrant ctx tid g (ts_epoch s) me \<and> ts_owner t = Some me \<and>
       ts_epoch t = ts_epoch s + 1) \<or>
    (\<exists>tid ep. cmd = Reopen tid ep \<and> isAdmin ctx me \<and> ts_owner t = None)"
proof -
  obtain d' where d': "decide (Some s) cmd ctx = Inr d'"
    "if dc_isMember ctx me \<and> \<not> ttl_refused cmd \<and> lease_pre ctx s me cmd
     then decision_ok d' \<and>
       project_events (Some s) (decision_events d') = Inr (Some (lease_effect (dc_now ctx) s me cmd))
     else \<not> decision_ok d' \<and> project_events (Some s) (decision_events d') = Inr (Some s)"
    using decide_existing_effect[OF assms(6)] by blast
  from task_reachable_wf[OF assms(1)] have wf: "task_wf s" by simp
  have eq: "d' = d" using d'(1) assms(2) by simp
  from d'(2) consider "t = s" | "lease_pre ctx s me cmd" "t = lease_effect (dc_now ctx) s me cmd"
    using assms(3) eq by (auto split: if_splits)
  then show ?thesis
  proof cases
    case 2
    then show ?thesis using assms wf
      by (cases cmd; cases "ts_lifecycle s") (auto simp: take_lease_def task_wf_def)
  qed (use assms in simp)
qed

definition grant_ctx :: decide_ctx where
  "grant_ctx = (sample_ctx ''b'' 20 7)\<lparr>dc_validTakeoverGrant := (\<lambda>_ g ep me. g = Some ''g'' \<and> ep = 1 \<and> me = ''b'')\<rparr>"

theorem live_lease_not_stolen_witness:
  "\<exists>d t. decide (Some sample_active) (Takeover ''t'' (Some ''g'') (Fin 30)) grant_ctx = Inr d \<and>
     project_events (Some sample_active) (decision_events d) = Inr (Some t) \<and>
     (ts_owner t = Some ''a'' \<or>
      (ts_owner t = Some ''b'' \<and> ts_epoch t = ts_epoch sample_active + 1))"
proof -
  have "canonicalPrincipal (dc_actor grant_ctx) = Inr ''b''"
    by (simp add: grant_ctx_def)
  from decide_existing_effect[OF this, of sample_active "Takeover ''t'' (Some ''g'') (Fin 30)"]
  obtain d t where d: "decide (Some sample_active) (Takeover ''t'' (Some ''g'') (Fin 30)) grant_ctx = Inr d"
    "project_events (Some sample_active) (decision_events d) = Inr (Some t)"
    by (metis (no_types, lifting))
  from live_lease_not_stolen[OF sample_active_reachable d, of "''a''" "''b''"] d show ?thesis
    by (auto simp: grant_ctx_def)
qed

text \<open>
  Reopening kills the frozen submission for good: after an accepted reopen, whatever events
  other than a new submission follow, no close is accepted by anybody.
\<close>

theorem reopen_invalidates_submission:
  assumes "decide (Some s) (Reopen tid ep) ctx = Inr (Accepted es)"
    and "project_events (Some s) (es @ later) = Inr (Some t)"
    and "\<forall>e \<in> set later. ev_type e \<noteq> TaskSubmitted"
    and "decide (Some t) (Close tid' ep' disp g) ctx' = Inr d"
  shows "ts_version s < ts_version t \<and> \<not> decision_ok d"
proof -
  from decide_Some_cases[OF assms(1)] obtain me e where e: "es = [e]"
    "reduceTask (Some s) e = Inr (lease_effect (dc_now ctx) s me (Reopen tid ep))"
    by auto
  let ?r = "lease_effect (dc_now ctx) s me (Reopen tid ep)"
  from assms(2) e have rest: "fold_events reduceTask (Some ?r) later = Inr (Some t)"
    by (simp add: project_Some)
  have "ts_submission t = None"
    using rest assms(3) by (rule no_submission_without_submit) simp
  moreover from task_fence.fold_le[OF rest] have "ts_version s < ts_version t"
    by (auto simp: fenced_le_def)
  ultimately show ?thesis using decide_Some_cases[OF assms(4)] by auto
qed

definition sample_review :: task_state where
  "sample_review = sample_active\<lparr>ts_lifecycle := AwaitingReview, ts_submission := Some
     \<lparr>sub_epoch = 1, sub_branch = ''br'', sub_head_sha = ''sha'', sub_evidence_set = [''log'']\<rparr>\<rparr>"

theorem reopen_invalidates_submission_witness:
  "\<exists>es t d. decide (Some sample_review) (Reopen ''t'' (Fin 1)) (sample_ctx ''a'' 20 7) = Inr (Accepted es) \<and>
     project_events (Some sample_review) es = Inr (Some t) \<and>
     decide (Some t) (Close ''t'' (Fin 1) Merged None) (sample_ctx ''a'' 21 8) = Inr d \<and> \<not> decision_ok d"
proof -
  have "canonicalPrincipal (dc_actor (sample_ctx ''a'' 20 7)) = Inr ''a''" by simp
  from decide_existing_effect[OF this, of sample_review "Reopen ''t'' (Fin 1)"]
  obtain es t where r: "decide (Some sample_review) (Reopen ''t'' (Fin 1)) (sample_ctx ''a'' 20 7) =
      Inr (Accepted es)" "project_events (Some sample_review) es = Inr (Some t)"
    by (auto simp: sample_review_def ttl_refused_def elim: decision_ok.elims)
  obtain d where d: "decide (Some t) (Close ''t'' (Fin 1) Merged None) (sample_ctx ''a'' 21 8) = Inr d"
    by (simp add: decide_def)
  from reopen_invalidates_submission[OF r(1) _ _ d, of "[]"] r d show ?thesis by auto
qed

text \<open>
  An accepted lease command never grants a permanent or a dead lease: the expiry it writes is
  a finite instant after the server's now.
\<close>

theorem accepted_lease_is_bounded:
  assumes "decide (Some s) cmd ctx = Inr (Accepted es)" and "cmd_ttl cmd = Some ttl"
    and "project_events (Some s) es = Inr (Some t)"
  shows "\<exists>r e. ttl = Fin r \<and> 0 < r \<and> ts_lease_expiry t = Some e \<and> e = dc_now ctx + r \<and>
    leaseLive t (dc_now ctx)"
proof -
  from decide_Some_cases[OF assms(1)] obtain me e where e: "\<not> ttl_refused cmd" "es = [e]"
    "lease_pre ctx s me cmd" "reduceTask (Some s) e = Inr (lease_effect (dc_now ctx) s me cmd)"
    by auto
  from ttl_accepted[OF e(1) assms(2)] obtain r where r: "ttl = Fin r" "0 < r" by blast
  from assms(3) e have "t = lease_effect (dc_now ctx) s me cmd" by simp
  with r e(3) assms(2) show ?thesis
    by (cases cmd) (auto simp: take_lease_def leaseLive_def)
qed

theorem accepted_lease_is_bounded_witness:
  "\<exists>es t. decide (Some sample_active) (Renew ''t'' (Fin 1) (Fin 50)) (sample_ctx ''a'' 20 7) = Inr (Accepted es) \<and>
     project_events (Some sample_active) es = Inr (Some t) \<and> leaseLive t 20"
proof -
  have "canonicalPrincipal (dc_actor (sample_ctx ''a'' 20 7)) = Inr ''a''" by simp
  from decide_existing_effect[OF this, of sample_active "Renew ''t'' (Fin 1) (Fin 50)"]
  obtain es t where r: "decide (Some sample_active) (Renew ''t'' (Fin 1) (Fin 50)) (sample_ctx ''a'' 20 7) =
      Inr (Accepted es)" "project_events (Some sample_active) es = Inr (Some t)"
    by (auto simp: ttl_refused_def elim: decision_ok.elims)
  from accepted_lease_is_bounded[OF r(1) _ r(2), of "Fin 50"] r show ?thesis by auto
qed

text \<open>
  A done task is not terminal: its owner may still hand a live lease off, and the reducer then
  puts the task back under review, owned by the recipient, although it had been closed.
\<close>

theorem handoff_revives_done_task:
  assumes "ts_lifecycle s = Done" and "ts_submission s \<noteq> None"
    and "canonicalPrincipal (dc_actor ctx) = Inr me" and "dc_isMember ctx me"
    and "ts_owner s = Some me" and "leaseLive s (dc_now ctx)"
    and "dc_isEligibleRecipient ctx to_owner" and "0 < ttl"
  shows "\<exists>es t. decide (Some s) (Handoff tid (Fin (ts_epoch s)) to_owner (Fin ttl)) ctx = Inr (Accepted es) \<and>
    project_events (Some s) es = Inr (Some t) \<and> ts_lifecycle t = AwaitingReview \<and>
    ts_owner t = Some to_owner \<and> ts_closed_disposition t = ts_closed_disposition s"
proof -
  from decide_existing_effect[OF assms(3), of s "Handoff tid (Fin (ts_epoch s)) to_owner (Fin ttl)"]
    assms obtain d where "decide (Some s) (Handoff tid (Fin (ts_epoch s)) to_owner (Fin ttl)) ctx = Inr d"
    "decision_ok d" "project_events (Some s) (decision_events d) =
       Inr (Some (take_lease s to_owner (dc_now ctx + ttl)))"
    by (auto simp: ttl_refused_def)
  with assms show ?thesis
    by (cases d) (auto simp: take_lease_def leaseLifecycle_def)
qed

definition sample_done :: task_state where
  "sample_done = sample_review\<lparr>ts_lifecycle := Done, ts_closed_disposition := Some ''merged''\<rparr>"

theorem handoff_revives_done_task_witness:
  "\<exists>es t. decide (Some sample_done) (Handoff ''t'' (Fin 1) ''b'' (Fin 30)) (sample_ctx ''a'' 20 7) = Inr (Accepted es) \<and>
     project_events (Some sample_done) es = Inr (Some t) \<and> ts_lifecycle t = AwaitingReview"
  using handoff_revives_done_task[of sample_done "sample_ctx ''a'' 20 7" "''a''" "''b''" 30 "''t''"]
  by (auto simp: sample_done_def sample_review_def)

end
