(* ===== verification/Idempotency.thy ===== *)
theory Idempotency
  imports TaskLifecycle "HOL-Library.Multiset" "HOL-Library.Char_ord" "HOL-Library.List_Lexorder"
begin

text \<open>
  Command idempotency, \<open>src/protocol/idempotency.ts\<close>: the canonical JSON of a request, the ledger
  key of a caller and a command id, and \<open>applyCommand\<close>, which answers a retry from the ledger before
  any state is looked at. Parameters: \<open>sha256\<close> is the digest of \<open>node:crypto\<close> in hexadecimal, \<open>num_text\<close>
  the decimal text ECMAScript prints for a finite number.
\<close>

section \<open>Canonical JSON\<close>

text \<open>A value as \<open>JSON.stringify\<close> receives it. Property names are not array indices.\<close>

datatype json =
    JNull
  | JBool bool
  | JNumber jsnum
  | JString string
  | JArray "json list"
  | JObject "(string \<times> json) list"

text \<open>The own keys in code unit order, recursively.\<close>

fun sortValue :: "json \<Rightarrow> json" where
  "sortValue (JArray xs) = JArray (map sortValue xs)"
| "sortValue (JObject ob) = JObject (sort_key fst (map (\<lambda>(k, v). (k, sortValue v)) ob))"
| "sortValue v = v"

definition hex_digit :: "nat \<Rightarrow> char" where
  "hex_digit n = ''0123456789abcdef'' ! n"

text \<open>\<open>QuoteJSONString\<close>: the two-character escapes, \<open>\u00XX\<close> for other controls.\<close>

definition quote_char :: "char \<Rightarrow> string" where
  "quote_char c = (let n = (of_char c :: nat) in
     if c = CHR 0x22 then [CHR 0x5C, CHR 0x22]
     else if c = CHR 0x5C then [CHR 0x5C, CHR 0x5C]
     else if n = 8 then [CHR 0x5C, CHR ''b'']
     else if n = 9 then [CHR 0x5C, CHR ''t'']
     else if n = 10 then [CHR 0x5C, CHR ''n'']
     else if n = 12 then [CHR 0x5C, CHR ''f'']
     else if n = 13 then [CHR 0x5C, CHR ''r'']
     else if n < 32 then [CHR 0x5C, CHR ''u'', CHR ''0'', CHR ''0'', hex_digit (n div 16), hex_digit (n mod 16)]
     else [c])"

definition quote_string :: "string \<Rightarrow> string" where
  "quote_string s = [CHR 0x22] @ concat (map quote_char s) @ [CHR 0x22]"

fun join :: "string \<Rightarrow> string list \<Rightarrow> string" where
  "join sep [] = []"
| "join sep [x] = x"
| "join sep (x # y # ys) = x @ sep @ join sep (y # ys)"

text \<open>A number that is not finite prints as \<open>null\<close>.\<close>

fun stringify :: "(number \<Rightarrow> string) \<Rightarrow> json \<Rightarrow> string" where
  "stringify num_text JNull = ''null''"
| "stringify num_text (JBool b) = (if b then ''true'' else ''false'')"
| "stringify num_text (JNumber (Fin r)) = num_text r"
| "stringify num_text (JNumber _) = ''null''"
| "stringify num_text (JString s) = quote_string s"
| "stringify num_text (JArray xs) = ''['' @ join '','' (map (stringify num_text) xs) @ '']''"
| "stringify num_text (JObject ob) =
     ''{'' @ join '','' (map (\<lambda>(k, v). quote_string k @ '':'' @ stringify num_text v) ob) @ ''}''"

definition canonicalJson :: "(number \<Rightarrow> string) \<Rightarrow> json \<Rightarrow> string" where
  "canonicalJson num_text v = stringify num_text (sortValue v)"

text \<open>
  The same request: equal up to the order in which the keys of its objects were inserted. An
  object has each key once.
\<close>

inductive json_same :: "json \<Rightarrow> json \<Rightarrow> bool" where
  same_refl: "json_same v v"
| same_array: "list_all2 json_same xs ys \<Longrightarrow> json_same (JArray xs) (JArray ys)"
| same_object: "distinct (map fst xs) \<Longrightarrow> mset ys = mset ys' \<Longrightarrow>
    list_all2 (\<lambda>p q. fst p = fst q \<and> json_same (snd p) (snd q)) xs ys' \<Longrightarrow>
    json_same (JObject xs) (JObject ys)"
monos list.rel_mono_strong

lemma sort_key_fst_mset:
  assumes "distinct (map fst xs)" and "mset xs = mset ys"
  shows "sort_key fst xs = sort_key fst (ys :: (string \<times> 'b) list)"
proof (rule properties_for_sort_key[symmetric])
  show "mset (sort_key fst xs) = mset ys" using assms(2) by simp
  show "sorted (map fst (sort_key fst xs))" by simp
  fix k assume "k \<in> set (sort_key fst xs)"
  let ?f = "\<lambda>zs. filter (\<lambda>x. fst k = fst x) zs"
  have one: "length (?f zs) \<le> 1" if "distinct (map fst zs)" for zs :: "(string \<times> 'b) list"
    using that by (induction zs) (auto simp: filter_empty_conv image_iff)
  have d: "distinct (map fst (sort_key fst xs))" "distinct (map fst ys)"
    using assms by (metis distinct_map mset_eq_imp_distinct_iff mset_eq_setD mset_sort)+
  have "mset (?f (sort_key fst xs)) = mset (?f ys)" using assms(2) by simp
  with one[OF d(1)] one[OF d(2)] show "?f (sort_key fst xs) = ?f ys"
    by (cases "?f (sort_key fst xs)"; cases "?f ys") auto
qed

lemma sortValue_same: "json_same v w \<Longrightarrow> sortValue v = sortValue w"
proof (induction rule: json_same.induct)
  case (same_array xs ys)
  then show ?case by (simp add: list_all2_conv_all_nth list_eq_iff_nth_eq)
next
  case (same_object xs ys ys')
  let ?g = "\<lambda>(k, v). (k, sortValue v)"
  have eq: "map ?g xs = map ?g ys'"
    using same_object(3) by (induction rule: list_all2_induct) auto
  have "distinct (map fst (map ?g xs))"
    using same_object(1) by (simp add: comp_def case_prod_beta)
  moreover have "mset (map ?g xs) = mset (map ?g ys)"
    using eq same_object(2) by simp
  ultimately have "sort_key fst (map ?g xs) = sort_key fst (map ?g ys)" by (rule sort_key_fst_mset)
  then show ?case by simp
qed simp

section \<open>The ledger\<close>

definition idempotencyPrincipal :: "actor \<Rightarrow> actor_error + string" where
  "idempotencyPrincipal a = (case act_agent_principal a of
     Some p \<Rightarrow> Inr (''agent:'' @ p)
   | None \<Rightarrow> (case act_user a of Some u \<Rightarrow> Inr (''user:'' @ u) | None \<Rightarrow> Inl NoPrincipal))"

text \<open>A command as the object literal the client sends.\<close>

fun nullable :: "string option \<Rightarrow> json" where
  "nullable None = JNull"
| "nullable (Some s) = JString s"

fun command_fields :: "command \<Rightarrow> (string \<times> json) list" where
  "command_fields (Create tid slug) = [(''slug'', JString slug)]"
| "command_fields (Acquire tid ttl) = [(''ttl_ms'', JNumber ttl)]"
| "command_fields (Renew tid ep ttl) = [(''epoch'', JNumber ep), (''ttl_ms'', JNumber ttl)]"
| "command_fields (Handoff tid ep to_owner ttl) =
     [(''epoch'', JNumber ep), (''to_owner'', JString to_owner), (''ttl_ms'', JNumber ttl)]"
| "command_fields (Takeover tid g ttl) = [(''grant_id'', nullable g), (''ttl_ms'', JNumber ttl)]"
| "command_fields (Submit tid ep branch sha ev) =
     [(''epoch'', JNumber ep), (''branch'', JString branch), (''head_sha'', JString sha),
      (''evidence_set'', JArray (map JString ev))]"
| "command_fields (Close tid ep disp g) =
     [(''epoch'', JNumber ep), (''disposition'', JString (disposition_name disp)),
      (''grant_id'', nullable g)]"
| "command_fields (Reopen tid ep) = [(''epoch'', JNumber ep)]"

definition command_json :: "command \<Rightarrow> json" where
  "command_json cmd = JObject ([(''kind'', JString (cmd_kind cmd)),
     (''task_id'', JString (cmd_task_id cmd))] @ command_fields cmd)"

record crypto =
  cr_sha256 :: "string \<Rightarrow> string"
  cr_num_text :: "number \<Rightarrow> string"

definition requestHash :: "crypto \<Rightarrow> actor \<Rightarrow> json \<Rightarrow> actor_error + string" where
  "requestHash cr a cmd = bind_result (idempotencyPrincipal a) (\<lambda>principal.
     Inr (cr_sha256 cr (canonicalJson (cr_num_text cr)
       (JObject [(''principal'', JString principal), (''cmd'', cmd)]))))"

record stored_response =
  sr_ok :: bool
  sr_reason :: "rejection_reason option"
  sr_detail :: "task_detail option"
  sr_class :: "reject_class option"
  sr_event_ids :: "string list"

record idem_entry =
  ie_hash :: string
  ie_response :: stored_response

type_synonym idem_ledger = "string \<rightharpoonup> idem_entry"

definition idemKey :: "actor \<Rightarrow> string \<Rightarrow> actor_error + string" where
  "idemKey a command_id =
     bind_result (idempotencyPrincipal a) (\<lambda>p. Inr (p @ [CHR 0x00] @ command_id))"

datatype apply_outcome =
    Fresh task_decision stored_response "task_event list"
  | Replayed stored_response
  | Conflict string

fun toStored :: "task_decision \<Rightarrow> stored_response" where
  "toStored (Accepted es) = \<lparr>sr_ok = True, sr_reason = None, sr_detail = None, sr_class = None,
     sr_event_ids = map ev_event_id es\<rparr>"
| "toStored (Rejected c r d es) = \<lparr>sr_ok = False, sr_reason = Some r, sr_detail = Some d,
     sr_class = Some c, sr_event_ids = map ev_event_id es\<rparr>"

fun committable :: "task_decision \<Rightarrow> bool" where
  "committable (Accepted _) = True"
| "committable (Rejected c _ _ _) = (c = Domain)"

text \<open>The ledger is mutated in place; the model returns it beside the outcome.\<close>

definition applyCommand ::
  "crypto \<Rightarrow> idem_ledger \<Rightarrow> task_state option \<Rightarrow> command \<Rightarrow> decide_ctx \<Rightarrow>
     actor_error + idem_ledger \<times> apply_outcome" where
  "applyCommand cr ledger state cmd ctx =
     bind_result (idemKey (dc_actor ctx) (dc_command_id ctx)) (\<lambda>key.
     bind_result (requestHash cr (dc_actor ctx) (command_json cmd)) (\<lambda>hash.
     case ledger key of
       Some existing \<Rightarrow>
         if ie_hash existing = hash then Inr (ledger, Replayed (ie_response existing))
         else Inr (ledger, Conflict ''command_id reused with a different request (409)'')
     | None \<Rightarrow>
         bind_result (decide state cmd ctx) (\<lambda>decision.
           let response = toStored decision in
           Inr (if committable decision
                then ledger(key \<mapsto> \<lparr>ie_hash = hash, ie_response = response\<rparr>) else ledger,
                Fresh decision response (decision_events decision)))))"

text \<open>The events an outcome makes the caller append.\<close>

fun outcome_events :: "apply_outcome \<Rightarrow> task_event list" where
  "outcome_events (Fresh _ _ es) = es"
| "outcome_events _ = []"

text \<open>Any number of later calls on the same ledger, with whatever state and facts each sees.\<close>

inductive ledger_calls :: "crypto \<Rightarrow> idem_ledger \<Rightarrow> idem_ledger \<Rightarrow> bool" for cr where
  no_call: "ledger_calls cr L L"
| one_more: "ledger_calls cr L M \<Longrightarrow> applyCommand cr M state cmd ctx = Inr (N, out) \<Longrightarrow>
    ledger_calls cr L N"

lemma applyCommand_keeps: "applyCommand cr L st cmd ctx = Inr (L', out) \<Longrightarrow> L \<subseteq>\<^sub>m L'"
  by (auto simp: applyCommand_def bind_result_Inr Let_def map_le_def split: option.splits if_splits)

lemma ledger_calls_keep: "ledger_calls cr L M \<Longrightarrow> L \<subseteq>\<^sub>m M"
  by (induction rule: ledger_calls.induct) (auto intro: map_le_trans dest: applyCommand_keeps)

lemma applyCommand_fresh:
  assumes "applyCommand cr L st cmd ctx = Inr (L', Fresh d r es)"
  obtains key hash where "idemKey (dc_actor ctx) (dc_command_id ctx) = Inr key"
    and "requestHash cr (dc_actor ctx) (command_json cmd) = Inr hash" and "L key = None"
    and "decide st cmd ctx = Inr d" and "r = toStored d" and "es = decision_events d"
    and "L' = (if committable d then L(key \<mapsto> \<lparr>ie_hash = hash, ie_response = r\<rparr>) else L)"
  using assms
  by (auto simp: applyCommand_def bind_result_Inr Let_def split: option.splits if_splits)

lemma applyCommand_hit:
  assumes "idemKey (dc_actor ctx) (dc_command_id ctx) = Inr key" and "L key = Some entry"
    and "requestHash cr (dc_actor ctx) (command_json cmd) = Inr hash"
  shows "applyCommand cr L st cmd ctx = Inr (L, if ie_hash entry = hash
    then Replayed (ie_response entry) else Conflict ''command_id reused with a different request (409)'')"
  using assms by (simp add: applyCommand_def)

lemma idempotencyPrincipal_kinds:
  "idempotencyPrincipal a = Inr p \<Longrightarrow> idempotencyPrincipal b = Inr p \<Longrightarrow>
     act_agent_principal a = act_agent_principal b \<and>
     (act_agent_principal a = None \<longrightarrow> act_user a = act_user b)"
  by (auto simp: idempotencyPrincipal_def split: option.splits)

lemma nul_split:
  "p @ [CHR 0x00] @ c = q @ [CHR 0x00] @ d \<Longrightarrow> CHR 0x00 \<notin> set p \<Longrightarrow> CHR 0x00 \<notin> set q \<Longrightarrow> p = q \<and> c = d"
  by (induction p arbitrary: q) (case_tac q; auto)+

end
