(* ===== verification/IdempotencyProperties.thy ===== *)
theory IdempotencyProperties
  imports Idempotency TaskProperties
begin

text \<open>
  The properties of command idempotency: a retry is answered with the stored response and
  appends nothing, whatever happened since; a reused id with another request is a conflict; an
  authorisation refusal leaves no trace; ledger keys of different callers never meet; and the
  request hash does not depend on key order. The witnesses use a stand-in digest, the identity.
\<close>

definition sample_crypto :: crypto where
  "sample_crypto = \<lparr>cr_sha256 = (\<lambda>s. s), cr_num_text = (\<lambda>_. ''9'')\<rparr>"

lemma sample_hash:
  "requestHash sample_crypto (sample_actor p) cmd =
     Inr (canonicalJson (\<lambda>_. ''9'') (JObject [(''principal'', JString (''user:'' @ p)), (''cmd'', cmd)]))"
  by (simp add: requestHash_def idempotencyPrincipal_def sample_actor_def sample_crypto_def)

lemma sample_key: "idemKey (sample_actor p) c = Inr (''user:'' @ p @ [CHR 0x00] @ c)"
  by (simp add: idemKey_def idempotencyPrincipal_def sample_actor_def)

lemma sample_ctx_id [simp]: "dc_command_id (sample_ctx p now seq) = ''c''"
  by (simp add: sample_ctx_def)

text \<open>
  C5. A retry is replayed verbatim and appends nothing: once a command was freshly applied with a
  committable outcome, the same request by the same caller under the same command id is answered
  from the ledger, after any number of other calls, and whatever the task and the other facts of
  the retry are by then.
\<close>

theorem retry_is_replayed:
  assumes "applyCommand cr L st cmd ctx = Inr (L', Fresh d r es)" and "committable d"
    and "ledger_calls cr L' M"
    and "dc_actor ctx' = dc_actor ctx" and "dc_command_id ctx' = dc_command_id ctx"
  shows "applyCommand cr M st' cmd ctx' = Inr (M, Replayed r)"
proof -
  from applyCommand_fresh[OF assms(1)] assms(2) obtain key hash where
    k: "idemKey (dc_actor ctx) (dc_command_id ctx) = Inr key"
       "requestHash cr (dc_actor ctx) (command_json cmd) = Inr hash"
       "L' key = Some \<lparr>ie_hash = hash, ie_response = r\<rparr>"
    by (metis fun_upd_same)
  then have "M key = Some \<lparr>ie_hash = hash, ie_response = r\<rparr>"
    using ledger_calls_keep[OF assms(3)] by (metis domI map_le_def)
  with k assms(4,5) show ?thesis by (simp add: applyCommand_hit)
qed

lemma sample_fresh:
  "\<exists>L' d r es. applyCommand sample_crypto Map.empty (Some sample_active) (Renew ''t'' (Fin 1) (Fin 50))
      (sample_ctx ''a'' 20 7) = Inr (L', Fresh d r es) \<and> committable d \<and> sr_ok r"
proof -
  have "canonicalPrincipal (dc_actor (sample_ctx ''a'' 20 7)) = Inr ''a''" by simp
  from decide_existing_effect[OF this, of sample_active "Renew ''t'' (Fin 1) (Fin 50)"]
  obtain es where "decide (Some sample_active) (Renew ''t'' (Fin 1) (Fin 50)) (sample_ctx ''a'' 20 7) =
      Inr (Accepted es)"
    by (auto simp: ttl_refused_def elim: decision_ok.elims)
  then show ?thesis by (simp add: applyCommand_def sample_hash sample_key Let_def)
qed

theorem retry_is_replayed_witness:
  "\<exists>L' r. applyCommand sample_crypto L' None (Renew ''t'' (Fin 1) (Fin 50)) (sample_ctx ''a'' 900 70) =
     Inr (L', Replayed r) \<and> sr_ok r"
proof -
  from sample_fresh obtain L' d r es where
    f: "applyCommand sample_crypto Map.empty (Some sample_active) (Renew ''t'' (Fin 1) (Fin 50))
      (sample_ctx ''a'' 20 7) = Inr (L', Fresh d r es)" "committable d" "sr_ok r" by blast
  from retry_is_replayed[OF f(1,2) no_call, of "sample_ctx ''a'' 900 70" None] f(3) show ?thesis by auto
qed

text \<open>
  Reusing a command id for a different request is a conflict that changes nothing: after a
  fresh committable outcome, a request by the same caller under the same command id whose hash
  differs is answered with a conflict, the ledger stays as it is and no event is appended.
\<close>

theorem reused_command_id_conflicts:
  assumes "applyCommand cr L st cmd ctx = Inr (L', Fresh d r es)" and "committable d"
    and "ledger_calls cr L' M"
    and "dc_actor ctx' = dc_actor ctx" and "dc_command_id ctx' = dc_command_id ctx"
    and "requestHash cr (dc_actor ctx) (command_json cmd') \<noteq> requestHash cr (dc_actor ctx) (command_json cmd)"
  shows "\<exists>out. applyCommand cr M st' cmd' ctx' = Inr (M, out) \<and> (\<exists>msg. out = Conflict msg) \<and>
    outcome_events out = []"
proof -
  from applyCommand_fresh[OF assms(1)] assms(2) obtain key hash where
    k: "idemKey (dc_actor ctx) (dc_command_id ctx) = Inr key"
       "requestHash cr (dc_actor ctx) (command_json cmd) = Inr hash"
       "L' key = Some \<lparr>ie_hash = hash, ie_response = r\<rparr>"
    by (metis fun_upd_same)
  then have m: "M key = Some \<lparr>ie_hash = hash, ie_response = r\<rparr>"
    using ledger_calls_keep[OF assms(3)] by (metis domI map_le_def)
  from k(2) obtain hash' where "requestHash cr (dc_actor ctx) (command_json cmd') = Inr hash'"
    by (auto simp: requestHash_def bind_result_Inr)
  with k m assms(4-6) show ?thesis by (simp add: applyCommand_hit)
qed

theorem reused_command_id_conflicts_witness:
  "\<exists>L' out. applyCommand sample_crypto L' None (Reopen ''t'' (Fin 1)) (sample_ctx ''a'' 900 70) =
     Inr (L', out) \<and> outcome_events out = [] \<and> (\<exists>msg. out = Conflict msg)"
proof -
  from sample_fresh obtain L' d r es where
    f: "applyCommand sample_crypto Map.empty (Some sample_active) (Renew ''t'' (Fin 1) (Fin 50))
      (sample_ctx ''a'' 20 7) = Inr (L', Fresh d r es)" "committable d" by blast
  have "requestHash sample_crypto (sample_actor ''a'') (command_json (Reopen ''t'' (Fin 1))) \<noteq>
      requestHash sample_crypto (sample_actor ''a'') (command_json (Renew ''t'' (Fin 1) (Fin 50)))"
    by (simp add: sample_hash canonicalJson_def command_json_def quote_string_def quote_char_def
        insort_key_def less_list_code less_char_def)
  from reused_command_id_conflicts[OF f no_call, of "sample_ctx ''a'' 900 70" "Reopen ''t'' (Fin 1)" None]
    this show ?thesis by auto
qed

text \<open>
  An authorisation refusal is audit-only: it is answered fresh without events, and the ledger
  stays as it was, so that the same command id remains free for a retry after a membership grant.
\<close>

theorem authz_refusal_not_ledgered:
  assumes "applyCommand cr L st cmd ctx = Inr (L', Fresh (Rejected Authz reason det evs) r es)"
  shows "L' = L \<and> es = [] \<and> sr_event_ids r = [] \<and> \<not> sr_ok r \<and>
    (\<exists>key. idemKey (dc_actor ctx) (dc_command_id ctx) = Inr key \<and> L' key = None)"
proof -
  obtain key hash where
    k: "idemKey (dc_actor ctx) (dc_command_id ctx) = Inr key" "L key = None"
       "decide st cmd ctx = Inr (Rejected Authz reason det evs)"
       "r = toStored (Rejected Authz reason det evs)" "es = evs" "L' = L"
    using assms by (rule applyCommand_fresh) simp
  from decide_shape[OF k(3)] k show ?thesis by simp
qed

theorem authz_refusal_not_ledgered_witness:
  "\<exists>r es d. applyCommand sample_crypto Map.empty None (Create ''t'' ''slug'')
     ((sample_ctx ''a'' 5 1)\<lparr>dc_isMember := (\<lambda>_. False)\<rparr>) = Inr (Map.empty, Fresh d r es) \<and>
     es = [] \<and> \<not> sr_ok r"
proof -
  let ?ctx = "(sample_ctx ''a'' 5 1)\<lparr>dc_isMember := (\<lambda>_. False)\<rparr>"
  obtain det r es where "applyCommand sample_crypto Map.empty None (Create ''t'' ''slug'') ?ctx =
      Inr (Map.empty, Fresh (Rejected Authz bad_state det []) r es)"
    by (simp add: applyCommand_def sample_hash sample_key decide_def task_authz_def Let_def)
  with authz_refusal_not_ledgered[OF this] show ?thesis by blast
qed

text \<open>
  Ledger keys identify the authenticated caller and the command id: two keys are equal only
  for the same kind of caller, the same identifier and the same command id, as long as the
  identifiers hold no NUL character. In particular a user and an agent whose identifiers are the
  same text never share an entry.
\<close>

theorem ledger_keys_are_separate:
  assumes "idemKey a c = Inr key" and "idemKey b d = Inr key"
    and "\<forall>x \<in> {a, b}. \<forall>p. idempotencyPrincipal x = Inr p \<longrightarrow> CHR 0x00 \<notin> set p"
  shows "c = d \<and> act_agent_principal a = act_agent_principal b \<and>
    (act_agent_principal a = None \<longrightarrow> act_user a = act_user b)"
proof -
  from assms(1,2) obtain p q where p: "idempotencyPrincipal a = Inr p" "idempotencyPrincipal b = Inr q"
    "p @ [CHR 0x00] @ c = q @ [CHR 0x00] @ d"
    by (auto simp: idemKey_def bind_result_Inr)
  with nul_split[OF p(3)] assms(3) have "p = q" "c = d" by auto
  with idempotencyPrincipal_kinds p show ?thesis by blast
qed

theorem ledger_keys_are_separate_witness:
  "\<exists>k1 k2. idemKey \<lparr>act_user = Some ''x'', act_agent_principal = None, act_run = None\<rparr> ''c'' = Inr k1 \<and>
     idemKey \<lparr>act_user = Some ''x'', act_agent_principal = Some ''x'', act_run = None\<rparr> ''c'' = Inr k2 \<and> k1 \<noteq> k2"
proof -
  let ?a = "\<lparr>act_user = Some ''x'', act_agent_principal = None, act_run = None\<rparr>"
  let ?b = "\<lparr>act_user = Some ''x'', act_agent_principal = Some ''x'', act_run = None\<rparr>"
  obtain k1 k2 where k: "idemKey ?a ''c'' = Inr k1" "idemKey ?b ''c'' = Inr k2"
    by (simp add: idemKey_def idempotencyPrincipal_def)
  have "k1 \<noteq> k2"
    using ledger_keys_are_separate[of ?a "''c''" k1 ?b "''c''"] k
    by (auto simp: idempotencyPrincipal_def)
  with k show ?thesis by blast
qed

text \<open>
  The request hash depends on the request, not on its spelling: two requests equal up to the
  order of the keys of their objects, at any depth, have the same canonical text and hash.
\<close>

theorem request_hash_ignores_key_order:
  assumes "json_same v w"
  shows "requestHash cr a v = requestHash cr a w"
proof -
  have "sortValue v = sortValue w" using assms by (rule sortValue_same)
  then show ?thesis by (simp add: requestHash_def canonicalJson_def)
qed

theorem request_hash_ignores_key_order_witness:
  "requestHash sample_crypto (sample_actor ''a'') (JObject [(''b'', JNull), (''a'', JArray [JBool True])]) =
     requestHash sample_crypto (sample_actor ''a'') (JObject [(''a'', JArray [JBool True]), (''b'', JNull)])"
  by (rule request_hash_ignores_key_order,
      rule same_object[where ys' = "[(''b'', JNull), (''a'', JArray [JBool True])]"])
     (auto intro: same_refl)

end
