(* ===== verification/Upcast.thy ===== *)
theory Upcast
  imports TaskReducer
begin

text \<open>
  The upcaster registry of \<open>src/protocol/upcasters.ts\<close>: persisted task events of an older schema are
  migrated one registered step at a time before the reducer sees them; a newer event or a missing
  step halts. A registry maps an event type and a version to a step; the one registered step takes
  a version 0 \<open>TaskCreated\<close> to the current fields.
\<close>

datatype upcast_error =
    NewerThanSupported event_type number
  | NoUpcaster event_type number
  | PayloadTypeError

type_synonym upcaster = "task_fields payload \<Rightarrow> upcast_error + task_fields payload"
type_synonym registry = "(event_type \<times> number) \<rightharpoonup> upcaster"

definition registerUpcaster :: "registry \<Rightarrow> event_type \<Rightarrow> number \<Rightarrow> upcaster \<Rightarrow> registry" where
  "registerUpcaster reg typ fromVersion fn = reg((typ, fromVersion) \<mapsto> fn)"

text \<open>Reading a property of \<open>null\<close> throws; a primitive has neither property.\<close>

fun upcast_created_0 :: upcaster where
  "upcast_created_0 NullPayload = Inl PayloadTypeError"
| "upcast_created_0 PrimitivePayload = Inr (Fields no_task_fields)"
| "upcast_created_0 (Fields p) =
     Inr (Fields (no_task_fields\<lparr>f_task_id := f_id p, f_slug := f_name p\<rparr>))"

definition default_registry :: registry where
  "default_registry = registerUpcaster Map.empty TaskCreated 0 upcast_created_0"

text \<open>The loop: the version goes up by one until it reaches the current one.\<close>

function upcast_loop ::
  "registry \<Rightarrow> event_type \<Rightarrow> number \<Rightarrow> task_fields payload \<Rightarrow> upcast_error + task_fields payload" where
  "upcast_loop reg typ v p =
     (if v < SCHEMA_VERSION then
        (case reg (typ, v) of
           None \<Rightarrow> Inl (NoUpcaster typ v)
         | Some fn \<Rightarrow> (case fn p of Inl e \<Rightarrow> Inl e | Inr p' \<Rightarrow> upcast_loop reg typ (v + 1) p'))
      else Inr p)"
  by pat_completeness auto

termination
proof (relation "measure (\<lambda>(reg, typ, v, p). nat \<lceil>SCHEMA_VERSION - v\<rceil>)")
  fix reg :: registry and ty :: event_type and v :: number and p p' fn
  assume lt: "v < SCHEMA_VERSION"
  have "\<lceil>SCHEMA_VERSION - (v + 1)\<rceil> = \<lceil>SCHEMA_VERSION - v\<rceil> - 1"
    by (simp add: diff_diff_eq[symmetric])
  moreover from lt have "0 < \<lceil>SCHEMA_VERSION - v\<rceil>" by simp
  ultimately show "((reg, ty, v + 1, p'), reg, ty, v, p) \<in>
      measure (\<lambda>(reg, typ, v, p). nat \<lceil>SCHEMA_VERSION - v\<rceil>)"
    by simp
qed simp

declare upcast_loop.simps [simp del]

definition upcastPayload ::
  "registry \<Rightarrow> event_type \<Rightarrow> number \<Rightarrow> task_fields payload \<Rightarrow> upcast_error + task_fields payload \<times> number" where
  "upcastPayload reg typ fromVersion pl =
     (if SCHEMA_VERSION < fromVersion then Inl (NewerThanSupported typ fromVersion)
      else bind_result (upcast_loop reg typ fromVersion pl) (\<lambda>p. Inr (p, SCHEMA_VERSION)))"

definition upcastEnvelope :: "registry \<Rightarrow> task_event \<Rightarrow> upcast_error + task_event" where
  "upcastEnvelope reg raw =
     bind_result (upcastPayload reg (ev_type raw) (ev_schema_version raw) (ev_payload raw))
       (\<lambda>(pl, v). Inr (raw\<lparr>ev_payload := pl, ev_schema_version := v\<rparr>))"

lemma upcast_current [simp]: "upcast_loop reg typ SCHEMA_VERSION p = Inr p"
  by (subst upcast_loop.simps) simp

lemma upcast_default:
  "v < SCHEMA_VERSION \<Longrightarrow> upcast_loop default_registry typ v p =
     (if typ = TaskCreated \<and> v = 0 then upcast_created_0 p else Inl (NoUpcaster typ v))"
  by (subst upcast_loop.simps)
     (auto simp: default_registry_def registerUpcaster_def upcast_loop.simps SCHEMA_VERSION_def
       split: sum.split)

lemma upcast_created_0_Inr: "upcast_created_0 p = Inr p' \<Longrightarrow> p \<noteq> NullPayload \<and> p' \<noteq> NullPayload"
  by (cases p) auto

lemma upcast_created_0_Inl: "upcast_created_0 p = Inl e \<longleftrightarrow> p = NullPayload \<and> e = PayloadTypeError"
  by (cases p) auto

section \<open>Properties\<close>

text \<open>
  C6. Migration is total and halts exactly where it should: with the shipped registry an event is
  delivered only when it is of the current version, and then unchanged, or when it is a version 0
  \<open>TaskCreated\<close> whose payload is not null, and then with only payload and version replaced, as a
  fixed point of the migration. It halts on a newer event, on an older one without a registered
  step, and on a null legacy payload.
\<close>

theorem upcast_delivers_or_halts:
  "case upcastEnvelope default_registry raw of
     Inr env \<Rightarrow>
       (if ev_schema_version raw = SCHEMA_VERSION then env = raw
        else ev_type raw = TaskCreated \<and> ev_schema_version raw = 0 \<and>
          env = raw\<lparr>ev_payload := ev_payload env, ev_schema_version := SCHEMA_VERSION\<rparr>) \<and>
       upcastEnvelope default_registry env = Inr env
   | Inl e \<Rightarrow>
       (if SCHEMA_VERSION < ev_schema_version raw
        then e = NewerThanSupported (ev_type raw) (ev_schema_version raw)
        else ev_schema_version raw < SCHEMA_VERSION \<and>
          (if ev_type raw = TaskCreated \<and> ev_schema_version raw = 0
           then ev_payload raw = NullPayload \<and> e = PayloadTypeError
           else e = NoUpcaster (ev_type raw) (ev_schema_version raw)))"
proof (cases "ev_schema_version raw" SCHEMA_VERSION rule: linorder_cases)
  case less
  then show ?thesis
    by (cases "ev_payload raw")
       (auto simp: upcastEnvelope_def upcastPayload_def upcast_default)
qed (auto simp: upcastEnvelope_def upcastPayload_def)

text \<open>
  A legacy creation replays to the same task as a current one: a version 0 \<open>TaskCreated\<close> with
  \<open>id\<close> and \<open>name\<close> migrates to an event the reducer turns into the initial task with that id and
  slug, while the reducer halts on the event as stored.
\<close>

theorem legacy_creation_replays:
  assumes "ev_type raw = TaskCreated" and "ev_schema_version raw = 0"
    and "ev_payload raw = Fields p" and "f_id p = Some tid" and "f_name p = Some slug"
  shows "\<exists>env. upcastEnvelope default_registry raw = Inr env \<and>
    reduceTask None env = Inr (initial_task tid slug) \<and>
    reduceTask None raw = Inl (StreamIntegrityError TaskCreated (ev_seq raw) (WrongSchemaVersion 0))"
proof -
  from assms(2) have "ev_schema_version raw < SCHEMA_VERSION" by (simp add: SCHEMA_VERSION_def)
  with assms show ?thesis
    by (auto simp: upcastEnvelope_def upcastPayload_def upcast_default reduceTask_def EVENT_TYPES_def
        task_req_def)
qed

definition legacy_created :: task_event where
  "legacy_created = \<lparr>ev_workspace_id = ''w'', ev_stream_id = ''s'', ev_seq = 1, ev_event_id = ''e'',
     ev_command_id = ''c'', ev_type = TaskCreated, ev_schema_version = 0, ev_actor_user = Some ''u'',
     ev_actor_agent_principal = None, ev_actor_run = None, ev_occurred_at_server = 5,
     ev_admin_identity_id = None, ev_grant_id = None, ev_grant_manifest_digest = None,
     ev_payload = Fields (no_task_fields\<lparr>f_id := Some ''t'', f_name := Some ''slug''\<rparr>)\<rparr>"

theorem legacy_creation_replays_witness:
  "\<exists>env. upcastEnvelope default_registry legacy_created = Inr env \<and>
     reduceTask None env = Inr (initial_task ''t'' ''slug'')"
  using legacy_creation_replays[of legacy_created
      "no_task_fields\<lparr>f_id := Some ''t'', f_name := Some ''slug''\<rparr>"]
  by (auto simp: legacy_created_def)

end
