(* ===== verification/JsText.thy ===== *)
theory JsText
  imports Prelude
begin

text \<open>
  JavaScript strings where their contents matter (names, models, feedback, scopes): a string is its
  sequence of UTF-16 code units, so \<open>length\<close> is the language's \<open>length\<close>. The built-ins the code
  applies to them: \<open>trim\<close>, \<open>toLowerCase\<close> as far as ASCII is concerned, splitting at a character
  class, \<open>endsWith\<close>/\<open>slice\<close> on suffixes, and the byte length of a JSON string in UTF-8. Values whose
  type the code itself tests are \<open>js_value\<close>.
\<close>

type_synonym jstext = "nat list"

text \<open>The text of an ASCII literal.\<close>

definition lit :: "string \<Rightarrow> jstext" where
  "lit s = map of_char s"

lemma length_lit [simp]: "length (lit s) = length s"
  by (simp add: lit_def)

lemma lit_inject [simp]: "lit s = lit t \<longleftrightarrow> s = t"
proof
  assume "lit s = lit t"
  then have "map char_of (lit s) = map char_of (lit t)" by simp
  then show "s = t" by (simp add: lit_def comp_def)
qed simp

text \<open>\<open>WhiteSpace\<close> and \<open>LineTerminator\<close> of ECMAScript, which \<open>String.prototype.trim\<close> strips.\<close>

definition white_unit :: "nat \<Rightarrow> bool" where
  "white_unit c \<longleftrightarrow> (9 \<le> c \<and> c \<le> 13) \<or> c = 32 \<or> c = 160 \<or> c = 0x1680 \<or>
     (0x2000 \<le> c \<and> c \<le> 0x200A) \<or> c = 0x2028 \<or> c = 0x2029 \<or> c = 0x202F \<or> c = 0x205F \<or>
     c = 0x3000 \<or> c = 0xFEFF"

definition trim :: "jstext \<Rightarrow> jstext" where
  "trim s = rev (dropWhile white_unit (rev (dropWhile white_unit s)))"

lemma length_trim: "length (trim s) \<le> length s"
  by (metis trim_def length_rev length_dropWhile_le order_trans)

lemma set_trim: "set (trim s) \<subseteq> set s"
  by (auto simp: trim_def dest!: set_dropWhileD)

lemma dropWhile_hd: "dropWhile P xs = [] \<or> \<not> P (hd (dropWhile P xs))"
  by (induction xs) auto

lemma trim_idem [simp]: "trim (trim s) = trim s"
proof -
  let ?d = "dropWhile white_unit"
  have "?d (rev (?d (rev (?d s)))) = rev (?d (rev (?d s)))"
  proof (cases "?d (rev (?d s)) = []")
    case False
    have eq: "?d s = rev (?d (rev (?d s))) @ rev (takeWhile white_unit (rev (?d s)))"
      by (metis takeWhile_dropWhile_id rev_append rev_rev_ident)
    from False have "?d s \<noteq> []" by (intro notI) simp
    with dropWhile_hd[of white_unit s] have "\<not> white_unit (hd (?d s))" by blast
    moreover have "hd (?d s) = hd (rev (?d (rev (?d s))))"
      using eq False by (metis hd_append2 rev_is_Nil_conv)
    ultimately show ?thesis using False by (cases "rev (?d (rev (?d s)))") auto
  next
    case True
    show ?thesis unfolding True by simp
  qed
  moreover have "?d (rev (rev (?d (rev (?d s))))) = ?d (rev (?d s))" by simp
  ultimately show ?thesis by (simp add: trim_def)
qed

text \<open>
  Lower case of one code unit as far as \<open>[a-z0-9]\<close> can be reached: the ASCII capitals, and the two
  other characters whose lower case starts with an ASCII letter (U+0130, U+212A). The remaining
  case mappings take non-ASCII to non-ASCII.
\<close>

definition lower_unit :: "nat \<Rightarrow> jstext" where
  "lower_unit c = (if 65 \<le> c \<and> c \<le> 90 then [c + 32]
     else if c = 0x130 then [105, 0x307]
     else if c = 0x212A then [107] else [c])"

definition toLowerCase :: "jstext \<Rightarrow> jstext" where
  "toLowerCase s = concat (map lower_unit s)"

text \<open>\<open>split\<close> at maximal runs of separators, keeping the non-empty pieces (\<open>filter(Boolean)\<close>).\<close>

fun words_acc :: "(nat \<Rightarrow> bool) \<Rightarrow> jstext \<Rightarrow> jstext \<Rightarrow> jstext list" where
  "words_acc sep w [] = (if w = [] then [] else [rev w])"
| "words_acc sep w (c # cs) =
     (if sep c then (if w = [] then words_acc sep [] cs else rev w # words_acc sep [] cs)
      else words_acc sep (c # w) cs)"

definition split_words :: "(nat \<Rightarrow> bool) \<Rightarrow> jstext \<Rightarrow> jstext list" where
  "split_words sep s = words_acc sep [] s"

definition endsWith :: "jstext \<Rightarrow> jstext \<Rightarrow> bool" where
  "endsWith s suf \<longleftrightarrow> length suf \<le> length s \<and> drop (length s - length suf) s = suf"

text \<open>\<open>slice(0, -n)\<close>.\<close>

definition slice_end :: "nat \<Rightarrow> jstext \<Rightarrow> jstext" where
  "slice_end n s = take (length s - n) s"

text \<open>
  Bytes of a string inside \<open>JSON.stringify\<close>, encoded by \<open>TextEncoder\<close>, without its quotes: two-byte
  escapes, six-byte escapes of other controls and of lone surrogates, UTF-8 otherwise.
\<close>

definition high_surrogate :: "nat \<Rightarrow> bool" where
  "high_surrogate c \<longleftrightarrow> 0xD800 \<le> c \<and> c \<le> 0xDBFF"

definition low_surrogate :: "nat \<Rightarrow> bool" where
  "low_surrogate c \<longleftrightarrow> 0xDC00 \<le> c \<and> c \<le> 0xDFFF"

definition json_unit_bytes :: "nat \<Rightarrow> nat" where
  "json_unit_bytes c =
     (if c = 34 \<or> c = 92 \<or> c \<in> {8, 9, 10, 12, 13} then 2
      else if c < 32 \<or> high_surrogate c \<or> low_surrogate c then 6
      else if c < 0x80 then 1 else if c < 0x800 then 2 else 3)"

fun json_text_bytes :: "jstext \<Rightarrow> nat" where
  "json_text_bytes [] = 0"
| "json_text_bytes [c] = json_unit_bytes c"
| "json_text_bytes (c # d # cs) =
     (if high_surrogate c \<and> low_surrogate d then 4 + json_text_bytes cs
      else json_unit_bytes c + json_text_bytes (d # cs))"

text \<open>The bytes of a flat object of strings: braces, and per entry two quoted texts and a colon.\<close>

definition json_object_bytes :: "(jstext \<times> jstext) list \<Rightarrow> nat" where
  "json_object_bytes es = 2 + sum_list (map (\<lambda>(k, v). json_text_bytes k + json_text_bytes v + 5) es) +
     (length es - 1)"

text \<open>A value of unknown type. An object lists its own enumerable properties.\<close>

datatype js_value =
    JsUndefined
  | JsNull
  | JsBool bool
  | JsNumber jsnum
  | JsString jstext
  | JsArray "js_value list"
  | JsObject "(jstext \<times> js_value) list"

end
