(* ===== verification/WorkspaceEvents.thy ===== *)
theory WorkspaceEvents
  imports JsText TaskEvents
begin

text \<open>
  The workspace event model of \<open>src/protocol/workspace-events.ts\<close> (and the event names of
  \<open>admin-routine-events.ts\<close>): the records a workspace projection keeps, the event types of a workspace
  stream and the payload fields they carry. Two type parameters stand for the admin routine, a
  projection of its own nested in the workspace: \<open>'p\<close> its payloads, \<open>'r\<close> its state.
\<close>

datatype workspace_role = RoleOwner | RoleAdmin | RoleMember

definition WORKSPACE_ROLES :: "workspace_role list" where
  "WORKSPACE_ROLES = [RoleOwner, RoleAdmin, RoleMember]"

datatype agent_transport = LocalTransport | HostedMcp

definition AGENT_TRANSPORTS :: "agent_transport list" where
  "AGENT_TRANSPORTS = [LocalTransport, HostedMcp]"

datatype admin_routine_type =
    AdminWorkspaceCreated | AdminSeatCreated | AdminSeatProvisioned | AdminSeatRenewed
  | AdminSeatCredentialReplaced | AdminSeatRevoked | AdminSeatCredentialRevoked
  | AdminMemberInvited | AdminAgentInvitationIssued | AdminInvitationRevoked
  | AdminMemberInvitationAccepted

definition ADMIN_ROUTINE_EVENT_TYPES :: "admin_routine_type list" where
  "ADMIN_ROUTINE_EVENT_TYPES = [AdminWorkspaceCreated, AdminSeatCreated, AdminSeatProvisioned,
     AdminSeatRenewed, AdminSeatCredentialReplaced, AdminSeatRevoked, AdminSeatCredentialRevoked,
     AdminMemberInvited, AdminAgentInvitationIssued, AdminInvitationRevoked,
     AdminMemberInvitationAccepted]"

datatype workspace_event_type =
    AdminRoutine admin_routine_type
  | WorkspaceCreated | WorkspaceArchived | WorkspaceRenamed
  | MemberInvited | InvitationRevoked | InvitationAccepted
  | MemberJoined | MemberRemoved | MemberRoleChanged
  | AgentAddedToWorkspace | AgentRemovedFromWorkspace
  | AgentPrincipalCreated | AgentPrincipalRevoked | AgentModelDeclared
  | FeedbackSubmitted | AgentTokenMinted | AgentTokenRevoked
  | HostedMcpGrantBegun | HostedMcpWorkspaceConsented | HostedMcpGrantActivated
  | HostedMcpGrantRevoked | HostedMcpSeatClaimed | HostedMcpSeatRevoked | HostedMcpSeatReleased
  | WorkspaceCommandRejected
  | UnknownWorkspaceEvent string

definition WORKSPACE_EVENT_TYPES :: "workspace_event_type list" where
  "WORKSPACE_EVENT_TYPES = map AdminRoutine ADMIN_ROUTINE_EVENT_TYPES @
     [WorkspaceCreated, WorkspaceArchived, WorkspaceRenamed, MemberInvited, InvitationRevoked,
      InvitationAccepted, MemberJoined, MemberRemoved, MemberRoleChanged, AgentAddedToWorkspace,
      AgentRemovedFromWorkspace, AgentPrincipalCreated, AgentPrincipalRevoked, AgentModelDeclared,
      FeedbackSubmitted, AgentTokenMinted, AgentTokenRevoked, HostedMcpGrantBegun,
      HostedMcpWorkspaceConsented, HostedMcpGrantActivated, HostedMcpGrantRevoked,
      HostedMcpSeatClaimed, HostedMcpSeatRevoked, HostedMcpSeatReleased, WorkspaceCommandRejected]"

section \<open>The projection\<close>

record workspace_record =
  wr_workspace_id :: string
  wr_name :: jstext
  wr_created_by :: string
  wr_created_at :: number
  wr_archived_at :: "number option"

record workspace_member =
  wm_user_id :: string
  wm_role :: workspace_role
  wm_invited_by :: "string option"
  wm_joined_at :: number
  wm_revoked_at :: "number option"

record workspace_invitation =
  wi_invitation_id :: string
  wi_email :: "string option"
  wi_role :: workspace_role
  wi_token_hash :: string
  wi_expires_at :: number
  wi_created_by :: string
  wi_created_at :: number
  wi_consumed_at :: "number option"
  wi_consumed_by :: "string option"
  wi_revoked_at :: "number option"

record workspace_principal =
  wp_principal_id :: string
  wp_owner_user_id :: string
  wp_name :: jstext
  wp_model :: "jstext option"
  wp_transport :: agent_transport
  wp_turn_only :: bool
  wp_created_at :: number
  wp_revoked_at :: "number option"

text \<open>
  A token row keeps, beyond the declared fields, the two lineage marks a successor's event carries:
  the reducer spreads the payload. They are \<open>undefined\<close> for other tokens.
\<close>

record workspace_token =
  wt_token_id :: string
  wt_principal_id :: string
  wt_run_id :: string
  wt_task_id :: "string option"
  wt_epoch :: "number option"
  wt_scopes :: "jstext list"
  wt_issued_at :: number
  wt_expires_at :: number
  wt_revoked_at :: "number option"
  wt_predecessor_token_id :: "string option"
  wt_renewal_grant_id :: "string option"

record 'r workspace_state =
  ws_admin_routine :: "'r option"
  ws_workspace :: workspace_record
  ws_members :: "workspace_member obj"
  ws_invitations :: "workspace_invitation obj"
  ws_principals :: "workspace_principal obj"
  ws_tokens :: "workspace_token obj"
  ws_owners_count :: number

section \<open>Payloads\<close>

datatype feedback_category = Bug | Idea | Friction | OtherCategory string
datatype reporter_kind = ReporterUser | ReporterAgent

text \<open>A \<open>role\<close>, \<open>transport\<close> or \<open>turn_only\<close> in the log may be any value, and the reducer tests it; \<open>Inr\<close>
  holds the values outside the declared type.\<close>

type_synonym 'a loose = "'a + string"

record 'p ws_fields =
  w_workspace_id :: "string option"
  w_name :: "jstext option"
  w_previous_name :: "jstext option"
  w_created_by :: "string option"
  w_created_at :: "number option"
  w_archived_at :: "number option"
  w_invitation_id :: "string option"
  w_email :: "string option option"
  w_role :: "workspace_role loose option"
  w_token_hash :: "string option"
  w_expires_at :: "number option"
  w_revoked_at :: "number option"
  w_consumed_by :: "string option"
  w_consumed_at :: "number option"
  w_user_id :: "string option"
  w_invited_by :: "string option option"
  w_joined_at :: "number option"
  w_from_role :: "workspace_role loose option"
  w_to_role :: "workspace_role loose option"
  w_principal_id :: "string option"
  w_owner_user_id :: "string option"
  w_model :: "jstext option option"
  w_transport :: "agent_transport loose option option"
  w_turn_only :: "bool loose option option"
  w_declared_at :: "number option"
  w_feedback_id :: "string option"
  w_category :: "feedback_category option"
  w_body :: "jstext option"
  w_context :: "(jstext \<times> jstext) list option option"
  w_reporter_kind :: "reporter_kind option"
  w_reporter_id :: "string option"
  w_submitted_at :: "number option"
  w_token_id :: "string option"
  w_run_id :: "string option"
  w_task_id :: "string option option"
  w_epoch :: "number option option"
  w_scopes :: "jstext list option"
  w_issued_at :: "number option"
  w_predecessor_token_id :: "string option"
  w_renewal_grant_id :: "string option"
  w_seat_id :: "string option"
  w_grant_id :: "string option"
  w_handle :: "jstext option"
  w_command :: "string option"
  w_reason :: "string option"
  w_detail :: "string option"
  w_routine :: "'p option"

text \<open>The empty payload \<open>{}\<close>.\<close>

definition no_fields :: "'p ws_fields" where
  "no_fields = \<lparr>w_workspace_id = None, w_name = None, w_previous_name = None, w_created_by = None,
     w_created_at = None, w_archived_at = None, w_invitation_id = None, w_email = None,
     w_role = None, w_token_hash = None, w_expires_at = None, w_revoked_at = None,
     w_consumed_by = None, w_consumed_at = None, w_user_id = None, w_invited_by = None,
     w_joined_at = None, w_from_role = None, w_to_role = None, w_principal_id = None,
     w_owner_user_id = None, w_model = None, w_transport = None, w_turn_only = None,
     w_declared_at = None, w_feedback_id = None, w_category = None, w_body = None,
     w_context = None, w_reporter_kind = None, w_reporter_id = None, w_submitted_at = None,
     w_token_id = None, w_run_id = None, w_task_id = None, w_epoch = None, w_scopes = None,
     w_issued_at = None, w_predecessor_token_id = None, w_renewal_grant_id = None,
     w_seat_id = None, w_grant_id = None, w_handle = None, w_command = None, w_reason = None,
     w_detail = None, w_routine = None\<rparr>"

text \<open>The keys the reducer requires.\<close>

datatype ws_key =
    W_workspace_id | W_name | W_previous_name | W_created_by | W_created_at | W_archived_at
  | W_invitation_id | W_email | W_role | W_token_hash | W_expires_at | W_revoked_at
  | W_consumed_by | W_consumed_at | W_user_id | W_invited_by | W_joined_at | W_from_role
  | W_to_role | W_principal_id | W_owner_user_id | W_declared_at | W_feedback_id | W_category
  | W_body | W_reporter_kind | W_reporter_id | W_submitted_at | W_token_id | W_run_id
  | W_task_id | W_epoch | W_scopes | W_issued_at | W_seat_id | W_grant_id | W_handle
  | W_transport | W_turn_only | W_command | W_reason | W_detail

fun ws_defines :: "'p ws_fields \<Rightarrow> ws_key \<Rightarrow> bool" where
  "ws_defines p W_workspace_id = (w_workspace_id p \<noteq> None)"
| "ws_defines p W_name = (w_name p \<noteq> None)"
| "ws_defines p W_previous_name = (w_previous_name p \<noteq> None)"
| "ws_defines p W_created_by = (w_created_by p \<noteq> None)"
| "ws_defines p W_created_at = (w_created_at p \<noteq> None)"
| "ws_defines p W_archived_at = (w_archived_at p \<noteq> None)"
| "ws_defines p W_invitation_id = (w_invitation_id p \<noteq> None)"
| "ws_defines p W_email = (w_email p \<noteq> None)"
| "ws_defines p W_role = (w_role p \<noteq> None)"
| "ws_defines p W_token_hash = (w_token_hash p \<noteq> None)"
| "ws_defines p W_expires_at = (w_expires_at p \<noteq> None)"
| "ws_defines p W_revoked_at = (w_revoked_at p \<noteq> None)"
| "ws_defines p W_consumed_by = (w_consumed_by p \<noteq> None)"
| "ws_defines p W_consumed_at = (w_consumed_at p \<noteq> None)"
| "ws_defines p W_user_id = (w_user_id p \<noteq> None)"
| "ws_defines p W_invited_by = (w_invited_by p \<noteq> None)"
| "ws_defines p W_joined_at = (w_joined_at p \<noteq> None)"
| "ws_defines p W_from_role = (w_from_role p \<noteq> None)"
| "ws_defines p W_to_role = (w_to_role p \<noteq> None)"
| "ws_defines p W_principal_id = (w_principal_id p \<noteq> None)"
| "ws_defines p W_owner_user_id = (w_owner_user_id p \<noteq> None)"
| "ws_defines p W_declared_at = (w_declared_at p \<noteq> None)"
| "ws_defines p W_feedback_id = (w_feedback_id p \<noteq> None)"
| "ws_defines p W_category = (w_category p \<noteq> None)"
| "ws_defines p W_body = (w_body p \<noteq> None)"
| "ws_defines p W_reporter_kind = (w_reporter_kind p \<noteq> None)"
| "ws_defines p W_reporter_id = (w_reporter_id p \<noteq> None)"
| "ws_defines p W_submitted_at = (w_submitted_at p \<noteq> None)"
| "ws_defines p W_token_id = (w_token_id p \<noteq> None)"
| "ws_defines p W_run_id = (w_run_id p \<noteq> None)"
| "ws_defines p W_task_id = (w_task_id p \<noteq> None)"
| "ws_defines p W_epoch = (w_epoch p \<noteq> None)"
| "ws_defines p W_scopes = (w_scopes p \<noteq> None)"
| "ws_defines p W_issued_at = (w_issued_at p \<noteq> None)"
| "ws_defines p W_seat_id = (w_seat_id p \<noteq> None)"
| "ws_defines p W_grant_id = (w_grant_id p \<noteq> None)"
| "ws_defines p W_handle = (w_handle p \<noteq> None)"
| "ws_defines p W_transport = (w_transport p \<noteq> None)"
| "ws_defines p W_turn_only = (w_turn_only p \<noteq> None)"
| "ws_defines p W_command = (w_command p \<noteq> None)"
| "ws_defines p W_reason = (w_reason p \<noteq> None)"
| "ws_defines p W_detail = (w_detail p \<noteq> None)"

type_synonym 'p ws_event = "(workspace_event_type, 'p ws_fields) envelope"

end
