(* ===== verification/WorkspaceReducer.thy ===== *)
theory WorkspaceReducer
  imports WorkspaceEvents TaskReducer
begin

text \<open>
  The pure workspace reducer of \<open>src/protocol/workspace-reducer.ts\<close>: one definition per event of the
  switch, \<open>reduceWorkspace\<close> with its guards before and the owner count assertion after, and the
  sequence-checked loop \<open>reduceWorkspaceStream\<close>. The nested admin routine reducer
  (\<open>reduceAdminRoutine\<close> of \<open>admin-routine.ts\<close>) is the argument \<open>ra\<close>.
\<close>

datatype ws_integrity =
    WsBadPayload "ws_key req_error"
  | WsWrongSchemaVersion number
  | WsRejectedBeforeCreated
  | WsAlreadyExists
  | WsBeforeCreated
  | InvalidDelegatedActor
  | RenameNotFollowing
  | ArchivedTwice
  | DuplicateInvitation string
  | DuplicateTokenHash
  | UnknownInvitation string
  | InvalidRole ws_key
  | JoinedTwice string
  | RemoveNonLive string
  | StaleRoleChange
  | OwnershipChanged
  | InvalidAgentTransport
  | AgentIdentityChanged
  | DuplicatePrincipal string
  | InvalidTransport
  | NonBooleanTurnOnly
  | HostedNotTurnOnly
  | UnknownPrincipal string
  | DuplicateToken string
  | UnknownToken string
  | SeatWorkspaceMismatch
  | SeatInvalidTransport
  | SeatPrincipalMismatch
  | OwnerCountViolated number nat
  | WsOutOfOrder jsnum

datatype 'e ws_reduce_error =
    WsUnknownEventType workspace_event_type number
  | WsIntegrity workspace_event_type number ws_integrity
  | AdminRoutineError 'e

type_synonym ('e, 'p, 'r) admin_reducer = "'r option \<Rightarrow> 'p ws_event \<Rightarrow> 'e + 'r"
type_synonym ('e, 'r) ws_outcome = "'e ws_reduce_error + 'r workspace_state"

definition ws_halt :: "'p ws_event \<Rightarrow> ws_integrity \<Rightarrow> 'e ws_reduce_error + 'a" where
  "ws_halt env x = Inl (WsIntegrity (ev_type env) (ev_seq env) x)"

definition ws_req :: "'p ws_event \<Rightarrow> ws_key list \<Rightarrow> 'e ws_reduce_error + 'p ws_fields" where
  "ws_req env keys = (case req ws_defines (ev_payload env) keys of
     Inl e \<Rightarrow> ws_halt env (WsBadPayload e) | Inr p \<Rightarrow> Inr p)"

definition ownerDelta :: "workspace_role option \<Rightarrow> workspace_role option \<Rightarrow> number" where
  "ownerDelta from_role to_role =
     (if to_role = Some RoleOwner then 1 else 0) - (if from_role = Some RoleOwner then 1 else 0)"

text \<open>\<open>assertRole\<close> returns the role it checked.\<close>

definition assertRole ::
  "workspace_role loose option \<Rightarrow> ws_key \<Rightarrow> 'p ws_event \<Rightarrow> 'e ws_reduce_error + workspace_role" where
  "assertRole v field env = (case v of
     Some (Inl r) \<Rightarrow> if r \<in> set WORKSPACE_ROLES then Inr r else ws_halt env (InvalidRole field)
   | _ \<Rightarrow> ws_halt env (InvalidRole field))"

definition live_owner :: "workspace_member \<Rightarrow> bool" where
  "live_owner m \<longleftrightarrow> wm_revoked_at m = None \<and> wm_role m = RoleOwner"

definition assertOwnerCount ::
  "'r workspace_state \<Rightarrow> 'p ws_event \<Rightarrow> 'e ws_reduce_error + unit" where
  "assertOwnerCount s env = (let actual = obj_count live_owner (ws_members s) in
     if ws_owners_count s \<noteq> of_nat actual \<or> actual < 1
     then ws_halt env (OwnerCountViolated (ws_owners_count s) actual) else Inr ())"

section \<open>One definition per event\<close>

definition ws_created :: "'p ws_event \<Rightarrow> ('e, 'r) ws_outcome" where
  "ws_created env =
     bind_result (ws_req env [W_workspace_id, W_name, W_created_by, W_created_at]) (\<lambda>p.
     let creator = the (w_created_by p); created = the (w_created_at p) in
     Inr \<lparr>ws_admin_routine = None,
          ws_workspace = \<lparr>wr_workspace_id = the (w_workspace_id p), wr_name = the (w_name p),
            wr_created_by = creator, wr_created_at = created, wr_archived_at = None\<rparr>,
          ws_members = [(creator, \<lparr>wm_user_id = creator, wm_role = RoleOwner,
            wm_invited_by = None, wm_joined_at = created, wm_revoked_at = None\<rparr>)],
          ws_invitations = [], ws_principals = [], ws_tokens = [], ws_owners_count = 1\<rparr>)"

definition ws_renamed :: "'r workspace_state \<Rightarrow> 'p ws_event \<Rightarrow> ('e, 'r) ws_outcome" where
  "ws_renamed s env =
     bind_result (ws_req env [W_name, W_previous_name]) (\<lambda>p.
     if the (w_name p) = [] \<or> the (w_previous_name p) \<noteq> wr_name (ws_workspace s)
     then ws_halt env RenameNotFollowing
     else Inr (s\<lparr>ws_workspace := (ws_workspace s)\<lparr>wr_name := the (w_name p)\<rparr>\<rparr>))"

definition ws_archived :: "'r workspace_state \<Rightarrow> 'p ws_event \<Rightarrow> ('e, 'r) ws_outcome" where
  "ws_archived s env =
     bind_result (ws_req env [W_archived_at]) (\<lambda>p.
     if wr_archived_at (ws_workspace s) \<noteq> None then ws_halt env ArchivedTwice
     else Inr (s\<lparr>ws_workspace := (ws_workspace s)\<lparr>wr_archived_at := w_archived_at p\<rparr>\<rparr>))"

definition ws_invited :: "'r workspace_state \<Rightarrow> 'p ws_event \<Rightarrow> ('e, 'r) ws_outcome" where
  "ws_invited s env =
     bind_result (ws_req env [W_invitation_id, W_email, W_role, W_token_hash, W_expires_at,
       W_created_by, W_created_at]) (\<lambda>p.
     let iid = the (w_invitation_id p); hash = the (w_token_hash p) in
     if obj_get (ws_invitations s) iid \<noteq> None then ws_halt env (DuplicateInvitation iid)
     else if \<exists>i \<in> set (obj_values (ws_invitations s)). wi_token_hash i = hash
     then ws_halt env DuplicateTokenHash
     else bind_result (assertRole (w_role p) W_role env) (\<lambda>r.
       Inr (s\<lparr>ws_invitations := obj_put (ws_invitations s) iid
         \<lparr>wi_invitation_id = iid, wi_email = the (w_email p), wi_role = r, wi_token_hash = hash,
          wi_expires_at = the (w_expires_at p), wi_created_by = the (w_created_by p),
          wi_created_at = the (w_created_at p), wi_consumed_at = None, wi_consumed_by = None,
          wi_revoked_at = None\<rparr>\<rparr>)))"

definition ws_invitation_revoked :: "'r workspace_state \<Rightarrow> 'p ws_event \<Rightarrow> ('e, 'r) ws_outcome" where
  "ws_invitation_revoked s env =
     bind_result (ws_req env [W_invitation_id, W_revoked_at]) (\<lambda>p.
     let iid = the (w_invitation_id p) in
     case obj_get (ws_invitations s) iid of
       None \<Rightarrow> ws_halt env (UnknownInvitation iid)
     | Some i \<Rightarrow> Inr (s\<lparr>ws_invitations :=
         obj_put (ws_invitations s) iid (i\<lparr>wi_revoked_at := w_revoked_at p\<rparr>)\<rparr>))"

definition ws_invitation_accepted :: "'r workspace_state \<Rightarrow> 'p ws_event \<Rightarrow> ('e, 'r) ws_outcome" where
  "ws_invitation_accepted s env =
     bind_result (ws_req env [W_invitation_id, W_consumed_by, W_consumed_at]) (\<lambda>p.
     let iid = the (w_invitation_id p) in
     case obj_get (ws_invitations s) iid of
       None \<Rightarrow> ws_halt env (UnknownInvitation iid)
     | Some i \<Rightarrow> Inr (s\<lparr>ws_invitations := obj_put (ws_invitations s) iid
         (i\<lparr>wi_consumed_at := w_consumed_at p, wi_consumed_by := w_consumed_by p\<rparr>)\<rparr>))"

definition ws_joined :: "'r workspace_state \<Rightarrow> 'p ws_event \<Rightarrow> ('e, 'r) ws_outcome" where
  "ws_joined s env =
     bind_result (ws_req env [W_user_id, W_role, W_invited_by, W_joined_at]) (\<lambda>p.
     let uid = the (w_user_id p) in
     bind_result (assertRole (w_role p) W_role env) (\<lambda>r.
     if (case obj_get (ws_members s) uid of None \<Rightarrow> False | Some m \<Rightarrow> wm_revoked_at m = None)
     then ws_halt env (JoinedTwice uid)
     else Inr (s\<lparr>ws_members := obj_put (ws_members s) uid
            \<lparr>wm_user_id = uid, wm_role = r, wm_invited_by = the (w_invited_by p),
             wm_joined_at = the (w_joined_at p), wm_revoked_at = None\<rparr>,
          ws_owners_count := ws_owners_count s + ownerDelta None (Some r)\<rparr>)))"

definition ws_removed :: "'r workspace_state \<Rightarrow> 'p ws_event \<Rightarrow> ('e, 'r) ws_outcome" where
  "ws_removed s env =
     bind_result (ws_req env [W_user_id, W_revoked_at]) (\<lambda>p.
     let uid = the (w_user_id p) in
     case obj_get (ws_members s) uid of
       None \<Rightarrow> ws_halt env (RemoveNonLive uid)
     | Some m \<Rightarrow>
         if wm_revoked_at m \<noteq> None then ws_halt env (RemoveNonLive uid)
         else Inr (s\<lparr>ws_members := obj_put (ws_members s) uid (m\<lparr>wm_revoked_at := w_revoked_at p\<rparr>),
                ws_owners_count := ws_owners_count s + ownerDelta (Some (wm_role m)) None\<rparr>))"

definition ws_role_changed :: "'r workspace_state \<Rightarrow> 'p ws_event \<Rightarrow> ('e, 'r) ws_outcome" where
  "ws_role_changed s env =
     bind_result (ws_req env [W_user_id, W_from_role, W_to_role]) (\<lambda>p.
     let uid = the (w_user_id p) in
     bind_result (assertRole (w_from_role p) W_from_role env) (\<lambda>from_role.
     bind_result (assertRole (w_to_role p) W_to_role env) (\<lambda>to_role.
     case obj_get (ws_members s) uid of
       None \<Rightarrow> ws_halt env StaleRoleChange
     | Some m \<Rightarrow>
         if wm_revoked_at m \<noteq> None \<or> wm_role m \<noteq> from_role then ws_halt env StaleRoleChange
         else Inr (s\<lparr>ws_members := obj_put (ws_members s) uid (m\<lparr>wm_role := to_role\<rparr>),
                ws_owners_count :=
                  ws_owners_count s + ownerDelta (Some from_role) (Some to_role)\<rparr>))))"

definition model_or_null :: "'p ws_fields \<Rightarrow> jstext option" where
  "model_or_null p = (case w_model p of Some m \<Rightarrow> m | None \<Rightarrow> None)"

text \<open>The two pairs of transport and turn-only flag an added agent may have.\<close>

definition added_transport :: "'p ws_fields \<Rightarrow> (agent_transport \<times> bool) option" where
  "added_transport p =
     (if w_transport p = Some (Some (Inl LocalTransport)) \<and> w_turn_only p = Some (Some (Inl False))
      then Some (LocalTransport, False)
      else if w_transport p = Some (Some (Inl HostedMcp)) \<and> w_turn_only p = Some (Some (Inl True))
      then Some (HostedMcp, True) else None)"

definition ws_agent_added :: "'r workspace_state \<Rightarrow> 'p ws_event \<Rightarrow> ('e, 'r) ws_outcome" where
  "ws_agent_added s env =
     bind_result (ws_req env [W_principal_id, W_owner_user_id, W_name, W_created_at]) (\<lambda>p.
     let pid = the (w_principal_id p); existing = obj_get (ws_principals s) pid in
     if (case existing of None \<Rightarrow> False | Some e \<Rightarrow> wp_owner_user_id e \<noteq> the (w_owner_user_id p))
     then ws_halt env OwnershipChanged
     else case added_transport p of
       None \<Rightarrow> ws_halt env InvalidAgentTransport
     | Some (transport, turn_only) \<Rightarrow>
         if (case existing of None \<Rightarrow> False
             | Some e \<Rightarrow> wp_transport e \<noteq> transport \<or> wp_turn_only e \<noteq> turn_only \<or>
                 wp_name e \<noteq> the (w_name p))
         then ws_halt env AgentIdentityChanged
         else Inr (s\<lparr>ws_principals := obj_put (ws_principals s) pid
                \<lparr>wp_principal_id = pid, wp_owner_user_id = the (w_owner_user_id p),
                 wp_name = the (w_name p), wp_model = model_or_null p, wp_transport = transport,
                 wp_turn_only = turn_only, wp_created_at = the (w_created_at p),
                 wp_revoked_at = None\<rparr>\<rparr>))"

definition ws_agent_removed :: "'r workspace_state \<Rightarrow> 'p ws_event \<Rightarrow> ('e, 'r) ws_outcome" where
  "ws_agent_removed s env =
     bind_result (ws_req env [W_principal_id, W_revoked_at]) (\<lambda>p.
     let pid = the (w_principal_id p) in
     case obj_get (ws_principals s) pid of
       None \<Rightarrow> Inr s
     | Some e \<Rightarrow> Inr (s\<lparr>ws_principals :=
         obj_put (ws_principals s) pid (e\<lparr>wp_revoked_at := w_revoked_at p\<rparr>)\<rparr>))"

text \<open>\<open>p.transport ?? 'local'\<close> and \<open>p.turn_only ?? false\<close>.\<close>

definition transport_or_local :: "'p ws_fields \<Rightarrow> agent_transport loose" where
  "transport_or_local p = (case w_transport p of Some (Some t) \<Rightarrow> t | _ \<Rightarrow> Inl LocalTransport)"

definition turn_only_or_false :: "'p ws_fields \<Rightarrow> bool loose" where
  "turn_only_or_false p = (case w_turn_only p of Some (Some b) \<Rightarrow> b | _ \<Rightarrow> Inl False)"

definition ws_principal_created :: "'r workspace_state \<Rightarrow> 'p ws_event \<Rightarrow> ('e, 'r) ws_outcome" where
  "ws_principal_created s env =
     bind_result (ws_req env [W_principal_id, W_owner_user_id, W_name, W_created_at]) (\<lambda>p.
     let pid = the (w_principal_id p) in
     if obj_get (ws_principals s) pid \<noteq> None then ws_halt env (DuplicatePrincipal pid)
     else case transport_or_local p of
       Inr _ \<Rightarrow> ws_halt env InvalidTransport
     | Inl transport \<Rightarrow>
         if transport \<notin> set AGENT_TRANSPORTS then ws_halt env InvalidTransport
         else case turn_only_or_false p of
           Inr _ \<Rightarrow> ws_halt env NonBooleanTurnOnly
         | Inl turnOnly \<Rightarrow>
             if transport = HostedMcp \<and> \<not> turnOnly then ws_halt env HostedNotTurnOnly
             else Inr (s\<lparr>ws_principals := obj_put (ws_principals s) pid
                    \<lparr>wp_principal_id = pid, wp_owner_user_id = the (w_owner_user_id p),
                     wp_name = the (w_name p), wp_model = model_or_null p,
                     wp_transport = transport, wp_turn_only = turnOnly,
                     wp_created_at = the (w_created_at p), wp_revoked_at = None\<rparr>\<rparr>))"

definition ws_feedback :: "'r workspace_state \<Rightarrow> 'p ws_event \<Rightarrow> ('e, 'r) ws_outcome" where
  "ws_feedback s env =
     bind_result (ws_req env [W_feedback_id, W_category, W_body, W_reporter_kind, W_reporter_id,
       W_submitted_at]) (\<lambda>_. Inr s)"

definition ws_model_declared :: "'r workspace_state \<Rightarrow> 'p ws_event \<Rightarrow> ('e, 'r) ws_outcome" where
  "ws_model_declared s env =
     bind_result (ws_req env [W_principal_id, W_declared_at]) (\<lambda>p.
     let pid = the (w_principal_id p) in
     case obj_get (ws_principals s) pid of
       None \<Rightarrow> ws_halt env (UnknownPrincipal pid)
     | Some e \<Rightarrow> Inr (s\<lparr>ws_principals :=
         obj_put (ws_principals s) pid (e\<lparr>wp_model := model_or_null p\<rparr>)\<rparr>))"

text \<open>\<open>AgentPrincipalRevoked\<close>; \<open>HostedMcpSeatRevoked\<close> does the same after requiring a seat id.\<close>

definition ws_principal_revoked ::
  "ws_key list \<Rightarrow> 'r workspace_state \<Rightarrow> 'p ws_event \<Rightarrow> ('e, 'r) ws_outcome" where
  "ws_principal_revoked keys s env =
     bind_result (ws_req env keys) (\<lambda>p.
     let pid = the (w_principal_id p) in
     case obj_get (ws_principals s) pid of
       None \<Rightarrow> ws_halt env (UnknownPrincipal pid)
     | Some e \<Rightarrow> Inr (s\<lparr>ws_principals :=
         obj_put (ws_principals s) pid (e\<lparr>wp_revoked_at := w_revoked_at p\<rparr>)\<rparr>))"

definition ws_token_minted :: "'r workspace_state \<Rightarrow> 'p ws_event \<Rightarrow> ('e, 'r) ws_outcome" where
  "ws_token_minted s env =
     bind_result (ws_req env [W_token_id, W_principal_id, W_run_id, W_task_id, W_epoch, W_scopes,
       W_issued_at, W_expires_at]) (\<lambda>p.
     let tid = the (w_token_id p) in
     if obj_get (ws_tokens s) tid \<noteq> None then ws_halt env (DuplicateToken tid)
     else Inr (s\<lparr>ws_tokens := obj_put (ws_tokens s) tid
            \<lparr>wt_token_id = tid, wt_principal_id = the (w_principal_id p),
             wt_run_id = the (w_run_id p), wt_task_id = the (w_task_id p),
             wt_epoch = the (w_epoch p), wt_scopes = the (w_scopes p),
             wt_issued_at = the (w_issued_at p), wt_expires_at = the (w_expires_at p),
             wt_revoked_at = None, wt_predecessor_token_id = w_predecessor_token_id p,
             wt_renewal_grant_id = w_renewal_grant_id p\<rparr>\<rparr>))"

definition ws_token_revoked :: "'r workspace_state \<Rightarrow> 'p ws_event \<Rightarrow> ('e, 'r) ws_outcome" where
  "ws_token_revoked s env =
     bind_result (ws_req env [W_token_id, W_revoked_at]) (\<lambda>p.
     let tid = the (w_token_id p) in
     case obj_get (ws_tokens s) tid of
       None \<Rightarrow> ws_halt env (UnknownToken tid)
     | Some t \<Rightarrow> Inr (s\<lparr>ws_tokens :=
         obj_put (ws_tokens s) tid (t\<lparr>wt_revoked_at := w_revoked_at p\<rparr>)\<rparr>))"

definition ws_seat_claimed :: "'r workspace_state \<Rightarrow> 'p ws_event \<Rightarrow> ('e, 'r) ws_outcome" where
  "ws_seat_claimed s env =
     bind_result (ws_req env [W_seat_id, W_grant_id, W_workspace_id, W_owner_user_id,
       W_principal_id, W_name, W_handle, W_transport, W_turn_only, W_created_at]) (\<lambda>p.
     let pid = the (w_principal_id p) in
     if the (w_workspace_id p) \<noteq> wr_workspace_id (ws_workspace s)
     then ws_halt env SeatWorkspaceMismatch
     else if w_transport p \<noteq> Some (Some (Inl HostedMcp)) \<or> w_turn_only p \<noteq> Some (Some (Inl True))
     then ws_halt env SeatInvalidTransport
     else case obj_get (ws_principals s) pid of
       Some e \<Rightarrow>
         if wp_owner_user_id e \<noteq> the (w_owner_user_id p) \<or> wp_name e \<noteq> the (w_name p) \<or>
            wp_transport e \<noteq> HostedMcp \<or> \<not> wp_turn_only e \<or> wp_revoked_at e \<noteq> None
         then ws_halt env SeatPrincipalMismatch
         else Inr (s\<lparr>ws_principals := obj_put (ws_principals s) pid e\<rparr>)
     | None \<Rightarrow>
         Inr (s\<lparr>ws_principals := obj_put (ws_principals s) pid
           \<lparr>wp_principal_id = pid, wp_owner_user_id = the (w_owner_user_id p),
            wp_name = the (w_name p), wp_model = None, wp_transport = HostedMcp,
            wp_turn_only = True, wp_created_at = the (w_created_at p), wp_revoked_at = None\<rparr>\<rparr>))"

section \<open>The reducer\<close>

text \<open>The switch, for a workspace that exists.\<close>

definition reduce_ws_event :: "'r workspace_state \<Rightarrow> 'p ws_event \<Rightarrow> ('e, 'r) ws_outcome" where
  "reduce_ws_event s env = (case ev_type env of
     WorkspaceRenamed \<Rightarrow> ws_renamed s env
   | WorkspaceArchived \<Rightarrow> ws_archived s env
   | MemberInvited \<Rightarrow> ws_invited s env
   | InvitationRevoked \<Rightarrow> ws_invitation_revoked s env
   | InvitationAccepted \<Rightarrow> ws_invitation_accepted s env
   | MemberJoined \<Rightarrow> ws_joined s env
   | MemberRemoved \<Rightarrow> ws_removed s env
   | MemberRoleChanged \<Rightarrow> ws_role_changed s env
   | AgentAddedToWorkspace \<Rightarrow> ws_agent_added s env
   | AgentRemovedFromWorkspace \<Rightarrow> ws_agent_removed s env
   | AgentPrincipalCreated \<Rightarrow> ws_principal_created s env
   | FeedbackSubmitted \<Rightarrow> ws_feedback s env
   | AgentModelDeclared \<Rightarrow> ws_model_declared s env
   | AgentPrincipalRevoked \<Rightarrow> ws_principal_revoked [W_principal_id, W_revoked_at] s env
   | AgentTokenMinted \<Rightarrow> ws_token_minted s env
   | AgentTokenRevoked \<Rightarrow> ws_token_revoked s env
   | HostedMcpSeatClaimed \<Rightarrow> ws_seat_claimed s env
   | HostedMcpSeatRevoked \<Rightarrow> ws_principal_revoked [W_seat_id, W_principal_id, W_revoked_at] s env
   | HostedMcpGrantBegun \<Rightarrow> Inr s
   | HostedMcpWorkspaceConsented \<Rightarrow> Inr s
   | HostedMcpGrantActivated \<Rightarrow> Inr s
   | HostedMcpGrantRevoked \<Rightarrow> Inr s
   | HostedMcpSeatReleased \<Rightarrow> Inr s
   | t \<Rightarrow> Inl (WsUnknownEventType t (ev_seq env)))"

text \<open>JavaScript truthiness of an optional string.\<close>

definition truthy :: "string option \<Rightarrow> bool" where
  "truthy v \<longleftrightarrow> v \<noteq> None \<and> v \<noteq> Some []"

definition reduceWorkspace ::
  "('e, 'p, 'r) admin_reducer \<Rightarrow> 'r workspace_state option \<Rightarrow> 'p ws_event \<Rightarrow> ('e, 'r) ws_outcome" where
  "reduceWorkspace ra prev env =
     (if ev_type env \<notin> set WORKSPACE_EVENT_TYPES
      then Inl (WsUnknownEventType (ev_type env) (ev_seq env))
      else if ev_schema_version env \<noteq> SCHEMA_VERSION
      then ws_halt env (WsWrongSchemaVersion (ev_schema_version env))
      else if ev_type env = WorkspaceCommandRejected then
        bind_result (ws_req env [W_workspace_id, W_command, W_reason, W_detail]) (\<lambda>_.
          case prev of None \<Rightarrow> ws_halt env WsRejectedBeforeCreated | Some s \<Rightarrow> Inr s)
      else if ev_type env = WorkspaceCreated then
        (case prev of Some _ \<Rightarrow> ws_halt env WsAlreadyExists | None \<Rightarrow> ws_created env)
      else case prev of
        None \<Rightarrow> ws_halt env WsBeforeCreated
      | Some s \<Rightarrow>
          (case ev_type env of
             AdminRoutine _ \<Rightarrow>
               if \<not> truthy (ev_grant_id env) \<or> \<not> truthy (ev_admin_identity_id env) \<or>
                  \<not> truthy (ev_grant_manifest_digest env) \<or> ev_actor_user env \<noteq> None \<or>
                  ev_actor_agent_principal env \<noteq> None
               then ws_halt env InvalidDelegatedActor
               else (case ra (ws_admin_routine s) env of
                   Inl e \<Rightarrow> Inl (AdminRoutineError e)
                 | Inr r \<Rightarrow> Inr (s\<lparr>ws_admin_routine := Some r\<rparr>))
           | _ \<Rightarrow> bind_result (reduce_ws_event s env) (\<lambda>next_state.
               bind_result (assertOwnerCount next_state env) (\<lambda>_. Inr next_state))))"

fun reduceWorkspaceStream_loop ::
  "('e, 'p, 'r) admin_reducer \<Rightarrow> 'r workspace_state option \<Rightarrow> jsnum \<Rightarrow> 'p ws_event list \<Rightarrow>
     'e ws_reduce_error + 'r workspace_state option" where
  "reduceWorkspaceStream_loop ra s lastSeq [] = Inr s"
| "reduceWorkspaceStream_loop ra s lastSeq (env # es) =
     (if js_le (Fin (ev_seq env)) lastSeq then ws_halt env (WsOutOfOrder lastSeq)
      else bind_result (reduceWorkspace ra s env) (\<lambda>s'.
        reduceWorkspaceStream_loop ra (Some s') (Fin (ev_seq env)) es))"

definition reduceWorkspaceStream ::
  "('e, 'p, 'r) admin_reducer \<Rightarrow> 'p ws_event list \<Rightarrow> 'e ws_reduce_error + 'r workspace_state option" where
  "reduceWorkspaceStream ra events = reduceWorkspaceStream_loop ra None NegInf events"

section \<open>The workspace invariant\<close>

text \<open>A dictionary each of whose entries carries its own key.\<close>

definition keyed :: "('v \<Rightarrow> string) \<Rightarrow> 'v obj \<Rightarrow> bool" where
  "keyed key ob \<longleftrightarrow> obj_wf ob \<and> (\<forall>k v. obj_get ob k = Some v \<longrightarrow> key v = k)"

lemma keyed_empty [simp]: "keyed key []"
  by (simp add: keyed_def)

lemma keyed_put [simp]: "keyed key ob \<Longrightarrow> key v = k \<Longrightarrow> keyed key (obj_put ob k v)"
  by (simp add: keyed_def)

lemma keyed_get: "keyed key ob \<Longrightarrow> obj_get ob k = Some v \<Longrightarrow> key v = k"
  by (simp add: keyed_def)

definition all_entries :: "('v \<Rightarrow> bool) \<Rightarrow> 'v obj \<Rightarrow> bool" where
  "all_entries P ob \<longleftrightarrow> (\<forall>k v. obj_get ob k = Some v \<longrightarrow> P v)"

lemma all_entries_empty [simp]: "all_entries P []"
  by (simp add: all_entries_def)

lemma all_entries_put [simp]: "all_entries P ob \<Longrightarrow> P v \<Longrightarrow> all_entries P (obj_put ob k v)"
  by (simp add: all_entries_def)

lemma all_entries_get: "all_entries P ob \<Longrightarrow> obj_get ob k = Some v \<Longrightarrow> P v"
  by (simp add: all_entries_def)

text \<open>No two entries with the same token hash.\<close>

definition hashes_unique :: "workspace_invitation obj \<Rightarrow> bool" where
  "hashes_unique ob \<longleftrightarrow> (\<forall>k k' i j. obj_get ob k = Some i \<longrightarrow> obj_get ob k' = Some j \<longrightarrow>
     wi_token_hash i = wi_token_hash j \<longrightarrow> k = k')"

lemma hashes_unique_empty [simp]: "hashes_unique []"
  by (simp add: hashes_unique_def)

lemma hashes_unique_new:
  "hashes_unique ob \<Longrightarrow> \<forall>i \<in> set (obj_values ob). wi_token_hash i \<noteq> wi_token_hash v \<Longrightarrow>
     hashes_unique (obj_put ob k v)"
  by (auto simp: hashes_unique_def dest: obj_get_values)

lemma hashes_unique_same:
  "hashes_unique ob \<Longrightarrow> obj_get ob k = Some i \<Longrightarrow> wi_token_hash v = wi_token_hash i \<Longrightarrow>
     hashes_unique (obj_put ob k v)"
  by (auto simp: hashes_unique_def split: if_splits)

definition owners_ok :: "'r workspace_state \<Rightarrow> bool" where
  "owners_ok s \<longleftrightarrow> ws_owners_count s = of_nat (obj_count live_owner (ws_members s)) \<and>
     1 \<le> obj_count live_owner (ws_members s)"

definition transport_ok :: "workspace_principal \<Rightarrow> bool" where
  "transport_ok e \<longleftrightarrow> wp_transport e = HostedMcp \<longrightarrow> wp_turn_only e"

definition tables_ok :: "'r workspace_state \<Rightarrow> bool" where
  "tables_ok s \<longleftrightarrow> keyed wm_user_id (ws_members s) \<and> keyed wi_invitation_id (ws_invitations s) \<and>
     keyed wp_principal_id (ws_principals s) \<and> keyed wt_token_id (ws_tokens s) \<and>
     hashes_unique (ws_invitations s) \<and> all_entries transport_ok (ws_principals s)"

definition ws_wf :: "'r workspace_state \<Rightarrow> bool" where
  "ws_wf s \<longleftrightarrow> owners_ok s \<and> tables_ok s"

lemma ws_req_Inr_iff [result_simps]:
  "ws_req env keys = Inr p \<longleftrightarrow> ev_payload env = Fields p \<and> (\<forall>k \<in> set keys. ws_defines p k)"
  by (cases "req ws_defines (ev_payload env) keys")
     (auto simp: ws_req_def ws_halt_def req_Inr_iff[symmetric])

lemma ws_halt_Inr [simp]: "ws_halt env x \<noteq> Inr v" "Inr v \<noteq> ws_halt env x"
  by (simp_all add: ws_halt_def)

lemma assertRole_Inr [result_simps]: "assertRole v f env = Inr r \<longleftrightarrow> v = Some (Inl r)"
  by (cases r) (auto simp: assertRole_def WORKSPACE_ROLES_def split: option.splits sum.splits if_splits)

lemma assertOwnerCount_Inr [result_simps]: "assertOwnerCount s env = Inr u \<longleftrightarrow> owners_ok s"
  by (auto simp: assertOwnerCount_def owners_ok_def Let_def)

lemma ws_event_types: "ev_type env \<notin> set WORKSPACE_EVENT_TYPES \<longleftrightarrow> (\<exists>t. ev_type env = UnknownWorkspaceEvent t)"
proof (cases "ev_type env")
  case (AdminRoutine x)
  then show ?thesis by (cases x) (simp_all add: WORKSPACE_EVENT_TYPES_def ADMIN_ROUTINE_EVENT_TYPES_def)
qed (auto simp: WORKSPACE_EVENT_TYPES_def)

lemmas ws_state_defs =
  ws_renamed_def ws_archived_def ws_feedback_def

lemmas ws_table_defs =
  ws_invited_def ws_invitation_revoked_def ws_invitation_accepted_def ws_joined_def ws_removed_def
  ws_role_changed_def ws_agent_added_def ws_agent_removed_def ws_principal_created_def
  ws_model_declared_def ws_principal_revoked_def ws_token_minted_def ws_token_revoked_def
  ws_seat_claimed_def

lemma added_transport_ok: "added_transport p = Some (t, b) \<Longrightarrow> t = HostedMcp \<longrightarrow> b"
  by (auto simp: added_transport_def split: if_splits)

lemma transport_ok_updates [simp]:
  "transport_ok (e\<lparr>wp_revoked_at := r\<rparr>) = transport_ok e"
  "transport_ok (e\<lparr>wp_model := m\<rparr>) = transport_ok e"
  by (simp_all add: transport_ok_def)

text \<open>Writing one entry of a table keeps all tables in order.\<close>

lemma put_member:
  "tables_ok s \<Longrightarrow> wm_user_id m = k \<Longrightarrow>
     tables_ok (s\<lparr>ws_members := obj_put (ws_members s) k m, ws_owners_count := n\<rparr>)"
  by (simp add: tables_ok_def)

lemma put_invitation:
  "tables_ok s \<Longrightarrow> wi_invitation_id i = k \<Longrightarrow> hashes_unique (obj_put (ws_invitations s) k i) \<Longrightarrow>
     tables_ok (s\<lparr>ws_invitations := obj_put (ws_invitations s) k i\<rparr>)"
  by (simp add: tables_ok_def)

lemma put_principal:
  "tables_ok s \<Longrightarrow> wp_principal_id e = k \<Longrightarrow> transport_ok e \<Longrightarrow>
     tables_ok (s\<lparr>ws_principals := obj_put (ws_principals s) k e\<rparr>)"
  by (simp add: tables_ok_def)

lemma put_token:
  "tables_ok s \<Longrightarrow> wt_token_id e = k \<Longrightarrow>
     tables_ok (s\<lparr>ws_tokens := obj_put (ws_tokens s) k e\<rparr>)"
  by (simp add: tables_ok_def)

lemma table_entries:
  assumes "tables_ok s"
  shows "obj_get (ws_members s) k = Some m \<Longrightarrow> wm_user_id m = k"
    and "obj_get (ws_invitations s) k = Some i \<Longrightarrow> wi_invitation_id i = k"
    and "obj_get (ws_principals s) k = Some e \<Longrightarrow> wp_principal_id e = k"
    and "obj_get (ws_principals s) k = Some e \<Longrightarrow> transport_ok e"
    and "obj_get (ws_tokens s) k = Some t \<Longrightarrow> wt_token_id t = k"
    and "hashes_unique (ws_invitations s)"
  using assms unfolding tables_ok_def keyed_def all_entries_def by blast+

lemma res_all_ws_halt [simp]: "res_all P (ws_halt env x)"
  by (simp add: ws_halt_def)

lemma res_all_ws_req: "(\<And>p. P p) \<Longrightarrow> res_all P (ws_req env keys)"
  by (simp add: res_all_def split: sum.split)

lemma res_all_assertRole: "(\<And>r. P r) \<Longrightarrow> res_all P (assertRole v f env)"
  by (simp add: res_all_def split: sum.split)

lemmas op_rules = res_all_ws_req res_all_assertRole put_member put_invitation put_principal put_token

lemma members_tables:
  assumes "tables_ok s"
  shows "res_all tables_ok (ws_joined s env)" "res_all tables_ok (ws_removed s env)"
    "res_all tables_ok (ws_role_changed s env)"
  using assms
  by (auto simp: ws_joined_def ws_removed_def ws_role_changed_def res_all_bind Let_def table_entries
      intro!: op_rules split: option.split)

lemma invitations_tables:
  assumes "tables_ok s"
  shows "res_all tables_ok (ws_invited s env)" "res_all tables_ok (ws_invitation_revoked s env)"
    "res_all tables_ok (ws_invitation_accepted s env)"
proof -
  show "res_all tables_ok (ws_invited s env)"
    using assms table_entries(6)[OF assms]
    by (auto simp: ws_invited_def res_all_bind Let_def intro!: op_rules hashes_unique_new)
qed (use assms table_entries(6)[OF assms] in \<open>auto simp: ws_invitation_revoked_def
    ws_invitation_accepted_def res_all_bind Let_def table_entries intro!: op_rules
    intro: hashes_unique_same split: option.split\<close>)

lemma principals_tables:
  assumes "tables_ok s"
  shows "res_all tables_ok (ws_agent_added s env)" "res_all tables_ok (ws_agent_removed s env)"
    "res_all tables_ok (ws_principal_created s env)" "res_all tables_ok (ws_model_declared s env)"
    "res_all tables_ok (ws_principal_revoked keys s env)" "res_all tables_ok (ws_seat_claimed s env)"
proof -
  show "res_all tables_ok (ws_agent_added s env)"
    unfolding ws_agent_added_def Let_def res_all_bind using assms
    by (auto simp: transport_ok_def dest: added_transport_ok intro!: op_rules split: option.split)
  show "res_all tables_ok (ws_principal_created s env)"
    unfolding ws_principal_created_def Let_def res_all_bind using assms
    by (auto simp: transport_ok_def intro!: op_rules split: option.split sum.split)
  show "res_all tables_ok (ws_seat_claimed s env)"
    unfolding ws_seat_claimed_def Let_def res_all_bind using assms
    by (auto simp: transport_ok_def table_entries intro!: op_rules split: option.split)
qed (use assms in \<open>auto simp: ws_agent_removed_def ws_model_declared_def ws_principal_revoked_def
    res_all_bind Let_def table_entries intro!: op_rules split: option.split\<close>)

lemma tokens_tables:
  assumes "tables_ok s"
  shows "res_all tables_ok (ws_token_minted s env)" "res_all tables_ok (ws_token_revoked s env)"
  using assms
  by (auto simp: ws_token_minted_def ws_token_revoked_def res_all_bind Let_def table_entries
      intro!: op_rules split: option.split)

lemma plain_tables:
  assumes "tables_ok s"
  shows "res_all tables_ok (ws_renamed s env)" "res_all tables_ok (ws_archived s env)"
    "res_all tables_ok (ws_feedback s env)"
  using assms
  by (auto simp: ws_renamed_def ws_archived_def ws_feedback_def res_all_bind tables_ok_def
      intro!: op_rules)

lemma event_tables: "tables_ok s \<Longrightarrow> res_all tables_ok (reduce_ws_event s env)"
  by (cases "ev_type env")
     (simp_all add: reduce_ws_event_def members_tables invitations_tables principals_tables
       tokens_tables plain_tables)

lemma created_wf: "ws_created env = Inr t \<Longrightarrow> ws_wf t"
  by (auto simp: ws_created_def Let_def result_simps ws_wf_def owners_ok_def tables_ok_def keyed_def
      obj_wf_def obj_get_def obj_count_def obj_values_def live_owner_def split: if_splits)

lemma reduceWorkspace_None:
  fixes ra :: "('e, 'p, 'r) admin_reducer"
  shows "reduceWorkspace ra None env = Inr t \<Longrightarrow>
    ev_type env = WorkspaceCreated \<and> (ws_created env :: ('e, 'r) ws_outcome) = Inr t"
  by (auto simp: reduceWorkspace_def result_simps split: if_splits)

lemma reduceWorkspace_Some:
  fixes ra :: "('e, 'p, 'r) admin_reducer"
  shows "reduceWorkspace ra (Some s) env = Inr t \<Longrightarrow>
     (ev_type env = WorkspaceCommandRejected \<and> t = s) \<or>
     (\<exists>a r. ev_type env = AdminRoutine a \<and> ra (ws_admin_routine s) env = Inr r \<and>
        t = s\<lparr>ws_admin_routine := Some r\<rparr>) \<or>
     ((reduce_ws_event s env :: ('e, 'r) ws_outcome) = Inr t \<and> owners_ok t)"
  by (cases "ev_type env")
     (auto simp: reduceWorkspace_def result_simps split: if_splits sum.splits)

lemma tables_ok_routine [simp]: "tables_ok (s\<lparr>ws_admin_routine := r\<rparr>) = tables_ok s"
  and owners_ok_routine [simp]: "owners_ok (s\<lparr>ws_admin_routine := r\<rparr>) = owners_ok s"
  by (simp_all add: tables_ok_def owners_ok_def)

lemma reduceWorkspace_wf:
  assumes "reduceWorkspace ra s env = Inr t" and "opt_all ws_wf s"
  shows "ws_wf t"
proof (cases s)
  case None
  with reduceWorkspace_None assms(1) show ?thesis using created_wf by blast
next
  case (Some u)
  with reduceWorkspace_Some[OF assms(1)[unfolded Some]] assms(2) show ?thesis
    by (auto simp: ws_wf_def dest: event_tables[THEN res_allD])
qed

interpretation ws_stream: invariant_stream ev_seq "reduceWorkspace ra"
  "\<lambda>env lst. WsIntegrity (ev_type env) (ev_seq env) (WsOutOfOrder lst)"
  "reduceWorkspaceStream_loop ra" ws_wf for ra
  by unfold_locales (simp_all add: ws_halt_def reduceWorkspace_wf)

end
