(* ===== verification/WorkspaceScopes.thy ===== *)
theory WorkspaceScopes
  imports JsText
begin

text \<open>
  The pure text functions of \<open>src/protocol/workspace-commands.ts\<close>: the intrinsic scope denylist of agent
  credentials over tokenised scopes (\<open>scopeWords\<close>, \<open>isAgentScopeDenylisted\<close>) and the normalisation of
  models, feedback and workspace names.
\<close>

section \<open>Scopes\<close>

definition word_separator :: "nat \<Rightarrow> bool" where
  "word_separator c \<longleftrightarrow> \<not> ((97 \<le> c \<and> c \<le> 122) \<or> (48 \<le> c \<and> c \<le> 57))"

definition singular :: "jstext \<Rightarrow> jstext" where
  "singular w =
     (if 3 < length w \<and> endsWith w (lit ''ies'') then slice_end 3 w @ lit ''y''
      else if 1 < length w \<and> endsWith w (lit ''s'') \<and> \<not> endsWith w (lit ''ss'') then slice_end 1 w
      else w)"

text \<open>The words of a scope, as the list the set is built from.\<close>

definition scopeWords :: "jstext \<Rightarrow> jstext list" where
  "scopeWords scope = map singular (split_words word_separator (toLowerCase (trim scope)))"

definition has :: "jstext list \<Rightarrow> string list \<Rightarrow> bool" where
  "has words vals \<longleftrightarrow> (\<exists>v \<in> set vals. lit v \<in> set words)"

definition mutates :: "jstext list \<Rightarrow> bool" where
  "mutates words \<longleftrightarrow> has words
     [''accept'', ''add'', ''archive'', ''assign'', ''author'', ''change'', ''create'',
      ''delete'', ''demote'', ''invalidate'', ''issue'', ''map'', ''mint'', ''promote'',
      ''remove'', ''remap'', ''revoke'', ''set'', ''transfer'', ''update'', ''write'']"

definition denylisted_words :: "jstext list \<Rightarrow> bool" where
  "denylisted_words w \<longleftrightarrow>
     (if has w [''grant''] \<and> has w [''create'', ''issuance'', ''issue'', ''mint'', ''revoke''] then True
      else if has w [''credential'', ''token'', ''worker''] \<and>
          has w [''create'', ''issuance'', ''issue'', ''mint'', ''renew''] then True
      else if has w [''invite'', ''invitation''] then True
      else if has w [''membership'', ''member'', ''role'', ''owner'', ''ownership''] \<and> mutates w then True
      else if has w [''repo'', ''repository''] \<and> has w [''archive'', ''map'', ''remap''] then True
      else if has w [''workspace''] \<and> has w [''agent''] \<and> has w [''add'', ''remove''] then True
      else if has w [''workspace''] \<and> has w [''archive'', ''create'', ''delete''] then True
      else if has w [''capability''] \<and> has w [''url''] \<and> has w [''create'', ''issue'', ''mint''] then True
      else if has w [''discard''] then True
      else if has w [''invalidate'', ''revoke''] \<and>
          has w [''credential'', ''device'', ''family'', ''lineage'', ''membership'',
            ''principal'', ''refresh'', ''run'', ''token''] then True
      else if mutates w \<and> has w [''knowledge'', ''playbook''] then True
      else if mutates w \<and> has w [''instruction''] \<and> has w [''foundational'', ''trusted''] then True
      else if mutates w \<and> has w [''schema''] \<and> has w [''acceptance'', ''trusted''] then True
      else False)"

definition isAgentScopeDenylisted :: "jstext \<Rightarrow> bool" where
  "isAgentScopeDenylisted scope = denylisted_words (scopeWords scope)"

lemma has_mono: "set w \<subseteq> set w' \<Longrightarrow> has w vals \<Longrightarrow> has w' vals"
  by (auto simp: has_def)

lemma if_True_iff: "(if P then True else Q) \<longleftrightarrow> P \<or> Q"
  by simp

text \<open>More words never make a scope less dangerous.\<close>

lemma denylisted_words_mono:
  assumes "set w \<subseteq> set w'" and "denylisted_words w"
  shows "denylisted_words w'"
proof -
  note m = has_mono[OF assms(1)]
  have mu: "mutates w \<Longrightarrow> mutates w'" unfolding mutates_def by (rule m)
  show ?thesis
    using assms(2) unfolding denylisted_words_def if_True_iff
    by - (erule disj_forward conj_forward m mu | assumption)+
qed

lemma words_acc_append:
  "sep c \<Longrightarrow> words_acc sep w (xs @ c # ys) = words_acc sep w xs @ words_acc sep [] ys"
  by (induction xs arbitrary: w) auto

lemma split_words_sep:
  "sep c \<Longrightarrow> split_words sep (xs @ c # ys) = split_words sep xs @ split_words sep ys"
  by (simp add: split_words_def words_acc_append)

lemma toLowerCase_append: "toLowerCase (xs @ ys) = toLowerCase xs @ toLowerCase ys"
  by (simp add: toLowerCase_def)

text \<open>A character that separates words: it stays one separator in lower case. White space does.\<close>

definition separates :: "nat \<Rightarrow> bool" where
  "separates c \<longleftrightarrow> lower_unit c = [c] \<and> word_separator c"

lemma white_separates: "white_unit c \<Longrightarrow> separates c"
  by (auto simp: white_unit_def separates_def lower_unit_def word_separator_def)

lemma toLowerCase_separates: "separates c \<Longrightarrow> toLowerCase (c # cs) = c # toLowerCase cs"
  by (simp add: separates_def toLowerCase_def)

lemma words_leading:
  "\<forall>c \<in> set xs. separates c \<Longrightarrow> split_words word_separator (toLowerCase (xs @ ys)) =
     split_words word_separator (toLowerCase ys)"
  by (induction xs) (auto simp: toLowerCase_separates split_words_def separates_def)

lemma words_trailing:
  "\<forall>c \<in> set ys. separates c \<Longrightarrow> split_words word_separator (toLowerCase (xs @ ys)) =
     split_words word_separator (toLowerCase xs)"
proof (induction ys rule: rev_induct)
  case (snoc c ys)
  then have "toLowerCase (xs @ ys @ [c]) = toLowerCase (xs @ ys) @ c # []"
    by (simp add: toLowerCase_append toLowerCase_separates) (simp add: toLowerCase_def)
  with snoc split_words_sep[of word_separator c "toLowerCase (xs @ ys)" "[]"] show ?case
    by (simp add: separates_def split_words_def)
qed simp

lemma scopeWords_untrimmed:
  "scopeWords s = map singular (split_words word_separator (toLowerCase s))"
proof -
  let ?d = "dropWhile white_unit s"
  have s: "s = takeWhile white_unit s @ trim s @ rev (takeWhile white_unit (rev ?d))"
    by (metis trim_def takeWhile_dropWhile_id rev_append rev_rev_ident)
  have "split_words word_separator (toLowerCase s) = split_words word_separator (toLowerCase (trim s))"
  proof -
    have l: "\<forall>c \<in> set (takeWhile white_unit s). separates c"
      and r: "\<forall>c \<in> set (rev (takeWhile white_unit (rev ?d))). separates c"
      by (auto intro: white_separates dest: set_takeWhileD)
    show ?thesis by (subst s) (simp only: words_leading[OF l] words_trailing[OF r])
  qed
  then show ?thesis by (simp add: scopeWords_def)
qed

lemma scopeWords_extend:
  assumes "separates c" and "separates d"
  shows "scopeWords (xs @ [c] @ s @ [d] @ ys) = scopeWords xs @ scopeWords s @ scopeWords ys"
  using assms
  by (simp add: scopeWords_untrimmed toLowerCase_append toLowerCase_separates split_words_sep
      separates_def)

text \<open>The same spelling up to letter case and the choice of separators.\<close>

definition respelled :: "nat \<Rightarrow> nat \<Rightarrow> bool" where
  "respelled a b \<longleftrightarrow> lower_unit a = lower_unit b \<or> (separates a \<and> separates b)"

lemma words_acc_sep_cong:
  "list_all2 (\<lambda>a b. a = b \<or> sep a \<and> sep b) xs ys \<Longrightarrow> words_acc sep w xs = words_acc sep w ys"
  by (induction xs ys arbitrary: w rule: list_all2_induct) auto

lemma scopeWords_respelled:
  assumes "list_all2 respelled s t"
  shows "scopeWords s = scopeWords t"
proof -
  let ?R = "\<lambda>a b. a = b \<or> word_separator a \<and> word_separator b"
  have "list_all2 ?R (toLowerCase s) (toLowerCase t)"
    using assms
  proof (induction rule: list_all2_induct)
    case (Cons x xs y ys)
    have "list_all2 ?R (lower_unit x) (lower_unit y)"
      using Cons(1) by (auto simp: respelled_def separates_def list_all2_refl)
    with Cons(3) show ?case by (simp add: toLowerCase_def list_all2_appendI)
  qed (simp add: toLowerCase_def)
  then show ?thesis by (simp add: scopeWords_untrimmed split_words_def words_acc_sep_cong)
qed

section \<open>Model, feedback and name normalisation\<close>

definition c0_c1_control :: "nat \<Rightarrow> bool" where
  "c0_c1_control c \<longleftrightarrow> c \<le> 0x1F \<or> (0x7F \<le> c \<and> c \<le> 0x9F)"

definition bidi_control :: "nat \<Rightarrow> bool" where
  "bidi_control c \<longleftrightarrow> (0x202A \<le> c \<and> c \<le> 0x202E) \<or> (0x2066 \<le> c \<and> c \<le> 0x2069)"

definition normalizedModel :: "js_value \<Rightarrow> string + jstext option" where
  "normalizedModel v = (case v of
     JsNull \<Rightarrow> Inr None
   | JsString s \<Rightarrow>
       (let trimmed = trim s in
        if 120 < length trimmed then Inl ''model must be at most 120 characters''
        else if \<exists>c \<in> set trimmed. c0_c1_control c \<or> bidi_control c
        then Inl ''model must not contain control characters''
        else Inr (if trimmed = [] then None else Some trimmed))
   | _ \<Rightarrow> Inl ''model must be a string or null'')"

definition FEEDBACK_BODY_MAX :: nat where "FEEDBACK_BODY_MAX = 4000"
definition FEEDBACK_CONTEXT_MAX_BYTES :: nat where "FEEDBACK_CONTEXT_MAX_BYTES = 2048"

definition body_control :: "nat \<Rightarrow> bool" where
  "body_control c \<longleftrightarrow> c \<le> 8 \<or> c = 0xB \<or> c = 0xC \<or> (0xE \<le> c \<and> c \<le> 0x1F) \<or>
     (0x7F \<le> c \<and> c \<le> 0x9F) \<or> bidi_control c"

definition normalizedFeedbackBody :: "js_value \<Rightarrow> string + jstext" where
  "normalizedFeedbackBody v = (case v of
     JsString s \<Rightarrow>
       (let trimmed = trim s in
        if trimmed = [] then Inl ''feedback body must not be empty''
        else if FEEDBACK_BODY_MAX < length trimmed
        then Inl ''feedback body must be at most 4000 characters''
        else if \<exists>c \<in> set trimmed. body_control c
        then Inl ''feedback body must not contain control characters (newlines and tabs are fine)''
        else Inr trimmed)
   | _ \<Rightarrow> Inl ''feedback body must be a string'')"

text \<open>The loop over the entries of a context object.\<close>

fun context_entries :: "(jstext \<times> js_value) list \<Rightarrow> string + (jstext \<times> jstext) list" where
  "context_entries [] = Inr []"
| "context_entries ((key, entry) # rest) =
     (case entry of
        JsString s \<Rightarrow>
          if key = [] \<or> 64 < length key \<or> 512 < length s
          then Inl ''feedback context must be a flat object of bounded strings''
          else if \<exists>c \<in> set (key @ s). c0_c1_control c
          then Inl ''feedback context must not contain control characters''
          else bind_result (context_entries rest) (\<lambda>es. Inr ((key, s) # es))
      | _ \<Rightarrow> Inl ''feedback context must be a flat object of bounded strings'')"

definition normalizedFeedbackContext :: "js_value \<Rightarrow> string + (jstext \<times> jstext) list option" where
  "normalizedFeedbackContext v = (case v of
     JsNull \<Rightarrow> Inr None
   | JsUndefined \<Rightarrow> Inr None
   | JsObject entries \<Rightarrow>
       bind_result (context_entries entries) (\<lambda>es.
         if es = [] then Inr None
         else if FEEDBACK_CONTEXT_MAX_BYTES < json_object_bytes es
         then Inl ''feedback context must serialize to at most 2048 bytes''
         else Inr (Some es))
   | _ \<Rightarrow> Inl ''feedback context must be a flat object of strings'')"

definition WORKSPACE_NAME_MAX :: nat where "WORKSPACE_NAME_MAX = 80"

definition validWorkspaceName :: "js_value \<Rightarrow> bool" where
  "validWorkspaceName v = (case v of
     JsString s \<Rightarrow> s \<noteq> [] \<and> length s \<le> WORKSPACE_NAME_MAX \<and> s = trim s \<and>
       (\<forall>c \<in> set s. \<not> c0_c1_control c)
   | _ \<Rightarrow> False)"

lemma normalizedModel_Some:
  "normalizedModel v = Inr (Some m) \<Longrightarrow> m \<noteq> [] \<and> length m \<le> 120 \<and> trim m = m \<and>
     (\<forall>c \<in> set m. \<not> c0_c1_control c \<and> \<not> bidi_control c)"
  by (auto simp: normalizedModel_def Let_def split: js_value.splits if_splits)

lemma normalizedFeedbackBody_Inr:
  "normalizedFeedbackBody v = Inr b \<Longrightarrow> b \<noteq> [] \<and> length b \<le> FEEDBACK_BODY_MAX \<and> trim b = b \<and>
     (\<forall>c \<in> set b. \<not> body_control c)"
  by (auto simp: normalizedFeedbackBody_def Let_def split: js_value.splits if_splits)

lemma context_entries_Inr:
  "context_entries es = Inr xs \<Longrightarrow> es = map (\<lambda>(k, s). (k, JsString s)) xs \<and>
     (\<forall>(k, s) \<in> set xs. k \<noteq> [] \<and> length k \<le> 64 \<and> length s \<le> 512 \<and>
        (\<forall>c \<in> set k \<union> set s. \<not> c0_c1_control c))"
  by (induction es arbitrary: xs rule: context_entries.induct)
     (fastforce simp: bind_result_Inr split: js_value.splits if_splits)+

lemma normalizedFeedbackContext_Some:
  assumes "normalizedFeedbackContext v = Inr (Some es)"
  shows "json_object_bytes es \<le> FEEDBACK_CONTEXT_MAX_BYTES \<and> es \<noteq> [] \<and>
     (\<forall>(k, s) \<in> set es. k \<noteq> [] \<and> length k \<le> 64 \<and> length s \<le> 512 \<and>
        (\<forall>c \<in> set k \<union> set s. \<not> c0_c1_control c))"
proof -
  from assms obtain xs where "context_entries xs = Inr es"
    and b: "es \<noteq> []" "json_object_bytes es \<le> FEEDBACK_CONTEXT_MAX_BYTES"
    by (auto simp: normalizedFeedbackContext_def bind_result_Inr split: js_value.splits if_splits)
  from context_entries_Inr[OF this(1)] b show ?thesis by simp
qed

end
