(* ===== verification/WorkspaceCommands.thy ===== *)
theory WorkspaceCommands
  imports WorkspaceReducer WorkspaceScopes TaskCommands "HOL-Library.Char_ord" "HOL-Library.List_Lexorder"
begin

text \<open>
  The workspace decision core of \<open>src/protocol/workspace-commands.ts\<close>: the commands, the injected
  facts, and \<open>decideWorkspace\<close>, one definition per command in the order of the source. The oracles of
  the context are functions of the context record; optional methods are options. A rejection
  reason and its detail sentence are the strings of the source.
\<close>

section \<open>Constants\<close>

definition INVITATION_MAX_TTL_MS :: number where
  "INVITATION_MAX_TTL_MS = 7 * 24 * 60 * 60 * 1000"

definition AGENT_TOKEN_DEFAULT_TTL_MS :: number where
  "AGENT_TOKEN_DEFAULT_TTL_MS = 60 * 60 * 1000"

definition AGENT_TOKEN_MAX_TTL_MS :: number where
  "AGENT_TOKEN_MAX_TTL_MS = 30 * 24 * 60 * 60 * 1000"

definition RENEWAL_HORIZON_MAX_MS :: number where
  "RENEWAL_HORIZON_MAX_MS = 90 * 24 * 60 * 60 * 1000"

section \<open>Commands\<close>

datatype ws_command =
    CreateWorkspace string jstext
  | ArchiveWorkspace
  | RenameWorkspace js_value
  | InviteMember string "string option" workspace_role string jsnum
  | RevokeInvitation string
  | AcceptInvitation string
  | RemoveMember string "string option"
  | ChangeRole string workspace_role "string option"
  | CreateAgentPrincipal string jstext "jstext option option" bool
  | RevokeAgentPrincipal string
  | DeclareAgentModel js_value
  | SetAgentModel string js_value
  | SubmitFeedback string feedback_category js_value js_value
  | MintAgentToken string string string string jsnum "jstext list" "jsnum option"
  | MintAgentJoinCredential jsnum jsnum
  | RegisterAgentSeat string string string string jstext "jstext list" jsnum
  | RevokeAgentJoinCredential string
  | RevokeAgentToken string
  | RenewAgentToken string "jstext list"
  | EnableAgentManagement string
  | DisableAgentManagement string
  | RecoverAgentSession string
  | AcquireAgentSession string
  | RenewAgentSession string jsnum
  | ReleaseAgentSession string jsnum

fun ws_kind :: "ws_command \<Rightarrow> string" where
  "ws_kind (CreateWorkspace _ _) = ''create_workspace''"
| "ws_kind ArchiveWorkspace = ''archive_workspace''"
| "ws_kind (RenameWorkspace _) = ''rename_workspace''"
| "ws_kind (InviteMember _ _ _ _ _) = ''invite_member''"
| "ws_kind (RevokeInvitation _) = ''revoke_invitation''"
| "ws_kind (AcceptInvitation _) = ''accept_invitation''"
| "ws_kind (RemoveMember _ _) = ''remove_member''"
| "ws_kind (ChangeRole _ _ _) = ''change_role''"
| "ws_kind (CreateAgentPrincipal _ _ _ _) = ''create_agent_principal''"
| "ws_kind (RevokeAgentPrincipal _) = ''revoke_agent_principal''"
| "ws_kind (DeclareAgentModel _) = ''declare_agent_model''"
| "ws_kind (SetAgentModel _ _) = ''set_agent_model''"
| "ws_kind (SubmitFeedback _ _ _ _) = ''submit_feedback''"
| "ws_kind (MintAgentToken _ _ _ _ _ _ _) = ''mint_agent_token''"
| "ws_kind (MintAgentJoinCredential _ _) = ''mint_agent_join_credential''"
| "ws_kind (RegisterAgentSeat _ _ _ _ _ _ _) = ''register_agent_seat''"
| "ws_kind (RevokeAgentJoinCredential _) = ''revoke_agent_join_credential''"
| "ws_kind (RevokeAgentToken _) = ''revoke_agent_token''"
| "ws_kind (RenewAgentToken _ _) = ''renew_agent_token''"
| "ws_kind (EnableAgentManagement _) = ''enable_agent_management''"
| "ws_kind (DisableAgentManagement _) = ''disable_agent_management''"
| "ws_kind (RecoverAgentSession _) = ''recover_agent_session''"
| "ws_kind (AcquireAgentSession _) = ''acquire_agent_session''"
| "ws_kind (RenewAgentSession _ _) = ''renew_agent_session''"
| "ws_kind (ReleaseAgentSession _ _) = ''release_agent_session''"

definition HUMAN_ONLY_COMMANDS :: "string list" where
  "HUMAN_ONLY_COMMANDS =
     [''add_agent_to_workspace'', ''set_workspace_lead'', ''remove_agent_from_workspace'',
      ''move_workspace_to_org'', ''create_workspace'', ''archive_workspace'', ''rename_workspace'',
      ''invite_member'', ''revoke_invitation'', ''accept_invitation'', ''remove_member'',
      ''change_role'', ''create_agent_principal'', ''revoke_agent_principal'', ''set_agent_model'',
      ''mint_agent_token'', ''mint_agent_join_credential'', ''revoke_agent_join_credential'',
      ''enable_agent_management'', ''disable_agent_management'', ''recover_agent_session'']"

section \<open>Facts\<close>

datatype grant_kind = Timeboxed | Standing

record renewal_grant_facts =
  rg_renewal_grant_id :: string
  rg_kind :: grant_kind
  rg_max_successors :: "jsnum option"
  rg_successors_used :: jsnum
  rg_successors_stranded :: jsnum
  rg_horizon_expires_at :: "jsnum option"
  rg_revoked_at :: "number option"
  rg_suspension_active :: bool

datatype grant_preflight =
    PreGrantNotFound | PreGrantRevoked | PreGrantSuspended | PreIdleSuspended
  | PreHorizonReached | PreDeviceUnavailable | PreDeviceMismatch

record renewal_facts =
  rf_grant :: "renewal_grant_facts option"
  rf_grant_mismatch :: bool
  rf_superseded :: bool
  rf_successor_pending :: bool
  rf_successor_token_id :: "string option"
  rf_predecessor_pending :: bool
  rf_lineage_revoked :: bool
  rf_grant_preflight_code :: "grant_preflight option"

datatype credential_kind = HumanCredential | AgentCredential | JoinCredential | HostedGrant | HostedSeat

record ws_ctx =
  wc_now :: number
  wc_actor :: actor
  wc_credential_kind :: credential_kind
  wc_presenting_token_id :: "string option"
  wc_command_id :: string
  wc_workspace_id :: string
  wc_stream_id :: string
  wc_operatorAllowed :: "actor \<Rightarrow> bool"
  wc_role :: "string \<Rightarrow> workspace_role option"
  wc_inviteeAlreadyMember :: "string option \<Rightarrow> bool"
  wc_identityVerified :: "string \<Rightarrow> bool"
  wc_humanRights :: "actor \<Rightarrow> jstext list"
  wc_landingAuthorityChangeResolved :: "string \<Rightarrow> string option \<Rightarrow> bool"
  wc_renewalFacts :: "(string \<Rightarrow> renewal_facts) option"
  wc_pendingInvitationIds :: "(string \<Rightarrow> string list) option"
  wc_nextSeq :: "nat \<Rightarrow> number"
  wc_nextEventId :: "nat \<Rightarrow> string"

type_synonym 'p ws_decision = "(string, string, 'p ws_event) decision"

datatype ws_decide_error = HandledOutsideReducer

section \<open>Envelopes and outcomes\<close>

definition ws_env :: "ws_ctx \<Rightarrow> nat \<Rightarrow> workspace_event_type \<Rightarrow> 'p ws_fields \<Rightarrow> 'p ws_event" where
  "ws_env ctx k typ pf = \<lparr>ev_workspace_id = wc_workspace_id ctx, ev_stream_id = wc_stream_id ctx,
     ev_seq = wc_nextSeq ctx k, ev_event_id = wc_nextEventId ctx k,
     ev_command_id = wc_command_id ctx, ev_type = typ, ev_schema_version = SCHEMA_VERSION,
     ev_actor_user = act_user (wc_actor ctx),
     ev_actor_agent_principal = act_agent_principal (wc_actor ctx),
     ev_actor_run = act_run (wc_actor ctx), ev_occurred_at_server = wc_now ctx,
     ev_admin_identity_id = None, ev_grant_id = None, ev_grant_manifest_digest = None,
     ev_payload = Fields pf\<rparr>"

definition ws_accept :: "'p ws_event list \<Rightarrow> 'p ws_decision" where
  "ws_accept es = Accepted es"

definition ws_authz :: "string \<Rightarrow> string \<Rightarrow> 'p ws_decision" where
  "ws_authz reason detail = Rejected Authz reason detail []"

text \<open>A rejection drawn after \<open>k\<close> envelopes were already built takes the \<open>k\<close>-th counter values.\<close>

definition ws_domain_at :: "nat \<Rightarrow> ws_ctx \<Rightarrow> ws_command \<Rightarrow> string \<Rightarrow> string \<Rightarrow> 'p ws_decision" where
  "ws_domain_at k ctx cmd reason detail = Rejected Domain reason detail
     [ws_env ctx k WorkspaceCommandRejected (no_fields\<lparr>w_workspace_id := Some (wc_workspace_id ctx),
        w_command := Some (ws_kind cmd), w_reason := Some reason, w_detail := Some detail\<rparr>)]"

abbreviation ws_domain :: "ws_ctx \<Rightarrow> ws_command \<Rightarrow> string \<Rightarrow> string \<Rightarrow> 'p ws_decision" where
  "ws_domain \<equiv> ws_domain_at 0"

definition liveMember :: "'r workspace_state \<Rightarrow> string \<Rightarrow> workspace_member option" where
  "liveMember s uid = (case obj_get (ws_members s) uid of
     Some m \<Rightarrow> if wm_revoked_at m = None then Some m else None | None \<Rightarrow> None)"

definition callerUser :: "ws_ctx \<Rightarrow> string option" where
  "callerUser ctx = act_user (wc_actor ctx)"

definition ownerOrAdmin :: "workspace_role option \<Rightarrow> bool" where
  "ownerOrAdmin r \<longleftrightarrow> r = Some RoleOwner \<or> r = Some RoleAdmin"

definition live_invitation :: "workspace_invitation \<Rightarrow> number \<Rightarrow> bool" where
  "live_invitation i now \<longleftrightarrow>
     \<not> (wi_consumed_at i \<noteq> None \<or> wi_revoked_at i \<noteq> None \<or> wi_expires_at i \<le> now)"

section \<open>One definition per command\<close>

definition decide_create_workspace ::
  "'r workspace_state option \<Rightarrow> ws_ctx \<Rightarrow> string \<Rightarrow> string \<Rightarrow> jstext \<Rightarrow> 'p ws_decision" where
  "decide_create_workspace state ctx user_id wid name = (case state of
     Some _ \<Rightarrow>
       if wc_role ctx user_id = None then
         ws_authz ''bad_state'' ''caller is not a current workspace member''
       else ws_domain ctx (CreateWorkspace wid name) ''workspace_exists'' ''workspace already exists''
   | None \<Rightarrow>
       if \<not> wc_operatorAllowed ctx (wc_actor ctx) then
         ws_authz ''operator_not_allowed'' ''caller is not allowed to create a workspace''
       else if wid \<noteq> wc_workspace_id ctx then
         ws_authz ''bad_state'' ''command does not match the resolved workspace''
       else ws_accept [ws_env ctx 0 WorkspaceCreated (no_fields\<lparr>w_workspace_id := Some wid,
              w_name := Some name, w_created_by := Some user_id,
              w_created_at := Some (wc_now ctx)\<rparr>)])"

definition decide_register ::
  "'r workspace_state \<Rightarrow> ws_ctx \<Rightarrow> string \<Rightarrow> string \<Rightarrow> string \<Rightarrow> string \<Rightarrow> string \<Rightarrow> jstext \<Rightarrow>
     jstext list \<Rightarrow> jsnum \<Rightarrow> 'p ws_decision" where
  "decide_register s ctx user_id attempt_id principal_id run_id token_id name scopes ttl_ms =
     (let cmd = RegisterAgentSeat attempt_id principal_id run_id token_id name scopes ttl_ms in
      if wc_role ctx user_id = None then
        ws_authz ''bad_state'' ''credential owner is not a current workspace member''
      else if obj_get (ws_principals s) principal_id \<noteq> None \<or> obj_get (ws_tokens s) token_id \<noteq> None then
        ws_domain ctx cmd ''bad_state'' ''server-generated registration identity already exists''
      else if run_id = [] \<or> attempt_id = [] \<or> \<not> is_finite ttl_ms \<or> js_le ttl_ms (Fin 0) \<or>
          \<not> js_le ttl_ms (Fin AGENT_TOKEN_MAX_TTL_MS) then
        ws_domain ctx cmd ''binding_required''
          ''registration requires server-derived attempt, run, and bounded token lifetime''
      else if scopes = [] \<or> (\<exists>sc \<in> set scopes. scopeWords sc = []) \<or>
          (\<exists>sc \<in> set scopes. isAgentScopeDenylisted sc) then
        ws_domain ctx cmd ''scope_not_allowed'' ''registration scopes must be concrete agent scopes''
      else if \<exists>sc \<in> set scopes. sc \<notin> set (wc_humanRights ctx (wc_actor ctx)) then
        ws_domain ctx cmd ''scope_not_allowed'' ''registration scopes exceed the credential owner rights''
      else ws_accept
        [ws_env ctx 0 AgentPrincipalCreated (no_fields\<lparr>w_principal_id := Some principal_id,
           w_owner_user_id := Some user_id, w_name := Some name, w_model := Some None,
           w_transport := Some (Some (Inl LocalTransport)), w_turn_only := Some (Some (Inl False)),
           w_created_at := Some (wc_now ctx)\<rparr>),
         ws_env ctx 1 AgentTokenMinted (no_fields\<lparr>w_token_id := Some token_id,
           w_principal_id := Some principal_id, w_run_id := Some run_id,
           w_task_id := Some (Some attempt_id), w_epoch := Some (Some 0), w_scopes := Some scopes,
           w_issued_at := Some (wc_now ctx),
           w_expires_at := Some (wc_now ctx + finite_value ttl_ms)\<rparr>)])"

definition decide_accept_invitation ::
  "'r workspace_state \<Rightarrow> ws_ctx \<Rightarrow> string \<Rightarrow> string \<Rightarrow> 'p ws_decision" where
  "decide_accept_invitation s ctx user_id token_hash =
     (let cmd = AcceptInvitation token_hash in
      if \<not> wc_identityVerified ctx user_id then
        ws_authz ''identity_not_verified'' ''verified identity is required''
      else case filter (\<lambda>i. wi_token_hash i = token_hash) (obj_values (ws_invitations s)) of
        [invitation] \<Rightarrow>
          if \<not> live_invitation invitation (wc_now ctx) then
            ws_domain ctx cmd ''invitation_not_live'' ''invitation is consumed, revoked, or expired''
          else if liveMember s user_id \<noteq> None then
            ws_domain ctx cmd ''member_exists'' ''invitee is already a current member''
          else ws_accept
            [ws_env ctx 0 InvitationAccepted (no_fields\<lparr>
               w_invitation_id := Some (wi_invitation_id invitation),
               w_consumed_by := Some user_id, w_consumed_at := Some (wc_now ctx)\<rparr>),
             ws_env ctx 1 MemberJoined (no_fields\<lparr>w_user_id := Some user_id,
               w_role := Some (Inl (wi_role invitation)),
               w_invited_by := Some (Some (wi_created_by invitation)),
               w_joined_at := Some (wc_now ctx)\<rparr>)]
      | _ \<Rightarrow> ws_authz ''invitation_token_mismatch'' ''invitation capability is invalid'')"

definition decide_archive ::
  "'r workspace_state \<Rightarrow> ws_ctx \<Rightarrow> workspace_role option \<Rightarrow> 'p ws_decision" where
  "decide_archive s ctx actorRole =
     (if actorRole \<noteq> Some RoleOwner then
        ws_domain ctx ArchiveWorkspace ''not_workspace_owner''
          ''closing a workspace requires the Owner role''
      else if wr_archived_at (ws_workspace s) \<noteq> None then
        ws_domain ctx ArchiveWorkspace ''workspace_already_archived'' ''workspace is already closed''
      else ws_accept [ws_env ctx 0 WorkspaceArchived (no_fields\<lparr>w_archived_at := Some (wc_now ctx)\<rparr>)])"

definition decide_rename ::
  "'r workspace_state \<Rightarrow> ws_ctx \<Rightarrow> workspace_role option \<Rightarrow> js_value \<Rightarrow> 'p ws_decision" where
  "decide_rename s ctx actorRole name =
     (let cmd = RenameWorkspace name in
      if \<not> ownerOrAdmin actorRole then
        ws_domain ctx cmd ''role_forbidden'' ''renaming a workspace requires Owner/Admin''
      else if \<not> validWorkspaceName name then
        ws_domain ctx cmd ''workspace_name_invalid''
          ''a workspace name is 1..80 characters with no surrounding spaces or control characters''
      else if name = JsString (wr_name (ws_workspace s)) then
        ws_domain ctx cmd ''bad_state'' ''the workspace already has that name''
      else ws_accept [ws_env ctx 0 WorkspaceRenamed (no_fields\<lparr>
             w_name := (case name of JsString n \<Rightarrow> Some n | _ \<Rightarrow> None),
             w_previous_name := Some (wr_name (ws_workspace s))\<rparr>)])"

definition decide_invite ::
  "'r workspace_state \<Rightarrow> ws_ctx \<Rightarrow> string \<Rightarrow> workspace_role option \<Rightarrow> string \<Rightarrow> string option \<Rightarrow>
     workspace_role \<Rightarrow> string \<Rightarrow> jsnum \<Rightarrow> 'p ws_decision" where
  "decide_invite s ctx user_id actorRole invitation_id email role token_hash expires_at =
     (let cmd = InviteMember invitation_id email role token_hash expires_at in
      if \<not> ownerOrAdmin actorRole then
        ws_domain ctx cmd ''role_forbidden'' ''inviting members requires Owner/Admin''
      else if role = RoleOwner \<and> actorRole \<noteq> Some RoleOwner then
        ws_domain ctx cmd ''role_forbidden'' ''only an Owner may invite another Owner''
      else if \<not> is_finite expires_at \<or> finite_value expires_at \<le> wc_now ctx \<or>
          INVITATION_MAX_TTL_MS < finite_value expires_at - wc_now ctx then
        ws_domain ctx cmd ''invitation_ttl_invalid''
          ''invitation TTL must be positive and at most 7 days''
      else if wc_inviteeAlreadyMember ctx email then
        ws_domain ctx cmd ''member_exists'' ''invitee is already a current member''
      else if obj_get (ws_invitations s) invitation_id \<noteq> None \<or>
          (\<exists>i \<in> set (obj_values (ws_invitations s)). wi_token_hash i = token_hash) then
        ws_domain ctx cmd ''bad_state'' ''invitation id or token hash already exists''
      else ws_accept [ws_env ctx 0 MemberInvited (no_fields\<lparr>w_invitation_id := Some invitation_id,
             w_email := Some email, w_role := Some (Inl role), w_token_hash := Some token_hash,
             w_expires_at := Some (finite_value expires_at), w_created_by := Some user_id,
             w_created_at := Some (wc_now ctx)\<rparr>)])"

definition decide_revoke_invitation ::
  "'r workspace_state \<Rightarrow> ws_ctx \<Rightarrow> workspace_role option \<Rightarrow> string \<Rightarrow> 'p ws_decision" where
  "decide_revoke_invitation s ctx actorRole invitation_id =
     (let cmd = RevokeInvitation invitation_id in
      if \<not> ownerOrAdmin actorRole then
        ws_domain ctx cmd ''role_forbidden'' ''revoking invitations requires Owner/Admin''
      else case obj_get (ws_invitations s) invitation_id of
        None \<Rightarrow> ws_domain ctx cmd ''invitation_not_found'' ''invitation does not exist''
      | Some invitation \<Rightarrow>
          if \<not> live_invitation invitation (wc_now ctx) then
            ws_domain ctx cmd ''invitation_not_live'' ''invitation is not live''
          else ws_accept [ws_env ctx 0 InvitationRevoked (no_fields\<lparr>
                 w_invitation_id := Some invitation_id, w_revoked_at := Some (wc_now ctx)\<rparr>)])"

text \<open>
  The loop over the pending invitations of a removed member: a rejection inside it comes after the
  envelopes of the earlier revocations were built.
\<close>

fun revocations_loop ::
  "'r workspace_state \<Rightarrow> ws_ctx \<Rightarrow> ws_command \<Rightarrow> string set \<Rightarrow> 'p ws_event list \<Rightarrow> string list \<Rightarrow>
     'p ws_decision + 'p ws_event list" where
  "revocations_loop s ctx cmd seen acc [] = Inr acc"
| "revocations_loop s ctx cmd seen acc (i # is) =
     (if i \<in> seen then revocations_loop s ctx cmd seen acc is
      else case obj_get (ws_invitations s) i of
        None \<Rightarrow> Inl (ws_domain_at (length acc) ctx cmd ''invitation_not_live''
                 ''a pending invitation for this member is not live'')
      | Some invitation \<Rightarrow>
          if wi_consumed_at invitation \<noteq> None \<or> wi_revoked_at invitation \<noteq> None then
            Inl (ws_domain_at (length acc) ctx cmd ''invitation_not_live''
              ''a pending invitation for this member is not live'')
          else revocations_loop s ctx cmd (insert i seen)
            (acc @ [ws_env ctx (length acc) InvitationRevoked (no_fields\<lparr>
               w_invitation_id := Some i, w_revoked_at := Some (wc_now ctx)\<rparr>)]) is)"

definition decide_remove_member ::
  "'r workspace_state \<Rightarrow> ws_ctx \<Rightarrow> workspace_role option \<Rightarrow> string \<Rightarrow> string option \<Rightarrow> 'p ws_decision" where
  "decide_remove_member s ctx actorRole target_id successor =
     (let cmd = RemoveMember target_id successor in
      if \<not> ownerOrAdmin actorRole then
        ws_domain ctx cmd ''role_forbidden'' ''removing members requires Owner/Admin''
      else case liveMember s target_id of
        None \<Rightarrow> ws_domain ctx cmd ''member_not_found'' ''target is not a current member''
      | Some target \<Rightarrow>
          if actorRole = Some RoleAdmin \<and> wm_role target = RoleOwner then
            ws_domain ctx cmd ''role_forbidden'' ''Admin cannot remove an Owner''
          else if wm_role target = RoleOwner \<and> ws_owners_count s \<le> 1 then
            ws_domain ctx cmd ''last_owner'' ''last Owner cannot be removed''
          else if \<not> wc_landingAuthorityChangeResolved ctx target_id successor then
            ws_domain ctx cmd ''landing_authority_unresolved''
              ''landing authority must be transferred to a live successor first''
          else case revocations_loop s ctx cmd {} []
              (sort (case wc_pendingInvitationIds ctx of Some f \<Rightarrow> f target_id | None \<Rightarrow> [])) of
            Inl rejection \<Rightarrow> rejection
          | Inr revocations \<Rightarrow> ws_accept (revocations @
              [ws_env ctx (length revocations) MemberRemoved (no_fields\<lparr>
                 w_user_id := Some target_id, w_revoked_at := Some (wc_now ctx)\<rparr>)]))"

definition decide_change_role ::
  "'r workspace_state \<Rightarrow> ws_ctx \<Rightarrow> workspace_role option \<Rightarrow> string \<Rightarrow> workspace_role \<Rightarrow>
     string option \<Rightarrow> 'p ws_decision" where
  "decide_change_role s ctx actorRole target_id role successor =
     (let cmd = ChangeRole target_id role successor in
      if \<not> ownerOrAdmin actorRole then
        ws_domain ctx cmd ''role_forbidden'' ''changing roles requires Owner/Admin''
      else case liveMember s target_id of
        None \<Rightarrow> ws_domain ctx cmd ''member_not_found'' ''target is not a current member''
      | Some target \<Rightarrow>
          if wm_role target = role then
            ws_domain ctx cmd ''bad_state'' ''member already has that role''
          else if actorRole = Some RoleAdmin \<and> (wm_role target = RoleOwner \<or> role = RoleOwner) then
            ws_domain ctx cmd ''role_forbidden'' ''Admin cannot add, remove, or change an Owner''
          else if wm_role target = RoleOwner \<and> role \<noteq> RoleOwner \<and> ws_owners_count s \<le> 1 then
            ws_domain ctx cmd ''last_owner'' ''last Owner cannot be demoted''
          else if \<not> wc_landingAuthorityChangeResolved ctx target_id successor then
            ws_domain ctx cmd ''landing_authority_unresolved''
              ''landing authority must be transferred to a live successor first''
          else ws_accept [ws_env ctx 0 MemberRoleChanged (no_fields\<lparr>w_user_id := Some target_id,
                 w_from_role := Some (Inl (wm_role target)), w_to_role := Some (Inl role)\<rparr>)])"

definition decide_create_principal ::
  "'r workspace_state \<Rightarrow> ws_ctx \<Rightarrow> string \<Rightarrow> string \<Rightarrow> jstext \<Rightarrow> jstext option option \<Rightarrow> bool \<Rightarrow>
     'p ws_decision" where
  "decide_create_principal s ctx user_id principal_id name model allow_duplicate_name =
     (if obj_get (ws_principals s) principal_id \<noteq> None \<or>
        (\<not> allow_duplicate_name \<and> (\<exists>e \<in> set (obj_values (ws_principals s)). wp_name e = name)) then
        ws_domain ctx (CreateAgentPrincipal principal_id name model allow_duplicate_name)
          ''principal_name_taken'' ''principal id or name already exists''
      else ws_accept [ws_env ctx 0 AgentPrincipalCreated (no_fields\<lparr>
             w_principal_id := Some principal_id, w_owner_user_id := Some user_id,
             w_name := Some name,
             w_model := Some (case model of Some m \<Rightarrow> m | None \<Rightarrow> None),
             w_transport := Some (Some (Inl LocalTransport)), w_turn_only := Some (Some (Inl False)),
             w_created_at := Some (wc_now ctx)\<rparr>)])"

definition decide_revoke_principal ::
  "'r workspace_state \<Rightarrow> ws_ctx \<Rightarrow> string \<Rightarrow> workspace_role option \<Rightarrow> string \<Rightarrow> 'p ws_decision" where
  "decide_revoke_principal s ctx user_id actorRole principal_id =
     (let cmd = RevokeAgentPrincipal principal_id in
      case obj_get (ws_principals s) principal_id of
        None \<Rightarrow> ws_domain ctx cmd ''principal_not_found'' ''agent principal does not exist''
      | Some prin \<Rightarrow>
          if wp_revoked_at prin \<noteq> None then
            ws_domain ctx cmd ''principal_revoked'' ''agent principal is already revoked''
          else if \<not> ownerOrAdmin actorRole \<and> wp_owner_user_id prin \<noteq> user_id then
            ws_domain ctx cmd ''principal_not_owned'' ''Member may revoke only their own principal''
          else ws_accept [ws_env ctx 0 AgentPrincipalRevoked (no_fields\<lparr>
                 w_principal_id := Some principal_id, w_revoked_at := Some (wc_now ctx)\<rparr>)])"

definition FEEDBACK_CATEGORIES :: "feedback_category list" where
  "FEEDBACK_CATEGORIES = [Bug, Idea, Friction]"

text \<open>Who a feedback is from: a rejection, or the kind and id of the reporter.\<close>

definition feedback_reporter ::
  "'r workspace_state \<Rightarrow> ws_ctx \<Rightarrow> ws_command \<Rightarrow> string \<Rightarrow> 'p ws_decision + reporter_kind \<times> string" where
  "feedback_reporter s ctx cmd user_id =
     (if wc_credential_kind ctx = AgentCredential then
        (case act_agent_principal (wc_actor ctx) of
           None \<Rightarrow> Inl (ws_authz ''principal_not_presented''
                     ''agent feedback requires the presenting principal to be resolved'')
         | Some pid \<Rightarrow>
             (case obj_get (ws_principals s) pid of
                None \<Rightarrow> Inl (ws_domain ctx cmd ''principal_revoked''
                          ''the presenting principal is missing or revoked'')
              | Some reporting \<Rightarrow>
                  if wp_revoked_at reporting \<noteq> None then
                    Inl (ws_domain ctx cmd ''principal_revoked''
                      ''the presenting principal is missing or revoked'')
                  else Inr (ReporterAgent, wp_principal_id reporting)))
      else if wc_role ctx user_id = None then
        Inl (ws_authz ''bad_state'' ''caller is not a current workspace member'')
      else Inr (ReporterUser, user_id))"

definition decide_feedback ::
  "'r workspace_state \<Rightarrow> ws_ctx \<Rightarrow> string \<Rightarrow> string \<Rightarrow> feedback_category \<Rightarrow> js_value \<Rightarrow> js_value \<Rightarrow>
     'p ws_decision" where
  "decide_feedback s ctx user_id feedback_id category body context =
     (let cmd = SubmitFeedback feedback_id category body context in
      if category \<notin> set FEEDBACK_CATEGORIES then
        ws_domain ctx cmd ''feedback_invalid'' ''category must be bug, idea, or friction''
      else case normalizedFeedbackBody body of
        Inl message \<Rightarrow> ws_domain ctx cmd ''feedback_invalid'' message
      | Inr b \<Rightarrow>
          (case normalizedFeedbackContext context of
             Inl message \<Rightarrow> ws_domain ctx cmd ''feedback_invalid'' message
           | Inr c \<Rightarrow>
               (case feedback_reporter s ctx cmd user_id of
                  Inl rejection \<Rightarrow> rejection
                | Inr (kind, reporter) \<Rightarrow> ws_accept [ws_env ctx 0 FeedbackSubmitted (no_fields\<lparr>
                    w_feedback_id := Some feedback_id, w_category := Some category,
                    w_body := Some b, w_context := Some c, w_reporter_kind := Some kind,
                    w_reporter_id := Some reporter, w_submitted_at := Some (wc_now ctx)\<rparr>)])))"

definition decide_mint_token ::
  "'r workspace_state \<Rightarrow> ws_ctx \<Rightarrow> string \<Rightarrow> string \<Rightarrow> string \<Rightarrow> string \<Rightarrow> string \<Rightarrow> jsnum \<Rightarrow>
     jstext list \<Rightarrow> jsnum option \<Rightarrow> 'p ws_decision" where
  "decide_mint_token s ctx user_id token_id principal_id run_id task_id epoch scopes ttl_ms =
     (let cmd = MintAgentToken token_id principal_id run_id task_id epoch scopes ttl_ms;
          ttl = (case ttl_ms of Some t \<Rightarrow> t | None \<Rightarrow> Fin AGENT_TOKEN_DEFAULT_TTL_MS) in
      case obj_get (ws_principals s) principal_id of
        None \<Rightarrow> ws_domain ctx cmd ''principal_not_found'' ''agent principal does not exist''
      | Some prin \<Rightarrow>
          if wp_revoked_at prin \<noteq> None then
            ws_domain ctx cmd ''principal_revoked'' ''agent principal is revoked''
          else if wp_transport prin = HostedMcp \<or> wp_turn_only prin then
            ws_domain ctx cmd ''transport_unavailable''
              ''hosted MCP principals cannot receive independently usable credentials''
          else if wp_owner_user_id prin \<noteq> user_id then
            ws_domain ctx cmd ''principal_not_owned'' ''tokens may be minted only for an owned principal''
          else if run_id = [] \<or> task_id = [] \<or> \<not> is_integer epoch \<or> finite_value epoch < 0 then
            ws_domain ctx cmd ''binding_required''
              ''run_id, task_id, and a non-negative integer epoch are required''
          else if \<not> is_finite ttl \<or> js_le ttl (Fin 0) \<or> \<not> js_le ttl (Fin AGENT_TOKEN_MAX_TTL_MS) then
            ws_domain ctx cmd ''token_ttl_invalid'' ''token TTL must be positive and at most 30 days''
          else if obj_get (ws_tokens s) token_id \<noteq> None then
            ws_domain ctx cmd ''bad_state'' ''token id already exists''
          else if scopes = [] \<or> (\<exists>sc \<in> set scopes. scopeWords sc = []) then
            ws_domain ctx cmd ''scope_not_allowed'' ''at least one concrete scope is required''
          else if \<exists>sc \<in> set scopes. isAgentScopeDenylisted sc then
            ws_domain ctx cmd ''scope_denylisted'' ''one or more scopes are human-credential-only''
          else if \<exists>sc \<in> set scopes. sc \<notin> set (wc_humanRights ctx (wc_actor ctx)) then
            ws_domain ctx cmd ''scope_not_allowed'' ''requested scopes exceed the human credential rights''
          else ws_accept [ws_env ctx 0 AgentTokenMinted (no_fields\<lparr>w_token_id := Some token_id,
                 w_principal_id := Some principal_id, w_run_id := Some run_id,
                 w_task_id := Some (Some task_id), w_epoch := Some (Some (finite_value epoch)),
                 w_scopes := Some scopes, w_issued_at := Some (wc_now ctx),
                 w_expires_at := Some (wc_now ctx + finite_value ttl)\<rparr>)])"

definition decide_declare_model ::
  "'r workspace_state \<Rightarrow> ws_ctx \<Rightarrow> js_value \<Rightarrow> 'p ws_decision" where
  "decide_declare_model s ctx model =
     (let cmd = DeclareAgentModel model in
      if wc_credential_kind ctx \<noteq> AgentCredential then
        ws_authz ''credential_kind_forbidden''
          ''model declaration is presented by the agent describing itself; a human sets model at principal creation''
      else case act_agent_principal (wc_actor ctx) of
        None \<Rightarrow> ws_authz ''principal_not_presented''
          ''model declaration requires the presenting agent principal to be resolved''
      | Some pid \<Rightarrow>
          (case obj_get (ws_principals s) pid of
             None \<Rightarrow> ws_domain ctx cmd ''principal_revoked'' ''the presenting principal is missing or revoked''
           | Some declaring \<Rightarrow>
               if wp_revoked_at declaring \<noteq> None then
                 ws_domain ctx cmd ''principal_revoked'' ''the presenting principal is missing or revoked''
               else (case normalizedModel model of
                   Inl message \<Rightarrow> ws_domain ctx cmd ''model_invalid'' message
                 | Inr m \<Rightarrow> ws_accept [ws_env ctx 0 AgentModelDeclared (no_fields\<lparr>
                     w_principal_id := Some (wp_principal_id declaring), w_model := Some m,
                     w_declared_at := Some (wc_now ctx)\<rparr>)])))"

definition decide_set_model ::
  "'r workspace_state \<Rightarrow> ws_ctx \<Rightarrow> string \<Rightarrow> workspace_role option \<Rightarrow> string \<Rightarrow> js_value \<Rightarrow>
     'p ws_decision" where
  "decide_set_model s ctx user_id actorRole principal_id model =
     (let cmd = SetAgentModel principal_id model in
      case obj_get (ws_principals s) principal_id of
        None \<Rightarrow> ws_domain ctx cmd ''principal_not_found'' ''agent principal does not exist''
      | Some prin \<Rightarrow>
          if wp_revoked_at prin \<noteq> None then
            ws_domain ctx cmd ''principal_revoked'' ''agent principal is revoked''
          else if \<not> ownerOrAdmin actorRole \<and> wp_owner_user_id prin \<noteq> user_id then
            ws_domain ctx cmd ''principal_not_owned''
              ''Member may set only their own principal's model''
          else (case normalizedModel model of
              Inl message \<Rightarrow> ws_domain ctx cmd ''model_invalid'' message
            | Inr m \<Rightarrow> ws_accept [ws_env ctx 0 AgentModelDeclared (no_fields\<lparr>
                w_principal_id := Some (wp_principal_id prin), w_model := Some m,
                w_declared_at := Some (wc_now ctx)\<rparr>)]))"

text \<open>
  The grant part of a renewal, from the supersession check on: the first fence that refuses, with
  its reason and detail, or nothing.
\<close>

definition timeboxed_valid :: "renewal_grant_facts \<Rightarrow> number \<Rightarrow> bool" where
  "timeboxed_valid g now \<longleftrightarrow> rg_kind g = Timeboxed \<and>
     (case rg_horizon_expires_at g of
        Some (Fin h) \<Rightarrow> rg_max_successors g \<noteq> None \<and> h - now \<le> RENEWAL_HORIZON_MAX_MS
      | _ \<Rightarrow> False)"

definition standing_valid :: "renewal_grant_facts \<Rightarrow> bool" where
  "standing_valid g \<longleftrightarrow> rg_kind g = Standing \<and> rg_horizon_expires_at g = None \<and> rg_max_successors g = None"

definition horizon_value :: "renewal_grant_facts \<Rightarrow> number" where
  "horizon_value g = (case rg_horizon_expires_at g of Some h \<Rightarrow> finite_value h | None \<Rightarrow> 0)"

definition successors_exhausted :: "renewal_facts \<Rightarrow> renewal_grant_facts \<Rightarrow> bool" where
  "successors_exhausted f g =
     (let replacing = rf_superseded f \<and> rf_successor_pending f;
          effectiveUsed = finite_value (rg_successors_used g) - finite_value (rg_successors_stranded g);
          successorsUsed = (if replacing then effectiveUsed - 1 else effectiveUsed) in
      \<not> is_integer (rg_successors_used g) \<or> \<not> is_integer (rg_successors_stranded g) \<or>
      (case rg_max_successors g of
         None \<Rightarrow> False
       | Some m \<Rightarrow> \<not> is_integer m \<or> finite_value m \<le> successorsUsed))"

definition grant_refusal ::
  "renewal_facts \<Rightarrow> renewal_grant_facts \<Rightarrow> number \<Rightarrow> (string \<times> string) option" where
  "grant_refusal f g now =
     (if rg_revoked_at g \<noteq> None then
        Some (''renewal_grant_revoked'', ''renewal grant is revoked'')
      else if rf_grant_preflight_code f = Some PreIdleSuspended then
        Some (''renewal_idle_suspended'', ''standing grant is paused; it is not revoked, and a workspace owner or admin, or the member who owns this agent, can resume it'')
      else if rf_grant_preflight_code f = Some PreGrantSuspended \<or> rg_suspension_active g then
        Some (''renewal_grant_suspended'', ''renewal grant is paused; it is not revoked, and an owner must resume or revoke it'')
      else if rf_grant_preflight_code f = Some PreDeviceUnavailable then
        Some (''renewal_device_unavailable'', ''the bound grant cannot verify a device for this renewal'')
      else if rf_grant_preflight_code f = Some PreDeviceMismatch then
        Some (''renewal_device_mismatch'', ''the renewal device does not match the grant binding'')
      else if rg_kind g = Timeboxed \<and> rf_grant_preflight_code f = Some PreHorizonReached then
        Some (''renewal_horizon_reached'', ''the continuous-renewal horizon has passed; a human must reauthorise this run'')
      else if \<not> timeboxed_valid g now \<and> \<not> standing_valid g then
        Some (''renewal_horizon_invalid'', ''renewal grant kind, horizon, or successor ceiling is invalid'')
      else if rg_kind g = Timeboxed \<and> rg_horizon_expires_at g \<noteq> None \<and> horizon_value g \<le> now then
        Some (''renewal_horizon_reached'', ''the continuous-renewal horizon has passed; a human must reauthorise this run'')
      else if rf_predecessor_pending f then
        Some (''predecessor_pending_first_use'', ''this credential has not been used yet; a successor is issued only from a credential already in use'')
      else if successors_exhausted f g then
        Some (''renewal_successors_exhausted'', ''renewal grant has no successors left'')
      else None)"

definition renewal_refusal ::
  "renewal_facts \<Rightarrow> workspace_token \<Rightarrow> number \<Rightarrow> (string \<times> string) option" where
  "renewal_refusal f predecessor now =
     (if rf_superseded f \<and> \<not> rf_successor_pending f then
        Some (''predecessor_superseded'', ''predecessor has already issued a successor; use it rather than renewing again'')
      else if wt_expires_at predecessor \<le> now then
        Some (''predecessor_expired'', ''predecessor token has expired'')
      else if wt_task_id predecessor = None \<or> wt_epoch predecessor = None then
        Some (''renewal_binding_incomplete'', ''predecessor carries no task/epoch binding for the successor to inherit'')
      else if rf_lineage_revoked f then
        Some (''renewal_lineage_revoked'', ''the renewal lineage carries a revocation'')
      else if rf_grant_mismatch f then
        Some (''renewal_grant_mismatch'', ''the named grant is bound to a different principal or run'')
      else case rf_grant f of
        None \<Rightarrow> Some (''renewal_grant_not_found'', ''no renewal grant was created for this run at join/spawn'')
      | Some g \<Rightarrow> grant_refusal f g now)"

definition successor_expiry :: "renewal_grant_facts \<Rightarrow> number \<Rightarrow> number" where
  "successor_expiry g now =
     (if rg_kind g = Standing then now + AGENT_TOKEN_DEFAULT_TTL_MS
      else min (now + AGENT_TOKEN_DEFAULT_TTL_MS) (horizon_value g))"

definition decide_successor ::
  "'r workspace_state \<Rightarrow> ws_ctx \<Rightarrow> workspace_token \<Rightarrow> renewal_grant_facts \<Rightarrow> string \<Rightarrow> jstext list \<Rightarrow>
     'p ws_decision" where
  "decide_successor s ctx predecessor grant successor_token_id scopes =
     (let cmd = RenewAgentToken successor_token_id scopes in
      if scopes = [] \<or> (\<exists>sc \<in> set scopes. sc \<notin> set (wt_scopes predecessor)) then
        ws_domain ctx cmd ''renewal_scope_widened''
          ''successor scopes must be equal to or narrower than the predecessor''
      else if \<exists>sc \<in> set scopes. isAgentScopeDenylisted sc then
        ws_domain ctx cmd ''scope_denylisted'' ''one or more scopes are human-credential-only''
      else if obj_get (ws_tokens s) successor_token_id \<noteq> None then
        ws_domain ctx cmd ''bad_state'' ''successor token id already exists''
      else ws_accept [ws_env ctx 0 AgentTokenMinted (no_fields\<lparr>
        w_token_id := Some successor_token_id, w_principal_id := Some (wt_principal_id predecessor),
        w_run_id := Some (wt_run_id predecessor), w_task_id := Some (wt_task_id predecessor),
        w_epoch := Some (wt_epoch predecessor), w_scopes := Some scopes,
        w_issued_at := Some (wc_now ctx),
        w_expires_at := Some (successor_expiry grant (wc_now ctx)),
        w_predecessor_token_id := Some (wt_token_id predecessor),
        w_renewal_grant_id := Some (rg_renewal_grant_id grant)\<rparr>)])"

definition decide_renew_token ::
  "'r workspace_state \<Rightarrow> ws_ctx \<Rightarrow> string \<Rightarrow> jstext list \<Rightarrow> 'p ws_decision" where
  "decide_renew_token s ctx successor_token_id scopes =
     (let cmd = RenewAgentToken successor_token_id scopes in
      if wc_credential_kind ctx \<noteq> AgentCredential then
        ws_authz ''renewal_requires_agent_credential''
          ''renewal is presented by the worker credential being renewed; a human re-authorises by minting''
      else case (wc_presenting_token_id ctx, act_agent_principal (wc_actor ctx)) of
        (Some presenting, Some agent) \<Rightarrow>
          (case obj_get (ws_tokens s) presenting of
             None \<Rightarrow> ws_domain ctx cmd ''predecessor_not_found''
                       ''presenting token is not a token of this workspace''
           | Some predecessor \<Rightarrow>
               (case wc_renewalFacts ctx of
                  None \<Rightarrow> ws_authz ''renewal_unsupported''
                            ''no renewal oracle is wired; renewal fails closed rather than defaulting''
                | Some oracle \<Rightarrow>
                    if wt_principal_id predecessor \<noteq> agent then
                      ws_authz ''predecessor_not_owned''
                        ''presenting token does not belong to the acting principal''
                    else (case obj_get (ws_principals s) (wt_principal_id predecessor) of
                        None \<Rightarrow> ws_domain ctx cmd ''principal_revoked''
                                  ''the predecessor principal is missing or revoked''
                      | Some prin \<Rightarrow>
                          if wp_revoked_at prin \<noteq> None then
                            ws_domain ctx cmd ''principal_revoked''
                              ''the predecessor principal is missing or revoked''
                          else if wp_transport prin = HostedMcp \<or> wp_turn_only prin then
                            ws_domain ctx cmd ''transport_unavailable''
                              ''hosted MCP principals cannot renew independent credentials''
                          else if wt_revoked_at predecessor \<noteq> None then
                            ws_domain ctx cmd ''predecessor_revoked'' ''predecessor token is revoked''
                          else let facts = oracle (wt_token_id predecessor) in
                            (case renewal_refusal facts predecessor (wc_now ctx) of
                               Some (reason, detail) \<Rightarrow> ws_domain ctx cmd reason detail
                             | None \<Rightarrow>
                                 decide_successor s ctx predecessor (the (rf_grant facts))
                                   successor_token_id scopes))))
      | _ \<Rightarrow> ws_authz ''predecessor_not_presented''
               ''renewal requires the presenting agent token to be resolved'')"

definition decide_revoke_token ::
  "'r workspace_state \<Rightarrow> ws_ctx \<Rightarrow> string \<Rightarrow> workspace_role option \<Rightarrow> string \<Rightarrow> 'p ws_decision" where
  "decide_revoke_token s ctx user_id actorRole token_id =
     (let cmd = RevokeAgentToken token_id;
          agent = (wc_credential_kind ctx = AgentCredential);
          refusal = ws_authz ''credential_kind_forbidden''
            ''agent credential may revoke only its exact presenting token'' in
      if agent \<and> (wc_presenting_token_id ctx \<noteq> Some token_id \<or>
          act_agent_principal (wc_actor ctx) = None) then refusal
      else case obj_get (ws_tokens s) token_id of
        None \<Rightarrow> ws_domain ctx cmd ''token_not_found'' ''agent token does not exist''
      | Some token \<Rightarrow>
          if wt_revoked_at token \<noteq> None then
            ws_domain ctx cmd ''token_revoked'' ''agent token is already revoked''
          else (case obj_get (ws_principals s) (wt_principal_id token) of
              None \<Rightarrow> ws_domain ctx cmd ''principal_not_found'' ''token principal does not exist''
            | Some prin \<Rightarrow>
                if agent \<and> act_agent_principal (wc_actor ctx) \<noteq> Some (wt_principal_id token) then refusal
                else if \<not> agent \<and> \<not> ownerOrAdmin actorRole \<and> wp_owner_user_id prin \<noteq> user_id then
                  ws_domain ctx cmd ''principal_not_owned''
                    ''Member may revoke only a token for their own principal''
                else ws_accept [ws_env ctx 0 AgentTokenRevoked (no_fields\<lparr>
                       w_token_id := Some token_id, w_revoked_at := Some (wc_now ctx)\<rparr>)]))"

section \<open>The decision\<close>

text \<open>The switch on the command, for a member (or a renewal) of a workspace that exists.\<close>

definition decide_member_command ::
  "'r workspace_state \<Rightarrow> ws_command \<Rightarrow> ws_ctx \<Rightarrow> string \<Rightarrow> workspace_role option \<Rightarrow>
     ws_decide_error + 'p ws_decision" where
  "decide_member_command s cmd ctx user_id actorRole = (case cmd of
     ArchiveWorkspace \<Rightarrow> Inr (decide_archive s ctx actorRole)
   | RenameWorkspace name \<Rightarrow> Inr (decide_rename s ctx actorRole name)
   | InviteMember iid email role hash expires \<Rightarrow>
       Inr (decide_invite s ctx user_id actorRole iid email role hash expires)
   | RevokeInvitation iid \<Rightarrow> Inr (decide_revoke_invitation s ctx actorRole iid)
   | RemoveMember uid successor \<Rightarrow> Inr (decide_remove_member s ctx actorRole uid successor)
   | ChangeRole uid role successor \<Rightarrow> Inr (decide_change_role s ctx actorRole uid role successor)
   | CreateAgentPrincipal pid name model dup \<Rightarrow>
       Inr (decide_create_principal s ctx user_id pid name model dup)
   | RevokeAgentPrincipal pid \<Rightarrow> Inr (decide_revoke_principal s ctx user_id actorRole pid)
   | SubmitFeedback fid cat body context \<Rightarrow> Inr (decide_feedback s ctx user_id fid cat body context)
   | MintAgentToken tid pid run task epoch scopes ttl \<Rightarrow>
       Inr (decide_mint_token s ctx user_id tid pid run task epoch scopes ttl)
   | DeclareAgentModel model \<Rightarrow> Inr (decide_declare_model s ctx model)
   | SetAgentModel pid model \<Rightarrow> Inr (decide_set_model s ctx user_id actorRole pid model)
   | RenewAgentToken tid scopes \<Rightarrow> Inr (decide_renew_token s ctx tid scopes)
   | RevokeAgentToken tid \<Rightarrow> Inr (decide_revoke_token s ctx user_id actorRole tid)
   | _ \<Rightarrow> Inl HandledOutsideReducer)"

text \<open>The guards on the credential kind, before any command is looked at.\<close>

definition is_register :: "ws_command \<Rightarrow> bool" where
  "is_register cmd \<longleftrightarrow> ws_kind cmd = ''register_agent_seat''"

definition credential_refusal :: "ws_ctx \<Rightarrow> ws_command \<Rightarrow> 'p ws_decision option" where
  "credential_refusal ctx cmd =
     (if (wc_credential_kind ctx = JoinCredential \<and> \<not> is_register cmd) \<or>
         (is_register cmd \<and> wc_credential_kind ctx \<noteq> JoinCredential) then
        Some (ws_authz ''credential_kind_forbidden''
          ''register_agent_seat requires the resolved join credential and that credential authorizes no other command'')
      else if wc_credential_kind ctx = HostedGrant then
        Some (ws_authz ''credential_kind_forbidden''
          ''hosted grant credentials authorize only claim_hosted_seat'')
      else if wc_credential_kind ctx = HostedSeat \<and> ws_kind cmd \<noteq> ''submit_feedback'' then
        Some (ws_authz ''credential_kind_forbidden''
          ''hosted seat credential cannot execute workspace management commands'')
      else if ws_kind cmd \<in> set HUMAN_ONLY_COMMANDS \<and> wc_credential_kind ctx \<noteq> HumanCredential then
        Some (ws_authz ''credential_kind_forbidden''
          ''command requires an interactive human credential'')
      else None)"

definition decide_in_workspace ::
  "'r workspace_state \<Rightarrow> ws_command \<Rightarrow> ws_ctx \<Rightarrow> string \<Rightarrow> ws_decide_error + 'p ws_decision" where
  "decide_in_workspace s cmd ctx user_id = (case cmd of
     RegisterAgentSeat attempt pid run tid name scopes ttl \<Rightarrow>
       Inr (decide_register s ctx user_id attempt pid run tid name scopes ttl)
   | AcceptInvitation hash \<Rightarrow> Inr (decide_accept_invitation s ctx user_id hash)
   | _ \<Rightarrow>
       if wc_role ctx user_id = None \<and> ws_kind cmd \<noteq> ''renew_agent_token'' then
         Inr (ws_authz ''bad_state'' ''caller is not a current workspace member'')
       else decide_member_command s cmd ctx user_id (wc_role ctx user_id))"

definition decideWorkspace ::
  "'r workspace_state option \<Rightarrow> ws_command \<Rightarrow> ws_ctx \<Rightarrow> ws_decide_error + 'p ws_decision" where
  "decideWorkspace state cmd ctx = (case callerUser ctx of
     None \<Rightarrow> Inr (ws_authz ''bad_state'' ''credential has no server-derived human owner'')
   | Some user_id \<Rightarrow>
       if user_id = [] then
         Inr (ws_authz ''bad_state'' ''credential has no server-derived human owner'')
       else (case credential_refusal ctx cmd of
           Some refusal \<Rightarrow> Inr refusal
         | None \<Rightarrow>
             (case cmd of
                CreateWorkspace wid name \<Rightarrow>
                  Inr (decide_create_workspace state ctx user_id wid name)
              | _ \<Rightarrow>
                  (case state of
                     None \<Rightarrow> Inr (ws_authz ''workspace_not_found'' ''workspace is unavailable'')
                   | Some s \<Rightarrow> decide_in_workspace s cmd ctx user_id))))"

end
