(* ===== verification/WorkspaceLifecycle.thy ===== *)
theory WorkspaceLifecycle
  imports WorkspaceCommands
begin

text \<open>
  What the workspace core guarantees: the effect of every event a decision may emit, that the events
  of any decision project onto any well-formed workspace, and the reachable workspaces. The
  projection loop (\<open>updateWorkspaceProjection\<close> of the command function) is \<open>fold_events\<close> of the
  reducer.
\<close>

section \<open>The effect of emitted events\<close>

lemma ws_env_simps [simp]:
  "ev_type (ws_env ctx k ty pf) = ty"
  "ev_payload (ws_env ctx k ty pf) = Fields pf"
  "ev_schema_version (ws_env ctx k ty pf) = SCHEMA_VERSION"
  "ev_seq (ws_env ctx k ty pf) = wc_nextSeq ctx k"
  "ev_event_id (ws_env ctx k ty pf) = wc_nextEventId ctx k"
  "ev_workspace_id (ws_env ctx k ty pf) = wc_workspace_id ctx"
  "ev_actor_user (ws_env ctx k ty pf) = act_user (wc_actor ctx)"
  "ev_actor_agent_principal (ws_env ctx k ty pf) = act_agent_principal (wc_actor ctx)"
  "ev_occurred_at_server (ws_env ctx k ty pf) = wc_now ctx"
  by (simp_all add: ws_env_def)

definition plain_event :: "workspace_event_type \<Rightarrow> bool" where
  "plain_event t = (case t of AdminRoutine _ \<Rightarrow> False | WorkspaceCreated \<Rightarrow> False
     | WorkspaceCommandRejected \<Rightarrow> False | UnknownWorkspaceEvent _ \<Rightarrow> False | _ \<Rightarrow> True)"

lemma assertOwnerCount_ok [simp]: "owners_ok s \<Longrightarrow> assertOwnerCount s env = Inr ()"
  by (auto simp: assertOwnerCount_Inr)

lemma reduceWorkspace_plain:
  fixes ra :: "('e, 'p, 'r) admin_reducer"
  assumes "plain_event ty"
    and "(reduce_ws_event s (ws_env ctx k ty p) :: ('e, 'r) ws_outcome) = Inr t" and "owners_ok t"
  shows "reduceWorkspace ra (Some s) (ws_env ctx k ty p) = Inr t"
proof -
  have known: "ty \<in> set WORKSPACE_EVENT_TYPES" using ws_event_types[of "ws_env ctx k ty p"] assms(1)
    by (auto simp: plain_event_def)
  show ?thesis
    by (cases ty) (use known assms in \<open>simp_all add: reduceWorkspace_def plain_event_def\<close>)
qed

lemma reduceWorkspace_rejected:
  "reduceWorkspace ra (Some s) (ws_env ctx k WorkspaceCommandRejected (no_fields\<lparr>
     w_workspace_id := Some w, w_command := Some c, w_reason := Some r, w_detail := Some d\<rparr>)) = Inr s"
  by (simp add: reduceWorkspace_def WORKSPACE_EVENT_TYPES_def ws_req_def)

lemma owners_ok_tables [simp]:
  "owners_ok (s\<lparr>ws_workspace := w\<rparr>) = owners_ok s"
  "owners_ok (s\<lparr>ws_invitations := i\<rparr>) = owners_ok s"
  "owners_ok (s\<lparr>ws_principals := q\<rparr>) = owners_ok s"
  "owners_ok (s\<lparr>ws_tokens := u\<rparr>) = owners_ok s"
  by (simp_all add: owners_ok_def)

lemma ws_req_env [simp]:
  "ws_req (ws_env ctx k ty p) keys =
     (case find (\<lambda>k. \<not> ws_defines p k) keys of
        Some x \<Rightarrow> ws_halt (ws_env ctx k ty p) (WsBadPayload (MissingPayloadField x))
      | None \<Rightarrow> Inr p)"
  by (simp add: ws_req_def req_def split: option.split)

lemma assertRole_Some [simp]: "assertRole (Some (Inl r)) f env = Inr r"
  by (cases r) (simp_all add: assertRole_def WORKSPACE_ROLES_def)

lemmas emitted = reduceWorkspace_plain reduce_ws_event_def plain_event_def Let_def no_fields_def

lemma archived_effect:
  "owners_ok s \<Longrightarrow> wr_archived_at (ws_workspace s) = None \<Longrightarrow>
     reduceWorkspace ra (Some s) (ws_env ctx k WorkspaceArchived (no_fields\<lparr>w_archived_at := Some a\<rparr>)) =
       Inr (s\<lparr>ws_workspace := (ws_workspace s)\<lparr>wr_archived_at := Some a\<rparr>\<rparr>)"
  by (simp add: emitted ws_archived_def)

lemma renamed_effect:
  "owners_ok s \<Longrightarrow> n \<noteq> [] \<Longrightarrow>
     reduceWorkspace ra (Some s) (ws_env ctx k WorkspaceRenamed (no_fields\<lparr>w_name := Some n,
       w_previous_name := Some (wr_name (ws_workspace s))\<rparr>)) =
       Inr (s\<lparr>ws_workspace := (ws_workspace s)\<lparr>wr_name := n\<rparr>\<rparr>)"
  by (simp add: emitted ws_renamed_def)

definition new_invitation ::
  "string \<Rightarrow> string option \<Rightarrow> workspace_role \<Rightarrow> string \<Rightarrow> number \<Rightarrow> string \<Rightarrow> number \<Rightarrow> workspace_invitation" where
  "new_invitation iid email role hash expires creator created = \<lparr>wi_invitation_id = iid,
     wi_email = email, wi_role = role, wi_token_hash = hash, wi_expires_at = expires,
     wi_created_by = creator, wi_created_at = created, wi_consumed_at = None,
     wi_consumed_by = None, wi_revoked_at = None\<rparr>"

lemma invited_effect:
  "owners_ok s \<Longrightarrow> obj_get (ws_invitations s) iid = None \<Longrightarrow>
     \<forall>i \<in> set (obj_values (ws_invitations s)). wi_token_hash i \<noteq> hash \<Longrightarrow>
     reduceWorkspace ra (Some s) (ws_env ctx k MemberInvited (no_fields\<lparr>w_invitation_id := Some iid,
       w_email := Some email, w_role := Some (Inl role), w_token_hash := Some hash,
       w_expires_at := Some e, w_created_by := Some u, w_created_at := Some c\<rparr>)) =
       Inr (s\<lparr>ws_invitations := obj_put (ws_invitations s) iid
         (new_invitation iid email role hash e u c)\<rparr>)"
  by (simp add: emitted ws_invited_def new_invitation_def)

lemma invitation_revoked_effect:
  "owners_ok s \<Longrightarrow> obj_get (ws_invitations s) iid = Some i \<Longrightarrow>
     reduceWorkspace ra (Some s) (ws_env ctx k InvitationRevoked (no_fields\<lparr>w_invitation_id := Some iid,
       w_revoked_at := Some r\<rparr>)) =
       Inr (s\<lparr>ws_invitations := obj_put (ws_invitations s) iid (i\<lparr>wi_revoked_at := Some r\<rparr>)\<rparr>)"
  by (simp add: emitted ws_invitation_revoked_def)

lemma invitation_accepted_effect:
  "owners_ok s \<Longrightarrow> obj_get (ws_invitations s) iid = Some i \<Longrightarrow>
     reduceWorkspace ra (Some s) (ws_env ctx k InvitationAccepted (no_fields\<lparr>w_invitation_id := Some iid,
       w_consumed_by := Some u, w_consumed_at := Some c\<rparr>)) =
       Inr (s\<lparr>ws_invitations := obj_put (ws_invitations s) iid
         (i\<lparr>wi_consumed_at := Some c, wi_consumed_by := Some u\<rparr>)\<rparr>)"
  by (simp add: emitted ws_invitation_accepted_def)

text \<open>The owner count of the members after one entry was written.\<close>

lemma owners_ok_join:
  "owners_ok s \<Longrightarrow> liveMember s k = None \<Longrightarrow> wm_revoked_at m = None \<Longrightarrow>
     owners_ok (s\<lparr>ws_members := obj_put (ws_members s) k m,
       ws_owners_count := ws_owners_count s + ownerDelta None (Some (wm_role m))\<rparr>)"
  using obj_count_put_old[of "ws_members s" k _ live_owner m]
    obj_count_put_new[of "ws_members s" k live_owner m]
  by (auto simp: owners_ok_def liveMember_def ownerDelta_def live_owner_def split: option.splits if_splits)

lemma owner_positive:
  "obj_get ob k = Some m \<Longrightarrow> live_owner m \<Longrightarrow> 1 \<le> obj_count live_owner ob"
  using obj_count_pos[of ob k m live_owner] by simp

lemma owners_ok_update:
  assumes "owners_ok s" and "obj_get (ws_members s) k = Some m"
    and "live_owner m \<Longrightarrow> \<not> live_owner m' \<Longrightarrow> 1 < ws_owners_count s"
    and "d = (if live_owner m' then 1 else 0) - (if live_owner m then 1 else 0)"
  shows "owners_ok (s\<lparr>ws_members := obj_put (ws_members s) k m', ws_owners_count := ws_owners_count s + d\<rparr>)"
  using assms(1,3,4) obj_count_put_old[OF assms(2), of live_owner m'] owner_positive[OF assms(2)]
  by (cases "live_owner m"; cases "live_owner m'") (auto simp: owners_ok_def)

definition new_member :: "string \<Rightarrow> workspace_role \<Rightarrow> string option \<Rightarrow> number \<Rightarrow> workspace_member" where
  "new_member uid role inviter joined = \<lparr>wm_user_id = uid, wm_role = role, wm_invited_by = inviter,
     wm_joined_at = joined, wm_revoked_at = None\<rparr>"

lemma joined_effect:
  "owners_ok s \<Longrightarrow> liveMember s uid = None \<Longrightarrow>
     reduceWorkspace ra (Some s) (ws_env ctx k MemberJoined (no_fields\<lparr>w_user_id := Some uid,
       w_role := Some (Inl role), w_invited_by := Some inviter, w_joined_at := Some j\<rparr>)) =
       Inr (s\<lparr>ws_members := obj_put (ws_members s) uid (new_member uid role inviter j),
         ws_owners_count := ws_owners_count s + ownerDelta None (Some role)\<rparr>)"
  using owners_ok_join[of s uid "new_member uid role inviter j"]
  by (auto simp: emitted ws_joined_def new_member_def liveMember_def split: option.splits if_splits)

lemma liveMemberD: "liveMember s uid = Some m \<Longrightarrow> obj_get (ws_members s) uid = Some m \<and> wm_revoked_at m = None"
  by (auto simp: liveMember_def split: option.splits if_splits)

lemma removed_effect:
  assumes "owners_ok s" and "liveMember s uid = Some m"
    and "wm_role m = RoleOwner \<longrightarrow> 1 < ws_owners_count s"
  shows "reduceWorkspace ra (Some s) (ws_env ctx k MemberRemoved (no_fields\<lparr>w_user_id := Some uid,
       w_revoked_at := Some r\<rparr>)) =
       Inr (s\<lparr>ws_members := obj_put (ws_members s) uid (m\<lparr>wm_revoked_at := Some r\<rparr>),
         ws_owners_count := ws_owners_count s + ownerDelta (Some (wm_role m)) None\<rparr>)"
  using liveMemberD[OF assms(2)] assms
    owners_ok_update[OF assms(1), of uid m "m\<lparr>wm_revoked_at := Some r\<rparr>" "ownerDelta (Some (wm_role m)) None"]
  by (simp add: emitted ws_removed_def live_owner_def ownerDelta_def)

lemma role_changed_effect:
  assumes "owners_ok s" and "liveMember s uid = Some m"
    and "wm_role m = RoleOwner \<longrightarrow> role \<noteq> RoleOwner \<longrightarrow> 1 < ws_owners_count s"
  shows "reduceWorkspace ra (Some s) (ws_env ctx k MemberRoleChanged (no_fields\<lparr>w_user_id := Some uid,
       w_from_role := Some (Inl (wm_role m)), w_to_role := Some (Inl role)\<rparr>)) =
       Inr (s\<lparr>ws_members := obj_put (ws_members s) uid (m\<lparr>wm_role := role\<rparr>),
         ws_owners_count := ws_owners_count s + ownerDelta (Some (wm_role m)) (Some role)\<rparr>)"
  using liveMemberD[OF assms(2)] assms
    owners_ok_update[OF assms(1), of uid m "m\<lparr>wm_role := role\<rparr>" "ownerDelta (Some (wm_role m)) (Some role)"]
  by (simp add: emitted ws_role_changed_def live_owner_def ownerDelta_def)

definition local_principal :: "string \<Rightarrow> string \<Rightarrow> jstext \<Rightarrow> jstext option \<Rightarrow> number \<Rightarrow> workspace_principal" where
  "local_principal pid owner name model created = \<lparr>wp_principal_id = pid, wp_owner_user_id = owner,
     wp_name = name, wp_model = model, wp_transport = LocalTransport, wp_turn_only = False,
     wp_created_at = created, wp_revoked_at = None\<rparr>"

lemma principal_created_effect:
  "owners_ok s \<Longrightarrow> obj_get (ws_principals s) pid = None \<Longrightarrow>
     reduceWorkspace ra (Some s) (ws_env ctx k AgentPrincipalCreated (no_fields\<lparr>w_principal_id := Some pid,
       w_owner_user_id := Some u, w_name := Some n, w_model := Some m,
       w_transport := Some (Some (Inl LocalTransport)), w_turn_only := Some (Some (Inl False)),
       w_created_at := Some c\<rparr>)) =
       Inr (s\<lparr>ws_principals := obj_put (ws_principals s) pid (local_principal pid u n m c)\<rparr>)"
  by (simp add: emitted ws_principal_created_def local_principal_def transport_or_local_def
      turn_only_or_false_def model_or_null_def AGENT_TRANSPORTS_def)

lemma principal_revoked_effect:
  "owners_ok s \<Longrightarrow> obj_get (ws_principals s) pid = Some e \<Longrightarrow>
     reduceWorkspace ra (Some s) (ws_env ctx k AgentPrincipalRevoked (no_fields\<lparr>w_principal_id := Some pid,
       w_revoked_at := Some r\<rparr>)) =
       Inr (s\<lparr>ws_principals := obj_put (ws_principals s) pid (e\<lparr>wp_revoked_at := Some r\<rparr>)\<rparr>)"
  by (simp add: emitted ws_principal_revoked_def)

lemma model_declared_effect:
  "owners_ok s \<Longrightarrow> obj_get (ws_principals s) pid = Some e \<Longrightarrow>
     reduceWorkspace ra (Some s) (ws_env ctx k AgentModelDeclared (no_fields\<lparr>w_principal_id := Some pid,
       w_model := Some m, w_declared_at := Some r\<rparr>)) =
       Inr (s\<lparr>ws_principals := obj_put (ws_principals s) pid (e\<lparr>wp_model := m\<rparr>)\<rparr>)"
  by (simp add: emitted ws_model_declared_def model_or_null_def)

lemma feedback_effect:
  "owners_ok s \<Longrightarrow>
     reduceWorkspace ra (Some s) (ws_env ctx k FeedbackSubmitted (no_fields\<lparr>w_feedback_id := Some f,
       w_category := Some c, w_body := Some b, w_context := x, w_reporter_kind := Some rk,
       w_reporter_id := Some ri, w_submitted_at := Some n\<rparr>)) = Inr s"
  by (simp add: emitted ws_feedback_def)

lemma token_minted_effect:
  "owners_ok s \<Longrightarrow> obj_get (ws_tokens s) tid = None \<Longrightarrow>
     reduceWorkspace ra (Some s) (ws_env ctx k AgentTokenMinted (no_fields\<lparr>w_token_id := Some tid,
       w_principal_id := Some pid, w_run_id := Some run, w_task_id := Some task, w_epoch := Some ep,
       w_scopes := Some sc, w_issued_at := Some i, w_expires_at := Some e,
       w_predecessor_token_id := pre, w_renewal_grant_id := g\<rparr>)) =
       Inr (s\<lparr>ws_tokens := obj_put (ws_tokens s) tid \<lparr>wt_token_id = tid, wt_principal_id = pid,
         wt_run_id = run, wt_task_id = task, wt_epoch = ep, wt_scopes = sc, wt_issued_at = i,
         wt_expires_at = e, wt_revoked_at = None, wt_predecessor_token_id = pre,
         wt_renewal_grant_id = g\<rparr>\<rparr>)"
  by (simp add: emitted ws_token_minted_def)

lemma token_revoked_effect:
  "owners_ok s \<Longrightarrow> obj_get (ws_tokens s) tid = Some t \<Longrightarrow>
     reduceWorkspace ra (Some s) (ws_env ctx k AgentTokenRevoked (no_fields\<lparr>w_token_id := Some tid,
       w_revoked_at := Some r\<rparr>)) =
       Inr (s\<lparr>ws_tokens := obj_put (ws_tokens s) tid (t\<lparr>wt_revoked_at := Some r\<rparr>)\<rparr>)"
  by (simp add: emitted ws_token_revoked_def)

section \<open>Every decision projects\<close>

text \<open>\<open>updateWorkspaceProjection\<close>.\<close>

definition project_workspace ::
  "('e, 'p, 'r) admin_reducer \<Rightarrow> 'r workspace_state option \<Rightarrow> 'p ws_event list \<Rightarrow>
     'e ws_reduce_error + 'r workspace_state option" where
  "project_workspace ra prior events = fold_events (reduceWorkspace ra) prior events"

lemma project_Nil [simp]: "project_workspace ra s [] = Inr s"
  by (simp add: project_workspace_def)

lemma project_Cons [simp]:
  "project_workspace ra s (e # es) = bind_result (reduceWorkspace ra s e) (\<lambda>t. project_workspace ra (Some t) es)"
  by (simp add: project_workspace_def)

lemma project_append:
  "project_workspace ra s (xs @ ys) = bind_result (project_workspace ra s xs) (\<lambda>t. project_workspace ra t ys)"
  by (simp add: project_workspace_def fold_events_append)

text \<open>
  A decision the workspace can absorb: accepted events project, an authorisation refusal has no
  event, a domain rejection has one that leaves the workspace as it is.
\<close>

fun absorbs :: "('e, 'p, 'r) admin_reducer \<Rightarrow> 'r workspace_state \<Rightarrow> 'p ws_decision \<Rightarrow> bool" where
  "absorbs ra s (Accepted es) \<longleftrightarrow> (\<exists>t. project_workspace ra (Some s) es = Inr (Some t))"
| "absorbs ra s (Rejected Authz r d es) \<longleftrightarrow> es = []"
| "absorbs ra s (Rejected Domain r d es) \<longleftrightarrow>
     length es = 1 \<and> project_workspace ra (Some s) es = Inr (Some s)"

lemma absorbs_simps [simp]:
  "absorbs ra s (ws_authz r d)"
  "absorbs ra s (ws_domain_at k ctx cmd r d)"
  "absorbs ra s (ws_accept es) \<longleftrightarrow> (\<exists>t. project_workspace ra (Some s) es = Inr (Some t))"
  by (simp_all add: ws_authz_def ws_domain_at_def ws_accept_def reduceWorkspace_rejected)

lemmas reject_defs = ws_authz_def ws_domain_at_def ws_accept_def

lemma absorbs_archive: "owners_ok s \<Longrightarrow> absorbs ra s (decide_archive s ctx role)"
  by (simp add: decide_archive_def archived_effect)

lemma absorbs_rename: "owners_ok s \<Longrightarrow> absorbs ra s (decide_rename s ctx role name)"
  by (cases name) (simp_all add: decide_rename_def Let_def validWorkspaceName_def renamed_effect)

lemma absorbs_invite: "owners_ok s \<Longrightarrow> absorbs ra s (decide_invite s ctx u role iid email r hash e)"
  by (simp add: decide_invite_def Let_def invited_effect)

lemma absorbs_revoke_invitation: "owners_ok s \<Longrightarrow> absorbs ra s (decide_revoke_invitation s ctx role iid)"
  by (simp add: decide_revoke_invitation_def Let_def invitation_revoked_effect split: option.split)

lemma absorbs_change_role:
  "owners_ok s \<Longrightarrow> absorbs ra s (decide_change_role s ctx role uid r successor)"
  by (auto simp: decide_change_role_def Let_def role_changed_effect not_le split: option.split)

lemma absorbs_create_principal:
  "owners_ok s \<Longrightarrow> absorbs ra s (decide_create_principal s ctx u pid n m dup)"
  by (simp add: decide_create_principal_def principal_created_effect)

lemma absorbs_revoke_principal: "owners_ok s \<Longrightarrow> absorbs ra s (decide_revoke_principal s ctx u role pid)"
  by (simp add: decide_revoke_principal_def Let_def principal_revoked_effect split: option.split)

lemma reporter_absorbs: "feedback_reporter s ctx cmd u = Inl r \<Longrightarrow> absorbs ra s r"
  by (auto simp: feedback_reporter_def split: if_splits option.splits)

lemma absorbs_feedback: "owners_ok s \<Longrightarrow> absorbs ra s (decide_feedback s ctx u fid cat body c)"
  by (simp add: decide_feedback_def Let_def feedback_effect reporter_absorbs split: sum.split prod.split)

lemma fields_no_lineage:
  "w_predecessor_token_id no_fields = None" "w_renewal_grant_id no_fields = None"
  by (simp_all add: no_fields_def)

lemma minted_effect:
  "owners_ok s \<Longrightarrow> obj_get (ws_tokens s) tid = None \<Longrightarrow>
     reduceWorkspace ra (Some s) (ws_env ctx k AgentTokenMinted (no_fields\<lparr>w_token_id := Some tid,
       w_principal_id := Some pid, w_run_id := Some run, w_task_id := Some task, w_epoch := Some ep,
       w_scopes := Some sc, w_issued_at := Some i, w_expires_at := Some e\<rparr>)) =
       Inr (s\<lparr>ws_tokens := obj_put (ws_tokens s) tid \<lparr>wt_token_id = tid, wt_principal_id = pid,
         wt_run_id = run, wt_task_id = task, wt_epoch = ep, wt_scopes = sc, wt_issued_at = i,
         wt_expires_at = e, wt_revoked_at = None, wt_predecessor_token_id = None,
         wt_renewal_grant_id = None\<rparr>\<rparr>)"
  by (simp add: emitted ws_token_minted_def)

lemma absorbs_mint:
  "owners_ok s \<Longrightarrow> absorbs ra s (decide_mint_token s ctx u tid pid run task ep sc ttl)"
  by (cases "obj_get (ws_principals s) pid"; cases ttl)
     (simp_all add: decide_mint_token_def Let_def minted_effect)

lemma absorbs_declare:
  "owners_ok s \<Longrightarrow> tables_ok s \<Longrightarrow> absorbs ra s (decide_declare_model s ctx m)"
  by (simp add: decide_declare_model_def Let_def model_declared_effect table_entries
      split: option.split sum.split)

lemma absorbs_set_model:
  "owners_ok s \<Longrightarrow> tables_ok s \<Longrightarrow> absorbs ra s (decide_set_model s ctx u role pid m)"
  by (simp add: decide_set_model_def Let_def model_declared_effect table_entries
      split: option.split sum.split)

lemma absorbs_renew: "owners_ok s \<Longrightarrow> absorbs ra s (decide_renew_token s ctx tid sc)"
  by (simp add: decide_renew_token_def decide_successor_def Let_def token_minted_effect split: option.split prod.split)

lemma absorbs_revoke_token: "owners_ok s \<Longrightarrow> absorbs ra s (decide_revoke_token s ctx u role tid)"
  by (simp add: decide_revoke_token_def Let_def token_revoked_effect split: option.split)

lemma absorbs_register:
  "owners_ok s \<Longrightarrow> absorbs ra s (decide_register s ctx u att pid run tid n sc ttl)"
  by (simp add: decide_register_def Let_def principal_created_effect minted_effect)

lemma invitation_lookup:
  assumes "tables_ok s" and "i \<in> set (obj_values (ws_invitations s))"
  shows "obj_get (ws_invitations s) (wi_invitation_id i) = Some i"
proof -
  from assms(1) have "obj_wf (ws_invitations s)" by (simp add: tables_ok_def keyed_def)
  from obj_values_get[OF this assms(2)] obtain k where "obj_get (ws_invitations s) k = Some i" by blast
  then show ?thesis using table_entries(2)[OF assms(1)] by blast
qed

lemma liveMember_invitations [simp]: "liveMember (s\<lparr>ws_invitations := x\<rparr>) u = liveMember s u"
  by (simp add: liveMember_def)

lemma absorbs_accept_invitation:
  assumes "owners_ok s" and "tables_ok s"
  shows "absorbs ra s (decide_accept_invitation s ctx u hash)"
proof (cases "filter (\<lambda>i. wi_token_hash i = hash) (obj_values (ws_invitations s))")
  case (Cons i rest)
  then have "i \<in> set (filter (\<lambda>i. wi_token_hash i = hash) (obj_values (ws_invitations s)))" by simp
  then have "obj_get (ws_invitations s) (wi_invitation_id i) = Some i"
    using invitation_lookup[OF assms(2)] by simp
  with Cons assms(1) show ?thesis
    by (simp add: decide_accept_invitation_def Let_def invitation_accepted_effect joined_effect
        split: list.split)
qed (simp add: decide_accept_invitation_def Let_def)

text \<open>The revocations of a member removal: only invitations change, and none appears or vanishes.\<close>

lemma revocations_project:
  assumes "revocations_loop s ctx cmd seen acc is = Inr es" and "owners_ok s"
    and "project_workspace ra (Some s) acc = Inr (Some (s\<lparr>ws_invitations := x\<rparr>))"
    and "\<And>i. obj_get x i = None \<longleftrightarrow> obj_get (ws_invitations s) i = None"
  shows "\<exists>y. project_workspace ra (Some s) es = Inr (Some (s\<lparr>ws_invitations := y\<rparr>))"
  using assms(1,3,4)
proof (induction "is" arbitrary: seen acc x)
  case (Cons i "is")
  show ?case
  proof (cases "i \<in> seen")
    case False
    with Cons.prems(1) obtain j where j: "obj_get (ws_invitations s) i = Some j"
      "revocations_loop s ctx cmd (insert i seen) (acc @ [ws_env ctx (length acc) InvitationRevoked
         (no_fields\<lparr>w_invitation_id := Some i, w_revoked_at := Some (wc_now ctx)\<rparr>)]) is = Inr es"
      by (auto split: option.splits if_splits)
    with Cons.prems(3) obtain j' where "obj_get x i = Some j'" by fastforce
    with Cons.prems(2) assms(2) have
      "project_workspace ra (Some s) (acc @ [ws_env ctx (length acc) InvitationRevoked
         (no_fields\<lparr>w_invitation_id := Some i, w_revoked_at := Some (wc_now ctx)\<rparr>)]) =
       Inr (Some (s\<lparr>ws_invitations := obj_put x i (j'\<lparr>wi_revoked_at := Some (wc_now ctx)\<rparr>)\<rparr>))"
      by (simp add: project_append invitation_revoked_effect)
    from Cons.IH[OF j(2) this] Cons.prems(3) j(1) show ?thesis by simp
  qed (use Cons in auto)
qed auto

lemma revocations_rejected:
  "revocations_loop s ctx cmd seen acc is = Inl r \<Longrightarrow> absorbs ra s r"
  by (induction s ctx cmd seen acc "is" rule: revocations_loop.induct)
     (auto split: option.splits if_splits)

lemma absorbs_remove_member:
  assumes "owners_ok s"
  shows "absorbs ra s (decide_remove_member s ctx role uid successor)"
proof -
  have "\<exists>t. project_workspace ra (Some s) (es @ [ws_env ctx n MemberRemoved (no_fields\<lparr>
      w_user_id := Some uid, w_revoked_at := Some (wc_now ctx)\<rparr>)]) = Inr (Some t)"
    if "revocations_loop s ctx cmd {} [] is = Inr es" and "liveMember s uid = Some m"
      and "wm_role m = RoleOwner \<longrightarrow> \<not> ws_owners_count s \<le> 1" for es cmd "is" m n
  proof -
    from revocations_project[OF that(1) assms, of ra "ws_invitations s"] obtain y where
      "project_workspace ra (Some s) es = Inr (Some (s\<lparr>ws_invitations := y\<rparr>))" by auto
    with that(2,3) assms removed_effect[of "s\<lparr>ws_invitations := y\<rparr>" uid m ra ctx n "wc_now ctx"]
    show ?thesis by (auto simp: project_append not_le)
  qed
  note project = this
  show ?thesis
  proof (cases "liveMember s uid")
    case (Some m)
    let ?loop = "revocations_loop s ctx (RemoveMember uid successor) {} []
      (sort (case wc_pendingInvitationIds ctx of Some f \<Rightarrow> f uid | None \<Rightarrow> []))"
    show ?thesis
    proof (cases "?loop :: 'b ws_decision + 'b ws_event list")
      case (Inl r)
      with revocations_rejected[OF Inl, of ra] Some show ?thesis
        by (simp add: decide_remove_member_def Let_def)
    next
      case (Inr es)
      with project[OF Inr Some] Some show ?thesis
        by (simp add: decide_remove_member_def Let_def)
    qed
  qed (simp add: decide_remove_member_def Let_def)
qed

lemmas absorbs_decisions = absorbs_archive absorbs_rename absorbs_invite absorbs_revoke_invitation
  absorbs_change_role absorbs_create_principal absorbs_revoke_principal absorbs_feedback absorbs_mint
  absorbs_declare absorbs_set_model absorbs_renew absorbs_revoke_token absorbs_register
  absorbs_accept_invitation absorbs_remove_member

lemma decide_member_absorbs:
  "owners_ok s \<Longrightarrow> tables_ok s \<Longrightarrow> decide_member_command s cmd ctx u r = Inr d \<Longrightarrow> absorbs ra s d"
  by (cases cmd; simp add: decide_member_command_def; drule sym; simp add: absorbs_decisions)

lemma decide_in_workspace_cases:
  fixes d :: "'p ws_decision"
  assumes "decide_in_workspace s cmd ctx u = Inr d"
  obtains (register) att pid run tid n sc ttl where "cmd = RegisterAgentSeat att pid run tid n sc ttl"
      and "d = decide_register s ctx u att pid run tid n sc ttl"
  | (accept) hash where "cmd = AcceptInvitation hash" and "d = decide_accept_invitation s ctx u hash"
  | (outsider) "wc_role ctx u = None" and "ws_kind cmd \<noteq> ''renew_agent_token''"
      and "d = ws_authz ''bad_state'' ''caller is not a current workspace member''"
  | (member) "wc_role ctx u \<noteq> None \<or> ws_kind cmd = ''renew_agent_token''"
      and "decide_member_command s cmd ctx u (wc_role ctx u) = Inr d"
proof (cases "wc_role ctx u = None \<and> ws_kind cmd \<noteq> ''renew_agent_token''")
  case True
  from assms have d: "(case cmd of
     RegisterAgentSeat attempt pid run tid name scopes ttl \<Rightarrow>
       Inr (decide_register s ctx u attempt pid run tid name scopes ttl)
   | AcceptInvitation hash \<Rightarrow> Inr (decide_accept_invitation s ctx u hash)
   | _ \<Rightarrow> Inr (ws_authz ''bad_state'' ''caller is not a current workspace member'')) =
     (Inr d :: ws_decide_error + 'p ws_decision)"
    by (simp only: decide_in_workspace_def if_P[OF True])
  show ?thesis
    using d that(1,2) that(3)[OF conjunct1[OF True] conjunct2[OF True]] by (cases cmd) simp_all
next
  case False
  from assms have d: "(case cmd of
     RegisterAgentSeat attempt pid run tid name scopes ttl \<Rightarrow>
       Inr (decide_register s ctx u attempt pid run tid name scopes ttl)
   | AcceptInvitation hash \<Rightarrow> Inr (decide_accept_invitation s ctx u hash)
   | _ \<Rightarrow> decide_member_command s cmd ctx u (wc_role ctx u)) = Inr d"
    by (simp only: decide_in_workspace_def if_not_P[OF False])
  from False have m: "wc_role ctx u \<noteq> None \<or> ws_kind cmd = ''renew_agent_token''"
    by (simp only: de_Morgan_conj not_not simp_thms)
  show ?thesis
    using d that(1,2) that(4)[OF m] by (cases cmd; hypsubst; simp)
qed

lemma credential_refusal_authz:
  "credential_refusal ctx cmd = Some d \<Longrightarrow> \<exists>det. d = ws_authz ''credential_kind_forbidden'' det"
  unfolding credential_refusal_def by (simp only: option.inject option.distinct split: if_split_asm) blast+

text \<open>The ways a decision is reached: refused before the command is looked at, or decided.\<close>

lemma decideWorkspace_cases:
  fixes d :: "'p ws_decision"
  assumes "decideWorkspace st cmd ctx = Inr d"
  obtains (no_owner) "callerUser ctx \<in> {None, Some []}"
      and "d = ws_authz ''bad_state'' ''credential has no server-derived human owner''"
  | (refused) u where "callerUser ctx = Some u" and "u \<noteq> []" and "credential_refusal ctx cmd = Some d"
  | (create) u w n where "callerUser ctx = Some u" and "u \<noteq> []" and "credential_refusal ctx cmd = (None :: 'p ws_decision option)"
      and "cmd = CreateWorkspace w n" and "d = decide_create_workspace st ctx u w n"
  | (absent) "st = None" and "d = ws_authz ''workspace_not_found'' ''workspace is unavailable''"
  | (inside) u s where "callerUser ctx = Some u" and "u \<noteq> []" and "credential_refusal ctx cmd = (None :: 'p ws_decision option)"
      and "st = Some s" and "\<forall>w n. cmd \<noteq> CreateWorkspace w n" and "decide_in_workspace s cmd ctx u = Inr d"
proof (cases "\<exists>u. callerUser ctx = Some u \<and> u \<noteq> []")
  case False
  with assms that(1) show ?thesis
    by (cases "callerUser ctx") (auto simp: decideWorkspace_def)
next
  case True
  then obtain u where u: "callerUser ctx = Some u" "u \<noteq> []" by blast
  show ?thesis
  proof (cases "credential_refusal ctx cmd :: 'p ws_decision option")
    case (Some r)
    with assms u that(2) show ?thesis by (simp add: decideWorkspace_def)
  next
    case None
    show ?thesis
    proof (cases "\<exists>w n. cmd = CreateWorkspace w n")
      case True
      with assms u None that(3) show ?thesis by (auto simp: decideWorkspace_def)
    next
      case False
      with assms u None have d: "(case st of None \<Rightarrow>
          Inr (ws_authz ''workspace_not_found'' ''workspace is unavailable'')
        | Some s \<Rightarrow> decide_in_workspace s cmd ctx u) = Inr d"
        by (cases cmd; hypsubst; simp add: decideWorkspace_def)
      with False u None that(4,5) show ?thesis by (cases st) auto
    qed
  qed
qed

lemma decideWorkspace_absorbs:
  assumes "decideWorkspace (Some s) cmd ctx = Inr d" and "ws_wf s"
  shows "absorbs ra s d"
proof -
  have wf: "owners_ok s" "tables_ok s" using assms(2) by (simp_all add: ws_wf_def)
  from assms(1) show ?thesis
  proof (cases rule: decideWorkspace_cases)
    case (refused u)
    from credential_refusal_authz[OF refused(3)] show ?thesis by auto
  next
    case (create u w n)
    then show ?thesis by (simp add: decide_create_workspace_def)
  next
    case (inside u t)
    from inside(6) show ?thesis
    proof (cases rule: decide_in_workspace_cases)
      case member
      with inside(4) wf show ?thesis by (auto intro: decide_member_absorbs)
    qed (use inside(4) wf in \<open>simp_all add: absorbs_decisions\<close>)
  qed simp_all
qed

section \<open>Reachable workspaces\<close>

lemma created_effect:
  "reduceWorkspace ra None (ws_env ctx k WorkspaceCreated (no_fields\<lparr>w_workspace_id := Some w,
     w_name := Some n, w_created_by := Some u, w_created_at := Some c\<rparr>)) =
   Inr \<lparr>ws_admin_routine = None,
     ws_workspace = \<lparr>wr_workspace_id = w, wr_name = n, wr_created_by = u, wr_created_at = c,
       wr_archived_at = None\<rparr>,
     ws_members = [(u, new_member u RoleOwner None c)], ws_invitations = [], ws_principals = [],
     ws_tokens = [], ws_owners_count = 1\<rparr>"
  by (simp add: reduceWorkspace_def WORKSPACE_EVENT_TYPES_def ws_created_def new_member_def Let_def)

lemma decideWorkspace_None:
  fixes d :: "'p ws_decision"
  assumes "decideWorkspace None cmd ctx = Inr d"
  obtains (refused) r det where "d = ws_authz r det"
  | (created) w n u where "cmd = CreateWorkspace w n" and "callerUser ctx = Some u"
      and "wc_operatorAllowed ctx (wc_actor ctx)" and "wc_credential_kind ctx = HumanCredential"
      and "d = ws_accept [ws_env ctx 0 WorkspaceCreated (no_fields\<lparr>w_workspace_id := Some w,
        w_name := Some n, w_created_by := Some u, w_created_at := Some (wc_now ctx)\<rparr>)]"
proof -
  show thesis
    using assms
  proof (cases rule: decideWorkspace_cases)
    case (refused u)
    from credential_refusal_authz[OF refused(3)] that(1) show ?thesis by blast
  next
    case (create u w n)
    from create(3,4) have "wc_credential_kind ctx = HumanCredential"
      by (simp add: credential_refusal_def HUMAN_ONLY_COMMANDS_def split: if_split_asm)
    with create that show ?thesis
      by (simp add: decide_create_workspace_def split: if_split_asm)
  qed (use that(1) in auto)
qed

lemma decided_project_workspace:
  assumes "decideWorkspace st cmd ctx = Inr d" and "opt_all ws_wf st"
  shows "\<exists>st'. project_workspace ra st (decision_events d) = Inr st' \<and> opt_all ws_wf st'"
proof -
  have "\<exists>st'. project_workspace ra st (decision_events d) = Inr st'"
  proof (cases st)
    case None
    from assms(1)[unfolded None] show ?thesis
      by (cases rule: decideWorkspace_None) (auto simp: None reject_defs created_effect)
  next
    case (Some s)
    from decideWorkspace_absorbs[OF assms(1)[unfolded Some], of ra] assms(2) Some show ?thesis
      by (cases rule: absorbs.cases[of "(ra, s, d)"]) auto
  qed
  then show ?thesis using ws_stream.fold_inv[of ra] assms(2) by (fastforce simp: project_workspace_def)
qed

definition any_facts :: "'r workspace_state option \<Rightarrow> ws_command \<Rightarrow> ws_ctx \<Rightarrow> bool" where
  "any_facts s cmd ctx \<longleftrightarrow> True"

interpretation ws_core: decision_core decideWorkspace decision_events "project_workspace ra" any_facts ws_wf
  for ra
  by unfold_locales (rule decided_project_workspace)

text \<open>The workspaces the command function can have stored, whatever facts it supplied.\<close>

definition ws_reachable :: "('e, 'p, 'r) admin_reducer \<Rightarrow> 'r workspace_state option \<Rightarrow> bool" where
  "ws_reachable ra = reach decideWorkspace decision_events (project_workspace ra) any_facts"

lemma ws_reachable_None: "ws_reachable ra None"
  unfolding ws_reachable_def by (rule reach_start)

lemma ws_reachable_step:
  "ws_reachable ra st \<Longrightarrow> decideWorkspace st cmd ctx = Inr d \<Longrightarrow>
     project_workspace ra st (decision_events d) = Inr st' \<Longrightarrow> ws_reachable ra st'"
  unfolding ws_reachable_def
  by (rule reach_step[of decideWorkspace decision_events "project_workspace ra" any_facts])
     (simp_all add: any_facts_def)

lemma ws_reachable_wf: "ws_reachable ra st \<Longrightarrow> opt_all ws_wf st"
  unfolding ws_reachable_def by (rule ws_core.reach_inv)

end
