(* ===== verification/WorkspaceEffects.thy ===== *)
theory WorkspaceEffects
  imports WorkspaceLifecycle
begin

text \<open>
  Which events a command may emit, which parts of the workspace an event may change, and what
  replay never undoes: the frame rules behind the authority properties. The replay order is
  \<open>settled_le\<close>: invitations and tokens stay, and consumption and revocation are final.
\<close>

section \<open>Events by command\<close>

fun emits :: "ws_command \<Rightarrow> workspace_event_type set" where
  "emits (CreateWorkspace _ _) = {WorkspaceCreated}"
| "emits ArchiveWorkspace = {WorkspaceArchived}"
| "emits (RenameWorkspace _) = {WorkspaceRenamed}"
| "emits (InviteMember _ _ _ _ _) = {MemberInvited}"
| "emits (RevokeInvitation _) = {InvitationRevoked}"
| "emits (AcceptInvitation _) = {InvitationAccepted, MemberJoined}"
| "emits (RemoveMember _ _) = {InvitationRevoked, MemberRemoved}"
| "emits (ChangeRole _ _ _) = {MemberRoleChanged}"
| "emits (CreateAgentPrincipal _ _ _ _) = {AgentPrincipalCreated}"
| "emits (RevokeAgentPrincipal _) = {AgentPrincipalRevoked}"
| "emits (DeclareAgentModel _) = {AgentModelDeclared}"
| "emits (SetAgentModel _ _) = {AgentModelDeclared}"
| "emits (SubmitFeedback _ _ _ _) = {FeedbackSubmitted}"
| "emits (MintAgentToken _ _ _ _ _ _ _) = {AgentTokenMinted}"
| "emits (RegisterAgentSeat _ _ _ _ _ _ _) = {AgentPrincipalCreated, AgentTokenMinted}"
| "emits (RevokeAgentToken _) = {AgentTokenRevoked}"
| "emits (RenewAgentToken _ _) = {AgentTokenMinted}"
| "emits _ = {}"

text \<open>An accepted decision satisfies \<open>P\<close>.\<close>

definition when_accepted :: "('p ws_event list \<Rightarrow> bool) \<Rightarrow> 'p ws_decision \<Rightarrow> bool" where
  "when_accepted P d \<longleftrightarrow> (case d of Accepted es \<Rightarrow> P es | Rejected _ _ _ _ \<Rightarrow> True)"

lemma when_accepted_simps [simp]:
  "when_accepted P (ws_authz r d)" "when_accepted P (ws_domain_at k ctx cmd r d)"
  "when_accepted P (ws_accept es) \<longleftrightarrow> P es"
  "when_accepted P (Accepted es) \<longleftrightarrow> P es"
  by (simp_all add: when_accepted_def ws_authz_def ws_domain_at_def ws_accept_def)

definition of_types :: "workspace_event_type set \<Rightarrow> 'p ws_event list \<Rightarrow> bool" where
  "of_types T es \<longleftrightarrow> (\<forall>e \<in> set es. ev_type e \<in> T)"

lemma of_types_simps [simp]:
  "of_types T []" "of_types T (e # es) \<longleftrightarrow> ev_type e \<in> T \<and> of_types T es"
  "of_types T (xs @ ys) \<longleftrightarrow> of_types T xs \<and> of_types T ys"
  by (auto simp: of_types_def)

lemma revocations_types:
  "revocations_loop s ctx cmd seen acc is = Inr es \<Longrightarrow> of_types {InvitationRevoked} acc \<Longrightarrow>
     of_types {InvitationRevoked} es"
  by (induction s ctx cmd seen acc "is" rule: revocations_loop.induct)
     (auto split: option.splits if_splits)

lemma revocations_not_accepted:
  "revocations_loop s ctx cmd seen acc is = Inl r \<Longrightarrow> when_accepted P r"
  by (induction s ctx cmd seen acc "is" rule: revocations_loop.induct)
     (auto split: option.splits if_splits)

lemma reporter_not_accepted: "feedback_reporter s ctx cmd u = Inl r \<Longrightarrow> when_accepted P r"
  by (auto simp: feedback_reporter_def split: if_splits option.splits)

lemma remove_member_types:
  "when_accepted (of_types {InvitationRevoked, MemberRemoved}) (decide_remove_member s ctx r uid suc)"
proof -
  have "of_types {InvitationRevoked, MemberRemoved} es"
    if "revocations_loop s ctx cmd {} [] is = Inr es" for cmd "is" and es :: "'a ws_event list"
    using revocations_types[OF that] by (auto simp: of_types_def)
  then show ?thesis
    by (auto simp: decide_remove_member_def Let_def revocations_not_accepted split: option.split sum.split)
qed

lemma decision_types:
  "when_accepted (of_types {WorkspaceArchived}) (decide_archive s ctx r)"
  "when_accepted (of_types {WorkspaceRenamed}) (decide_rename s ctx r n)"
  "when_accepted (of_types {MemberInvited}) (decide_invite s ctx u r iid em ro h ex)"
  "when_accepted (of_types {InvitationRevoked}) (decide_revoke_invitation s ctx r iid)"
  "when_accepted (of_types {InvitationAccepted, MemberJoined}) (decide_accept_invitation s ctx u h)"
  "when_accepted (of_types {MemberRoleChanged}) (decide_change_role s ctx r uid ro suc)"
  "when_accepted (of_types {AgentPrincipalCreated}) (decide_create_principal s ctx u pid pn m dup)"
  "when_accepted (of_types {AgentPrincipalRevoked}) (decide_revoke_principal s ctx u r pid)"
  "when_accepted (of_types {AgentModelDeclared}) (decide_declare_model s ctx jm)"
  "when_accepted (of_types {AgentModelDeclared}) (decide_set_model s ctx u r pid jm)"
  "when_accepted (of_types {FeedbackSubmitted}) (decide_feedback s ctx u fid cat b x)"
  "when_accepted (of_types {AgentPrincipalCreated, AgentTokenMinted})
     (decide_register s ctx u att pid run tid pn sc ttl)"
  "when_accepted (of_types {AgentTokenRevoked}) (decide_revoke_token s ctx u r tid)"
  by (simp_all add: decide_archive_def decide_rename_def decide_invite_def decide_revoke_invitation_def
      decide_accept_invitation_def decide_change_role_def decide_create_principal_def
      decide_revoke_principal_def decide_declare_model_def decide_set_model_def decide_feedback_def
      decide_register_def decide_revoke_token_def Let_def reporter_not_accepted
      split: option.split sum.split list.split prod.split)

lemma mint_types: "when_accepted (of_types {AgentTokenMinted}) (decide_mint_token s ctx u tid pid run ta ep sc ttl)"
  by (cases "obj_get (ws_principals s) pid"; cases ttl) (simp_all add: decide_mint_token_def Let_def)

lemma renew_types: "when_accepted (of_types {AgentTokenMinted}) (decide_renew_token s ctx tid sc)"
  by (simp add: decide_renew_token_def decide_successor_def Let_def split: option.split prod.split)

lemma member_types:
  "decide_member_command s cmd ctx u r = Inr d \<Longrightarrow> when_accepted (of_types (emits cmd)) d"
  by (cases cmd; simp add: decide_member_command_def; drule sym;
      simp add: decision_types mint_types renew_types remove_member_types)

lemma accepted_types:
  assumes "decideWorkspace (Some s) cmd ctx = Inr (Accepted es)"
  shows "of_types (emits cmd) es"
  using assms
proof (cases rule: decideWorkspace_cases)
  case (refused u)
  from credential_refusal_authz[OF refused(3)] show ?thesis by (auto simp: ws_authz_def)
next
  case (create u w n)
  then show ?thesis
    by (simp add: decide_create_workspace_def ws_authz_def ws_domain_at_def split: if_splits)
next
  case (inside u t)
  from inside(6) show ?thesis
  proof (cases rule: decide_in_workspace_cases)
    case (register att pid run tid n sc ttl)
    have "when_accepted (of_types {AgentPrincipalCreated, AgentTokenMinted}) (Accepted es)"
      unfolding register(2) by (rule decision_types)
    with register(1) show ?thesis by simp
  next
    case (accept hash)
    have "when_accepted (of_types {InvitationAccepted, MemberJoined}) (Accepted es)"
      unfolding accept(2) by (rule decision_types)
    with accept(1) show ?thesis by simp
  next
    case member
    from member_types[OF member(2)] show ?thesis by simp
  qed (simp add: ws_authz_def)
qed (simp_all add: ws_authz_def)

section \<open>Frames: what an event may change\<close>

text \<open>A fact about the workspace before and after a step, kept by every step an event list takes.\<close>

lemma project_frame:
  assumes step: "\<And>e s t. e \<in> set es \<Longrightarrow> reduceWorkspace ra (Some s) e = Inr t \<Longrightarrow> R s t"
    and trans: "\<And>a b c. R a b \<Longrightarrow> R b c \<Longrightarrow> R a c" and refl: "\<And>a. R a a"
    and "project_workspace ra (Some s) es = Inr (Some t)"
  shows "R s t"
  using assms(1,4)
proof (induction es arbitrary: s)
  case (Cons e es)
  from Cons.prems(2) obtain u where u: "reduceWorkspace ra (Some s) e = Inr u"
    "project_workspace ra (Some u) es = Inr (Some t)" by (auto simp: bind_result_Inr)
  have "R s u" using Cons.prems(1)[of e s u] u(1) by simp
  moreover have "R u t" by (rule Cons.IH[OF _ u(2)]) (rule Cons.prems(1), simp_all)
  ultimately show ?case by (rule trans)
qed (use refl in simp)

lemmas op_defs = ws_renamed_def ws_archived_def ws_invited_def ws_invitation_revoked_def
  ws_invitation_accepted_def ws_joined_def ws_removed_def ws_role_changed_def ws_agent_added_def
  ws_agent_removed_def ws_principal_created_def ws_feedback_def ws_model_declared_def
  ws_principal_revoked_def ws_token_minted_def ws_token_revoked_def ws_seat_claimed_def

lemmas frame_simps = res_all_bind Let_def

abbreviation keeps :: "('r workspace_state \<Rightarrow> 'a) \<Rightarrow> 'r workspace_state \<Rightarrow> ('e, 'r) ws_outcome \<Rightarrow> bool" where
  "keeps f s \<equiv> res_all (\<lambda>t. f t = f s)"

lemma members_kept_by_op:
  "keeps ws_members s (ws_renamed s env)" "keeps ws_members s (ws_archived s env)"
  "keeps ws_members s (ws_invited s env)" "keeps ws_members s (ws_invitation_revoked s env)"
  "keeps ws_members s (ws_invitation_accepted s env)" "keeps ws_members s (ws_agent_added s env)"
  "keeps ws_members s (ws_agent_removed s env)" "keeps ws_members s (ws_principal_created s env)"
  "keeps ws_members s (ws_feedback s env)" "keeps ws_members s (ws_model_declared s env)"
  "keeps ws_members s (ws_principal_revoked keys s env)" "keeps ws_members s (ws_token_minted s env)"
  "keeps ws_members s (ws_token_revoked s env)" "keeps ws_members s (ws_seat_claimed s env)"
  by (auto simp: op_defs frame_simps intro!: res_all_ws_req res_all_assertRole
      split: option.split sum.split)

lemma principals_kept_by_op:
  "keeps ws_principals s (ws_renamed s env)" "keeps ws_principals s (ws_archived s env)"
  "keeps ws_principals s (ws_invited s env)" "keeps ws_principals s (ws_invitation_revoked s env)"
  "keeps ws_principals s (ws_invitation_accepted s env)" "keeps ws_principals s (ws_joined s env)"
  "keeps ws_principals s (ws_removed s env)" "keeps ws_principals s (ws_role_changed s env)"
  "keeps ws_principals s (ws_feedback s env)" "keeps ws_principals s (ws_token_minted s env)"
  "keeps ws_principals s (ws_token_revoked s env)"
  by (auto simp: op_defs frame_simps intro!: res_all_ws_req res_all_assertRole
      split: option.split sum.split)

lemma invitations_kept_by_op:
  "keeps ws_invitations s (ws_renamed s env)" "keeps ws_invitations s (ws_archived s env)"
  "keeps ws_invitations s (ws_joined s env)" "keeps ws_invitations s (ws_removed s env)"
  "keeps ws_invitations s (ws_role_changed s env)" "keeps ws_invitations s (ws_agent_added s env)"
  "keeps ws_invitations s (ws_agent_removed s env)" "keeps ws_invitations s (ws_principal_created s env)"
  "keeps ws_invitations s (ws_feedback s env)" "keeps ws_invitations s (ws_model_declared s env)"
  "keeps ws_invitations s (ws_principal_revoked keys s env)" "keeps ws_invitations s (ws_token_minted s env)"
  "keeps ws_invitations s (ws_token_revoked s env)" "keeps ws_invitations s (ws_seat_claimed s env)"
  by (auto simp: op_defs frame_simps intro!: res_all_ws_req res_all_assertRole
      split: option.split sum.split)

lemma tokens_kept_by_op:
  "keeps ws_tokens s (ws_renamed s env)" "keeps ws_tokens s (ws_archived s env)"
  "keeps ws_tokens s (ws_invited s env)" "keeps ws_tokens s (ws_invitation_revoked s env)"
  "keeps ws_tokens s (ws_invitation_accepted s env)" "keeps ws_tokens s (ws_joined s env)"
  "keeps ws_tokens s (ws_removed s env)" "keeps ws_tokens s (ws_role_changed s env)"
  "keeps ws_tokens s (ws_agent_added s env)" "keeps ws_tokens s (ws_agent_removed s env)"
  "keeps ws_tokens s (ws_principal_created s env)" "keeps ws_tokens s (ws_feedback s env)"
  "keeps ws_tokens s (ws_model_declared s env)" "keeps ws_tokens s (ws_principal_revoked keys s env)"
  "keeps ws_tokens s (ws_seat_claimed s env)"
  by (auto simp: op_defs frame_simps intro!: res_all_ws_req res_all_assertRole
      split: option.split sum.split)

lemma record_kept_by_op:
  "keeps ws_workspace s (ws_invited s env)" "keeps ws_workspace s (ws_invitation_revoked s env)"
  "keeps ws_workspace s (ws_invitation_accepted s env)" "keeps ws_workspace s (ws_joined s env)"
  "keeps ws_workspace s (ws_removed s env)" "keeps ws_workspace s (ws_role_changed s env)"
  "keeps ws_workspace s (ws_agent_added s env)" "keeps ws_workspace s (ws_agent_removed s env)"
  "keeps ws_workspace s (ws_principal_created s env)" "keeps ws_workspace s (ws_feedback s env)"
  "keeps ws_workspace s (ws_model_declared s env)" "keeps ws_workspace s (ws_principal_revoked keys s env)"
  "keeps ws_workspace s (ws_token_minted s env)" "keeps ws_workspace s (ws_token_revoked s env)"
  "keeps ws_workspace s (ws_seat_claimed s env)"
  by (auto simp: op_defs frame_simps intro!: res_all_ws_req res_all_assertRole
      split: option.split sum.split)

text \<open>The event types that may change each table.\<close>

definition member_events :: "workspace_event_type set" where
  "member_events = {MemberJoined, MemberRemoved, MemberRoleChanged}"

definition principal_events :: "workspace_event_type set" where
  "principal_events = {AgentAddedToWorkspace, AgentRemovedFromWorkspace, AgentPrincipalCreated,
     AgentModelDeclared, AgentPrincipalRevoked, HostedMcpSeatClaimed, HostedMcpSeatRevoked}"

definition invitation_events :: "workspace_event_type set" where
  "invitation_events = {MemberInvited, InvitationRevoked, InvitationAccepted}"

definition token_events :: "workspace_event_type set" where
  "token_events = {AgentTokenMinted, AgentTokenRevoked}"

definition record_events :: "workspace_event_type set" where
  "record_events = {WorkspaceRenamed, WorkspaceArchived}"

lemma frame_step:
  fixes ra :: "('e, 'p, 'r) admin_reducer"
  assumes "reduceWorkspace ra (Some s) env = Inr t"
    and "keeps f s (reduce_ws_event s env :: ('e, 'r) ws_outcome)" and "\<And>r. f (s\<lparr>ws_admin_routine := Some r\<rparr>) = f s"
  shows "f t = f s"
  using reduceWorkspace_Some[OF assms(1)] assms(2,3) by auto

lemma members_kept:
  "reduceWorkspace ra (Some s) env = Inr t \<Longrightarrow> ev_type env \<notin> member_events \<Longrightarrow> ws_members t = ws_members s"
  by (erule frame_step, cases "ev_type env")
     (simp_all add: reduce_ws_event_def members_kept_by_op member_events_def)

lemma principals_kept:
  "reduceWorkspace ra (Some s) env = Inr t \<Longrightarrow> ev_type env \<notin> principal_events \<Longrightarrow>
     ws_principals t = ws_principals s"
  by (erule frame_step, cases "ev_type env")
     (simp_all add: reduce_ws_event_def principals_kept_by_op principal_events_def)

lemma invitations_kept:
  "reduceWorkspace ra (Some s) env = Inr t \<Longrightarrow> ev_type env \<notin> invitation_events \<Longrightarrow>
     ws_invitations t = ws_invitations s"
  by (erule frame_step, cases "ev_type env")
     (simp_all add: reduce_ws_event_def invitations_kept_by_op invitation_events_def)

lemma tokens_kept:
  "reduceWorkspace ra (Some s) env = Inr t \<Longrightarrow> ev_type env \<notin> token_events \<Longrightarrow> ws_tokens t = ws_tokens s"
  by (erule frame_step, cases "ev_type env")
     (simp_all add: reduce_ws_event_def tokens_kept_by_op token_events_def)

lemma record_kept:
  "reduceWorkspace ra (Some s) env = Inr t \<Longrightarrow> ev_type env \<notin> record_events \<Longrightarrow>
     ws_workspace t = ws_workspace s"
  by (erule frame_step, cases "ev_type env")
     (simp_all add: reduce_ws_event_def record_kept_by_op record_events_def)

text \<open>The same for the events of an accepted command.\<close>

lemma project_keeps:
  assumes "project_workspace ra (Some s) es = Inr (Some t)" and "of_types T es"
  shows "T \<inter> member_events = {} \<Longrightarrow> ws_members t = ws_members s"
    and "T \<inter> principal_events = {} \<Longrightarrow> ws_principals t = ws_principals s"
    and "T \<inter> invitation_events = {} \<Longrightarrow> ws_invitations t = ws_invitations s"
    and "T \<inter> token_events = {} \<Longrightarrow> ws_tokens t = ws_tokens s"
    and "T \<inter> record_events = {} \<Longrightarrow> ws_workspace t = ws_workspace s"
proof -
  have ty: "e \<in> set es \<Longrightarrow> ev_type e \<in> T" for e using assms(2) by (simp add: of_types_def)
  show "T \<inter> member_events = {} \<Longrightarrow> ws_members t = ws_members s"
    by (rule project_frame[OF _ _ _ assms(1), of "\<lambda>a b. ws_members b = ws_members a"])
       (use ty in \<open>auto dest: members_kept\<close>)
  show "T \<inter> principal_events = {} \<Longrightarrow> ws_principals t = ws_principals s"
    by (rule project_frame[OF _ _ _ assms(1), of "\<lambda>a b. ws_principals b = ws_principals a"])
       (use ty in \<open>auto dest: principals_kept\<close>)
  show "T \<inter> invitation_events = {} \<Longrightarrow> ws_invitations t = ws_invitations s"
    by (rule project_frame[OF _ _ _ assms(1), of "\<lambda>a b. ws_invitations b = ws_invitations a"])
       (use ty in \<open>auto dest: invitations_kept\<close>)
  show "T \<inter> token_events = {} \<Longrightarrow> ws_tokens t = ws_tokens s"
    by (rule project_frame[OF _ _ _ assms(1), of "\<lambda>a b. ws_tokens b = ws_tokens a"])
       (use ty in \<open>auto dest: tokens_kept\<close>)
  show "T \<inter> record_events = {} \<Longrightarrow> ws_workspace t = ws_workspace s"
    by (rule project_frame[OF _ _ _ assms(1), of "\<lambda>a b. ws_workspace b = ws_workspace a"])
       (use ty in \<open>auto dest: record_kept\<close>)
qed

section \<open>What replay never undoes\<close>

definition invitation_settled :: "workspace_invitation \<Rightarrow> workspace_invitation \<Rightarrow> bool" where
  "invitation_settled i j \<longleftrightarrow> wi_token_hash j = wi_token_hash i \<and> wi_role j = wi_role i \<and>
     (wi_consumed_at i \<noteq> None \<longrightarrow> wi_consumed_at j \<noteq> None) \<and>
     (wi_revoked_at i \<noteq> None \<longrightarrow> wi_revoked_at j \<noteq> None)"

definition token_settled :: "workspace_token \<Rightarrow> workspace_token \<Rightarrow> bool" where
  "token_settled a b \<longleftrightarrow> wt_principal_id b = wt_principal_id a \<and> wt_run_id b = wt_run_id a \<and>
     wt_scopes b = wt_scopes a \<and> wt_expires_at b = wt_expires_at a \<and>
     (wt_revoked_at a \<noteq> None \<longrightarrow> wt_revoked_at b \<noteq> None)"

definition entries_le :: "('v \<Rightarrow> 'v \<Rightarrow> bool) \<Rightarrow> 'v obj \<Rightarrow> 'v obj \<Rightarrow> bool" where
  "entries_le R x y \<longleftrightarrow> (\<forall>k v. obj_get x k = Some v \<longrightarrow> (\<exists>w. obj_get y k = Some w \<and> R v w))"

lemma entries_le_refl: "(\<And>v. R v v) \<Longrightarrow> entries_le R x x"
  by (simp add: entries_le_def)

lemma entries_le_trans:
  "(\<And>a b c. R a b \<Longrightarrow> R b c \<Longrightarrow> R a c) \<Longrightarrow> entries_le R x y \<Longrightarrow> entries_le R y z \<Longrightarrow> entries_le R x z"
  unfolding entries_le_def by meson

lemma entries_le_put_new: "(\<And>v. R v v) \<Longrightarrow> obj_get x k = None \<Longrightarrow> entries_le R x (obj_put x k v)"
  by (auto simp: entries_le_def)

definition settled_le :: "'r workspace_state \<Rightarrow> 'r workspace_state \<Rightarrow> bool" where
  "settled_le s t \<longleftrightarrow> entries_le invitation_settled (ws_invitations s) (ws_invitations t) \<and>
     entries_le token_settled (ws_tokens s) (ws_tokens t)"

lemma settled_refl [simp]: "invitation_settled i i" "token_settled a a"
  by (simp_all add: invitation_settled_def token_settled_def)

lemma settled_trans:
  "invitation_settled i j \<Longrightarrow> invitation_settled j k \<Longrightarrow> invitation_settled i k"
  "token_settled a b \<Longrightarrow> token_settled b c \<Longrightarrow> token_settled a c"
  by (auto simp: invitation_settled_def token_settled_def)

lemma invitations_settled_by_op:
  "res_all (\<lambda>t. entries_le invitation_settled (ws_invitations s) (ws_invitations t)) (ws_invited s env)"
  by (auto simp: ws_invited_def frame_simps intro!: res_all_ws_req res_all_assertRole entries_le_put_new)

lemma invitation_closed_by_op:
  assumes "ws_invitation_revoked s env = Inr t \<or> ws_invitation_accepted s env = Inr t"
  shows "entries_le invitation_settled (ws_invitations s) (ws_invitations t)"
  using assms
  by (auto simp: ws_invitation_revoked_def ws_invitation_accepted_def Let_def result_simps
      invitation_settled_def entries_le_def split: option.splits)

lemma tokens_settled_by_op:
  assumes "ws_token_minted s env = Inr t \<or> ws_token_revoked s env = Inr t"
  shows "entries_le token_settled (ws_tokens s) (ws_tokens t)"
  using assms
  by (auto simp: ws_token_minted_def ws_token_revoked_def Let_def result_simps
      token_settled_def entries_le_def split: option.splits if_splits)

lemma settled_step:
  assumes "reduceWorkspace ra (Some s) env = Inr t"
  shows "settled_le s t"
proof -
  have i: "entries_le invitation_settled (ws_invitations s) (ws_invitations t)"
  proof (cases "ev_type env \<in> invitation_events")
    case True
    with reduceWorkspace_Some[OF assms] res_allD[OF invitations_settled_by_op[of s env], of t] show ?thesis
      by (auto simp: invitation_events_def reduce_ws_event_def intro: invitation_closed_by_op)
  next
    case False
    with invitations_kept[OF assms] show ?thesis by (simp add: entries_le_refl)
  qed
  have "entries_le token_settled (ws_tokens s) (ws_tokens t)"
  proof (cases "ev_type env \<in> token_events")
    case True
    with reduceWorkspace_Some[OF assms] show ?thesis
      by (auto simp: token_events_def reduce_ws_event_def intro: tokens_settled_by_op)
  next
    case False
    with tokens_kept[OF assms] show ?thesis by (simp add: entries_le_refl)
  qed
  with i show ?thesis by (simp add: settled_le_def)
qed

interpretation ws_settled: monotone_stream ev_seq "reduceWorkspace ra"
  "\<lambda>env lst. WsIntegrity (ev_type env) (ev_seq env) (WsOutOfOrder lst)"
  "reduceWorkspaceStream_loop ra" settled_le for ra
proof unfold_locales
  fix r s t :: "'r workspace_state"
  show "settled_le s s" by (simp add: settled_le_def entries_le_refl)
  show "settled_le r s \<Longrightarrow> settled_le s t \<Longrightarrow> settled_le r t"
    using entries_le_trans[of invitation_settled] entries_le_trans[of token_settled] settled_trans
    unfolding settled_le_def by meson
qed (rule settled_step)

section \<open>What an accepted token command requires\<close>

lemma ttl_bounds:
  "is_finite ttl \<Longrightarrow> \<not> js_le ttl (Fin 0) \<Longrightarrow> js_le ttl (Fin b) \<Longrightarrow>
     0 < finite_value ttl \<and> finite_value ttl \<le> b"
  by (cases ttl) simp_all

lemma mint_accepted:
  assumes "decide_mint_token s ctx u tid pid run task ep sc ttl = Accepted es"
  obtains e t where "obj_get (ws_principals s) pid = Some e" and "wp_revoked_at e = None"
    and "wp_transport e \<noteq> HostedMcp" and "\<not> wp_turn_only e" and "wp_owner_user_id e = u"
    and "t = (case ttl of Some x \<Rightarrow> finite_value x | None \<Rightarrow> AGENT_TOKEN_DEFAULT_TTL_MS)"
    and "0 < t" and "t \<le> AGENT_TOKEN_MAX_TTL_MS"
    and "obj_get (ws_tokens s) tid = None" and "sc \<noteq> []"
    and "\<forall>x \<in> set sc. scopeWords x \<noteq> [] \<and> \<not> isAgentScopeDenylisted x \<and>
      x \<in> set (wc_humanRights ctx (wc_actor ctx))"
    and "es = [ws_env ctx 0 AgentTokenMinted (no_fields\<lparr>w_token_id := Some tid,
      w_principal_id := Some pid, w_run_id := Some run, w_task_id := Some (Some task),
      w_epoch := Some (Some (finite_value ep)), w_scopes := Some sc, w_issued_at := Some (wc_now ctx),
      w_expires_at := Some (wc_now ctx + t)\<rparr>)]"
proof (cases "obj_get (ws_principals s) pid")
  case None
  with assms show thesis by (simp add: decide_mint_token_def Let_def ws_domain_at_def)
next
  case (Some e)
  let ?ttl = "case ttl of Some x \<Rightarrow> x | None \<Rightarrow> Fin AGENT_TOKEN_DEFAULT_TTL_MS"
  from assms Some have g: "wp_revoked_at e = None" "wp_transport e \<noteq> HostedMcp" "\<not> wp_turn_only e"
    "wp_owner_user_id e = u" "is_finite ?ttl" "\<not> js_le ?ttl (Fin 0)" "js_le ?ttl (Fin AGENT_TOKEN_MAX_TTL_MS)"
    "obj_get (ws_tokens s) tid = None" "sc \<noteq> []" "\<not> (\<exists>x \<in> set sc. scopeWords x = [])"
    "\<not> (\<exists>x \<in> set sc. isAgentScopeDenylisted x)"
    "\<not> (\<exists>x \<in> set sc. x \<notin> set (wc_humanRights ctx (wc_actor ctx)))"
    "es = [ws_env ctx 0 AgentTokenMinted (no_fields\<lparr>w_token_id := Some tid,
      w_principal_id := Some pid, w_run_id := Some run, w_task_id := Some (Some task),
      w_epoch := Some (Some (finite_value ep)), w_scopes := Some sc, w_issued_at := Some (wc_now ctx),
      w_expires_at := Some (wc_now ctx + finite_value ?ttl)\<rparr>)]"
    unfolding decide_mint_token_def Let_def
    by (simp_all add: ws_domain_at_def ws_accept_def del: bex_simps split: if_split_asm)
  have v: "finite_value ?ttl = (case ttl of Some x \<Rightarrow> finite_value x | None \<Rightarrow> AGENT_TOKEN_DEFAULT_TTL_MS)"
    by (cases ttl) simp_all
  show thesis
    by (rule that[OF Some g(1-4) v _ _ g(8,9) _ g(13)]) (use ttl_bounds[OF g(5-7)] g(10-12) in auto)
qed

text \<open>What the grant fences leave when none refuses.\<close>

lemma grant_refusal_None:
  assumes "grant_refusal f g now = None"
  shows "rg_revoked_at g = None" and "\<not> rg_suspension_active g" and "\<not> rf_predecessor_pending f"
    and "rg_kind g = Timeboxed \<Longrightarrow> now < horizon_value g \<and> horizon_value g - now \<le> RENEWAL_HORIZON_MAX_MS"
    and "\<not> successors_exhausted f g"
proof -
  note g = assms[unfolded grant_refusal_def]
  show "rg_revoked_at g = None" "\<not> rg_suspension_active g" "\<not> rf_predecessor_pending f"
    "\<not> successors_exhausted f g"
    using g by (simp_all split: if_split_asm)
  assume k: "rg_kind g = Timeboxed"
  with g have "timeboxed_valid g now" "rg_horizon_expires_at g \<noteq> None \<longrightarrow> now < horizon_value g"
    by (auto simp: standing_valid_def split: if_split_asm)
  then show "now < horizon_value g \<and> horizon_value g - now \<le> RENEWAL_HORIZON_MAX_MS"
    by (auto simp: timeboxed_valid_def horizon_value_def split: option.splits jsnum.splits)
qed

lemma renewal_refusal_None:
  assumes "renewal_refusal f pre now = None"
  obtains g where "rf_grant f = Some g" and "grant_refusal f g now = None" and "now < wt_expires_at pre"
    and "wt_task_id pre \<noteq> None" and "wt_epoch pre \<noteq> None" and "\<not> rf_lineage_revoked f"
    and "\<not> rf_grant_mismatch f" and "rf_superseded f \<longrightarrow> rf_successor_pending f"
  using assms by (auto simp: renewal_refusal_def not_le split: if_split_asm option.split_asm)

lemma renew_accepted:
  assumes "decide_renew_token s ctx tid sc = Accepted es"
  obtains tok agent pre prin orc g where "wc_credential_kind ctx = AgentCredential"
    and "wc_presenting_token_id ctx = Some tok" and "act_agent_principal (wc_actor ctx) = Some agent"
    and "obj_get (ws_tokens s) tok = Some pre" and "wc_renewalFacts ctx = Some orc"
    and "wt_principal_id pre = agent" and "obj_get (ws_principals s) agent = Some prin"
    and "wp_revoked_at prin = None" and "wp_transport prin \<noteq> HostedMcp" and "\<not> wp_turn_only prin"
    and "wt_revoked_at pre = None" and "renewal_refusal (orc (wt_token_id pre)) pre (wc_now ctx) = None"
    and "rf_grant (orc (wt_token_id pre)) = Some g"
    and "sc \<noteq> []" and "\<forall>x \<in> set sc. x \<in> set (wt_scopes pre) \<and> \<not> isAgentScopeDenylisted x"
    and "obj_get (ws_tokens s) tid = None"
    and "es = [ws_env ctx 0 AgentTokenMinted (no_fields\<lparr>w_token_id := Some tid,
      w_principal_id := Some agent, w_run_id := Some (wt_run_id pre), w_task_id := Some (wt_task_id pre),
      w_epoch := Some (wt_epoch pre), w_scopes := Some sc, w_issued_at := Some (wc_now ctx),
      w_expires_at := Some (successor_expiry g (wc_now ctx)),
      w_predecessor_token_id := Some (wt_token_id pre),
      w_renewal_grant_id := Some (rg_renewal_grant_id g)\<rparr>)]"
proof -
  note d = assms[unfolded decide_renew_token_def decide_successor_def Let_def]
  from d have kind: "wc_credential_kind ctx = AgentCredential"
    by (simp add: ws_authz_def split: if_split_asm)
  with d obtain tok agent pre where t: "wc_presenting_token_id ctx = Some tok"
    "act_agent_principal (wc_actor ctx) = Some agent" "obj_get (ws_tokens s) tok = Some pre"
    by (simp add: ws_authz_def ws_domain_at_def split: option.split_asm)
  with d kind obtain orc where o: "wc_renewalFacts ctx = Some orc" "wt_principal_id pre = agent"
    by (simp add: ws_authz_def split: option.split_asm if_split_asm)
  with d kind t obtain prin where p: "obj_get (ws_principals s) agent = Some prin"
    "wp_revoked_at prin = None" "wp_transport prin \<noteq> HostedMcp" "\<not> wp_turn_only prin"
    "wt_revoked_at pre = None"
    by (simp add: ws_domain_at_def split: option.split_asm if_split_asm)
  with d kind t o have r: "renewal_refusal (orc (wt_token_id pre)) pre (wc_now ctx) = None"
    by (simp add: ws_domain_at_def split: option.split_asm prod.split_asm)
  from renewal_refusal_None[OF r] obtain g where g: "rf_grant (orc (wt_token_id pre)) = Some g" by blast
  from d kind t o p r g have f: "sc \<noteq> []" "\<not> (\<exists>x \<in> set sc. x \<notin> set (wt_scopes pre))"
    "\<not> (\<exists>x \<in> set sc. isAgentScopeDenylisted x)" "obj_get (ws_tokens s) tid = None"
    "es = [ws_env ctx 0 AgentTokenMinted (no_fields\<lparr>w_token_id := Some tid,
      w_principal_id := Some agent, w_run_id := Some (wt_run_id pre), w_task_id := Some (wt_task_id pre),
      w_epoch := Some (wt_epoch pre), w_scopes := Some sc, w_issued_at := Some (wc_now ctx),
      w_expires_at := Some (successor_expiry g (wc_now ctx)),
      w_predecessor_token_id := Some (wt_token_id pre),
      w_renewal_grant_id := Some (rg_renewal_grant_id g)\<rparr>)]"
    by (simp_all add: ws_domain_at_def ws_accept_def del: bex_simps split: if_split_asm)
  show thesis
    by (rule that[OF kind t(1,2,3) o p(1-5) r g f(1) _ f(4,5)]) (use f(2,3) in blast)
qed

end
