(* ===== verification/WorkspaceProperties.thy ===== *)
theory WorkspaceProperties
  imports WorkspaceEffects
begin

text \<open>
  The properties of the workspace core: replayed workspaces are well formed and absorb every
  decision, ownership and credential kinds confine what a command can do, tokens are attenuated
  and bounded, invitations are used once, and revocation is final. The witnesses share one small
  workspace and a routine reducer that refuses everything.
\<close>

section \<open>Accepted commands\<close>

lemma accepted_inside:
  assumes "decideWorkspace (Some s) cmd ctx = Inr (Accepted es)"
  obtains u where "callerUser ctx = Some u" and "u \<noteq> []"
    and "credential_refusal ctx cmd = (None :: 'p ws_decision option)"
    and "decide_in_workspace s cmd ctx u = Inr (Accepted (es :: 'p ws_event list))"
  using assms
proof (cases rule: decideWorkspace_cases)
  case (refused u)
  from credential_refusal_authz[OF refused(3)] show ?thesis by (auto simp: ws_authz_def)
next
  case (create u w n)
  then show ?thesis
    by (simp add: decide_create_workspace_def ws_authz_def ws_domain_at_def split: if_splits)
next
  case (inside u t)
  then show ?thesis using that by simp
qed (simp_all add: ws_authz_def)

lemma decision_neq [simp]:
  "ws_authz r d \<noteq> Accepted es" "ws_domain_at k ctx cmd r d \<noteq> Accepted es"
  "ws_accept es' = Accepted es \<longleftrightarrow> es' = es"
  by (simp_all add: ws_authz_def ws_domain_at_def ws_accept_def)

text \<open>The commands a credential that is not an interactive human may have accepted.\<close>

fun machine_command :: "ws_ctx \<Rightarrow> ws_command \<Rightarrow> bool" where
  "machine_command ctx (RegisterAgentSeat _ _ _ _ _ _ _) = (wc_credential_kind ctx = JoinCredential)"
| "machine_command ctx (SubmitFeedback _ _ _ _) = (wc_credential_kind ctx \<in> {AgentCredential, HostedSeat})"
| "machine_command ctx (DeclareAgentModel _) = (wc_credential_kind ctx = AgentCredential)"
| "machine_command ctx (RenewAgentToken _ _) =
     (wc_credential_kind ctx = AgentCredential \<and> wc_presenting_token_id ctx \<noteq> None)"
| "machine_command ctx (RevokeAgentToken tid) =
     (wc_credential_kind ctx = AgentCredential \<and> wc_presenting_token_id ctx = Some tid)"
| "machine_command ctx _ = False"

lemma refused_kinds:
  assumes "credential_refusal ctx cmd = (None :: 'p ws_decision option)"
    and "wc_credential_kind ctx \<noteq> HumanCredential"
  shows "wc_credential_kind ctx \<noteq> HostedGrant"
    and "is_register cmd \<longleftrightarrow> wc_credential_kind ctx = JoinCredential"
    and "wc_credential_kind ctx = HostedSeat \<Longrightarrow> ws_kind cmd = ''submit_feedback''"
    and "ws_kind cmd \<notin> set HUMAN_ONLY_COMMANDS"
  using assms unfolding credential_refusal_def
  by (simp_all only: split: if_split_asm) (simp_all, blast)

section \<open>A concrete workspace\<close>

text \<open>
  Owner \<open>o\<close>, a pending invitation \<open>i\<close> for an administrator, and the agent \<open>p\<close> of \<open>o\<close> with one live
  token \<open>t\<close>, as replayed from four events.
\<close>

definition no_routine :: "(unit, unit, unit) admin_reducer" where
  "no_routine r env = Inl ()"

definition sample_grant :: renewal_grant_facts where
  "sample_grant = \<lparr>rg_renewal_grant_id = ''g'', rg_kind = Timeboxed, rg_max_successors = Some (Fin 800),
     rg_successors_used = Fin 1, rg_successors_stranded = Fin 0, rg_horizon_expires_at = Some (Fin 5000),
     rg_revoked_at = None, rg_suspension_active = False\<rparr>"

definition sample_facts :: renewal_facts where
  "sample_facts = \<lparr>rf_grant = Some sample_grant, rf_grant_mismatch = False, rf_superseded = False,
     rf_successor_pending = False, rf_successor_token_id = None, rf_predecessor_pending = False,
     rf_lineage_revoked = False, rf_grant_preflight_code = None\<rparr>"

definition wctx :: "credential_kind \<Rightarrow> string \<Rightarrow> string option \<Rightarrow> string option \<Rightarrow> number \<Rightarrow> ws_ctx" where
  "wctx kind u agent token now = \<lparr>wc_now = now,
     wc_actor = \<lparr>act_user = Some u, act_agent_principal = agent, act_run = None\<rparr>,
     wc_credential_kind = kind, wc_presenting_token_id = token, wc_command_id = ''c'',
     wc_workspace_id = ''w'', wc_stream_id = ''s'', wc_operatorAllowed = (\<lambda>_. True),
     wc_role = (\<lambda>v. if v = ''o'' then Some RoleOwner else if v = ''a'' then Some RoleAdmin else None),
     wc_inviteeAlreadyMember = (\<lambda>_. False), wc_identityVerified = (\<lambda>_. True),
     wc_humanRights = (\<lambda>_. [lit ''signal'']), wc_landingAuthorityChangeResolved = (\<lambda>_ _. True),
     wc_renewalFacts = Some (\<lambda>_. sample_facts), wc_pendingInvitationIds = None,
     wc_nextSeq = (\<lambda>k. 10 + of_nat k), wc_nextEventId = (\<lambda>_. ''e'')\<rparr>"

lemma wctx_simps [simp]:
  "wc_now (wctx kind u agent token now) = now"
  "callerUser (wctx kind u agent token now) = Some u"
  "act_agent_principal (wc_actor (wctx kind u agent token now)) = agent"
  "wc_credential_kind (wctx kind u agent token now) = kind"
  "wc_presenting_token_id (wctx kind u agent token now) = token"
  "wc_identityVerified (wctx kind u agent token now) v"
  "wc_landingAuthorityChangeResolved (wctx kind u agent token now) v x"
  "wc_renewalFacts (wctx kind u agent token now) = Some (\<lambda>_. sample_facts)"
  "wc_pendingInvitationIds (wctx kind u agent token now) = None"
  "wc_humanRights (wctx kind u agent token now) ac = [lit ''signal'']"
  "wc_role (wctx kind u agent token now) ''o'' = Some RoleOwner"
  "wc_role (wctx kind u agent token now) ''a'' = Some RoleAdmin"
  "wc_role (wctx kind u agent token now) ''b'' = None"
  "wc_nextSeq (wctx kind u agent token now) k = 10 + of_nat k"
  "\<not> wc_inviteeAlreadyMember (wctx kind u agent token now) em"
  by (simp_all add: wctx_def callerUser_def)

definition sample_base :: "unit workspace_state" where
  "sample_base = \<lparr>ws_admin_routine = None,
     ws_workspace = \<lparr>wr_workspace_id = ''w'', wr_name = lit ''team'', wr_created_by = ''o'',
       wr_created_at = 0, wr_archived_at = None\<rparr>,
     ws_members = [(''o'', new_member ''o'' RoleOwner None 0)], ws_invitations = [],
     ws_principals = [], ws_tokens = [], ws_owners_count = 1\<rparr>"

definition sample_token :: workspace_token where
  "sample_token = \<lparr>wt_token_id = ''t'', wt_principal_id = ''p'', wt_run_id = ''r'', wt_task_id = Some ''k'',
     wt_epoch = Some 0, wt_scopes = [lit ''signal''], wt_issued_at = 3, wt_expires_at = 1000,
     wt_revoked_at = None, wt_predecessor_token_id = None, wt_renewal_grant_id = None\<rparr>"

definition sample_ws :: "unit workspace_state" where
  "sample_ws = sample_base\<lparr>
     ws_invitations := obj_put [] ''i'' (new_invitation ''i'' None RoleAdmin ''h'' 100 ''o'' 1),
     ws_principals := obj_put [] ''p'' (local_principal ''p'' ''o'' (lit ''bot'') None 2),
     ws_tokens := obj_put [] ''t'' sample_token\<rparr>"

definition seq_ctx :: "number \<Rightarrow> ws_ctx" where
  "seq_ctx n = (wctx HumanCredential ''o'' None None n)\<lparr>wc_nextSeq := (\<lambda>_. n)\<rparr>"

definition sample_ws_log :: "unit ws_event list" where
  "sample_ws_log =
     [ws_env (seq_ctx 0) 0 WorkspaceCreated (no_fields\<lparr>w_workspace_id := Some ''w'',
        w_name := Some (lit ''team''), w_created_by := Some ''o'', w_created_at := Some 0\<rparr>),
      ws_env (seq_ctx 1) 0 MemberInvited (no_fields\<lparr>w_invitation_id := Some ''i'',
        w_email := Some None, w_role := Some (Inl RoleAdmin), w_token_hash := Some ''h'',
        w_expires_at := Some 100, w_created_by := Some ''o'', w_created_at := Some 1\<rparr>),
      ws_env (seq_ctx 2) 0 AgentPrincipalCreated (no_fields\<lparr>w_principal_id := Some ''p'',
        w_owner_user_id := Some ''o'', w_name := Some (lit ''bot''), w_model := Some None,
        w_transport := Some (Some (Inl LocalTransport)), w_turn_only := Some (Some (Inl False)),
        w_created_at := Some 2\<rparr>),
      ws_env (seq_ctx 3) 0 AgentTokenMinted (no_fields\<lparr>w_token_id := Some ''t'',
        w_principal_id := Some ''p'', w_run_id := Some ''r'', w_task_id := Some (Some ''k''),
        w_epoch := Some (Some 0), w_scopes := Some [lit ''signal''], w_issued_at := Some 3,
        w_expires_at := Some 1000\<rparr>)]"

lemma sample_base_owners: "owners_ok sample_base"
  by (simp add: owners_ok_def sample_base_def obj_count_def obj_values_def live_owner_def new_member_def)

lemma sample_created:
  "reduceWorkspace ra None (ws_env (seq_ctx 0) 0 WorkspaceCreated (no_fields\<lparr>w_workspace_id := Some ''w'',
     w_name := Some (lit ''team''), w_created_by := Some ''o'', w_created_at := Some 0\<rparr>)) = Inr sample_base"
  by (simp add: created_effect sample_base_def)

lemma sample_base_tables [simp]:
  "ws_invitations sample_base = []" "ws_principals sample_base = []" "ws_tokens sample_base = []"
  by (simp_all add: sample_base_def)

lemma sample_ws_replay: "reduceWorkspaceStream no_routine sample_ws_log = Inr (Some sample_ws)"
proof -
  have seq: "wc_nextSeq (seq_ctx n) k = n" for n k by (simp add: seq_ctx_def)
  show ?thesis
    by (simp add: reduceWorkspaceStream_def sample_ws_log_def seq sample_created invited_effect
        principal_created_effect minted_effect sample_base_owners obj_values_def sample_ws_def
        sample_token_def)
qed

lemma sample_ws_owners: "owners_ok sample_ws"
  using sample_base_owners by (simp add: sample_ws_def)

lemma sample_ws_tables [simp]:
  "obj_get (ws_tokens sample_ws) k = (if k = ''t'' then Some sample_token else None)"
  "obj_get (ws_principals sample_ws) k =
     (if k = ''p'' then Some (local_principal ''p'' ''o'' (lit ''bot'') None 2) else None)"
  "obj_values (ws_invitations sample_ws) = [new_invitation ''i'' None RoleAdmin ''h'' 100 ''o'' 1]"
  "obj_get (ws_invitations sample_ws) k =
     (if k = ''i'' then Some (new_invitation ''i'' None RoleAdmin ''h'' 100 ''o'' 1) else None)"
  "liveMember sample_ws u = (if u = ''o'' then Some (new_member ''o'' RoleOwner None 0) else None)"
  "ws_owners_count sample_ws = 1"
  by (simp_all add: sample_ws_def obj_values_def obj_put_def sample_base_def liveMember_def
      obj_get_def new_member_def)

section \<open>Replay and projection\<close>

text \<open>
  C8. A workspace log the reducer accepts is strictly ordered by sequence number and replays to a
  sound workspace: the projected owner count is the number of live owners and at least one, every
  table carries its own keys, no two invitations share a capability hash, and every hosted agent
  is turn-only.
\<close>

theorem workspace_log_is_sound:
  assumes "reduceWorkspaceStream ra evs = Inr (Some s)"
  shows "sorted_wrt (<) (map ev_seq evs) \<and>
    ws_owners_count s = of_nat (obj_count live_owner (ws_members s)) \<and>
    1 \<le> obj_count live_owner (ws_members s) \<and> tables_ok s"
  using ws_stream.loop_sorted[of ra None NegInf evs "Some s"]
    ws_stream.loop_inv[of ra None NegInf evs "Some s"] assms
  by (simp add: reduceWorkspaceStream_def ws_wf_def owners_ok_def)

theorem workspace_log_is_sound_witness:
  "sorted_wrt (<) (map ev_seq sample_ws_log) \<and>
     ws_owners_count sample_ws = of_nat (obj_count live_owner (ws_members sample_ws)) \<and>
     tables_ok sample_ws"
  using workspace_log_is_sound[OF sample_ws_replay] by simp

lemma replayed_wf: "reduceWorkspaceStream ra evs = Inr (Some s) \<Longrightarrow> ws_wf s"
  using ws_stream.loop_inv[of ra None NegInf evs "Some s"] by (simp add: reduceWorkspaceStream_def)

text \<open>
  C9. The workspace projection never halts: on any replayed workspace, with whatever facts, the
  events of any decision project to a well-formed workspace; an authorisation refusal emits
  nothing, a domain rejection one event, and both leave the workspace as it is.
\<close>

theorem workspace_decision_projects:
  assumes "reduceWorkspaceStream ra evs = Inr (Some s)" and "decideWorkspace (Some s) cmd ctx = Inr d"
  shows "\<exists>t. project_workspace ra (Some s) (decision_events d) = Inr (Some t) \<and> ws_wf t \<and>
    (case d of Accepted es \<Rightarrow> of_types (emits cmd) es
     | Rejected c r det es \<Rightarrow> t = s \<and> length es = (if c = Authz then 0 else 1))"
proof -
  have wf: "ws_wf s" using assms(1) by (rule replayed_wf)
  from decided_project_workspace[OF assms(2), of ra] wf obtain st where
    st: "project_workspace ra (Some s) (decision_events d) = Inr st" "opt_all ws_wf st" by auto
  from decideWorkspace_absorbs[OF assms(2) wf, of ra] accepted_types[of s cmd ctx] assms(2) st show ?thesis
    by (cases rule: absorbs.cases[of "(ra, s, d)"]) auto
qed

lemma sample_mint:
  "\<exists>d. decideWorkspace (Some sample_ws) (MintAgentToken ''t2'' ''p'' ''r'' ''k'' (Fin 0) [lit ''signal''] None)
     (wctx HumanCredential ''o'' None None 50) = Inr (d :: unit ws_decision)"
  by (simp add: decideWorkspace_def credential_refusal_def is_register_def decide_in_workspace_def
      decide_member_command_def)

theorem workspace_decision_projects_witness:
  "\<exists>(d :: unit ws_decision) t. decideWorkspace (Some sample_ws) (MintAgentToken ''t2'' ''p'' ''r'' ''k'' (Fin 0) [lit ''signal''] None)
       (wctx HumanCredential ''o'' None None 50) = Inr d \<and>
     project_workspace no_routine (Some sample_ws) (decision_events d) = Inr (Some t) \<and> ws_wf t"
  using sample_mint workspace_decision_projects[OF sample_ws_replay] by blast

section \<open>Ownership\<close>

text \<open>
  C10. The last owner stays: no command, by anybody and with any facts, removes or demotes a member
  who is the only live owner of a replayed workspace.
\<close>

theorem last_owner_stays:
  fixes ra :: "('e, 'p, 'r) admin_reducer" and d :: "'p ws_decision"
  assumes "reduceWorkspaceStream ra evs = Inr (Some s)"
    and "liveMember s u = Some m" and "wm_role m = RoleOwner"
    and "\<forall>v w. liveMember s v = Some w \<longrightarrow> wm_role w = RoleOwner \<longrightarrow> v = u"
    and "cmd = RemoveMember u suc \<or> (cmd = ChangeRole u r suc \<and> r \<noteq> RoleOwner)"
    and "decideWorkspace (Some s) cmd ctx = Inr d"
  shows "\<not> decision_ok d \<and> project_workspace ra (Some s) (decision_events d) = Inr (Some s)"
proof -
  have wf: "ws_wf s" using assms(1) by (rule replayed_wf)
  have "\<not> 2 \<le> obj_count live_owner (ws_members s)"
    using obj_count_two[of "ws_members s" live_owner u] wf assms(4)
    by (force simp: ws_wf_def tables_ok_def keyed_def live_owner_def liveMember_def)
  with wf have one: "ws_owners_count s \<le> 1" by (simp add: ws_wf_def owners_ok_def)
  have "\<not> decision_ok d"
  proof (rule notI)
    assume "decision_ok d"
    with assms(6) obtain es :: "'p ws_event list"
      where "decideWorkspace (Some s) cmd ctx = Inr (Accepted es)" by (cases d) auto
    then obtain v where v: "decide_in_workspace s cmd ctx v = Inr (Accepted es)"
      by (rule accepted_inside)
    from assms(5) show False
    proof
      assume "cmd = RemoveMember u suc"
      with v assms(2,3) one show False
        by (auto simp: decide_in_workspace_def decide_member_command_def decide_remove_member_def Let_def
            split: if_splits)
    next
      assume "cmd = ChangeRole u r suc \<and> r \<noteq> RoleOwner"
      with v assms(2,3) one show False
        by (auto simp: decide_in_workspace_def decide_member_command_def decide_change_role_def Let_def
            split: if_splits)
    qed
  qed
  with decideWorkspace_absorbs[OF assms(6) wf, of ra] show ?thesis
    by (cases rule: absorbs.cases[of "(ra, s, d)"]) auto
qed

theorem last_owner_stays_witness:
  "\<exists>d :: unit ws_decision. decideWorkspace (Some sample_ws) (RemoveMember ''o'' None)
       (wctx HumanCredential ''o'' None None 50) = Inr d \<and> \<not> decision_ok d"
proof -
  obtain d :: "unit ws_decision" where d: "decideWorkspace (Some sample_ws) (RemoveMember ''o'' None)
      (wctx HumanCredential ''o'' None None 50) = Inr d"
    by (simp add: decideWorkspace_def credential_refusal_def is_register_def decide_in_workspace_def
        decide_member_command_def)
  have "\<not> decision_ok d \<and> project_workspace no_routine (Some sample_ws) (decision_events d) = Inr (Some sample_ws)"
    by (rule last_owner_stays[OF sample_ws_replay _ _ _ _ d, of "''o''" "new_member ''o'' RoleOwner None 0" None])
       (simp_all add: new_member_def)
  with d show ?thesis by blast
qed

definition is_owner :: "'r workspace_state \<Rightarrow> string \<Rightarrow> bool" where
  "is_owner s u \<longleftrightarrow> (case liveMember s u of Some m \<Rightarrow> wm_role m = RoleOwner | None \<Rightarrow> False)"

lemma removed_members:
  "reduceWorkspace ra (Some u) (ws_env ctx k MemberRemoved (no_fields\<lparr>w_user_id := Some x,
     w_revoked_at := Some r\<rparr>)) = Inr t \<Longrightarrow>
     \<exists>m. liveMember u x = Some m \<and> ws_members t = obj_put (ws_members u) x (m\<lparr>wm_revoked_at := Some r\<rparr>)"
  by (drule reduceWorkspace_Some)
     (auto simp: reduce_ws_event_def ws_removed_def Let_def no_fields_def liveMember_def
       split: option.splits if_splits)

lemma role_changed_members:
  "reduceWorkspace ra (Some u) (ws_env ctx k MemberRoleChanged (no_fields\<lparr>w_user_id := Some x,
     w_from_role := Some (Inl a), w_to_role := Some (Inl b)\<rparr>)) = Inr t \<Longrightarrow>
     \<exists>m. liveMember u x = Some m \<and> ws_members t = obj_put (ws_members u) x (m\<lparr>wm_role := b\<rparr>)"
  by (drule reduceWorkspace_Some)
     (auto simp: reduce_ws_event_def ws_role_changed_def Let_def no_fields_def liveMember_def
       split: option.splits if_splits)

lemma is_owner_put:
  "ws_members t = obj_put (ws_members s) x m \<Longrightarrow>
     is_owner t v = (if v = x then live_owner m else is_owner s v)"
  by (auto simp: is_owner_def liveMember_def live_owner_def split: option.splits)

lemma project_some: "project_workspace ra (Some s) es = Inr st \<Longrightarrow> \<exists>t. st = Some t"
  by (induction es arbitrary: s) (auto simp: bind_result_Inr)

lemma removal_members:
  assumes "decide_remove_member s ctx r uid suc = Accepted es"
    and "project_workspace ra (Some s) es = Inr (Some t)"
  obtains m where "liveMember s uid = Some m" and "ownerOrAdmin r" and "r \<noteq> Some RoleOwner \<longrightarrow> wm_role m \<noteq> RoleOwner"
    and "ws_members t = obj_put (ws_members s) uid (m\<lparr>wm_revoked_at := Some (wc_now ctx)\<rparr>)"
proof -
  from assms(1) obtain m rev where m: "liveMember s uid = Some m" "ownerOrAdmin r"
    "r = Some RoleAdmin \<longrightarrow> wm_role m \<noteq> RoleOwner"
    "revocations_loop s ctx (RemoveMember uid suc) {} []
       (sort (case wc_pendingInvitationIds ctx of Some f \<Rightarrow> f uid | None \<Rightarrow> [])) = Inr rev"
    "es = rev @ [ws_env ctx (length rev) MemberRemoved (no_fields\<lparr>
       w_user_id := Some uid, w_revoked_at := Some (wc_now ctx)\<rparr>)]"
  proof (cases "liveMember s uid")
    case (Some m)
    let ?loop = "revocations_loop s ctx (RemoveMember uid suc) {} []
      (sort (case wc_pendingInvitationIds ctx of Some f \<Rightarrow> f uid | None \<Rightarrow> [])) :: 'a ws_decision + 'a ws_event list"
    show thesis
    proof (cases ?loop)
      case (Inl rej)
      with revocations_not_accepted[OF Inl, of "\<lambda>_. False"] assms(1) Some show thesis
        by (auto simp: decide_remove_member_def Let_def split: if_splits)
    next
      case (Inr rev)
      with assms(1) Some that show thesis
        by (simp add: decide_remove_member_def Let_def split: if_split_asm)
    qed
  qed (use assms(1) in \<open>simp add: decide_remove_member_def Let_def split: if_split_asm\<close>)
  from assms(2) m(5) obtain st where st: "project_workspace ra (Some s) rev = Inr st"
    "reduceWorkspace ra st (ws_env ctx (length rev) MemberRemoved (no_fields\<lparr>
       w_user_id := Some uid, w_revoked_at := Some (wc_now ctx)\<rparr>)) = Inr t"
    by (auto simp: project_append bind_result_Inr)
  from project_some[OF st(1)] obtain u where st_u: "st = Some u" by blast
  note u = st[unfolded st_u]
  have "ws_members u = ws_members s"
    using project_keeps(1)[OF u(1) revocations_types[OF m(4)]] by (simp add: member_events_def)
  with removed_members[OF u(2)] m that show thesis
    by (auto simp: liveMember_def ownerOrAdmin_def)
qed

text \<open>
  Only an owner makes or unmakes an owner: a command accepted from a caller whose live role is
  not owner leaves the set of live owners as it is, unless it is the acceptance of an invitation.
\<close>

theorem only_owners_change_owners:
  assumes "decideWorkspace (Some s) cmd ctx = Inr (Accepted es)"
    and "project_workspace ra (Some s) es = Inr (Some t)"
    and "callerUser ctx = Some u" and "wc_role ctx u \<noteq> Some RoleOwner"
    and "\<forall>hash. cmd \<noteq> AcceptInvitation hash"
  shows "is_owner t v = is_owner s v"
proof (cases "emits cmd \<inter> member_events = {}")
  case True
  from project_keeps(1)[OF assms(2) accepted_types[OF assms(1)] True] show ?thesis
    by (simp add: is_owner_def liveMember_def)
next
  case False
  with assms(5) consider (remove) x suc where "cmd = RemoveMember x suc"
    | (role) x r suc where "cmd = ChangeRole x r suc"
    by (cases cmd) (auto simp: member_events_def)
  moreover from accepted_inside[OF assms(1)] assms(3)
  have inside: "decide_in_workspace s cmd ctx u = Inr (Accepted es)" by auto
  ultimately show ?thesis
  proof cases
    case remove
    with inside have "decide_remove_member s ctx (wc_role ctx u) x suc = Accepted es"
      by (simp add: decide_in_workspace_def decide_member_command_def split: if_splits)
    from this assms(2) obtain m where m: "liveMember s x = Some m"
      "wm_role m \<noteq> RoleOwner" "ws_members t = obj_put (ws_members s) x (m\<lparr>wm_revoked_at := Some (wc_now ctx)\<rparr>)"
      by (rule removal_members) (use assms(4) in simp)
    then have "\<not> is_owner s x" by (simp add: is_owner_def)
    with is_owner_put[OF m(3), of v] show ?thesis by (auto simp: live_owner_def)
  next
    case role
    with inside have d: "decide_change_role s ctx (wc_role ctx u) x r suc = Accepted es"
      by (simp add: decide_in_workspace_def decide_member_command_def split: if_splits)
    then obtain m where m: "liveMember s x = Some m" "wm_role m \<noteq> RoleOwner" "r \<noteq> RoleOwner"
      "es = [ws_env ctx 0 MemberRoleChanged (no_fields\<lparr>w_user_id := Some x,
         w_from_role := Some (Inl (wm_role m)), w_to_role := Some (Inl r)\<rparr>)]"
      using assms(4)
      by (auto simp: decide_change_role_def Let_def ownerOrAdmin_def split: if_splits option.splits)
    with assms(2) have "reduceWorkspace ra (Some s) (ws_env ctx 0 MemberRoleChanged (no_fields\<lparr>
         w_user_id := Some x, w_from_role := Some (Inl (wm_role m)), w_to_role := Some (Inl r)\<rparr>)) = Inr t"
      by (auto simp: bind_result_Inr)
    from role_changed_members[OF this] m(1) have
      t: "ws_members t = obj_put (ws_members s) x (m\<lparr>wm_role := r\<rparr>)" by auto
    from m have "\<not> is_owner s x" by (simp add: is_owner_def)
    with is_owner_put[OF t, of v] m(3) show ?thesis by (auto simp: live_owner_def)
  qed
qed

lemmas decide_simps = decideWorkspace_def credential_refusal_def is_register_def
  decide_in_workspace_def decide_member_command_def HUMAN_ONLY_COMMANDS_def

lemma sample_revoke_invitation:
  fixes es :: "unit ws_event list"
  assumes "es = [ws_env (wctx HumanCredential ''a'' None None 50) 0 InvitationRevoked (no_fields\<lparr>
    w_invitation_id := Some ''i'', w_revoked_at := Some 50\<rparr>)]"
  shows "decideWorkspace (Some sample_ws) (RevokeInvitation ''i'')
    (wctx HumanCredential ''a'' None None 50) = Inr (Accepted es)"
  using assms
  by (simp add: decide_simps decide_revoke_invitation_def Let_def ownerOrAdmin_def live_invitation_def
      new_invitation_def)

theorem only_owners_change_owners_witness:
  "\<exists>(es :: unit ws_event list) t. decideWorkspace (Some sample_ws) (RevokeInvitation ''i'')
       (wctx HumanCredential ''a'' None None 50) = Inr (Accepted es) \<and>
     project_workspace no_routine (Some sample_ws) es = Inr (Some t) \<and> is_owner t ''o''"
proof -
  obtain es :: "unit ws_event list" where d: "decideWorkspace (Some sample_ws) (RevokeInvitation ''i'')
      (wctx HumanCredential ''a'' None None 50) = Inr (Accepted es)"
    using sample_revoke_invitation by blast
  from decided_project_workspace[OF d, of no_routine] replayed_wf[OF sample_ws_replay] obtain st where
    "project_workspace no_routine (Some sample_ws) es = Inr st" by auto
  with project_some[OF this] obtain t where
    t: "project_workspace no_routine (Some sample_ws) es = Inr (Some t)" by blast
  have "is_owner t ''o'' = is_owner sample_ws ''o''"
    by (rule only_owners_change_owners[OF d t, of "''a''"]) simp_all
  with d t show ?thesis by (auto simp: is_owner_def new_member_def)
qed

section \<open>Credentials\<close>

lemma machine_confined:
  fixes es :: "'p ws_event list"
  assumes "decideWorkspace st cmd ctx = Inr (Accepted es)"
    and "wc_credential_kind ctx \<noteq> HumanCredential"
  shows "machine_command ctx cmd"
proof -
  from assms(1) obtain u s where none: "credential_refusal ctx cmd = (None :: 'p ws_decision option)"
    and d: "st = Some s" "decide_in_workspace s cmd ctx u = Inr (Accepted es)"
  proof (cases rule: decideWorkspace_cases)
    case (refused u)
    from credential_refusal_authz[OF refused(3)] show thesis by (auto simp: ws_authz_def)
  next
    case (create u w n)
    with refused_kinds(4)[OF create(3) assms(2)] show thesis by (simp add: HUMAN_ONLY_COMMANDS_def)
  qed (simp_all add: ws_authz_def)
  note k = refused_kinds[OF none assms(2)]
  have kind: "wc_credential_kind ctx \<in> {AgentCredential, JoinCredential, HostedSeat}"
    using k(1) assms(2) by (cases "wc_credential_kind ctx") simp_all
  show ?thesis
  proof (cases cmd)
    case (RenewAgentToken tid sc)
    with d(2) have "decide_renew_token s ctx tid sc = Accepted es"
      by (simp add: decide_in_workspace_def decide_member_command_def)
    then show ?thesis by (rule renew_accepted) (use RenewAgentToken in simp)
  next
    case (RevokeAgentToken tid)
    with k kind d(2) show ?thesis
      by (auto simp: decide_in_workspace_def decide_member_command_def decide_revoke_token_def Let_def
          is_register_def split: if_splits)
  next
    case (DeclareAgentModel m)
    with d(2) show ?thesis
      by (auto simp: decide_in_workspace_def decide_member_command_def decide_declare_model_def Let_def
          split: if_splits)
  next
    case (SubmitFeedback f c b x)
    with k kind show ?thesis by (auto simp: is_register_def)
  next
    case (RegisterAgentSeat a b c d e f g)
    with k kind show ?thesis by (auto simp: is_register_def)
  qed (use k(4) d(2) in \<open>simp_all add: HUMAN_ONLY_COMMANDS_def decide_in_workspace_def
      decide_member_command_def split: if_split_asm\<close>)
qed

text \<open>
  C11. No credential but an interactive human one carries human authority: what is accepted from a
  join credential is the registration of a seat, from a hosted seat feedback, from an agent
  feedback, a declaration of its own model, the renewal of the token it presents and the
  revocation of exactly that token, and from a hosted grant nothing.
\<close>

theorem machine_credentials_are_confined:
  assumes "decideWorkspace st cmd ctx = Inr (Accepted es)"
    and "wc_credential_kind ctx \<noteq> HumanCredential"
  shows "machine_command ctx cmd"
  using assms by (rule machine_confined)

lemmas scope_eval = scopeWords_untrimmed lit_def toLowerCase_def lower_unit_def split_words_def
  word_separator_def singular_def endsWith_def slice_end_def of_char_def horner_sum_simps

lemma scope_signal: "scopeWords (lit ''signal'') = [lit ''signal'']"
  by (simp add: scope_eval)

lemma code_signal: "\<not> isAgentScopeDenylisted (lit ''signal'')" "scopeWords (lit ''signal'') = [lit ''signal'']"
  by (simp_all add: scope_signal isAgentScopeDenylisted_def denylisted_words_def has_def mutates_def)

lemma sample_horizon:
  "renewal_refusal sample_facts sample_token 50 = None" "successor_expiry sample_grant 50 = 5000"
  by (simp_all add: renewal_refusal_def grant_refusal_def sample_facts_def sample_grant_def sample_token_def
      timeboxed_valid_def horizon_value_def successors_exhausted_def successor_expiry_def
      RENEWAL_HORIZON_MAX_MS_def AGENT_TOKEN_DEFAULT_TTL_MS_def Let_def)

lemma sample_renew:
  "\<exists>es :: unit ws_event list. decideWorkspace (Some sample_ws) (RenewAgentToken ''t2'' [lit ''signal''])
     (wctx AgentCredential ''o'' (Some ''p'') (Some ''t'') 50) = Inr (Accepted es)"
  by (simp add: decide_simps decide_renew_token_def decide_successor_def Let_def local_principal_def code_signal sample_horizon)
     (simp add: sample_token_def)

theorem machine_credentials_are_confined_witness:
  "\<exists>es :: unit ws_event list. decideWorkspace (Some sample_ws) (RenewAgentToken ''t2'' [lit ''signal''])
       (wctx AgentCredential ''o'' (Some ''p'') (Some ''t'') 50) = Inr (Accepted es) \<and>
     machine_command (wctx AgentCredential ''o'' (Some ''p'') (Some ''t'') 50)
       (RenewAgentToken ''t2'' [lit ''signal''])"
proof -
  from sample_renew obtain es :: "unit ws_event list" where
    d: "decideWorkspace (Some sample_ws) (RenewAgentToken ''t2'' [lit ''signal''])
      (wctx AgentCredential ''o'' (Some ''p'') (Some ''t'') 50) = Inr (Accepted es)" by blast
  have "machine_command (wctx AgentCredential ''o'' (Some ''p'') (Some ''t'') 50)
      (RenewAgentToken ''t2'' [lit ''signal''])"
    by (rule machine_credentials_are_confined[OF d]) simp
  with d show ?thesis by blast
qed

lemma declare_accepted:
  assumes "decide_declare_model s ctx m = Accepted es"
  obtains pid e n where "act_agent_principal (wc_actor ctx) = Some pid"
    and "obj_get (ws_principals s) pid = Some e" and "wp_revoked_at e = None"
    and "normalizedModel m = Inr n"
    and "es = [ws_env ctx 0 AgentModelDeclared (no_fields\<lparr>w_principal_id := Some (wp_principal_id e),
      w_model := Some n, w_declared_at := Some (wc_now ctx)\<rparr>)]"
  using assms
  by (auto simp: decide_declare_model_def Let_def split: if_split_asm option.split_asm sum.split_asm)

lemma revoke_own_accepted:
  assumes "decide_revoke_token s ctx u r tid = Accepted es" and "wc_credential_kind ctx = AgentCredential"
  obtains tok where "wc_presenting_token_id ctx = Some tid" and "obj_get (ws_tokens s) tid = Some tok"
    and "wt_revoked_at tok = None" and "act_agent_principal (wc_actor ctx) = Some (wt_principal_id tok)"
    and "es = [ws_env ctx 0 AgentTokenRevoked (no_fields\<lparr>w_token_id := Some tid,
      w_revoked_at := Some (wc_now ctx)\<rparr>)]"
  using assms
  by (auto simp: decide_revoke_token_def Let_def split: if_split_asm option.split_asm)

lemma feedback_accepted:
  assumes "decide_feedback s ctx u f c b x = Accepted es" and "wc_credential_kind ctx = AgentCredential"
  obtains pid where "act_agent_principal (wc_actor ctx) = Some pid"
proof (cases "act_agent_principal (wc_actor ctx)")
  case None
  with assms show thesis
    by (auto simp: decide_feedback_def feedback_reporter_def Let_def split: if_split_asm sum.split_asm)
qed (use that in blast)

text \<open>
  An agent changes only itself: a command accepted from an agent credential leaves members,
  invitations and the workspace record as they are; it may change the model of its own principal,
  revoke the token it presents, or add one new token for its own principal, and nothing else.
\<close>

theorem agent_changes_only_itself:
  assumes "reduceWorkspaceStream ra evs = Inr (Some s)"
    and "decideWorkspace (Some s) cmd ctx = Inr (Accepted es)"
    and "project_workspace ra (Some s) es = Inr (Some t)"
    and "wc_credential_kind ctx = AgentCredential"
  shows "ws_members t = ws_members s \<and> ws_invitations t = ws_invitations s \<and>
    ws_workspace t = ws_workspace s \<and>
    (\<exists>p. act_agent_principal (wc_actor ctx) = Some p \<and>
      (\<forall>k. obj_get (ws_principals t) k = obj_get (ws_principals s) k \<or>
        (k = p \<and> (\<exists>e m. obj_get (ws_principals s) k = Some e \<and>
           obj_get (ws_principals t) k = Some (e\<lparr>wp_model := m\<rparr>)))) \<and>
      (\<forall>k. obj_get (ws_tokens t) k = obj_get (ws_tokens s) k \<or>
        (wc_presenting_token_id ctx = Some k \<and> (\<exists>a. obj_get (ws_tokens s) k = Some a \<and>
           wt_principal_id a = p \<and>
           obj_get (ws_tokens t) k = Some (a\<lparr>wt_revoked_at := Some (wc_now ctx)\<rparr>))) \<or>
        (obj_get (ws_tokens s) k = None \<and> (\<exists>b. obj_get (ws_tokens t) k = Some b \<and>
           wt_principal_id b = p))))"
proof -
  have wf: "owners_ok s" "tables_ok s" using replayed_wf[OF assms(1)] by (simp_all add: ws_wf_def)
  from machine_confined[OF assms(2)] assms(4) have cmd: "machine_command ctx cmd" by simp
  from accepted_inside[OF assms(2)] obtain u where d: "decide_in_workspace s cmd ctx u = Inr (Accepted es)"
    by blast
  note keep = project_keeps[OF assms(3) accepted_types[OF assms(2)]]
  show ?thesis
  proof (cases cmd)
    case (SubmitFeedback f c b x)
    with d have "decide_feedback s ctx u f c b x = Accepted es"
      by (auto simp: decide_in_workspace_def decide_member_command_def split: if_splits)
    from feedback_accepted[OF this assms(4)] obtain p where "act_agent_principal (wc_actor ctx) = Some p" .
    with keep SubmitFeedback show ?thesis
      by (simp add: member_events_def principal_events_def invitation_events_def token_events_def record_events_def)
  next
    case (DeclareAgentModel m)
    with d have "decide_declare_model s ctx m = Accepted es"
      by (auto simp: decide_in_workspace_def decide_member_command_def split: if_splits)
    then show ?thesis
    proof (rule declare_accepted)
      fix pid e n
      assume e: "act_agent_principal (wc_actor ctx) = Some pid" "obj_get (ws_principals s) pid = Some e"
        "es = [ws_env ctx 0 AgentModelDeclared (no_fields\<lparr>w_principal_id := Some (wp_principal_id e),
          w_model := Some n, w_declared_at := Some (wc_now ctx)\<rparr>)]"
      from table_entries(3)[OF wf(2) e(2)] e assms(3) wf(1)
      have "t = s\<lparr>ws_principals := obj_put (ws_principals s) pid (e\<lparr>wp_model := n\<rparr>)\<rparr>"
        by (simp add: model_declared_effect)
      with e show ?thesis by auto
    qed
  next
    case (RenewAgentToken tid sc)
    with d have "decide_renew_token s ctx tid sc = Accepted es"
      by (auto simp: decide_in_workspace_def decide_member_command_def split: if_splits)
    then show ?thesis
      by (rule renew_accepted) (use assms(3) wf(1) in \<open>auto simp: token_minted_effect split: if_split_asm\<close>)
  next
    case (RevokeAgentToken tid)
    with d have "decide_revoke_token s ctx u (wc_role ctx u) tid = Accepted es"
      by (auto simp: decide_in_workspace_def decide_member_command_def split: if_splits)
    from this assms(4) show ?thesis
      by (rule revoke_own_accepted) (use assms(3) wf(1) in \<open>auto simp: token_revoked_effect split: if_split_asm\<close>)
  qed (use cmd assms(4) in simp_all)
qed

lemma sample_projected:
  fixes es :: "unit ws_event list"
  assumes "decideWorkspace (Some sample_ws) cmd ctx = Inr (Accepted es)"
  shows "\<exists>t. project_workspace no_routine (Some sample_ws) es = Inr (Some t)"
proof -
  from decided_project_workspace[OF assms, of no_routine] replayed_wf[OF sample_ws_replay] obtain st where
    "project_workspace no_routine (Some sample_ws) es = Inr st" by auto
  with project_some[OF this] show ?thesis by blast
qed

theorem agent_changes_only_itself_witness:
  "\<exists>(es :: unit ws_event list) t. decideWorkspace (Some sample_ws) (RenewAgentToken ''t2'' [lit ''signal''])
       (wctx AgentCredential ''o'' (Some ''p'') (Some ''t'') 50) = Inr (Accepted es) \<and>
     project_workspace no_routine (Some sample_ws) es = Inr (Some t) \<and> ws_members t = ws_members sample_ws"
proof -
  from sample_renew obtain es :: "unit ws_event list" where
    d: "decideWorkspace (Some sample_ws) (RenewAgentToken ''t2'' [lit ''signal''])
      (wctx AgentCredential ''o'' (Some ''p'') (Some ''t'') 50) = Inr (Accepted es)" by blast
  from sample_projected[OF d] obtain t where
    t: "project_workspace no_routine (Some sample_ws) es = Inr (Some t)" by blast
  from agent_changes_only_itself[OF sample_ws_replay d t] d t show ?thesis by auto
qed

section \<open>Tokens\<close>

text \<open>
  C12. A minted token is owned, attenuated and bounded: minting is accepted only from a human for a
  live local principal of their own; the new token then carries exactly the requested scopes, at
  least one, each within the rights of the human and none on the denylist, and expires within
  30 days; every other token stays as it is.
\<close>

theorem minted_token_is_bounded:
  assumes "reduceWorkspaceStream ra evs = Inr (Some s)"
    and "decideWorkspace (Some s) (MintAgentToken tid pid run task ep sc ttl) ctx = Inr (Accepted es)"
    and "project_workspace ra (Some s) es = Inr (Some t)" and "callerUser ctx = Some u"
  shows "wc_credential_kind ctx = HumanCredential \<and>
    (\<exists>e. obj_get (ws_principals s) pid = Some e \<and> wp_owner_user_id e = u \<and> wp_revoked_at e = None \<and>
      wp_transport e = LocalTransport \<and> \<not> wp_turn_only e) \<and>
    (\<exists>b. ws_tokens t = obj_put (ws_tokens s) tid b \<and> obj_get (ws_tokens s) tid = None \<and>
      wt_principal_id b = pid \<and> wt_scopes b = sc \<and> sc \<noteq> [] \<and>
      set sc \<subseteq> set (wc_humanRights ctx (wc_actor ctx)) \<and> list_all (\<lambda>x. \<not> isAgentScopeDenylisted x) sc \<and>
      wc_now ctx < wt_expires_at b \<and> wt_expires_at b \<le> wc_now ctx + AGENT_TOKEN_MAX_TTL_MS \<and>
      wt_revoked_at b = None)"
proof -
  have wf: "owners_ok s" using replayed_wf[OF assms(1)] by (simp add: ws_wf_def)
  have human: "wc_credential_kind ctx = HumanCredential"
    using machine_confined[OF assms(2)] by auto
  from accepted_inside[OF assms(2)] assms(4) have
    "decide_in_workspace s (MintAgentToken tid pid run task ep sc ttl) ctx u = Inr (Accepted es)" by auto
  then have "decide_mint_token s ctx u tid pid run task ep sc ttl = Accepted es"
    by (simp add: decide_in_workspace_def decide_member_command_def split: if_splits)
  then show ?thesis
  proof (rule mint_accepted)
    fix e n
    assume g: "obj_get (ws_principals s) pid = Some e" "wp_revoked_at e = None"
      "wp_transport e \<noteq> HostedMcp" "\<not> wp_turn_only e" "wp_owner_user_id e = u"
      and n: "0 < n" "n \<le> AGENT_TOKEN_MAX_TTL_MS" and f: "obj_get (ws_tokens s) tid = None"
      and sc: "sc \<noteq> []" "\<forall>x \<in> set sc. scopeWords x \<noteq> [] \<and> \<not> isAgentScopeDenylisted x \<and>
        x \<in> set (wc_humanRights ctx (wc_actor ctx))"
      and es: "es = [ws_env ctx 0 AgentTokenMinted (no_fields\<lparr>w_token_id := Some tid,
        w_principal_id := Some pid, w_run_id := Some run, w_task_id := Some (Some task),
        w_epoch := Some (Some (finite_value ep)), w_scopes := Some sc, w_issued_at := Some (wc_now ctx),
        w_expires_at := Some (wc_now ctx + n)\<rparr>)]"
    from g(3) have "wp_transport e = LocalTransport" by (cases "wp_transport e") auto
    moreover from es assms(3) wf f have "ws_tokens t = obj_put (ws_tokens s) tid
      \<lparr>wt_token_id = tid, wt_principal_id = pid, wt_run_id = run, wt_task_id = Some task,
       wt_epoch = Some (finite_value ep), wt_scopes = sc, wt_issued_at = wc_now ctx,
       wt_expires_at = wc_now ctx + n, wt_revoked_at = None, wt_predecessor_token_id = None,
       wt_renewal_grant_id = None\<rparr>"
      by (auto simp: minted_effect)
    ultimately show ?thesis using human g n f sc by (auto simp: list_all_iff)
  qed
qed

lemma sample_mint_accepted:
  "\<exists>es :: unit ws_event list. decideWorkspace (Some sample_ws)
     (MintAgentToken ''t2'' ''p'' ''r'' ''k'' (Fin 0) [lit ''signal''] None)
     (wctx HumanCredential ''o'' None None 50) = Inr (Accepted es)"
  by (simp add: decide_simps decide_mint_token_def Let_def local_principal_def code_signal
      AGENT_TOKEN_DEFAULT_TTL_MS_def AGENT_TOKEN_MAX_TTL_MS_def)

theorem minted_token_is_bounded_witness:
  "\<exists>(es :: unit ws_event list) t b. decideWorkspace (Some sample_ws)
       (MintAgentToken ''t2'' ''p'' ''r'' ''k'' (Fin 0) [lit ''signal''] None)
       (wctx HumanCredential ''o'' None None 50) = Inr (Accepted es) \<and>
     project_workspace no_routine (Some sample_ws) es = Inr (Some t) \<and>
     obj_get (ws_tokens t) ''t2'' = Some b \<and> wt_expires_at b \<le> 50 + AGENT_TOKEN_MAX_TTL_MS"
proof -
  from sample_mint_accepted obtain es :: "unit ws_event list" where
    d: "decideWorkspace (Some sample_ws) (MintAgentToken ''t2'' ''p'' ''r'' ''k'' (Fin 0) [lit ''signal''] None)
      (wctx HumanCredential ''o'' None None 50) = Inr (Accepted es)" by blast
  from sample_projected[OF d] obtain t where
    t: "project_workspace no_routine (Some sample_ws) es = Inr (Some t)" by blast
  from minted_token_is_bounded[OF sample_ws_replay d t, of "''o''"] d t show ?thesis by auto
qed

text \<open>
  A successor inherits and never widens: an accepted renewal presents a live, unexpired,
  task-bound token of a live local principal whose lineage and grant carry no revocation or pause;
  the successor has the principal, run, task and epoch of that token, scopes within its scopes and
  none on the denylist, and lives at most one hour, never past the horizon of a timeboxed grant.
\<close>

theorem successor_inherits_and_attenuates:
  assumes "reduceWorkspaceStream ra evs = Inr (Some s)"
    and "decideWorkspace (Some s) (RenewAgentToken tid sc) ctx = Inr (Accepted es)"
    and "project_workspace ra (Some s) es = Inr (Some t)"
  shows "\<exists>k a f g b. wc_presenting_token_id ctx = Some k \<and> obj_get (ws_tokens s) k = Some a \<and>
    act_agent_principal (wc_actor ctx) = Some (wt_principal_id a) \<and>
    wt_revoked_at a = None \<and> wc_now ctx < wt_expires_at a \<and>
    wc_renewalFacts ctx = Some f \<and> rf_grant (f k) = Some g \<and> \<not> rf_lineage_revoked (f k) \<and>
    rg_revoked_at g = None \<and> \<not> rg_suspension_active g \<and>
    ws_tokens t = obj_put (ws_tokens s) tid b \<and> obj_get (ws_tokens s) tid = None \<and>
    wt_principal_id b = wt_principal_id a \<and> wt_run_id b = wt_run_id a \<and>
    wt_task_id b = wt_task_id a \<and> wt_epoch b = wt_epoch a \<and> wt_predecessor_token_id b = Some k \<and>
    wt_scopes b = sc \<and> sc \<noteq> [] \<and> set sc \<subseteq> set (wt_scopes a) \<and>
    list_all (\<lambda>x. \<not> isAgentScopeDenylisted x) sc \<and>
    wc_now ctx < wt_expires_at b \<and> wt_expires_at b \<le> wc_now ctx + AGENT_TOKEN_DEFAULT_TTL_MS \<and>
    (rg_kind g = Standing \<or> wt_expires_at b \<le> horizon_value g)"
proof -
  have wf: "owners_ok s" "tables_ok s" using replayed_wf[OF assms(1)] by (simp_all add: ws_wf_def)
  from accepted_inside[OF assms(2)] obtain u where
    "decide_in_workspace s (RenewAgentToken tid sc) ctx u = Inr (Accepted es)" by blast
  then have "decide_renew_token s ctx tid sc = Accepted es"
    by (simp add: decide_in_workspace_def decide_member_command_def split: if_splits)
  then show ?thesis
  proof (rule renew_accepted)
    fix k agent a prin orc g
    assume r: "wc_presenting_token_id ctx = Some k" "act_agent_principal (wc_actor ctx) = Some agent"
      "obj_get (ws_tokens s) k = Some a" "wc_renewalFacts ctx = Some orc" "wt_principal_id a = agent"
      "wt_revoked_at a = None" "obj_get (ws_tokens s) tid = None"
      and ref: "renewal_refusal (orc (wt_token_id a)) a (wc_now ctx) = None"
      and g: "rf_grant (orc (wt_token_id a)) = Some g"
      and sc: "sc \<noteq> []" "\<forall>x \<in> set sc. x \<in> set (wt_scopes a) \<and> \<not> isAgentScopeDenylisted x"
      and es: "es = [ws_env ctx 0 AgentTokenMinted (no_fields\<lparr>w_token_id := Some tid,
        w_principal_id := Some agent, w_run_id := Some (wt_run_id a), w_task_id := Some (wt_task_id a),
        w_epoch := Some (wt_epoch a), w_scopes := Some sc, w_issued_at := Some (wc_now ctx),
        w_expires_at := Some (successor_expiry g (wc_now ctx)),
        w_predecessor_token_id := Some (wt_token_id a),
        w_renewal_grant_id := Some (rg_renewal_grant_id g)\<rparr>)]"
    have k: "wt_token_id a = k" using table_entries(5)[OF wf(2) r(3)] .
    from renewal_refusal_None[OF ref] g have gr: "grant_refusal (orc k) g (wc_now ctx) = None"
      "wc_now ctx < wt_expires_at a" "\<not> rf_lineage_revoked (orc k)" by (auto simp: k)
    note gn = grant_refusal_None[OF gr(1)]
    have ex: "wc_now ctx < successor_expiry g (wc_now ctx)"
      "successor_expiry g (wc_now ctx) \<le> wc_now ctx + AGENT_TOKEN_DEFAULT_TTL_MS"
      "rg_kind g = Standing \<or> successor_expiry g (wc_now ctx) \<le> horizon_value g"
      using gn(4) by (cases "rg_kind g"; simp add: successor_expiry_def AGENT_TOKEN_DEFAULT_TTL_MS_def)+
    let ?b = "\<lparr>wt_token_id = tid, wt_principal_id = agent, wt_run_id = wt_run_id a, wt_task_id = wt_task_id a,
       wt_epoch = wt_epoch a, wt_scopes = sc, wt_issued_at = wc_now ctx,
       wt_expires_at = successor_expiry g (wc_now ctx), wt_revoked_at = None,
       wt_predecessor_token_id = Some (wt_token_id a),
       wt_renewal_grant_id = Some (rg_renewal_grant_id g)\<rparr>"
    from es assms(3) wf(1) r(7) have b: "ws_tokens t = obj_put (ws_tokens s) tid ?b"
      by (auto simp: token_minted_effect)
    from r g gr gn(1,2) ex sc k show ?thesis
      by (intro exI[of _ k] exI[of _ a] exI[of _ orc] exI[of _ g] exI[of _ ?b])
        (auto simp: b list_all_iff)
  qed
qed

theorem successor_inherits_and_attenuates_witness:
  "\<exists>(es :: unit ws_event list) t b. decideWorkspace (Some sample_ws) (RenewAgentToken ''t2'' [lit ''signal''])
       (wctx AgentCredential ''o'' (Some ''p'') (Some ''t'') 50) = Inr (Accepted es) \<and>
     project_workspace no_routine (Some sample_ws) es = Inr (Some t) \<and>
     obj_get (ws_tokens t) ''t2'' = Some b \<and> wt_principal_id b = ''p'' \<and> wt_run_id b = ''r'' \<and>
     wt_expires_at b \<le> 5000"
proof -
  from sample_renew obtain es :: "unit ws_event list" where
    d: "decideWorkspace (Some sample_ws) (RenewAgentToken ''t2'' [lit ''signal''])
      (wctx AgentCredential ''o'' (Some ''p'') (Some ''t'') 50) = Inr (Accepted es)" by blast
  from sample_projected[OF d] obtain t where
    t: "project_workspace no_routine (Some sample_ws) es = Inr (Some t)" by blast
  from successor_inherits_and_attenuates[OF sample_ws_replay d t] d t show ?thesis
    by (auto simp: sample_token_def sample_facts_def sample_grant_def horizon_value_def)
qed

text \<open>
  A refusal that invites a retry hides nothing: when a renewal is refused because its token was
  never used, no revocation, pause, expiry, supersession, mismatch or passed horizon stood behind
  it; once the token has been used, the only fence that can still refuse is the successor budget.
\<close>

theorem pending_hint_masks_nothing:
  assumes "renewal_refusal f pre now = Some (''predecessor_pending_first_use'', det)"
  shows "rf_predecessor_pending f \<and> \<not> rf_lineage_revoked f \<and> now < wt_expires_at pre \<and>
    (\<exists>g. rf_grant f = Some g \<and> rg_revoked_at g = None \<and> \<not> rg_suspension_active g \<and>
      (rg_kind g = Standing \<or> now < horizon_value g)) \<and>
    (renewal_refusal (f\<lparr>rf_predecessor_pending := False\<rparr>) pre now = None \<or>
     (\<exists>x. renewal_refusal (f\<lparr>rf_predecessor_pending := False\<rparr>) pre now =
       Some (''renewal_successors_exhausted'', x)))"
proof -
  from assms obtain g where g: "rf_grant f = Some g" "now < wt_expires_at pre" "\<not> rf_lineage_revoked f"
    "\<not> rf_grant_mismatch f" "wt_task_id pre \<noteq> None" "wt_epoch pre \<noteq> None"
    "\<not> (rf_superseded f \<and> \<not> rf_successor_pending f)"
    "grant_refusal f g now = Some (''predecessor_pending_first_use'', det)"
    by (auto simp: renewal_refusal_def not_le split: if_split_asm option.split_asm)
  from g(8) have p: "rf_predecessor_pending f" "rg_revoked_at g = None" "\<not> rg_suspension_active g"
    "rf_grant_preflight_code f \<noteq> Some PreIdleSuspended" "rf_grant_preflight_code f \<noteq> Some PreGrantSuspended"
    "rf_grant_preflight_code f \<noteq> Some PreDeviceUnavailable" "rf_grant_preflight_code f \<noteq> Some PreDeviceMismatch"
    "\<not> (rg_kind g = Timeboxed \<and> rf_grant_preflight_code f = Some PreHorizonReached)"
    "timeboxed_valid g now \<or> standing_valid g"
    "\<not> (rg_kind g = Timeboxed \<and> rg_horizon_expires_at g \<noteq> None \<and> horizon_value g \<le> now)"
    by (auto simp: grant_refusal_def split: if_split_asm)
  have h: "rg_kind g = Standing \<or> now < horizon_value g"
    using p(9,10) by (cases "rg_kind g") (auto simp: timeboxed_valid_def standing_valid_def split: option.splits)
  have "grant_refusal (f\<lparr>rf_predecessor_pending := False\<rparr>) g now =
      (if successors_exhausted f g then Some (''renewal_successors_exhausted'', ''renewal grant has no successors left'')
       else None)"
    using p by (auto simp: grant_refusal_def successors_exhausted_def)
  with g p h show ?thesis by (auto simp: renewal_refusal_def)
qed

theorem pending_hint_masks_nothing_witness:
  "\<exists>det. renewal_refusal (sample_facts\<lparr>rf_predecessor_pending := True\<rparr>) sample_token 50 =
       Some (''predecessor_pending_first_use'', det) \<and>
     \<not> rf_lineage_revoked (sample_facts\<lparr>rf_predecessor_pending := True\<rparr>)"
proof -
  obtain det where "renewal_refusal (sample_facts\<lparr>rf_predecessor_pending := True\<rparr>) sample_token 50 =
      Some (''predecessor_pending_first_use'', det)"
    by (simp add: renewal_refusal_def grant_refusal_def sample_facts_def sample_grant_def sample_token_def
        timeboxed_valid_def horizon_value_def RENEWAL_HORIZON_MAX_MS_def)
  with pending_hint_masks_nothing[OF this] show ?thesis by blast
qed

end
