(* ===== verification/WorkspaceFinality.thy ===== *)
theory WorkspaceFinality
  imports WorkspaceProperties
begin

text \<open>
  What stays settled in a workspace whatever is appended to its log afterwards: an invitation is
  used once and a revoked token is dead. Then the properties of the pure text functions and of the
  sequence numbers a rejected member removal takes.
\<close>

section \<open>Invitations\<close>

lemma accepted_invitation:
  assumes "decide_accept_invitation s ctx u hash = Accepted es"
  obtains i where "filter (\<lambda>i. wi_token_hash i = hash) (obj_values (ws_invitations s)) = [i]"
    and "live_invitation i (wc_now ctx)" and "liveMember s u = None"
    and "es = [ws_env ctx 0 InvitationAccepted (no_fields\<lparr>
         w_invitation_id := Some (wi_invitation_id i),
         w_consumed_by := Some u, w_consumed_at := Some (wc_now ctx)\<rparr>),
       ws_env ctx 1 MemberJoined (no_fields\<lparr>w_user_id := Some u, w_role := Some (Inl (wi_role i)),
         w_invited_by := Some (Some (wi_created_by i)), w_joined_at := Some (wc_now ctx)\<rparr>)]"
  using assms by (auto simp: decide_accept_invitation_def Let_def split: if_split_asm list.split_asm)

lemma accept_decides:
  assumes "decideWorkspace (Some s) (AcceptInvitation hash) ctx = Inr (Accepted es)"
  obtains u where "callerUser ctx = Some u" and "decide_accept_invitation s ctx u hash = Accepted es"
proof -
  from accepted_inside[OF assms] obtain u where u: "callerUser ctx = Some u"
    "decide_in_workspace s (AcceptInvitation hash) ctx u = Inr (Accepted es)" by blast
  from u(2) have "decide_accept_invitation s ctx u hash = Accepted es"
    by (simp add: decide_in_workspace_def split: if_splits)
  with u(1) show thesis by (rule that)
qed

text \<open>A consumed invitation blocks every acceptance with its capability.\<close>

lemma consumed_not_accepted:
  assumes "obj_get (ws_invitations s) k = Some i" and "wi_token_hash i = hash"
    and "wi_consumed_at i \<noteq> None \<or> wi_revoked_at i \<noteq> None"
  shows "decideWorkspace (Some s) (AcceptInvitation hash) ctx \<noteq> Inr (Accepted es)"
proof
  assume "decideWorkspace (Some s) (AcceptInvitation hash) ctx = Inr (Accepted es)"
  then obtain u where "decide_accept_invitation s ctx u hash = Accepted es" by (rule accept_decides)
  then obtain j where j: "filter (\<lambda>i. wi_token_hash i = hash) (obj_values (ws_invitations s)) = [j]"
    "live_invitation j (wc_now ctx)" by (rule accepted_invitation)
  have "i \<in> set (filter (\<lambda>i. wi_token_hash i = hash) (obj_values (ws_invitations s)))"
    using obj_get_values[OF assms(1)] assms(2) by simp
  with j assms(3) show False by (auto simp: live_invitation_def)
qed

lemma project_settled: "project_workspace ra (Some s) es = Inr (Some t) \<Longrightarrow> settled_le s t"
  using ws_settled.fold_le[of ra s es "Some t"] by (auto simp: project_workspace_def)

lemma settled_invitation:
  assumes "project_workspace ra (Some s) es = Inr (Some t)" and "obj_get (ws_invitations s) k = Some i"
  obtains j where "obj_get (ws_invitations t) k = Some j" and "invitation_settled i j"
  using project_settled[OF assms(1)] assms(2) that unfolding settled_le_def entries_le_def by blast

lemma settled_token:
  assumes "project_workspace ra (Some s) es = Inr (Some t)" and "obj_get (ws_tokens s) k = Some a"
  obtains b where "obj_get (ws_tokens t) k = Some b" and "token_settled a b"
  using project_settled[OF assms(1)] assms(2) that unfolding settled_le_def entries_le_def by blast

text \<open>
  C13. An invitation is used once: when an invitation is accepted, the caller becomes a live member
  with exactly the invited role, and after that, whatever events the workspace appends, nobody is
  accepted with the same capability again.
\<close>

theorem invitation_single_use:
  fixes es es' :: "'p ws_event list"
  assumes "reduceWorkspaceStream ra evs = Inr (Some s)"
    and "decideWorkspace (Some s) (AcceptInvitation hash) ctx = Inr (Accepted es)"
    and "project_workspace ra (Some s) es = Inr (Some t)"
    and "project_workspace ra (Some t) later = Inr (Some v)"
  shows "(\<exists>u k i. callerUser ctx = Some u \<and> obj_get (ws_invitations s) k = Some i \<and>
      wi_token_hash i = hash \<and> live_invitation i (wc_now ctx) \<and> liveMember s u = None \<and>
      liveMember t u = Some (new_member u (wi_role i) (Some (wi_created_by i)) (wc_now ctx))) \<and>
    decideWorkspace (Some v) (AcceptInvitation hash) ctx' \<noteq> Inr (Accepted es')"
proof -
  have wf: "owners_ok s" "tables_ok s" using replayed_wf[OF assms(1)] by (simp_all add: ws_wf_def)
  from assms(2) obtain u where u: "callerUser ctx = Some u"
    "decide_accept_invitation s ctx u hash = Accepted es" by (rule accept_decides)
  from u(2) obtain i where
    i: "filter (\<lambda>i. wi_token_hash i = hash) (obj_values (ws_invitations s)) = [i]"
      "live_invitation i (wc_now ctx)" "liveMember s u = None"
    and es: "es = [ws_env ctx 0 InvitationAccepted (no_fields\<lparr>
         w_invitation_id := Some (wi_invitation_id i),
         w_consumed_by := Some u, w_consumed_at := Some (wc_now ctx)\<rparr>),
       ws_env ctx 1 MemberJoined (no_fields\<lparr>w_user_id := Some u, w_role := Some (Inl (wi_role i)),
         w_invited_by := Some (Some (wi_created_by i)), w_joined_at := Some (wc_now ctx)\<rparr>)]"
    by (rule accepted_invitation)
  have "i \<in> set (filter (\<lambda>i. wi_token_hash i = hash) (obj_values (ws_invitations s)))" by (simp add: i(1))
  then have get: "obj_get (ws_invitations s) (wi_invitation_id i) = Some i" and hash: "wi_token_hash i = hash"
    using invitation_lookup[OF wf(2)] by auto
  let ?i = "i\<lparr>wi_consumed_at := Some (wc_now ctx), wi_consumed_by := Some u\<rparr>"
  have "ws_invitations t = obj_put (ws_invitations s) (wi_invitation_id i) ?i \<and>
      liveMember t u = Some (new_member u (wi_role i) (Some (wi_created_by i)) (wc_now ctx))"
    using assms(3) es get i(3) wf(1)
    by (auto simp: invitation_accepted_effect joined_effect liveMember_def new_member_def)
  then have t: "obj_get (ws_invitations t) (wi_invitation_id i) = Some ?i"
      "liveMember t u = Some (new_member u (wi_role i) (Some (wi_created_by i)) (wc_now ctx))"
    by simp_all
  from assms(4) t(1) obtain j where j: "obj_get (ws_invitations v) (wi_invitation_id i) = Some j"
    "invitation_settled ?i j" by (rule settled_invitation)
  from consumed_not_accepted[OF j(1), of hash ctx' es'] j(2) hash
  have "decideWorkspace (Some v) (AcceptInvitation hash) ctx' \<noteq> Inr (Accepted es')"
    by (simp add: invitation_settled_def)
  with u(1) get hash i(2,3) t(2) show ?thesis by blast
qed

lemma sample_accept:
  "\<exists>es :: unit ws_event list. decideWorkspace (Some sample_ws) (AcceptInvitation ''h'')
     (wctx HumanCredential ''b'' None None 50) = Inr (Accepted es)"
  by (simp add: decide_simps decide_in_workspace_def decide_accept_invitation_def new_invitation_def
      live_invitation_def ws_accept_def)

theorem invitation_single_use_witness:
  "\<exists>(es :: unit ws_event list) t. decideWorkspace (Some sample_ws) (AcceptInvitation ''h'')
       (wctx HumanCredential ''b'' None None 50) = Inr (Accepted es) \<and>
     project_workspace no_routine (Some sample_ws) es = Inr (Some t) \<and>
     decideWorkspace (Some t) (AcceptInvitation ''h'') (wctx HumanCredential ''c'' None None 60) \<noteq>
       Inr (Accepted es)"
proof -
  from sample_accept obtain es :: "unit ws_event list" where
    d: "decideWorkspace (Some sample_ws) (AcceptInvitation ''h'')
      (wctx HumanCredential ''b'' None None 50) = Inr (Accepted es)" by blast
  from sample_projected[OF d] obtain t where
    t: "project_workspace no_routine (Some sample_ws) es = Inr (Some t)" by blast
  from invitation_single_use[OF sample_ws_replay d t project_Nil] d t show ?thesis by blast
qed

section \<open>Tokens\<close>

lemma revoke_token_accepted:
  assumes "decideWorkspace (Some s) (RevokeAgentToken k) ctx = Inr (Accepted es)"
  obtains a where "obj_get (ws_tokens s) k = Some a" and "wt_revoked_at a = None"
    and "es = [ws_env ctx 0 AgentTokenRevoked (no_fields\<lparr>w_token_id := Some k,
      w_revoked_at := Some (wc_now ctx)\<rparr>)]"
proof -
  from accepted_inside[OF assms] obtain u where
    "decide_in_workspace s (RevokeAgentToken k) ctx u = Inr (Accepted es)" by blast
  then obtain r where "decide_revoke_token s ctx u r k = Accepted es"
    by (auto simp: decide_in_workspace_def decide_member_command_def split: if_splits)
  then show thesis
    using that by (auto simp: decide_revoke_token_def Let_def split: if_split_asm option.split_asm)
qed

text \<open>
  Revocation of a token is final: once a revocation is accepted, whatever the workspace appends,
  the token stays revoked, it presents no renewal, and it is not revoked a second time.
\<close>

theorem revoked_token_stays_dead:
  fixes es es' :: "'p ws_event list"
  assumes "reduceWorkspaceStream ra evs = Inr (Some s)"
    and "decideWorkspace (Some s) (RevokeAgentToken k) ctx = Inr (Accepted es)"
    and "project_workspace ra (Some s) es = Inr (Some t)"
    and "project_workspace ra (Some t) later = Inr (Some v)"
    and "cmd = RevokeAgentToken k \<or> (cmd = RenewAgentToken new sc \<and> wc_presenting_token_id ctx' = Some k)"
  shows "(\<exists>b. obj_get (ws_tokens v) k = Some b \<and> wt_revoked_at b \<noteq> None) \<and>
    decideWorkspace (Some v) cmd ctx' \<noteq> Inr (Accepted es')"
proof -
  have wf: "owners_ok s" using replayed_wf[OF assms(1)] by (simp add: ws_wf_def)
  from assms(2) obtain a where a: "obj_get (ws_tokens s) k = Some a"
    and es: "es = [ws_env ctx 0 AgentTokenRevoked (no_fields\<lparr>w_token_id := Some k,
      w_revoked_at := Some (wc_now ctx)\<rparr>)]" by (rule revoke_token_accepted)
  have "obj_get (ws_tokens t) k = Some (a\<lparr>wt_revoked_at := Some (wc_now ctx)\<rparr>)"
    using assms(3) es a wf by (auto simp: token_revoked_effect)
  with assms(4) obtain b where b: "obj_get (ws_tokens v) k = Some b" "wt_revoked_at b \<noteq> None"
    by (rule settled_token) (auto simp: token_settled_def)
  have "decideWorkspace (Some v) cmd ctx' \<noteq> Inr (Accepted es')"
  proof
    assume acc: "decideWorkspace (Some v) cmd ctx' = Inr (Accepted es')"
    from assms(5) show False
    proof
      assume "cmd = RevokeAgentToken k"
      with acc b show False by (auto elim: revoke_token_accepted)
    next
      assume c: "cmd = RenewAgentToken new sc \<and> wc_presenting_token_id ctx' = Some k"
      from accepted_inside[OF acc] obtain u where
        "decide_in_workspace v cmd ctx' u = Inr (Accepted es')" by blast
      with c have "decide_renew_token v ctx' new sc = Accepted es'"
        by (simp add: decide_in_workspace_def decide_member_command_def split: if_splits)
      then show False by (rule renew_accepted) (use b c in simp)
    qed
  qed
  with b show ?thesis by blast
qed

lemma sample_revoke_token:
  "\<exists>es :: unit ws_event list. decideWorkspace (Some sample_ws) (RevokeAgentToken ''t'')
     (wctx AgentCredential ''o'' (Some ''p'') (Some ''t'') 50) = Inr (Accepted es)"
  by (simp add: decide_simps HUMAN_ONLY_COMMANDS_def decide_in_workspace_def decide_member_command_def decide_revoke_token_def
      sample_token_def local_principal_def ws_accept_def)

theorem revoked_token_stays_dead_witness:
  "\<exists>(es :: unit ws_event list) t. decideWorkspace (Some sample_ws) (RevokeAgentToken ''t'')
       (wctx AgentCredential ''o'' (Some ''p'') (Some ''t'') 50) = Inr (Accepted es) \<and>
     project_workspace no_routine (Some sample_ws) es = Inr (Some t) \<and>
     decideWorkspace (Some t) (RenewAgentToken ''n'' [lit ''signal''])
       (wctx AgentCredential ''o'' (Some ''p'') (Some ''t'') 60) \<noteq> Inr (Accepted es)"
proof -
  from sample_revoke_token obtain es :: "unit ws_event list" where
    d: "decideWorkspace (Some sample_ws) (RevokeAgentToken ''t'')
      (wctx AgentCredential ''o'' (Some ''p'') (Some ''t'') 50) = Inr (Accepted es)" by blast
  from sample_projected[OF d] obtain t where
    t: "project_workspace no_routine (Some sample_ws) es = Inr (Some t)" by blast
  from revoked_token_stays_dead[OF sample_ws_replay d t project_Nil, of "RenewAgentToken ''n'' [lit ''signal'']"
      "''n''" "[lit ''signal'']" "wctx AgentCredential ''o'' (Some ''p'') (Some ''t'') 60" es] d t
  show ?thesis by auto
qed

section \<open>Scopes and text\<close>

text \<open>
  The agent scope denylist is not evaded by spelling: a denylisted scope stays denylisted when its
  letters change case, when separators are exchanged for other separators, and when it is embedded
  in a longer scope between separators.
\<close>

theorem denylist_not_evaded:
  assumes "isAgentScopeDenylisted s" and "list_all2 respelled s t" and "separates c" and "separates d"
  shows "isAgentScopeDenylisted t \<and> isAgentScopeDenylisted (xs @ [c] @ t @ [d] @ ys)"
proof -
  have t: "isAgentScopeDenylisted t"
    using assms(1) scopeWords_respelled[OF assms(2)] by (simp add: isAgentScopeDenylisted_def)
  have "set (scopeWords t) \<subseteq> set (scopeWords (xs @ [c] @ t @ [d] @ ys))"
    unfolding scopeWords_extend[OF assms(3,4)] by auto
  from denylisted_words_mono[OF this] t show ?thesis by (simp add: isAgentScopeDenylisted_def)
qed

theorem denylist_not_evaded_witness:
  "isAgentScopeDenylisted (lit ''Task:Discard-NOW'') \<and> isAgentScopeDenylisted (lit ''DISCARD'')"
proof -
  have "isAgentScopeDenylisted (lit ''discard'') "
    by (simp add: isAgentScopeDenylisted_def denylisted_words_def scope_eval has_def)
  moreover have "list_all2 respelled (lit ''discard'') (lit ''Discard'')"
    "list_all2 respelled (lit ''discard'') (lit ''DISCARD'')"
    by (simp_all add: lit_def respelled_def lower_unit_def)
  moreover have "separates 58" "separates 45"
    by (simp_all add: separates_def lower_unit_def word_separator_def)
  moreover have "lit ''Task:Discard-NOW'' = lit ''Task'' @ [58] @ lit ''Discard'' @ [45] @ lit ''NOW''"
    by (simp add: lit_def)
  ultimately show ?thesis using denylist_not_evaded[of "lit ''discard''" _ 58 45] by metis
qed

lemma feedback_decided:
  assumes "decide_feedback s ctx u f cat body x = Accepted es"
  obtains b c k r where "cat \<in> set FEEDBACK_CATEGORIES" and "normalizedFeedbackBody body = Inr b"
    and "normalizedFeedbackContext x = Inr c"
    and "feedback_reporter s ctx (SubmitFeedback f cat body x) u =
      (Inr (k, r) :: 'p ws_decision + reporter_kind \<times> string)"
    and "es = [ws_env ctx 0 FeedbackSubmitted (no_fields\<lparr>w_feedback_id := Some f,
      w_category := Some cat, w_body := Some b, w_context := Some c, w_reporter_kind := Some k,
      w_reporter_id := Some r, w_submitted_at := Some (wc_now ctx)\<rparr>) :: 'p ws_event]"
  using assms reporter_not_accepted[of s ctx "SubmitFeedback f cat body x" u "Accepted es" "\<lambda>_. False"]
  by (auto simp: decide_feedback_def Let_def split: if_split_asm sum.split_asm prod.split_asm)

lemma reporter_derived:
  assumes "feedback_reporter s ctx cmd u = Inr (k, r)"
  shows "k = (if wc_credential_kind ctx = AgentCredential then ReporterAgent else ReporterUser)"
    and "k = ReporterUser \<Longrightarrow> r = u"
    and "k = ReporterAgent \<Longrightarrow> \<exists>pid e. act_agent_principal (wc_actor ctx) = Some pid \<and>
      obj_get (ws_principals s) pid = Some e \<and> wp_revoked_at e = None \<and> r = wp_principal_id e"
  using assms by (auto simp: feedback_reporter_def split: if_split_asm option.split_asm)

text \<open>
  Feedback is bounded and inert: accepted feedback is one event with a trimmed, control-free body
  of 1 to 4000 code units and a context of at most 2048 bytes, its reporter is the authenticated
  user or the live agent principal of the credential and nothing the sender wrote, and the
  workspace stays as it is.
\<close>

theorem feedback_bounded_and_inert:
  fixes es :: "'p ws_event list"
  assumes "reduceWorkspaceStream ra evs = Inr (Some s)"
    and "decideWorkspace (Some s) (SubmitFeedback f cat body x) ctx = Inr (Accepted es)"
  shows "project_workspace ra (Some s) es = Inr (Some s) \<and>
    (\<exists>u b c k r. callerUser ctx = Some u \<and>
      es = [ws_env ctx 0 FeedbackSubmitted (no_fields\<lparr>w_feedback_id := Some f, w_category := Some cat,
        w_body := Some b, w_context := Some c, w_reporter_kind := Some k, w_reporter_id := Some r,
        w_submitted_at := Some (wc_now ctx)\<rparr>)] \<and>
      b \<noteq> [] \<and> length b \<le> FEEDBACK_BODY_MAX \<and> trim b = b \<and> list_all (\<lambda>ch. \<not> body_control ch) b \<and>
      (case c of None \<Rightarrow> True | Some o' \<Rightarrow> o' \<noteq> [] \<and> json_object_bytes o' \<le> FEEDBACK_CONTEXT_MAX_BYTES) \<and>
      (case k of ReporterUser \<Rightarrow> r = u \<and> wc_credential_kind ctx \<noteq> AgentCredential
       | ReporterAgent \<Rightarrow> wc_credential_kind ctx = AgentCredential \<and> act_agent_principal (wc_actor ctx) = Some r))"
proof -
  have wf: "owners_ok s" "tables_ok s" using replayed_wf[OF assms(1)] by (simp_all add: ws_wf_def)
  from accepted_inside[OF assms(2)] obtain u where u: "callerUser ctx = Some u"
    "decide_in_workspace s (SubmitFeedback f cat body x) ctx u = Inr (Accepted es)" by blast
  from u(2) have "decide_feedback s ctx u f cat body x = Accepted es"
    by (simp add: decide_in_workspace_def decide_member_command_def split: if_splits)
  then obtain b c k r where b: "normalizedFeedbackBody body = Inr b" and c: "normalizedFeedbackContext x = Inr c"
    and r: "feedback_reporter s ctx (SubmitFeedback f cat body x) u =
      (Inr (k, r) :: 'p ws_decision + reporter_kind \<times> string)"
    and es: "es = [ws_env ctx 0 FeedbackSubmitted (no_fields\<lparr>w_feedback_id := Some f,
      w_category := Some cat, w_body := Some b, w_context := Some c, w_reporter_kind := Some k,
      w_reporter_id := Some r, w_submitted_at := Some (wc_now ctx)\<rparr>)]"
    by (rule feedback_decided)
  note rep = reporter_derived[OF r]
  have "project_workspace ra (Some s) es = Inr (Some s)" by (simp add: es feedback_effect wf)
  moreover have "case k of ReporterUser \<Rightarrow> r = u \<and> wc_credential_kind ctx \<noteq> AgentCredential
     | ReporterAgent \<Rightarrow> wc_credential_kind ctx = AgentCredential \<and> act_agent_principal (wc_actor ctx) = Some r"
  proof (cases k)
    case ReporterAgent
    from rep(3)[OF this] table_entries[OF wf(2)] rep(1) ReporterAgent show ?thesis
      by (auto split: if_split_asm)
  qed (use rep in \<open>auto split: if_split_asm\<close>)
  ultimately show ?thesis
    using es u(1) normalizedFeedbackBody_Inr[OF b] normalizedFeedbackContext_Some[of x] c
    by (intro conjI exI[of _ u] exI[of _ b] exI[of _ c] exI[of _ k] exI[of _ r])
      (auto simp: list_all_iff split: option.split)
qed

lemma sample_feedback_body: "normalizedFeedbackBody (JsString (lit '' hi '')) = Inr (lit ''hi'')"
  by (simp add: normalizedFeedbackBody_def lit_def trim_def white_unit_def FEEDBACK_BODY_MAX_def
      body_control_def bidi_control_def)

lemma sample_feedback:
  "\<exists>es :: unit ws_event list. decideWorkspace (Some sample_ws)
     (SubmitFeedback ''f'' Bug (JsString (lit '' hi '')) JsNull)
     (wctx AgentCredential ''o'' (Some ''p'') (Some ''t'') 50) = Inr (Accepted es)"
  by (simp add: decide_simps HUMAN_ONLY_COMMANDS_def decide_in_workspace_def decide_member_command_def
      decide_feedback_def sample_feedback_body normalizedFeedbackContext_def FEEDBACK_CATEGORIES_def
      feedback_reporter_def local_principal_def ws_accept_def)

theorem feedback_bounded_and_inert_witness:
  "\<exists>es :: unit ws_event list. decideWorkspace (Some sample_ws)
       (SubmitFeedback ''f'' Bug (JsString (lit '' hi '')) JsNull)
       (wctx AgentCredential ''o'' (Some ''p'') (Some ''t'') 50) = Inr (Accepted es) \<and>
     project_workspace no_routine (Some sample_ws) es = Inr (Some sample_ws)"
  using sample_feedback feedback_bounded_and_inert[OF sample_ws_replay] by blast

section \<open>Sequence numbers of a rejected removal\<close>

text \<open>
  Member removal draws a sequence number for every revocation it prepares, so when a later pending
  invitation turns out not to be live, the one event of the rejection carries the second number of
  the counter although no event with the first one is emitted.
\<close>

theorem removal_rejection_skips_sequence:
  assumes "callerUser ctx = Some a" and "a \<noteq> []" and "wc_credential_kind ctx = HumanCredential"
    and "wc_role ctx a = Some RoleOwner" and "liveMember s u = Some m" and "wm_role m \<noteq> RoleOwner"
    and "wc_landingAuthorityChangeResolved ctx u suc" and "wc_pendingInvitationIds ctx = Some f"
    and "sort (f u) = i # j # rest" and "i \<noteq> j" and "obj_get (ws_invitations s) j = None"
    and "obj_get (ws_invitations s) i = Some v" and "wi_consumed_at v = None" and "wi_revoked_at v = None"
  shows "\<exists>e :: 'p ws_event. decideWorkspace (Some s) (RemoveMember u suc) ctx =
      Inr (Rejected Domain ''invitation_not_live'' ''a pending invitation for this member is not live'' [e]) \<and>
    ev_type e = WorkspaceCommandRejected \<and> ev_seq e = wc_nextSeq ctx 1"
proof -
  have "callerUser ctx \<noteq> None" "callerUser ctx \<noteq> Some []" using assms(1,2) by simp_all
  then show ?thesis
    using assms
    by (simp add: decideWorkspace_def credential_refusal_def is_register_def decide_in_workspace_def
        decide_member_command_def decide_remove_member_def Let_def ws_domain_at_def ownerOrAdmin_def)
qed

definition sample_removal_ctx :: ws_ctx where
  "sample_removal_ctx = (wctx HumanCredential ''o'' None None 50)\<lparr>
     wc_pendingInvitationIds := Some (\<lambda>_. [''x'', ''i''])\<rparr>"

definition sample_removal_ws :: "unit workspace_state" where
  "sample_removal_ws = sample_ws\<lparr>ws_members := [(''o'', new_member ''o'' RoleOwner None 0),
     (''b'', new_member ''b'' RoleMember None 5)]\<rparr>"

theorem removal_rejection_skips_sequence_witness:
  "\<exists>e :: unit ws_event. decideWorkspace (Some sample_removal_ws) (RemoveMember ''b'' None) sample_removal_ctx =
      Inr (Rejected Domain ''invitation_not_live'' ''a pending invitation for this member is not live'' [e]) \<and>
    ev_seq e = 11"
proof -
  have "\<exists>e :: unit ws_event. decideWorkspace (Some sample_removal_ws) (RemoveMember ''b'' None) sample_removal_ctx =
      Inr (Rejected Domain ''invitation_not_live'' ''a pending invitation for this member is not live'' [e]) \<and>
    ev_type e = WorkspaceCommandRejected \<and> ev_seq e = wc_nextSeq sample_removal_ctx 1"
    by (rule removal_rejection_skips_sequence[where i = "''i''" and j = "''x''" and rest = "[]" and a = "''o''"
          and m = "new_member ''b'' RoleMember None 5" and v = "new_invitation ''i'' None RoleAdmin ''h'' 100 ''o'' 1"
          and f = "\<lambda>_. [''x'', ''i'']"])
      (simp_all add: sample_removal_ctx_def wctx_def callerUser_def sample_removal_ws_def liveMember_def
        obj_get_def new_member_def new_invitation_def sample_ws_def obj_put_def)
  then show ?thesis by (auto simp: sample_removal_ctx_def wctx_def)
qed

end
