(* ===== verification/HostedAuthority.thy ===== *)
theory HostedAuthority
  imports TaskCommands WorkspaceScopes
begin

text \<open>
  The hosted-MCP authority core of \<open>src/protocol/hosted-authority.ts\<close>: the commands of a hosted
  grant and its seats, the facts the database adapter supplies, the decision, and the reducer of
  the events into grants, consents, seats and principals. Payload fields hold values of their
  declared types, on which the reducer's \<open>String\<close> and \<open>Number\<close> are the identity; a payload may
  lack any field.
\<close>

section \<open>Commands, facts and events\<close>

definition HOSTED_MCP_RESOURCE :: string where
  "HOSTED_MCP_RESOURCE = ''https://mcp.commonswarm.com/mcp''"

definition HOSTED_MCP_SEAT_LIMIT :: nat where "HOSTED_MCP_SEAT_LIMIT = 10"

definition PUBLIC_HOSTED_ONLY_COMMANDS :: "string list" where
  "PUBLIC_HOSTED_ONLY_COMMANDS =
     [''begin_hosted_mcp_grant'', ''consent_hosted_mcp_workspace'', ''activate_hosted_mcp_grant'',
      ''claim_hosted_seat'', ''open_hosted_mcp_check_batch'', ''ack_hosted_mcp_check_batch'']"

definition publicHostedCommandForbidden :: "string \<Rightarrow> bool" where
  "publicHostedCommandForbidden kind \<longleftrightarrow> kind \<in> set PUBLIC_HOSTED_ONLY_COMMANDS"

datatype hosted_credential_kind = HumanKind | HostedGrantKind | HostedSeatKind

datatype hosted_command =
    BeginGrant (hcmd_grant_id: string) string string string string string "string list" string string
      \<comment> \<open>\<open>grant_id\<close>, \<open>provider_grant_id\<close>, \<open>owner_user_id\<close>, \<open>home_workspace_id\<close>, \<open>client_id\<close>,
        \<open>resource\<close>, \<open>selected_workspace_ids\<close>, \<open>manifest_digest\<close>, \<open>interaction_ref\<close>\<close>
  | ConsentWorkspace (hcmd_grant_id: string) string string string string
      \<comment> \<open>\<open>grant_id\<close>, \<open>workspace_id\<close>, \<open>owner_user_id\<close>, \<open>manifest_digest\<close>, \<open>consent_receipt_id\<close>\<close>
  | ActivateGrant (hcmd_grant_id: string)
  | RevokeGrant (hcmd_grant_id: string)
  | RevokeSeat (hcmd_grant_id: string) string
  | ReleaseSeat (hcmd_grant_id: string) string
  | ClaimSeat (hcmd_grant_id: string) string string string string string jstext
      \<comment> \<open>\<open>grant_id\<close>, \<open>seat_id\<close>, \<open>handle\<close>, \<open>principal_id\<close>, \<open>workspace_id\<close>, \<open>owner_user_id\<close>, \<open>name\<close>\<close>

fun hosted_kind :: "hosted_command \<Rightarrow> string" where
  "hosted_kind (BeginGrant _ _ _ _ _ _ _ _ _) = ''begin_hosted_mcp_grant''"
| "hosted_kind (ConsentWorkspace _ _ _ _ _) = ''consent_hosted_mcp_workspace''"
| "hosted_kind (ActivateGrant _) = ''activate_hosted_mcp_grant''"
| "hosted_kind (RevokeGrant _) = ''revoke_hosted_mcp_grant''"
| "hosted_kind (RevokeSeat _ _) = ''revoke_hosted_mcp_seat''"
| "hosted_kind (ReleaseSeat _ _) = ''release_hosted_mcp_seat''"
| "hosted_kind (ClaimSeat _ _ _ _ _ _ _) = ''claim_hosted_seat''"

datatype hosted_event_type =
    GrantBegun | WorkspaceConsented | GrantActivated | GrantRevoked
  | SeatClaimed | SeatRevoked | SeatReleased
  | OtherHostedEvent string

record hosted_fields =
  h_kind :: "string option"
  h_grant_id :: "string option"
  h_provider_grant_id :: "string option"
  h_owner_user_id :: "string option"
  h_home_workspace_id :: "string option"
  h_client_id :: "string option"
  h_resource :: "string option"
  h_selected_workspace_ids :: "string list option"
  h_manifest_digest :: "string option"
  h_interaction_ref :: "string option"
  h_created_at :: "number option"
  h_workspace_id :: "string option"
  h_consent_receipt_id :: "string option"
  h_consented_at :: "number option"
  h_activated_at :: "number option"
  h_revoked_at :: "number option"
  h_released_at :: "number option"
  h_seat_id :: "string option"
  h_principal_id :: "string option"
  h_name :: "jstext option"
  h_handle :: "string option"
  h_transport :: "string option"
  h_turn_only :: "bool option"

definition no_hosted_fields :: hosted_fields where
  "no_hosted_fields = \<lparr>h_kind = None, h_grant_id = None, h_provider_grant_id = None, h_owner_user_id = None,
     h_home_workspace_id = None, h_client_id = None, h_resource = None, h_selected_workspace_ids = None,
     h_manifest_digest = None, h_interaction_ref = None, h_created_at = None, h_workspace_id = None,
     h_consent_receipt_id = None, h_consented_at = None, h_activated_at = None, h_revoked_at = None,
     h_released_at = None, h_seat_id = None, h_principal_id = None, h_name = None, h_handle = None,
     h_transport = None, h_turn_only = None\<rparr>"

type_synonym hosted_envelope = "(hosted_event_type, hosted_fields) envelope"

datatype grant_state = GrantPending | GrantActive | GrantEnded

text \<open>\<open>HostedGrantFacts\<close>.\<close>

record grant_facts =
  gf_grant_id :: string
  gf_provider_grant_id :: string
  gf_owner_user_id :: string
  gf_home_workspace_id :: string
  gf_client_id :: string
  gf_resource :: string
  gf_state :: grant_state
  gf_manifest_digest :: string
  gf_interaction_ref :: string
  gf_selected_workspace_ids :: "string list"
  gf_consented_workspace_ids :: "string list"

text \<open>\<open>HostedSeatFacts\<close>. Its \<open>transport\<close> and \<open>turn_only\<close> have one value by type; the decision
  still tests them, so they are kept.\<close>

record hosted_seat =
  hs_seat_id :: string
  hs_grant_id :: string
  hs_workspace_id :: string
  hs_owner_user_id :: string
  hs_principal_id :: string
  hs_name :: jstext
  hs_handle :: string
  hs_transport :: string
  hs_turn_only :: bool
  hs_created_at :: number
  hs_revoked_at :: "number option"
  hs_handle_revoked_at :: "number option"
  hs_principal_revoked_at :: "number option"

record name_principal =
  np_principal_id :: string
  np_owner_user_id :: string
  np_revoked :: bool

record hosted_facts =
  hf_grant :: "grant_facts option"
  hf_seat :: "hosted_seat option"
  hf_owner_is_live_member :: bool
  hf_workspace_archived :: bool
  hf_workspace_consented :: bool
  hf_all_required_consents :: bool
  hf_all_required_memberships :: bool
  hf_exact_name_principals :: "name_principal list"
  hf_live_seat_count :: nat

section \<open>The projection\<close>

record grant_row =
  gr_grant_id :: string
  gr_owner_user_id :: string
  gr_home_workspace_id :: string
  gr_provider_grant_id :: string
  gr_client_id :: string
  gr_resource :: string
  gr_selected_workspace_ids :: "string list"
  gr_manifest_digest :: string
  gr_interaction_ref :: string
  gr_state :: grant_state
  gr_created_at :: number
  gr_activated_at :: "number option"
  gr_revoked_at :: "number option"

record consent_row =
  cr_grant_id :: string
  cr_workspace_id :: string
  cr_owner_user_id :: string
  cr_manifest_digest :: string
  cr_consent_receipt_id :: string
  cr_consented_at :: number
  cr_revoked_at :: "number option"

record hosted_principal =
  hp_principal_id :: string
  hp_workspace_id :: string
  hp_owner_user_id :: string
  hp_name :: jstext
  hp_transport :: string
  hp_turn_only :: bool
  hp_created_at :: number
  hp_revoked_at :: "number option"

record hosted_state =
  ha_grants :: "grant_row obj"
  ha_consents :: "consent_row obj"
  ha_seats :: "hosted_seat obj"
  ha_principals :: "hosted_principal obj"

definition empty_hosted :: hosted_state where
  "empty_hosted = \<lparr>ha_grants = [], ha_consents = [], ha_seats = [], ha_principals = []\<rparr>"

section \<open>The decision\<close>

record hosted_ctx =
  hc_now :: number
  hc_actor :: actor
  hc_credential_kind :: hosted_credential_kind
  hc_command_id :: string
  hc_workspace_id :: string
  hc_stream_id :: string
  hc_nextSeq :: number
  hc_nextEventId :: string

datatype hosted_decision =
    HostedOk (hosted_accepted: "hosted_envelope list") "hosted_seat option" "string list option"
      \<comment> \<open>\<open>events\<close>, \<open>reuse\<close>, \<open>reclaimed_principal_ids\<close>\<close>
  | HostedRefused reject_class string string

fun hosted_decision_events :: "hosted_decision \<Rightarrow> hosted_envelope list" where
  "hosted_decision_events (HostedOk es _ _) = es"
| "hosted_decision_events (HostedRefused _ _ _) = []"

definition HUMAN_COMMANDS :: "string list" where
  "HUMAN_COMMANDS = [''begin_hosted_mcp_grant'', ''consent_hosted_mcp_workspace'',
     ''activate_hosted_mcp_grant'', ''revoke_hosted_mcp_grant'', ''revoke_hosted_mcp_seat'']"

text \<open>
  \<open>Array.from(value).length\<close>: a surrogate pair is one character. \<open>btrim\<close> is the replacement of
  leading and trailing U+0020.
\<close>

fun code_points :: "jstext \<Rightarrow> nat" where
  "code_points [] = 0"
| "code_points [c] = 1"
| "code_points (c # d # cs) =
     (if high_surrogate c \<and> low_surrogate d then 1 + code_points cs else 1 + code_points (d # cs))"

definition btrim :: "jstext \<Rightarrow> jstext" where
  "btrim s = rev (dropWhile (\<lambda>c. c = 32) (rev (dropWhile (\<lambda>c. c = 32) s)))"

definition hostedSeatNameValid :: "js_value \<Rightarrow> bool" where
  "hostedSeatNameValid v = (case v of
     JsString s \<Rightarrow> 1 \<le> code_points s \<and> code_points s \<le> 80 \<and> s = btrim s \<and>
       (\<forall>c \<in> set s. \<not> c0_c1_control c)
   | _ \<Rightarrow> False)"

definition hosted_event :: "hosted_ctx \<Rightarrow> hosted_event_type \<Rightarrow> hosted_fields \<Rightarrow> hosted_envelope" where
  "hosted_event ctx ty pf = \<lparr>ev_workspace_id = hc_workspace_id ctx, ev_stream_id = hc_stream_id ctx,
     ev_seq = hc_nextSeq ctx, ev_event_id = hc_nextEventId ctx, ev_command_id = hc_command_id ctx,
     ev_type = ty, ev_schema_version = SCHEMA_VERSION, ev_actor_user = act_user (hc_actor ctx),
     ev_actor_agent_principal = act_agent_principal (hc_actor ctx),
     ev_actor_run = act_run (hc_actor ctx), ev_occurred_at_server = hc_now ctx,
     ev_admin_identity_id = None, ev_grant_id = None, ev_grant_manifest_digest = None,
     ev_payload = Fields pf\<rparr>"

definition accept_hosted :: "hosted_envelope list \<Rightarrow> hosted_decision" where
  "accept_hosted es = HostedOk es None None"

abbreviation unavailable_member :: "hosted_facts \<Rightarrow> bool" where
  "unavailable_member f \<equiv> \<not> hf_owner_is_live_member f \<or> hf_workspace_archived f"

definition decide_begin ::
  "hosted_facts \<Rightarrow> hosted_ctx \<Rightarrow> string \<Rightarrow> string \<Rightarrow> string \<Rightarrow> string \<Rightarrow> string \<Rightarrow> string \<Rightarrow> string list \<Rightarrow>
     string \<Rightarrow> string \<Rightarrow> hosted_decision" where
  "decide_begin facts ctx grant_id provider owner home client resource selected_ids digest interaction =
     (if act_user (hc_actor ctx) \<noteq> Some owner then
        HostedRefused Authz ''hosted_grant_not_owned'' ''a person may begin only their own hosted grant''
      else if hf_grant facts \<noteq> None then
        HostedRefused Domain ''hosted_grant_exists'' ''hosted grant already exists''
      else if home \<noteq> hc_workspace_id ctx then
        HostedRefused Authz ''workspace_mismatch'' ''grant creation must address its home workspace''
      else if unavailable_member facts then
        HostedRefused Authz ''membership_required'' ''grant owner is not a live member of the home workspace''
      else let selected = remdups selected_ids in
        if length selected \<noteq> length selected_ids \<or> length selected < 1 \<or> 100 < length selected \<or>
           home \<notin> set selected then
          HostedRefused Domain ''hosted_manifest_invalid'' ''hosted grant workspace manifest is invalid''
        else if resource \<noteq> HOSTED_MCP_RESOURCE then
          HostedRefused Domain ''resource_mismatch'' ''hosted grant resource is not supported''
        else accept_hosted [hosted_event ctx GrantBegun (no_hosted_fields\<lparr>
          h_kind := Some ''begin_hosted_mcp_grant'', h_grant_id := Some grant_id,
          h_provider_grant_id := Some provider, h_owner_user_id := Some owner,
          h_home_workspace_id := Some home, h_client_id := Some client, h_resource := Some resource,
          h_selected_workspace_ids := Some selected_ids, h_manifest_digest := Some digest,
          h_interaction_ref := Some interaction, h_created_at := Some (hc_now ctx)\<rparr>)])"

definition decide_consent ::
  "hosted_facts \<Rightarrow> hosted_ctx \<Rightarrow> grant_facts \<Rightarrow> string \<Rightarrow> string \<Rightarrow> string \<Rightarrow> string \<Rightarrow> string \<Rightarrow>
     hosted_decision" where
  "decide_consent facts ctx grant grant_id workspace owner digest receipt =
     (if gf_state grant \<noteq> GrantPending \<or> workspace \<noteq> hc_workspace_id ctx then
        HostedRefused Domain ''hosted_grant_not_pending'' ''workspace consent requires a pending grant''
      else if act_user (hc_actor ctx) \<noteq> Some (gf_owner_user_id grant) \<or>
          owner \<noteq> gf_owner_user_id grant \<or> digest \<noteq> gf_manifest_digest grant \<or>
          hc_workspace_id ctx \<notin> set (gf_selected_workspace_ids grant) then
        HostedRefused Authz ''manifest_mismatch'' ''workspace is not bound to this grant manifest''
      else if unavailable_member facts then
        HostedRefused Authz ''membership_required'' ''grant owner is not a live member of this workspace''
      else if hf_workspace_consented facts then accept_hosted []
      else accept_hosted [hosted_event ctx WorkspaceConsented (no_hosted_fields\<lparr>
        h_kind := Some ''consent_hosted_mcp_workspace'', h_grant_id := Some grant_id,
        h_workspace_id := Some workspace, h_owner_user_id := Some owner,
        h_manifest_digest := Some digest, h_consent_receipt_id := Some receipt,
        h_consented_at := Some (hc_now ctx)\<rparr>)])"

definition decide_activate :: "hosted_facts \<Rightarrow> hosted_ctx \<Rightarrow> grant_facts \<Rightarrow> hosted_decision" where
  "decide_activate facts ctx grant =
     (let incomplete = HostedRefused Domain ''hosted_consent_incomplete''
        ''Every selected workspace must consent before activation.'' in
      if hc_workspace_id ctx \<noteq> gf_home_workspace_id grant then
        HostedRefused Authz ''workspace_mismatch'' ''grant activation must address its home workspace''
      else if act_user (hc_actor ctx) \<noteq> Some (gf_owner_user_id grant) then
        HostedRefused Authz ''hosted_grant_not_owned'' ''a person may activate only their own hosted grant''
      else if \<not> hf_all_required_consents facts \<or> \<not> hf_all_required_memberships facts \<or>
          unavailable_member facts then incomplete
      else if gf_state grant = GrantActive then accept_hosted []
      else if gf_state grant \<noteq> GrantPending then incomplete
      else accept_hosted [hosted_event ctx GrantActivated (no_hosted_fields\<lparr>
        h_grant_id := Some (gf_grant_id grant), h_activated_at := Some (hc_now ctx)\<rparr>)])"

definition decide_revoke_grant :: "hosted_ctx \<Rightarrow> grant_facts \<Rightarrow> hosted_decision" where
  "decide_revoke_grant ctx grant =
     (if act_user (hc_actor ctx) \<noteq> Some (gf_owner_user_id grant) \<or>
         hc_workspace_id ctx \<noteq> gf_home_workspace_id grant then
        HostedRefused Authz ''hosted_grant_not_owned'' ''a person may revoke only their own hosted grant''
      else if gf_state grant = GrantEnded then accept_hosted []
      else accept_hosted [hosted_event ctx GrantRevoked (no_hosted_fields\<lparr>
        h_grant_id := Some (gf_grant_id grant), h_revoked_at := Some (hc_now ctx)\<rparr>)])"

definition decide_revoke_seat :: "hosted_facts \<Rightarrow> hosted_ctx \<Rightarrow> grant_facts \<Rightarrow> hosted_decision" where
  "decide_revoke_seat facts ctx grant =
     (let refusal = HostedRefused Authz ''hosted_seat_unavailable'' ''hosted seat is unavailable'' in
      case hf_seat facts of
        None \<Rightarrow> refusal
      | Some seat \<Rightarrow>
          if hs_grant_id seat \<noteq> gf_grant_id grant \<or> hs_workspace_id seat \<noteq> hc_workspace_id ctx then refusal
          else if act_user (hc_actor ctx) \<noteq> Some (gf_owner_user_id grant) then
            HostedRefused Authz ''hosted_seat_not_owned'' ''a person may revoke only their own hosted seat''
          else if hs_revoked_at seat \<noteq> None then accept_hosted []
          else accept_hosted [hosted_event ctx SeatRevoked (no_hosted_fields\<lparr>
            h_grant_id := Some (gf_grant_id grant), h_seat_id := Some (hs_seat_id seat),
            h_principal_id := Some (hs_principal_id seat), h_revoked_at := Some (hc_now ctx)\<rparr>)])"

definition decide_release_seat ::
  "hosted_facts \<Rightarrow> hosted_ctx \<Rightarrow> grant_facts \<Rightarrow> string \<Rightarrow> hosted_decision" where
  "decide_release_seat facts ctx grant seat_id =
     (let refusal = HostedRefused Authz ''hosted_seat_unavailable'' ''hosted seat is unavailable'' in
      case hf_seat facts of
        None \<Rightarrow> refusal
      | Some seat \<Rightarrow>
          if hs_grant_id seat \<noteq> gf_grant_id grant \<or> hs_workspace_id seat \<noteq> hc_workspace_id ctx \<or>
             hs_seat_id seat \<noteq> seat_id \<or>
             act_agent_principal (hc_actor ctx) \<noteq> Some (hs_principal_id seat) \<or>
             act_user (hc_actor ctx) \<noteq> Some (gf_owner_user_id grant) then refusal
          else if hs_revoked_at seat \<noteq> None then accept_hosted []
          else accept_hosted [hosted_event ctx SeatReleased (no_hosted_fields\<lparr>
            h_grant_id := Some (gf_grant_id grant), h_seat_id := Some (hs_seat_id seat),
            h_principal_id := Some (hs_principal_id seat), h_released_at := Some (hc_now ctx)\<rparr>)])"

definition seat_ended :: "hosted_seat \<Rightarrow> bool" where
  "seat_ended seat \<longleftrightarrow> hs_revoked_at seat \<noteq> None \<or> hs_handle_revoked_at seat \<noteq> None \<or>
     hs_principal_revoked_at seat \<noteq> None \<or> hs_transport seat \<noteq> ''hosted_mcp'' \<or> \<not> hs_turn_only seat"

definition decide_claim ::
  "hosted_facts \<Rightarrow> hosted_ctx \<Rightarrow> grant_facts \<Rightarrow> string \<Rightarrow> string \<Rightarrow> string \<Rightarrow> string \<Rightarrow> string \<Rightarrow> string \<Rightarrow>
     jstext \<Rightarrow> hosted_decision" where
  "decide_claim facts ctx grant grant_id seat_id handle principal_id workspace owner name =
     (let taken = HostedRefused Domain ''hosted_seat_name_taken''
            ''That name is taken in this workspace; choose another.'';
          live = filter (\<lambda>p. \<not> np_revoked p) (hf_exact_name_principals facts) in
      if gf_state grant \<noteq> GrantActive \<or> \<not> hf_workspace_consented facts \<or> unavailable_member facts then
        HostedRefused Authz ''hosted_grant_unavailable'' ''hosted grant is not active for this workspace''
      else if owner \<noteq> gf_owner_user_id grant \<or> workspace \<noteq> hc_workspace_id ctx then
        HostedRefused Authz ''hosted_grant_binding_mismatch'' ''seat claim does not match the grant binding''
      else if \<not> hostedSeatNameValid (JsString name) then
        HostedRefused Domain ''hosted_seat_name_invalid'' ''Seat names must be 1 to 80 characters, have no leading or trailing spaces, and contain no control characters.''
      else case hf_seat facts of
        Some seat \<Rightarrow>
          if seat_ended seat then
            HostedRefused Domain ''hosted_seat_revoked'' ''This seat was removed and cannot be restored. Call claim_seat with a new request_id to get a new seat; its owner may reuse the same name.''
          else if map np_principal_id live \<noteq> [hs_principal_id seat] then taken
          else HostedOk [] (Some seat) None
      | None \<Rightarrow>
          if live \<noteq> [] \<or> (\<exists>p \<in> set (hf_exact_name_principals facts).
               np_revoked p \<and> np_owner_user_id p \<noteq> gf_owner_user_id grant) then taken
          else if HOSTED_MCP_SEAT_LIMIT \<le> hf_live_seat_count facts then
            HostedRefused Domain ''hosted_seat_limit_reached'' ''This connection already has 10 live seats.''
          else HostedOk [hosted_event ctx SeatClaimed (no_hosted_fields\<lparr>
              h_kind := Some ''claim_hosted_seat'', h_grant_id := Some grant_id,
              h_seat_id := Some seat_id, h_handle := Some handle, h_principal_id := Some principal_id,
              h_workspace_id := Some workspace, h_owner_user_id := Some owner, h_name := Some name,
              h_transport := Some ''hosted_mcp'', h_turn_only := Some True,
              h_created_at := Some (hc_now ctx)\<rparr>)]
            None (Some (map np_principal_id (hf_exact_name_principals facts))))"

definition hosted_credential_refused :: "hosted_command \<Rightarrow> hosted_ctx \<Rightarrow> string option" where
  "hosted_credential_refused cmd ctx =
     (if hosted_kind cmd = ''claim_hosted_seat'' then
        (if hc_credential_kind ctx \<noteq> HostedGrantKind
         then Some ''claim_hosted_seat requires a hosted grant credential'' else None)
      else if hosted_kind cmd = ''release_hosted_mcp_seat'' then
        (if hc_credential_kind ctx \<noteq> HostedSeatKind
         then Some ''release_hosted_mcp_seat requires the hosted seat itself'' else None)
      else if hosted_kind cmd \<in> set HUMAN_COMMANDS \<and> hc_credential_kind ctx \<noteq> HumanKind
      then Some ''hosted connection management requires a human credential'' else None)"

definition decide_with_grant ::
  "hosted_command \<Rightarrow> hosted_facts \<Rightarrow> hosted_ctx \<Rightarrow> grant_facts \<Rightarrow> hosted_decision" where
  "decide_with_grant cmd facts ctx grant = (case cmd of
     BeginGrant gid provider owner home client resource selected digest interaction \<Rightarrow>
       decide_begin facts ctx gid provider owner home client resource selected digest interaction
   | ConsentWorkspace gid workspace owner digest receipt \<Rightarrow>
       decide_consent facts ctx grant gid workspace owner digest receipt
   | ActivateGrant gid \<Rightarrow> decide_activate facts ctx grant
   | RevokeGrant gid \<Rightarrow> decide_revoke_grant ctx grant
   | RevokeSeat gid sid \<Rightarrow> decide_revoke_seat facts ctx grant
   | ReleaseSeat gid sid \<Rightarrow> decide_release_seat facts ctx grant sid
   | ClaimSeat gid sid handle pid workspace owner name \<Rightarrow>
       decide_claim facts ctx grant gid sid handle pid workspace owner name)"

definition decideHostedAuthority :: "hosted_command \<Rightarrow> hosted_facts \<Rightarrow> hosted_ctx \<Rightarrow> hosted_decision" where
  "decideHostedAuthority cmd facts ctx =
     (case hosted_credential_refused cmd ctx of
        Some detail \<Rightarrow> HostedRefused Authz ''credential_kind_forbidden'' detail
      | None \<Rightarrow>
          (case cmd of
             BeginGrant gid provider owner home client resource selected digest interaction \<Rightarrow>
               decide_begin facts ctx gid provider owner home client resource selected digest interaction
           | _ \<Rightarrow>
               (case hf_grant facts of
                  None \<Rightarrow> HostedRefused Authz ''hosted_grant_unavailable'' ''hosted grant is unavailable''
                | Some grant \<Rightarrow>
                    if gf_grant_id grant \<noteq> hcmd_grant_id cmd then
                      HostedRefused Authz ''hosted_grant_unavailable'' ''hosted grant is unavailable''
                    else decide_with_grant cmd facts ctx grant)))"

end
