(* ===== verification/HostedReducer.thy ===== *)
theory HostedReducer
  imports HostedAuthority
begin

text \<open>
  The reducer of \<open>src/protocol/hosted-authority.ts\<close> (\<open>reduceHostedAuthority\<close>, one definition per
  event type, and \<open>reduceHostedAuthorityStream\<close>), and the invariant of its projection: seats and
  their principals stay together, and the three end marks of a seat agree.
\<close>

section \<open>Payloads\<close>

datatype hosted_key =
    H_grant_id | H_provider_grant_id | H_owner_user_id | H_home_workspace_id | H_client_id | H_resource
  | H_selected_workspace_ids | H_manifest_digest | H_interaction_ref | H_created_at | H_workspace_id
  | H_consent_receipt_id | H_consented_at | H_activated_at | H_revoked_at | H_released_at | H_seat_id
  | H_principal_id | H_name | H_handle | H_transport | H_turn_only

fun hosted_defines :: "hosted_fields \<Rightarrow> hosted_key \<Rightarrow> bool" where
  "hosted_defines p H_grant_id = (h_grant_id p \<noteq> None)"
| "hosted_defines p H_provider_grant_id = (h_provider_grant_id p \<noteq> None)"
| "hosted_defines p H_owner_user_id = (h_owner_user_id p \<noteq> None)"
| "hosted_defines p H_home_workspace_id = (h_home_workspace_id p \<noteq> None)"
| "hosted_defines p H_client_id = (h_client_id p \<noteq> None)"
| "hosted_defines p H_resource = (h_resource p \<noteq> None)"
| "hosted_defines p H_selected_workspace_ids = (h_selected_workspace_ids p \<noteq> None)"
| "hosted_defines p H_manifest_digest = (h_manifest_digest p \<noteq> None)"
| "hosted_defines p H_interaction_ref = (h_interaction_ref p \<noteq> None)"
| "hosted_defines p H_created_at = (h_created_at p \<noteq> None)"
| "hosted_defines p H_workspace_id = (h_workspace_id p \<noteq> None)"
| "hosted_defines p H_consent_receipt_id = (h_consent_receipt_id p \<noteq> None)"
| "hosted_defines p H_consented_at = (h_consented_at p \<noteq> None)"
| "hosted_defines p H_activated_at = (h_activated_at p \<noteq> None)"
| "hosted_defines p H_revoked_at = (h_revoked_at p \<noteq> None)"
| "hosted_defines p H_released_at = (h_released_at p \<noteq> None)"
| "hosted_defines p H_seat_id = (h_seat_id p \<noteq> None)"
| "hosted_defines p H_principal_id = (h_principal_id p \<noteq> None)"
| "hosted_defines p H_name = (h_name p \<noteq> None)"
| "hosted_defines p H_handle = (h_handle p \<noteq> None)"
| "hosted_defines p H_transport = (h_transport p \<noteq> None)"
| "hosted_defines p H_turn_only = (h_turn_only p \<noteq> None)"

datatype hosted_error =
    HUnsupportedSchema hosted_event_type
  | HMissingField hosted_event_type number hosted_key
  | HPayloadTypeError
  | HDuplicateGrant string
  | HDuplicateConsent string
  | HUnknownGrant string
  | HDuplicateSeat string
  | HSeatTransport
  | HUnknownSeat string
  | HPrincipalMismatch string
  | HUnknownPrincipal string
  | HOutOfOrder

text \<open>
  Reading a key of \<open>null\<close> throws; a primitive payload has none of the keys.
\<close>

definition requiredPayload :: "hosted_envelope \<Rightarrow> hosted_key list \<Rightarrow> hosted_error + hosted_fields" where
  "requiredPayload env keys = (case ev_payload env of
     NullPayload \<Rightarrow> Inl HPayloadTypeError
   | _ \<Rightarrow> (case req hosted_defines (ev_payload env) keys of
       Inl NonObjectPayload \<Rightarrow> Inl (HMissingField (ev_type env) (ev_seq env) (hd keys))
     | Inl (MissingPayloadField k) \<Rightarrow> Inl (HMissingField (ev_type env) (ev_seq env) k)
     | Inr p \<Rightarrow> Inr p))"

lemma requiredPayload_Inr:
  "requiredPayload env keys = Inr p \<longleftrightarrow> ev_payload env = Fields p \<and> (\<forall>k \<in> set keys. hosted_defines p k)"
  by (auto simp: requiredPayload_def req_Inr_iff split: payload.split sum.split req_error.split
      dest: req_Inr_iff[THEN iffD1] intro: req_Inr_iff[THEN iffD2])
    (metis req_Inr_iff sum.distinct(1))+

section \<open>One definition per event\<close>

definition ha_begun :: "hosted_state \<Rightarrow> hosted_envelope \<Rightarrow> hosted_error + hosted_state" where
  "ha_begun s env = bind_result (requiredPayload env
     [H_grant_id, H_provider_grant_id, H_owner_user_id, H_home_workspace_id, H_client_id, H_resource,
      H_selected_workspace_ids, H_manifest_digest, H_interaction_ref, H_created_at]) (\<lambda>p.
     let gid = the (h_grant_id p) in
     if obj_get (ha_grants s) gid \<noteq> None then Inl (HDuplicateGrant gid)
     else Inr (s\<lparr>ha_grants := obj_put (ha_grants s) gid
       \<lparr>gr_grant_id = gid, gr_owner_user_id = the (h_owner_user_id p),
        gr_home_workspace_id = the (h_home_workspace_id p),
        gr_provider_grant_id = the (h_provider_grant_id p), gr_client_id = the (h_client_id p),
        gr_resource = the (h_resource p),
        gr_selected_workspace_ids = the (h_selected_workspace_ids p),
        gr_manifest_digest = the (h_manifest_digest p), gr_interaction_ref = the (h_interaction_ref p),
        gr_state = GrantPending, gr_created_at = the (h_created_at p), gr_activated_at = None,
        gr_revoked_at = None\<rparr>\<rparr>))"

definition consent_key :: "string \<Rightarrow> string \<Rightarrow> string" where
  "consent_key grant_id workspace_id = grant_id @ '':'' @ workspace_id"

definition ha_consented :: "hosted_state \<Rightarrow> hosted_envelope \<Rightarrow> hosted_error + hosted_state" where
  "ha_consented s env = bind_result (requiredPayload env
     [H_grant_id, H_workspace_id, H_owner_user_id, H_consent_receipt_id, H_consented_at,
      H_manifest_digest]) (\<lambda>p.
     let key = consent_key (the (h_grant_id p)) (the (h_workspace_id p)) in
     if obj_get (ha_consents s) key \<noteq> None then Inl (HDuplicateConsent key)
     else Inr (s\<lparr>ha_consents := obj_put (ha_consents s) key
       \<lparr>cr_grant_id = the (h_grant_id p), cr_workspace_id = the (h_workspace_id p),
        cr_owner_user_id = the (h_owner_user_id p), cr_manifest_digest = the (h_manifest_digest p),
        cr_consent_receipt_id = the (h_consent_receipt_id p),
        cr_consented_at = the (h_consented_at p), cr_revoked_at = None\<rparr>\<rparr>))"

definition ha_grant_ended :: "hosted_state \<Rightarrow> hosted_envelope \<Rightarrow> hosted_error + hosted_state" where
  "ha_grant_ended s env =
     (let activated = (ev_type env = GrantActivated) in
      bind_result (requiredPayload env
        [H_grant_id, if activated then H_activated_at else H_revoked_at]) (\<lambda>p.
      let gid = the (h_grant_id p) in
      case obj_get (ha_grants s) gid of
        None \<Rightarrow> Inl (HUnknownGrant gid)
      | Some grant \<Rightarrow> Inr (s\<lparr>ha_grants := obj_put (ha_grants s) gid
          (if activated
           then grant\<lparr>gr_state := GrantActive, gr_activated_at := h_activated_at p, gr_revoked_at := None\<rparr>
           else grant\<lparr>gr_state := GrantEnded, gr_revoked_at := h_revoked_at p\<rparr>)\<rparr>)))"

definition claimed_seat :: "hosted_fields \<Rightarrow> hosted_seat" where
  "claimed_seat p = \<lparr>hs_seat_id = the (h_seat_id p), hs_grant_id = the (h_grant_id p),
     hs_workspace_id = the (h_workspace_id p), hs_owner_user_id = the (h_owner_user_id p),
     hs_principal_id = the (h_principal_id p), hs_name = the (h_name p), hs_handle = the (h_handle p),
     hs_transport = ''hosted_mcp'', hs_turn_only = True, hs_created_at = the (h_created_at p),
     hs_revoked_at = None, hs_handle_revoked_at = None, hs_principal_revoked_at = None\<rparr>"

definition seat_principal :: "hosted_seat \<Rightarrow> hosted_principal" where
  "seat_principal seat = \<lparr>hp_principal_id = hs_principal_id seat, hp_workspace_id = hs_workspace_id seat,
     hp_owner_user_id = hs_owner_user_id seat, hp_name = hs_name seat, hp_transport = ''hosted_mcp'',
     hp_turn_only = True, hp_created_at = hs_created_at seat, hp_revoked_at = None\<rparr>"

definition ha_seat_claimed :: "hosted_state \<Rightarrow> hosted_envelope \<Rightarrow> hosted_error + hosted_state" where
  "ha_seat_claimed s env = bind_result (requiredPayload env
     [H_seat_id, H_grant_id, H_workspace_id, H_owner_user_id, H_principal_id, H_name, H_handle,
      H_created_at, H_transport, H_turn_only]) (\<lambda>p.
     let sid = the (h_seat_id p) in
     if obj_get (ha_seats s) sid \<noteq> None then Inl (HDuplicateSeat sid)
     else if h_transport p \<noteq> Some ''hosted_mcp'' \<or> h_turn_only p \<noteq> Some True then Inl HSeatTransport
     else let seat = claimed_seat p in
       Inr (s\<lparr>ha_seats := obj_put (ha_seats s) sid seat,
         ha_principals := obj_put (ha_principals s) (hs_principal_id seat) (seat_principal seat)\<rparr>))"

definition ha_seat_released :: "hosted_state \<Rightarrow> hosted_envelope \<Rightarrow> hosted_error + hosted_state" where
  "ha_seat_released s env = bind_result (requiredPayload env
     [H_grant_id, H_seat_id, H_principal_id, H_released_at]) (\<lambda>p.
     let sid = the (h_seat_id p) in
     case obj_get (ha_seats s) sid of
       None \<Rightarrow> Inl (HUnknownSeat sid)
     | Some seat \<Rightarrow>
         if hs_principal_id seat \<noteq> the (h_principal_id p) then Inl (HPrincipalMismatch sid)
         else Inr (s\<lparr>ha_seats := obj_put (ha_seats s) sid
           (seat\<lparr>hs_revoked_at := h_released_at p, hs_handle_revoked_at := h_released_at p\<rparr>)\<rparr>))"

definition ha_seat_revoked :: "hosted_state \<Rightarrow> hosted_envelope \<Rightarrow> hosted_error + hosted_state" where
  "ha_seat_revoked s env = bind_result (requiredPayload env [H_seat_id, H_revoked_at]) (\<lambda>p.
     let sid = the (h_seat_id p) in
     case obj_get (ha_seats s) sid of
       None \<Rightarrow> Inl (HUnknownSeat sid)
     | Some seat \<Rightarrow>
         (case obj_get (ha_principals s) (hs_principal_id seat) of
            None \<Rightarrow> Inl (HUnknownPrincipal (hs_principal_id seat))
          | Some prin \<Rightarrow> Inr (s\<lparr>ha_seats := obj_put (ha_seats s) sid
                (seat\<lparr>hs_revoked_at := h_revoked_at p, hs_handle_revoked_at := h_revoked_at p,
                   hs_principal_revoked_at := h_revoked_at p\<rparr>),
              ha_principals := obj_put (ha_principals s) (hs_principal_id seat)
                (prin\<lparr>hp_revoked_at := h_revoked_at p\<rparr>)\<rparr>)))"

definition reduceHostedAuthority ::
  "hosted_state option \<Rightarrow> hosted_envelope \<Rightarrow> hosted_error + hosted_state" where
  "reduceHostedAuthority previous env =
     (if ev_schema_version env \<noteq> SCHEMA_VERSION then Inl (HUnsupportedSchema (ev_type env))
      else let state = (case previous of None \<Rightarrow> empty_hosted | Some s \<Rightarrow> s) in
        (case ev_type env of
           GrantBegun \<Rightarrow> ha_begun state env
         | WorkspaceConsented \<Rightarrow> ha_consented state env
         | GrantActivated \<Rightarrow> ha_grant_ended state env
         | GrantRevoked \<Rightarrow> ha_grant_ended state env
         | SeatClaimed \<Rightarrow> ha_seat_claimed state env
         | SeatReleased \<Rightarrow> ha_seat_released state env
         | _ \<Rightarrow> ha_seat_revoked state env))"

fun reduceHosted_loop ::
  "hosted_state option \<Rightarrow> jsnum \<Rightarrow> hosted_envelope list \<Rightarrow> hosted_error + hosted_state option" where
  "reduceHosted_loop state lastSeq [] = Inr state"
| "reduceHosted_loop state lastSeq (env # es) =
     (if js_le (Fin (ev_seq env)) lastSeq then Inl HOutOfOrder
      else bind_result (reduceHostedAuthority state env) (\<lambda>s.
        reduceHosted_loop (Some s) (Fin (ev_seq env)) es))"

definition reduceHostedAuthorityStream :: "hosted_envelope list \<Rightarrow> hosted_error + hosted_state" where
  "reduceHostedAuthorityStream events =
     bind_result (reduceHosted_loop None NegInf events) (\<lambda>st.
       Inr (case st of None \<Rightarrow> empty_hosted | Some s \<Rightarrow> s))"

section \<open>The invariant\<close>

text \<open>Every seat has its principal, with the seat's key; its end marks agree.\<close>

definition seat_ok :: "hosted_seat \<Rightarrow> bool" where
  "seat_ok seat \<longleftrightarrow> hs_revoked_at seat = hs_handle_revoked_at seat \<and>
     (hs_principal_revoked_at seat \<noteq> None \<longrightarrow> hs_revoked_at seat \<noteq> None) \<and>
     hs_transport seat = ''hosted_mcp'' \<and> hs_turn_only seat"

fun grant_marks_ok :: "grant_state \<Rightarrow> number option \<Rightarrow> number option \<Rightarrow> bool" where
  "grant_marks_ok GrantPending activated revoked = (activated = None \<and> revoked = None)"
| "grant_marks_ok GrantActive activated revoked = (activated \<noteq> None \<and> revoked = None)"
| "grant_marks_ok GrantEnded activated revoked = (revoked \<noteq> None)"

definition hosted_ok :: "hosted_state \<Rightarrow> bool" where
  "hosted_ok s \<longleftrightarrow>
     (\<forall>k g. obj_get (ha_grants s) k = Some g \<longrightarrow> gr_grant_id g = k \<and>
        grant_marks_ok (gr_state g) (gr_activated_at g) (gr_revoked_at g)) \<and>
     (\<forall>k c. obj_get (ha_consents s) k = Some c \<longrightarrow> consent_key (cr_grant_id c) (cr_workspace_id c) = k) \<and>
     (\<forall>k seat. obj_get (ha_seats s) k = Some seat \<longrightarrow> hs_seat_id seat = k \<and> seat_ok seat \<and>
        obj_get (ha_principals s) (hs_principal_id seat) \<noteq> None) \<and>
     (\<forall>k p. obj_get (ha_principals s) k = Some p \<longrightarrow> hp_principal_id p = k)"

lemma hosted_okD:
  assumes "hosted_ok s"
  shows "obj_get (ha_grants s) k = Some g \<Longrightarrow> gr_grant_id g = k \<and>
      grant_marks_ok (gr_state g) (gr_activated_at g) (gr_revoked_at g)"
    and "obj_get (ha_seats s) k = Some seat \<Longrightarrow> hs_seat_id seat = k \<and> seat_ok seat"
    and "obj_get (ha_seats s) k = Some seat \<Longrightarrow> \<exists>p. obj_get (ha_principals s) (hs_principal_id seat) = Some p"
    and "obj_get (ha_principals s) k = Some p \<Longrightarrow> hp_principal_id p = k"
  using assms by (auto simp: hosted_ok_def)

lemma empty_hosted_ok [simp]: "hosted_ok empty_hosted"
  by (simp add: hosted_ok_def empty_hosted_def)

lemmas ha_defs = ha_begun_def ha_consented_def ha_grant_ended_def ha_seat_claimed_def
  ha_seat_released_def ha_seat_revoked_def

lemmas ha_simps = Let_def requiredPayload_Inr bind_result_Inr

lemma seat_ok_steps [simp]:
  "seat_ok (claimed_seat p)"
  "seat_ok seat \<Longrightarrow> seat_ok (seat\<lparr>hs_revoked_at := Some r, hs_handle_revoked_at := Some r\<rparr>)"
  "seat_ok seat \<Longrightarrow> seat_ok (seat\<lparr>hs_revoked_at := Some r, hs_handle_revoked_at := Some r,
     hs_principal_revoked_at := Some r\<rparr>)"
  by (simp_all add: seat_ok_def claimed_seat_def)

lemma claimed_seat_simps [simp]:
  "hs_seat_id (claimed_seat p) = the (h_seat_id p)" "hs_principal_id (claimed_seat p) = the (h_principal_id p)"
  "hs_grant_id (claimed_seat p) = the (h_grant_id p)" "hs_revoked_at (claimed_seat p) = None"
  "hp_principal_id (seat_principal seat) = hs_principal_id seat"
  by (simp_all add: claimed_seat_def seat_principal_def)

lemma grants_ok_step:
  "ha_begun s env = Inr t \<or> ha_grant_ended s env = Inr t \<Longrightarrow> hosted_ok s \<Longrightarrow> hosted_ok t"
  by (auto simp: ha_begun_def ha_grant_ended_def ha_simps hosted_ok_def split: if_split_asm option.split_asm)

lemma consents_ok_step: "ha_consented s env = Inr t \<Longrightarrow> hosted_ok s \<Longrightarrow> hosted_ok t"
  by (auto simp: ha_consented_def ha_simps hosted_ok_def split: if_splits)

lemma claim_ok_step: "ha_seat_claimed s env = Inr t \<Longrightarrow> hosted_ok s \<Longrightarrow> hosted_ok t"
  by (auto simp: ha_seat_claimed_def ha_simps hosted_ok_def split: if_splits)

lemma seat_released_Inr:
  assumes "ha_seat_released s env = Inr t"
  obtains p sid seat where "ev_payload env = Fields p" and "h_seat_id p = Some sid"
    and "h_released_at p \<noteq> None" and "obj_get (ha_seats s) sid = Some seat"
    and "h_principal_id p = Some (hs_principal_id seat)"
    and "t = s\<lparr>ha_seats := obj_put (ha_seats s) sid
      (seat\<lparr>hs_revoked_at := h_released_at p, hs_handle_revoked_at := h_released_at p\<rparr>)\<rparr>"
proof -
  from assms obtain p where p: "requiredPayload env [H_grant_id, H_seat_id, H_principal_id, H_released_at] = Inr p"
    by (auto simp: ha_seat_released_def bind_result_Inr)
  then obtain sid pid where f: "ev_payload env = Fields p" "h_seat_id p = Some sid" "h_released_at p \<noteq> None"
    "h_principal_id p = Some pid"
    by (auto simp: requiredPayload_Inr)
  from assms p f(2) obtain seat where seat: "obj_get (ha_seats s) sid = Some seat"
    by (cases "obj_get (ha_seats s) sid") (simp_all add: ha_seat_released_def)
  with f assms p show thesis by (intro that) (auto simp: ha_seat_released_def split: if_split_asm)
qed

lemma release_ok_step: "ha_seat_released s env = Inr t \<Longrightarrow> hosted_ok s \<Longrightarrow> hosted_ok t"
  by (erule seat_released_Inr) (auto simp: hosted_ok_def)

lemma seat_revoked_Inr:
  assumes "ha_seat_revoked s env = Inr t"
  obtains p sid seat prin where "ev_payload env = Fields p" and "h_seat_id p = Some sid"
    and "h_revoked_at p \<noteq> None" and "obj_get (ha_seats s) sid = Some seat"
    and "obj_get (ha_principals s) (hs_principal_id seat) = Some prin"
    and "t = s\<lparr>ha_seats := obj_put (ha_seats s) sid (seat\<lparr>hs_revoked_at := h_revoked_at p,
        hs_handle_revoked_at := h_revoked_at p, hs_principal_revoked_at := h_revoked_at p\<rparr>),
      ha_principals := obj_put (ha_principals s) (hs_principal_id seat)
        (prin\<lparr>hp_revoked_at := h_revoked_at p\<rparr>)\<rparr>"
proof -
  from assms obtain p where p: "requiredPayload env [H_seat_id, H_revoked_at] = Inr p"
    by (auto simp: ha_seat_revoked_def bind_result_Inr)
  then obtain sid where f: "ev_payload env = Fields p" "h_seat_id p = Some sid" "h_revoked_at p \<noteq> None"
    by (auto simp: requiredPayload_Inr)
  from assms p f(2) obtain seat where seat: "obj_get (ha_seats s) sid = Some seat"
    by (cases "obj_get (ha_seats s) sid") (simp_all add: ha_seat_revoked_def)
  with assms p f(2) obtain prin where "obj_get (ha_principals s) (hs_principal_id seat) = Some prin"
    by (cases "obj_get (ha_principals s) (hs_principal_id seat)") (simp_all add: ha_seat_revoked_def)
  with f seat assms p show thesis by (intro that) (auto simp: ha_seat_revoked_def)
qed

lemma revoke_ok_step: "ha_seat_revoked s env = Inr t \<Longrightarrow> hosted_ok s \<Longrightarrow> hosted_ok t"
  by (erule seat_revoked_Inr) (auto simp: hosted_ok_def)

lemma reduceHosted_ok:
  assumes "reduceHostedAuthority st env = Inr t" and "opt_all hosted_ok st"
  shows "hosted_ok t"
proof -
  let ?s = "case st of None \<Rightarrow> empty_hosted | Some s \<Rightarrow> s"
  have s: "hosted_ok ?s" using assms(2) by (auto split: option.split)
  with assms(1) show ?thesis
    by (auto simp: reduceHostedAuthority_def Let_def split: if_splits hosted_event_type.splits
        intro: grants_ok_step[OF _ s] consents_ok_step[OF _ s] claim_ok_step[OF _ s]
          release_ok_step[OF _ s] revoke_ok_step[OF _ s])
qed

interpretation hosted_stream: invariant_stream ev_seq reduceHostedAuthority "\<lambda>_ _. HOutOfOrder"
  reduceHosted_loop hosted_ok
  by unfold_locales (simp_all add: reduceHosted_ok)

end
