(* ===== verification/HostedProperties.thy ===== *)
theory HostedProperties
  imports HostedReducer
begin

text \<open>
  The hosted authority core as a decision core over its projection. \<open>facts_agree\<close> is what the database
  adapter promises: the transaction-locked facts it passes are those of the stream's projection.
  Then the properties: hosted histories stay well formed, credentials and owners confine the
  commands, claims meet every fence, revocation of a grant is final, release ends one seat.
\<close>

section \<open>Effects\<close>

definition current :: "hosted_state option \<Rightarrow> hosted_state" where
  "current st = (case st of None \<Rightarrow> empty_hosted | Some s \<Rightarrow> s)"

lemma current_simps [simp]: "current None = empty_hosted" "current (Some s) = s"
  by (simp_all add: current_def)

lemma hosted_event_simps [simp]:
  "ev_type (hosted_event ctx ty pf) = ty" "ev_payload (hosted_event ctx ty pf) = Fields pf"
  "ev_schema_version (hosted_event ctx ty pf) = SCHEMA_VERSION" "ev_seq (hosted_event ctx ty pf) = hc_nextSeq ctx"
  by (simp_all add: hosted_event_def)

lemma reduce_hosted_event:
  "reduceHostedAuthority st (hosted_event ctx ty pf) = (case ty of
     GrantBegun \<Rightarrow> ha_begun (current st) (hosted_event ctx ty pf)
   | WorkspaceConsented \<Rightarrow> ha_consented (current st) (hosted_event ctx ty pf)
   | GrantActivated \<Rightarrow> ha_grant_ended (current st) (hosted_event ctx ty pf)
   | GrantRevoked \<Rightarrow> ha_grant_ended (current st) (hosted_event ctx ty pf)
   | SeatClaimed \<Rightarrow> ha_seat_claimed (current st) (hosted_event ctx ty pf)
   | SeatReleased \<Rightarrow> ha_seat_released (current st) (hosted_event ctx ty pf)
   | _ \<Rightarrow> ha_seat_revoked (current st) (hosted_event ctx ty pf))"
  by (cases ty) (simp_all add: reduceHostedAuthority_def Let_def current_def)

lemmas hosted_emitted = reduce_hosted_event requiredPayload_def no_hosted_fields_def Let_def

lemma begun_effect:
  "obj_get (ha_grants (current st)) gid = None \<Longrightarrow>
     reduceHostedAuthority st (hosted_event ctx GrantBegun (no_hosted_fields\<lparr>h_kind := k,
       h_grant_id := Some gid, h_provider_grant_id := Some pv, h_owner_user_id := Some u,
       h_home_workspace_id := Some w, h_client_id := Some c, h_resource := Some r,
       h_selected_workspace_ids := Some ws, h_manifest_digest := Some d, h_interaction_ref := Some i,
       h_created_at := Some n\<rparr>)) =
     Inr ((current st)\<lparr>ha_grants := obj_put (ha_grants (current st)) gid \<lparr>gr_grant_id = gid,
       gr_owner_user_id = u, gr_home_workspace_id = w, gr_provider_grant_id = pv, gr_client_id = c,
       gr_resource = r, gr_selected_workspace_ids = ws, gr_manifest_digest = d, gr_interaction_ref = i,
       gr_state = GrantPending, gr_created_at = n, gr_activated_at = None, gr_revoked_at = None\<rparr>\<rparr>)"
  by (simp add: hosted_emitted ha_begun_def)

lemma consented_effect:
  "obj_get (ha_consents (current st)) (consent_key gid w) = None \<Longrightarrow>
     reduceHostedAuthority st (hosted_event ctx WorkspaceConsented (no_hosted_fields\<lparr>h_kind := k,
       h_grant_id := Some gid, h_workspace_id := Some w, h_owner_user_id := Some u,
       h_manifest_digest := Some d, h_consent_receipt_id := Some r, h_consented_at := Some n\<rparr>)) =
     Inr ((current st)\<lparr>ha_consents := obj_put (ha_consents (current st)) (consent_key gid w)
       \<lparr>cr_grant_id = gid, cr_workspace_id = w, cr_owner_user_id = u, cr_manifest_digest = d,
        cr_consent_receipt_id = r, cr_consented_at = n, cr_revoked_at = None\<rparr>\<rparr>)"
  by (simp add: hosted_emitted ha_consented_def)

lemma activated_effect:
  "obj_get (ha_grants (current st)) gid = Some g \<Longrightarrow>
     reduceHostedAuthority st (hosted_event ctx GrantActivated (no_hosted_fields\<lparr>h_grant_id := Some gid,
       h_activated_at := Some n\<rparr>)) =
     Inr ((current st)\<lparr>ha_grants := obj_put (ha_grants (current st)) gid
       (g\<lparr>gr_state := GrantActive, gr_activated_at := Some n, gr_revoked_at := None\<rparr>)\<rparr>)"
  by (simp add: hosted_emitted ha_grant_ended_def)

lemma grant_revoked_effect:
  "obj_get (ha_grants (current st)) gid = Some g \<Longrightarrow>
     reduceHostedAuthority st (hosted_event ctx GrantRevoked (no_hosted_fields\<lparr>h_grant_id := Some gid,
       h_revoked_at := Some n\<rparr>)) =
     Inr ((current st)\<lparr>ha_grants := obj_put (ha_grants (current st)) gid
       (g\<lparr>gr_state := GrantEnded, gr_revoked_at := Some n\<rparr>)\<rparr>)"
  by (simp add: hosted_emitted ha_grant_ended_def)

lemma claimed_effect:
  assumes "obj_get (ha_seats (current st)) sid = None"
    and "p = no_hosted_fields\<lparr>h_kind := k, h_grant_id := Some gid, h_seat_id := Some sid,
       h_handle := Some h, h_principal_id := Some pid, h_workspace_id := Some w, h_owner_user_id := Some u,
       h_name := Some n, h_transport := Some ''hosted_mcp'', h_turn_only := Some True,
       h_created_at := Some c\<rparr>"
  shows "reduceHostedAuthority st (hosted_event ctx SeatClaimed p) =
     Inr ((current st)\<lparr>ha_seats := obj_put (ha_seats (current st)) sid (claimed_seat p),
       ha_principals := obj_put (ha_principals (current st)) pid (seat_principal (claimed_seat p))\<rparr>)"
  using assms(1) by (simp add: assms(2) hosted_emitted ha_seat_claimed_def)

lemma released_effect:
  "obj_get (ha_seats (current st)) sid = Some seat \<Longrightarrow> hs_principal_id seat = pid \<Longrightarrow>
     reduceHostedAuthority st (hosted_event ctx SeatReleased (no_hosted_fields\<lparr>h_grant_id := Some gid,
       h_seat_id := Some sid, h_principal_id := Some pid, h_released_at := Some n\<rparr>)) =
     Inr ((current st)\<lparr>ha_seats := obj_put (ha_seats (current st)) sid
       (seat\<lparr>hs_revoked_at := Some n, hs_handle_revoked_at := Some n\<rparr>)\<rparr>)"
  by (simp add: hosted_emitted ha_seat_released_def)

lemma seat_revoked_effect:
  "obj_get (ha_seats (current st)) sid = Some seat \<Longrightarrow>
     obj_get (ha_principals (current st)) (hs_principal_id seat) = Some prin \<Longrightarrow>
     reduceHostedAuthority st (hosted_event ctx SeatRevoked (no_hosted_fields\<lparr>h_grant_id := Some gid,
       h_seat_id := Some sid, h_principal_id := Some pid, h_revoked_at := Some n\<rparr>)) =
     Inr ((current st)\<lparr>ha_seats := obj_put (ha_seats (current st)) sid
         (seat\<lparr>hs_revoked_at := Some n, hs_handle_revoked_at := Some n, hs_principal_revoked_at := Some n\<rparr>),
       ha_principals := obj_put (ha_principals (current st)) (hs_principal_id seat)
         (prin\<lparr>hp_revoked_at := Some n\<rparr>)\<rparr>)"
  by (simp add: hosted_emitted ha_seat_revoked_def)

section \<open>Facts of the projection\<close>

definition project_hosted :: "hosted_state option \<Rightarrow> hosted_envelope list \<Rightarrow> hosted_error + hosted_state option" where
  "project_hosted = fold_events reduceHostedAuthority"

lemma project_hosted_simps [simp]:
  "project_hosted st [] = Inr st"
  "project_hosted st (e # es) = bind_result (reduceHostedAuthority st e) (\<lambda>s. project_hosted (Some s) es)"
  by (simp_all add: project_hosted_def)

definition grant_agrees :: "hosted_state \<Rightarrow> hosted_facts \<Rightarrow> hosted_ctx \<Rightarrow> bool" where
  "grant_agrees s f ctx \<longleftrightarrow> (case hf_grant f of
     None \<Rightarrow> True
   | Some g \<Rightarrow> gf_home_workspace_id g = hc_workspace_id ctx \<longrightarrow>
       (\<exists>r. obj_get (ha_grants s) (gf_grant_id g) = Some r \<and> gr_state r = gf_state g))"

definition seat_agrees :: "hosted_state \<Rightarrow> hosted_facts \<Rightarrow> bool" where
  "seat_agrees s f \<longleftrightarrow> (case hf_seat f of
     None \<Rightarrow> True
   | Some seat \<Rightarrow> (\<exists>r. obj_get (ha_seats s) (hs_seat_id seat) = Some r \<and>
       hs_principal_id r = hs_principal_id seat \<and> hs_revoked_at r = hs_revoked_at seat))"

definition facts_agree :: "hosted_state option \<Rightarrow> hosted_command \<Rightarrow> hosted_facts \<times> hosted_ctx \<Rightarrow> bool" where
  "facts_agree st cmd x \<longleftrightarrow> (case cmd of
     BeginGrant gid _ _ _ _ _ _ _ _ \<Rightarrow>
       (hf_grant (fst x) = None \<longrightarrow> obj_get (ha_grants (current st)) gid = None)
   | ConsentWorkspace gid w _ _ _ \<Rightarrow>
       (\<not> hf_workspace_consented (fst x) \<longrightarrow> obj_get (ha_consents (current st)) (consent_key gid w) = None)
   | ActivateGrant _ \<Rightarrow> grant_agrees (current st) (fst x) (snd x)
   | RevokeGrant _ \<Rightarrow> grant_agrees (current st) (fst x) (snd x)
   | RevokeSeat _ _ \<Rightarrow> seat_agrees (current st) (fst x)
   | ReleaseSeat _ _ \<Rightarrow> seat_agrees (current st) (fst x)
   | ClaimSeat _ sid _ _ _ _ _ \<Rightarrow>
       (hf_seat (fst x) = None \<longrightarrow> obj_get (ha_seats (current st)) sid = None))"

definition decide_hosted ::
  "hosted_state option \<Rightarrow> hosted_command \<Rightarrow> hosted_facts \<times> hosted_ctx \<Rightarrow> unit + hosted_decision" where
  "decide_hosted st cmd x = Inr (decideHostedAuthority cmd (fst x) (snd x))"

text \<open>A decision refuses, or is the decision of its command's handler on the grant it names.\<close>

lemma decideHosted_cases:
  assumes "decideHostedAuthority cmd f ctx = HostedOk es r p"
  obtains (fresh) gid pv u w c rs ws d i where "cmd = BeginGrant gid pv u w c rs ws d i"
      and "hc_credential_kind ctx = HumanKind" and "decide_begin f ctx gid pv u w c rs ws d i = HostedOk es r p"
  | (with_grant) g where "hf_grant f = Some g" and "gf_grant_id g = hcmd_grant_id cmd"
      and "hosted_credential_refused cmd ctx = None" and "decide_with_grant cmd f ctx g = HostedOk es r p"
      and "\<And>gid pv u w c rs ws d i. cmd \<noteq> BeginGrant gid pv u w c rs ws d i"
  using assms
  by (cases cmd; cases "hf_grant f")
     (auto simp: decideHostedAuthority_def hosted_credential_refused_def HUMAN_COMMANDS_def split: if_split_asm)

text \<open>What an accepted decision emitted, handler by handler.\<close>

lemmas ok_hosted = accept_hosted_def

lemma begin_accepted:
  assumes "decide_begin f ctx gid pv u w c rs ws d i = HostedOk es r p"
  shows "act_user (hc_actor ctx) = Some u \<and> hf_grant f = None \<and> hc_workspace_id ctx = w \<and>
    hf_owner_is_live_member f \<and> \<not> hf_workspace_archived f \<and> distinct ws \<and> w \<in> set ws \<and>
    length ws \<le> 100 \<and> rs = HOSTED_MCP_RESOURCE \<and>
    es = [hosted_event ctx GrantBegun (no_hosted_fields\<lparr>h_kind := Some ''begin_hosted_mcp_grant'',
      h_grant_id := Some gid, h_provider_grant_id := Some pv, h_owner_user_id := Some u,
      h_home_workspace_id := Some w, h_client_id := Some c, h_resource := Some rs,
      h_selected_workspace_ids := Some ws, h_manifest_digest := Some d, h_interaction_ref := Some i,
      h_created_at := Some (hc_now ctx)\<rparr>)]"
proof -
  have "length (remdups ws) = length ws \<Longrightarrow> distinct ws"
    by (metis card_distinct length_remdups_card_conv)
  with assms show ?thesis by (auto simp: decide_begin_def Let_def ok_hosted split: if_split_asm)
qed

lemma consent_accepted:
  assumes "decide_consent f ctx g gid w u d rc = HostedOk es r p"
  shows "gf_state g = GrantPending \<and> act_user (hc_actor ctx) = Some (gf_owner_user_id g) \<and>
    w = hc_workspace_id ctx \<and> w \<in> set (gf_selected_workspace_ids g) \<and> u = gf_owner_user_id g \<and>
    d = gf_manifest_digest g \<and> hf_owner_is_live_member f \<and> \<not> hf_workspace_archived f \<and>
    es = (if hf_workspace_consented f then [] else [hosted_event ctx WorkspaceConsented (no_hosted_fields\<lparr>
      h_kind := Some ''consent_hosted_mcp_workspace'', h_grant_id := Some gid, h_workspace_id := Some w,
      h_owner_user_id := Some u, h_manifest_digest := Some d, h_consent_receipt_id := Some rc,
      h_consented_at := Some (hc_now ctx)\<rparr>)])"
  using assms by (auto simp: decide_consent_def ok_hosted split: if_split_asm)

lemma activate_accepted:
  assumes "decide_activate f ctx g = HostedOk es r p"
  shows "hc_workspace_id ctx = gf_home_workspace_id g \<and> act_user (hc_actor ctx) = Some (gf_owner_user_id g) \<and>
    hf_all_required_consents f \<and> hf_all_required_memberships f \<and> hf_owner_is_live_member f \<and>
    \<not> hf_workspace_archived f \<and>
    (gf_state g = GrantActive \<and> es = [] \<or> gf_state g = GrantPending \<and>
     es = [hosted_event ctx GrantActivated (no_hosted_fields\<lparr>h_grant_id := Some (gf_grant_id g),
       h_activated_at := Some (hc_now ctx)\<rparr>)])"
  using assms by (auto simp: decide_activate_def Let_def ok_hosted split: if_split_asm)

lemma revoke_grant_accepted:
  assumes "decide_revoke_grant ctx g = HostedOk es r p"
  shows "hc_workspace_id ctx = gf_home_workspace_id g \<and> act_user (hc_actor ctx) = Some (gf_owner_user_id g) \<and>
    es = (if gf_state g = GrantEnded then [] else [hosted_event ctx GrantRevoked (no_hosted_fields\<lparr>
      h_grant_id := Some (gf_grant_id g), h_revoked_at := Some (hc_now ctx)\<rparr>)])"
  using assms by (auto simp: decide_revoke_grant_def ok_hosted split: if_split_asm)

lemma revoke_seat_accepted:
  assumes "decide_revoke_seat f ctx g = HostedOk es r p"
  obtains seat where "hf_seat f = Some seat" and "hs_grant_id seat = gf_grant_id g"
    and "hs_workspace_id seat = hc_workspace_id ctx" and "act_user (hc_actor ctx) = Some (gf_owner_user_id g)"
    and "es = (if hs_revoked_at seat \<noteq> None then [] else [hosted_event ctx SeatRevoked (no_hosted_fields\<lparr>
      h_grant_id := Some (gf_grant_id g), h_seat_id := Some (hs_seat_id seat),
      h_principal_id := Some (hs_principal_id seat), h_revoked_at := Some (hc_now ctx)\<rparr>)])"
  using assms by (cases "hf_seat f") (auto simp: decide_revoke_seat_def Let_def ok_hosted split: if_split_asm)

lemma release_seat_accepted:
  assumes "decide_release_seat f ctx g sid = HostedOk es r p"
  obtains seat where "hf_seat f = Some seat" and "hs_grant_id seat = gf_grant_id g"
    and "hs_workspace_id seat = hc_workspace_id ctx" and "hs_seat_id seat = sid"
    and "act_agent_principal (hc_actor ctx) = Some (hs_principal_id seat)"
    and "act_user (hc_actor ctx) = Some (gf_owner_user_id g)"
    and "es = (if hs_revoked_at seat \<noteq> None then [] else [hosted_event ctx SeatReleased (no_hosted_fields\<lparr>
      h_grant_id := Some (gf_grant_id g), h_seat_id := Some sid,
      h_principal_id := Some (hs_principal_id seat), h_released_at := Some (hc_now ctx)\<rparr>)])"
  using assms by (cases "hf_seat f") (auto simp: decide_release_seat_def Let_def ok_hosted split: if_split_asm)

lemma claim_accepted:
  assumes "decide_claim f ctx g gid sid h pid w u n = HostedOk es r p"
  shows "gf_state g = GrantActive \<and> hf_workspace_consented f \<and> hf_owner_is_live_member f \<and>
    \<not> hf_workspace_archived f \<and> u = gf_owner_user_id g \<and> w = hc_workspace_id ctx \<and>
    hostedSeatNameValid (JsString n) \<and>
    (case hf_seat f of
       Some seat \<Rightarrow> \<not> seat_ended seat \<and> es = [] \<and> r = Some seat \<and>
         map np_principal_id (filter (\<lambda>p. \<not> np_revoked p) (hf_exact_name_principals f)) = [hs_principal_id seat]
     | None \<Rightarrow> hf_live_seat_count f < HOSTED_MCP_SEAT_LIMIT \<and>
         (\<forall>q \<in> set (hf_exact_name_principals f). np_revoked q \<and> np_owner_user_id q = gf_owner_user_id g) \<and>
         p = Some (map np_principal_id (hf_exact_name_principals f)) \<and>
         es = [hosted_event ctx SeatClaimed (no_hosted_fields\<lparr>h_kind := Some ''claim_hosted_seat'',
           h_grant_id := Some gid, h_seat_id := Some sid, h_handle := Some h, h_principal_id := Some pid,
           h_workspace_id := Some w, h_owner_user_id := Some u, h_name := Some n,
           h_transport := Some ''hosted_mcp'', h_turn_only := Some True, h_created_at := Some (hc_now ctx)\<rparr>)])"
proof (cases "hf_seat f")
  case None
  with assms show ?thesis
    by (auto simp: decide_claim_def Let_def filter_empty_conv not_le split: if_split_asm)
next
  case (Some seat)
  with assms show ?thesis by (auto simp: decide_claim_def Let_def split: if_split_asm)
qed

text \<open>Every decision on agreeing facts projects.\<close>

lemma accepted_projects:
  assumes "decide_with_grant cmd f ctx g = HostedOk es r p" and "facts_agree st cmd (f, ctx)"
    and "hf_grant f = Some g" and "hosted_ok (current st)"
    and "\<And>gid pv u w c rs ws d i. cmd \<noteq> BeginGrant gid pv u w c rs ws d i"
  shows "\<exists>t. project_hosted st es = Inr t"
proof (cases cmd)
  case (ConsentWorkspace gid w u d rc)
  with assms(1) have "decide_consent f ctx g gid w u d rc = HostedOk es r p" by (simp add: decide_with_grant_def)
  from consent_accepted[OF this] assms(2) ConsentWorkspace show ?thesis
    by (auto simp: facts_agree_def consented_effect)
next
  case (ActivateGrant gid)
  with assms(1) have "decide_activate f ctx g = HostedOk es r p" by (simp add: decide_with_grant_def)
  from activate_accepted[OF this] assms(2,3) ActivateGrant show ?thesis
    by (auto simp: facts_agree_def grant_agrees_def activated_effect)
next
  case (RevokeGrant gid)
  with assms(1) have "decide_revoke_grant ctx g = HostedOk es r p" by (simp add: decide_with_grant_def)
  from revoke_grant_accepted[OF this] assms(2,3) RevokeGrant show ?thesis
    by (auto simp: facts_agree_def grant_agrees_def grant_revoked_effect)
next
  case (RevokeSeat gid sid)
  with assms(1) have "decide_revoke_seat f ctx g = HostedOk es r p" by (simp add: decide_with_grant_def)
  then show ?thesis
  proof (rule revoke_seat_accepted)
    fix seat assume seat: "hf_seat f = Some seat" and es: "es = (if hs_revoked_at seat \<noteq> None then [] else
      [hosted_event ctx SeatRevoked (no_hosted_fields\<lparr>h_grant_id := Some (gf_grant_id g),
        h_seat_id := Some (hs_seat_id seat), h_principal_id := Some (hs_principal_id seat),
        h_revoked_at := Some (hc_now ctx)\<rparr>)])"
    from assms(2) seat RevokeSeat obtain q where q: "obj_get (ha_seats (current st)) (hs_seat_id seat) = Some q"
      by (auto simp: facts_agree_def seat_agrees_def)
    from hosted_okD(3)[OF assms(4) q] es q show ?thesis by (auto simp: seat_revoked_effect)
  qed
next
  case (ReleaseSeat gid sid)
  with assms(1) have "decide_release_seat f ctx g sid = HostedOk es r p" by (simp add: decide_with_grant_def)
  then show ?thesis
    by (rule release_seat_accepted)
       (use assms(2) ReleaseSeat in \<open>auto simp: facts_agree_def seat_agrees_def released_effect\<close>)
next
  case (ClaimSeat gid sid h pid w u n)
  with assms(1) have "decide_claim f ctx g gid sid h pid w u n = HostedOk es r p" by (simp add: decide_with_grant_def)
  from claim_accepted[OF this] assms(2) ClaimSeat show ?thesis
    by (cases "hf_seat f") (auto simp: facts_agree_def claimed_effect)
qed (use assms(5) in simp)

lemma hosted_projects:
  assumes "facts_agree st cmd (f, ctx)" and "opt_all hosted_ok st"
  shows "\<exists>t. project_hosted st (hosted_decision_events (decideHostedAuthority cmd f ctx)) = Inr t \<and>
    opt_all hosted_ok t"
proof -
  have ok: "hosted_ok (current st)" using assms(2) by (cases st) simp_all
  have "\<exists>t. project_hosted st (hosted_decision_events (decideHostedAuthority cmd f ctx)) = Inr t"
  proof (cases "decideHostedAuthority cmd f ctx")
    case (HostedOk es r p)
    then show ?thesis
    proof (cases rule: decideHosted_cases)
      case (fresh gid pv u w c rs ws d i)
      from begin_accepted[OF fresh(3)] assms(1) fresh(1) HostedOk show ?thesis
        by (auto simp: facts_agree_def begun_effect)
    next
      case (with_grant g)
      from accepted_projects[OF with_grant(4) assms(1) with_grant(1) ok with_grant(5)] HostedOk show ?thesis
        by simp
    qed
  qed simp
  then obtain t where "project_hosted st (hosted_decision_events (decideHostedAuthority cmd f ctx)) = Inr t" ..
  moreover from this have "opt_all hosted_ok t"
    using hosted_stream.fold_inv assms(2) unfolding project_hosted_def by blast
  ultimately show ?thesis by blast
qed

interpretation hosted_core: decision_core decide_hosted hosted_decision_events project_hosted facts_agree hosted_ok
  by unfold_locales (auto simp: decide_hosted_def intro!: hosted_projects)

lemma decided_at_most_one: "length (hosted_decision_events (decideHostedAuthority cmd f ctx)) \<le> 1"
proof (cases "decideHostedAuthority cmd f ctx")
  case (HostedOk es r p)
  then show ?thesis
  proof (cases rule: decideHosted_cases)
    case (fresh gid pv u w c rs ws d i)
    from begin_accepted[OF fresh(3)] HostedOk show ?thesis by simp
  next
    case (with_grant g)
    have "length es \<le> 1"
      using with_grant(4,5) unfolding decide_with_grant_def
      by (cases cmd; cases "hf_seat f") (auto dest: consent_accepted activate_accepted revoke_grant_accepted
          claim_accepted elim: revoke_seat_accepted release_seat_accepted)
    with HostedOk show ?thesis by simp
  qed
qed simp

definition hosted_reachable :: "hosted_state option \<Rightarrow> bool" where
  "hosted_reachable = reach decide_hosted hosted_decision_events project_hosted facts_agree"

text \<open>What a projection becomes over any number of decided commands.\<close>

inductive hosted_steps :: "hosted_state option \<Rightarrow> hosted_state option \<Rightarrow> bool" where
  hosted_stay: "hosted_steps st st"
| hosted_step: "hosted_steps st u \<Longrightarrow> facts_agree u cmd (f, ctx) \<Longrightarrow>
    project_hosted u (hosted_decision_events (decideHostedAuthority cmd f ctx)) = Inr v \<Longrightarrow> hosted_steps st v"

section \<open>A concrete connection\<close>

definition hctx :: "hosted_credential_kind \<Rightarrow> string option \<Rightarrow> number \<Rightarrow> hosted_ctx" where
  "hctx kind agent n = \<lparr>hc_now = n, hc_actor = \<lparr>act_user = Some ''o'', act_agent_principal = agent,
     act_run = None\<rparr>, hc_credential_kind = kind, hc_command_id = ''c'', hc_workspace_id = ''w'',
     hc_stream_id = ''s'', hc_nextSeq = n, hc_nextEventId = ''e''\<rparr>"

lemma hctx_simps [simp]:
  "hc_now (hctx kind agent n) = n" "hc_nextSeq (hctx kind agent n) = n"
  "act_user (hc_actor (hctx kind agent n)) = Some ''o''"
  "act_agent_principal (hc_actor (hctx kind agent n)) = agent"
  "hc_credential_kind (hctx kind agent n) = kind" "hc_workspace_id (hctx kind agent n) = ''w''"
  by (simp_all add: hctx_def)

definition sample_gf :: grant_facts where
  "sample_gf = \<lparr>gf_grant_id = ''g'', gf_provider_grant_id = ''pg'', gf_owner_user_id = ''o'',
     gf_home_workspace_id = ''w'', gf_client_id = ''cl'', gf_resource = HOSTED_MCP_RESOURCE,
     gf_state = GrantActive, gf_manifest_digest = ''d'', gf_interaction_ref = ''i'',
     gf_selected_workspace_ids = [''w''], gf_consented_workspace_ids = [''w'']\<rparr>"

definition hfacts :: "grant_facts option \<Rightarrow> hosted_seat option \<Rightarrow> hosted_facts" where
  "hfacts g seat = \<lparr>hf_grant = g, hf_seat = seat, hf_owner_is_live_member = True,
     hf_workspace_archived = False, hf_workspace_consented = (g \<noteq> None),
     hf_all_required_consents = True, hf_all_required_memberships = True,
     hf_exact_name_principals = [], hf_live_seat_count = 1\<rparr>"

definition sample_claim_fields :: hosted_fields where
  "sample_claim_fields = no_hosted_fields\<lparr>h_kind := Some ''claim_hosted_seat'', h_grant_id := Some ''g'',
     h_seat_id := Some ''t'', h_handle := Some ''h'', h_principal_id := Some ''p'',
     h_workspace_id := Some ''w'', h_owner_user_id := Some ''o'', h_name := Some (lit ''Ada''),
     h_transport := Some ''hosted_mcp'', h_turn_only := Some True, h_created_at := Some 3\<rparr>"

definition sample_seat :: hosted_seat where
  "sample_seat = claimed_seat sample_claim_fields"

definition sample_grant_row :: grant_row where
  "sample_grant_row = \<lparr>gr_grant_id = ''g'', gr_owner_user_id = ''o'', gr_home_workspace_id = ''w'',
     gr_provider_grant_id = ''pg'', gr_client_id = ''cl'', gr_resource = HOSTED_MCP_RESOURCE,
     gr_selected_workspace_ids = [''w''], gr_manifest_digest = ''d'', gr_interaction_ref = ''i'',
     gr_state = GrantActive, gr_created_at = 1, gr_activated_at = Some 2, gr_revoked_at = None\<rparr>"

definition sample_hosted :: hosted_state where
  "sample_hosted = \<lparr>ha_grants = [(''g'', sample_grant_row)], ha_consents = [],
     ha_seats = [(''t'', sample_seat)], ha_principals = [(''p'', seat_principal sample_seat)]\<rparr>"

definition sample_hosted_log :: "hosted_envelope list" where
  "sample_hosted_log =
     [hosted_event (hctx HumanKind None 1) GrantBegun (no_hosted_fields\<lparr>h_kind := None,
        h_grant_id := Some ''g'', h_provider_grant_id := Some ''pg'', h_owner_user_id := Some ''o'',
        h_home_workspace_id := Some ''w'', h_client_id := Some ''cl'',
        h_resource := Some HOSTED_MCP_RESOURCE, h_selected_workspace_ids := Some [''w''],
        h_manifest_digest := Some ''d'', h_interaction_ref := Some ''i'', h_created_at := Some 1\<rparr>),
      hosted_event (hctx HumanKind None 2) GrantActivated (no_hosted_fields\<lparr>h_grant_id := Some ''g'',
        h_activated_at := Some 2\<rparr>),
      hosted_event (hctx HostedGrantKind None 3) SeatClaimed sample_claim_fields]"

lemma sample_hosted_replay: "reduceHostedAuthorityStream sample_hosted_log = Inr sample_hosted"
  by (simp add: reduceHostedAuthorityStream_def sample_hosted_log_def begun_effect activated_effect
      claimed_effect[OF _ sample_claim_fields_def] empty_hosted_def sample_hosted_def sample_seat_def
      obj_get_def obj_put_def sample_grant_row_def)

lemma sample_seat_simps [simp]:
  "hs_seat_id sample_seat = ''t''" "hs_principal_id sample_seat = ''p''" "hs_grant_id sample_seat = ''g''"
  "hs_workspace_id sample_seat = ''w''" "hs_revoked_at sample_seat = None"
  "hs_principal_revoked_at sample_seat = None"
  by (simp_all add: sample_seat_def claimed_seat_def sample_claim_fields_def)

lemma sample_hosted_tables [simp]:
  "obj_get (ha_grants sample_hosted) k = (if k = ''g'' then Some sample_grant_row else None)"
  "obj_get (ha_seats sample_hosted) k = (if k = ''t'' then Some sample_seat else None)"
  "obj_get (ha_principals sample_hosted) k = (if k = ''p'' then Some (seat_principal sample_seat) else None)"
  by (simp_all add: sample_hosted_def obj_get_def)

lemma sample_name_valid: "hostedSeatNameValid (JsString (lit ''Bob''))"
  by (simp add: hostedSeatNameValid_def lit_def high_surrogate_def btrim_def c0_c1_control_def)

text \<open>Frames: which events touch the grants, and that a projection stays present.\<close>

lemma grants_frame:
  "reduceHostedAuthority (Some s) env = Inr t \<Longrightarrow>
     ev_type env \<notin> {GrantBegun, GrantActivated, GrantRevoked} \<Longrightarrow> ha_grants t = ha_grants s"
  by (cases "ev_type env") (auto simp: reduceHostedAuthority_def ha_consented_def ha_seat_claimed_def
      bind_result_Inr Let_def elim: seat_released_Inr seat_revoked_Inr split: if_split_asm)

lemma grants_kept:
  "project_hosted (Some s) es = Inr (Some t) \<Longrightarrow>
     \<forall>e \<in> set es. ev_type e \<notin> {GrantBegun, GrantActivated, GrantRevoked} \<Longrightarrow> ha_grants t = ha_grants s"
  by (induction es arbitrary: s) (auto simp: bind_result_Inr dest: grants_frame)

lemma project_hosted_some: "project_hosted (Some s) es = Inr v \<Longrightarrow> \<exists>t. v = Some t"
  by (induction es arbitrary: s) (auto simp: bind_result_Inr)

section \<open>Properties\<close>

text \<open>
  C14. A hosted log the reducer accepts is strictly ordered and folds to a sound projection: each table
  carries its own keys, the times of a grant fit its state, every seat is hosted and turn-only
  with agreeing end marks, and its principal is in the projection.
\<close>

theorem hosted_log_is_sound:
  assumes "reduceHostedAuthorityStream evs = Inr s"
  shows "sorted_wrt (<) (map ev_seq evs) \<and> hosted_ok s"
proof -
  from assms obtain st where st: "reduceHosted_loop None NegInf evs = Inr st" and
    s: "s = (case st of None \<Rightarrow> empty_hosted | Some x \<Rightarrow> x)"
    by (auto simp: reduceHostedAuthorityStream_def bind_result_Inr)
  from hosted_stream.loop_sorted[OF st] hosted_stream.loop_inv[OF st] show ?thesis
    by (auto simp: s split: option.split)
qed

theorem hosted_log_is_sound_witness:
  "sorted_wrt (<) (map ev_seq sample_hosted_log) \<and> hosted_ok sample_hosted"
  using hosted_log_is_sound[OF sample_hosted_replay] .

text \<open>
  A hosted connection never halts its own projection: in every history decided on facts that agree
  with the projection, the next decision emits at most one event and that event folds, to a sound
  projection again.
\<close>

theorem hosted_decision_projects:
  assumes "hosted_reachable st" and "facts_agree st cmd (f, ctx)"
  shows "\<exists>t. project_hosted st (hosted_decision_events (decideHostedAuthority cmd f ctx)) = Inr t \<and>
    opt_all hosted_ok t \<and> hosted_reachable t \<and>
    length (hosted_decision_events (decideHostedAuthority cmd f ctx)) \<le> 1"
proof -
  from hosted_core.reach_never_halts[of st cmd "(f, ctx)" "decideHostedAuthority cmd f ctx"] assms
  obtain t where t: "project_hosted st (hosted_decision_events (decideHostedAuthority cmd f ctx)) = Inr t"
    "hosted_reachable t" by (auto simp: hosted_reachable_def decide_hosted_def)
  moreover from this have "opt_all hosted_ok t" unfolding hosted_reachable_def by (blast intro: hosted_core.reach_inv)
  moreover have "length (hosted_decision_events (decideHostedAuthority cmd f ctx)) \<le> 1"
    by (rule decided_at_most_one)
  ultimately show ?thesis by blast
qed

theorem hosted_decision_projects_witness:
  "\<exists>t. project_hosted None (hosted_decision_events (decideHostedAuthority
     (BeginGrant ''g'' ''pg'' ''o'' ''w'' ''cl'' HOSTED_MCP_RESOURCE [''w''] ''d'' ''i'')
     (hfacts None None) (hctx HumanKind None 1))) = Inr t \<and> opt_all hosted_ok t"
proof -
  have "hosted_reachable None" by (simp add: hosted_reachable_def reach_start)
  moreover have "facts_agree None (BeginGrant ''g'' ''pg'' ''o'' ''w'' ''cl'' HOSTED_MCP_RESOURCE [''w''] ''d'' ''i'')
      (hfacts None None, hctx HumanKind None 1)"
    by (simp add: facts_agree_def empty_hosted_def)
  ultimately show ?thesis using hosted_decision_projects by blast
qed

text \<open>
  Hosted credentials are single-purpose: an accepted command is a claim made with a hosted grant
  credential, a release made by the hosted seat itself, or a management command of the human who
  owns the grant, in the workspace the command addresses.
\<close>

theorem hosted_credentials_are_confined:
  assumes "decideHostedAuthority cmd f ctx = HostedOk es r p"
  shows "case cmd of
      ClaimSeat _ _ _ _ w _ _ \<Rightarrow> hc_credential_kind ctx = HostedGrantKind \<and> w = hc_workspace_id ctx
    | ReleaseSeat _ sid \<Rightarrow> hc_credential_kind ctx = HostedSeatKind \<and>
        (\<exists>seat. hf_seat f = Some seat \<and> hs_seat_id seat = sid \<and> hs_workspace_id seat = hc_workspace_id ctx \<and>
          act_agent_principal (hc_actor ctx) = Some (hs_principal_id seat))
    | BeginGrant _ _ u w _ _ _ _ _ \<Rightarrow> hc_credential_kind ctx = HumanKind \<and>
        act_user (hc_actor ctx) = Some u \<and> w = hc_workspace_id ctx
    | _ \<Rightarrow> hc_credential_kind ctx = HumanKind \<and>
        (\<exists>g. hf_grant f = Some g \<and> gf_grant_id g = hcmd_grant_id cmd \<and>
          act_user (hc_actor ctx) = Some (gf_owner_user_id g))"
  using assms
proof (cases rule: decideHosted_cases)
  case (fresh gid pv u w c rs ws d i)
  with begin_accepted[OF fresh(3)] show ?thesis by simp
next
  case (with_grant g)
  note d = with_grant(4)[unfolded decide_with_grant_def]
  from with_grant(3) have k: "hc_credential_kind ctx = (case cmd of ClaimSeat _ _ _ _ _ _ _ \<Rightarrow> HostedGrantKind
    | ReleaseSeat _ _ \<Rightarrow> HostedSeatKind | _ \<Rightarrow> HumanKind)"
    by (cases cmd) (simp_all add: hosted_credential_refused_def HUMAN_COMMANDS_def split: if_split_asm)
  with with_grant(1,2,5) d show ?thesis
    by (cases cmd) (auto dest: begin_accepted consent_accepted activate_accepted revoke_grant_accepted
        claim_accepted elim: revoke_seat_accepted release_seat_accepted)
qed

lemma sample_claimed:
  "decideHostedAuthority (ClaimSeat ''g'' ''t2'' ''h2'' ''p2'' ''w'' ''o'' (lit ''Bob'')) (hfacts (Some sample_gf) None)
     (hctx HostedGrantKind None 4) =
   HostedOk [hosted_event (hctx HostedGrantKind None 4) SeatClaimed (no_hosted_fields\<lparr>
      h_kind := Some ''claim_hosted_seat'', h_grant_id := Some ''g'', h_seat_id := Some ''t2'',
      h_handle := Some ''h2'', h_principal_id := Some ''p2'', h_workspace_id := Some ''w'',
      h_owner_user_id := Some ''o'', h_name := Some (lit ''Bob''), h_transport := Some ''hosted_mcp'',
      h_turn_only := Some True, h_created_at := Some 4\<rparr>)] None (Some [])"
  by (simp add: decideHostedAuthority_def hosted_credential_refused_def hfacts_def sample_gf_def
      decide_with_grant_def decide_claim_def sample_name_valid HOSTED_MCP_SEAT_LIMIT_def)

theorem hosted_credentials_are_confined_witness:
  "\<exists>es r p. decideHostedAuthority (ClaimSeat ''g'' ''t2'' ''h2'' ''p2'' ''w'' ''o'' (lit ''Bob''))
      (hfacts (Some sample_gf) None) (hctx HostedGrantKind None 4) = HostedOk es r p \<and>
    hc_credential_kind (hctx HostedGrantKind None 4) = HostedGrantKind"
  using sample_claimed hosted_credentials_are_confined[OF sample_claimed] by auto

text \<open>
  A new seat passes every fence: when a claim emits a seat, the grant is active and owned by the
  claimed owner, the workspace has consented, is open and has the owner as a live member, the
  connection is below its seat limit, the name is 1 to 80 characters without control characters
  or outer spaces, every earlier principal of that name is revoked and belonged to the same owner;
  the seat and its principal are then live in the projection.
\<close>

theorem claimed_seat_passes_every_fence:
  assumes "decideHostedAuthority (ClaimSeat gid sid h pid w u n) f ctx = HostedOk [e] r p"
    and "reduceHostedAuthority st e = Inr t"
  shows "\<exists>g seat prin. hf_grant f = Some g \<and> gf_grant_id g = gid \<and> gf_state g = GrantActive \<and>
    gf_owner_user_id g = u \<and> hf_workspace_consented f \<and> hf_owner_is_live_member f \<and>
    \<not> hf_workspace_archived f \<and> hf_live_seat_count f < HOSTED_MCP_SEAT_LIMIT \<and>
    1 \<le> code_points n \<and> code_points n \<le> 80 \<and> btrim n = n \<and> list_all (\<lambda>c. \<not> c0_c1_control c) n \<and>
    list_all (\<lambda>q. np_revoked q \<and> np_owner_user_id q = u) (hf_exact_name_principals f) \<and>
    p = Some (map np_principal_id (hf_exact_name_principals f)) \<and>
    obj_get (ha_seats (current st)) sid = None \<and>
    obj_get (ha_seats t) sid = Some seat \<and> hs_revoked_at seat = None \<and> hs_name seat = n \<and>
    hs_principal_id seat = pid \<and> obj_get (ha_principals t) pid = Some prin \<and>
    hp_revoked_at prin = None \<and> hp_owner_user_id prin = u \<and> hp_name prin = n"
proof -
  let ?p = "no_hosted_fields\<lparr>h_kind := Some ''claim_hosted_seat'', h_grant_id := Some gid,
    h_seat_id := Some sid, h_handle := Some h, h_principal_id := Some pid, h_workspace_id := Some w,
    h_owner_user_id := Some u, h_name := Some n, h_transport := Some ''hosted_mcp'',
    h_turn_only := Some True, h_created_at := Some (hc_now ctx)\<rparr>"
  from assms(1) obtain g where g: "hf_grant f = Some g" "gf_grant_id g = gid"
    "decide_claim f ctx g gid sid h pid w u n = HostedOk [e] r p"
    by (rule decideHosted_cases) (simp_all add: decide_with_grant_def)
  note c = claim_accepted[OF g(3)]
  from c have new: "hf_seat f = None" by (auto split: option.split_asm)
  with c have e: "e = hosted_event ctx SeatClaimed ?p" by simp
  have fresh: "obj_get (ha_seats (current st)) sid = None"
    using assms(2) unfolding e
    by (simp add: reduce_hosted_event ha_seat_claimed_def bind_result_Inr requiredPayload_Inr Let_def
        no_hosted_fields_def split: if_split_asm)
  from assms(2) have t: "t = (current st)\<lparr>ha_seats := obj_put (ha_seats (current st)) sid (claimed_seat ?p),
      ha_principals := obj_put (ha_principals (current st)) pid (seat_principal (claimed_seat ?p))\<rparr>"
    unfolding e by (simp add: claimed_effect[OF fresh refl])
  from c new g fresh show ?thesis
    by (intro exI[of _ g] exI[of _ "claimed_seat ?p"] exI[of _ "seat_principal (claimed_seat ?p)"])
      (simp add: t list_all_iff hostedSeatNameValid_def claimed_seat_def seat_principal_def)
qed

theorem claimed_seat_passes_every_fence_witness:
  "\<exists>e t prin. decideHostedAuthority (ClaimSeat ''g'' ''t2'' ''h2'' ''p2'' ''w'' ''o'' (lit ''Bob''))
       (hfacts (Some sample_gf) None) (hctx HostedGrantKind None 4) = HostedOk [e] None (Some []) \<and>
     reduceHostedAuthority (Some sample_hosted) e = Inr t \<and>
     obj_get (ha_principals t) ''p2'' = Some prin \<and> hp_revoked_at prin = None"
proof -
  obtain t where t: "reduceHostedAuthority (Some sample_hosted) (hosted_event (hctx HostedGrantKind None 4)
      SeatClaimed (no_hosted_fields\<lparr>
      h_kind := Some ''claim_hosted_seat'', h_grant_id := Some ''g'', h_seat_id := Some ''t2'',
      h_handle := Some ''h2'', h_principal_id := Some ''p2'', h_workspace_id := Some ''w'',
      h_owner_user_id := Some ''o'', h_name := Some (lit ''Bob''), h_transport := Some ''hosted_mcp'',
      h_turn_only := Some True, h_created_at := Some 4\<rparr>)) = Inr t"
    using claimed_effect[OF _ refl, of "Some sample_hosted" "''t2''"] by fastforce
  from claimed_seat_passes_every_fence[OF sample_claimed t] t sample_claimed show ?thesis by blast
qed

lemma grant_end_step:
  assumes "facts_agree (Some s) cmd (f, ctx)" and "obj_get (ha_grants s) gid = Some g"
    and "gr_state g = GrantEnded"
    and "project_hosted (Some s) (hosted_decision_events (decideHostedAuthority cmd f ctx)) = Inr (Some t)"
  shows "\<exists>g'. obj_get (ha_grants t) gid = Some g' \<and> gr_state g' = GrantEnded"
proof (cases "decideHostedAuthority cmd f ctx")
  case (HostedOk es r p)
  then show ?thesis
  proof (cases rule: decideHosted_cases)
    case (fresh gid' pv u w c rs ws d i)
    from begin_accepted[OF fresh(3)] fresh(1) assms(1) have "obj_get (ha_grants s) gid' = None"
      by (simp add: facts_agree_def)
    with begin_accepted[OF fresh(3)] HostedOk assms show ?thesis by (auto simp: begun_effect)
  next
    case (with_grant h)
    have keep: "ha_grants t = ha_grants s"
      if "\<forall>e \<in> set es. ev_type e \<notin> {GrantBegun, GrantActivated, GrantRevoked}"
      using that assms(4) HostedOk grants_kept by simp
    show ?thesis
    proof (cases cmd)
      case (ConsentWorkspace gid' w u d rc)
      with with_grant(4) have "decide_consent f ctx h gid' w u d rc = HostedOk es r p"
        by (simp add: decide_with_grant_def)
      from consent_accepted[OF this] keep assms(2,3) show ?thesis by (simp split: if_split_asm)
    next
      case (ActivateGrant gid')
      with with_grant(4) have "decide_activate f ctx h = HostedOk es r p" by (simp add: decide_with_grant_def)
      from activate_accepted[OF this] with_grant(1) assms HostedOk ActivateGrant show ?thesis
        by (auto simp: facts_agree_def grant_agrees_def activated_effect)
    next
      case (RevokeGrant gid')
      with with_grant(4) have "decide_revoke_grant ctx h = HostedOk es r p" by (simp add: decide_with_grant_def)
      from revoke_grant_accepted[OF this] with_grant(1) assms HostedOk RevokeGrant show ?thesis
        by (auto simp: facts_agree_def grant_agrees_def grant_revoked_effect split: if_split_asm)
    next
      case (RevokeSeat gid' sid)
      with with_grant(4) have "decide_revoke_seat f ctx h = HostedOk es r p" by (simp add: decide_with_grant_def)
      then show ?thesis by (rule revoke_seat_accepted) (use keep assms(2,3) in \<open>simp split: if_split_asm\<close>)
    next
      case (ReleaseSeat gid' sid)
      with with_grant(4) have "decide_release_seat f ctx h sid = HostedOk es r p" by (simp add: decide_with_grant_def)
      then show ?thesis by (rule release_seat_accepted) (use keep assms(2,3) in \<open>simp split: if_split_asm\<close>)
    next
      case (ClaimSeat gid' sid hd' pid w u n)
      with with_grant(4) have "decide_claim f ctx h gid' sid hd' pid w u n = HostedOk es r p"
        by (simp add: decide_with_grant_def)
      from claim_accepted[OF this] keep assms(2,3) show ?thesis by (cases "hf_seat f") simp_all
    qed (use with_grant(5) in simp)
  qed
qed (use assms in simp)

text \<open>
  C15. Revocation of a hosted grant is final: over any number of decided commands whose facts agree with
  the projection, an ended grant stays ended, and on facts that show it ended, a consent, an
  activation and a claim are refused.
\<close>

theorem revoked_grant_is_final:
  assumes "hosted_steps st v" and "st = Some s" and "v = Some t"
    and "obj_get (ha_grants s) gid = Some g" and "gr_state g = GrantEnded"
    and "hf_grant f = Some h" and "gf_state h = GrantEnded"
    and "cmd = ConsentWorkspace gid w u d rc \<or> cmd = ActivateGrant gid \<or> cmd = ClaimSeat gid sid hd' pid w u n"
  shows "(\<exists>g'. obj_get (ha_grants t) gid = Some g' \<and> gr_state g' = GrantEnded) \<and>
    (\<exists>cl why det. decideHostedAuthority cmd f ctx = HostedRefused cl why det)"
proof -
  have "\<exists>t g'. v = Some t \<and> obj_get (ha_grants t) gid = Some g' \<and> gr_state g' = GrantEnded"
    using assms(1,2,4,5)
  proof (induction rule: hosted_steps.induct)
    case (hosted_step st u cmd f ctx v)
    then obtain x g' where x: "u = Some x" "obj_get (ha_grants x) gid = Some g'" "gr_state g' = GrantEnded" by blast
    from project_hosted_some hosted_step(3) x(1) obtain y where "v = Some y" by blast
    with grant_end_step[of x cmd f ctx gid g' y] hosted_step(2,3) x show ?case by blast
  qed blast
  moreover have "\<exists>cl why det. decideHostedAuthority cmd f ctx = HostedRefused cl why det"
  proof (cases "decideHostedAuthority cmd f ctx")
    case (HostedOk es r p)
    then show ?thesis
    proof (cases rule: decideHosted_cases)
      case (with_grant k)
      with assms(6,7) have d: "gf_state h = GrantEnded" "decide_with_grant cmd f ctx h = HostedOk es r p" by simp_all
      from assms(8) show ?thesis
      proof (elim disjE)
        assume "cmd = ConsentWorkspace gid w u d rc"
        with d consent_accepted[of f ctx h gid w u d rc es r p] show ?thesis by (simp add: decide_with_grant_def)
      next
        assume "cmd = ActivateGrant gid"
        with d activate_accepted[of f ctx h es r p] show ?thesis by (simp add: decide_with_grant_def)
      next
        assume "cmd = ClaimSeat gid sid hd' pid w u n"
        with d claim_accepted[of f ctx h gid sid hd' pid w u n es r p] show ?thesis
          by (simp add: decide_with_grant_def)
      qed
    qed (use assms(8) in simp)
  qed simp
  ultimately show ?thesis using assms(3) by blast
qed

definition ended_hosted :: hosted_state where
  "ended_hosted = sample_hosted\<lparr>ha_grants := [(''g'', sample_grant_row\<lparr>gr_state := GrantEnded,
     gr_revoked_at := Some 4\<rparr>)]\<rparr>"

lemma ended_hosted_tables [simp]:
  "obj_get (ha_grants ended_hosted) ''g'' = Some (sample_grant_row\<lparr>gr_state := GrantEnded, gr_revoked_at := Some 4\<rparr>)"
  "obj_get (ha_seats ended_hosted) k = (if k = ''t'' then Some sample_seat else None)"
  "obj_get (ha_principals ended_hosted) k = (if k = ''p'' then Some (seat_principal sample_seat) else None)"
  by (simp_all add: ended_hosted_def sample_hosted_def obj_get_def)

lemma sample_release:
  "decideHostedAuthority (ReleaseSeat ''g'' ''t'') (hfacts (Some sample_gf) (Some sample_seat))
     (hctx HostedSeatKind (Some ''p'') 5) = HostedOk [hosted_event (hctx HostedSeatKind (Some ''p'') 5) SeatReleased
       (no_hosted_fields\<lparr>h_grant_id := Some ''g'', h_seat_id := Some ''t'', h_principal_id := Some ''p'',
         h_released_at := Some 5\<rparr>)] None None"
  by (simp add: decideHostedAuthority_def hosted_credential_refused_def hfacts_def sample_gf_def
      decide_with_grant_def decide_release_seat_def accept_hosted_def)

theorem revoked_grant_is_final_witness:
  "\<exists>t g' cl why det. hosted_steps (Some ended_hosted) (Some t) \<and> obj_get (ha_seats t) ''t'' \<noteq> Some sample_seat \<and>
     obj_get (ha_grants t) ''g'' = Some g' \<and> gr_state g' = GrantEnded \<and>
     decideHostedAuthority (ActivateGrant ''g'') (hfacts (Some (sample_gf\<lparr>gf_state := GrantEnded\<rparr>)) None)
       (hctx HumanKind None 6) = HostedRefused cl why det"
proof -
  let ?t = "ended_hosted\<lparr>ha_seats := obj_put (ha_seats ended_hosted) ''t''
    (sample_seat\<lparr>hs_revoked_at := Some 5, hs_handle_revoked_at := Some 5\<rparr>)\<rparr>"
  have st: "hosted_steps (Some ended_hosted) (Some ?t)"
  proof (rule hosted_step[OF hosted_stay])
    show "facts_agree (Some ended_hosted) (ReleaseSeat ''g'' ''t'')
        (hfacts (Some sample_gf) (Some sample_seat), hctx HostedSeatKind (Some ''p'') 5)"
      by (simp add: facts_agree_def seat_agrees_def hfacts_def)
    show "project_hosted (Some ended_hosted) (hosted_decision_events (decideHostedAuthority (ReleaseSeat ''g'' ''t'')
        (hfacts (Some sample_gf) (Some sample_seat)) (hctx HostedSeatKind (Some ''p'') 5))) = Inr (Some ?t)"
      by (simp add: sample_release released_effect)
  qed
  have "hs_revoked_at (sample_seat\<lparr>hs_revoked_at := Some 5, hs_handle_revoked_at := Some 5\<rparr>) = Some 5" by simp
  then have "sample_seat\<lparr>hs_revoked_at := Some 5, hs_handle_revoked_at := Some 5\<rparr> \<noteq> sample_seat"
    by (metis option.distinct(1) sample_seat_simps(5))
  moreover have "(\<exists>g'. obj_get (ha_grants ?t) ''g'' = Some g' \<and> gr_state g' = GrantEnded) \<and>
      (\<exists>cl why det. decideHostedAuthority (ActivateGrant ''g'')
        (hfacts (Some (sample_gf\<lparr>gf_state := GrantEnded\<rparr>)) None) (hctx HumanKind None 6) = HostedRefused cl why det)"
    by (rule revoked_grant_is_final[OF st refl refl, where h = "sample_gf\<lparr>gf_state := GrantEnded\<rparr>"
        and g = "sample_grant_row\<lparr>gr_state := GrantEnded, gr_revoked_at := Some 4\<rparr>"])
      (simp_all add: hfacts_def)
  moreover have "obj_get (ha_seats ?t) ''t'' =
      Some (sample_seat\<lparr>hs_revoked_at := Some 5, hs_handle_revoked_at := Some 5\<rparr>)" by simp
  ultimately show ?thesis using st by (metis option.inject)
qed

text \<open>
  Release ends one seat and nothing else: when a seat releases itself the caller is that seat's own
  agent, the seat and its handle end at the current time, and the grants, the consents, every other
  seat and every principal, its own among them, stay as they are.
\<close>

theorem release_ends_one_seat:
  assumes "decideHostedAuthority (ReleaseSeat gid sid) f ctx = HostedOk [e] r p"
    and "facts_agree (Some s) (ReleaseSeat gid sid) (f, ctx)"
    and "reduceHostedAuthority (Some s) e = Inr t"
  shows "\<exists>seat seat'. obj_get (ha_seats s) sid = Some seat \<and> hs_revoked_at seat = None \<and>
    hc_credential_kind ctx = HostedSeatKind \<and>
    act_agent_principal (hc_actor ctx) = Some (hs_principal_id seat) \<and>
    ha_seats t = obj_put (ha_seats s) sid seat' \<and> hs_revoked_at seat' = Some (hc_now ctx) \<and>
    hs_handle_revoked_at seat' = Some (hc_now ctx) \<and>
    hs_principal_revoked_at seat' = hs_principal_revoked_at seat \<and>
    ha_principals t = ha_principals s \<and> ha_grants t = ha_grants s \<and> ha_consents t = ha_consents s"
proof -
  from assms(1) obtain g where g: "hosted_credential_refused (ReleaseSeat gid sid) ctx = None"
    "decide_release_seat f ctx g sid = HostedOk [e] r p"
    by (rule decideHosted_cases) (simp_all add: decide_with_grant_def)
  from g(1) have k: "hc_credential_kind ctx = HostedSeatKind"
    by (simp add: hosted_credential_refused_def split: if_split_asm)
  from g(2) obtain seat where seat: "hf_seat f = Some seat" "hs_seat_id seat = sid"
    "act_agent_principal (hc_actor ctx) = Some (hs_principal_id seat)"
    and es: "[e] = (if hs_revoked_at seat \<noteq> None then [] else [hosted_event ctx SeatReleased (no_hosted_fields\<lparr>
      h_grant_id := Some (gf_grant_id g), h_seat_id := Some sid,
      h_principal_id := Some (hs_principal_id seat), h_released_at := Some (hc_now ctx)\<rparr>)])"
    by (rule release_seat_accepted)
  from assms(2) seat obtain q where q: "obj_get (ha_seats s) sid = Some q"
    "hs_principal_id q = hs_principal_id seat" "hs_revoked_at q = hs_revoked_at seat"
    by (auto simp: facts_agree_def seat_agrees_def)
  from es have live: "hs_revoked_at seat = None" by (simp split: if_split_asm)
  with es assms(3) q(1,2) have
    "t = s\<lparr>ha_seats := obj_put (ha_seats s) sid (q\<lparr>hs_revoked_at := Some (hc_now ctx),
       hs_handle_revoked_at := Some (hc_now ctx)\<rparr>)\<rparr>"
    by (simp add: released_effect)
  with k seat q live show ?thesis
    by (intro exI[of _ q] exI[of _ "q\<lparr>hs_revoked_at := Some (hc_now ctx),
       hs_handle_revoked_at := Some (hc_now ctx)\<rparr>"]) simp
qed

theorem release_ends_one_seat_witness:
  "\<exists>e t seat. decideHostedAuthority (ReleaseSeat ''g'' ''t'') (hfacts (Some sample_gf) (Some sample_seat))
       (hctx HostedSeatKind (Some ''p'') 5) = HostedOk [e] None None \<and>
     reduceHostedAuthority (Some sample_hosted) e = Inr t \<and> obj_get (ha_seats t) ''t'' = Some seat \<and>
     hs_revoked_at seat = Some 5 \<and> ha_principals t = ha_principals sample_hosted"
proof -
  have f: "facts_agree (Some sample_hosted) (ReleaseSeat ''g'' ''t'')
      (hfacts (Some sample_gf) (Some sample_seat), hctx HostedSeatKind (Some ''p'') 5)"
    by (simp add: facts_agree_def seat_agrees_def hfacts_def)
  obtain t where t: "reduceHostedAuthority (Some sample_hosted) (hosted_event (hctx HostedSeatKind (Some ''p'') 5)
      SeatReleased (no_hosted_fields\<lparr>h_grant_id := Some ''g'', h_seat_id := Some ''t'', h_principal_id := Some ''p'',
        h_released_at := Some 5\<rparr>)) = Inr t"
    by (simp add: released_effect)
  from release_ends_one_seat[OF sample_release f t] sample_release t show ?thesis by (auto simp: f)
qed

text \<open>
  The hosted reducer does not halt on an event type it does not know: an event of any other type
  that names a known seat and a \<open>revoked_at\<close> folds as the revocation of that seat and its principal.
\<close>

theorem unknown_hosted_type_revokes:
  assumes "hosted_ok s" and "obj_get (ha_seats s) sid = Some seat"
    and "ev_type env = OtherHostedEvent ty" and "ev_schema_version env = SCHEMA_VERSION"
    and "ev_payload env = Fields p" and "h_seat_id p = Some sid" and "h_revoked_at p = Some n"
  shows "\<exists>t seat' prin. reduceHostedAuthority (Some s) env = Inr t \<and>
    obj_get (ha_seats t) sid = Some seat' \<and> hs_revoked_at seat' = Some n \<and>
    obj_get (ha_principals t) (hs_principal_id seat) = Some prin \<and> hp_revoked_at prin = Some n"
proof -
  from hosted_okD(3)[OF assms(1,2)] obtain q where "obj_get (ha_principals s) (hs_principal_id seat) = Some q" ..
  with assms show ?thesis
    by (simp add: reduceHostedAuthority_def ha_seat_revoked_def requiredPayload_def Let_def)
qed

theorem unknown_hosted_type_revokes_witness:
  "\<exists>t prin. reduceHostedAuthority (Some sample_hosted) ((hosted_event (hctx HumanKind None 6) SeatRevoked
      (no_hosted_fields\<lparr>h_seat_id := Some ''t'', h_revoked_at := Some 6\<rparr>))
        \<lparr>ev_type := OtherHostedEvent ''HostedMcpSeatPaused''\<rparr>) = Inr t \<and>
    obj_get (ha_principals t) ''p'' = Some prin \<and> hp_revoked_at prin = Some 6"
proof -
  have "hosted_ok sample_hosted"
    by (auto simp: hosted_ok_def sample_hosted_def obj_get_def sample_grant_row_def seat_ok_def sample_seat_def
        claimed_seat_def sample_claim_fields_def seat_principal_def)
  from unknown_hosted_type_revokes[OF this, of "''t''" sample_seat "(hosted_event (hctx HumanKind None 6) SeatRevoked
      (no_hosted_fields\<lparr>h_seat_id := Some ''t'', h_revoked_at := Some 6\<rparr>))
        \<lparr>ev_type := OtherHostedEvent ''HostedMcpSeatPaused''\<rparr>" "''HostedMcpSeatPaused''"
      "no_hosted_fields\<lparr>h_seat_id := Some ''t'', h_revoked_at := Some 6\<rparr>" 6]
  show ?thesis by (auto simp: hosted_event_def)
qed

end
