(* ===== verification/IsoDate.thy ===== *)
theory IsoDate
  imports JsText
begin

text \<open>
  Time values of ECMAScript as the code uses them: \<open>Date.parse\<close> on the ISO format with a zone,
  \<open>toISOString\<close>, and the civil calendar both rest on. A time value is an integer of milliseconds;
  \<open>NaN\<close> is \<open>None\<close>. What \<open>Date.parse\<close> makes of any other text is implementation-defined: the
  parameter \<open>other\<close>.
\<close>

section \<open>Decimal digits\<close>

definition digit :: "nat \<Rightarrow> bool" where
  "digit c \<longleftrightarrow> 48 \<le> c \<and> c \<le> 57"

fun digits :: "nat \<Rightarrow> nat \<Rightarrow> jstext" where
  "digits 0 n = []"
| "digits (Suc w) n = digits w (n div 10) @ [48 + n mod 10]"

definition num_of :: "jstext \<Rightarrow> nat" where
  "num_of ds = foldl (\<lambda>a c. 10 * a + (c - 48)) 0 ds"

lemma length_digits [simp]: "length (digits w n) = w"
  by (induction w arbitrary: n) auto

lemma digits_digit: "\<forall>c \<in> set (digits w n). digit c"
  by (induction w arbitrary: n) (auto simp: digit_def)

lemma num_of_Nil [simp]: "num_of [] = 0"
  by (simp add: num_of_def)

lemma num_of_snoc [simp]: "num_of (ds @ [c]) = 10 * num_of ds + (c - 48)"
  by (simp add: num_of_def)

lemma num_of_digits [simp]: "n < 10 ^ w \<Longrightarrow> num_of (digits w n) = n"
proof (induction w arbitrary: n)
  case (Suc w)
  then have "n div 10 < 10 ^ w" by (simp add: less_mult_imp_div_less mult.commute)
  with Suc.IH show ?case by simp
qed simp

lemma num_of_bound: "\<forall>c \<in> set ds. digit c \<Longrightarrow> num_of ds < 10 ^ length ds"
proof (induction ds rule: rev_induct)
  case (snoc c ds)
  then have "num_of ds + 1 \<le> 10 ^ length ds" "c - 48 \<le> 9" by (auto simp: digit_def)
  then show ?case by simp
qed simp

lemma digits_num_of: "\<forall>c \<in> set ds. digit c \<Longrightarrow> digits (length ds) (num_of ds) = ds"
proof (induction ds rule: rev_induct)
  case (snoc c ds)
  then obtain k where "c = 48 + k" "k < 10" by (auto simp: digit_def le_iff_add)
  with snoc show ?case by simp
qed simp

section \<open>The civil calendar\<close>

definition leap_year :: "int \<Rightarrow> bool" where
  "leap_year y \<longleftrightarrow> (y mod 4 = 0 \<and> y mod 100 \<noteq> 0) \<or> y mod 400 = 0"

definition DayFromYear :: "int \<Rightarrow> int" where
  "DayFromYear y = 365 * (y - 1970) + (y - 1969) div 4 - (y - 1901) div 100 + (y - 1601) div 400"

definition month_days :: "bool \<Rightarrow> nat list" where
  "month_days lp = [31, if lp then 29 else 28, 31, 30, 31, 30, 31, 31, 30, 31, 30, 31]"

text \<open>The largest year whose first day is not after the given day: an estimate, off by one at most.\<close>

definition YearFromDay :: "int \<Rightarrow> int" where
  "YearFromDay d = (let y = 1970 + d * 400 div 146097 in
     if d < DayFromYear y then y - 1 else if DayFromYear (y + 1) \<le> d then y + 1 else y)"

fun split_day :: "nat list \<Rightarrow> nat \<Rightarrow> nat \<times> nat" where
  "split_day [] d = (0, d)"
| "split_day (n # ns) d = (if d < n then (0, d) else (case split_day ns (d - n) of (m, r) \<Rightarrow> (Suc m, r)))"

definition real_date :: "int \<Rightarrow> nat \<Rightarrow> nat \<Rightarrow> bool" where
  "real_date y m d \<longleftrightarrow> 1 \<le> m \<and> m \<le> 12 \<and> 1 \<le> d \<and> d \<le> month_days (leap_year y) ! (m - 1)"

definition days_of_civil :: "int \<Rightarrow> nat \<Rightarrow> nat \<Rightarrow> int" where
  "days_of_civil y m d = DayFromYear y + int (sum_list (take (m - 1) (month_days (leap_year y))) + (d - 1))"

definition civil_of_days :: "int \<Rightarrow> int \<times> nat \<times> nat" where
  "civil_of_days n = (let y = YearFromDay n in
     case split_day (month_days (leap_year y)) (nat (n - DayFromYear y)) of (m, r) \<Rightarrow> (y, Suc m, Suc r))"

lemma div_Suc_int:
  assumes "0 < (k::int)"
  shows "(a + 1) div k = a div k + (if (a + 1) mod k = 0 then 1 else 0)"
proof -
  let ?q = "a div k" and ?r = "a mod k"
  have a: "a = k * ?q + ?r" and r: "0 \<le> ?r" "?r < k" using assms by simp_all
  show ?thesis
  proof (cases "?r = k - 1")
    case True
    then have e: "a + 1 = k * (?q + 1) + 0" using a unfolding distrib_left by linarith
    show ?thesis using int_div_pos_eq[OF e _ assms] int_mod_pos_eq[OF e _ assms] by simp
  next
    case False
    then have e: "a + 1 = k * ?q + (?r + 1)" and b: "0 \<le> ?r + 1" "?r + 1 < k" using a r by simp_all
    show ?thesis using int_div_pos_eq[OF e b] int_mod_pos_eq[OF e b] r by simp
  qed
qed

lemma div_bounds_int:
  assumes "0 < (k::int)"
  shows "k * (a div k) \<le> a" "a < k * (a div k) + k"
proof -
  have "a = k * (a div k) + a mod k" "0 \<le> a mod k" "a mod k < k" using assms by simp_all
  then show "k * (a div k) \<le> a" "a < k * (a div k) + k" by linarith+
qed

lemma mod_shift_int: "(y - k * c) mod k = y mod (k :: int)"
  using mod_mult_self2[of y k "- c"] by simp

lemma DayFromYear_Suc: "DayFromYear (y + 1) = DayFromYear y + (if leap_year y then 366 else 365)"
proof -
  have s: "y - 1969 + 1 = y - 4 * 492" "y - 1901 + 1 = y - 100 * 19" "y - 1601 + 1 = y - 400 * 4" by simp_all
  note m = mod_shift_int[of y 4 492, folded s] mod_shift_int[of y 100 19, folded s] mod_shift_int[of y 400 4, folded s]
  note d = div_Suc_int[of 4 "y - 1969", OF zero_less_numeral, unfolded m]
    div_Suc_int[of 100 "y - 1901", OF zero_less_numeral, unfolded m]
    div_Suc_int[of 400 "y - 1601", OF zero_less_numeral, unfolded m]
  have e: "y + 1 - 1970 = (y - 1970) + 1" "y + 1 - 1969 = y - 1969 + 1" "y + 1 - 1901 = y - 1901 + 1"
    "y + 1 - 1601 = y - 1601 + 1" by simp_all
  have "y mod 100 = 0 \<Longrightarrow> y mod 4 = 0" "y mod 400 = 0 \<Longrightarrow> y mod 100 = 0"
    using mod_mod_cancel[of 4 100 y] mod_mod_cancel[of 100 400 y] by simp_all
  then show ?thesis unfolding DayFromYear_def leap_year_def e d distrib_left
    by (cases "y mod 4 = 0"; cases "y mod 100 = 0"; cases "y mod 400 = 0") simp_all
qed

lemma DayFromYear_bounds:
  "146097 * (y - 1970) - 592 \<le> 400 * DayFromYear y" "400 * DayFromYear y \<le> 146097 * (y - 1970) + 592"
proof -
  define p where "p = (y - 1969) div 4"
  define q where "q = (y - 1901) div 100"
  define r where "r = (y - 1601) div 400"
  have "4 * p \<le> y - 1969" "y - 1969 \<le> 4 * p + 3" unfolding p_def
    using div_bounds_int[of 4 "y - 1969"] by simp_all
  moreover have "100 * q \<le> y - 1901" "y - 1901 \<le> 100 * q + 99" unfolding q_def
    using div_bounds_int[of 100 "y - 1901"] by simp_all
  moreover have "400 * r \<le> y - 1601" "y - 1601 \<le> 400 * r + 399" unfolding r_def
    using div_bounds_int[of 400 "y - 1601"] by simp_all
  moreover have "DayFromYear y = 365 * (y - 1970) + p - q + r"
    by (simp add: DayFromYear_def p_def q_def r_def)
  ultimately show "146097 * (y - 1970) - 592 \<le> 400 * DayFromYear y"
    and "400 * DayFromYear y \<le> 146097 * (y - 1970) + 592" by simp_all
qed

lemma YearFromDay:
  "DayFromYear (YearFromDay d) \<le> d" "d < DayFromYear (YearFromDay d + 1)"
proof -
  define y where "y = 1970 + d * 400 div 146097"
  have e: "146097 * (y - 1970) \<le> 400 * d" "400 * d < 146097 * (y - 1970) + 146097"
    unfolding y_def using div_bounds_int[of 146097 "d * 400"] by simp_all
  have "DayFromYear (y - 1) \<le> d" using e(1) DayFromYear_bounds(2)[of "y - 1"] by simp
  moreover have "d < DayFromYear (y + 2)" using e(2) DayFromYear_bounds(1)[of "y + 2"] by simp
  ultimately show "DayFromYear (YearFromDay d) \<le> d" "d < DayFromYear (YearFromDay d + 1)"
    unfolding YearFromDay_def y_def[symmetric] Let_def by (auto simp: algebra_simps)
qed

lemma YearFromDay_unique:
  assumes "DayFromYear y \<le> d" and "d < DayFromYear (y + 1)"
  shows "YearFromDay d = y"
proof -
  have mono: "DayFromYear a + 365 * int n \<le> DayFromYear (a + int n)" for a n
  proof (induction n)
    case (Suc n)
    then show ?case using DayFromYear_Suc[of "a + int n"] by (simp add: algebra_simps split: if_split_asm)
  qed simp
  have less: "DayFromYear a \<le> d \<Longrightarrow> d < DayFromYear (b + 1) \<Longrightarrow> a \<le> b" for a b
    using mono[of "b + 1" "nat (a - b - 1)"] by (cases "a \<le> b") auto
  show ?thesis using less[OF YearFromDay(1) assms(2)] less[OF assms(1) YearFromDay(2)] by simp
qed

lemma split_day_spec:
  "d < sum_list ns \<Longrightarrow> split_day ns d = (m, r) \<Longrightarrow>
    m < length ns \<and> r < ns ! m \<and> d = sum_list (take m ns) + r"
  by (induction ns d arbitrary: m r rule: split_day.induct)
    (fastforce split: if_split_asm prod.split_asm)+

lemma split_day_inverse:
  "m < length ns \<Longrightarrow> r < ns ! m \<Longrightarrow> split_day ns (sum_list (take m ns) + r) = (m, r)"
proof (induction ns arbitrary: m)
  case (Cons n ns)
  then show ?case by (cases m) (simp_all add: add.assoc)
qed simp

lemma sum_month_days [simp]: "sum_list (month_days lp) = (if lp then 366 else 365)"
  and length_month_days [simp]: "length (month_days lp) = 12"
  by (simp_all add: month_days_def)

lemma civil_of_days:
  assumes "civil_of_days n = (y, m, d)"
  shows "real_date y m d" and "days_of_civil y m d = n" and "y = YearFromDay n"
proof -
  let ?y = "YearFromDay n"
  let ?ns = "month_days (leap_year ?y)"
  obtain k r where s: "split_day ?ns (nat (n - DayFromYear ?y)) = (k, r)" by fastforce
  have e: "y = ?y" "m = Suc k" "d = Suc r" using assms s by (simp_all add: civil_of_days_def)
  have "nat (n - DayFromYear ?y) < sum_list ?ns"
    using YearFromDay[of n] DayFromYear_Suc[of ?y] by (auto simp: nat_less_iff)
  from split_day_spec[OF this s]
  have k: "k < 12" "r < ?ns ! k" "nat (n - DayFromYear ?y) = sum_list (take k ?ns) + r" by simp_all
  show "y = YearFromDay n" by (fact e(1))
  show "real_date y m d" using k e by (simp add: real_date_def)
  show "days_of_civil y m d = n" using k(3) e YearFromDay(1)[of n] by (simp add: days_of_civil_def)
qed

lemma civil_of_days_of_civil:
  assumes "real_date y m d"
  shows "civil_of_days (days_of_civil y m d) = (y, m, d)"
proof -
  let ?ns = "month_days (leap_year y)"
  obtain i j where e: "m = Suc i" "d = Suc j" and i: "i < length ?ns" and j: "j < ?ns ! i"
    using assms by (cases m; cases d) (auto simp: real_date_def)
  have "sum_list (take i ?ns) + ?ns ! i \<le> sum_list ?ns"
    using i by (metis append_take_drop_id Cons_nth_drop_Suc sum_list.append
        sum_list.Cons add_left_mono le_add1)
  with j have "sum_list (take i ?ns) + j < (if leap_year y then 366 else 365)"
    unfolding sum_month_days[symmetric] by linarith
  then have "YearFromDay (days_of_civil y m d) = y"
    by (intro YearFromDay_unique) (auto simp: e days_of_civil_def DayFromYear_Suc split: if_split_asm)
  moreover have "nat (days_of_civil y m d - DayFromYear y) = sum_list (take i ?ns) + j"
    by (simp add: days_of_civil_def e)
  ultimately show ?thesis using split_day_inverse[OF i j] by (simp add: civil_of_days_def e)
qed

section \<open>\<open>toISOString\<close>\<close>

text \<open>\<open>Math.trunc\<close>.\<close>

definition js_trunc :: "number \<Rightarrow> int" where
  "js_trunc r = (if 0 \<le> r then \<lfloor>r\<rfloor> else \<lceil>r\<rceil>)"

lemma js_trunc_of_int [simp]: "js_trunc (of_int t) = t"
  by (simp add: js_trunc_def)

datatype date_error = DateRangeError

definition max_time :: int where "max_time = 8640000000000000"

definition iso_year :: "int \<Rightarrow> jstext" where
  "iso_year y = (if 0 \<le> y \<and> y \<le> 9999 then digits 4 (nat y)
     else (if y < 0 then 45 else 43) # digits 6 (nat \<bar>y\<bar>))"

definition iso_text :: "int \<Rightarrow> jstext" where
  "iso_text t = (case civil_of_days (t div 86400000) of (y, m, d) \<Rightarrow>
     let r = nat (t mod 86400000) in
     iso_year y @ 45 # digits 2 m @ 45 # digits 2 d @ 84 # digits 2 (r div 3600000) @
     58 # digits 2 (r div 60000 mod 60) @ 58 # digits 2 (r div 1000 mod 60) @
     46 # digits 3 (r mod 1000) @ [90])"

definition toISOString :: "int \<Rightarrow> date_error + jstext" where
  "toISOString t = (if \<bar>t\<bar> \<le> max_time then Inr (iso_text t) else Inl DateRangeError)"

section \<open>\<open>Date.parse\<close> on the ISO format\<close>

definition take_num :: "nat \<Rightarrow> jstext \<Rightarrow> (nat \<times> jstext) option" where
  "take_num w s = (if w \<le> length s \<and> list_all digit (take w s)
     then Some (num_of (take w s), drop w s) else None)"

fun take_unit :: "nat \<Rightarrow> jstext \<Rightarrow> jstext option" where
  "take_unit c [] = None"
| "take_unit c (d # s) = (if d = c then Some s else None)"

text \<open>The fraction of a second, in milliseconds, and the rest.\<close>

definition take_millis :: "jstext \<Rightarrow> (nat \<times> jstext) option" where
  "take_millis s = (case take_unit 46 s of None \<Rightarrow> Some (0, s)
     | Some r \<Rightarrow> let ds = takeWhile digit r in
         if ds \<noteq> [] \<and> length ds \<le> 3 then Some (num_of ds * 10 ^ (3 - length ds), dropWhile digit r) else None)"

text \<open>The zone, in minutes east of Greenwich.\<close>

definition zone_minutes :: "jstext \<Rightarrow> int option" where
  "zone_minutes s = (if s = [90] then Some 0
     else Option.bind (take_num 2 (drop 1 s)) (\<lambda>(h, r). Option.bind (take_unit 58 r) (\<lambda>r.
       Option.bind (take_num 2 r) (\<lambda>(m, r).
         if h \<le> 23 \<and> m \<le> 59 \<and> r = [] then
           (if hd s = 43 then Some (int (60 * h + m)) else if hd s = 45 then Some (- int (60 * h + m)) else None)
         else None))))"

definition take_date :: "jstext \<Rightarrow> ((nat \<times> nat \<times> nat) \<times> jstext) option" where
  "take_date s =
     Option.bind (take_num 4 s) (\<lambda>(y, s). Option.bind (take_unit 45 s) (\<lambda>s.
     Option.bind (take_num 2 s) (\<lambda>(m, s). Option.bind (take_unit 45 s) (\<lambda>s.
     Option.bind (take_num 2 s) (\<lambda>(d, s). Some ((y, m, d), s))))))"

text \<open>\<open>T\<close>, hours below 24, minutes and seconds: milliseconds since midnight.\<close>

definition take_clock :: "jstext \<Rightarrow> (nat \<times> jstext) option" where
  "take_clock s = Option.bind (take_unit 84 s) (\<lambda>s.
     Option.bind (take_num 2 s) (\<lambda>(h, s). Option.bind (take_unit 58 s) (\<lambda>s.
     Option.bind (take_num 2 s) (\<lambda>(mi, s). Option.bind (take_unit 58 s) (\<lambda>s.
     Option.bind (take_num 2 s) (\<lambda>(se, s). Option.bind (take_millis s) (\<lambda>(ms, s).
       if h \<le> 23 \<and> mi \<le> 59 \<and> se \<le> 59 then Some (h * 3600000 + mi * 60000 + se * 1000 + ms, s) else None)))))))"

definition iso_value :: "jstext \<Rightarrow> int option" where
  "iso_value s = Option.bind (take_date s) (\<lambda>((y, m, d), s). Option.bind (take_clock s) (\<lambda>(c, s).
     Option.bind (zone_minutes s) (\<lambda>z.
       if real_date (int y) m d then Some (days_of_civil (int y) m d * 86400000 + int c - z * 60000) else None)))"

text \<open>A time value is in the range of \<open>Date\<close>: \<open>toISOString\<close> never throws on it.\<close>

definition time_clip :: "int option \<Rightarrow> int option" where
  "time_clip t = (case t of None \<Rightarrow> None | Some i \<Rightarrow> if \<bar>i\<bar> \<le> max_time then Some i else None)"

definition date_parse :: "(jstext \<Rightarrow> int option) \<Rightarrow> jstext \<Rightarrow> int option" where
  "date_parse other s = (case iso_value s of Some t \<Rightarrow> Some t | None \<Rightarrow> time_clip (other s))"

section \<open>Round trip\<close>

text \<open>The times whose year has four digits.\<close>

definition iso_range :: "int \<Rightarrow> bool" where
  "iso_range t \<longleftrightarrow> - 62167219200000 \<le> t \<and> t \<le> 253402300799999"

lemma take_num_digits [simp]: "n < 10 ^ w \<Longrightarrow> take_num w (digits w n @ s) = Some (n, s)"
  by (simp add: take_num_def digits_digit list_all_iff)

lemma digit_90 [simp]: "\<not> digit 90"
  by (simp add: digit_def)

lemma take_millis_digits: "n < 1000 \<Longrightarrow> take_millis (46 # digits 3 n @ [90]) = Some (n, [90])"
  by (simp add: take_millis_def Let_def digits_digit del: digits.simps)
    (use length_digits[of 3 n] in fastforce)

lemma take_date_digits:
  "y < 10000 \<Longrightarrow> m < 100 \<Longrightarrow> d < 100 \<Longrightarrow>
    take_date (digits 4 y @ 45 # digits 2 m @ 45 # digits 2 d @ s) = Some ((y, m, d), s)"
  by (simp add: take_date_def)

lemma real_date_small:
  assumes "real_date y m d"
  shows "m < 100 \<and> d < 100"
proof -
  have "month_days lp ! k \<le> 31" if "k < 12" for lp k
    using that by (auto simp: month_days_def nth_Cons' )
  from this[of "m - 1" "leap_year y"] assms show ?thesis
    by (cases m) (auto simp: real_date_def intro: le_less_trans)
qed

lemma clock_parts:
  assumes "r < 86400000"
  shows "r div 3600000 \<le> 23" "r div 60000 mod 60 \<le> 59" "r div 1000 mod 60 \<le> 59"
    "r div 3600000 * 3600000 + r div 60000 mod 60 * 60000 + r div 1000 mod 60 * 1000 + r mod 1000 = (r :: nat)"
proof -
  have a: "r div 60000 = r div 1000 div 60" "r div 3600000 = r div 1000 div 60 div 60"
    by (simp_all add: div_mult2_eq[symmetric])
  let ?s = "r div 1000"
  have "r = 1000 * ?s + r mod 1000" "?s = 60 * (?s div 60) + ?s mod 60"
    "?s div 60 = 60 * (?s div 60 div 60) + ?s div 60 mod 60" by simp_all
  then show "r div 3600000 * 3600000 + r div 60000 mod 60 * 60000 + r div 1000 mod 60 * 1000 + r mod 1000 = r"
    unfolding a by linarith
  show "r div 3600000 \<le> 23" using assms by (simp add: div_le_dividend less_Suc_eq_le[symmetric] less_mult_imp_div_less)
qed simp_all

lemma take_clock_digits:
  assumes "h \<le> 23" and "mi \<le> 59" and "se \<le> 59" and "ms < 1000"
  shows "take_clock (84 # digits 2 h @ 58 # digits 2 mi @ 58 # digits 2 se @ 46 # digits 3 ms @ [90]) =
    Some (h * 3600000 + mi * 60000 + se * 1000 + ms, [90])"
  using assms by (simp add: take_clock_def take_millis_digits del: digits.simps)

lemma iso_range_year:
  assumes "iso_range t"
  shows "0 \<le> YearFromDay (t div 86400000)" "YearFromDay (t div 86400000) \<le> 9999"
proof -
  let ?d = "t div 86400000"
  have d: "DayFromYear 0 \<le> ?d" "?d < DayFromYear 10000"
    using assms div_bounds_int[of 86400000 t] by (simp_all add: iso_range_def DayFromYear_def)
  have mono: "a \<le> b \<Longrightarrow> DayFromYear a \<le> DayFromYear b" for a b
    by (induction b rule: int_ge_induct) (auto simp: DayFromYear_Suc)
  show "0 \<le> YearFromDay ?d"
    using YearFromDay(2)[of ?d] d(1) mono[of "YearFromDay ?d + 1" 0] by (cases "0 \<le> YearFromDay ?d") auto
  show "YearFromDay ?d \<le> 9999"
    using YearFromDay(1)[of ?d] d(2) mono[of 10000 "YearFromDay ?d"] by (cases "YearFromDay ?d \<le> 9999") auto
qed

lemma iso_roundtrip:
  assumes "iso_range t"
  shows "iso_value (iso_text t) = Some t"
proof -
  obtain y m d where c: "civil_of_days (t div 86400000) = (y, m, d)" by (metis prod_cases3)
  define r where "r = nat (t mod 86400000)"
  have "r < 86400000" by (simp add: r_def nat_less_iff)
  note cl = clock_parts[OF this]
  note civ = civil_of_days[OF c]
  have y: "0 \<le> y" "y \<le> 9999" using iso_range_year[OF assms] civ(3) by simp_all
  have shape: "iso_text t = digits 4 (nat y) @ 45 # digits 2 m @ 45 # digits 2 d @ 84 #
      digits 2 (r div 3600000) @ 58 # digits 2 (r div 60000 mod 60) @ 58 # digits 2 (r div 1000 mod 60) @
      46 # digits 3 (r mod 1000) @ [90]"
    using y by (simp add: iso_text_def c r_def Let_def iso_year_def del: digits.simps)
  have "t = t div 86400000 * 86400000 + int r" by (simp add: r_def)
  moreover have "take_date (iso_text t) = Some ((nat y, m, d), 84 #
      digits 2 (r div 3600000) @ 58 # digits 2 (r div 60000 mod 60) @ 58 # digits 2 (r div 1000 mod 60) @
      46 # digits 3 (r mod 1000) @ [90])"
    unfolding shape using real_date_small[OF civ(1)] y by (intro take_date_digits) simp_all
  ultimately show ?thesis
    using take_clock_digits[OF cl(1,2,3), of "r mod 1000"] civ(1,2) y cl(4)
    by (simp add: iso_value_def zone_minutes_def del: digits.simps)
qed

lemma date_parse_iso [simp]: "iso_range t \<Longrightarrow> date_parse other (iso_text t) = Some t"
  by (simp add: date_parse_def iso_roundtrip)

end
