(* ===== verification/HostedCheck.thy ===== *)
theory HostedCheck
  imports HostedAuthority IsoDate
begin

text \<open>
  The hosted check of \<open>src/protocol/hosted-check.ts\<close>: a seat reads its signals in batches, one at a
  time, and acknowledging a batch moves its cursor. \<open>localeCompare\<close> and what \<open>Date.parse\<close> makes of
  text outside the ISO format depend on the JavaScript host: \<open>js_host\<close>. \<open>Array.prototype.sort\<close> is a
  stable sort that reads a \<open>NaN\<close> comparison as equal; which elements it compares first can only
  decide which of two equal errors is thrown.
\<close>

section \<open>Data\<close>

definition HOSTED_CHECK_BATCH_LIMIT :: nat where "HOSTED_CHECK_BATCH_LIMIT = 50"

record js_host =
  jh_parse :: "jstext \<Rightarrow> int option"
  jh_compare :: "string \<Rightarrow> string \<Rightarrow> int"

record check_cursor =
  cc_created_at :: jstext
  cc_signal_id :: string

record check_batch =
  cb_batch_id :: string
  cb_seat_id :: string
  cb_grant_id :: string
  cb_workspace_id :: string
  cb_signal_ids :: "string list"
  cb_terminal_cursor :: check_cursor
  cb_acknowledged :: bool

datatype check_command =
    OpenBatch (chk_seat: string) (chk_grant: string) (chk_workspace: string)
  | AckBatch (chk_seat: string) (chk_grant: string) (chk_workspace: string) string

record check_facts =
  cf_credential_kind :: hosted_credential_kind
  cf_seat_id :: string
  cf_grant_id :: string
  cf_workspace_id :: string
  cf_committed_cursor :: "check_cursor option"
  cf_active_batch :: "check_batch option"
  cf_requested_batch :: "check_batch option"
  cf_candidates :: "check_cursor list"
  cf_next_batch_id :: string

datatype check_refusal = CredentialKindForbidden | CheckBatchForbidden

datatype check_decision =
    CheckRefused check_refusal
  | CheckOk (ck_acknowledge: "string option") (ck_advance: "check_cursor option")
      (ck_create: "check_batch option") (ck_return: "check_batch option")

datatype check_error = InvalidCheckTimestamp | CheckDateError date_error

section \<open>Timestamps and the cursor order\<close>

text \<open>The argument of \<open>hostedCheckMillisecondTimestamp\<close>: a string, a number or a \<open>Date\<close>.\<close>

datatype time_input = TimeText jstext | TimeNumber jsnum | TimeDate "int option"

definition time_number :: "int option \<Rightarrow> jsnum" where
  "time_number t = (case t of None \<Rightarrow> NaN | Some i \<Rightarrow> Fin (of_int i))"

definition hostedCheckMillisecondTimestamp :: "js_host \<Rightarrow> time_input \<Rightarrow> check_error + jstext" where
  "hostedCheckMillisecondTimestamp js value =
     (let milliseconds = (case value of TimeDate t \<Rightarrow> time_number t | TimeNumber n \<Rightarrow> n
         | TimeText s \<Rightarrow> time_number (date_parse (jh_parse js) s)) in
      if \<not> is_finite milliseconds then Inl InvalidCheckTimestamp
      else (case toISOString (js_trunc (finite_value milliseconds)) of
              Inl e \<Rightarrow> Inl (CheckDateError e) | Inr s \<Rightarrow> Inr s))"

text \<open>The difference of two \<open>Date.parse\<close> values is \<open>None\<close> when it is \<open>NaN\<close>.\<close>

definition compareHostedCheckCursor :: "js_host \<Rightarrow> check_cursor \<Rightarrow> check_cursor \<Rightarrow> check_error + int option" where
  "compareHostedCheckCursor js left right =
     bind_result (hostedCheckMillisecondTimestamp js (TimeText (cc_created_at left))) (\<lambda>l.
     bind_result (hostedCheckMillisecondTimestamp js (TimeText (cc_created_at right))) (\<lambda>r.
     Inr (case (date_parse (jh_parse js) l, date_parse (jh_parse js) r) of
            (Some a, Some b) \<Rightarrow>
              if a - b = 0 then Some (jh_compare js (cc_signal_id left) (cc_signal_id right))
              else Some (sgn (a - b))
          | _ \<Rightarrow> None)))"

definition cursor_after :: "js_host \<Rightarrow> check_cursor \<Rightarrow> check_cursor \<Rightarrow> check_error + bool" where
  "cursor_after js left right =
     bind_result (compareHostedCheckCursor js left right) (\<lambda>c. Inr (case c of None \<Rightarrow> False | Some d \<Rightarrow> 0 < d))"

section \<open>The decision\<close>

definition sameAuthority :: "check_batch \<Rightarrow> check_facts \<Rightarrow> bool" where
  "sameAuthority value facts \<longleftrightarrow> cb_seat_id value = cf_seat_id facts \<and>
     cb_grant_id value = cf_grant_id facts \<and> cb_workspace_id value = cf_workspace_id facts"

text \<open>\<open>toLowerCase\<close> on characters below 256.\<close>

definition lower_char :: "char \<Rightarrow> char" where
  "lower_char c = (let n = of_char c :: nat in
     if (65 \<le> n \<and> n \<le> 90) \<or> (192 \<le> n \<and> n \<le> 222 \<and> n \<noteq> 215) then char_of (n + 32) else c)"

definition canonicalBatchId :: "string \<Rightarrow> string" where
  "canonicalBatchId s = map lower_char s"

fun collect_candidates ::
  "js_host \<Rightarrow> check_cursor option \<Rightarrow> check_cursor obj \<Rightarrow> check_cursor list \<Rightarrow> check_error + check_cursor obj" where
  "collect_candidates js cursor byId [] = Inr byId"
| "collect_candidates js cursor byId (candidate # cs) =
     bind_result (hostedCheckMillisecondTimestamp js (TimeText (cc_created_at candidate))) (\<lambda>created.
     let normalized = \<lparr>cc_created_at = created, cc_signal_id = cc_signal_id candidate\<rparr> in
     bind_result (case cursor of None \<Rightarrow> Inr True | Some c \<Rightarrow> cursor_after js normalized c) (\<lambda>keep.
     collect_candidates js cursor
       (if keep then obj_put byId (cc_signal_id normalized) normalized else byId) cs))"

fun sort_insert :: "js_host \<Rightarrow> check_cursor \<Rightarrow> check_cursor list \<Rightarrow> check_error + check_cursor list" where
  "sort_insert js x [] = Inr [x]"
| "sort_insert js x (y # ys) = bind_result (cursor_after js x y) (\<lambda>a.
     if a then bind_result (sort_insert js x ys) (\<lambda>zs. Inr (y # zs)) else Inr (x # y # ys))"

fun sort_candidates :: "js_host \<Rightarrow> check_cursor list \<Rightarrow> check_error + check_cursor list" where
  "sort_candidates js [] = Inr []"
| "sort_candidates js (x # xs) = bind_result (sort_candidates js xs) (sort_insert js x)"

definition normalizedCandidates ::
  "js_host \<Rightarrow> check_cursor list \<Rightarrow> check_cursor option \<Rightarrow> check_error + check_cursor list" where
  "normalizedCandidates js candidates cursor =
     bind_result (collect_candidates js cursor [] candidates) (\<lambda>byId.
     bind_result (sort_candidates js (obj_values byId)) (\<lambda>sorted.
     Inr (take HOSTED_CHECK_BATCH_LIMIT sorted)))"

text \<open>The last part of the decision, once no batch is active: open the next one, if it has a signal.\<close>

definition open_next ::
  "js_host \<Rightarrow> check_facts \<Rightarrow> string option \<Rightarrow> check_cursor option \<Rightarrow> check_error + check_decision" where
  "open_next js facts ack advance =
     (let cursor = (case advance of Some c \<Rightarrow> Some c | None \<Rightarrow> cf_committed_cursor facts) in
      bind_result (normalizedCandidates js (cf_candidates facts) cursor) (\<lambda>candidates.
      if candidates = [] then Inr (CheckOk ack advance None None)
      else
        let batch = \<lparr>cb_batch_id = cf_next_batch_id facts, cb_seat_id = cf_seat_id facts,
              cb_grant_id = cf_grant_id facts, cb_workspace_id = cf_workspace_id facts,
              cb_signal_ids = map cc_signal_id candidates, cb_terminal_cursor = last candidates,
              cb_acknowledged = False\<rparr> in
        Inr (CheckOk ack advance (Some batch) (Some batch))))"

definition decideHostedCheck :: "js_host \<Rightarrow> check_command \<Rightarrow> check_facts \<Rightarrow> check_error + check_decision" where
  "decideHostedCheck js cmd facts =
     (let forbidden = Inr (CheckRefused CheckBatchForbidden);
          finish = (\<lambda>active ack advance. case active of
             Some batch \<Rightarrow> Inr (CheckOk ack advance None (Some batch))
           | None \<Rightarrow> open_next js facts ack advance) in
      if cf_credential_kind facts \<noteq> HostedSeatKind then Inr (CheckRefused CredentialKindForbidden)
      else if chk_seat cmd \<noteq> cf_seat_id facts \<or> chk_grant cmd \<noteq> cf_grant_id facts \<or>
          chk_workspace cmd \<noteq> cf_workspace_id facts then forbidden
      else if (case cf_active_batch facts of None \<Rightarrow> False | Some b \<Rightarrow> \<not> sameAuthority b facts) then forbidden
      else case cmd of
        OpenBatch _ _ _ \<Rightarrow> finish (cf_active_batch facts) None None
      | AckBatch _ _ _ batch_id \<Rightarrow>
          (case cf_requested_batch facts of
             None \<Rightarrow> forbidden
           | Some requested \<Rightarrow>
               if canonicalBatchId (cb_batch_id requested) \<noteq> canonicalBatchId batch_id \<or>
                  \<not> sameAuthority requested facts then forbidden
               else if cb_acknowledged requested then finish (cf_active_batch facts) None None
               else if (case cf_active_batch facts of None \<Rightarrow> True
                   | Some a \<Rightarrow> canonicalBatchId (cb_batch_id a) \<noteq> canonicalBatchId batch_id) then forbidden
               else bind_result (hostedCheckMillisecondTimestamp js
                       (TimeText (cc_created_at (cb_terminal_cursor requested)))) (\<lambda>created.
                 finish None (Some (canonicalBatchId (cb_batch_id requested)))
                   (Some \<lparr>cc_created_at = created,
                          cc_signal_id = cc_signal_id (cb_terminal_cursor requested)\<rparr>))))"

end
