(* ===== verification/JsSort.thy ===== *)
theory JsSort
  imports Prelude "HOL-Library.List_Lexorder" "HOL-Library.Char_ord"
begin

text \<open>
  \<open>Array.prototype.sort\<close>: a stable sort, here by insertion, over the relation the comparator
  decides (\<open>before y x\<close> when the comparator of \<open>x\<close> and \<open>y\<close> is positive). The interface \<open>sort_order\<close> asks
  for a strict total order on the elements at hand and gives what a sort is used for: the result
  has the same elements, is the only sorted list of them, and can be cut into pages. It is
  interpreted for the order of the to-do queue; the hosted check uses it under the laws of
  \<open>localeCompare\<close>. Strings are compared by code units, as the linear order on \<open>string\<close>.
\<close>

fun ins :: "('a \<Rightarrow> 'a \<Rightarrow> bool) \<Rightarrow> 'a \<Rightarrow> 'a list \<Rightarrow> 'a list" where
  "ins before x [] = [x]"
| "ins before x (y # ys) = (if before y x then y # ins before x ys else x # y # ys)"

definition js_sort :: "('a \<Rightarrow> 'a \<Rightarrow> bool) \<Rightarrow> 'a list \<Rightarrow> 'a list" where
  "js_sort before xs = foldr (ins before) xs []"

lemma js_sort_simps [simp]:
  "js_sort before [] = []" "js_sort before (x # xs) = ins before x (js_sort before xs)"
  by (simp_all add: js_sort_def)

lemma set_ins [simp]: "set (ins before x xs) = insert x (set xs)"
  by (induction xs) auto

lemma length_ins [simp]: "length (ins before x xs) = Suc (length xs)"
  by (induction xs) auto

lemma distinct_ins [simp]: "distinct (ins before x xs) \<longleftrightarrow> x \<notin> set xs \<and> distinct xs"
  by (induction xs) auto

lemma set_js_sort [simp]: "set (js_sort before xs) = set xs"
  by (induction xs) auto

lemma length_js_sort [simp]: "length (js_sort before xs) = length xs"
  by (induction xs) auto

lemma distinct_js_sort [simp]: "distinct (js_sort before xs) \<longleftrightarrow> distinct xs"
  by (induction xs) auto

text \<open>Collecting keys in a dictionary: a key already present keeps its place.\<close>

definition add_key :: "'a \<Rightarrow> 'a list \<Rightarrow> 'a list" where
  "add_key x xs = (if x \<in> set xs then xs else xs @ [x])"

lemma set_add_keys: "set (fold add_key xs ys) = set xs \<union> set ys"
  by (induction xs arbitrary: ys) (auto simp: add_key_def)

lemma distinct_add_keys: "distinct ys \<Longrightarrow> distinct (fold add_key xs ys)"
  by (induction xs arbitrary: ys) (auto simp: add_key_def)

locale sort_order =
  fixes before :: "'a \<Rightarrow> 'a \<Rightarrow> bool" and carrier :: "'a set"
  assumes irrefl: "a \<in> carrier \<Longrightarrow> \<not> before a a"
    and trans: "a \<in> carrier \<Longrightarrow> b \<in> carrier \<Longrightarrow> c \<in> carrier \<Longrightarrow> before a b \<Longrightarrow> before b c \<Longrightarrow> before a c"
    and total: "a \<in> carrier \<Longrightarrow> b \<in> carrier \<Longrightarrow> a \<noteq> b \<Longrightarrow> before a b \<or> before b a"
begin

lemma asym: "a \<in> carrier \<Longrightarrow> b \<in> carrier \<Longrightarrow> before a b \<Longrightarrow> \<not> before b a"
  using irrefl trans by blast

lemma sorted_ins:
  "sorted_wrt before xs \<Longrightarrow> x \<in> carrier \<Longrightarrow> set xs \<subseteq> carrier \<Longrightarrow> x \<notin> set xs \<Longrightarrow>
    sorted_wrt before (ins before x xs)"
proof (induction xs)
  case (Cons y ys)
  show ?case
  proof (cases "before y x")
    case True
    then show ?thesis using Cons by auto
  next
    case False
    then have "before x y" using Cons.prems total[of x y] by auto
    then have "before x z" if "z \<in> set ys" for z
      using that Cons.prems trans[of x y z] by auto
    with False \<open>before x y\<close> Cons.prems(1) show ?thesis by auto
  qed
qed simp

lemma sorted_sort: "set xs \<subseteq> carrier \<Longrightarrow> distinct xs \<Longrightarrow> sorted_wrt before (js_sort before xs)"
  by (induction xs) (simp_all add: sorted_ins)

lemma sorted_distinct: "sorted_wrt before xs \<Longrightarrow> set xs \<subseteq> carrier \<Longrightarrow> distinct xs"
  by (induction xs) (auto dest: irrefl)

lemma sorted_unique:
  "sorted_wrt before xs \<Longrightarrow> sorted_wrt before ys \<Longrightarrow> set xs = set ys \<Longrightarrow> set xs \<subseteq> carrier \<Longrightarrow> xs = ys"
proof (induction xs arbitrary: ys)
  case (Cons x xs)
  obtain y zs where ys: "ys = y # zs" using Cons.prems(3) by (cases ys) auto
  have "x = y"
  proof (rule ccontr)
    assume "x \<noteq> y"
    then have "x \<in> set zs" "y \<in> set xs" using Cons.prems(3) ys by auto
    then have "before y x" "before x y" using Cons.prems(1,2) ys by auto
    moreover have "x \<in> carrier" "y \<in> carrier" using \<open>y \<in> set xs\<close> Cons.prems(4) by auto
    ultimately show False using asym by blast
  qed
  moreover have "x \<notin> set xs" "y \<notin> set zs"
    using sorted_distinct[OF Cons.prems(1,4)] sorted_distinct[OF Cons.prems(2)] Cons.prems(3,4) ys by auto
  ultimately have "set xs = set zs" using Cons.prems(3) ys by auto
  then have "xs = zs" using Cons.IH[of zs] Cons.prems ys by auto
  with ys \<open>x = y\<close> show ?case by simp
qed simp

lemma sort_filter:
  assumes "set xs \<subseteq> carrier" and "set ys = {x \<in> set xs. P x}" and "distinct xs" and "distinct ys"
  shows "js_sort before ys = filter P (js_sort before xs)"
  using assms by (intro sorted_unique sorted_sort sorted_wrt_filter) auto

lemma sorted_extend:
  assumes "sorted_wrt before xs" and "sorted_wrt before ys" and "set (xs @ ys) \<subseteq> carrier"
    and "xs \<noteq> [] \<Longrightarrow> \<forall>y \<in> set ys. before (last xs) y"
  shows "sorted_wrt before (xs @ ys)"
proof (cases "xs = []")
  case False
  then have xs: "xs = butlast xs @ [last xs]" by simp
  have "before x y" if "x \<in> set xs" "y \<in> set ys" for x y
  proof (cases "x = last xs")
    case True
    then show ?thesis using assms(4) False that by simp
  next
    case n: False
    then have "x \<in> set (butlast xs)" using that xs by (metis Un_iff set_append set_ConsD empty_iff empty_set)
    then have "before x (last xs)" using assms(1) xs by (metis sorted_wrt_append list.set_intros(1))
    moreover have "last xs \<in> carrier" "x \<in> carrier" "y \<in> carrier" using assms(3) False that by auto
    ultimately show ?thesis using trans assms(4) False that by blast
  qed
  then show ?thesis using assms(1,2) by (simp add: sorted_wrt_append)
qed (use assms in simp)

text \<open>What comes after the last element of the first page is the rest.\<close>

lemma after_page:
  assumes "sorted_wrt before xs" and "set xs \<subseteq> carrier" and "0 < n" and "n \<le> length xs"
  shows "filter (before (last (take n xs))) xs = drop n xs"
proof -
  let ?l = "last (take n xs)"
  have l: "?l = xs ! (n - 1)" "n - 1 < length xs" using assms(3,4)
    by (subst last_conv_nth, auto simp: min_absorb2)
  have "\<not> before ?l (xs ! i)" if "i < n" for i
  proof (cases "i = n - 1")
    case True
    moreover have "?l \<in> carrier" using l assms(2) nth_mem[OF l(2)] by (metis subsetD)
    ultimately show ?thesis using irrefl[of ?l] l(1) by simp
  next
    case False
    then have "before (xs ! i) ?l" using assms(1) l that by (auto simp: sorted_wrt_iff_nth_less)
    then show ?thesis using asym[of "xs ! i" ?l] assms(2,4) l that by (auto simp: subset_iff)
  qed
  then have "filter (before ?l) (take n xs) = []"
    by (auto simp: filter_empty_conv in_set_conv_nth)
  moreover have "filter (before ?l) (drop n xs) = drop n xs"
    using assms(1,3) l by (auto simp: filter_id_conv in_set_conv_nth sorted_wrt_iff_nth_less)
  ultimately show ?thesis by (metis append_take_drop_id filter_append append_Nil)
qed

end

end
