(* ===== verification/HostedCheckProperties.thy ===== *)
theory HostedCheckProperties
  imports HostedCheck JsSort
begin

text \<open>
  What the hosted check promises a seat: each batch is the next page of its signals, no signal is
  delivered twice, and a seat that keeps acknowledging receives all of them. \<open>tm\<close> gives the server's
  creation time of each signal, which never changes; \<open>signal_ok\<close> says that a candidate carries it.
\<close>

section \<open>The order of signals\<close>

text \<open>A UUID as the database prints it.\<close>

definition hex_char :: "char \<Rightarrow> bool" where
  "hex_char c \<longleftrightarrow> c \<in> set ''0123456789abcdef''"

definition canonical_uuid :: "string \<Rightarrow> bool" where
  "canonical_uuid s \<longleftrightarrow> length s = 36 \<and>
     (\<forall>i < 36. if i \<in> {8, 13, 18, 23} then s ! i = CHR ''-'' else hex_char (s ! i))"

text \<open>\<open>localeCompare\<close> is a consistent comparison, and tells distinct UUIDs apart.\<close>

definition uuid_collation :: "(string \<Rightarrow> string \<Rightarrow> int) \<Rightarrow> bool" where
  "uuid_collation lc \<longleftrightarrow> (\<forall>a b. canonical_uuid a \<and> canonical_uuid b \<longrightarrow>
     (lc a b = 0 \<longleftrightarrow> a = b) \<and> (0 < lc a b \<longleftrightarrow> lc b a < 0) \<and>
     (\<forall>c. canonical_uuid c \<and> lc a b < 0 \<and> lc b c < 0 \<longrightarrow> lc a c < 0))"

definition sig_less :: "js_host \<Rightarrow> (string \<Rightarrow> int) \<Rightarrow> string \<Rightarrow> string \<Rightarrow> bool" where
  "sig_less js tm a b \<longleftrightarrow> tm a < tm b \<or> (tm a = tm b \<and> jh_compare js a b < 0)"

definition good_id :: "(string \<Rightarrow> int) \<Rightarrow> string \<Rightarrow> bool" where
  "good_id tm i \<longleftrightarrow> canonical_uuid i \<and> iso_range (tm i)"

definition signal_ok :: "js_host \<Rightarrow> (string \<Rightarrow> int) \<Rightarrow> check_cursor \<Rightarrow> bool" where
  "signal_ok js tm c \<longleftrightarrow> good_id tm (cc_signal_id c) \<and>
     date_parse (jh_parse js) (cc_created_at c) = Some (tm (cc_signal_id c))"

definition cursor_of :: "(string \<Rightarrow> int) \<Rightarrow> string \<Rightarrow> check_cursor" where
  "cursor_of tm i = \<lparr>cc_created_at = iso_text (tm i), cc_signal_id = i\<rparr>"

lemma cursor_of_simps [simp]:
  "cc_created_at (cursor_of tm i) = iso_text (tm i)" "cc_signal_id (cursor_of tm i) = i"
  by (simp_all add: cursor_of_def)

lemma signal_ok_cursor_of [simp]: "signal_ok js tm (cursor_of tm i) \<longleftrightarrow> good_id tm i"
  by (auto simp: signal_ok_def good_id_def)

lemma sig_order:
  assumes "uuid_collation (jh_compare js)"
  shows "sort_order (sig_less js tm) {i. good_id tm i}"
proof
  fix a b c assume "a \<in> {i. good_id tm i}" "b \<in> {i. good_id tm i}" "c \<in> {i. good_id tm i}"
  then have u: "canonical_uuid a" "canonical_uuid b" "canonical_uuid c" by (simp_all add: good_id_def)
  note lc = assms[unfolded uuid_collation_def, rule_format]
  show "\<not> sig_less js tm a a" using lc[of a a] u by (auto simp: sig_less_def)
  show "sig_less js tm a b \<Longrightarrow> sig_less js tm b c \<Longrightarrow> sig_less js tm a c"
    using lc[of a b] u by (auto simp: sig_less_def)
  show "a \<noteq> b \<Longrightarrow> sig_less js tm a b \<or> sig_less js tm b a"
    using lc[of a b] u by (fastforce simp: sig_less_def)
qed

lemma millisecond_stamp:
  assumes "signal_ok js tm c"
  shows "hostedCheckMillisecondTimestamp js (TimeText (cc_created_at c)) = Inr (iso_text (tm (cc_signal_id c)))"
proof -
  have "\<bar>tm (cc_signal_id c)\<bar> \<le> max_time"
    using assms by (auto simp: signal_ok_def good_id_def iso_range_def max_time_def)
  with assms show ?thesis
    by (simp add: signal_ok_def hostedCheckMillisecondTimestamp_def time_number_def toISOString_def)
qed

lemma cursor_after_of:
  assumes "uuid_collation (jh_compare js)" and "good_id tm a" and "good_id tm b"
  shows "cursor_after js (cursor_of tm a) (cursor_of tm b) = Inr (sig_less js tm b a)"
proof -
  have "iso_range (tm a)" "iso_range (tm b)" using assms by (simp_all add: good_id_def)
  moreover have "0 < jh_compare js a b \<longleftrightarrow> jh_compare js b a < 0"
    using assms by (simp add: uuid_collation_def good_id_def)
  ultimately show ?thesis
    using assms millisecond_stamp[of js tm "cursor_of tm a"] millisecond_stamp[of js tm "cursor_of tm b"]
    by (auto simp: cursor_after_def compareHostedCheckCursor_def sig_less_def sgn_if result_simps)
qed

section \<open>The candidates of a page\<close>

definition after_cursor :: "js_host \<Rightarrow> (string \<Rightarrow> int) \<Rightarrow> string option \<Rightarrow> string \<Rightarrow> bool" where
  "after_cursor js tm cur i \<longleftrightarrow> (case cur of None \<Rightarrow> True | Some c \<Rightarrow> sig_less js tm c i)"

text \<open>The identities of the candidates after the cursor, each once, in order.\<close>

definition pending :: "js_host \<Rightarrow> (string \<Rightarrow> int) \<Rightarrow> string option \<Rightarrow> check_cursor list \<Rightarrow> string list" where
  "pending js tm cur cs = js_sort (sig_less js tm)
     (fold add_key (filter (after_cursor js tm cur) (map cc_signal_id cs)) [])"

lemma put_key:
  "obj_put (map (\<lambda>i. (i, f i)) xs) i (f i) = map (\<lambda>i. (i, f i)) (add_key i xs)"
  by (induction xs) (auto simp: obj_put_def add_key_def)

lemma collect_ok:
  assumes "uuid_collation (jh_compare js)" and "\<forall>c \<in> set cs. signal_ok js tm c" and "opt_all (good_id tm) cur"
  shows "collect_candidates js (map_option (cursor_of tm) cur) (map (\<lambda>i. (i, cursor_of tm i)) xs) cs =
    Inr (map (\<lambda>i. (i, cursor_of tm i)) (fold add_key (filter (after_cursor js tm cur) (map cc_signal_id cs)) xs))"
  using assms(2)
proof (induction cs arbitrary: xs)
  case (Cons c cs)
  let ?i = "cc_signal_id c"
  have c: "signal_ok js tm c" "good_id tm ?i" using Cons.prems by (simp_all add: signal_ok_def)
  note put = put_key[of "cursor_of tm" xs ?i]
  have n: "\<lparr>cc_created_at = iso_text (tm ?i), cc_signal_id = ?i\<rparr> = cursor_of tm ?i" by (simp add: cursor_of_def)
  show ?case
  proof (cases cur)
    case None
    then show ?thesis using Cons millisecond_stamp[OF c(1)]
      by (simp add: n Let_def put after_cursor_def result_simps)
  next
    case (Some d)
    then show ?thesis using Cons millisecond_stamp[OF c(1)] cursor_after_of[OF assms(1) c(2), of d] assms(3)
      by (simp add: n Let_def put after_cursor_def result_simps)
  qed
qed simp

lemma sort_insert_of:
  assumes "uuid_collation (jh_compare js)" and "good_id tm x" and "\<forall>y \<in> set ys. good_id tm y"
  shows "sort_insert js (cursor_of tm x) (map (cursor_of tm) ys) = Inr (map (cursor_of tm) (ins (sig_less js tm) x ys))"
  using assms(3)
  by (induction ys) (simp_all add: cursor_after_of[OF assms(1,2)] result_simps)

lemma sort_candidates_of:
  assumes "uuid_collation (jh_compare js)" and "\<forall>x \<in> set xs. good_id tm x"
  shows "sort_candidates js (map (cursor_of tm) xs) = Inr (map (cursor_of tm) (js_sort (sig_less js tm) xs))"
  using assms(2)
  by (induction xs) (simp_all add: sort_insert_of[OF assms(1)] result_simps)

lemma page_of:
  assumes "uuid_collation (jh_compare js)" and "\<forall>c \<in> set cs. signal_ok js tm c" and "opt_all (good_id tm) cur"
  shows "normalizedCandidates js cs (map_option (cursor_of tm) cur) =
    Inr (map (cursor_of tm) (take HOSTED_CHECK_BATCH_LIMIT (pending js tm cur cs)))"
proof -
  let ?ids = "fold add_key (filter (after_cursor js tm cur) (map cc_signal_id cs)) []"
  have "\<forall>x \<in> set ?ids. good_id tm x" using assms(2) by (auto simp: set_add_keys signal_ok_def)
  from sort_candidates_of[OF assms(1) this] show ?thesis
    using collect_ok[OF assms, of "[]"]
    by (simp add: normalizedCandidates_def obj_values_def pending_def result_simps comp_def take_map)
qed

lemma pending_facts:
  assumes "uuid_collation (jh_compare js)" and "\<forall>c \<in> set cs. signal_ok js tm c"
  shows "set (pending js tm cur cs) = {i \<in> cc_signal_id ` set cs. after_cursor js tm cur i}"
    "\<forall>i \<in> set (pending js tm cur cs). good_id tm i"
    "sorted_wrt (sig_less js tm) (pending js tm cur cs)"
proof -
  let ?ids = "fold add_key (filter (after_cursor js tm cur) (map cc_signal_id cs)) []"
  show "set (pending js tm cur cs) = {i \<in> cc_signal_id ` set cs. after_cursor js tm cur i}"
    by (auto simp: pending_def set_add_keys)
  then show good: "\<forall>i \<in> set (pending js tm cur cs). good_id tm i" using assms(2) by (auto simp: signal_ok_def)
  show "sorted_wrt (sig_less js tm) (pending js tm cur cs)"
    using sort_order.sorted_sort[OF sig_order[OF assms(1)], of ?ids tm] good distinct_add_keys[of "[]"]
    by (auto simp: pending_def)
qed

section \<open>A seat's rows\<close>

text \<open>
  The rows the command function keeps for a seat: the committed cursor, the one unacknowledged
  batch, and the acknowledged ones. \<open>check_call\<close> is one request: the facts are those rows, the
  candidates are whatever is visible now, and exactly the returned action is persisted.
\<close>

record check_row =
  cr_cursor :: "check_cursor option"
  cr_active :: "check_batch option"
  cr_done :: "check_batch list"

definition empty_row :: check_row where
  "empty_row = \<lparr>cr_cursor = None, cr_active = None, cr_done = []\<rparr>"

definition opt_list :: "'a option \<Rightarrow> 'a list" where
  "opt_list x = (case x of None \<Rightarrow> [] | Some y \<Rightarrow> [y])"

lemma opt_list_simps [simp]: "opt_list None = []" "opt_list (Some x) = [x]"
  by (simp_all add: opt_list_def)

definition row_facts ::
  "string \<times> string \<times> string \<Rightarrow> check_row \<Rightarrow> check_command \<Rightarrow> check_cursor list \<Rightarrow> string \<Rightarrow> check_facts" where
  "row_facts au row cmd cands nxt = (case au of (seat, grant, workspace) \<Rightarrow>
     \<lparr>cf_credential_kind = HostedSeatKind, cf_seat_id = seat, cf_grant_id = grant, cf_workspace_id = workspace,
      cf_committed_cursor = cr_cursor row, cf_active_batch = cr_active row,
      cf_requested_batch = (case cmd of OpenBatch _ _ _ \<Rightarrow> None
        | AckBatch _ _ _ bid \<Rightarrow>
            find (\<lambda>b. cb_batch_id b = canonicalBatchId bid) (opt_list (cr_active row) @ cr_done row)),
      cf_candidates = cands, cf_next_batch_id = nxt\<rparr>)"

fun persist :: "check_row \<Rightarrow> check_decision \<Rightarrow> check_row" where
  "persist row (CheckRefused _) = row"
| "persist row (CheckOk ack advance create _) =
     (let row = (case (ack, advance) of (Some _, Some c) \<Rightarrow>
            row\<lparr>cr_cursor := Some c, cr_active := None,
                cr_done := cr_done row @ map (\<lambda>b. b\<lparr>cb_acknowledged := True\<rparr>) (opt_list (cr_active row))\<rparr>
          | _ \<Rightarrow> row) in
      case create of None \<Rightarrow> row | Some b \<Rightarrow> row\<lparr>cr_active := Some b\<rparr>)"

definition check_call ::
  "js_host \<Rightarrow> string \<times> string \<times> string \<Rightarrow> check_row \<Rightarrow> check_command \<Rightarrow> check_cursor list \<Rightarrow> string \<Rightarrow>
     check_error + check_decision \<times> check_row" where
  "check_call js au row cmd cands nxt =
     bind_result (decideHostedCheck js cmd (row_facts au row cmd cands nxt)) (\<lambda>d. Inr (d, persist row d))"

definition batch_ids :: "check_batch list \<Rightarrow> string list" where
  "batch_ids bs = concat (map cb_signal_ids bs)"

text \<open>Every identity handed to the seat so far, in order.\<close>

definition delivered :: "check_row \<Rightarrow> string list" where
  "delivered row = batch_ids (cr_done row @ opt_list (cr_active row))"

definition page_ok :: "check_batch \<Rightarrow> bool" where
  "page_ok b \<longleftrightarrow> cb_signal_ids b \<noteq> [] \<and> length (cb_signal_ids b) \<le> HOSTED_CHECK_BATCH_LIMIT"

definition done_cursor :: "check_row \<Rightarrow> string option" where
  "done_cursor row = (let ids = batch_ids (cr_done row) in if ids = [] then None else Some (last ids))"

definition row_ok :: "js_host \<Rightarrow> (string \<Rightarrow> int) \<Rightarrow> string \<times> string \<times> string \<Rightarrow> check_row \<Rightarrow> bool" where
  "row_ok js tm au row \<longleftrightarrow>
     sorted_wrt (sig_less js tm) (delivered row) \<and> (\<forall>i \<in> set (delivered row). good_id tm i) \<and>
     cr_cursor row = map_option (cursor_of tm) (done_cursor row) \<and>
     (\<forall>b \<in> set (cr_done row @ opt_list (cr_active row)). page_ok b \<and>
        (cb_seat_id b, cb_grant_id b, cb_workspace_id b) = au) \<and>
     (\<forall>b \<in> set (cr_done row). cb_acknowledged b) \<and>
     (\<forall>b \<in> set (opt_list (cr_active row)). \<not> cb_acknowledged b \<and>
        cb_terminal_cursor b = cursor_of tm (last (cb_signal_ids b)))"

text \<open>The batch the code opens on a page, and the row after it.\<close>

definition open_page :: "string \<times> string \<times> string \<Rightarrow> string \<Rightarrow> (string \<Rightarrow> int) \<Rightarrow> string list \<Rightarrow> check_batch option" where
  "open_page au nxt tm p = (case au of (seat, grant, workspace) \<Rightarrow>
     if p = [] then None else Some \<lparr>cb_batch_id = nxt, cb_seat_id = seat, cb_grant_id = grant,
       cb_workspace_id = workspace, cb_signal_ids = p, cb_terminal_cursor = cursor_of tm (last p),
       cb_acknowledged = False\<rparr>)"

definition turn_page :: "check_row \<Rightarrow> (string \<Rightarrow> int) \<Rightarrow> check_batch \<Rightarrow> check_row" where
  "turn_page row tm a = \<lparr>cr_cursor = Some (cursor_of tm (last (cb_signal_ids a))), cr_active = None,
     cr_done = cr_done row @ [a\<lparr>cb_acknowledged := True\<rparr>]\<rparr>"

lemma row_facts_simps [simp]:
  "cf_credential_kind (row_facts au row cmd cands nxt) = HostedSeatKind"
  "cf_committed_cursor (row_facts au row cmd cands nxt) = cr_cursor row"
  "cf_active_batch (row_facts au row cmd cands nxt) = cr_active row"
  "cf_candidates (row_facts au row cmd cands nxt) = cands"
  "cf_next_batch_id (row_facts au row cmd cands nxt) = nxt"
  "(cf_seat_id (row_facts au row cmd cands nxt), cf_grant_id (row_facts au row cmd cands nxt),
    cf_workspace_id (row_facts au row cmd cands nxt)) = au"
  "sameAuthority b (row_facts au row cmd cands nxt) \<longleftrightarrow> (cb_seat_id b, cb_grant_id b, cb_workspace_id b) = au"
  by (auto simp: row_facts_def sameAuthority_def split: prod.split)

lemma open_page_alt:
  "open_page au nxt tm p = (if p = [] then None else Some \<lparr>cb_batch_id = nxt, cb_seat_id = fst au,
     cb_grant_id = fst (snd au), cb_workspace_id = snd (snd au), cb_signal_ids = p,
     cb_terminal_cursor = cursor_of tm (last p), cb_acknowledged = False\<rparr>)"
  by (simp add: open_page_def split: prod.split)

lemma open_next_of:
  assumes "uuid_collation (jh_compare js)" and "\<forall>c \<in> set cands. signal_ok js tm c" and "opt_all (good_id tm) cur"
    and "(case adv of Some c \<Rightarrow> Some c | None \<Rightarrow> cr_cursor row) = map_option (cursor_of tm) cur"
  shows "open_next js (row_facts au row cmd cands nxt) ack adv =
    (let b = open_page au nxt tm (take HOSTED_CHECK_BATCH_LIMIT (pending js tm cur cands)) in
     Inr (CheckOk ack adv b b))"
proof -
  have au: "cf_seat_id (row_facts au row cmd cands nxt) = fst au"
    "cf_grant_id (row_facts au row cmd cands nxt) = fst (snd au)"
    "cf_workspace_id (row_facts au row cmd cands nxt) = snd (snd au)"
    by (simp_all add: row_facts_def split: prod.split)
  show ?thesis
    unfolding open_next_def Let_def row_facts_simps assms(4) page_of[OF assms(1-3)] bind_result.simps
      open_page_alt au by (auto simp: last_map comp_def map_idI)
qed

lemma find_active:
  assumes "find P (opt_list x @ ys) = Some b" and "b \<notin> set ys"
  shows "x = Some b"
proof -
  have "b \<in> set (opt_list x @ ys)" using assms(1) by (metis find_Some_iff nth_mem)
  with assms(2) show ?thesis by (cases x) auto
qed

lemma done_cursor_active [simp]: "done_cursor (row\<lparr>cr_active := b\<rparr>) = done_cursor row"
  by (simp add: done_cursor_def)

lemma row_okD:
  assumes "row_ok js tm au row"
  shows "opt_all (good_id tm) (done_cursor row)"
    "cr_cursor row = map_option (cursor_of tm) (done_cursor row)"
    "b \<in> set (cr_done row) \<Longrightarrow> cb_acknowledged b"
    "cr_active row = Some a \<Longrightarrow> (cb_seat_id a, cb_grant_id a, cb_workspace_id a) = au \<and> \<not> cb_acknowledged a \<and>
       cb_terminal_cursor a = cursor_of tm (last (cb_signal_ids a)) \<and> good_id tm (last (cb_signal_ids a))"
proof -
  have good: "\<forall>i \<in> set (delivered row). good_id tm i" using assms by (simp add: row_ok_def)
  show "opt_all (good_id tm) (done_cursor row)"
    using good last_in_set[of "batch_ids (cr_done row)"]
    by (auto simp: done_cursor_def delivered_def batch_ids_def Let_def simp del: last_in_set)
  show "cr_cursor row = map_option (cursor_of tm) (done_cursor row)" using assms by (simp add: row_ok_def)
  show "b \<in> set (cr_done row) \<Longrightarrow> cb_acknowledged b" using assms by (simp add: row_ok_def)
  assume a: "cr_active row = Some a"
  with assms have "page_ok a" by (simp add: row_ok_def)
  then have "last (cb_signal_ids a) \<in> set (delivered row)" using a
    by (simp add: page_ok_def delivered_def batch_ids_def)
  with good a assms show "(cb_seat_id a, cb_grant_id a, cb_workspace_id a) = au \<and> \<not> cb_acknowledged a \<and>
       cb_terminal_cursor a = cursor_of tm (last (cb_signal_ids a)) \<and> good_id tm (last (cb_signal_ids a))"
    by (simp add: row_ok_def)
qed

lemma check_call_cases:
  assumes "uuid_collation (jh_compare js)" and "\<forall>c \<in> set cands. signal_ok js tm c" and "row_ok js tm au row"
  obtains (refused) x where "check_call js au row cmd cands nxt = Inr (CheckRefused x, row)"
  | (replay) a where "cr_active row = Some a"
      "check_call js au row cmd cands nxt = Inr (CheckOk None None None (Some a), row)"
  | (opened) b where "cr_active row = None"
      "b = open_page au nxt tm (take HOSTED_CHECK_BATCH_LIMIT (pending js tm (done_cursor row) cands))"
      "check_call js au row cmd cands nxt = Inr (CheckOk None None b b, row\<lparr>cr_active := b\<rparr>)"
  | (turned) sg g w bid a b where "cmd = AckBatch sg g w bid" "cr_active row = Some a"
      "canonicalBatchId (cb_batch_id a) = canonicalBatchId bid"
      "b = open_page au nxt tm (take HOSTED_CHECK_BATCH_LIMIT (pending js tm (Some (last (cb_signal_ids a))) cands))"
      "check_call js au row cmd cands nxt = Inr (CheckOk (Some (canonicalBatchId bid))
         (Some (cursor_of tm (last (cb_signal_ids a)))) b b, (turn_page row tm a)\<lparr>cr_active := b\<rparr>)"
proof -
  let ?facts = "row_facts au row cmd cands nxt"
  let ?r = "check_call js au row cmd cands nxt"
  note ok = row_okD[OF assms(3)]
  note next1 = open_next_of[OF assms(1,2) ok(1), where adv = None and row = row, simplified, OF ok(2)]
  have resume: thesis if d: "decideHostedCheck js cmd ?facts = (case cr_active row of
      Some batch \<Rightarrow> Inr (CheckOk None None None (Some batch)) | None \<Rightarrow> open_next js ?facts None None)"
  proof (cases "cr_active row")
    case None
    have "row\<lparr>cr_active := None\<rparr> = row" using None by simp
    with None d next1[of au cmd nxt None] show ?thesis
      by (intro opened[OF None refl]) (auto simp: check_call_def Let_def split: option.split)
  next
    case (Some a)
    with d show ?thesis by (intro replay[OF Some]) (simp add: check_call_def)
  qed
  have forbid: thesis if "decideHostedCheck js cmd ?facts = Inr (CheckRefused x)" for x
    using that by (intro refused[of x]) (simp add: check_call_def)
  show thesis
  proof (cases "(chk_seat cmd \<noteq> cf_seat_id ?facts \<or> chk_grant cmd \<noteq> cf_grant_id ?facts \<or>
      chk_workspace cmd \<noteq> cf_workspace_id ?facts)")
    case True
    then show thesis by (intro forbid) (simp add: decideHostedCheck_def Let_def)
  next
    case False
    have auth: "(case cr_active row of None \<Rightarrow> False | Some b \<Rightarrow> \<not> sameAuthority b ?facts) = False"
      using ok(4) by (auto split: option.split)
    note dec = decideHostedCheck_def[of js cmd ?facts, unfolded Let_def row_facts_simps auth if_False, simplified False]
    show thesis
    proof (cases cmd)
      case (OpenBatch sg g w)
      with dec False auth show thesis by (intro resume) (auto simp: decideHostedCheck_def split: option.split)
    next
      case (AckBatch sg g w bid)
      note cmd = this
      show thesis
      proof (cases "cf_requested_batch ?facts")
        case None
        with cmd False auth show thesis by (intro forbid[of CheckBatchForbidden]) (simp add: decideHostedCheck_def Let_def)
      next
        case (Some q)
        note req = this
        show thesis
        proof (cases "canonicalBatchId (cb_batch_id q) \<noteq> canonicalBatchId bid \<or> \<not> sameAuthority q ?facts")
          case True
          with cmd req False auth show thesis
            by (intro forbid[of CheckBatchForbidden]) (auto simp: decideHostedCheck_def Let_def)
        next
          case same: False
          show thesis
          proof (cases "cb_acknowledged q")
            case True
            with cmd req same False auth show thesis
              by (intro resume) (auto simp: decideHostedCheck_def Let_def)
          next
            case fresh: False
            from req cmd have "find (\<lambda>b. cb_batch_id b = canonicalBatchId bid) (opt_list (cr_active row) @ cr_done row) = Some q"
              by (simp add: row_facts_def split: prod.split_asm)
            from find_active[OF this] fresh ok(3) have act: "cr_active row = Some q" by blast
            let ?l = "last (cb_signal_ids q)"
            have q: "cb_terminal_cursor q = cursor_of tm ?l" "good_id tm ?l" using ok(4)[OF act] by simp_all
            have st: "hostedCheckMillisecondTimestamp js (TimeText (iso_text (tm ?l))) = Inr (iso_text (tm ?l))"
              using millisecond_stamp[of js tm "cursor_of tm ?l"] q(2) by simp
            let ?b = "open_page au nxt tm (take HOSTED_CHECK_BATCH_LIMIT (pending js tm (Some ?l) cands))"
            have "decideHostedCheck js cmd ?facts = open_next js ?facts (Some (canonicalBatchId bid)) (Some (cursor_of tm ?l))"
              using cmd req same fresh False auth act q(1) st
              by (auto simp: decideHostedCheck_def Let_def result_simps cursor_of_def)
            also have "\<dots> = Inr (CheckOk (Some (canonicalBatchId bid)) (Some (cursor_of tm ?l)) ?b ?b)"
              using open_next_of[OF assms(1,2), where cur = "Some ?l" and adv = "Some (cursor_of tm ?l)"] q(2)
              by (simp add: Let_def)
            finally show thesis using same act
              by (intro turned[OF cmd act _ refl])
                (auto simp: check_call_def turn_page_def Let_def act split: option.split)
          qed
        qed
      qed
    qed
  qed
qed

section \<open>The invariant of the rows\<close>

lemma row_ok_open:
  assumes "uuid_collation (jh_compare js)" and "row_ok js tm au row" and "cr_active row = None"
    and p: "sorted_wrt (sig_less js tm) p" "\<forall>i \<in> set p. good_id tm i \<and> after_cursor js tm (done_cursor row) i"
      "length p \<le> HOSTED_CHECK_BATCH_LIMIT"
  shows "row_ok js tm au (row\<lparr>cr_active := open_page au nxt tm p\<rparr>)"
proof -
  let ?D = "batch_ids (cr_done row)"
  have D: "delivered row = ?D" using assms(3) by (simp add: delivered_def)
  let ?row = "row\<lparr>cr_active := open_page au nxt tm p\<rparr>"
  have "delivered ?row = ?D @ p"
    by (simp add: delivered_def batch_ids_def open_page_alt)
  moreover have "sorted_wrt (sig_less js tm) (?D @ p)"
    using assms(2) p D
    by (intro sort_order.sorted_extend[OF sig_order[OF assms(1), of tm]])
      (auto simp: row_ok_def done_cursor_def after_cursor_def Let_def)
  moreover have "done_cursor ?row = done_cursor row" by (simp add: done_cursor_def)
  ultimately show ?thesis using assms(2) p D
    by (auto simp: row_ok_def open_page_alt page_ok_def)
qed

lemma row_ok_turn:
  assumes "row_ok js tm au row" and "cr_active row = Some a"
  shows "row_ok js tm au (turn_page row tm a)" "done_cursor (turn_page row tm a) = Some (last (cb_signal_ids a))"
    "delivered (turn_page row tm a) = delivered row"
proof -
  have ids: "batch_ids (cr_done (turn_page row tm a)) = batch_ids (cr_done row) @ cb_signal_ids a"
    by (simp add: batch_ids_def turn_page_def)
  have a: "page_ok a" "cb_terminal_cursor a = cursor_of tm (last (cb_signal_ids a))"
    using assms by (simp_all add: row_ok_def)
  show c: "done_cursor (turn_page row tm a) = Some (last (cb_signal_ids a))"
    using a by (simp add: done_cursor_def ids page_ok_def)
  show d: "delivered (turn_page row tm a) = delivered row"
    using assms(2) by (simp add: delivered_def batch_ids_def turn_page_def)
  show "row_ok js tm au (turn_page row tm a)"
    using assms(1,2) unfolding row_ok_def d c by (auto simp: turn_page_def page_ok_def)
qed

lemma row_ok_call:
  assumes "uuid_collation (jh_compare js)" and "\<forall>c \<in> set cands. signal_ok js tm c" and "row_ok js tm au row"
    and "check_call js au row cmd cands nxt = Inr (d, row')"
  shows "row_ok js tm au row'"
proof -
  note page = pending_facts[OF assms(1,2)]
  have p: "sorted_wrt (sig_less js tm) (take HOSTED_CHECK_BATCH_LIMIT (pending js tm c cands))"
    "\<forall>i \<in> set (take HOSTED_CHECK_BATCH_LIMIT (pending js tm c cands)). good_id tm i \<and> after_cursor js tm c i"
    "length (take HOSTED_CHECK_BATCH_LIMIT (pending js tm c cands)) \<le> HOSTED_CHECK_BATCH_LIMIT" for c
    using page[of c] by (auto intro: sorted_wrt_take dest!: in_set_takeD)
  from assms(1-3) show ?thesis
  proof (cases rule: check_call_cases[where cmd = cmd and nxt = nxt])
    case (opened b)
    then show ?thesis using assms(4) row_ok_open[OF assms(1,3) opened(1) p] by simp
  next
    case (turned sg g w bid a b)
    note turn = row_ok_turn[OF assms(3) turned(2)]
    have "cr_active (turn_page row tm a) = None" by (simp add: turn_page_def)
    from row_ok_open[OF assms(1) turn(1) this p[of "done_cursor (turn_page row tm a)"]]
    show ?thesis using turned turn(2) assms(4) by auto
  qed (use assms in simp_all)
qed

text \<open>Rows a seat can reach, by any sequence of requests, over any signals.\<close>

inductive check_reach :: "js_host \<Rightarrow> (string \<Rightarrow> int) \<Rightarrow> string \<times> string \<times> string \<Rightarrow> check_row \<Rightarrow> bool"
  for js tm au where
  check_start: "check_reach js tm au empty_row"
| check_step: "check_reach js tm au row \<Longrightarrow> \<forall>c \<in> set cands. signal_ok js tm c \<Longrightarrow>
    check_call js au row cmd cands nxt = Inr (d, row') \<Longrightarrow> check_reach js tm au row'"

lemma check_reach_ok:
  assumes "uuid_collation (jh_compare js)" and "check_reach js tm au row"
  shows "row_ok js tm au row"
  using assms(2)
proof induction
  case check_start
  show ?case by (simp add: row_ok_def empty_row_def delivered_def batch_ids_def done_cursor_def)
next
  case (check_step row cands cmd nxt d row')
  then show ?case using row_ok_call[OF assms(1)] by blast
qed

section \<open>Draining a seat\<close>

lemma pending_filter:
  assumes "uuid_collation (jh_compare js)" and "\<forall>c \<in> set cs. signal_ok js tm c"
  shows "pending js tm cur cs = filter (after_cursor js tm cur) (pending js tm None cs)"
proof -
  have "set (fold add_key (filter (after_cursor js tm None) (map cc_signal_id cs)) []) \<subseteq> {i. good_id tm i}"
    using assms(2) by (auto simp: set_add_keys signal_ok_def)
  then show ?thesis unfolding pending_def
    by (intro sort_order.sort_filter[OF sig_order[OF assms(1)]])
      (auto simp: set_add_keys after_cursor_def intro: distinct_add_keys)
qed

lemma call_open:
  assumes "uuid_collation (jh_compare js)" and "\<forall>c \<in> set cands. signal_ok js tm c" and "row_ok js tm au row"
    and "cr_active row = None"
  shows "check_call js au row (OpenBatch (fst au) (fst (snd au)) (snd (snd au))) cands nxt =
    (let b = open_page au nxt tm (take HOSTED_CHECK_BATCH_LIMIT (pending js tm (done_cursor row) cands)) in
     Inr (CheckOk None None b b, row\<lparr>cr_active := b\<rparr>))"
  using assms(1-3)
proof (cases rule: check_call_cases[where cmd = "OpenBatch (fst au) (fst (snd au)) (snd (snd au))" and nxt = nxt])
  case (refused x)
  then show ?thesis using assms(4)
    by (auto simp: check_call_def decideHostedCheck_def open_next_def row_facts_def Let_def result_simps
        split: prod.split_asm if_split_asm)
qed (use assms(4) in \<open>simp_all add: Let_def\<close>)

lemma call_ack:
  assumes "uuid_collation (jh_compare js)" and "\<forall>c \<in> set cands. signal_ok js tm c" and "row_ok js tm au row"
    and "cr_active row = Some a" and "canonicalBatchId (cb_batch_id a) = cb_batch_id a"
  shows "check_call js au row (AckBatch (fst au) (fst (snd au)) (snd (snd au)) (cb_batch_id a)) cands nxt =
    (let l = last (cb_signal_ids a); b = open_page au nxt tm (take HOSTED_CHECK_BATCH_LIMIT (pending js tm (Some l) cands)) in
     Inr (CheckOk (Some (cb_batch_id a)) (Some (cursor_of tm l)) b b, (turn_page row tm a)\<lparr>cr_active := b\<rparr>))"
proof -
  let ?cmd = "AckBatch (fst au) (fst (snd au)) (snd (snd au)) (cb_batch_id a)"
  note a = row_okD(4)[OF assms(3,4)]
  let ?l = "last (cb_signal_ids a)"
  have st: "hostedCheckMillisecondTimestamp js (TimeText (iso_text (tm ?l))) = Inr (iso_text (tm ?l))"
    using millisecond_stamp[of js tm "cursor_of tm ?l"] a by simp
  have req: "cf_requested_batch (row_facts au row ?cmd cands nxt) = Some a"
    using assms(4,5) by (simp add: row_facts_def split: prod.split)
  have au: "cf_seat_id (row_facts au row ?cmd cands nxt) = fst au"
    "cf_grant_id (row_facts au row ?cmd cands nxt) = fst (snd au)"
    "cf_workspace_id (row_facts au row ?cmd cands nxt) = snd (snd au)"
    by (simp_all add: row_facts_def split: prod.split)
  have "decideHostedCheck js ?cmd (row_facts au row ?cmd cands nxt) =
      open_next js (row_facts au row ?cmd cands nxt) (Some (cb_batch_id a)) (Some (cursor_of tm ?l))"
    using assms(4,5) a req au st by (auto simp: decideHostedCheck_def Let_def result_simps cursor_of_def)
  then show ?thesis
    using open_next_of[OF assms(1,2), where cur = "Some ?l" and adv = "Some (cursor_of tm ?l)" and row = row
        and au = au and cmd = ?cmd and nxt = nxt and ack = "Some (cb_batch_id a)"] a assms(4)
    by (auto simp: check_call_def Let_def turn_page_def split: option.split)
qed

text \<open>A client that opens a batch when none is active and acknowledges the active one otherwise.\<close>

fun check_rounds ::
  "js_host \<Rightarrow> string \<times> string \<times> string \<Rightarrow> check_cursor list \<Rightarrow> check_row \<Rightarrow> string list \<Rightarrow> check_error + check_row" where
  "check_rounds js au cands row [] = Inr row"
| "check_rounds js au cands row (nxt # ns) =
     bind_result (check_call js au row (case cr_active row of
         None \<Rightarrow> OpenBatch (fst au) (fst (snd au)) (snd (snd au))
       | Some a \<Rightarrow> AckBatch (fst au) (fst (snd au)) (snd (snd au)) (cb_batch_id a)) cands nxt)
       (\<lambda>(d, row'). check_rounds js au cands row' ns)"

definition at_page :: "js_host \<Rightarrow> (string \<Rightarrow> int) \<Rightarrow> string \<times> string \<times> string \<Rightarrow> string list \<Rightarrow> nat \<Rightarrow> check_row \<Rightarrow> bool" where
  "at_page js tm au l n row \<longleftrightarrow> row_ok js tm au row \<and> batch_ids (cr_done row) = take n l \<and>
     batch_ids (opt_list (cr_active row)) = take HOSTED_CHECK_BATCH_LIMIT (drop n l) \<and>
     (\<forall>a. cr_active row = Some a \<longrightarrow> canonicalBatchId (cb_batch_id a) = cb_batch_id a)"

lemma batch_ids_open_page [simp]: "batch_ids (opt_list (open_page au nxt tm p)) = p"
  by (simp add: open_page_alt batch_ids_def)

lemma pending_page:
  assumes "uuid_collation (jh_compare js)" and "\<forall>c \<in> set cands. signal_ok js tm c"
    and "c = (if take n (pending js tm None cands) = [] then None else Some (last (take n (pending js tm None cands))))"
  shows "pending js tm c cands = drop n (pending js tm None cands)"
proof (cases "take n (pending js tm None cands) = []")
  case False
  let ?l = "pending js tm None cands" and ?k = "min n (length (pending js tm None cands))"
  note p = pending_facts[OF assms(1,2), of None]
  have t: "take n ?l = take ?k ?l" "drop n ?l = drop ?k ?l" by (simp_all add: min_def)
  have "0 < ?k" using False by auto
  then have "filter (sig_less js tm (last (take ?k ?l))) ?l = drop ?k ?l"
    using p by (intro sort_order.after_page[OF sig_order[OF assms(1), of tm]]) auto
  moreover have "after_cursor js tm c = sig_less js tm (last (take ?k ?l))"
    using \<open>0 < ?k\<close> False assms(3) t by (simp add: after_cursor_def fun_eq_iff del: take_eq_Nil)
  ultimately show ?thesis using t(2) pending_filter[OF assms(1,2), of c] by simp
qed (use assms(3) in auto)

lemma round_page:
  assumes "uuid_collation (jh_compare js)" and "\<forall>c \<in> set cands. signal_ok js tm c"
    and "at_page js tm au (pending js tm None cands) n row" and "canonicalBatchId nxt = nxt"
  shows "\<exists>row'. check_rounds js au cands row (nxt # ns) = check_rounds js au cands row' ns \<and>
    at_page js tm au (pending js tm None cands) (n + HOSTED_CHECK_BATCH_LIMIT) row'"
proof -
  let ?l = "pending js tm None cands" and ?m = "n + HOSTED_CHECK_BATCH_LIMIT"
  have row: "row_ok js tm au row" and old: "batch_ids (cr_done row) = take n ?l"
    and act: "batch_ids (opt_list (cr_active row)) = take HOSTED_CHECK_BATCH_LIMIT (drop n ?l)"
    using assms(3) by (simp_all add: at_page_def)
  have id: "canonicalBatchId (cb_batch_id b) = cb_batch_id b" if "open_page au nxt tm p = Some b" for p b
    using that assms(4) by (auto simp: open_page_alt split: if_split_asm)
  show ?thesis
  proof (cases "cr_active row")
    case None
    then have "drop n ?l = []" using act by (simp add: batch_ids_def HOSTED_CHECK_BATCH_LIMIT_def)
    moreover have "pending js tm (done_cursor row) cands = drop n ?l"
      by (intro pending_page[OF assms(1,2)]) (simp add: done_cursor_def old)
    ultimately have c: "check_call js au row (OpenBatch (fst au) (fst (snd au)) (snd (snd au))) cands nxt =
        Inr (CheckOk None None None None, row\<lparr>cr_active := None\<rparr>)"
      using call_open[OF assms(1,2) row None] by (simp add: open_page_alt)
    have same: "row\<lparr>cr_active := None\<rparr> = row" using None by simp
    have "at_page js tm au ?l ?m (row\<lparr>cr_active := None\<rparr>)"
      unfolding same using assms(3) None \<open>drop n ?l = []\<close> by (simp add: at_page_def)
    with c None show ?thesis by (auto simp: result_simps)
  next
    case (Some a)
    have ida: "canonicalBatchId (cb_batch_id a) = cb_batch_id a" using assms(3) Some by (simp add: at_page_def)
    have ids: "cb_signal_ids a = take HOSTED_CHECK_BATCH_LIMIT (drop n ?l)" using act Some by (simp add: batch_ids_def)
    then have t: "take ?m ?l = take n ?l @ cb_signal_ids a" by (simp add: take_add)
    have "cb_signal_ids a \<noteq> []" using row Some by (simp add: row_ok_def page_ok_def)
    then have "pending js tm (Some (last (cb_signal_ids a))) cands = drop ?m ?l"
      by (intro pending_page[OF assms(1,2)]) (simp add: t)
    then have c: "check_call js au row (AckBatch (fst au) (fst (snd au)) (snd (snd au)) (cb_batch_id a)) cands nxt =
        Inr (CheckOk (Some (cb_batch_id a)) (Some (cursor_of tm (last (cb_signal_ids a))))
           (open_page au nxt tm (take HOSTED_CHECK_BATCH_LIMIT (drop ?m ?l)))
           (open_page au nxt tm (take HOSTED_CHECK_BATCH_LIMIT (drop ?m ?l))),
         (turn_page row tm a)\<lparr>cr_active := open_page au nxt tm (take HOSTED_CHECK_BATCH_LIMIT (drop ?m ?l))\<rparr>)"
      using call_ack[OF assms(1,2) row Some ida] by (simp add: Let_def)
    let ?row = "(turn_page row tm a)\<lparr>cr_active := open_page au nxt tm (take HOSTED_CHECK_BATCH_LIMIT (drop ?m ?l))\<rparr>"
    have "batch_ids (cr_done ?row) = take ?m ?l" using old t by (simp add: turn_page_def batch_ids_def)
    then have "at_page js tm au ?l ?m ?row"
      using row_ok_call[OF assms(1,2) row c] id by (simp add: at_page_def)
    with c Some show ?thesis by (auto simp: result_simps)
  qed
qed

lemma rounds_page:
  assumes "uuid_collation (jh_compare js)" and "\<forall>c \<in> set cands. signal_ok js tm c"
    and "at_page js tm au (pending js tm None cands) n row" and "\<forall>x \<in> set ns. canonicalBatchId x = x"
  shows "\<exists>row'. check_rounds js au cands row ns = Inr row' \<and>
    at_page js tm au (pending js tm None cands) (n + HOSTED_CHECK_BATCH_LIMIT * length ns) row'"
  using assms(3,4)
proof (induction ns arbitrary: n row)
  case (Cons x ns)
  from round_page[OF assms(1,2) Cons.prems(1), of x ns] Cons.prems(2)
  obtain row' where "check_rounds js au cands row (x # ns) = check_rounds js au cands row' ns"
    "at_page js tm au (pending js tm None cands) (n + HOSTED_CHECK_BATCH_LIMIT) row'" by auto
  with Cons.IH[of "n + HOSTED_CHECK_BATCH_LIMIT" row'] Cons.prems(2) show ?case by (simp add: add.assoc)
qed auto

section \<open>A sample seat\<close>

definition unit_compare :: "string \<Rightarrow> string \<Rightarrow> int" where
  "unit_compare a b = (if a < b then - 1 else if a = b then 0 else 1)"

definition sample_host :: js_host where
  "sample_host = \<lparr>jh_parse = (\<lambda>_. None), jh_compare = unit_compare\<rparr>"

definition sample_id :: "nat \<Rightarrow> string" where
  "sample_id n = ''00000000-0000-4000-8000-00000000000'' @ [char_of (48 + n)]"

definition sample_au :: "string \<times> string \<times> string" where "sample_au = (''s'', ''g'', ''w'')"

definition sample_open :: check_command where "sample_open = OpenBatch ''s'' ''g'' ''w''"

definition sample_signals :: "check_cursor list" where
  "sample_signals = [cursor_of (\<lambda>_. 0) (sample_id 2), cursor_of (\<lambda>_. 0) (sample_id 1)]"

definition sample_row :: check_row where
  "sample_row = empty_row\<lparr>cr_active := open_page sample_au ''b'' (\<lambda>_. 0) [sample_id 1, sample_id 2]\<rparr>"

lemma sample_collation: "uuid_collation (jh_compare sample_host)"
  by (auto simp: uuid_collation_def sample_host_def unit_compare_def split: if_split_asm)

lemma sample_ids: "canonical_uuid (sample_id 1)" "canonical_uuid (sample_id 2)" "sample_id 1 < sample_id 2"
  by code_simp+

lemma sample_signals_ok: "\<forall>c \<in> set sample_signals. signal_ok sample_host (\<lambda>_. 0) c"
  using sample_ids by (simp add: sample_signals_def good_id_def iso_range_def)

lemma sample_pending: "pending sample_host (\<lambda>_. 0) None sample_signals = [sample_id 1, sample_id 2]"
  using sample_ids(3) by (auto simp: pending_def sample_signals_def after_cursor_def add_key_def sig_less_def
      sample_host_def unit_compare_def)

lemma sample_call:
  "check_call sample_host sample_au empty_row sample_open sample_signals ''b'' =
    Inr (CheckOk None None (open_page sample_au ''b'' (\<lambda>_. 0) [sample_id 1, sample_id 2])
      (open_page sample_au ''b'' (\<lambda>_. 0) [sample_id 1, sample_id 2]), sample_row)"
  using call_open[OF sample_collation sample_signals_ok check_reach_ok[OF sample_collation check_start], where au = sample_au and nxt = "''b''"]
  by (simp add: empty_row_def done_cursor_def batch_ids_def sample_pending HOSTED_CHECK_BATCH_LIMIT_def
      sample_open_def sample_row_def sample_au_def Let_def)

lemma sample_reach: "check_reach sample_host (\<lambda>_. 0) sample_au sample_row"
  by (rule check_step[OF check_start sample_signals_ok sample_call])

section \<open>Properties\<close>

text \<open>
  C17. No signal is delivered twice and none out of order: whatever requests a seat makes, whatever
  becomes visible in between, all identities handed to it so far, over every acknowledged batch
  and the open one, are distinct and in the order of creation time and identity; each batch has
  between 1 and 50 of them, and the cursor is the last one acknowledged.
\<close>

theorem check_delivers_once:
  assumes "uuid_collation (jh_compare js)" and "check_reach js tm au row"
  shows "distinct (delivered row) \<and> sorted_wrt (sig_less js tm) (delivered row) \<and>
    (\<forall>b \<in> set (cr_done row @ opt_list (cr_active row)). 1 \<le> length (cb_signal_ids b) \<and> length (cb_signal_ids b) \<le> 50) \<and>
    cr_cursor row = map_option (cursor_of tm) (done_cursor row)"
proof -
  have ok: "row_ok js tm au row" by (rule check_reach_ok[OF assms])
  then have "sorted_wrt (sig_less js tm) (delivered row)" "set (delivered row) \<subseteq> {i. good_id tm i}"
    by (auto simp: row_ok_def)
  from sort_order.sorted_distinct[OF sig_order[OF assms(1)] this] this(1) ok show ?thesis
    by (auto simp: row_ok_def page_ok_def HOSTED_CHECK_BATCH_LIMIT_def Suc_le_eq)
qed

theorem check_delivers_once_witness:
  "distinct (delivered sample_row) \<and> delivered sample_row = [sample_id 1, sample_id 2]"
  using check_delivers_once[OF sample_collation sample_reach] by (simp add: sample_row_def empty_row_def delivered_def batch_ids_def open_page_alt)

text \<open>
  A new batch is the next page and skips nothing: the signals it lists come after everything
  acknowledged, and every visible signal after the acknowledged ones is either in the batch or
  comes after all of it; if there is any such signal, a batch is opened.
\<close>

theorem check_batch_is_next_page:
  assumes "uuid_collation (jh_compare js)" and "\<forall>c \<in> set cands. signal_ok js tm c" and "check_reach js tm au row"
    and "check_call js au row cmd cands nxt = Inr (CheckOk ack adv created ret, row')"
    and "cr_active row' = created"
  shows "case created of
      Some b \<Rightarrow> set (cb_signal_ids b) \<subseteq> cc_signal_id ` set cands \<and>
        (\<forall>i \<in> cc_signal_id ` set cands. after_cursor js tm (done_cursor row') i \<longrightarrow>
           i \<in> set (cb_signal_ids b) \<or> (\<forall>j \<in> set (cb_signal_ids b). sig_less js tm j i)) \<and>
        (\<forall>i \<in> set (cb_signal_ids b). after_cursor js tm (done_cursor row') i)
    | None \<Rightarrow> \<forall>c \<in> set cands. \<not> after_cursor js tm (done_cursor row') (cc_signal_id c)"
proof -
  note ok = check_reach_ok[OF assms(1,3)]
  let ?p = "\<lambda>c. pending js tm c cands"
  have page: "case open_page au nxt tm (take HOSTED_CHECK_BATCH_LIMIT (?p c)) of
      Some b \<Rightarrow> set (cb_signal_ids b) \<subseteq> cc_signal_id ` set cands \<and>
        (\<forall>i \<in> cc_signal_id ` set cands. after_cursor js tm c i \<longrightarrow>
           i \<in> set (cb_signal_ids b) \<or> (\<forall>j \<in> set (cb_signal_ids b). sig_less js tm j i)) \<and>
        (\<forall>i \<in> set (cb_signal_ids b). after_cursor js tm c i)
    | None \<Rightarrow> \<forall>c' \<in> set cands. \<not> after_cursor js tm c (cc_signal_id c')" for c
  proof -
    note p = pending_facts[OF assms(1,2), of c]
    let ?t = "take HOSTED_CHECK_BATCH_LIMIT (?p c)" and ?d = "drop HOSTED_CHECK_BATCH_LIMIT (?p c)"
    have "set (?p c) = set ?t \<union> set ?d" by (metis append_take_drop_id set_append)
    moreover have "\<forall>i \<in> set ?d. \<forall>j \<in> set ?t. sig_less js tm j i"
      using p(3) by (metis append_take_drop_id sorted_wrt_append)
    ultimately show ?thesis using p(1) set_take_subset[of HOSTED_CHECK_BATCH_LIMIT "?p c"]
      by (auto simp: open_page_alt HOSTED_CHECK_BATCH_LIMIT_def)
  qed
  from assms(1,2) ok show ?thesis
  proof (cases rule: check_call_cases[where cmd = cmd and nxt = nxt])
    case (opened b)
    then have e: "created = b" "done_cursor row' = done_cursor row" using assms(4) by auto
    show ?thesis unfolding e opened(2) by (rule page)
  next
    case (turned sg g w bid a b)
    then have e: "created = b" "done_cursor row' = Some (last (cb_signal_ids a))"
      using assms(4) row_ok_turn(2)[OF ok turned(2)] by auto
    show ?thesis unfolding e turned(4) by (rule page)
  qed (use assms(4,5) in auto)
qed

theorem check_batch_is_next_page_witness:
  "\<exists>b ret. check_call sample_host sample_au empty_row sample_open sample_signals ''b'' = Inr (CheckOk None None (Some b) ret, sample_row) \<and>
     (\<forall>i \<in> cc_signal_id ` set sample_signals. after_cursor sample_host (\<lambda>_. 0) (done_cursor sample_row) i \<longrightarrow>
       i \<in> set (cb_signal_ids b) \<or> (\<forall>j \<in> set (cb_signal_ids b). sig_less sample_host (\<lambda>_. 0) j i))"
proof -
  have a: "cr_active sample_row = open_page sample_au ''b'' (\<lambda>_. 0) [sample_id 1, sample_id 2]" by (simp add: sample_row_def)
  from check_batch_is_next_page[OF sample_collation sample_signals_ok check_start sample_call a] sample_call
  show ?thesis by (auto simp: open_page_alt)
qed

text \<open>
  Only the open batch can be acknowledged, once, by its own id: an accepted request either
  acknowledges that batch, moving the cursor to its last signal, or leaves the acknowledged batches
  and the cursor as they were; a repeated acknowledgement of an old batch returns the open batch
  again and writes nothing.
\<close>

theorem acknowledgement_is_fenced:
  assumes "uuid_collation (jh_compare js)" and "\<forall>c \<in> set cands. signal_ok js tm c" and "check_reach js tm au row"
    and "check_call js au row cmd cands nxt = Inr (d, row')"
  shows "(\<exists>sg g w bid a. cmd = AckBatch sg g w bid \<and> cr_active row = Some a \<and>
      canonicalBatchId (cb_batch_id a) = canonicalBatchId bid \<and>
      cr_done row' = cr_done row @ [a\<lparr>cb_acknowledged := True\<rparr>] \<and>
      cr_cursor row' = Some (cursor_of tm (last (cb_signal_ids a)))) \<or>
    (cr_done row' = cr_done row \<and> cr_cursor row' = cr_cursor row \<and>
      (\<forall>a. cr_active row = Some a \<longrightarrow> row' = row \<and> ((\<forall>x. d \<noteq> CheckRefused x) \<longrightarrow> ck_return d = Some a)))"
  using assms(1,2) check_reach_ok[OF assms(1,3)]
proof (cases rule: check_call_cases[where cmd = cmd and nxt = nxt])
  case (turned sg g w bid a b)
  then show ?thesis using assms(4) by (auto simp: turn_page_def)
qed (use assms(4) in auto)

theorem acknowledgement_is_fenced_witness:
  "\<exists>d row'. check_call sample_host sample_au sample_row (AckBatch ''s'' ''g'' ''w'' ''old'') sample_signals ''c'' = Inr (d, row') \<and>
     cr_done row' = [] \<and> row' = sample_row"
proof -
  obtain d row' where c: "check_call sample_host sample_au sample_row (AckBatch ''s'' ''g'' ''w'' ''old'') sample_signals ''c'' = Inr (d, row')"
    "cr_done row' = []"
    by (auto simp: check_call_def decideHostedCheck_def row_facts_def sample_row_def empty_row_def sample_au_def open_page_def Let_def
        sameAuthority_def canonicalBatchId_def lower_char_def)
  from acknowledgement_is_fenced[OF sample_collation sample_signals_ok sample_reach c(1)] c show ?thesis
    by (auto simp: sample_row_def empty_row_def open_page_alt)
qed

text \<open>
  C18. A seat that keeps acknowledging receives everything: starting without rows, after \<open>k\<close> requests
  over the same visible signals it has been handed the first \<open>50 k\<close> of them in order, and after
  one request more than there are pages every visible signal has been handed over and
  acknowledged exactly once.
\<close>

theorem check_drains:
  assumes "uuid_collation (jh_compare js)" and "\<forall>c \<in> set cands. signal_ok js tm c"
    and "\<forall>x \<in> set ns. canonicalBatchId x = x" and "ns \<noteq> []"
  shows "\<exists>row. check_rounds js au cands empty_row ns = Inr row \<and>
    delivered row = take (50 * length ns) (pending js tm None cands) \<and>
    (length (pending js tm None cands) + 50 \<le> 50 * length ns \<longrightarrow> cr_active row = None \<and>
       distinct (batch_ids (cr_done row)) \<and> set (batch_ids (cr_done row)) = cc_signal_id ` set cands)"
proof -
  let ?l = "pending js tm None cands"
  obtain x xs where ns: "ns = x # xs" using assms(4) by (cases ns) auto
  have ok0: "row_ok js tm au empty_row" by (rule check_reach_ok[OF assms(1) check_start])
  have dc: "done_cursor empty_row = None" by (simp add: done_cursor_def empty_row_def batch_ids_def)
  let ?row = "empty_row\<lparr>cr_active := open_page au x tm (take HOSTED_CHECK_BATCH_LIMIT ?l)\<rparr>"
  have c: "check_call js au empty_row (OpenBatch (fst au) (fst (snd au)) (snd (snd au))) cands x =
      Inr (CheckOk None None (open_page au x tm (take HOSTED_CHECK_BATCH_LIMIT ?l))
        (open_page au x tm (take HOSTED_CHECK_BATCH_LIMIT ?l)), ?row)"
    using call_open[OF assms(1,2) ok0] dc by (simp add: empty_row_def Let_def)
  have "at_page js tm au ?l 0 ?row"
    using row_ok_call[OF assms(1,2) ok0 c] assms(3) ns
    by (auto simp: at_page_def empty_row_def batch_ids_def[of "[]"] open_page_alt split: if_split_asm)
      (simp_all add: batch_ids_def)
  from rounds_page[OF assms(1,2) this, of xs] assms(3) ns obtain row where
    r: "check_rounds js au cands ?row xs = Inr row" "at_page js tm au ?l (HOSTED_CHECK_BATCH_LIMIT * length xs) row" by auto
  have "check_rounds js au cands empty_row ns = Inr row"
    using c r(1) ns by (simp add: empty_row_def result_simps)
  moreover have "delivered row = take (50 * length ns) ?l"
    using r(2) ns by (simp add: at_page_def delivered_def batch_ids_def HOSTED_CHECK_BATCH_LIMIT_def take_add[symmetric] add.commute)
  moreover have "cr_active row = None \<and> distinct (batch_ids (cr_done row)) \<and>
      set (batch_ids (cr_done row)) = cc_signal_id ` set cands" if "length ?l + 50 \<le> 50 * length ns"
  proof -
    have all: "batch_ids (cr_done row) = ?l" "batch_ids (opt_list (cr_active row)) = []"
      using r(2) that ns by (simp_all add: at_page_def HOSTED_CHECK_BATCH_LIMIT_def)
    have "cr_active row = None"
      using all(2) r(2) by (cases "cr_active row") (auto simp: at_page_def row_ok_def page_ok_def batch_ids_def)
    moreover have "distinct ?l"
      using pending_facts[OF assms(1,2), of None] by (intro sort_order.sorted_distinct[OF sig_order[OF assms(1), of tm]]) auto
    ultimately show ?thesis using all(1) pending_facts(1)[OF assms(1,2), of None] by (simp add: after_cursor_def)
  qed
  ultimately show ?thesis by blast
qed

theorem check_drains_witness:
  "\<exists>row. check_rounds sample_host sample_au sample_signals empty_row [''b'', ''c''] = Inr row \<and>
     set (batch_ids (cr_done row)) = {sample_id 1, sample_id 2} \<and> cr_active row = None"
proof -
  have ids: "\<forall>x \<in> set [''b'', ''c'']. canonicalBatchId x = x" by (simp add: canonicalBatchId_def lower_char_def)
  have set: "cc_signal_id ` set sample_signals = {sample_id 1, sample_id 2}" by (auto simp: sample_signals_def)
  from check_drains[OF sample_collation sample_signals_ok ids, of sample_au] show ?thesis
    unfolding sample_pending set by (auto simp del: check_rounds.simps)
qed

end
