(* ===== verification/HouseholdPolicy.thy ===== *)
theory HouseholdPolicy
  imports IsoDate
begin

text \<open>
  \<open>src/protocol/household-object-policy.ts\<close> and \<open>household-todo-policy.ts\<close>: who may read or write the
  content of a household, the hourly write limits, the limits of to-dos, and the work state shown
  for an agent. The facts are read under the transaction's locks.
\<close>

section \<open>Content access\<close>

definition HOUSEHOLD_OBJECT_LIMIT :: nat where "HOUSEHOLD_OBJECT_LIMIT = 500"
definition HOUSEHOLD_STORAGE_BYTE_LIMIT :: nat where "HOUSEHOLD_STORAGE_BYTE_LIMIT = 1024 * 1024 * 1024"
definition HOUSEHOLD_VERSION_BYTE_LIMIT :: nat where "HOUSEHOLD_VERSION_BYTE_LIMIT = 25 * 1024 * 1024"
definition HOUSEHOLD_LIVE_REVISION_LIMIT :: nat where "HOUSEHOLD_LIVE_REVISION_LIMIT = 20"
definition HOUSEHOLD_IDENTITY_WRITE_HOURLY_LIMIT :: number where "HOUSEHOLD_IDENTITY_WRITE_HOURLY_LIMIT = 600"
definition HOUSEHOLD_WORKSPACE_WRITE_HOURLY_LIMIT :: number where "HOUSEHOLD_WORKSPACE_WRITE_HOURLY_LIMIT = 2000"

datatype content_operation = ReadContent | CreateContent | UpdateContent

datatype content_role = ContentReader | ContentEditor

datatype household_purpose = PersonalPurpose | SharedPurpose

datatype household_boundary = SharedBoundary | PersonalBoundary string

fun boundary_kind :: "household_boundary \<Rightarrow> household_purpose" where
  "boundary_kind SharedBoundary = SharedPurpose"
| "boundary_kind (PersonalBoundary _) = PersonalPurpose"

record household_member =
  hm_user_id :: string
  hm_workspace_id :: string
  hm_revoked_at :: "number option"
  hm_content_role :: "content_role option"
  hm_content_consent_id :: "string option"

record household_connection =
  hn_principal_id :: string
  hn_owner_user_id :: string
  hn_workspace_id :: string
  hn_connection_id :: string
  hn_grant_id :: string
  hn_revoked_at :: "number option"
  hn_expires_at :: "jsnum option"
  hn_operations :: "content_operation list"
  hn_purpose :: household_purpose

record household_actor =
  ac_user_id :: string
  ac_principal_id :: "string option"
  ac_run_id :: "string option"

datatype household_credential = HumanAccess | AgentAccess household_connection

record household_access =
  xa_workspace_id :: string
  xa_archived_at :: "number option"
  xa_boundary :: household_boundary
  xa_actor :: household_actor
  xa_credential :: household_credential
  xa_member :: "household_member option"

datatype access_refusal =
    WorkspaceAccessRefused | ContentConsentRequired | ContentReadOnly | ConnectionAccessRefused

text \<open>\<open>!s\<close> on a string that may be null.\<close>

fun falsy :: "string option \<Rightarrow> bool" where
  "falsy None = True"
| "falsy (Some s) = (s = [])"

definition connection_refused ::
  "household_access \<Rightarrow> household_member \<Rightarrow> string \<Rightarrow> content_operation \<Rightarrow> jsnum \<Rightarrow> bool" where
  "connection_refused facts mem workspaceId operation now =
     (case xa_credential facts of
        HumanAccess \<Rightarrow> ac_principal_id (xa_actor facts) \<noteq> None
      | AgentAccess c \<Rightarrow>
          falsy (ac_principal_id (xa_actor facts)) \<or>
          ac_principal_id (xa_actor facts) \<noteq> Some (hn_principal_id c) \<or>
          hn_owner_user_id c \<noteq> hm_user_id mem \<or> hn_workspace_id c \<noteq> workspaceId \<or>
          hn_connection_id c = [] \<or> hn_grant_id c = [] \<or> hn_revoked_at c \<noteq> None \<or>
          (case hn_expires_at c of None \<Rightarrow> False | Some e \<Rightarrow> \<not> is_finite e \<or> js_le e now) \<or>
          hn_purpose c \<noteq> boundary_kind (xa_boundary facts) \<or> operation \<notin> set (hn_operations c))"

definition householdAccessRefusal ::
  "household_access \<Rightarrow> string \<Rightarrow> content_operation \<Rightarrow> jsnum \<Rightarrow> access_refusal option" where
  "householdAccessRefusal facts workspaceId operation now =
     (case xa_member facts of
        None \<Rightarrow> Some WorkspaceAccessRefused
      | Some mem \<Rightarrow>
          if \<not> is_finite now \<or> ac_user_id (xa_actor facts) = [] \<or> workspaceId \<noteq> xa_workspace_id facts \<or>
             xa_archived_at facts \<noteq> None \<or> hm_workspace_id mem \<noteq> workspaceId \<or>
             hm_user_id mem \<noteq> ac_user_id (xa_actor facts) \<or> hm_revoked_at mem \<noteq> None \<or>
             (case xa_boundary facts of SharedBoundary \<Rightarrow> False
              | PersonalBoundary u \<Rightarrow> u \<noteq> ac_user_id (xa_actor facts)) then Some WorkspaceAccessRefused
          else if falsy (hm_content_consent_id mem) \<or> hm_content_role mem = None then Some ContentConsentRequired
          else if connection_refused facts mem workspaceId operation now then Some ConnectionAccessRefused
          else if operation \<noteq> ReadContent \<and> hm_content_role mem \<noteq> Some ContentEditor then Some ContentReadOnly
          else None)"

definition householdWriteLimitReached :: "jsnum \<Rightarrow> jsnum \<Rightarrow> bool" where
  "householdWriteLimitReached identityAttempts workspaceAttempts \<longleftrightarrow>
     \<not> is_safe_integer identityAttempts \<or> finite_value identityAttempts < 0 \<or>
     \<not> is_safe_integer workspaceAttempts \<or> finite_value workspaceAttempts < 0 \<or>
     HOUSEHOLD_IDENTITY_WRITE_HOURLY_LIMIT \<le> finite_value identityAttempts \<or>
     HOUSEHOLD_WORKSPACE_WRITE_HOURLY_LIMIT \<le> finite_value workspaceAttempts"

section \<open>Limits and notices of to-dos\<close>

definition TODO_QUEUE_LIMIT :: nat where "TODO_QUEUE_LIMIT = 200"
definition TODO_OPEN_LIMIT :: nat where "TODO_OPEN_LIMIT = 1000"
definition TODO_TITLE_LIMIT :: nat where "TODO_TITLE_LIMIT = 200"
definition TODO_NOTES_LIMIT :: nat where "TODO_NOTES_LIMIT = 4000"
definition TODO_COMMENT_LIMIT :: nat where "TODO_COMMENT_LIMIT = 4000"
definition TODO_MENTIONS_LIMIT :: nat where "TODO_MENTIONS_LIMIT = 8"
definition TODO_GATE_NOTE_LIMIT :: nat where "TODO_GATE_NOTE_LIMIT = 200"
definition TODO_EVENT_BYTE_LIMIT :: nat where "TODO_EVENT_BYTE_LIMIT = 64 * 1024"
definition WORK_RECENT_MS :: number where "WORK_RECENT_MS = 30 * 60 * 1000"

datatype accepts_from = AcceptsOwner | AcceptsAnyone

definition TODO_DEFAULT_ACCEPTS_FROM :: accepts_from where "TODO_DEFAULT_ACCEPTS_FROM = AcceptsOwner"

datatype notice_body =
    NoticeAdded | NoticeStart | NoticePersonOffer | NoticeAgentOffer | NoticeAccepted | NoticeDeclined | NoticeMentioned

fun TODO_NOTICE_BODIES :: "notice_body \<Rightarrow> string" where
  "TODO_NOTICE_BODIES NoticeAdded = ''Added a to-do to your queue.''"
| "TODO_NOTICE_BODIES NoticeStart = ''Please start the to-do at the front of your queue.''"
| "TODO_NOTICE_BODIES NoticePersonOffer = ''Asks you to take a to-do.''"
| "TODO_NOTICE_BODIES NoticeAgentOffer = ''Asks for a to-do for your agent.''"
| "TODO_NOTICE_BODIES NoticeAccepted = ''Accepted your to-do request.''"
| "TODO_NOTICE_BODIES NoticeDeclined = ''Declined your to-do request.''"
| "TODO_NOTICE_BODIES NoticeMentioned = ''Mentioned you in a comment.''"

definition todoNoticeAbout :: "string \<Rightarrow> string" where
  "todoNoticeAbout i = ''todo:'' @ i"

definition objectNoticeAbout :: "string \<Rightarrow> string" where
  "objectNoticeAbout i = ''object:'' @ i"

section \<open>What an agent is doing\<close>

datatype agent_work = Working | Idle | Disconnected

datatype agent_connection =
    ConnectionLive | ConnectionRemoved | KeyOff | KeyEnded | ConnectionPaused | ConnectionOff

record agent_work_facts =
  wf_connection :: agent_connection
  wf_last_activity_at :: "jstext option"
  wf_doing :: "(string \<times> jstext option \<times> jstext) option"
  wf_working_on :: "(string \<times> jstext \<times> jstext) option"
    \<comment> \<open>\<open>signal_id\<close>, \<open>at\<close>, \<open>until\<close>\<close>

text \<open>The facts the function reads. Comparisons with an unparsable time (\<open>NaN\<close>) are false.\<close>

definition agentWorkState :: "(jstext \<Rightarrow> int option) \<Rightarrow> agent_work_facts \<Rightarrow> jsnum \<Rightarrow> agent_work" where
  "agentWorkState other facts now =
     (if wf_connection facts \<noteq> ConnectionLive then Disconnected
      else
        let activity = (case wf_last_activity_at facts of None \<Rightarrow> None | Some s \<Rightarrow> date_parse other s);
            recent = (case (now, activity) of
                (Fin n, Some a) \<Rightarrow> of_int a \<le> n \<and> n - of_int a \<le> WORK_RECENT_MS
              | _ \<Rightarrow> False);
            claimed = (case wf_working_on facts of None \<Rightarrow> False
              | Some (_, start, until) \<Rightarrow>
                  (case date_parse other start of None \<Rightarrow> False | Some a \<Rightarrow> js_le (Fin (of_int a)) now) \<and>
                  (case date_parse other until of None \<Rightarrow> False
                   | Some u \<Rightarrow> js_le now (Fin (of_int u)) \<and> now \<noteq> Fin (of_int u)))
        in if recent \<and> (wf_doing facts \<noteq> None \<or> claimed) then Working else Idle)"

end
