(* ===== verification/TodoData.thy ===== *)
theory TodoData
  imports HouseholdPolicy Idempotency JsSort
begin

text \<open>
  The data of \<open>src/protocol/household-todos.ts\<close>: to-dos with their offers, gates and queue ranks,
  comments, receipts and events; the validity tests; gates and the queue of an agent. Identifiers are
  \<open>string\<close>, text people write is \<open>jstext\<close>, stored numbers are integers. Values have their declared
  types, so the code's type tests hold.
\<close>

section \<open>Data\<close>

datatype party = UserParty string | AgentParty string

record todo_actor =
  ta_user_id :: string
  ta_principal_id :: "string option"

datatype todo_status = TodoOpen | TodoDoing | TodoDone | TodoDropped

datatype todo_start = StartQueue | StartNow

datatype todo_gate = GateNone | GateHold "jstext option" | GateAfter string | GateAt jstext

record todo_offer =
  of_offer_id :: string
  of_to :: party
  of_decider_user_id :: string
  of_start :: todo_start
  of_gate :: todo_gate
  of_by :: todo_actor
  of_at :: jstext

record todo =
  td_workspace_id :: string
  td_todo_id :: string
  td_version :: int
  td_title :: jstext
  td_notes :: jstext
  td_state :: todo_status
  td_due_on :: "jstext option"
  td_created_by :: todo_actor
  td_created_at :: jstext
  td_assignee :: "party option"
  td_assigned_by :: "todo_actor option"
  td_assigned_at :: "jstext option"
  td_offer :: "todo_offer option"
  td_gate :: todo_gate
  td_gate_set_by :: "string option"
  td_queue_rank :: "int option"
  td_state_by :: todo_actor
  td_state_at :: jstext
  td_comment_count :: int

datatype target_kind = TodoTarget | ListTarget | DocTarget | FileTarget

record comment_target =
  ct_kind :: target_kind
  ct_id :: string

record todo_comment =
  tc_comment_id :: string
  tc_target :: comment_target
  tc_author :: todo_actor
  tc_body :: jstext
  tc_mentions :: "party list"
  tc_created_at :: jstext

record work_policy =
  wp_principal :: string
  wp_accepts_from :: accepts_from
  wp_set_by_user :: string
  wp_set_at :: jstext

datatype todo_refusal =
    AccessRefusal access_refusal
  | HumanConfirmationRequired | PrincipalRequired | TodoNotFound | TargetNotFound | TitleInvalid
  | NotesInvalid | DueInvalid | CommentInvalid | MentionsInvalid | AssigneeNotMember | AssigneeRemoved
  | InvalidTransition | NotAssignee | NotPermitted | OwnerOnly | OfferNotPending | NotDecider | NotInQueue
  | GateInvalid | GateCycle | QueueEmpty | QueueFull | TodoLimitReached | RequestIdReused
  | TodoWriteRateLimited | InvalidCommandContext

datatype todo_value = TodoValue todo | CommentValue todo_comment | PolicyValue work_policy

datatype todo_outcome = TodoCommitted todo_value | TodoConflict todo | TodoRefused todo_refusal

record todo_receipt =
  rc_principal :: string
  rc_command_id :: string
  rc_request_digest :: string
  rc_outcome :: todo_outcome

datatype notice_kind = AskNotice | NoteNotice

record todo_notice =
  tn_kind :: notice_kind
  tn_to :: "party list"
  tn_about :: string
  tn_body :: notice_body

datatype offer_answer = AnswerAccept | AnswerDecline | AnswerWithdraw | AnswerReplaced

text \<open>The type of an event with its payload, less the receipt.\<close>

datatype todo_body =
    TodoCreated todo
  | TodoDetailsChanged todo
  | TodoAssigned todo
  | TodoOffered todo
  | TodoOfferAnswered todo string offer_answer
  | TodoStateChanged todo
  | TodoQueueOrdered string "string list"
  | TodoGateSet todo
  | TodoStartAsked string string
  | TodoCommented todo_comment "todo option"
  | AgentWorkPolicySet work_policy
  | UnknownTodoEvent string

record todo_event =
  tv_workspace_id :: string
  tv_stream_id :: string
  tv_schema_version :: int
  tv_seq :: int
  tv_event_id :: string
  tv_command_id :: string
  tv_actor_user :: "string option"
  tv_actor_agent_principal :: "string option"
  tv_actor_run :: "string option"
  tv_occurred_at :: jsnum
  tv_body :: todo_body
  tv_receipt :: "todo_receipt option"

record todo_state =
  hs_ws :: string
  hs_stream :: string
  hs_last_seq :: int
  hs_todos :: "todo obj"
  hs_comments :: "todo_comment obj"
  hs_policies :: "work_policy obj"
  hs_receipts :: "todo_receipt obj"

text \<open>What depends on the JavaScript host: \<open>Date.parse\<close> outside the ISO format, and how many bytes the
  text of a number has.\<close>

record todo_host =
  th_parse :: "jstext \<Rightarrow> int option"
  th_number_bytes :: "jsnum \<Rightarrow> nat"

definition todo_date :: "todo_host \<Rightarrow> jstext \<Rightarrow> int option" where
  "todo_date h s = date_parse (th_parse h) s"

section \<open>Validity\<close>

definition hex_unit :: "char \<Rightarrow> bool" where
  "hex_unit c \<longleftrightarrow> c \<in> set ''0123456789abcdefABCDEF''"

definition uuid :: "string \<Rightarrow> bool" where
  "uuid s \<longleftrightarrow> length s = 36 \<and>
     (\<forall>i < 36. if i \<in> {8, 13, 18, 23} then s ! i = CHR ''-'' else hex_unit (s ! i))"

definition digest_ok :: "string \<Rightarrow> bool" where
  "digest_ok s \<longleftrightarrow> length s = 64 \<and> list_all (\<lambda>c. c \<in> set ''abcdef0123456789'') s"

definition receiptKey :: "string \<Rightarrow> string \<Rightarrow> string" where
  "receiptKey p c = ''['' @ quote_string p @ '','' @ quote_string c @ '']''"

fun is_open_status :: "todo_status \<Rightarrow> bool" where
  "is_open_status TodoOpen = True"
| "is_open_status TodoDoing = True"
| "is_open_status _ = False"

definition isOpen :: "todo \<Rightarrow> bool" where
  "isOpen t \<longleftrightarrow> is_open_status (td_state t)"

text \<open>\<open>Array.from(text).length\<close>: a surrogate pair counts once.\<close>

fun textLength :: "jstext \<Rightarrow> nat" where
  "textLength [] = 0"
| "textLength [c] = 1"
| "textLength (c # d # cs) =
     (if high_surrogate c \<and> low_surrogate d then Suc (textLength cs) else Suc (textLength (d # cs)))"

definition validTitle :: "jstext \<Rightarrow> bool" where
  "validTitle t \<longleftrightarrow> trim t \<noteq> [] \<and> textLength t \<le> TODO_TITLE_LIMIT \<and>
     \<not> (\<exists>c \<in> set t. c \<le> 0x1f \<or> (0x7f \<le> c \<and> c \<le> 0x9f))"

definition hasInvalidControls :: "jstext \<Rightarrow> bool" where
  "hasInvalidControls t \<longleftrightarrow> (\<exists>c \<in> set t. c \<le> 0x08 \<or> (0x0b \<le> c \<and> c \<le> 0x1f) \<or> (0x7f \<le> c \<and> c \<le> 0x9f))"

definition validNotes :: "jstext \<Rightarrow> bool" where
  "validNotes t \<longleftrightarrow> textLength t \<le> TODO_NOTES_LIMIT \<and> \<not> hasInvalidControls t"

text \<open>The shape \<open>YYYY-MM-DD\<close>, then the round trip through \<open>Date\<close>.\<close>

definition date_shape :: "jstext \<Rightarrow> bool" where
  "date_shape s \<longleftrightarrow> (case take_date s of Some (_, []) \<Rightarrow> True | _ \<Rightarrow> False)"

definition validDate :: "todo_host \<Rightarrow> jstext option \<Rightarrow> bool" where
  "validDate h value = (case value of None \<Rightarrow> True | Some s \<Rightarrow> date_shape s \<and>
     (case todo_date h (s @ lit ''T00:00:00.000Z'') of None \<Rightarrow> False | Some t \<Rightarrow> take 10 (iso_text t) = s))"

text \<open>The format of a gate's instant: date, hours below 24, at most three decimals, a zone.\<close>

definition instant_shape :: "jstext \<Rightarrow> bool" where
  "instant_shape s \<longleftrightarrow> (case take_date s of None \<Rightarrow> False | Some (_, r) \<Rightarrow>
     (case take_clock r of None \<Rightarrow> False | Some (_, z) \<Rightarrow> zone_minutes z \<noteq> None))"

fun validGate :: "todo_host \<Rightarrow> todo_gate \<Rightarrow> bool" where
  "validGate h GateNone = True"
| "validGate h (GateHold note) = (case note of None \<Rightarrow> True
     | Some t \<Rightarrow> textLength t \<le> TODO_GATE_NOTE_LIMIT \<and> \<not> hasInvalidControls t)"
| "validGate h (GateAfter i) = uuid i"
| "validGate h (GateAt s) = (instant_shape s \<and> validDate h (Some (take 10 s)) \<and> todo_date h s \<noteq> None)"

section \<open>The size of an event\<close>

text \<open>\<open>encoder.encode(JSON.stringify(v)).length\<close>; undefined properties are left out.\<close>

fun json_bytes :: "(jsnum \<Rightarrow> nat) \<Rightarrow> js_value \<Rightarrow> nat" where
  "json_bytes nb JsUndefined = 0"
| "json_bytes nb JsNull = 4"
| "json_bytes nb (JsBool b) = (if b then 4 else 5)"
| "json_bytes nb (JsNumber n) = (if is_finite n then nb n else 4)"
| "json_bytes nb (JsString s) = 2 + json_text_bytes s"
| "json_bytes nb (JsArray vs) = 2 + sum_list (map (json_bytes nb) vs) + (length vs - 1)"
| "json_bytes nb (JsObject es) =
     2 + sum_list (map (\<lambda>(k, v). if v = JsUndefined then 0 else json_text_bytes k + 3 + json_bytes nb v) es) +
     (length (filter (\<lambda>(k, v). v \<noteq> JsUndefined) es) - 1)"

definition str_js :: "string \<Rightarrow> js_value" where "str_js s = JsString (lit s)"

definition opt_js :: "('a \<Rightarrow> js_value) \<Rightarrow> 'a option \<Rightarrow> js_value" where
  "opt_js f x = (case x of None \<Rightarrow> JsNull | Some y \<Rightarrow> f y)"

definition int_js :: "int \<Rightarrow> js_value" where "int_js i = JsNumber (Fin (of_int i))"

definition object_js :: "(string \<times> js_value) list \<Rightarrow> js_value" where
  "object_js es = JsObject (map (\<lambda>(k, v). (lit k, v)) es)"

fun party_js :: "party \<Rightarrow> js_value" where
  "party_js (UserParty i) = object_js [(''kind'', str_js ''user''), (''id'', str_js i)]"
| "party_js (AgentParty i) = object_js [(''kind'', str_js ''agent''), (''id'', str_js i)]"

definition actor_js :: "todo_actor \<Rightarrow> js_value" where
  "actor_js a = object_js [(''user_id'', str_js (ta_user_id a)), (''principal_id'', opt_js str_js (ta_principal_id a))]"

fun status_js :: "todo_status \<Rightarrow> js_value" where
  "status_js TodoOpen = str_js ''open''"
| "status_js TodoDoing = str_js ''doing''"
| "status_js TodoDone = str_js ''done''"
| "status_js TodoDropped = str_js ''dropped''"

fun gate_js :: "todo_gate \<Rightarrow> js_value" where
  "gate_js GateNone = object_js [(''kind'', str_js ''none'')]"
| "gate_js (GateHold n) = object_js [(''kind'', str_js ''hold''), (''note'', opt_js JsString n)]"
| "gate_js (GateAfter i) = object_js [(''kind'', str_js ''after''), (''todo_id'', str_js i)]"
| "gate_js (GateAt s) = object_js [(''kind'', str_js ''at''), (''at'', JsString s)]"

definition offer_js :: "todo_offer \<Rightarrow> js_value" where
  "offer_js f = object_js [(''offer_id'', str_js (of_offer_id f)), (''to'', party_js (of_to f)),
     (''decider_user_id'', str_js (of_decider_user_id f)),
     (''start'', str_js (case of_start f of StartQueue \<Rightarrow> ''queue'' | StartNow \<Rightarrow> ''now'')),
     (''gate'', gate_js (of_gate f)), (''by'', actor_js (of_by f)), (''at'', JsString (of_at f))]"

definition todo_js :: "todo \<Rightarrow> js_value" where
  "todo_js t = object_js [(''workspace_id'', str_js (td_workspace_id t)), (''todo_id'', str_js (td_todo_id t)),
     (''version'', int_js (td_version t)), (''title'', JsString (td_title t)), (''notes'', JsString (td_notes t)),
     (''state'', status_js (td_state t)), (''due_on'', opt_js JsString (td_due_on t)),
     (''created_by'', actor_js (td_created_by t)), (''created_at'', JsString (td_created_at t)),
     (''assignee'', opt_js party_js (td_assignee t)), (''assigned_by'', opt_js actor_js (td_assigned_by t)),
     (''assigned_at'', opt_js JsString (td_assigned_at t)), (''offer'', opt_js offer_js (td_offer t)),
     (''gate'', gate_js (td_gate t)), (''gate_set_by'', opt_js str_js (td_gate_set_by t)),
     (''queue_rank'', opt_js int_js (td_queue_rank t)), (''state_by'', actor_js (td_state_by t)),
     (''state_at'', JsString (td_state_at t)), (''comment_count'', int_js (td_comment_count t))]"

definition comment_js :: "todo_comment \<Rightarrow> js_value" where
  "comment_js c = object_js [(''comment_id'', str_js (tc_comment_id c)),
     (''target'', object_js [(''kind'', str_js (case ct_kind (tc_target c) of TodoTarget \<Rightarrow> ''todo''
         | ListTarget \<Rightarrow> ''list'' | DocTarget \<Rightarrow> ''doc'' | FileTarget \<Rightarrow> ''file'')), (''id'', str_js (ct_id (tc_target c)))]),
     (''author'', actor_js (tc_author c)), (''body'', JsString (tc_body c)),
     (''mentions'', JsArray (map party_js (tc_mentions c))), (''created_at'', JsString (tc_created_at c))]"

definition policy_js :: "work_policy \<Rightarrow> js_value" where
  "policy_js p = object_js [(''principal_id'', str_js (wp_principal p)),
     (''accepts_from'', str_js (case wp_accepts_from p of AcceptsOwner \<Rightarrow> ''owner'' | AcceptsAnyone \<Rightarrow> ''anyone'')),
     (''set_by_user'', str_js (wp_set_by_user p)), (''set_at'', JsString (wp_set_at p))]"

fun refusal_text :: "todo_refusal \<Rightarrow> string" where
  "refusal_text (AccessRefusal WorkspaceAccessRefused) = ''workspace_access_refused''"
| "refusal_text (AccessRefusal ContentConsentRequired) = ''content_consent_required''"
| "refusal_text (AccessRefusal ContentReadOnly) = ''content_read_only''"
| "refusal_text (AccessRefusal ConnectionAccessRefused) = ''connection_access_refused''"
| "refusal_text HumanConfirmationRequired = ''human_confirmation_required''"
| "refusal_text PrincipalRequired = ''principal_required''"
| "refusal_text TodoNotFound = ''todo_not_found''"
| "refusal_text TargetNotFound = ''target_not_found''"
| "refusal_text TitleInvalid = ''title_invalid''"
| "refusal_text NotesInvalid = ''notes_invalid''"
| "refusal_text DueInvalid = ''due_invalid''"
| "refusal_text CommentInvalid = ''comment_invalid''"
| "refusal_text MentionsInvalid = ''mentions_invalid''"
| "refusal_text AssigneeNotMember = ''assignee_not_member''"
| "refusal_text AssigneeRemoved = ''assignee_removed''"
| "refusal_text InvalidTransition = ''invalid_transition''"
| "refusal_text NotAssignee = ''not_assignee''"
| "refusal_text NotPermitted = ''not_permitted''"
| "refusal_text OwnerOnly = ''owner_only''"
| "refusal_text OfferNotPending = ''offer_not_pending''"
| "refusal_text NotDecider = ''not_decider''"
| "refusal_text NotInQueue = ''not_in_queue''"
| "refusal_text GateInvalid = ''gate_invalid''"
| "refusal_text GateCycle = ''gate_cycle''"
| "refusal_text QueueEmpty = ''queue_empty''"
| "refusal_text QueueFull = ''queue_full''"
| "refusal_text TodoLimitReached = ''todo_limit_reached''"
| "refusal_text RequestIdReused = ''request_id_reused''"
| "refusal_text TodoWriteRateLimited = ''todo_write_rate_limited''"
| "refusal_text InvalidCommandContext = ''invalid_command_context''"

fun outcome_js :: "todo_outcome \<Rightarrow> js_value" where
  "outcome_js (TodoCommitted v) = object_js [(''status'', str_js ''committed''),
     (''value'', case v of TodoValue t \<Rightarrow> todo_js t | CommentValue c \<Rightarrow> comment_js c | PolicyValue p \<Rightarrow> policy_js p)]"
| "outcome_js (TodoConflict t) = object_js [(''status'', str_js ''conflict''), (''current'', todo_js t)]"
| "outcome_js (TodoRefused r) = object_js [(''status'', str_js ''refused''), (''reason'', str_js (refusal_text r))]"

definition receipt_js :: "todo_receipt \<Rightarrow> js_value" where
  "receipt_js r = object_js [(''principal'', str_js (rc_principal r)), (''command_id'', str_js (rc_command_id r)),
     (''request_digest'', str_js (rc_request_digest r)), (''outcome'', outcome_js (rc_outcome r))]"

fun body_type :: "todo_body \<Rightarrow> string" where
  "body_type (TodoCreated _) = ''TodoCreated''"
| "body_type (TodoDetailsChanged _) = ''TodoDetailsChanged''"
| "body_type (TodoAssigned _) = ''TodoAssigned''"
| "body_type (TodoOffered _) = ''TodoOffered''"
| "body_type (TodoOfferAnswered _ _ _) = ''TodoOfferAnswered''"
| "body_type (TodoStateChanged _) = ''TodoStateChanged''"
| "body_type (TodoQueueOrdered _ _) = ''TodoQueueOrdered''"
| "body_type (TodoGateSet _) = ''TodoGateSet''"
| "body_type (TodoStartAsked _ _) = ''TodoStartAsked''"
| "body_type (TodoCommented _ _) = ''TodoCommented''"
| "body_type (AgentWorkPolicySet _) = ''AgentWorkPolicySet''"
| "body_type (UnknownTodoEvent ty) = ty"

fun body_js :: "todo_body \<Rightarrow> (string \<times> js_value) list" where
  "body_js (TodoOfferAnswered t i a) = [(''todo'', todo_js t), (''offer_id'', str_js i),
     (''answer'', str_js (case a of AnswerAccept \<Rightarrow> ''accept'' | AnswerDecline \<Rightarrow> ''decline''
        | AnswerWithdraw \<Rightarrow> ''withdraw'' | AnswerReplaced \<Rightarrow> ''replaced''))]"
| "body_js (TodoQueueOrdered p ids) = [(''principal_id'', str_js p), (''todo_ids'', JsArray (map str_js ids))]"
| "body_js (TodoStartAsked i p) = [(''todo_id'', str_js i), (''principal_id'', str_js p)]"
| "body_js (TodoCommented c t) = [(''comment'', comment_js c), (''todo'', opt_js todo_js t)]"
| "body_js (AgentWorkPolicySet p) = [(''policy'', policy_js p)]"
| "body_js (TodoCreated t) = [(''todo'', todo_js t)]"
| "body_js (TodoDetailsChanged t) = [(''todo'', todo_js t)]"
| "body_js (TodoAssigned t) = [(''todo'', todo_js t)]"
| "body_js (TodoOffered t) = [(''todo'', todo_js t)]"
| "body_js (TodoStateChanged t) = [(''todo'', todo_js t)]"
| "body_js (TodoGateSet t) = [(''todo'', todo_js t)]"
| "body_js (UnknownTodoEvent _) = []"

definition event_js :: "todo_event \<Rightarrow> js_value" where
  "event_js e = object_js [(''workspace_id'', str_js (tv_workspace_id e)), (''stream_id'', str_js (tv_stream_id e)),
     (''schema_version'', int_js (tv_schema_version e)), (''seq'', int_js (tv_seq e)),
     (''event_id'', str_js (tv_event_id e)), (''command_id'', str_js (tv_command_id e)),
     (''type'', str_js (body_type (tv_body e))), (''actor_user'', opt_js str_js (tv_actor_user e)),
     (''actor_agent_principal'', opt_js str_js (tv_actor_agent_principal e)),
     (''actor_run'', opt_js str_js (tv_actor_run e)), (''occurred_at_server'', JsNumber (tv_occurred_at e)),
     (''payload'', object_js (body_js (tv_body e) @
        [(''receipt'', case tv_receipt e of None \<Rightarrow> JsUndefined | Some r \<Rightarrow> receipt_js r)]))]"

definition event_bytes :: "todo_host \<Rightarrow> todo_event \<Rightarrow> nat" where
  "event_bytes h e = json_bytes (th_number_bytes h) (event_js e)"

section \<open>Gates and queues\<close>

text \<open>The walk along the \<open>after\<close> gates ends because each step sees one more to-do of the projection.\<close>

function gate_walk :: "todo obj \<Rightarrow> string list \<Rightarrow> todo_gate \<Rightarrow> bool" where
  "gate_walk todos seen (GateAfter i) =
     (if i \<in> set seen then True
      else case obj_get todos i of None \<Rightarrow> False | Some t \<Rightarrow> gate_walk todos (i # seen) (td_gate t))"
| "gate_walk todos seen GateNone = False"
| "gate_walk todos seen (GateHold n) = False"
| "gate_walk todos seen (GateAt s) = False"
  by pat_completeness auto
termination
proof (relation "measure (\<lambda>(todos, seen, _). card (set (obj_keys todos) - set seen))", goal_cases)
  case (2 todos seen i t)
  then have "i \<in> set (obj_keys todos) - set seen"
    by (force simp: obj_get_def obj_keys_def dest: map_of_SomeD)
  then have "set (obj_keys todos) - set (i # seen) \<subset> set (obj_keys todos) - set seen" by auto
  then show ?case by (auto intro: psubset_card_mono)
qed simp

definition gateCycles :: "string \<Rightarrow> todo_gate \<Rightarrow> todo obj \<Rightarrow> bool" where
  "gateCycles todoId gate todos = gate_walk todos [todoId] gate"

definition evaluateGate :: "todo_host \<Rightarrow> todo_gate \<Rightarrow> todo obj \<Rightarrow> jsnum \<Rightarrow> bool" where
  "evaluateGate h gate todos now =
     (if \<not> is_finite now \<or> \<not> validGate h gate then False
      else case gate of
        GateNone \<Rightarrow> True
      | GateHold _ \<Rightarrow> False
      | GateAt s \<Rightarrow> (case todo_date h s of None \<Rightarrow> False | Some t \<Rightarrow> js_le (Fin (of_int t)) now)
      | GateAfter i \<Rightarrow>
          if gateCycles [] gate todos then False
          else (case obj_get todos i of None \<Rightarrow> False
                | Some d \<Rightarrow> td_state d = TodoDone \<or> td_state d = TodoDropped))"

definition in_queue :: "string \<Rightarrow> todo \<Rightarrow> bool" where
  "in_queue principalId t \<longleftrightarrow> isOpen t \<and> td_assignee t = Some (AgentParty principalId) \<and> td_queue_rank t \<noteq> None"

definition queue_before :: "todo \<Rightarrow> todo \<Rightarrow> bool" where
  "queue_before a b \<longleftrightarrow> the (td_queue_rank a) < the (td_queue_rank b) \<or>
     (the (td_queue_rank a) = the (td_queue_rank b) \<and> td_todo_id a < td_todo_id b)"

definition queue :: "todo obj \<Rightarrow> string \<Rightarrow> todo list" where
  "queue todos principalId = js_sort queue_before (filter (in_queue principalId) (obj_values todos))"

definition queue_ids :: "todo obj \<Rightarrow> string \<Rightarrow> string list" where
  "queue_ids todos principalId = map td_todo_id (queue todos principalId)"

end
