(* ===== verification/TodoReducer.thy ===== *)
theory TodoReducer
  imports TodoData
begin

text \<open>
  \<open>reduceTodoEvents\<close> of \<open>household-todos.ts\<close>: each event carries the whole to-do after it; the reducer
  checks it against the projection (version, unchanged fields, author, gate, transition), applies it
  and re-checks the quotas. A \<open>throw\<close> is the left value, with its message.
\<close>

datatype todo_error = UnknownTodoType string int | TodoIntegrity int string | TodoRange string

record accepted_offer =
  ao_todo_id :: string
  ao_command_id :: string
  ao_offer :: todo_offer

definition ensure :: "bool \<Rightarrow> 'e \<Rightarrow> 'e + 'a \<Rightarrow> 'e + 'a" where
  "ensure ok e k = (if ok then k else Inl e)"

lemma ensure_Inr [simp]: "ensure ok e k = Inr x \<longleftrightarrow> ok \<and> k = Inr x"
  by (simp add: ensure_def)

definition safe_integer :: "int \<Rightarrow> bool" where
  "safe_integer i \<longleftrightarrow> \<bar>i\<bar> \<le> 9007199254740991"

text \<open>\<open>new Date(t).toISOString()\<close> of a number of milliseconds.\<close>

definition iso_of_number :: "jsnum \<Rightarrow> todo_error + jstext" where
  "iso_of_number t = (if \<not> is_finite t then Inl (TodoRange ''Invalid time value'')
     else case toISOString (js_trunc (finite_value t)) of
       Inl _ \<Rightarrow> Inl (TodoRange ''Invalid time value'') | Inr s \<Rightarrow> Inr s)"

definition emptyHouseholdTodoState :: "string \<Rightarrow> string \<Rightarrow> todo_error + todo_state" where
  "emptyHouseholdTodoState workspaceId streamId =
     ensure (workspaceId \<noteq> [] \<and> streamId \<noteq> []) (TodoRange ''workspace and stream IDs are required'')
       (Inr \<lparr>hs_ws = workspaceId, hs_stream = streamId, hs_last_seq = - 1, hs_todos = [],
             hs_comments = [], hs_policies = [], hs_receipts = []\<rparr>)"

section \<open>Fields an event may change\<close>

datatype todo_field =
    F_workspace_id | F_todo_id | F_version | F_title | F_notes | F_state | F_due_on | F_created_by | F_created_at
  | F_assignee | F_assigned_by | F_assigned_at | F_offer | F_gate | F_gate_set_by | F_queue_rank | F_state_by
  | F_state_at | F_comment_count

definition todo_fields :: "todo_field list" where
  "todo_fields = [F_workspace_id, F_todo_id, F_version, F_title, F_notes, F_state, F_due_on, F_created_by, F_created_at,
     F_assignee, F_assigned_by, F_assigned_at, F_offer, F_gate, F_gate_set_by, F_queue_rank, F_state_by,
     F_state_at, F_comment_count]"

fun same_field :: "todo_field \<Rightarrow> todo \<Rightarrow> todo \<Rightarrow> bool" where
  "same_field F_workspace_id a b \<longleftrightarrow> td_workspace_id a = td_workspace_id b"
| "same_field F_todo_id a b \<longleftrightarrow> td_todo_id a = td_todo_id b"
| "same_field F_version a b \<longleftrightarrow> td_version a = td_version b"
| "same_field F_title a b \<longleftrightarrow> td_title a = td_title b"
| "same_field F_notes a b \<longleftrightarrow> td_notes a = td_notes b"
| "same_field F_state a b \<longleftrightarrow> td_state a = td_state b"
| "same_field F_due_on a b \<longleftrightarrow> td_due_on a = td_due_on b"
| "same_field F_created_by a b \<longleftrightarrow> td_created_by a = td_created_by b"
| "same_field F_created_at a b \<longleftrightarrow> td_created_at a = td_created_at b"
| "same_field F_assignee a b \<longleftrightarrow> td_assignee a = td_assignee b"
| "same_field F_assigned_by a b \<longleftrightarrow> td_assigned_by a = td_assigned_by b"
| "same_field F_assigned_at a b \<longleftrightarrow> td_assigned_at a = td_assigned_at b"
| "same_field F_offer a b \<longleftrightarrow> td_offer a = td_offer b"
| "same_field F_gate a b \<longleftrightarrow> td_gate a = td_gate b"
| "same_field F_gate_set_by a b \<longleftrightarrow> td_gate_set_by a = td_gate_set_by b"
| "same_field F_queue_rank a b \<longleftrightarrow> td_queue_rank a = td_queue_rank b"
| "same_field F_state_by a b \<longleftrightarrow> td_state_by a = td_state_by b"
| "same_field F_state_at a b \<longleftrightarrow> td_state_at a = td_state_at b"
| "same_field F_comment_count a b \<longleftrightarrow> td_comment_count a = td_comment_count b"

fun event_fields :: "todo_body \<Rightarrow> todo_field list" where
  "event_fields (TodoDetailsChanged _) = [F_title, F_notes, F_due_on]"
| "event_fields (TodoAssigned _) = [F_assignee, F_assigned_by, F_assigned_at, F_state, F_state_by, F_state_at,
     F_gate, F_gate_set_by, F_queue_rank, F_offer]"
| "event_fields (TodoOffered _) = [F_offer]"
| "event_fields (TodoOfferAnswered _ _ _) = [F_offer]"
| "event_fields (TodoStateChanged _) = [F_state, F_state_by, F_state_at, F_queue_rank]"
| "event_fields (TodoGateSet _) = [F_gate, F_gate_set_by]"
| "event_fields (TodoCommented _ _) = [F_comment_count]"
| "event_fields _ = []"

section \<open>Applying the to-do of an event\<close>

definition valid_actor :: "todo_actor \<Rightarrow> bool" where
  "valid_actor a \<longleftrightarrow> ta_user_id a \<noteq> [] \<and> ta_principal_id a \<noteq> Some []"

fun valid_party :: "party option \<Rightarrow> bool" where
  "valid_party None = True"
| "valid_party (Some (UserParty i)) = (i \<noteq> [])"
| "valid_party (Some (AgentParty i)) = (i \<noteq> [])"

fun is_agent :: "party option \<Rightarrow> bool" where
  "is_agent (Some (AgentParty _)) = True"
| "is_agent _ = False"

definition event_author :: "todo_event \<Rightarrow> todo_actor" where
  "event_author e = \<lparr>ta_user_id = the (tv_actor_user e), ta_principal_id = tv_actor_agent_principal e\<rparr>"

definition event_party :: "todo_event \<Rightarrow> party" where
  "event_party e = (case tv_actor_agent_principal e of
     Some p \<Rightarrow> if p = [] then UserParty (the (tv_actor_user e)) else AgentParty p
   | None \<Rightarrow> UserParty (the (tv_actor_user e)))"

text \<open>Who set the gate: nobody for \<open>none\<close>.\<close>

definition gate_setter :: "todo_gate \<Rightarrow> string option \<Rightarrow> string option" where
  "gate_setter gate u = (if gate = GateNone then None else u)"

definition projection_ok :: "todo_host \<Rightarrow> todo_state \<Rightarrow> todo obj \<Rightarrow> bool \<Rightarrow> todo \<Rightarrow> bool" where
  "projection_ok h state todos create t \<longleftrightarrow>
     (let current = obj_get todos (td_todo_id t) in
      uuid (td_todo_id t) \<and> td_workspace_id t = hs_ws state \<and> validTitle (td_title t) \<and>
      validNotes (td_notes t) \<and> validDate h (td_due_on t) \<and> validGate h (td_gate t) \<and>
      safe_integer (td_version t) \<and>
      td_version t = (if create then 1 else (case current of None \<Rightarrow> - 1 | Some c \<Rightarrow> td_version c) + 1) \<and>
      (if create then current = None else current \<noteq> None) \<and>
      safe_integer (td_comment_count t) \<and> 0 \<le> td_comment_count t \<and>
      (case td_queue_rank t of None \<Rightarrow> True
       | Some r \<Rightarrow> is_agent (td_assignee t) \<and> isOpen t \<and> safe_integer r \<and> 1 \<le> r))"

definition fields_ok :: "todo_host \<Rightarrow> todo obj \<Rightarrow> todo \<Rightarrow> bool" where
  "fields_ok h todos t \<longleftrightarrow> valid_actor (td_created_by t) \<and> valid_actor (td_state_by t) \<and>
     valid_party (td_assignee t) \<and> todo_date h (td_created_at t) \<noteq> None \<and> todo_date h (td_state_at t) \<noteq> None \<and>
     \<not> (is_agent (td_assignee t) \<and> isOpen t \<and> td_queue_rank t = None) \<and>
     \<not> gateCycles (td_todo_id t) (td_gate t) todos \<and>
     (case td_gate t of GateAfter i \<Rightarrow> obj_get todos i \<noteq> None | _ \<Rightarrow> True)"

definition offer_ok :: "todo_host \<Rightarrow> todo_offer \<Rightarrow> bool" where
  "offer_ok h f \<longleftrightarrow> uuid (of_offer_id f) \<and> valid_party (Some (of_to f)) \<and> of_decider_user_id f \<noteq> [] \<and>
     validGate h (of_gate f) \<and> valid_actor (of_by f) \<and> todo_date h (of_at f) \<noteq> None"

definition create_ok :: "todo_event \<Rightarrow> jstext \<Rightarrow> todo \<Rightarrow> bool" where
  "create_ok e at_text t \<longleftrightarrow> td_created_by t = event_author e \<and> td_state_by t = event_author e \<and>
     td_created_at t = at_text \<and> td_state_at t = at_text \<and> td_state t = TodoOpen \<and> td_assignee t = None \<and>
     td_assigned_by t = None \<and> td_assigned_at t = None \<and> td_offer t = None \<and> td_gate t = GateNone \<and>
     td_gate_set_by t = None \<and> td_queue_rank t = None \<and> td_comment_count t = 0"

definition valid_setter :: "accepted_offer option \<Rightarrow> todo_event \<Rightarrow> todo \<Rightarrow> todo \<Rightarrow> bool" where
  "valid_setter accepted e current t \<longleftrightarrow>
     (case accepted of
        Some a \<Rightarrow> ao_todo_id a = td_todo_id t \<and> ao_command_id a = tv_command_id e \<and>
          tv_actor_user e = Some (of_decider_user_id (ao_offer a)) \<and> tv_actor_agent_principal e = None \<and>
          td_assignee t = Some (of_to (ao_offer a)) \<and> td_gate t = of_gate (ao_offer a) \<and>
          td_gate_set_by t = gate_setter (td_gate t) (Some (ta_user_id (of_by (ao_offer a))))
      | None \<Rightarrow> td_gate_set_by t = gate_setter (td_gate t) (tv_actor_user e) \<or>
          (td_gate t = td_gate current \<and> td_gate_set_by t = td_gate_set_by current))"

definition assigned_ok :: "accepted_offer option \<Rightarrow> todo_event \<Rightarrow> jstext \<Rightarrow> todo \<Rightarrow> todo \<Rightarrow> bool" where
  "assigned_ok accepted e at_text current t \<longleftrightarrow> td_state t = TodoOpen \<and> td_offer t = None \<and>
     td_assigned_by t = Some (event_author e) \<and> td_assigned_at t = Some at_text \<and>
     td_state_by t = event_author e \<and> td_state_at t = at_text \<and> valid_setter accepted e current t"

definition offered_ok :: "todo_event \<Rightarrow> jstext \<Rightarrow> todo \<Rightarrow> todo \<Rightarrow> bool" where
  "offered_ok e at_text current t \<longleftrightarrow> (case td_offer t of None \<Rightarrow> False
     | Some f \<Rightarrow> of_by f = event_author e \<and> of_at f = at_text \<and> td_offer current = None)"

fun next_states :: "todo_status \<Rightarrow> todo_status list" where
  "next_states TodoOpen = [TodoDoing, TodoDone, TodoDropped]"
| "next_states TodoDoing = [TodoOpen, TodoDone, TodoDropped]"
| "next_states _ = [TodoOpen]"

definition changed_ok :: "todo_host \<Rightarrow> todo obj \<Rightarrow> todo_event \<Rightarrow> jstext \<Rightarrow> todo \<Rightarrow> todo \<Rightarrow> bool" where
  "changed_ok h todos e at_text current t \<longleftrightarrow> td_state t \<in> set (next_states (td_state current)) \<and>
     td_state_by t = event_author e \<and> td_state_at t = at_text \<and>
     \<not> (td_state t = TodoDoing \<and> (td_assignee t \<noteq> Some (event_party e) \<or>
          \<not> evaluateGate h (td_gate t) todos (tv_occurred_at e)))"

text \<open>The checks particular to one event type.\<close>

definition body_check ::
  "todo_host \<Rightarrow> todo obj \<Rightarrow> accepted_offer option \<Rightarrow> todo_event \<Rightarrow> jstext \<Rightarrow> todo \<Rightarrow> todo \<Rightarrow> todo_error + unit" where
  "body_check h todos accepted e at_text current t =
     (let fail = (\<lambda>r. TodoIntegrity (tv_seq e) r) in
      case tv_body e of
        TodoAssigned _ \<Rightarrow> ensure (assigned_ok accepted e at_text current t) (fail ''invalid assignment'') (Inr ())
      | TodoOffered _ \<Rightarrow> ensure (offered_ok e at_text current t) (fail ''invalid offer provenance'') (Inr ())
      | TodoStateChanged _ \<Rightarrow>
          ensure (changed_ok h todos e at_text current t) (fail ''invalid state transition'') (Inr ())
      | TodoGateSet _ \<Rightarrow>
          ensure (td_gate_set_by t = gate_setter (td_gate t) (tv_actor_user e)) (fail ''invalid gate setter'') (Inr ())
      | _ \<Rightarrow> Inr ())"

definition applyTodo ::
  "todo_host \<Rightarrow> todo_state \<Rightarrow> todo obj \<Rightarrow> accepted_offer option \<Rightarrow> todo_event \<Rightarrow> bool \<Rightarrow> todo \<Rightarrow>
     todo_error + todo obj" where
  "applyTodo h state todos accepted e create t =
     (let fail = (\<lambda>r. TodoIntegrity (tv_seq e) r) in
      ensure (projection_ok h state todos create t) (fail ''invalid to-do projection'')
      (bind_result (iso_of_number (tv_occurred_at e)) (\<lambda>at_text.
       ensure (fields_ok h todos t) (fail ''invalid to-do fields'')
      (ensure (case td_offer t of None \<Rightarrow> True | Some f \<Rightarrow> offer_ok h f) (fail ''invalid offer'')
      (bind_result
        (if create then ensure (create_ok e at_text t) (fail ''invalid create'') (Inr ())
         else let current = the (obj_get todos (td_todo_id t)) in
           ensure (\<forall>k \<in> set todo_fields. k = F_version \<or> k \<in> set (event_fields (tv_body e)) \<or> same_field k current t)
             (fail ''unrelated field changed'') (body_check h todos accepted e at_text current t))
        (\<lambda>_. Inr (obj_put todos (td_todo_id t) t)))))))"

section \<open>The event loop\<close>

definition todo_envelope_ok :: "todo_host \<Rightarrow> todo_state \<Rightarrow> todo_event \<Rightarrow> bool" where
  "todo_envelope_ok h state e \<longleftrightarrow> of_int (tv_schema_version e) = SCHEMA_VERSION \<and>
     tv_workspace_id e = hs_ws state \<and> tv_stream_id e = hs_stream state \<and>
     safe_integer (tv_seq e) \<and> hs_last_seq state < tv_seq e \<and> is_finite (tv_occurred_at e) \<and>
     uuid (tv_event_id e) \<and> tv_command_id e \<noteq> [] \<and> \<not> falsy (tv_actor_user e) \<and>
     event_bytes h e \<le> TODO_EVENT_BYTE_LIMIT"

definition comment_ok :: "todo_event \<Rightarrow> todo_comment obj \<Rightarrow> jstext \<Rightarrow> todo_comment \<Rightarrow> bool" where
  "comment_ok e comments at_text c \<longleftrightarrow> uuid (tc_comment_id c) \<and> obj_get comments (tc_comment_id c) = None \<and>
     trim (tc_body c) \<noteq> [] \<and> textLength (tc_body c) \<le> TODO_COMMENT_LIMIT \<and>
     \<not> hasInvalidControls (tc_body c) \<and> length (tc_mentions c) \<le> TODO_MENTIONS_LIMIT \<and>
     Some (ta_user_id (tc_author c)) = tv_actor_user e \<and>
     ta_principal_id (tc_author c) = tv_actor_agent_principal e \<and> tc_created_at c = at_text"

definition receipt_ok :: "todo_event \<Rightarrow> todo_receipt obj \<Rightarrow> todo_receipt \<Rightarrow> bool" where
  "receipt_ok e receipts r \<longleftrightarrow> rc_command_id r = tv_command_id e \<and>
     Some (rc_principal r) = (case tv_actor_agent_principal e of Some p \<Rightarrow> Some p | None \<Rightarrow> tv_actor_user e) \<and>
     digest_ok (rc_request_digest r) \<and> (case rc_outcome r of TodoCommitted _ \<Rightarrow> True | _ \<Rightarrow> False) \<and>
     obj_get receipts (receiptKey (rc_principal r) (rc_command_id r)) = None"

definition receipt_projected :: "todo_state \<Rightarrow> todo_receipt \<Rightarrow> bool" where
  "receipt_projected s r \<longleftrightarrow> (case rc_outcome r of
     TodoCommitted (TodoValue t) \<Rightarrow> obj_get (hs_todos s) (td_todo_id t) = Some t
   | TodoCommitted (CommentValue c) \<Rightarrow> obj_get (hs_comments s) (tc_comment_id c) = Some c
   | TodoCommitted (PolicyValue p) \<Rightarrow> obj_get (hs_policies s) (wp_principal p) = Some p
   | _ \<Rightarrow> False)"

text \<open>\<open>todos[id] = { ...todos[id], queue_rank: index + 1 }\<close> for each id of the list.\<close>

fun put_ranks :: "int \<Rightarrow> string list \<Rightarrow> todo obj \<Rightarrow> todo obj" where
  "put_ranks n [] todos = todos"
| "put_ranks n (i # is) todos =
     put_ranks (n + 1) is (obj_put todos i ((the (obj_get todos i))\<lparr>td_queue_rank := Some n\<rparr>))"

definition open_count :: "todo obj \<Rightarrow> nat" where
  "open_count todos = length (filter isOpen (obj_values todos))"

definition quotas_ok :: "todo obj \<Rightarrow> bool" where
  "quotas_ok todos \<longleftrightarrow> open_count todos \<le> TODO_OPEN_LIMIT \<and>
     (\<forall>t \<in> set (obj_values todos). case td_assignee t of
        Some (AgentParty p) \<Rightarrow> length (queue todos p) \<le> TODO_QUEUE_LIMIT | _ \<Rightarrow> True)"

text \<open>The effect of the event itself: the projection after it, and the offer it accepts.\<close>

definition apply_body ::
  "todo_host \<Rightarrow> todo_state \<Rightarrow> accepted_offer option \<Rightarrow> todo_event \<Rightarrow>
     todo_error + todo_state \<times> accepted_offer option" where
  "apply_body h state accepted e =
     (let fail = (\<lambda>r. TodoIntegrity (tv_seq e) r); todos = hs_todos state;
          put = (\<lambda>ts. state\<lparr>hs_todos := ts\<rparr>);
          plain = (\<lambda>t. bind_result (applyTodo h state todos None e False t) (\<lambda>ts. Inr (put ts, None))) in
      case tv_body e of
        TodoCreated t \<Rightarrow> bind_result (applyTodo h state todos None e True t) (\<lambda>ts. Inr (put ts, None))
      | TodoDetailsChanged t \<Rightarrow> plain t
      | TodoAssigned t \<Rightarrow> bind_result (applyTodo h state todos accepted e False t) (\<lambda>ts. Inr (put ts, None))
      | TodoOffered t \<Rightarrow> plain t
      | TodoStateChanged t \<Rightarrow> plain t
      | TodoGateSet t \<Rightarrow> plain t
      | TodoOfferAnswered t offer_id answer \<Rightarrow>
          (case Option.bind (obj_get todos (td_todo_id t)) td_offer of
             None \<Rightarrow> Inl (fail ''invalid offer answer'')
           | Some f \<Rightarrow> ensure (of_offer_id f = offer_id \<and> td_offer t = None) (fail ''invalid offer answer'')
               (let acc = (if answer = AnswerAccept then Some \<lparr>ao_todo_id = td_todo_id t,
                     ao_command_id = tv_command_id e, ao_offer = f\<rparr> else None) in
                bind_result (applyTodo h state todos acc e False t) (\<lambda>ts. Inr (put ts, acc))))
      | TodoQueueOrdered p ids \<Rightarrow>
          ensure (distinct ids \<and> length ids = length (queue_ids todos p) \<and> set (queue_ids todos p) \<subseteq> set ids)
            (fail ''incomplete queue order'') (Inr (put (put_ranks 1 ids todos), None))
      | TodoStartAsked i p \<Rightarrow>
          ensure (case obj_get todos i of None \<Rightarrow> False
              | Some t \<Rightarrow> td_assignee t = Some (AgentParty p) \<and> isOpen t)
            (fail ''invalid start request'') (Inr (state, None))
      | TodoCommented c todo \<Rightarrow>
          bind_result (iso_of_number (tv_occurred_at e)) (\<lambda>at_text.
          ensure (comment_ok e (hs_comments state) at_text c) (fail ''invalid comment'')
          (bind_result
            (if ct_kind (tc_target c) = TodoTarget then
               (case (obj_get todos (ct_id (tc_target c)), todo) of
                  (Some current, Some t) \<Rightarrow>
                    ensure (td_todo_id t = td_todo_id current \<and> td_comment_count t = td_comment_count current + 1)
                      (fail ''invalid comment count'') (applyTodo h state todos None e False t)
                | _ \<Rightarrow> Inl (fail ''invalid comment count''))
             else ensure (todo = None) (fail ''unexpected comment to-do'') (Inr todos))
            (\<lambda>ts. Inr (state\<lparr>hs_todos := ts, hs_comments := obj_put (hs_comments state) (tc_comment_id c) c\<rparr>, None))))
      | AgentWorkPolicySet p \<Rightarrow>
          bind_result (iso_of_number (tv_occurred_at e)) (\<lambda>at_text.
          ensure (wp_principal p \<noteq> [] \<and> Some (wp_set_by_user p) = tv_actor_user e \<and>
              tv_actor_agent_principal e = None \<and> wp_set_at p = at_text) (fail ''invalid work policy'')
            (Inr (state\<lparr>hs_policies := obj_put (hs_policies state) (wp_principal p) p\<rparr>, None)))
      | UnknownTodoEvent ty \<Rightarrow> Inl (UnknownTodoType ty (tv_seq e)))"

definition reduce_todo_event ::
  "todo_host \<Rightarrow> todo_state \<times> accepted_offer option \<Rightarrow> todo_event \<Rightarrow>
     todo_error + todo_state \<times> accepted_offer option" where
  "reduce_todo_event h sa e =
     (let state = fst sa; fail = (\<lambda>r. TodoIntegrity (tv_seq e) r) in
      case tv_body e of UnknownTodoEvent ty \<Rightarrow> Inl (UnknownTodoType ty (tv_seq e)) | _ \<Rightarrow>
      ensure (todo_envelope_ok h state e) (fail ''invalid envelope'')
      (bind_result (apply_body h state (snd sa) e) (\<lambda>(s, acc).
       bind_result (case tv_receipt e of None \<Rightarrow> Inr s
         | Some r \<Rightarrow> ensure (receipt_ok e (hs_receipts s) r) (fail ''invalid receipt'')
             (ensure (receipt_projected s r) (fail ''receipt does not match projection'')
               (Inr (s\<lparr>hs_receipts := obj_put (hs_receipts s) (receiptKey (rc_principal r) (rc_command_id r)) r\<rparr>))))
         (\<lambda>s. ensure (quotas_ok (hs_todos s)) (fail ''to-do quota violated'')
           (Inr (s\<lparr>hs_last_seq := tv_seq e\<rparr>, acc))))))"

fun reduce_todo_loop ::
  "todo_host \<Rightarrow> todo_state \<times> accepted_offer option \<Rightarrow> todo_event list \<Rightarrow>
     todo_error + todo_state \<times> accepted_offer option" where
  "reduce_todo_loop h sa [] = Inr sa"
| "reduce_todo_loop h sa (e # es) = bind_result (reduce_todo_event h sa e) (\<lambda>sa. reduce_todo_loop h sa es)"

definition reduceTodoEvents :: "todo_host \<Rightarrow> todo_state \<Rightarrow> todo_event list \<Rightarrow> todo_error + todo_state" where
  "reduceTodoEvents h initial es = bind_result (reduce_todo_loop h (initial, None) es) (\<lambda>sa. Inr (fst sa))"

end
