(* ===== verification/TodoDecision.thy ===== *)
theory TodoDecision
  imports TodoReducer
begin

text \<open>
  \<open>decideTodo\<close> of \<open>household-todos.ts\<close>. A step of a command either throws, ends the command with an
  outcome that is not committed (its drafted events are then dropped), or goes on with a draft: the
  events emitted so far, the projection they fold to, and the notices.
\<close>

section \<open>Commands and facts\<close>

record assign_input =
  ai_to :: party
  ai_start :: "todo_start option"
  ai_gate :: "todo_gate option"

datatype steer_action = MoveAfter "string option" | SteerStartNow | SteerGate todo_gate

datatype todo_command =
    TodoCreate jstext "jstext option" "jstext option option" "assign_input option"
      \<comment> \<open>\<open>title\<close>, \<open>notes\<close>, \<open>due_on\<close>, \<open>assign\<close>\<close>
  | TodoUpdate string jsnum "jstext option" "jstext option" "jstext option option"
      \<comment> \<open>\<open>todo_id\<close>, \<open>base_version\<close>, \<open>title\<close>, \<open>notes\<close>, \<open>due_on\<close>\<close>
  | TodoAssign string jsnum "party option" "todo_start option" "todo_gate option"
      \<comment> \<open>\<open>todo_id\<close>, \<open>base_version\<close>, \<open>to\<close>, \<open>start\<close>, \<open>gate\<close>\<close>
  | TodoStart "string option"
  | TodoSetState string jsnum todo_status
  | HouseholdTodoAnswer string string offer_answer
  | HouseholdTodoSteer string jsnum steer_action
  | HouseholdAgentWorkPolicy string accepts_from
  | TodoComment comment_target jstext "party list option"

fun is_household :: "todo_command \<Rightarrow> bool" where
  "is_household (HouseholdTodoAnswer _ _ _) = True"
| "is_household (HouseholdTodoSteer _ _ _) = True"
| "is_household (HouseholdAgentWorkPolicy _ _) = True"
| "is_household _ = False"

fun base_version :: "todo_command \<Rightarrow> jsnum option" where
  "base_version (TodoUpdate _ v _ _ _) = Some v"
| "base_version (TodoAssign _ v _ _ _) = Some v"
| "base_version (TodoSetState _ v _) = Some v"
| "base_version (HouseholdTodoSteer _ v _) = Some v"
| "base_version _ = None"

datatype member_role = MemberOwner | MemberAdmin | MemberPlain

record todo_member =
  tm_user_id :: string
  tm_workspace_id :: string
  tm_revoked_at :: "number option"
  tm_role :: member_role

record todo_agent =
  tg_principal_id :: string
  tg_owner_user_id :: string
  tg_workspace_id :: string
  tg_revoked_at :: "number option"

record todo_ctx =
  tx_access :: household_access
  tx_now :: jsnum
  tx_command_id :: string
  tx_request_digest :: string
  tx_seq :: int
  tx_event_ids :: "string list"
  tx_todo_id :: "string option"
  tx_offer_id :: "string option"
  tx_comment_id :: "string option"
  tx_members :: "todo_member list"
  tx_agents :: "todo_agent list"
  tx_objects :: "(target_kind \<times> string) list"
  tx_identity_write_attempts :: jsnum
  tx_workspace_write_attempts :: jsnum

record todo_decision =
  dd_outcome :: todo_outcome
  dd_events :: "todo_event list"
  dd_receipt :: "todo_receipt option"
  dd_notices :: "todo_notice list"
  dd_replayed :: bool

section \<open>A running command\<close>

text \<open>What stays fixed while a command runs: the host, the facts, the projection it started from and
  its timestamp.\<close>

record todo_run =
  rn_host :: todo_host
  rn_ctx :: todo_ctx
  rn_state :: todo_state
  rn_at :: jstext

record todo_draft =
  dr_state :: todo_state
  dr_events :: "todo_event list"
  dr_notices :: "todo_notice list"

type_synonym 'a todo_step = "todo_error + todo_outcome + 'a"

fun bind_step :: "'a todo_step \<Rightarrow> ('a \<Rightarrow> 'b todo_step) \<Rightarrow> 'b todo_step" where
  "bind_step (Inl e) f = Inl e"
| "bind_step (Inr (Inl out)) f = Inr (Inl out)"
| "bind_step (Inr (Inr x)) f = f x"

definition go :: "'a \<Rightarrow> 'a todo_step" where "go x = Inr (Inr x)"

definition refuse :: "todo_refusal \<Rightarrow> 'a todo_step" where "refuse r = Inr (Inl (TodoRefused r))"

definition throw_range :: "string \<Rightarrow> 'a todo_step" where "throw_range s = Inl (TodoRange s)"

definition run_actor :: "todo_run \<Rightarrow> todo_actor" where
  "run_actor r = (let a = xa_actor (tx_access (rn_ctx r)) in
     \<lparr>ta_user_id = ac_user_id a, ta_principal_id = ac_principal_id a\<rparr>)"

definition run_user :: "todo_run \<Rightarrow> string" where
  "run_user r = ac_user_id (xa_actor (tx_access (rn_ctx r)))"

definition run_principal :: "todo_run \<Rightarrow> string option" where
  "run_principal r = ac_principal_id (xa_actor (tx_access (rn_ctx r)))"

definition run_human :: "todo_run \<Rightarrow> bool" where
  "run_human r \<longleftrightarrow> run_principal r = None \<and> xa_credential (tx_access (rn_ctx r)) = HumanAccess"

definition run_party :: "todo_run \<Rightarrow> party" where
  "run_party r = (case run_principal r of None \<Rightarrow> UserParty (run_user r) | Some p \<Rightarrow> AgentParty p)"

definition run_member :: "todo_run \<Rightarrow> string \<Rightarrow> todo_member option" where
  "run_member r u = find (\<lambda>m. tm_user_id m = u \<and> tm_workspace_id m = hs_ws (rn_state r) \<and> tm_revoked_at m = None)
     (tx_members (rn_ctx r))"

definition run_agent :: "todo_run \<Rightarrow> string \<Rightarrow> todo_agent option" where
  "run_agent r p = find (\<lambda>a. tg_principal_id a = p \<and> tg_workspace_id a = hs_ws (rn_state r)) (tx_agents (rn_ctx r))"

definition run_admin :: "todo_run \<Rightarrow> bool" where
  "run_admin r \<longleftrightarrow> (case run_member r (run_user r) of None \<Rightarrow> False | Some m \<Rightarrow> tm_role m = MemberOwner \<or> tm_role m = MemberAdmin)"

definition draft_todo :: "todo_draft \<Rightarrow> string \<Rightarrow> todo" where
  "draft_todo d i = the (obj_get (hs_todos (dr_state d)) i)"

definition emit :: "todo_run \<Rightarrow> todo_draft \<Rightarrow> todo_body \<Rightarrow> todo_draft todo_step" where
  "emit r d body =
     (let n = length (dr_events d); ctx = rn_ctx r in
      case (if n < length (tx_event_ids ctx) then Some (tx_event_ids ctx ! n) else None) of
        None \<Rightarrow> throw_range ''distinct server event IDs are required''
      | Some eid \<Rightarrow>
          if \<not> uuid eid \<or> (\<exists>e \<in> set (dr_events d). tv_event_id e = eid) then
            throw_range ''distinct server event IDs are required''
          else
            let e = \<lparr>tv_workspace_id = hs_ws (rn_state r), tv_stream_id = hs_stream (rn_state r),
                  tv_schema_version = 1, tv_seq = tx_seq ctx + int n, tv_event_id = eid,
                  tv_command_id = tx_command_id ctx, tv_actor_user = Some (run_user r),
                  tv_actor_agent_principal = run_principal r,
                  tv_actor_run = ac_run_id (xa_actor (tx_access ctx)), tv_occurred_at = tx_now ctx,
                  tv_body = body, tv_receipt = None\<rparr> in
            case reduceTodoEvents (rn_host r) (rn_state r) (dr_events d @ [e]) of
              Inl x \<Rightarrow> Inl x
            | Inr s \<Rightarrow> go (d\<lparr>dr_state := s, dr_events := dr_events d @ [e]\<rparr>))"

definition add_notice :: "todo_draft \<Rightarrow> notice_kind \<Rightarrow> string \<Rightarrow> party \<Rightarrow> notice_body \<Rightarrow> todo_draft" where
  "add_notice d kind todoId to body = d\<lparr>dr_notices := dr_notices d @
     [\<lparr>tn_kind = kind, tn_to = [to], tn_about = todoNoticeAbout todoId, tn_body = body\<rparr>]\<rparr>"

section \<open>Shared steps\<close>

definition targetRefusal :: "todo_run \<Rightarrow> party \<Rightarrow> todo_refusal option" where
  "targetRefusal r party = (case party of
     UserParty u \<Rightarrow> if u = [] \<or> run_member r u = None then Some AssigneeNotMember else None
   | AgentParty p \<Rightarrow>
       if p = [] then Some AssigneeNotMember
       else case run_agent r p of
         None \<Rightarrow> Some AssigneeNotMember
       | Some a \<Rightarrow> if run_member r (tg_owner_user_id a) = None then Some AssigneeNotMember
           else if tg_revoked_at a \<noteq> None then Some AssigneeRemoved else None)"

definition gateRefusal :: "todo_run \<Rightarrow> todo_draft \<Rightarrow> string \<Rightarrow> todo_gate \<Rightarrow> todo_refusal option" where
  "gateRefusal r d todoId gate =
     (let todos = hs_todos (dr_state d) in
      if \<not> validGate (rn_host r) gate \<or> (case gate of GateAfter i \<Rightarrow> obj_get todos i = None | _ \<Rightarrow> False)
      then Some GateInvalid
      else if gateCycles todoId gate todos then Some GateCycle else None)"

definition refuse_if :: "todo_refusal option \<Rightarrow> 'a todo_step \<Rightarrow> 'a todo_step" where
  "refuse_if x k = (case x of Some why \<Rightarrow> refuse why | None \<Rightarrow> k)"

definition queueFull :: "todo_draft \<Rightarrow> todo \<Rightarrow> party \<Rightarrow> bool" where
  "queueFull d todo party = (case party of UserParty _ \<Rightarrow> False
     | AgentParty p \<Rightarrow> TODO_QUEUE_LIMIT \<le>
         length (filter (\<lambda>t. td_todo_id t \<noteq> td_todo_id todo) (queue (hs_todos (dr_state d)) p)))"

text \<open>\<open>items.splice(index + 1, 0, id)\<close> after the position of an item, or at the front.\<close>

fun insert_after :: "string option \<Rightarrow> string \<Rightarrow> string list \<Rightarrow> string list option" where
  "insert_after None x xs = Some (x # xs)"
| "insert_after (Some a) x [] = None"
| "insert_after (Some a) x (y # ys) =
     (if y = a then Some (y # x # ys) else map_option ((#) y) (insert_after (Some a) x ys))"

definition order :: "todo_run \<Rightarrow> todo_draft \<Rightarrow> string \<Rightarrow> string \<Rightarrow> string option \<Rightarrow> todo_draft todo_step" where
  "order r d principalId todoId afterId =
     (case insert_after afterId todoId (filter (\<lambda>i. i \<noteq> todoId) (queue_ids (hs_todos (dr_state d)) principalId)) of
        None \<Rightarrow> refuse NotInQueue
      | Some items \<Rightarrow> emit r d (TodoQueueOrdered principalId items))"

text \<open>\<open>Math.max(0, ...ranks) + 1\<close>.\<close>

definition next_rank :: "todo list \<Rightarrow> int" where
  "next_rank ts = foldr (\<lambda>t m. max (the (td_queue_rank t)) m) ts 0 + 1"

definition bumped :: "todo \<Rightarrow> todo" where
  "bumped t = t\<lparr>td_version := td_version t + 1\<rparr>"

definition accept_todo ::
  "todo_run \<Rightarrow> todo_draft \<Rightarrow> todo \<Rightarrow> party option \<Rightarrow> todo_start \<Rightarrow> todo_gate \<Rightarrow> string option \<Rightarrow> todo_draft todo_step" where
  "accept_todo r d todo to start gate gateSetBy =
     (let rank = (case to of Some (AgentParty p) \<Rightarrow> Some (next_rank
            (filter (\<lambda>t. td_todo_id t \<noteq> td_todo_id todo) (queue (hs_todos (dr_state d)) p))) | _ \<Rightarrow> None) in
      bind_step (emit r d (TodoAssigned ((bumped todo)\<lparr>td_assignee := to,
        td_assigned_by := Some (run_actor r), td_assigned_at := Some (rn_at r), td_state := TodoOpen,
        td_state_by := run_actor r, td_state_at := rn_at r, td_gate := gate, td_gate_set_by := gateSetBy,
        td_queue_rank := rank, td_offer := None\<rparr>))) (\<lambda>d.
      case to of
        Some (AgentParty p) \<Rightarrow>
          if start = StartNow then
            bind_step (order r d p (td_todo_id todo) None) (\<lambda>d. emit r d (TodoStartAsked (td_todo_id todo) p))
          else go d
      | _ \<Rightarrow> go d))"

text \<open>A pending offer is replaced before the to-do goes elsewhere.\<close>

definition replace_offer :: "todo_run \<Rightarrow> todo_draft \<Rightarrow> todo \<Rightarrow> (todo_draft \<times> todo) todo_step" where
  "replace_offer r d todo = (case td_offer todo of None \<Rightarrow> go (d, todo)
     | Some f \<Rightarrow> bind_step (emit r d (TodoOfferAnswered ((bumped todo)\<lparr>td_offer := None\<rparr>) (of_offer_id f) AnswerReplaced))
         (\<lambda>d. go (d, draft_todo d (td_todo_id todo))))"

definition party_owner :: "todo_run \<Rightarrow> party \<Rightarrow> string" where
  "party_owner r party = (case party of UserParty u \<Rightarrow> u | AgentParty p \<Rightarrow> tg_owner_user_id (the (run_agent r p)))"

text \<open>Whether an assignment needs no consent of another person.\<close>

definition assign_accepted :: "todo_run \<Rightarrow> todo_draft \<Rightarrow> party \<Rightarrow> todo_start \<Rightarrow> bool" where
  "assign_accepted r d to start = (case to of
     UserParty u \<Rightarrow> u = run_user r
   | AgentParty p \<Rightarrow>
       if start = StartNow then run_human r \<and> party_owner r to = run_user r
       else party_owner r to = run_user r \<or>
         (case obj_get (hs_policies (dr_state d)) p of Some pol \<Rightarrow> wp_accepts_from pol
          | None \<Rightarrow> TODO_DEFAULT_ACCEPTS_FROM) = AcceptsAnyone)"

definition offer_todo ::
  "todo_run \<Rightarrow> todo_draft \<Rightarrow> todo \<Rightarrow> party \<Rightarrow> todo_start \<Rightarrow> todo_gate \<Rightarrow> todo_draft todo_step" where
  "offer_todo r d todo to start gate =
     (case tx_offer_id (rn_ctx r) of None \<Rightarrow> throw_range ''server offer ID is required''
      | Some oid \<Rightarrow> if \<not> uuid oid then throw_range ''server offer ID is required'' else
          bind_step (if td_state todo = TodoDoing then
              bind_step (emit r d (TodoStateChanged ((bumped todo)\<lparr>td_state := TodoOpen, td_state_by := run_actor r,
                td_state_at := rn_at r\<rparr>))) (\<lambda>d. go (d, draft_todo d (td_todo_id todo)))
            else go (d, todo)) (\<lambda>(d, todo).
          bind_step (emit r d (TodoOffered ((bumped todo)\<lparr>td_offer := Some \<lparr>of_offer_id = oid, of_to = to,
              of_decider_user_id = party_owner r to, of_start = start, of_gate = gate, of_by = run_actor r,
              of_at = rn_at r\<rparr>\<rparr>))) (\<lambda>d.
          go (add_notice d AskNotice (td_todo_id todo) (UserParty (party_owner r to))
            (case to of UserParty _ \<Rightarrow> NoticePersonOffer | AgentParty _ \<Rightarrow> NoticeAgentOffer)))))"

definition assigned :: "todo_run \<Rightarrow> todo_draft \<Rightarrow> todo \<Rightarrow> assign_input \<Rightarrow> todo_draft todo_step" where
  "assigned r d todo input =
     refuse_if (targetRefusal r (ai_to input))
     (let to = ai_to input;
          start = (case ai_start input of Some s \<Rightarrow> s | None \<Rightarrow> StartQueue);
          ownerStartNow = (is_agent (Some to) \<and> start = StartNow \<and> run_human r \<and> party_owner r to = run_user r);
          gate = (case ai_gate input of Some g \<Rightarrow> g | None \<Rightarrow> if ownerStartNow then GateNone else td_gate todo);
          accepted = assign_accepted r d to start in
      refuse_if (gateRefusal r d (td_todo_id todo) gate)
      (if accepted \<and> queueFull d todo to then refuse QueueFull
       else bind_step (replace_offer r d todo) (\<lambda>(d, todo).
         if \<not> accepted then offer_todo r d todo to start gate
         else bind_step (accept_todo r d todo (Some to) start gate
             (if gate = GateNone then None else case ai_gate input of None \<Rightarrow> td_gate_set_by todo | Some _ \<Rightarrow> Some (run_user r)))
           (\<lambda>d. go (if is_agent (Some to) then
               if start = StartNow then add_notice d AskNotice (td_todo_id todo) to NoticeStart
               else if evaluateGate (rn_host r) gate (hs_todos (dr_state d)) (tx_now (rn_ctx r))
                 then add_notice d NoteNotice (td_todo_id todo) to NoticeAdded else d
             else d)))))"

section \<open>The commands\<close>

definition decide_policy ::
  "todo_run \<Rightarrow> todo_draft \<Rightarrow> string \<Rightarrow> accepts_from \<Rightarrow> (todo_value \<times> todo_draft) todo_step" where
  "decide_policy r d principal_id accepts =
     (case run_agent r principal_id of
        None \<Rightarrow> refuse AssigneeNotMember
      | Some a \<Rightarrow>
          if run_member r (tg_owner_user_id a) = None then refuse AssigneeNotMember
          else if tg_revoked_at a \<noteq> None then refuse AssigneeRemoved
          else if tg_owner_user_id a \<noteq> run_user r then refuse OwnerOnly
          else
            let policy = \<lparr>wp_principal = tg_principal_id a, wp_accepts_from = accepts,
                  wp_set_by_user = run_user r, wp_set_at = rn_at r\<rparr> in
            bind_step (emit r d (AgentWorkPolicySet policy)) (\<lambda>d. go (PolicyValue policy, d)))"

definition decide_comment ::
  "todo_run \<Rightarrow> todo_draft \<Rightarrow> comment_target \<Rightarrow> jstext \<Rightarrow> party list option \<Rightarrow> (todo_value \<times> todo_draft) todo_step" where
  "decide_comment r d target body mentioned =
     (let ctx = rn_ctx r; state = rn_state r; i = ct_id target;
          mentions = (case mentioned of Some ps \<Rightarrow> ps | None \<Rightarrow> []) in
      if i = [] \<or> 255 < length i \<or>
         (if ct_kind target = TodoTarget then obj_get (hs_todos state) i = None
          else (ct_kind target, i) \<notin> set (tx_objects ctx)) then refuse TargetNotFound
      else if trim body = [] \<or> TODO_COMMENT_LIMIT < textLength body \<or> hasInvalidControls body then refuse CommentInvalid
      else if TODO_MENTIONS_LIMIT < length mentions \<or> (\<exists>p \<in> set mentions. targetRefusal r p \<noteq> None) \<or>
         \<not> distinct mentions then refuse MentionsInvalid
      else case tx_comment_id ctx of
        None \<Rightarrow> throw_range ''new server comment ID is required''
      | Some cid \<Rightarrow>
          if \<not> uuid cid \<or> obj_get (hs_comments state) cid \<noteq> None then throw_range ''new server comment ID is required''
          else
            let comment = \<lparr>tc_comment_id = cid, tc_target = target, tc_author = run_actor r, tc_body = body,
                  tc_mentions = mentions, tc_created_at = rn_at r\<rparr>;
                todo = (if ct_kind target = TodoTarget then obj_get (hs_todos state) i else None);
                counted = map_option (\<lambda>t. (bumped t)\<lparr>td_comment_count := td_comment_count t + 1\<rparr>) todo in
            bind_step (emit r d (TodoCommented comment counted)) (\<lambda>d.
            go (CommentValue comment,
              if mentions = [] then d else d\<lparr>dr_notices := dr_notices d @ [\<lparr>tn_kind = NoteNotice, tn_to = mentions,
                tn_about = (if ct_kind target = TodoTarget then todoNoticeAbout i else objectNoticeAbout i),
                tn_body = NoticeMentioned\<rparr>]\<rparr>)))"

definition decide_create ::
  "todo_run \<Rightarrow> todo_draft \<Rightarrow> jstext \<Rightarrow> jstext option \<Rightarrow> jstext option option \<Rightarrow> assign_input option \<Rightarrow>
     (todo_value \<times> todo_draft) todo_step" where
  "decide_create r d title notes due_on assign =
     (let state = rn_state r;
          notes = (case notes of Some n \<Rightarrow> n | None \<Rightarrow> []);
          due = (case due_on of Some x \<Rightarrow> x | None \<Rightarrow> None) in
      if \<not> validTitle title then refuse TitleInvalid
      else if \<not> validNotes notes then refuse NotesInvalid
      else if \<not> validDate (rn_host r) due then refuse DueInvalid
      else if TODO_OPEN_LIMIT \<le> open_count (hs_todos state) then refuse TodoLimitReached
      else case tx_todo_id (rn_ctx r) of
        None \<Rightarrow> throw_range ''new server to-do ID is required''
      | Some tid \<Rightarrow>
          if \<not> uuid tid \<or> obj_get (hs_todos state) tid \<noteq> None then throw_range ''new server to-do ID is required''
          else
            let todo = \<lparr>td_workspace_id = hs_ws state, td_todo_id = tid, td_version = 1, td_title = title,
                  td_notes = notes, td_state = TodoOpen, td_due_on = due, td_created_by = run_actor r,
                  td_created_at = rn_at r, td_assignee = None, td_assigned_by = None, td_assigned_at = None,
                  td_offer = None, td_gate = GateNone, td_gate_set_by = None, td_queue_rank = None,
                  td_state_by = run_actor r, td_state_at = rn_at r, td_comment_count = 0\<rparr> in
            bind_step (emit r d (TodoCreated todo)) (\<lambda>d.
            bind_step (case assign of None \<Rightarrow> go d | Some input \<Rightarrow> assigned r d todo input) (\<lambda>d.
            go (TodoValue (draft_todo d tid), d))))"

definition decide_update ::
  "todo_run \<Rightarrow> todo_draft \<Rightarrow> todo \<Rightarrow> jstext option \<Rightarrow> jstext option \<Rightarrow> jstext option option \<Rightarrow> todo_draft todo_step" where
  "decide_update r d todo title notes due_on =
     (if (case title of None \<Rightarrow> False | Some t \<Rightarrow> \<not> validTitle t) then refuse TitleInvalid
      else if (case notes of None \<Rightarrow> False | Some t \<Rightarrow> \<not> validNotes t) then refuse NotesInvalid
      else if (case due_on of None \<Rightarrow> False | Some t \<Rightarrow> \<not> validDate (rn_host r) t) then refuse DueInvalid
      else if (title = None \<or> title = Some (td_title todo)) \<and> (notes = None \<or> notes = Some (td_notes todo)) \<and>
              (due_on = None \<or> due_on = Some (td_due_on todo)) then go d
      else emit r d (TodoDetailsChanged ((bumped todo)\<lparr>
        td_title := (case title of Some t \<Rightarrow> t | None \<Rightarrow> td_title todo),
        td_notes := (case notes of Some t \<Rightarrow> t | None \<Rightarrow> td_notes todo),
        td_due_on := (case due_on of Some t \<Rightarrow> t | None \<Rightarrow> td_due_on todo)\<rparr>)))"

definition decide_assign ::
  "todo_run \<Rightarrow> todo_draft \<Rightarrow> todo \<Rightarrow> party option \<Rightarrow> todo_start option \<Rightarrow> todo_gate option \<Rightarrow> todo_draft todo_step" where
  "decide_assign r d todo to start gate =
     (if \<not> isOpen todo then refuse InvalidTransition
      else case to of
        None \<Rightarrow>
          let g = (case gate of Some g \<Rightarrow> g | None \<Rightarrow> td_gate todo) in
          refuse_if (gateRefusal r d (td_todo_id todo) g)
          (bind_step (replace_offer r d todo) (\<lambda>(d, todo).
             accept_todo r d todo None StartQueue g
               (case gate of None \<Rightarrow> td_gate_set_by todo | Some _ \<Rightarrow> gate_setter g (Some (run_user r)))))
      | Some p \<Rightarrow> assigned r d todo \<lparr>ai_to = p, ai_start = start, ai_gate = gate\<rparr>)"

definition decide_answer ::
  "todo_run \<Rightarrow> todo_draft \<Rightarrow> todo \<Rightarrow> string \<Rightarrow> offer_answer \<Rightarrow> todo_draft todo_step" where
  "decide_answer r d todo offer_id answer =
     (case td_offer todo of
        None \<Rightarrow> refuse OfferNotPending
      | Some f \<Rightarrow>
          if of_offer_id f \<noteq> offer_id then refuse OfferNotPending
          else if answer = AnswerReplaced then refuse InvalidTransition
          else if (if answer = AnswerWithdraw then run_user r \<noteq> ta_user_id (of_by f) \<and> \<not> run_admin r
                   else run_user r \<noteq> of_decider_user_id f) then refuse NotDecider
          else refuse_if (if answer \<noteq> AnswerAccept then None
              else if \<not> isOpen todo then Some InvalidTransition
              else case targetRefusal r (of_to f) of Some x \<Rightarrow> Some x
              | None \<Rightarrow> (case gateRefusal r d (td_todo_id todo) (of_gate f) of Some x \<Rightarrow> Some x
                 | None \<Rightarrow> if queueFull d todo (of_to f) then Some QueueFull else None))
          (bind_step (emit r d (TodoOfferAnswered ((bumped todo)\<lparr>td_offer := None\<rparr>) (of_offer_id f) answer)) (\<lambda>d.
           bind_step (if answer = AnswerAccept then
               accept_todo r d (draft_todo d (td_todo_id todo)) (Some (of_to f)) (of_start f) (of_gate f)
                 (gate_setter (of_gate f) (Some (ta_user_id (of_by f)))) else go d) (\<lambda>d.
           go (if answer = AnswerAccept \<and> is_agent (Some (of_to f)) \<and> (of_start f = StartNow \<or>
                 evaluateGate (rn_host r) (of_gate f) (hs_todos (dr_state d)) (tx_now (rn_ctx r))) then
               if of_start f = StartNow then add_notice d AskNotice (td_todo_id todo) (of_to f) NoticeStart
               else add_notice d NoteNotice (td_todo_id todo) (of_to f) NoticeAdded
             else if answer \<noteq> AnswerWithdraw \<and> ta_user_id (of_by f) \<noteq> of_decider_user_id f then
               add_notice d NoteNotice (td_todo_id todo)
                 (if falsy (ta_principal_id (of_by f)) then UserParty (ta_user_id (of_by f))
                  else AgentParty (the (ta_principal_id (of_by f))))
                 (if answer = AnswerAccept then NoticeAccepted else NoticeDeclined)
             else d)))))"

definition decide_steer :: "todo_run \<Rightarrow> todo_draft \<Rightarrow> todo \<Rightarrow> steer_action \<Rightarrow> todo_draft todo_step" where
  "decide_steer r d todo action =
     (case td_assignee todo of
        Some (AgentParty p) \<Rightarrow>
          if \<not> isOpen todo \<or> td_queue_rank todo = None then refuse NotInQueue
          else (case run_agent r p of
            None \<Rightarrow> refuse OwnerOnly
          | Some a \<Rightarrow>
              if tg_owner_user_id a \<noteq> run_user r then refuse OwnerOnly
              else if tg_revoked_at a \<noteq> None then refuse AssigneeRemoved
              else (case action of
                MoveAfter after \<Rightarrow> order r d p (td_todo_id todo) after
              | SteerStartNow \<Rightarrow>
                  bind_step (if td_gate todo \<noteq> GateNone then
                      emit r d (TodoGateSet ((bumped todo)\<lparr>td_gate := GateNone, td_gate_set_by := None\<rparr>)) else go d) (\<lambda>d.
                  bind_step (order r d p (td_todo_id todo) None) (\<lambda>d.
                  bind_step (emit r d (TodoStartAsked (td_todo_id todo) p)) (\<lambda>d.
                  go (add_notice d AskNotice (td_todo_id todo) (AgentParty p) NoticeStart))))
              | SteerGate gate \<Rightarrow>
                  refuse_if (gateRefusal r d (td_todo_id todo) gate)
                  (emit r d (TodoGateSet ((bumped todo)\<lparr>td_gate := gate,
                     td_gate_set_by := gate_setter gate (Some (run_user r))\<rparr>)))))
      | _ \<Rightarrow> refuse NotInQueue)"

text \<open>Starting a to-do: the projection must be clear of its gate, and an unassigned one is taken first.\<close>

definition start_doing :: "todo_run \<Rightarrow> todo_draft \<Rightarrow> todo \<Rightarrow> (todo_draft \<times> todo) todo_step" where
  "start_doing r d todo =
     (if td_assignee todo \<noteq> None \<and> td_assignee todo \<noteq> Some (run_party r) then refuse NotAssignee
      else if \<not> evaluateGate (rn_host r) (td_gate todo) (hs_todos (rn_state r)) (tx_now (rn_ctx r)) then refuse GateInvalid
      else if td_assignee todo = None then
        refuse_if (targetRefusal r (run_party r))
        (if queueFull d todo (run_party r) then refuse QueueFull
         else bind_step (replace_offer r d todo) (\<lambda>(d, todo).
           bind_step (accept_todo r d todo (Some (run_party r)) StartQueue GateNone None) (\<lambda>d.
           go (d, draft_todo d (td_todo_id todo)))))
      else go (d, todo))"

definition leave_doing :: "todo_run \<Rightarrow> todo_draft \<Rightarrow> todo \<Rightarrow> todo_status \<Rightarrow> (todo_draft \<times> todo) todo_step" where
  "leave_doing r d todo nxt =
     (let assigneeSide = (td_assignee todo = Some (run_party r) \<or>
            (case td_assignee todo of Some (AgentParty p) \<Rightarrow>
               (case run_agent r p of None \<Rightarrow> False | Some a \<Rightarrow> tg_owner_user_id a = run_user r) | _ \<Rightarrow> False)) in
      if td_assignee todo \<noteq> None \<and> \<not> assigneeSide \<and> ta_user_id (td_created_by todo) \<noteq> run_user r \<and> \<not> run_admin r
      then refuse NotPermitted
      else if \<not> isOpen todo \<and> nxt = TodoOpen then
        if TODO_OPEN_LIMIT \<le> open_count (hs_todos (rn_state r)) then refuse TodoLimitReached
        else if (case td_assignee todo of None \<Rightarrow> False | Some p \<Rightarrow> queueFull d todo p) then refuse QueueFull
        else go (d, todo)
      else go (d, todo))"

definition decide_state :: "todo_run \<Rightarrow> todo_draft \<Rightarrow> todo \<Rightarrow> todo_status \<Rightarrow> todo_draft todo_step" where
  "decide_state r d todo nxt =
     (if nxt \<notin> set (next_states (td_state todo)) then refuse InvalidTransition
      else bind_step (if nxt = TodoDoing then start_doing r d todo else leave_doing r d todo nxt) (\<lambda>(d, todo).
        let rank = (case td_assignee todo of
              Some (AgentParty p) \<Rightarrow> if \<not> isOpen todo \<and> nxt = TodoOpen
                then Some (next_rank (queue (hs_todos (dr_state d)) p)) else td_queue_rank todo
            | _ \<Rightarrow> td_queue_rank todo) in
        emit r d (TodoStateChanged ((bumped todo)\<lparr>td_state := nxt, td_state_by := run_actor r, td_state_at := rn_at r,
          td_queue_rank := (if nxt = TodoDone \<or> nxt = TodoDropped then None else rank)\<rparr>))))"

text \<open>The to-do a command names; an agent's bare start takes the first ready one of its queue.\<close>

fun command_todo :: "todo_command \<Rightarrow> string option" where
  "command_todo (TodoUpdate i _ _ _ _) = Some i"
| "command_todo (TodoAssign i _ _ _ _) = Some i"
| "command_todo (TodoStart i) = i"
| "command_todo (TodoSetState i _ _) = Some i"
| "command_todo (HouseholdTodoAnswer i _ _) = Some i"
| "command_todo (HouseholdTodoSteer i _ _) = Some i"
| "command_todo _ = None"

definition next_ready :: "todo_run \<Rightarrow> string option" where
  "next_ready r = (case run_principal r of None \<Rightarrow> None
     | Some p \<Rightarrow> map_option td_todo_id (find (\<lambda>t. td_state t = TodoOpen \<and>
         evaluateGate (rn_host r) (td_gate t) (hs_todos (rn_state r)) (tx_now (rn_ctx r))) (queue (hs_todos (rn_state r)) p)))"

definition change_todo :: "todo_run \<Rightarrow> todo_draft \<Rightarrow> todo \<Rightarrow> todo_command \<Rightarrow> todo_draft todo_step" where
  "change_todo r d todo cmd = (case cmd of
       TodoUpdate _ _ title notes due \<Rightarrow> decide_update r d todo title notes due
     | TodoAssign _ _ to start gate \<Rightarrow> decide_assign r d todo to start gate
     | HouseholdTodoAnswer _ offer_id answer \<Rightarrow> decide_answer r d todo offer_id answer
     | HouseholdTodoSteer _ _ action \<Rightarrow> decide_steer r d todo action
     | TodoStart _ \<Rightarrow> decide_state r d todo TodoDoing
     | TodoSetState _ _ nxt \<Rightarrow> decide_state r d todo nxt
     | _ \<Rightarrow> refuse NotPermitted)"

definition decide_existing_todo :: "todo_run \<Rightarrow> todo_draft \<Rightarrow> todo_command \<Rightarrow> (todo_value \<times> todo_draft) todo_step" where
  "decide_existing_todo r d cmd =
     (let bare = (cmd = TodoStart None);
          todoId = (if bare then next_ready r else command_todo cmd) in
      if bare \<and> falsy todoId then refuse QueueEmpty
      else case (if falsy todoId then None else obj_get (hs_todos (rn_state r)) (the todoId)) of
        None \<Rightarrow> refuse TodoNotFound
      | Some todo \<Rightarrow>
          if (case base_version cmd of None \<Rightarrow> False | Some v \<Rightarrow> \<not> js_eq v (Fin (of_int (td_version todo)))) then
            Inr (Inl (TodoConflict todo))
          else bind_step (change_todo r d todo cmd) (\<lambda>d. go (TodoValue (draft_todo d (td_todo_id todo)), d)))"

definition run_command :: "todo_run \<Rightarrow> todo_command \<Rightarrow> (todo_value \<times> todo_draft) todo_step" where
  "run_command r cmd =
     (let d = \<lparr>dr_state = rn_state r, dr_events = [], dr_notices = []\<rparr>; ctx = rn_ctx r in
      if householdWriteLimitReached (tx_identity_write_attempts ctx) (tx_workspace_write_attempts ctx) then
        refuse TodoWriteRateLimited
      else if is_household cmd \<and> \<not> run_human r then refuse HumanConfirmationRequired
      else case cmd of
        HouseholdAgentWorkPolicy p accepts \<Rightarrow> decide_policy r d p accepts
      | TodoComment target body mentions \<Rightarrow> decide_comment r d target body mentions
      | TodoCreate title notes due assign \<Rightarrow> decide_create r d title notes due assign
      | _ \<Rightarrow> decide_existing_todo r d cmd)"

section \<open>The decision\<close>

definition bare_decision :: "todo_outcome \<Rightarrow> todo_decision" where
  "bare_decision out = \<lparr>dd_outcome = out, dd_events = [], dd_receipt = None, dd_notices = [], dd_replayed = False\<rparr>"

definition run_receipt :: "todo_run \<Rightarrow> todo_outcome \<Rightarrow> todo_receipt" where
  "run_receipt r out = \<lparr>rc_principal = (case run_principal r of Some p \<Rightarrow> p | None \<Rightarrow> run_user r),
     rc_command_id = tx_command_id (rn_ctx r), rc_request_digest = tx_request_digest (rn_ctx r), rc_outcome = out\<rparr>"

text \<open>\<open>last.payload.receipt = receipt\<close>.\<close>

definition with_receipt :: "todo_receipt \<Rightarrow> todo_event list \<Rightarrow> todo_event list" where
  "with_receipt rc es = (if es = [] then [] else butlast es @ [(last es)\<lparr>tv_receipt := Some rc\<rparr>])"

definition finish_todo :: "todo_run \<Rightarrow> (todo_value \<times> todo_draft) todo_step \<Rightarrow> todo_error + todo_decision" where
  "finish_todo r result = (case result of
     Inl e \<Rightarrow> Inl e
   | Inr (Inl out) \<Rightarrow> Inr \<lparr>dd_outcome = out, dd_events = [], dd_receipt = Some (run_receipt r out),
       dd_notices = [], dd_replayed = False\<rparr>
   | Inr (Inr (v, d)) \<Rightarrow>
       let rc = run_receipt r (TodoCommitted v); es = with_receipt rc (dr_events d) in
       ensure (\<forall>e \<in> set es. event_bytes (rn_host r) e \<le> TODO_EVENT_BYTE_LIMIT)
         (TodoRange ''to-do event exceeds 64 KiB'')
         (Inr \<lparr>dd_outcome = TodoCommitted v, dd_events = es, dd_receipt = Some rc, dd_notices = dr_notices d,
               dd_replayed = False\<rparr>))"

definition command_operation :: "todo_command \<Rightarrow> content_operation" where
  "command_operation cmd = (case cmd of TodoCreate _ _ _ _ \<Rightarrow> CreateContent | TodoComment _ _ _ \<Rightarrow> CreateContent | _ \<Rightarrow> UpdateContent)"

definition decideTodo :: "todo_host \<Rightarrow> todo_state \<Rightarrow> todo_command \<Rightarrow> todo_ctx \<Rightarrow> todo_error + todo_decision" where
  "decideTodo h state cmd ctx =
     (case householdAccessRefusal (tx_access ctx) (hs_ws state) (command_operation cmd) (tx_now ctx) of
        Some x \<Rightarrow> Inr (bare_decision (TodoRefused (AccessRefusal x)))
      | None \<Rightarrow>
          if tx_command_id ctx = [] \<or> \<not> digest_ok (tx_request_digest ctx) \<or> \<not> safe_integer (tx_seq ctx) \<or>
             tx_seq ctx \<le> hs_last_seq state then Inr (bare_decision (TodoRefused InvalidCommandContext))
          else
            let run = (\<lambda>t. \<lparr>rn_host = h, rn_ctx = ctx, rn_state = state, rn_at = t\<rparr>);
                principal = rc_principal (run_receipt (run []) (TodoRefused InvalidCommandContext)) in
            (case obj_get (hs_receipts state) (receiptKey principal (tx_command_id ctx)) of
               Some previous \<Rightarrow>
                 if rc_request_digest previous = tx_request_digest ctx
                 then Inr ((bare_decision (rc_outcome previous))\<lparr>dd_replayed := True\<rparr>)
                 else Inr (bare_decision (TodoRefused RequestIdReused))
             | None \<Rightarrow> bind_result (iso_of_number (tx_now ctx)) (\<lambda>t. finish_todo (run t) (run_command (run t) cmd))))"

end
