(* ===== verification/TodoInvariant.thy ===== *)
theory TodoInvariant
  imports TodoReducer
begin

text \<open>
  What the reducer of the household to-dos keeps: the walk along \<open>after\<close> gates decides exactly whether a
  cycle is reached, every replayed projection has acyclic gates, ranks on exactly the open to-dos
  of agents, and its quotas.
\<close>

section \<open>Gates as a relation\<close>

definition waits_for :: "todo obj \<Rightarrow> string \<Rightarrow> string \<Rightarrow> bool" where
  "waits_for todos i j \<longleftrightarrow> (\<exists>t. obj_get todos i = Some t \<and> td_gate t = GateAfter j)"

lemma waits_for_unique: "waits_for todos i j \<Longrightarrow> waits_for todos i k \<Longrightarrow> j = k"
  by (auto simp: waits_for_def)

lemma gate_walk_sound:
  "gate_walk todos seen g \<Longrightarrow> g = GateAfter i \<Longrightarrow>
     \<exists>k. (waits_for todos)\<^sup>*\<^sup>* i k \<and> (k \<in> set seen \<or> (waits_for todos)\<^sup>+\<^sup>+ k k)"
proof (induction todos seen g arbitrary: i rule: gate_walk.induct)
  case (1 todos seen j)
  then have [simp]: "j = i" by simp
  show ?case
  proof (cases "i \<in> set seen")
    case False
    then obtain t where t: "obj_get todos i = Some t" "gate_walk todos (i # seen) (td_gate t)"
      using 1(2) by (auto split: option.splits)
    then obtain l where l: "td_gate t = GateAfter l" by (auto elim: gate_walk.elims)
    then have step: "waits_for todos i l" using t(1) by (auto simp: waits_for_def)
    from 1(1)[of t l] False t l obtain k where k: "(waits_for todos)\<^sup>*\<^sup>* l k"
      "k \<in> set (i # seen) \<or> (waits_for todos)\<^sup>+\<^sup>+ k k" by auto
    show ?thesis
    proof (cases "k = i")
      case True
      with step k(1) have "(waits_for todos)\<^sup>+\<^sup>+ i i" by (simp add: rtranclp_into_tranclp2)
      then show ?thesis by blast
    next
      case False
      with step k show ?thesis by (meson converse_rtranclp_into_rtranclp set_ConsD)
    qed
  qed auto
qed auto

lemma gate_walk_complete:
  "(waits_for todos)\<^sup>*\<^sup>* i k \<Longrightarrow> k \<in> set seen \<or> (waits_for todos)\<^sup>+\<^sup>+ k k \<Longrightarrow> g = GateAfter i \<Longrightarrow>
     gate_walk todos seen g"
proof (induction todos seen g arbitrary: i k rule: gate_walk.induct)
  case (1 todos seen j)
  then have [simp]: "j = i" by simp
  show ?case
  proof (cases "i \<in> set seen")
    case False
    have "\<exists>l m. waits_for todos i l \<and> (waits_for todos)\<^sup>*\<^sup>* l m \<and> (m \<in> set (i # seen) \<or> (waits_for todos)\<^sup>+\<^sup>+ m m)"
    proof (cases "k = i")
      case True
      then have "(waits_for todos)\<^sup>+\<^sup>+ i i" using 1(3) False by simp
      then show ?thesis by (meson list.set_intros(1) tranclpD)
    next
      case k: False
      then show ?thesis using 1(2,3) by (metis \<open>j = i\<close> converse_rtranclpE list.set_intros(2))
    qed
    then obtain l m where l: "waits_for todos i l" "(waits_for todos)\<^sup>*\<^sup>* l m"
      "m \<in> set (i # seen) \<or> (waits_for todos)\<^sup>+\<^sup>+ m m" by blast
    then obtain t where t: "obj_get todos i = Some t" "td_gate t = GateAfter l" by (auto simp: waits_for_def)
    from 1(1)[of t l m] False t l show ?thesis by simp
  qed simp
qed auto

definition acyclic_gates :: "todo obj \<Rightarrow> bool" where
  "acyclic_gates todos \<longleftrightarrow> (\<forall>i. \<not> (waits_for todos)\<^sup>+\<^sup>+ i i)"

lemma gateCycles_acyclic:
  assumes "acyclic_gates todos"
  shows "gateCycles i (GateAfter j) todos \<longleftrightarrow> (waits_for todos)\<^sup>*\<^sup>* j i"
  using gate_walk_sound[of todos "[i]" "GateAfter j" j] gate_walk_complete[of todos j i "[i]"] assms
  by (auto simp: gateCycles_def acyclic_gates_def)

lemma gateCycles_only_after: "gateCycles i g todos \<Longrightarrow> \<exists>j. g = GateAfter j"
  by (cases g) (auto simp: gateCycles_def)

lemma waits_for_put:
  "waits_for (obj_put todos i t) a b \<longleftrightarrow> (if a = i then td_gate t = GateAfter b else waits_for todos a b)"
  by (simp add: waits_for_def)

text \<open>A to-do whose gate passed the cycle check does not close a cycle.\<close>

lemma acyclic_put:
  assumes "acyclic_gates todos" and "\<not> gateCycles i (td_gate t) todos"
  shows "acyclic_gates (obj_put todos i t)"
proof -
  let ?new = "waits_for (obj_put todos i t)"
  have to_i: "?new\<^sup>*\<^sup>* a i \<Longrightarrow> (waits_for todos)\<^sup>*\<^sup>* a i" for a
    by (induction rule: converse_rtranclp_induct)
      (auto simp: waits_for_put split: if_split_asm intro: converse_rtranclp_into_rtranclp)
  have split: "?new\<^sup>+\<^sup>+ a b \<Longrightarrow>
      (waits_for todos)\<^sup>+\<^sup>+ a b \<or> (\<exists>j. td_gate t = GateAfter j \<and> ?new\<^sup>*\<^sup>* a i \<and> ?new\<^sup>*\<^sup>* j b)" for a b
  proof (induction rule: tranclp_induct)
    case (base b)
    then show ?case by (auto simp: waits_for_put split: if_split_asm)
  next
    case (step b c)
    show ?case
    proof (cases "b = i")
      case True
      then have "td_gate t = GateAfter c" using step(2) by (simp add: waits_for_put)
      moreover have "?new\<^sup>*\<^sup>* a i" using step(1) True by (simp only: tranclp_into_rtranclp)
      ultimately show ?thesis by blast
    next
      case False
      then have "waits_for todos b c" using step(2) by (simp add: waits_for_put)
      then show ?thesis using step by (auto intro: tranclp.trancl_into_trancl rtranclp.rtrancl_into_rtrancl)
    qed
  qed
  show ?thesis unfolding acyclic_gates_def
  proof (intro allI notI)
    fix x assume "?new\<^sup>+\<^sup>+ x x"
    from split[OF this] assms(1) obtain j where j: "td_gate t = GateAfter j" "?new\<^sup>*\<^sup>* x i" "?new\<^sup>*\<^sup>* j x"
      by (auto simp: acyclic_gates_def)
    then have "(waits_for todos)\<^sup>*\<^sup>* j i" using to_i by (metis rtranclp_trans)
    then show False using assms j(1) by (simp add: gateCycles_acyclic)
  qed
qed

section \<open>The projection invariant\<close>

text \<open>One to-do of a projection: stored under its id, valid, ranked exactly when an agent has it open,
  its gate's to-do known.\<close>

definition todo_ok :: "todo_host \<Rightarrow> string \<Rightarrow> todo obj \<Rightarrow> string \<Rightarrow> todo \<Rightarrow> bool" where
  "todo_ok h ws todos i t \<longleftrightarrow> td_todo_id t = i \<and> uuid i \<and> td_workspace_id t = ws \<and> 1 \<le> td_version t \<and>
     validTitle (td_title t) \<and> validGate h (td_gate t) \<and>
     (td_queue_rank t \<noteq> None \<longleftrightarrow> is_agent (td_assignee t) \<and> isOpen t) \<and>
     (\<forall>j. td_gate t = GateAfter j \<longrightarrow> obj_get todos j \<noteq> None)"

definition todos_ok :: "todo_host \<Rightarrow> string \<Rightarrow> todo obj \<Rightarrow> bool" where
  "todos_ok h ws todos \<longleftrightarrow> obj_wf todos \<and> acyclic_gates todos \<and>
     (\<forall>i t. obj_get todos i = Some t \<longrightarrow> todo_ok h ws todos i t)"

definition todo_state_ok :: "todo_host \<Rightarrow> todo_state \<Rightarrow> bool" where
  "todo_state_ok h s \<longleftrightarrow> todos_ok h (hs_ws s) (hs_todos s) \<and> quotas_ok (hs_todos s)"

lemma todos_okD:
  "todos_ok h ws todos \<Longrightarrow> obj_get todos i = Some t \<Longrightarrow> todo_ok h ws todos i t"
  by (simp add: todos_ok_def)

lemma empty_todo_state_ok:
  "emptyHouseholdTodoState ws st = Inr s \<Longrightarrow> todo_state_ok h s"
  by (auto simp: emptyHouseholdTodoState_def todo_state_ok_def todos_ok_def quotas_ok_def open_count_def
      obj_values_def acyclic_gates_def waits_for_def elim: tranclp.cases)

lemma applyTodo_Inr:
  assumes "applyTodo h s todos acc e create t = Inr todos'"
  shows "todos' = obj_put todos (td_todo_id t) t" "projection_ok h s todos create t" "fields_ok h todos t"
    "iso_of_number (tv_occurred_at e) = Inr x \<Longrightarrow> if create then create_ok e x t
       else body_check h todos acc e x (the (obj_get todos (td_todo_id t))) t = Inr ()"
    "\<not> create \<Longrightarrow> \<forall>k \<in> set todo_fields. k = F_version \<or> k \<in> set (event_fields (tv_body e)) \<or>
       same_field k (the (obj_get todos (td_todo_id t))) t"
    "\<exists>x. iso_of_number (tv_occurred_at e) = Inr x"
  using assms
  by (auto simp: applyTodo_def Let_def bind_result_Inr split: if_split_asm)

lemma todos_ok_apply:
  assumes "todos_ok h (hs_ws s) todos" and "applyTodo h s todos acc e create t = Inr todos'"
  shows "todos_ok h (hs_ws s) todos'"
proof -
  note a = applyTodo_Inr[OF assms(2)]
  let ?i = "td_todo_id t"
  have acyc: "acyclic_gates todos'"
    using assms(1) a(1,3) by (auto simp: todos_ok_def fields_ok_def intro: acyclic_put)
  have "1 \<le> td_version t"
    using a(2) assms(1) todos_okD[OF assms(1), of ?i]
    by (auto simp: projection_ok_def Let_def todo_ok_def split: if_split_asm option.split_asm)
  then have t: "todo_ok h (hs_ws s) todos' ?i t"
    using a(1,2,3) by (auto simp: todo_ok_def projection_ok_def fields_ok_def Let_def split: option.split_asm)
  have "todo_ok h (hs_ws s) todos' j u" if "obj_get todos' j = Some u" for j u
    using that t todos_okD[OF assms(1), of j u] a(1) by (auto simp: todo_ok_def split: if_split_asm)
  with acyc assms(1) a(1) show ?thesis by (auto simp: todos_ok_def)
qed

section \<open>Queue order\<close>

lemma put_ranks_get:
  "distinct ids \<Longrightarrow> set ids \<subseteq> {i. obj_get todos i \<noteq> None} \<Longrightarrow>
    obj_get (put_ranks n ids todos) i = (if i \<in> set ids
      then Some ((the (obj_get todos i))\<lparr>td_queue_rank := Some (n + int (length (takeWhile (\<lambda>j. j \<noteq> i) ids)))\<rparr>)
      else obj_get todos i)"
proof (induction ids arbitrary: n todos)
  case (Cons j ids)
  then have "set ids \<subseteq> {i. obj_get (obj_put todos j ((the (obj_get todos j))\<lparr>td_queue_rank := Some n\<rparr>)) i \<noteq> None}"
    by auto
  with Cons show ?case by (auto simp: add.assoc)
qed simp

lemma put_ranks_wf: "obj_wf todos \<Longrightarrow> obj_wf (put_ranks n ids todos)"
  by (induction n ids todos rule: put_ranks.induct) auto

interpretation queue_order: sort_order queue_before "{t. obj_get todos (td_todo_id t) = Some t}" for todos
  by unfold_locales (auto simp: queue_before_def, metis linorder_less_linear option.inject)

lemma todo_values:
  assumes "todos_ok h ws todos"
  shows "t \<in> set (obj_values todos) \<longleftrightarrow> obj_get todos (td_todo_id t) = Some t"
    "distinct (map td_todo_id (obj_values todos))"
proof -
  have wf: "obj_wf todos" using assms by (simp add: todos_ok_def)
  have key: "td_todo_id v = k" if "(k, v) \<in> set todos" for k v
    using that wf todos_okD[OF assms, of k v] by (simp add: obj_get_def obj_wf_def todo_ok_def)
  show "t \<in> set (obj_values todos) \<longleftrightarrow> obj_get todos (td_todo_id t) = Some t"
    using wf key by (force simp: obj_values_def obj_get_def obj_wf_def dest: map_of_SomeD)
  have "map td_todo_id (obj_values todos) = map fst todos"
    using key by (auto simp: obj_values_def)
  then show "distinct (map td_todo_id (obj_values todos))" using wf by (simp add: obj_wf_def)
qed

lemma queue_facts:
  assumes "todos_ok h ws todos"
  shows "t \<in> set (queue todos p) \<longleftrightarrow> obj_get todos (td_todo_id t) = Some t \<and> in_queue p t"
    "sorted_wrt queue_before (queue todos p)" "distinct (queue_ids todos p)"
proof -
  note v = todo_values[OF assms]
  show t: "t \<in> set (queue todos p) \<longleftrightarrow> obj_get todos (td_todo_id t) = Some t \<and> in_queue p t" for t
    using v(1) by (auto simp: queue_def)
  have d: "distinct (filter (in_queue p) (obj_values todos))" using v(2) by (metis distinct_filter distinct_map)
  show "sorted_wrt queue_before (queue todos p)"
    unfolding queue_def using d v(1) by (intro queue_order.sorted_sort[of _ todos]) auto
  have "inj_on td_todo_id (set (queue todos p))" using t by (auto simp: inj_on_def)
  then show "distinct (queue_ids todos p)" using d by (simp add: queue_ids_def distinct_map queue_def)
qed

lemma length_takeWhile_nth:
  "distinct xs \<Longrightarrow> i < length xs \<Longrightarrow> length (takeWhile (\<lambda>j. j \<noteq> xs ! i) xs) = i"
proof (induction xs arbitrary: i)
  case (Cons x xs)
  then show ?case by (cases i) (auto simp: nth_mem)
qed simp

text \<open>Re-ranking by a complete list of the queue gives exactly that order.\<close>

lemma put_ranks_ok:
  assumes "todos_ok h ws todos" and "distinct ids" and "set ids = set (queue_ids todos p)"
  shows "todos_ok h ws (put_ranks 1 ids todos)" "queue_ids (put_ranks 1 ids todos) p = ids"
proof -
  let ?new = "put_ranks 1 ids todos"
  have inq: "\<exists>t. obj_get todos i = Some t \<and> in_queue p t \<and> td_todo_id t = i" if "i \<in> set ids" for i
    using that assms(3) queue_facts(1)[OF assms(1)] by (fastforce simp: queue_ids_def)
  then have "set ids \<subseteq> {i. obj_get todos i \<noteq> None}" by fastforce
  note get = put_ranks_get[OF assms(2) this, of 1]
  have gates: "waits_for ?new = waits_for todos"
    using inq by (auto simp: fun_eq_iff waits_for_def get split: if_split_asm) fastforce+
  have ok: "todo_ok h ws ?new i t" if t: "obj_get ?new i = Some t" for i t
  proof (cases "i \<in> set ids")
    case True
    then obtain u where u: "obj_get todos i = Some u" "in_queue p u" using inq by blast
    from todos_okD[OF assms(1) u(1)] u True t show ?thesis
      by (auto simp: todo_ok_def get in_queue_def isOpen_def)
  next
    case False
    with todos_okD[OF assms(1), of i t] t show ?thesis by (auto simp: todo_ok_def get)
  qed
  then show n: "todos_ok h ws ?new"
    using assms(1) put_ranks_wf gates by (simp add: todos_ok_def acyclic_gates_def)
  let ?q = "map (\<lambda>i. the (obj_get ?new i)) ids"
  have q: "the (obj_get ?new i) = (the (obj_get todos i))\<lparr>td_queue_rank := Some (1 + int (length (takeWhile (\<lambda>j. j \<noteq> i) ids)))\<rparr>"
    if "i \<in> set ids" for i using that by (simp add: get)
  have "sorted_wrt queue_before ?q"
    unfolding sorted_wrt_iff_nth_less
    using assms(2) q by (auto simp: queue_before_def length_takeWhile_nth)
  moreover have "set (queue ?new p) = set ?q"
  proof (intro set_eqI iffI)
    fix t assume "t \<in> set (queue ?new p)"
    then have t: "obj_get ?new (td_todo_id t) = Some t" "in_queue p t" using queue_facts(1)[OF n] by simp_all
    have "td_todo_id t \<in> set ids"
    proof (rule ccontr)
      assume "td_todo_id t \<notin> set ids"
      with t have "t \<in> set (queue todos p)" using queue_facts(1)[OF assms(1)] by (simp add: get)
      with \<open>td_todo_id t \<notin> set ids\<close> assms(3) show False by (simp add: queue_ids_def)
    qed
    with t(1) show "t \<in> set ?q" by force
  next
    fix t assume "t \<in> set ?q"
    then obtain i where i: "i \<in> set ids" "t = the (obj_get ?new i)" by auto
    from inq[OF i(1)] obtain u where u: "obj_get todos i = Some u" "in_queue p u" "td_todo_id u = i" by blast
    with i q[OF i(1)] have "t = u\<lparr>td_queue_rank := Some (1 + int (length (takeWhile (\<lambda>j. j \<noteq> i) ids)))\<rparr>" by simp
    with u i(1) show "t \<in> set (queue ?new p)"
      using queue_facts(1)[OF n] by (simp add: get in_queue_def isOpen_def)
  qed
  ultimately have "queue ?new p = ?q"
    using queue_facts[OF n] by (intro queue_order.sorted_unique[of _ _ ?new]) auto
  moreover have "td_todo_id (the (obj_get ?new i)) = i" if "i \<in> set ids" for i using inq[OF that] q[OF that] by auto
  ultimately show "queue_ids ?new p = ids" by (simp add: queue_ids_def comp_def map_idI)
qed

section \<open>Every event keeps the invariant\<close>

lemma queue_ids_perm:
  assumes "todos_ok h ws todos" and "distinct ids" and "length ids = length (queue_ids todos p)"
    and "set (queue_ids todos p) \<subseteq> set ids"
  shows "set ids = set (queue_ids todos p)"
  using card_subset_eq[of "set ids" "set (queue_ids todos p)"] queue_facts(3)[OF assms(1), of p] assms(2-4)
  by (simp add: distinct_card)

lemma put_ranks_other:
  assumes "todos_ok h ws todos" and "distinct ids" and "set ids = set (queue_ids todos p)" and "q \<noteq> p"
  shows "queue (put_ranks 1 ids todos) q = queue todos q"
proof -
  let ?new = "put_ranks 1 ids todos"
  note n = put_ranks_ok(1)[OF assms(1-3)]
  have inp: "\<exists>t. obj_get todos i = Some t \<and> in_queue p t" if "i \<in> set ids" for i
    using that assms(3) queue_facts(1)[OF assms(1)] by (fastforce simp: queue_ids_def)
  then have "set ids \<subseteq> {i. obj_get todos i \<noteq> None}" by fastforce
  note get = put_ranks_get[OF assms(2) this, of 1]
  have same: "obj_get ?new i = Some t \<and> in_queue q t \<longleftrightarrow> obj_get todos i = Some t \<and> in_queue q t" for i t
    using inp[of i] assms(4) by (auto simp: get in_queue_def)
  then have "set (queue ?new q) = set (queue todos q)"
    using queue_facts(1)[OF n] queue_facts(1)[OF assms(1)] by (auto simp: set_eq_iff)
  then show ?thesis
    using queue_facts(1,2)[OF assms(1)] queue_facts(2)[OF n]
    by (intro queue_order.sorted_unique[where todos = todos]) auto
qed

lemma apply_body_frame:
  "apply_body h s acc e = Inr (s', acc') \<Longrightarrow> hs_ws s' = hs_ws s \<and> hs_stream s' = hs_stream s \<and>
     hs_last_seq s' = hs_last_seq s \<and> hs_receipts s' = hs_receipts s"
  by (cases "tv_body e") (auto simp: apply_body_def Let_def bind_result_Inr split: option.split_asm)

lemma apply_body_ok:
  assumes "apply_body h s acc e = Inr (s', acc')" and "todos_ok h (hs_ws s) (hs_todos s)"
  shows "todos_ok h (hs_ws s) (hs_todos s')"
proof (cases "tv_body e")
  case (TodoQueueOrdered p ids)
  with assms(1) have e: "s' = s\<lparr>hs_todos := put_ranks 1 ids (hs_todos s)\<rparr>" "distinct ids"
    "length ids = length (queue_ids (hs_todos s) p)" "set (queue_ids (hs_todos s) p) \<subseteq> set ids"
    by (auto simp: apply_body_def Let_def)
  show ?thesis using put_ranks_ok(1)[OF assms(2) e(2) queue_ids_perm[OF assms(2) e(2-4)]] e(1) by simp
next
  case (TodoCommented c t)
  with assms show ?thesis
    by (auto simp: apply_body_def Let_def bind_result_Inr intro: todos_ok_apply split: if_split_asm option.split_asm)
qed (use assms in \<open>auto simp: apply_body_def Let_def bind_result_Inr intro: todos_ok_apply split: option.split_asm\<close>)

lemma reduce_todo_event_Inr:
  assumes "reduce_todo_event h (s, acc) e = Inr (s', acc')"
  obtains s1 where "todo_envelope_ok h s e" "apply_body h s acc e = Inr (s1, acc')" "quotas_ok (hs_todos s1)"
    "hs_todos s' = hs_todos s1" "hs_comments s' = hs_comments s1" "hs_policies s' = hs_policies s1"
    "hs_last_seq s' = tv_seq e" "hs_ws s' = hs_ws s"
  using assms apply_body_frame
  by (cases "tv_body e") (fastforce simp: reduce_todo_event_def Let_def bind_result_Inr split: option.split_asm)+

lemma reduce_todo_event_ok:
  assumes "reduce_todo_event h (s, acc) e = Inr (s', acc')" and "todo_state_ok h s"
  shows "todo_state_ok h s'"
  using assms(1)
proof (cases rule: reduce_todo_event_Inr)
  case (1 s1)
  then show ?thesis using apply_body_ok assms(2) by (simp add: todo_state_ok_def)
qed

lemma reduce_todo_loop_ok:
  "reduce_todo_loop h (s, acc) es = Inr (s', acc') \<Longrightarrow> todo_state_ok h s \<Longrightarrow> todo_state_ok h s'"
proof (induction es arbitrary: s acc)
  case (Cons e es)
  then show ?case using reduce_todo_event_ok by (fastforce simp: bind_result_Inr)
qed simp

lemma reduceTodoEvents_ok:
  "reduceTodoEvents h s es = Inr s' \<Longrightarrow> todo_state_ok h s \<Longrightarrow> todo_state_ok h s'"
  using reduce_todo_loop_ok by (fastforce simp: reduceTodoEvents_def bind_result_Inr)

end
