(* ===== verification/TodoDrafts.thy ===== *)
theory TodoDrafts
  imports TodoDecision TodoInvariant
begin

text \<open>
  What every step of a to-do command keeps: the drafted events fold to the drafted projection, carry
  the command's id and actor and no receipt, and their bodies satisfy a given predicate; ids once
  present stay. From it: a committed decision replays, with its receipt.
\<close>

fun step_all :: "('a \<Rightarrow> bool) \<Rightarrow> 'a todo_step \<Rightarrow> bool" where
  "step_all P (Inr (Inr x)) = P x"
| "step_all P (Inr (Inl out)) = (\<forall>v. out \<noteq> TodoCommitted v)"
| "step_all P (Inl e) = True"

lemma step_all_bind [simp]: "step_all P (bind_step m f) \<longleftrightarrow> step_all (\<lambda>x. step_all P (f x)) m"
  by (cases "(m, f)" rule: bind_step.cases) auto

lemma step_all_simps [simp]:
  "step_all P (go x) \<longleftrightarrow> P x" "step_all P (refuse r)" "step_all P (throw_range t)"
  "step_all P (refuse_if c k) \<longleftrightarrow> c \<noteq> None \<or> step_all P k"
  by (auto simp: go_def refuse_def throw_range_def refuse_if_def split: option.split)

lemma step_all_mono: "step_all P m \<Longrightarrow> (\<And>x. P x \<Longrightarrow> Q x) \<Longrightarrow> step_all Q m"
  by (cases "(P, m)" rule: step_all.cases) auto

lemma step_all_emit: "(\<And>d'. emit r d body = Inr (Inr d') \<Longrightarrow> P d') \<Longrightarrow> step_all P (emit r d body)"
  by (auto simp: emit_def Let_def throw_range_def go_def split: option.splits sum.splits)

lemma step_allD: "step_all P m \<Longrightarrow> m = Inr (Inr x) \<Longrightarrow> P x"
  by simp

section \<open>Folding one more event\<close>

lemma reduce_todo_loop_append:
  "reduce_todo_loop h sa (es @ fs) = bind_result (reduce_todo_loop h sa es) (\<lambda>sb. reduce_todo_loop h sb fs)"
  by (induction es arbitrary: sa) (simp_all add: bind_result_assoc)

lemma reduceTodoEvents_snoc:
  "reduceTodoEvents h s (es @ [e]) = Inr s' \<longleftrightarrow>
     (\<exists>s1 acc acc'. reduce_todo_loop h (s, None) es = Inr (s1, acc) \<and> reduce_todo_event h (s1, acc) e = Inr (s', acc'))"
  by (auto simp: reduceTodoEvents_def reduce_todo_loop_append bind_result_Inr)

lemma apply_body_dom:
  assumes "apply_body h s acc e = Inr (s', acc')" and "obj_get (hs_todos s) i \<noteq> None"
  shows "obj_get (hs_todos s') i \<noteq> None"
proof -
  have ranks: "obj_get (put_ranks n ids todos) i \<noteq> None" if "obj_get todos i \<noteq> None" for n ids todos
    using that by (induction n ids todos rule: put_ranks.induct) auto
  have put: "obj_get todos' i \<noteq> None" if "applyTodo h s todos a e c t = Inr todos'" "obj_get todos i \<noteq> None" for todos todos' a c t
    using applyTodo_Inr(1)[OF that(1)] that(2) by auto
  show ?thesis using assms ranks put
    by (cases "tv_body e") (fastforce simp: apply_body_def Let_def bind_result_Inr split: option.split_asm if_split_asm)+
qed

lemma apply_body_policies:
  "apply_body h s acc e = Inr (s', acc') \<Longrightarrow> (\<forall>p. tv_body e \<noteq> AgentWorkPolicySet p) \<Longrightarrow> hs_policies s' = hs_policies s"
  by (cases "tv_body e") (auto simp: apply_body_def Let_def bind_result_Inr split: option.split_asm)

lemma reduce_no_receipt:
  assumes "reduce_todo_event h (s, acc) e = Inr (s', acc')" and "tv_receipt e = None"
  shows "hs_receipts s' = hs_receipts s" "hs_stream s' = hs_stream s"
  using assms apply_body_frame
  by (cases "tv_body e"; fastforce simp: reduce_todo_event_def Let_def bind_result_Inr split: option.split_asm)+

section \<open>Drafts\<close>

definition draft_inv :: "todo_run \<Rightarrow> (todo_body \<Rightarrow> bool) \<Rightarrow> string set \<Rightarrow> todo_draft \<Rightarrow> bool" where
  "draft_inv r Q K d \<longleftrightarrow>
     reduceTodoEvents (rn_host r) (rn_state r) (dr_events d) = Inr (dr_state d) \<and>
     hs_receipts (dr_state d) = hs_receipts (rn_state r) \<and>
     ((\<forall>p. \<not> Q (AgentWorkPolicySet p)) \<longrightarrow> hs_policies (dr_state d) = hs_policies (rn_state r)) \<and>
     (\<forall>e \<in> set (dr_events d). tv_receipt e = None \<and> tv_command_id e = tx_command_id (rn_ctx r) \<and>
        tv_actor_user e = Some (run_user r) \<and> tv_actor_agent_principal e = run_principal r \<and>
        tv_occurred_at e = tx_now (rn_ctx r) \<and> Q (tv_body e)) \<and>
     (\<forall>i \<in> K. obj_get (hs_todos (dr_state d)) i \<noteq> None)"

lemma draft_inv_notice [simp]:
  "draft_inv r Q K (add_notice d k i to b) \<longleftrightarrow> draft_inv r Q K d"
  "draft_inv r Q K (d\<lparr>dr_notices := ns\<rparr>) \<longleftrightarrow> draft_inv r Q K d"
  by (simp_all add: draft_inv_def add_notice_def)

lemma emit_Inr:
  assumes "emit r d body = Inr (Inr d')"
  obtains e where "dr_events d' = dr_events d @ [e]" "tv_body e = body" "tv_receipt e = None"
    "tv_command_id e = tx_command_id (rn_ctx r)" "tv_actor_user e = Some (run_user r)"
    "tv_actor_agent_principal e = run_principal r" "tv_occurred_at e = tx_now (rn_ctx r)"
    "reduceTodoEvents (rn_host r) (rn_state r) (dr_events d @ [e]) = Inr (dr_state d')"
  using assms
  by (auto simp: emit_def Let_def throw_range_def go_def split: if_split_asm sum.split_asm)

lemma emit_inv:
  assumes "draft_inv r Q K d" and "Q body"
  shows "step_all (draft_inv r Q K) (emit r d body)"
proof (rule step_all_emit)
  fix d' assume d': "emit r d body = Inr (Inr d')"
  then obtain e where e: "dr_events d' = dr_events d @ [e]" "tv_body e = body" "tv_receipt e = None"
    "tv_command_id e = tx_command_id (rn_ctx r)" "tv_actor_user e = Some (run_user r)"
    "tv_actor_agent_principal e = run_principal r" "tv_occurred_at e = tx_now (rn_ctx r)"
    "reduceTodoEvents (rn_host r) (rn_state r) (dr_events d @ [e]) = Inr (dr_state d')"
    by (rule emit_Inr)
  from e(8) obtain s1 acc acc' where s: "reduce_todo_loop (rn_host r) (rn_state r, None) (dr_events d) = Inr (s1, acc)"
    "reduce_todo_event (rn_host r) (s1, acc) e = Inr (dr_state d', acc')" by (auto simp: reduceTodoEvents_snoc)
  then have [simp]: "s1 = dr_state d" using assms(1) by (simp add: draft_inv_def reduceTodoEvents_def)
  from s(2) obtain s2 where s2: "apply_body (rn_host r) (dr_state d) acc e = Inr (s2, acc')" "hs_todos (dr_state d') = hs_todos s2"
    "hs_policies (dr_state d') = hs_policies s2" by (auto elim: reduce_todo_event_Inr)
  have "obj_get (hs_todos (dr_state d')) i \<noteq> None" if "i \<in> K" for i
    using apply_body_dom[OF s2(1), of i] that assms(1) s2(2) by (simp add: draft_inv_def)
  moreover have "hs_policies (dr_state d') = hs_policies (rn_state r)" if "\<forall>p. \<not> Q (AgentWorkPolicySet p)"
  proof -
    have "\<forall>p. tv_body e \<noteq> AgentWorkPolicySet p" using that assms(2) e(2) by metis
    from apply_body_policies[OF s2(1) this] that assms(1) s2(3) show ?thesis by (simp add: draft_inv_def)
  qed
  ultimately show "draft_inv r Q K d'"
    using e s(2) assms reduce_no_receipt(1)[OF s(2) e(3)] by (auto simp: draft_inv_def)
qed

text \<open>Bodies that neither assign a to-do nor set a policy.\<close>

definition plain_ok :: "(todo_body \<Rightarrow> bool) \<Rightarrow> bool" where
  "plain_ok Q \<longleftrightarrow> (\<forall>b. (\<forall>t. b \<noteq> TodoAssigned t) \<and> (\<forall>p. b \<noteq> AgentWorkPolicySet p) \<longrightarrow> Q b)"

lemma emit_plain:
  "draft_inv r Q K d \<Longrightarrow> plain_ok Q \<Longrightarrow> (\<forall>t. body \<noteq> TodoAssigned t) \<Longrightarrow> (\<forall>p. body \<noteq> AgentWorkPolicySet p) \<Longrightarrow>
    step_all (draft_inv r Q K) (emit r d body)"
  by (intro emit_inv) (auto simp: plain_ok_def)

lemma order_inv:
  assumes "draft_inv r Q K d" and "plain_ok Q"
  shows "step_all (draft_inv r Q K) (order r d p i after)"
  using emit_plain[OF assms] by (auto simp: order_def split: option.split)

lemma accept_inv:
  assumes "draft_inv r Q K d" and "plain_ok Q" and "\<And>t. td_assignee t = to \<Longrightarrow> Q (TodoAssigned t)"
  shows "step_all (draft_inv r Q K) (accept_todo r d todo to start gate gs)"
proof -
  have rest: "step_all (draft_inv r Q K) (case to of Some (AgentParty p) \<Rightarrow>
      if start = StartNow then bind_step (order r d p i None) (\<lambda>d. emit r d (TodoStartAsked i p)) else go d | _ \<Rightarrow> go d)"
    if d: "draft_inv r Q K d" for d i
    using d emit_plain[OF _ assms(2)]
    by (auto split: option.split party.split intro!: step_all_mono[OF order_inv[OF d assms(2)]])
  show ?thesis unfolding accept_todo_def Let_def step_all_bind
    by (rule step_all_mono[OF emit_inv[OF assms(1)]]) (auto intro: assms(3) rest)
qed

lemma replace_inv:
  assumes "draft_inv r Q K d" and "plain_ok Q"
  shows "step_all (\<lambda>(d, todo'). draft_inv r Q K d) (replace_offer r d todo)"
  using assms by (auto simp: replace_offer_def split: option.split intro!: step_all_mono[OF emit_plain])

lemma offer_inv:
  assumes "draft_inv r Q K d" and "plain_ok Q"
  shows "step_all (draft_inv r Q K) (offer_todo r d todo to start gate)"
proof -
  have offer: "step_all (draft_inv r Q K) (bind_step (emit r d (TodoOffered t)) (\<lambda>d. go (add_notice d k i p b)))"
    if "draft_inv r Q K d" for d t k i p b
    using emit_plain[OF that assms(2)] by simp
  show ?thesis
    using assms offer by (auto simp: offer_todo_def split: option.split intro!: step_all_mono[OF emit_plain[OF assms]])
qed

lemma assigned_inv:
  assumes "draft_inv r Q K d" and "plain_ok Q"
    and "\<And>t. targetRefusal r (ai_to input) = None \<Longrightarrow> assign_accepted r d (ai_to input)
      (case ai_start input of Some s \<Rightarrow> s | None \<Rightarrow> StartQueue) \<Longrightarrow> td_assignee t = Some (ai_to input) \<Longrightarrow> Q (TodoAssigned t)"
  shows "step_all (draft_inv r Q K) (assigned r d todo input)"
proof -
  let ?start = "case ai_start input of Some s \<Rightarrow> s | None \<Rightarrow> StartQueue"
  have fin: "step_all (draft_inv r Q K) (bind_step (accept_todo r d' todo' (Some (ai_to input)) ?start gate gs)
       (\<lambda>d. go (if is_agent (Some (ai_to input)) then
             if ?start = StartNow then add_notice d AskNotice i p n
             else if g d then add_notice d NoteNotice i' p' n' else d
           else d)))"
    if "draft_inv r Q K d'" "targetRefusal r (ai_to input) = None" "assign_accepted r d (ai_to input) ?start"
    for d' todo' gate gs i p n g i' p' n'
    using that assms(3) by (auto intro!: step_all_mono[OF accept_inv[OF that(1) assms(2)]])
  show ?thesis
    using assms(1,2) fin offer_inv[OF _ assms(2)]
    by (auto simp: assigned_def Let_def intro!: step_all_mono[OF replace_inv[OF assms(1,2)]] simp del: step_all_bind
        simp: step_all_bind[of _ "replace_offer r d todo"])
qed

section \<open>Commands\<close>

text \<open>To whom a command on a to-do may assign it without further consent.\<close>

definition allowed_assignee :: "todo_run \<Rightarrow> todo_draft \<Rightarrow> party option \<Rightarrow> bool" where
  "allowed_assignee r d to \<longleftrightarrow> (case to of None \<Rightarrow> True
     | Some p \<Rightarrow> targetRefusal r p = None \<and> ((\<exists>start. assign_accepted r d p start) \<or> p = run_party r))"

text \<open>An answer assigns only where its decider accepts the very offer, and to whom it was made.\<close>

definition answered :: "todo_run \<Rightarrow> todo \<Rightarrow> string \<Rightarrow> offer_answer \<Rightarrow> party option \<Rightarrow> bool" where
  "answered r todo offer_id answer to \<longleftrightarrow> answer = AnswerAccept \<and> (\<exists>f. td_offer todo = Some f \<and> of_offer_id f = offer_id \<and>
     to = Some (of_to f) \<and> of_decider_user_id f = run_user r \<and> targetRefusal r (of_to f) = None)"

definition may_assign :: "todo_run \<Rightarrow> todo_draft \<Rightarrow> todo \<Rightarrow> todo_command \<Rightarrow> party option \<Rightarrow> bool" where
  "may_assign r d todo cmd to \<longleftrightarrow> (case cmd of
     HouseholdTodoAnswer _ offer_id answer \<Rightarrow> answered r todo offer_id answer to
   | _ \<Rightarrow> allowed_assignee r d to)"

lemma update_inv:
  "draft_inv r Q K d \<Longrightarrow> plain_ok Q \<Longrightarrow> step_all (draft_inv r Q K) (decide_update r d todo title notes due)"
  by (auto simp: decide_update_def intro!: emit_plain)

lemma assign_inv:
  assumes "draft_inv r Q K d" and "plain_ok Q" and "\<And>t. allowed_assignee r d (td_assignee t) \<Longrightarrow> Q (TodoAssigned t)"
  shows "step_all (draft_inv r Q K) (decide_assign r d todo to start gate)"
proof (cases to)
  case None
  have "step_all (draft_inv r Q K) (accept_todo r d' todo' None StartQueue g gs)" if "draft_inv r Q K d'" for d' todo' g gs
    using that assms(2,3) by (intro accept_inv) (auto simp: allowed_assignee_def)
  then show ?thesis using None
    by (auto simp: decide_assign_def Let_def intro!: step_all_mono[OF replace_inv[OF assms(1,2)]])
next
  case (Some p)
  have "Q (TodoAssigned t)" if "targetRefusal r p = None" "assign_accepted r d p s" "td_assignee t = Some p" for t s
    using that by (intro assms(3)) (auto simp: allowed_assignee_def)
  then show ?thesis using Some assms(1,2) by (auto simp: decide_assign_def intro!: assigned_inv)
qed

lemma answer_inv:
  assumes "draft_inv r Q K d" and "plain_ok Q" and "\<And>t. answered r todo offer_id answer (td_assignee t) \<Longrightarrow> Q (TodoAssigned t)"
  shows "step_all (draft_inv r Q K) (decide_answer r d todo offer_id answer)"
proof (cases "td_offer todo")
  case None
  then show ?thesis by (simp add: decide_answer_def)
next
  case (Some f)
  have acc: "step_all (draft_inv r Q K) (accept_todo r d' todo' (Some (of_to f)) start g gs)"
    if "answer = AnswerAccept" "of_offer_id f = offer_id" "targetRefusal r (of_to f) = None" "run_user r = of_decider_user_id f" "draft_inv r Q K d'" for d' todo' start g gs
    using that assms(2,3) Some by (intro accept_inv) (auto simp: answered_def)
  show ?thesis using Some
    by (auto simp: decide_answer_def Let_def intro!: step_all_mono[OF emit_plain[OF assms(1,2)]]
        step_all_mono[OF acc] split: option.split_asm)
qed

lemma steer_inv:
  assumes "draft_inv r Q K d" and "plain_ok Q"
  shows "step_all (draft_inv r Q K) (decide_steer r d todo action)"
proof -
  have start: "step_all (draft_inv r Q K) (bind_step (order r d' p i None) (\<lambda>d. bind_step (emit r d (TodoStartAsked i p))
      (\<lambda>d. go (add_notice d AskNotice i' q n))))" if "draft_inv r Q K d'" for d' p i i' q n
    using emit_plain[OF _ assms(2)] by (auto intro!: step_all_mono[OF order_inv[OF that assms(2)]])
  show ?thesis using assms start order_inv[OF assms] emit_plain[OF assms]
    by (auto simp: decide_steer_def split: option.split party.split steer_action.split
        intro!: step_all_mono[OF emit_plain[OF assms]])
qed

lemma start_inv:
  assumes "draft_inv r Q K d" and "plain_ok Q" and "\<And>t. allowed_assignee r d (td_assignee t) \<Longrightarrow> Q (TodoAssigned t)"
  shows "step_all (\<lambda>(d, todo'). draft_inv r Q K d) (start_doing r d todo)"
proof -
  have acc: "step_all (draft_inv r Q K) (accept_todo r d' todo' (Some (run_party r)) StartQueue GateNone None)"
    if "draft_inv r Q K d'" "targetRefusal r (run_party r) = None" for d' todo'
    using that assms(2,3) by (intro accept_inv) (auto simp: allowed_assignee_def)
  show ?thesis using assms(1) acc
    by (auto simp: start_doing_def intro!: step_all_mono[OF replace_inv[OF assms(1,2)]] intro: step_all_mono)
qed

lemma state_inv:
  assumes "draft_inv r Q K d" and "plain_ok Q" and "\<And>t. allowed_assignee r d (td_assignee t) \<Longrightarrow> Q (TodoAssigned t)"
  shows "step_all (draft_inv r Q K) (decide_state r d todo nxt)"
proof -
  have leave: "step_all (\<lambda>(d, todo'). draft_inv r Q K d) (leave_doing r d todo nxt)"
    using assms(1) by (auto simp: leave_doing_def Let_def)
  show ?thesis
    using emit_plain[OF _ assms(2)]
    by (cases "nxt = TodoDoing")
      (auto simp: decide_state_def Let_def intro!: step_all_mono[OF start_inv[OF assms]] step_all_mono[OF leave])
qed

lemma change_todo_inv:
  assumes "draft_inv r Q K d" and "plain_ok Q" and "\<And>t. may_assign r d todo cmd (td_assignee t) \<Longrightarrow> Q (TodoAssigned t)"
  shows "step_all (draft_inv r Q K) (change_todo r d todo cmd)"
proof -
  note q = assms(3)[unfolded may_assign_def]
  show ?thesis
    by (cases cmd) (use q in \<open>simp_all add: change_todo_def update_inv[OF assms(1,2)] assign_inv[OF assms(1,2)]
      answer_inv[OF assms(1,2)] steer_inv[OF assms(1,2)] state_inv[OF assms(1,2)]\<close>)
qed

lemma emit_effect:
  assumes "draft_inv r Q K d"
  shows "step_all (\<lambda>d'. \<exists>e s acc acc'. tv_body e = body \<and> apply_body (rn_host r) (dr_state d) acc e = Inr (s, acc') \<and>
      hs_todos (dr_state d') = hs_todos s \<and> hs_comments (dr_state d') = hs_comments s \<and>
      hs_policies (dr_state d') = hs_policies s) (emit r d body)"
proof (rule step_all_emit)
  fix d' assume "emit r d body = Inr (Inr d')"
  then obtain e where e: "tv_body e = body"
    "reduceTodoEvents (rn_host r) (rn_state r) (dr_events d @ [e]) = Inr (dr_state d')" by (rule emit_Inr)
  then obtain s1 acc acc' where "reduce_todo_loop (rn_host r) (rn_state r, None) (dr_events d) = Inr (s1, acc)"
    and r: "reduce_todo_event (rn_host r) (s1, acc) e = Inr (dr_state d', acc')" by (auto simp: reduceTodoEvents_snoc)
  then have s1: "s1 = dr_state d" using assms by (simp add: draft_inv_def reduceTodoEvents_def)
  from r[unfolded s1] obtain s2 where "apply_body (rn_host r) (dr_state d) acc e = Inr (s2, acc')"
    "hs_todos (dr_state d') = hs_todos s2" "hs_comments (dr_state d') = hs_comments s2"
    "hs_policies (dr_state d') = hs_policies s2" by (rule reduce_todo_event_Inr)
  with e(1) show "\<exists>e s acc acc'. tv_body e = body \<and> apply_body (rn_host r) (dr_state d) acc e = Inr (s, acc') \<and>
      hs_todos (dr_state d') = hs_todos s \<and> hs_comments (dr_state d') = hs_comments s \<and>
      hs_policies (dr_state d') = hs_policies s" by blast
qed

definition value_in :: "todo_state \<Rightarrow> todo_value \<Rightarrow> bool" where
  "value_in s v \<longleftrightarrow> (case v of
     TodoValue t \<Rightarrow> obj_get (hs_todos s) (td_todo_id t) = Some t
   | CommentValue c \<Rightarrow> obj_get (hs_comments s) (tc_comment_id c) = Some c
   | PolicyValue p \<Rightarrow> obj_get (hs_policies s) (wp_principal p) = Some p)"

lemma value_of_todo:
  assumes "draft_inv r Q K d" and "todo_state_ok (rn_host r) (rn_state r)" and "i \<in> K"
  shows "value_in (dr_state d) (TodoValue (draft_todo d i))"
proof -
  have ok: "todo_state_ok (rn_host r) (dr_state d)"
    using assms(1,2) reduceTodoEvents_ok by (auto simp: draft_inv_def)
  obtain t where t: "obj_get (hs_todos (dr_state d)) i = Some t" using assms(1,3) by (auto simp: draft_inv_def)
  with ok have "td_todo_id t = i" by (auto simp: todo_state_ok_def dest: todos_okD simp: todo_ok_def)
  with t show ?thesis by (simp add: value_in_def draft_todo_def)
qed

definition start_ids :: "todo_run \<Rightarrow> string set" where
  "start_ids r = {i. obj_get (hs_todos (rn_state r)) i \<noteq> None}"

definition start_draft :: "todo_run \<Rightarrow> todo_draft" where
  "start_draft r = \<lparr>dr_state = rn_state r, dr_events = [], dr_notices = []\<rparr>"

lemma start_draft_inv: "draft_inv r Q (start_ids r) (start_draft r)"
  by (simp add: draft_inv_def start_draft_def start_ids_def reduceTodoEvents_def)

lemma created_inv:
  assumes "draft_inv r Q K d" and "plain_ok Q"
  shows "step_all (draft_inv r Q (insert (td_todo_id t) K)) (emit r d (TodoCreated t))"
proof (rule step_all_emit)
  fix d' assume d': "emit r d (TodoCreated t) = Inr (Inr d')"
  have "draft_inv r Q K d'" using emit_plain[OF assms, of "TodoCreated t"] d' by simp
  moreover have "obj_get (hs_todos (dr_state d')) (td_todo_id t) \<noteq> None"
    using step_allD[OF emit_effect[OF assms(1)] d'] applyTodo_Inr(1)
    by (fastforce simp: apply_body_def Let_def bind_result_Inr)
  ultimately show "draft_inv r Q (insert (td_todo_id t) K) d'" by (simp add: draft_inv_def)
qed

text \<open>The bodies a run of the command may emit, as far as assignments and policies are concerned: assignments
  only to whom the consent rule allows, a policy only by the policy command.\<close>

definition target_todo :: "todo_run \<Rightarrow> todo_command \<Rightarrow> string option" where
  "target_todo r cmd = (if cmd = TodoStart None then next_ready r else command_todo cmd)"

text \<open>The pending offer of the to-do a command names.\<close>

definition target_offer :: "todo_run \<Rightarrow> todo_command \<Rightarrow> todo_offer option" where
  "target_offer r cmd = Option.bind (target_todo r cmd)
     (\<lambda>i. Option.bind (obj_get (hs_todos (rn_state r)) i) td_offer)"

definition run_bodies :: "todo_run \<Rightarrow> (todo_body \<Rightarrow> bool) \<Rightarrow> todo_command \<Rightarrow> bool" where
  "run_bodies r Q cmd \<longleftrightarrow> plain_ok Q \<and>
     (\<forall>i a p. cmd = HouseholdAgentWorkPolicy i a \<longrightarrow> Q (AgentWorkPolicySet p)) \<and>
     (\<forall>d todo t. (\<forall>i a. cmd \<noteq> HouseholdAgentWorkPolicy i a) \<and> draft_inv r Q {} d \<and> td_offer todo = target_offer r cmd \<and>
        may_assign r d todo cmd (td_assignee t) \<longrightarrow> Q (TodoAssigned t))"

lemma run_bodies_plain: "run_bodies r Q cmd \<Longrightarrow> plain_ok Q"
  by (simp add: run_bodies_def)

lemma run_bodies_assigned:
  assumes "run_bodies r Q cmd" and "draft_inv r Q K d" and "\<forall>i a. cmd \<noteq> HouseholdAgentWorkPolicy i a"
    and "td_offer todo = target_offer r cmd"
    and "may_assign r d todo cmd (td_assignee t)"
  shows "Q (TodoAssigned t)"
proof -
  have "draft_inv r Q {} d" using assms(2) by (auto simp: draft_inv_def)
  with assms show ?thesis by (auto simp: run_bodies_def)
qed

definition result_inv :: "todo_run \<Rightarrow> (todo_body \<Rightarrow> bool) \<Rightarrow> todo_value \<times> todo_draft \<Rightarrow> bool" where
  "result_inv r Q vd \<longleftrightarrow> draft_inv r Q (start_ids r) (snd vd) \<and> value_in (dr_state (snd vd)) (fst vd)"

lemma result_todo:
  assumes "todo_state_ok (rn_host r) (rn_state r)" and "draft_inv r Q K d" and "start_ids r \<subseteq> K" and "i \<in> K"
  shows "result_inv r Q (TodoValue (draft_todo d i), d)"
  using value_of_todo[OF assms(2,1,4)] assms(2,3) by (auto simp: result_inv_def draft_inv_def)

lemma create_inv:
  assumes ok: "todo_state_ok (rn_host r) (rn_state r)" and "run_bodies r Q (TodoCreate title notes due assign)"
  shows "step_all (result_inv r Q) (decide_create r (start_draft r) title notes due assign)"
proof (cases "tx_todo_id (rn_ctx r)")
  case None
  then show ?thesis by (auto simp: decide_create_def Let_def)
next
  case (Some tid)
  note pl = run_bodies_plain[OF assms(2)]
  let ?K = "insert tid (start_ids r)"
  have asg: "step_all (draft_inv r Q ?K) (case assign of None \<Rightarrow> go d | Some input \<Rightarrow> assigned r d t input)"
    if d: "draft_inv r Q ?K d" and t: "td_offer t = None" "td_todo_id t = tid" "obj_get (hs_todos (rn_state r)) tid = None" for d t
  proof (cases assign)
    case (Some input)
    have "Q (TodoAssigned u)" if "targetRefusal r (ai_to input) = None" "assign_accepted r d (ai_to input) s"
      "td_assignee u = Some (ai_to input)" for u s
      by (rule run_bodies_assigned[OF assms(2) d, of t]) (use that t in \<open>auto simp: may_assign_def allowed_assignee_def target_offer_def target_todo_def\<close>)
    then show ?thesis using Some by (auto intro!: assigned_inv[OF d pl])
  qed (use d in simp)
  have rest: "step_all (result_inv r Q) (bind_step (emit r (start_draft r) (TodoCreated t)) (\<lambda>d.
      bind_step (case assign of None \<Rightarrow> go d | Some input \<Rightarrow> assigned r d t input)
        (\<lambda>d. go (TodoValue (draft_todo d tid), d))))"
    if "td_offer t = None" "td_todo_id t = tid" "obj_get (hs_todos (rn_state r)) tid = None" for t
    unfolding step_all_bind[of _ "emit r (start_draft r) _"]
  proof (rule step_all_mono[OF created_inv[OF start_draft_inv pl]])
    fix d assume "draft_inv r Q (insert (td_todo_id t) (start_ids r)) d"
    then have d: "draft_inv r Q ?K d" using that(2) by simp
    show "step_all (result_inv r Q) (bind_step (case assign of None \<Rightarrow> go d | Some input \<Rightarrow> assigned r d t input)
        (\<lambda>d. go (TodoValue (draft_todo d tid), d)))"
      unfolding step_all_bind
      by (rule step_all_mono[OF asg[OF d that]]) (auto intro: result_todo[OF ok])
  qed
  show ?thesis using Some rest
    by (simp add: decide_create_def Let_def del: step_all_bind)
qed

lemma comment_inv:
  assumes "run_bodies r Q cmd"
  shows "step_all (result_inv r Q) (decide_comment r (start_draft r) target body mentions)"
proof -
  note pl = run_bodies_plain[OF assms]
  have "step_all (\<lambda>d. draft_inv r Q (start_ids r) d \<and> value_in (dr_state d) (CommentValue c))
      (emit r (start_draft r) (TodoCommented c t))" for c t
  proof (rule step_all_emit)
    fix d assume d: "emit r (start_draft r) (TodoCommented c t) = Inr (Inr d)"
    have "draft_inv r Q (start_ids r) d"
      by (rule step_allD[OF emit_plain[OF start_draft_inv pl] d]) auto
    moreover have "value_in (dr_state d) (CommentValue c)"
      using step_allD[OF emit_effect[OF start_draft_inv[of r Q]] d]
      by (auto simp: apply_body_def Let_def bind_result_Inr value_in_def)
    ultimately show "draft_inv r Q (start_ids r) d \<and> value_in (dr_state d) (CommentValue c)" by simp
  qed
  then have "step_all (result_inv r Q) (bind_step (emit r (start_draft r) (TodoCommented c t))
      (\<lambda>d. go (CommentValue c, if b then d else d\<lparr>dr_notices := n d\<rparr>)))" for c t b n
    by (auto simp: result_inv_def value_in_def intro: step_all_mono)
  then show ?thesis by (auto simp: decide_comment_def Let_def simp del: step_all_bind split: option.split)
qed

lemma policy_inv:
  assumes "run_bodies r Q (HouseholdAgentWorkPolicy i a)"
  shows "step_all (result_inv r Q) (decide_policy r (start_draft r) i a)"
proof -
  have Q: "Q (AgentWorkPolicySet p)" for p using assms by (simp add: run_bodies_def)
  have "step_all (result_inv r Q) (bind_step (emit r (start_draft r) (AgentWorkPolicySet p))
      (\<lambda>d. go (PolicyValue p, d)))" for p
    unfolding step_all_bind
  proof (rule step_all_emit)
    fix d assume d: "emit r (start_draft r) (AgentWorkPolicySet p) = Inr (Inr d)"
    have "draft_inv r Q (start_ids r) d"
      by (rule step_allD[OF emit_inv[where Q = Q, OF start_draft_inv Q] d])
    moreover have "value_in (dr_state d) (PolicyValue p)"
      using step_allD[OF emit_effect[OF start_draft_inv[of r Q]] d]
      by (auto simp: apply_body_def Let_def bind_result_Inr value_in_def)
    ultimately show "step_all (result_inv r Q) (go (PolicyValue p, d))" by (simp add: result_inv_def)
  qed
  then show ?thesis by (auto simp: decide_policy_def Let_def simp del: step_all_bind split: option.split)
qed

lemma existing_inv:
  assumes ok: "todo_state_ok (rn_host r) (rn_state r)" and "run_bodies r Q cmd"
    and np: "\<forall>i a. cmd \<noteq> HouseholdAgentWorkPolicy i a"
  shows "step_all (result_inv r Q) (decide_existing_todo r (start_draft r) cmd)"
proof -
  have "step_all (result_inv r Q) (bind_step (change_todo r (start_draft r) todo cmd)
      (\<lambda>d. go (TodoValue (draft_todo d (td_todo_id todo)), d)))"
    if todo: "target_todo r cmd = Some i" "obj_get (hs_todos (rn_state r)) i = Some todo" for i todo
  proof -
    have i: "td_todo_id todo = i" using ok todo by (auto simp: todo_state_ok_def todo_ok_def dest: todos_okD)
    have Q: "Q (TodoAssigned t)" if "may_assign r (start_draft r) todo cmd (td_assignee t)" for t
      by (rule run_bodies_assigned[OF assms(2) start_draft_inv np _ that]) (simp add: target_offer_def todo)
    have "td_todo_id todo \<in> start_ids r" using todo i by (simp add: start_ids_def)
    from result_todo[OF ok _ subset_refl this] show ?thesis
      unfolding step_all_bind
      by (intro step_all_mono[OF change_todo_inv[OF start_draft_inv run_bodies_plain[OF assms(2)] Q]]) auto
  qed
  moreover have "falsy (target_todo r cmd) \<or> target_todo r cmd = Some (the (target_todo r cmd))"
    by (cases "target_todo r cmd") auto
  ultimately show ?thesis
    unfolding decide_existing_todo_def Let_def target_todo_def[symmetric]
    by (auto simp del: step_all_bind split: option.split)
qed

lemma run_command_inv:
  assumes "todo_state_ok (rn_host r) (rn_state r)" and "run_bodies r Q cmd"
  shows "step_all (result_inv r Q) (run_command r cmd)"
proof -
  note inv = create_inv[OF assms(1)] comment_inv[OF assms(2)] existing_inv[OF assms]
  show ?thesis
    unfolding run_command_def Let_def start_draft_def[symmetric]
    using inv policy_inv assms(2) by (cases cmd) auto
qed

end
