(* ===== verification/TodoReplay.thy ===== *)
theory TodoReplay
  imports TodoDrafts
begin

text \<open>
  A committed to-do decision and the log: its events, the last with the receipt, fold to a projection
  that holds the decided value and the receipt; receipts stay under later events.
\<close>

section \<open>The receipt on the last event\<close>

text \<open>No check of an event's to-do looks at the receipt.\<close>

lemma fields_receipt:
  "tv_body (e\<lparr>tv_receipt := x\<rparr>) = tv_body e" "tv_seq (e\<lparr>tv_receipt := x\<rparr>) = tv_seq e"
  "tv_actor_user (e\<lparr>tv_receipt := x\<rparr>) = tv_actor_user e" "tv_occurred_at (e\<lparr>tv_receipt := x\<rparr>) = tv_occurred_at e"
  "tv_command_id (e\<lparr>tv_receipt := x\<rparr>) = tv_command_id e"
  "tv_actor_agent_principal (e\<lparr>tv_receipt := x\<rparr>) = tv_actor_agent_principal e"
  by simp_all

lemma check_receipt [simp]:
  "event_author (e\<lparr>tv_receipt := x\<rparr>) = event_author e"
  "event_party (e\<lparr>tv_receipt := x\<rparr>) = event_party e"
  "create_ok (e\<lparr>tv_receipt := x\<rparr>) = create_ok e"
  "valid_setter acc (e\<lparr>tv_receipt := x\<rparr>) = valid_setter acc e"
  "comment_ok (e\<lparr>tv_receipt := x\<rparr>) = comment_ok e"
  by (simp_all add: event_author_def event_party_def create_ok_def valid_setter_def comment_ok_def fun_eq_iff
      split: option.split)

lemma body_check_receipt [simp]: "body_check h todos acc (e\<lparr>tv_receipt := x\<rparr>) = body_check h todos acc e"
  by (intro ext) (unfold body_check_def assigned_ok_def offered_ok_def changed_ok_def Let_def fields_receipt check_receipt,
    rule refl)

lemma applyTodo_receipt [simp]: "applyTodo h s todos acc (e\<lparr>tv_receipt := x\<rparr>) = applyTodo h s todos acc e"
  by (intro ext) (unfold applyTodo_def Let_def fields_receipt check_receipt body_check_receipt, rule refl)

lemma apply_body_receipt [simp]: "apply_body h s acc (e\<lparr>tv_receipt := x\<rparr>) = apply_body h s acc e"
  by (unfold apply_body_def Let_def fields_receipt check_receipt applyTodo_receipt, rule refl)

lemma envelope_receipt:
  "todo_envelope_ok h s (e\<lparr>tv_receipt := x\<rparr>) \<longleftrightarrow>
     (todo_envelope_ok h s e \<or> \<not> event_bytes h e \<le> TODO_EVENT_BYTE_LIMIT \<and> todo_envelope_ok h s (e\<lparr>tv_receipt := x\<rparr>)) \<and>
     event_bytes h (e\<lparr>tv_receipt := x\<rparr>) \<le> TODO_EVENT_BYTE_LIMIT"
  by (auto simp: todo_envelope_ok_def)

lemma receipt_ok_event [simp]: "receipt_ok (e\<lparr>tv_receipt := x\<rparr>) rs rc = receipt_ok e rs rc"
  by (simp add: receipt_ok_def split: option.split)

lemma reduce_event_receipt:
  assumes "reduce_todo_event h (s, acc) e = Inr (s', acc')" and "tv_receipt e = None"
    and "receipt_ok e (hs_receipts s') rc" and "receipt_projected s' rc"
    and "event_bytes h (e\<lparr>tv_receipt := Some rc\<rparr>) \<le> TODO_EVENT_BYTE_LIMIT"
  shows "reduce_todo_event h (s, acc) (e\<lparr>tv_receipt := Some rc\<rparr>) =
    Inr (s'\<lparr>hs_receipts := obj_put (hs_receipts s') (receiptKey (rc_principal rc) (rc_command_id rc)) rc\<rparr>, acc')"
proof -
  from assms(1) obtain s1 where s1: "todo_envelope_ok h s e" "apply_body h s acc e = Inr (s1, acc')" "quotas_ok (hs_todos s1)"
    and s': "s' = s1\<lparr>hs_last_seq := tv_seq e\<rparr>" and nu: "\<And>ty. tv_body e \<noteq> UnknownTodoEvent ty"
    using assms(2)
    by (cases "tv_body e") (auto simp: reduce_todo_event_def Let_def bind_result_Inr split: prod.split_asm)
  have env: "todo_envelope_ok h s (e\<lparr>tv_receipt := Some rc\<rparr>)" using s1(1) assms(5) envelope_receipt by blast
  have proj: "receipt_projected s1 rc"
    using assms(4) s' by (simp add: receipt_projected_def split: todo_outcome.splits todo_value.splits)
  have "(case tv_body e of UnknownTodoEvent ty \<Rightarrow> x ty | _ \<Rightarrow> y) = y" for x and y :: "todo_error + todo_state \<times> accepted_offer option"
    using nu by (cases "tv_body e") auto
  then show ?thesis
    using s1 s' env proj assms(3) by (simp add: reduce_todo_event_def Let_def ensure_def)
qed

lemma reduce_last_receipt:
  assumes "reduceTodoEvents h s (es @ [e]) = Inr s'" and "tv_receipt e = None"
    and "receipt_ok e (hs_receipts s') rc" and "receipt_projected s' rc"
    and "event_bytes h (e\<lparr>tv_receipt := Some rc\<rparr>) \<le> TODO_EVENT_BYTE_LIMIT"
  shows "reduceTodoEvents h s (es @ [e\<lparr>tv_receipt := Some rc\<rparr>]) =
    Inr (s'\<lparr>hs_receipts := obj_put (hs_receipts s') (receiptKey (rc_principal rc) (rc_command_id rc)) rc\<rparr>)"
  using assms(1) reduce_event_receipt[OF _ assms(2-5)] by (auto simp: reduceTodoEvents_snoc)

section \<open>A committed decision\<close>

lemma committed_decision:
  assumes "decideTodo h s cmd ctx = Inr d" and "dd_outcome d = TodoCommitted v" and "\<not> dd_replayed d"
    and "todo_state_ok h s"
  obtains t r dr where "r = \<lparr>rn_host = h, rn_ctx = ctx, rn_state = s, rn_at = t\<rparr>" "iso_of_number (tx_now ctx) = Inr t"
    "run_command r cmd = Inr (Inr (v, dr))"
    "dd_events d = with_receipt (run_receipt r (TodoCommitted v)) (dr_events dr)"
    "dd_receipt d = Some (run_receipt r (TodoCommitted v))"
    "\<forall>e \<in> set (dd_events d). event_bytes h e \<le> TODO_EVENT_BYTE_LIMIT"
    "digest_ok (tx_request_digest ctx)" "tx_command_id ctx \<noteq> []"
    "obj_get (hs_receipts s) (receiptKey (rc_principal (run_receipt r (TodoCommitted v))) (tx_command_id ctx)) = None"
    "householdAccessRefusal (tx_access ctx) (hs_ws s) (command_operation cmd) (tx_now ctx) = None"
proof -
  let ?p = "rc_principal (run_receipt \<lparr>rn_host = h, rn_ctx = ctx, rn_state = s, rn_at = []\<rparr> (TodoRefused InvalidCommandContext))"
  from assms(1-3) have pre: "householdAccessRefusal (tx_access ctx) (hs_ws s) (command_operation cmd) (tx_now ctx) = None"
      "digest_ok (tx_request_digest ctx)" "tx_command_id ctx \<noteq> []"
      "obj_get (hs_receipts s) (receiptKey ?p (tx_command_id ctx)) = None"
    and run: "bind_result (iso_of_number (tx_now ctx)) (\<lambda>t. let r = \<lparr>rn_host = h, rn_ctx = ctx, rn_state = s, rn_at = t\<rparr> in
        finish_todo r (run_command r cmd)) = Inr d"
    by (auto simp: decideTodo_def Let_def bare_decision_def split: option.split_asm if_split_asm)
  from run obtain t where t: "iso_of_number (tx_now ctx) = Inr t"
    and f: "finish_todo \<lparr>rn_host = h, rn_ctx = ctx, rn_state = s, rn_at = t\<rparr>
        (run_command \<lparr>rn_host = h, rn_ctx = ctx, rn_state = s, rn_at = t\<rparr> cmd) = Inr d"
    by (auto simp: bind_result_Inr Let_def)
  let ?r = "\<lparr>rn_host = h, rn_ctx = ctx, rn_state = s, rn_at = t\<rparr>"
  have "run_bodies ?r (\<lambda>b. True) cmd" by (simp add: run_bodies_def plain_ok_def)
  then have "step_all (result_inv ?r (\<lambda>b. True)) (run_command ?r cmd)" using assms(4) by (intro run_command_inv) simp_all
  then have nc: "run_command ?r cmd \<noteq> Inr (Inl (TodoCommitted v))" by auto
  with f assms(2) obtain dr where dr: "run_command ?r cmd = Inr (Inr (v, dr))"
    by (auto simp: finish_todo_def Let_def split: sum.split_asm)
  have "?p = rc_principal (run_receipt ?r (TodoCommitted v))" 
    by (simp add: run_receipt_def run_principal_def run_user_def split: option.split)
  with pre f show ?thesis
    by (intro that[OF refl t dr]) (auto simp: dr finish_todo_def Let_def)
qed

lemma with_receipt_snoc [simp]: "with_receipt rc (es @ [e]) = es @ [e\<lparr>tv_receipt := Some rc\<rparr>]" "with_receipt rc [] = []"
  by (simp_all add: with_receipt_def)

lemma with_receipt_bodies: "tv_body ` set (with_receipt rc es) = tv_body ` set es"
  by (cases es rule: rev_cases) simp_all

lemma value_in_projected: "value_in s v \<Longrightarrow> receipt_projected s (run_receipt r (TodoCommitted v))"
  by (simp add: value_in_def receipt_projected_def run_receipt_def split: todo_value.split)

lemma draft_replays:
  assumes "result_inv r Q (v, dr)" and "\<forall>e \<in> set (with_receipt rc (dr_events dr)). event_bytes (rn_host r) e \<le> TODO_EVENT_BYTE_LIMIT"
    and "rc = run_receipt r (TodoCommitted v)" and "digest_ok (tx_request_digest (rn_ctx r))"
    and "obj_get (hs_receipts (rn_state r)) (receiptKey (rc_principal rc) (rc_command_id rc)) = None"
  shows "\<exists>s'. reduceTodoEvents (rn_host r) (rn_state r) (with_receipt rc (dr_events dr)) = Inr s' \<and>
    hs_todos s' = hs_todos (dr_state dr) \<and> value_in s' v \<and> hs_policies s' = hs_policies (dr_state dr) \<and>
    hs_receipts s' = (if dr_events dr = [] then hs_receipts (rn_state r)
      else obj_put (hs_receipts (rn_state r)) (receiptKey (rc_principal rc) (rc_command_id rc)) rc)"
proof (cases "dr_events dr" rule: rev_cases)
  case Nil
  with assms(1) show ?thesis by (auto simp: result_inv_def draft_inv_def)
next
  case (snoc es e)
  from assms(1) snoc have e: "reduceTodoEvents (rn_host r) (rn_state r) (es @ [e]) = Inr (dr_state dr)" "tv_receipt e = None"
    "tv_command_id e = tx_command_id (rn_ctx r)" "tv_actor_user e = Some (run_user r)"
    "tv_actor_agent_principal e = run_principal r" "hs_receipts (dr_state dr) = hs_receipts (rn_state r)"
    "value_in (dr_state dr) v" by (auto simp: result_inv_def draft_inv_def)
  have "receipt_ok e (hs_receipts (dr_state dr)) rc"
    using e assms(3-5) by (auto simp: receipt_ok_def run_receipt_def split: option.split)
  from reduce_last_receipt[OF e(1,2) this] assms(2,3) snoc e(6,7) show ?thesis
    by (auto simp: value_in_projected value_in_def split: todo_value.split)
qed

lemma committed_replays:
  assumes "decideTodo h s cmd ctx = Inr d" and "dd_outcome d = TodoCommitted v" and "\<not> dd_replayed d"
    and "todo_state_ok h s"
  obtains t r dr s' where "r = \<lparr>rn_host = h, rn_ctx = ctx, rn_state = s, rn_at = t\<rparr>"
    "run_command r cmd = Inr (Inr (v, dr))"
    "dd_receipt d = Some (run_receipt r (TodoCommitted v))"
    "dd_events d = with_receipt (run_receipt r (TodoCommitted v)) (dr_events dr)"
    "reduceTodoEvents h s (dd_events d) = Inr s'" "hs_todos s' = hs_todos (dr_state dr)" "value_in s' v"
    "hs_receipts s' = (if dd_events d = [] then hs_receipts s
      else obj_put (hs_receipts s) (receiptKey (rc_principal (run_receipt r (TodoCommitted v))) (tx_command_id ctx))
        (run_receipt r (TodoCommitted v)))"
proof (rule committed_decision[OF assms])
  fix t r dr
  assume c: "r = \<lparr>rn_host = h, rn_ctx = ctx, rn_state = s, rn_at = t\<rparr>" "run_command r cmd = Inr (Inr (v, dr))"
    "dd_events d = with_receipt (run_receipt r (TodoCommitted v)) (dr_events dr)"
    "dd_receipt d = Some (run_receipt r (TodoCommitted v))"
    "\<forall>e \<in> set (dd_events d). event_bytes h e \<le> TODO_EVENT_BYTE_LIMIT" "digest_ok (tx_request_digest ctx)"
    "obj_get (hs_receipts s) (receiptKey (rc_principal (run_receipt r (TodoCommitted v))) (tx_command_id ctx)) = None"
  have "run_bodies r (\<lambda>b. True) cmd" by (simp add: run_bodies_def plain_ok_def)
  then have "step_all (result_inv r (\<lambda>b. True)) (run_command r cmd)" using assms(4) c(1) by (intro run_command_inv) simp_all
  then have inv: "result_inv r (\<lambda>b. True) (v, dr)" using c(2) by simp
  have id: "rc_command_id (run_receipt r (TodoCommitted v)) = tx_command_id ctx" using c(1) by (simp add: run_receipt_def)
  have nil: "dd_events d = [] \<longleftrightarrow> dr_events dr = []" using c(3) by (simp add: with_receipt_def)
  from draft_replays[OF inv _ refl] c id nil
  obtain s' where "reduceTodoEvents h s (dd_events d) = Inr s'" "hs_todos s' = hs_todos (dr_state dr)" "value_in s' v"
    "hs_receipts s' = (if dd_events d = [] then hs_receipts s
      else obj_put (hs_receipts s) (receiptKey (rc_principal (run_receipt r (TodoCommitted v))) (tx_command_id ctx))
        (run_receipt r (TodoCommitted v)))" by auto
  with c that show thesis by metis
qed

section \<open>Receipts are kept\<close>

lemma event_receipts_kept:
  assumes "reduce_todo_event h (s, acc) e = Inr (s', acc')" and "obj_get (hs_receipts s) k = Some rc"
  shows "obj_get (hs_receipts s') k = Some rc"
  using assms apply_body_frame
  by (cases "tv_body e"; fastforce simp: reduce_todo_event_def Let_def bind_result_Inr receipt_ok_def
      split: option.split_asm if_split_asm)+

lemma loop_receipts_kept:
  "reduce_todo_loop h (s, acc) es = Inr (s', acc') \<Longrightarrow> obj_get (hs_receipts s) k = Some rc \<Longrightarrow>
     obj_get (hs_receipts s') k = Some rc"
proof (induction es arbitrary: s acc)
  case (Cons e es)
  then show ?case using event_receipts_kept by (fastforce simp: bind_result_Inr)
qed simp

lemma log_receipts_kept:
  assumes "reduceTodoEvents h s (es @ fs) = Inr s2" and "reduceTodoEvents h s es = Inr s1"
    and "obj_get (hs_receipts s1) k = Some rc"
  shows "obj_get (hs_receipts s2) k = Some rc"
  using assms loop_receipts_kept
  by (fastforce simp: reduceTodoEvents_def reduce_todo_loop_append bind_result_Inr)

end
