(* ===== verification/TodoSample.thy ===== *)
theory TodoSample
  imports TodoReplay
begin

text \<open>
  A small household used by the concrete instances of the to-do properties: one person \<open>u\<close> with an
  agent \<open>p\<close> that has two to-dos queued, and a member \<open>v\<close> whose agent \<open>q\<close> accepts work from anyone. A bound
  of the JSON size of an event makes the 64 KiB check cheap to decide.
\<close>

section \<open>A bound of the size of an event\<close>

fun js_size :: "js_value \<Rightarrow> nat" where
  "js_size JsUndefined = 0"
| "js_size JsNull = 4"
| "js_size (JsBool b) = 5"
| "js_size (JsNumber n) = 24"
| "js_size (JsString s) = 2 + 6 * length s"
| "js_size (JsArray vs) = 2 + sum_list (map (\<lambda>v. js_size v + 1) vs)"
| "js_size (JsObject es) = 2 + sum_list (map (\<lambda>(k, v). 6 * length k + 4 + js_size v) es)"

lemma json_text_bytes_le: "json_text_bytes s \<le> 6 * length s"
  by (induction s rule: json_text_bytes.induct) (auto simp: json_unit_bytes_def)

lemma json_bytes_le:
  assumes "\<And>n. nb n \<le> 24"
  shows "json_bytes nb v \<le> js_size v"
proof (induction v)
  case (JsArray vs)
  have "sum_list (map (json_bytes nb) vs) \<le> sum_list (map js_size vs)"
    using JsArray by (intro sum_list_mono) auto
  moreover have "sum_list (map (\<lambda>v. Suc (js_size v)) vs) = sum_list (map js_size vs) + length vs"
    by (induction vs) auto
  ultimately show ?case by simp
next
  case (JsObject es)
  let ?f = "\<lambda>(k, v). if v = JsUndefined then 0 else json_text_bytes k + 3 + json_bytes nb v"
  have "sum_list (map ?f es) \<le> sum_list (map (\<lambda>(k, v). 6 * length k + 3 + js_size v) es)"
    using JsObject json_text_bytes_le by (intro sum_list_mono) (fastforce intro: add_mono)
  moreover have "sum_list (map (\<lambda>(k, v). 6 * length k + 4 + js_size v) es) =
      sum_list (map (\<lambda>(k, v). 6 * length k + 3 + js_size v) es) + length es"
    by (induction es) auto
  ultimately show ?case using length_filter_le[of "\<lambda>(k, v). v \<noteq> JsUndefined" es] unfolding json_bytes.simps js_size.simps by linarith
qed (use assms json_text_bytes_le in \<open>auto simp del: One_nat_def intro: add_left_mono\<close>)

lemma js_size_simps [simp]:
  "js_size (str_js s) = 2 + 6 * length s"
  "js_size (int_js i) = 24"
  "js_size (opt_js f None) = 4" "js_size (opt_js f (Some x)) = js_size (f x)"
  "js_size (object_js es) = 2 + sum_list (map (\<lambda>(k, v). 6 * length k + 4 + js_size v) es)"
  by (simp_all add: str_js_def int_js_def opt_js_def object_js_def comp_def case_prod_unfold)

definition sample_todo_host :: todo_host where
  "sample_todo_host = \<lparr>th_parse = (\<lambda>_. None), th_number_bytes = (\<lambda>_. 24)\<rparr>"

lemma event_fits:
  "js_size (event_js e) \<le> 65536 \<Longrightarrow> event_bytes sample_todo_host e \<le> TODO_EVENT_BYTE_LIMIT"
  using json_bytes_le[of "\<lambda>_. 24" "event_js e"]
  by (simp add: event_bytes_def sample_todo_host_def TODO_EVENT_BYTE_LIMIT_def)

definition sample_uuid :: "char \<Rightarrow> string" where
  "sample_uuid c = ''00000000-0000-4000-8000-00000000000'' @ [c]"

lemma sample_uuids [simp]: "uuid (sample_uuid CHR ''a'')" "uuid (sample_uuid CHR ''b'')" "uuid (sample_uuid CHR ''1'')"
  by code_simp+

lemma sample_uuid_simps [simp]: "length (sample_uuid c) = 36" "sample_uuid c = sample_uuid d \<longleftrightarrow> c = d" "sample_uuid c \<noteq> []"
  by (simp_all add: sample_uuid_def)

lemma day_zero: "civil_of_days 0 = (1970, 1, 1)"
  by code_simp

lemma iso_zero [simp]: "length (iso_text 0) = 24"
  by (simp add: iso_text_def day_zero iso_year_def)

lemma iso_now [simp]: "iso_of_number (Fin 0) = Inr (iso_text 0)"
  by (simp add: iso_of_number_def toISOString_def js_trunc_def max_time_def)

lemma date_zero [simp]: "todo_date h (iso_text 0) = Some 0"
  by (simp add: todo_date_def iso_range_def)

lemma milk [simp]: "validTitle (lit ''Milk'')"
  by (simp add: validTitle_def lit_def trim_def white_unit_def TODO_TITLE_LIMIT_def high_surrogate_def)


definition sample_actor :: todo_actor where
  "sample_actor = \<lparr>ta_user_id = ''u'', ta_principal_id = None\<rparr>"

text \<open>A to-do in the queue of agent \<open>p\<close>.\<close>

definition sample_todo :: "string \<Rightarrow> int \<Rightarrow> todo" where
  "sample_todo i r = \<lparr>td_workspace_id = ''w'', td_todo_id = i, td_version = 1, td_title = lit ''Milk'',
     td_notes = [], td_state = TodoOpen, td_due_on = None, td_created_by = sample_actor,
     td_created_at = iso_text 0, td_assignee = Some (AgentParty ''p''), td_assigned_by = Some sample_actor,
     td_assigned_at = Some (iso_text 0), td_offer = None, td_gate = GateNone, td_gate_set_by = None,
     td_queue_rank = Some r, td_state_by = sample_actor, td_state_at = iso_text 0, td_comment_count = 0\<rparr>"

abbreviation todo_a :: string where "todo_a \<equiv> sample_uuid CHR ''a''"
abbreviation todo_b :: string where "todo_b \<equiv> sample_uuid CHR ''b''"

definition sample_todos :: todo_state where
  "sample_todos = \<lparr>hs_ws = ''w'', hs_stream = ''h'', hs_last_seq = 5,
     hs_todos = [(todo_a, sample_todo todo_a 1), (todo_b, sample_todo todo_b 2)],
     hs_comments = [], hs_policies = [(''q'', \<lparr>wp_principal = ''q'', wp_accepts_from = AcceptsAnyone, wp_set_by_user = ''v'',
       wp_set_at = iso_text 0\<rparr>)], hs_receipts = []\<rparr>"

lemma sample_todos_fields: "hs_ws sample_todos = ''w''" "hs_stream sample_todos = ''h''" "hs_last_seq sample_todos = 5"
  by (simp_all add: sample_todos_def)

lemma sample_todo_size: "js_size (todo_js (sample_todo i r)) \<le> 4000 + 6 * length i"
  by (simp add: todo_js_def sample_todo_def sample_actor_def actor_js_def lit_def)

lemma sample_queue: "queue (hs_todos sample_todos) ''p'' = [sample_todo todo_a 1, sample_todo todo_b 2]"
  by (simp add: queue_def sample_todos_def obj_values_def in_queue_def sample_todo_def isOpen_def js_sort_def queue_before_def)

lemma sample_todos_ok: "todo_state_ok sample_todo_host sample_todos"
proof -
  have "\<not> waits_for (hs_todos sample_todos) i j" for i j
    by (auto simp: waits_for_def sample_todos_def sample_todo_def obj_get_def split: if_split_asm)
  then have "acyclic_gates (hs_todos sample_todos)" by (auto simp: acyclic_gates_def elim: tranclp.cases)
  then show ?thesis
   by (auto simp: todo_state_ok_def todos_ok_def sample_todos_def obj_wf_def obj_get_def todo_ok_def sample_todo_def isOpen_def
     quotas_ok_def open_count_def obj_values_def TODO_OPEN_LIMIT_def TODO_QUEUE_LIMIT_def
      sample_queue[unfolded sample_todos_def sample_todo_def, simplified] split: if_split_asm)
qed

definition sample_member :: household_member where
  "sample_member = \<lparr>hm_user_id = ''u'', hm_workspace_id = ''w'', hm_revoked_at = None,
     hm_content_role = Some ContentEditor, hm_content_consent_id = Some ''c''\<rparr>"

definition sample_todo_ctx :: todo_ctx where
  "sample_todo_ctx = \<lparr>tx_access = \<lparr>xa_workspace_id = ''w'', xa_archived_at = None, xa_boundary = SharedBoundary,
       xa_actor = \<lparr>ac_user_id = ''u'', ac_principal_id = None, ac_run_id = None\<rparr>,
       xa_credential = HumanAccess, xa_member = Some sample_member\<rparr>,
     tx_now = Fin 0, tx_command_id = ''k'', tx_request_digest = replicate 64 CHR ''a'',
     tx_seq = 6, tx_event_ids = [sample_uuid CHR ''1''], tx_todo_id = None, tx_offer_id = None, tx_comment_id = None,
     tx_members = [\<lparr>tm_user_id = ''u'', tm_workspace_id = ''w'', tm_revoked_at = None, tm_role = MemberPlain\<rparr>,
       \<lparr>tm_user_id = ''v'', tm_workspace_id = ''w'', tm_revoked_at = None, tm_role = MemberPlain\<rparr>],
     tx_agents = [\<lparr>tg_principal_id = ''p'', tg_owner_user_id = ''u'', tg_workspace_id = ''w'', tg_revoked_at = None\<rparr>,
       \<lparr>tg_principal_id = ''q'', tg_owner_user_id = ''v'', tg_workspace_id = ''w'', tg_revoked_at = None\<rparr>],
     tx_objects = [], tx_identity_write_attempts = Fin 0, tx_workspace_write_attempts = Fin 0\<rparr>"

lemma sample_digest: "digest_ok (replicate 64 CHR ''a'')" by code_simp

definition sample_run :: todo_run where
  "sample_run = \<lparr>rn_host = sample_todo_host, rn_ctx = sample_todo_ctx, rn_state = sample_todos, rn_at = iso_text 0\<rparr>"

text \<open>A command of the sample that passes the preliminary checks.\<close>

lemma sample_decide:
  "decideTodo sample_todo_host sample_todos cmd sample_todo_ctx = finish_todo sample_run (run_command sample_run cmd)"
  by (cases cmd) (simp_all add: decideTodo_def householdAccessRefusal_def connection_refused_def sample_todo_ctx_def sample_member_def
      sample_todos_def sample_digest safe_integer_def command_operation_def sample_run_def Let_def)


lemma sample_run_facts [simp]:
  "run_human sample_run" "run_user sample_run = ''u''" "run_principal sample_run = None"
  "run_party sample_run = UserParty ''u''" "rn_host sample_run = sample_todo_host" "rn_state sample_run = sample_todos"
  "rn_ctx sample_run = sample_todo_ctx" "rn_at sample_run = iso_text 0" "run_actor sample_run = sample_actor"
  by (simp_all add: run_human_def run_user_def run_principal_def run_party_def sample_run_def sample_todo_ctx_def run_actor_def sample_actor_def)

lemma sample_limit:
  "\<not> householdWriteLimitReached (tx_identity_write_attempts sample_todo_ctx) (tx_workspace_write_attempts sample_todo_ctx)"
  by (simp add: householdWriteLimitReached_def sample_todo_ctx_def max_safe_integer_def
      HOUSEHOLD_IDENTITY_WRITE_HOURLY_LIMIT_def HOUSEHOLD_WORKSPACE_WRITE_HOURLY_LIMIT_def)

lemma sample_agents:
  "run_agent sample_run ''p'' = Some \<lparr>tg_principal_id = ''p'', tg_owner_user_id = ''u'', tg_workspace_id = ''w'', tg_revoked_at = None\<rparr>"
  "run_agent sample_run ''q'' = Some \<lparr>tg_principal_id = ''q'', tg_owner_user_id = ''v'', tg_workspace_id = ''w'', tg_revoked_at = None\<rparr>"
  "run_member sample_run ''u'' \<noteq> None" "run_member sample_run ''v'' \<noteq> None"
  by (simp_all add: run_agent_def run_member_def sample_run_def sample_todo_ctx_def sample_todos_def)

text \<open>The one event a command of the sample emits.\<close>

definition sample_event :: "todo_body \<Rightarrow> todo_event" where
  "sample_event body = \<lparr>tv_workspace_id = ''w'', tv_stream_id = ''h'', tv_schema_version = 1, tv_seq = 6,
     tv_event_id = sample_uuid CHR ''1'', tv_command_id = ''k'', tv_actor_user = Some ''u'', tv_actor_agent_principal = None,
     tv_actor_run = None, tv_occurred_at = Fin 0, tv_body = body, tv_receipt = None\<rparr>"

lemma sample_emit:
  assumes "reduceTodoEvents sample_todo_host sample_todos [sample_event body] = Inr s"
  shows "emit sample_run (start_draft sample_run) body =
    Inr (Inr \<lparr>dr_state = s, dr_events = [sample_event body], dr_notices = []\<rparr>)"
  using assms
  by (simp add: emit_def start_draft_def go_def sample_todo_ctx_def sample_event_def sample_todos_def)

lemma sample_reduce:
  assumes "apply_body sample_todo_host s0 None (sample_event body) = Inr (s, acc)" and "quotas_ok (hs_todos s)"
    and s0: "hs_ws s0 = ''w''" "hs_stream s0 = ''h''" "hs_last_seq s0 < 6"
    and "js_size (object_js (body_js body)) \<le> 20000" and "\<forall>ty. body \<noteq> UnknownTodoEvent ty" and "length (body_type body) \<le> 30"
  shows "reduceTodoEvents sample_todo_host s0 [sample_event body] = Inr (s\<lparr>hs_last_seq := 6\<rparr>)"
proof -
  have "js_size (event_js (sample_event body)) \<le> 65536"
    using assms(6,8) by (simp add: event_js_def sample_event_def)
  from event_fits[OF this] s0 have "todo_envelope_ok sample_todo_host s0 (sample_event body)"
    by (simp add: todo_envelope_ok_def sample_event_def SCHEMA_VERSION_def safe_integer_def)
  then show ?thesis using assms(1,2,7)
    by (cases body) (simp_all add: reduceTodoEvents_def reduce_todo_event_def Let_def ensure_def sample_event_def)
qed

definition moved_todos :: "todo obj" where
  "moved_todos = put_ranks 1 [todo_b, todo_a] (hs_todos sample_todos)"

lemma sample_queue_ids: "queue_ids (hs_todos sample_todos) ''p'' = [todo_a, todo_b]"
  by (simp add: queue_ids_def sample_queue) (simp add: sample_todo_def)

lemma moved_ok: "todos_ok sample_todo_host ''w'' moved_todos"
  unfolding moved_todos_def using sample_todos_ok sample_queue_ids
  by (intro put_ranks_ok(1)[where p = "''p''"]) (auto simp: todo_state_ok_def sample_todos_def)

lemma moved_quota: "quotas_ok moved_todos"
proof -
  have "length (obj_values moved_todos) = 2"
    by (simp add: moved_todos_def obj_values_def obj_put_def obj_get_def sample_todos_def)
  then have l: "length (filter P (obj_values moved_todos)) \<le> 2" for P by (metis length_filter_le)
  have l2: "length (queue moved_todos p) \<le> 2" for p
    using l[of "in_queue p"] by (simp add: queue_def)
  with l[of isOpen] show ?thesis
    by (auto simp: quotas_ok_def open_count_def TODO_OPEN_LIMIT_def TODO_QUEUE_LIMIT_def split: option.split party.split intro: order_trans[OF l2])
qed

lemma sample_move_event:
  "reduceTodoEvents sample_todo_host sample_todos [sample_event (TodoQueueOrdered ''p'' [todo_b, todo_a])] =
     Inr (sample_todos\<lparr>hs_todos := moved_todos, hs_last_seq := 6\<rparr>)"
  using moved_quota
  by (subst sample_reduce[where acc = None and s = "sample_todos\<lparr>hs_todos := moved_todos\<rparr>"])
    (simp_all add: apply_body_def sample_event_def sample_queue_ids moved_todos_def Let_def ensure_def sample_todos_fields)


definition sample_receipt :: "todo_value \<Rightarrow> todo_receipt" where
  "sample_receipt v = \<lparr>rc_principal = ''u'', rc_command_id = ''k'', rc_request_digest = replicate 64 CHR ''a'', rc_outcome = TodoCommitted v\<rparr>"

definition sample_decision :: "todo_body \<Rightarrow> todo_value \<Rightarrow> todo_notice list \<Rightarrow> todo_decision" where
  "sample_decision body v ns = \<lparr>dd_outcome = TodoCommitted v,
     dd_events = [(sample_event body)\<lparr>tv_receipt := Some (sample_receipt v)\<rparr>], dd_receipt = Some (sample_receipt v),
     dd_notices = ns, dd_replayed = False\<rparr>"

lemma sample_finish:
  assumes "run_command sample_run cmd = Inr (Inr (v, \<lparr>dr_state = s, dr_events = [sample_event body], dr_notices = ns\<rparr>))"
    and "js_size (object_js (body_js body)) \<le> 20000" and "length (body_type body) \<le> 30"
    and "js_size (outcome_js (TodoCommitted v)) \<le> 20000"
  shows "decideTodo sample_todo_host sample_todos cmd sample_todo_ctx = Inr (sample_decision body v ns)"
proof -
  have rc: "run_receipt sample_run (TodoCommitted v) = sample_receipt v"
    by (simp add: run_receipt_def sample_receipt_def sample_todo_ctx_def)
  have "js_size (event_js ((sample_event body)\<lparr>tv_receipt := Some (sample_receipt v)\<rparr>)) \<le> 65536"
    using assms(2-4) by (simp add: event_js_def sample_event_def receipt_js_def sample_receipt_def)
  from event_fits[OF this] assms(1) show ?thesis
    by (simp add: sample_decide finish_todo_def rc with_receipt_def sample_decision_def ensure_def Let_def)
qed

text \<open>The owner moves the second to-do of the agent to the front.\<close>

definition sample_move :: todo_command where
  "sample_move = HouseholdTodoSteer todo_b (Fin 1) (MoveAfter None)"

definition moved_value :: todo_value where
  "moved_value = TodoValue (sample_todo todo_b 1)"

lemma moved_get: "obj_get moved_todos todo_b = Some (sample_todo todo_b 1)"
  by (simp add: moved_todos_def obj_put_def obj_get_def sample_todos_def sample_todo_def)

lemma sample_moved_fits:
  "event_bytes sample_todo_host ((sample_event (TodoQueueOrdered ''p'' [todo_b, todo_a]))\<lparr>
     tv_receipt := Some (sample_receipt moved_value)\<rparr>) \<le> TODO_EVENT_BYTE_LIMIT"
  by (rule event_fits) (use sample_todo_size[of todo_b 1] in \<open>simp add: event_js_def sample_event_def receipt_js_def sample_receipt_def moved_value_def\<close>)

lemma moved_draft: "the (obj_get moved_todos todo_b) = sample_todo todo_b 1"
  by (simp add: moved_todos_def obj_put_def obj_get_def sample_todos_def sample_todo_def)

lemma sample_moved:
  "decideTodo sample_todo_host sample_todos sample_move sample_todo_ctx =
     Inr (sample_decision (TodoQueueOrdered ''p'' [todo_b, todo_a]) moved_value [])"
proof (rule sample_finish)
  have b: "obj_get (hs_todos sample_todos) todo_b = Some (sample_todo todo_b 2)"
    by (simp add: sample_todos_def obj_get_def)
  have "order sample_run (start_draft sample_run) ''p'' todo_b None = Inr (Inr \<lparr>dr_state = sample_todos\<lparr>hs_todos := moved_todos, hs_last_seq := 6\<rparr>,
      dr_events = [sample_event (TodoQueueOrdered ''p'' [todo_b, todo_a])], dr_notices = []\<rparr>)"
    using sample_emit[OF sample_move_event] by (simp add: order_def start_draft_def sample_queue_ids)
  then show "run_command sample_run sample_move = Inr (Inr (moved_value, \<lparr>dr_state = sample_todos\<lparr>hs_todos := moved_todos, hs_last_seq := 6\<rparr>,
      dr_events = [sample_event (TodoQueueOrdered ''p'' [todo_b, todo_a])], dr_notices = []\<rparr>))"
    using b unfolding run_command_def start_draft_def[symmetric]
    by (simp add: sample_move_def decide_existing_todo_def Let_def change_todo_def decide_steer_def sample_agents
        sample_todo_def isOpen_def go_def draft_todo_def moved_draft moved_value_def sample_limit)
qed (use sample_todo_size[of todo_b 1] in \<open>simp_all add: moved_value_def\<close>)

text \<open>\<open>u\<close> gives the first to-do to the agent of \<open>v\<close>, whose policy accepts it.\<close>

definition sample_assign :: todo_command where
  "sample_assign = TodoAssign todo_a (Fin 1) (Some (AgentParty ''q'')) None None"

definition given_todo :: todo where
  "given_todo = (sample_todo todo_a 1)\<lparr>td_version := 2, td_assignee := Some (AgentParty ''q'')\<rparr>"

lemma given_apply:
  "apply_body sample_todo_host sample_todos None (sample_event (TodoAssigned given_todo)) =
     Inr (sample_todos\<lparr>hs_todos := obj_put (hs_todos sample_todos) todo_a given_todo\<rparr>, None)"
  by (simp add: apply_body_def sample_event_def applyTodo_def projection_ok_def given_todo_def sample_todo_def sample_todos_def
      ensure_def obj_get_def safe_integer_def isOpen_def validNotes_def hasInvalidControls_def TODO_NOTES_LIMIT_def fields_ok_def
      valid_actor_def sample_actor_def gateCycles_def todo_fields_def body_check_def assigned_ok_def event_author_def
      valid_setter_def gate_setter_def validDate_def)

lemma given_quota: "quotas_ok (obj_put (hs_todos sample_todos) todo_a given_todo)"
proof -
  let ?t = "obj_put (hs_todos sample_todos) todo_a given_todo"
  have "length (obj_values ?t) = 2"
    by (simp add: obj_values_def obj_put_def sample_todos_def)
  then have l: "length (filter P (obj_values ?t)) \<le> 2" for P by (metis length_filter_le)
  have l2: "length (queue ?t p) \<le> 2" for p
    using l[of "in_queue p"] by (simp add: queue_def)
  with l[of isOpen] show ?thesis
    by (auto simp: quotas_ok_def open_count_def TODO_OPEN_LIMIT_def TODO_QUEUE_LIMIT_def split: option.split party.split intro: order_trans[OF l2])
qed

lemma given_event:
  "reduceTodoEvents sample_todo_host sample_todos [sample_event (TodoAssigned given_todo)] =
     Inr (sample_todos\<lparr>hs_todos := obj_put (hs_todos sample_todos) todo_a given_todo, hs_last_seq := 6\<rparr>)"
  using given_quota
  by (subst sample_reduce[OF given_apply])
    (simp_all add: sample_todos_fields given_todo_def todo_js_def sample_todo_def sample_actor_def actor_js_def lit_def)

lemma sample_assigned:
  "decideTodo sample_todo_host sample_todos sample_assign sample_todo_ctx = Inr (sample_decision (TodoAssigned given_todo)
     (TodoValue given_todo) [\<lparr>tn_kind = NoteNotice, tn_to = [AgentParty ''q''], tn_about = todoNoticeAbout todo_a, tn_body = NoticeAdded\<rparr>])"
proof (rule sample_finish)
  let ?s = "sample_todos\<lparr>hs_todos := obj_put (hs_todos sample_todos) todo_a given_todo, hs_last_seq := 6\<rparr>"
  let ?n = "\<lparr>tn_kind = NoteNotice, tn_to = [AgentParty ''q''], tn_about = todoNoticeAbout todo_a, tn_body = NoticeAdded\<rparr>"
  have a: "obj_get (hs_todos sample_todos) todo_a = Some (sample_todo todo_a 1)"
    by (simp add: sample_todos_def obj_get_def)
  have q: "queue (hs_todos sample_todos) ''q'' = []"
    by (simp add: queue_def sample_todos_def obj_values_def in_queue_def sample_todo_def js_sort_def)
  have pol: "assign_accepted sample_run (start_draft sample_run) (AgentParty ''q'') StartQueue"
    by (simp add: assign_accepted_def start_draft_def sample_todos_def obj_get_def)
  have "assigned sample_run (start_draft sample_run) (sample_todo todo_a 1) \<lparr>ai_to = AgentParty ''q'', ai_start = None, ai_gate = None\<rparr> =
     Inr (Inr \<lparr>dr_state = ?s, dr_events = [sample_event (TodoAssigned given_todo)], dr_notices = [?n]\<rparr>)"
  proof -
    let ?d = "start_draft sample_run" and ?t = "sample_todo todo_a 1"
    have t: "td_gate ?t = GateNone" "td_offer ?t = None" "td_todo_id ?t = todo_a" "td_gate_set_by ?t = None"
      by (simp_all add: sample_todo_def)
    have "targetRefusal sample_run (AgentParty ''q'') = None" "gateRefusal sample_run ?d todo_a GateNone = None"
      "\<not> queueFull ?d ?t (AgentParty ''q'')"
      using sample_agents q
      by (simp_all add: targetRefusal_def gateRefusal_def gateCycles_def queueFull_def start_draft_def TODO_QUEUE_LIMIT_def
          split: option.split)
    moreover have "(bumped ?t)\<lparr>td_assignee := Some (AgentParty ''q''), td_assigned_by := Some sample_actor,
        td_assigned_at := Some (iso_text 0), td_state := TodoOpen, td_state_by := sample_actor, td_state_at := iso_text 0,
        td_gate := GateNone, td_gate_set_by := None, td_queue_rank := Some (next_rank []), td_offer := None\<rparr> = given_todo"
      by (simp add: bumped_def given_todo_def sample_todo_def next_rank_def)
    then have "accept_todo sample_run ?d ?t (Some (AgentParty ''q'')) StartQueue GateNone None =
        Inr (Inr \<lparr>dr_state = ?s, dr_events = [sample_event (TodoAssigned given_todo)], dr_notices = []\<rparr>)"
      using sample_emit[OF given_event] q by (simp add: accept_todo_def start_draft_def go_def)
    ultimately show ?thesis using pol
      by (simp add: assigned_def t refuse_if_def replace_offer_def go_def evaluateGate_def sample_todo_ctx_def add_notice_def)
  qed
  then show "run_command sample_run sample_assign = Inr (Inr (TodoValue given_todo, \<lparr>dr_state = ?s,
      dr_events = [sample_event (TodoAssigned given_todo)], dr_notices = [?n]\<rparr>))"
    using a unfolding run_command_def start_draft_def[symmetric]
    by (simp add: sample_assign_def decide_existing_todo_def Let_def change_todo_def decide_assign_def
        isOpen_def go_def draft_todo_def sample_limit) (simp add: sample_todo_def)
qed (simp_all add: given_todo_def todo_js_def sample_todo_def sample_actor_def actor_js_def lit_def)

end
