(* ===== verification/TodoProperties.thy ===== *)
theory TodoProperties
  imports TodoSample
begin

text \<open>The properties of household to-dos: the projection, gates, decisions and consent.\<close>

section \<open>What a decision rests on\<close>

lemma gate_clear_iff:
  "evaluateGate h g todos now \<Longrightarrow> case g of GateNone \<Rightarrow> True | GateHold _ \<Rightarrow> False
    | GateAfter j \<Rightarrow> \<exists>d. obj_get todos j = Some d \<and> (td_state d = TodoDone \<or> td_state d = TodoDropped)
    | GateAt x \<Rightarrow> \<exists>ms. todo_date h x = Some ms \<and> js_le (Fin (of_int ms)) now"
  by (auto simp: evaluateGate_def split: todo_gate.splits if_split_asm option.split_asm)

text \<open>Only a state change starts a to-do, and it is checked.\<close>

lemma apply_keeps_state:
  assumes "applyTodo h s todos acc e False t = Inr todos'" and "F_state \<notin> set (event_fields (tv_body e))"
  shows "td_state t = td_state (the (obj_get todos (td_todo_id t)))"
  using applyTodo_Inr(5)[OF assms(1)] assms(2) by (auto simp: todo_fields_def)

lemma doing_after_body:
  assumes "apply_body h s acc e = Inr (s', acc')" and "todos_ok h ws (hs_todos s)"
    and "obj_get (hs_todos s') i = Some t" and "td_state t = TodoDoing"
    and "\<And>u. obj_get (hs_todos s) i = Some u \<Longrightarrow> td_state u \<noteq> TodoDoing"
  shows "td_assignee t = Some (event_party e) \<and> evaluateGate h (td_gate t) (hs_todos s) (tv_occurred_at e)"
proof -
  have put: "td_assignee t = Some (event_party e) \<and> evaluateGate h (td_gate t) (hs_todos s) (tv_occurred_at e)"
    if a: "applyTodo h s (hs_todos s) ac e create t' = Inr (hs_todos s')"
      and b: "tv_body e = TodoStateChanged t' \<or> create \<or> (F_state \<notin> set (event_fields (tv_body e))) \<or> tv_body e = TodoAssigned t'"
      and c: "create \<longrightarrow> tv_body e = TodoCreated t'" for ac create t'
  proof -
    note ap = applyTodo_Inr[OF a]
    obtain x where x: "iso_of_number (tv_occurred_at e) = Inr x" using ap(6) by blast
    have new: "td_todo_id t' = i" "t' = t" using assms(3,4,5) ap(1) by (auto split: if_split_asm)
    show ?thesis
    proof (cases create)
      case True
      then show ?thesis using ap(4)[OF x] new assms(4) by (simp add: create_ok_def)
    next
      case False
      then obtain u where u: "obj_get (hs_todos s) i = Some u" using ap(2) new by (auto simp: projection_ok_def Let_def)
      from assms(5)[OF u] assms(4) ap(4)[OF x] apply_keeps_state[of h s "hs_todos s" ac e t'] a b False new u show ?thesis
        by (auto simp: body_check_def changed_ok_def assigned_ok_def)
    qed
  qed
  show ?thesis
  proof (cases "tv_body e")
    case (TodoQueueOrdered p ids)
    with assms(1) have q: "hs_todos s' = put_ranks 1 ids (hs_todos s)" "distinct ids"
      "length ids = length (queue_ids (hs_todos s) p)" "set (queue_ids (hs_todos s) p) \<subseteq> set ids"
      by (auto simp: apply_body_def Let_def)
    have "set ids \<subseteq> {i. obj_get (hs_todos s) i \<noteq> None}"
      using queue_ids_perm[OF assms(2) q(2-4)] queue_facts(1)[OF assms(2)] by (fastforce simp: queue_ids_def)
    from put_ranks_get[OF q(2) this, of 1 i] assms(3,4,5) q(1) \<open>set ids \<subseteq> _\<close> show ?thesis
      by (cases "obj_get (hs_todos s) i") (auto split: if_split_asm)
  qed (use assms(1,3,4,5) put in \<open>fastforce simp: apply_body_def Let_def bind_result_Inr
      split: option.split_asm if_split_asm\<close>)+
qed

section \<open>The projection\<close>

lemma queue_length_ok:
  assumes "todo_state_ok h s"
  shows "length (queue (hs_todos s) p) \<le> TODO_QUEUE_LIMIT"
proof (cases "queue (hs_todos s) p")
  case (Cons t ts)
  have ok: "todos_ok h (hs_ws s) (hs_todos s)" "quotas_ok (hs_todos s)" using assms by (simp_all add: todo_state_ok_def)
  have "t \<in> set (queue (hs_todos s) p)" using Cons by simp
  then have "t \<in> set (obj_values (hs_todos s))" "td_assignee t = Some (AgentParty p)"
    using queue_facts(1)[OF ok(1)] todo_values(1)[OF ok(1)] by (auto simp: in_queue_def)
  with ok(2) show ?thesis by (fastforce simp: quotas_ok_def)
qed simp

text \<open>
  C19. Every replayed to-do projection is sound: no to-do waits for itself along any chain of \<open>after\<close>
  gates and every gate's to-do exists, at most 1000 to-dos are open and 200 in one agent's
  queue, and a to-do has a queue rank exactly when it is open and assigned to an agent.
\<close>

theorem replayed_todos_are_sound:
  assumes "emptyHouseholdTodoState ws st = Inr s0" and "reduceTodoEvents h s0 es = Inr s"
  shows "(\<forall>i. \<not> (waits_for (hs_todos s))\<^sup>+\<^sup>+ i i) \<and> open_count (hs_todos s) \<le> 1000 \<and>
    (\<forall>p. length (queue (hs_todos s) p) \<le> 200) \<and>
    (\<forall>i t. obj_get (hs_todos s) i = Some t \<longrightarrow> td_todo_id t = i \<and>
       (td_queue_rank t \<noteq> None \<longleftrightarrow> is_agent (td_assignee t) \<and> isOpen t) \<and>
       (\<forall>j. td_gate t = GateAfter j \<longrightarrow> obj_get (hs_todos s) j \<noteq> None))"
proof -
  have ok: "todo_state_ok h s" using reduceTodoEvents_ok[OF assms(2) empty_todo_state_ok[OF assms(1)]] .
  then have t: "todos_ok h (hs_ws s) (hs_todos s)" "open_count (hs_todos s) \<le> 1000"
    by (auto simp: todo_state_ok_def quotas_ok_def TODO_OPEN_LIMIT_def)
  show ?thesis
    using t todos_okD[OF t(1)] queue_length_ok[OF ok]
    by (auto simp: todos_ok_def acyclic_gates_def todo_ok_def TODO_QUEUE_LIMIT_def)
qed

definition sample_new :: todo where
  "sample_new = (sample_todo todo_a 1)\<lparr>td_assignee := None, td_assigned_by := None, td_assigned_at := None, td_queue_rank := None\<rparr>"

definition sample_blank :: todo_state where
  "sample_blank = \<lparr>hs_ws = ''w'', hs_stream = ''h'', hs_last_seq = - 1, hs_todos = [], hs_comments = [],
     hs_policies = [], hs_receipts = []\<rparr>"

lemma sample_todo_created:
  "reduceTodoEvents sample_todo_host sample_blank [sample_event (TodoCreated sample_new)] =
     Inr (sample_blank\<lparr>hs_todos := [(todo_a, sample_new)], hs_last_seq := 6\<rparr>)"
proof -
  have "apply_body sample_todo_host sample_blank None (sample_event (TodoCreated sample_new)) =
      Inr (sample_blank\<lparr>hs_todos := [(todo_a, sample_new)]\<rparr>, None)"
    by (simp add: apply_body_def sample_event_def applyTodo_def projection_ok_def sample_new_def sample_todo_def sample_blank_def
      ensure_def safe_integer_def isOpen_def validNotes_def hasInvalidControls_def TODO_NOTES_LIMIT_def fields_ok_def obj_put_def
      valid_actor_def sample_actor_def gateCycles_def validDate_def create_ok_def event_author_def)
  then show ?thesis
    by (rule sample_reduce)
      (simp_all add: quotas_ok_def open_count_def obj_values_def sample_blank_def sample_new_def isOpen_def TODO_OPEN_LIMIT_def
        todo_js_def sample_todo_def sample_actor_def actor_js_def lit_def)
qed

theorem replayed_todos_are_sound_witness:
  "\<not> (waits_for [(todo_a, sample_new)])\<^sup>+\<^sup>+ todo_a todo_a \<and> open_count [(todo_a, sample_new)] = 1"
proof -
  have "emptyHouseholdTodoState ''w'' ''h'' = Inr sample_blank"
    by (simp add: emptyHouseholdTodoState_def sample_blank_def ensure_def)
  from replayed_todos_are_sound[OF this sample_todo_created] show ?thesis
    by (simp add: open_count_def obj_values_def sample_new_def sample_todo_def isOpen_def)
qed

text \<open>
  C20. The gate walk of \<open>gateCycles\<close> ends on every projection, sound or corrupt, and is exact: it
  reports a cycle precisely when following \<open>after\<close> gates from the proposed one leads back to the
  to-do itself or into a cycle among the others.
\<close>

theorem gate_walk_is_exact:
  "gateCycles i g todos \<longleftrightarrow> (\<exists>j k. g = GateAfter j \<and> (waits_for todos)\<^sup>*\<^sup>* j k \<and> (k = i \<or> (waits_for todos)\<^sup>+\<^sup>+ k k))"
  using gate_walk_sound[of todos "[i]" g] gate_walk_complete[of todos _ _ "[i]" g] gateCycles_only_after[of i g todos]
  by (auto simp: gateCycles_def)

text \<open>
  C21. Nothing starts before its gate is clear: when an event turns a to-do to \<open>doing\<close>, the event's author
  is its assignee, and its gate is open at the event's time against the projection before it;
  the to-do it waits for is done or dropped, its instant has passed, and a held one never starts.
\<close>

theorem nothing_starts_behind_its_gate:
  assumes "todo_state_ok h s" and "reduce_todo_event h (s, acc) e = Inr (s', acc')"
    and "obj_get (hs_todos s') i = Some t" and "td_state t = TodoDoing"
    and "\<And>u. obj_get (hs_todos s) i = Some u \<Longrightarrow> td_state u \<noteq> TodoDoing"
  shows "td_assignee t = Some (event_party e) \<and> (case td_gate t of GateNone \<Rightarrow> True | GateHold _ \<Rightarrow> False
    | GateAfter j \<Rightarrow> \<exists>d. obj_get (hs_todos s) j = Some d \<and> (td_state d = TodoDone \<or> td_state d = TodoDropped)
    | GateAt x \<Rightarrow> \<exists>ms. todo_date h x = Some ms \<and> js_le (Fin (of_int ms)) (tv_occurred_at e))"
  using assms(2)
proof (cases rule: reduce_todo_event_Inr)
  case (1 s1)
  have "todos_ok h (hs_ws s) (hs_todos s)" using assms(1) by (simp add: todo_state_ok_def)
  from doing_after_body[OF 1(2) this _ assms(4,5), of i] 1(4) assms(3) show ?thesis
    using gate_clear_iff by auto
qed

definition waiting_todo :: todo where
  "waiting_todo = (sample_todo todo_a 1)\<lparr>td_assignee := Some (UserParty ''u''), td_queue_rank := None,
     td_gate := GateAfter todo_b, td_gate_set_by := Some ''u''\<rparr>"

definition finished_todo :: todo where
  "finished_todo = (sample_todo todo_b 1)\<lparr>td_assignee := None, td_queue_rank := None, td_state := TodoDone\<rparr>"

definition waiting_state :: todo_state where
  "waiting_state = sample_blank\<lparr>hs_todos := [(todo_a, waiting_todo), (todo_b, finished_todo)]\<rparr>"

definition started_todo :: todo where
  "started_todo = waiting_todo\<lparr>td_version := 2, td_state := TodoDoing\<rparr>"

lemma waiting_ok: "todo_state_ok sample_todo_host waiting_state"
proof -
  have w: "waits_for (hs_todos waiting_state) i j \<longleftrightarrow> i = todo_a \<and> j = todo_b" for i j
    by (auto simp: waits_for_def waiting_state_def waiting_todo_def finished_todo_def sample_todo_def obj_get_def split: if_split_asm)
  have "(waits_for (hs_todos waiting_state))\<^sup>+\<^sup>+ i j \<Longrightarrow> i = todo_a \<and> j = todo_b" for i j
    by (induction rule: tranclp_induct) (auto simp: w)
  then have "acyclic_gates (hs_todos waiting_state)" by (fastforce simp: acyclic_gates_def)
  then show ?thesis
    by (auto simp: todo_state_ok_def todos_ok_def waiting_state_def sample_blank_def obj_wf_def obj_get_def todo_ok_def
      waiting_todo_def finished_todo_def sample_todo_def isOpen_def quotas_ok_def open_count_def obj_values_def TODO_OPEN_LIMIT_def
      split: if_split_asm)
qed

lemma sample_started:
  "apply_body sample_todo_host waiting_state None (sample_event (TodoStateChanged started_todo)) =
     Inr (waiting_state\<lparr>hs_todos := [(todo_a, started_todo), (todo_b, finished_todo)]\<rparr>, None)"
  by (simp add: apply_body_def sample_event_def applyTodo_def projection_ok_def started_todo_def waiting_todo_def finished_todo_def
      sample_todo_def waiting_state_def sample_blank_def ensure_def safe_integer_def isOpen_def validNotes_def hasInvalidControls_def
      TODO_NOTES_LIMIT_def fields_ok_def obj_put_def obj_get_def valid_actor_def sample_actor_def gateCycles_def validDate_def
      todo_fields_def body_check_def changed_ok_def event_author_def event_party_def evaluateGate_def)

theorem nothing_starts_behind_its_gate_witness:
  "td_gate started_todo = GateAfter todo_b \<and> td_assignee started_todo = Some (UserParty ''u'') \<and>
     (\<exists>d. obj_get (hs_todos waiting_state) todo_b = Some d \<and> (td_state d = TodoDone \<or> td_state d = TodoDropped))"
proof -
  let ?e = "sample_event (TodoStateChanged started_todo)"
  have "reduceTodoEvents sample_todo_host waiting_state [?e] =
      Inr (waiting_state\<lparr>hs_todos := [(todo_a, started_todo), (todo_b, finished_todo)], hs_last_seq := 6\<rparr>)"
    by (subst sample_reduce[OF sample_started])
      (simp_all add: quotas_ok_def open_count_def obj_values_def waiting_state_def sample_blank_def started_todo_def waiting_todo_def
        finished_todo_def isOpen_def TODO_OPEN_LIMIT_def todo_js_def sample_todo_def sample_actor_def actor_js_def lit_def)
  then obtain acc where r: "reduce_todo_event sample_todo_host (waiting_state, None) ?e =
      Inr (waiting_state\<lparr>hs_todos := [(todo_a, started_todo), (todo_b, finished_todo)], hs_last_seq := 6\<rparr>, acc)"
    by (auto simp: reduceTodoEvents_def bind_result_Inr)
  from nothing_starts_behind_its_gate[OF waiting_ok r, of todo_a started_todo] show ?thesis
    by (auto simp: obj_get_def started_todo_def waiting_todo_def sample_todo_def waiting_state_def event_party_def sample_event_def)
qed

section \<open>Decisions and the log\<close>

text \<open>
  C22. What a command reports is what replay shows: the events of a committed decision fold onto the
  projection it was decided on, the result is sound again, holds the returned to-do, comment or
  policy exactly as returned, and, when there are events, the receipt under the actor and command.
\<close>

theorem committed_decision_replays:
  assumes "todo_state_ok h s" and "decideTodo h s cmd ctx = Inr d" and "dd_outcome d = TodoCommitted v"
    and "\<not> dd_replayed d"
  shows "\<exists>s'. reduceTodoEvents h s (dd_events d) = Inr s' \<and> todo_state_ok h s' \<and>
    (case v of TodoValue t \<Rightarrow> obj_get (hs_todos s') (td_todo_id t) = Some t
     | CommentValue c \<Rightarrow> obj_get (hs_comments s') (tc_comment_id c) = Some c
     | PolicyValue p \<Rightarrow> obj_get (hs_policies s') (wp_principal p) = Some p) \<and>
    (\<exists>rc. dd_receipt d = Some rc \<and> rc_outcome rc = TodoCommitted v \<and> (dd_events d \<noteq> [] \<longrightarrow>
       obj_get (hs_receipts s') (receiptKey (rc_principal rc) (tx_command_id ctx)) = Some rc))"
proof (rule committed_replays[OF assms(2-4,1)])
  fix t r dr s'
  assume c: "dd_receipt d = Some (run_receipt r (TodoCommitted v))" "reduceTodoEvents h s (dd_events d) = Inr s'" "value_in s' v"
    "hs_receipts s' = (if dd_events d = [] then hs_receipts s
      else obj_put (hs_receipts s) (receiptKey (rc_principal (run_receipt r (TodoCommitted v))) (tx_command_id ctx))
        (run_receipt r (TodoCommitted v)))"
  then show ?thesis
    by (intro exI[of _ s']) (simp add: reduceTodoEvents_ok[OF c(2) assms(1)] value_in_def run_receipt_def)
qed

theorem committed_decision_replays_witness:
  "\<exists>s'. reduceTodoEvents sample_todo_host sample_todos
      (dd_events (sample_decision (TodoQueueOrdered ''p'' [todo_b, todo_a]) moved_value [])) = Inr s' \<and>
    obj_get (hs_todos s') todo_b = Some (sample_todo todo_b 1)"
  using committed_decision_replays[OF sample_todos_ok sample_moved, of moved_value]
  by (auto simp: sample_decision_def moved_value_def) (simp add: sample_todo_def)

text \<open>
  A retry is answered from the log: once the events of a committed command are in the log,
  whatever follows them, the same actor's command with the same id gets the stored outcome with
  no new events or notices, whatever the command now says; another request under that id is refused.
\<close>

theorem todo_retry_returns_stored_outcome:
  assumes "todo_state_ok h s" and "decideTodo h s cmd ctx = Inr d" and "dd_outcome d = TodoCommitted v"
    and "\<not> dd_replayed d" and "dd_events d \<noteq> []" and "reduceTodoEvents h s (dd_events d @ later) = Inr s2"
    and "householdAccessRefusal (tx_access ctx2) (hs_ws s2) (command_operation cmd2) (tx_now ctx2) = None"
    and "xa_actor (tx_access ctx2) = xa_actor (tx_access ctx)" and "tx_command_id ctx2 = tx_command_id ctx"
    and "digest_ok (tx_request_digest ctx2)" and "safe_integer (tx_seq ctx2)" and "hs_last_seq s2 < tx_seq ctx2"
  shows "decideTodo h s2 cmd2 ctx2 = Inr (if tx_request_digest ctx2 = tx_request_digest ctx
    then \<lparr>dd_outcome = TodoCommitted v, dd_events = [], dd_receipt = None, dd_notices = [], dd_replayed = True\<rparr>
    else \<lparr>dd_outcome = TodoRefused RequestIdReused, dd_events = [], dd_receipt = None, dd_notices = [], dd_replayed = False\<rparr>)"
proof (rule committed_replays[OF assms(2-4,1)])
  fix t r dr s'
  let ?rc = "run_receipt r (TodoCommitted v)" and ?k = "\<lambda>r. receiptKey (rc_principal (run_receipt r (TodoCommitted v))) (tx_command_id ctx)"
  assume c: "r = \<lparr>rn_host = h, rn_ctx = ctx, rn_state = s, rn_at = t\<rparr>" "reduceTodoEvents h s (dd_events d) = Inr s'"
    "hs_receipts s' = (if dd_events d = [] then hs_receipts s else obj_put (hs_receipts s) (?k r) ?rc)"
  have "obj_get (hs_receipts s2) (?k r) = Some ?rc"
    using log_receipts_kept[OF assms(6) c(2)] c(3) assms(5) by simp
  moreover have "rc_principal (run_receipt \<lparr>rn_host = h, rn_ctx = ctx2, rn_state = s2, rn_at = []\<rparr> x) = rc_principal ?rc" for x
    using assms(8) c(1) by (simp add: run_receipt_def run_principal_def run_user_def split: option.split)
  moreover have "tx_command_id ctx \<noteq> []"
    using assms(2-4,1) by (rule committed_decision) simp_all
  ultimately show ?thesis
    using assms(7,9-12) c(1)
    by (simp add: decideTodo_def Let_def bare_decision_def) (simp add: run_receipt_def)
qed

theorem todo_retry_returns_stored_outcome_witness:
  "\<exists>s2 d2. reduceTodoEvents sample_todo_host sample_todos
      (dd_events (sample_decision (TodoQueueOrdered ''p'' [todo_b, todo_a]) moved_value []) @ []) = Inr s2 \<and>
    decideTodo sample_todo_host s2 sample_move (sample_todo_ctx\<lparr>tx_seq := 7\<rparr>) = Inr d2 \<and>
    dd_replayed d2 \<and> dd_outcome d2 = TodoCommitted moved_value \<and> dd_events d2 = []"
proof -
  let ?d = "sample_decision (TodoQueueOrdered ''p'' [todo_b, todo_a]) moved_value []"
  let ?e = "sample_event (TodoQueueOrdered ''p'' [todo_b, todo_a])" and ?s = "sample_todos\<lparr>hs_todos := moved_todos, hs_last_seq := 6\<rparr>"
  have rs: "hs_receipts sample_todos = []" by (simp add: sample_todos_def)
  have "receipt_ok ?e (hs_receipts ?s) (sample_receipt moved_value)"
    by (simp add: rs receipt_ok_def sample_event_def sample_receipt_def sample_digest)
  moreover have "receipt_projected ?s (sample_receipt moved_value)"
    using moved_get by (simp add: receipt_projected_def sample_receipt_def moved_value_def) (simp add: sample_todo_def)
  moreover have "tv_receipt ?e = None" by (simp add: sample_event_def)
  ultimately have "reduceTodoEvents sample_todo_host sample_todos [?e\<lparr>tv_receipt := Some (sample_receipt moved_value)\<rparr>] =
      Inr (?s\<lparr>hs_receipts := obj_put [] (receiptKey ''u'' ''k'') (sample_receipt moved_value)\<rparr>)"
    using reduce_last_receipt[where es = "[]" and e = ?e and s = sample_todos, unfolded append_Nil, OF sample_move_event] sample_moved_fits
    by (simp only: sample_todos_fields) (simp add: rs sample_receipt_def)
  then have r: "reduceTodoEvents sample_todo_host sample_todos (dd_events ?d @ []) = Inr (sample_todos\<lparr>hs_todos := moved_todos,
      hs_last_seq := 6, hs_receipts := obj_put [] (receiptKey ''u'' ''k'') (sample_receipt moved_value)\<rparr>)"
    by (simp add: sample_decision_def)
  show ?thesis
    using r todo_retry_returns_stored_outcome[OF sample_todos_ok sample_moved _ _ _ r,
        of moved_value "sample_todo_ctx\<lparr>tx_seq := 7\<rparr>" sample_move]
    by (simp add: sample_decision_def householdAccessRefusal_def connection_refused_def sample_todo_ctx_def sample_member_def
        sample_todos_def sample_digest safe_integer_def command_operation_def sample_move_def)
qed

text \<open>
  No lost update: a command that names the version it was written against emits nothing and
  commits nothing when the stored to-do has another version; unless it is a retry, it learns
  the current to-do or the reason of a refusal.
\<close>

theorem stale_version_never_commits:
  assumes "base_version cmd = Some v" and "command_todo cmd = Some i" and "obj_get (hs_todos s) i = Some t"
    and "\<not> js_eq v (Fin (of_int (td_version t)))" and "decideTodo h s cmd ctx = Inr d"
  shows "dd_events d = [] \<and> dd_notices d = [] \<and>
    (dd_replayed d \<or> dd_outcome d = TodoConflict t \<or> (\<exists>why. dd_outcome d = TodoRefused why))"
proof -
  have stop: "(\<exists>why. run_command r cmd = refuse why) \<or> run_command r cmd = Inr (Inl (TodoConflict t))" if "rn_state r = s" for r
    using assms(1-4) that
    by (cases cmd) (auto simp: run_command_def Let_def decide_existing_todo_def split: option.splits)
  have fin: "dd_events d = [] \<and> dd_notices d = [] \<and> (dd_outcome d = TodoConflict t \<or> (\<exists>why. dd_outcome d = TodoRefused why))"
    if "finish_todo r (run_command r cmd) = Inr d" "rn_state r = s" for r
    using stop[OF that(2)] that(1) by (auto simp: finish_todo_def refuse_def)
  show ?thesis using assms(5) fin
    by (auto simp: decideTodo_def Let_def bare_decision_def bind_result_Inr split: option.split_asm if_split_asm)
qed

theorem stale_version_never_commits_witness:
  "\<exists>d. decideTodo sample_todo_host sample_todos (TodoUpdate todo_a (Fin 7) None None None) sample_todo_ctx = Inr d \<and>
     dd_events d = [] \<and> dd_outcome d = TodoConflict (sample_todo todo_a 1)"
proof -
  have a: "obj_get (hs_todos sample_todos) todo_a = Some (sample_todo todo_a 1)" by (simp add: sample_todos_def obj_get_def)
  have run: "run_command sample_run (TodoUpdate todo_a (Fin 7) None None None) = Inr (Inl (TodoConflict (sample_todo todo_a 1)))"
    using a by (simp add: run_command_def Let_def sample_limit decide_existing_todo_def) (simp add: sample_todo_def)
  obtain d where d: "decideTodo sample_todo_host sample_todos (TodoUpdate todo_a (Fin 7) None None None) sample_todo_ctx = Inr d"
    "dd_outcome d = TodoConflict (sample_todo todo_a 1)"
    by (simp add: sample_decide run finish_todo_def)
  from stale_version_never_commits[OF _ _ a _ d(1), of "Fin 7"] d show ?thesis by (simp add: sample_todo_def)
qed

section \<open>Who may do what\<close>

lemma existing_Inr:
  assumes "decide_existing_todo r d cmd = Inr (Inr (v, d'))"
  obtains i t where "target_todo r cmd = Some i" "obj_get (hs_todos (rn_state r)) i = Some t"
    "change_todo r d t cmd = Inr (Inr d')" "v = TodoValue (draft_todo d' (td_todo_id t))"
proof -
  have bind: "\<exists>x. m = Inr (Inr x) \<and> f x = Inr (Inr y)" if "bind_step m f = Inr (Inr y)" for m :: "'a todo_step" and f and y :: 'b
    using that by (cases "(m, f)" rule: bind_step.cases) auto
  show ?thesis using assms that
    unfolding decide_existing_todo_def Let_def target_todo_def[symmetric]
    by (cases "target_todo r cmd") (auto simp: refuse_def go_def dest!: bind split: if_split_asm option.split_asm)
qed

lemma move_Inr:
  assumes "run_command r (HouseholdTodoSteer i v (MoveAfter after)) = Inr (Inr (w, dr))" and "todo_state_ok (rn_host r) (rn_state r)"
  obtains t p items where "obj_get (hs_todos (rn_state r)) i = Some t" "td_assignee t = Some (AgentParty p)"
    "insert_after after i (filter (\<lambda>j. j \<noteq> i) (queue_ids (hs_todos (rn_state r)) p)) = Some items"
    "distinct items" "set items = set (queue_ids (hs_todos (rn_state r)) p)"
    "hs_todos (dr_state dr) = put_ranks 1 items (hs_todos (rn_state r))"
proof -
  let ?todos = "hs_todos (rn_state r)"
  have ok: "todos_ok (rn_host r) (hs_ws (rn_state r)) ?todos" using assms(2) by (simp add: todo_state_ok_def)
  have "decide_existing_todo r (start_draft r) (HouseholdTodoSteer i v (MoveAfter after)) = Inr (Inr (w, dr))"
    using assms(1) by (auto simp: run_command_def Let_def refuse_def start_draft_def split: if_split_asm)
  then obtain t where t: "obj_get ?todos i = Some t" "decide_steer r (start_draft r) t (MoveAfter after) = Inr (Inr dr)"
    by (rule existing_Inr) (auto simp: target_todo_def change_todo_def)
  have id: "td_todo_id t = i" using todos_okD[OF ok t(1)] by (simp add: todo_ok_def)
  from t(2) obtain p where p: "td_assignee t = Some (AgentParty p)" "order r (start_draft r) p i after = Inr (Inr dr)"
    by (auto simp: decide_steer_def refuse_def id split: option.split_asm party.split_asm if_split_asm)
  from p(2) obtain items where items: "insert_after after i (filter (\<lambda>j. j \<noteq> i) (queue_ids ?todos p)) = Some items"
    "emit r (start_draft r) (TodoQueueOrdered p items) = Inr (Inr dr)"
    by (auto simp: order_def refuse_def start_draft_def split: option.split_asm)
  have "draft_inv r (\<lambda>b. True) {} (start_draft r)" using start_draft_inv by (auto simp: draft_inv_def)
  from step_allD[OF emit_effect[OF this] items(2)]
  have e: "hs_todos (dr_state dr) = put_ranks 1 items ?todos" "distinct items" "length items = length (queue_ids ?todos p)"
    "set (queue_ids ?todos p) \<subseteq> set items"
    by (auto simp: apply_body_def Let_def start_draft_def)
  show ?thesis by (rule that[OF t(1) p(1) items(1) e(2) queue_ids_perm[OF ok e(2-4)] e(1)])
qed

text \<open>
  A move does exactly what it says: a committed \<open>move\<close> of a to-do takes it out of its agent's queue
  and puts it right behind the named item, or first; the others keep their order, and every
  other agent's queue stays as it was.
\<close>

theorem move_gives_requested_order:
  assumes "todo_state_ok h s" and "decideTodo h s (HouseholdTodoSteer i v (MoveAfter after)) ctx = Inr d"
    and "dd_outcome d = TodoCommitted w" and "\<not> dd_replayed d"
  shows "\<exists>t p s'. obj_get (hs_todos s) i = Some t \<and> td_assignee t = Some (AgentParty p) \<and>
    reduceTodoEvents h s (dd_events d) = Inr s' \<and>
    insert_after after i (filter (\<lambda>j. j \<noteq> i) (queue_ids (hs_todos s) p)) = Some (queue_ids (hs_todos s') p) \<and>
    (\<forall>q. q \<noteq> p \<longrightarrow> queue (hs_todos s') q = queue (hs_todos s) q)"
proof (rule committed_replays[OF assms(2-4,1)])
  fix x r dr s'
  assume c: "r = \<lparr>rn_host = h, rn_ctx = ctx, rn_state = s, rn_at = x\<rparr>"
    "run_command r (HouseholdTodoSteer i v (MoveAfter after)) = Inr (Inr (w, dr))"
    "reduceTodoEvents h s (dd_events d) = Inr s'" "hs_todos s' = hs_todos (dr_state dr)"
  have ok: "todos_ok h (hs_ws s) (hs_todos s)" using assms(1) by (simp add: todo_state_ok_def)
  from c(2) show ?thesis
  proof (rule move_Inr)
    fix t p items
    assume m: "obj_get (hs_todos (rn_state r)) i = Some t" "td_assignee t = Some (AgentParty p)"
      "insert_after after i (filter (\<lambda>j. j \<noteq> i) (queue_ids (hs_todos (rn_state r)) p)) = Some items"
      "distinct items" "set items = set (queue_ids (hs_todos (rn_state r)) p)"
      "hs_todos (dr_state dr) = put_ranks 1 items (hs_todos (rn_state r))"
    then have new: "hs_todos s' = put_ranks 1 items (hs_todos s)" using c(1,4) by simp
    note put = put_ranks_ok[OF ok m(4), of p] put_ranks_other[OF ok m(4), of p]
    show ?thesis using put m c(1,3) new by (intro exI[of _ t] exI[of _ p] exI[of _ s']) simp
  qed (use assms(1) c(1) in simp)
qed

theorem move_gives_requested_order_witness:
  "\<exists>s'. reduceTodoEvents sample_todo_host sample_todos
      (dd_events (sample_decision (TodoQueueOrdered ''p'' [todo_b, todo_a]) moved_value [])) = Inr s' \<and>
    queue_ids (hs_todos s') ''p'' = [todo_b, todo_a]"
  using move_gives_requested_order[OF sample_todos_ok sample_moved[unfolded sample_move_def]] sample_queue_ids
  by (auto simp: sample_decision_def sample_todos_def obj_get_def sample_todo_def)

text \<open>A live agent of the household whose owner acts.\<close>

definition agent_of :: "todo_state \<Rightarrow> todo_ctx \<Rightarrow> string \<Rightarrow> bool" where
  "agent_of s ctx p \<longleftrightarrow> (\<exists>a \<in> set (tx_agents ctx). tg_principal_id a = p \<and> tg_workspace_id a = hs_ws s \<and>
     tg_revoked_at a = None \<and> tg_owner_user_id a = ac_user_id (xa_actor (tx_access ctx)))"

text \<open>Whether an agent may be given work by the command. An answer gives it the work of the very offer, which
  was made to it, when its decider accepts; any other command does where the agent's owner acts, its stored policy
  accepts anyone, or it acts itself.\<close>

definition agent_consents :: "todo_state \<Rightarrow> todo_ctx \<Rightarrow> todo_command \<Rightarrow> string \<Rightarrow> bool" where
  "agent_consents s ctx cmd p \<longleftrightarrow> (\<exists>a \<in> set (tx_agents ctx). tg_principal_id a = p \<and> tg_workspace_id a = hs_ws s \<and>
     tg_revoked_at a = None \<and>
     (case cmd of
        HouseholdTodoAnswer i offer_id answer \<Rightarrow> answer = AnswerAccept \<and>
          (\<exists>t f. obj_get (hs_todos s) i = Some t \<and> td_offer t = Some f \<and> of_offer_id f = offer_id \<and>
             of_to f = AgentParty p \<and> of_decider_user_id f = ac_user_id (xa_actor (tx_access ctx)))
      | _ \<Rightarrow> tg_owner_user_id a = ac_user_id (xa_actor (tx_access ctx)) \<or>
          (\<exists>w. obj_get (hs_policies s) p = Some w \<and> wp_accepts_from w = AcceptsAnyone) \<or>
          ac_principal_id (xa_actor (tx_access ctx)) = Some p))"

lemma target_agent:
  assumes "targetRefusal r (AgentParty p) = None"
  obtains a where "run_agent r p = Some a" "a \<in> set (tx_agents (rn_ctx r))" "tg_principal_id a = p"
    "tg_workspace_id a = hs_ws (rn_state r)" "tg_revoked_at a = None"
proof -
  from assms obtain a where "run_agent r p = Some a" "tg_revoked_at a = None"
    by (auto simp: targetRefusal_def split: option.split_asm if_split_asm)
  moreover from this(1) have "a \<in> set (tx_agents (rn_ctx r))" "tg_principal_id a = p" "tg_workspace_id a = hs_ws (rn_state r)"
    by (auto simp: run_agent_def find_Some_iff)
  ultimately show ?thesis by (intro that)
qed

lemma answer_consents:
  assumes "answered r todo offer_id answer (Some (AgentParty p))" and "td_offer todo = target_offer r (HouseholdTodoAnswer i offer_id answer)"
  shows "agent_consents (rn_state r) (rn_ctx r) (HouseholdTodoAnswer i offer_id answer) p"
proof -
  from assms(1) have "targetRefusal r (AgentParty p) = None" by (auto simp: answered_def)
  then obtain a where "a \<in> set (tx_agents (rn_ctx r))" "tg_principal_id a = p" "tg_workspace_id a = hs_ws (rn_state r)"
    "tg_revoked_at a = None" by (rule target_agent)
  with assms show ?thesis
    by (auto simp: agent_consents_def answered_def target_offer_def target_todo_def bind_eq_Some_conv run_user_def
        intro!: bexI[of _ a])
qed

lemma allowed_consents:
  assumes "may_assign r d todo cmd (Some (AgentParty p))" and "td_offer todo = target_offer r cmd"
    and "hs_policies (dr_state d) = hs_policies (rn_state r)"
  shows "agent_consents (rn_state r) (rn_ctx r) cmd p"
proof (cases "\<exists>i offer_id answer. cmd = HouseholdTodoAnswer i offer_id answer")
  case True
  with assms answer_consents show ?thesis by (auto simp: may_assign_def)
next
  case False
  with assms(1) have to: "allowed_assignee r d (Some (AgentParty p))" by (cases cmd) (simp_all add: may_assign_def)
  then have "targetRefusal r (AgentParty p) = None" by (simp add: allowed_assignee_def)
  then obtain a where a: "run_agent r p = Some a" "a \<in> set (tx_agents (rn_ctx r))" "tg_principal_id a = p"
    "tg_workspace_id a = hs_ws (rn_state r)" "tg_revoked_at a = None" by (rule target_agent)
  have own: "tg_owner_user_id a = run_user r \<or> (\<exists>w. obj_get (hs_policies (rn_state r)) p = Some w \<and> wp_accepts_from w = AcceptsAnyone)"
    if "assign_accepted r d (AgentParty p) start" for start
    using that a(1) assms(3)
    by (auto simp: assign_accepted_def party_owner_def TODO_DEFAULT_ACCEPTS_FROM_def split: if_split_asm option.split_asm)
  have "AgentParty p = run_party r \<Longrightarrow> run_principal r = Some p" by (simp add: run_party_def split: option.split_asm)
  with to own have "tg_owner_user_id a = run_user r \<or>
      (\<exists>w. obj_get (hs_policies (rn_state r)) p = Some w \<and> wp_accepts_from w = AcceptsAnyone) \<or> run_principal r = Some p"
    by (auto simp: allowed_assignee_def)
  with a(2-5) False show ?thesis
    unfolding agent_consents_def run_user_def[symmetric] run_principal_def[symmetric]
    by (intro bexI[of _ a]) (auto split: todo_command.split)
qed

lemma emitted_consent:
  assumes "run_command r cmd = Inr (Inr (v, dr))" and "todo_state_ok (rn_host r) (rn_state r)" and "e \<in> set (dr_events dr)"
    and "tv_body e = TodoAssigned t" and "td_assignee t = Some (AgentParty p)"
  shows "agent_consents (rn_state r) (rn_ctx r) cmd p"
proof (cases "\<exists>i a. cmd = HouseholdAgentWorkPolicy i a")
  case True
  let ?Q = "\<lambda>b. \<forall>t. b \<noteq> TodoAssigned t"
  have "run_bodies r ?Q cmd" using True by (auto simp: run_bodies_def plain_ok_def)
  from step_allD[OF run_command_inv[OF assms(2) this] assms(1)] assms(3,4) show ?thesis
    by (auto simp: result_inv_def draft_inv_def)
next
  case False
  let ?Q = "\<lambda>b. (\<forall>w. b \<noteq> AgentWorkPolicySet w) \<and>
    (\<forall>t p. b = TodoAssigned t \<longrightarrow> td_assignee t = Some (AgentParty p) \<longrightarrow> agent_consents (rn_state r) (rn_ctx r) cmd p)"
  have "run_bodies r ?Q cmd" using False allowed_consents by (auto simp: run_bodies_def plain_ok_def draft_inv_def)
  from step_allD[OF run_command_inv[OF assms(2) this] assms(1)] assms(3-5) show ?thesis
    by (auto simp: result_inv_def draft_inv_def)
qed

text \<open>
  C23. Nobody puts work on another person's agent without consent: every event of a committed command
  that assigns a to-do to an agent does so for a live agent of the household. An answer does so only when it accepts,
  by the decider of that very offer, which was pending on that to-do and made to that agent; any other command only
  where the agent's owner is acting, its stored policy accepts anyone, or the agent takes the to-do for itself.
\<close>

theorem agent_work_needs_consent:
  assumes "todo_state_ok h s" and "decideTodo h s cmd ctx = Inr d" and "dd_outcome d = TodoCommitted v"
    and "\<not> dd_replayed d" and "e \<in> set (dd_events d)" and "tv_body e = TodoAssigned t"
    and "td_assignee t = Some (AgentParty p)"
  shows "agent_consents s ctx cmd p"
proof (rule committed_decision[OF assms(2-4,1)])
  fix x r dr
  assume c: "r = \<lparr>rn_host = h, rn_ctx = ctx, rn_state = s, rn_at = x\<rparr>" "run_command r cmd = Inr (Inr (v, dr))"
    "dd_events d = with_receipt (run_receipt r (TodoCommitted v)) (dr_events dr)"
  then have "tv_body e \<in> tv_body ` set (dr_events dr)" using assms(5) with_receipt_bodies by fastforce
  then obtain e' where e: "e' \<in> set (dr_events dr)" "tv_body e' = tv_body e" by auto
  from emitted_consent[OF c(2) _ e(1), of t p] e(2) assms(1,6,7) c(1) show ?thesis by simp
qed

theorem agent_work_needs_consent_witness:
  "agent_consents sample_todos sample_todo_ctx sample_assign ''q'' \<and> \<not> agent_consents sample_blank sample_todo_ctx sample_assign ''q''"
proof
  show "agent_consents sample_todos sample_todo_ctx sample_assign ''q''"
    by (rule agent_work_needs_consent[OF sample_todos_ok sample_assigned, where t = given_todo and
          e = "(sample_event (TodoAssigned given_todo))\<lparr>tv_receipt := Some (sample_receipt (TodoValue given_todo))\<rparr>"])
      (simp_all add: sample_decision_def sample_event_def given_todo_def)
qed (auto simp: agent_consents_def sample_blank_def sample_todo_ctx_def sample_assign_def)

text \<open>
  Steering is the owner's, in person: a committed \<open>household_\<close> command comes from a person's own
  session, never from an agent; moving, starting or gating a queued to-do and setting an agent's work
  policy take the owner of the live agent, and answering an offer takes its decider, or for a
  withdrawal the offerer or an admin.
\<close>

theorem steering_is_the_owners:
  assumes "todo_state_ok h s" and "decideTodo h s cmd ctx = Inr d" and "dd_outcome d = TodoCommitted v"
    and "\<not> dd_replayed d" and "is_household cmd"
  shows "ac_principal_id (xa_actor (tx_access ctx)) = None \<and> xa_credential (tx_access ctx) = HumanAccess \<and>
    (case cmd of
       HouseholdTodoSteer i _ _ \<Rightarrow> \<exists>t p. obj_get (hs_todos s) i = Some t \<and> td_assignee t = Some (AgentParty p) \<and> agent_of s ctx p
     | HouseholdAgentWorkPolicy p _ \<Rightarrow> agent_of s ctx p
     | HouseholdTodoAnswer i oid answer \<Rightarrow> \<exists>t f. obj_get (hs_todos s) i = Some t \<and> td_offer t = Some f \<and> of_offer_id f = oid \<and>
         (if answer = AnswerWithdraw
          then ta_user_id (of_by f) = ac_user_id (xa_actor (tx_access ctx)) \<or> (\<exists>m \<in> set (tx_members ctx).
            tm_user_id m = ac_user_id (xa_actor (tx_access ctx)) \<and> tm_workspace_id m = hs_ws s \<and> tm_revoked_at m = None \<and>
            (tm_role m = MemberOwner \<or> tm_role m = MemberAdmin))
          else of_decider_user_id f = ac_user_id (xa_actor (tx_access ctx)))
     | _ \<Rightarrow> True)"
proof (rule committed_decision[OF assms(2-4,1)])
  fix x r dr
  assume c: "r = \<lparr>rn_host = h, rn_ctx = ctx, rn_state = s, rn_at = x\<rparr>" "run_command r cmd = Inr (Inr (v, dr))"
  have u: "run_user r = ac_user_id (xa_actor (tx_access ctx))" "rn_state r = s" "rn_ctx r = ctx" using c(1) by (simp_all add: run_user_def)
  have human: "run_human r" using c(2) assms(5) by (auto simp: run_command_def Let_def refuse_def split: if_split_asm)
  have ex: "decide_existing_todo r (start_draft r) cmd = Inr (Inr (v, dr))" if "\<forall>p a. cmd \<noteq> HouseholdAgentWorkPolicy p a"
    using c(2) assms(5) that by (cases cmd) (auto simp: run_command_def Let_def refuse_def start_draft_def split: if_split_asm)
  have agent: "agent_of s ctx p" if "run_agent r p = Some a" "tg_owner_user_id a = run_user r" "tg_revoked_at a = None" for p a
    using that u by (auto simp: agent_of_def run_agent_def find_Some_iff)
  have admin: "\<exists>m \<in> set (tx_members ctx). tm_user_id m = run_user r \<and> tm_workspace_id m = hs_ws s \<and> tm_revoked_at m = None \<and>
      (tm_role m = MemberOwner \<or> tm_role m = MemberAdmin)" if "run_admin r"
    using that u by (auto simp: run_admin_def run_member_def find_Some_iff split: option.split_asm intro!: bexI)
  show ?thesis
  proof (cases cmd)
    case (HouseholdTodoSteer i w act)
    then obtain t where t: "obj_get (hs_todos s) i = Some t" "decide_steer r (start_draft r) t act = Inr (Inr dr)"
      using ex u(2) by (auto simp: target_todo_def change_todo_def elim!: existing_Inr)
    then obtain p a where "td_assignee t = Some (AgentParty p)" "run_agent r p = Some a" "tg_owner_user_id a = run_user r"
      "tg_revoked_at a = None"
      by (auto simp: decide_steer_def refuse_def split: option.split_asm party.split_asm if_split_asm)
    with t(1) HouseholdTodoSteer human agent u c(1) show ?thesis by (auto simp: run_human_def run_principal_def)
  next
    case (HouseholdTodoAnswer i oid ans)
    then obtain t where t: "obj_get (hs_todos s) i = Some t" "decide_answer r (start_draft r) t oid ans = Inr (Inr dr)"
      using ex u(2) by (auto simp: target_todo_def change_todo_def elim!: existing_Inr)
    then obtain f where "td_offer t = Some f" "of_offer_id f = oid"
      "if ans = AnswerWithdraw then run_user r = ta_user_id (of_by f) \<or> run_admin r else run_user r = of_decider_user_id f"
      by (auto simp: decide_answer_def refuse_def split: option.split_asm if_split_asm)
    with t(1) HouseholdTodoAnswer human admin u c(1) show ?thesis
      by (auto simp: run_human_def run_principal_def split: if_split_asm)
  next
    case (HouseholdAgentWorkPolicy p a)
    then have "decide_policy r (start_draft r) p a = Inr (Inr (v, dr))"
      using c(2) by (auto simp: run_command_def Let_def refuse_def start_draft_def split: if_split_asm)
    then obtain g where "run_agent r p = Some g" "tg_owner_user_id g = run_user r" "tg_revoked_at g = None"
      by (auto simp: decide_policy_def refuse_def split: option.split_asm if_split_asm)
    with HouseholdAgentWorkPolicy human agent c(1) show ?thesis by (auto simp: run_human_def run_principal_def)
  qed (use assms(5) in auto)
qed

theorem steering_is_the_owners_witness:
  "xa_credential (tx_access sample_todo_ctx) = HumanAccess \<and> agent_of sample_todos sample_todo_ctx ''p''"
  using steering_is_the_owners[OF sample_todos_ok sample_moved]
  by (auto simp: sample_decision_def sample_move_def sample_todos_def obj_get_def sample_todo_def)

end
