(* ===== verification/ObjectData.thy ===== *)
theory ObjectData
  imports TodoReducer
begin

text \<open>
  The data of household objects, \<open>src/protocol/household-object-events.ts\<close>, and the content functions
  of \<open>household-objects.ts\<close>: validity, equality, patches and the matching of definition terms. An object
  is a list, a document, a file or a definition with its whole history; texts people write are
  \<open>jstext\<close>, identifiers \<open>string\<close>, sizes and sequence numbers integers. Values have their declared types.
\<close>

section \<open>Contents\<close>

definition HOUSEHOLD_DEFINITION_TERM_MAX :: nat where "HOUSEHOLD_DEFINITION_TERM_MAX = 80"
definition HOUSEHOLD_DEFINITION_TEXT_MAX :: nat where "HOUSEHOLD_DEFINITION_TEXT_MAX = 2000"

datatype object_kind = ListKind | DocKind | FileKind | DefinitionKind

definition HOUSEHOLD_OBJECT_TYPES :: "object_kind list" where
  "HOUSEHOLD_OBJECT_TYPES = [ListKind, DocKind, FileKind]"

definition HOUSEHOLD_STORED_OBJECT_TYPES :: "object_kind list" where
  "HOUSEHOLD_STORED_OBJECT_TYPES = HOUSEHOLD_OBJECT_TYPES @ [DefinitionKind]"

record definition_fields =
  df_term :: jstext
  df_meaning :: jstext
  df_source :: jstext

record list_item =
  li_item_id :: string
  li_text :: jstext
  li_order :: int
  li_checked :: bool

datatype content =
    ListContent "list_item list"
  | DocContent jstext
  | FileContent jstext jstext \<comment> \<open>\<open>name\<close>, \<open>media_type\<close>\<close>
  | DefinitionContent definition_fields

fun content_kind :: "content \<Rightarrow> object_kind" where
  "content_kind (ListContent _) = ListKind"
| "content_kind (DocContent _) = DocKind"
| "content_kind (FileContent _ _) = FileKind"
| "content_kind (DefinitionContent _) = DefinitionKind"

record blob =
  bl_storage_key :: string
  bl_size_bytes :: int
  bl_sha256 :: string

record revision_ref =
  rr_workspace_id :: string
  rr_object_id :: string
  rr_token :: string

record attribution =
  at_user_id :: string
  at_principal_id :: "string option"
  at_run_id :: "string option"
  at_connection_id :: "string option"
  at_grant_id :: "string option"

record revision =
  rv_revision :: revision_ref
  rv_parent :: "revision_ref option"
  rv_title :: jstext
  rv_kind :: object_kind
  rv_file_metadata :: "content option"
  rv_blob :: blob
  rv_author :: attribution
  rv_occurred_at :: jsnum
  rv_command_id :: string

datatype list_patch =
    PatchAdd string jstext bool "string option" \<comment> \<open>\<open>item_id\<close>, \<open>text\<close>, \<open>checked\<close>, \<open>after_item_id\<close>\<close>
  | PatchSet string jstext bool jstext bool \<comment> \<open>\<open>item_id\<close>, \<open>before_text\<close>, \<open>before_checked\<close>, \<open>text\<close>, \<open>checked\<close>\<close>
  | PatchRemove string jstext bool
  | PatchMove string int "string option" \<comment> \<open>\<open>item_id\<close>, \<open>before_order\<close>, \<open>after_item_id\<close>\<close>

record splice =
  sp_start :: int
  sp_before :: jstext
  sp_after :: jstext

datatype patch =
    ListPatch "list_patch list"
  | DocPatch "splice list"
  | FilePatch string content \<comment> \<open>\<open>before_sha256\<close>, \<open>replacement\<close>\<close>
  | DefinitionPatch definition_fields definition_fields

record household_draft =
  hd_draft_id :: string
  hd_workspace_id :: string
  hd_object_id :: string
  hd_base :: revision_ref
  hd_current :: revision_ref
  hd_proposed :: blob
  hd_title :: jstext
  hd_kind :: object_kind
  hd_file_metadata :: "content option"
  hd_owner :: attribution
  hd_occurred_at :: jsnum
  hd_command_id :: string

record reservation =
  rs_reservation_id :: string
  rs_workspace_id :: string
  rs_object_id :: string
  rs_kind :: object_kind
  rs_file_metadata :: "content option"
  rs_title :: jstext
  rs_base :: "revision_ref option"
  rs_proposed :: blob
  rs_owner :: attribution
  rs_created_at :: jsnum
  rs_expires_at :: jsnum

datatype object_outcome =
    ObjectCommitted string revision_ref
  | ObjectPending string string
  | ObjectReleased string
  | ObjectConflict string revision_ref string \<comment> \<open>\<open>object_id\<close>, \<open>current\<close>, \<open>draft_id\<close>\<close>
  | ObjectRefused string

record object_receipt =
  oc_principal :: string
  oc_command_id :: string
  oc_request_digest :: string
  oc_outcome :: object_outcome

text \<open>The type of an event with its payload, less the receipt every event carries.\<close>

datatype object_body =
    ObjectCreated revision "string option"
  | ObjectUpdated revision "string option"
  | UploadReserved reservation
  | UploadReleased string
  | DraftPreserved household_draft "string option"
  | ObjectCommandRefused
  | DefinitionCertified string revision_ref
  | UnknownObjectEvent string

record object_event =
  ov_workspace_id :: string
  ov_stream_id :: string
  ov_seq :: int
  ov_event_id :: string
  ov_command_id :: string
  ov_schema_version :: int
  ov_actor_user :: "string option"
  ov_actor_agent_principal :: "string option"
  ov_actor_run :: "string option"
  ov_occurred_at :: jsnum
  ov_body :: object_body
  ov_receipt :: object_receipt

record certification =
  cx_revision :: revision_ref
  cx_certified_by :: string
  cx_certified_at :: jsnum

record household_object =
  ho_object_id :: string
  ho_kind :: object_kind
  ho_history :: "revision list"
  ho_certification :: "certification option"

record object_state =
  os_ws :: string
  os_stream :: string
  os_last_seq :: int
  os_objects :: "household_object obj"
  os_reservations :: "reservation obj"
  os_drafts :: "household_draft obj"
  os_receipts :: "object_receipt obj"

text \<open>
  What depends on the JavaScript host: \<open>normalize('NFKC').toLocaleLowerCase('en-US')\<close>, the code points
  of \<open>[\p{L}\p{N}]\<close>, and how many bytes the text of a number has.
\<close>

record object_host =
  oh_fold_case :: "jstext \<Rightarrow> jstext"
  oh_word_char :: "nat \<Rightarrow> bool"
  oh_number_bytes :: "jsnum \<Rightarrow> nat"

section \<open>Validity and equality\<close>

definition nonnegative :: "int \<Rightarrow> bool" where
  "nonnegative i \<longleftrightarrow> safe_integer i \<and> 0 \<le> i"

definition token_char :: "char \<Rightarrow> bool" where
  "token_char c \<longleftrightarrow> c \<in> set ''ABCDEFGHIJKLMNOPQRSTUVWXYZabcdefghijklmnopqrstuvwxyz0123456789_-''"

definition opaque :: "string \<Rightarrow> bool" where
  "opaque s \<longleftrightarrow> 22 \<le> length s \<and> length s \<le> 128 \<and> list_all token_char s"

definition validBlob :: "blob \<Rightarrow> bool" where
  "validBlob b \<longleftrightarrow> bl_storage_key b \<noteq> [] \<and> nonnegative (bl_size_bytes b) \<and>
     bl_size_bytes b \<le> int HOUSEHOLD_VERSION_BYTE_LIMIT \<and> digest_ok (bl_sha256 b)"

definition line_break_or_control :: "nat \<Rightarrow> bool" where
  "line_break_or_control c \<longleftrightarrow> c \<le> 0x1f \<or> (0x7f \<le> c \<and> c \<le> 0x9f) \<or> c = 0x2028 \<or> c = 0x2029"

definition validDefinition :: "definition_fields \<Rightarrow> bool" where
  "validDefinition d \<longleftrightarrow> df_term d \<noteq> [] \<and> df_term d = trim (df_term d) \<and>
     \<not> list_ex line_break_or_control (df_term d) \<and> textLength (df_term d) \<le> HOUSEHOLD_DEFINITION_TERM_MAX \<and>
     trim (df_meaning d) \<noteq> [] \<and> textLength (df_meaning d) \<le> HOUSEHOLD_DEFINITION_TEXT_MAX \<and>
     textLength (df_source d) \<le> HOUSEHOLD_DEFINITION_TEXT_MAX"

text \<open>Item by item, with the ids seen so far and the index.\<close>

fun valid_items :: "string list \<Rightarrow> int \<Rightarrow> list_item list \<Rightarrow> bool" where
  "valid_items ids index [] = True"
| "valid_items ids index (item # items) =
     (if li_item_id item = [] \<or> li_item_id item \<in> set ids \<or> li_order item \<noteq> index then False
      else valid_items (li_item_id item # ids) (index + 1) items)"

fun validContent :: "content \<Rightarrow> bool" where
  "validContent (DocContent _) = True"
| "validContent (FileContent name media_type) = (name \<noteq> [] \<and> media_type \<noteq> [])"
| "validContent (DefinitionContent d) = validDefinition d"
| "validContent (ListContent items) = valid_items [] 0 items"

text \<open>\<open>sameRevision\<close>, \<open>sameBlob\<close>, \<open>sameDefinition\<close> and \<open>sameContent\<close> compare every field: they are \<open>=\<close>.\<close>

definition attribution_of :: "household_access \<Rightarrow> attribution" where
  "attribution_of access = (let a = xa_actor access in
     \<lparr>at_user_id = ac_user_id a, at_principal_id = ac_principal_id a, at_run_id = ac_run_id a,
      at_connection_id = (case xa_credential access of AgentAccess c \<Rightarrow> Some (hn_connection_id c) | HumanAccess \<Rightarrow> None),
      at_grant_id = (case xa_credential access of AgentAccess c \<Rightarrow> Some (hn_grant_id c) | HumanAccess \<Rightarrow> None)\<rparr>)"

section \<open>Definition terms\<close>

definition householdDefinitionKey :: "object_host \<Rightarrow> jstext \<Rightarrow> jstext" where
  "householdDefinitionKey h term = oh_fold_case h term"

text \<open>The code points of a text; a surrogate that is not paired is a code point of its own.\<close>

fun code_points :: "jstext \<Rightarrow> nat list" where
  "code_points [] = []"
| "code_points [c] = [c]"
| "code_points (c # d # cs) =
     (if high_surrogate c \<and> low_surrogate d then ((c - 0xD800) * 0x400 + (d - 0xDC00) + 0x10000) # code_points cs
      else c # code_points (d # cs))"

text \<open>\<open>match(/[\p{L}\p{N}]+/gu)\<close>: the maximal runs of word characters, left to right.\<close>

fun word_runs :: "(nat \<Rightarrow> bool) \<Rightarrow> nat list \<Rightarrow> nat list \<Rightarrow> nat list list" where
  "word_runs p run [] = (if run = [] then [] else [rev run])"
| "word_runs p run (c # cs) =
     (if p c then word_runs p (c # run) cs
      else if run = [] then word_runs p [] cs else rev run # word_runs p [] cs)"

definition definitionWords :: "object_host \<Rightarrow> jstext \<Rightarrow> nat list list" where
  "definitionWords h text = word_runs (oh_word_char h) [] (code_points (householdDefinitionKey h text))"

text \<open>\<open>words.join(' ')\<close>.\<close>

fun join_words :: "nat list list \<Rightarrow> nat list" where
  "join_words [] = []"
| "join_words [w] = w"
| "join_words (w # v # ws) = w @ 32 # join_words (v # ws)"

text \<open>\<open>s.includes(t)\<close>.\<close>

fun contains_text :: "nat list \<Rightarrow> nat list \<Rightarrow> bool" where
  "contains_text [] t = (t = [])"
| "contains_text (c # s) t = (take (length t) (c # s) = t \<or> contains_text s t)"

definition householdQuestionUsesTerm :: "object_host \<Rightarrow> jstext \<Rightarrow> jstext \<Rightarrow> bool" where
  "householdQuestionUsesTerm h question term =
     (let words = definitionWords h term in
      if words = [] then False
      else let asked = definitionWords h question in
        if contains_text (32 # join_words asked @ [32]) (32 # join_words words @ [32]) then True
        else let significant = filter (\<lambda>w. 3 \<le> length w) words in
          significant \<noteq> [] \<and> list_all (\<lambda>w. w \<in> set asked) significant)"

section \<open>Patches\<close>

text \<open>Splices are offsets into the base, in order and not overlapping; each names the text it replaces.\<close>

fun splice_loop :: "jstext \<Rightarrow> int \<Rightarrow> int \<Rightarrow> jstext \<Rightarrow> splice list \<Rightarrow> jstext option" where
  "splice_loop base cursor previousStart result [] = Some (result @ drop (nat cursor) base)"
| "splice_loop base cursor previousStart result (s # ss) =
     (if \<not> nonnegative (sp_start s) \<or> int (length base) < sp_start s \<or> sp_start s < cursor \<or>
         sp_start s \<le> previousStart \<or>
         take (length (sp_before s)) (drop (nat (sp_start s)) base) \<noteq> sp_before s then None
      else splice_loop base (sp_start s + int (length (sp_before s))) (sp_start s)
        (result @ take (nat (sp_start s - cursor)) (drop (nat cursor) base) @ sp_after s) ss)"

definition renumber :: "list_item list \<Rightarrow> list_item list" where
  "renumber items = map (\<lambda>(i, item). item\<lparr>li_order := int i\<rparr>) (enumerate 0 items)"

text \<open>\<open>items.splice(after + 1, 0, item)\<close> after the item of an id, or at the front.\<close>

fun insert_item :: "string option \<Rightarrow> list_item \<Rightarrow> list_item list \<Rightarrow> list_item list option" where
  "insert_item None x xs = Some (x # xs)"
| "insert_item (Some a) x [] = None"
| "insert_item (Some a) x (y # ys) =
     (if li_item_id y = a then Some (y # x # ys) else map_option ((#) y) (insert_item (Some a) x ys))"

text \<open>\<open>items.splice(index, 1)\<close> and \<open>items[index] = item\<close> at the first item of the id.\<close>

fun remove_item :: "string \<Rightarrow> list_item list \<Rightarrow> list_item list" where
  "remove_item i [] = []"
| "remove_item i (x # xs) = (if li_item_id x = i then xs else x # remove_item i xs)"

fun set_item :: "string \<Rightarrow> list_item \<Rightarrow> list_item list \<Rightarrow> list_item list" where
  "set_item i y [] = []"
| "set_item i y (x # xs) = (if li_item_id x = i then y # xs else x # set_item i y xs)"

definition find_item :: "string \<Rightarrow> list_item list \<Rightarrow> list_item option" where
  "find_item i items = find (\<lambda>x. li_item_id x = i) items"

fun list_patch_step :: "string list \<Rightarrow> list_item list \<Rightarrow> list_patch \<Rightarrow> (string list \<times> list_item list) option" where
  "list_patch_step used items (PatchAdd i text checked after) =
     (if i = [] \<or> i \<in> set used then None
      else map_option (\<lambda>xs. (i # used, xs))
        (insert_item after \<lparr>li_item_id = i, li_text = text, li_order = 0, li_checked = checked\<rparr> items))"
| "list_patch_step used items (PatchMove i before_order after) =
     (if i = [] then None
      else case find_item i items of None \<Rightarrow> None
      | Some item \<Rightarrow>
          if li_order item \<noteq> before_order \<or> after = Some (li_item_id item) then None
          else map_option (\<lambda>xs. (used, xs)) (insert_item after item (remove_item i items)))"
| "list_patch_step used items (PatchRemove i before_text before_checked) =
     (if i = [] then None
      else case find_item i items of None \<Rightarrow> None
      | Some item \<Rightarrow> if li_text item \<noteq> before_text \<or> li_checked item \<noteq> before_checked then None
          else Some (used, remove_item i items))"
| "list_patch_step used items (PatchSet i before_text before_checked text checked) =
     (if i = [] then None
      else case find_item i items of None \<Rightarrow> None
      | Some item \<Rightarrow> if li_text item \<noteq> before_text \<or> li_checked item \<noteq> before_checked then None
          else Some (used, set_item i (item\<lparr>li_text := text, li_checked := checked\<rparr>) items))"

fun list_patch_loop :: "string list \<Rightarrow> list_item list \<Rightarrow> list_patch list \<Rightarrow> list_item list option" where
  "list_patch_loop used items [] = Some items"
| "list_patch_loop used items (op # ops) =
     (case list_patch_step used items op of None \<Rightarrow> None
      | Some (used', items') \<Rightarrow> list_patch_loop used' (renumber items') ops)"

fun applyHouseholdPatch :: "content \<Rightarrow> patch \<Rightarrow> blob \<Rightarrow> content option" where
  "applyHouseholdPatch (DefinitionContent base) (DefinitionPatch before after) b =
     (if validDefinition before \<and> validDefinition after \<and> base = before then Some (DefinitionContent after) else None)"
| "applyHouseholdPatch (DocContent base) (DocPatch splices) b =
     map_option DocContent (splice_loop base 0 (- 1) [] splices)"
| "applyHouseholdPatch (FileContent name media_type) (FilePatch before_sha256 replacement) b =
     (if before_sha256 = bl_sha256 b \<and> content_kind replacement = FileKind \<and> validContent replacement
      then Some replacement else None)"
| "applyHouseholdPatch (ListContent items) (ListPatch ops) b =
     map_option ListContent (list_patch_loop (map li_item_id items) items ops)"
| "applyHouseholdPatch _ _ b = None"

section \<open>The size of an event\<close>

definition text_js :: "jstext \<Rightarrow> js_value" where "text_js s = JsString s"

fun kind_js :: "object_kind \<Rightarrow> js_value" where
  "kind_js ListKind = str_js ''list''"
| "kind_js DocKind = str_js ''doc''"
| "kind_js FileKind = str_js ''file''"
| "kind_js DefinitionKind = str_js ''definition''"

definition item_js :: "list_item \<Rightarrow> js_value" where
  "item_js i = object_js [(''item_id'', str_js (li_item_id i)), (''text'', text_js (li_text i)),
     (''order'', int_js (li_order i)), (''checked'', JsBool (li_checked i))]"

fun content_js :: "content \<Rightarrow> js_value" where
  "content_js (ListContent items) = object_js [(''kind'', str_js ''list''), (''items'', JsArray (map item_js items))]"
| "content_js (DocContent t) = object_js [(''kind'', str_js ''doc''), (''markdown'', text_js t)]"
| "content_js (FileContent n m) = object_js [(''kind'', str_js ''file''), (''name'', text_js n), (''media_type'', text_js m)]"
| "content_js (DefinitionContent d) = object_js [(''kind'', str_js ''definition''), (''term'', text_js (df_term d)),
     (''meaning'', text_js (df_meaning d)), (''source'', text_js (df_source d))]"

definition ref_js :: "revision_ref \<Rightarrow> js_value" where
  "ref_js r = object_js [(''workspace_id'', str_js (rr_workspace_id r)), (''object_id'', str_js (rr_object_id r)),
     (''token'', str_js (rr_token r))]"

definition blob_js :: "blob \<Rightarrow> js_value" where
  "blob_js b = object_js [(''storage_key'', str_js (bl_storage_key b)), (''size_bytes'', int_js (bl_size_bytes b)),
     (''sha256'', str_js (bl_sha256 b))]"

definition attribution_js :: "attribution \<Rightarrow> js_value" where
  "attribution_js a = object_js [(''user_id'', str_js (at_user_id a)), (''principal_id'', opt_js str_js (at_principal_id a)),
     (''run_id'', opt_js str_js (at_run_id a)), (''connection_id'', opt_js str_js (at_connection_id a)),
     (''grant_id'', opt_js str_js (at_grant_id a))]"

definition revision_js :: "revision \<Rightarrow> js_value" where
  "revision_js r = object_js [(''revision'', ref_js (rv_revision r)), (''parent'', opt_js ref_js (rv_parent r)),
     (''title'', text_js (rv_title r)), (''kind'', kind_js (rv_kind r)), (''blob'', blob_js (rv_blob r)),
     (''file_metadata'', opt_js content_js (rv_file_metadata r)), (''author'', attribution_js (rv_author r)),
     (''occurred_at_server'', JsNumber (rv_occurred_at r)), (''command_id'', str_js (rv_command_id r))]"

definition reservation_js :: "reservation \<Rightarrow> js_value" where
  "reservation_js r = object_js [(''reservation_id'', str_js (rs_reservation_id r)),
     (''workspace_id'', str_js (rs_workspace_id r)), (''object_id'', str_js (rs_object_id r)), (''kind'', kind_js (rs_kind r)),
     (''file_metadata'', opt_js content_js (rs_file_metadata r)), (''title'', text_js (rs_title r)),
     (''base'', opt_js ref_js (rs_base r)), (''proposed'', blob_js (rs_proposed r)), (''owner'', attribution_js (rs_owner r)),
     (''created_at_server'', JsNumber (rs_created_at r)), (''expires_at'', JsNumber (rs_expires_at r))]"

definition draft_js :: "household_draft \<Rightarrow> js_value" where
  "draft_js d = object_js [(''draft_id'', str_js (hd_draft_id d)), (''workspace_id'', str_js (hd_workspace_id d)),
     (''object_id'', str_js (hd_object_id d)), (''base'', ref_js (hd_base d)), (''current'', ref_js (hd_current d)),
     (''proposed'', blob_js (hd_proposed d)), (''title'', text_js (hd_title d)), (''kind'', kind_js (hd_kind d)),
     (''file_metadata'', opt_js content_js (hd_file_metadata d)), (''owner'', attribution_js (hd_owner d)),
     (''occurred_at_server'', JsNumber (hd_occurred_at d)), (''command_id'', str_js (hd_command_id d))]"

fun object_outcome_js :: "object_outcome \<Rightarrow> js_value" where
  "object_outcome_js (ObjectCommitted i r) = object_js [(''status'', str_js ''committed''), (''object_id'', str_js i),
     (''revision'', ref_js r)]"
| "object_outcome_js (ObjectPending i r) = object_js [(''status'', str_js ''pending''), (''object_id'', str_js i),
     (''reservation_id'', str_js r)]"
| "object_outcome_js (ObjectReleased r) = object_js [(''status'', str_js ''released''), (''reservation_id'', str_js r)]"
| "object_outcome_js (ObjectConflict i r d) = object_js [(''status'', str_js ''conflict''), (''object_id'', str_js i),
     (''current'', ref_js r), (''draft_id'', str_js d)]"
| "object_outcome_js (ObjectRefused why) = object_js [(''status'', str_js ''refused''), (''reason'', str_js why)]"

definition object_receipt_js :: "object_receipt \<Rightarrow> js_value" where
  "object_receipt_js r = object_js [(''principal'', str_js (oc_principal r)), (''command_id'', str_js (oc_command_id r)),
     (''request_digest'', str_js (oc_request_digest r)), (''outcome'', object_outcome_js (oc_outcome r))]"

fun object_event_type :: "object_body \<Rightarrow> string" where
  "object_event_type (ObjectCreated _ _) = ''HouseholdObjectCreated''"
| "object_event_type (ObjectUpdated _ _) = ''HouseholdObjectUpdated''"
| "object_event_type (UploadReserved _) = ''HouseholdUploadReserved''"
| "object_event_type (UploadReleased _) = ''HouseholdUploadReleased''"
| "object_event_type (DraftPreserved _ _) = ''HouseholdDraftPreserved''"
| "object_event_type ObjectCommandRefused = ''HouseholdObjectCommandRefused''"
| "object_event_type (DefinitionCertified _ _) = ''HouseholdDefinitionCertified''"
| "object_event_type (UnknownObjectEvent ty) = ty"

fun object_body_js :: "object_body \<Rightarrow> (string \<times> js_value) list" where
  "object_body_js (ObjectCreated r i) = [(''revision'', revision_js r), (''reservation_id'', opt_js str_js i)]"
| "object_body_js (ObjectUpdated r i) = [(''revision'', revision_js r), (''reservation_id'', opt_js str_js i)]"
| "object_body_js (UploadReserved r) = [(''reservation'', reservation_js r)]"
| "object_body_js (UploadReleased i) = [(''reservation_id'', str_js i)]"
| "object_body_js (DraftPreserved d i) = [(''draft'', draft_js d), (''reservation_id'', opt_js str_js i)]"
| "object_body_js ObjectCommandRefused = []"
| "object_body_js (DefinitionCertified i r) = [(''object_id'', str_js i), (''revision'', ref_js r)]"
| "object_body_js (UnknownObjectEvent _) = []"

definition object_event_js :: "object_event \<Rightarrow> js_value" where
  "object_event_js e = object_js [(''workspace_id'', str_js (ov_workspace_id e)), (''stream_id'', str_js (ov_stream_id e)),
     (''seq'', int_js (ov_seq e)), (''event_id'', str_js (ov_event_id e)), (''command_id'', str_js (ov_command_id e)),
     (''type'', str_js (object_event_type (ov_body e))), (''schema_version'', int_js (ov_schema_version e)),
     (''actor_user'', opt_js str_js (ov_actor_user e)),
     (''actor_agent_principal'', opt_js str_js (ov_actor_agent_principal e)),
     (''actor_run'', opt_js str_js (ov_actor_run e)), (''occurred_at_server'', JsNumber (ov_occurred_at e)),
     (''payload'', object_js (object_body_js (ov_body e) @ [(''receipt'', object_receipt_js (ov_receipt e))]))]"

definition EVENT_BYTE_LIMIT :: nat where "EVENT_BYTE_LIMIT = 64 * 1024"

definition object_event_bytes :: "object_host \<Rightarrow> object_event \<Rightarrow> nat" where
  "object_event_bytes h e = json_bytes (oh_number_bytes h) (object_event_js e)"

section \<open>Usage\<close>

datatype object_error = UnknownObjectType string int | ObjectIntegrity int string | ObjectRange string

definition emptyHouseholdObjectState :: "string \<Rightarrow> string \<Rightarrow> object_error + object_state" where
  "emptyHouseholdObjectState workspaceId streamId =
     ensure (workspaceId \<noteq> [] \<and> streamId \<noteq> []) (ObjectRange ''workspace and stream IDs are required'')
       (Inr \<lparr>os_ws = workspaceId, os_stream = streamId, os_last_seq = - 1, os_objects = [],
             os_reservations = [], os_drafts = [], os_receipts = []\<rparr>)"

record object_usage =
  ou_object_count :: nat
  ou_storage_bytes :: int

definition revisions :: "object_state \<Rightarrow> revision list" where
  "revisions s = concat (map ho_history (obj_values (os_objects s)))"

definition usage_names :: "object_state \<Rightarrow> string set" where
  "usage_names s = set (obj_keys (os_objects s)) \<union> set (map rs_object_id (obj_values (os_reservations s)))"

definition householdObjectUsage :: "object_state \<Rightarrow> object_usage" where
  "householdObjectUsage s = \<lparr>ou_object_count = card (usage_names s),
     ou_storage_bytes = sum_list (map (\<lambda>r. bl_size_bytes (rv_blob r)) (revisions s)) +
       sum_list (map (\<lambda>r. bl_size_bytes (rs_proposed r)) (obj_values (os_reservations s))) +
       sum_list (map (\<lambda>d. bl_size_bytes (hd_proposed d)) (obj_values (os_drafts s)))\<rparr>"

end
