(* ===== verification/ObjectPatch.thy ===== *)
theory ObjectPatch
  imports ObjectData "HOL-Library.Multiset"
begin

text \<open>
  What \<open>applyHouseholdPatch\<close> does: the splices of a document are one simultaneous replacement of the
  texts they name, and the operations of a list leave a valid list whose untouched items are as they
  were, in their order.
\<close>

section \<open>Documents\<close>

text \<open>The texts of \<open>ts\<close> between the gaps \<open>gs\<close>, and where each of them starts.\<close>

fun weave :: "'a list list \<Rightarrow> 'a list list \<Rightarrow> 'a list" where
  "weave (g # gs) (t # ts) = g @ t @ weave gs ts"
| "weave (g # gs) [] = g"
| "weave [] ts = concat ts"

fun starts_at :: "int \<Rightarrow> 'a list list \<Rightarrow> 'a list list \<Rightarrow> int list" where
  "starts_at k (g # gs) (t # ts) = (k + int (length g)) # starts_at (k + int (length g) + int (length t)) gs ts"
| "starts_at k gs ts = []"

lemma splice_loop_weave:
  assumes "splice_loop base cursor prev result ss = Some r" "0 \<le> cursor" "cursor \<le> int (length base)"
  shows "\<exists>gaps. length gaps = Suc (length ss) \<and> drop (nat cursor) base = weave gaps (map sp_before ss) \<and>
    r = result @ weave gaps (map sp_after ss) \<and> map sp_start ss = starts_at cursor gaps (map sp_before ss) \<and>
    sorted_wrt (<) (prev # map sp_start ss)"
  using assms
proof (induction ss arbitrary: cursor prev result)
  case Nil
  then show ?case by (intro exI[of _ "[drop (nat cursor) base]"]) simp
next
  case (Cons s ss)
  let ?start = "sp_start s" and ?len = "int (length (sp_before s))"
  let ?gap = "take (nat (?start - cursor)) (drop (nat cursor) base)"
  have s: "0 \<le> ?start" "?start \<le> int (length base)" "cursor \<le> ?start" "prev < ?start"
    "take (length (sp_before s)) (drop (nat ?start) base) = sp_before s"
    and rest: "splice_loop base (?start + ?len) ?start (result @ ?gap @ sp_after s) ss = Some r"
    using Cons.prems(1) by (auto simp: nonnegative_def split: if_split_asm)
  have "length (take (length (sp_before s)) (drop (nat ?start) base)) = length (sp_before s)" by (simp only: s(5))
  then have len: "?start + ?len \<le> int (length base)" using s(1,2) by simp
  have nonneg: "0 \<le> ?start + ?len" using s(1) by simp
  obtain gaps where g: "length gaps = Suc (length ss)" "drop (nat (?start + ?len)) base = weave gaps (map sp_before ss)"
    "r = (result @ ?gap @ sp_after s) @ weave gaps (map sp_after ss)"
    "map sp_start ss = starts_at (?start + ?len) gaps (map sp_before ss)" "sorted_wrt (<) (?start # map sp_start ss)"
    using Cons.IH[OF rest nonneg len] by (elim exE conjE) (rule that)
  have start: "nat ?start = nat (?start - cursor) + nat cursor" using s(1,3) Cons.prems(2) by linarith
  have "drop (nat ?start) base = drop (nat (?start - cursor)) (drop (nat cursor) base)" by (simp only: start drop_drop)
  then have "drop (nat cursor) base = ?gap @ drop (nat ?start) base" by (simp only: append_take_drop_id)
  also have "drop (nat ?start) base = sp_before s @ drop (nat (?start + ?len)) base"
    using append_take_drop_id[of "length (sp_before s)" "drop (nat ?start) base"] s(1,5)
    by (simp add: nat_add_distrib add.commute)
  finally have "drop (nat cursor) base = weave (?gap # gaps) (map sp_before (s # ss))" by (simp add: g(2))
  moreover have "int (length ?gap) = ?start - cursor" using s(2,3) Cons.prems(2) by simp
  ultimately show ?case
    using g s(4) by (intro exI[of _ "?gap # gaps"]) auto
qed

lemma splice_loop_complete:
  assumes "length gaps = Suc (length ss)" "drop (nat cursor) base = weave gaps (map sp_before ss)"
    "map sp_start ss = starts_at cursor gaps (map sp_before ss)" "sorted_wrt (<) (prev # map sp_start ss)"
    "0 \<le> cursor" "cursor \<le> int (length base)" "int (length base) \<le> 9007199254740991"
  shows "splice_loop base cursor prev result ss = Some (result @ weave gaps (map sp_after ss))"
  using assms
proof (induction ss arbitrary: gaps cursor prev result)
  case Nil
  then show ?case by (cases gaps) auto
next
  case (Cons s ss)
  obtain g gs where gaps: "gaps = g # gs" using Cons.prems(1) by (cases gaps) auto
  let ?start = "sp_start s" and ?len = "int (length (sp_before s))"
  have start: "?start = cursor + int (length g)" using Cons.prems(3) by (simp add: gaps)
  have d: "drop (nat cursor) base = g @ sp_before s @ weave gs (map sp_before ss)" using Cons.prems(2) by (simp add: gaps)
  have l: "int (length base) - cursor = int (length g) + ?len + int (length (weave gs (map sp_before ss)))"
    using arg_cong[OF d, of length] Cons.prems(5,6) by simp
  have n: "nat ?start = length g + nat cursor" "nat (?start + ?len) = length (sp_before s) + (length g + nat cursor)"
    using start Cons.prems(5) by (simp_all add: nat_add_distrib)
  have d2: "drop (nat ?start) base = sp_before s @ weave gs (map sp_before ss)"
    unfolding n drop_drop[symmetric] by (simp add: d)
  have d3: "drop (nat (?start + ?len)) base = weave gs (map sp_before ss)"
    unfolding n drop_drop[symmetric] by (simp add: d)
  have "splice_loop base (?start + ?len) ?start (result @ take (nat (?start - cursor)) (drop (nat cursor) base) @ sp_after s) ss =
      Some ((result @ take (nat (?start - cursor)) (drop (nat cursor) base) @ sp_after s) @ weave gs (map sp_after ss))"
    by (rule Cons.IH) (use Cons.prems d3 start l in \<open>simp_all add: gaps\<close>)
  moreover have "take (nat (?start - cursor)) (drop (nat cursor) base) = g" by (simp add: d start)
  moreover have "nonnegative ?start" "?start \<le> int (length base)" "cursor \<le> ?start" "prev < ?start"
    using Cons.prems(4-7) l start by (simp_all add: nonnegative_def safe_integer_def)
  moreover have "take (length (sp_before s)) (drop (nat ?start) base) = sp_before s" by (simp add: d2)
  ultimately show ?case by (simp add: gaps)
qed

text \<open>
  The splices \<open>ss\<close> replace texts of \<open>base\<close> by others, giving \<open>r\<close>: both are the same gaps, with the texts
  before and after between them, and the offsets are those of the texts in the base.
\<close>

definition spliced :: "jstext \<Rightarrow> splice list \<Rightarrow> jstext \<Rightarrow> bool" where
  "spliced base ss r \<longleftrightarrow> (\<exists>gaps. length gaps = Suc (length ss) \<and> base = weave gaps (map sp_before ss) \<and>
     r = weave gaps (map sp_after ss) \<and> map sp_start ss = starts_at 0 gaps (map sp_before ss) \<and>
     sorted_wrt (<) (map sp_start ss))"

lemma starts_at_ge: "x \<in> set (starts_at k gs ts) \<Longrightarrow> k \<le> x"
  by (induction k gs ts rule: starts_at.induct) auto

lemma splice_loop_spliced:
  assumes "int (length base) \<le> 9007199254740991"
  shows "splice_loop base 0 (- 1) [] ss = Some r \<longleftrightarrow> spliced base ss r"
proof
  assume "splice_loop base 0 (- 1) [] ss = Some r"
  from splice_loop_weave[OF this] obtain gaps where "length gaps = Suc (length ss)" "base = weave gaps (map sp_before ss)"
    "r = weave gaps (map sp_after ss)" "map sp_start ss = starts_at 0 gaps (map sp_before ss)" "sorted_wrt (<) (map sp_start ss)"
    by auto
  then show "spliced base ss r" unfolding spliced_def by blast
next
  assume "spliced base ss r"
  then obtain gaps where g: "length gaps = Suc (length ss)" "base = weave gaps (map sp_before ss)"
    "r = weave gaps (map sp_after ss)" "map sp_start ss = starts_at 0 gaps (map sp_before ss)" "sorted_wrt (<) (map sp_start ss)"
    unfolding spliced_def by blast
  have "- 1 < x" if "x \<in> set (map sp_start ss)" for x using starts_at_ge[of x 0] that unfolding g(4) by force
  then have "sorted_wrt (<) (- 1 # map sp_start ss)" using g(5) by simp
  then show "splice_loop base 0 (- 1) [] ss = Some r"
    using splice_loop_complete[of gaps ss 0 base "- 1" "[]"] g assms by simp
qed

section \<open>Lists\<close>

lemma valid_items_iff:
  "valid_items ids k items \<longleftrightarrow> (\<forall>x \<in> set items. li_item_id x \<noteq> [] \<and> li_item_id x \<notin> set ids) \<and>
     distinct (map li_item_id items) \<and> (\<forall>j < length items. li_order (items ! j) = k + int j)"
proof (induction items arbitrary: ids k)
  case (Cons x xs)
  have o: "(\<forall>j < length (x # xs). li_order ((x # xs) ! j) = k + int j) \<longleftrightarrow>
      li_order x = k \<and> (\<forall>j < length xs. li_order (xs ! j) = k + 1 + int j)"
    by (auto simp: nth_Cons split: nat.split)
  show ?case unfolding o by (auto simp: Cons.IH) (metis image_eqI)
qed simp

text \<open>What the operations rely on: ids are not empty, occur once and are marked as used.\<close>

definition ids_ok :: "string list \<Rightarrow> list_item list \<Rightarrow> bool" where
  "ids_ok used items \<longleftrightarrow> distinct (map li_item_id items) \<and> [] \<notin> set (map li_item_id items) \<and>
     set (map li_item_id items) \<subseteq> set used"

lemma valid_content_ids:
  "validContent (ListContent items) \<longleftrightarrow> ids_ok (map li_item_id items) items \<and> (\<forall>j < length items. li_order (items ! j) = int j)"
  by (auto simp: valid_items_iff ids_ok_def) (metis image_eqI)

lemma renumber_simps [simp]:
  "map li_item_id (renumber items) = map li_item_id items" "length (renumber items) = length items"
  "j < length items \<Longrightarrow> renumber items ! j = (items ! j)\<lparr>li_order := int j\<rparr>"
  by (auto simp: renumber_def enumerate_eq_zip intro: nth_equalityI)

lemma insert_item_Some:
  "insert_item after x items = Some items' \<Longrightarrow> \<exists>xs ys. items = xs @ ys \<and> items' = xs @ x # ys"
proof (induction after x items arbitrary: items' rule: insert_item.induct)
  case (3 a x y ys)
  then show ?case
    by (auto split: if_split_asm) (metis append_Cons append_Nil, metis append_Cons)
qed auto

lemma remove_item_split:
  "find_item i items = Some x \<Longrightarrow> \<exists>xs ys. items = xs @ x # ys \<and> remove_item i items = xs @ ys \<and>
     (\<forall>y. set_item i y items = xs @ y # ys) \<and> li_item_id x = i"
proof (induction items)
  case (Cons y ys)
  show ?case
  proof (cases "li_item_id y = i")
    case True
    then show ?thesis using Cons.prems by (intro exI[of _ "[]"] exI[of _ ys]) (simp add: find_item_def)
  next
    case False
    then have "find_item i ys = Some x" using Cons.prems by (simp add: find_item_def)
    from Cons.IH[OF this] obtain xs zs where "ys = xs @ x # zs" "remove_item i ys = xs @ zs"
      "\<forall>z. set_item i z ys = xs @ z # zs" "li_item_id x = i" by blast
    then show ?thesis using False by (intro exI[of _ "y # xs"] exI[of _ zs]) simp
  qed
qed (simp add: find_item_def)

fun patch_item :: "list_patch \<Rightarrow> string" where
  "patch_item (PatchAdd i _ _ _) = i"
| "patch_item (PatchSet i _ _ _ _) = i"
| "patch_item (PatchRemove i _ _) = i"
| "patch_item (PatchMove i _ _) = i"

text \<open>The text and the tick of the items no operation names, in their order.\<close>

definition untouched :: "string set \<Rightarrow> list_item list \<Rightarrow> (string \<times> jstext \<times> bool) list" where
  "untouched T items = map (\<lambda>x. (li_item_id x, li_text x, li_checked x)) (filter (\<lambda>x. li_item_id x \<notin> T) items)"

lemma untouched_append [simp]: "untouched T (xs @ ys) = untouched T xs @ untouched T ys"
  "untouched T (x # xs) = (if li_item_id x \<in> T then [] else [(li_item_id x, li_text x, li_checked x)]) @ untouched T xs"
  "untouched T [] = []"
  by (simp_all add: untouched_def)

lemma untouched_renumber [simp]: "untouched T (renumber items) = untouched T items"
proof -
  have "untouched T (map (\<lambda>(i, x). x\<lparr>li_order := int i\<rparr>) (enumerate n items)) = untouched T items" for n
    by (induction items arbitrary: n) simp_all
  then show ?thesis by (simp add: renumber_def)
qed

lemma list_patch_step_ok:
  assumes "list_patch_step used items op = Some (used', items')" "ids_ok used items" "patch_item op \<in> T"
  shows "ids_ok used' items' \<and> untouched T items' = untouched T items"
proof (cases op)
  case (PatchAdd i tx ck af)
  let ?x = "\<lparr>li_item_id = i, li_text = tx, li_order = 0, li_checked = ck\<rparr>"
  have f: "i \<noteq> []" "i \<notin> set used" "used' = i # used" "insert_item af ?x items = Some items'"
    using assms(1) by (auto simp: PatchAdd split: if_split_asm)
  from insert_item_Some[OF f(4)] obtain xs ys where "items = xs @ ys" "items' = xs @ ?x # ys" by blast
  then show ?thesis using f assms(2,3) by (auto simp: ids_ok_def PatchAdd)
next
  case (PatchSet i bt bc tx ck)
  then obtain x where x: "find_item i items = Some x" "used' = used" "items' = set_item i (x\<lparr>li_text := tx, li_checked := ck\<rparr>) items"
    using assms(1) by (auto split: if_split_asm option.split_asm)
  from remove_item_split[OF x(1)] obtain xs ys where "items = xs @ x # ys"
    "items' = xs @ x\<lparr>li_text := tx, li_checked := ck\<rparr> # ys" "li_item_id x = i" using x(3) by blast
  then show ?thesis using x(2) assms(2,3) by (auto simp: ids_ok_def PatchSet)
next
  case (PatchRemove i bt bc)
  then obtain x where x: "find_item i items = Some x" "used' = used" "items' = remove_item i items"
    using assms(1) by (auto split: if_split_asm option.split_asm)
  from remove_item_split[OF x(1)] obtain xs ys where "items = xs @ x # ys" "items' = xs @ ys" "li_item_id x = i" using x(3) by blast
  then show ?thesis using x(2) assms(2,3) by (auto simp: ids_ok_def PatchRemove)
next
  case (PatchMove i bo af)
  then obtain x where x: "find_item i items = Some x" "used' = used" "insert_item af x (remove_item i items) = Some items'"
    using assms(1) by (auto split: if_split_asm option.split_asm)
  from remove_item_split[OF x(1)] obtain xs ys where r: "items = xs @ x # ys" "remove_item i items = xs @ ys" "li_item_id x = i" by blast
  from insert_item_Some[OF x(3)] obtain us vs where u: "xs @ ys = us @ vs" "items' = us @ x # vs" using r(2) by auto
  have "mset (map li_item_id items') = mset (map li_item_id items)"
    using arg_cong[OF u(1), of "\<lambda>zs. mset (map li_item_id zs)"] by (simp add: r(1) u(2))
  then have "set (map li_item_id items') = set (map li_item_id items)" "distinct (map li_item_id items') = distinct (map li_item_id items)"
    by (metis set_mset_mset, metis mset_eq_imp_distinct_iff)
  moreover have "untouched T items' = untouched T items"
    using arg_cong[OF u(1), of "untouched T"] assms(3) r(3) by (simp add: r(1) u(2) PatchMove)
  ultimately show ?thesis using x(2) assms(2) by (simp add: ids_ok_def)
qed

lemma list_patch_loop_ok:
  assumes "list_patch_loop used items ops = Some items'" "ids_ok used items" "patch_item ` set ops \<subseteq> T"
    "\<forall>j < length items. li_order (items ! j) = int j"
  shows "ids_ok (map li_item_id items') items' \<and> (\<forall>j < length items'. li_order (items' ! j) = int j) \<and>
    untouched T items' = untouched T items"
  using assms
proof (induction ops arbitrary: used items)
  case Nil
  then show ?case by (auto simp: ids_ok_def)
next
  case (Cons op ops)
  obtain used1 items1 where s: "list_patch_step used items op = Some (used1, items1)"
    "list_patch_loop used1 (renumber items1) ops = Some items'"
    using Cons.prems(1) by (auto split: option.split_asm)
  have i: "ids_ok used1 items1" "untouched T items1 = untouched T items"
    using list_patch_step_ok[OF s(1) Cons.prems(2)] Cons.prems(3) by auto
  then have "ids_ok used1 (renumber items1)" by (simp add: ids_ok_def del: set_map)
  from Cons.IH[OF s(2) this] show ?case using Cons.prems(3) i(2) by simp
qed

end
