(* ===== verification/ObjectReducer.thy ===== *)
theory ObjectReducer
  imports ObjectData
begin

text \<open>
  \<open>reduceHouseholdObject\<close> and \<open>reduceHouseholdObjectStream\<close> of \<open>household-objects.ts\<close>: every event
  carries the receipt of its command; replay checks continuity with the projection before it applies the event.
\<close>

definition obj_delete :: "'v obj \<Rightarrow> string \<Rightarrow> 'v obj" where
  "obj_delete ob k = filter (\<lambda>(k', v). k' \<noteq> k) ob"

text \<open>\<open>history.at(-1)\<close>.\<close>

definition newest :: "household_object \<Rightarrow> revision option" where
  "newest ob = (if ho_history ob = [] then None else Some (last (ho_history ob)))"

definition current_for :: "object_state \<Rightarrow> string \<Rightarrow> revision option" where
  "current_for s i = Option.bind (obj_get (os_objects s) i) newest"

text \<open>\<open>object.history.at(-1)!.revision\<close>.\<close>

definition newest_ref :: "household_object \<Rightarrow> revision_ref" where
  "newest_ref ob = rv_revision (last (ho_history ob))"

definition token_used :: "object_state \<Rightarrow> string \<Rightarrow> bool" where
  "token_used s token = list_ex (\<lambda>r. rr_token (rv_revision r) = token) (revisions s)"

section \<open>Checks of an event\<close>

definition object_envelope_ok :: "object_host \<Rightarrow> object_state \<Rightarrow> object_event \<Rightarrow> bool" where
  "object_envelope_ok h s e \<longleftrightarrow> of_int (ov_schema_version e) = SCHEMA_VERSION \<and> ov_workspace_id e = os_ws s \<and>
     ov_stream_id e = os_stream s \<and> safe_integer (ov_seq e) \<and> os_last_seq s < ov_seq e \<and>
     is_finite (ov_occurred_at e) \<and> ov_event_id e \<noteq> [] \<and> ov_command_id e \<noteq> [] \<and>
     object_event_bytes h e \<le> EVENT_BYTE_LIMIT"

definition event_principal :: "object_event \<Rightarrow> string option" where
  "event_principal e = (case ov_actor_agent_principal e of Some p \<Rightarrow> Some p | None \<Rightarrow> ov_actor_user e)"

definition object_receipt_ok :: "object_state \<Rightarrow> object_event \<Rightarrow> bool" where
  "object_receipt_ok s e \<longleftrightarrow> (let r = ov_receipt e in
     oc_command_id r = ov_command_id e \<and> Some (oc_principal r) = event_principal e \<and> oc_principal r \<noteq> [] \<and>
     digest_ok (oc_request_digest r) \<and>
     obj_get (os_receipts s) (receiptKey (oc_principal r) (oc_command_id r)) = None)"

definition author_ok :: "object_event \<Rightarrow> attribution \<Rightarrow> bool" where
  "author_ok e a \<longleftrightarrow> Some (at_user_id a) = ov_actor_user e \<and> at_principal_id a = ov_actor_agent_principal e \<and>
     at_run_id a = ov_actor_run e \<and> at_user_id a \<noteq> [] \<and>
     (if at_principal_id a = None then at_connection_id a = None \<and> at_grant_id a = None
      else \<not> falsy (at_connection_id a) \<and> \<not> falsy (at_grant_id a))"

definition ref_ok :: "object_state \<Rightarrow> revision_ref \<Rightarrow> string \<Rightarrow> bool" where
  "ref_ok s ref objectId \<longleftrightarrow> rr_workspace_id ref = os_ws s \<and> rr_object_id ref = objectId \<and> opaque (rr_token ref)"

definition metadata_ok :: "object_kind \<Rightarrow> content option \<Rightarrow> bool" where
  "metadata_ok kind metadata \<longleftrightarrow> (if kind = FileKind
     then (case metadata of None \<Rightarrow> False | Some m \<Rightarrow> content_kind m = FileKind \<and> validContent m)
     else metadata = None)"

text \<open>\<open>release\<close>: the reservation an event uses up, if it names one.\<close>

definition release_reservation ::
  "object_state \<Rightarrow> object_event \<Rightarrow> string option \<Rightarrow> string \<Rightarrow> revision_ref option \<Rightarrow> blob \<Rightarrow>
     object_error + reservation obj" where
  "release_reservation s e rid objectId base b = (case rid of None \<Rightarrow> Inr (os_reservations s)
     | Some i \<Rightarrow> (case obj_get (os_reservations s) i of
         None \<Rightarrow> Inl (ObjectIntegrity (ov_seq e) ''reservation does not match'')
       | Some r \<Rightarrow> ensure (rs_object_id r = objectId \<and> rs_base r = base \<and> rs_proposed r = b \<and>
             Some (at_user_id (rs_owner r)) = ov_actor_user e \<and> at_principal_id (rs_owner r) = ov_actor_agent_principal e)
           (ObjectIntegrity (ov_seq e) ''reservation does not match'') (Inr (obj_delete (os_reservations s) i))))"

section \<open>The events\<close>

definition revision_ok :: "object_state \<Rightarrow> object_event \<Rightarrow> revision \<Rightarrow> bool" where
  "revision_ok s e r \<longleftrightarrow> rr_object_id (rv_revision r) \<noteq> [] \<and> rv_title r \<noteq> [] \<and> validBlob (rv_blob r) \<and>
     rv_kind r \<in> set HOUSEHOLD_STORED_OBJECT_TYPES \<and> rv_command_id r = ov_command_id e \<and>
     js_eq (rv_occurred_at r) (ov_occurred_at e) \<and> \<not> token_used s (rr_token (rv_revision r))"

text \<open>The file metadata of a revision must be what its reservation declared.\<close>

definition same_metadata :: "content option \<Rightarrow> content option \<Rightarrow> bool" where
  "same_metadata metadata pending \<longleftrightarrow> (case metadata of None \<Rightarrow> True | Some m \<Rightarrow> pending = Some m)"

definition reserved_commit_ok :: "object_state \<Rightarrow> object_event \<Rightarrow> revision \<Rightarrow> string option \<Rightarrow> bool" where
  "reserved_commit_ok s e r rid \<longleftrightarrow> (case rid of None \<Rightarrow> True
     | Some i \<Rightarrow> (case obj_get (os_reservations s) i of None \<Rightarrow> False
       | Some p \<Rightarrow> \<not> js_le (rs_expires_at p) (ov_occurred_at e) \<and> rs_title p = rv_title r \<and> rs_kind p = rv_kind r \<and>
           at_connection_id (rs_owner p) = at_connection_id (rv_author r) \<and>
           at_grant_id (rs_owner p) = at_grant_id (rv_author r) \<and>
           same_metadata (rv_file_metadata r) (rs_file_metadata p)))"

definition apply_revision ::
  "object_state \<Rightarrow> object_event \<Rightarrow> bool \<Rightarrow> revision \<Rightarrow> string option \<Rightarrow> object_error + object_state" where
  "apply_revision s e created r rid =
     (let fail = (\<lambda>x. ObjectIntegrity (ov_seq e) x); objectId = rr_object_id (rv_revision r);
          current = obj_get (os_objects s) objectId in
      ensure (ref_ok s (rv_revision r) objectId) (fail ''invalid revision binding'')
      (ensure (author_ok e (rv_author r)) (fail ''invalid attribution'')
      (ensure (metadata_ok (rv_kind r) (rv_file_metadata r)) (fail ''invalid file metadata'')
      (ensure (revision_ok s e r) (fail ''invalid revision'')
      (ensure (if created then current = None \<and> rv_parent r = None
          else (case current of None \<Rightarrow> False
            | Some ob \<Rightarrow> ho_kind ob = rv_kind r \<and> Some (newest_ref ob) = rv_parent r))
        (fail (if created then ''duplicate create or non-null parent'' else ''stale or missing parent''))
      (ensure (\<not> created \<or> (\<forall>p \<in> set (obj_values (os_reservations s)).
            rs_object_id p = objectId \<longrightarrow> Some (rs_reservation_id p) = rid)) (fail ''name is reserved'')
      (ensure (oc_outcome (ov_receipt e) = ObjectCommitted objectId (rv_revision r)) (fail ''commit receipt mismatch'')
      (ensure (reserved_commit_ok s e r rid) (fail ''invalid reservation commit'')
      (bind_result (release_reservation s e rid objectId (rv_parent r) (rv_blob r)) (\<lambda>reservations.
       Inr (s\<lparr>os_reservations := reservations, os_objects := obj_put (os_objects s) objectId
         \<lparr>ho_object_id = objectId, ho_kind = rv_kind r,
          ho_history = (case current of None \<Rightarrow> [] | Some ob \<Rightarrow> ho_history ob) @ [r],
          ho_certification = Option.bind current ho_certification\<rparr>\<rparr>)))))))))))"

definition reservation_fields_ok :: "object_state \<Rightarrow> object_event \<Rightarrow> reservation \<Rightarrow> bool" where
  "reservation_fields_ok s e r \<longleftrightarrow> rs_workspace_id r = os_ws s \<and> rs_object_id r \<noteq> [] \<and> rs_reservation_id r \<noteq> [] \<and>
     obj_get (os_reservations s) (rs_reservation_id r) = None \<and> rs_title r \<noteq> [] \<and> validBlob (rs_proposed r) \<and>
     rs_kind r \<in> set HOUSEHOLD_OBJECT_TYPES \<and> js_eq (rs_created_at r) (ov_occurred_at e) \<and>
     is_finite (rs_expires_at r) \<and> \<not> js_le (rs_expires_at r) (ov_occurred_at e)"

definition apply_reserved :: "object_state \<Rightarrow> object_event \<Rightarrow> reservation \<Rightarrow> object_error + object_state" where
  "apply_reserved s e r =
     (let fail = (\<lambda>x. ObjectIntegrity (ov_seq e) x); current = current_for s (rs_object_id r) in
      ensure (reservation_fields_ok s e r) (fail ''invalid reservation'')
      (ensure (author_ok e (rs_owner r)) (fail ''invalid attribution'')
      (ensure (metadata_ok (rs_kind r) (rs_file_metadata r)) (fail ''invalid file metadata'')
      (ensure (case rs_base r of
          None \<Rightarrow> current = None \<and> (\<forall>p \<in> set (obj_values (os_reservations s)). rs_object_id p \<noteq> rs_object_id r)
        | Some base \<Rightarrow> ref_ok s base (rs_object_id r)) 
        (fail (if rs_base r = None then ''duplicate name reservation'' else ''invalid revision binding''))
      (ensure (case rs_base r of None \<Rightarrow> True
        | Some base \<Rightarrow> (case current of None \<Rightarrow> False
            | Some c \<Rightarrow> rv_revision c = base \<and> rv_kind c = rs_kind r)) (fail ''stale reservation base'')
      (ensure (oc_outcome (ov_receipt e) = ObjectPending (rs_object_id r) (rs_reservation_id r)) (fail ''pending receipt mismatch'')
       (Inr (s\<lparr>os_reservations := obj_put (os_reservations s) (rs_reservation_id r) r\<rparr>))))))))"

definition apply_released :: "object_state \<Rightarrow> object_event \<Rightarrow> string \<Rightarrow> object_error + object_state" where
  "apply_released s e rid = ensure (case obj_get (os_reservations s) rid of None \<Rightarrow> False
       | Some r \<Rightarrow> Some (at_user_id (rs_owner r)) = ov_actor_user e \<and>
           at_principal_id (rs_owner r) = ov_actor_agent_principal e \<and> oc_outcome (ov_receipt e) = ObjectReleased rid)
     (ObjectIntegrity (ov_seq e) ''invalid release'')
     (Inr (s\<lparr>os_reservations := obj_delete (os_reservations s) rid\<rparr>))"

definition draft_fields_ok :: "object_state \<Rightarrow> object_event \<Rightarrow> household_draft \<Rightarrow> bool" where
  "draft_fields_ok s e d \<longleftrightarrow> hd_workspace_id d = os_ws s \<and> hd_draft_id d \<noteq> [] \<and>
     obj_get (os_drafts s) (hd_draft_id d) = None \<and> hd_title d \<noteq> [] \<and> validBlob (hd_proposed d) \<and>
     hd_command_id d = ov_command_id e \<and> js_eq (hd_occurred_at d) (ov_occurred_at e)"

definition conflict_ok :: "object_state \<Rightarrow> household_draft \<Rightarrow> bool" where
  "conflict_ok s d \<longleftrightarrow> (case obj_get (os_objects s) (hd_object_id d) of None \<Rightarrow> False
     | Some ob \<Rightarrow> ho_kind ob = hd_kind d \<and> newest_ref ob = hd_current d \<and> hd_base d \<noteq> hd_current d \<and>
         list_ex (\<lambda>r. rv_revision r = hd_base d) (ho_history ob))"

definition reserved_draft_ok :: "object_state \<Rightarrow> household_draft \<Rightarrow> string option \<Rightarrow> bool" where
  "reserved_draft_ok s d rid \<longleftrightarrow> (case rid of None \<Rightarrow> True
     | Some i \<Rightarrow> (case obj_get (os_reservations s) i of None \<Rightarrow> False
       | Some p \<Rightarrow> at_connection_id (rs_owner p) = at_connection_id (hd_owner d) \<and>
           at_grant_id (rs_owner p) = at_grant_id (hd_owner d) \<and> rs_title p = hd_title d \<and> rs_kind p = hd_kind d))"

definition apply_draft ::
  "object_state \<Rightarrow> object_event \<Rightarrow> household_draft \<Rightarrow> string option \<Rightarrow> object_error + object_state" where
  "apply_draft s e d rid =
     (let fail = (\<lambda>x. ObjectIntegrity (ov_seq e) x) in
      ensure (draft_fields_ok s e d) (fail ''invalid draft'')
      (ensure (author_ok e (hd_owner d)) (fail ''invalid attribution'')
      (ensure (hd_kind d \<in> set HOUSEHOLD_STORED_OBJECT_TYPES) (fail ''invalid draft kind'')
      (ensure (metadata_ok (hd_kind d) (hd_file_metadata d)) (fail ''invalid file metadata'')
      (ensure (ref_ok s (hd_base d) (hd_object_id d) \<and> ref_ok s (hd_current d) (hd_object_id d)) (fail ''invalid revision binding'')
      (ensure (conflict_ok s d) (fail ''invalid conflict history'')
      (ensure (oc_outcome (ov_receipt e) = ObjectConflict (hd_object_id d) (hd_current d) (hd_draft_id d))
        (fail ''conflict receipt mismatch'')
      (ensure (reserved_draft_ok s d rid) (fail ''invalid reserved draft'')
      (bind_result (release_reservation s e rid (hd_object_id d) (Some (hd_base d)) (hd_proposed d)) (\<lambda>reservations.
       Inr (s\<lparr>os_reservations := reservations, os_drafts := obj_put (os_drafts s) (hd_draft_id d) d\<rparr>)))))))))))"

definition apply_certified ::
  "object_state \<Rightarrow> object_event \<Rightarrow> string \<Rightarrow> revision_ref \<Rightarrow> object_error + object_state" where
  "apply_certified s e objectId ref =
     (let fail = (\<lambda>x. ObjectIntegrity (ov_seq e) x) in
      case obj_get (os_objects s) objectId of
        None \<Rightarrow> Inl (fail ''invalid certification'')
      | Some ob \<Rightarrow>
          ensure (ho_kind ob = DefinitionKind \<and> ov_actor_agent_principal e = None \<and> ov_actor_run e = None \<and>
            \<not> falsy (ov_actor_user e)) (fail ''invalid certification'')
          (ensure (ref_ok s ref (ho_object_id ob)) (fail ''invalid revision binding'')
          (ensure (newest_ref ob = ref) (fail ''certified revision is not current'')
          (ensure (oc_outcome (ov_receipt e) = ObjectCommitted (ho_object_id ob) ref) (fail ''certification receipt mismatch'')
           (Inr (s\<lparr>os_objects := obj_put (os_objects s) (ho_object_id ob) (ob\<lparr>ho_certification := Some
              \<lparr>cx_revision = ref, cx_certified_by = the (ov_actor_user e), cx_certified_at = ov_occurred_at e\<rparr>\<rparr>)\<rparr>))))))"

definition apply_object_body :: "object_state \<Rightarrow> object_event \<Rightarrow> object_error + object_state" where
  "apply_object_body s e = (case ov_body e of
       ObjectCreated r rid \<Rightarrow> apply_revision s e True r rid
     | ObjectUpdated r rid \<Rightarrow> apply_revision s e False r rid
     | UploadReserved r \<Rightarrow> apply_reserved s e r
     | UploadReleased rid \<Rightarrow> apply_released s e rid
     | DraftPreserved d rid \<Rightarrow> apply_draft s e d rid
     | ObjectCommandRefused \<Rightarrow> ensure (case oc_outcome (ov_receipt e) of ObjectRefused why \<Rightarrow> why \<noteq> [] | _ \<Rightarrow> False)
         (ObjectIntegrity (ov_seq e) ''invalid refusal'') (Inr s)
     | DefinitionCertified i ref \<Rightarrow> apply_certified s e i ref
     | UnknownObjectEvent ty \<Rightarrow> Inl (UnknownObjectType ty (ov_seq e)))"

definition object_quota_ok :: "object_state \<Rightarrow> bool" where
  "object_quota_ok s \<longleftrightarrow> ou_object_count (householdObjectUsage s) \<le> HOUSEHOLD_OBJECT_LIMIT \<and>
     ou_storage_bytes (householdObjectUsage s) \<le> int HOUSEHOLD_STORAGE_BYTE_LIMIT"

definition reduceHouseholdObject :: "object_host \<Rightarrow> object_state \<Rightarrow> object_event \<Rightarrow> object_error + object_state" where
  "reduceHouseholdObject h s e =
     (let fail = (\<lambda>x. ObjectIntegrity (ov_seq e) x) in
      case ov_body e of UnknownObjectEvent ty \<Rightarrow> Inl (UnknownObjectType ty (ov_seq e)) | _ \<Rightarrow>
      ensure (object_envelope_ok h s e) (fail ''invalid envelope'')
      (ensure (object_receipt_ok s e) (fail ''invalid or duplicate receipt'')
      (bind_result (apply_object_body s e) (\<lambda>s1.
       let r = ov_receipt e; s2 = s1\<lparr>os_last_seq := ov_seq e,
             os_receipts := obj_put (os_receipts s) (receiptKey (oc_principal r) (oc_command_id r)) r\<rparr> in
       ensure (object_quota_ok s2) (fail ''quota invariant violated'') (Inr s2)))))"

fun reduceHouseholdObjectStream :: "object_host \<Rightarrow> object_state \<Rightarrow> object_event list \<Rightarrow> object_error + object_state" where
  "reduceHouseholdObjectStream h s [] = Inr s"
| "reduceHouseholdObjectStream h s (e # es) =
     bind_result (reduceHouseholdObject h s e) (\<lambda>s'. reduceHouseholdObjectStream h s' es)"

end
