(* ===== verification/ObjectDecision.thy ===== *)
theory ObjectDecision
  imports ObjectReducer
begin

text \<open>
  \<open>decideHouseholdObject\<close> and \<open>readHouseholdObjects\<close> of \<open>household-objects.ts\<close>. Every accepted
  or refused attempt that passes the access checks leaves exactly one event with its receipt; an
  update of a revision that is no longer the newest is kept as a draft. The adapter's facts (verified
  bytes, quota of other storage, server tokens) are the context.
\<close>

section \<open>Commands and facts\<close>

record title_change =
  tc_before :: jstext
  tc_after :: jstext

datatype object_change =
    CreateChange jstext content \<comment> \<open>\<open>title\<close>, \<open>content\<close>\<close>
  | UpdateChange revision_ref patch "title_change option"

datatype upload_operation = CreateUpload | UpdateUpload

datatype object_command =
    CreateObject string jstext content
  | UpdateObject string revision_ref patch "title_change option"
  | ReserveUpload string string jsnum object_change \<comment> \<open>\<open>object_id\<close>, \<open>reservation_id\<close>, \<open>expires_at\<close>, \<open>change\<close>\<close>
  | CommitUpload string upload_operation
  | ReleaseUpload string upload_operation
  | CertifyDefinition string revision_ref

record verified_content =
  vc_workspace_id :: string
  vc_object_id :: string
  vc_revision :: "revision_ref option"
  vc_blob :: blob
  vc_content :: content

record object_ctx =
  ox_access :: household_access
  ox_now :: jsnum
  ox_command_id :: string
  ox_request_digest :: string
  ox_seq :: int
  ox_event_id :: string
  ox_revision_token :: string
  ox_draft_id :: string
  ox_other_storage_bytes :: int
  ox_other_object_count :: int
  ox_identity_write_attempts :: jsnum
  ox_workspace_write_attempts :: jsnum
  ox_contents :: "verified_content list"
  ox_prepared :: "verified_content option"

record object_decision =
  og_outcome :: object_outcome
  og_events :: "object_event list"
  og_replayed :: bool

section \<open>Shared steps\<close>

definition no_event :: "string \<Rightarrow> object_decision" where
  "no_event reason = \<lparr>og_outcome = ObjectRefused reason, og_events = [], og_replayed = False\<rparr>"

definition author_of :: "object_ctx \<Rightarrow> attribution" where
  "author_of ctx = attribution_of (ox_access ctx)"

definition principal_of :: "object_ctx \<Rightarrow> string" where
  "principal_of ctx = (case at_principal_id (author_of ctx) of Some p \<Rightarrow> p | None \<Rightarrow> at_user_id (author_of ctx))"

definition object_event_of :: "object_state \<Rightarrow> object_ctx \<Rightarrow> object_body \<Rightarrow> object_outcome \<Rightarrow> object_event" where
  "object_event_of s ctx body outcome = \<lparr>ov_workspace_id = os_ws s, ov_stream_id = os_stream s, ov_seq = ox_seq ctx,
     ov_event_id = ox_event_id ctx, ov_command_id = ox_command_id ctx, ov_schema_version = 1,
     ov_actor_user = Some (at_user_id (author_of ctx)), ov_actor_agent_principal = at_principal_id (author_of ctx),
     ov_actor_run = at_run_id (author_of ctx), ov_occurred_at = ox_now ctx, ov_body = body,
     ov_receipt = \<lparr>oc_principal = principal_of ctx, oc_command_id = ox_command_id ctx,
       oc_request_digest = ox_request_digest ctx, oc_outcome = outcome\<rparr>\<rparr>"

definition emit_object ::
  "object_host \<Rightarrow> object_state \<Rightarrow> object_ctx \<Rightarrow> object_body \<Rightarrow> object_outcome \<Rightarrow> object_decision" where
  "emit_object h s ctx body outcome =
     (let e = object_event_of s ctx body outcome in
      if EVENT_BYTE_LIMIT < object_event_bytes h e then no_event ''event_too_large''
      else \<lparr>og_outcome = outcome, og_events = [e], og_replayed = False\<rparr>)"

definition refuse_object :: "object_host \<Rightarrow> object_state \<Rightarrow> object_ctx \<Rightarrow> string \<Rightarrow> object_decision" where
  "refuse_object h s ctx reason = emit_object h s ctx ObjectCommandRefused (ObjectRefused reason)"

definition used_bytes :: "object_state \<Rightarrow> object_ctx \<Rightarrow> int" where
  "used_bytes s ctx = ou_storage_bytes (householdObjectUsage s) + ox_other_storage_bytes ctx"

definition used_count :: "object_state \<Rightarrow> object_ctx \<Rightarrow> int" where
  "used_count s ctx = int (ou_object_count (householdObjectUsage s)) + ox_other_object_count ctx"

definition prepared_for :: "object_state \<Rightarrow> object_ctx \<Rightarrow> string \<Rightarrow> verified_content option" where
  "prepared_for s ctx objectId = (case ox_prepared ctx of None \<Rightarrow> None
     | Some p \<Rightarrow> if vc_workspace_id p = os_ws s \<and> vc_object_id p = objectId \<and> validBlob (vc_blob p) \<and>
         validContent (vc_content p) then Some p else None)"

definition file_metadata_of :: "content \<Rightarrow> content option" where
  "file_metadata_of c = (if content_kind c = FileKind then Some c else None)"

text \<open>\<open>ctx.prepared!.content\<close>.\<close>

definition prepared_content :: "object_ctx \<Rightarrow> content" where
  "prepared_content ctx = vc_content (the (ox_prepared ctx))"

definition preserve_draft ::
  "object_host \<Rightarrow> object_state \<Rightarrow> object_ctx \<Rightarrow> string \<Rightarrow> revision_ref \<Rightarrow> blob \<Rightarrow> string option \<Rightarrow> jstext \<Rightarrow> object_decision" where
  "preserve_draft h s ctx objectId base proposed rid title =
     (let current = rv_revision (the (current_for s objectId)) in
      if ox_draft_id ctx = [] \<or> obj_get (os_drafts s) (ox_draft_id ctx) \<noteq> None then refuse_object h s ctx ''draft_id_invalid''
      else if rid = None \<and> int HOUSEHOLD_STORAGE_BYTE_LIMIT < used_bytes s ctx + bl_size_bytes proposed
        then refuse_object h s ctx ''storage_quota_reached''
      else emit_object h s ctx (DraftPreserved
          \<lparr>hd_draft_id = ox_draft_id ctx, hd_workspace_id = os_ws s, hd_object_id = objectId, hd_base = base,
           hd_current = current, hd_proposed = proposed, hd_title = title, hd_kind = content_kind (prepared_content ctx),
           hd_file_metadata = file_metadata_of (prepared_content ctx), hd_owner = author_of ctx,
           hd_occurred_at = ox_now ctx, hd_command_id = ox_command_id ctx\<rparr> rid)
        (ObjectConflict objectId current (ox_draft_id ctx)))"

definition commit_revision ::
  "object_host \<Rightarrow> object_state \<Rightarrow> object_ctx \<Rightarrow> string \<Rightarrow> jstext \<Rightarrow> object_kind \<Rightarrow> blob \<Rightarrow> revision_ref option \<Rightarrow>
     string option \<Rightarrow> object_decision" where
  "commit_revision h s ctx objectId title kind b base rid =
     (if \<not> opaque (ox_revision_token ctx) \<or> token_used s (ox_revision_token ctx)
        then refuse_object h s ctx ''revision_token_invalid''
      else
        let ref = \<lparr>rr_workspace_id = os_ws s, rr_object_id = objectId, rr_token = ox_revision_token ctx\<rparr>;
            r = \<lparr>rv_revision = ref, rv_parent = base, rv_title = title, rv_kind = kind,
              rv_file_metadata = file_metadata_of (prepared_content ctx), rv_blob = b, rv_author = author_of ctx,
              rv_occurred_at = ox_now ctx, rv_command_id = ox_command_id ctx\<rparr> in
        emit_object h s ctx (if base = None then ObjectCreated r rid else ObjectUpdated r rid) (ObjectCommitted objectId ref))"

text \<open>The base snapshot loaded by the adapter.\<close>

definition content_for :: "object_ctx \<Rightarrow> revision \<Rightarrow> content option" where
  "content_for ctx r =
     (case find (\<lambda>f. vc_workspace_id f = rr_workspace_id (rv_revision r) \<and> vc_object_id f = rr_object_id (rv_revision r) \<and>
         vc_revision f = Some (rv_revision r) \<and> vc_blob f = rv_blob r) (ox_contents ctx) of
        None \<Rightarrow> None
      | Some f \<Rightarrow> if validContent (vc_content f) \<and> content_kind (vc_content f) = rv_kind r then Some (vc_content f) else None)"

section \<open>Uploads\<close>

definition own_reservation :: "object_ctx \<Rightarrow> reservation \<Rightarrow> bool" where
  "own_reservation ctx r \<longleftrightarrow> (let a = author_of ctx in at_user_id (rs_owner r) = at_user_id a \<and>
     at_principal_id (rs_owner r) = at_principal_id a \<and> at_connection_id (rs_owner r) = at_connection_id a \<and>
     at_grant_id (rs_owner r) = at_grant_id a)"

definition upload_of :: "reservation \<Rightarrow> upload_operation" where
  "upload_of r = (if rs_base r = None then CreateUpload else UpdateUpload)"

definition decide_commit_upload :: "object_host \<Rightarrow> object_state \<Rightarrow> object_ctx \<Rightarrow> reservation \<Rightarrow> object_decision" where
  "decide_commit_upload h s ctx r =
     (let current = current_for s (rs_object_id r) in
      if js_le (rs_expires_at r) (ox_now ctx) then refuse_object h s ctx ''upload_expired''
      else if (case prepared_for s ctx (rs_object_id r) of None \<Rightarrow> True
          | Some p \<Rightarrow> vc_blob p \<noteq> rs_proposed r \<or> content_kind (vc_content p) \<noteq> rs_kind r \<or> vc_revision p \<noteq> rs_base r \<or>
              (content_kind (vc_content p) = FileKind \<and> rs_file_metadata r \<noteq> Some (vc_content p)))
        then refuse_object h s ctx ''verified_content_required''
      else if rs_base r = None \<and> current \<noteq> None then refuse_object h s ctx ''object_already_exists''
      else if rs_base r \<noteq> None \<and> rs_base r \<noteq> map_option rv_revision current
        then preserve_draft h s ctx (rs_object_id r) (the (rs_base r)) (rs_proposed r) (Some (rs_reservation_id r)) (rs_title r)
      else if int HOUSEHOLD_STORAGE_BYTE_LIMIT < used_bytes s ctx \<or> int HOUSEHOLD_OBJECT_LIMIT < used_count s ctx
        then refuse_object h s ctx ''storage_quota_reached''
      else commit_revision h s ctx (rs_object_id r) (rs_title r) (rs_kind r) (rs_proposed r) (rs_base r)
        (Some (rs_reservation_id r)))"

definition decide_upload ::
  "object_host \<Rightarrow> object_state \<Rightarrow> object_ctx \<Rightarrow> bool \<Rightarrow> string \<Rightarrow> upload_operation \<Rightarrow> object_decision" where
  "decide_upload h s ctx commits rid operation =
     (case obj_get (os_reservations s) rid of
        None \<Rightarrow> no_event ''reservation_access_refused''
      | Some r \<Rightarrow>
          if \<not> own_reservation ctx r \<or> operation \<noteq> upload_of r then no_event ''reservation_access_refused''
          else if \<not> commits then emit_object h s ctx (UploadReleased (rs_reservation_id r)) (ObjectReleased (rs_reservation_id r))
          else decide_commit_upload h s ctx r)"

section \<open>Definitions\<close>

definition decide_certify :: "object_host \<Rightarrow> object_state \<Rightarrow> object_ctx \<Rightarrow> string \<Rightarrow> revision_ref \<Rightarrow> object_decision" where
  "decide_certify h s ctx objectId ref =
     (case obj_get (os_objects s) objectId of
        None \<Rightarrow> refuse_object h s ctx ''object_not_found''
      | Some ob \<Rightarrow>
          if ho_kind ob \<noteq> DefinitionKind then refuse_object h s ctx ''object_type_mismatch''
          else if newest_ref ob \<noteq> ref then refuse_object h s ctx ''definition_not_current''
          else emit_object h s ctx (DefinitionCertified (ho_object_id ob) ref) (ObjectCommitted (ho_object_id ob) ref))"

text \<open>A definition is titled by its term, and its term is taken by no other definition.\<close>

definition term_refusal :: "object_host \<Rightarrow> object_state \<Rightarrow> string \<Rightarrow> jstext \<Rightarrow> content \<Rightarrow> string option" where
  "term_refusal h s objectId title c = (case c of
       DefinitionContent d \<Rightarrow>
         if title \<noteq> df_term d then Some ''definition_term_mismatch''
         else if list_ex (\<lambda>ob. ho_kind ob = DefinitionKind \<and> ho_object_id ob \<noteq> objectId \<and>
             householdDefinitionKey h (rv_title (last (ho_history ob))) = householdDefinitionKey h title) (obj_values (os_objects s))
           then Some ''definition_term_taken''
         else None
     | _ \<Rightarrow> None)"

section \<open>Creating and updating\<close>

text \<open>How a change ends once its title and base are fixed: reserve the upload, or commit it.\<close>

definition finish_change ::
  "object_host \<Rightarrow> object_state \<Rightarrow> object_ctx \<Rightarrow> object_command \<Rightarrow> string \<Rightarrow> verified_content \<Rightarrow> jstext \<Rightarrow>
     revision_ref option \<Rightarrow> object_decision" where
  "finish_change h s ctx cmd objectId prepared title base =
     (let c = vc_content prepared in
      if title = [] then refuse_object h s ctx ''title_invalid''
      else case term_refusal h s objectId title c of
        Some why \<Rightarrow> refuse_object h s ctx why
      | None \<Rightarrow>
      if int HOUSEHOLD_STORAGE_BYTE_LIMIT < used_bytes s ctx + bl_size_bytes (vc_blob prepared)
        then refuse_object h s ctx ''storage_quota_reached''
      else case cmd of
        ReserveUpload i rid expires_at change \<Rightarrow>
          if rid = [] \<or> obj_get (os_reservations s) rid \<noteq> None \<or> \<not> is_finite expires_at \<or> js_le expires_at (ox_now ctx)
            then refuse_object h s ctx ''reservation_invalid''
          else emit_object h s ctx (UploadReserved
            \<lparr>rs_reservation_id = rid, rs_workspace_id = os_ws s, rs_object_id = objectId, rs_kind = content_kind c,
             rs_file_metadata = file_metadata_of c, rs_title = title, rs_base = base, rs_proposed = vc_blob prepared,
             rs_owner = author_of ctx, rs_created_at = ox_now ctx, rs_expires_at = expires_at\<rparr>) (ObjectPending objectId rid)
      | _ \<Rightarrow> commit_revision h s ctx objectId title (content_kind c) (vc_blob prepared) base None)"

definition decide_create_object ::
  "object_host \<Rightarrow> object_state \<Rightarrow> object_ctx \<Rightarrow> object_command \<Rightarrow> string \<Rightarrow> verified_content \<Rightarrow> jstext \<Rightarrow> content \<Rightarrow>
     object_decision" where
  "decide_create_object h s ctx cmd objectId prepared title c =
     (if current_for s objectId \<noteq> None \<or> list_ex (\<lambda>p. rs_object_id p = objectId) (obj_values (os_reservations s))
        then refuse_object h s ctx ''object_already_exists''
      else if int HOUSEHOLD_OBJECT_LIMIT \<le> used_count s ctx then refuse_object h s ctx ''object_quota_reached''
      else if \<not> validContent c \<or> c \<noteq> vc_content prepared then refuse_object h s ctx ''verified_content_mismatch''
      else if vc_revision prepared \<noteq> None then refuse_object h s ctx ''verified_content_mismatch''
      else finish_change h s ctx cmd objectId prepared title None)"

definition base_ok :: "object_state \<Rightarrow> string \<Rightarrow> revision_ref \<Rightarrow> bool" where
  "base_ok s objectId base \<longleftrightarrow> rr_workspace_id base = os_ws s \<and> rr_object_id base = objectId \<and> opaque (rr_token base)"

definition decide_update_object ::
  "object_host \<Rightarrow> object_state \<Rightarrow> object_ctx \<Rightarrow> object_command \<Rightarrow> string \<Rightarrow> verified_content \<Rightarrow> revision_ref \<Rightarrow> patch \<Rightarrow>
     title_change option \<Rightarrow> object_decision" where
  "decide_update_object h s ctx cmd objectId prepared base p title =
     (case current_for s objectId of
        None \<Rightarrow> refuse_object h s ctx ''object_not_found''
      | Some current \<Rightarrow>
          if \<not> base_ok s objectId base then refuse_object h s ctx ''revision_not_found''
          else case find (\<lambda>r. rv_revision r = base) (ho_history (the (obj_get (os_objects s) objectId))) of
            None \<Rightarrow> refuse_object h s ctx ''revision_not_found''
          | Some historical \<Rightarrow>
          (case content_for ctx historical of
            None \<Rightarrow> refuse_object h s ctx ''verified_base_required''
          | Some c \<Rightarrow>
              if applyHouseholdPatch c p (rv_blob historical) \<noteq> Some (vc_content prepared)
                then refuse_object h s ctx ''patch_base_mismatch''
              else if (case title of None \<Rightarrow> False | Some t \<Rightarrow> tc_before t \<noteq> rv_title historical \<or> tc_after t = [])
                then refuse_object h s ctx ''patch_base_mismatch''
              else
                let new_title = (case title of None \<Rightarrow> rv_title historical | Some t \<Rightarrow> tc_after t) in
                if vc_revision prepared \<noteq> Some (rv_revision historical) then refuse_object h s ctx ''verified_content_mismatch''
                else if rv_revision historical \<noteq> rv_revision current
                  then preserve_draft h s ctx objectId (rv_revision historical) (vc_blob prepared) None new_title
                else finish_change h s ctx cmd objectId prepared new_title (Some (rv_revision historical))))"

definition decide_change ::
  "object_host \<Rightarrow> object_state \<Rightarrow> object_ctx \<Rightarrow> object_command \<Rightarrow> string \<Rightarrow> object_change \<Rightarrow> object_decision" where
  "decide_change h s ctx cmd objectId change =
     (if objectId = [] then refuse_object h s ctx ''object_id_invalid''
      else case prepared_for s ctx objectId of
        None \<Rightarrow> refuse_object h s ctx ''verified_content_required''
      | Some prepared \<Rightarrow> (case change of
            CreateChange title c \<Rightarrow> decide_create_object h s ctx cmd objectId prepared title c
          | UpdateChange base p title \<Rightarrow> decide_update_object h s ctx cmd objectId prepared base p title))"

section \<open>The decision\<close>

fun upload_content_operation :: "upload_operation \<Rightarrow> content_operation" where
  "upload_content_operation CreateUpload = CreateContent"
| "upload_content_operation UpdateUpload = UpdateContent"

fun object_operation :: "object_command \<Rightarrow> content_operation" where
  "object_operation (CommitUpload _ operation) = upload_content_operation operation"
| "object_operation (ReleaseUpload _ operation) = upload_content_operation operation"
| "object_operation (CreateObject _ _ _) = CreateContent"
| "object_operation (ReserveUpload _ _ _ (CreateChange _ _)) = CreateContent"
| "object_operation _ = UpdateContent"

definition decide_object_command ::
  "object_host \<Rightarrow> object_state \<Rightarrow> object_ctx \<Rightarrow> object_command \<Rightarrow> object_decision" where
  "decide_object_command h s ctx cmd =
     (if \<not> nonnegative (ox_other_storage_bytes ctx) \<or> \<not> nonnegative (ox_other_object_count ctx)
        then no_event ''quota_facts_invalid''
      else case cmd of
        CommitUpload rid operation \<Rightarrow> decide_upload h s ctx True rid operation
      | ReleaseUpload rid operation \<Rightarrow> decide_upload h s ctx False rid operation
      | _ \<Rightarrow>
        if householdWriteLimitReached (ox_identity_write_attempts ctx) (ox_workspace_write_attempts ctx)
          then refuse_object h s ctx ''object_write_rate_limited''
        else (case cmd of
            CertifyDefinition i ref \<Rightarrow> decide_certify h s ctx i ref
          | CreateObject i title c \<Rightarrow> decide_change h s ctx cmd i (CreateChange title c)
          | UpdateObject i base p title \<Rightarrow> decide_change h s ctx cmd i (UpdateChange base p title)
          | ReserveUpload i rid expires_at change \<Rightarrow> decide_change h s ctx cmd i change
          | _ \<Rightarrow> no_event ''invalid_operation''))"

definition decideHouseholdObject ::
  "object_host \<Rightarrow> object_command \<Rightarrow> object_state \<Rightarrow> object_ctx \<Rightarrow> object_decision" where
  "decideHouseholdObject h cmd s ctx =
     (case householdAccessRefusal (ox_access ctx) (os_ws s) (object_operation cmd) (ox_now ctx) of
        Some why \<Rightarrow> no_event (refusal_text (AccessRefusal why))
      | None \<Rightarrow>
          if (case cmd of CertifyDefinition _ _ \<Rightarrow> xa_credential (ox_access ctx) \<noteq> HumanAccess | _ \<Rightarrow> False)
            then no_event ''human_confirmation_required''
          else if ox_command_id ctx = [] \<or> \<not> digest_ok (ox_request_digest ctx) \<or> ox_event_id ctx = [] \<or>
              \<not> safe_integer (ox_seq ctx) \<or> ox_seq ctx \<le> os_last_seq s then no_event ''invalid_command_context''
          else case obj_get (os_receipts s) (receiptKey (principal_of ctx) (ox_command_id ctx)) of
            Some previous \<Rightarrow>
              if oc_request_digest previous = ox_request_digest ctx
              then \<lparr>og_outcome = oc_outcome previous, og_events = [], og_replayed = True\<rparr>
              else no_event ''request_id_reused''
          | None \<Rightarrow> decide_object_command h s ctx cmd)"

section \<open>Reading\<close>

datatype object_query =
    ObjectList int int "object_kind option" \<comment> \<open>\<open>offset\<close>, \<open>limit\<close>, \<open>kind_filter\<close>\<close>
  | ObjectRead string "revision_ref option" "object_kind option"
  | ObjectHistory string int int "object_kind option"
  | DraftRead string

record object_entry =
  oe_object_id :: string
  oe_kind :: object_kind
  oe_title :: jstext
  oe_revision :: revision_ref
  oe_certification :: "certification option option" \<comment> \<open>present for definitions only\<close>

datatype object_answer =
    ReadRefused string
  | ObjectPage "object_entry list" "int option"
  | RevisionAnswer revision bool
  | HistoryPage "(revision \<times> bool) list" "int option"
  | DraftAnswer household_draft

definition kind_visible :: "object_kind \<Rightarrow> object_kind option \<Rightarrow> bool" where
  "kind_visible kind filter_kind = (case filter_kind of Some k \<Rightarrow> kind = k | None \<Rightarrow> kind \<noteq> DefinitionKind)"

definition object_before :: "household_object \<Rightarrow> household_object \<Rightarrow> bool" where
  "object_before a b \<longleftrightarrow> ho_object_id a < ho_object_id b"

definition page_of :: "int \<Rightarrow> int \<Rightarrow> 'a list \<Rightarrow> 'a list" where
  "page_of offset limit xs = take (nat limit) (drop (nat offset) xs)"

definition next_offset :: "int \<Rightarrow> int \<Rightarrow> 'a list \<Rightarrow> int option" where
  "next_offset offset limit xs = (if offset + limit < int (length xs) then Some (offset + limit) else None)"

definition entry_of :: "household_object \<Rightarrow> object_entry" where
  "entry_of ob = \<lparr>oe_object_id = ho_object_id ob, oe_kind = ho_kind ob, oe_title = rv_title (last (ho_history ob)),
     oe_revision = newest_ref ob, oe_certification = (if ho_kind ob = DefinitionKind then Some (ho_certification ob) else None)\<rparr>"

definition visible_objects :: "object_state \<Rightarrow> object_kind option \<Rightarrow> household_object list" where
  "visible_objects s filter_kind =
     js_sort object_before (filter (\<lambda>ob. kind_visible (ho_kind ob) filter_kind) (obj_values (os_objects s)))"

definition draft_readable :: "household_access \<Rightarrow> household_draft \<Rightarrow> bool" where
  "draft_readable access d \<longleftrightarrow> at_user_id (hd_owner d) = ac_user_id (xa_actor access) \<and>
     (case xa_credential access of HumanAccess \<Rightarrow> True
      | AgentAccess c \<Rightarrow> at_principal_id (hd_owner d) = ac_principal_id (xa_actor access) \<and>
          at_grant_id (hd_owner d) = Some (hn_grant_id c) \<and> at_connection_id (hd_owner d) = Some (hn_connection_id c))"

text \<open>\<open>findIndex\<close>.\<close>

fun find_index :: "('a \<Rightarrow> bool) \<Rightarrow> 'a list \<Rightarrow> nat option" where
  "find_index p [] = None"
| "find_index p (x # xs) = (if p x then Some 0 else map_option Suc (find_index p xs))"

definition live_start :: "household_object \<Rightarrow> nat" where
  "live_start ob = length (ho_history ob) - HOUSEHOLD_LIVE_REVISION_LIMIT"

definition read_object :: "object_state \<Rightarrow> string \<Rightarrow> object_kind option \<Rightarrow> string + household_object" where
  "read_object s objectId filter_kind = (case obj_get (os_objects s) objectId of
       None \<Rightarrow> Inl ''object_not_found''
     | Some ob \<Rightarrow> if kind_visible (ho_kind ob) filter_kind then Inr ob else Inl ''object_type_mismatch'')"

definition page_ok :: "int \<Rightarrow> int \<Rightarrow> bool" where
  "page_ok offset limit \<longleftrightarrow> nonnegative offset \<and> safe_integer limit \<and> 0 < limit"

definition readHouseholdObjects :: "object_query \<Rightarrow> object_state \<Rightarrow> household_access \<Rightarrow> jsnum \<Rightarrow> object_answer" where
  "readHouseholdObjects query s access now =
     (case householdAccessRefusal access (os_ws s) ReadContent now of
        Some why \<Rightarrow> ReadRefused (refusal_text (AccessRefusal why))
      | None \<Rightarrow> (case query of
          ObjectList offset limit filter_kind \<Rightarrow>
            if \<not> page_ok offset limit then ReadRefused ''invalid_page''
            else let all_objects = visible_objects s filter_kind in
              ObjectPage (map entry_of (page_of offset limit all_objects)) (next_offset offset limit all_objects)
        | DraftRead i \<Rightarrow> (case obj_get (os_drafts s) i of
              None \<Rightarrow> ReadRefused ''draft_access_refused''
            | Some d \<Rightarrow> if draft_readable access d then DraftAnswer d else ReadRefused ''draft_access_refused'')
        | ObjectHistory i offset limit filter_kind \<Rightarrow>
            if \<not> page_ok offset limit then ReadRefused ''invalid_page''
            else (case read_object s i filter_kind of
              Inl why \<Rightarrow> ReadRefused why
            | Inr ob \<Rightarrow> HistoryPage
                (map (\<lambda>(k, r). (r, int (live_start ob) \<le> offset + int k)) (enumerate 0 (page_of offset limit (ho_history ob))))
                (next_offset offset limit (ho_history ob)))
        | ObjectRead i ref filter_kind \<Rightarrow> (case read_object s i filter_kind of
              Inl why \<Rightarrow> ReadRefused why
            | Inr ob \<Rightarrow>
                (case (case ref of Some r \<Rightarrow> find_index (\<lambda>x. rv_revision x = r) (ho_history ob)
                   | None \<Rightarrow> if ho_history ob = [] then None else Some (length (ho_history ob) - 1)) of
                  None \<Rightarrow> ReadRefused ''revision_not_found''
                | Some k \<Rightarrow> RevisionAnswer (ho_history ob ! k) (live_start ob \<le> k)))))"

end
