(* ===== verification/ObjectInvariant.thy ===== *)
theory ObjectInvariant
  imports ObjectDecision "HOL-Library.Sublist"
begin

text \<open>
  What the reducer of household objects keeps: every object has a linear, non-empty history of its own
  kind, revision tokens are unique, pending uploads and drafts refer to what exists, and the quotas
  hold; and what it never does: no committed revision, draft or receipt is ever lost.
\<close>

section \<open>Sums over a dictionary\<close>

definition obj_sum :: "('v \<Rightarrow> 'a::comm_monoid_add) \<Rightarrow> 'v obj \<Rightarrow> 'a" where
  "obj_sum f ob = sum_list (map f (obj_values ob))"

lemma obj_sum_Cons [simp]: "obj_sum f [] = 0" "obj_sum f ((k, v) # ob) = f v + obj_sum f ob"
  by (simp_all add: obj_sum_def obj_values_def)

lemma obj_sum_new: "obj_get ob k = None \<Longrightarrow> obj_sum f (obj_put ob k v) = obj_sum f ob + f v"
  by (induction ob) (auto simp: obj_get_def obj_put_def add_ac split: if_split_asm)

lemma obj_sum_put: "obj_get ob k = Some w \<Longrightarrow> obj_sum f (obj_put ob k v) + f w = obj_sum f ob + f v"
  by (induction ob) (auto simp: obj_get_def obj_put_def add_ac split: if_split_asm)

lemma obj_delete_simps [simp]:
  "obj_delete [] k = []" "obj_delete ((i, v) # ob) k = (if i = k then obj_delete ob k else (i, v) # obj_delete ob k)"
  by (simp_all add: obj_delete_def)

lemma obj_get_Cons: "obj_get ((i, v) # ob) k = (if i = k then Some v else obj_get ob k)"
  by (simp add: obj_get_def)

lemma obj_get_delete [simp]: "obj_get (obj_delete ob k) j = (if j = k then None else obj_get ob j)"
  by (induction ob) (auto simp: obj_get_Cons)

lemma obj_wf_delete [simp]: "obj_wf ob \<Longrightarrow> obj_wf (obj_delete ob k)"
  by (auto simp: obj_wf_def obj_delete_def distinct_map intro: inj_on_subset)

lemma obj_delete_absent: "obj_get ob k = None \<Longrightarrow> obj_delete ob k = ob"
  by (induction ob) (auto simp: obj_get_Cons split: if_split_asm)

lemma obj_sum_delete:
  "obj_wf ob \<Longrightarrow> obj_get ob k = Some w \<Longrightarrow> obj_sum f (obj_delete ob k) + f w = obj_sum f ob"
proof (induction ob)
  case (Cons x ob)
  obtain i v where x: "x = (i, v)" by force
  have wf: "obj_wf ob" "obj_get ob i = None"
    using Cons.prems(1) by (auto simp: x obj_wf_def obj_get_def map_of_eq_None_iff)
  show ?case
    using Cons wf by (auto simp: x obj_get_Cons obj_delete_absent add_ac split: if_split_asm)
qed (simp add: obj_get_def)

lemma obj_values_wf: "obj_wf ob \<Longrightarrow> v \<in> set (obj_values ob) \<longleftrightarrow> (\<exists>k. obj_get ob k = Some v)"
  using obj_values_get obj_get_values by fast

lemma obj_keys_get: "k \<in> set (obj_keys ob) \<longleftrightarrow> obj_get ob k \<noteq> None"
  by (auto simp: obj_keys_def obj_get_def map_of_eq_None_iff)

lemma usage_sums:
  "ou_storage_bytes (householdObjectUsage s) =
     obj_sum (\<lambda>ob. sum_list (map (\<lambda>r. bl_size_bytes (rv_blob r)) (ho_history ob))) (os_objects s) +
     obj_sum (\<lambda>r. bl_size_bytes (rs_proposed r)) (os_reservations s) +
     obj_sum (\<lambda>d. bl_size_bytes (hd_proposed d)) (os_drafts s)"
proof -
  have "sum_list (map f (concat xss)) = sum_list (map (\<lambda>xs. sum_list (map f xs)) xss)" for f :: "revision \<Rightarrow> int" and xss
    by (induction xss) simp_all
  then show ?thesis by (simp add: householdObjectUsage_def revisions_def obj_sum_def comp_def)
qed

lemma revisions_sum: "mset (revisions s) = obj_sum (\<lambda>ob. mset (ho_history ob)) (os_objects s)"
proof -
  have "mset (concat xss) = sum_list (map mset xss)" for xss :: "revision list list"
    by (induction xss) simp_all
  then show ?thesis by (simp add: revisions_def obj_sum_def comp_def)
qed

lemma usage_names_finite [simp]: "finite (usage_names s)"
  by (simp add: usage_names_def)

section \<open>The invariant\<close>

text \<open>A linear history: each revision's parent is the one before it.\<close>

fun linked :: "revision_ref option \<Rightarrow> revision list \<Rightarrow> bool" where
  "linked p [] = True"
| "linked p (r # rs) = (rv_parent r = p \<and> linked (Some (rv_revision r)) rs)"

lemma linked_append:
  "linked p (rs @ [r]) \<longleftrightarrow> linked p rs \<and> rv_parent r = (if rs = [] then p else Some (rv_revision (last rs)))"
  by (induction rs arbitrary: p) auto

definition revision_sound :: "object_state \<Rightarrow> household_object \<Rightarrow> revision \<Rightarrow> bool" where
  "revision_sound s ob r \<longleftrightarrow> rv_kind r = ho_kind ob \<and> ref_ok s (rv_revision r) (ho_object_id ob) \<and> rv_title r \<noteq> [] \<and>
     validBlob (rv_blob r) \<and> metadata_ok (rv_kind r) (rv_file_metadata r)"

definition committed_refs :: "household_object \<Rightarrow> revision_ref set" where
  "committed_refs ob = rv_revision ` set (ho_history ob)"

definition object_sound :: "object_state \<Rightarrow> string \<Rightarrow> household_object \<Rightarrow> bool" where
  "object_sound s i ob \<longleftrightarrow> ho_object_id ob = i \<and> i \<noteq> [] \<and> ho_history ob \<noteq> [] \<and> linked None (ho_history ob) \<and>
     (\<forall>r \<in> set (ho_history ob). revision_sound s ob r) \<and>
     (\<forall>c. ho_certification ob = Some c \<longrightarrow> ho_kind ob = DefinitionKind \<and> cx_revision c \<in> committed_refs ob)"

definition reservation_sound :: "object_state \<Rightarrow> string \<Rightarrow> reservation \<Rightarrow> bool" where
  "reservation_sound s i r \<longleftrightarrow> rs_reservation_id r = i \<and> i \<noteq> [] \<and> rs_object_id r \<noteq> [] \<and> rs_title r \<noteq> [] \<and>
     validBlob (rs_proposed r) \<and> rs_kind r \<in> set HOUSEHOLD_OBJECT_TYPES \<and> metadata_ok (rs_kind r) (rs_file_metadata r) \<and>
     (case rs_base r of
        None \<Rightarrow> obj_get (os_objects s) (rs_object_id r) = None \<and>
          (\<forall>j p. obj_get (os_reservations s) j = Some p \<and> rs_object_id p = rs_object_id r \<longrightarrow> j = i)
      | Some b \<Rightarrow> ref_ok s b (rs_object_id r) \<and>
          (\<exists>ob. obj_get (os_objects s) (rs_object_id r) = Some ob \<and> ho_kind ob = rs_kind r \<and> b \<in> committed_refs ob))"

definition draft_sound :: "object_state \<Rightarrow> string \<Rightarrow> household_draft \<Rightarrow> bool" where
  "draft_sound s i d \<longleftrightarrow> hd_draft_id d = i \<and>
     (\<exists>ob. obj_get (os_objects s) (hd_object_id d) = Some ob \<and> ho_kind ob = hd_kind d \<and>
        hd_base d \<in> committed_refs ob \<and> hd_current d \<in> committed_refs ob \<and> hd_base d \<noteq> hd_current d)"

definition tokens :: "object_state \<Rightarrow> string multiset" where
  "tokens s = image_mset (\<lambda>r. rr_token (rv_revision r)) (mset (revisions s))"

definition tables_sound :: "object_state \<Rightarrow> bool" where
  "tables_sound s \<longleftrightarrow> obj_wf (os_objects s) \<and> obj_wf (os_reservations s) \<and>
     (\<forall>i ob. obj_get (os_objects s) i = Some ob \<longrightarrow> object_sound s i ob) \<and>
     (\<forall>i r. obj_get (os_reservations s) i = Some r \<longrightarrow> reservation_sound s i r) \<and>
     (\<forall>i d. obj_get (os_drafts s) i = Some d \<longrightarrow> draft_sound s i d) \<and>
     (\<forall>t. count (tokens s) t \<le> 1)"

definition object_state_ok :: "object_state \<Rightarrow> bool" where
  "object_state_ok s \<longleftrightarrow> tables_sound s \<and> object_quota_ok s"

lemma empty_object_state_ok: "emptyHouseholdObjectState ws st = Inr s \<Longrightarrow> object_state_ok s"
  by (auto simp: emptyHouseholdObjectState_def object_state_ok_def tables_sound_def object_quota_ok_def tokens_def
      revisions_def obj_values_def usage_sums usage_names_def householdObjectUsage_def obj_keys_def)

lemma tables_soundD:
  "tables_sound s \<Longrightarrow> obj_get (os_objects s) i = Some ob \<Longrightarrow> object_sound s i ob"
  "tables_sound s \<Longrightarrow> obj_get (os_reservations s) j = Some r \<Longrightarrow> reservation_sound s j r"
  "tables_sound s \<Longrightarrow> obj_get (os_drafts s) k = Some d \<Longrightarrow> draft_sound s k d"
  by (simp_all add: tables_sound_def)

lemma newest_in: "object_sound s i ob \<Longrightarrow> last (ho_history ob) \<in> set (ho_history ob)"
  by (simp add: object_sound_def)

lemma newest_sound:
  "object_sound s i ob \<Longrightarrow> newest_ref ob \<in> committed_refs ob" "object_sound s i ob \<Longrightarrow> newest ob = Some (last (ho_history ob))"
  by (auto simp: object_sound_def newest_ref_def committed_refs_def newest_def)

text \<open>The checks of revisions and objects look only at the workspace, those of drafts also at the objects.\<close>

lemma ref_ok_ws: "os_ws s' = os_ws s \<Longrightarrow> ref_ok s' r i = ref_ok s r i"
  by (simp add: ref_ok_def)

lemma object_sound_ws: "os_ws s' = os_ws s \<Longrightarrow> object_sound s' i ob = object_sound s i ob"
  by (simp add: object_sound_def revision_sound_def ref_ok_def)

lemma tables_sound_frame:
  assumes "os_ws s' = os_ws s" "os_objects s' = os_objects s" "os_reservations s' = os_reservations s" "os_drafts s' = os_drafts s"
  shows "tables_sound s' = tables_sound s"
proof -
  have "reservation_sound s' j r = reservation_sound s j r" for j r
    by (simp add: reservation_sound_def assms ref_ok_def split: option.split)
  moreover have "draft_sound s' j d = draft_sound s j d" for j d by (simp add: draft_sound_def assms)
  moreover have "tokens s' = tokens s" by (simp add: tokens_def revisions_def assms)
  moreover have "object_sound s' j ob = object_sound s j ob" for j ob by (rule object_sound_ws[OF assms(1)])
  ultimately show ?thesis by (simp add: tables_sound_def assms)
qed

section \<open>Nothing is ever lost\<close>

definition object_grows :: "household_object \<Rightarrow> household_object \<Rightarrow> bool" where
  "object_grows a b \<longleftrightarrow> ho_object_id b = ho_object_id a \<and> ho_kind b = ho_kind a \<and> prefix (ho_history a) (ho_history b)"

definition state_grows :: "object_state \<Rightarrow> object_state \<Rightarrow> bool" where
  "state_grows s s' \<longleftrightarrow> os_ws s' = os_ws s \<and> os_stream s' = os_stream s \<and> os_last_seq s \<le> os_last_seq s' \<and>
     (\<forall>i ob. obj_get (os_objects s) i = Some ob \<longrightarrow> (\<exists>ob'. obj_get (os_objects s') i = Some ob' \<and> object_grows ob ob')) \<and>
     (\<forall>i d. obj_get (os_drafts s) i = Some d \<longrightarrow> obj_get (os_drafts s') i = Some d) \<and>
     (\<forall>k r. obj_get (os_receipts s) k = Some r \<longrightarrow> obj_get (os_receipts s') k = Some r)"

lemma object_grows_refl [simp]: "object_grows a a" by (simp add: object_grows_def)

lemma object_grows_trans: "object_grows a b \<Longrightarrow> object_grows b c \<Longrightarrow> object_grows a c"
  by (auto simp: object_grows_def)

lemma state_grows_refl [simp]: "state_grows s s" by (auto simp: state_grows_def)

lemma state_grows_trans: "state_grows a b \<Longrightarrow> state_grows b c \<Longrightarrow> state_grows a c"
  by (simp add: state_grows_def) (meson object_grows_trans order.trans)

lemma committed_refs_grow: "object_grows a b \<Longrightarrow> committed_refs a \<subseteq> committed_refs b"
  by (auto simp: object_grows_def committed_refs_def prefix_def)

lemma state_growsD:
  "state_grows s s' \<Longrightarrow> obj_get (os_objects s) i = Some ob \<Longrightarrow>
     \<exists>ob'. obj_get (os_objects s') i = Some ob' \<and> object_grows ob ob'"
  "state_grows s s' \<Longrightarrow> obj_get (os_drafts s) i = Some d \<Longrightarrow> obj_get (os_drafts s') i = Some d"
  "state_grows s s' \<Longrightarrow> obj_get (os_receipts s) i = Some r \<Longrightarrow> obj_get (os_receipts s') i = Some r"
  by (simp_all add: state_grows_def)

lemma draft_sound_grows:
  assumes "draft_sound s i d" "state_grows s s'" shows "draft_sound s' i d"
proof -
  obtain ob where ob: "obj_get (os_objects s) (hd_object_id d) = Some ob" "ho_kind ob = hd_kind d"
    "hd_base d \<in> committed_refs ob" "hd_current d \<in> committed_refs ob" "hd_base d \<noteq> hd_current d" "hd_draft_id d = i"
    using assms(1) by (auto simp: draft_sound_def)
  obtain ob' where "obj_get (os_objects s') (hd_object_id d) = Some ob'" "object_grows ob ob'"
    using state_growsD(1)[OF assms(2) ob(1)] by blast
  then show ?thesis using ob committed_refs_grow[of ob ob'] by (auto simp: draft_sound_def object_grows_def)
qed

text \<open>A pending update stays sound as the histories grow.\<close>

lemma pending_update_grows:
  assumes "reservation_sound s i r" "state_grows s s'" "rs_base r \<noteq> None"
  shows "reservation_sound s' i r"
proof -
  obtain b where b: "rs_base r = Some b" using assms(3) by blast
  obtain ob where ob: "obj_get (os_objects s) (rs_object_id r) = Some ob" "ho_kind ob = rs_kind r" "b \<in> committed_refs ob"
    using assms(1) by (auto simp: reservation_sound_def b)
  obtain ob' where "obj_get (os_objects s') (rs_object_id r) = Some ob'" "object_grows ob ob'"
    using state_growsD(1)[OF assms(2) ob(1)] by blast
  moreover have "os_ws s' = os_ws s" using assms(2) by (simp add: state_grows_def)
  ultimately show ?thesis
    using assms(1) ob committed_refs_grow[of ob ob'] by (auto simp: reservation_sound_def b ref_ok_def object_grows_def)
qed

section \<open>Changing one table\<close>

lemma tables_soundI:
  assumes "obj_wf (os_objects s)" "obj_wf (os_reservations s)"
    "\<And>i ob. obj_get (os_objects s) i = Some ob \<Longrightarrow> object_sound s i ob"
    "\<And>i r. obj_get (os_reservations s) i = Some r \<Longrightarrow> reservation_sound s i r"
    "\<And>i d. obj_get (os_drafts s) i = Some d \<Longrightarrow> draft_sound s i d"
    "\<And>t. count (tokens s) t \<le> 1"
  shows "tables_sound s"
  using assms by (auto simp: tables_sound_def)

lemma tables_sound_wf: "tables_sound s \<Longrightarrow> obj_wf (os_objects s)" "tables_sound s \<Longrightarrow> obj_wf (os_reservations s)"
  "tables_sound s \<Longrightarrow> count (tokens s) t \<le> 1"
  by (simp_all add: tables_sound_def)

lemma tokens_cong: "os_objects s' = os_objects s \<Longrightarrow> tokens s' = tokens s"
  by (simp add: tokens_def revisions_def)

text \<open>Fewer reservations.\<close>

lemma fewer_reservations_sound:
  assumes ok: "tables_sound s" and wf: "obj_wf rs"
    and sub: "\<And>j p. obj_get rs j = Some p \<Longrightarrow> obj_get (os_reservations s) j = Some p"
  shows "tables_sound (s\<lparr>os_reservations := rs\<rparr>)" (is "tables_sound ?t")
proof (rule tables_soundI)
  show "object_sound ?t i ob" if "obj_get (os_objects ?t) i = Some ob" for i ob
    using tables_soundD(1)[OF ok, of i ob] that object_sound_ws[of ?t s] by simp
  show "reservation_sound ?t i r" if "obj_get (os_reservations ?t) i = Some r" for i r
  proof -
    have "reservation_sound s i r" using that tables_soundD(2)[OF ok] sub by simp
    then show ?thesis using sub by (auto simp: reservation_sound_def ref_ok_def split: option.splits)
  qed
  show "draft_sound ?t i d" if "obj_get (os_drafts ?t) i = Some d" for i d
    using tables_soundD(3)[OF ok, of i d] that by (simp add: draft_sound_def)
  show "count (tokens ?t) t \<le> 1" for t using tables_sound_wf(3)[OF ok] tokens_cong[of ?t s] by simp
qed (use ok wf tables_sound_wf in auto)

lemma release_reservation_Inr:
  assumes "release_reservation s e rid i base b = Inr rs"
  obtains "rid = None" "rs = os_reservations s"
  | k r where "rid = Some k" "obj_get (os_reservations s) k = Some r" "rs_object_id r = i" "rs_base r = base"
      "rs_proposed r = b" "rs = obj_delete (os_reservations s) k"
proof (cases rid)
  case None then show thesis using assms that(1) by (simp add: release_reservation_def)
next
  case (Some k)
  then obtain r where "obj_get (os_reservations s) k = Some r"
    using assms by (cases "obj_get (os_reservations s) k") (simp_all add: release_reservation_def)
  then show thesis using assms Some that(2) by (simp add: release_reservation_def)
qed

lemma release_sound:
  assumes ok: "tables_sound s" and r: "release_reservation s e rid i base b = Inr rs"
  shows "tables_sound (s\<lparr>os_reservations := rs\<rparr>)" "obj_get rs j = Some p \<Longrightarrow> obj_get (os_reservations s) j = Some p"
    "obj_get rs j = Some p \<Longrightarrow> rid \<noteq> Some j"
proof -
  have wf: "obj_wf rs" by (rule release_reservation_Inr[OF r]) (use tables_sound_wf(2)[OF ok] in auto)
  have sub: "obj_get (os_reservations s) j = Some p \<and> rid \<noteq> Some j" if "obj_get rs j = Some p" for j p
    by (rule release_reservation_Inr[OF r]) (use that in \<open>auto split: if_split_asm\<close>)
  show "tables_sound (s\<lparr>os_reservations := rs\<rparr>)" by (rule fewer_reservations_sound[OF ok wf]) (use sub in blast)
  show "obj_get rs j = Some p \<Longrightarrow> obj_get (os_reservations s) j = Some p" "obj_get rs j = Some p \<Longrightarrow> rid \<noteq> Some j"
    using sub by blast+
qed

text \<open>A new reservation.\<close>

lemma new_reservation_sound:
  assumes ok: "tables_sound s" and new: "obj_get (os_reservations s) k = None"
    and alone: "rs_base r = None \<Longrightarrow> \<forall>p \<in> set (obj_values (os_reservations s)). rs_object_id p \<noteq> rs_object_id r"
    and r: "reservation_sound (s\<lparr>os_reservations := obj_put (os_reservations s) k r\<rparr>) k r"
    and named: "rs_base r \<noteq> None \<Longrightarrow> obj_get (os_objects s) (rs_object_id r) \<noteq> None"
  shows "tables_sound (s\<lparr>os_reservations := obj_put (os_reservations s) k r\<rparr>)" (is "tables_sound ?t")
proof (rule tables_soundI)
  show "object_sound ?t i ob" if "obj_get (os_objects ?t) i = Some ob" for i ob
    using tables_soundD(1)[OF ok, of i ob] that object_sound_ws[of ?t s] by simp
  show "reservation_sound ?t i p" if g: "obj_get (os_reservations ?t) i = Some p" for i p
  proof (cases "i = k")
    case True then show ?thesis using g r by simp
  next
    case False
    then have p: "obj_get (os_reservations s) i = Some p" using g by simp
    have apart: "rs_object_id r \<noteq> rs_object_id p" if "rs_base p = None"
    proof (cases "rs_base r")
      case None
      then show ?thesis using alone obj_get_values[OF p] by force
    next
      case (Some b)
      then show ?thesis using named tables_soundD(2)[OF ok p] that by (auto simp: reservation_sound_def)
    qed
    show ?thesis using tables_soundD(2)[OF ok p] apart by (auto simp: reservation_sound_def ref_ok_def split: option.splits)
  qed
  show "draft_sound ?t i d" if "obj_get (os_drafts ?t) i = Some d" for i d
    using tables_soundD(3)[OF ok, of i d] that by (simp add: draft_sound_def)
  show "count (tokens ?t) t \<le> 1" for t using tables_sound_wf(3)[OF ok] tokens_cong[of ?t s] by simp
qed (use ok tables_sound_wf in auto)

text \<open>A new draft.\<close>

lemma new_draft_sound:
  assumes ok: "tables_sound s" and d: "draft_sound s k d"
  shows "tables_sound (s\<lparr>os_drafts := obj_put (os_drafts s) k d\<rparr>)" (is "tables_sound ?t")
proof (rule tables_soundI)
  show "object_sound ?t i ob" if "obj_get (os_objects ?t) i = Some ob" for i ob
    using tables_soundD(1)[OF ok, of i ob] that object_sound_ws[of ?t s] by simp
  show "reservation_sound ?t i r" if "obj_get (os_reservations ?t) i = Some r" for i r
    using tables_soundD(2)[OF ok, of i r] that by (simp add: reservation_sound_def ref_ok_def split: option.split_asm option.split)
  show "draft_sound ?t i x" if "obj_get (os_drafts ?t) i = Some x" for i x
    using tables_soundD(3)[OF ok, of i x] that d by (auto simp: draft_sound_def split: if_split_asm)
  show "count (tokens ?t) t \<le> 1" for t using tables_sound_wf(3)[OF ok] tokens_cong[of ?t s] by simp
qed (use ok tables_sound_wf in auto)

text \<open>A changed or a new object.\<close>

lemma put_object_sound:
  assumes ok: "tables_sound s" and ob: "object_sound s k ob"
    and grows: "\<And>w. obj_get (os_objects s) k = Some w \<Longrightarrow> object_grows w ob"
    and free: "obj_get (os_objects s) k = None \<Longrightarrow> \<forall>j p. obj_get (os_reservations s) j = Some p \<longrightarrow> rs_object_id p \<noteq> k"
    and unique: "\<And>t. count (tokens (s\<lparr>os_objects := obj_put (os_objects s) k ob\<rparr>)) t \<le> 1"
  shows "tables_sound (s\<lparr>os_objects := obj_put (os_objects s) k ob\<rparr>)" (is "tables_sound ?t")
proof -
  have g: "state_grows s ?t" using grows by (auto simp: state_grows_def)
  show ?thesis
  proof (rule tables_soundI)
    show "object_sound ?t i x" if "obj_get (os_objects ?t) i = Some x" for i x
      using tables_soundD(1)[OF ok, of i x] that ob object_sound_ws[of ?t s] by (auto split: if_split_asm)
    show "reservation_sound ?t i r" if "obj_get (os_reservations ?t) i = Some r" for i r
    proof -
      have r: "obj_get (os_reservations s) i = Some r" using that by simp
      show ?thesis
      proof (cases "rs_base r")
        case None
        then have "rs_object_id r \<noteq> k"
          using tables_soundD(2)[OF ok r] free r by (cases "obj_get (os_objects s) k") (auto simp: reservation_sound_def)
        then show ?thesis using tables_soundD(2)[OF ok r] None by (simp add: reservation_sound_def)
      next
        case (Some b)
        then show ?thesis using pending_update_grows[OF tables_soundD(2)[OF ok r] g] by simp
      qed
    qed
    show "draft_sound ?t i d" if "obj_get (os_drafts ?t) i = Some d" for i d
      using draft_sound_grows[OF tables_soundD(3)[OF ok, of i d] g] that by simp
  qed (use unique ok tables_sound_wf in auto)
qed

section \<open>The events\<close>

abbreviation history_tokens :: "household_object \<Rightarrow> string multiset" where
  "history_tokens ob \<equiv> image_mset (\<lambda>r. rr_token (rv_revision r)) (mset (ho_history ob))"

lemma tokens_sum: "tokens s = obj_sum history_tokens (os_objects s)"
proof -
  have "image_mset f (sum_list (map g xs)) = sum_list (map (\<lambda>x. image_mset f (g x)) xs)" for f :: "revision \<Rightarrow> string" and g and xs :: "household_object list"
    by (induction xs) simp_all
  then show ?thesis by (simp add: tokens_def revisions_sum obj_sum_def)
qed

lemma token_free: "\<not> token_used s t \<Longrightarrow> count (tokens s) t = 0"
  by (auto simp: token_used_def tokens_def list_ex_iff count_eq_zero_iff)

text \<open>What a new revision does to the tokens.\<close>

lemma tokens_append:
  assumes "case obj_get (os_objects s) k of None \<Rightarrow> ho_history ob = [r] | Some w \<Rightarrow> ho_history ob = ho_history w @ [r]"
  shows "tokens (s\<lparr>os_objects := obj_put (os_objects s) k ob\<rparr>) = tokens s + {#rr_token (rv_revision r)#}"
proof (cases "obj_get (os_objects s) k")
  case None
  then show ?thesis using assms by (simp add: tokens_sum obj_sum_new)
next
  case (Some w)
  have "tokens (s\<lparr>os_objects := obj_put (os_objects s) k ob\<rparr>) + history_tokens w = tokens s + history_tokens ob"
    using obj_sum_put[OF Some, of history_tokens ob] by (simp add: tokens_sum)
  then show ?thesis using assms Some by simp
qed

lemma tokens_same_history:
  assumes "obj_get (os_objects s) k = Some w" "ho_history ob = ho_history w"
  shows "tokens (s\<lparr>os_objects := obj_put (os_objects s) k ob\<rparr>) = tokens s"
  using obj_sum_put[OF assms(1), of history_tokens ob] assms(2) by (simp add: tokens_sum)

definition object_with :: "household_object option \<Rightarrow> string \<Rightarrow> revision \<Rightarrow> household_object" where
  "object_with current i r = \<lparr>ho_object_id = i, ho_kind = rv_kind r,
     ho_history = (case current of None \<Rightarrow> [] | Some ob \<Rightarrow> ho_history ob) @ [r],
     ho_certification = Option.bind current ho_certification\<rparr>"

lemma apply_revision_Inr:
  assumes "apply_revision s e created r rid = Inr s1"
  obtains rs where
    "release_reservation s e rid (rr_object_id (rv_revision r)) (rv_parent r) (rv_blob r) = Inr rs"
    "s1 = s\<lparr>os_reservations := rs, os_objects := obj_put (os_objects s) (rr_object_id (rv_revision r))
       (object_with (obj_get (os_objects s) (rr_object_id (rv_revision r))) (rr_object_id (rv_revision r)) r)\<rparr>"
    "ref_ok s (rv_revision r) (rr_object_id (rv_revision r))" "metadata_ok (rv_kind r) (rv_file_metadata r)" "revision_ok s e r"
    "if created then obj_get (os_objects s) (rr_object_id (rv_revision r)) = None \<and> rv_parent r = None
     else (\<exists>ob. obj_get (os_objects s) (rr_object_id (rv_revision r)) = Some ob \<and> ho_kind ob = rv_kind r \<and>
       Some (newest_ref ob) = rv_parent r)"
    "created \<longrightarrow> (\<forall>p \<in> set (obj_values (os_reservations s)). rs_object_id p = rr_object_id (rv_revision r) \<longrightarrow>
       Some (rs_reservation_id p) = rid)"
    "oc_outcome (ov_receipt e) = ObjectCommitted (rr_object_id (rv_revision r)) (rv_revision r)"
proof -
  have f: "(if created then obj_get (os_objects s) (rr_object_id (rv_revision r)) = None \<and> rv_parent r = None
     else (\<exists>ob. obj_get (os_objects s) (rr_object_id (rv_revision r)) = Some ob \<and> ho_kind ob = rv_kind r \<and>
       Some (newest_ref ob) = rv_parent r))"
    using assms by (auto simp: apply_revision_def Let_def split: option.split_asm if_split_asm)
  note a = assms[unfolded apply_revision_def Let_def ensure_Inr bind_result_Inr]
  from a obtain rs where rs:
    "release_reservation s e rid (rr_object_id (rv_revision r)) (rv_parent r) (rv_blob r) = Inr rs"
    "s1 = s\<lparr>os_reservations := rs, os_objects := obj_put (os_objects s) (rr_object_id (rv_revision r))
       (object_with (obj_get (os_objects s) (rr_object_id (rv_revision r))) (rr_object_id (rv_revision r)) r)\<rparr>"
    unfolding object_with_def by blast
  show thesis by (rule that[OF rs _ _ _ f]) (use a in simp_all)
qed

lemma revision_ok_sound:
  assumes "revision_ok s e r" "ref_ok s (rv_revision r) i" "metadata_ok (rv_kind r) (rv_file_metadata r)"
    "os_ws t = os_ws s" "ho_object_id ob = i" "ho_kind ob = rv_kind r"
  shows "revision_sound t ob r"
  using assms by (simp add: revision_ok_def revision_sound_def ref_ok_def)

lemma object_with_sound:
  assumes "revision_ok s e r" "ref_ok s (rv_revision r) i" "metadata_ok (rv_kind r) (rv_file_metadata r)"
    and cur: "case current of None \<Rightarrow> rv_parent r = None
      | Some w \<Rightarrow> object_sound s i w \<and> ho_kind w = rv_kind r \<and> Some (newest_ref w) = rv_parent r"
    and i: "i = rr_object_id (rv_revision r)" and ws: "os_ws t = os_ws s"
  shows "object_sound t i (object_with current i r)"
proof -
  have new: "revision_sound t (object_with current i r) r"
    by (rule revision_ok_sound[OF assms(1-3) ws]) (simp_all add: object_with_def)
  have ne: "i \<noteq> []" using assms(1) i by (simp add: revision_ok_def)
  show ?thesis
  proof (cases current)
    case None
    then show ?thesis using new cur ne by (simp add: object_sound_def object_with_def)
  next
    case (Some w)
    have w: "object_sound t i w" "ho_kind w = rv_kind r" "Some (newest_ref w) = rv_parent r"
      using cur Some object_sound_ws[OF ws] by simp_all
    have "revision_sound t (object_with current i r) x" if "x \<in> set (ho_history w)" for x
      using w(1,2) that by (auto simp: object_sound_def revision_sound_def object_with_def)
    then show ?thesis
      using w new ne by (auto simp: object_sound_def object_with_def Some linked_append newest_ref_def committed_refs_def)
  qed
qed

lemma apply_revision_ok:
  assumes ok: "tables_sound s" and a: "apply_revision s e created r rid = Inr s1"
  shows "tables_sound s1" "state_grows s s1"
proof -
  let ?i = "rr_object_id (rv_revision r)" and ?cur = "obj_get (os_objects s) (rr_object_id (rv_revision r))"
  obtain rs where f: "release_reservation s e rid ?i (rv_parent r) (rv_blob r) = Inr rs"
    "s1 = s\<lparr>os_reservations := rs, os_objects := obj_put (os_objects s) ?i (object_with ?cur ?i r)\<rparr>"
    "ref_ok s (rv_revision r) ?i" "metadata_ok (rv_kind r) (rv_file_metadata r)" "revision_ok s e r"
    "if created then ?cur = None \<and> rv_parent r = None
     else (\<exists>ob. ?cur = Some ob \<and> ho_kind ob = rv_kind r \<and> Some (newest_ref ob) = rv_parent r)"
    "created \<longrightarrow> (\<forall>p \<in> set (obj_values (os_reservations s)). rs_object_id p = ?i \<longrightarrow> Some (rs_reservation_id p) = rid)"
    "oc_outcome (ov_receipt e) = ObjectCommitted ?i (rv_revision r)"
    by (rule apply_revision_Inr[OF a])
  let ?t = "s\<lparr>os_reservations := rs\<rparr>"
  have t: "tables_sound ?t" by (rule release_sound(1)[OF ok f(1)])
  have cur: "case ?cur of None \<Rightarrow> rv_parent r = None
      | Some w \<Rightarrow> object_sound s ?i w \<and> ho_kind w = rv_kind r \<and> Some (newest_ref w) = rv_parent r"
    using f(6) tables_soundD(1)[OF ok, of ?i] by (auto split: if_split_asm option.split)
  have ob: "object_sound ?t ?i (object_with ?cur ?i r)" by (rule object_with_sound[OF f(5,3,4) cur]) simp_all
  have grows: "object_grows w (object_with ?cur ?i r)" if "?cur = Some w" for w
    using that cur by (simp add: object_grows_def object_with_def object_sound_def)
  have free: "rs_object_id p \<noteq> ?i" if "?cur = None" "obj_get rs j = Some p" for j p
  proof
    assume i: "rs_object_id p = ?i"
    have p: "obj_get (os_reservations s) j = Some p" "rid \<noteq> Some j" using release_sound(2,3)[OF ok f(1) that(2)] by auto
    have "created" using f(6) that(1) by (simp split: if_split_asm)
    then have "Some (rs_reservation_id p) = rid" using f(7) obj_get_values[OF p(1)] i by blast
    then show False using tables_soundD(2)[OF ok p(1)] p(2) by (simp add: reservation_sound_def)
  qed
  have tk: "tokens (?t\<lparr>os_objects := obj_put (os_objects ?t) ?i (object_with ?cur ?i r)\<rparr>) = tokens ?t + {#rr_token (rv_revision r)#}"
    by (rule tokens_append) (simp add: object_with_def split: option.split)
  have "count (tokens s) (rr_token (rv_revision r)) = 0" using f(5) by (simp add: revision_ok_def token_free)
  then have uniq: "count (tokens (?t\<lparr>os_objects := obj_put (os_objects ?t) ?i (object_with ?cur ?i r)\<rparr>)) x \<le> 1" for x
    using tables_sound_wf(3)[OF ok, of x] tokens_cong[of ?t s] unfolding tk
    by (cases "x = rr_token (rv_revision r)") auto
  have s1: "s1 = ?t\<lparr>os_objects := obj_put (os_objects ?t) ?i (object_with ?cur ?i r)\<rparr>" by (simp add: f(2))
  show "tables_sound s1" unfolding s1 by (rule put_object_sound[OF t ob _ _ uniq]) (use grows free in auto)
  show "state_grows s s1" using grows by (auto simp: state_grows_def f(2))
qed

lemma apply_reserved_ok:
  assumes ok: "tables_sound s" and a: "apply_reserved s e r = Inr s1"
  shows "tables_sound s1" "state_grows s s1"
proof -
  note f = a[unfolded apply_reserved_def Let_def ensure_Inr]
  have s1: "s1 = s\<lparr>os_reservations := obj_put (os_reservations s) (rs_reservation_id r) r\<rparr>" using f by simp
  have fields: "reservation_fields_ok s e r" "metadata_ok (rs_kind r) (rs_file_metadata r)" using f by simp_all
  have none: "\<forall>p \<in> set (obj_values (os_reservations s)). rs_object_id p \<noteq> rs_object_id r"
    "obj_get (os_objects s) (rs_object_id r) = None" if "rs_base r = None"
  proof -
    have c: "current_for s (rs_object_id r) = None" and
      "\<forall>p \<in> set (obj_values (os_reservations s)). rs_object_id p \<noteq> rs_object_id r" using f that by simp_all
    then show "\<forall>p \<in> set (obj_values (os_reservations s)). rs_object_id p \<noteq> rs_object_id r" by blast
    show "obj_get (os_objects s) (rs_object_id r) = None"
      using c tables_soundD(1)[OF ok, of "rs_object_id r"] newest_sound(2)
      by (cases "obj_get (os_objects s) (rs_object_id r)") (auto simp: current_for_def)
  qed
  have some: "ref_ok s b (rs_object_id r) \<and> (\<exists>ob. obj_get (os_objects s) (rs_object_id r) = Some ob \<and>
      ho_kind ob = rs_kind r \<and> b \<in> committed_refs ob)" if b: "rs_base r = Some b" for b
  proof -
    obtain c where c: "current_for s (rs_object_id r) = Some c" "rv_revision c = b" "rv_kind c = rs_kind r"
      using f b by (auto split: option.split_asm)
    obtain ob where ob: "obj_get (os_objects s) (rs_object_id r) = Some ob" "newest ob = Some c"
      using c(1) by (cases "obj_get (os_objects s) (rs_object_id r)") (auto simp: current_for_def)
    have snd: "object_sound s (rs_object_id r) ob" by (rule tables_soundD(1)[OF ok ob(1)])
    have "c = last (ho_history ob)" using newest_sound(2)[OF snd] ob(2) by simp
    then have "c \<in> set (ho_history ob)" using newest_in[OF snd] by simp
    then have "b \<in> committed_refs ob" "rv_kind c = ho_kind ob"
      using snd c(2) by (auto simp: committed_refs_def object_sound_def revision_sound_def)
    then show ?thesis using f b ob(1) c(3) by simp
  qed
  have "reservation_sound s1 (rs_reservation_id r) r"
  proof (cases "rs_base r")
    case None
    have "rs_object_id p \<noteq> rs_object_id r" if "obj_get (os_reservations s) j = Some p" for j p
      using none(1)[OF None] obj_get_values[OF that] by blast
    then show ?thesis using fields none(2)[OF None] None
      by (auto simp: reservation_sound_def reservation_fields_ok_def s1)
  next
    case (Some b)
    then show ?thesis using fields some[OF Some] by (auto simp: reservation_sound_def reservation_fields_ok_def s1 ref_ok_def)
  qed
  then show "tables_sound s1"
    unfolding s1 by (intro new_reservation_sound[OF ok]) (use fields none some in \<open>auto simp: reservation_fields_ok_def\<close>)
  show "state_grows s s1" by (auto simp: state_grows_def s1)
qed

lemma apply_released_ok:
  assumes ok: "tables_sound s" and a: "apply_released s e rid = Inr s1"
  shows "tables_sound s1" "state_grows s s1"
proof -
  have s1: "s1 = s\<lparr>os_reservations := obj_delete (os_reservations s) rid\<rparr>" using a by (simp add: apply_released_def)
  show "tables_sound s1" unfolding s1
    by (rule fewer_reservations_sound[OF ok]) (use tables_sound_wf[OF ok] in \<open>auto split: if_split_asm\<close>)
  show "state_grows s s1" by (auto simp: state_grows_def s1)
qed

lemma conflict_okD:
  "conflict_ok s d \<Longrightarrow> \<exists>ob. obj_get (os_objects s) (hd_object_id d) = Some ob \<and> ho_kind ob = hd_kind d \<and>
     newest_ref ob = hd_current d \<and> hd_base d \<noteq> hd_current d \<and> hd_base d \<in> committed_refs ob"
  by (cases "obj_get (os_objects s) (hd_object_id d)") (auto simp: conflict_ok_def committed_refs_def list_ex_iff dest!: sym[of "rv_revision _"])

lemma apply_draft_ok:
  assumes ok: "tables_sound s" and a: "apply_draft s e d rid = Inr s1"
  shows "tables_sound s1" "state_grows s s1"
proof -
  note f = a[unfolded apply_draft_def Let_def ensure_Inr bind_result_Inr]
  obtain rs where rs: "release_reservation s e rid (hd_object_id d) (Some (hd_base d)) (hd_proposed d) = Inr rs"
    "s1 = s\<lparr>os_reservations := rs, os_drafts := obj_put (os_drafts s) (hd_draft_id d) d\<rparr>" using f by blast
  obtain ob where ob: "obj_get (os_objects s) (hd_object_id d) = Some ob" "ho_kind ob = hd_kind d"
    "newest_ref ob = hd_current d" "hd_base d \<noteq> hd_current d" "hd_base d \<in> committed_refs ob"
    using conflict_okD f by blast
  have fields: "draft_fields_ok s e d" using f by simp
  have cur: "hd_current d \<in> committed_refs ob" using newest_sound(1)[OF tables_soundD(1)[OF ok ob(1)]] ob(3) by simp
  let ?t = "s\<lparr>os_reservations := rs\<rparr>"
  have "draft_sound ?t (hd_draft_id d) d" using ob cur by (simp add: draft_sound_def)
  from new_draft_sound[OF release_sound(1)[OF ok rs(1)] this] show "tables_sound s1" by (simp add: rs(2))
  show "state_grows s s1" using fields by (auto simp: state_grows_def rs(2) draft_fields_ok_def)
qed

lemma apply_certified_ok:
  assumes ok: "tables_sound s" and a: "apply_certified s e i ref = Inr s1"
  shows "tables_sound s1" "state_grows s s1"
proof -
  obtain ob where ob: "obj_get (os_objects s) i = Some ob"
    using a by (cases "obj_get (os_objects s) i") (simp_all add: apply_certified_def Let_def)
  define c where "c = \<lparr>cx_revision = ref, cx_certified_by = the (ov_actor_user e), cx_certified_at = ov_occurred_at e\<rparr>"
  have snd: "object_sound s i ob" by (rule tables_soundD(1)[OF ok ob])
  have f: "ho_kind ob = DefinitionKind" "newest_ref ob = ref"
    "s1 = s\<lparr>os_objects := obj_put (os_objects s) i (ob\<lparr>ho_certification := Some c\<rparr>)\<rparr>"
    using a snd by (simp_all add: apply_certified_def Let_def ob c_def object_sound_def)
  have new: "object_sound s i (ob\<lparr>ho_certification := Some c\<rparr>)"
    using snd f(1,2) newest_sound(1)[OF snd]
    by (auto simp: object_sound_def c_def committed_refs_def revision_sound_def)
  have tk: "tokens s1 = tokens s" unfolding f(3) by (rule tokens_same_history[OF ob]) simp
  show "tables_sound s1" unfolding f(3)
  proof (rule put_object_sound[OF ok new])
    show "count (tokens (s\<lparr>os_objects := obj_put (os_objects s) i (ob\<lparr>ho_certification := Some c\<rparr>)\<rparr>)) t \<le> 1" for t
      using tables_sound_wf(3)[OF ok, of t] tk f(3) by simp
  qed (use ob in \<open>auto simp: object_grows_def\<close>)
  show "state_grows s s1" using ob by (auto simp: state_grows_def f(3) object_grows_def)
qed

lemma apply_object_body_ok:
  assumes "tables_sound s" "apply_object_body s e = Inr s1"
  shows "tables_sound s1" "state_grows s s1"
proof -
  have "tables_sound s1 \<and> state_grows s s1"
    using assms by (cases "ov_body e")
      (auto simp: apply_object_body_def dest: apply_revision_ok apply_reserved_ok apply_released_ok apply_draft_ok apply_certified_ok)
  then show "tables_sound s1" "state_grows s s1" by blast+
qed

text \<open>No event but its own touches the receipts, the sequence number, the workspace or the stream.\<close>

lemma apply_object_body_frame:
  assumes "apply_object_body s e = Inr s1"
  shows "os_receipts s1 = os_receipts s" "os_last_seq s1 = os_last_seq s" "os_ws s1 = os_ws s" "os_stream s1 = os_stream s"
proof -
  have "os_receipts s1 = os_receipts s \<and> os_last_seq s1 = os_last_seq s \<and> os_ws s1 = os_ws s \<and> os_stream s1 = os_stream s"
    using assms by (cases "ov_body e")
      (auto simp: apply_object_body_def apply_revision_def apply_reserved_def apply_released_def apply_draft_def
        apply_certified_def Let_def bind_result_Inr split: option.split_asm)
  then show "os_receipts s1 = os_receipts s" "os_last_seq s1 = os_last_seq s" "os_ws s1 = os_ws s" "os_stream s1 = os_stream s"
    by blast+
qed

abbreviation receipt_key_of :: "object_event \<Rightarrow> string" where
  "receipt_key_of e \<equiv> receiptKey (oc_principal (ov_receipt e)) (oc_command_id (ov_receipt e))"

lemma reduceHouseholdObject_Inr:
  assumes "reduceHouseholdObject h s e = Inr s'"
  obtains s1 where "object_envelope_ok h s e" "object_receipt_ok s e" "apply_object_body s e = Inr s1"
    "s' = s1\<lparr>os_last_seq := ov_seq e, os_receipts := obj_put (os_receipts s) (receipt_key_of e) (ov_receipt e)\<rparr>"
    "object_quota_ok s'"
proof -
  have "object_envelope_ok h s e \<and> object_receipt_ok s e \<and> (\<exists>s1. apply_object_body s e = Inr s1 \<and>
     s' = s1\<lparr>os_last_seq := ov_seq e, os_receipts := obj_put (os_receipts s) (receipt_key_of e) (ov_receipt e)\<rparr> \<and> object_quota_ok s')"
    using assms by (cases "ov_body e") (auto simp: reduceHouseholdObject_def Let_def bind_result_Inr)
  then show thesis using that by blast
qed

lemma reduceHouseholdObject_ok:
  assumes ok: "object_state_ok s" and r: "reduceHouseholdObject h s e = Inr s'"
  shows "object_state_ok s'" "state_grows s s'"
proof -
  obtain s1 where f: "object_envelope_ok h s e" "object_receipt_ok s e" "apply_object_body s e = Inr s1"
    "s' = s1\<lparr>os_last_seq := ov_seq e, os_receipts := obj_put (os_receipts s) (receipt_key_of e) (ov_receipt e)\<rparr>"
    "object_quota_ok s'"
    by (rule reduceHouseholdObject_Inr[OF r])
  have t: "tables_sound s" using ok by (simp add: object_state_ok_def)
  show "object_state_ok s'"
    using apply_object_body_ok(1)[OF t f(3)] f(5) tables_sound_frame[of s' s1] by (simp add: object_state_ok_def f(4))
  show "state_grows s s'"
    using apply_object_body_ok(2)[OF t f(3)] apply_object_body_frame[OF f(3)] f(1,2)
    by (auto simp: state_grows_def f(4) object_envelope_ok_def object_receipt_ok_def Let_def)
qed

lemma reduceHouseholdObjectStream_ok:
  "reduceHouseholdObjectStream h s es = Inr s' \<Longrightarrow> object_state_ok s \<Longrightarrow> object_state_ok s' \<and> state_grows s s'"
proof (induction es arbitrary: s)
  case (Cons e es)
  obtain t where t: "reduceHouseholdObject h s e = Inr t" "reduceHouseholdObjectStream h t es = Inr s'"
    using Cons.prems(1) by (auto simp: bind_result_Inr)
  show ?case
    using Cons.IH[OF t(2)] reduceHouseholdObject_ok[OF Cons.prems(2) t(1)] state_grows_trans by blast
qed simp

end
