(* ===== verification/ObjectReading.thy ===== *)
theory ObjectReading
  imports ObjectInvariant
begin

text \<open>
  Reading: following \<open>next_offset\<close> from the first page visits every visible object once, in the order of the
  ids; what a reader may see.
\<close>

interpretation by_id: sort_order object_before "{ob. obj_get objects (ho_object_id ob) = Some ob}" for objects
  by unfold_locales (auto simp: object_before_def, metis linorder_less_linear option.inject)

lemma list_page:
  "readHouseholdObjects (ObjectList offset limit kinds) s access now = ObjectPage es nxt \<Longrightarrow>
     es = map entry_of (page_of offset limit (visible_objects s kinds)) \<and>
     nxt = next_offset offset limit (visible_objects s kinds) \<and> page_ok offset limit"
  by (simp add: readHouseholdObjects_def Let_def split: option.split_asm if_split_asm)

text \<open>A reader who asks for page after page.\<close>

function walk_pages :: "object_state \<Rightarrow> household_access \<Rightarrow> jsnum \<Rightarrow> object_kind option \<Rightarrow> int \<Rightarrow> int \<Rightarrow> object_entry list" where
  "walk_pages s access now kinds limit offset =
     (case readHouseholdObjects (ObjectList offset limit kinds) s access now of
        ObjectPage entries next_page \<Rightarrow> entries @
          (case next_page of None \<Rightarrow> [] | Some k \<Rightarrow> walk_pages s access now kinds limit k)
      | _ \<Rightarrow> [])"
  by pat_completeness auto

termination
proof (relation "measure (\<lambda>(s, access, now, kinds, limit, offset). nat (int (length (visible_objects s kinds)) - offset))")
  fix s access now kinds limit offset es nxt k
  assume "readHouseholdObjects (ObjectList offset limit kinds) s access now = ObjectPage es nxt" "nxt = Some k"
  then show "((s, access, now, kinds, limit, k), (s, access, now, kinds, limit, offset)) \<in>
      measure (\<lambda>(s, access, now, kinds, limit, offset). nat (int (length (visible_objects s kinds)) - offset))"
    using list_page[of offset limit kinds s access now es nxt]
    by (auto simp: next_offset_def page_ok_def split: if_split_asm)
qed simp

lemma visible_objects_set:
  assumes "tables_sound s"
  shows "set (visible_objects s kinds) = {ob. \<exists>i. obj_get (os_objects s) i = Some ob \<and> kind_visible (ho_kind ob) kinds}"
  using obj_values_wf[OF tables_sound_wf(1)[OF assms]] by (auto simp: visible_objects_def)

lemma distinct_objects: "tables_sound s \<Longrightarrow> distinct (map ho_object_id (obj_values (os_objects s)))"
proof -
  assume ok: "tables_sound s"
  have "ho_object_id v = k" if "(k, v) \<in> set (os_objects s)" for k v
    using tables_soundD(1)[OF ok, of k v] tables_sound_wf(1)[OF ok] that by (simp add: obj_get_def obj_wf_def object_sound_def)
  then have "map ho_object_id (obj_values (os_objects s)) = map fst (os_objects s)"
    by (auto simp: obj_values_def)
  then show ?thesis using tables_sound_wf(1)[OF ok] by (simp add: obj_wf_def)
qed

lemma visible_objects_sorted:
  assumes "tables_sound s" shows "sorted_wrt object_before (visible_objects s kinds)"
  unfolding visible_objects_def
proof (rule by_id.sorted_sort[where objects = "os_objects s"])
  show "set (filter (\<lambda>ob. kind_visible (ho_kind ob) kinds) (obj_values (os_objects s))) \<subseteq>
      {ob. obj_get (os_objects s) (ho_object_id ob) = Some ob}"
    using obj_values_get[OF tables_sound_wf(1)[OF assms]] tables_soundD(1)[OF assms] by (fastforce simp: object_sound_def)
  show "distinct (filter (\<lambda>ob. kind_visible (ho_kind ob) kinds) (obj_values (os_objects s)))"
    using distinct_objects[OF assms] by (simp add: distinct_map)
qed

lemma visible_objects_length:
  assumes "object_state_ok s" shows "length (visible_objects s kinds) \<le> HOUSEHOLD_OBJECT_LIMIT"
proof -
  have ok: "tables_sound s" "object_quota_ok s" using assms by (simp_all add: object_state_ok_def)
  have "length (visible_objects s kinds) \<le> length (obj_values (os_objects s))" by (simp add: visible_objects_def)
  also have "\<dots> = card (set (obj_keys (os_objects s)))"
    using tables_sound_wf(1)[OF ok(1)] distinct_card[of "obj_keys (os_objects s)"]
    by (simp add: obj_wf_def obj_keys_def obj_values_def)
  also have "\<dots> \<le> card (usage_names s)" by (rule card_mono) (auto simp: usage_names_def)
  finally show ?thesis using ok(2) by (simp add: object_quota_ok_def householdObjectUsage_def)
qed

lemma walk_pages_all:
  assumes "object_state_ok s" "householdAccessRefusal access (os_ws s) ReadContent now = None" "0 < limit" "safe_integer limit"
    and "0 \<le> offset" "offset \<le> int (length (visible_objects s kinds))"
  shows "walk_pages s access now kinds limit offset = map entry_of (drop (nat offset) (visible_objects s kinds))"
  using assms(5,6)
proof (induction "nat (int (length (visible_objects s kinds)) - offset)" arbitrary: offset rule: less_induct)
  case less
  let ?all = "visible_objects s kinds"
  have "page_ok offset limit"
    using less.prems visible_objects_length[OF assms(1), of kinds] assms(3,4)
    by (simp add: page_ok_def nonnegative_def safe_integer_def HOUSEHOLD_OBJECT_LIMIT_def)
  then have r: "readHouseholdObjects (ObjectList offset limit kinds) s access now =
      ObjectPage (map entry_of (page_of offset limit ?all)) (next_offset offset limit ?all)"
    using assms(2) by (simp add: readHouseholdObjects_def Let_def)
  show ?case
  proof (cases "offset + limit < int (length ?all)")
    case True
    have n: "nat (offset + limit) = nat limit + nat offset" using less.prems assms(3) by simp
    have "walk_pages s access now kinds limit (offset + limit) = map entry_of (drop (nat (offset + limit)) ?all)"
      using less.hyps[of "offset + limit"] True less.prems assms(3) by simp
    then have "walk_pages s access now kinds limit offset =
        map entry_of (take (nat limit) (drop (nat offset) ?all)) @ map entry_of (drop (nat (offset + limit)) ?all)"
      using r True by (subst walk_pages.simps) (simp add: next_offset_def page_of_def)
    also have "\<dots> = map entry_of (drop (nat offset) ?all)"
      unfolding n drop_drop[symmetric] map_append[symmetric] append_take_drop_id ..
    finally show ?thesis .
  next
    case False
    then show ?thesis using r less.prems
      by (subst walk_pages.simps) (simp add: next_offset_def page_of_def)
  qed
qed

end
