(* ===== verification/ObjectTerms.thy ===== *)
theory ObjectTerms
  imports ObjectData "HOL-Library.Sublist"
begin

text \<open>
  The matching of a definition's term against a question, and the reference definition it implements:
  the search in space-joined text is the search for a contiguous run of words.
\<close>

section \<open>The words of a text\<close>

lemma word_runs_words:
  "w \<in> set (word_runs p run cs) \<Longrightarrow> \<forall>c \<in> set run. p c \<Longrightarrow> w \<noteq> [] \<and> (\<forall>c \<in> set w. p c)"
proof (induction cs arbitrary: run)
  case Nil
  then show ?case by (cases run) auto
next
  case (Cons c cs)
  show ?case
  proof (cases "p c")
    case True
    then show ?thesis using Cons.IH[of "c # run"] Cons.prems by simp
  next
    case False
    then show ?thesis using Cons.IH[of "[]"] Cons.prems by (cases "run = []") auto
  qed
qed

definition words_ok :: "nat list list \<Rightarrow> bool" where
  "words_ok ws \<longleftrightarrow> (\<forall>w \<in> set ws. w \<noteq> [] \<and> 32 \<notin> set w)"

lemma definition_words_ok: "\<not> oh_word_char h 32 \<Longrightarrow> words_ok (definitionWords h s)"
  using word_runs_words[of _ "oh_word_char h" "[]"] by (auto simp: words_ok_def definitionWords_def)

section \<open>Searching in joined text\<close>

lemma contains_text_iff: "contains_text s t \<longleftrightarrow> (\<exists>p q. s = p @ t @ q)"
proof (induction s t rule: contains_text.induct)
  case (2 c s t)
  have "take (length t) (c # s) = t \<longleftrightarrow> (\<exists>q. c # s = t @ q)"
    by (metis append_eq_conv_conj append_take_drop_id)
  moreover have "(\<exists>p q. c # s = p @ t @ q) \<longleftrightarrow> (\<exists>q. c # s = t @ q) \<or> (\<exists>p q. s = p @ t @ q)"
    by (auto simp: Cons_eq_append_conv)
  ultimately show ?case using 2 by simp
qed auto

text \<open>Each word after a space.\<close>

definition spaced :: "nat list list \<Rightarrow> nat list" where
  "spaced ws = concat (map ((#) 32) ws)"

lemma spaced_simps [simp]: "spaced [] = []" "spaced (w # ws) = 32 # w @ spaced ws" "spaced (us @ vs) = spaced us @ spaced vs"
  by (simp_all add: spaced_def)

lemma join_spaced: "ws \<noteq> [] \<Longrightarrow> 32 # join_words ws = spaced ws"
  by (induction ws rule: join_words.induct) auto

lemma takeWhile_word: "32 \<notin> set w \<Longrightarrow> xs \<noteq> [] \<Longrightarrow> hd xs = 32 \<Longrightarrow> takeWhile (\<lambda>c. c \<noteq> 32) (w @ xs) = w"
  by (induction w) (cases xs; auto)+

lemma split_at_space:
  assumes "w @ xs = a @ ys" "32 \<notin> set w" "32 \<notin> set a" "xs \<noteq> []" "hd xs = 32" "ys \<noteq> []" "hd ys = (32::nat)"
  shows "w = a \<and> xs = ys"
proof -
  have "takeWhile (\<lambda>c. c \<noteq> 32) (w @ xs) = w" by (rule takeWhile_word[OF assms(2,4,5)])
  moreover have "takeWhile (\<lambda>c. c \<noteq> 32) (a @ ys) = a" by (rule takeWhile_word[OF assms(3,6,7)])
  ultimately show ?thesis using assms(1) by auto
qed

lemma spaced_hd: "spaced ws @ 32 # q \<noteq> []" "hd (spaced ws @ 32 # q) = 32"
  by (cases ws; simp)+

lemma spaced_prefix:
  assumes "spaced ws @ 32 # q = spaced as @ [32]" "words_ok ws" "words_ok as"
  shows "prefix ws as"
  using assms
proof (induction ws arbitrary: as)
  case (Cons w ws)
  have w: "w \<noteq> []" "32 \<notin> set w" "words_ok ws" using Cons.prems(2) by (simp_all add: words_ok_def)
  obtain a as' where as: "as = a # as'" using Cons.prems(1) w(1) by (cases as) auto
  have a: "32 \<notin> set a" "words_ok as'" using Cons.prems(3) by (simp_all add: words_ok_def as)
  have "w @ (spaced ws @ 32 # q) = a @ (spaced as' @ [32])" using Cons.prems(1) by (simp add: as)
  from split_at_space[OF this w(2) a(1) spaced_hd spaced_hd]
  show ?case using Cons.IH[OF _ w(3) a(2)] by (simp add: as)
qed simp

lemma spaced_sublist:
  assumes "p @ spaced ws @ 32 # q = spaced as @ [32]" "words_ok ws" "words_ok as" "ws \<noteq> []"
  shows "sublist ws as"
  using assms
proof (induction as arbitrary: p)
  case Nil
  then obtain w vs where "ws = w # vs" "w \<noteq> []" by (cases ws) (auto simp: words_ok_def)
  then show ?case using Nil.prems(1) by (cases p) auto
next
  case (Cons a as)
  have a: "32 \<notin> set a" "words_ok as" using Cons.prems(3) by (simp_all add: words_ok_def)
  show ?case
  proof (cases p)
    case Nil
    then have "prefix ws (a # as)" using spaced_prefix[OF _ Cons.prems(2,3)] Cons.prems(1) by simp
    then show ?thesis by (rule prefix_imp_sublist)
  next
    case (Cons c p')
    have "p' @ (spaced ws @ 32 # q) = a @ (spaced as @ [32])" using Cons.prems(1) Cons by simp
    from iffD1[OF append_eq_append_conv2 this] obtain us where "p' = a @ us \<and> us @ (spaced ws @ 32 # q) = spaced as @ [32] \<or>
        p' @ us = a \<and> spaced ws @ 32 # q = us @ (spaced as @ [32])"
      by blast
    then show ?thesis
    proof
      assume "p' = a @ us \<and> us @ (spaced ws @ 32 # q) = spaced as @ [32]"
      then show ?thesis using Cons.IH[OF _ Cons.prems(2) a(2) Cons.prems(4), of us] by (simp add: sublist_Cons_right)
    next
      assume u: "p' @ us = a \<and> spaced ws @ 32 # q = us @ (spaced as @ [32])"
      have "us = []"
      proof (rule ccontr)
        assume ne: "us \<noteq> []"
        then have "hd (spaced ws @ 32 # q) = hd us" using u by simp
        then have "32 \<in> set us" using spaced_hd(2)[of ws q] ne by (metis hd_in_set)
        then show False using u a(1) by auto
      qed
      then show ?thesis using spaced_prefix[of ws q as] u Cons.prems(2) a(2)
        by (simp add: sublist_Cons_right prefix_imp_sublist)
    qed
  qed
qed

lemma phrase_match:
  assumes "words_ok ws" "words_ok as" "ws \<noteq> []"
  shows "contains_text (32 # join_words as @ [32]) (32 # join_words ws @ [32]) \<longleftrightarrow> sublist ws as"
proof -
  have ws: "32 # join_words ws @ [32] = spaced ws @ [32]" using join_spaced[OF assms(3)] by simp
  show ?thesis
  proof (cases "as = []")
    case True
    obtain w vs where "ws = w # vs" "w \<noteq> []" using assms(1,3) by (cases ws) (auto simp: words_ok_def)
    then have "length (32 # join_words ws @ [32]) > 2" unfolding ws by (cases w) auto
    note len = this
    have "[32, 32] \<noteq> p @ (32 # join_words ws @ [32]) @ q" for p q
    proof
      assume e: "[32, 32] = p @ (32 # join_words ws @ [32]) @ q"
      have "length [32, 32 :: nat] = length p + length (32 # join_words ws @ [32]) + length q" unfolding e by simp
      then show False using len by simp
    qed
    then show ?thesis using True assms(3) by (simp add: contains_text_iff)
  next
    case False
    have as: "32 # join_words as @ [32] = spaced as @ [32]" using join_spaced[OF False] by simp
    show ?thesis unfolding as ws contains_text_iff
    proof
      assume "\<exists>p q. spaced as @ [32] = p @ (spaced ws @ [32]) @ q"
      then obtain p q where "p @ spaced ws @ 32 # q = spaced as @ [32]" by auto
      then show "sublist ws as" by (rule spaced_sublist[OF _ assms])
    next
      assume "sublist ws as"
      then obtain xs ys where "as = xs @ ws @ ys" by (auto simp: sublist_def)
      moreover obtain q where "spaced ys @ [32] = 32 # q" by (cases ys) auto
      ultimately show "\<exists>p q. spaced as @ [32] = p @ (spaced ws @ [32]) @ q"
        by (intro exI[of _ "spaced xs"] exI[of _ q]) simp
    qed
  qed
qed

text \<open>What the matching means: the term's words in a row, or every one of its longer words somewhere.\<close>

definition term_matches :: "nat list list \<Rightarrow> nat list list \<Rightarrow> bool" where
  "term_matches asked ws \<longleftrightarrow> ws \<noteq> [] \<and> (sublist ws asked \<or>
     (\<exists>w \<in> set ws. 3 \<le> length w) \<and> (\<forall>w \<in> set ws. 3 \<le> length w \<longrightarrow> w \<in> set asked))"

lemma question_uses_term:
  assumes "\<not> oh_word_char h 32"
  shows "householdQuestionUsesTerm h question t \<longleftrightarrow> term_matches (definitionWords h question) (definitionWords h t)"
  using phrase_match[OF definition_words_ok definition_words_ok, OF assms assms, of t question]
  by (auto simp: householdQuestionUsesTerm_def term_matches_def Let_def list_all_iff filter_empty_conv)

end
