(* ===== verification/ObjectReplay.thy ===== *)
theory ObjectReplay
  imports ObjectInvariant
begin

text \<open>
  What \<open>decideHouseholdObject\<close> emits, \<open>reduceHouseholdObject\<close> accepts: the decision's checks imply every
  check of replay, quotas included. One lemma per kind of event, then one per branch of the decision.
\<close>

section \<open>Usage after an event\<close>

abbreviation storage :: "object_state \<Rightarrow> int" where
  "storage s \<equiv> ou_storage_bytes (householdObjectUsage s)"

lemma storage_delete_reservation:
  assumes "obj_wf (os_reservations s)" "obj_get (os_reservations s) k = Some w"
  shows "storage (s\<lparr>os_reservations := obj_delete (os_reservations s) k\<rparr>) + bl_size_bytes (rs_proposed w) = storage s"
  using obj_sum_delete[OF assms, of "\<lambda>r. bl_size_bytes (rs_proposed r)"] by (simp add: usage_sums)

lemma storage_put_reservation:
  "obj_get (os_reservations s) k = None \<Longrightarrow>
     storage (s\<lparr>os_reservations := obj_put (os_reservations s) k r\<rparr>) = storage s + bl_size_bytes (rs_proposed r)"
  by (simp add: usage_sums obj_sum_new)

lemma storage_put_draft:
  "obj_get (os_drafts s) k = None \<Longrightarrow>
     storage (s\<lparr>os_drafts := obj_put (os_drafts s) k d\<rparr>) = storage s + bl_size_bytes (hd_proposed d)"
  by (simp add: usage_sums obj_sum_new)

abbreviation history_bytes :: "household_object \<Rightarrow> int" where
  "history_bytes ob \<equiv> sum_list (map (\<lambda>r. bl_size_bytes (rv_blob r)) (ho_history ob))"

lemma storage_put_object:
  "storage (s\<lparr>os_objects := obj_put (os_objects s) k (object_with (obj_get (os_objects s) k) k r)\<rparr>) =
     storage s + bl_size_bytes (rv_blob r)"
proof (cases "obj_get (os_objects s) k")
  case None
  then show ?thesis by (simp add: usage_sums obj_sum_new object_with_def)
next
  case (Some w)
  then show ?thesis using obj_sum_put[OF Some, of history_bytes "object_with (Some w) k r"]
    by (simp add: usage_sums object_with_def)
qed

lemma storage_certified:
  "obj_get (os_objects s) k = Some w \<Longrightarrow> ho_history ob = ho_history w \<Longrightarrow>
     storage (s\<lparr>os_objects := obj_put (os_objects s) k ob\<rparr>) = storage s"
  using obj_sum_put[of "os_objects s" k w history_bytes ob] by (simp add: usage_sums)

lemma obj_keys_put [simp]: "set (obj_keys (obj_put ob k v)) = insert k (set (obj_keys ob))"
  by (auto simp: obj_keys_get split: if_split_asm)

lemma obj_values_put: "set (obj_values (obj_put ob k v)) \<subseteq> insert v (set (obj_values ob))"
  by (induction ob) (auto simp: obj_put_def obj_values_def split: if_split_asm)

lemma obj_values_delete: "set (obj_values (obj_delete ob k)) \<subseteq> set (obj_values ob)"
  by (auto simp: obj_values_def obj_delete_def)

abbreviation names_count :: "object_state \<Rightarrow> nat" where
  "names_count s \<equiv> ou_object_count (householdObjectUsage s)"

lemma names_count_card: "names_count s = card (usage_names s)"
  by (simp add: householdObjectUsage_def)

lemma names_count_le: "usage_names t \<subseteq> usage_names s \<Longrightarrow> names_count t \<le> names_count s"
  by (simp add: names_count_card card_mono)

lemma names_count_insert: "usage_names t \<subseteq> insert i (usage_names s) \<Longrightarrow> names_count t \<le> Suc (names_count s)"
  using card_mono[of "insert i (usage_names s)" "usage_names t"] by (simp add: names_count_card card_insert_if split: if_split_asm)

lemma names_put_object:
  "usage_names (s\<lparr>os_reservations := rs, os_objects := obj_put (os_objects s) i ob\<rparr>) \<subseteq>
     insert i (set (obj_keys (os_objects s)) \<union> rs_object_id ` set (obj_values rs))"
  by (auto simp: usage_names_def)

lemma names_object: "obj_get (os_objects s) i = Some ob \<Longrightarrow> i \<in> usage_names s"
  by (simp add: usage_names_def obj_keys_get)

lemma names_reservation: "obj_get (os_reservations s) j = Some r \<Longrightarrow> rs_object_id r \<in> usage_names s"
  by (auto simp: usage_names_def dest: obj_get_values)

lemma object_quotaI: "names_count s \<le> HOUSEHOLD_OBJECT_LIMIT \<Longrightarrow> storage s \<le> int HOUSEHOLD_STORAGE_BYTE_LIMIT \<Longrightarrow> object_quota_ok s"
  by (simp add: object_quota_ok_def)

section \<open>The facts of an attempt\<close>

text \<open>What holds once the checks before the branches have passed.\<close>

definition attempt_ok :: "object_state \<Rightarrow> object_ctx \<Rightarrow> bool" where
  "attempt_ok s ctx \<longleftrightarrow> (\<exists>operation. householdAccessRefusal (ox_access ctx) (os_ws s) operation (ox_now ctx) = None) \<and>
     ox_command_id ctx \<noteq> [] \<and> digest_ok (ox_request_digest ctx) \<and> ox_event_id ctx \<noteq> [] \<and>
     safe_integer (ox_seq ctx) \<and> os_last_seq s < ox_seq ctx \<and>
     obj_get (os_receipts s) (receiptKey (principal_of ctx) (ox_command_id ctx)) = None \<and>
     0 \<le> ox_other_storage_bytes ctx \<and> 0 \<le> ox_other_object_count ctx"

lemma access_author:
  assumes "householdAccessRefusal (ox_access ctx) ws operation (ox_now ctx) = None"
  shows "is_finite (ox_now ctx)" "at_user_id (author_of ctx) \<noteq> []" "principal_of ctx \<noteq> []"
    "if at_principal_id (author_of ctx) = None then at_connection_id (author_of ctx) = None \<and> at_grant_id (author_of ctx) = None
     else \<not> falsy (at_connection_id (author_of ctx)) \<and> \<not> falsy (at_grant_id (author_of ctx))"
    "xa_credential (ox_access ctx) = HumanAccess \<Longrightarrow> at_principal_id (author_of ctx) = None"
  using assms
  by (auto simp: householdAccessRefusal_def connection_refused_def author_of_def attribution_of_def Let_def principal_of_def
      split: option.split_asm household_credential.split_asm if_split_asm option.split household_credential.split elim: falsy.elims)

section \<open>One lemma per kind of event\<close>

text \<open>Every event of the decision is accepted, and its receipt holds the outcome.\<close>

definition accepted_by :: "object_host \<Rightarrow> object_state \<Rightarrow> object_decision \<Rightarrow> bool" where
  "accepted_by h s g \<longleftrightarrow> (\<forall>e \<in> set (og_events g). \<exists>s1. apply_object_body s e = Inr s1 \<and>
     reduceHouseholdObject h s e = Inr (s1\<lparr>os_last_seq := ov_seq e,
       os_receipts := obj_put (os_receipts s) (receipt_key_of e) (ov_receipt e)\<rparr>) \<and>
     oc_outcome (ov_receipt e) = og_outcome g)"

lemma accepted_no_event [simp]: "accepted_by h s (no_event why)"
  by (simp add: accepted_by_def no_event_def)

lemma accepted_if:
  "(c \<Longrightarrow> accepted_by h s a) \<Longrightarrow> (\<not> c \<Longrightarrow> accepted_by h s b) \<Longrightarrow> accepted_by h s (if c then a else b)"
  by simp

lemma accepted_emit:
  assumes at: "attempt_ok s ctx" and known: "\<forall>ty. body \<noteq> UnknownObjectEvent ty"
    and a: "apply_object_body s (object_event_of s ctx body outcome) = Inr s1" and q: "object_quota_ok s1"
  shows "accepted_by h s (emit_object h s ctx body outcome)"
proof (cases "EVENT_BYTE_LIMIT < object_event_bytes h (object_event_of s ctx body outcome)")
  case True
  then show ?thesis by (simp add: emit_object_def Let_def)
next
  case False
  let ?e = "object_event_of s ctx body outcome"
  obtain operation where "householdAccessRefusal (ox_access ctx) (os_ws s) operation (ox_now ctx) = None"
    using at by (auto simp: attempt_ok_def)
  note au = access_author[OF this]
  have env: "object_envelope_ok h s ?e"
    using False at au(1) by (simp add: object_envelope_ok_def object_event_of_def attempt_ok_def SCHEMA_VERSION_def)
  have rc: "object_receipt_ok s ?e"
    using at au(3) by (simp add: object_receipt_ok_def object_event_of_def attempt_ok_def event_principal_def principal_of_def split: option.split)
  have q': "object_quota_ok (s1\<lparr>os_last_seq := n, os_receipts := rs\<rparr>)" for n rs
    using q by (simp add: object_quota_ok_def usage_sums names_count_card usage_names_def)
  have "ov_body ?e = body" by (simp add: object_event_of_def)
  then have "reduceHouseholdObject h s ?e = Inr (s1\<lparr>os_last_seq := ov_seq ?e,
       os_receipts := obj_put (os_receipts s) (receipt_key_of ?e) (ov_receipt ?e)\<rparr>)"
    using env rc a q' known by (cases body) (simp_all add: reduceHouseholdObject_def Let_def ensure_def)
  moreover have "oc_outcome (ov_receipt ?e) = outcome" by (simp add: object_event_of_def)
  ultimately show ?thesis using False a by (simp add: emit_object_def Let_def accepted_by_def)
qed

lemma author_event:
  assumes "attempt_ok s ctx" shows "author_ok (object_event_of s ctx body outcome) (author_of ctx)"
proof -
  obtain operation where "householdAccessRefusal (ox_access ctx) (os_ws s) operation (ox_now ctx) = None"
    using assms by (auto simp: attempt_ok_def)
  note au = access_author[OF this]
  show ?thesis using au(2,4) by (simp add: author_ok_def object_event_of_def)
qed

lemma event_fields [simp]:
  "ov_body (object_event_of s ctx body outcome) = body" "ov_seq (object_event_of s ctx body outcome) = ox_seq ctx"
  "ov_command_id (object_event_of s ctx body outcome) = ox_command_id ctx"
  "ov_occurred_at (object_event_of s ctx body outcome) = ox_now ctx"
  "ov_actor_user (object_event_of s ctx body outcome) = Some (at_user_id (author_of ctx))"
  "ov_actor_agent_principal (object_event_of s ctx body outcome) = at_principal_id (author_of ctx)"
  "ov_actor_run (object_event_of s ctx body outcome) = at_run_id (author_of ctx)"
  "oc_outcome (ov_receipt (object_event_of s ctx body outcome)) = outcome"
  "oc_principal (ov_receipt (object_event_of s ctx body outcome)) = principal_of ctx"
  "oc_command_id (ov_receipt (object_event_of s ctx body outcome)) = ox_command_id ctx"
  by (simp_all add: object_event_of_def)

lemma attempt_now: "attempt_ok s ctx \<Longrightarrow> js_eq (ox_now ctx) (ox_now ctx)"
  using access_author(1)[of ctx "os_ws s" _] by (auto simp: attempt_ok_def) (cases "ox_now ctx"; simp add: js_eq_def)

lemma accepted_refuse:
  assumes "attempt_ok s ctx" "object_quota_ok s" "why \<noteq> []"
  shows "accepted_by h s (refuse_object h s ctx why)"
  unfolding refuse_object_def
  by (rule accepted_emit[OF assms(1) _ _ assms(2)]) (use assms(3) in \<open>simp_all add: apply_object_body_def\<close>)

lemma storage_nonneg: "tables_sound s \<Longrightarrow> obj_get (os_reservations s) k = Some w \<Longrightarrow> 0 \<le> bl_size_bytes (rs_proposed w)"
  by (drule tables_soundD(2)) (auto simp: reservation_sound_def validBlob_def nonnegative_def)

lemma accepted_release:
  assumes at: "attempt_ok s ctx" and ok: "object_state_ok s" and r: "obj_get (os_reservations s) rid = Some r"
    and own: "own_reservation ctx r"
  shows "accepted_by h s (emit_object h s ctx (UploadReleased rid) (ObjectReleased rid))"
proof (rule accepted_emit[OF at])
  let ?t = "s\<lparr>os_reservations := obj_delete (os_reservations s) rid\<rparr>"
  show "apply_object_body s (object_event_of s ctx (UploadReleased rid) (ObjectReleased rid)) = Inr ?t"
    using r own by (simp add: apply_object_body_def apply_released_def ensure_def own_reservation_def Let_def)
  have t: "tables_sound s" "object_quota_ok s" using ok by (simp_all add: object_state_ok_def)
  have "names_count ?t \<le> names_count s"
    by (rule names_count_le) (use obj_values_delete[of "os_reservations s" rid] in \<open>auto simp: usage_names_def\<close>)
  moreover have "storage ?t \<le> storage s"
    using storage_delete_reservation[OF tables_sound_wf(2)[OF t(1)] r] storage_nonneg[OF t(1) r] by linarith
  ultimately show "object_quota_ok ?t" using t(2) by (simp add: object_quota_ok_def)
qed simp

lemma accepted_certify:
  assumes at: "attempt_ok s ctx" and ok: "object_state_ok s" and ob: "obj_get (os_objects s) i = Some ob"
    and person: "xa_credential (ox_access ctx) = HumanAccess" "ac_run_id (xa_actor (ox_access ctx)) = None"
    and kind: "ho_kind ob = DefinitionKind" and ref: "newest_ref ob = ref"
  shows "accepted_by h s (emit_object h s ctx (DefinitionCertified (ho_object_id ob) ref) (ObjectCommitted (ho_object_id ob) ref))"
proof (rule accepted_emit[OF at])
  obtain operation where "householdAccessRefusal (ox_access ctx) (os_ws s) operation (ox_now ctx) = None"
    using at by (auto simp: attempt_ok_def)
  note au = access_author[OF this]
  have t: "tables_sound s" "object_quota_ok s" using ok by (simp_all add: object_state_ok_def)
  have snd: "object_sound s i ob" by (rule tables_soundD(1)[OF t(1) ob])
  have i: "ho_object_id ob = i" using snd by (simp add: object_sound_def)
  have "ref_ok s ref i" using newest_in[OF snd] snd ref by (auto simp: object_sound_def revision_sound_def newest_ref_def)
  moreover have "at_run_id (author_of ctx) = None" using person(2) by (simp add: author_of_def attribution_of_def Let_def)
  ultimately show "apply_object_body s (object_event_of s ctx (DefinitionCertified (ho_object_id ob) ref) (ObjectCommitted (ho_object_id ob) ref)) =
      Inr (s\<lparr>os_objects := obj_put (os_objects s) i (ob\<lparr>ho_certification := Some
              \<lparr>cx_revision = ref, cx_certified_by = at_user_id (author_of ctx), cx_certified_at = ox_now ctx\<rparr>\<rparr>)\<rparr>)"
    using ob kind ref au(2) au(5)[OF person(1)]
    by (simp add: apply_object_body_def apply_certified_def ensure_def Let_def i)
  have "names_count (s\<lparr>os_objects := obj_put (os_objects s) i ob'\<rparr>) \<le> names_count s" for ob'
    by (rule names_count_le) (use names_object[OF ob] in \<open>auto simp: usage_names_def\<close>)
  then show "object_quota_ok (s\<lparr>os_objects := obj_put (os_objects s) i (ob\<lparr>ho_certification := Some
              \<lparr>cx_revision = ref, cx_certified_by = at_user_id (author_of ctx), cx_certified_at = ox_now ctx\<rparr>\<rparr>)\<rparr>)"
    using storage_certified[OF ob, of "ob\<lparr>ho_certification := c\<rparr>" for c] t(2)
    by (simp add: object_quota_ok_def) (meson order.trans)
qed simp

lemma accepted_reserve:
  assumes at: "attempt_ok s ctx" and ok: "object_state_ok s"
    and r: "rs_workspace_id r = os_ws s" "rs_object_id r \<noteq> []" "rs_reservation_id r \<noteq> []" "rs_title r \<noteq> []"
      "validBlob (rs_proposed r)" "rs_kind r \<in> set HOUSEHOLD_OBJECT_TYPES" "metadata_ok (rs_kind r) (rs_file_metadata r)"
      "rs_owner r = author_of ctx" "rs_created_at r = ox_now ctx" "is_finite (rs_expires_at r)" "\<not> js_le (rs_expires_at r) (ox_now ctx)"
    and new: "obj_get (os_reservations s) (rs_reservation_id r) = None"
    and base: "case rs_base r of
        None \<Rightarrow> current_for s (rs_object_id r) = None \<and> (\<forall>p \<in> set (obj_values (os_reservations s)). rs_object_id p \<noteq> rs_object_id r) \<and>
          names_count s < HOUSEHOLD_OBJECT_LIMIT
      | Some b \<Rightarrow> ref_ok s b (rs_object_id r) \<and> (\<exists>c. current_for s (rs_object_id r) = Some c \<and> rv_revision c = b \<and> rv_kind c = rs_kind r)"
    and q: "storage s + bl_size_bytes (rs_proposed r) \<le> int HOUSEHOLD_STORAGE_BYTE_LIMIT"
  shows "accepted_by h s (emit_object h s ctx (UploadReserved r) (ObjectPending (rs_object_id r) (rs_reservation_id r)))"
proof (rule accepted_emit[OF at])
  let ?t = "s\<lparr>os_reservations := obj_put (os_reservations s) (rs_reservation_id r) r\<rparr>"
  let ?e = "object_event_of s ctx (UploadReserved r) (ObjectPending (rs_object_id r) (rs_reservation_id r))"
  have f: "reservation_fields_ok s ?e r" "author_ok ?e (rs_owner r)"
    using r new attempt_now[OF at] author_event[OF at] by (simp_all add: reservation_fields_ok_def)
  show "apply_object_body s ?e = Inr ?t"
  proof (cases "rs_base r")
    case None
    then show ?thesis using f r base by (simp add: apply_object_body_def apply_reserved_def ensure_def Let_def)
  next
    case (Some b)
    then show ?thesis using f r base by (auto simp: apply_object_body_def apply_reserved_def ensure_def Let_def)
  qed
  have sub: "usage_names ?t \<subseteq> insert (rs_object_id r) (usage_names s)"
    using obj_values_put[of "os_reservations s"] by (fastforce simp: usage_names_def)
  have "names_count ?t \<le> HOUSEHOLD_OBJECT_LIMIT"
  proof (cases "rs_base r")
    case None
    then show ?thesis using names_count_insert[OF sub] base by simp
  next
    case (Some b)
    then have "rs_object_id r \<in> usage_names s"
      using base names_object by (cases "obj_get (os_objects s) (rs_object_id r)") (auto simp: current_for_def)
    then have "names_count ?t \<le> names_count s" using sub by (intro names_count_le) blast
    then show ?thesis using ok by (simp add: object_state_ok_def object_quota_ok_def)
  qed
  then show "object_quota_ok ?t" using storage_put_reservation[OF new] q by (simp add: object_quota_ok_def)
qed simp

text \<open>The reservation an upload commits or a draft uses up.\<close>

definition freed :: "object_state \<Rightarrow> string option \<Rightarrow> reservation obj" where
  "freed s rid = (case rid of None \<Rightarrow> os_reservations s | Some k \<Rightarrow> obj_delete (os_reservations s) k)"

definition uses_up :: "object_state \<Rightarrow> object_ctx \<Rightarrow> string option \<Rightarrow> string \<Rightarrow> revision_ref option \<Rightarrow> blob \<Rightarrow> jstext \<Rightarrow> object_kind \<Rightarrow> bool" where
  "uses_up s ctx rid i base b title kind \<longleftrightarrow> (\<forall>k. rid = Some k \<longrightarrow> (\<exists>p. obj_get (os_reservations s) k = Some p \<and>
     own_reservation ctx p \<and> rs_object_id p = i \<and> rs_base p = base \<and> rs_proposed p = b \<and> rs_title p = title \<and> rs_kind p = kind))"

lemma release_own:
  assumes "uses_up s ctx rid i base b title kind"
  shows "release_reservation s (object_event_of s ctx body out) rid i base b = Inr (freed s rid)"
  using assms by (cases rid) (auto simp: uses_up_def release_reservation_def freed_def own_reservation_def Let_def ensure_def)

lemma storage_freed:
  assumes "tables_sound s" "uses_up s ctx rid i base b title kind"
  shows "storage (s\<lparr>os_reservations := freed s rid\<rparr>) = storage s - (if rid = None then 0 else bl_size_bytes b)"
  using assms(2) storage_delete_reservation[OF tables_sound_wf(2)[OF assms(1)]]
  by (cases rid) (auto simp: uses_up_def freed_def algebra_simps)

lemma freed_values: "set (obj_values (freed s rid)) \<subseteq> set (obj_values (os_reservations s))"
  by (cases rid) (simp_all add: freed_def obj_values_delete)

lemma accepted_draft:
  assumes at: "attempt_ok s ctx" and ok: "object_state_ok s"
    and ob: "obj_get (os_objects s) i = Some ob" "ho_kind ob = content_kind (prepared_content ctx)"
    and base: "base \<in> committed_refs ob" "base \<noteq> newest_ref ob"
    and b: "validBlob b" and title: "title \<noteq> []" and valid: "validContent (prepared_content ctx)"
    and r: "uses_up s ctx rid i (Some base) b title (content_kind (prepared_content ctx))"
  shows "accepted_by h s (preserve_draft h s ctx i base b rid title)"
proof -
  have t: "tables_sound s" "object_quota_ok s" using ok by (simp_all add: object_state_ok_def)
  note snd = tables_soundD(1)[OF t(1) ob(1)]
  have cur: "rv_revision (the (current_for s i)) = newest_ref ob"
    using newest_sound(2)[OF snd] by (simp add: current_for_def ob(1) newest_ref_def)
  have stored: "content_kind c \<in> set HOUSEHOLD_STORED_OBJECT_TYPES" for c
    by (cases c) (simp_all add: HOUSEHOLD_STORED_OBJECT_TYPES_def HOUSEHOLD_OBJECT_TYPES_def)
  have refs: "ref_ok s x i" if "x \<in> committed_refs ob" for x
    using snd that by (auto simp: object_sound_def revision_sound_def committed_refs_def)
  define d where "d = \<lparr>hd_draft_id = ox_draft_id ctx, hd_workspace_id = os_ws s, hd_object_id = i, hd_base = base,
           hd_current = newest_ref ob, hd_proposed = b, hd_title = title, hd_kind = content_kind (prepared_content ctx),
           hd_file_metadata = file_metadata_of (prepared_content ctx), hd_owner = author_of ctx,
           hd_occurred_at = ox_now ctx, hd_command_id = ox_command_id ctx\<rparr>"
  have emitted: "accepted_by h s (emit_object h s ctx (DraftPreserved d rid) (ObjectConflict i (newest_ref ob) (ox_draft_id ctx)))"
    if new: "ox_draft_id ctx \<noteq> []" "obj_get (os_drafts s) (ox_draft_id ctx) = None"
      and fits: "rid = None \<longrightarrow> storage s + bl_size_bytes b \<le> int HOUSEHOLD_STORAGE_BYTE_LIMIT"
  proof (rule accepted_emit[OF at])
    let ?t = "s\<lparr>os_reservations := freed s rid, os_drafts := obj_put (os_drafts s) (ox_draft_id ctx) d\<rparr>"
    let ?e = "object_event_of s ctx (DraftPreserved d rid) (ObjectConflict i (newest_ref ob) (ox_draft_id ctx))"
    have "conflict_ok s d"
      using ob base by (auto simp: conflict_ok_def d_def committed_refs_def list_ex_iff)
    moreover have "reserved_draft_ok s d rid"
      using r by (cases rid) (auto simp: reserved_draft_ok_def uses_up_def d_def own_reservation_def Let_def)
    moreover have "metadata_ok (hd_kind d) (hd_file_metadata d)"
      using valid by (simp add: metadata_ok_def d_def file_metadata_of_def)
    moreover have "draft_fields_ok s ?e d" using new title b attempt_now[OF at] by (simp add: draft_fields_ok_def d_def)
    moreover have "author_ok ?e (hd_owner d)" using author_event[OF at] by (simp add: d_def)
    moreover have "hd_kind d \<in> set HOUSEHOLD_STORED_OBJECT_TYPES" using stored by (simp add: d_def)
    moreover have "release_reservation s ?e rid (hd_object_id d) (Some (hd_base d)) (hd_proposed d) = Inr (freed s rid)"
      using release_own[OF r] by (simp add: d_def)
    moreover have "ref_ok s (hd_base d) (hd_object_id d)" "ref_ok s (hd_current d) (hd_object_id d)"
      using refs base(1) newest_sound(1)[OF snd] by (simp_all add: d_def)
    moreover have "hd_object_id d = i" "hd_current d = newest_ref ob" "hd_draft_id d = ox_draft_id ctx" by (simp_all add: d_def)
    ultimately show "apply_object_body s ?e = Inr ?t"
      by (simp add: apply_object_body_def apply_draft_def ensure_def Let_def)
    have "storage ?t = storage (s\<lparr>os_reservations := freed s rid\<rparr>) + bl_size_bytes b"
      using storage_put_draft[of "s\<lparr>os_reservations := freed s rid\<rparr>" "ox_draft_id ctx" d] new(2) by (simp add: d_def)
    then have "storage ?t \<le> int HOUSEHOLD_STORAGE_BYTE_LIMIT"
      using storage_freed[OF t(1) r] fits t(2) by (cases rid) (simp_all add: object_quota_ok_def)
    moreover have "names_count ?t \<le> names_count s"
      by (rule names_count_le) (use freed_values[of s rid] in \<open>auto simp: usage_names_def\<close>)
    ultimately show "object_quota_ok ?t" using t(2) by (simp add: object_quota_ok_def)
  qed simp
  have "0 \<le> ox_other_storage_bytes ctx" using at by (simp add: attempt_ok_def)
  then have "accepted_by h s (emit_object h s ctx (DraftPreserved d rid) (ObjectConflict i (newest_ref ob) (ox_draft_id ctx)))"
    if "ox_draft_id ctx \<noteq> []" "obj_get (os_drafts s) (ox_draft_id ctx) = None"
      "\<not> (rid = None \<and> int HOUSEHOLD_STORAGE_BYTE_LIMIT < used_bytes s ctx + bl_size_bytes b)"
    using that by (intro emitted) (auto simp: used_bytes_def)
  then show ?thesis
    unfolding preserve_draft_def Let_def cur d_def[symmetric]
    using accepted_refuse[OF at t(2)] by simp
qed

lemma accepted_commit:
  assumes at: "attempt_ok s ctx" and ok: "object_state_ok s"
    and i: "i \<noteq> []" and title: "title \<noteq> []" and b: "validBlob b" and kind: "kind \<in> set HOUSEHOLD_STORED_OBJECT_TYPES"
    and meta: "metadata_ok kind (file_metadata_of (prepared_content ctx))"
    and base: "case base of None \<Rightarrow> obj_get (os_objects s) i = None \<and>
        (\<forall>p \<in> set (obj_values (os_reservations s)). rs_object_id p = i \<longrightarrow> Some (rs_reservation_id p) = rid)
      | Some x \<Rightarrow> \<exists>ob. obj_get (os_objects s) i = Some ob \<and> ho_kind ob = kind \<and> newest_ref ob = x"
    and r: "uses_up s ctx rid i base b title kind"
    and pending: "\<And>k p. rid = Some k \<Longrightarrow> obj_get (os_reservations s) k = Some p \<Longrightarrow>
      \<not> js_le (rs_expires_at p) (ox_now ctx) \<and> same_metadata (file_metadata_of (prepared_content ctx)) (rs_file_metadata p)"
    and q: "rid = None \<Longrightarrow> storage s + bl_size_bytes b \<le> int HOUSEHOLD_STORAGE_BYTE_LIMIT \<and>
      (base = None \<longrightarrow> names_count s < HOUSEHOLD_OBJECT_LIMIT)"
  shows "accepted_by h s (commit_revision h s ctx i title kind b base rid)"
proof -
  have t: "tables_sound s" "object_quota_ok s" using ok by (simp_all add: object_state_ok_def)
  define ref where "ref = \<lparr>rr_workspace_id = os_ws s, rr_object_id = i, rr_token = ox_revision_token ctx\<rparr>"
  define v where "v = \<lparr>rv_revision = ref, rv_parent = base, rv_title = title, rv_kind = kind,
              rv_file_metadata = file_metadata_of (prepared_content ctx), rv_blob = b, rv_author = author_of ctx,
              rv_occurred_at = ox_now ctx, rv_command_id = ox_command_id ctx\<rparr>"
  define body where "body = (if base = None then ObjectCreated v rid else ObjectUpdated v rid)"
  have emitted: "accepted_by h s (emit_object h s ctx body (ObjectCommitted i ref))"
    if tok: "opaque (ox_revision_token ctx)" "\<not> token_used s (ox_revision_token ctx)"
  proof (rule accepted_emit[OF at])
    let ?e = "object_event_of s ctx body (ObjectCommitted i ref)"
    let ?t = "s\<lparr>os_reservations := freed s rid,
      os_objects := obj_put (os_objects s) i (object_with (obj_get (os_objects s) i) i v)\<rparr>"
    have v: "rr_object_id (rv_revision v) = i" "rr_object_id ref = i" "rv_parent v = base" "rv_blob v = b" "rv_kind v = kind" "rv_revision v = ref"
      "rv_author v = author_of ctx" "rv_title v = title"
      by (simp_all add: v_def ref_def)
    have f: "ref_ok s ref i" "author_ok ?e (author_of ctx)" "metadata_ok kind (rv_file_metadata v)" "revision_ok s ?e v"
      using tok i title b kind meta attempt_now[OF at] author_event[OF at]
      by (simp_all add: ref_ok_def ref_def v_def revision_ok_def)
    have g: "reserved_commit_ok s ?e v rid"
    proof (cases rid)
      case (Some k)
      then show ?thesis using r pending by (auto simp: reserved_commit_ok_def uses_up_def own_reservation_def Let_def v_def)
    qed (simp add: reserved_commit_ok_def)
    have rel: "release_reservation s ?e rid i base b = Inr (freed s rid)" by (rule release_own[OF r])
    have "apply_revision s ?e (base = None) v rid = Inr ?t"
      using base f g rel unfolding apply_revision_def Let_def v object_with_def[symmetric]
      by (cases base) (auto simp: ensure_def object_with_def v)
    then show "apply_object_body s ?e = Inr ?t" by (cases base; simp add: apply_object_body_def body_def)
    have "storage ?t = storage (s\<lparr>os_reservations := freed s rid\<rparr>) + bl_size_bytes b"
      using storage_put_object[of "s\<lparr>os_reservations := freed s rid\<rparr>" i v] by (simp add: v)
    then have st: "storage ?t \<le> int HOUSEHOLD_STORAGE_BYTE_LIMIT"
      using storage_freed[OF t(1) r] q t(2) by (cases rid) (simp_all add: object_quota_ok_def)
    have sub: "usage_names ?t \<subseteq> insert i (usage_names s)"
      using freed_values[of s rid] by (auto simp: usage_names_def)
    have "names_count ?t \<le> HOUSEHOLD_OBJECT_LIMIT"
    proof (cases "rid = None \<and> base = None")
      case True
      then show ?thesis using names_count_insert[OF sub] q by simp
    next
      case False
      have "i \<in> usage_names s"
      proof (cases rid)
        case None
        then show ?thesis using False base names_object[of s i] by auto
      next
        case (Some k)
        then show ?thesis using r names_reservation[of s k] by (auto simp: uses_up_def)
      qed
      then have "names_count ?t \<le> names_count s" using sub by (intro names_count_le) blast
      then show ?thesis using t(2) by (simp add: object_quota_ok_def)
    qed
    then show "object_quota_ok ?t" using st by (simp add: object_quota_ok_def)
  qed (simp add: body_def)
  show ?thesis
    unfolding commit_revision_def Let_def ref_def[symmetric] v_def[symmetric] body_def[symmetric]
    using accepted_refuse[OF at t(2)] emitted by simp
qed

section \<open>The branches of the decision\<close>

lemma prepared_for_Some:
  assumes "prepared_for s ctx i = Some p"
  shows "ox_prepared ctx = Some p" "validBlob (vc_blob p)" "validContent (vc_content p)" "prepared_content ctx = vc_content p"
  using assms by (auto simp: prepared_for_def prepared_content_def split: option.split_asm if_split_asm)

lemma stored_kinds: "kind \<in> set HOUSEHOLD_STORED_OBJECT_TYPES"
  by (cases kind) (simp_all add: HOUSEHOLD_STORED_OBJECT_TYPES_def HOUSEHOLD_OBJECT_TYPES_def)

lemma metadata_of_content: "validContent c \<Longrightarrow> metadata_ok (content_kind c) (file_metadata_of c)"
  by (simp add: metadata_ok_def file_metadata_of_def)

lemma current_for_Some:
  assumes "tables_sound s" "current_for s i = Some c"
  obtains ob where "obj_get (os_objects s) i = Some ob" "object_sound s i ob" "c = last (ho_history ob)"
    "rv_revision c = newest_ref ob" "c \<in> set (ho_history ob)"
proof -
  obtain ob where ob: "obj_get (os_objects s) i = Some ob" "newest ob = Some c"
    using assms(2) by (cases "obj_get (os_objects s) i") (auto simp: current_for_def)
  have snd: "object_sound s i ob" by (rule tables_soundD(1)[OF assms(1) ob(1)])
  have "c = last (ho_history ob)" using newest_sound(2)[OF snd] ob(2) by simp
  then show thesis using that[OF ob(1) snd] newest_in[OF snd] by (simp add: newest_ref_def)
qed

lemma current_for_None: "tables_sound s \<Longrightarrow> current_for s i = None \<longleftrightarrow> obj_get (os_objects s) i = None"
  using tables_soundD(1)[of s i] newest_sound(2)[of s i]
  by (cases "obj_get (os_objects s) i") (auto simp: current_for_def)

lemma accepted_commit_upload:
  assumes at: "attempt_ok s ctx" and ok: "object_state_ok s" and r: "obj_get (os_reservations s) rid = Some r"
    and own: "own_reservation ctx r"
  shows "accepted_by h s (decide_commit_upload h s ctx r)"
proof -
  have t: "tables_sound s" "object_quota_ok s" using ok by (simp_all add: object_state_ok_def)
  note snd = tables_soundD(2)[OF t(1) r]
  have rid: "rs_reservation_id r = rid" using snd by (simp add: reservation_sound_def)
  let ?i = "rs_object_id r"
  let ?unverified = "case prepared_for s ctx ?i of None \<Rightarrow> True
          | Some p \<Rightarrow> vc_blob p \<noteq> rs_proposed r \<or> content_kind (vc_content p) \<noteq> rs_kind r \<or> vc_revision p \<noteq> rs_base r \<or>
              (content_kind (vc_content p) = FileKind \<and> rs_file_metadata r \<noteq> Some (vc_content p))"
  have up: "uses_up s ctx (Some rid) ?i (rs_base r) (rs_proposed r) (rs_title r) (rs_kind r)"
    using r own by (simp add: uses_up_def)
  have f: "?i \<noteq> []" "rs_title r \<noteq> []" "validBlob (rs_proposed r)" using snd by (simp_all add: reservation_sound_def)
  have draft: "accepted_by h s (preserve_draft h s ctx ?i (the (rs_base r)) (rs_proposed r) (Some rid) (rs_title r))"
    if v: "\<not> ?unverified" and b: "rs_base r \<noteq> None" "rs_base r \<noteq> map_option rv_revision (current_for s ?i)"
  proof -
    obtain p where p: "prepared_for s ctx ?i = Some p" "content_kind (vc_content p) = rs_kind r"
      using v by (cases "prepared_for s ctx ?i") auto
    obtain x where x: "rs_base r = Some x" using b(1) by blast
    obtain ob where ob: "obj_get (os_objects s) ?i = Some ob" "ho_kind ob = rs_kind r" "x \<in> committed_refs ob"
      using snd by (auto simp: reservation_sound_def x)
    have "x \<noteq> newest_ref ob"
      using b(2) newest_sound(2)[OF tables_soundD(1)[OF t(1) ob(1)]] by (auto simp: x current_for_def ob(1) newest_ref_def)
    then show ?thesis
      using accepted_draft[OF at ok ob(1) _ ob(3)] f(2,3) up p prepared_for_Some[OF p(1)] ob(2) by (simp add: x)
  qed
  have commit: "accepted_by h s (commit_revision h s ctx ?i (rs_title r) (rs_kind r) (rs_proposed r) (rs_base r) (Some rid))"
    if v: "\<not> ?unverified" and live: "\<not> js_le (rs_expires_at r) (ox_now ctx)"
      and b: "\<not> (rs_base r = None \<and> current_for s ?i \<noteq> None)"
        "\<not> (rs_base r \<noteq> None \<and> rs_base r \<noteq> map_option rv_revision (current_for s ?i))"
  proof -
    obtain p where p: "prepared_for s ctx ?i = Some p" "content_kind (vc_content p) = rs_kind r"
      "content_kind (vc_content p) = FileKind \<Longrightarrow> rs_file_metadata r = Some (vc_content p)"
      using v by (cases "prepared_for s ctx ?i") auto
    have base: "case rs_base r of None \<Rightarrow> obj_get (os_objects s) ?i = None \<and>
        (\<forall>p \<in> set (obj_values (os_reservations s)). rs_object_id p = ?i \<longrightarrow> Some (rs_reservation_id p) = Some rid)
      | Some x \<Rightarrow> \<exists>ob. obj_get (os_objects s) ?i = Some ob \<and> ho_kind ob = rs_kind r \<and> newest_ref ob = x"
    proof (cases "rs_base r")
      case None
      have "rs_reservation_id q = rid" if q: "q \<in> set (obj_values (os_reservations s))" "rs_object_id q = ?i" for q
      proof -
        obtain j where j: "obj_get (os_reservations s) j = Some q"
          using obj_values_get[OF tables_sound_wf(2)[OF t(1)] q(1)] by blast
        then have "j = rid" using snd None q(2) by (simp add: reservation_sound_def)
        then show ?thesis using tables_soundD(2)[OF t(1) j] by (simp add: reservation_sound_def)
      qed
      then show ?thesis using snd None by (simp add: reservation_sound_def)
    next
      case (Some x)
      then obtain ob where ob: "obj_get (os_objects s) ?i = Some ob" "ho_kind ob = rs_kind r"
        using snd by (auto simp: reservation_sound_def)
      have "newest_ref ob = x"
        using b(2) newest_sound(2)[OF tables_soundD(1)[OF t(1) ob(1)]] by (auto simp: Some current_for_def ob(1) newest_ref_def)
      then show ?thesis using ob by (simp add: Some)
    qed
    have "metadata_ok (rs_kind r) (file_metadata_of (prepared_content ctx))"
      using metadata_of_content[OF prepared_for_Some(3)[OF p(1)]] p(2) prepared_for_Some(4)[OF p(1)] by simp
    then show ?thesis
      by (rule accepted_commit[OF at ok f stored_kinds _ base up])
        (use live p(3) prepared_for_Some(4)[OF p(1)] r in \<open>auto simp: same_metadata_def file_metadata_of_def\<close>)
  qed
  show ?thesis
    unfolding decide_commit_upload_def Let_def rid
    by (intro accepted_if accepted_refuse[OF at t(2)] draft commit; (blast | simp))
qed

lemma accepted_upload:
  assumes "attempt_ok s ctx" "object_state_ok s"
  shows "accepted_by h s (decide_upload h s ctx commits rid operation)"
proof (cases "obj_get (os_reservations s) rid")
  case (Some r)
  have "rs_reservation_id r = rid"
    using tables_soundD(2)[OF _ Some] assms(2) by (simp add: object_state_ok_def reservation_sound_def)
  then show ?thesis
    using accepted_release[OF assms Some] accepted_commit_upload[OF assms Some] by (simp add: decide_upload_def Some)
qed (simp add: decide_upload_def)

fun patch_kind :: "patch \<Rightarrow> object_kind" where
  "patch_kind (ListPatch _) = ListKind"
| "patch_kind (DocPatch _) = DocKind"
| "patch_kind (FilePatch _ _) = FileKind"
| "patch_kind (DefinitionPatch _ _) = DefinitionKind"

lemma patch_keeps_kind:
  "applyHouseholdPatch c p b = Some c' \<Longrightarrow> content_kind c' = content_kind c \<and> patch_kind p = content_kind c"
  by (induction c p b rule: applyHouseholdPatch.induct) (auto split: if_split_asm)

definition change_kind :: "object_change \<Rightarrow> object_kind" where
  "change_kind change = (case change of CreateChange _ c \<Rightarrow> content_kind c | UpdateChange _ p _ \<Rightarrow> patch_kind p)"

text \<open>The adapter reserves uploads of files only; a reservation of a definition would not replay.\<close>

definition no_definition_upload :: "object_command \<Rightarrow> bool" where
  "no_definition_upload cmd \<longleftrightarrow> (case cmd of ReserveUpload _ _ _ change \<Rightarrow> change_kind change \<noteq> DefinitionKind | _ \<Rightarrow> True)"

lemma accepted_finish:
  assumes at: "attempt_ok s ctx" and ok: "object_state_ok s" and i: "i \<noteq> []"
    and p: "prepared_for s ctx i = Some p"
    and base: "case base of None \<Rightarrow> obj_get (os_objects s) i = None \<and>
        (\<forall>q \<in> set (obj_values (os_reservations s)). rs_object_id q \<noteq> i) \<and> names_count s < HOUSEHOLD_OBJECT_LIMIT
      | Some x \<Rightarrow> \<exists>ob. obj_get (os_objects s) i = Some ob \<and> ho_kind ob = content_kind (vc_content p) \<and> newest_ref ob = x"
    and upload: "\<And>k rid ex change. cmd = ReserveUpload k rid ex change \<Longrightarrow> content_kind (vc_content p) \<noteq> DefinitionKind"
  shows "accepted_by h s (finish_change h s ctx cmd i p title base)"
proof -
  have t: "tables_sound s" "object_quota_ok s" using ok by (simp_all add: object_state_ok_def)
  have oth: "0 \<le> ox_other_storage_bytes ctx" using at by (simp add: attempt_ok_def)
  note pc = prepared_for_Some[OF p]
  have meta: "metadata_ok (content_kind (vc_content p)) (file_metadata_of (vc_content p))"
    by (rule metadata_of_content[OF pc(3)])
  have commit: "accepted_by h s (commit_revision h s ctx i title (content_kind (vc_content p)) (vc_blob p) base None)"
    if "title \<noteq> []" "\<not> int HOUSEHOLD_STORAGE_BYTE_LIMIT < used_bytes s ctx + bl_size_bytes (vc_blob p)"
    by (rule accepted_commit[OF at ok i that(1) pc(2) stored_kinds])
      (use base meta pc(4) that(2) oth in \<open>auto simp: uses_up_def used_bytes_def split: option.split_asm option.split\<close>)
  have reserve: "accepted_by h s (emit_object h s ctx (UploadReserved
            \<lparr>rs_reservation_id = rid, rs_workspace_id = os_ws s, rs_object_id = i, rs_kind = content_kind (vc_content p),
             rs_file_metadata = file_metadata_of (vc_content p), rs_title = title, rs_base = base, rs_proposed = vc_blob p,
             rs_owner = author_of ctx, rs_created_at = ox_now ctx, rs_expires_at = ex\<rparr>) (ObjectPending i rid))"
    if c: "cmd = ReserveUpload k rid ex change" "title \<noteq> []"
      "\<not> int HOUSEHOLD_STORAGE_BYTE_LIMIT < used_bytes s ctx + bl_size_bytes (vc_blob p)"
      "\<not> (rid = [] \<or> obj_get (os_reservations s) rid \<noteq> None \<or> \<not> is_finite ex \<or> js_le ex (ox_now ctx))" for k rid ex change
  proof -
    let ?r = "\<lparr>rs_reservation_id = rid, rs_workspace_id = os_ws s, rs_object_id = i, rs_kind = content_kind (vc_content p),
             rs_file_metadata = file_metadata_of (vc_content p), rs_title = title, rs_base = base, rs_proposed = vc_blob p,
             rs_owner = author_of ctx, rs_created_at = ox_now ctx, rs_expires_at = ex\<rparr>"
    have kind: "content_kind (vc_content p) \<in> set HOUSEHOLD_OBJECT_TYPES"
      using upload[OF c(1)] by (cases "vc_content p") (simp_all add: HOUSEHOLD_OBJECT_TYPES_def)
    have b: "case base of
        None \<Rightarrow> current_for s i = None \<and> (\<forall>q \<in> set (obj_values (os_reservations s)). rs_object_id q \<noteq> i) \<and>
          names_count s < HOUSEHOLD_OBJECT_LIMIT
      | Some x \<Rightarrow> ref_ok s x i \<and> (\<exists>c. current_for s i = Some c \<and> rv_revision c = x \<and> rv_kind c = content_kind (vc_content p))"
    proof (cases base)
      case None
      then show ?thesis using base current_for_None[OF t(1)] by simp
    next
      case (Some x)
      then obtain ob where ob: "obj_get (os_objects s) i = Some ob" "ho_kind ob = content_kind (vc_content p)" "newest_ref ob = x"
        using base by auto
      note snd = tables_soundD(1)[OF t(1) ob(1)]
      have "revision_sound s ob (last (ho_history ob))" using newest_in[OF snd] snd by (simp add: object_sound_def)
      then show ?thesis using ob snd newest_sound(2)[OF snd]
        by (simp add: Some current_for_def newest_ref_def revision_sound_def object_sound_def)
    qed
    have "accepted_by h s (emit_object h s ctx (UploadReserved ?r) (ObjectPending (rs_object_id ?r) (rs_reservation_id ?r)))"
      by (rule accepted_reserve[OF at ok]) (use i c pc(2) kind meta b oth in \<open>simp_all add: used_bytes_def split: option.split_asm option.split\<close>)
    then show ?thesis by simp
  qed
  have end_cases: "accepted_by h s (case term_refusal h s i title (vc_content p) of Some why \<Rightarrow> refuse_object h s ctx why | None \<Rightarrow> g)"
    if "accepted_by h s g" for g
    using that accepted_refuse[OF at t(2)]
    by (auto simp: term_refusal_def split: option.split content.split if_split)
  have last_case: "accepted_by h s (case cmd of
        ReserveUpload k rid ex change \<Rightarrow>
          if rid = [] \<or> obj_get (os_reservations s) rid \<noteq> None \<or> \<not> is_finite ex \<or> js_le ex (ox_now ctx)
            then refuse_object h s ctx ''reservation_invalid''
          else emit_object h s ctx (UploadReserved
            \<lparr>rs_reservation_id = rid, rs_workspace_id = os_ws s, rs_object_id = i, rs_kind = content_kind (vc_content p),
             rs_file_metadata = file_metadata_of (vc_content p), rs_title = title, rs_base = base, rs_proposed = vc_blob p,
             rs_owner = author_of ctx, rs_created_at = ox_now ctx, rs_expires_at = ex\<rparr>) (ObjectPending i rid)
      | _ \<Rightarrow> commit_revision h s ctx i title (content_kind (vc_content p)) (vc_blob p) base None)"
    if "title \<noteq> []" "\<not> int HOUSEHOLD_STORAGE_BYTE_LIMIT < used_bytes s ctx + bl_size_bytes (vc_blob p)"
    using commit[OF that] by (cases cmd) (auto intro!: accepted_if accepted_refuse[OF at t(2)] reserve that)
  show ?thesis
    unfolding finish_change_def Let_def
    by (intro accepted_if end_cases last_case accepted_refuse[OF at t(2)]; assumption?) simp_all
qed

lemma accepted_create_object:
  assumes at: "attempt_ok s ctx" and ok: "object_state_ok s" and i: "i \<noteq> []" and p: "prepared_for s ctx i = Some p"
    and upload: "\<And>k rid ex change. cmd = ReserveUpload k rid ex change \<Longrightarrow> content_kind c \<noteq> DefinitionKind"
  shows "accepted_by h s (decide_create_object h s ctx cmd i p title c)"
proof -
  have t: "tables_sound s" "object_quota_ok s" using ok by (simp_all add: object_state_ok_def)
  have oth: "0 \<le> ox_other_object_count ctx" using at by (simp add: attempt_ok_def)
  have "accepted_by h s (finish_change h s ctx cmd i p title None)"
    if "\<not> (current_for s i \<noteq> None \<or> list_ex (\<lambda>q. rs_object_id q = i) (obj_values (os_reservations s)))"
      "\<not> int HOUSEHOLD_OBJECT_LIMIT \<le> used_count s ctx" "\<not> (\<not> validContent c \<or> c \<noteq> vc_content p)"
    by (rule accepted_finish[OF at ok i p])
      (use that oth upload current_for_None[OF t(1)] in \<open>auto simp: used_count_def list_ex_iff\<close>)
  then show ?thesis
    unfolding decide_create_object_def
    by (intro accepted_if accepted_refuse[OF at t(2)]; assumption?) simp_all
qed

lemma accepted_update_object:
  assumes at: "attempt_ok s ctx" and ok: "object_state_ok s" and i: "i \<noteq> []" and p: "prepared_for s ctx i = Some p"
    and upload: "\<And>k rid ex change. cmd = ReserveUpload k rid ex change \<Longrightarrow> patch_kind pt \<noteq> DefinitionKind"
  shows "accepted_by h s (decide_update_object h s ctx cmd i p base pt title)"
proof (cases "current_for s i")
  case None
  then show ?thesis using accepted_refuse[OF at] ok by (simp add: decide_update_object_def object_state_ok_def)
next
  case (Some cur)
  have t: "tables_sound s" "object_quota_ok s" using ok by (simp_all add: object_state_ok_def)
  note pc = prepared_for_Some[OF p]
  obtain ob where ob: "obj_get (os_objects s) i = Some ob" "object_sound s i ob" "rv_revision cur = newest_ref ob"
    by (rule current_for_Some[OF t(1) Some])
  let ?found = "find (\<lambda>r. rv_revision r = base) (ho_history ob)"
  show ?thesis
  proof (cases "?found")
    case None
    then show ?thesis using accepted_refuse[OF at t(2)] by (simp add: decide_update_object_def Some ob(1))
  next
    case (Some old)
    note old = this
    have o: "old \<in> set (ho_history ob)" "rv_revision old = base"
      using old by (auto simp: find_Some_iff)
    have os: "revision_sound s ob old" using ob(2) o(1) by (simp add: object_sound_def)
    show ?thesis
    proof (cases "content_for ctx old")
      case None
      then show ?thesis using accepted_refuse[OF at t(2)]
        by (simp add: decide_update_object_def \<open>current_for s i = Some cur\<close> ob(1) old)
    next
      case (Some c)
      define new_title where "new_title = (case title of None \<Rightarrow> rv_title old | Some u \<Rightarrow> tc_after u)"
      have kinds: "ho_kind ob = content_kind (vc_content p)" "patch_kind pt = content_kind (vc_content p)"
        if "\<not> applyHouseholdPatch c pt (rv_blob old) \<noteq> Some (vc_content p)"
        using patch_keeps_kind[of c pt "rv_blob old"] that Some os
        by (auto simp: content_for_def revision_sound_def split: option.split_asm if_split_asm)
      have tit: "new_title \<noteq> []" if "\<not> (case title of None \<Rightarrow> False | Some u \<Rightarrow> tc_before u \<noteq> rv_title old \<or> tc_after u = [])"
        using that os by (auto simp: new_title_def revision_sound_def split: option.split_asm)
      have draft: "accepted_by h s (preserve_draft h s ctx i (rv_revision old) (vc_blob p) None new_title)"
        if a: "\<not> applyHouseholdPatch c pt (rv_blob old) \<noteq> Some (vc_content p)"
          "\<not> (case title of None \<Rightarrow> False | Some u \<Rightarrow> tc_before u \<noteq> rv_title old \<or> tc_after u = [])"
          "rv_revision old \<noteq> rv_revision cur"
        by (rule accepted_draft[OF at ok ob(1)])
          (use kinds[OF a(1)] tit[OF a(2)] a(3) ob(3) o pc in \<open>auto simp: committed_refs_def uses_up_def\<close>)
      have finish: "accepted_by h s (finish_change h s ctx cmd i p new_title (Some (rv_revision old)))"
        if a: "\<not> applyHouseholdPatch c pt (rv_blob old) \<noteq> Some (vc_content p)" "\<not> rv_revision old \<noteq> rv_revision cur"
        by (rule accepted_finish[OF at ok i p]) (use kinds[OF a(1)] a(2) ob(1,3) upload in auto)
      show ?thesis
        unfolding decide_update_object_def \<open>current_for s i = Some cur\<close> ob(1) option.case option.sel old Some Let_def
          new_title_def[symmetric]
        by (intro accepted_if accepted_refuse[OF at t(2)] draft finish; assumption?) simp_all
    qed
  qed
qed

lemma accepted_change:
  assumes at: "attempt_ok s ctx" and ok: "object_state_ok s"
    and upload: "\<And>k rid ex ch. cmd = ReserveUpload k rid ex ch \<Longrightarrow> change_kind change \<noteq> DefinitionKind"
  shows "accepted_by h s (decide_change h s ctx cmd i change)"
proof (cases "i = [] \<or> prepared_for s ctx i = None")
  case True
  then show ?thesis using accepted_refuse[OF at] ok by (auto simp: decide_change_def object_state_ok_def)
next
  case False
  then obtain p where p: "prepared_for s ctx i = Some p" by blast
  then show ?thesis
    using False accepted_create_object[OF at ok _ p] accepted_update_object[OF at ok _ p] upload
    by (cases change) (simp_all add: decide_change_def change_kind_def)
qed

lemma accepted_command:
  assumes at: "attempt_ok s ctx" and ok: "object_state_ok s" and up: "no_definition_upload cmd"
    and person: "\<And>i ref. cmd = CertifyDefinition i ref \<Longrightarrow>
      xa_credential (ox_access ctx) = HumanAccess \<and> ac_run_id (xa_actor (ox_access ctx)) = None"
  shows "accepted_by h s (decide_object_command h s ctx cmd)"
proof -
  have q: "object_quota_ok s" using ok by (simp add: object_state_ok_def)
  have certify: "accepted_by h s (decide_certify h s ctx i ref)" if "cmd = CertifyDefinition i ref" for i ref
    using accepted_refuse[OF at q] accepted_certify[OF at ok _ _ _ _ refl] person[OF that]
    by (cases "obj_get (os_objects s) i") (auto simp: decide_certify_def)
  have change: "accepted_by h s (decide_change h s ctx cmd i ch)" if "\<And>k rid ex c. cmd = ReserveUpload k rid ex c \<Longrightarrow> c = ch" for i ch
    by (rule accepted_change[OF at ok]) (use up that in \<open>auto simp: no_definition_upload_def split: object_command.split_asm\<close>)
  show ?thesis
    using accepted_refuse[OF at q] accepted_upload[OF at ok] certify change
    by (cases cmd) (auto simp: decide_object_command_def)
qed

lemma decision_accepted:
  assumes ok: "object_state_ok s" and up: "no_definition_upload cmd"
    and run: "xa_credential (ox_access ctx) = HumanAccess \<Longrightarrow> ac_run_id (xa_actor (ox_access ctx)) = None"
  shows "accepted_by h s (decideHouseholdObject h cmd s ctx)"
proof (cases "og_events (decideHouseholdObject h cmd s ctx) = []")
  case True
  then show ?thesis by (simp add: accepted_by_def)
next
  case False
  let ?access = "householdAccessRefusal (ox_access ctx) (os_ws s) (object_operation cmd) (ox_now ctx)"
  let ?robot = "case cmd of CertifyDefinition _ _ \<Rightarrow> xa_credential (ox_access ctx) \<noteq> HumanAccess | _ \<Rightarrow> False"
  have f: "?access = None" "\<not> ?robot" "ox_command_id ctx \<noteq> []" "digest_ok (ox_request_digest ctx)" "ox_event_id ctx \<noteq> []"
    "safe_integer (ox_seq ctx)" "os_last_seq s < ox_seq ctx"
    "obj_get (os_receipts s) (receiptKey (principal_of ctx) (ox_command_id ctx)) = None"
    using False by (auto simp: decideHouseholdObject_def no_event_def split: option.split_asm if_split_asm)
  have d: "decideHouseholdObject h cmd s ctx = decide_object_command h s ctx cmd"
    using f by (simp add: decideHouseholdObject_def)
  have "nonnegative (ox_other_storage_bytes ctx)" "nonnegative (ox_other_object_count ctx)"
    using False unfolding d by (auto simp: decide_object_command_def no_event_def split: if_split_asm)
  then have "attempt_ok s ctx" using f unfolding attempt_ok_def nonnegative_def by blast
  then show ?thesis unfolding d
    by (rule accepted_command[OF _ ok up]) (use f(2) run in auto)
qed

end
