(* ===== verification/ObjectSample.thy ===== *)
theory ObjectSample
  imports ObjectReplay TodoSample
begin

text \<open>
  A small household used by the concrete instances of the object properties: a person \<open>u\<close> creates a
  document, then changes it, then sends a change of the first revision, which is kept as a draft.
\<close>

definition sample_object_host :: object_host where
  "sample_object_host = \<lparr>oh_fold_case = (\<lambda>s. s), oh_word_char = (\<lambda>c. 97 \<le> c \<and> c \<le> 122), oh_number_bytes = (\<lambda>_. 24)\<rparr>"

lemma object_event_fits:
  "js_size (object_event_js e) \<le> 65536 \<Longrightarrow> \<not> EVENT_BYTE_LIMIT < object_event_bytes sample_object_host e"
  using json_bytes_le[of "\<lambda>_. 24" "object_event_js e"]
  by (simp add: object_event_bytes_def sample_object_host_def EVENT_BYTE_LIMIT_def)

definition sample_blob :: blob where
  "sample_blob = \<lparr>bl_storage_key = ''k'', bl_size_bytes = 3, bl_sha256 = replicate 64 CHR ''a''\<rparr>"

definition sample_token :: "char \<Rightarrow> string" where
  "sample_token c = replicate 22 c"

definition sample_ref :: "char \<Rightarrow> revision_ref" where
  "sample_ref c = \<lparr>rr_workspace_id = ''w'', rr_object_id = ''doc'', rr_token = sample_token c\<rparr>"

definition sample_access :: household_access where
  "sample_access = \<lparr>xa_workspace_id = ''w'', xa_archived_at = None, xa_boundary = SharedBoundary,
     xa_actor = \<lparr>ac_user_id = ''u'', ac_principal_id = None, ac_run_id = None\<rparr>,
     xa_credential = HumanAccess, xa_member = Some sample_member\<rparr>"

definition sample_author :: attribution where
  "sample_author = \<lparr>at_user_id = ''u'', at_principal_id = None, at_run_id = None, at_connection_id = None, at_grant_id = None\<rparr>"

definition sample_revision :: "char \<Rightarrow> revision_ref option \<Rightarrow> revision" where
  "sample_revision c parent = \<lparr>rv_revision = sample_ref c, rv_parent = parent, rv_title = lit ''Plan'', rv_kind = DocKind,
     rv_file_metadata = None, rv_blob = sample_blob, rv_author = sample_author, rv_occurred_at = Fin 0, rv_command_id = [c]\<rparr>"

definition sample_object :: "revision list \<Rightarrow> household_object" where
  "sample_object history = \<lparr>ho_object_id = ''doc'', ho_kind = DocKind, ho_history = history, ho_certification = None\<rparr>"

definition sample_object_event :: "char \<Rightarrow> int \<Rightarrow> object_body \<Rightarrow> object_outcome \<Rightarrow> object_event" where
  "sample_object_event c n body outcome = \<lparr>ov_workspace_id = ''w'', ov_stream_id = ''o'', ov_seq = n, ov_event_id = ''e'',
     ov_command_id = [c], ov_schema_version = 1, ov_actor_user = Some ''u'', ov_actor_agent_principal = None,
     ov_actor_run = None, ov_occurred_at = Fin 0, ov_body = body,
     ov_receipt = \<lparr>oc_principal = ''u'', oc_command_id = [c], oc_request_digest = replicate 64 CHR ''a'', oc_outcome = outcome\<rparr>\<rparr>"

definition sample_prepared :: "string \<Rightarrow> revision_ref option \<Rightarrow> verified_content" where
  "sample_prepared t base = \<lparr>vc_workspace_id = ''w'', vc_object_id = ''doc'', vc_revision = base, vc_blob = sample_blob,
     vc_content = DocContent (lit t)\<rparr>"

text \<open>The context of command \<open>c\<close> at sequence number \<open>n\<close>, with the first revision's content at hand.\<close>

definition sample_object_ctx :: "char \<Rightarrow> int \<Rightarrow> verified_content \<Rightarrow> object_ctx" where
  "sample_object_ctx c n prepared = \<lparr>ox_access = sample_access, ox_now = Fin 0, ox_command_id = [c],
     ox_request_digest = replicate 64 CHR ''a'', ox_seq = n, ox_event_id = ''e'', ox_revision_token = sample_token c,
     ox_draft_id = ''draft'', ox_other_storage_bytes = 0, ox_other_object_count = 0,
     ox_identity_write_attempts = Fin 0, ox_workspace_write_attempts = Fin 0,
     ox_contents = [sample_prepared ''abc'' (Some (sample_ref CHR ''a''))], ox_prepared = Some prepared\<rparr>"

definition sample_objects :: "int \<Rightarrow> revision list \<Rightarrow> object_receipt obj \<Rightarrow> object_state" where
  "sample_objects n history receipts = \<lparr>os_ws = ''w'', os_stream = ''o'', os_last_seq = n,
     os_objects = (if history = [] then [] else [(''doc'', sample_object history)]), os_reservations = [], os_drafts = [],
     os_receipts = receipts\<rparr>"

abbreviation first_revision :: revision where "first_revision \<equiv> sample_revision CHR ''a'' None"
abbreviation second_revision :: revision where "second_revision \<equiv> sample_revision CHR ''b'' (Some (sample_ref CHR ''a''))"

lemma sample_digest_64: "digest_ok (replicate 64 CHR ''a'')" by code_simp

lemma sample_blob_ok: "validBlob sample_blob"
  by (simp add: validBlob_def sample_blob_def nonnegative_def safe_integer_def HOUSEHOLD_VERSION_BYTE_LIMIT_def sample_digest_64)

lemma sample_opaque: "opaque (sample_token CHR ''a'')" "opaque (sample_token CHR ''b'')" "opaque (sample_token CHR ''c'')"
  by code_simp+

lemma sample_token_eq: "sample_token c = sample_token d \<longleftrightarrow> c = d"
  by (simp add: sample_token_def replicate_eq_replicate)

lemma sample_access_ok: "householdAccessRefusal sample_access ''w'' operation (Fin 0) = None"
  by (simp add: householdAccessRefusal_def connection_refused_def sample_access_def sample_member_def)

lemma sample_writes: "\<not> householdWriteLimitReached (Fin 0) (Fin 0)"
  by (simp add: householdWriteLimitReached_def max_safe_integer_def HOUSEHOLD_IDENTITY_WRITE_HOURLY_LIMIT_def
      HOUSEHOLD_WORKSPACE_WRITE_HOURLY_LIMIT_def)

lemma sample_ctx_author:
  "author_of (sample_object_ctx c n p) = sample_author" "principal_of (sample_object_ctx c n p) = ''u''"
  by (simp_all add: author_of_def attribution_of_def sample_object_ctx_def sample_access_def sample_author_def principal_of_def)

lemma sample_event_of:
  "os_ws s = ''w'' \<Longrightarrow> os_stream s = ''o'' \<Longrightarrow>
     object_event_of s (sample_object_ctx c n p) body outcome = sample_object_event c n body outcome"
  unfolding object_event_of_def sample_object_event_def sample_ctx_author
  by (simp add: sample_object_ctx_def sample_author_def)

text \<open>A command of the sample that passes the preliminary checks.\<close>

lemma sample_object_decide:
  assumes "os_ws s = ''w''" "os_last_seq s < n" "safe_integer n" "obj_get (os_receipts s) (receiptKey ''u'' [c]) = None"
  shows "decideHouseholdObject h cmd s (sample_object_ctx c n p) = decide_object_command h s (sample_object_ctx c n p) cmd"
  using assms sample_access_ok[of "object_operation cmd"]
  unfolding decideHouseholdObject_def sample_ctx_author
  by (cases cmd) (simp_all add: sample_object_ctx_def sample_digest_64, simp_all add: sample_access_def)

lemma sample_emit_object:
  assumes "os_ws s = ''w''" "os_stream s = ''o''" "js_size (object_js (object_body_js body)) \<le> 20000"
    "js_size (object_outcome_js outcome) \<le> 20000" "length (object_event_type body) \<le> 30"
  shows "emit_object sample_object_host s (sample_object_ctx c n p) body outcome =
    \<lparr>og_outcome = outcome, og_events = [sample_object_event c n body outcome], og_replayed = False\<rparr>"
proof -
  have "js_size (object_event_js (sample_object_event c n body outcome)) \<le> 65536"
    using assms(3-5) by (simp add: object_event_js_def sample_object_event_def object_receipt_js_def)
  from object_event_fits[OF this] show ?thesis
    unfolding emit_object_def Let_def sample_event_of[OF assms(1,2)] by simp
qed

section \<open>Creating, changing and conflicting\<close>

definition create_command :: object_command where
  "create_command = CreateObject ''doc'' (lit ''Plan'') (DocContent (lit ''abc''))"

definition change_patch :: patch where
  "change_patch = DocPatch [\<lparr>sp_start = 1, sp_before = lit ''b'', sp_after = lit ''xyz''\<rparr>]"

definition change_command :: object_command where
  "change_command = UpdateObject ''doc'' (sample_ref CHR ''a'') change_patch None"

lemma sample_patch: "applyHouseholdPatch (DocContent (lit ''abc'')) change_patch b = Some (DocContent (lit ''axyzc''))"
  by (simp add: change_patch_def lit_def nonnegative_def safe_integer_def)

definition created_event :: object_event where
  "created_event = sample_object_event CHR ''a'' 0 (ObjectCreated first_revision None) (ObjectCommitted ''doc'' (sample_ref CHR ''a''))"

definition changed_event :: object_event where
  "changed_event = sample_object_event CHR ''b'' 1 (ObjectUpdated second_revision None) (ObjectCommitted ''doc'' (sample_ref CHR ''b''))"

definition sample_draft :: household_draft where
  "sample_draft = \<lparr>hd_draft_id = ''draft'', hd_workspace_id = ''w'', hd_object_id = ''doc'', hd_base = sample_ref CHR ''a'',
     hd_current = sample_ref CHR ''b'', hd_proposed = sample_blob, hd_title = lit ''Plan'', hd_kind = DocKind,
     hd_file_metadata = None, hd_owner = sample_author, hd_occurred_at = Fin 0, hd_command_id = ''c''\<rparr>"

definition conflict_event :: object_event where
  "conflict_event = sample_object_event CHR ''c'' 2 (DraftPreserved sample_draft None)
     (ObjectConflict ''doc'' (sample_ref CHR ''b'') ''draft'')"

definition created_state :: object_state where
  "created_state = sample_objects 0 [first_revision] [(receiptKey ''u'' ''a'', ov_receipt created_event)]"

definition changed_state :: object_state where
  "changed_state = sample_objects 1 [first_revision, second_revision]
     [(receiptKey ''u'' ''a'', ov_receipt created_event), (receiptKey ''u'' ''b'', ov_receipt changed_event)]"

lemma sample_objects_simps [simp]:
  "os_ws (sample_objects n hs rs) = ''w''" "os_stream (sample_objects n hs rs) = ''o''"
  "os_last_seq (sample_objects n hs rs) = n" "os_receipts (sample_objects n hs rs) = rs"
  "os_reservations (sample_objects n hs rs) = []" "os_drafts (sample_objects n hs rs) = []"
  "hs \<noteq> [] \<Longrightarrow> obj_get (os_objects (sample_objects n hs rs)) ''doc'' = Some (sample_object hs)"
  "os_objects (sample_objects n [] rs) = []"
  "revisions (sample_objects n hs rs) = hs"
  by (simp_all add: sample_objects_def obj_get_def revisions_def obj_values_def sample_object_def)

lemma sample_usage:
  "storage (sample_objects n hs rs) = sum_list (map (\<lambda>r. bl_size_bytes (rv_blob r)) hs)"
  "names_count (sample_objects n hs rs) \<le> 1"
  by (simp_all add: sample_objects_def sample_object_def householdObjectUsage_def usage_names_def obj_keys_def obj_values_def revisions_def)

lemma sample_quota: "object_quota_ok (sample_objects n [] rs)" "object_quota_ok (sample_objects n [sample_revision c b] rs)"
  "object_quota_ok (sample_objects n [sample_revision c b, sample_revision d e] rs)"
  using sample_usage(2)[of n "[]" rs] sample_usage(2)[of n "[sample_revision c b]" rs]
    sample_usage(2)[of n "[sample_revision c b, sample_revision d e]" rs]
  by (simp_all add: object_quota_ok_def sample_usage(1) HOUSEHOLD_OBJECT_LIMIT_def HOUSEHOLD_STORAGE_BYTE_LIMIT_def
      sample_revision_def sample_blob_def)

lemma sample_prepared_for:
  "os_ws s = ''w'' \<Longrightarrow> prepared_for s (sample_object_ctx c n (sample_prepared t b)) ''doc'' = Some (sample_prepared t b)"
  by (simp add: prepared_for_def sample_object_ctx_def sample_prepared_def sample_blob_ok)

lemma revision_body_size:
  "js_size (object_js (object_body_js (ObjectCreated (sample_revision c None) None))) \<le> 20000"
  "js_size (object_js (object_body_js (ObjectUpdated (sample_revision c (Some (sample_ref d))) None))) \<le> 20000"
  "js_size (object_outcome_js (ObjectCommitted ''doc'' (sample_ref c))) \<le> 20000"
  by (simp_all add: revision_js_def sample_revision_def text_js_def lit_def sample_ref_def ref_js_def blob_js_def sample_blob_def
      attribution_js_def sample_author_def sample_token_def)

lemma sample_commit:
  assumes "os_ws s = ''w''" "os_stream s = ''o''" "opaque (sample_token c)" "\<not> token_used s (sample_token c)"
    and "base = None \<or> (\<exists>d. base = Some (sample_ref d))"
  shows "commit_revision sample_object_host s (sample_object_ctx c n (sample_prepared t b)) ''doc'' (lit ''Plan'') DocKind sample_blob base None =
    \<lparr>og_outcome = ObjectCommitted ''doc'' (sample_ref c), og_events = [sample_object_event c n
       (if base = None then ObjectCreated (sample_revision c base) None else ObjectUpdated (sample_revision c base) None)
       (ObjectCommitted ''doc'' (sample_ref c))], og_replayed = False\<rparr>"
proof -
  let ?ctx = "sample_object_ctx c n (sample_prepared t b)"
  have r: "\<lparr>rr_workspace_id = os_ws s, rr_object_id = ''doc'', rr_token = ox_revision_token ?ctx\<rparr> = sample_ref c"
    by (simp add: sample_ref_def sample_object_ctx_def assms(1))
  have v: "\<lparr>rv_revision = sample_ref c, rv_parent = base, rv_title = lit ''Plan'', rv_kind = DocKind,
      rv_file_metadata = file_metadata_of (prepared_content ?ctx), rv_blob = sample_blob, rv_author = author_of ?ctx,
      rv_occurred_at = ox_now ?ctx, rv_command_id = ox_command_id ?ctx\<rparr> = sample_revision c base"
    unfolding sample_ctx_author
    by (simp add: sample_revision_def sample_object_ctx_def file_metadata_of_def prepared_content_def sample_prepared_def)
  have "ox_revision_token ?ctx = sample_token c" by (simp add: sample_object_ctx_def)
  then show ?thesis
    unfolding commit_revision_def Let_def r v
    using assms(3-5) revision_body_size by (auto simp: sample_emit_object[OF assms(1,2)])
qed

lemma sample_token_used: "token_used (sample_objects n hs rs) x \<longleftrightarrow> x \<in> (\<lambda>r. rr_token (rv_revision r)) ` set hs"
  by (auto simp: token_used_def list_ex_iff)

lemma created:
  "decideHouseholdObject sample_object_host create_command (sample_objects (- 1) [] [])
     (sample_object_ctx CHR ''a'' 0 (sample_prepared ''abc'' None)) =
   \<lparr>og_outcome = ObjectCommitted ''doc'' (sample_ref CHR ''a''), og_events = [created_event], og_replayed = False\<rparr>"
proof -
  let ?s = "sample_objects (- 1) [] []" and ?ctx = "sample_object_ctx CHR ''a'' 0 (sample_prepared ''abc'' None)"
  have u: "used_bytes ?s ?ctx = 0" "used_count ?s ?ctx \<le> 1"
    using sample_usage(2)[of "- 1" "[]" "[]"] by (simp_all add: used_bytes_def used_count_def sample_usage(1) sample_object_ctx_def)
  have "decideHouseholdObject sample_object_host create_command ?s ?ctx = decide_object_command sample_object_host ?s ?ctx create_command"
    by (rule sample_object_decide) (simp_all add: safe_integer_def)
  also have "\<dots> = decide_create_object sample_object_host ?s ?ctx create_command ''doc'' (sample_prepared ''abc'' None) (lit ''Plan'') (DocContent (lit ''abc''))"
    using sample_writes
    by (simp add: decide_object_command_def create_command_def decide_change_def sample_prepared_for)
      (simp add: sample_object_ctx_def nonnegative_def safe_integer_def)
  also have "\<dots> = finish_change sample_object_host ?s ?ctx create_command ''doc'' (sample_prepared ''abc'' None) (lit ''Plan'') None"
    using u(2) by (simp add: decide_create_object_def current_for_def obj_values_def HOUSEHOLD_OBJECT_LIMIT_def)
      (simp add: sample_prepared_def)
  also have "\<dots> = commit_revision sample_object_host ?s ?ctx ''doc'' (lit ''Plan'') DocKind sample_blob None None"
    using u(1) by (simp add: finish_change_def create_command_def sample_prepared_def term_refusal_def Let_def
        HOUSEHOLD_STORAGE_BYTE_LIMIT_def) (simp add: lit_def sample_blob_def)
  also have "\<dots> = \<lparr>og_outcome = ObjectCommitted ''doc'' (sample_ref CHR ''a''), og_events = [created_event], og_replayed = False\<rparr>"
    by (subst sample_commit) (simp_all add: sample_opaque sample_token_used created_event_def)
  finally show ?thesis .
qed

lemma created_reduced:
  "reduceHouseholdObject sample_object_host (sample_objects (- 1) [] []) created_event = Inr created_state"
proof -
  let ?s = "sample_objects (- 1) [] []" and ?ctx = "sample_object_ctx CHR ''a'' 0 (sample_prepared ''abc'' None)"
  have ok: "object_state_ok ?s"
    by (rule empty_object_state_ok[of "''w''" "''o''"])
      (simp add: emptyHouseholdObjectState_def sample_objects_def ensure_def)
  have "accepted_by sample_object_host ?s (decideHouseholdObject sample_object_host create_command ?s ?ctx)"
    by (rule decision_accepted[OF ok])
      (simp_all add: no_definition_upload_def create_command_def sample_object_ctx_def sample_access_def)
  then obtain s1 where a: "apply_object_body ?s created_event = Inr s1" and
    r: "reduceHouseholdObject sample_object_host ?s created_event = Inr (s1\<lparr>os_last_seq := ov_seq created_event,
       os_receipts := obj_put (os_receipts ?s) (receipt_key_of created_event) (ov_receipt created_event)\<rparr>)"
    by (auto simp: created accepted_by_def)
  have "s1 = ?s\<lparr>os_objects := [(''doc'', sample_object [first_revision])]\<rparr>"
    using a by (auto simp: apply_object_body_def created_event_def sample_object_event_def apply_revision_def Let_def
        release_reservation_def sample_revision_def sample_ref_def obj_put_def sample_object_def sample_objects_def)
  then show ?thesis using r
    by (simp add: created_state_def sample_objects_def created_event_def sample_object_event_def obj_put_def)
qed

lemma receipt_keys: "receiptKey ''u'' ''a'' \<noteq> receiptKey ''u'' ''b''" "receiptKey ''u'' ''c'' \<noteq> receiptKey ''u'' ''a''"
  "receiptKey ''u'' ''c'' \<noteq> receiptKey ''u'' ''b''"
  by code_simp+

lemma sample_current:
  "hs \<noteq> [] \<Longrightarrow> current_for (sample_objects n hs rs) ''doc'' = Some (last hs)"
  by (simp add: current_for_def newest_def) (simp add: sample_object_def)

lemma sample_base_ok: "base_ok (sample_objects n hs rs) ''doc'' (sample_ref c) \<longleftrightarrow> opaque (sample_token c)"
  by (simp add: base_ok_def sample_ref_def)

lemma sample_content: "content_for (sample_object_ctx c n p) first_revision = Some (DocContent (lit ''abc''))"
  by (simp add: content_for_def sample_object_ctx_def sample_prepared_def sample_revision_def) (simp add: sample_ref_def)

lemma first_in_history: "find (\<lambda>r. rv_revision r = sample_ref CHR ''a'') (ho_history (sample_object (first_revision # hs))) = Some first_revision"
  by (simp add: sample_object_def sample_revision_def)

text \<open>The change of the first revision, decided on a state whose history starts with it.\<close>

lemma sample_update:
  assumes "os_receipts s = rs" "s = sample_objects m (first_revision # hs) rs" "m < n" "safe_integer n"
    "obj_get rs (receiptKey ''u'' [c]) = None"
  shows "decideHouseholdObject sample_object_host change_command s (sample_object_ctx c n (sample_prepared ''axyzc'' (Some (sample_ref CHR ''a'')))) =
    (if rv_revision (last (first_revision # hs)) \<noteq> sample_ref CHR ''a''
     then preserve_draft sample_object_host s (sample_object_ctx c n (sample_prepared ''axyzc'' (Some (sample_ref CHR ''a''))))
       ''doc'' (sample_ref CHR ''a'') sample_blob None (lit ''Plan'')
     else finish_change sample_object_host s (sample_object_ctx c n (sample_prepared ''axyzc'' (Some (sample_ref CHR ''a''))))
       change_command ''doc'' (sample_prepared ''axyzc'' (Some (sample_ref CHR ''a''))) (lit ''Plan'') (Some (sample_ref CHR ''a'')))"
proof -
  let ?p = "sample_prepared ''axyzc'' (Some (sample_ref CHR ''a''))"
  let ?ctx = "sample_object_ctx c n ?p"
  have first: "rv_revision first_revision = sample_ref CHR ''a''" "rv_title first_revision = lit ''Plan''"
    by (simp_all add: sample_revision_def)
  have p: "vc_content ?p = DocContent (lit ''axyzc'')" "vc_revision ?p = Some (sample_ref CHR ''a'')" "vc_blob ?p = sample_blob"
    by (simp_all add: sample_prepared_def)
  have "decideHouseholdObject sample_object_host change_command s ?ctx = decide_object_command sample_object_host s ?ctx change_command"
    by (rule sample_object_decide) (use assms in simp_all)
  also have "\<dots> = decide_update_object sample_object_host s ?ctx change_command ''doc'' ?p (sample_ref CHR ''a'') change_patch None"
    using sample_writes assms(2)
    by (simp add: decide_object_command_def change_command_def decide_change_def sample_prepared_for)
      (simp add: sample_object_ctx_def nonnegative_def safe_integer_def)
  also have "\<dots> = (if rv_revision (last (first_revision # hs)) \<noteq> sample_ref CHR ''a''
     then preserve_draft sample_object_host s ?ctx ''doc'' (sample_ref CHR ''a'') sample_blob None (lit ''Plan'')
     else finish_change sample_object_host s ?ctx change_command ''doc'' ?p (lit ''Plan'') (Some (sample_ref CHR ''a'')))"
    unfolding decide_update_object_def assms(2) sample_current[OF list.simps(3)] option.case sample_base_ok sample_objects_simps(7)[OF list.simps(3)]
      option.sel first_in_history sample_content Let_def first p
    using sample_opaque(1) by (auto simp: sample_patch)
  finally show ?thesis .
qed

lemma changed:
  "decideHouseholdObject sample_object_host change_command created_state
     (sample_object_ctx CHR ''b'' 1 (sample_prepared ''axyzc'' (Some (sample_ref CHR ''a'')))) =
   \<lparr>og_outcome = ObjectCommitted ''doc'' (sample_ref CHR ''b''), og_events = [changed_event], og_replayed = False\<rparr>"
proof -
  let ?p = "sample_prepared ''axyzc'' (Some (sample_ref CHR ''a''))"
  let ?ctx = "sample_object_ctx CHR ''b'' 1 ?p"
  have u: "used_bytes created_state ?ctx = 3"
    by (simp add: used_bytes_def created_state_def sample_usage(1)) (simp add: sample_object_ctx_def sample_revision_def sample_blob_def)
  have "decideHouseholdObject sample_object_host change_command created_state ?ctx =
      finish_change sample_object_host created_state ?ctx change_command ''doc'' ?p (lit ''Plan'') (Some (sample_ref CHR ''a''))"
    by (subst sample_update[where m = 0 and hs = "[]" and rs = "os_receipts created_state"])
      (simp_all add: created_state_def safe_integer_def obj_get_Cons receipt_keys receipt_keys[symmetric] sample_revision_def)
  also have "\<dots> = commit_revision sample_object_host created_state ?ctx ''doc'' (lit ''Plan'') DocKind sample_blob (Some (sample_ref CHR ''a'')) None"
    using u by (simp add: finish_change_def change_command_def sample_prepared_def term_refusal_def Let_def
        HOUSEHOLD_STORAGE_BYTE_LIMIT_def) (simp add: lit_def sample_blob_def)
  also have "\<dots> = \<lparr>og_outcome = ObjectCommitted ''doc'' (sample_ref CHR ''b''), og_events = [changed_event], og_replayed = False\<rparr>"
    by (subst sample_commit)
      (auto simp: sample_opaque created_state_def sample_token_used changed_event_def sample_revision_def sample_ref_def sample_token_eq)
  finally show ?thesis .
qed

lemma created_state_ok: "object_state_ok created_state"
proof (rule reduceHouseholdObject_ok(1)[OF _ created_reduced])
  show "object_state_ok (sample_objects (- 1) [] [])"
    by (rule empty_object_state_ok[of "''w''" "''o''"])
      (simp add: emptyHouseholdObjectState_def sample_objects_def ensure_def)
qed

lemma changed_reduced: "reduceHouseholdObject sample_object_host created_state changed_event = Inr changed_state"
proof -
  let ?ctx = "sample_object_ctx CHR ''b'' 1 (sample_prepared ''axyzc'' (Some (sample_ref CHR ''a'')))"
  have "accepted_by sample_object_host created_state (decideHouseholdObject sample_object_host change_command created_state ?ctx)"
    by (rule decision_accepted[OF created_state_ok])
      (simp_all add: no_definition_upload_def change_command_def sample_object_ctx_def sample_access_def)
  then obtain s1 where a: "apply_object_body created_state changed_event = Inr s1" and
    r: "reduceHouseholdObject sample_object_host created_state changed_event = Inr (s1\<lparr>os_last_seq := ov_seq changed_event,
       os_receipts := obj_put (os_receipts created_state) (receipt_key_of changed_event) (ov_receipt changed_event)\<rparr>)"
    by (auto simp: changed accepted_by_def)
  have "s1 = created_state\<lparr>os_objects := [(''doc'', sample_object [first_revision, second_revision])]\<rparr>"
    using a by (auto simp: apply_object_body_def changed_event_def sample_object_event_def apply_revision_def Let_def created_state_def
        release_reservation_def sample_revision_def sample_ref_def obj_put_def sample_object_def sample_objects_def obj_get_def)
  then show ?thesis using r receipt_keys
    by (simp add: created_state_def changed_state_def sample_objects_def changed_event_def sample_object_event_def obj_put_def)
qed

lemma changed_state_ok: "object_state_ok changed_state"
  by (rule reduceHouseholdObject_ok(1)[OF created_state_ok changed_reduced])

lemma conflicted:
  "decideHouseholdObject sample_object_host change_command changed_state
     (sample_object_ctx CHR ''c'' 2 (sample_prepared ''axyzc'' (Some (sample_ref CHR ''a'')))) =
   \<lparr>og_outcome = ObjectConflict ''doc'' (sample_ref CHR ''b'') ''draft'', og_events = [conflict_event], og_replayed = False\<rparr>"
proof -
  let ?p = "sample_prepared ''axyzc'' (Some (sample_ref CHR ''a''))"
  let ?ctx = "sample_object_ctx CHR ''c'' 2 ?p"
  have u: "used_bytes changed_state ?ctx = 6"
    by (simp add: used_bytes_def changed_state_def sample_usage(1)) (simp add: sample_object_ctx_def sample_revision_def sample_blob_def)
  have "decideHouseholdObject sample_object_host change_command changed_state ?ctx =
      preserve_draft sample_object_host changed_state ?ctx ''doc'' (sample_ref CHR ''a'') sample_blob None (lit ''Plan'')"
    by (subst sample_update[where m = 1 and hs = "[second_revision]" and rs = "os_receipts changed_state"])
      (auto simp: changed_state_def safe_integer_def obj_get_Cons receipt_keys receipt_keys[symmetric] sample_revision_def sample_ref_def sample_token_eq)
  also have "\<dots> = emit_object sample_object_host changed_state ?ctx (DraftPreserved sample_draft None)
      (ObjectConflict ''doc'' (sample_ref CHR ''b'') ''draft'')"
  proof -
    have c: "rv_revision (the (current_for changed_state ''doc'')) = sample_ref CHR ''b''"
      by (simp add: changed_state_def sample_current) (simp add: sample_revision_def)
    have d: "\<lparr>hd_draft_id = ox_draft_id ?ctx, hd_workspace_id = os_ws changed_state, hd_object_id = ''doc'', hd_base = sample_ref CHR ''a'',
           hd_current = sample_ref CHR ''b'', hd_proposed = sample_blob, hd_title = lit ''Plan'', hd_kind = content_kind (prepared_content ?ctx),
           hd_file_metadata = file_metadata_of (prepared_content ?ctx), hd_owner = author_of ?ctx,
           hd_occurred_at = ox_now ?ctx, hd_command_id = ox_command_id ?ctx\<rparr> = sample_draft"
      unfolding sample_ctx_author
      by (simp add: sample_draft_def sample_object_ctx_def file_metadata_of_def prepared_content_def sample_prepared_def changed_state_def)
    show ?thesis unfolding preserve_draft_def Let_def c d using u
      by (simp add: HOUSEHOLD_STORAGE_BYTE_LIMIT_def sample_blob_def) (simp add: sample_object_ctx_def changed_state_def)
  qed
  also have "\<dots> = \<lparr>og_outcome = ObjectConflict ''doc'' (sample_ref CHR ''b'') ''draft'', og_events = [conflict_event], og_replayed = False\<rparr>"
    by (subst sample_emit_object)
      (simp_all add: changed_state_def conflict_event_def draft_js_def sample_draft_def text_js_def lit_def sample_ref_def ref_js_def
        blob_js_def sample_blob_def attribution_js_def sample_author_def sample_token_def)
  finally show ?thesis .
qed

end
