(* ===== verification/ObjectProperties.thy ===== *)
theory ObjectProperties
  imports ObjectPatch ObjectReading ObjectTerms ObjectSample
begin

text \<open>
  What makes the household's objects correct: replay is sound and append-only, what is decided is
  what replays, an update never overwrites a revision its author has not seen, patches do what they say,
  and reading shows every visible object once and nothing else.
\<close>

section \<open>The branches of an update\<close>

lemma emitted_event:
  "og_events (emit_object h s ctx body outcome) = [e] \<Longrightarrow>
     e = object_event_of s ctx body outcome \<and> og_outcome (emit_object h s ctx body outcome) = outcome"
  by (auto simp: emit_object_def Let_def no_event_def split: if_split_asm)

text \<open>An update is refused, kept as a draft when its base is no longer the newest revision, or committed on it.\<close>

definition update_branch :: "object_host \<Rightarrow> object_state \<Rightarrow> object_ctx \<Rightarrow> string \<Rightarrow> household_object \<Rightarrow> revision_ref \<Rightarrow> blob \<Rightarrow> object_decision \<Rightarrow> bool" where
  "update_branch h s ctx i ob base b g \<longleftrightarrow> (\<exists>why. g = refuse_object h s ctx why) \<or>
    (base \<noteq> newest_ref ob \<and> (\<exists>name. g = preserve_draft h s ctx i base b None name)) \<or>
    (base = newest_ref ob \<and> (\<exists>name kind. g = commit_revision h s ctx i name kind b (Some base) None))"

lemma update_branch_intros:
  "update_branch h s ctx i ob base b (refuse_object h s ctx why)"
  "(c \<Longrightarrow> update_branch h s ctx i ob base b x) \<Longrightarrow> (\<not> c \<Longrightarrow> update_branch h s ctx i ob base b y) \<Longrightarrow>
     update_branch h s ctx i ob base b (if c then x else y)"
  "base \<noteq> newest_ref ob \<Longrightarrow> update_branch h s ctx i ob base b (preserve_draft h s ctx i base b None name)"
  "base = newest_ref ob \<Longrightarrow> update_branch h s ctx i ob base b (commit_revision h s ctx i name kind b (Some base) None)"
  by (auto simp: update_branch_def)

lemma finish_branch:
  assumes "base = newest_ref ob"
  shows "update_branch h s ctx i ob base (vc_blob prepared) (finish_change h s ctx (UpdateObject i b p t) i prepared name (Some base))"
  unfolding finish_change_def Let_def object_command.case
  by (cases "term_refusal h s i name (vc_content prepared)"; simp only: option.case; intro update_branch_intros assms)

lemma update_branches:
  assumes "tables_sound s" "obj_get (os_objects s) i = Some ob"
  shows "update_branch h s ctx i ob base (vc_blob prepared)
    (decide_update_object h s ctx (UpdateObject i b p t) i prepared base pt title)"
proof -
  note snd = tables_soundD(1)[OF assms(1,2)]
  have cur: "current_for s i = Some (last (ho_history ob))" using newest_sound(2)[OF snd] by (simp add: current_for_def assms(2))
  let ?f = "find (\<lambda>r. rv_revision r = base) (ho_history ob)"
  show ?thesis
  proof (cases ?f)
    case None
    show ?thesis unfolding decide_update_object_def cur option.case assms(2) option.sel None by (intro update_branch_intros)
  next
    case (Some r)
    have r: "rv_revision r = base" using Some by (auto simp: find_Some_iff)
    show ?thesis
    proof (cases "content_for ctx r")
      case None
      show ?thesis unfolding decide_update_object_def cur option.case assms(2) option.sel Some None by (intro update_branch_intros)
    next
      case (Some c)
      show ?thesis
        unfolding decide_update_object_def cur option.case assms(2) option.sel \<open>?f = Some r\<close> Some Let_def r
        by (intro update_branch_intros finish_branch) (simp_all add: newest_ref_def)
    qed
  qed
qed

lemma update_decision:
  assumes "tables_sound s" "obj_get (os_objects s) i = Some ob"
    and "og_events (decideHouseholdObject h (UpdateObject i base p title) s ctx) = [e]"
  shows "(\<exists>why. decideHouseholdObject h (UpdateObject i base p title) s ctx = refuse_object h s ctx why) \<or>
    (\<exists>prepared. ox_prepared ctx = Some prepared \<and>
      decideHouseholdObject h (UpdateObject i base p title) s ctx =
        decide_update_object h s ctx (UpdateObject i base p title) i prepared base p title)"
proof -
  let ?cmd = "UpdateObject i base p title"
  have "decideHouseholdObject h ?cmd s ctx = decide_object_command h s ctx ?cmd"
    using assms(3) by (auto simp: decideHouseholdObject_def no_event_def split: option.split_asm if_split_asm)
  moreover have "decide_object_command h s ctx ?cmd = no_event ''quota_facts_invalid'' \<or>
      (\<exists>why. decide_object_command h s ctx ?cmd = refuse_object h s ctx why) \<or>
      decide_object_command h s ctx ?cmd = decide_change h s ctx ?cmd i (UpdateChange base p title)"
    by (auto simp: decide_object_command_def)
  moreover have "(\<exists>why. decide_change h s ctx ?cmd i (UpdateChange base p title) = refuse_object h s ctx why) \<or>
      (\<exists>prepared. ox_prepared ctx = Some prepared \<and> decide_change h s ctx ?cmd i (UpdateChange base p title) =
        decide_update_object h s ctx ?cmd i prepared base p title)"
    using prepared_for_Some(1)[of s ctx i] by (auto simp: decide_change_def split: option.split)
  ultimately show ?thesis using assms(3) by (auto simp: no_event_def)
qed

lemma refusal_reduces:
  assumes "og_events (refuse_object h s ctx why) = [e]" "reduceHouseholdObject h s e = Inr s'"
  shows "og_outcome (refuse_object h s ctx why) = ObjectRefused why \<and> os_objects s' = os_objects s \<and> os_drafts s' = os_drafts s"
proof -
  have e: "e = object_event_of s ctx ObjectCommandRefused (ObjectRefused why)" "og_outcome (refuse_object h s ctx why) = ObjectRefused why"
    using emitted_event[of h s ctx ObjectCommandRefused "ObjectRefused why" e] assms(1) by (simp_all add: refuse_object_def)
  obtain s1 where "object_envelope_ok h s e" "object_receipt_ok s e" "apply_object_body s e = Inr s1"
    "s' = s1\<lparr>os_last_seq := ov_seq e, os_receipts := obj_put (os_receipts s) (receipt_key_of e) (ov_receipt e)\<rparr>"
    "object_quota_ok s'" by (rule reduceHouseholdObject_Inr[OF assms(2)])
  then show ?thesis using e by (simp add: apply_object_body_def)
qed

text \<open>What an update leaves behind, by its outcome.\<close>

definition update_kept :: "object_ctx \<Rightarrow> object_state \<Rightarrow> object_state \<Rightarrow> string \<Rightarrow> household_object \<Rightarrow> revision_ref \<Rightarrow> object_outcome \<Rightarrow> bool" where
  "update_kept ctx s s' i ob base outcome \<longleftrightarrow> (case outcome of
      ObjectCommitted j ref \<Rightarrow> j = i \<and> base = newest_ref ob \<and> (\<exists>ob' r. obj_get (os_objects s') i = Some ob' \<and>
        ho_history ob' = ho_history ob @ [r] \<and> rv_revision r = ref \<and> rv_parent r = Some base)
    | ObjectConflict j cur d \<Rightarrow> j = i \<and> base \<noteq> newest_ref ob \<and> cur = newest_ref ob \<and> os_objects s' = os_objects s \<and>
        (\<exists>x. obj_get (os_drafts s') d = Some x \<and> hd_base x = base \<and> hd_owner x = author_of ctx \<and>
          Some (hd_proposed x) = map_option vc_blob (ox_prepared ctx))
    | ObjectRefused why \<Rightarrow> os_objects s' = os_objects s \<and> os_drafts s' = os_drafts s
    | _ \<Rightarrow> False)"

lemma reduced_body:
  assumes "reduceHouseholdObject h s e = Inr s'"
  obtains s1 where "apply_object_body s e = Inr s1" "os_objects s' = os_objects s1" "os_drafts s' = os_drafts s1"
  by (rule reduceHouseholdObject_Inr[OF assms]) simp

lemma refusal_kept:
  assumes "g = refuse_object h s ctx why" "og_events g = [e]" "reduceHouseholdObject h s e = Inr s'"
  shows "update_kept ctx s s' i ob base (og_outcome g)"
  using refusal_reduces[of h s ctx why e s'] assms by (simp add: update_kept_def)

lemma draft_kept:
  assumes t: "tables_sound s" and ob: "obj_get (os_objects s) i = Some ob" and prep: "ox_prepared ctx = Some prepared"
    and b: "base \<noteq> newest_ref ob" and g: "g = preserve_draft h s ctx i base (vc_blob prepared) None name"
    and e: "og_events g = [e]" and r: "reduceHouseholdObject h s e = Inr s'"
  shows "update_kept ctx s s' i ob base (og_outcome g)"
proof (cases "\<exists>why. g = refuse_object h s ctx why")
  case True
  then show ?thesis using refusal_kept[OF _ e r] by blast
next
  case False
  have cur: "rv_revision (the (current_for s i)) = newest_ref ob"
    using newest_sound(2)[OF tables_soundD(1)[OF t ob]] by (simp add: current_for_def ob newest_ref_def)
  obtain x where x: "g = emit_object h s ctx (DraftPreserved x None) (ObjectConflict i (newest_ref ob) (ox_draft_id ctx))"
    "hd_base x = base" "hd_owner x = author_of ctx" "hd_proposed x = vc_blob prepared" "hd_draft_id x = ox_draft_id ctx"
    using False unfolding g preserve_draft_def Let_def cur by (auto split: if_split_asm)
  have ev: "ov_body e = DraftPreserved x None" "og_outcome g = ObjectConflict i (newest_ref ob) (ox_draft_id ctx)"
    using emitted_event[OF e[unfolded x(1)]] x(1) by simp_all
  obtain s1 where s1: "apply_object_body s e = Inr s1" "os_objects s' = os_objects s1" "os_drafts s' = os_drafts s1"
    by (rule reduced_body[OF r])
  then have "s1 = s\<lparr>os_drafts := obj_put (os_drafts s) (hd_draft_id x) x\<rparr>"
    by (simp add: apply_object_body_def ev(1) apply_draft_def Let_def release_reservation_def)
  then show ?thesis using ev(2) x(2-5) b prep s1(2,3) by (simp add: update_kept_def)
qed

lemma commit_kept:
  assumes ob: "obj_get (os_objects s) i = Some ob" and b: "base = newest_ref ob"
    and g: "g = commit_revision h s ctx i name kind blb (Some base) None"
    and e: "og_events g = [e]" and r: "reduceHouseholdObject h s e = Inr s'"
  shows "update_kept ctx s s' i ob base (og_outcome g)"
proof (cases "\<exists>why. g = refuse_object h s ctx why")
  case True
  then show ?thesis using refusal_kept[OF _ e r] by blast
next
  case False
  then obtain v ref where v: "g = emit_object h s ctx (ObjectUpdated v None) (ObjectCommitted i ref)"
    "rv_revision v = ref" "rr_object_id ref = i" "rv_parent v = Some base"
    unfolding g commit_revision_def Let_def by (auto split: if_split_asm)
  have ev: "ov_body e = ObjectUpdated v None" "og_outcome g = ObjectCommitted i ref"
    using emitted_event[OF e[unfolded v(1)]] v(1) by simp_all
  obtain s1 where s1: "apply_object_body s e = Inr s1" "os_objects s' = os_objects s1" "os_drafts s' = os_drafts s1"
    by (rule reduced_body[OF r])
  then have "apply_revision s e False v None = Inr s1" by (simp add: apply_object_body_def ev(1))
  then have "obj_get (os_objects s1) i = Some (object_with (Some ob) i v)"
    by (rule apply_revision_Inr) (simp add: v(2,3) ob)
  then show ?thesis using ev(2) b v(2,4) s1(2) by (simp add: update_kept_def object_with_def)
qed

section \<open>Replay\<close>

lemma distinct_of_count: "(\<And>t. count (mset xs) t \<le> 1) \<Longrightarrow> distinct xs"
proof (induction xs)
  case (Cons x xs)
  have "count (mset xs) t \<le> count (mset (x # xs)) t" for t by simp
  then have "count (mset xs) t \<le> 1" for t using Cons.prems[of t] order_trans by blast
  moreover have "count (mset xs) x = 0" using Cons.prems[of x] by simp
  ultimately show ?case using Cons.IH by (simp add: count_eq_zero_iff)
qed simp

text \<open>
  C24. Every state the reducer of household objects replays from the empty one is sound: each object
  has a non-empty linear history of its own kind, no revision token occurs twice, pending uploads and
  drafts refer to committed revisions, a certificate pins one, and the quotas of 500 objects and 1 GiB hold.
\<close>

theorem replayed_objects_are_sound:
  assumes "emptyHouseholdObjectState ws st = Inr s0" and "reduceHouseholdObjectStream h s0 es = Inr s"
  shows "object_state_ok s \<and> distinct (map (\<lambda>r. rr_token (rv_revision r)) (revisions s))"
proof -
  have ok: "object_state_ok s" using reduceHouseholdObjectStream_ok[OF assms(2) empty_object_state_ok[OF assms(1)]] by blast
  then have "count (mset (map (\<lambda>r. rr_token (rv_revision r)) (revisions s))) t \<le> 1" for t
    using tables_sound_wf(3)[of s t] by (simp add: object_state_ok_def tokens_def)
  then show ?thesis using ok distinct_of_count by blast
qed

lemma sample_blank_objects: "emptyHouseholdObjectState ''w'' ''o'' = Inr (sample_objects (- 1) [] [])"
  by (simp add: emptyHouseholdObjectState_def sample_objects_def ensure_def)

theorem replayed_objects_are_sound_witness:
  "object_state_ok changed_state \<and> map (\<lambda>r. rr_token (rv_revision r)) (revisions changed_state) = [sample_token CHR ''a'', sample_token CHR ''b''] \<and>
     distinct [sample_token CHR ''a'', sample_token CHR ''b'']"
proof -
  have "reduceHouseholdObjectStream sample_object_host (sample_objects (- 1) [] []) [created_event, changed_event] = Inr changed_state"
    by (simp add: created_reduced changed_reduced)
  from replayed_objects_are_sound[OF sample_blank_objects this] show ?thesis
    by (simp add: changed_state_def) (simp add: sample_revision_def sample_ref_def)
qed

text \<open>
  C25. Nothing is ever lost: whatever follows, an object keeps its kind, its history only grows at its
  end, and every draft and every receipt stays as it was.
\<close>

theorem object_log_only_grows:
  assumes "object_state_ok s" and "reduceHouseholdObjectStream h s es = Inr s'"
  shows "(\<forall>i ob. obj_get (os_objects s) i = Some ob \<longrightarrow> (\<exists>ob'. obj_get (os_objects s') i = Some ob' \<and>
      ho_kind ob' = ho_kind ob \<and> prefix (ho_history ob) (ho_history ob'))) \<and>
    (\<forall>i d. obj_get (os_drafts s) i = Some d \<longrightarrow> obj_get (os_drafts s') i = Some d) \<and>
    (\<forall>k r. obj_get (os_receipts s) k = Some r \<longrightarrow> obj_get (os_receipts s') k = Some r)"
  using reduceHouseholdObjectStream_ok[OF assms(2,1)] by (fastforce simp: state_grows_def object_grows_def)

theorem object_log_only_grows_witness:
  "\<exists>ob'. obj_get (os_objects changed_state) ''doc'' = Some ob' \<and> prefix [first_revision] (ho_history ob')"
proof -
  have "reduceHouseholdObjectStream sample_object_host created_state [changed_event] = Inr changed_state"
    by (simp add: changed_reduced)
  from object_log_only_grows[OF created_state_ok this]
  have "\<forall>ob. obj_get (os_objects created_state) ''doc'' = Some ob \<longrightarrow>
      (\<exists>ob'. obj_get (os_objects changed_state) ''doc'' = Some ob' \<and> prefix (ho_history ob) (ho_history ob'))" by blast
  then show ?thesis by (simp add: created_state_def) (simp add: sample_object_def)
qed

section \<open>Decisions\<close>

text \<open>
  C26. What an attempt emits, replay accepts: the decision's event folds onto the projection it was decided
  on, quotas included, the result is sound again, and it holds the attempt's outcome under the actor
  and the command. The adapter reserves uploads of files only, and a person's actor has no run.
\<close>

theorem object_decision_replays:
  assumes "object_state_ok s" and "no_definition_upload cmd"
    and "xa_credential (ox_access ctx) = HumanAccess \<Longrightarrow> ac_run_id (xa_actor (ox_access ctx)) = None"
    and "e \<in> set (og_events (decideHouseholdObject h cmd s ctx))"
  shows "\<exists>s' rc. reduceHouseholdObject h s e = Inr s' \<and> object_state_ok s' \<and>
    obj_get (os_receipts s') (receiptKey (oc_principal rc) (oc_command_id rc)) = Some rc \<and>
    rc = ov_receipt e \<and> oc_outcome rc = og_outcome (decideHouseholdObject h cmd s ctx)"
proof -
  obtain s1 where r: "reduceHouseholdObject h s e = Inr (s1\<lparr>os_last_seq := ov_seq e,
       os_receipts := obj_put (os_receipts s) (receipt_key_of e) (ov_receipt e)\<rparr>)"
    "oc_outcome (ov_receipt e) = og_outcome (decideHouseholdObject h cmd s ctx)"
    using decision_accepted[OF assms(1-3)] assms(4) by (auto simp: accepted_by_def)
  then show ?thesis using reduceHouseholdObject_ok(1)[OF assms(1) r(1)] by simp
qed

theorem object_decision_replays_witness:
  "\<exists>s'. reduceHouseholdObject sample_object_host changed_state conflict_event = Inr s' \<and> object_state_ok s'"
proof -
  let ?ctx = "sample_object_ctx CHR ''c'' 2 (sample_prepared ''axyzc'' (Some (sample_ref CHR ''a'')))"
  have "no_definition_upload change_command" by (simp add: no_definition_upload_def change_command_def)
  moreover have "ac_run_id (xa_actor (ox_access ?ctx)) = None" by (simp add: sample_object_ctx_def sample_access_def)
  moreover have "conflict_event \<in> set (og_events (decideHouseholdObject sample_object_host change_command changed_state ?ctx))"
    by (simp add: conflicted)
  ultimately show ?thesis using object_decision_replays[OF changed_state_ok] by blast
qed

text \<open>
  C27. No update is lost: an update commits only on the newest revision, which becomes its parent. Sent for
  an older one, it leaves every object as it is, and its proposal is kept as a draft of its author
  that names the base it was made from; a refused one leaves objects and drafts as they are.
\<close>

theorem no_update_is_lost:
  assumes "object_state_ok s" and "obj_get (os_objects s) i = Some ob"
    and "og_events (decideHouseholdObject h (UpdateObject i base p title) s ctx) = [e]" and "reduceHouseholdObject h s e = Inr s'"
  shows "case og_outcome (decideHouseholdObject h (UpdateObject i base p title) s ctx) of
      ObjectCommitted j ref \<Rightarrow> j = i \<and> base = newest_ref ob \<and> (\<exists>ob' r. obj_get (os_objects s') i = Some ob' \<and>
        ho_history ob' = ho_history ob @ [r] \<and> rv_revision r = ref \<and> rv_parent r = Some base)
    | ObjectConflict j cur d \<Rightarrow> j = i \<and> base \<noteq> newest_ref ob \<and> cur = newest_ref ob \<and> os_objects s' = os_objects s \<and>
        (\<exists>x. obj_get (os_drafts s') d = Some x \<and> hd_base x = base \<and> hd_owner x = author_of ctx \<and>
          Some (hd_proposed x) = map_option vc_blob (ox_prepared ctx))
    | ObjectRefused why \<Rightarrow> os_objects s' = os_objects s \<and> os_drafts s' = os_drafts s
    | _ \<Rightarrow> False"
proof -
  let ?g = "decideHouseholdObject h (UpdateObject i base p title) s ctx"
  have t: "tables_sound s" using assms(1) by (simp add: object_state_ok_def)
  have "update_kept ctx s s' i ob base (og_outcome ?g)" using update_decision[OF t assms(2,3)]
  proof (elim disjE exE conjE)
    fix why assume "?g = refuse_object h s ctx why"
    then show ?thesis by (rule refusal_kept[OF _ assms(3,4)])
  next
    fix prepared
    assume prep: "ox_prepared ctx = Some prepared"
      and g: "?g = decide_update_object h s ctx (UpdateObject i base p title) i prepared base p title"
    from update_branches[OF t assms(2), of h ctx base prepared base p title p title, folded g] show ?thesis
      unfolding update_branch_def
      using refusal_kept[OF _ assms(3,4)] draft_kept[OF t assms(2) prep _ _ assms(3,4)] commit_kept[OF assms(2) _ _ assms(3,4)]
      by blast
  qed
  then show ?thesis unfolding update_kept_def .
qed

lemma conflict_reduced: "\<exists>s'. reduceHouseholdObject sample_object_host changed_state conflict_event = Inr s'"
proof -
  let ?ctx = "sample_object_ctx CHR ''c'' 2 (sample_prepared ''axyzc'' (Some (sample_ref CHR ''a'')))"
  have "accepted_by sample_object_host changed_state (decideHouseholdObject sample_object_host change_command changed_state ?ctx)"
    by (rule decision_accepted[OF changed_state_ok])
      (simp_all add: no_definition_upload_def change_command_def sample_object_ctx_def sample_access_def)
  then show ?thesis by (auto simp: conflicted accepted_by_def)
qed

theorem no_update_is_lost_witness:
  "\<exists>s' x. reduceHouseholdObject sample_object_host changed_state conflict_event = Inr s' \<and>
     obj_get (os_objects s') ''doc'' = Some (sample_object [first_revision, second_revision]) \<and>
     obj_get (os_drafts s') ''draft'' = Some x \<and> hd_base x = sample_ref CHR ''a'' \<and> hd_proposed x = sample_blob"
proof -
  let ?ctx = "sample_object_ctx CHR ''c'' 2 (sample_prepared ''axyzc'' (Some (sample_ref CHR ''a'')))"
  have ob: "obj_get (os_objects changed_state) ''doc'' = Some (sample_object [first_revision, second_revision])"
    by (simp add: changed_state_def)
  obtain s' where r: "reduceHouseholdObject sample_object_host changed_state conflict_event = Inr s'"
    using conflict_reduced by blast
  have ev: "og_events (decideHouseholdObject sample_object_host (UpdateObject ''doc'' (sample_ref CHR ''a'') change_patch None) changed_state ?ctx) =
      [conflict_event]"
    using conflicted by (simp add: change_command_def)
  from no_update_is_lost[OF changed_state_ok ob ev r] conflicted[unfolded change_command_def]
  have "os_objects s' = os_objects changed_state \<and> (\<exists>x. obj_get (os_drafts s') ''draft'' = Some x \<and> hd_base x = sample_ref CHR ''a'' \<and>
      Some (hd_proposed x) = map_option vc_blob (ox_prepared ?ctx))" by auto
  then show ?thesis using r ob by (auto simp: sample_object_ctx_def sample_prepared_def)
qed

text \<open>The one event of the decision that replay refuses: the reservation of a definition.\<close>

lemma definition_upload_does_not_replay:
  assumes "ov_body e = UploadReserved r" "rs_kind r = DefinitionKind"
  shows "\<exists>x. reduceHouseholdObject h s e = Inl x"
proof (cases "reduceHouseholdObject h s e")
  case (Inr s')
  show ?thesis
    by (rule reduceHouseholdObject_Inr[OF Inr])
      (use assms in \<open>simp add: apply_object_body_def apply_reserved_def Let_def reservation_fields_ok_def HOUSEHOLD_OBJECT_TYPES_def\<close>)
qed blast

section \<open>Certificates\<close>

lemma body_certification:
  assumes ok: "tables_sound s" and a: "apply_object_body s e = Inr s1"
    and c: "obj_get (os_objects s1) i = Some ob'" "ho_certification ob' = Some c"
    and new: "\<And>ob. obj_get (os_objects s) i = Some ob \<Longrightarrow> ho_certification ob \<noteq> Some c"
  shows "ov_actor_agent_principal e = None \<and> ov_actor_run e = None \<and> ov_actor_user e = Some (cx_certified_by c) \<and>
    cx_revision c = newest_ref ob' \<and> ho_kind ob' = DefinitionKind"
proof -
  have revision: False if "apply_revision s e created r rid = Inr s1" for created r rid
  proof (rule apply_revision_Inr[OF that])
    fix rs assume "s1 = s\<lparr>os_reservations := rs, os_objects := obj_put (os_objects s) (rr_object_id (rv_revision r))
       (object_with (obj_get (os_objects s) (rr_object_id (rv_revision r))) (rr_object_id (rv_revision r)) r)\<rparr>"
    then show False using c new by (auto simp: object_with_def bind_eq_Some_conv split: if_split_asm)
  qed
  have same: False if "os_objects s1 = os_objects s" using c new that by simp
  have unchanged: "os_objects s1 = os_objects s"
    if "apply_reserved s e r = Inr s1 \<or> apply_released s e k = Inr s1 \<or> apply_draft s e d rid = Inr s1" for r k d rid
    using that by (auto simp: apply_reserved_def apply_released_def apply_draft_def Let_def bind_result_Inr)
  have certified: ?thesis if cert: "apply_certified s e j ref = Inr s1" for j ref
  proof -
    obtain ob where ob: "obj_get (os_objects s) j = Some ob"
      using cert by (cases "obj_get (os_objects s) j") (simp_all add: apply_certified_def Let_def)
    have j: "ho_object_id ob = j" using tables_soundD(1)[OF ok ob] by (simp add: object_sound_def)
    note f = cert[unfolded apply_certified_def Let_def ob option.case ensure_Inr j]
    have "i = j" using f c new by (auto split: if_split_asm)
    then show ?thesis using f c by (cases "ov_actor_user e") (auto simp: newest_ref_def)
  qed
  show ?thesis
    using a revision same unchanged certified unfolding apply_object_body_def
    by (cases "ov_body e") (simp_all, blast+)
qed

text \<open>
  Only people certify: when an event gives an object a certificate it did not have, the event's actor is
  a person with no agent and no run, named in the certificate, the object is a definition, and
  the certificate pins the revision that is newest at that moment.
\<close>

theorem only_people_certify:
  assumes "object_state_ok s" and "reduceHouseholdObject h s e = Inr s'"
    and "obj_get (os_objects s') i = Some ob'" and "ho_certification ob' = Some c"
    and "\<And>ob. obj_get (os_objects s) i = Some ob \<Longrightarrow> ho_certification ob \<noteq> Some c"
  shows "ov_actor_agent_principal e = None \<and> ov_actor_run e = None \<and> ov_actor_user e = Some (cx_certified_by c) \<and>
    cx_revision c = newest_ref ob' \<and> ho_kind ob' = DefinitionKind"
proof (rule reduceHouseholdObject_Inr[OF assms(2)])
  fix s1
  assume "apply_object_body s e = Inr s1"
    "s' = s1\<lparr>os_last_seq := ov_seq e, os_receipts := obj_put (os_receipts s) (receipt_key_of e) (ov_receipt e)\<rparr>"
  then show ?thesis using body_certification[of s e s1 i ob' c] assms(1,3-5) by (simp add: object_state_ok_def)
qed

definition sample_term :: revision where
  "sample_term = (sample_revision CHR ''a'' None)\<lparr>rv_kind := DefinitionKind\<rparr>"

definition term_object :: "certification option \<Rightarrow> household_object" where
  "term_object c = \<lparr>ho_object_id = ''doc'', ho_kind = DefinitionKind, ho_history = [sample_term], ho_certification = c\<rparr>"

definition term_state :: object_state where
  "term_state = (sample_objects 0 [] [])\<lparr>os_objects := [(''doc'', term_object None)]\<rparr>"

definition sample_certificate :: certification where
  "sample_certificate = \<lparr>cx_revision = sample_ref CHR ''a'', cx_certified_by = ''u'', cx_certified_at = Fin 0\<rparr>"

lemma term_state_ok: "object_state_ok term_state"
proof -
  have "opaque (sample_token CHR ''a'')" by (rule sample_opaque)
  then show ?thesis
    using sample_blob_ok by (auto simp: object_state_ok_def tables_sound_def term_state_def obj_wf_def obj_get_Cons object_sound_def
      term_object_def revision_sound_def sample_term_def sample_revision_def sample_ref_def ref_ok_def metadata_ok_def tokens_def
      revisions_def obj_values_def object_quota_ok_def householdObjectUsage_def usage_names_def obj_keys_def lit_def
      HOUSEHOLD_OBJECT_LIMIT_def HOUSEHOLD_STORAGE_BYTE_LIMIT_def sample_blob_def split: if_split_asm)
qed

lemma term_certified:
  "\<exists>s'. reduceHouseholdObject sample_object_host term_state
     (sample_object_event CHR ''b'' 1 (DefinitionCertified ''doc'' (sample_ref CHR ''a'')) (ObjectCommitted ''doc'' (sample_ref CHR ''a''))) = Inr s' \<and>
     obj_get (os_objects s') ''doc'' = Some (term_object (Some sample_certificate))"
proof -
  let ?body = "DefinitionCertified ''doc'' (sample_ref CHR ''a'')" and ?out = "ObjectCommitted ''doc'' (sample_ref CHR ''a'')"
  let ?ctx = "sample_object_ctx CHR ''b'' 1 (sample_prepared ''abc'' None)"
  have ob: "obj_get (os_objects term_state) ''doc'' = Some (term_object None)" by (simp add: term_state_def obj_get_Cons)
  have id: "ho_object_id (term_object None) = ''doc''" by (simp add: term_object_def)
  have ref: "newest_ref (term_object None) = sample_ref CHR ''a''"
    by (simp add: newest_ref_def term_object_def sample_term_def sample_revision_def)
  have "householdAccessRefusal (ox_access ?ctx) (os_ws term_state) ReadContent (ox_now ?ctx) = None"
    using sample_access_ok by (simp add: term_state_def sample_object_ctx_def)
  then have at: "attempt_ok term_state ?ctx"
    unfolding attempt_ok_def sample_ctx_author
    by (intro conjI exI[of _ ReadContent]) (simp_all add: sample_object_ctx_def term_state_def sample_digest_64 safe_integer_def)
  have ws: "os_ws term_state = ''w''" "os_stream term_state = ''o''" by (simp_all add: term_state_def)
  have emitted: "emit_object sample_object_host term_state ?ctx ?body ?out =
      \<lparr>og_outcome = ?out, og_events = [sample_object_event CHR ''b'' 1 ?body ?out], og_replayed = False\<rparr>"
    by (rule sample_emit_object[OF ws]) (simp_all add: sample_ref_def ref_js_def sample_token_def)
  have "accepted_by sample_object_host term_state (emit_object sample_object_host term_state ?ctx ?body ?out)"
    using accepted_certify[OF at term_state_ok ob _ _ _ ref] unfolding id
    by (simp add: sample_object_ctx_def sample_access_def term_object_def)
  then obtain s1 where a: "apply_object_body term_state (sample_object_event CHR ''b'' 1 ?body ?out) = Inr s1"
    and r: "reduceHouseholdObject sample_object_host term_state (sample_object_event CHR ''b'' 1 ?body ?out) = Inr (s1\<lparr>os_last_seq := 1,
      os_receipts := obj_put (os_receipts term_state) (receiptKey ''u'' ''b'') (ov_receipt (sample_object_event CHR ''b'' 1 ?body ?out))\<rparr>)"
    by (auto simp: emitted accepted_by_def sample_object_event_def)
  have "obj_get (os_objects s1) ''doc'' = Some (term_object (Some sample_certificate))"
    using a by (auto simp: apply_object_body_def sample_object_event_def apply_certified_def Let_def ob id
        term_object_def sample_certificate_def)
  then show ?thesis
    by (intro exI[of _ "s1\<lparr>os_last_seq := 1, os_receipts := obj_put (os_receipts term_state) (receiptKey ''u'' ''b'')
      (ov_receipt (sample_object_event CHR ''b'' 1 ?body ?out))\<rparr>"] conjI r) simp
qed

theorem only_people_certify_witness:
  "cx_certified_by sample_certificate = ''u'' \<and> cx_revision sample_certificate = newest_ref (term_object (Some sample_certificate))"
proof -
  let ?e = "sample_object_event CHR ''b'' 1 (DefinitionCertified ''doc'' (sample_ref CHR ''a'')) (ObjectCommitted ''doc'' (sample_ref CHR ''a''))"
  obtain s' where r: "reduceHouseholdObject sample_object_host term_state ?e = Inr s'"
    "obj_get (os_objects s') ''doc'' = Some (term_object (Some sample_certificate))" using term_certified by blast
  have "ho_certification (term_object (Some sample_certificate)) = Some sample_certificate" by (simp add: term_object_def)
  from only_people_certify[OF term_state_ok r this] show ?thesis
    by (auto simp: term_state_def obj_get_Cons term_object_def sample_object_event_def)
qed

section \<open>Patches\<close>

text \<open>
  A patch of a valid list gives a valid list, its ids unique and its items numbered from 0, and does
  only what its operations name: every other item keeps its text and its tick, and they keep their order.
\<close>

theorem patched_list_is_valid:
  assumes "validContent (ListContent items)" and "applyHouseholdPatch (ListContent items) (ListPatch ops) b = Some c"
  shows "\<exists>items'. c = ListContent items' \<and> validContent c \<and>
    untouched (patch_item ` set ops) items' = untouched (patch_item ` set ops) items"
proof -
  obtain items' where l: "list_patch_loop (map li_item_id items) items ops = Some items'" "c = ListContent items'"
    using assms(2) by auto
  have "ids_ok (map li_item_id items) items" "\<forall>j < length items. li_order (items ! j) = int j"
    using assms(1) unfolding valid_content_ids by blast+
  then have "ids_ok (map li_item_id items') items' \<and> (\<forall>j < length items'. li_order (items' ! j) = int j) \<and>
      untouched (patch_item ` set ops) items' = untouched (patch_item ` set ops) items"
    using list_patch_loop_ok[OF l(1) _ subset_refl] by blast
  then show ?thesis unfolding l(2) valid_content_ids by blast
qed

definition sample_item :: "string \<Rightarrow> int \<Rightarrow> bool \<Rightarrow> list_item" where
  "sample_item i n ticked = \<lparr>li_item_id = i, li_text = lit i, li_order = n, li_checked = ticked\<rparr>"

theorem patched_list_is_valid_witness:
  "validContent (ListContent [sample_item ''a'' 0 False, sample_item ''c'' 1 False, sample_item ''b'' 2 True]) \<and>
     untouched {''b'', ''c''} [sample_item ''a'' 0 False, sample_item ''c'' 1 False, sample_item ''b'' 2 True] = [(''a'', lit ''a'', False)]"
proof -
  let ?items = "[sample_item ''a'' 0 False, sample_item ''b'' 1 False]"
  let ?ops = "[PatchAdd ''c'' (lit ''c'') False (Some ''a''), PatchSet ''b'' (lit ''b'') False (lit ''b'') True]"
  have v: "validContent (ListContent ?items)" by (simp add: sample_item_def)
  have p: "applyHouseholdPatch (ListContent ?items) (ListPatch ?ops) sample_blob =
      Some (ListContent [sample_item ''a'' 0 False, sample_item ''c'' 1 False, sample_item ''b'' 2 True])"
    by (simp add: sample_item_def find_item_def renumber_def)
  have ids: "patch_item ` set ?ops = {''b'', ''c''}" by auto
  from patched_list_is_valid[OF v p, unfolded ids] show ?thesis by (auto simp: sample_item_def)
qed

text \<open>
  The splices of a document are one simultaneous replacement: they are accepted exactly when the base is
  gaps with the texts before between them, at the offsets they give in the base, and the result is the
  same gaps with the texts after. (A JavaScript string has fewer than 2^53 units.)
\<close>

theorem document_splices_are_simultaneous:
  assumes "int (length base) \<le> 9007199254740991"
  shows "applyHouseholdPatch (DocContent base) (DocPatch ss) b = Some c \<longleftrightarrow> (\<exists>r. c = DocContent r \<and> spliced base ss r)"
  using splice_loop_spliced[OF assms, of ss] by auto

theorem document_splices_are_simultaneous_witness: "spliced (lit ''abc'') [\<lparr>sp_start = 1, sp_before = lit ''b'', sp_after = lit ''xyz''\<rparr>] (lit ''axyzc'')"
proof -
  have "int (length (lit ''abc'')) \<le> 9007199254740991" by (simp add: lit_def)
  from document_splices_are_simultaneous[OF this, of "[\<lparr>sp_start = 1, sp_before = lit ''b'', sp_after = lit ''xyz''\<rparr>]" sample_blob
      "DocContent (lit ''axyzc'')"] sample_patch[of sample_blob]
  show ?thesis by (simp add: change_patch_def)
qed

section \<open>Reading\<close>

text \<open>
  C29. Paging shows everything once: a reader who follows \<open>next_offset\<close> from the first page, whatever the
  page size, is done after finitely many pages and has seen exactly the visible objects, each with its
  newest title and revision, in the order of their ids.
\<close>

theorem paging_shows_every_object_once:
  assumes "object_state_ok s" and "householdAccessRefusal access (os_ws s) ReadContent now = None"
    and "0 < limit" and "safe_integer limit"
  shows "(\<exists>obs. walk_pages s access now kinds limit 0 = map entry_of obs \<and> sorted_wrt (<) (map ho_object_id obs) \<and>
    set obs = {ob. \<exists>i. obj_get (os_objects s) i = Some ob \<and> kind_visible (ho_kind ob) kinds})"
proof -
  have ok: "tables_sound s" using assms(1) by (simp add: object_state_ok_def)
  have "walk_pages s access now kinds limit 0 = map entry_of (visible_objects s kinds)"
    using walk_pages_all[OF assms, of 0 kinds] by simp
  moreover have "sorted_wrt (<) (map ho_object_id (visible_objects s kinds))"
    using visible_objects_sorted[OF ok, of kinds] by (simp add: sorted_wrt_map object_before_def[abs_def])
  ultimately show ?thesis using visible_objects_set[OF ok] by blast
qed

theorem paging_shows_every_object_once_witness:
  "\<exists>obs. walk_pages changed_state sample_access (Fin 0) None 1 0 = map entry_of obs \<and>
     sample_object [first_revision, second_revision] \<in> set obs"
proof -
  have a: "householdAccessRefusal sample_access (os_ws changed_state) ReadContent (Fin 0) = None"
    using sample_access_ok by (simp add: changed_state_def)
  have "obj_get (os_objects changed_state) ''doc'' = Some (sample_object [first_revision, second_revision])"
    by (simp add: changed_state_def)
  moreover have "kind_visible (ho_kind (sample_object [first_revision, second_revision])) None"
    by (simp add: kind_visible_def sample_object_def)
  moreover have "(0::int) < 1" "safe_integer 1" by (simp_all add: safe_integer_def)
  ultimately show ?thesis using paging_shows_every_object_once[OF changed_state_ok a, of 1 None] by blast
qed

definition query_kinds :: "object_query \<Rightarrow> object_kind option" where
  "query_kinds q = (case q of ObjectList _ _ k \<Rightarrow> k | ObjectRead _ _ k \<Rightarrow> k | ObjectHistory _ _ _ k \<Rightarrow> k | DraftRead _ \<Rightarrow> None)"

lemma read_object_Inr:
  "read_object s i k = Inr ob \<longleftrightarrow> obj_get (os_objects s) i = Some ob \<and> kind_visible (ho_kind ob) k"
  by (auto simp: read_object_def split: option.split_asm if_split_asm)

lemma find_index_less: "find_index P xs = Some k \<Longrightarrow> k < length xs"
  by (induction xs arbitrary: k) (auto split: if_split_asm)

definition answer_confined :: "object_query \<Rightarrow> household_access \<Rightarrow> object_answer \<Rightarrow> bool" where
  "answer_confined q access answer \<longleftrightarrow> (case answer of
      ReadRefused _ \<Rightarrow> True
    | ObjectPage es _ \<Rightarrow> (\<forall>e \<in> set es. kind_visible (oe_kind e) (query_kinds q))
    | RevisionAnswer r _ \<Rightarrow> kind_visible (rv_kind r) (query_kinds q)
    | HistoryPage rs _ \<Rightarrow> (\<forall>(r, live) \<in> set rs. kind_visible (rv_kind r) (query_kinds q))
    | DraftAnswer d \<Rightarrow> at_user_id (hd_owner d) = ac_user_id (xa_actor access) \<and>
        (case xa_credential access of HumanAccess \<Rightarrow> True
         | AgentAccess c \<Rightarrow> at_grant_id (hd_owner d) = Some (hn_grant_id c) \<and> at_connection_id (hd_owner d) = Some (hn_connection_id c)))"

lemma revision_kind:
  "object_state_ok s \<Longrightarrow> obj_get (os_objects s) i = Some ob \<Longrightarrow> r \<in> set (ho_history ob) \<Longrightarrow> rv_kind r = ho_kind ob"
  using tables_soundD(1)[of s i ob] by (simp add: object_state_ok_def object_sound_def revision_sound_def)

lemma list_confined: "answer_confined (ObjectList offset limit kinds) access (readHouseholdObjects (ObjectList offset limit kinds) s access now)"
  by (auto simp: readHouseholdObjects_def Let_def query_kinds_def page_of_def visible_objects_def entry_of_def answer_confined_def
      split: option.split dest!: in_set_takeD in_set_dropD)

lemma draft_confined: "answer_confined (DraftRead i) access (readHouseholdObjects (DraftRead i) s access now)"
  by (cases "obj_get (os_drafts s) i")
    (auto simp: readHouseholdObjects_def draft_readable_def answer_confined_def split: option.split household_credential.split)

lemma history_confined:
  assumes "object_state_ok s"
  shows "answer_confined (ObjectHistory i offset limit kinds) access (readHouseholdObjects (ObjectHistory i offset limit kinds) s access now)"
proof (cases "read_object s i kinds")
  case (Inr ob)
  then have ob: "obj_get (os_objects s) i = Some ob" "kind_visible (ho_kind ob) kinds" by (simp_all add: read_object_Inr)
  have "r \<in> set (ho_history ob)" if "(k, r) \<in> set (enumerate 0 (page_of offset limit (ho_history ob)))" for k r
    using that by (auto simp: page_of_def in_set_enumerate_eq dest!: nth_mem in_set_takeD in_set_dropD)
  then show ?thesis using ob revision_kind[OF assms ob(1)] Inr
    by (auto simp: readHouseholdObjects_def query_kinds_def answer_confined_def split: option.split)
qed (simp add: readHouseholdObjects_def answer_confined_def split: option.split)

lemma revision_confined:
  assumes "object_state_ok s"
  shows "answer_confined (ObjectRead i ref kinds) access (readHouseholdObjects (ObjectRead i ref kinds) s access now)"
proof (cases "read_object s i kinds")
  case (Inr ob)
  then have ob: "obj_get (os_objects s) i = Some ob" "kind_visible (ho_kind ob) kinds" by (simp_all add: read_object_Inr)
  let ?k = "case ref of Some r \<Rightarrow> find_index (\<lambda>x. rv_revision x = r) (ho_history ob)
               | None \<Rightarrow> if ho_history ob = [] then None else Some (length (ho_history ob) - 1)"
  have "k < length (ho_history ob)" if "?k = Some k" for k
    using that find_index_less by (auto split: option.split_asm if_split_asm)
  then have "rv_kind (ho_history ob ! k) = ho_kind ob" if "?k = Some k" for k using revision_kind[OF assms ob(1)] that by simp
  then show ?thesis using ob Inr
    by (cases ?k) (simp_all add: readHouseholdObjects_def query_kinds_def answer_confined_def split: option.split)
qed (simp add: readHouseholdObjects_def answer_confined_def split: option.split)

text \<open>
  C30. Reading shows nothing else: without access there is no answer, objects and revisions shown are of the
  kinds asked for (definitions only when asked for), and a draft is shown to its author alone, to an
  agent only over the connection and the grant it was made with.
\<close>

theorem reading_is_confined:
  assumes "object_state_ok s"
  shows "(case readHouseholdObjects q s access now of
      ReadRefused _ \<Rightarrow> True
    | answer \<Rightarrow> householdAccessRefusal access (os_ws s) ReadContent now = None) \<and>
   (case readHouseholdObjects q s access now of
      ReadRefused _ \<Rightarrow> True
    | ObjectPage es _ \<Rightarrow> (\<forall>e \<in> set es. kind_visible (oe_kind e) (query_kinds q))
    | RevisionAnswer r _ \<Rightarrow> kind_visible (rv_kind r) (query_kinds q)
    | HistoryPage rs _ \<Rightarrow> (\<forall>(r, live) \<in> set rs. kind_visible (rv_kind r) (query_kinds q))
    | DraftAnswer d \<Rightarrow> at_user_id (hd_owner d) = ac_user_id (xa_actor access) \<and>
        (case xa_credential access of HumanAccess \<Rightarrow> True
         | AgentAccess c \<Rightarrow> at_grant_id (hd_owner d) = Some (hn_grant_id c) \<and> at_connection_id (hd_owner d) = Some (hn_connection_id c)))"
proof
  show "case readHouseholdObjects q s access now of ReadRefused _ \<Rightarrow> True
    | answer \<Rightarrow> householdAccessRefusal access (os_ws s) ReadContent now = None"
    by (cases "householdAccessRefusal access (os_ws s) ReadContent now") (simp_all add: readHouseholdObjects_def split: object_answer.split)
  have "answer_confined q access (readHouseholdObjects q s access now)"
    by (cases q) (simp_all add: list_confined draft_confined history_confined[OF assms] revision_confined[OF assms])
  then show "case readHouseholdObjects q s access now of ReadRefused _ \<Rightarrow> True
    | ObjectPage es _ \<Rightarrow> (\<forall>e \<in> set es. kind_visible (oe_kind e) (query_kinds q))
    | RevisionAnswer r _ \<Rightarrow> kind_visible (rv_kind r) (query_kinds q)
    | HistoryPage rs _ \<Rightarrow> (\<forall>(r, live) \<in> set rs. kind_visible (rv_kind r) (query_kinds q))
    | DraftAnswer d \<Rightarrow> at_user_id (hd_owner d) = ac_user_id (xa_actor access) \<and>
        (case xa_credential access of HumanAccess \<Rightarrow> True
         | AgentAccess c \<Rightarrow> at_grant_id (hd_owner d) = Some (hn_grant_id c) \<and> at_connection_id (hd_owner d) = Some (hn_connection_id c))"
    unfolding answer_confined_def .
qed

theorem reading_is_confined_witness:
  "readHouseholdObjects (ObjectRead ''doc'' None None) changed_state sample_access (Fin 0) = RevisionAnswer second_revision True \<and>
     kind_visible (rv_kind second_revision) None"
proof -
  have "householdAccessRefusal sample_access (os_ws changed_state) ReadContent (Fin 0) = None"
    using sample_access_ok by (simp add: changed_state_def)
  then have r: "readHouseholdObjects (ObjectRead ''doc'' None None) changed_state sample_access (Fin 0) = RevisionAnswer second_revision True"
    by (simp add: readHouseholdObjects_def read_object_def changed_state_def kind_visible_def sample_object_def live_start_def HOUSEHOLD_LIVE_REVISION_LIMIT_def)
  show ?thesis
    using reading_is_confined[OF changed_state_ok, where q = "ObjectRead ''doc'' None None" and access = sample_access and now = "Fin 0"] r by (simp add: query_kinds_def)
qed

text \<open>
  A question uses a defined term exactly when it contains the words of the term in a row, or the term
  has words of three characters or more and all of these occur in the question, in any order: the
  search in space-joined text never matches across or inside words. (A space is no word character.)
\<close>

theorem term_match_is_exact:
  assumes "\<not> oh_word_char h 32"
  shows "householdQuestionUsesTerm h question t \<longleftrightarrow>
    (let asked = definitionWords h question; ws = definitionWords h t in ws \<noteq> [] \<and>
      (sublist ws asked \<or> (\<exists>w \<in> set ws. 3 \<le> length w) \<and> (\<forall>w \<in> set ws. 3 \<le> length w \<longrightarrow> w \<in> set asked)))"
  using question_uses_term[OF assms] by (simp add: term_matches_def Let_def)

theorem term_match_is_exact_witness:
  "householdQuestionUsesTerm sample_object_host (lit ''what is our net income'') (lit ''net income'')
     \<and> \<not> householdQuestionUsesTerm sample_object_host (lit ''cabinet incomes'') (lit ''net income'')"
proof -
  have h: "\<not> oh_word_char sample_object_host 32" by (simp add: sample_object_host_def)
  have w: "definitionWords sample_object_host (lit ''what is our net income'') = [lit ''what'', lit ''is'', lit ''our'', lit ''net'', lit ''income'']"
    "definitionWords sample_object_host (lit ''net income'') = [lit ''net'', lit ''income'']"
    "definitionWords sample_object_host (lit ''cabinet incomes'') = [lit ''cabinet'', lit ''incomes'']"
    by (simp_all add: definitionWords_def householdDefinitionKey_def sample_object_host_def lit_def high_surrogate_def)
  have "sublist [lit ''net'', lit ''income''] [lit ''what'', lit ''is'', lit ''our'', lit ''net'', lit ''income'']"
    unfolding sublist_def by (intro exI[of _ "[lit ''what'', lit ''is'', lit ''our'']"] exI[of _ "[]"]) simp
  moreover have "lit ''net'' \<notin> set [lit ''cabinet'', lit ''incomes'']" "3 \<le> length (lit ''net'')" by (simp_all add: lit_def)
  moreover have "\<not> sublist [lit ''net'', lit ''income''] [lit ''cabinet'', lit ''incomes'']"
    by (auto dest!: set_mono_sublist simp: lit_def)
  ultimately show ?thesis
    using term_match_is_exact[OF h, of "lit ''what is our net income''" "lit ''net income''"]
      term_match_is_exact[OF h, of "lit ''cabinet incomes''" "lit ''net income''"] w by (simp add: Let_def)
qed

end
