(* ===== verification/AdminPolicy.thy ===== *)
theory AdminPolicy
  imports WorkspaceCommands Idempotency JsSort
begin

text \<open>
  Delegated administration, policy: \<open>src/protocol/admin-policy.ts\<close>. The ceilings, the registry of
  capabilities, the manifest a person consents to, and its validation. \<open>adminManifestValid\<close> looks at a
  value of unknown type (\<open>json\<close>); a manifest that has its declared type is a record, and
  \<open>manifest_value\<close> the object it is. Texts are Latin-1 strings. \<open>crypto\<close> holds the digest and the
  decimal text of a number.
\<close>

section \<open>Ceilings\<close>

definition ADMIN_RESOURCE :: string where "ADMIN_RESOURCE = ''https://api.commonswarm.com/admin''"
definition ADMIN_REGISTRY_VERSION :: number where "ADMIN_REGISTRY_VERSION = 2"
definition ADMIN_ACCESS_TTL_SECONDS :: number where "ADMIN_ACCESS_TTL_SECONDS = 300"
definition ADMIN_REFRESH_MAX_LIFETIME_SECONDS :: number where "ADMIN_REFRESH_MAX_LIFETIME_SECONDS = 2592000"
definition ADMIN_GRANT_TTL_SECONDS :: number where "ADMIN_GRANT_TTL_SECONDS = 2592000"

record rate_limits =
  rl_lineage :: number
  rl_connection :: number
  rl_account :: number
  rl_workspace :: number

definition ADMIN_READ_RATE_PER_HOUR :: rate_limits where
  "ADMIN_READ_RATE_PER_HOUR = \<lparr>rl_lineage = 120, rl_connection = 120, rl_account = 1000, rl_workspace = 1000\<rparr>"

definition ADMIN_MUTATION_RATE_PER_HOUR :: rate_limits where
  "ADMIN_MUTATION_RATE_PER_HOUR = \<lparr>rl_lineage = 20, rl_connection = 20, rl_account = 60, rl_workspace = 60\<rparr>"

definition ADMIN_REFRESH_RATE_PER_HOUR :: number where "ADMIN_REFRESH_RATE_PER_HOUR = 20"
definition ADMIN_WORKSPACE_CREATE_PER_DAY :: number where "ADMIN_WORKSPACE_CREATE_PER_DAY = 20"
definition ADMIN_INVITATION_ISSUE_PER_DAY :: number where "ADMIN_INVITATION_ISSUE_PER_DAY = 50"
definition ADMIN_INVITATIONS_LIVE_PER_PERSON :: number where "ADMIN_INVITATIONS_LIVE_PER_PERSON = 25"

record issuance_limits =
  il_workspaces :: number
  il_live_seats :: number
  il_total_seats :: number
  il_invitations :: number
  il_live_agent_invitations :: number
  il_worker_credentials :: number
  il_connection_attempts :: number

definition ADMIN_ISSUANCE_CEILINGS :: issuance_limits where
  "ADMIN_ISSUANCE_CEILINGS = \<lparr>il_workspaces = 10, il_live_seats = 10, il_total_seats = 50, il_invitations = 10,
     il_live_agent_invitations = 5, il_worker_credentials = 50, il_connection_attempts = 50\<rparr>"

record renewal_limits =
  rn_grant_kinds :: "grant_kind list"
  rn_principal_ids :: "string list"
  rn_bearer_seconds :: number
  rn_horizon_seconds :: number
  rn_successors_per_worker :: number
  rn_successors_per_grant :: number

text \<open>The four numbers of \<open>ADMIN_WORKER_RENEWAL_LIMITS\<close>; the two lists have no ceiling.\<close>

definition ADMIN_RENEWAL_CEILINGS :: renewal_limits where
  "ADMIN_RENEWAL_CEILINGS = \<lparr>rn_grant_kinds = [], rn_principal_ids = [], rn_bearer_seconds = 3600,
     rn_horizon_seconds = 2592000, rn_successors_per_worker = 800, rn_successors_per_grant = 8000\<rparr>"

record attempt_ttl =
  al_member_seconds :: number
  al_agent_min_seconds :: number
  al_agent_max_seconds :: number
  al_agent_seats :: number
  al_attempt_seconds :: number

definition ADMIN_INVITATION_AND_ATTEMPT_TTL :: attempt_ttl where
  "ADMIN_INVITATION_AND_ATTEMPT_TTL = \<lparr>al_member_seconds = 604800, al_agent_min_seconds = 3600,
     al_agent_max_seconds = 86400, al_agent_seats = 10, al_attempt_seconds = 86400\<rparr>"

record resource_ceilings =
  rc_owned_workspaces :: number
  rc_members_and_invitations :: number
  rc_principals :: number
  rc_joins_per_person :: number
  rc_joins_per_workspace :: number
  rc_hosted_seats :: number

definition ADMIN_EXISTING_RESOURCE_CEILINGS :: resource_ceilings where
  "ADMIN_EXISTING_RESOURCE_CEILINGS = \<lparr>rc_owned_workspaces = 10, rc_members_and_invitations = 25,
     rc_principals = 50, rc_joins_per_person = 5, rc_joins_per_workspace = 20, rc_hosted_seats = 10\<rparr>"

section \<open>The registry of capabilities\<close>

record capability =
  cp_scope :: string
  cp_label :: string
  cp_available :: bool
  cp_authority_revision :: number

definition capability_of :: "string \<Rightarrow> string \<Rightarrow> bool \<Rightarrow> capability" where
  "capability_of scope label avail =
     \<lparr>cp_scope = scope, cp_label = label, cp_available = avail, cp_authority_revision = 1\<rparr>"

definition ADMIN_AVAILABILITY_V2 :: "capability obj" where
  "ADMIN_AVAILABILITY_V2 =
    [(''admin_read_metadata'', capability_of ''admin:read'' ''Read-only'' True),
     (''admin_create_workspace'', capability_of ''workspaces:create'' ''Create workspaces'' True),
     (''admin_archive_workspace'', capability_of ''workspaces:archive'' ''Archive workspaces'' False),
     (''admin_create_seat'', capability_of ''seats:create'' ''Create seats'' True),
     (''admin_provision_seat'', capability_of ''seats:create'' ''Create seats'' True),
     (''admin_replace_undelivered_seat_credential'', capability_of ''seats:create'' ''Create seats'' True),
     (''admin_renew_seat'', capability_of ''seats:renew'' ''Renew seats'' True),
     (''admin_set_seat_model'', capability_of ''seats:manage'' ''Manage seats'' False),
     (''admin_enable_seat_management'', capability_of ''seats:manage'' ''Manage seats'' False),
     (''admin_recover_seat_session'', capability_of ''seats:manage'' ''Manage seats'' False),
     (''admin_revoke_seat'', capability_of ''seats:revoke'' ''Stop seat access'' True),
     (''admin_revoke_seat_credential'', capability_of ''seats:revoke'' ''Stop seat access'' True),
     (''admin_invite_member'', capability_of ''invites:create'' ''Invite members'' True),
     (''admin_issue_agent_invitation'', capability_of ''invites:create'' ''Invite members'' True),
     (''admin_revoke_invitation'', capability_of ''invites:revoke'' ''Cancel invitations'' True),
     (''admin_revoke_agent_invitation'', capability_of ''invites:revoke'' ''Cancel invitations'' True),
     (''admin_remove_member'', capability_of ''members:manage'' ''Manage members'' False),
     (''admin_change_member_role'', capability_of ''members:manage'' ''Manage members'' False),
     (''admin_prepare_connection'', capability_of ''onboarding:connect'' ''Set up connections'' True),
     (''redeem_agent_connection'', capability_of ''onboarding:connect'' ''Set up connections'' False),
     (''record_agent_connection_progress'', capability_of ''onboarding:connect'' ''Set up connections'' False),
     (''admin_cancel_connection'', capability_of ''onboarding:connect'' ''Set up connections'' True)]"

text \<open>The versions the registry holds: only the current one.\<close>

definition ADMIN_AVAILABILITY :: "number \<Rightarrow> capability obj option" where
  "ADMIN_AVAILABILITY v = (if v = ADMIN_REGISTRY_VERSION then Some ADMIN_AVAILABILITY_V2 else None)"

definition current_capabilities :: "capability obj" where
  "current_capabilities = (case ADMIN_AVAILABILITY ADMIN_REGISTRY_VERSION of Some d \<Rightarrow> d | None \<Rightarrow> [])"

text \<open>\<open>new Set\<close> keeps the first occurrence of each element.\<close>

definition js_set :: "'a list \<Rightarrow> 'a list" where
  "js_set xs = fold add_key xs []"

definition ADMIN_SCOPE_REGISTRY :: "string list obj" where
  "ADMIN_SCOPE_REGISTRY = map (\<lambda>scope. (scope,
     map fst (filter (\<lambda>(_, d). cp_scope d = scope) current_capabilities)))
       (js_set (map cp_scope (obj_values current_capabilities)))"

definition ADMIN_SCOPE_NAMES :: "string list" where
  "ADMIN_SCOPE_NAMES = obj_keys ADMIN_SCOPE_REGISTRY"

section \<open>Canonical JSON and digests\<close>

fun canonicalAdminJson :: "(number \<Rightarrow> string) \<Rightarrow> json \<Rightarrow> string" where
  "canonicalAdminJson num_text (JArray xs) = ''['' @ join '','' (map (canonicalAdminJson num_text) xs) @ '']''"
| "canonicalAdminJson num_text (JObject ob) =
     ''{'' @ join '','' (map (\<lambda>(k, v). quote_string k @ '':'' @ v)
       (sort_key fst (map (\<lambda>(k, v). (k, canonicalAdminJson num_text v)) ob))) @ ''}''"
| "canonicalAdminJson num_text v = stringify num_text v"

definition capability_json :: "capability \<Rightarrow> json" where
  "capability_json d = JObject [(''scope'', JString (cp_scope d)), (''label'', JString (cp_label d)),
     (''available'', JBool (cp_available d)), (''authority_revision'', JNumber (Fin (cp_authority_revision d)))]"

definition adminAvailabilityDigest :: "crypto \<Rightarrow> number \<Rightarrow> string option" where
  "adminAvailabilityDigest cr version = (case ADMIN_AVAILABILITY version of
     None \<Rightarrow> None
   | Some definitions \<Rightarrow> Some (cr_sha256 cr (canonicalAdminJson (cr_num_text cr)
       (JObject [(''version'', JNumber (Fin version)),
          (''definitions'', JObject (map (\<lambda>(k, d). (k, capability_json d)) definitions))]))))"

record consent_option =
  co_resource :: string
  co_scope :: string
  co_label :: string
  co_available :: bool
  co_capability_names :: "string list"

definition adminConsentOptions :: "number \<Rightarrow> consent_option list" where
  "adminConsentOptions version = (case ADMIN_AVAILABILITY version of
     None \<Rightarrow> []
   | Some definitions \<Rightarrow>
       map (\<lambda>scope.
         let entries = filter (\<lambda>(_, d). cp_scope d = scope) definitions;
             capability_names = sort (map fst (filter (\<lambda>(_, d). cp_available d) entries)) in
         \<lparr>co_resource = ADMIN_RESOURCE, co_scope = scope, co_label = cp_label (snd (hd entries)),
          co_available = capability_names \<noteq> [], co_capability_names = capability_names\<rparr>)
       (sort (js_set (map cp_scope (obj_values definitions)))))"

definition adminAvailableCapabilities :: "string list \<Rightarrow> number \<Rightarrow> string list" where
  "adminAvailableCapabilities scopeNames version =
     sort (map fst (filter (\<lambda>(_, d). cp_available d \<and> cp_scope d \<in> set scopeNames)
       (case ADMIN_AVAILABILITY version of Some ds \<Rightarrow> ds | None \<Rightarrow> [])))"

definition adminCapabilityAvailable :: "string \<Rightarrow> number \<Rightarrow> bool" where
  "adminCapabilityAvailable command version \<longleftrightarrow> (case ADMIN_AVAILABILITY version of
     None \<Rightarrow> False
   | Some ds \<Rightarrow> (case obj_get ds command of Some d \<Rightarrow> cp_available d | None \<Rightarrow> False))"

section \<open>Manifests\<close>

datatype admin_mode = Granular | FullAccount
datatype workspace_selector = Selected | OwnedAndSelected

record target_rules =
  tr_seat_ids :: "string list"
  tr_own_seats :: bool
  tr_grant_created_seats :: bool
  tr_recipient_user_ids :: "string list"
  tr_recipient_connection_ids :: "string list"
  tr_transports :: "agent_transport list"

record admin_manifest =
  am_admin_identity_id :: string
  am_connection_id :: string
  am_client_id :: string
  am_resource :: string
  am_mode :: admin_mode
  am_registry_version :: number
  am_capability_names :: "string list"
  am_availability_digest :: string
  am_scope_names :: "string list"
  am_workspace_selector :: workspace_selector
  am_workspace_ids :: "string list"
  am_created_scope_names :: "string list" \<comment> \<open>\<open>created_workspace_policy.scope_names\<close>\<close>
  am_target_rules :: target_rules
  am_worker_scope_ceiling :: "string list"
  am_role_ceiling :: string
  am_renewal_limits :: renewal_limits
  am_issuance_limits :: issuance_limits
  am_expires_at :: number
  am_refresh_deadline :: number

definition MANIFEST_KEYS :: "string list" where
  "MANIFEST_KEYS =
    [''admin_identity_id'', ''connection_id'', ''client_id'', ''resource'', ''mode'', ''registry_version'',
     ''capability_names'', ''availability_digest'', ''scope_names'', ''workspace_selector'', ''workspace_ids'',
     ''created_workspace_policy'', ''target_rules'', ''worker_scope_ceiling'', ''role_ceiling'',
     ''renewal_limits'', ''issuance_limits'', ''expires_at'', ''refresh_deadline'']"

text \<open>Tool listing and dispatch use this intersection. A grant is a manifest with more fields.\<close>

definition adminEffectiveCapabilities ::
  "crypto \<Rightarrow> 'a admin_manifest_scheme \<Rightarrow> string list \<Rightarrow> string list" where
  "adminEffectiveCapabilities cr m actorScopes =
     (case (ADMIN_AVAILABILITY (am_registry_version m), ADMIN_AVAILABILITY ADMIN_REGISTRY_VERSION) of
        (Some consented, Some live_set) \<Rightarrow>
          if am_resource m \<noteq> ADMIN_RESOURCE \<or>
             Some (am_availability_digest m) \<noteq> adminAvailabilityDigest cr (am_registry_version m) then []
          else sort (filter (\<lambda>name. case (obj_get consented name, obj_get live_set name) of
              (Some prior, Some live) \<Rightarrow> cp_available prior \<and> cp_available live \<and>
                cp_scope prior = cp_scope live \<and> cp_authority_revision prior = cp_authority_revision live \<and>
                cp_scope prior \<in> set (am_scope_names m) \<and> cp_scope prior \<in> set actorScopes
            | _ \<Rightarrow> False) (am_capability_names m))
      | _ \<Rightarrow> [])"

section \<open>Validation of a value of unknown type\<close>

fun adminRecord :: "json \<Rightarrow> json obj option" where
  "adminRecord (JObject ob) = Some ob"
| "adminRecord _ = None"

definition adminExactKeys :: "json obj \<Rightarrow> string list \<Rightarrow> bool" where
  "adminExactKeys ob keys \<longleftrightarrow> length ob = length keys \<and> list_all (\<lambda>k. k \<in> set (obj_keys ob)) keys"

definition hex_digit_any_case :: "char \<Rightarrow> bool" where
  "hex_digit_any_case c \<longleftrightarrow> c \<in> set ''0123456789abcdefABCDEF''"

definition ADMIN_UUID_RE :: "string \<Rightarrow> bool" where
  "ADMIN_UUID_RE s \<longleftrightarrow> length s = 36 \<and>
     list_all (\<lambda>(i, c). if i \<in> set [8, 13, 18, 23] then c = CHR ''-'' else hex_digit_any_case c)
       (zip [0..<36] s)"

text \<open>\<open>String(value)\<close>: an array joins the texts of its elements, \<open>null\<close> among them as no text.\<close>

fun js_string :: "(number \<Rightarrow> string) \<Rightarrow> json \<Rightarrow> string" where
  "js_string num_text JNull = ''null''"
| "js_string num_text (JBool b) = (if b then ''true'' else ''false'')"
| "js_string num_text (JNumber (Fin r)) = num_text r"
| "js_string num_text (JNumber NaN) = ''NaN''"
| "js_string num_text (JNumber PosInf) = ''Infinity''"
| "js_string num_text (JNumber NegInf) = ''-Infinity''"
| "js_string num_text (JString s) = s"
| "js_string num_text (JArray xs) = join '','' (map (\<lambda>x. if x = JNull then [] else js_string num_text x) xs)"
| "js_string num_text (JObject _) = ''[object Object]''"

text \<open>The elements of an array all of whose elements are strings.\<close>

fun string_value :: "json \<Rightarrow> string option" where
  "string_value (JString s) = Some s"
| "string_value _ = None"

fun string_items :: "json \<Rightarrow> string list option" where
  "string_items (JArray xs) =
     (if list_all (\<lambda>x. string_value x \<noteq> None) xs then Some (map (\<lambda>x. the (string_value x)) xs) else None)"
| "string_items _ = None"

definition adminIds :: "json \<Rightarrow> bool" where
  "adminIds v \<longleftrightarrow> (case string_items v of
     None \<Rightarrow> False
   | Some xs \<Rightarrow> length xs \<le> 100 \<and> list_all ADMIN_UUID_RE xs \<and> distinct xs)"

definition adminScopes :: "json \<Rightarrow> number \<Rightarrow> bool" where
  "adminScopes v version \<longleftrightarrow> (case (ADMIN_AVAILABILITY version, string_items v) of
     (Some ds, Some xs) \<Rightarrow> list_all (\<lambda>scope. scope \<in> set (map cp_scope (obj_values ds))) xs \<and> distinct xs
   | _ \<Rightarrow> False)"

definition on_field :: "json obj \<Rightarrow> string \<Rightarrow> (json \<Rightarrow> bool) \<Rightarrow> bool" where
  "on_field ob k P \<longleftrightarrow> (case obj_get ob k of None \<Rightarrow> False | Some v \<Rightarrow> P v)"

definition on_strings :: "json obj \<Rightarrow> string \<Rightarrow> (string list \<Rightarrow> bool) \<Rightarrow> bool" where
  "on_strings ob k P \<longleftrightarrow> on_field ob k (\<lambda>v. case string_items v of None \<Rightarrow> False | Some xs \<Rightarrow> P xs)"

definition on_number :: "json obj \<Rightarrow> string \<Rightarrow> (number \<Rightarrow> bool) \<Rightarrow> bool" where
  "on_number ob k P \<longleftrightarrow> on_field ob k (\<lambda>v. case v of JNumber (Fin r) \<Rightarrow> P r | _ \<Rightarrow> False)"

definition on_object :: "json obj \<Rightarrow> string \<Rightarrow> (json obj \<Rightarrow> bool) \<Rightarrow> bool" where
  "on_object ob k P \<longleftrightarrow> on_field ob k (\<lambda>v. case adminRecord v of None \<Rightarrow> False | Some r \<Rightarrow> P r)"

definition on_boolean :: "json obj \<Rightarrow> string \<Rightarrow> bool" where
  "on_boolean ob k \<longleftrightarrow> obj_get ob k \<in> {Some (JBool True), Some (JBool False)}"

text \<open>The first test: identity, client, registry, scopes, mode and selector.\<close>

definition identity_valid :: "crypto \<Rightarrow> json obj \<Rightarrow> number \<Rightarrow> bool \<Rightarrow> bool" where
  "identity_valid cr m version initial \<longleftrightarrow>
     on_field m ''admin_identity_id'' (\<lambda>v. ADMIN_UUID_RE (js_string (cr_num_text cr) v)) \<and>
     on_field m ''connection_id'' (\<lambda>v. ADMIN_UUID_RE (js_string (cr_num_text cr) v)) \<and>
     on_field m ''client_id'' (\<lambda>v. case string_value v of None \<Rightarrow> False | Some s \<Rightarrow> 1 \<le> length s \<and> length s \<le> 2048) \<and>
     obj_get m ''resource'' = Some (JString ADMIN_RESOURCE) \<and>
     ADMIN_AVAILABILITY version \<noteq> None \<and>
     (\<not> initial \<or> version = ADMIN_REGISTRY_VERSION) \<and>
     on_field m ''availability_digest'' (\<lambda>v. string_value v \<noteq> None \<and> string_value v = adminAvailabilityDigest cr version) \<and>
     on_field m ''scope_names'' (\<lambda>v. adminScopes v version) \<and>
     on_strings m ''scope_names'' (\<lambda>xs. ''admin:read'' \<in> set xs) \<and>
     on_field m ''workspace_ids'' adminIds \<and>
     obj_get m ''role_ceiling'' = Some (JString ''member'') \<and>
     on_field m ''mode'' (\<lambda>v. js_string (cr_num_text cr) v \<in> set [''granular'', ''full_account'']) \<and>
     obj_get m ''workspace_selector'' = Some (JString
       (if obj_get m ''mode'' = Some (JString ''granular'') then ''selected'' else ''owned_and_selected''))"

definition capabilities_valid :: "crypto \<Rightarrow> json obj \<Rightarrow> capability obj \<Rightarrow> bool" where
  "capabilities_valid cr m definitions \<longleftrightarrow>
     on_strings m ''scope_names'' (\<lambda>scopes. on_strings m ''capability_names'' (\<lambda>names.
       successively (<) names \<and>
       list_all (\<lambda>name. case obj_get definitions name of
          None \<Rightarrow> False | Some d \<Rightarrow> cp_available d \<and> cp_scope d \<in> set scopes) names \<and>
       ''admin_read_metadata'' \<in> set names \<and>
       list_all (\<lambda>scope. list_ex (\<lambda>name. case obj_get definitions name of
          None \<Rightarrow> False | Some d \<Rightarrow> cp_scope d = scope) names) scopes \<and>
       (obj_get m ''mode'' = Some (JString ''full_account'') \<longrightarrow>
          (let available = sort (map fst (filter (\<lambda>(_, d). cp_available d) definitions)) in
           canonicalAdminJson (cr_num_text cr) (JArray (map JString names)) =
           canonicalAdminJson (cr_num_text cr) (JArray (map JString available))))))"

definition created_policy_valid :: "json obj \<Rightarrow> number \<Rightarrow> bool" where
  "created_policy_valid m version \<longleftrightarrow>
     on_strings m ''scope_names'' (\<lambda>scopes. on_object m ''created_workspace_policy'' (\<lambda>created.
       adminExactKeys created [''scope_names''] \<and>
       on_field created ''scope_names'' (\<lambda>v. adminScopes v version) \<and>
       on_strings created ''scope_names'' (\<lambda>xs. list_all (\<lambda>scope. scope \<in> set scopes) xs \<and>
         \<not> (0 < length xs \<and> ''workspaces:create'' \<notin> set scopes))))"

definition targets_valid :: "json obj \<Rightarrow> bool" where
  "targets_valid m \<longleftrightarrow> on_object m ''target_rules'' (\<lambda>target.
     adminExactKeys target [''seat_ids'', ''own_seats'', ''grant_created_seats'', ''recipient_user_ids'',
       ''recipient_connection_ids'', ''transports''] \<and>
     on_field target ''seat_ids'' adminIds \<and> on_field target ''recipient_user_ids'' adminIds \<and>
     on_field target ''recipient_connection_ids'' adminIds \<and>
     on_boolean target ''own_seats'' \<and> on_boolean target ''grant_created_seats'' \<and>
     on_strings target ''transports'' (\<lambda>xs. list_all (\<lambda>t. t = ''local'' \<or> t = ''hosted_mcp'') xs \<and> distinct xs))"

text \<open>The regular expression \<open>/^[a-z][a-z0-9_:.-]{0,79}$/u\<close>.\<close>

definition worker_scope_text :: "string \<Rightarrow> bool" where
  "worker_scope_text s \<longleftrightarrow> 1 \<le> length s \<and> length s \<le> 80 \<and>
     hd s \<in> set ''abcdefghijklmnopqrstuvwxyz'' \<and>
     list_all (\<lambda>c. c \<in> set ''abcdefghijklmnopqrstuvwxyz0123456789_:.-'') (tl s)"

definition worker_scopes_valid :: "json obj \<Rightarrow> bool" where
  "worker_scopes_valid m \<longleftrightarrow> on_strings m ''worker_scope_ceiling'' (\<lambda>xs.
     length xs \<le> 100 \<and> list_all worker_scope_text xs \<and>
     \<not> list_ex (\<lambda>scope. isAgentScopeDenylisted (lit scope)) xs \<and> distinct xs)"

definition renewal_ceilings :: "number obj" where
  "renewal_ceilings = [(''bearer_seconds'', rn_bearer_seconds ADMIN_RENEWAL_CEILINGS),
     (''horizon_seconds'', rn_horizon_seconds ADMIN_RENEWAL_CEILINGS),
     (''successors_per_worker'', rn_successors_per_worker ADMIN_RENEWAL_CEILINGS),
     (''successors_per_grant'', rn_successors_per_grant ADMIN_RENEWAL_CEILINGS)]"

definition issuance_ceilings :: "number obj" where
  "issuance_ceilings = [(''workspaces'', il_workspaces ADMIN_ISSUANCE_CEILINGS),
     (''live_seats'', il_live_seats ADMIN_ISSUANCE_CEILINGS),
     (''total_seats'', il_total_seats ADMIN_ISSUANCE_CEILINGS),
     (''invitations'', il_invitations ADMIN_ISSUANCE_CEILINGS),
     (''live_agent_invitations'', il_live_agent_invitations ADMIN_ISSUANCE_CEILINGS),
     (''worker_credentials'', il_worker_credentials ADMIN_ISSUANCE_CEILINGS),
     (''connection_attempts'', il_connection_attempts ADMIN_ISSUANCE_CEILINGS)]"

definition limits_valid :: "json obj \<Rightarrow> number obj \<Rightarrow> bool" where
  "limits_valid limits ceilings \<longleftrightarrow> list_all (\<lambda>(key, ceiling).
     on_number limits key (\<lambda>n. is_safe_integer (Fin n) \<and> 0 \<le> n \<and> n \<le> ceiling)) ceilings"

definition renewal_valid :: "json obj \<Rightarrow> bool" where
  "renewal_valid m \<longleftrightarrow> on_object m ''renewal_limits'' (\<lambda>renewal. on_object m ''issuance_limits'' (\<lambda>issuance.
     adminExactKeys renewal (obj_keys renewal_ceilings @ [''grant_kinds'', ''principal_ids'']) \<and>
     on_field renewal ''principal_ids'' adminIds \<and>
     on_strings renewal ''grant_kinds'' (\<lambda>xs. list_all (\<lambda>k. k = ''timeboxed'' \<or> k = ''standing'') xs \<and> distinct xs) \<and>
     adminExactKeys issuance (obj_keys issuance_ceilings) \<and>
     limits_valid renewal renewal_ceilings \<and> limits_valid issuance issuance_ceilings))"

definition times_valid :: "json obj \<Rightarrow> number \<Rightarrow> bool \<Rightarrow> bool" where
  "times_valid m now initial \<longleftrightarrow> on_number m ''expires_at'' (\<lambda>expires. on_number m ''refresh_deadline'' (\<lambda>deadline.
     is_safe_integer (Fin expires) \<and> is_safe_integer (Fin deadline) \<and> now < expires \<and> expires \<le> deadline \<and>
     (\<not> initial \<or> (now + 1000 \<le> expires \<and> deadline \<le> now + ADMIN_REFRESH_MAX_LIFETIME_SECONDS * 1000 \<and>
        expires \<le> now + ADMIN_GRANT_TTL_SECONDS * 1000))))"

definition adminManifestValid :: "crypto \<Rightarrow> json \<Rightarrow> number \<Rightarrow> bool \<Rightarrow> bool" where
  "adminManifestValid cr value now initial \<longleftrightarrow> (case adminRecord value of
     None \<Rightarrow> False
   | Some m \<Rightarrow>
       adminExactKeys m MANIFEST_KEYS \<and>
       on_number m ''registry_version'' (\<lambda>version.
         identity_valid cr m version initial \<and>
         (case ADMIN_AVAILABILITY version of
            None \<Rightarrow> False
          | Some definitions \<Rightarrow> capabilities_valid cr m definitions) \<and>
         created_policy_valid m version) \<and>
       targets_valid m \<and> worker_scopes_valid m \<and> renewal_valid m \<and> times_valid m now initial)"

section \<open>A manifest of the declared type\<close>

fun mode_text :: "admin_mode \<Rightarrow> string" where
  "mode_text Granular = ''granular''" | "mode_text FullAccount = ''full_account''"

fun selector_text :: "workspace_selector \<Rightarrow> string" where
  "selector_text Selected = ''selected''" | "selector_text OwnedAndSelected = ''owned_and_selected''"

fun transport_text :: "agent_transport \<Rightarrow> string" where
  "transport_text LocalTransport = ''local''" | "transport_text HostedMcp = ''hosted_mcp''"

fun grant_kind_text :: "grant_kind \<Rightarrow> string" where
  "grant_kind_text Timeboxed = ''timeboxed''" | "grant_kind_text Standing = ''standing''"

definition json_strings :: "string list \<Rightarrow> json" where
  "json_strings xs = JArray (map JString xs)"

definition json_num :: "number \<Rightarrow> json" where
  "json_num r = JNumber (Fin r)"

definition targets_value :: "target_rules \<Rightarrow> json" where
  "targets_value t = JObject [(''seat_ids'', json_strings (tr_seat_ids t)), (''own_seats'', JBool (tr_own_seats t)),
     (''grant_created_seats'', JBool (tr_grant_created_seats t)),
     (''recipient_user_ids'', json_strings (tr_recipient_user_ids t)),
     (''recipient_connection_ids'', json_strings (tr_recipient_connection_ids t)),
     (''transports'', json_strings (map transport_text (tr_transports t)))]"

definition renewal_value :: "renewal_limits \<Rightarrow> json" where
  "renewal_value r = JObject [(''grant_kinds'', json_strings (map grant_kind_text (rn_grant_kinds r))),
     (''principal_ids'', json_strings (rn_principal_ids r)), (''bearer_seconds'', json_num (rn_bearer_seconds r)),
     (''horizon_seconds'', json_num (rn_horizon_seconds r)),
     (''successors_per_worker'', json_num (rn_successors_per_worker r)),
     (''successors_per_grant'', json_num (rn_successors_per_grant r))]"

definition issuance_value :: "issuance_limits \<Rightarrow> json" where
  "issuance_value l = JObject [(''workspaces'', json_num (il_workspaces l)), (''live_seats'', json_num (il_live_seats l)),
     (''total_seats'', json_num (il_total_seats l)), (''invitations'', json_num (il_invitations l)),
     (''live_agent_invitations'', json_num (il_live_agent_invitations l)),
     (''worker_credentials'', json_num (il_worker_credentials l)),
     (''connection_attempts'', json_num (il_connection_attempts l))]"

definition manifest_value :: "'a admin_manifest_scheme \<Rightarrow> json" where
  "manifest_value m = JObject
    [(''admin_identity_id'', JString (am_admin_identity_id m)), (''connection_id'', JString (am_connection_id m)),
     (''client_id'', JString (am_client_id m)), (''resource'', JString (am_resource m)),
     (''mode'', JString (mode_text (am_mode m))), (''registry_version'', json_num (am_registry_version m)),
     (''capability_names'', json_strings (am_capability_names m)),
     (''availability_digest'', JString (am_availability_digest m)),
     (''scope_names'', json_strings (am_scope_names m)),
     (''workspace_selector'', JString (selector_text (am_workspace_selector m))),
     (''workspace_ids'', json_strings (am_workspace_ids m)),
     (''created_workspace_policy'', JObject [(''scope_names'', json_strings (am_created_scope_names m))]),
     (''target_rules'', targets_value (am_target_rules m)),
     (''worker_scope_ceiling'', json_strings (am_worker_scope_ceiling m)),
     (''role_ceiling'', JString (am_role_ceiling m)), (''renewal_limits'', renewal_value (am_renewal_limits m)),
     (''issuance_limits'', issuance_value (am_issuance_limits m)),
     (''expires_at'', json_num (am_expires_at m)), (''refresh_deadline'', json_num (am_refresh_deadline m))]"

definition adminGrantManifest :: "'a admin_manifest_scheme \<Rightarrow> admin_manifest" where
  "adminGrantManifest m = admin_manifest.truncate m"

end
