(* ===== verification/AdminManifest.thy ===== *)
theory AdminManifest
  imports AdminPolicy
begin

text \<open>
  What the manifest validation means. On a manifest of its declared type it is the conjunction
  \<open>manifest_ok\<close>; a value it accepts is, up to the order of its keys, the object of such a manifest
  when its identities and its mode are strings. The canonical JSON of the admin core is the one of
  the idempotency core.
\<close>

section \<open>Canonical JSON\<close>

lemma insort_key_map_pair:
  "insort_key fst (k, f v) (map (\<lambda>(k, v). (k, f v)) xs) = map (\<lambda>(k, v). (k, f v)) (insort_key fst (k, v) xs)"
  by (induction xs) auto

lemma sort_key_map_pair:
  "sort_key fst (map (\<lambda>(k, v). (k, f v)) xs) = map (\<lambda>(k, v). (k, f v)) (sort_key fst xs)"
  by (induction xs) (auto simp: insort_key_map_pair)

lemma canonical_object:
  "stringify nt (sortValue (JObject ob)) =
     ''{'' @ join '','' (map (\<lambda>(k, v). quote_string k @ '':'' @ v)
       (sort_key fst (map (\<lambda>(k, v). (k, stringify nt (sortValue v))) ob))) @ ''}''"
proof -
  have "sort_key fst (map (\<lambda>(k, v). (k, stringify nt (sortValue v))) ob) =
      map (\<lambda>(k, v). (k, stringify nt v)) (sort_key fst (map (\<lambda>(k, v). (k, sortValue v)) ob))"
  proof -
    have "map (\<lambda>(k, v). (k, stringify nt (sortValue v))) ob =
        map (\<lambda>(k, v). (k, stringify nt v)) (map (\<lambda>(k, v). (k, sortValue v)) ob)" by (induction ob) auto
    then show ?thesis by (simp only: sort_key_map_pair)
  qed
  moreover have "map (\<lambda>(k, v). quote_string k @ '':'' @ v) (map (\<lambda>(k, v). (k, stringify nt v)) xs) =
      map (\<lambda>(k, v). quote_string k @ '':'' @ stringify nt v) xs" for xs by (induction xs) auto
  ultimately show ?thesis by (simp only: sortValue.simps stringify.simps)
qed

lemma canonicalAdminJson_stringify: "canonicalAdminJson nt v = stringify nt (sortValue v)"
proof (induction v)
  case (JArray xs)
  then have "map (canonicalAdminJson nt) xs = map (\<lambda>x. stringify nt (sortValue x)) xs" by simp
  then show ?case by (simp only: canonicalAdminJson.simps sortValue.simps stringify.simps map_map comp_def)
next
  case (JObject ob)
  have eq: "map (\<lambda>(k, v). (k, canonicalAdminJson nt v)) ob = map (\<lambda>(k, v). (k, stringify nt (sortValue v))) ob"
    using JObject by (force simp: snds.simps)
  show ?case by (simp only: canonical_object canonicalAdminJson.simps eq)
qed simp_all

section \<open>The typed reading of the validation\<close>

definition scopes_ok :: "number \<Rightarrow> string list \<Rightarrow> bool" where
  "scopes_ok version xs \<longleftrightarrow> (case ADMIN_AVAILABILITY version of None \<Rightarrow> False
     | Some ds \<Rightarrow> set xs \<subseteq> cp_scope ` set (obj_values ds) \<and> distinct xs)"

definition uuids_ok :: "string list \<Rightarrow> bool" where
  "uuids_ok xs \<longleftrightarrow> length xs \<le> 100 \<and> (\<forall>x \<in> set xs. ADMIN_UUID_RE x) \<and> distinct xs"

definition limit_ok :: "number \<Rightarrow> number \<Rightarrow> bool" where
  "limit_ok n top_value \<longleftrightarrow> is_safe_integer (Fin n) \<and> 0 \<le> n \<and> n \<le> top_value"

definition capability_in :: "number \<Rightarrow> string \<Rightarrow> capability option" where
  "capability_in version name = (case ADMIN_AVAILABILITY version of None \<Rightarrow> None | Some ds \<Rightarrow> obj_get ds name)"

definition available_names :: "number \<Rightarrow> string list" where
  "available_names version = (case ADMIN_AVAILABILITY version of None \<Rightarrow> []
     | Some ds \<Rightarrow> sort (map fst (filter (\<lambda>(_, d). cp_available d) ds)))"

definition capabilities_ok :: "crypto \<Rightarrow> 'a admin_manifest_scheme \<Rightarrow> bool" where
  "capabilities_ok cr m \<longleftrightarrow>
     sorted_wrt (<) (am_capability_names m) \<and>
     (\<forall>name \<in> set (am_capability_names m). \<exists>d. capability_in (am_registry_version m) name = Some d \<and>
        cp_available d \<and> cp_scope d \<in> set (am_scope_names m)) \<and>
     ''admin_read_metadata'' \<in> set (am_capability_names m) \<and>
     (\<forall>scope \<in> set (am_scope_names m). \<exists>name \<in> set (am_capability_names m). \<exists>d.
        capability_in (am_registry_version m) name = Some d \<and> cp_scope d = scope) \<and>
     (am_mode m = FullAccount \<longrightarrow>
        canonicalAdminJson (cr_num_text cr) (json_strings (am_capability_names m)) =
        canonicalAdminJson (cr_num_text cr) (json_strings (available_names (am_registry_version m))))"

definition identity_ok :: "crypto \<Rightarrow> 'a admin_manifest_scheme \<Rightarrow> bool \<Rightarrow> bool" where
  "identity_ok cr m initial \<longleftrightarrow>
     ADMIN_UUID_RE (am_admin_identity_id m) \<and> ADMIN_UUID_RE (am_connection_id m) \<and>
     1 \<le> length (am_client_id m) \<and> length (am_client_id m) \<le> 2048 \<and> am_resource m = ADMIN_RESOURCE \<and>
     ADMIN_AVAILABILITY (am_registry_version m) \<noteq> None \<and>
     (initial \<longrightarrow> am_registry_version m = ADMIN_REGISTRY_VERSION) \<and>
     Some (am_availability_digest m) = adminAvailabilityDigest cr (am_registry_version m) \<and>
     scopes_ok (am_registry_version m) (am_scope_names m) \<and> ''admin:read'' \<in> set (am_scope_names m) \<and>
     uuids_ok (am_workspace_ids m) \<and> am_role_ceiling m = ''member'' \<and>
     am_workspace_selector m = (if am_mode m = Granular then Selected else OwnedAndSelected)"

definition policies_ok :: "'a admin_manifest_scheme \<Rightarrow> bool" where
  "policies_ok m \<longleftrightarrow>
     scopes_ok (am_registry_version m) (am_created_scope_names m) \<and>
     set (am_created_scope_names m) \<subseteq> set (am_scope_names m) \<and>
     (am_created_scope_names m \<noteq> [] \<longrightarrow> ''workspaces:create'' \<in> set (am_scope_names m)) \<and>
     uuids_ok (tr_seat_ids (am_target_rules m)) \<and> uuids_ok (tr_recipient_user_ids (am_target_rules m)) \<and>
     uuids_ok (tr_recipient_connection_ids (am_target_rules m)) \<and> distinct (tr_transports (am_target_rules m)) \<and>
     length (am_worker_scope_ceiling m) \<le> 100 \<and>
     (\<forall>s \<in> set (am_worker_scope_ceiling m). worker_scope_text s \<and> \<not> isAgentScopeDenylisted (lit s)) \<and>
     distinct (am_worker_scope_ceiling m)"

definition limits_ok :: "'a admin_manifest_scheme \<Rightarrow> bool" where
  "limits_ok m \<longleftrightarrow> (let r = am_renewal_limits m; l = am_issuance_limits m;
       cr = ADMIN_RENEWAL_CEILINGS; cl = ADMIN_ISSUANCE_CEILINGS in
     uuids_ok (rn_principal_ids r) \<and> distinct (rn_grant_kinds r) \<and>
     limit_ok (rn_bearer_seconds r) (rn_bearer_seconds cr) \<and>
     limit_ok (rn_horizon_seconds r) (rn_horizon_seconds cr) \<and>
     limit_ok (rn_successors_per_worker r) (rn_successors_per_worker cr) \<and>
     limit_ok (rn_successors_per_grant r) (rn_successors_per_grant cr) \<and>
     limit_ok (il_workspaces l) (il_workspaces cl) \<and> limit_ok (il_live_seats l) (il_live_seats cl) \<and>
     limit_ok (il_total_seats l) (il_total_seats cl) \<and> limit_ok (il_invitations l) (il_invitations cl) \<and>
     limit_ok (il_live_agent_invitations l) (il_live_agent_invitations cl) \<and>
     limit_ok (il_worker_credentials l) (il_worker_credentials cl) \<and>
     limit_ok (il_connection_attempts l) (il_connection_attempts cl))"

definition times_ok :: "'a admin_manifest_scheme \<Rightarrow> number \<Rightarrow> bool \<Rightarrow> bool" where
  "times_ok m now initial \<longleftrightarrow>
     is_safe_integer (Fin (am_expires_at m)) \<and> is_safe_integer (Fin (am_refresh_deadline m)) \<and>
     now < am_expires_at m \<and> am_expires_at m \<le> am_refresh_deadline m \<and>
     (initial \<longrightarrow> now + 1000 \<le> am_expires_at m \<and>
        am_refresh_deadline m \<le> now + ADMIN_REFRESH_MAX_LIFETIME_SECONDS * 1000 \<and>
        am_expires_at m \<le> now + ADMIN_GRANT_TTL_SECONDS * 1000)"

definition manifest_ok :: "crypto \<Rightarrow> 'a admin_manifest_scheme \<Rightarrow> number \<Rightarrow> bool \<Rightarrow> bool" where
  "manifest_ok cr m now initial \<longleftrightarrow> identity_ok cr m initial \<and> capabilities_ok cr m \<and> policies_ok m \<and>
     limits_ok m \<and> times_ok m now initial"

lemma string_items_strings [simp]: "string_items (json_strings xs) = Some xs"
  by (simp add: json_strings_def list_all_iff comp_def)

lemma adminScopes_strings: "adminScopes (json_strings xs) version \<longleftrightarrow> scopes_ok version xs"
  by (auto simp: adminScopes_def scopes_ok_def list_all_iff split: option.splits)

lemma adminIds_strings: "adminIds (json_strings xs) \<longleftrightarrow> uuids_ok xs"
  by (simp add: adminIds_def uuids_ok_def list_all_iff)

lemma mode_text_eq [simp]:
  "mode_text x = ''granular'' \<longleftrightarrow> x = Granular" "mode_text x = ''full_account'' \<longleftrightarrow> x = FullAccount"
  by (cases x; simp)+

lemma mode_text_known: "mode_text x \<in> set [''granular'', ''full_account'']"
  by (cases x) simp_all

lemma selector_text_inject [simp]: "selector_text x = selector_text y \<longleftrightarrow> x = y"
  by (cases x; cases y) simp_all

lemma transport_text_inject [simp]: "transport_text x = transport_text y \<longleftrightarrow> x = y"
  by (cases x; cases y) simp_all

lemma grant_kind_text_inject [simp]: "grant_kind_text x = grant_kind_text y \<longleftrightarrow> x = y"
  by (cases x; cases y) simp_all

lemma transport_text_known: "transport_text t = ''local'' \<or> transport_text t = ''hosted_mcp''"
  by (cases t) simp_all

lemma grant_kind_text_known: "grant_kind_text k = ''timeboxed'' \<or> grant_kind_text k = ''standing''"
  by (cases k) simp_all

lemma on_values [simp]:
  "obj_get ob k = Some v \<Longrightarrow> on_field ob k P \<longleftrightarrow> P v"
  "obj_get ob k = Some (json_strings xs) \<Longrightarrow> on_strings ob k Q \<longleftrightarrow> Q xs"
  "obj_get ob k = Some (json_num r) \<Longrightarrow> on_number ob k R \<longleftrightarrow> R r"
  "obj_get ob k = Some (JObject o') \<Longrightarrow> on_object ob k S \<longleftrightarrow> S o'"
  "obj_get ob k = Some (JBool b) \<Longrightarrow> on_boolean ob k"
  by (simp_all add: on_field_def on_strings_def on_number_def on_object_def on_boolean_def json_num_def)

lemma obj_get_first [simp]: "obj_get ((q, v) # ob) k = (if k = q then Some v else obj_get ob k)"
  by (simp add: obj_get_def)

text \<open>The fields of a manifest's object.\<close>

lemma manifest_fields:
  assumes "manifest_value m = JObject ob"
  shows "obj_get ob ''admin_identity_id'' = Some (JString (am_admin_identity_id m))"
    "obj_get ob ''connection_id'' = Some (JString (am_connection_id m))"
    "obj_get ob ''client_id'' = Some (JString (am_client_id m))"
    "obj_get ob ''resource'' = Some (JString (am_resource m))"
    "obj_get ob ''mode'' = Some (JString (mode_text (am_mode m)))"
    "obj_get ob ''registry_version'' = Some (json_num (am_registry_version m))"
    "obj_get ob ''capability_names'' = Some (json_strings (am_capability_names m))"
    "obj_get ob ''availability_digest'' = Some (JString (am_availability_digest m))"
    "obj_get ob ''scope_names'' = Some (json_strings (am_scope_names m))"
    "obj_get ob ''workspace_selector'' = Some (JString (selector_text (am_workspace_selector m)))"
    "obj_get ob ''workspace_ids'' = Some (json_strings (am_workspace_ids m))"
    "obj_get ob ''created_workspace_policy'' =
       Some (JObject [(''scope_names'', json_strings (am_created_scope_names m))])"
    "obj_get ob ''target_rules'' = Some (targets_value (am_target_rules m))"
    "obj_get ob ''worker_scope_ceiling'' = Some (json_strings (am_worker_scope_ceiling m))"
    "obj_get ob ''role_ceiling'' = Some (JString (am_role_ceiling m))"
    "obj_get ob ''renewal_limits'' = Some (renewal_value (am_renewal_limits m))"
    "obj_get ob ''issuance_limits'' = Some (issuance_value (am_issuance_limits m))"
    "obj_get ob ''expires_at'' = Some (json_num (am_expires_at m))"
    "obj_get ob ''refresh_deadline'' = Some (json_num (am_refresh_deadline m))"
    "adminExactKeys ob MANIFEST_KEYS"
  using assms[symmetric]
  by (simp_all add: manifest_value_def obj_get_def adminExactKeys_def MANIFEST_KEYS_def obj_keys_def)

lemma identity_valid_typed:
  assumes "manifest_value m = JObject ob"
  shows "identity_valid cr ob (am_registry_version m) initial \<longleftrightarrow> identity_ok cr m initial"
proof -
  have sel: "selector_text x = ''selected'' \<longleftrightarrow> x = Selected" "selector_text x = ''owned_and_selected'' \<longleftrightarrow> x = OwnedAndSelected"
    for x by (cases x; simp)+
  show ?thesis
    using mode_text_known[of "am_mode m"]
    by (auto simp: identity_valid_def identity_ok_def manifest_fields[OF assms] adminScopes_strings
        adminIds_strings sel)
qed

lemma successively_less [simp]: "successively (<) xs \<longleftrightarrow> sorted_wrt (<) (xs :: string list)"
  by (induction xs rule: induct_list012) (auto simp: successively_iff_sorted_wrt_strong)

lemma capabilities_valid_typed:
  assumes "manifest_value m = JObject ob" and "ADMIN_AVAILABILITY (am_registry_version m) = Some ds"
  shows "capabilities_valid cr ob ds \<longleftrightarrow> capabilities_ok cr m"
proof -
  have ca: "capability_in (am_registry_version m) = obj_get ds"
    and av: "available_names (am_registry_version m) = sort (map fst (filter (\<lambda>(_, d). cp_available d) ds))"
    using assms(2) by (auto simp: capability_in_def available_names_def)
  have all: "list_all (\<lambda>name. case obj_get ds name of None \<Rightarrow> False | Some d \<Rightarrow> P d) xs \<longleftrightarrow>
      (\<forall>name \<in> set xs. \<exists>d. obj_get ds name = Some d \<and> P d)"
    and ex: "list_ex (\<lambda>name. case obj_get ds name of None \<Rightarrow> False | Some d \<Rightarrow> P d) xs \<longleftrightarrow>
      (\<exists>name \<in> set xs. \<exists>d. obj_get ds name = Some d \<and> P d)" for P and xs :: "string list"
    by (force simp: list_all_iff list_ex_iff split: option.splits)+
  show ?thesis
    unfolding capabilities_valid_def capabilities_ok_def ca av all ex json_strings_def[symmetric]
    by (simp add: manifest_fields[OF assms(1)] Let_def list_all_iff)
qed

lemma created_policy_valid_typed:
  assumes "manifest_value m = JObject ob"
  shows "created_policy_valid ob (am_registry_version m) \<longleftrightarrow>
     scopes_ok (am_registry_version m) (am_created_scope_names m) \<and>
     set (am_created_scope_names m) \<subseteq> set (am_scope_names m) \<and>
     (am_created_scope_names m \<noteq> [] \<longrightarrow> ''workspaces:create'' \<in> set (am_scope_names m))"
  by (auto simp: created_policy_valid_def manifest_fields[OF assms] adminExactKeys_def obj_keys_def
      adminScopes_strings list_all_iff)

lemma targets_valid_typed:
  assumes "manifest_value m = JObject ob"
  shows "targets_valid ob \<longleftrightarrow> uuids_ok (tr_seat_ids (am_target_rules m)) \<and>
     uuids_ok (tr_recipient_user_ids (am_target_rules m)) \<and>
     uuids_ok (tr_recipient_connection_ids (am_target_rules m)) \<and> distinct (tr_transports (am_target_rules m))"
  by (auto simp: targets_valid_def manifest_fields[OF assms] targets_value_def adminExactKeys_def
      obj_keys_def adminIds_strings list_all_iff transport_text_known distinct_map inj_on_def)

lemma worker_scopes_valid_typed:
  assumes "manifest_value m = JObject ob"
  shows "worker_scopes_valid ob \<longleftrightarrow> length (am_worker_scope_ceiling m) \<le> 100 \<and>
     (\<forall>s \<in> set (am_worker_scope_ceiling m). worker_scope_text s \<and> \<not> isAgentScopeDenylisted (lit s)) \<and>
     distinct (am_worker_scope_ceiling m)"
  by (auto simp: worker_scopes_valid_def manifest_fields[OF assms] list_all_iff list_ex_iff)

lemma renewal_valid_typed:
  assumes "manifest_value m = JObject ob"
  shows "renewal_valid ob \<longleftrightarrow> limits_ok m"
  by (simp add: renewal_valid_def limits_ok_def Let_def manifest_fields[OF assms] renewal_value_def issuance_value_def
      adminExactKeys_def obj_keys_def renewal_ceilings_def issuance_ceilings_def limits_valid_def
      adminIds_strings list_all_iff grant_kind_text_known distinct_map inj_on_def limit_ok_def del: is_safe_integer.simps)

lemma times_valid_typed:
  assumes "manifest_value m = JObject ob"
  shows "times_valid ob now initial \<longleftrightarrow> times_ok m now initial"
  by (auto simp: times_valid_def times_ok_def manifest_fields[OF assms])

lemma manifest_value_object: "\<exists>ob. manifest_value m = JObject ob"
  by (simp add: manifest_value_def)

lemma manifest_valid_iff: "adminManifestValid cr (manifest_value m) now initial \<longleftrightarrow> manifest_ok cr m now initial"
proof -
  obtain ob where ob: "manifest_value m = JObject ob" using manifest_value_object by blast
  show ?thesis
  proof (cases "ADMIN_AVAILABILITY (am_registry_version m)")
    case None
    then show ?thesis
      by (simp add: adminManifestValid_def ob manifest_fields[OF ob] manifest_ok_def identity_ok_def)
  next
    case (Some ds)
    show ?thesis
      unfolding adminManifestValid_def ob adminRecord.simps option.case on_values(3)[OF manifest_fields(6)[OF ob]]
        Some manifest_ok_def policies_ok_def
        identity_valid_typed[OF ob] capabilities_valid_typed[OF ob Some] created_policy_valid_typed[OF ob]
        targets_valid_typed[OF ob] worker_scopes_valid_typed[OF ob] renewal_valid_typed[OF ob] times_valid_typed[OF ob]
      using manifest_fields(20)[OF ob] by blast
  qed
qed

section \<open>An admitted value is a manifest\<close>

lemma exact_keys:
  assumes "adminExactKeys ob keys" and "distinct keys"
  shows "distinct (map fst ob)" and "set (map fst ob) = set keys"
proof -
  have len: "length (map fst ob) = length keys" and sub: "set keys \<subseteq> set (map fst ob)"
    using assms(1) by (auto simp: adminExactKeys_def obj_keys_def list_all_iff)
  have "card (set keys) \<le> card (set (map fst ob))" using sub by (simp add: card_mono)
  moreover have "card (set keys) = length (map fst ob)" using assms(2) len by (simp add: distinct_card)
  ultimately have c: "card (set (map fst ob)) = length (map fst ob)" using card_length[of "map fst ob"] by simp
  then show "distinct (map fst ob)" by (rule card_distinct)
  show "set (map fst ob) = set keys"
    using card_subset_eq[OF _ sub] c len assms(2) by (simp add: distinct_card)
qed

lemma same_objectI:
  assumes "distinct (map fst xs)" and "distinct (map fst ys)" and keys: "set (map fst xs) = set (map fst ys)"
    and vals: "\<And>k v w. obj_get xs k = Some v \<Longrightarrow> obj_get ys k = Some w \<Longrightarrow> json_same v w"
  shows "json_same (JObject xs) (JObject ys)"
proof -
  define ys' where "ys' = map (\<lambda>p. (fst p, the (map_of ys (fst p)))) xs"
  have there: "\<exists>w. map_of ys k = Some w" if "(k, v) \<in> set xs" for k v
  proof -
    have "k \<in> set (map fst ys)" using that keys by force
    then show ?thesis by (metis map_of_eq_None_iff not_None_eq set_map)
  qed
  have "set ys' = set ys"
  proof (rule equalityI; rule subsetI)
    fix p assume "p \<in> set ys'"
    then obtain k v where kv: "(k, v) \<in> set xs" "p = (k, the (map_of ys k))" by (auto simp: ys'_def)
    with there[OF kv(1)] show "p \<in> set ys" by (auto dest: map_of_SomeD)
  next
    fix p assume p: "p \<in> set ys"
    then have "fst p \<in> set (map fst xs)" using keys by simp
    moreover have "map_of ys (fst p) = Some (snd p)" using p assms(2) by simp
    ultimately show "p \<in> set ys'" by (force simp: ys'_def image_iff)
  qed
  moreover have "distinct ys'" "distinct ys"
    using assms(1,2) by (auto simp: ys'_def distinct_map inj_on_def)
  ultimately have m: "mset ys = mset ys'" by (metis set_eq_iff_mset_eq_distinct)
  have "json_same v (the (map_of ys k))" if kv: "(k, v) \<in> set xs" for k v
  proof -
    from there[OF kv] obtain w where w: "map_of ys k = Some w" by blast
    with kv assms(1) show ?thesis by (simp add: obj_get_def vals)
  qed
  then have "list_all2 (\<lambda>p q. fst p = fst q \<and> json_same (snd p) (snd q)) xs ys'"
    by (auto simp: ys'_def list.rel_map list_all2_same)
  with assms(1) m show ?thesis by (rule json_same.same_object)
qed

lemma string_items_Some: "string_items v = Some xs \<Longrightarrow> v = json_strings xs"
proof (cases v)
  case (JArray vs)
  assume "string_items v = Some xs"
  with JArray have "list_all (\<lambda>x. string_value x \<noteq> None) vs" "xs = map (\<lambda>x. the (string_value x)) vs"
    by (auto split: if_splits)
  moreover have "JString (the (string_value x)) = x" if "string_value x \<noteq> None" for x
    using that by (cases x) auto
  ultimately show ?thesis using JArray by (auto simp: json_strings_def list_all_iff comp_def map_idI)
qed simp_all

lemma on_stringsD: "on_strings ob k P \<Longrightarrow> \<exists>xs. obj_get ob k = Some (json_strings xs) \<and> P xs"
  by (auto simp: on_strings_def on_field_def split: option.splits dest: string_items_Some)

lemma on_idsD: "on_field ob k adminIds \<Longrightarrow> \<exists>xs. obj_get ob k = Some (json_strings xs) \<and> uuids_ok xs"
  using adminIds_strings
  by (auto simp: on_field_def adminIds_def split: option.splits dest!: string_items_Some)

lemma on_numberD: "on_number ob k P \<Longrightarrow> \<exists>r. obj_get ob k = Some (json_num r) \<and> P r"
  by (auto simp: on_number_def on_field_def json_num_def split: option.splits json.splits jsnum.splits)

lemma on_objectD: "on_object ob k P \<Longrightarrow> \<exists>r. obj_get ob k = Some (JObject r) \<and> P r"
  by (auto simp: on_object_def on_field_def split: option.splits elim!: adminRecord.elims)

lemma on_booleanD: "on_boolean ob k \<Longrightarrow> \<exists>b. obj_get ob k = Some (JBool b)"
  by (auto simp: on_boolean_def)

text \<open>Texts of an enumeration come from its values.\<close>

lemma texts_typed:
  assumes "\<And>t. t \<in> set xs \<Longrightarrow> \<exists>x. t = f x"
  shows "\<exists>ys. xs = map f ys"
  using assms by (intro exI[of _ "map (inv f) xs"])
    (auto simp: comp_def f_inv_into_f image_iff intro!: map_idI[symmetric])

lemma created_typed:
  assumes "created_policy_valid ob version"
  shows "\<exists>xs. obj_get ob ''created_workspace_policy'' = Some (JObject [(''scope_names'', json_strings xs)])"
proof -
  from assms obtain c where c: "obj_get ob ''created_workspace_policy'' = Some (JObject c)"
    "adminExactKeys c [''scope_names'']" "on_strings c ''scope_names'' (\<lambda>_. True)"
    unfolding created_policy_valid_def by (auto dest!: on_stringsD on_objectD)
  then obtain v where "c = [(''scope_names'', v)]"
    by (auto simp: adminExactKeys_def obj_keys_def length_Suc_conv)
  with c on_stringsD[OF c(3)] show ?thesis by auto
qed

lemma targets_typed:
  assumes "targets_valid ob"
  shows "\<exists>c t. obj_get ob ''target_rules'' = Some (JObject c) \<and> json_same (JObject c) (targets_value t) \<and>
    uuids_ok (tr_seat_ids t) \<and> uuids_ok (tr_recipient_user_ids t) \<and> uuids_ok (tr_recipient_connection_ids t) \<and>
    distinct (tr_transports t)"
proof -
  let ?K = "[''seat_ids'', ''own_seats'', ''grant_created_seats'', ''recipient_user_ids'',
       ''recipient_connection_ids'', ''transports'']"
  from assms obtain c where c: "obj_get ob ''target_rules'' = Some (JObject c)" and K: "adminExactKeys c ?K"
    and f: "on_field c ''seat_ids'' adminIds" "on_field c ''recipient_user_ids'' adminIds"
      "on_field c ''recipient_connection_ids'' adminIds" "on_boolean c ''own_seats''" "on_boolean c ''grant_created_seats''"
      "on_strings c ''transports'' (\<lambda>xs. list_all (\<lambda>t. t = ''local'' \<or> t = ''hosted_mcp'') xs \<and> distinct xs)"
    unfolding targets_valid_def by (auto dest!: on_objectD)
  from f obtain seats users conns own created ts where v:
    "obj_get c ''seat_ids'' = Some (json_strings seats)" "uuids_ok seats"
    "obj_get c ''recipient_user_ids'' = Some (json_strings users)" "uuids_ok users"
    "obj_get c ''recipient_connection_ids'' = Some (json_strings conns)" "uuids_ok conns"
    "obj_get c ''own_seats'' = Some (JBool own)" "obj_get c ''grant_created_seats'' = Some (JBool created)"
    "obj_get c ''transports'' = Some (json_strings ts)" "\<forall>t \<in> set ts. t = ''local'' \<or> t = ''hosted_mcp''" "distinct ts"
    by (auto dest!: on_idsD on_booleanD on_stringsD simp: list_all_iff)
  have "\<exists>x. t = transport_text x" if "t \<in> set ts" for t
    using v(10) that transport_text.simps by metis
  then obtain xs where xs: "ts = map transport_text xs" using texts_typed[of ts transport_text] by blast
  let ?t = "\<lparr>tr_seat_ids = seats, tr_own_seats = own, tr_grant_created_seats = created,
     tr_recipient_user_ids = users, tr_recipient_connection_ids = conns, tr_transports = xs\<rparr>"
  have "json_same (JObject c) (targets_value ?t)"
    unfolding targets_value_def
  proof (rule same_objectI)
    show "distinct (map fst c)" "set (map fst c) = set (map fst [(''seat_ids'', json_strings (tr_seat_ids ?t)),
      (''own_seats'', JBool (tr_own_seats ?t)), (''grant_created_seats'', JBool (tr_grant_created_seats ?t)),
     (''recipient_user_ids'', json_strings (tr_recipient_user_ids ?t)),
     (''recipient_connection_ids'', json_strings (tr_recipient_connection_ids ?t)),
     (''transports'', json_strings (map transport_text (tr_transports ?t)))])"
      using exact_keys[OF K] by auto
  qed (auto simp: v xs split: if_splits intro: json_same.same_refl)
  with c v xs show ?thesis by (auto simp: distinct_map intro!: exI[of _ c] exI[of _ ?t])
qed

lemma limits_typed:
  assumes "limits_valid ob ceilings" and "(key, top_value) \<in> set ceilings"
  shows "\<exists>n. obj_get ob key = Some (json_num n) \<and> limit_ok n top_value"
  using assms by (force simp: limits_valid_def list_all_iff limit_ok_def dest: on_numberD)

lemma renewal_typed:
  assumes "adminExactKeys c (obj_keys renewal_ceilings @ [''grant_kinds'', ''principal_ids''])"
    and "on_field c ''principal_ids'' adminIds"
    and "on_strings c ''grant_kinds'' (\<lambda>xs. list_all (\<lambda>k. k = ''timeboxed'' \<or> k = ''standing'') xs \<and> distinct xs)"
    and "limits_valid c renewal_ceilings"
  shows "\<exists>r. json_same (JObject c) (renewal_value r) \<and> uuids_ok (rn_principal_ids r) \<and> distinct (rn_grant_kinds r) \<and>
     limit_ok (rn_bearer_seconds r) (rn_bearer_seconds ADMIN_RENEWAL_CEILINGS) \<and>
     limit_ok (rn_horizon_seconds r) (rn_horizon_seconds ADMIN_RENEWAL_CEILINGS) \<and>
     limit_ok (rn_successors_per_worker r) (rn_successors_per_worker ADMIN_RENEWAL_CEILINGS) \<and>
     limit_ok (rn_successors_per_grant r) (rn_successors_per_grant ADMIN_RENEWAL_CEILINGS)"
proof -
  note lim = limits_typed[OF assms(4)]
  from assms(2,3) lim[of "''bearer_seconds''"] lim[of "''horizon_seconds''"] lim[of "''successors_per_worker''"]
    lim[of "''successors_per_grant''"]
  obtain ids ks b h w g where v: "obj_get c ''principal_ids'' = Some (json_strings ids)" "uuids_ok ids"
    "obj_get c ''grant_kinds'' = Some (json_strings ks)" "\<forall>k \<in> set ks. k = ''timeboxed'' \<or> k = ''standing''" "distinct ks"
    "obj_get c ''bearer_seconds'' = Some (json_num b)" "limit_ok b (rn_bearer_seconds ADMIN_RENEWAL_CEILINGS)"
    "obj_get c ''horizon_seconds'' = Some (json_num h)" "limit_ok h (rn_horizon_seconds ADMIN_RENEWAL_CEILINGS)"
    "obj_get c ''successors_per_worker'' = Some (json_num w)"
    "limit_ok w (rn_successors_per_worker ADMIN_RENEWAL_CEILINGS)"
    "obj_get c ''successors_per_grant'' = Some (json_num g)" "limit_ok g (rn_successors_per_grant ADMIN_RENEWAL_CEILINGS)"
    by (auto simp: renewal_ceilings_def list_all_iff dest!: on_idsD on_stringsD)
  have "\<exists>x. t = grant_kind_text x" if "t \<in> set ks" for t
    using v(4) that grant_kind_text.simps by metis
  then obtain xs where xs: "ks = map grant_kind_text xs" using texts_typed[of ks grant_kind_text] by blast
  let ?r = "\<lparr>rn_grant_kinds = xs, rn_principal_ids = ids, rn_bearer_seconds = b, rn_horizon_seconds = h,
     rn_successors_per_worker = w, rn_successors_per_grant = g\<rparr>"
  have "json_same (JObject c) (renewal_value ?r)"
    unfolding renewal_value_def
  proof (rule same_objectI)
    show "distinct (map fst c)" by (rule exact_keys[OF assms(1)]) (simp add: renewal_ceilings_def obj_keys_def)
    show "set (map fst c) = set (map fst [(''grant_kinds'', json_strings (map grant_kind_text (rn_grant_kinds ?r))),
     (''principal_ids'', json_strings (rn_principal_ids ?r)), (''bearer_seconds'', json_num (rn_bearer_seconds ?r)),
     (''horizon_seconds'', json_num (rn_horizon_seconds ?r)),
     (''successors_per_worker'', json_num (rn_successors_per_worker ?r)),
     (''successors_per_grant'', json_num (rn_successors_per_grant ?r))])"
      using exact_keys(2)[OF assms(1)] by (auto simp: renewal_ceilings_def obj_keys_def)
  qed (auto simp: v xs split: if_splits intro: json_same.same_refl)
  with v xs show ?thesis by (auto simp: distinct_map intro!: exI[of _ ?r])
qed

lemma issuance_typed:
  assumes "adminExactKeys c (obj_keys issuance_ceilings)" and "limits_valid c issuance_ceilings"
  shows "\<exists>l. json_same (JObject c) (issuance_value l) \<and>
     limit_ok (il_workspaces l) (il_workspaces ADMIN_ISSUANCE_CEILINGS) \<and>
     limit_ok (il_live_seats l) (il_live_seats ADMIN_ISSUANCE_CEILINGS) \<and>
     limit_ok (il_total_seats l) (il_total_seats ADMIN_ISSUANCE_CEILINGS) \<and>
     limit_ok (il_invitations l) (il_invitations ADMIN_ISSUANCE_CEILINGS) \<and>
     limit_ok (il_live_agent_invitations l) (il_live_agent_invitations ADMIN_ISSUANCE_CEILINGS) \<and>
     limit_ok (il_worker_credentials l) (il_worker_credentials ADMIN_ISSUANCE_CEILINGS) \<and>
     limit_ok (il_connection_attempts l) (il_connection_attempts ADMIN_ISSUANCE_CEILINGS)"
proof -
  have ex: "\<exists>v. obj_get c key = Some (json_num v) \<and> limit_ok v top_value" if "(key, top_value) \<in> set issuance_ceilings" for key top_value
    using limits_typed[OF assms(2) that] .
  from ex[of "''workspaces''"] ex[of "''live_seats''"] ex[of "''total_seats''"] ex[of "''invitations''"]
    ex[of "''live_agent_invitations''"] ex[of "''worker_credentials''"] ex[of "''connection_attempts''"]
  obtain a1 a2 a3 a4 a5 a6 a7 where v:
    "obj_get c ''workspaces'' = Some (json_num a1)" "limit_ok a1 (il_workspaces ADMIN_ISSUANCE_CEILINGS)"
    "obj_get c ''live_seats'' = Some (json_num a2)" "limit_ok a2 (il_live_seats ADMIN_ISSUANCE_CEILINGS)"
    "obj_get c ''total_seats'' = Some (json_num a3)" "limit_ok a3 (il_total_seats ADMIN_ISSUANCE_CEILINGS)"
    "obj_get c ''invitations'' = Some (json_num a4)" "limit_ok a4 (il_invitations ADMIN_ISSUANCE_CEILINGS)"
    "obj_get c ''live_agent_invitations'' = Some (json_num a5)"
    "limit_ok a5 (il_live_agent_invitations ADMIN_ISSUANCE_CEILINGS)"
    "obj_get c ''worker_credentials'' = Some (json_num a6)" "limit_ok a6 (il_worker_credentials ADMIN_ISSUANCE_CEILINGS)"
    "obj_get c ''connection_attempts'' = Some (json_num a7)"
    "limit_ok a7 (il_connection_attempts ADMIN_ISSUANCE_CEILINGS)"
    by (auto simp: issuance_ceilings_def)
  let ?l = "\<lparr>il_workspaces = a1, il_live_seats = a2, il_total_seats = a3, il_invitations = a4,
     il_live_agent_invitations = a5, il_worker_credentials = a6, il_connection_attempts = a7\<rparr>"
  have keys: "set (map fst c) = set (obj_keys issuance_ceilings)" "distinct (map fst c)"
    by (rule exact_keys[OF assms(1)], simp add: issuance_ceilings_def obj_keys_def)+
  have "json_same (JObject c) (issuance_value ?l)"
    unfolding issuance_value_def
    by (rule same_objectI)
      (use keys in \<open>auto simp: v issuance_ceilings_def obj_keys_def split: if_splits intro: json_same.same_refl\<close>)
  with v show ?thesis by (intro exI[of _ ?l]) simp
qed

text \<open>The tests of the flat fields look at nothing but these fields.\<close>

definition FLAT_KEYS :: "string list" where
  "FLAT_KEYS = [''admin_identity_id'', ''connection_id'', ''client_id'', ''resource'', ''mode'', ''registry_version'',
      ''capability_names'', ''availability_digest'', ''scope_names'', ''workspace_selector'', ''workspace_ids'',
      ''created_workspace_policy'', ''worker_scope_ceiling'', ''role_ceiling'', ''expires_at'', ''refresh_deadline'']"

definition same_flat :: "json obj \<Rightarrow> json obj \<Rightarrow> bool" where
  "same_flat a b \<longleftrightarrow> list_all (\<lambda>k. obj_get a k = obj_get b k) FLAT_KEYS"

lemma flat_fields:
  assumes "same_flat a b"
  shows "identity_valid cr a v i = identity_valid cr b v i" "capabilities_valid cr a ds = capabilities_valid cr b ds"
    "created_policy_valid a v = created_policy_valid b v" "worker_scopes_valid a = worker_scopes_valid b"
    "times_valid a now i = times_valid b now i"
  using assms
  by (simp_all add: same_flat_def FLAT_KEYS_def identity_valid_def capabilities_valid_def created_policy_valid_def
      worker_scopes_valid_def times_valid_def on_field_def on_strings_def on_object_def on_number_def)

lemma identity_fields:
  assumes "identity_valid cr ob version initial" and "obj_get ob ''mode'' = Some (JString md)"
  shows "\<exists>client dig scopes ws mode sel. obj_get ob ''client_id'' = Some (JString client) \<and>
     obj_get ob ''resource'' = Some (JString ADMIN_RESOURCE) \<and> obj_get ob ''availability_digest'' = Some (JString dig) \<and>
     obj_get ob ''scope_names'' = Some (json_strings scopes) \<and> obj_get ob ''workspace_ids'' = Some (json_strings ws) \<and>
     obj_get ob ''role_ceiling'' = Some (JString ''member'') \<and> md = mode_text mode \<and>
     obj_get ob ''workspace_selector'' = Some (JString (selector_text sel))"
proof -
  note i = assms(1)[unfolded identity_valid_def]
  from i obtain client where c: "obj_get ob ''client_id'' = Some (JString client)"
    by (auto simp: on_field_def split: option.splits elim!: string_value.elims)
  from i obtain dig where d: "obj_get ob ''availability_digest'' = Some (JString dig)"
    by (auto simp: on_field_def split: option.splits elim!: string_value.elims)
  from i obtain scopes where s: "obj_get ob ''scope_names'' = Some (json_strings scopes)" by (blast dest: on_stringsD)
  from i obtain ws where w: "obj_get ob ''workspace_ids'' = Some (json_strings ws)" by (blast dest: on_idsD)
  from i assms(2) have "md = ''granular'' \<or> md = ''full_account''" by (simp add: on_field_def)
  then obtain mode where mode: "md = mode_text mode" using mode_text.simps by metis
  obtain x where "(if md = ''granular'' then ''selected'' else ''owned_and_selected'') = selector_text x"
    using selector_text.simps by metis
  with i assms(2) have "obj_get ob ''workspace_selector'' = Some (JString (selector_text x))" by (simp split: if_splits)
  with c d s w mode i show ?thesis by blast
qed

text \<open>What makes an object the one of a manifest: the flat fields agree, the nested ones up to key order.\<close>

definition reads_as :: "json obj \<Rightarrow> admin_manifest \<Rightarrow> bool" where
  "reads_as ob m \<longleftrightarrow> (\<exists>ob' c rn il. manifest_value m = JObject ob' \<and> same_flat ob ob' \<and>
     obj_get ob ''target_rules'' = Some (JObject c) \<and> json_same (JObject c) (targets_value (am_target_rules m)) \<and>
     obj_get ob ''renewal_limits'' = Some (JObject rn) \<and> json_same (JObject rn) (renewal_value (am_renewal_limits m)) \<and>
     obj_get ob ''issuance_limits'' = Some (JObject il) \<and> json_same (JObject il) (issuance_value (am_issuance_limits m)))"

lemma reads_as_same:
  assumes "reads_as ob m" and K: "adminExactKeys ob MANIFEST_KEYS"
  shows "json_same (JObject ob) (manifest_value m)"
proof -
  from assms(1) obtain ob' c rn il where ob': "manifest_value m = JObject ob'" and f: "same_flat ob ob'"
    and n: "obj_get ob ''target_rules'' = Some (JObject c)" "json_same (JObject c) (targets_value (am_target_rules m))"
     "obj_get ob ''renewal_limits'' = Some (JObject rn)" "json_same (JObject rn) (renewal_value (am_renewal_limits m))"
     "obj_get ob ''issuance_limits'' = Some (JObject il)" "json_same (JObject il) (issuance_value (am_issuance_limits m))"
    unfolding reads_as_def by blast
  note its = manifest_fields[OF ob']
  have dK: "distinct MANIFEST_KEYS" by (simp add: MANIFEST_KEYS_def)
  have "json_same (JObject ob) (JObject ob')"
  proof (rule same_objectI)
    show "distinct (map fst ob)" "distinct (map fst ob')" by (rule exact_keys[OF K dK], rule exact_keys[OF its(20) dK])
    show "set (map fst ob) = set (map fst ob')" using exact_keys(2)[OF K dK] exact_keys(2)[OF its(20) dK] by simp
    fix k v w assume vw: "obj_get ob k = Some v" "obj_get ob' k = Some w"
    then have "k \<in> set (map fst ob)" by (force simp: obj_get_def dest: map_of_SomeD)
    then have "k \<in> set MANIFEST_KEYS" using exact_keys(2)[OF K dK] by simp
    moreover have "set MANIFEST_KEYS \<subseteq> set FLAT_KEYS \<union> {''target_rules'', ''renewal_limits'', ''issuance_limits''}"
      by (simp add: MANIFEST_KEYS_def FLAT_KEYS_def)
    ultimately consider "k \<in> set FLAT_KEYS" | "k = ''target_rules''" | "k = ''renewal_limits''" | "k = ''issuance_limits''"
      by blast
    then show "json_same v w"
    proof cases
      case 1
      with f vw have "v = w" by (simp add: same_flat_def list_all_iff)
      then show ?thesis by (simp add: json_same.same_refl)
    qed (use vw n its(13,16,17) in simp_all)
  qed
  then show ?thesis by (simp add: ob')
qed

lemma reads_as_ok:
  assumes "adminManifestValid cr (JObject ob) now initial" and "reads_as ob m"
    and t: "uuids_ok (tr_seat_ids (am_target_rules m))" "uuids_ok (tr_recipient_user_ids (am_target_rules m))"
      "uuids_ok (tr_recipient_connection_ids (am_target_rules m))" "distinct (tr_transports (am_target_rules m))"
    and l: "limits_ok m"
  shows "manifest_ok cr m now initial"
proof -
  from assms(2) obtain ob' where ob': "manifest_value m = JObject ob'" and f: "same_flat ob ob'"
    unfolding reads_as_def by blast
  have ver: "obj_get ob ''registry_version'' = Some (json_num (am_registry_version m))"
    using f manifest_fields(6)[OF ob'] by (simp add: same_flat_def FLAT_KEYS_def)
  from assms(1) obtain ds where ds: "ADMIN_AVAILABILITY (am_registry_version m) = Some ds"
    and v: "identity_valid cr ob (am_registry_version m) initial" "capabilities_valid cr ob ds"
      "created_policy_valid ob (am_registry_version m)" "worker_scopes_valid ob" "times_valid ob now initial"
    by (auto simp: adminManifestValid_def on_values(3)[OF ver] split: option.splits)
  note g = v[unfolded flat_fields[OF f] identity_valid_typed[OF ob'] capabilities_valid_typed[OF ob' ds]
    created_policy_valid_typed[OF ob'] worker_scopes_valid_typed[OF ob'] times_valid_typed[OF ob']]
  from g t l show ?thesis by (simp add: manifest_ok_def policies_ok_def)
qed

text \<open>The manifest an admitted object reads as: its flat fields, then the nested ones.\<close>

lemma flat_manifest:
  assumes "adminManifestValid cr (JObject ob) now initial"
    and ids: "obj_get ob ''admin_identity_id'' = Some (JString ident)" "obj_get ob ''connection_id'' = Some (JString conn)"
    and mode: "obj_get ob ''mode'' = Some (JString md)"
  shows "\<exists>m :: admin_manifest. \<forall>t r l ob'. manifest_value (m\<lparr>am_target_rules := t, am_renewal_limits := r, am_issuance_limits := l\<rparr>) = JObject ob' \<longrightarrow>
     same_flat ob ob'"
proof -
  from assms(1) have "on_number ob ''registry_version'' (\<lambda>version. identity_valid cr ob version initial \<and>
      (case ADMIN_AVAILABILITY version of None \<Rightarrow> False | Some ds \<Rightarrow> capabilities_valid cr ob ds) \<and>
      created_policy_valid ob version)"
    and blocks: "worker_scopes_valid ob" "times_valid ob now initial"
    by (simp_all add: adminManifestValid_def)
  then obtain version ds where ver: "obj_get ob ''registry_version'' = Some (json_num version)"
    "identity_valid cr ob version initial" "capabilities_valid cr ob ds" "created_policy_valid ob version"
    by (auto dest!: on_numberD split: option.splits)
  from identity_fields[OF ver(2) mode] obtain client dig scopes ws mo sel where id:
    "obj_get ob ''client_id'' = Some (JString client)" "obj_get ob ''resource'' = Some (JString ADMIN_RESOURCE)"
    "obj_get ob ''availability_digest'' = Some (JString dig)" "obj_get ob ''scope_names'' = Some (json_strings scopes)"
    "obj_get ob ''workspace_ids'' = Some (json_strings ws)" "obj_get ob ''role_ceiling'' = Some (JString ''member'')"
    "md = mode_text mo" "obj_get ob ''workspace_selector'' = Some (JString (selector_text sel))" by blast
  from ver(3) obtain names where nm: "obj_get ob ''capability_names'' = Some (json_strings names)"
    unfolding capabilities_valid_def by (blast dest: on_stringsD)
  from blocks(1) obtain workers where wk: "obj_get ob ''worker_scope_ceiling'' = Some (json_strings workers)"
    unfolding worker_scopes_valid_def by (blast dest: on_stringsD)
  from blocks(2) obtain expires deadline where tm: "obj_get ob ''expires_at'' = Some (json_num expires)"
    "obj_get ob ''refresh_deadline'' = Some (json_num deadline)"
    unfolding times_valid_def by (blast dest: on_numberD)
  from created_typed[OF ver(4)] obtain created where cr:
    "obj_get ob ''created_workspace_policy'' = Some (JObject [(''scope_names'', json_strings created)])" by blast
  define m where "m = \<lparr>am_admin_identity_id = ident, am_connection_id = conn, am_client_id = client,
    am_resource = ADMIN_RESOURCE, am_mode = mo, am_registry_version = version, am_capability_names = names,
    am_availability_digest = dig, am_scope_names = scopes, am_workspace_selector = sel, am_workspace_ids = ws,
    am_created_scope_names = created,
    am_target_rules = \<lparr>tr_seat_ids = [], tr_own_seats = False, tr_grant_created_seats = False,
      tr_recipient_user_ids = [], tr_recipient_connection_ids = [], tr_transports = []\<rparr>,
    am_worker_scope_ceiling = workers, am_role_ceiling = ''member'', am_renewal_limits = ADMIN_RENEWAL_CEILINGS,
    am_issuance_limits = ADMIN_ISSUANCE_CEILINGS, am_expires_at = expires, am_refresh_deadline = deadline\<rparr>"
  note mine = ids mode[unfolded id(7)] id nm wk tm cr ver(1)
  have "same_flat ob ob'"
    if "manifest_value (m\<lparr>am_target_rules := t, am_renewal_limits := r, am_issuance_limits := l\<rparr>) = JObject ob'" for t r l ob'
    using manifest_fields[OF that] by (simp add: same_flat_def FLAT_KEYS_def mine m_def)
  then show ?thesis by blast
qed

lemma admitted_typed:
  assumes valid: "adminManifestValid cr (JObject ob) now initial"
    and ids: "obj_get ob ''admin_identity_id'' = Some (JString ident)" "obj_get ob ''connection_id'' = Some (JString conn)"
    and mode: "obj_get ob ''mode'' = Some (JString md)"
  shows "\<exists>m. json_same (JObject ob) (manifest_value m) \<and> manifest_ok cr (m :: admin_manifest) now initial"
proof -
  from valid have K: "adminExactKeys ob MANIFEST_KEYS" and blocks: "targets_valid ob" "renewal_valid ob"
    by (simp_all add: adminManifestValid_def)
  from targets_typed[OF blocks(1)] obtain c t where t: "obj_get ob ''target_rules'' = Some (JObject c)"
    "json_same (JObject c) (targets_value t)" "uuids_ok (tr_seat_ids t)" "uuids_ok (tr_recipient_user_ids t)"
    "uuids_ok (tr_recipient_connection_ids t)" "distinct (tr_transports t)" by blast
  from blocks(2) obtain rn il where lim: "obj_get ob ''renewal_limits'' = Some (JObject rn)"
    "obj_get ob ''issuance_limits'' = Some (JObject il)"
    and rn: "adminExactKeys rn (obj_keys renewal_ceilings @ [''grant_kinds'', ''principal_ids''])"
    "on_field rn ''principal_ids'' adminIds"
    "on_strings rn ''grant_kinds'' (\<lambda>xs. list_all (\<lambda>k. k = ''timeboxed'' \<or> k = ''standing'') xs \<and> distinct xs)"
    "limits_valid rn renewal_ceilings"
    and il: "adminExactKeys il (obj_keys issuance_ceilings)" "limits_valid il issuance_ceilings"
    unfolding renewal_valid_def by (blast dest: on_objectD)
  from renewal_typed[OF rn] obtain r where r: "json_same (JObject rn) (renewal_value r)" "uuids_ok (rn_principal_ids r)"
    "distinct (rn_grant_kinds r)" "limit_ok (rn_bearer_seconds r) (rn_bearer_seconds ADMIN_RENEWAL_CEILINGS)"
    "limit_ok (rn_horizon_seconds r) (rn_horizon_seconds ADMIN_RENEWAL_CEILINGS)"
    "limit_ok (rn_successors_per_worker r) (rn_successors_per_worker ADMIN_RENEWAL_CEILINGS)"
    "limit_ok (rn_successors_per_grant r) (rn_successors_per_grant ADMIN_RENEWAL_CEILINGS)" by blast
  from issuance_typed[OF il] obtain l where l: "json_same (JObject il) (issuance_value l)"
    "limit_ok (il_workspaces l) (il_workspaces ADMIN_ISSUANCE_CEILINGS)"
    "limit_ok (il_live_seats l) (il_live_seats ADMIN_ISSUANCE_CEILINGS)"
    "limit_ok (il_total_seats l) (il_total_seats ADMIN_ISSUANCE_CEILINGS)"
    "limit_ok (il_invitations l) (il_invitations ADMIN_ISSUANCE_CEILINGS)"
    "limit_ok (il_live_agent_invitations l) (il_live_agent_invitations ADMIN_ISSUANCE_CEILINGS)"
    "limit_ok (il_worker_credentials l) (il_worker_credentials ADMIN_ISSUANCE_CEILINGS)"
    "limit_ok (il_connection_attempts l) (il_connection_attempts ADMIN_ISSUANCE_CEILINGS)" by blast
  from flat_manifest[OF valid ids mode] obtain m0 :: admin_manifest where m0:
    "\<And>t r l ob'. manifest_value (m0\<lparr>am_target_rules := t, am_renewal_limits := r, am_issuance_limits := l\<rparr>) = JObject ob' \<Longrightarrow>
     same_flat ob ob'" by blast
  define m where "m = m0\<lparr>am_target_rules := t, am_renewal_limits := r, am_issuance_limits := l\<rparr>"
  obtain ob' where ob': "manifest_value m = JObject ob'" using manifest_value_object by blast
  have nested: "am_target_rules m = t" "am_renewal_limits m = r" "am_issuance_limits m = l" by (simp_all add: m_def)
  have reads: "reads_as ob m" unfolding reads_as_def nested using ob' m0[OF ob'[unfolded m_def]] t(1,2) lim r(1) l(1) by blast
  have "limits_ok m" unfolding limits_ok_def nested Let_def using r l by blast
  with reads_as_ok[OF valid reads] t(3-6) nested have "manifest_ok cr m now initial" by simp
  with reads_as_same[OF reads K] show ?thesis by blast
qed

end
