(* ===== verification/AdminData.thy ===== *)
theory AdminData
  imports AdminManifest
begin

text \<open>
  The data of delegated administration: the types of \<open>src/protocol/admin-authority.ts\<close> and
  \<open>admin-routine.ts\<close>. An account keeps the grants of one person, the consents they rest on, the
  refresh lineages of their credentials, rate buckets, client approvals, pending connections and the
  routine, which counts what each grant has spent. Events carry one payload type per event type;
  the payload of a routine event is a record of optional fields, since the reducer checks which are
  there. A spread of a whole credential into a payload is kept as the credential and the fields the
  reducer asks for.
\<close>

definition obj_map :: "('v \<Rightarrow> 'w) \<Rightarrow> 'v obj \<Rightarrow> 'w obj" where
  "obj_map f ob = map (\<lambda>(k, v). (k, f v)) ob"

lemma obj_get_map [simp]: "obj_get (obj_map f ob) k = map_option f (obj_get ob k)"
  by (induction ob) (auto simp: obj_map_def obj_get_def)

lemma obj_wf_map [simp]: "obj_wf (obj_map f ob) \<longleftrightarrow> obj_wf ob"
  by (simp add: obj_wf_def obj_map_def comp_def case_prod_beta)

lemma obj_values_map: "obj_values (obj_map f ob) = map f (obj_values ob)"
  by (induction ob) (auto simp: obj_values_def obj_map_def)

section \<open>The routine\<close>

record routine_credential =
  rc_credential_id :: string
  rc_workspace_id :: string
  rc_principal_id :: string
  rc_worker_lineage_id :: string
  rc_parent_admin_grant_id :: "string option"
  rc_recipient_connection_id :: string
  rc_worker_scope_names :: "string list"
  rc_expires_at :: number
  rc_horizon_expires_at :: "number option"
  rc_bearer_seconds :: number
  rc_max_successors :: "number option"
  rc_successors_used :: number
  rc_kind :: grant_kind
  rc_revoked_at :: "number option"
  rc_first_used_at :: "number option"
  rc_superseded :: bool
  rc_suspended :: bool
  rc_device_valid :: bool
  rc_run_id :: string
  rc_task_id :: string
  rc_epoch :: number
  rc_renewal_grant_id :: string
  rc_device_id :: string

datatype invitation_kind = MemberInvitation | AgentInvitation

record routine_invitation =
  ri_invitation_id :: string
  ri_workspace_id :: string
  ri_parent_admin_grant_id :: string
  ri_invitation_kind :: invitation_kind
  ri_recipient_user_id :: string
  ri_recipient_connection_id :: "string option"
  ri_expires_at :: number
  ri_revoked_at :: "number option"
  ri_accepted_at :: "number option"

record routine_spend =
  sp_workspaces :: number
  sp_total_seats :: number
  sp_invitations :: number
  sp_worker_credentials :: number
  sp_successors :: number

definition zero_spend :: routine_spend where
  "zero_spend = \<lparr>sp_workspaces = 0, sp_total_seats = 0, sp_invitations = 0, sp_worker_credentials = 0, sp_successors = 0\<rparr>"

record created_workspace =
  cw_grant_id :: string
  cw_scope_names :: "string list"

record routine_seat =
  se_grant_id :: string
  se_workspace_id :: string
  se_revoked_at :: "number option"

record admin_routine =
  rt_spend :: "routine_spend obj"
  rt_created_workspaces :: "created_workspace obj"
  rt_seats :: "routine_seat obj"
  rt_credentials :: "routine_credential obj"
  rt_invitations :: "routine_invitation obj"

definition emptyAdminRoutine :: admin_routine where
  "emptyAdminRoutine = \<lparr>rt_spend = [], rt_created_workspaces = [], rt_seats = [], rt_credentials = [], rt_invitations = []\<rparr>"

datatype worker_policy =
    CredentialPolicy grant_kind "number option" "number option" number
  | InvitationPolicy "renewal_limits option"

record routine_fields =
  rp_workspace_id :: "string option"
  rp_name :: "jstext option"
  rp_owner_user_id :: "string option"
  rp_created_workspace_policy :: "string list option"
  rp_applied_scope_names :: "string list option"
  rp_created_at :: "number option"
  rp_principal_id :: "string option"
  rp_model :: "jstext option option"
  rp_transport :: "agent_transport option option"
  rp_turn_only :: "bool option"
  rp_connection_attempt_id :: "string option option"
  rp_credential_id :: "string option option"
  rp_recipient_connection_id :: "string option option"
  rp_worker_scope_names :: "string list option"
  rp_worker_policy :: "worker_policy option"
  rp_parent_admin_grant_id :: "string option option"
  rp_dependent_on_admin_grant :: "bool option"
  rp_credential_expires_at :: "number option"
  rp_delivery_state :: "string option"
  rp_credential :: "routine_credential option"
  rp_worker_lineage_id :: "string option"
  rp_predecessor_credential_id :: "string option option"
  rp_successor_credential_id :: "string option"
  rp_expires_at :: "number option"
  rp_remaining_budget :: "number option"
  rp_policy_digest :: "string option"
  rp_revoked_credential_id :: "string option option"
  rp_replacement_credential_id :: "string option"
  rp_worker_policy_digest :: "string option"
  rp_affected_lineage_ids :: "string list option"
  rp_revoked_at :: "number option"
  rp_reason_code :: "string option"
  rp_invitation_id :: "string option"
  rp_recipient_ref :: "string option"
  rp_role :: "string option"
  rp_recipient_user_id :: "string option"
  rp_intended_owner_user_id :: "string option"
  rp_seat_limit :: "number option option"
  rp_worker_scope_ceiling :: "string list option"
  rp_invitation_kind :: "invitation_kind option"
  rp_delivery_channel :: "string option"
  rp_accepted_at :: "number option"

definition no_routine_fields :: routine_fields where
  "no_routine_fields = \<lparr>rp_workspace_id = None, rp_name = None, rp_owner_user_id = None,
     rp_created_workspace_policy = None, rp_applied_scope_names = None, rp_created_at = None, rp_principal_id = None,
     rp_model = None, rp_transport = None, rp_turn_only = None, rp_connection_attempt_id = None,
     rp_credential_id = None, rp_recipient_connection_id = None, rp_worker_scope_names = None,
     rp_worker_policy = None, rp_parent_admin_grant_id = None, rp_dependent_on_admin_grant = None,
     rp_credential_expires_at = None, rp_delivery_state = None, rp_credential = None, rp_worker_lineage_id = None,
     rp_predecessor_credential_id = None, rp_successor_credential_id = None, rp_expires_at = None,
     rp_remaining_budget = None, rp_policy_digest = None, rp_revoked_credential_id = None,
     rp_replacement_credential_id = None, rp_worker_policy_digest = None, rp_affected_lineage_ids = None,
     rp_revoked_at = None, rp_reason_code = None, rp_invitation_id = None, rp_recipient_ref = None, rp_role = None,
     rp_recipient_user_id = None, rp_intended_owner_user_id = None, rp_seat_limit = None,
     rp_worker_scope_ceiling = None, rp_invitation_kind = None, rp_delivery_channel = None, rp_accepted_at = None\<rparr>"

text \<open>The keys each routine event must have: \<open>Object.hasOwn(p, key)\<close> for every one of them.\<close>

fun routine_complete :: "admin_routine_type \<Rightarrow> routine_fields \<Rightarrow> bool" where
  "routine_complete AdminMemberInvitationAccepted p \<longleftrightarrow>
     rp_invitation_id p \<noteq> None \<and> rp_recipient_user_id p \<noteq> None \<and>
     rp_accepted_at p \<noteq> None"
| "routine_complete AdminWorkspaceCreated p \<longleftrightarrow>
     rp_workspace_id p \<noteq> None \<and> rp_name p \<noteq> None \<and> rp_owner_user_id p \<noteq> None \<and>
     rp_created_workspace_policy p \<noteq> None \<and> rp_applied_scope_names p \<noteq> None \<and>
     rp_created_at p \<noteq> None"
| "routine_complete AdminSeatCreated p \<longleftrightarrow>
     rp_workspace_id p \<noteq> None \<and> rp_principal_id p \<noteq> None \<and> rp_owner_user_id p \<noteq> None \<and>
     rp_name p \<noteq> None \<and> rp_model p \<noteq> None \<and> rp_transport p \<noteq> None \<and>
     rp_turn_only p \<noteq> None \<and> rp_created_at p \<noteq> None \<and> rp_connection_attempt_id p \<noteq> None"
| "routine_complete AdminSeatProvisioned p \<longleftrightarrow>
     rp_principal_id p \<noteq> None \<and> rp_credential_id p \<noteq> None \<and>
     rp_recipient_connection_id p \<noteq> None \<and> rp_worker_scope_names p \<noteq> None \<and>
     rp_worker_policy p \<noteq> None \<and> rp_parent_admin_grant_id p \<noteq> None \<and>
     rp_dependent_on_admin_grant p \<noteq> None \<and> rp_credential_expires_at p \<noteq> None \<and>
     rp_delivery_state p \<noteq> None \<and> rp_credential p \<noteq> None"
| "routine_complete AdminSeatRenewed p \<longleftrightarrow>
     rp_principal_id p \<noteq> None \<and> rp_worker_lineage_id p \<noteq> None \<and>
     rp_predecessor_credential_id p \<noteq> None \<and> rp_successor_credential_id p \<noteq> None \<and>
     rp_parent_admin_grant_id p \<noteq> None \<and> rp_worker_scope_names p \<noteq> None \<and>
     rp_expires_at p \<noteq> None \<and> rp_remaining_budget p \<noteq> None \<and> rp_policy_digest p \<noteq> None \<and>
     rp_credential p \<noteq> None"
| "routine_complete AdminSeatCredentialReplaced p \<longleftrightarrow>
     rp_principal_id p \<noteq> None \<and> rp_revoked_credential_id p \<noteq> None \<and>
     rp_replacement_credential_id p \<noteq> None \<and> rp_recipient_connection_id p \<noteq> None \<and>
     rp_parent_admin_grant_id p \<noteq> None \<and> rp_worker_scope_names p \<noteq> None \<and>
     rp_worker_policy_digest p \<noteq> None \<and> rp_expires_at p \<noteq> None \<and>
     rp_remaining_budget p \<noteq> None \<and> rp_delivery_state p \<noteq> None \<and> rp_credential p \<noteq> None"
| "routine_complete AdminSeatRevoked p \<longleftrightarrow>
     rp_principal_id p \<noteq> None \<and> rp_credential_id p \<noteq> None \<and> rp_transport p \<noteq> None \<and>
     rp_affected_lineage_ids p \<noteq> None \<and> rp_revoked_at p \<noteq> None \<and>
     rp_reason_code p \<noteq> None"
| "routine_complete AdminSeatCredentialRevoked p \<longleftrightarrow>
     rp_principal_id p \<noteq> None \<and> rp_credential_id p \<noteq> None \<and> rp_transport p \<noteq> None \<and>
     rp_affected_lineage_ids p \<noteq> None \<and> rp_revoked_at p \<noteq> None \<and>
     rp_reason_code p \<noteq> None"
| "routine_complete AdminMemberInvited p \<longleftrightarrow>
     rp_invitation_id p \<noteq> None \<and> rp_workspace_id p \<noteq> None \<and> rp_recipient_ref p \<noteq> None \<and>
     rp_role p \<noteq> None \<and> rp_expires_at p \<noteq> None \<and> rp_delivery_state p \<noteq> None \<and>
     rp_recipient_user_id p \<noteq> None"
| "routine_complete AdminAgentInvitationIssued p \<longleftrightarrow>
     rp_invitation_id p \<noteq> None \<and> rp_workspace_id p \<noteq> None \<and>
     rp_intended_owner_user_id p \<noteq> None \<and> rp_recipient_connection_id p \<noteq> None \<and>
     rp_transport p \<noteq> None \<and> rp_seat_limit p \<noteq> None \<and> rp_worker_scope_ceiling p \<noteq> None \<and>
     rp_worker_policy p \<noteq> None \<and> rp_expires_at p \<noteq> None \<and> rp_delivery_state p \<noteq> None \<and>
     rp_recipient_user_id p \<noteq> None"
| "routine_complete AdminInvitationRevoked p \<longleftrightarrow>
     rp_invitation_id p \<noteq> None \<and> rp_invitation_kind p \<noteq> None \<and> rp_workspace_id p \<noteq> None \<and>
     rp_revoked_at p \<noteq> None \<and> rp_reason_code p \<noteq> None"

section \<open>The account\<close>

datatype admin_grant_state = GrantIsActive | GrantSuspended | GrantRevoked | GrantExpired

record admin_grant = admin_manifest +
  ag_grant_id :: string
  ag_owner_user_id :: string
  ag_consent_receipt_id :: string
  ag_manifest_digest :: string
  ag_created_at :: number
  ag_state :: admin_grant_state
  ag_suspended_at :: "number option"
  ag_revoked_at :: "number option"
  ag_reason_code :: "string option"
  ag_withdrawn_workspace_ids :: "string list"

record admin_consent =
  co_consent_receipt_id :: string
  co_owner_user_id :: string
  co_session_binding :: string
  co_manifest_digest :: string
  co_manifest :: admin_manifest
  co_full_account_selected :: bool
  co_expires_at :: number
  co_consumed_at :: "number option"

datatype lineage_state = LineageActive | LineageRevoked

record admin_lineage =
  li_credential_lineage_id :: string
  li_grant_id :: string
  li_generation :: number
  li_scope_names :: "string list"
  li_access_expires_at :: number
  li_refresh_deadline :: number
  li_state :: lineage_state

record client_approval =
  ca_owner_user_id :: string
  ca_client_id :: string
  ca_verification_version :: number
  ca_approved_at :: number
  ca_approval_event_id :: string
  ca_approval_command_id :: string
  ca_withdrawn_at :: "number option"
  ca_withdrawal_event_id :: "string option"
  ca_withdrawal_reason :: "string option"

datatype attempt_state = AwaitingAuthorization | AttemptCancelled

record connection_attempt =
  at_attempt_id :: string
  at_parent_admin_grant_id :: string
  at_workspace_id :: string
  at_intended_owner_user_id :: string
  at_intended_agent_id :: string
  at_recipient_connection_id :: string
  at_requested_name :: jstext
  at_transport :: agent_transport
  at_ttl_seconds :: number
  at_capability_set :: "string list"
  at_state :: attempt_state
  at_created_at :: number
  at_expires_at :: number
  at_cancelled_at :: "number option"
  at_reason_code :: "string option"

record rate_bucket =
  rb_hour_start :: number
  rb_attempts :: number

record admin_account =
  aa_client_approvals :: "client_approval obj option"
  aa_connections :: "connection_attempt obj option"
  aa_routine :: "admin_routine option"
  aa_grants :: "admin_grant obj"
  aa_consents :: "admin_consent obj"
  aa_lineages :: "admin_lineage obj"
  aa_rate_buckets :: "rate_bucket obj"

definition emptyAdminAccount :: admin_account where
  "emptyAdminAccount = \<lparr>aa_client_approvals = None, aa_connections = None, aa_routine = None, aa_grants = [],
     aa_consents = [], aa_lineages = [], aa_rate_buckets = []\<rparr>"

text \<open>An absent dictionary reads as an empty one.\<close>

definition obj_or_empty :: "'v obj option \<Rightarrow> 'v obj" where
  "obj_or_empty ob = (case ob of None \<Rightarrow> [] | Some x \<Rightarrow> x)"

section \<open>Events\<close>

record terminal_payload =
  tp_grant_id :: string
  tp_reason_code :: string
  tp_effective_at :: number
  tp_credential_lineage_id :: "string option"
  tp_cancelled_attempt_ids :: "string list"
  tp_dependent_child_ids :: "string list"

record credential_payload =
  cd_grant_id :: string
  cd_credential_lineage_id :: string
  cd_generation :: number
  cd_scope_names :: "string list"
  cd_access_expires_at :: number
  cd_refresh_deadline :: number

record audit_bucket =
  ab_key :: string
  ab_hour_start :: number
  ab_attempts :: number

record audit_payload =
  au_audit_record_id :: string
  au_grant_id :: "string option"
  au_admin_identity_id :: "string option"
  au_connection_id :: "string option"
  au_action :: string
  au_target_kind :: string
  au_target_id :: "string option"
  au_client :: "(string \<times> number) option" \<comment> \<open>\<open>client_id\<close>, \<open>verification_version\<close>\<close>
  au_workspace_id :: "string option"
  au_manifest_digest :: "string option"
  au_request_digest :: string
  au_outcome :: string
  au_reason_code :: "string option"
  au_attempt :: "(string \<times> attempt_state) option" \<comment> \<open>\<open>attempt_id\<close>, \<open>delivery_state\<close>\<close>
  au_result :: string
  au_buckets :: "audit_bucket list"
  au_related_event_ids :: "string list"
  au_next_action :: string
  au_recovery_kind :: string

record grant_payload = admin_manifest +
  gp_grant_id :: string
  gp_owner_user_id :: string
  gp_consent_receipt_id :: string
  gp_manifest_digest :: string
  gp_replaces_grant_id :: "string option"
  gp_created_at :: number

record narrow_payload =
  np_grant_id :: string
  np_prior_manifest_digest :: string
  np_new_manifest_digest :: string
  np_removed_scopes :: "string list"
  np_removed_workspace_ids :: "string list"
  np_new_target_rules :: target_rules
  np_new_limits :: "issuance_limits \<times> renewal_limits"
  np_new_expires_at :: number
  np_consent_receipt_id :: string
  np_manifest :: admin_manifest

datatype admin_body =
    ConsentPrepared string string admin_manifest string bool number
      \<comment> \<open>receipt, owner, manifest, digest, \<open>full_account_selected\<close>, \<open>expires_at\<close>\<close>
  | DelegationGranted grant_payload
  | DelegationNarrowed narrow_payload
  | DelegationRevoked terminal_payload
  | DelegationSuspended terminal_payload
  | DelegationExpired terminal_payload number number \<comment> \<open>with \<open>expires_at\<close>, \<open>detected_at\<close>\<close>
  | WorkspaceAccessWithdrawn string string string number string
      \<comment> \<open>grant, workspace, \<open>withdrawing_user_id\<close>, \<open>effective_at\<close>, \<open>reason_code\<close>\<close>
  | CredentialIssued credential_payload string string \<comment> \<open>with \<open>connection_id\<close>, \<open>resource\<close>\<close>
  | CredentialRotated credential_payload
  | CredentialReplayDetected string string number number string
      \<comment> \<open>grant, lineage, \<open>replayed_generation\<close>, \<open>detected_at\<close>, \<open>reason_code\<close>\<close>
  | MetadataRead "string option" string string \<comment> \<open>workspace, \<open>target_filter_digest\<close>, \<open>audit_record_id\<close>\<close>
  | ActionRecorded audit_payload
  | ConnectionPrepared connection_attempt
  | ConnectionCancelled string number string \<comment> \<open>attempt, \<open>cancelled_at\<close>, \<open>reason_code\<close>\<close>
  | ClientApproved string string number number \<comment> \<open>owner, client, version, \<open>approved_at\<close>\<close>
  | ClientApprovalWithdrawn string string number string number
      \<comment> \<open>owner, client, version, \<open>reason_code\<close>, \<open>effective_at\<close>\<close>
  | RoutineEvent admin_routine_type routine_fields
  | UnknownAdminEvent string

record admin_event =
  ae_stream_kind :: string
  ae_owner_user_id :: string
  ae_stream_id :: string
  ae_seq :: number
  ae_event_id :: string
  ae_command_id :: string
  ae_schema_version :: number
  ae_actor_user :: "string option"
  ae_actor_agent_principal :: "string option"
  ae_actor_run :: "string option"
  ae_admin_identity_id :: "string option"
  ae_grant_id :: "string option"
  ae_grant_manifest_digest :: "string option"
  ae_occurred_at :: number
  ae_body :: admin_body

section \<open>Actors, commands, facts\<close>

datatype admin_actor =
    HumanActor string string \<comment> \<open>\<open>user_id\<close>, \<open>session_binding\<close>\<close>
  | DelegatedAdmin string string string "string list" number string
      \<comment> \<open>\<open>admin_identity_id\<close>, \<open>grant_id\<close>, \<open>connection_id\<close>, \<open>scope_names\<close>, \<open>access_expires_at\<close>, \<open>resource\<close>\<close>
  | CredentialRuntime string string string \<comment> \<open>\<open>connection_id\<close>, \<open>client_id\<close>, \<open>resource\<close>\<close>
  | SystemActor
  | WorkerActor
  | HostedSeatActor

datatype admin_command =
    ApproveClient string number
  | WithdrawClientApproval string number string
  | PrepareConsent admin_consent
  | GrantDelegation string string "string option" \<comment> \<open>\<open>grant_id\<close>, \<open>consent_receipt_id\<close>, \<open>replaces_grant_id\<close>\<close>
  | NarrowDelegation string admin_manifest string string \<comment> \<open>\<open>grant_id\<close>, \<open>manifest\<close>, \<open>manifest_digest\<close>, receipt\<close>
  | RevokeDelegation string string
  | SuspendDelegation string string
  | SurrenderDelegation string string
  | ExpireDelegation string
  | WithdrawWorkspaceAccess string string string \<comment> \<open>\<open>grant_id\<close>, \<open>workspace_id\<close>, \<open>reason_code\<close>\<close>
  | IssueCredential string string
  | RotateCredential string string number "string list" \<comment> \<open>grant, lineage, generation, scopes\<close>
  | RecordReplay string string number "string list"
  | ReadMetadata string "string option" \<comment> \<open>\<open>grant_id\<close>, \<open>workspace_id\<close>; \<open>resource_kind\<close> is always \<open>'grant'\<close>\<close>

record client_policy =
  cl_client_id :: string
  cl_verification_version :: number
  cl_verification_active :: bool
  cl_approval :: "client_approval option"
  cl_linked_grant_ids :: "string list"

text \<open>The counters hand out their n-th value on their n-th call.\<close>

record admin_ctx =
  ac_actor :: admin_actor
  ac_owner_user_id :: string
  ac_now :: number
  ac_command_id :: string
  ac_stream_id :: string
  ac_request_digest :: string
  ac_nextSeq :: "nat \<Rightarrow> number"
  ac_nextEventId :: "nat \<Rightarrow> string"
  ac_current_workspace_rights :: bool
  ac_withdrawing_workspace_owner :: bool
  ac_target_workspace_owned_by_grantor :: bool
  ac_presenting_refresh_generation :: "number option"
  ac_presenting_refresh_lineage_id :: "string option"
  ac_client_policy :: "client_policy option"

record admin_decision =
  ad_ok :: bool
  ad_reason :: "string option"
  ad_events :: "admin_event list"

record durable_grant =
  dg_grant_id :: string
  dg_state :: admin_grant_state
  dg_manifest_digest :: string
  dg_expires_at :: number
  dg_refresh_deadline :: number
  dg_revoked_at :: "number option"
  dg_suspended_at :: "number option"
  dg_reason_code :: "string option"

end
