(* ===== verification/AdminReducer.thy ===== *)
theory AdminReducer
  imports AdminData
begin

text \<open>
  The reducers of delegated administration: \<open>reduceAdminRoutine\<close> of \<open>src/protocol/admin-routine.ts\<close>,
  \<open>reduceAdminAuthority\<close>, its terminal projection, and the reconciliation of a cached account with the
  grant rows of the database, of \<open>admin-authority.ts\<close>.
\<close>

section \<open>The routine\<close>

datatype routine_error =
    IncompleteRoutineEvent
  | RoutineEventWithoutGrant
  | InvalidHumanInvitationAcceptance
  | UnknownRoutineInvitation

text \<open>A credential takes the place of its predecessor; \<open>String\<close> of a missing key is \<open>'undefined'\<close>.\<close>

definition predecessor_key :: "string option option \<Rightarrow> string" where
  "predecessor_key p = (case p of None \<Rightarrow> ''undefined'' | Some None \<Rightarrow> ''null'' | Some (Some s) \<Rightarrow> s)"

definition store_credential ::
  "admin_routine_type \<Rightarrow> number \<Rightarrow> routine_fields \<Rightarrow> routine_credential obj \<Rightarrow> routine_credential obj" where
  "store_credential ty occurred p creds = (case rp_credential p of
     None \<Rightarrow> creds
   | Some c \<Rightarrow>
       (let next_creds = obj_put creds (rc_credential_id c) c in
        case obj_get next_creds (predecessor_key (rp_predecessor_credential_id p)) of
          None \<Rightarrow> next_creds
        | Some prior \<Rightarrow> obj_put next_creds (rc_credential_id prior) (prior\<lparr>rc_superseded := True,
            rc_revoked_at := (if ty = AdminSeatCredentialReplaced then Some occurred else rc_revoked_at prior)\<rparr>)))"

definition revoke_seat ::
  "admin_routine_type \<Rightarrow> number \<Rightarrow> routine_fields \<Rightarrow> admin_routine \<Rightarrow> admin_routine" where
  "revoke_seat ty occurred p s = s\<lparr>
     rt_seats := (case rp_principal_id p of
         None \<Rightarrow> rt_seats s
       | Some pid \<Rightarrow> (case obj_get (rt_seats s) pid of
           None \<Rightarrow> rt_seats s
         | Some seat \<Rightarrow> if ty = AdminSeatRevoked
             then obj_put (rt_seats s) pid (seat\<lparr>se_revoked_at := Some occurred\<rparr>) else rt_seats s)),
     rt_credentials := obj_map (\<lambda>c.
         if Some (rc_principal_id c) = rp_principal_id p \<and>
            (ty = AdminSeatRevoked \<or> rc_worker_lineage_id c \<in> set (the (rp_affected_lineage_ids p)))
         then c\<lparr>rc_revoked_at := Some occurred\<rparr> else c) (rt_credentials s)\<rparr>"

text \<open>The event's own branch, after the counters of its grant have been opened.\<close>

fun routine_step ::
  "admin_routine_type \<Rightarrow> string \<Rightarrow> number \<Rightarrow> routine_fields \<Rightarrow> routine_spend \<Rightarrow> admin_routine \<Rightarrow>
     routine_error + routine_spend \<times> admin_routine" where
  "routine_step AdminWorkspaceCreated gid occurred p sp s =
     Inr (sp\<lparr>sp_workspaces := sp_workspaces sp + 1\<rparr>,
       s\<lparr>rt_created_workspaces := obj_put (rt_created_workspaces s) (the (rp_workspace_id p))
         \<lparr>cw_grant_id = gid, cw_scope_names = the (rp_applied_scope_names p)\<rparr>\<rparr>)"
| "routine_step AdminSeatCreated gid occurred p sp s =
     Inr (sp\<lparr>sp_total_seats := sp_total_seats sp + 1\<rparr>,
       s\<lparr>rt_seats := obj_put (rt_seats s) (the (rp_principal_id p))
         \<lparr>se_grant_id = gid, se_workspace_id = the (rp_workspace_id p), se_revoked_at = None\<rparr>\<rparr>)"
| "routine_step AdminSeatProvisioned gid occurred p sp s =
     Inr (sp\<lparr>sp_worker_credentials := sp_worker_credentials sp + 1\<rparr>,
       s\<lparr>rt_credentials := store_credential AdminSeatProvisioned occurred p (rt_credentials s)\<rparr>)"
| "routine_step AdminSeatRenewed gid occurred p sp s =
     Inr (sp\<lparr>sp_worker_credentials := sp_worker_credentials sp + 1, sp_successors := sp_successors sp + 1\<rparr>,
       s\<lparr>rt_credentials := store_credential AdminSeatRenewed occurred p (rt_credentials s)\<rparr>)"
| "routine_step AdminSeatCredentialReplaced gid occurred p sp s =
     Inr (sp\<lparr>sp_worker_credentials := sp_worker_credentials sp + 1, sp_successors := sp_successors sp + 1\<rparr>,
       s\<lparr>rt_credentials := store_credential AdminSeatCredentialReplaced occurred p (rt_credentials s)\<rparr>)"
| "routine_step AdminSeatRevoked gid occurred p sp s = Inr (sp, revoke_seat AdminSeatRevoked occurred p s)"
| "routine_step AdminSeatCredentialRevoked gid occurred p sp s =
     Inr (sp, revoke_seat AdminSeatCredentialRevoked occurred p s)"
| "routine_step AdminMemberInvited gid occurred p sp s =
     Inr (sp\<lparr>sp_invitations := sp_invitations sp + 1\<rparr>,
       s\<lparr>rt_invitations := obj_put (rt_invitations s) (the (rp_invitation_id p))
         \<lparr>ri_invitation_id = the (rp_invitation_id p), ri_workspace_id = the (rp_workspace_id p),
          ri_parent_admin_grant_id = gid, ri_invitation_kind = MemberInvitation,
          ri_recipient_user_id = the (rp_recipient_user_id p),
          ri_recipient_connection_id = Option.bind (rp_recipient_connection_id p) id,
          ri_expires_at = the (rp_expires_at p), ri_revoked_at = None, ri_accepted_at = None\<rparr>\<rparr>)"
| "routine_step AdminAgentInvitationIssued gid occurred p sp s =
     Inr (sp\<lparr>sp_invitations := sp_invitations sp + 1\<rparr>,
       s\<lparr>rt_invitations := obj_put (rt_invitations s) (the (rp_invitation_id p))
         \<lparr>ri_invitation_id = the (rp_invitation_id p), ri_workspace_id = the (rp_workspace_id p),
          ri_parent_admin_grant_id = gid, ri_invitation_kind = AgentInvitation,
          ri_recipient_user_id = the (rp_recipient_user_id p),
          ri_recipient_connection_id = Option.bind (rp_recipient_connection_id p) id,
          ri_expires_at = the (rp_expires_at p), ri_revoked_at = None, ri_accepted_at = None\<rparr>\<rparr>)"
| "routine_step AdminMemberInvitationAccepted gid occurred p sp s =
     (case obj_get (rt_invitations s) (the (rp_invitation_id p)) of
        None \<Rightarrow> Inl InvalidHumanInvitationAcceptance
      | Some i \<Rightarrow>
          if ri_invitation_kind i \<noteq> MemberInvitation \<or> ri_parent_admin_grant_id i \<noteq> gid \<or>
             Some (ri_recipient_user_id i) \<noteq> rp_recipient_user_id p \<or> ri_accepted_at i \<noteq> None \<or>
             ri_revoked_at i \<noteq> None \<or> ri_expires_at i \<le> occurred \<or>
             \<not> is_safe_integer (Fin (the (rp_accepted_at p))) \<or> the (rp_accepted_at p) \<noteq> occurred
          then Inl InvalidHumanInvitationAcceptance
          else Inr (sp, s\<lparr>rt_invitations :=
            obj_put (rt_invitations s) (ri_invitation_id i) (i\<lparr>ri_accepted_at := Some occurred\<rparr>)\<rparr>))"
| "routine_step AdminInvitationRevoked gid occurred p sp s =
     (case obj_get (rt_invitations s) (the (rp_invitation_id p)) of
        None \<Rightarrow> Inl UnknownRoutineInvitation
      | Some i \<Rightarrow> Inr (sp, s\<lparr>rt_invitations :=
          obj_put (rt_invitations s) (ri_invitation_id i) (i\<lparr>ri_revoked_at := Some occurred\<rparr>)\<rparr>))"

definition reduceAdminRoutine ::
  "admin_routine option \<Rightarrow> admin_routine_type \<Rightarrow> string option \<Rightarrow> number \<Rightarrow> routine_fields \<Rightarrow>
     routine_error + admin_routine" where
  "reduceAdminRoutine previous ty grant_id occurred p =
     (let state = (case previous of None \<Rightarrow> emptyAdminRoutine | Some s \<Rightarrow> s) in
      if \<not> routine_complete ty p then Inl IncompleteRoutineEvent
      else if \<not> truthy grant_id then Inl RoutineEventWithoutGrant
      else
        (let gid = the grant_id;
             spend = (case obj_get (rt_spend state) gid of None \<Rightarrow> zero_spend | Some sp \<Rightarrow> sp) in
         bind_result (routine_step ty gid occurred p spend state) (\<lambda>(sp, next_state).
           Inr (next_state\<lparr>rt_spend := obj_put (rt_spend next_state) gid sp\<rparr>))))"

section \<open>Terminal grants\<close>

definition cancel_attempt ::
  "string \<Rightarrow> number \<Rightarrow> string \<Rightarrow> string option \<Rightarrow> connection_attempt \<Rightarrow> connection_attempt" where
  "cancel_attempt grantId occurred reason workspaceId a =
     (if at_parent_admin_grant_id a = grantId \<and> at_state a = AwaitingAuthorization \<and>
         (workspaceId = None \<or> workspaceId = Some (at_workspace_id a))
      then a\<lparr>at_state := AttemptCancelled, at_cancelled_at := Some occurred, at_reason_code := Some reason\<rparr> else a)"

definition cancelPendingConnections ::
  "admin_account \<Rightarrow> string \<Rightarrow> number \<Rightarrow> string \<Rightarrow> string option \<Rightarrow> admin_account" where
  "cancelPendingConnections s grantId occurred reason workspaceId = s\<lparr>aa_connections :=
     map_option (obj_map (cancel_attempt grantId occurred reason workspaceId)) (aa_connections s)\<rparr>"

definition cancel_invitation :: "string \<Rightarrow> number \<Rightarrow> routine_invitation \<Rightarrow> routine_invitation" where
  "cancel_invitation grantId occurred i =
     (if ri_parent_admin_grant_id i = grantId \<and> ri_accepted_at i = None
      then i\<lparr>ri_revoked_at := (case ri_revoked_at i of None \<Rightarrow> Some occurred | Some t \<Rightarrow> Some t)\<rparr> else i)"

definition terminate_grant :: "admin_grant_state \<Rightarrow> number \<Rightarrow> string \<Rightarrow> admin_grant \<Rightarrow> admin_grant" where
  "terminate_grant status occurred reason g = g\<lparr>ag_state := status, ag_reason_code := Some reason,
     ag_revoked_at := (if status = GrantRevoked then Some occurred else ag_revoked_at g),
     ag_suspended_at := (if status = GrantSuspended then Some occurred else ag_suspended_at g)\<rparr>"

definition projectTerminalGrant ::
  "admin_account \<Rightarrow> string \<Rightarrow> admin_grant \<Rightarrow> admin_grant_state \<Rightarrow> number \<Rightarrow> string \<Rightarrow> admin_account" where
  "projectTerminalGrant s i g status occurred reason =
     (let cancelledAt = (if status = GrantExpired then am_expires_at g else occurred);
          s' = s\<lparr>aa_routine := map_option (\<lambda>r. r\<lparr>rt_invitations :=
            obj_map (cancel_invitation i cancelledAt) (rt_invitations r)\<rparr>) (aa_routine s)\<rparr> in
      (cancelPendingConnections s' i cancelledAt reason None)\<lparr>
        aa_grants := obj_put (aa_grants s) i (terminate_grant status occurred reason g),
        aa_lineages := obj_map (\<lambda>l. if li_grant_id l = i then l\<lparr>li_state := LineageRevoked\<rparr> else l) (aa_lineages s)\<rparr>)"

section \<open>The account\<close>

datatype admin_error =
    UnsupportedAdminEvent
  | UnknownClientApproval
  | InvalidConnectionPreparation
  | UnknownConnectionAttempt
  | AcceptanceNeedsRecipient
  | RoutineError routine_error
  | DuplicateAdminGrant
  | MissingAdminConsent
  | InvalidCredentialGeneration
  | UnknownAdminGrant
  | MissingNarrowingConsent

definition approval_key :: "crypto \<Rightarrow> string \<Rightarrow> string \<Rightarrow> number \<Rightarrow> string" where
  "approval_key cr owner client version =
     canonicalAdminJson (cr_num_text cr) (JArray [JString owner, JString client, json_num version])"

definition put_approval :: "admin_account \<Rightarrow> string \<Rightarrow> client_approval \<Rightarrow> admin_account" where
  "put_approval s key a = s\<lparr>aa_client_approvals := Some (obj_put (obj_or_empty (aa_client_approvals s)) key a)\<rparr>"

definition grant_of_payload :: "grant_payload \<Rightarrow> admin_grant" where
  "grant_of_payload p = admin_manifest.extend (admin_manifest.truncate p)
     (admin_grant.fields (gp_grant_id p) (gp_owner_user_id p) (gp_consent_receipt_id p) (gp_manifest_digest p)
        (gp_created_at p) GrantIsActive None None None [])"

text \<open>A grant takes the fields of a narrower manifest: \<open>{ ...grant, ...manifest }\<close>.\<close>

definition narrow_grant :: "admin_grant \<Rightarrow> admin_manifest \<Rightarrow> string \<Rightarrow> string \<Rightarrow> admin_grant" where
  "narrow_grant g m digest receipt = (admin_manifest.extend m (admin_manifest.more g))
     \<lparr>ag_manifest_digest := digest, ag_consent_receipt_id := receipt\<rparr>"

fun lineage_of_payload :: "credential_payload \<Rightarrow> admin_lineage" where
  "lineage_of_payload p = \<lparr>li_credential_lineage_id = cd_credential_lineage_id p, li_grant_id = cd_grant_id p,
     li_generation = cd_generation p, li_scope_names = cd_scope_names p,
     li_access_expires_at = cd_access_expires_at p, li_refresh_deadline = cd_refresh_deadline p,
     li_state = LineageActive\<rparr>"

definition put_lineage :: "admin_account \<Rightarrow> credential_payload \<Rightarrow> admin_account" where
  "put_lineage s p = s\<lparr>aa_lineages := obj_put (aa_lineages s) (cd_credential_lineage_id p) (lineage_of_payload p)\<rparr>"

definition consume_consent :: "admin_account \<Rightarrow> string \<Rightarrow> admin_consent \<Rightarrow> number \<Rightarrow> admin_account" where
  "consume_consent s key c occurred =
     s\<lparr>aa_consents := obj_put (aa_consents s) key (c\<lparr>co_consumed_at := Some occurred\<rparr>)\<rparr>"

definition reduce_granted :: "admin_account \<Rightarrow> number \<Rightarrow> grant_payload \<Rightarrow> admin_error + admin_account" where
  "reduce_granted s occurred p =
     (let g = grant_of_payload p; gid = ag_grant_id g in
      if obj_get (aa_grants s) gid \<noteq> None then Inl DuplicateAdminGrant
      else case obj_get (aa_consents s) (ag_consent_receipt_id g) of
        None \<Rightarrow> Inl MissingAdminConsent
      | Some c \<Rightarrow>
          (let r = (case aa_routine s of None \<Rightarrow> emptyAdminRoutine | Some r \<Rightarrow> r) in
           Inr ((consume_consent s (co_consent_receipt_id c) c occurred)\<lparr>
             aa_routine := Some (r\<lparr>rt_spend := obj_put (rt_spend r) gid zero_spend\<rparr>),
             aa_grants := obj_put (aa_grants s) gid g\<rparr>)))"

definition reduce_connection_prepared ::
  "admin_account \<Rightarrow> admin_event \<Rightarrow> connection_attempt \<Rightarrow> admin_error + admin_account" where
  "reduce_connection_prepared s e a =
     (if \<not> truthy (ae_grant_id e) \<or> Some (at_parent_admin_grant_id a) \<noteq> ae_grant_id e \<or>
         obj_get (aa_grants s) (the (ae_grant_id e)) = None \<or>
         obj_get (obj_or_empty (aa_connections s)) (at_attempt_id a) \<noteq> None \<or>
         at_state a \<noteq> AwaitingAuthorization \<or> at_cancelled_at a \<noteq> None \<or>
         \<not> is_safe_integer (Fin (at_expires_at a)) \<or> at_expires_at a \<le> ae_occurred_at e
      then Inl InvalidConnectionPreparation
      else Inr (s\<lparr>aa_connections := Some (obj_put (obj_or_empty (aa_connections s)) (at_attempt_id a) a)\<rparr>))"

definition reduce_connection_cancelled ::
  "admin_account \<Rightarrow> admin_event \<Rightarrow> string \<Rightarrow> string \<Rightarrow> admin_error + admin_account" where
  "reduce_connection_cancelled s e attempt_id reason =
     (case obj_get (obj_or_empty (aa_connections s)) attempt_id of
        None \<Rightarrow> Inl UnknownConnectionAttempt
      | Some a \<Rightarrow>
          if Some (at_parent_admin_grant_id a) \<noteq> ae_grant_id e then Inl UnknownConnectionAttempt
          else Inr (s\<lparr>aa_connections := Some (obj_put (obj_or_empty (aa_connections s)) (at_attempt_id a)
            (a\<lparr>at_state := AttemptCancelled,
              at_cancelled_at := (case at_cancelled_at a of None \<Rightarrow> Some (ae_occurred_at e) | t \<Rightarrow> t),
              at_reason_code := (case at_reason_code a of None \<Rightarrow> Some reason | t \<Rightarrow> t)\<rparr>))\<rparr>))"

definition reduce_narrowed :: "admin_account \<Rightarrow> number \<Rightarrow> narrow_payload \<Rightarrow> admin_error + admin_account" where
  "reduce_narrowed s occurred p =
     (case obj_get (aa_grants s) (np_grant_id p) of
        None \<Rightarrow> Inl UnknownAdminGrant
      | Some g \<Rightarrow>
          (case obj_get (aa_consents s) (np_consent_receipt_id p) of
             None \<Rightarrow> Inl MissingNarrowingConsent
           | Some c \<Rightarrow> Inr ((consume_consent s (np_consent_receipt_id p) c occurred)\<lparr>
               aa_grants := obj_put (aa_grants s) (np_grant_id p)
                 (narrow_grant g (np_manifest p) (np_new_manifest_digest p) (np_consent_receipt_id p))\<rparr>)))"

definition reduce_terminal ::
  "admin_account \<Rightarrow> admin_grant_state \<Rightarrow> number \<Rightarrow> terminal_payload \<Rightarrow> admin_error + admin_account" where
  "reduce_terminal s status occurred p =
     (case obj_get (aa_grants s) (tp_grant_id p) of
        None \<Rightarrow> Inl UnknownAdminGrant
      | Some g \<Rightarrow> Inr (projectTerminalGrant s (tp_grant_id p) g status occurred (tp_reason_code p)))"

definition reduce_withdrawn ::
  "admin_account \<Rightarrow> number \<Rightarrow> string \<Rightarrow> string \<Rightarrow> admin_error + admin_account" where
  "reduce_withdrawn s occurred gid ws =
     (case obj_get (aa_grants s) gid of
        None \<Rightarrow> Inl UnknownAdminGrant
      | Some g \<Rightarrow> Inr ((cancelPendingConnections s gid occurred ''workspace_withdrawn'' (Some ws))\<lparr>
          aa_grants := obj_put (aa_grants s) gid
            (g\<lparr>ag_withdrawn_workspace_ids := js_set (ag_withdrawn_workspace_ids g @ [ws])\<rparr>)\<rparr>))"

definition reduce_routine ::
  "admin_account \<Rightarrow> admin_event \<Rightarrow> admin_routine_type \<Rightarrow> routine_fields \<Rightarrow> admin_error + admin_account" where
  "reduce_routine s e ty p =
     (if ty = AdminMemberInvitationAccepted \<and> (ae_actor_user e = None \<or> ae_actor_user e \<noteq> rp_recipient_user_id p \<or>
         ae_admin_identity_id e \<noteq> None \<or> ae_actor_agent_principal e \<noteq> None) then Inl AcceptanceNeedsRecipient
      else case reduceAdminRoutine (aa_routine s) ty (ae_grant_id e) (ae_occurred_at e) p of
        Inl err \<Rightarrow> Inl (RoutineError err)
      | Inr r \<Rightarrow> Inr (s\<lparr>aa_routine := Some r\<rparr>))"

definition reduceAdminAuthority ::
  "crypto \<Rightarrow> admin_account option \<Rightarrow> admin_event \<Rightarrow> admin_error + admin_account" where
  "reduceAdminAuthority cr previous e =
     (if ae_schema_version e \<noteq> 1 \<or> ae_stream_kind e \<noteq> ''account'' then Inl UnsupportedAdminEvent
      else let s = (case previous of None \<Rightarrow> emptyAdminAccount | Some s \<Rightarrow> s); occurred = ae_occurred_at e in
      case ae_body e of
        UnknownAdminEvent _ \<Rightarrow> Inl UnsupportedAdminEvent
      | ClientApproved _ client version _ \<Rightarrow>
          Inr (put_approval s (approval_key cr (ae_owner_user_id e) client version)
            \<lparr>ca_owner_user_id = ae_owner_user_id e, ca_client_id = client, ca_verification_version = version,
             ca_approved_at = occurred, ca_approval_event_id = ae_event_id e, ca_approval_command_id = ae_command_id e,
             ca_withdrawn_at = None, ca_withdrawal_event_id = None, ca_withdrawal_reason = None\<rparr>)
      | ClientApprovalWithdrawn _ client version reason _ \<Rightarrow>
          (let key = approval_key cr (ae_owner_user_id e) client version in
           case obj_get (obj_or_empty (aa_client_approvals s)) key of
             None \<Rightarrow> Inl UnknownClientApproval
           | Some prior \<Rightarrow> Inr (put_approval s key (prior\<lparr>ca_withdrawn_at := Some occurred,
               ca_withdrawal_event_id := Some (ae_event_id e), ca_withdrawal_reason := Some reason\<rparr>)))
      | ConnectionPrepared a \<Rightarrow> reduce_connection_prepared s e a
      | ConnectionCancelled attempt_id _ reason \<Rightarrow> reduce_connection_cancelled s e attempt_id reason
      | RoutineEvent ty p \<Rightarrow> reduce_routine s e ty p
      | ConsentPrepared receipt owner m digest full expires \<Rightarrow>
          Inr (s\<lparr>aa_consents := obj_put (aa_consents s) receipt
            \<lparr>co_consent_receipt_id = receipt, co_owner_user_id = owner, co_session_binding = [],
             co_manifest_digest = digest, co_manifest = m, co_full_account_selected = full,
             co_expires_at = expires, co_consumed_at = None\<rparr>\<rparr>)
      | DelegationGranted p \<Rightarrow> reduce_granted s occurred p
      | CredentialIssued p _ _ \<Rightarrow> Inr (put_lineage s p)
      | CredentialRotated p \<Rightarrow>
          (case obj_get (aa_lineages s) (cd_credential_lineage_id p) of
             None \<Rightarrow> Inl InvalidCredentialGeneration
           | Some old \<Rightarrow> if cd_generation p \<noteq> li_generation old + 1 then Inl InvalidCredentialGeneration
               else Inr (put_lineage s p))
      | ActionRecorded p \<Rightarrow>
          Inr (s\<lparr>aa_rate_buckets := foldl (\<lambda>rates b. obj_put rates (ab_key b)
            \<lparr>rb_hour_start = ab_hour_start b, rb_attempts = ab_attempts b\<rparr>) (aa_rate_buckets s) (au_buckets p)\<rparr>)
      | MetadataRead _ _ _ \<Rightarrow> Inr s
      | CredentialReplayDetected _ _ _ _ _ \<Rightarrow> Inr s
      | WorkspaceAccessWithdrawn gid ws _ _ _ \<Rightarrow> reduce_withdrawn s occurred gid ws
      | DelegationNarrowed p \<Rightarrow> reduce_narrowed s occurred p
      | DelegationRevoked p \<Rightarrow> reduce_terminal s GrantRevoked occurred p
      | DelegationSuspended p \<Rightarrow> reduce_terminal s GrantSuspended occurred p
      | DelegationExpired p _ _ \<Rightarrow> reduce_terminal s GrantExpired occurred p)"

section \<open>Reconciliation with the database\<close>

definition durable_time :: "durable_grant \<Rightarrow> number option" where
  "durable_time row = (case dg_state row of
     GrantRevoked \<Rightarrow> dg_revoked_at row | GrantSuspended \<Rightarrow> dg_suspended_at row | _ \<Rightarrow> Some (dg_expires_at row))"

definition durable_row_ok :: "admin_account \<Rightarrow> durable_grant \<Rightarrow> bool" where
  "durable_row_ok s row \<longleftrightarrow> (case obj_get (aa_grants s) (dg_grant_id row) of
     None \<Rightarrow> False
   | Some g \<Rightarrow>
       ag_manifest_digest g = dg_manifest_digest row \<and> am_expires_at g = dg_expires_at row \<and>
       am_refresh_deadline g = dg_refresh_deadline row \<and>
       (ag_state g = dg_state row \<or>
        ((ag_state g = GrantIsActive \<and> dg_state row \<in> set [GrantRevoked, GrantSuspended, GrantExpired] \<or>
          ag_state g = GrantSuspended \<and> dg_state row \<in> set [GrantRevoked, GrantExpired]) \<and>
         (case durable_time row of None \<Rightarrow> False | Some occurred \<Rightarrow> is_safe_integer (Fin occurred)) \<and>
         truthy (dg_reason_code row))))"

definition reconcile_row :: "admin_account \<Rightarrow> durable_grant \<Rightarrow> admin_account" where
  "reconcile_row s row = (case obj_get (aa_grants s) (dg_grant_id row) of
     None \<Rightarrow> s
   | Some g \<Rightarrow>
       if ag_state g = dg_state row then s
       else
         (let t = projectTerminalGrant s (dg_grant_id row) g (dg_state row) (the (durable_time row))
                    (the (dg_reason_code row));
              g' = (case obj_get (aa_grants t) (dg_grant_id row) of None \<Rightarrow> g | Some x \<Rightarrow> x) in
          t\<lparr>aa_grants := obj_put (aa_grants t) (dg_grant_id row)
            (g'\<lparr>ag_revoked_at := dg_revoked_at row, ag_suspended_at := dg_suspended_at row\<rparr>)\<rparr>))"

definition adminAccountWithDurableGrants :: "admin_account \<Rightarrow> durable_grant list \<Rightarrow> admin_account option" where
  "adminAccountWithDurableGrants s rows =
     (if length rows \<noteq> length (obj_keys (aa_grants s)) \<or> \<not> distinct (map dg_grant_id rows) then None
      else if \<not> list_all (durable_row_ok s) rows then None
      else Some (foldl reconcile_row s rows))"

end
