(* ===== verification/AdminAuthority.thy ===== *)
theory AdminAuthority
  imports AdminReducer
begin

text \<open>
  The decision core of delegated administration, \<open>decideAdminAuthority\<close> of
  \<open>src/protocol/admin-authority.ts\<close>: one definition per command. A branch gives a verdict, the refusal
  or none with the bodies of its events; \<open>finish\<close> numbers the events and appends the audit record.
\<close>

section \<open>Client approval commands\<close>

text \<open>\<open>new TextEncoder().encode(s).length\<close>, for Latin-1 text.\<close>

definition utf8_length :: "string \<Rightarrow> nat" where
  "utf8_length s = sum_list (map (\<lambda>c. if (of_char c :: nat) < 128 then 1 else 2) s)"

text \<open>The regular expression \<open>/^[a-z][a-z0-9_]{0,79}$/u\<close>.\<close>

definition reason_code_text :: "string \<Rightarrow> bool" where
  "reason_code_text s \<longleftrightarrow> 1 \<le> length s \<and> length s \<le> 80 \<and> hd s \<in> set ''abcdefghijklmnopqrstuvwxyz'' \<and>
     list_all (\<lambda>c. c \<in> set ''abcdefghijklmnopqrstuvwxyz0123456789_'') (tl s)"

definition parseAdminClientApprovalCommand :: "json \<Rightarrow> admin_command option" where
  "parseAdminClientApprovalCommand input = (case adminRecord input of
     None \<Rightarrow> None
   | Some c \<Rightarrow>
       (case (obj_get c ''client_id'', obj_get c ''verification_version'') of
          (Some (JString client), Some (JNumber (Fin version))) \<Rightarrow>
            if utf8_length client < 1 \<or> 2048 < utf8_length client \<or> \<not> is_safe_integer (Fin version) \<or>
               version < 1 \<or> 2147483647 < version then None
            else if obj_get c ''kind'' = Some (JString ''approve_admin_client'') \<and>
               adminExactKeys c [''kind'', ''client_id'', ''verification_version''] then Some (ApproveClient client version)
            else if obj_get c ''kind'' = Some (JString ''withdraw_admin_client_approval'') \<and>
               adminExactKeys c [''kind'', ''client_id'', ''verification_version'', ''reason_code''] then
              (case obj_get c ''reason_code'' of
                 Some (JString reason) \<Rightarrow> if reason_code_text reason then Some (WithdrawClientApproval client version reason) else None
               | _ \<Rightarrow> None)
            else None
        | _ \<Rightarrow> None))"

text \<open>A client approval command as the object it is.\<close>

fun approval_command_value :: "admin_command \<Rightarrow> json" where
  "approval_command_value (ApproveClient client version) = JObject [(''kind'', JString ''approve_admin_client''),
     (''client_id'', JString client), (''verification_version'', json_num version)]"
| "approval_command_value (WithdrawClientApproval client version reason) =
     JObject [(''kind'', JString ''withdraw_admin_client_approval''), (''client_id'', JString client),
       (''verification_version'', json_num version), (''reason_code'', JString reason)]"
| "approval_command_value _ = JNull"

section \<open>Commands and actors\<close>

fun admin_kind :: "admin_command \<Rightarrow> string" where
  "admin_kind (ApproveClient _ _) = ''approve_admin_client''"
| "admin_kind (WithdrawClientApproval _ _ _) = ''withdraw_admin_client_approval''"
| "admin_kind (PrepareConsent _) = ''prepare_admin_consent''"
| "admin_kind (GrantDelegation _ _ _) = ''grant_admin_delegation''"
| "admin_kind (NarrowDelegation _ _ _ _) = ''narrow_admin_delegation''"
| "admin_kind (RevokeDelegation _ _) = ''revoke_admin_delegation''"
| "admin_kind (SuspendDelegation _ _) = ''suspend_admin_delegation''"
| "admin_kind (SurrenderDelegation _ _) = ''surrender_admin_delegation''"
| "admin_kind (ExpireDelegation _) = ''expire_admin_delegation''"
| "admin_kind (WithdrawWorkspaceAccess _ _ _) = ''withdraw_admin_workspace_access''"
| "admin_kind (IssueCredential _ _) = ''issue_admin_credential''"
| "admin_kind (RotateCredential _ _ _ _) = ''rotate_admin_credential''"
| "admin_kind (RecordReplay _ _ _ _) = ''record_admin_credential_replay''"
| "admin_kind (ReadMetadata _ _) = ''admin_read_metadata''"

text \<open>The fields a command may have: \<open>'grant_id' in command\<close> and so on.\<close>

fun cmd_grant_id :: "admin_command \<Rightarrow> string option" where
  "cmd_grant_id (GrantDelegation g _ _) = Some g"
| "cmd_grant_id (NarrowDelegation g _ _ _) = Some g"
| "cmd_grant_id (RevokeDelegation g _) = Some g"
| "cmd_grant_id (SuspendDelegation g _) = Some g"
| "cmd_grant_id (SurrenderDelegation g _) = Some g"
| "cmd_grant_id (ExpireDelegation g) = Some g"
| "cmd_grant_id (WithdrawWorkspaceAccess g _ _) = Some g"
| "cmd_grant_id (IssueCredential g _) = Some g"
| "cmd_grant_id (RotateCredential g _ _ _) = Some g"
| "cmd_grant_id (RecordReplay g _ _ _) = Some g"
| "cmd_grant_id (ReadMetadata g _) = Some g"
| "cmd_grant_id _ = None"

fun cmd_workspace_id :: "admin_command \<Rightarrow> string option" where
  "cmd_workspace_id (WithdrawWorkspaceAccess _ w _) = Some w"
| "cmd_workspace_id (ReadMetadata _ w) = w"
| "cmd_workspace_id _ = None"

fun cmd_generation :: "admin_command \<Rightarrow> (string \<times> number) option" where
  "cmd_generation (RotateCredential _ l n _) = Some (l, n)"
| "cmd_generation (RecordReplay _ l n _) = Some (l, n)"
| "cmd_generation _ = None"

fun cmd_client :: "admin_command \<Rightarrow> (string \<times> number) option" where
  "cmd_client (ApproveClient c v) = Some (c, v)"
| "cmd_client (WithdrawClientApproval c v _) = Some (c, v)"
| "cmd_client _ = None"

fun human_user :: "admin_actor \<Rightarrow> string option" where
  "human_user (HumanActor u _) = Some u"
| "human_user _ = None"

fun delegated_grant :: "admin_actor \<Rightarrow> string option" where
  "delegated_grant (DelegatedAdmin _ g _ _ _ _) = Some g"
| "delegated_grant _ = None"

fun delegated_identity :: "admin_actor \<Rightarrow> string option" where
  "delegated_identity (DelegatedAdmin i _ _ _ _ _) = Some i"
| "delegated_identity _ = None"

definition human_owner :: "admin_ctx \<Rightarrow> bool" where
  "human_owner ctx \<longleftrightarrow> human_user (ac_actor ctx) = Some (ac_owner_user_id ctx)"

section \<open>Rates\<close>

definition rate_actor_exempt :: "admin_actor \<Rightarrow> admin_grant \<Rightarrow> string \<Rightarrow> string option \<Rightarrow> bool" where
  "rate_actor_exempt a g action requestedGrantId \<longleftrightarrow>
     (case a of HumanActor _ _ \<Rightarrow> True | SystemActor \<Rightarrow> True
      | DelegatedAdmin _ gid _ _ _ _ \<Rightarrow> action = ''surrender_admin_delegation'' \<and> gid = ag_grant_id g \<and>
          requestedGrantId = Some gid
      | _ \<Rightarrow> False)"

fun is_credential_runtime :: "admin_actor \<Rightarrow> bool" where
  "is_credential_runtime (CredentialRuntime _ _ _) = True"
| "is_credential_runtime _ = False"

definition adminRatePolicy ::
  "admin_actor \<Rightarrow> admin_grant \<Rightarrow> string \<Rightarrow> string option \<Rightarrow> string option \<Rightarrow> string option \<Rightarrow>
     (string \<times> number) list" where
  "adminRatePolicy a g action workspaceId lineageId requestedGrantId =
     (if rate_actor_exempt a g action requestedGrantId then []
      else if is_credential_runtime a \<and> lineageId \<noteq> None then
        [(''refresh:lineage:'' @ the lineageId, ADMIN_REFRESH_RATE_PER_HOUR),
         (''refresh:connection:'' @ am_connection_id g, ADMIN_REFRESH_RATE_PER_HOUR)]
      else
        (let kind = (if action = ''admin_read_metadata'' then ''read'' else ''mutation'');
             limits = (if action = ''admin_read_metadata'' then ADMIN_READ_RATE_PER_HOUR else ADMIN_MUTATION_RATE_PER_HOUR) in
         [(kind @ '':grant:'' @ ag_grant_id g, rl_lineage limits),
          (kind @ '':connection:'' @ am_connection_id g, rl_connection limits),
          (kind @ '':account:'' @ ag_owner_user_id g, rl_account limits)] @
         (case workspaceId of
            None \<Rightarrow> []
          | Some w \<Rightarrow> if w \<in> set (am_workspace_ids g) then [(kind @ '':workspace:'' @ w, rl_workspace limits)] else [])))"

record rate_charge =
  rch_key :: string
  rch_limit :: number
  rch_hour_start :: number
  rch_attempts :: number

definition hour_of :: "number \<Rightarrow> number" where
  "hour_of now = of_int \<lfloor>now / 3600000\<rfloor>"

definition charge_bucket :: "rate_bucket obj \<Rightarrow> number \<Rightarrow> string \<times> number \<Rightarrow> rate_charge" where
  "charge_bucket buckets now kl =
     \<lparr>rch_key = fst kl, rch_limit = snd kl, rch_hour_start = hour_of now,
      rch_attempts = (case obj_get buckets (fst kl) of
        Some prior \<Rightarrow> if rb_hour_start prior = hour_of now then rb_attempts prior + 1 else 1
      | None \<Rightarrow> 1)\<rparr>"

definition over_limit :: "rate_charge \<Rightarrow> bool" where
  "over_limit b \<longleftrightarrow> \<not> is_safe_integer (Fin (rch_attempts b)) \<or> rch_attempts b < 1 \<or> rch_limit b < rch_attempts b"

definition audit_grant_of :: "admin_command \<Rightarrow> admin_account \<Rightarrow> admin_ctx \<Rightarrow> admin_grant option" where
  "audit_grant_of command s ctx = (case delegated_grant (ac_actor ctx) of
     Some gid \<Rightarrow> obj_get (aa_grants s) gid
   | None \<Rightarrow> Option.bind (cmd_grant_id command) (obj_get (aa_grants s)))"

definition rate_charges :: "admin_command \<Rightarrow> admin_account \<Rightarrow> admin_ctx \<Rightarrow> rate_charge list" where
  "rate_charges command s ctx = (case audit_grant_of command s ctx of
     None \<Rightarrow> []
   | Some g \<Rightarrow> map (charge_bucket (aa_rate_buckets s) (ac_now ctx))
       (adminRatePolicy (ac_actor ctx) g (admin_kind command) (cmd_workspace_id command)
         (if is_credential_runtime (ac_actor ctx) then map_option fst (cmd_generation command) else None)
         (cmd_grant_id command)))"

section \<open>Emitting\<close>

text \<open>The fields of a payload the envelope copies.\<close>

fun body_grant_id :: "admin_body \<Rightarrow> string option" where
  "body_grant_id (DelegationGranted p) = Some (gp_grant_id p)"
| "body_grant_id (DelegationNarrowed p) = Some (np_grant_id p)"
| "body_grant_id (DelegationRevoked p) = Some (tp_grant_id p)"
| "body_grant_id (DelegationSuspended p) = Some (tp_grant_id p)"
| "body_grant_id (DelegationExpired p _ _) = Some (tp_grant_id p)"
| "body_grant_id (WorkspaceAccessWithdrawn g _ _ _ _) = Some g"
| "body_grant_id (CredentialIssued p _ _) = Some (cd_grant_id p)"
| "body_grant_id (CredentialRotated p) = Some (cd_grant_id p)"
| "body_grant_id (CredentialReplayDetected g _ _ _ _) = Some g"
| "body_grant_id (ActionRecorded p) = au_grant_id p"
| "body_grant_id _ = None"

fun body_identity :: "admin_body \<Rightarrow> string option" where
  "body_identity (DelegationGranted p) = Some (am_admin_identity_id p)"
| "body_identity (ActionRecorded p) = au_admin_identity_id p"
| "body_identity _ = None"

fun body_digest :: "admin_body \<Rightarrow> string option" where
  "body_digest (ConsentPrepared _ _ _ d _ _) = Some d"
| "body_digest (DelegationGranted p) = Some (gp_manifest_digest p)"
| "body_digest (ActionRecorded p) = au_manifest_digest p"
| "body_digest _ = None"

text \<open>The n-th event of a decision; the first identifier handed out is the audit record's.\<close>

definition emit_event ::
  "admin_command \<Rightarrow> admin_account \<Rightarrow> admin_ctx \<Rightarrow> admin_grant option \<Rightarrow> nat \<Rightarrow> admin_body \<Rightarrow> admin_event" where
  "emit_event command s ctx auditGrant n body =
     (let eventGrant = (case body_grant_id body of
            None \<Rightarrow> auditGrant
          | Some gid \<Rightarrow> (case obj_get (aa_grants s) gid of None \<Rightarrow> auditGrant | Some g \<Rightarrow> Some g)) in
      \<lparr>ae_stream_kind = ''account'', ae_owner_user_id = ac_owner_user_id ctx, ae_stream_id = ac_stream_id ctx,
       ae_seq = ac_nextSeq ctx n, ae_event_id = ac_nextEventId ctx (Suc n), ae_command_id = ac_command_id ctx,
       ae_schema_version = 1, ae_actor_user = human_user (ac_actor ctx), ae_actor_agent_principal = None,
       ae_actor_run = None,
       ae_admin_identity_id = (case body_identity body of Some i \<Rightarrow> Some i
         | None \<Rightarrow> (case eventGrant of Some g \<Rightarrow> Some (am_admin_identity_id g)
             | None \<Rightarrow> delegated_identity (ac_actor ctx))),
       ae_grant_id = (case body_grant_id body of Some g \<Rightarrow> Some g | None \<Rightarrow> cmd_grant_id command),
       ae_grant_manifest_digest = (case body_digest body of Some d \<Rightarrow> Some d
         | None \<Rightarrow> map_option ag_manifest_digest eventGrant),
       ae_occurred_at = ac_now ctx, ae_body = body\<rparr>)"

definition number_from ::
  "admin_command \<Rightarrow> admin_account \<Rightarrow> admin_ctx \<Rightarrow> admin_grant option \<Rightarrow> admin_body list \<Rightarrow> admin_event list" where
  "number_from command s ctx auditGrant bodies =
     map (\<lambda>(n, body). emit_event command s ctx auditGrant n body) (zip [0..<length bodies] bodies)"

definition audit_of ::
  "admin_command \<Rightarrow> admin_account \<Rightarrow> admin_ctx \<Rightarrow> admin_grant option \<Rightarrow> string option \<Rightarrow> string list \<Rightarrow> audit_payload" where
  "audit_of command s ctx auditGrant reason related =
     \<lparr>au_audit_record_id = ac_nextEventId ctx 0,
      au_grant_id = (case auditGrant of Some g \<Rightarrow> Some (ag_grant_id g) | None \<Rightarrow> cmd_grant_id command),
      au_admin_identity_id = map_option am_admin_identity_id auditGrant,
      au_connection_id = map_option am_connection_id auditGrant,
      au_action = admin_kind command,
      au_target_kind = (if cmd_client command \<noteq> None then ''admin_client'' else ''admin_grant''),
      au_target_id = (case cmd_client command of Some (c, _) \<Rightarrow> Some c | None \<Rightarrow> map_option ag_grant_id auditGrant),
      au_client = cmd_client command,
      au_workspace_id = cmd_workspace_id command,
      au_manifest_digest = map_option ag_manifest_digest auditGrant,
      au_request_digest = ac_request_digest ctx,
      au_outcome = (if reason = None then ''accepted'' else ''refused''),
      au_reason_code = reason,
      au_attempt = None,
      au_result = (case reason of None \<Rightarrow> ''passed'' | Some r \<Rightarrow> r),
      au_buckets = map (\<lambda>b. \<lparr>ab_key = rch_key b, ab_hour_start = rch_hour_start b, ab_attempts = rch_attempts b\<rparr>)
        (rate_charges command s ctx),
      au_related_event_ids = related,
      au_next_action = (if reason = None then ''none'' else ''Ask the granting person to review this connection.''),
      au_recovery_kind = (if reason = None then ''none'' else ''human'')\<rparr>"

text \<open>A verdict: the refusal, the bodies of the events before the audit record, and the grant the audit
  record names where that is a new one.\<close>

record verdict =
  vd_reason :: "string option"
  vd_bodies :: "admin_body list"
  vd_grant :: "admin_grant option"

definition deny :: "string \<Rightarrow> verdict" where
  "deny r = \<lparr>vd_reason = Some r, vd_bodies = [], vd_grant = None\<rparr>"

definition allow :: "admin_body list \<Rightarrow> verdict" where
  "allow bodies = \<lparr>vd_reason = None, vd_bodies = bodies, vd_grant = None\<rparr>"

definition finish :: "admin_command \<Rightarrow> admin_account \<Rightarrow> admin_ctx \<Rightarrow> verdict \<Rightarrow> admin_decision" where
  "finish command s ctx v =
     (let auditGrant = audit_grant_of command s ctx;
          es = number_from command s ctx auditGrant (vd_bodies v);
          finalGrant = (case vd_grant v of Some g \<Rightarrow> Some g | None \<Rightarrow> auditGrant);
          audit = audit_of command s ctx finalGrant (vd_reason v) (map ae_event_id es) in
      \<lparr>ad_ok = (vd_reason v = None), ad_reason = vd_reason v,
       ad_events = es @ [emit_event command s ctx finalGrant (length es) (ActionRecorded audit)]\<rparr>)"

end
