(* ===== verification/AdminDecision.thy ===== *)
theory AdminDecision
  imports AdminAuthority
begin

text \<open>
  \<open>decideAdminAuthority\<close> of \<open>src/protocol/admin-authority.ts\<close>, branch by branch, in the order of the code.
\<close>

section \<open>Narrowing\<close>

definition subset_list :: "'a list \<Rightarrow> 'a list \<Rightarrow> bool" where
  "subset_list a b \<longleftrightarrow> list_all (\<lambda>x. x \<in> set b) a"

definition targets_narrower :: "target_rules \<Rightarrow> target_rules \<Rightarrow> bool" where
  "targets_narrower a b \<longleftrightarrow> subset_list (tr_seat_ids a) (tr_seat_ids b) \<and>
     subset_list (tr_recipient_user_ids a) (tr_recipient_user_ids b) \<and>
     subset_list (tr_recipient_connection_ids a) (tr_recipient_connection_ids b) \<and>
     subset_list (tr_transports a) (tr_transports b) \<and>
     \<not> (tr_own_seats a \<and> \<not> tr_own_seats b) \<and> \<not> (tr_grant_created_seats a \<and> \<not> tr_grant_created_seats b)"

definition renewals_narrower :: "renewal_limits \<Rightarrow> renewal_limits \<Rightarrow> bool" where
  "renewals_narrower a b \<longleftrightarrow> subset_list (rn_grant_kinds a) (rn_grant_kinds b) \<and>
     subset_list (rn_principal_ids a) (rn_principal_ids b) \<and>
     rn_bearer_seconds a \<le> rn_bearer_seconds b \<and> rn_horizon_seconds a \<le> rn_horizon_seconds b \<and>
     rn_successors_per_worker a \<le> rn_successors_per_worker b \<and> rn_successors_per_grant a \<le> rn_successors_per_grant b"

definition issuance_narrower :: "issuance_limits \<Rightarrow> issuance_limits \<Rightarrow> bool" where
  "issuance_narrower a b \<longleftrightarrow> il_workspaces a \<le> il_workspaces b \<and> il_live_seats a \<le> il_live_seats b \<and>
     il_total_seats a \<le> il_total_seats b \<and> il_invitations a \<le> il_invitations b \<and>
     il_live_agent_invitations a \<le> il_live_agent_invitations b \<and>
     il_worker_credentials a \<le> il_worker_credentials b \<and> il_connection_attempts a \<le> il_connection_attempts b"

definition narrowing :: "crypto \<Rightarrow> admin_manifest \<Rightarrow> admin_grant \<Rightarrow> number \<Rightarrow> bool" where
  "narrowing cr nx prior now \<longleftrightarrow>
     adminManifestValid cr (manifest_value nx) now False \<and>
     am_admin_identity_id nx = am_admin_identity_id prior \<and> am_connection_id nx = am_connection_id prior \<and>
     am_client_id nx = am_client_id prior \<and> am_resource nx = am_resource prior \<and>
     am_registry_version nx = am_registry_version prior \<and>
     am_availability_digest nx = am_availability_digest prior \<and>
     subset_list (am_capability_names nx) (am_capability_names prior) \<and>
     \<not> (am_mode prior = Granular \<and> am_mode nx \<noteq> Granular) \<and>
     am_expires_at nx \<le> am_expires_at prior \<and> am_refresh_deadline nx = am_refresh_deadline prior \<and>
     subset_list (am_scope_names nx) (am_scope_names prior) \<and>
     subset_list (am_workspace_ids nx) (am_workspace_ids prior) \<and>
     subset_list (am_created_scope_names nx) (am_created_scope_names prior) \<and>
     subset_list (am_worker_scope_ceiling nx) (am_worker_scope_ceiling prior) \<and>
     targets_narrower (am_target_rules nx) (am_target_rules prior) \<and>
     renewals_narrower (am_renewal_limits nx) (am_renewal_limits prior) \<and>
     issuance_narrower (am_issuance_limits nx) (am_issuance_limits prior)"

section \<open>What ends with a grant\<close>

definition terminalPayload :: "admin_grant \<Rightarrow> admin_account \<Rightarrow> number \<Rightarrow> string \<Rightarrow> terminal_payload" where
  "terminalPayload g s now reason =
     (let gid = ag_grant_id g; r = (case aa_routine s of None \<Rightarrow> emptyAdminRoutine | Some r \<Rightarrow> r) in
      \<lparr>tp_grant_id = gid, tp_reason_code = reason, tp_effective_at = now,
       tp_credential_lineage_id = map_option li_credential_lineage_id
         (find (\<lambda>l. li_grant_id l = gid) (obj_values (aa_lineages s))),
       tp_cancelled_attempt_ids = map at_attempt_id (filter
         (\<lambda>a. at_parent_admin_grant_id a = gid \<and> at_state a = AwaitingAuthorization)
         (obj_values (obj_or_empty (aa_connections s)))),
       tp_dependent_child_ids =
         map fst (filter (\<lambda>(_, x). se_grant_id x = gid) (rt_seats r)) @
         map rc_credential_id (filter (\<lambda>c. rc_parent_admin_grant_id c = Some gid) (obj_values (rt_credentials r))) @
         map ri_invitation_id (filter (\<lambda>i. ri_parent_admin_grant_id i = gid) (obj_values (rt_invitations r)))\<rparr>)"

section \<open>Client approvals\<close>

definition approval_matches :: "admin_ctx \<Rightarrow> string \<Rightarrow> number \<Rightarrow> client_policy \<Rightarrow> bool" where
  "approval_matches ctx client version p \<longleftrightarrow>
     cl_client_id p = client \<and> cl_verification_version p = version \<and>
     (case cl_approval p of None \<Rightarrow> True
      | Some a \<Rightarrow> ca_owner_user_id a = ac_owner_user_id ctx \<and> ca_client_id a = client \<and>
          ca_verification_version a = version)"

definition linked_ok :: "admin_account \<Rightarrow> admin_ctx \<Rightarrow> string \<Rightarrow> string \<Rightarrow> bool" where
  "linked_ok s ctx client gid \<longleftrightarrow> (case obj_get (aa_grants s) gid of
     None \<Rightarrow> False | Some g \<Rightarrow> ag_owner_user_id g = ac_owner_user_id ctx \<and> am_client_id g = client)"

text \<open>The revocations of the linked grants that are not over yet.\<close>

definition linked_revocations :: "admin_account \<Rightarrow> admin_ctx \<Rightarrow> string \<Rightarrow> string list \<Rightarrow> admin_body list" where
  "linked_revocations s ctx reason ids = concat (map (\<lambda>gid. case obj_get (aa_grants s) gid of
     None \<Rightarrow> []
   | Some g \<Rightarrow> if ag_state g = GrantIsActive \<or> ag_state g = GrantSuspended
       then [DelegationRevoked (terminalPayload g s (ac_now ctx) reason)] else []) ids)"

definition decide_client_approval :: "admin_command \<Rightarrow> admin_account \<Rightarrow> admin_ctx \<Rightarrow> verdict" where
  "decide_client_approval command s ctx =
     (if \<not> human_owner ctx then deny ''human_confirmation_required''
      else if parseAdminClientApprovalCommand (approval_command_value command) = None then deny ''invalid_request''
      else case ac_client_policy ctx of
        None \<Rightarrow> deny ''client_approval_unavailable''
      | Some p \<Rightarrow>
          (case command of
             ApproveClient client version \<Rightarrow>
               if \<not> approval_matches ctx client version p then deny ''client_approval_unavailable''
               else if \<not> cl_verification_active p then deny ''client_verification_required''
               else (case cl_approval p of
                   None \<Rightarrow> allow [ClientApproved (ac_owner_user_id ctx) client version (ac_now ctx)]
                 | Some a \<Rightarrow> if ca_withdrawn_at a \<noteq> None then deny ''client_approval_withdrawn'' else allow [])
           | WithdrawClientApproval client version reason \<Rightarrow>
               if \<not> approval_matches ctx client version p then deny ''client_approval_unavailable''
               else (case cl_approval p of
                   None \<Rightarrow> deny ''client_approval_unavailable''
                 | Some a \<Rightarrow>
                     if ca_withdrawn_at a \<noteq> None then allow []
                     else if \<not> list_all (linked_ok s ctx client) (cl_linked_grant_ids p) then deny ''grant_unavailable''
                     else allow (ClientApprovalWithdrawn (ac_owner_user_id ctx) client version reason (ac_now ctx) #
                       linked_revocations s ctx reason (cl_linked_grant_ids p)))
           | _ \<Rightarrow> deny ''invalid_request''))"

section \<open>Consents and grants\<close>

definition decide_prepare_consent :: "crypto \<Rightarrow> admin_account \<Rightarrow> admin_ctx \<Rightarrow> admin_consent \<Rightarrow> verdict" where
  "decide_prepare_consent cr s ctx c =
     (case ac_actor ctx of
        HumanActor user session \<Rightarrow>
          if user \<noteq> ac_owner_user_id ctx \<or> co_owner_user_id c \<noteq> ac_owner_user_id ctx \<or> co_session_binding c \<noteq> session
          then deny ''human_confirmation_required''
          else if \<not> adminManifestValid cr (manifest_value (co_manifest c)) (ac_now ctx) True \<or> co_consumed_at c \<noteq> None \<or>
            co_expires_at c \<le> ac_now ctx \<or> ac_now ctx + ADMIN_ACCESS_TTL_SECONDS * 1000 < co_expires_at c \<or>
            (am_mode (co_manifest c) = FullAccount \<and> \<not> co_full_account_selected c) \<or>
            \<not> ac_current_workspace_rights ctx \<or> obj_get (aa_consents s) (co_consent_receipt_id c) \<noteq> None
          then deny ''consent_invalid''
          else allow [ConsentPrepared (co_consent_receipt_id c) (co_owner_user_id c) (co_manifest c)
            (co_manifest_digest c) (co_full_account_selected c) (co_expires_at c)]
      | _ \<Rightarrow> deny ''human_confirmation_required'')"

definition consent_usable :: "crypto \<Rightarrow> admin_ctx \<Rightarrow> string \<Rightarrow> admin_consent \<Rightarrow> bool" where
  "consent_usable cr ctx session c \<longleftrightarrow>
     co_owner_user_id c = ac_owner_user_id ctx \<and> co_session_binding c = session \<and> co_consumed_at c = None \<and>
     ac_now ctx < co_expires_at c \<and> adminManifestValid cr (manifest_value (co_manifest c)) (ac_now ctx) True \<and>
     \<not> (am_mode (co_manifest c) = FullAccount \<and> \<not> co_full_account_selected c) \<and> ac_current_workspace_rights ctx"

definition granted_payload :: "admin_ctx \<Rightarrow> string \<Rightarrow> string option \<Rightarrow> admin_consent \<Rightarrow> grant_payload" where
  "granted_payload ctx gid replaces c = admin_manifest.extend (co_manifest c)
     (grant_payload.fields gid (ac_owner_user_id ctx) (co_consent_receipt_id c) (co_manifest_digest c) replaces (ac_now ctx))"

definition decide_grant ::
  "crypto \<Rightarrow> admin_account \<Rightarrow> admin_ctx \<Rightarrow> string \<Rightarrow> string \<Rightarrow> string option \<Rightarrow> verdict" where
  "decide_grant cr s ctx gid receipt replaces =
     (case ac_actor ctx of
        HumanActor user session \<Rightarrow>
          if user \<noteq> ac_owner_user_id ctx then deny ''human_confirmation_required''
          else (case obj_get (aa_consents s) receipt of
            None \<Rightarrow> deny ''consent_invalid''
          | Some c \<Rightarrow>
              if \<not> consent_usable cr ctx session c \<or> obj_get (aa_grants s) gid \<noteq> None then deny ''consent_invalid''
              else
                (let previous = Option.bind replaces (obj_get (aa_grants s)) in
                 if list_ex (\<lambda>g. am_connection_id g = am_connection_id (co_manifest c) \<and> ag_state g = GrantIsActive \<and>
                      Some (ag_grant_id g) \<noteq> replaces) (obj_values (aa_grants s)) then deny ''replacement_required''
                 else if replaces \<noteq> None \<and> (case previous of None \<Rightarrow> True
                   | Some p \<Rightarrow> ag_owner_user_id p \<noteq> ac_owner_user_id ctx \<or>
                       am_connection_id p \<noteq> am_connection_id (co_manifest c)) then deny ''replacement_invalid''
                 else
                   (let p = granted_payload ctx gid replaces c in
                    \<lparr>vd_reason = None,
                     vd_bodies = (case previous of None \<Rightarrow> []
                       | Some g \<Rightarrow> if ag_state g = GrantIsActive \<or> ag_state g = GrantSuspended
                           then [DelegationRevoked (terminalPayload g s (ac_now ctx) ''replaced'')] else []) @
                       [DelegationGranted p],
                     vd_grant = Some (grant_of_payload p)\<rparr>)))
      | _ \<Rightarrow> deny ''human_confirmation_required'')"

section \<open>Commands on a grant\<close>

definition decide_end :: "admin_command \<Rightarrow> admin_account \<Rightarrow> admin_ctx \<Rightarrow> admin_grant \<Rightarrow> string \<Rightarrow> verdict" where
  "decide_end command s ctx g reason =
     (let surrender = (case command of SurrenderDelegation _ _ \<Rightarrow> True | _ \<Rightarrow> False);
          suspend = (case command of SuspendDelegation _ _ \<Rightarrow> True | _ \<Rightarrow> False) in
      if (if surrender then delegated_grant (ac_actor ctx) = None
          else \<not> human_owner ctx \<and> ac_actor ctx \<noteq> SystemActor) then deny ''human_confirmation_required''
      else if (case ac_actor ctx of DelegatedAdmin _ _ _ _ expires _ \<Rightarrow> expires \<le> ac_now ctx | _ \<Rightarrow> False)
      then deny ''credential_expired''
      else if ag_state g = GrantRevoked \<or> ag_state g = GrantExpired \<or> (ag_state g = GrantSuspended \<and> suspend) then allow []
      else allow [(if suspend then DelegationSuspended else DelegationRevoked)
        (terminalPayload g s (ac_now ctx) reason)])"

definition decide_expire :: "admin_account \<Rightarrow> admin_ctx \<Rightarrow> admin_grant \<Rightarrow> verdict" where
  "decide_expire s ctx g =
     (if ac_actor ctx \<noteq> SystemActor then deny ''credential_kind_forbidden''
      else if ac_now ctx < am_expires_at g \<and> ac_now ctx < am_refresh_deadline g then deny ''deadline_not_reached''
      else if ag_state g = GrantIsActive
      then allow [DelegationExpired (terminalPayload g s (ac_now ctx) ''expired'') (am_expires_at g) (ac_now ctx)]
      else allow [])"

definition decide_withdraw :: "admin_ctx \<Rightarrow> admin_grant \<Rightarrow> string \<Rightarrow> string \<Rightarrow> verdict" where
  "decide_withdraw ctx g ws reason =
     (case ac_actor ctx of
        HumanActor user _ \<Rightarrow>
          if \<not> ac_withdrawing_workspace_owner ctx then deny ''workspace_owner_required''
          else if ws \<notin> set (am_workspace_ids g) \<and>
            \<not> (am_workspace_selector g = OwnedAndSelected \<and> ac_target_workspace_owned_by_grantor ctx)
          then deny ''workspace_forbidden''
          else if ws \<notin> set (ag_withdrawn_workspace_ids g)
          then allow [WorkspaceAccessWithdrawn (ag_grant_id g) ws user (ac_now ctx) reason]
          else allow []
      | _ \<Rightarrow> deny ''workspace_owner_required'')"

definition decide_narrow ::
  "crypto \<Rightarrow> admin_account \<Rightarrow> admin_ctx \<Rightarrow> admin_grant \<Rightarrow> admin_manifest \<Rightarrow> string \<Rightarrow> string \<Rightarrow> verdict" where
  "decide_narrow cr s ctx g m digest receipt =
     (case ac_actor ctx of
        HumanActor user session \<Rightarrow>
          if user \<noteq> ac_owner_user_id ctx then deny ''human_confirmation_required''
          else (case obj_get (aa_consents s) receipt of
            None \<Rightarrow> deny ''scope_expansion_forbidden''
          | Some c \<Rightarrow>
              if co_session_binding c \<noteq> session \<or> co_consumed_at c \<noteq> None \<or> co_expires_at c \<le> ac_now ctx \<or>
                 co_manifest_digest c \<noteq> digest \<or>
                 canonicalAdminJson (cr_num_text cr) (manifest_value (co_manifest c)) \<noteq>
                   canonicalAdminJson (cr_num_text cr) (manifest_value m) \<or>
                 \<not> narrowing cr m g (ac_now ctx)
              then deny ''scope_expansion_forbidden''
              else allow [DelegationNarrowed
                \<lparr>np_grant_id = ag_grant_id g, np_prior_manifest_digest = ag_manifest_digest g,
                 np_new_manifest_digest = digest,
                 np_removed_scopes = filter (\<lambda>x. x \<notin> set (am_scope_names m)) (am_scope_names g),
                 np_removed_workspace_ids = filter (\<lambda>x. x \<notin> set (am_workspace_ids m)) (am_workspace_ids g),
                 np_new_target_rules = am_target_rules m,
                 np_new_limits = (am_issuance_limits m, am_renewal_limits m),
                 np_new_expires_at = am_expires_at m, np_consent_receipt_id = receipt, np_manifest = m\<rparr>])
      | _ \<Rightarrow> deny ''human_confirmation_required'')"

definition metadata_read :: "admin_ctx \<Rightarrow> string option \<Rightarrow> verdict" where
  "metadata_read ctx ws = allow [MetadataRead ws (ac_request_digest ctx) (ac_nextEventId ctx 0)]"

definition decide_read :: "crypto \<Rightarrow> admin_ctx \<Rightarrow> admin_grant \<Rightarrow> string option \<Rightarrow> verdict" where
  "decide_read cr ctx g ws =
     (if (case ac_actor ctx of DelegatedAdmin _ _ _ scopes _ _ \<Rightarrow>
            ''admin_read_metadata'' \<notin> set (adminEffectiveCapabilities cr g scopes) | _ \<Rightarrow> False)
      then deny ''capability_forbidden''
      else if \<not> human_owner ctx \<and> (case ac_actor ctx of DelegatedAdmin _ _ _ scopes expires _ \<Rightarrow>
            expires \<le> ac_now ctx \<or> ''admin:read'' \<notin> set scopes \<or> ''admin:read'' \<notin> set (am_scope_names g) | _ \<Rightarrow> True)
      then deny ''credential_kind_forbidden''
      else if (case ws of None \<Rightarrow> False
        | Some w \<Rightarrow> w \<notin> set (am_workspace_ids g) \<or> w \<in> set (ag_withdrawn_workspace_ids g) \<or>
            \<not> ac_current_workspace_rights ctx)
      then deny ''workspace_forbidden''
      else metadata_read ctx ws)"

section \<open>Credentials\<close>

definition min3 :: "number \<Rightarrow> number \<Rightarrow> number \<Rightarrow> number" where
  "min3 a b c = min a (min b c)"

definition decide_issue :: "admin_account \<Rightarrow> admin_ctx \<Rightarrow> admin_grant \<Rightarrow> string \<Rightarrow> verdict" where
  "decide_issue s ctx g lineage_id =
     (if \<not> ac_current_workspace_rights ctx then deny ''current_rights_required''
      else if list_ex (\<lambda>l. li_grant_id l = ag_grant_id g) (obj_values (aa_lineages s)) \<or>
        obj_get (aa_lineages s) lineage_id \<noteq> None then deny ''credential_already_issued''
      else allow [CredentialIssued
        \<lparr>cd_grant_id = ag_grant_id g, cd_credential_lineage_id = lineage_id, cd_generation = 0,
         cd_scope_names = am_scope_names g,
         cd_access_expires_at = min3 (ac_now ctx + ADMIN_ACCESS_TTL_SECONDS * 1000) (am_expires_at g) (am_refresh_deadline g),
         cd_refresh_deadline = am_refresh_deadline g\<rparr> (am_connection_id g) ADMIN_RESOURCE])"

definition decide_rotate ::
  "admin_account \<Rightarrow> admin_ctx \<Rightarrow> admin_grant \<Rightarrow> bool \<Rightarrow> string \<Rightarrow> number \<Rightarrow> string list \<Rightarrow> verdict" where
  "decide_rotate s ctx g replay lineage_id generation scopes =
     (case obj_get (aa_lineages s) lineage_id of
        None \<Rightarrow> deny ''refresh_invalid''
      | Some l \<Rightarrow>
          if li_grant_id l \<noteq> ag_grant_id g \<or> li_state l \<noteq> LineageActive \<or>
             ac_presenting_refresh_lineage_id ctx \<noteq> Some lineage_id \<or>
             ac_presenting_refresh_generation ctx \<noteq> Some generation then deny ''refresh_invalid''
          else if replay \<or> generation \<noteq> li_generation l then
            (if li_generation l \<le> generation then deny ''refresh_invalid''
             else \<lparr>vd_reason = Some ''refresh_replay'',
               vd_bodies = [CredentialReplayDetected (ag_grant_id g) (li_credential_lineage_id l) generation (ac_now ctx)
                   ''refresh_replay'',
                 DelegationRevoked (terminalPayload g s (ac_now ctx) ''refresh_replay'')],
               vd_grant = None\<rparr>)
          else if \<not> adminScopes (json_strings scopes) (am_registry_version g) \<or> ''admin:read'' \<notin> set scopes \<or>
            \<not> subset_list scopes (li_scope_names l) \<or> \<not> subset_list scopes (am_scope_names g)
          then deny ''scope_expansion_forbidden''
          else if \<not> ac_current_workspace_rights ctx then deny ''current_rights_required''
          else allow [CredentialRotated
            \<lparr>cd_grant_id = ag_grant_id g, cd_credential_lineage_id = li_credential_lineage_id l,
             cd_generation = li_generation l + 1, cd_scope_names = scopes,
             cd_access_expires_at = min3 (ac_now ctx + ADMIN_ACCESS_TTL_SECONDS * 1000) (am_expires_at g) (li_refresh_deadline l),
             cd_refresh_deadline = li_refresh_deadline l\<rparr>])"

definition runtime_of :: "admin_ctx \<Rightarrow> admin_grant \<Rightarrow> bool" where
  "runtime_of ctx g \<longleftrightarrow> ac_actor ctx = CredentialRuntime (am_connection_id g) (am_client_id g) ADMIN_RESOURCE"

definition decide_credential :: "admin_command \<Rightarrow> admin_account \<Rightarrow> admin_ctx \<Rightarrow> admin_grant \<Rightarrow> verdict" where
  "decide_credential command s ctx g =
     (if \<not> runtime_of ctx g then deny ''credential_runtime_required''
      else case command of
        IssueCredential _ lineage_id \<Rightarrow> decide_issue s ctx g lineage_id
      | RotateCredential _ lineage_id generation scopes \<Rightarrow> decide_rotate s ctx g False lineage_id generation scopes
      | RecordReplay _ lineage_id generation scopes \<Rightarrow> decide_rotate s ctx g True lineage_id generation scopes
      | _ \<Rightarrow> deny ''human_confirmation_required'')"

section \<open>The decision\<close>

definition binding_mismatch :: "admin_ctx \<Rightarrow> admin_grant \<Rightarrow> bool" where
  "binding_mismatch ctx g \<longleftrightarrow> (case ac_actor ctx of
     DelegatedAdmin ident gid conn _ _ resource \<Rightarrow> gid \<noteq> ag_grant_id g \<or> ident \<noteq> am_admin_identity_id g \<or>
       conn \<noteq> am_connection_id g \<or> resource \<noteq> ADMIN_RESOURCE
   | _ \<Rightarrow> False)"

definition scopes_exceed :: "admin_ctx \<Rightarrow> admin_grant \<Rightarrow> bool" where
  "scopes_exceed ctx g \<longleftrightarrow> (case ac_actor ctx of
     DelegatedAdmin _ _ _ scopes _ _ \<Rightarrow> \<not> adminScopes (json_strings scopes) (am_registry_version g) \<or>
       \<not> subset_list scopes (am_scope_names g)
   | _ \<Rightarrow> False)"

definition grant_live :: "admin_ctx \<Rightarrow> admin_grant \<Rightarrow> bool" where
  "grant_live ctx g \<longleftrightarrow> ag_state g = GrantIsActive \<and> ac_now ctx < am_expires_at g \<and> ac_now ctx < am_refresh_deadline g"

definition decide_on_grant :: "crypto \<Rightarrow> admin_command \<Rightarrow> admin_account \<Rightarrow> admin_ctx \<Rightarrow> admin_grant \<Rightarrow> verdict" where
  "decide_on_grant cr command s ctx g =
     (if ag_owner_user_id g \<noteq> ac_owner_user_id ctx then deny ''grant_unavailable''
      else if binding_mismatch ctx g then deny ''grant_binding_mismatch''
      else if scopes_exceed ctx g then deny ''scope_expansion_forbidden''
      else case command of
        RevokeDelegation _ reason \<Rightarrow> decide_end command s ctx g reason
      | SuspendDelegation _ reason \<Rightarrow> decide_end command s ctx g reason
      | SurrenderDelegation _ reason \<Rightarrow> decide_end command s ctx g reason
      | ExpireDelegation _ \<Rightarrow> decide_expire s ctx g
      | WithdrawWorkspaceAccess _ ws reason \<Rightarrow> decide_withdraw ctx g ws reason
      | ReadMetadata _ ws \<Rightarrow>
          if human_owner ctx then metadata_read ctx None
          else if \<not> grant_live ctx g then deny ''grant_inactive'' else decide_read cr ctx g ws
      | NarrowDelegation _ m digest receipt \<Rightarrow>
          if \<not> grant_live ctx g then deny ''grant_inactive'' else decide_narrow cr s ctx g m digest receipt
      | _ \<Rightarrow> if \<not> grant_live ctx g then deny ''grant_inactive'' else decide_credential command s ctx g)"

text \<open>An old refresh credential presented by its runtime: it is acted on even above the rate limit.\<close>

definition verified_replay :: "admin_command \<Rightarrow> admin_account \<Rightarrow> admin_ctx \<Rightarrow> bool" where
  "verified_replay command s ctx \<longleftrightarrow>
     (case (Option.bind (cmd_grant_id command) (obj_get (aa_grants s)), cmd_generation command) of
        (Some g, Some (lineage_id, generation)) \<Rightarrow>
          (case obj_get (aa_lineages s) lineage_id of
             None \<Rightarrow> False
           | Some l \<Rightarrow> li_grant_id l = ag_grant_id g \<and> ac_presenting_refresh_lineage_id ctx = Some lineage_id \<and>
               ac_presenting_refresh_generation ctx = Some generation \<and> generation < li_generation l \<and> runtime_of ctx g)
      | _ \<Rightarrow> False)"

definition admin_verdict :: "crypto \<Rightarrow> admin_command \<Rightarrow> admin_account \<Rightarrow> admin_ctx \<Rightarrow> verdict" where
  "admin_verdict cr command s ctx =
     (if ac_actor ctx = WorkerActor \<or> ac_actor ctx = HostedSeatActor then deny ''credential_kind_forbidden''
      else if cmd_client command \<noteq> None then decide_client_approval command s ctx
      else if \<not> verified_replay command s ctx \<and> list_ex over_limit (rate_charges command s ctx) then deny ''rate_limited''
      else case command of
        PrepareConsent c \<Rightarrow> decide_prepare_consent cr s ctx c
      | GrantDelegation gid receipt replaces \<Rightarrow> decide_grant cr s ctx gid receipt replaces
      | _ \<Rightarrow>
          (case Option.bind (cmd_grant_id command) (obj_get (aa_grants s)) of
             None \<Rightarrow> deny ''grant_unavailable''
           | Some g \<Rightarrow> decide_on_grant cr command s ctx g))"

definition decideAdminAuthority :: "crypto \<Rightarrow> admin_command \<Rightarrow> admin_account \<Rightarrow> admin_ctx \<Rightarrow> admin_decision" where
  "decideAdminAuthority cr command s ctx = finish command s ctx (admin_verdict cr command s ctx)"

end
