(* ===== verification/AdminInvariant.thy ===== *)
theory AdminInvariant
  imports AdminDecision
begin

text \<open>
  The invariant of an account (\<open>account_ok\<close>), that each reducer step of a decided event keeps it, and
  that every decision of \<open>decideAdminAuthority\<close> projects.
\<close>

section \<open>Fields of a new or narrowed grant\<close>

definition manifest_static :: "crypto \<Rightarrow> 'a admin_manifest_scheme \<Rightarrow> bool" where
  "manifest_static cr m \<longleftrightarrow> identity_ok cr m False \<and> capabilities_ok cr m \<and> policies_ok m \<and> limits_ok m"

lemma manifest_ok_static: "manifest_ok cr m now initial \<Longrightarrow> manifest_static cr m"
  by (auto simp: manifest_ok_def manifest_static_def identity_ok_def)

text \<open>Two records with the same manifest.\<close>

definition same_manifest :: "'a admin_manifest_scheme \<Rightarrow> 'b admin_manifest_scheme \<Rightarrow> bool" where
  "same_manifest a b \<longleftrightarrow> admin_manifest.truncate a = admin_manifest.truncate b"

lemma same_manifest_fields:
  assumes "same_manifest a b"
  shows "am_admin_identity_id a = am_admin_identity_id b" "am_connection_id a = am_connection_id b"
    "am_client_id a = am_client_id b" "am_resource a = am_resource b" "am_mode a = am_mode b"
    "am_registry_version a = am_registry_version b" "am_capability_names a = am_capability_names b"
    "am_availability_digest a = am_availability_digest b" "am_scope_names a = am_scope_names b"
    "am_workspace_selector a = am_workspace_selector b" "am_workspace_ids a = am_workspace_ids b"
    "am_created_scope_names a = am_created_scope_names b" "am_target_rules a = am_target_rules b"
    "am_worker_scope_ceiling a = am_worker_scope_ceiling b" "am_role_ceiling a = am_role_ceiling b"
    "am_renewal_limits a = am_renewal_limits b" "am_issuance_limits a = am_issuance_limits b"
    "am_expires_at a = am_expires_at b" "am_refresh_deadline a = am_refresh_deadline b"
  using assms by (simp_all add: same_manifest_def admin_manifest.truncate_def)

lemma same_manifest_static: "same_manifest a b \<Longrightarrow> manifest_static cr a = manifest_static cr b"
  by (simp add: manifest_static_def identity_ok_def capabilities_ok_def policies_ok_def limits_ok_def same_manifest_fields)

lemma same_manifest_extend: "same_manifest (admin_manifest.extend m x) m"
  by (simp add: same_manifest_def admin_manifest.truncate_def admin_manifest.extend_def)

lemma narrow_grant_manifest: "same_manifest (narrow_grant g m d r) m"
  by (simp add: same_manifest_def narrow_grant_def admin_manifest.truncate_def admin_manifest.extend_def)

lemma narrow_grant_fields [simp]:
  "ag_grant_id (narrow_grant g m d r) = ag_grant_id g" "ag_owner_user_id (narrow_grant g m d r) = ag_owner_user_id g"
  "ag_consent_receipt_id (narrow_grant g m d r) = r" "ag_manifest_digest (narrow_grant g m d r) = d"
  "ag_created_at (narrow_grant g m d r) = ag_created_at g" "ag_state (narrow_grant g m d r) = ag_state g"
  "ag_suspended_at (narrow_grant g m d r) = ag_suspended_at g" "ag_revoked_at (narrow_grant g m d r) = ag_revoked_at g"
  "ag_reason_code (narrow_grant g m d r) = ag_reason_code g"
  "ag_withdrawn_workspace_ids (narrow_grant g m d r) = ag_withdrawn_workspace_ids g"
  by (cases g; simp add: narrow_grant_def admin_manifest.extend_def)+

lemma grant_of_payload_manifest: "same_manifest (grant_of_payload p) p"
  by (simp add: grant_of_payload_def same_manifest_def admin_manifest.truncate_def admin_manifest.extend_def)

lemma grant_of_payload_fields [simp]:
  "ag_grant_id (grant_of_payload p) = gp_grant_id p" "ag_owner_user_id (grant_of_payload p) = gp_owner_user_id p"
  "ag_consent_receipt_id (grant_of_payload p) = gp_consent_receipt_id p" "ag_state (grant_of_payload p) = GrantIsActive"
  "ag_withdrawn_workspace_ids (grant_of_payload p) = []" "ag_manifest_digest (grant_of_payload p) = gp_manifest_digest p"
  by (simp_all add: grant_of_payload_def admin_manifest.extend_def admin_grant.fields_def)

lemma granted_payload_fields [simp]:
  "gp_grant_id (granted_payload ctx gid replaces c) = gid"
  "gp_consent_receipt_id (granted_payload ctx gid replaces c) = co_consent_receipt_id c"
  "gp_owner_user_id (granted_payload ctx gid replaces c) = ac_owner_user_id ctx"
  "gp_manifest_digest (granted_payload ctx gid replaces c) = co_manifest_digest c"
  by (simp_all add: granted_payload_def admin_manifest.extend_def grant_payload.fields_def)

lemma granted_payload_manifest: "same_manifest (granted_payload ctx gid replaces c) (co_manifest c)"
  by (simp add: granted_payload_def same_manifest_extend)

lemma same_manifest_trans: "same_manifest a b \<Longrightarrow> same_manifest b c \<Longrightarrow> same_manifest a c"
  by (simp add: same_manifest_def)

lemma terminate_fields [simp]:
  "ag_grant_id (terminate_grant st t r g) = ag_grant_id g" "ag_owner_user_id (terminate_grant st t r g) = ag_owner_user_id g"
  "ag_consent_receipt_id (terminate_grant st t r g) = ag_consent_receipt_id g"
  "ag_state (terminate_grant st t r g) = st" "ag_manifest_digest (terminate_grant st t r g) = ag_manifest_digest g"
  "ag_withdrawn_workspace_ids (terminate_grant st t r g) = ag_withdrawn_workspace_ids g"
  by (simp_all add: terminate_grant_def)

lemma terminate_manifest: "same_manifest (terminate_grant st t r g) g"
  by (simp add: terminate_grant_def same_manifest_def admin_manifest.truncate_def)

section \<open>The invariant\<close>

definition rows_keyed :: "admin_account \<Rightarrow> bool" where
  "rows_keyed s \<longleftrightarrow> keyed ag_grant_id (aa_grants s) \<and> keyed co_consent_receipt_id (aa_consents s) \<and>
     keyed li_credential_lineage_id (aa_lineages s) \<and> keyed at_attempt_id (obj_or_empty (aa_connections s))"

text \<open>One live grant per connection, one grant per consent, and the consent is spent.\<close>

definition grants_ok :: "crypto \<Rightarrow> admin_account \<Rightarrow> bool" where
  "grants_ok cr s \<longleftrightarrow>
     (\<forall>i g. obj_get (aa_grants s) i = Some g \<longrightarrow> manifest_static cr g \<and>
        (\<exists>c. obj_get (aa_consents s) (ag_consent_receipt_id g) = Some c \<and> co_consumed_at c \<noteq> None)) \<and>
     (\<forall>i j g h. obj_get (aa_grants s) i = Some g \<longrightarrow> obj_get (aa_grants s) j = Some h \<longrightarrow>
        ag_consent_receipt_id g = ag_consent_receipt_id h \<or>
        ag_state g = GrantIsActive \<and> ag_state h = GrantIsActive \<and> am_connection_id g = am_connection_id h \<longrightarrow> i = j)"

text \<open>A lineage, an awaiting connection and an open invitation live only while their grant does.\<close>

definition grant_active :: "admin_account \<Rightarrow> string \<Rightarrow> bool" where
  "grant_active s i \<longleftrightarrow> (case obj_get (aa_grants s) i of None \<Rightarrow> False | Some g \<Rightarrow> ag_state g = GrantIsActive)"

definition lineages_ok :: "admin_account \<Rightarrow> bool" where
  "lineages_ok s \<longleftrightarrow>
     (\<forall>k l. obj_get (aa_lineages s) k = Some l \<longrightarrow> li_state l = LineageActive \<longrightarrow> grant_active s (li_grant_id l)) \<and>
     (\<forall>k j l l'. obj_get (aa_lineages s) k = Some l \<longrightarrow> obj_get (aa_lineages s) j = Some l' \<longrightarrow>
        li_grant_id l = li_grant_id l' \<longrightarrow> k = j)"

definition attempts_ok :: "admin_account \<Rightarrow> bool" where
  "attempts_ok s \<longleftrightarrow> (\<forall>k a. obj_get (obj_or_empty (aa_connections s)) k = Some a \<longrightarrow>
     at_state a = AwaitingAuthorization \<longrightarrow> grant_active s (at_parent_admin_grant_id a))"

definition routine_of :: "admin_account \<Rightarrow> admin_routine" where
  "routine_of s = (case aa_routine s of None \<Rightarrow> emptyAdminRoutine | Some r \<Rightarrow> r)"

definition invitations_ok :: "admin_account \<Rightarrow> bool" where
  "invitations_ok s \<longleftrightarrow> keyed ri_invitation_id (rt_invitations (routine_of s)) \<and>
     (\<forall>k i. obj_get (rt_invitations (routine_of s)) k = Some i \<longrightarrow>
        ri_accepted_at i = None \<longrightarrow> ri_revoked_at i = None \<longrightarrow> grant_active s (ri_parent_admin_grant_id i))"

definition spend_ok :: "admin_account \<Rightarrow> bool" where
  "spend_ok s \<longleftrightarrow>
     (\<forall>i g. obj_get (aa_grants s) i = Some g \<longrightarrow> obj_get (rt_spend (routine_of s)) i \<noteq> None) \<and>
     (\<forall>i sp. obj_get (rt_spend (routine_of s)) i = Some sp \<longrightarrow>
        sp_workspaces sp \<le> il_workspaces ADMIN_ISSUANCE_CEILINGS \<and>
        sp_total_seats sp \<le> il_total_seats ADMIN_ISSUANCE_CEILINGS \<and>
        sp_invitations sp \<le> il_invitations ADMIN_ISSUANCE_CEILINGS \<and>
        sp_worker_credentials sp \<le> il_worker_credentials ADMIN_ISSUANCE_CEILINGS \<and>
        sp_successors sp \<le> rn_successors_per_grant ADMIN_RENEWAL_CEILINGS)"

definition account_ok :: "crypto \<Rightarrow> admin_account \<Rightarrow> bool" where
  "account_ok cr s \<longleftrightarrow> rows_keyed s \<and> grants_ok cr s \<and> lineages_ok s \<and> attempts_ok s \<and> invitations_ok s \<and> spend_ok s"

lemma obj_or_empty_simps [simp]: "obj_or_empty None = []" "obj_or_empty (Some x) = x"
  by (simp_all add: obj_or_empty_def)

lemma routine_of_simps [simp]:
  "aa_routine s = Some r \<Longrightarrow> routine_of s = r" "aa_routine s = None \<Longrightarrow> routine_of s = emptyAdminRoutine"
  by (simp_all add: routine_of_def)

lemma account_ok_empty: "account_ok cr emptyAdminAccount"
  by (simp add: account_ok_def rows_keyed_def grants_ok_def lineages_ok_def attempts_ok_def invitations_ok_def
      spend_ok_def emptyAdminAccount_def routine_of_def emptyAdminRoutine_def)

lemma keyed_map: "(\<And>v. key (f v) = key v) \<Longrightarrow> keyed key ob \<Longrightarrow> keyed key (obj_map f ob)"
  by (auto simp: keyed_def)

section \<open>Steps\<close>

lemma account_okI:
  "rows_keyed s \<Longrightarrow> grants_ok cr s \<Longrightarrow> lineages_ok s \<Longrightarrow> attempts_ok s \<Longrightarrow> invitations_ok s \<Longrightarrow> spend_ok s \<Longrightarrow>
     account_ok cr s"
  by (simp add: account_ok_def)

lemma account_okD:
  assumes "account_ok cr s"
  shows "rows_keyed s" "grants_ok cr s" "lineages_ok s" "attempts_ok s" "invitations_ok s" "spend_ok s"
  using assms by (simp_all add: account_ok_def)

lemma rows_keyed_fields [simp]:
  "li_credential_lineage_id (if P then l\<lparr>li_state := x\<rparr> else l) = li_credential_lineage_id l"
  "li_grant_id (if P then l\<lparr>li_state := x\<rparr> else l) = li_grant_id l"
  "at_attempt_id (cancel_attempt i t r w a) = at_attempt_id a"
  "ri_invitation_id (cancel_invitation i t v) = ri_invitation_id v"
  by (simp_all add: cancel_attempt_def cancel_invitation_def)

lemma or_empty_map [simp]: "obj_or_empty (map_option (obj_map f) x) = obj_map f (obj_or_empty x)"
  by (cases x) (simp_all add: obj_map_def)

text \<open>The projection of an ended grant.\<close>

lemma terminal_fields [simp]:
  "aa_grants (projectTerminalGrant s i g st t r) = obj_put (aa_grants s) i (terminate_grant st t r g)"
  "aa_consents (projectTerminalGrant s i g st t r) = aa_consents s"
  "aa_client_approvals (projectTerminalGrant s i g st t r) = aa_client_approvals s"
  "aa_rate_buckets (projectTerminalGrant s i g st t r) = aa_rate_buckets s"
  "aa_lineages (projectTerminalGrant s i g st t r) =
     obj_map (\<lambda>l. if li_grant_id l = i then l\<lparr>li_state := LineageRevoked\<rparr> else l) (aa_lineages s)"
  by (simp_all add: projectTerminalGrant_def cancelPendingConnections_def Let_def)

lemma terminal_connections:
  "aa_connections (projectTerminalGrant s i g st t r) =
     map_option (obj_map (cancel_attempt i (if st = GrantExpired then am_expires_at g else t) r None)) (aa_connections s)"
  by (simp add: projectTerminalGrant_def cancelPendingConnections_def Let_def)

lemma terminal_routine:
  "routine_of (projectTerminalGrant s i g st t r) = (routine_of s)\<lparr>rt_invitations :=
     obj_map (cancel_invitation i (if st = GrantExpired then am_expires_at g else t)) (rt_invitations (routine_of s))\<rparr>"
  by (cases "aa_routine s")
    (simp_all add: projectTerminalGrant_def cancelPendingConnections_def Let_def routine_of_def emptyAdminRoutine_def obj_map_def)

lemma grant_active_put:
  "aa_grants t = obj_put (aa_grants s) i g \<Longrightarrow>
     grant_active t j \<longleftrightarrow> (if j = i then ag_state g = GrantIsActive else grant_active s j)"
  by (simp add: grant_active_def)

lemma grants_ok_put:
  assumes "grants_ok cr s" and "aa_grants t = obj_put (aa_grants s) i g'" and "obj_get (aa_grants s) i = Some g"
    and "manifest_static cr g'" and "am_connection_id g' = am_connection_id g"
    and "ag_state g' = GrantIsActive \<Longrightarrow> ag_state g = GrantIsActive"
    and "ag_consent_receipt_id g' = ag_consent_receipt_id g" and "aa_consents t = aa_consents s"
  shows "grants_ok cr t"
  using assms unfolding grants_ok_def by (auto split: if_splits)

lemma cancel_attempt_awaiting:
  "at_state (cancel_attempt i t r w a) = AwaitingAuthorization \<Longrightarrow>
     cancel_attempt i t r w a = a \<and> (w = None \<longrightarrow> at_parent_admin_grant_id a \<noteq> i)"
  by (cases "at_parent_admin_grant_id a = i \<and> at_state a = AwaitingAuthorization \<and> (w = None \<or> w = Some (at_workspace_id a))")
    (simp_all only: cancel_attempt_def if_True if_False, auto)

lemma terminal_ok:
  assumes ok: "account_ok cr s" and g: "obj_get (aa_grants s) i = Some g" and st: "st \<noteq> GrantIsActive"
  shows "account_ok cr (projectTerminalGrant s i g st t r)"
proof -
  let ?t = "projectTerminalGrant s i g st t r"
  note inv = account_okD[OF ok]
  have act: "grant_active ?t j \<longleftrightarrow> j \<noteq> i \<and> grant_active s j" for j
    using grant_active_put[of ?t s i "terminate_grant st t r g" j] st by auto
  have key: "ag_grant_id g = i" using inv(1) g by (auto simp: rows_keyed_def dest: keyed_get)
  show ?thesis
  proof (rule account_okI)
    show "rows_keyed ?t" using inv(1) key by (auto simp: rows_keyed_def terminal_connections intro!: keyed_map)
    show "grants_ok cr ?t"
      using inv(2) g st same_manifest_static[OF terminate_manifest] same_manifest_fields(2)[OF terminate_manifest]
      by (intro grants_ok_put[of cr s ?t i "terminate_grant st t r g" g]) (auto simp: grants_ok_def)
    show "lineages_ok ?t" unfolding lineages_ok_def
    proof (intro conjI allI impI)
      fix k l assume k: "obj_get (aa_lineages ?t) k = Some l" "li_state l = LineageActive"
      then obtain m where m: "obj_get (aa_lineages s) k = Some m" "l = (if li_grant_id m = i then m\<lparr>li_state := LineageRevoked\<rparr> else m)"
        by auto
      with k(2) have "li_grant_id m \<noteq> i" "l = m" by (auto split: if_splits)
      with inv(3) m k(2) show "grant_active ?t (li_grant_id l)" by (simp add: lineages_ok_def act)
    next
      fix k j l l' assume "obj_get (aa_lineages ?t) k = Some l" "obj_get (aa_lineages ?t) j = Some l'"
        and same: "li_grant_id l = li_grant_id l'"
      then obtain m m' where m: "obj_get (aa_lineages s) k = Some m" "obj_get (aa_lineages s) j = Some m'"
        "li_grant_id l = li_grant_id m" "li_grant_id l' = li_grant_id m'" by auto
      with inv(3) same show "k = j" unfolding lineages_ok_def by metis
    qed
    show "attempts_ok ?t" unfolding attempts_ok_def act
    proof (intro allI impI)
      fix k a assume "obj_get (obj_or_empty (aa_connections ?t)) k = Some a" and w: "at_state a = AwaitingAuthorization"
      then have "obj_get (obj_or_empty (aa_connections s)) k = Some a \<and> at_parent_admin_grant_id a \<noteq> i"
        by (auto simp: terminal_connections dest: cancel_attempt_awaiting)
      with inv(4) w show "at_parent_admin_grant_id a \<noteq> i \<and> grant_active s (at_parent_admin_grant_id a)"
        unfolding attempts_ok_def by blast
    qed
    show "invitations_ok ?t" unfolding invitations_ok_def act
    proof (intro conjI allI impI)
      show "keyed ri_invitation_id (rt_invitations (routine_of ?t))"
        using inv(5) by (simp add: invitations_ok_def terminal_routine keyed_map)
      fix k v assume "obj_get (rt_invitations (routine_of ?t)) k = Some v" and o: "ri_accepted_at v = None" "ri_revoked_at v = None"
      then obtain w u where w: "obj_get (rt_invitations (routine_of s)) k = Some w" "v = cancel_invitation i u w"
        by (auto simp: terminal_routine)
      with o have "v = w" "ri_parent_admin_grant_id w \<noteq> i"
        by (auto simp: cancel_invitation_def split: if_split_asm option.split_asm)
      with inv(5) w o show "ri_parent_admin_grant_id v \<noteq> i" "grant_active s (ri_parent_admin_grant_id v)"
        by (auto simp: invitations_ok_def)
    qed
    show "spend_ok ?t" using inv(6) g by (auto simp: spend_ok_def terminal_routine split: if_splits)
  qed
qed

text \<open>Steps that leave a table alone keep its clause while no grant is lost.\<close>

lemma lineages_ok_keep:
  "lineages_ok s \<Longrightarrow> aa_lineages t = aa_lineages s \<Longrightarrow> (\<And>j. grant_active s j \<Longrightarrow> grant_active t j) \<Longrightarrow> lineages_ok t"
  unfolding lineages_ok_def by simp

lemma attempts_ok_keep:
  "attempts_ok s \<Longrightarrow> aa_connections t = aa_connections s \<Longrightarrow> (\<And>j. grant_active s j \<Longrightarrow> grant_active t j) \<Longrightarrow> attempts_ok t"
  unfolding attempts_ok_def by simp

lemma invitations_ok_keep:
  "invitations_ok s \<Longrightarrow> rt_invitations (routine_of t) = rt_invitations (routine_of s) \<Longrightarrow>
     (\<And>j. grant_active s j \<Longrightarrow> grant_active t j) \<Longrightarrow> invitations_ok t"
  unfolding invitations_ok_def by simp

lemma spend_ok_keep:
  "spend_ok s \<Longrightarrow> rt_spend (routine_of t) = rt_spend (routine_of s) \<Longrightarrow>
     (\<And>i g. obj_get (aa_grants t) i = Some g \<Longrightarrow> obj_get (aa_grants s) i \<noteq> None) \<Longrightarrow> spend_ok t"
  unfolding spend_ok_def by (auto split: option.split_asm)

lemma account_ok_frame:
  assumes "account_ok cr s" and "aa_grants t = aa_grants s" and "aa_consents t = aa_consents s"
    and "aa_lineages t = aa_lineages s" and "aa_connections t = aa_connections s" and "aa_routine t = aa_routine s"
  shows "account_ok cr t"
  using assms by (simp add: account_ok_def rows_keyed_def grants_ok_def lineages_ok_def attempts_ok_def
      invitations_ok_def spend_ok_def grant_active_def routine_of_def)

lemma consent_prepared_ok:
  assumes ok: "account_ok cr s" and "obj_get (aa_consents s) k = None" and "co_consent_receipt_id c = k"
  shows "account_ok cr (s\<lparr>aa_consents := obj_put (aa_consents s) k c\<rparr>)"
proof -
  note inv = account_okD[OF ok]
  have "grants_ok cr (s\<lparr>aa_consents := obj_put (aa_consents s) k c\<rparr>)"
    using inv(2) assms(2) unfolding grants_ok_def by (auto split: if_splits) (metis option.distinct(1))
  with inv assms(3) show ?thesis
    by (simp add: account_ok_def rows_keyed_def lineages_ok_def attempts_ok_def invitations_ok_def spend_ok_def
        grant_active_def routine_of_def)
qed

lemma granted_ok:
  assumes ok: "account_ok cr s" and new: "obj_get (aa_grants s) (gp_grant_id p) = None"
    and c: "obj_get (aa_consents s) (gp_consent_receipt_id p) = Some c" "co_consumed_at c = None"
    and free: "\<And>i g. obj_get (aa_grants s) i = Some g \<Longrightarrow> am_connection_id g = am_connection_id p \<Longrightarrow> ag_state g \<noteq> GrantIsActive"
    and static: "manifest_static cr p"
  shows "\<exists>t. reduce_granted s occurred p = Inr t \<and> account_ok cr t \<and>
    aa_grants t = obj_put (aa_grants s) (gp_grant_id p) (grant_of_payload p)"
proof -
  note inv = account_okD[OF ok]
  let ?t = "(consume_consent s (co_consent_receipt_id c) c occurred)\<lparr>
     aa_routine := Some ((routine_of s)\<lparr>rt_spend := obj_put (rt_spend (routine_of s)) (gp_grant_id p) zero_spend\<rparr>),
     aa_grants := obj_put (aa_grants s) (gp_grant_id p) (grant_of_payload p)\<rparr>"
  have ck: "co_consent_receipt_id c = gp_consent_receipt_id p" using inv(1) c(1) by (auto simp: rows_keyed_def dest: keyed_get)
  have red: "reduce_granted s occurred p = Inr ?t"
    using new c(1) by (simp add: reduce_granted_def Let_def routine_of_def)
  have unused: "ag_consent_receipt_id g \<noteq> gp_consent_receipt_id p" if "obj_get (aa_grants s) i = Some g" for i g
    using inv(2) that c unfolding grants_ok_def by (metis option.inject)
  note man = same_manifest_static[OF grant_of_payload_manifest] same_manifest_fields(2)[OF grant_of_payload_manifest]
  have act: "grant_active ?t j \<longleftrightarrow> j = gp_grant_id p \<or> grant_active s j" for j
    by (simp add: grant_active_def)
  have "account_ok cr ?t"
  proof (rule account_okI)
    show "rows_keyed ?t" using inv(1) ck by (simp add: rows_keyed_def consume_consent_def)
    show "grants_ok cr ?t" unfolding grants_ok_def
    proof (intro conjI allI impI)
      fix i g assume g: "obj_get (aa_grants ?t) i = Some g"
      show "manifest_static cr g" using g static inv(2) man by (auto simp: grants_ok_def split: if_splits)
      show "\<exists>d. obj_get (aa_consents ?t) (ag_consent_receipt_id g) = Some d \<and> co_consumed_at d \<noteq> None"
        using g inv(2) by (auto simp: grants_ok_def consume_consent_def ck split: if_splits)
    next
      fix i j g h assume gh: "obj_get (aa_grants ?t) i = Some g" "obj_get (aa_grants ?t) j = Some h"
        and clash: "ag_consent_receipt_id g = ag_consent_receipt_id h \<or>
          ag_state g = GrantIsActive \<and> ag_state h = GrantIsActive \<and> am_connection_id g = am_connection_id h"
      show "i = j"
      proof (cases "i = gp_grant_id p \<or> j = gp_grant_id p")
        case True
        then show ?thesis using gh clash unused free man(2) by (fastforce split: if_splits)
      next
        case False
        then show ?thesis using gh clash inv(2) unfolding grants_ok_def by simp blast
      qed
    qed
    show "lineages_ok ?t" by (rule lineages_ok_keep[OF inv(3)]) (simp add: consume_consent_def, simp only: act simp_thms)
    show "attempts_ok ?t" by (rule attempts_ok_keep[OF inv(4)]) (simp add: consume_consent_def, simp only: act simp_thms)
    show "invitations_ok ?t" by (rule invitations_ok_keep[OF inv(5)]) (simp, simp only: act simp_thms)
    show "spend_ok ?t" using inv(6) by (auto simp: spend_ok_def zero_spend_def ADMIN_ISSUANCE_CEILINGS_def
        ADMIN_RENEWAL_CEILINGS_def)
  qed
  with red show ?thesis by (intro exI[of _ ?t]) simp
qed

lemma narrowed_ok:
  assumes ok: "account_ok cr s" and g: "obj_get (aa_grants s) (np_grant_id p) = Some g"
    and c: "obj_get (aa_consents s) (np_consent_receipt_id p) = Some c" "co_consumed_at c = None"
    and m: "manifest_static cr (np_manifest p)" "am_connection_id (np_manifest p) = am_connection_id g"
  shows "\<exists>t. reduce_narrowed s occurred p = Inr t \<and> account_ok cr t \<and> aa_grants t = obj_put (aa_grants s) (np_grant_id p)
    (narrow_grant g (np_manifest p) (np_new_manifest_digest p) (np_consent_receipt_id p))"
proof -
  note inv = account_okD[OF ok]
  let ?g = "narrow_grant g (np_manifest p) (np_new_manifest_digest p) (np_consent_receipt_id p)"
  let ?t = "(consume_consent s (np_consent_receipt_id p) c occurred)\<lparr>aa_grants := obj_put (aa_grants s) (np_grant_id p) ?g\<rparr>"
  have red: "reduce_narrowed s occurred p = Inr ?t" using g c(1) by (simp add: reduce_narrowed_def)
  have keys: "co_consent_receipt_id c = np_consent_receipt_id p" "ag_grant_id g = np_grant_id p"
    using inv(1) c(1) g by (auto simp: rows_keyed_def dest: keyed_get)
  have unused: "ag_consent_receipt_id h \<noteq> np_consent_receipt_id p" if "obj_get (aa_grants s) i = Some h" for i h
    using inv(2) that c unfolding grants_ok_def by fastforce
  note man = same_manifest_static[OF narrow_grant_manifest] same_manifest_fields(2)[OF narrow_grant_manifest]
  have act: "grant_active ?t j = grant_active s j" for j using g by (simp add: grant_active_def)
  have "account_ok cr ?t"
  proof (rule account_okI)
    show "rows_keyed ?t" using inv(1) keys by (simp add: rows_keyed_def consume_consent_def)
    show "grants_ok cr ?t" unfolding grants_ok_def
    proof (intro conjI allI impI)
      fix i h assume h: "obj_get (aa_grants ?t) i = Some h"
      show "manifest_static cr h" using h m(1) inv(2) man by (auto simp: grants_ok_def split: if_splits)
      show "\<exists>d. obj_get (aa_consents ?t) (ag_consent_receipt_id h) = Some d \<and> co_consumed_at d \<noteq> None"
        using h inv(2) by (auto simp: grants_ok_def consume_consent_def split: if_splits)
    next
      fix i j h h' assume hh: "obj_get (aa_grants ?t) i = Some h" "obj_get (aa_grants ?t) j = Some h'"
        and clash: "ag_consent_receipt_id h = ag_consent_receipt_id h' \<or>
          ag_state h = GrantIsActive \<and> ag_state h' = GrantIsActive \<and> am_connection_id h = am_connection_id h'"
      have two: "i = j" if "obj_get (aa_grants s) i = Some x" "obj_get (aa_grants s) j = Some y"
        "ag_state x = GrantIsActive" "ag_state y = GrantIsActive" "am_connection_id x = am_connection_id y" for i j x y
        using inv(2) that unfolding grants_ok_def by blast
      have old: "i = j" if "obj_get (aa_grants s) i = Some h" "obj_get (aa_grants s) j = Some h'"
        using inv(2) that clash unfolding grants_ok_def by metis
      have m2: "am_connection_id ?g = am_connection_id g" using man(2) m(2) by simp
      show "i = j"
      proof (cases "i = np_grant_id p"; cases "j = np_grant_id p")
        assume c: "i = np_grant_id p" "j \<noteq> np_grant_id p"
        with hh have "h = ?g" and h': "obj_get (aa_grants s) j = Some h'" by simp_all
        with clash unused[OF h'] m2 have "ag_state g = GrantIsActive \<and> ag_state h' = GrantIsActive \<and>
          am_connection_id g = am_connection_id h'" by auto
        with two[OF g h'] c show ?thesis by simp
      next
        assume c: "i \<noteq> np_grant_id p" "j = np_grant_id p"
        with hh have "h' = ?g" and h': "obj_get (aa_grants s) i = Some h" by simp_all
        with clash unused[OF h'] m2 have "ag_state h = GrantIsActive \<and> ag_state g = GrantIsActive \<and>
          am_connection_id h = am_connection_id g" by auto
        with two[OF h' g] c show ?thesis by simp
      qed (use hh old in simp_all)
    qed
    show "lineages_ok ?t" by (rule lineages_ok_keep[OF inv(3)]) (simp add: consume_consent_def, simp only: act simp_thms)
    show "attempts_ok ?t" by (rule attempts_ok_keep[OF inv(4)]) (simp add: consume_consent_def, simp only: act simp_thms)
    show "invitations_ok ?t" by (rule invitations_ok_keep[OF inv(5)]) (simp add: routine_of_def consume_consent_def, simp only: act simp_thms)
    show "spend_ok ?t" by (rule spend_ok_keep[OF inv(6)]) (use g in \<open>simp_all add: routine_of_def consume_consent_def split: if_splits\<close>)
  qed
  with red show ?thesis by (intro exI[of _ ?t]) simp
qed

lemma withdrawn_ok:
  assumes ok: "account_ok cr s" and g: "obj_get (aa_grants s) gid = Some g"
  shows "\<exists>t. reduce_withdrawn s occurred gid ws = Inr t \<and> account_ok cr t \<and> aa_grants t = obj_put (aa_grants s) gid
    (g\<lparr>ag_withdrawn_workspace_ids := js_set (ag_withdrawn_workspace_ids g @ [ws])\<rparr>)"
proof -
  note inv = account_okD[OF ok]
  let ?g = "g\<lparr>ag_withdrawn_workspace_ids := js_set (ag_withdrawn_workspace_ids g @ [ws])\<rparr>"
  let ?t = "(cancelPendingConnections s gid occurred ''workspace_withdrawn'' (Some ws))\<lparr>aa_grants := obj_put (aa_grants s) gid ?g\<rparr>"
  have red: "reduce_withdrawn s occurred gid ws = Inr ?t" using g by (simp add: reduce_withdrawn_def)
  have act: "grant_active ?t j = grant_active s j" for j using g by (simp add: grant_active_def)
  have man: "same_manifest ?g g" by (simp add: same_manifest_def admin_manifest.truncate_def)
  have key: "ag_grant_id g = gid" using inv(1) g by (auto simp: rows_keyed_def dest: keyed_get)
  have "account_ok cr ?t"
  proof (rule account_okI)
    show "rows_keyed ?t" using inv(1) key by (auto simp: rows_keyed_def cancelPendingConnections_def intro!: keyed_map)
    show "grants_ok cr ?t"
      using inv(2) g same_manifest_static[OF man] by (intro grants_ok_put[of cr s ?t gid ?g g])
        (auto simp: cancelPendingConnections_def grants_ok_def)
    show "lineages_ok ?t" by (rule lineages_ok_keep[OF inv(3)]) (simp add: cancelPendingConnections_def, simp only: act simp_thms)
    show "attempts_ok ?t" unfolding attempts_ok_def act
    proof (intro allI impI)
      fix k a assume "obj_get (obj_or_empty (aa_connections ?t)) k = Some a" "at_state a = AwaitingAuthorization"
      then have "obj_get (obj_or_empty (aa_connections s)) k = Some a"
        by (auto simp: cancelPendingConnections_def dest: cancel_attempt_awaiting)
      with inv(4) \<open>at_state a = AwaitingAuthorization\<close> show "grant_active s (at_parent_admin_grant_id a)"
        by (simp add: attempts_ok_def)
    qed
    show "invitations_ok ?t" by (rule invitations_ok_keep[OF inv(5)]) (simp add: routine_of_def cancelPendingConnections_def, simp only: act simp_thms)
    show "spend_ok ?t" by (rule spend_ok_keep[OF inv(6)]) (use g in \<open>simp_all add: routine_of_def cancelPendingConnections_def split: if_splits\<close>)
  qed
  with red show ?thesis by (intro exI[of _ ?t]) simp
qed

lemma lineage_ok:
  assumes ok: "account_ok cr s" and "grant_active s (cd_grant_id p)"
    and alone: "\<And>k l. obj_get (aa_lineages s) k = Some l \<Longrightarrow> li_grant_id l = cd_grant_id p \<Longrightarrow> k = cd_credential_lineage_id p"
  shows "account_ok cr (put_lineage s p)"
proof -
  note inv = account_okD[OF ok]
  have "lineages_ok (put_lineage s p)"
    unfolding lineages_ok_def put_lineage_def
  proof (intro conjI allI impI)
    fix k j l l' assume "obj_get (aa_lineages (s\<lparr>aa_lineages := obj_put (aa_lineages s) (cd_credential_lineage_id p)
        (lineage_of_payload p)\<rparr>)) k = Some l" "obj_get (aa_lineages (s\<lparr>aa_lineages := obj_put (aa_lineages s)
        (cd_credential_lineage_id p) (lineage_of_payload p)\<rparr>)) j = Some l'" "li_grant_id l = li_grant_id l'"
    then show "k = j" using inv(3) alone[of k l] alone[of j l'] unfolding lineages_ok_def
      by (auto split: if_splits)
  qed (use inv(3) assms(2) in \<open>auto simp: lineages_ok_def grant_active_def split: if_splits\<close>)
  with inv show ?thesis
    by (simp add: account_ok_def rows_keyed_def grants_ok_def attempts_ok_def invitations_ok_def spend_ok_def
        grant_active_def routine_of_def put_lineage_def)
qed

text \<open>When a decided body passes the checks of the reducer.\<close>

definition grant_free :: "admin_account \<Rightarrow> grant_payload \<Rightarrow> bool" where
  "grant_free s p \<longleftrightarrow> (\<forall>i g. obj_get (aa_grants s) i = Some g \<longrightarrow> am_connection_id g = am_connection_id p \<longrightarrow>
     ag_state g \<noteq> GrantIsActive)"

definition consent_open :: "admin_account \<Rightarrow> string \<Rightarrow> bool" where
  "consent_open s k \<longleftrightarrow> (\<exists>c. obj_get (aa_consents s) k = Some c \<and> co_consumed_at c = None)"

definition lineage_alone :: "admin_account \<Rightarrow> credential_payload \<Rightarrow> bool" where
  "lineage_alone s p \<longleftrightarrow> grant_active s (cd_grant_id p) \<and> (\<forall>k l. obj_get (aa_lineages s) k = Some l \<longrightarrow>
     li_grant_id l = cd_grant_id p \<longrightarrow> k = cd_credential_lineage_id p)"

fun fits :: "crypto \<Rightarrow> string \<Rightarrow> admin_account \<Rightarrow> admin_body \<Rightarrow> bool" where
  "fits cr owner s (ConsentPrepared receipt _ _ _ _ _) \<longleftrightarrow> obj_get (aa_consents s) receipt = None"
| "fits cr owner s (DelegationGranted p) \<longleftrightarrow> obj_get (aa_grants s) (gp_grant_id p) = None \<and>
     consent_open s (gp_consent_receipt_id p) \<and> grant_free s p \<and> manifest_static cr p"
| "fits cr owner s (DelegationNarrowed p) \<longleftrightarrow> consent_open s (np_consent_receipt_id p) \<and>
     manifest_static cr (np_manifest p) \<and>
     (\<exists>g. obj_get (aa_grants s) (np_grant_id p) = Some g \<and> am_connection_id (np_manifest p) = am_connection_id g)"
| "fits cr owner s (DelegationRevoked p) \<longleftrightarrow> obj_get (aa_grants s) (tp_grant_id p) \<noteq> None"
| "fits cr owner s (DelegationSuspended p) \<longleftrightarrow> obj_get (aa_grants s) (tp_grant_id p) \<noteq> None"
| "fits cr owner s (DelegationExpired p _ _) \<longleftrightarrow> obj_get (aa_grants s) (tp_grant_id p) \<noteq> None"
| "fits cr owner s (WorkspaceAccessWithdrawn gid _ _ _ _) \<longleftrightarrow> obj_get (aa_grants s) gid \<noteq> None"
| "fits cr owner s (CredentialIssued p _ _) \<longleftrightarrow> lineage_alone s p"
| "fits cr owner s (CredentialRotated p) \<longleftrightarrow> lineage_alone s p \<and>
     (\<exists>l. obj_get (aa_lineages s) (cd_credential_lineage_id p) = Some l \<and> cd_generation p = li_generation l + 1)"
| "fits cr owner s (ClientApprovalWithdrawn _ client version _ _) \<longleftrightarrow>
     obj_get (obj_or_empty (aa_client_approvals s)) (approval_key cr owner client version) \<noteq> None"
| "fits cr owner s (ClientApproved _ _ _ _) \<longleftrightarrow> True"
| "fits cr owner s (CredentialReplayDetected _ _ _ _ _) \<longleftrightarrow> True"
| "fits cr owner s (MetadataRead _ _ _) \<longleftrightarrow> True"
| "fits cr owner s (ActionRecorded _) \<longleftrightarrow> True"
| "fits cr owner s _ \<longleftrightarrow> False"

lemma reduce_terminal_ok:
  assumes "account_ok cr s" and "obj_get (aa_grants s) (tp_grant_id p) \<noteq> None" and "st \<noteq> GrantIsActive"
  shows "\<exists>t. reduce_terminal s st occurred p = Inr t \<and> account_ok cr t"
  using assms terminal_ok by (auto simp: reduce_terminal_def)

lemma put_approval_ok: "account_ok cr s \<Longrightarrow> account_ok cr (put_approval s k a)"
  by (rule account_ok_frame) (simp_all add: put_approval_def)

text \<open>A fitting event is accepted and keeps the invariant, and no grant disappears.\<close>

lemma fitting_step:
  assumes ok: "account_ok cr s" and fit: "fits cr (ae_owner_user_id e) s (ae_body e)"
    and e: "ae_schema_version e = 1" "ae_stream_kind e = ''account''"
  shows "\<exists>t. reduceAdminAuthority cr (Some s) e = Inr t \<and> account_ok cr t"
proof (cases "ae_body e")
  case (ConsentPrepared receipt owner m d f x)
  with fit consent_prepared_ok[OF ok, of receipt] show ?thesis by (simp add: reduceAdminAuthority_def e Let_def)
next
  case (DelegationGranted p)
  with fit granted_ok[OF ok, of p] show ?thesis
    by (fastforce simp: reduceAdminAuthority_def e Let_def consent_open_def grant_free_def)
next
  case (DelegationNarrowed p)
  with fit narrowed_ok[OF ok, of p] show ?thesis
    by (fastforce simp: reduceAdminAuthority_def e Let_def consent_open_def)
next
  case (WorkspaceAccessWithdrawn gid ws u t r)
  with fit withdrawn_ok[OF ok, of gid] show ?thesis
    by (fastforce simp: reduceAdminAuthority_def e Let_def)
next
  case (CredentialIssued p c r)
  with fit lineage_ok[OF ok, of p] show ?thesis
    by (simp add: reduceAdminAuthority_def e Let_def lineage_alone_def)
next
  case (CredentialRotated p)
  with fit lineage_ok[OF ok, of p] show ?thesis
    by (auto simp: reduceAdminAuthority_def e Let_def lineage_alone_def)
next
  case (ActionRecorded p)
  then show ?thesis by (simp add: reduceAdminAuthority_def e Let_def account_ok_frame[OF ok])
next
  case (ClientApproved ow client version t)
  then show ?thesis by (simp add: reduceAdminAuthority_def e Let_def put_approval_ok[OF ok])
next
  case (ClientApprovalWithdrawn ow client version r t)
  with fit show ?thesis by (auto simp: reduceAdminAuthority_def e Let_def put_approval_ok[OF ok])
next
  case (MetadataRead w d a)
  then show ?thesis using ok by (simp add: reduceAdminAuthority_def e Let_def)
next
  case (CredentialReplayDetected g l n t r)
  then show ?thesis using ok by (simp add: reduceAdminAuthority_def e Let_def)
qed (use fit reduce_terminal_ok[OF ok] in \<open>auto simp: reduceAdminAuthority_def e Let_def\<close>)

end
