(* ===== verification/AdminProjection.thy ===== *)
theory AdminProjection
  imports AdminInvariant
begin

text \<open>
  Every decision of \<open>decideAdminAuthority\<close> projects: its events pass every check of
  \<open>reduceAdminAuthority\<close>, in order, and keep the invariant of the account.
\<close>

section \<open>Events in order\<close>

fun number_at ::
  "admin_command \<Rightarrow> admin_account \<Rightarrow> admin_ctx \<Rightarrow> admin_grant option \<Rightarrow> nat \<Rightarrow> admin_body list \<Rightarrow> admin_event list" where
  "number_at command s ctx ag n [] = []"
| "number_at command s ctx ag n (b # bs) = emit_event command s ctx ag n b # number_at command s ctx ag (Suc n) bs"

lemma number_at_zip:
  "number_at command s ctx ag n bs = map (\<lambda>(i, b). emit_event command s ctx ag i b) (zip [n..<n + length bs] bs)"
proof (induction bs arbitrary: n)
  case (Cons b bs)
  have "[n..<n + length (b # bs)] = n # [Suc n..<Suc n + length bs]" by (subst upt_conv_Cons) simp_all
  then show ?case using Cons.IH[of "Suc n"] by simp
qed simp

lemma number_from_at: "number_from command s ctx ag bs = number_at command s ctx ag 0 bs"
  using number_at_zip[of command s ctx ag 0 bs] by (simp add: number_from_def)

lemma length_number_at [simp]: "length (number_at command s ctx ag n bs) = length bs"
  by (induction bs arbitrary: n) simp_all

lemma bodies_number_at: "map ae_body (number_at command s ctx ag n bs) = bs"
  by (induction bs arbitrary: n) (simp_all add: emit_event_def Let_def)

lemma emit_event_fields [simp]:
  "ae_body (emit_event command s ctx ag n b) = b" "ae_owner_user_id (emit_event command s ctx ag n b) = ac_owner_user_id ctx"
  "ae_schema_version (emit_event command s ctx ag n b) = 1" "ae_stream_kind (emit_event command s ctx ag n b) = ''account''"
  "ae_occurred_at (emit_event command s ctx ag n b) = ac_now ctx"
  "ae_actor_user (emit_event command s ctx ag n b) = human_user (ac_actor ctx)"
  by (simp_all add: emit_event_def Let_def)

definition chain ::
  "crypto \<Rightarrow> admin_command \<Rightarrow> admin_account \<Rightarrow> admin_ctx \<Rightarrow> admin_grant option \<Rightarrow> admin_account \<Rightarrow> nat \<Rightarrow> admin_body list \<Rightarrow> bool" where
  "chain cr command s0 ctx ag s n bs \<longleftrightarrow> (\<exists>t. fold_events (reduceAdminAuthority cr) (Some s)
     (number_at command s0 ctx ag n bs) = Inr (Some t) \<and> account_ok cr t)"

lemma chain_Nil: "account_ok cr s \<Longrightarrow> chain cr command s0 ctx ag s n []"
  by (simp add: chain_def)

lemma chain_Cons:
  assumes "account_ok cr s" and "fits cr (ac_owner_user_id ctx) s b"
    and "\<And>t. account_ok cr t \<Longrightarrow> reduceAdminAuthority cr (Some s) (emit_event command s0 ctx ag n b) = Inr t \<Longrightarrow>
      chain cr command s0 ctx ag t (Suc n) bs"
  shows "chain cr command s0 ctx ag s n (b # bs)"
proof -
  from fitting_step[OF assms(1), of "emit_event command s0 ctx ag n b"] assms(2)
  obtain t where t: "reduceAdminAuthority cr (Some s) (emit_event command s0 ctx ag n b) = Inr t" "account_ok cr t" by auto
  with assms(3)[OF t(2,1)] show ?thesis by (auto simp: chain_def)
qed

lemma chain_single: "account_ok cr s \<Longrightarrow> fits cr (ac_owner_user_id ctx) s b \<Longrightarrow> chain cr command s0 ctx ag s n [b]"
  by (intro chain_Cons chain_Nil)

lemma terminal_event:
  "reduceAdminAuthority cr (Some s) (emit_event command s0 ctx ag n (DelegationRevoked p)) =
     reduce_terminal s GrantRevoked (ac_now ctx) p"
  by (simp add: reduceAdminAuthority_def Let_def)

lemma reduce_terminal_grants:
  "reduce_terminal s st occurred p = Inr t \<Longrightarrow> \<exists>g. obj_get (aa_grants s) (tp_grant_id p) = Some g \<and>
     aa_grants t = obj_put (aa_grants s) (tp_grant_id p) (terminate_grant st occurred (tp_reason_code p) g) \<and>
     aa_consents t = aa_consents s"
  by (auto simp: reduce_terminal_def split: option.splits)

lemma chain_revocations:
  assumes "account_ok cr s"
    and "\<And>b. b \<in> set bs \<Longrightarrow> \<exists>p. b = DelegationRevoked p \<and> obj_get (aa_grants s) (tp_grant_id p) \<noteq> None"
  shows "chain cr command s0 ctx ag s n bs"
  using assms
proof (induction bs arbitrary: s n)
  case Nil
  then show ?case by (simp add: chain_Nil)
next
  case (Cons b bs)
  obtain p where p: "b = DelegationRevoked p" "obj_get (aa_grants s) (tp_grant_id p) \<noteq> None"
    using Cons.prems(2)[of b] by auto
  show ?case
  proof (rule chain_Cons)
    fix t assume t: "account_ok cr t" "reduceAdminAuthority cr (Some s) (emit_event command s0 ctx ag n b) = Inr t"
    then have "reduce_terminal s GrantRevoked (ac_now ctx) p = Inr t" by (simp add: p(1) terminal_event)
    from reduce_terminal_grants[OF this] show "chain cr command s0 ctx ag t (Suc n) bs"
      using Cons.prems(2) by (intro Cons.IH[OF t(1)]) (force split: if_splits)
  qed (use Cons.prems(1) p in simp_all)
qed

section \<open>The verdicts\<close>

lemma terminalPayload_grant [simp]: "tp_grant_id (terminalPayload g s now r) = ag_grant_id g"
  by (simp add: terminalPayload_def Let_def)

lemma keyed_grant: "account_ok cr s \<Longrightarrow> obj_get (aa_grants s) i = Some g \<Longrightarrow> ag_grant_id g = i"
  by (auto simp: account_ok_def rows_keyed_def dest: keyed_get)

lemma keyed_consent: "account_ok cr s \<Longrightarrow> obj_get (aa_consents s) i = Some c \<Longrightarrow> co_consent_receipt_id c = i"
  by (auto simp: account_ok_def rows_keyed_def dest: keyed_get)

lemma keyed_lineage: "account_ok cr s \<Longrightarrow> obj_get (aa_lineages s) i = Some l \<Longrightarrow> li_credential_lineage_id l = i"
  by (auto simp: account_ok_def rows_keyed_def dest: keyed_get)

lemma deny_simps [simp]: "vd_bodies (deny r) = []" "vd_reason (deny r) = Some r" "vd_grant (deny r) = None"
  by (simp_all add: deny_def)

lemma allow_simps [simp]: "vd_bodies (allow bs) = bs" "vd_reason (allow bs) = None" "vd_grant (allow bs) = None"
  by (simp_all add: allow_def)

text \<open>The adapter's promise: an approval it read under its lock is one the account has seen.\<close>

definition policy_agrees :: "crypto \<Rightarrow> admin_account \<Rightarrow> admin_ctx \<Rightarrow> bool" where
  "policy_agrees cr s ctx \<longleftrightarrow> (\<forall>p a. ac_client_policy ctx = Some p \<longrightarrow> cl_approval p = Some a \<longrightarrow>
     obj_get (obj_or_empty (aa_client_approvals s))
       (approval_key cr (ca_owner_user_id a) (ca_client_id a) (ca_verification_version a)) \<noteq> None)"

lemma client_approval_chain:
  assumes ok: "account_ok cr s" and agrees: "policy_agrees cr s ctx"
  shows "chain cr command s ctx ag s n (vd_bodies (decide_client_approval command s ctx))"
proof -
  have revs: "chain cr command s ctx ag t m (linked_revocations s ctx reason ids)"
    if "account_ok cr t" "aa_grants t = aa_grants s" for t m reason ids
    using that(1)
  proof (rule chain_revocations)
    fix b assume "b \<in> set (linked_revocations s ctx reason ids)"
    then obtain gid g where "obj_get (aa_grants s) gid = Some g"
      "b = DelegationRevoked (terminalPayload g s (ac_now ctx) reason)"
      by (auto simp: linked_revocations_def split: option.split_asm if_split_asm) metis+
    with keyed_grant[OF ok] that(2) show "\<exists>p. b = DelegationRevoked p \<and> obj_get (aa_grants t) (tp_grant_id p) \<noteq> None"
      by auto
  qed
  have wd: "chain cr command s ctx ag s n (ClientApprovalWithdrawn owner client version reason now #
      linked_revocations s ctx reason ids)"
    if "fits cr (ac_owner_user_id ctx) s (ClientApprovalWithdrawn owner client version reason now)"
    for owner client version reason now ids
  proof (rule chain_Cons[OF ok that])
    fix t assume t: "account_ok cr t" "reduceAdminAuthority cr (Some s)
      (emit_event command s ctx ag n (ClientApprovalWithdrawn owner client version reason now)) = Inr t"
    then have "aa_grants t = aa_grants s"
      by (auto simp: reduceAdminAuthority_def Let_def put_approval_def split: option.splits)
    with t(1) show "chain cr command s ctx ag t (Suc n) (linked_revocations s ctx reason ids)" by (rule revs)
  qed
  have single: "chain cr command s ctx ag s n [b]" if "fits cr (ac_owner_user_id ctx) s b" for b
    using ok that by (rule chain_single)
  show ?thesis
    using agrees wd single
    by (auto simp: decide_client_approval_def policy_agrees_def approval_matches_def chain_Nil[OF ok]
        split: option.splits admin_command.splits)
qed

lemma prepare_chain:
  assumes "account_ok cr s"
  shows "chain cr command s ctx ag s n (vd_bodies (decide_prepare_consent cr s ctx c))"
  using assms by (auto simp: decide_prepare_consent_def chain_Nil intro!: chain_single split: admin_actor.splits)

lemma replaced_free:
  assumes ok: "account_ok cr s" and conn: "am_connection_id p = am_connection_id (co_manifest c)"
    and only: "\<not> list_ex (\<lambda>g. am_connection_id g = am_connection_id (co_manifest c) \<and> ag_state g = GrantIsActive \<and>
      Some (ag_grant_id g) \<noteq> replaces) (obj_values (aa_grants s))"
    and over: "\<And>g. Option.bind replaces (obj_get (aa_grants t)) = Some g \<Longrightarrow> ag_state g \<noteq> GrantIsActive"
    and same: "\<And>i. Some i \<noteq> replaces \<Longrightarrow> obj_get (aa_grants t) i = obj_get (aa_grants s) i"
  shows "grant_free t p"
  unfolding grant_free_def
proof (intro allI impI)
  fix i g assume g: "obj_get (aa_grants t) i = Some g" "am_connection_id g = am_connection_id p"
  show "ag_state g \<noteq> GrantIsActive"
  proof (cases "Some i = replaces")
    case True
    with over[of g] g(1) show ?thesis by auto
  next
    case False
    with same[of i] g(1) have s: "obj_get (aa_grants s) i = Some g" by simp
    then have "g \<in> set (obj_values (aa_grants s))" "ag_grant_id g = i" by (auto intro: obj_get_values keyed_grant[OF ok])
    with only g(2) conn False show ?thesis by (auto simp: list_ex_iff)
  qed
qed

lemma grant_chain:
  assumes ok: "account_ok cr s"
  shows "chain cr command s ctx ag s n (vd_bodies (decide_grant cr s ctx gid receipt replaces))"
proof (cases "vd_bodies (decide_grant cr s ctx gid receipt replaces) = []")
  case True
  then show ?thesis by (simp add: chain_Nil[OF ok])
next
  case False
  then obtain user session c where c: "obj_get (aa_consents s) receipt = Some c" "consent_usable cr ctx session c"
    and new: "obj_get (aa_grants s) gid = None"
    and only: "\<not> list_ex (\<lambda>g. am_connection_id g = am_connection_id (co_manifest c) \<and> ag_state g = GrantIsActive \<and>
        Some (ag_grant_id g) \<noteq> replaces) (obj_values (aa_grants s))"
    and prev: "replaces = None \<or> Option.bind replaces (obj_get (aa_grants s)) \<noteq> None"
    and bodies: "vd_bodies (decide_grant cr s ctx gid receipt replaces) =
      (case Option.bind replaces (obj_get (aa_grants s)) of None \<Rightarrow> []
       | Some g \<Rightarrow> if ag_state g = GrantIsActive \<or> ag_state g = GrantSuspended
           then [DelegationRevoked (terminalPayload g s (ac_now ctx) ''replaced'')] else []) @
       [DelegationGranted (granted_payload ctx gid replaces c)]"
    by (auto simp: decide_grant_def Let_def split: admin_actor.splits option.splits if_split_asm)
  let ?p = "granted_payload ctx gid replaces c"
  have valid: "manifest_ok cr (co_manifest c) (ac_now ctx) True" and open_c: "co_consumed_at c = None"
    using c(2) by (simp_all add: consent_usable_def manifest_valid_iff)
  have man: "manifest_static cr ?p" "am_connection_id ?p = am_connection_id (co_manifest c)"
    using manifest_ok_static[OF valid] same_manifest_static[OF granted_payload_manifest]
      same_manifest_fields(2)[OF granted_payload_manifest] by auto
  have key: "co_consent_receipt_id c = receipt" by (rule keyed_consent[OF ok c(1)])
  have granted: "chain cr command s ctx ag t m [DelegationGranted ?p]"
    if t: "account_ok cr t" "obj_get (aa_grants t) gid = None" "aa_consents t = aa_consents s"
      "\<And>g. Option.bind replaces (obj_get (aa_grants t)) = Some g \<Longrightarrow> ag_state g \<noteq> GrantIsActive"
      "\<And>i. Some i \<noteq> replaces \<Longrightarrow> obj_get (aa_grants t) i = obj_get (aa_grants s) i" for t m
    using t man c(1) open_c key replaced_free[OF ok man(2) only, of t]
    by (intro chain_single) (auto simp: consent_open_def)
  show ?thesis
  proof (cases "Option.bind replaces (obj_get (aa_grants s))")
    case None
    with prev have "replaces = None" by simp
    then show ?thesis unfolding bodies using None new ok granted[of s n] by simp
  next
    case (Some g)
    then obtain r where r: "replaces = Some r" "obj_get (aa_grants s) r = Some g" by (cases replaces) auto
    note gk = keyed_grant[OF ok r(2)]
    show ?thesis
    proof (cases "ag_state g = GrantIsActive \<or> ag_state g = GrantSuspended")
      case False
      then show ?thesis unfolding bodies Some using new ok r granted[of s n] by simp
    next
      case True
      have "chain cr command s ctx ag s n [DelegationRevoked (terminalPayload g s (ac_now ctx) ''replaced''), DelegationGranted ?p]"
      proof (rule chain_Cons[OF ok])
        fix t assume t: "account_ok cr t" "reduceAdminAuthority cr (Some s)
          (emit_event command s ctx ag n (DelegationRevoked (terminalPayload g s (ac_now ctx) ''replaced''))) = Inr t"
        from reduce_terminal_grants[OF t(2)[unfolded terminal_event]] gk r(2)
        have "aa_grants t = obj_put (aa_grants s) r (terminate_grant GrantRevoked (ac_now ctx)
            (tp_reason_code (terminalPayload g s (ac_now ctx) ''replaced'')) g)" "aa_consents t = aa_consents s" by auto
        then show "chain cr command s ctx ag t (Suc n) [DelegationGranted ?p]"
          using new r t(1) by (intro granted) (auto split: if_splits)
      qed (use gk r in simp)
      with True show ?thesis unfolding bodies Some by simp
    qed
  qed
qed

lemma narrow_chain:
  assumes ok: "account_ok cr s" and g: "obj_get (aa_grants s) i = Some g"
  shows "chain cr command s ctx ag s n (vd_bodies (decide_narrow cr s ctx g m digest receipt))"
proof -
  have "manifest_static cr m" if "narrowing cr m g (ac_now ctx)"
    using that manifest_ok_static by (auto simp: narrowing_def manifest_valid_iff)
  then show ?thesis
    using keyed_grant[OF ok g] g
    by (auto simp: decide_narrow_def chain_Nil[OF ok] consent_open_def narrowing_def
        intro!: chain_single[OF ok] split: admin_actor.splits option.splits)
qed

lemma credential_chain:
  assumes ok: "account_ok cr s" and g: "obj_get (aa_grants s) i = Some g" and live: "grant_live ctx g"
  shows "chain cr command s ctx ag s n (vd_bodies (decide_credential command s ctx g))"
proof -
  note key = keyed_grant[OF ok g]
  have act: "grant_active s i" using g live by (simp add: grant_active_def grant_live_def)
  have issue: "chain cr command s ctx ag s n (vd_bodies (decide_issue s ctx g l))" for l
  proof -
    have "lineage_alone s \<lparr>cd_grant_id = ag_grant_id g, cd_credential_lineage_id = l, cd_generation = a,
        cd_scope_names = b, cd_access_expires_at = c, cd_refresh_deadline = d\<rparr>"
      if none: "\<not> list_ex (\<lambda>l. li_grant_id l = ag_grant_id g) (obj_values (aa_lineages s))" for a b c d
      using key act none obj_get_values[of "aa_lineages s"] by (auto simp: lineage_alone_def list_ex_iff)
    then show ?thesis by (auto simp: decide_issue_def chain_Nil[OF ok] intro!: chain_single[OF ok])
  qed
  have rotate: "chain cr command s ctx ag s n (vd_bodies (decide_rotate s ctx g b lid gen scopes))" for b lid gen scopes
  proof (cases "obj_get (aa_lineages s) lid")
    case None
    then show ?thesis by (simp add: decide_rotate_def chain_Nil[OF ok])
  next
    case (Some l)
    have alone: "k = lid" if "obj_get (aa_lineages s) k = Some l'" "li_grant_id l' = li_grant_id l" for k l'
      using account_okD(3)[OF ok] that Some unfolding lineages_ok_def by blast
    have two: "chain cr command s ctx ag s n [CredentialReplayDetected a1 a2 a3 a4 a5,
        DelegationRevoked (terminalPayload g s t r)]" for a1 a2 a3 a4 a5 t r
      using key g by (intro chain_Cons[OF ok] chain_single)
        (auto simp: reduceAdminAuthority_def Let_def)
    have next_gen: "chain cr command s ctx ag s n [CredentialRotated
        \<lparr>cd_grant_id = ag_grant_id g, cd_credential_lineage_id = li_credential_lineage_id l,
         cd_generation = li_generation l + 1, cd_scope_names = a, cd_access_expires_at = b, cd_refresh_deadline = c\<rparr>]"
      if "li_grant_id l = ag_grant_id g" for a b c
    proof (rule chain_single[OF ok])
      have "grant_active s (ag_grant_id g)" using key act by simp
      then show "fits cr (ac_owner_user_id ctx) s (CredentialRotated
        \<lparr>cd_grant_id = ag_grant_id g, cd_credential_lineage_id = li_credential_lineage_id l,
         cd_generation = li_generation l + 1, cd_scope_names = a, cd_access_expires_at = b, cd_refresh_deadline = c\<rparr>)"
        unfolding fits.simps lineage_alone_def credential_payload.simps keyed_lineage[OF ok Some]
        using Some alone[unfolded that] by blast
    qed
    show ?thesis
      using next_gen two by (simp add: decide_rotate_def Some chain_Nil[OF ok])
  qed
  show ?thesis using issue rotate
    by (auto simp: decide_credential_def chain_Nil[OF ok] split: admin_command.splits)
qed

lemma on_grant_chain:
  assumes ok: "account_ok cr s" and g: "obj_get (aa_grants s) i = Some g"
  shows "chain cr command s ctx ag s n (vd_bodies (decide_on_grant cr command s ctx g))"
proof -
  note key = keyed_grant[OF ok g]
  have terminal: "chain cr command s ctx ag s n [F (terminalPayload g s t r)]"
    if "F = DelegationRevoked \<or> F = DelegationSuspended \<or> (\<exists>a b. F = (\<lambda>p. DelegationExpired p a b))" for F t r
    using that key g by (intro chain_single[OF ok]) auto
  have ending: "chain cr command s ctx ag s n (vd_bodies (decide_end command s ctx g r))" for r
    using terminal[of DelegationRevoked] terminal[of DelegationSuspended]
    by (auto simp: decide_end_def Let_def chain_Nil[OF ok])
  have expire: "chain cr command s ctx ag s n (vd_bodies (decide_expire s ctx g))"
    using terminal[of "\<lambda>p. DelegationExpired p (am_expires_at g) (ac_now ctx)"]
    by (auto simp: decide_expire_def chain_Nil[OF ok])
  have withdraw: "chain cr command s ctx ag s n (vd_bodies (decide_withdraw ctx g ws r))" for ws r
    using key g by (auto simp: decide_withdraw_def chain_Nil[OF ok] intro!: chain_single[OF ok] split: admin_actor.splits)
  have meta: "chain cr command s ctx ag s n (vd_bodies (metadata_read ctx ws))" for ws
    by (auto simp: metadata_read_def intro!: chain_single[OF ok])
  have reading: "chain cr command s ctx ag s n (vd_bodies (decide_read cr ctx g ws))" for ws
    using meta by (simp add: decide_read_def chain_Nil[OF ok])
  show ?thesis
    using ending expire withdraw meta reading narrow_chain[OF ok g] credential_chain[OF ok g]
    by (auto simp: decide_on_grant_def chain_Nil[OF ok] split: admin_command.splits)
qed

lemma verdict_chain:
  assumes ok: "account_ok cr s" and agrees: "policy_agrees cr s ctx"
  shows "chain cr command s ctx ag s n (vd_bodies (admin_verdict cr command s ctx))"
proof -
  have rest: "chain cr command s ctx ag s n (vd_bodies (case Option.bind (cmd_grant_id command) (obj_get (aa_grants s)) of
      None \<Rightarrow> deny ''grant_unavailable'' | Some g \<Rightarrow> decide_on_grant cr command s ctx g))"
    using on_grant_chain[OF ok] by (auto simp: chain_Nil[OF ok] split: option.splits bind_splits)
  show ?thesis
    using client_approval_chain[OF assms] prepare_chain[OF ok] grant_chain[OF ok] rest
    by (auto simp: admin_verdict_def chain_Nil[OF ok] split: admin_command.splits)
qed

lemma authority_projects:
  assumes ok: "account_ok cr s" and agrees: "policy_agrees cr s ctx"
  shows "\<exists>t. fold_events (reduceAdminAuthority cr) (Some s) (ad_events (decideAdminAuthority cr command s ctx)) =
    Inr (Some t) \<and> account_ok cr t"
proof -
  let ?v = "admin_verdict cr command s ctx"
  let ?es = "number_from command s ctx (audit_grant_of command s ctx) (vd_bodies ?v)"
  from verdict_chain[OF assms, of command "audit_grant_of command s ctx" 0] obtain t where
    t: "fold_events (reduceAdminAuthority cr) (Some s) ?es = Inr (Some t)" "account_ok cr t"
    by (auto simp: chain_def number_from_at)
  obtain e where e: "ad_events (decideAdminAuthority cr command s ctx) = ?es @ [e]" "\<exists>p. ae_body e = ActionRecorded p"
    "ae_schema_version e = 1" "ae_stream_kind e = ''account''"
    by (auto simp: decideAdminAuthority_def finish_def Let_def)
  from fitting_step[OF t(2), of e] e(2-4) obtain u where "reduceAdminAuthority cr (Some t) e = Inr u" "account_ok cr u" by auto
  with t(1) e(1) show ?thesis by (simp add: fold_events_append)
qed

end
