(* ===== verification/AdminEffects.thy ===== *)
theory AdminEffects
  imports AdminProjection
begin

text \<open>
  What the events of an account do to its grants and its rate buckets: any accepted log keeps every
  grant and never revives one, a decision never widens one, attempts are counted.
\<close>

section \<open>Any accepted log\<close>

definition grant_le :: "admin_grant \<Rightarrow> admin_grant \<Rightarrow> bool" where
  "grant_le g h \<longleftrightarrow> ag_grant_id h = ag_grant_id g \<and> ag_owner_user_id h = ag_owner_user_id g \<and>
     ag_created_at h = ag_created_at g \<and> (ag_state h = GrantIsActive \<longrightarrow> ag_state g = GrantIsActive) \<and>
     set (ag_withdrawn_workspace_ids g) \<subseteq> set (ag_withdrawn_workspace_ids h)"

lemma grant_le_refl [simp]: "grant_le g g"
  by (simp add: grant_le_def)

lemma grant_le_trans: "grant_le f g \<Longrightarrow> grant_le g h \<Longrightarrow> grant_le f h"
  by (auto simp: grant_le_def)

lemma set_js_set [simp]: "set (js_set xs) = set xs"
  by (simp add: js_set_def set_add_keys)

lemma grant_le_terminate: "st \<noteq> GrantIsActive \<Longrightarrow> grant_le g (terminate_grant st t r g)"
  by (simp add: grant_le_def terminate_grant_def)

lemma reduce_grants:
  assumes "reduceAdminAuthority cr (Some s) e = Inr t"
  shows "(case ae_body e of
      DelegationGranted p \<Rightarrow> obj_get (aa_grants s) (gp_grant_id p) = None \<and>
        aa_grants t = obj_put (aa_grants s) (gp_grant_id p) (grant_of_payload p)
    | DelegationNarrowed p \<Rightarrow> (\<exists>g. obj_get (aa_grants s) (np_grant_id p) = Some g \<and> aa_grants t =
        obj_put (aa_grants s) (np_grant_id p) (narrow_grant g (np_manifest p) (np_new_manifest_digest p) (np_consent_receipt_id p)))
    | DelegationRevoked p \<Rightarrow> (\<exists>g o' r. obj_get (aa_grants s) (tp_grant_id p) = Some g \<and>
        aa_grants t = obj_put (aa_grants s) (tp_grant_id p) (terminate_grant GrantRevoked o' r g))
    | DelegationSuspended p \<Rightarrow> (\<exists>g o' r. obj_get (aa_grants s) (tp_grant_id p) = Some g \<and>
        aa_grants t = obj_put (aa_grants s) (tp_grant_id p) (terminate_grant GrantSuspended o' r g))
    | DelegationExpired p _ _ \<Rightarrow> (\<exists>g o' r. obj_get (aa_grants s) (tp_grant_id p) = Some g \<and>
        aa_grants t = obj_put (aa_grants s) (tp_grant_id p) (terminate_grant GrantExpired o' r g))
    | WorkspaceAccessWithdrawn gid w _ _ _ \<Rightarrow> (\<exists>g. obj_get (aa_grants s) gid = Some g \<and> aa_grants t =
        obj_put (aa_grants s) gid (g\<lparr>ag_withdrawn_workspace_ids := js_set (ag_withdrawn_workspace_ids g @ [w])\<rparr>))
    | _ \<Rightarrow> aa_grants t = aa_grants s)"
proof (cases "ae_body e")
  case (DelegationRevoked p)
  with assms show ?thesis
    by (auto simp: reduceAdminAuthority_def Let_def split: if_split_asm dest!: reduce_terminal_grants)
next
  case (DelegationSuspended p)
  with assms show ?thesis
    by (auto simp: reduceAdminAuthority_def Let_def split: if_split_asm dest!: reduce_terminal_grants)
next
  case (DelegationExpired p x y)
  with assms show ?thesis
    by (auto simp: reduceAdminAuthority_def Let_def split: if_split_asm dest!: reduce_terminal_grants)
next
  case (DelegationGranted p)
  with assms show ?thesis
    by (auto simp: reduceAdminAuthority_def Let_def reduce_granted_def split: if_split_asm option.split_asm)
next
  case (DelegationNarrowed p)
  with assms show ?thesis
    by (auto simp: reduceAdminAuthority_def Let_def reduce_narrowed_def split: if_split_asm option.split_asm)
next
  case (WorkspaceAccessWithdrawn gid w u x r)
  with assms show ?thesis
    by (auto simp: reduceAdminAuthority_def Let_def reduce_withdrawn_def split: if_split_asm option.split_asm)
qed (use assms in \<open>auto simp: reduceAdminAuthority_def Let_def reduce_connection_prepared_def
    reduce_connection_cancelled_def reduce_routine_def put_approval_def put_lineage_def
    split: if_split_asm option.split_asm sum.split_asm\<close>)

lemma step_grant_le:
  assumes "reduceAdminAuthority cr (Some s) e = Inr t" and "obj_get (aa_grants s) i = Some g"
  shows "\<exists>h. obj_get (aa_grants t) i = Some h \<and> grant_le g h"
  using reduce_grants[OF assms(1)] assms(2)
  by (auto simp: grant_le_terminate split: admin_body.split_asm if_split_asm)
     (auto simp: grant_le_def)

lemma fold_grant_le:
  assumes "fold_events (reduceAdminAuthority cr) (Some s) es = Inr (Some t)" and "obj_get (aa_grants s) i = Some g"
  shows "\<exists>h. obj_get (aa_grants t) i = Some h \<and> grant_le g h"
  using assms
proof (induction es arbitrary: s g)
  case (Cons e es)
  then obtain u where u: "reduceAdminAuthority cr (Some s) e = Inr u"
    "fold_events (reduceAdminAuthority cr) (Some u) es = Inr (Some t)" by (auto simp: bind_result_Inr)
  from step_grant_le[OF u(1) Cons.prems(2)] obtain h where "obj_get (aa_grants u) i = Some h" "grant_le g h" by blast
  with Cons.IH[OF u(2)] grant_le_trans show ?case by blast
qed auto

section \<open>Narrower grants\<close>

definition manifest_narrower :: "'a admin_manifest_scheme \<Rightarrow> 'b admin_manifest_scheme \<Rightarrow> bool" where
  "manifest_narrower a b \<longleftrightarrow>
     am_admin_identity_id a = am_admin_identity_id b \<and> am_connection_id a = am_connection_id b \<and>
     am_client_id a = am_client_id b \<and> am_resource a = am_resource b \<and>
     am_registry_version a = am_registry_version b \<and> am_availability_digest a = am_availability_digest b \<and>
     set (am_capability_names a) \<subseteq> set (am_capability_names b) \<and> set (am_scope_names a) \<subseteq> set (am_scope_names b) \<and>
     set (am_workspace_ids a) \<subseteq> set (am_workspace_ids b) \<and>
     set (am_created_scope_names a) \<subseteq> set (am_created_scope_names b) \<and>
     set (am_worker_scope_ceiling a) \<subseteq> set (am_worker_scope_ceiling b) \<and>
     (am_mode b = Granular \<longrightarrow> am_mode a = Granular) \<and>
     (am_workspace_selector a = OwnedAndSelected \<longrightarrow> am_workspace_selector b = OwnedAndSelected) \<and>
     am_expires_at a \<le> am_expires_at b \<and> am_refresh_deadline a = am_refresh_deadline b \<and>
     targets_narrower (am_target_rules a) (am_target_rules b) \<and>
     renewals_narrower (am_renewal_limits a) (am_renewal_limits b) \<and>
     issuance_narrower (am_issuance_limits a) (am_issuance_limits b)"

lemma subset_list_set: "subset_list a b \<longleftrightarrow> set a \<subseteq> set b"
  by (auto simp: subset_list_def list_all_iff)

lemma narrower_refl: "same_manifest a b \<Longrightarrow> manifest_narrower a b"
  by (auto simp: manifest_narrower_def same_manifest_fields targets_narrower_def renewals_narrower_def
      issuance_narrower_def subset_list_set)

lemma targets_trans: "targets_narrower a b \<Longrightarrow> targets_narrower b c \<Longrightarrow> targets_narrower a c"
  by (auto simp: targets_narrower_def subset_list_set)

lemma renewals_trans: "renewals_narrower a b \<Longrightarrow> renewals_narrower b c \<Longrightarrow> renewals_narrower a c"
  by (auto simp: renewals_narrower_def subset_list_set)

lemma issuance_trans: "issuance_narrower a b \<Longrightarrow> issuance_narrower b c \<Longrightarrow> issuance_narrower a c"
  by (auto simp: issuance_narrower_def)

lemma narrower_trans: "manifest_narrower a b \<Longrightarrow> manifest_narrower b c \<Longrightarrow> manifest_narrower a c"
  unfolding manifest_narrower_def by (elim conjE, intro conjI) (metis order_trans targets_trans renewals_trans issuance_trans)+

text \<open>Validation ties the selector of workspaces to the mode, and the mode does not widen.\<close>

lemma narrowing_narrower:
  assumes "narrowing cr m g now" and "manifest_static cr g"
  shows "manifest_narrower m g"
proof -
  from assms have "am_workspace_selector m = (if am_mode m = Granular then Selected else OwnedAndSelected)"
    "am_workspace_selector g = (if am_mode g = Granular then Selected else OwnedAndSelected)"
    by (auto simp: narrowing_def manifest_valid_iff manifest_ok_def manifest_static_def identity_ok_def)
  with assms(1) show ?thesis
    by (cases "am_mode m") (auto simp: narrowing_def manifest_narrower_def subset_list_set)
qed

text \<open>What the narrower grant may do, the wider one may.\<close>

lemma effective_iff:
  "n \<in> set (adminEffectiveCapabilities cr m x) \<longleftrightarrow> (\<exists>ds live_set prior live.
     ADMIN_AVAILABILITY (am_registry_version m) = Some ds \<and> ADMIN_AVAILABILITY ADMIN_REGISTRY_VERSION = Some live_set \<and>
     am_resource m = ADMIN_RESOURCE \<and> Some (am_availability_digest m) = adminAvailabilityDigest cr (am_registry_version m) \<and>
     n \<in> set (am_capability_names m) \<and> obj_get ds n = Some prior \<and> obj_get live_set n = Some live \<and>
     cp_available prior \<and> cp_available live \<and> cp_scope prior = cp_scope live \<and>
     cp_authority_revision prior = cp_authority_revision live \<and>
     cp_scope prior \<in> set (am_scope_names m) \<and> cp_scope prior \<in> set x)"
proof (cases "ADMIN_AVAILABILITY (am_registry_version m)")
  case ds: (Some ds)
  show ?thesis
  proof (cases "ADMIN_AVAILABILITY ADMIN_REGISTRY_VERSION")
    case (Some live_set)
    show ?thesis
      by (cases "obj_get ds n"; cases "obj_get live_set n"; simp add: adminEffectiveCapabilities_def ds Some; blast)
  qed (simp add: adminEffectiveCapabilities_def)
qed (simp add: adminEffectiveCapabilities_def)

lemma effective_subset:
  assumes "manifest_narrower a b" and "set x \<subseteq> set y"
  shows "set (adminEffectiveCapabilities cr a x) \<subseteq> set (adminEffectiveCapabilities cr b y)"
proof
  fix n assume n: "n \<in> set (adminEffectiveCapabilities cr a x)"
  from assms(1) have m: "am_registry_version a = am_registry_version b" "am_resource a = am_resource b"
    "am_availability_digest a = am_availability_digest b" and sub: "set (am_capability_names a) \<subseteq> set (am_capability_names b)"
    "set (am_scope_names a) \<subseteq> set (am_scope_names b)" by (simp_all add: manifest_narrower_def)
  show "n \<in> set (adminEffectiveCapabilities cr b y)"
    using n sub assms(2) unfolding effective_iff m by blast
qed

definition narrows :: "admin_account \<Rightarrow> admin_body \<Rightarrow> bool" where
  "narrows s b \<longleftrightarrow> (\<forall>p g. b = DelegationNarrowed p \<longrightarrow> obj_get (aa_grants s) (np_grant_id p) = Some g \<longrightarrow>
     manifest_narrower (np_manifest p) g)"

lemma step_narrower:
  assumes "reduceAdminAuthority cr (Some s) e = Inr t" and "narrows s (ae_body e)" and "obj_get (aa_grants s) i = Some g"
  shows "\<exists>h. obj_get (aa_grants t) i = Some h \<and> manifest_narrower h g"
proof -
  have put: "\<exists>h. obj_get (aa_grants t) i = Some h \<and> manifest_narrower h g"
    if "aa_grants t = obj_put (aa_grants s) j k" "obj_get (aa_grants s) j = Some g'" "manifest_narrower k g'" for j k g'
    using that assms(3) by (auto intro: narrower_refl simp: same_manifest_def)
  have fresh: "\<exists>h. obj_get (aa_grants t) i = Some h \<and> manifest_narrower h g"
    if "aa_grants t = obj_put (aa_grants s) j k" "obj_get (aa_grants s) j = None" for j k
    using that assms(3) by (auto intro: narrower_refl simp: same_manifest_def)
  have same: "\<exists>h. obj_get (aa_grants t) i = Some h \<and> manifest_narrower h g" if "aa_grants t = aa_grants s"
    using that assms(3) by (auto intro: narrower_refl simp: same_manifest_def)
  have withdrawn: "manifest_narrower (g'\<lparr>ag_withdrawn_workspace_ids := w\<rparr>) g'" for g' w
    by (rule narrower_refl) (simp add: same_manifest_def admin_manifest.truncate_def)
  have narrowed: "manifest_narrower (narrow_grant g' (np_manifest p) d r) g'"
    if "ae_body e = DelegationNarrowed p" "obj_get (aa_grants s) (np_grant_id p) = Some g'" for p g' d r
    using assms(2) that narrower_trans[OF narrower_refl[OF narrow_grant_manifest]] unfolding narrows_def by blast
  note red = reduce_grants[OF assms(1)] and ended = narrower_refl[OF terminate_manifest]
  show ?thesis
  proof (cases "ae_body e")
    case (DelegationNarrowed p)
    with red narrowed put show ?thesis by fastforce
  next
    case (WorkspaceAccessWithdrawn gid w u x r)
    with red put withdrawn show ?thesis by fastforce
  next
    case (DelegationGranted p)
    with red fresh show ?thesis by simp
  next
    case (DelegationRevoked p)
    with red put ended show ?thesis by fastforce
  next
    case (DelegationSuspended p)
    with red put ended show ?thesis by fastforce
  next
    case (DelegationExpired p x y)
    with red put ended show ?thesis by fastforce
  qed (use red same in simp_all)
qed

end
