(* ===== verification/AdminGuards.thy ===== *)
theory AdminGuards
  imports AdminEffects
begin

text \<open>
  Which decision emits what: new and narrower grants come from a consent of the person, credentials go
  to the runtime of the grant's connection; and how a decision narrows and counts.
\<close>

section \<open>What a verdict emits\<close>

fun plain :: "admin_body \<Rightarrow> bool" where
  "plain (DelegationGranted _) = False"
| "plain (DelegationNarrowed _) = False"
| "plain (ActionRecorded _) = False"
| "plain (RoutineEvent _ _) = False"
| "plain (ConnectionPrepared _) = False"
| "plain (ConnectionCancelled _ _ _) = False"
| "plain _ = True"

lemma plain_client: "b \<in> set (vd_bodies (decide_client_approval command s ctx)) \<Longrightarrow> plain b"
  by (auto simp: decide_client_approval_def linked_revocations_def split: admin_command.split_asm option.split_asm if_split_asm)

lemma plain_prepare: "b \<in> set (vd_bodies (decide_prepare_consent cr s ctx c)) \<Longrightarrow> plain b"
  by (auto simp: decide_prepare_consent_def split: admin_actor.split_asm if_split_asm)

lemma plain_end: "b \<in> set (vd_bodies (decide_end command s ctx g r)) \<Longrightarrow> plain b"
  by (auto simp: decide_end_def Let_def split: if_split_asm)

lemma plain_expire: "b \<in> set (vd_bodies (decide_expire s ctx g)) \<Longrightarrow> plain b"
  by (auto simp: decide_expire_def split: if_split_asm)

lemma plain_withdraw: "b \<in> set (vd_bodies (decide_withdraw ctx g ws r)) \<Longrightarrow> plain b"
  by (auto simp: decide_withdraw_def split: admin_actor.split_asm if_split_asm)

lemma plain_meta: "b \<in> set (vd_bodies (metadata_read ctx ws)) \<Longrightarrow> plain b"
  by (auto simp: metadata_read_def)

lemma plain_read: "b \<in> set (vd_bodies (decide_read cr ctx g ws)) \<Longrightarrow> plain b"
  by (auto simp: decide_read_def metadata_read_def split: if_split_asm)

lemma plain_rotate: "b \<in> set (vd_bodies (decide_rotate s ctx g x l n scopes)) \<Longrightarrow> plain b"
  by (auto simp: decide_rotate_def split: option.split_asm if_split_asm)

lemma plain_issue: "b \<in> set (vd_bodies (decide_issue s ctx g l)) \<Longrightarrow> plain b"
  by (auto simp: decide_issue_def split: if_split_asm)

lemma plain_credential: "b \<in> set (vd_bodies (decide_credential command s ctx g)) \<Longrightarrow> plain b"
  by (auto simp: decide_credential_def split: if_split_asm admin_command.split_asm dest: plain_rotate plain_issue)

text \<open>A new grant: the person granted it from a live consent of their own session.\<close>

lemma grant_bodies:
  assumes "b \<in> set (vd_bodies (decide_grant cr s ctx gid receipt replaces))"
  shows "plain b \<or> (\<exists>session c. ac_actor ctx = HumanActor (ac_owner_user_id ctx) session \<and>
    obj_get (aa_consents s) receipt = Some c \<and> consent_usable cr ctx session c \<and> obj_get (aa_grants s) gid = None \<and>
    b = DelegationGranted (granted_payload ctx gid replaces c))"
  using assms
  by (auto simp: decide_grant_def Let_def split: admin_actor.split_asm option.split_asm if_split_asm)

lemma narrow_bodies:
  assumes "b \<in> set (vd_bodies (decide_narrow cr s ctx g m digest receipt))"
  shows "\<exists>session c p. ac_actor ctx = HumanActor (ac_owner_user_id ctx) session \<and>
    obj_get (aa_consents s) receipt = Some c \<and> co_session_binding c = session \<and> co_consumed_at c = None \<and>
    ac_now ctx < co_expires_at c \<and> co_manifest_digest c = digest \<and>
    canonicalAdminJson (cr_num_text cr) (manifest_value (co_manifest c)) =
      canonicalAdminJson (cr_num_text cr) (manifest_value m) \<and>
    narrowing cr m g (ac_now ctx) \<and> b = DelegationNarrowed p \<and> np_grant_id p = ag_grant_id g \<and> np_manifest p = m \<and>
    np_consent_receipt_id p = receipt \<and> vd_bodies (decide_narrow cr s ctx g m digest receipt) = [b]"
  using assms by (auto simp: decide_narrow_def split: admin_actor.split_asm option.split_asm if_split_asm)

lemma on_grant_bodies:
  assumes "b \<in> set (vd_bodies (decide_on_grant cr command s ctx g))"
  shows "plain b \<or> (\<exists>gid m digest receipt. command = NarrowDelegation gid m digest receipt \<and>
    ag_owner_user_id g = ac_owner_user_id ctx \<and> grant_live ctx g \<and>
    vd_bodies (decide_on_grant cr command s ctx g) = vd_bodies (decide_narrow cr s ctx g m digest receipt))"
  using assms
  by (auto simp: decide_on_grant_def split: if_split_asm admin_command.split_asm
      dest: plain_end plain_expire plain_withdraw plain_meta plain_read plain_credential)

lemma verdict_bodies:
  assumes "b \<in> set (vd_bodies (admin_verdict cr command s ctx))"
  shows "plain b \<or>
    (\<exists>gid receipt replaces. command = GrantDelegation gid receipt replaces \<and>
       vd_bodies (admin_verdict cr command s ctx) = vd_bodies (decide_grant cr s ctx gid receipt replaces)) \<or>
    (\<exists>gid m digest receipt g. command = NarrowDelegation gid m digest receipt \<and> obj_get (aa_grants s) gid = Some g \<and>
       ag_owner_user_id g = ac_owner_user_id ctx \<and> grant_live ctx g \<and>
       vd_bodies (admin_verdict cr command s ctx) = vd_bodies (decide_narrow cr s ctx g m digest receipt))"
proof (cases "cmd_client command = None")
  case False
  then have "plain b"
    using assms plain_client[of b command s ctx] by (auto simp: admin_verdict_def split: if_split_asm)
  then show ?thesis
    by (rule disjI1)
next
  case True
  let ?on = "\<lambda>g. vd_bodies (decide_on_grant cr command s ctx g)"
  have on: "plain b \<or> (\<exists>gid m digest receipt. command = NarrowDelegation gid m digest receipt \<and>
      ag_owner_user_id g = ac_owner_user_id ctx \<and> grant_live ctx g \<and> ?on g = vd_bodies (decide_narrow cr s ctx g m digest receipt))"
    if "b \<in> set (?on g)" for g
    using on_grant_bodies[OF that] .
  show ?thesis
  proof (cases "\<exists>c. command = PrepareConsent c")
    case True
    then show ?thesis
      using assms by (auto simp: admin_verdict_def split: if_split_asm dest: plain_prepare)
  next
    case nprep: False
    show ?thesis
    proof (cases "\<exists>gid receipt replaces. command = GrantDelegation gid receipt replaces")
      case True
      then show ?thesis
        using assms by (auto simp: admin_verdict_def split: if_split_asm)
    next
      case False
      then obtain i g where g: "cmd_grant_id command = Some i" "obj_get (aa_grants s) i = Some g"
        and v: "vd_bodies (admin_verdict cr command s ctx) = ?on g" "b \<in> set (?on g)"
        using assms nprep \<open>cmd_client command = None\<close>
        by (cases "Option.bind (cmd_grant_id command) (obj_get (aa_grants s))"; cases command)
          (auto simp: admin_verdict_def bind_eq_Some_conv split: if_split_asm option.split_asm)
      then show ?thesis
        using on[OF v(2)] by auto
    qed
  qed
qed

end
