(* ===== verification/AdminRuns.thy ===== *)
theory AdminRuns
  imports AdminGuards
begin

text \<open>
  Decisions on a stored account. The store keeps no session binding: the adapter fills the bindings in
  from its own table before a decision and blanks them before it stores the folded account. What one decision does to the grants.
\<close>

section \<open>Stored accounts\<close>

definition with_sessions :: "(string \<Rightarrow> string) \<Rightarrow> admin_account \<Rightarrow> admin_account" where
  "with_sessions bindings s = s\<lparr>aa_consents :=
     obj_map (\<lambda>c. c\<lparr>co_session_binding := bindings (co_consent_receipt_id c)\<rparr>) (aa_consents s)\<rparr>"

definition stored :: "admin_account \<Rightarrow> admin_account" where
  "stored s = with_sessions (\<lambda>_. []) s"

lemma obj_map_put: "obj_map f (obj_put ob k v) = obj_put (obj_map f ob) k (f v)"
  by (induction ob) (auto simp: obj_map_def obj_put_def)

lemma obj_map_comp: "obj_map f (obj_map g ob) = obj_map (f \<circ> g) ob"
  by (simp add: obj_map_def comp_def case_prod_beta)

lemma with_sessions_fields [simp]:
  "aa_grants (with_sessions b s) = aa_grants s" "aa_lineages (with_sessions b s) = aa_lineages s"
  "aa_rate_buckets (with_sessions b s) = aa_rate_buckets s" "aa_connections (with_sessions b s) = aa_connections s"
  "aa_routine (with_sessions b s) = aa_routine s" "aa_client_approvals (with_sessions b s) = aa_client_approvals s"
  "obj_get (aa_consents (with_sessions b s)) k =
     map_option (\<lambda>c. c\<lparr>co_session_binding := b (co_consent_receipt_id c)\<rparr>) (obj_get (aa_consents s) k)"
  by (simp_all add: with_sessions_def)

lemma stored_sessions [simp]: "stored (with_sessions b s) = stored s" "stored (stored s) = stored s"
  by (simp_all add: stored_def with_sessions_def obj_map_comp comp_def)

lemma keyed_sessions: "keyed co_consent_receipt_id (aa_consents (with_sessions b s)) \<longleftrightarrow>
    keyed co_consent_receipt_id (aa_consents s)"
proof -
  let ?s = "with_sessions b s"
  have "(\<forall>v. obj_get (aa_consents ?s) k = Some v \<longrightarrow> co_consent_receipt_id v = k) \<longleftrightarrow>
      (\<forall>v. obj_get (aa_consents s) k = Some v \<longrightarrow> co_consent_receipt_id v = k)" for k
    by (cases "obj_get (aa_consents s) k") simp_all
  moreover have "obj_wf (aa_consents ?s) \<longleftrightarrow> obj_wf (aa_consents s)" by (simp add: with_sessions_def)
  ultimately show ?thesis by (simp only: keyed_def)
qed

lemma account_ok_sessions [simp]: "account_ok cr (with_sessions b s) \<longleftrightarrow> account_ok cr s"
proof -
  have "(\<exists>c. obj_get (aa_consents (with_sessions b s)) k = Some c \<and> co_consumed_at c \<noteq> None) \<longleftrightarrow>
      (\<exists>c. obj_get (aa_consents s) k = Some c \<and> co_consumed_at c \<noteq> None)" for k
    by (cases "obj_get (aa_consents s) k") simp_all
  then have "grants_ok cr (with_sessions b s) \<longleftrightarrow> grants_ok cr s" by (simp only: grants_ok_def with_sessions_fields(1))
  moreover have "rows_keyed (with_sessions b s) \<longleftrightarrow> rows_keyed s" by (simp add: rows_keyed_def keyed_sessions)
  ultimately show ?thesis
    by (simp add: account_ok_def lineages_ok_def attempts_ok_def invitations_ok_def spend_ok_def grant_active_def routine_of_def)
qed

lemma account_ok_stored [simp]: "account_ok cr (stored s) \<longleftrightarrow> account_ok cr s"
  by (simp add: stored_def)

section \<open>Replay does not read the bindings\<close>

lemma stored_simps [simp]:
  "aa_grants (stored s) = aa_grants s" "aa_lineages (stored s) = aa_lineages s"
  "aa_rate_buckets (stored s) = aa_rate_buckets s" "aa_connections (stored s) = aa_connections s"
  "aa_routine (stored s) = aa_routine s" "aa_client_approvals (stored s) = aa_client_approvals s"
  "obj_get (aa_consents (stored s)) k = map_option (\<lambda>c. c\<lparr>co_session_binding := []\<rparr>) (obj_get (aa_consents s) k)"
  by (simp_all add: stored_def)

lemma stored_update:
  "stored (s\<lparr>aa_grants := g\<rparr>) = (stored s)\<lparr>aa_grants := g\<rparr>"
  "stored (s\<lparr>aa_lineages := l\<rparr>) = (stored s)\<lparr>aa_lineages := l\<rparr>"
  "stored (s\<lparr>aa_rate_buckets := r\<rparr>) = (stored s)\<lparr>aa_rate_buckets := r\<rparr>"
  "stored (s\<lparr>aa_connections := c\<rparr>) = (stored s)\<lparr>aa_connections := c\<rparr>"
  "stored (s\<lparr>aa_routine := ro\<rparr>) = (stored s)\<lparr>aa_routine := ro\<rparr>"
  "stored (s\<lparr>aa_client_approvals := ap\<rparr>) = (stored s)\<lparr>aa_client_approvals := ap\<rparr>"
  "stored (s\<lparr>aa_consents := obj_put (aa_consents s) k v\<rparr>) =
     (stored s)\<lparr>aa_consents := obj_put (aa_consents (stored s)) k (v\<lparr>co_session_binding := []\<rparr>)\<rparr>"
  by (simp_all add: stored_def with_sessions_def obj_map_put)

lemma stored_eq_iff: "stored (s\<lparr>aa_consents := obj_put (aa_consents (stored u)) k v\<rparr>) =
    (stored s)\<lparr>aa_consents := obj_put (aa_consents (stored u)) k (v\<lparr>co_session_binding := []\<rparr>)\<rparr>"
  by (simp add: stored_def with_sessions_def obj_map_put obj_map_comp comp_def)

lemma reduce_stored:
  "map_sum id stored (reduceAdminAuthority cr (Some (stored s)) e) = map_sum id stored (reduceAdminAuthority cr (Some s) e)"
proof -
  have terminal: "map_sum id stored (reduce_terminal (stored s) st t p) = map_sum id stored (reduce_terminal s st t p)" for st t p
    by (simp add: reduce_terminal_def projectTerminalGrant_def Let_def cancelPendingConnections_def stored_update
        split: option.split)
  have granted: "map_sum id stored (reduce_granted (stored s) t p) = map_sum id stored (reduce_granted s t p)" for t p
    by (auto simp: reduce_granted_def Let_def consume_consent_def stored_update stored_eq_iff split: option.split)
  have narrowed: "map_sum id stored (reduce_narrowed (stored s) t p) = map_sum id stored (reduce_narrowed s t p)" for t p
    by (auto simp: reduce_narrowed_def Let_def consume_consent_def stored_update stored_eq_iff split: option.split)
  have withdrawn: "map_sum id stored (reduce_withdrawn (stored s) t g w) = map_sum id stored (reduce_withdrawn s t g w)" for t g w
    by (simp add: reduce_withdrawn_def cancelPendingConnections_def stored_update split: option.split)
  have prepared: "map_sum id stored (reduce_connection_prepared (stored s) e a) =
      map_sum id stored (reduce_connection_prepared s e a)" for a
    by (simp add: reduce_connection_prepared_def stored_update)
  have cancelled: "map_sum id stored (reduce_connection_cancelled (stored s) e a r) =
      map_sum id stored (reduce_connection_cancelled s e a r)" for a r
    by (simp add: reduce_connection_cancelled_def stored_update split: option.split)
  have routine: "map_sum id stored (reduce_routine (stored s) e ty p) = map_sum id stored (reduce_routine s e ty p)" for ty p
    by (simp add: reduce_routine_def stored_update split: sum.split)
  show ?thesis
    by (cases "ae_body e") (simp_all add: reduceAdminAuthority_def Let_def terminal granted narrowed withdrawn prepared
        cancelled routine put_approval_def put_lineage_def stored_update stored_eq_iff split: option.split)
qed

lemma fold_stored:
  assumes "fold_events (reduceAdminAuthority cr) (Some s) es = Inr (Some t)" and "stored u = stored s"
  shows "\<exists>v. fold_events (reduceAdminAuthority cr) (Some u) es = Inr (Some v) \<and> stored v = stored t"
  using assms
proof (induction es arbitrary: s u)
  case (Cons e es)
  then obtain s' where s': "reduceAdminAuthority cr (Some s) e = Inr s'"
    "fold_events (reduceAdminAuthority cr) (Some s') es = Inr (Some t)" by (auto simp: bind_result_Inr)
  have "map_sum id stored (reduceAdminAuthority cr (Some u) e) = Inr (stored s')"
    using reduce_stored[of cr u e] reduce_stored[of cr s e] Cons.prems(2) s'(1) by simp
  then obtain u' where u': "reduceAdminAuthority cr (Some u) e = Inr u'" "stored u' = stored s'"
    by (cases "reduceAdminAuthority cr (Some u) e") auto
  show ?case using Cons.IH[OF s'(2) u'(2)] u'(1) by simp
qed auto

section \<open>The stored account\<close>

definition account_of :: "admin_account option \<Rightarrow> admin_account" where
  "account_of so = (case so of None \<Rightarrow> emptyAdminAccount | Some s \<Rightarrow> s)"

definition project_account ::
  "crypto \<Rightarrow> admin_account option \<Rightarrow> admin_event list \<Rightarrow> admin_error + admin_account option" where
  "project_account cr so es = map_sum id (map_option stored) (fold_events (reduceAdminAuthority cr) so es)"

lemma agrees_sessions [simp]: "policy_agrees cr (with_sessions b s) ctx \<longleftrightarrow> policy_agrees cr s ctx"
  by (simp add: policy_agrees_def)

lemma reduce_none: "reduceAdminAuthority cr None e = reduceAdminAuthority cr (Some emptyAdminAccount) e"
  by (simp add: reduceAdminAuthority_def)

lemma fold_account_of: "es \<noteq> [] \<Longrightarrow> fold_events (reduceAdminAuthority cr) so es =
    fold_events (reduceAdminAuthority cr) (Some (account_of so)) es"
  by (cases es; cases so) (simp_all add: account_of_def reduce_none)

lemma decision_has_events: "ad_events (decideAdminAuthority cr command s ctx) \<noteq> []"
  by (simp add: decideAdminAuthority_def finish_def Let_def)

section \<open>What one decision emits\<close>

definition decided_events :: "crypto \<Rightarrow> admin_command \<Rightarrow> admin_account \<Rightarrow> admin_ctx \<Rightarrow> admin_event list" where
  "decided_events cr command s ctx =
     number_from command s ctx (audit_grant_of command s ctx) (vd_bodies (admin_verdict cr command s ctx))"

lemma decided_bodies: "map ae_body (decided_events cr command s ctx) = vd_bodies (admin_verdict cr command s ctx)"
  by (simp add: decided_events_def number_from_at bodies_number_at)

lemma decision_shape:
  "\<exists>e g. ad_events (decideAdminAuthority cr command s ctx) = decided_events cr command s ctx @ [e] \<and>
     ae_body e = ActionRecorded (audit_of command s ctx g (vd_reason (admin_verdict cr command s ctx))
       (map ae_event_id (decided_events cr command s ctx))) \<and> ae_occurred_at e = ac_now ctx"
  by (auto simp: decideAdminAuthority_def finish_def Let_def decided_events_def)

lemma decision_reason [simp]:
  "ad_ok (decideAdminAuthority cr command s ctx) \<longleftrightarrow> vd_reason (admin_verdict cr command s ctx) = None"
  "ad_reason (decideAdminAuthority cr command s ctx) = vd_reason (admin_verdict cr command s ctx)"
  by (simp_all add: decideAdminAuthority_def finish_def Let_def)

lemma decision_body:
  assumes "e \<in> set (ad_events (decideAdminAuthority cr command s ctx))"
  shows "ae_body e \<in> set (vd_bodies (admin_verdict cr command s ctx)) \<or> (\<exists>p. ae_body e = ActionRecorded p)"
proof -
  from decision_shape[of cr command s ctx] assms have "e \<in> set (decided_events cr command s ctx) \<or> (\<exists>p. ae_body e = ActionRecorded p)"
    by auto
  then show ?thesis using decided_bodies[of cr command s ctx] by (metis imageI list.set_map)
qed

text \<open>A log with no narrowing event leaves the terms of the grants it started from.\<close>

lemma fold_no_narrowing:
  assumes "fold_events (reduceAdminAuthority cr) (Some s) es = Inr (Some t)"
    and "\<And>e. e \<in> set es \<Longrightarrow> \<forall>p. ae_body e \<noteq> DelegationNarrowed p" and "obj_get (aa_grants s) i = Some g"
  shows "\<exists>h. obj_get (aa_grants t) i = Some h \<and> manifest_narrower h g"
  using assms
proof (induction es arbitrary: s g)
  case (Cons e es)
  then obtain u where u: "reduceAdminAuthority cr (Some s) e = Inr u"
    "fold_events (reduceAdminAuthority cr) (Some u) es = Inr (Some t)" by (auto simp: bind_result_Inr)
  have "narrows s (ae_body e)" using Cons.prems(2)[of e] by (simp add: narrows_def)
  from step_narrower[OF u(1) this Cons.prems(3)] obtain h where h: "obj_get (aa_grants u) i = Some h" "manifest_narrower h g"
    by blast
  from Cons.IH[OF u(2) _ h(1)] Cons.prems(2) obtain k where "obj_get (aa_grants t) i = Some k" "manifest_narrower k h" by auto
  with narrower_trans[OF _ h(2)] show ?case by blast
qed (auto intro: narrower_refl simp: same_manifest_def)

text \<open>Only the narrowing of the grant itself emits a narrowing event, as its one event.\<close>

lemma decided_narrowing:
  assumes ok: "account_ok cr s"
  shows "(\<forall>b \<in> set (vd_bodies (admin_verdict cr command s ctx)). \<forall>p. b \<noteq> DelegationNarrowed p) \<or>
    (\<exists>p. vd_bodies (admin_verdict cr command s ctx) = [DelegationNarrowed p] \<and> narrows s (DelegationNarrowed p))"
proof (rule disjCI)
  assume none: "\<nexists>p. vd_bodies (admin_verdict cr command s ctx) = [DelegationNarrowed p] \<and> narrows s (DelegationNarrowed p)"
  show "\<forall>b \<in> set (vd_bodies (admin_verdict cr command s ctx)). \<forall>p. b \<noteq> DelegationNarrowed p"
  proof (intro ballI allI notI)
    fix b p assume b: "b \<in> set (vd_bodies (admin_verdict cr command s ctx))" "b = DelegationNarrowed p"
    from verdict_bodies[OF b(1)] consider
        (grant) gid receipt replaces where "vd_bodies (admin_verdict cr command s ctx) =
          vd_bodies (decide_grant cr s ctx gid receipt replaces)"
      | (narrow) gid m digest receipt g where "obj_get (aa_grants s) gid = Some g"
          "vd_bodies (admin_verdict cr command s ctx) = vd_bodies (decide_narrow cr s ctx g m digest receipt)"
      using b(2) by auto
    then show False
    proof cases
      case grant
      with grant_bodies[of b cr s ctx gid receipt replaces] b show ?thesis by auto
    next
      case narrow
      with narrow_bodies[of b cr s ctx g m digest receipt] b obtain q where
        q: "narrowing cr m g (ac_now ctx)" "b = DelegationNarrowed q" "np_grant_id q = ag_grant_id g" "np_manifest q = m"
          "vd_bodies (decide_narrow cr s ctx g m digest receipt) = [b]" by auto
      have "narrows s (DelegationNarrowed q)"
        using narrowing_narrower[OF q(1)] q(3,4) narrow(1) keyed_grant[OF ok narrow(1)] account_okD(2)[OF ok]
        by (auto simp: narrows_def grants_ok_def)
      with none narrow(2) q(2,5) show ?thesis by auto
    qed
  qed
qed

lemma decision_narrows:
  assumes ok: "account_ok cr s"
    and fold: "fold_events (reduceAdminAuthority cr) (Some s) (ad_events (decideAdminAuthority cr command s ctx)) = Inr (Some t)"
    and g: "obj_get (aa_grants s) i = Some g"
  shows "\<exists>h. obj_get (aa_grants t) i = Some h \<and> manifest_narrower h g"
proof -
  from decided_narrowing[OF ok, of command ctx] show ?thesis
  proof
    assume "\<forall>b \<in> set (vd_bodies (admin_verdict cr command s ctx)). \<forall>p. b \<noteq> DelegationNarrowed p"
    with decision_body have "\<And>e. e \<in> set (ad_events (decideAdminAuthority cr command s ctx)) \<Longrightarrow>
      \<forall>p. ae_body e \<noteq> DelegationNarrowed p" by fastforce
    from fold_no_narrowing[OF fold this g] show ?thesis .
  next
    assume "\<exists>p. vd_bodies (admin_verdict cr command s ctx) = [DelegationNarrowed p] \<and> narrows s (DelegationNarrowed p)"
    then obtain p where p: "map ae_body (decided_events cr command s ctx) = [DelegationNarrowed p]"
      "narrows s (DelegationNarrowed p)" by (auto simp: decided_bodies)
    then obtain e where e: "decided_events cr command s ctx = [e]" "ae_body e = DelegationNarrowed p" by auto
    from decision_shape[of cr command s ctx] obtain a q where a: "ad_events (decideAdminAuthority cr command s ctx) = [e, a]"
      "ae_body a = ActionRecorded q" by (auto simp: e(1))
    from fold obtain u where u: "reduceAdminAuthority cr (Some s) e = Inr u"
      "fold_events (reduceAdminAuthority cr) (Some u) [a] = Inr (Some t)" by (auto simp: a(1) bind_result_Inr)
    from step_narrower[OF u(1) _ g] p(2) e(2) obtain h where h: "obj_get (aa_grants u) i = Some h" "manifest_narrower h g" by auto
    from fold_no_narrowing[OF u(2) _ h(1)] a(2) obtain k where "obj_get (aa_grants t) i = Some k" "manifest_narrower k h" by auto
    with narrower_trans[OF _ h(2)] show ?thesis by blast
  qed
qed

end
