(* ===== verification/AdminRates.thy ===== *)
theory AdminRates
  imports AdminRuns
begin

text \<open>
  Attempts are counted in the buckets of the account: every charged decision, refused ones included,
  adds one to each of its buckets, and an accepted one was within its limits.
\<close>

section \<open>Buckets\<close>

definition attempts_at :: "admin_account \<Rightarrow> string \<Rightarrow> number \<Rightarrow> number" where
  "attempts_at s key h = (case obj_get (aa_rate_buckets s) key of
     None \<Rightarrow> 0 | Some b \<Rightarrow> if rb_hour_start b = h then rb_attempts b else 0)"

lemma charge_attempts:
  "rch_attempts (charge_bucket (aa_rate_buckets s) now kl) = attempts_at s (fst kl) (hour_of now) + 1"
  by (simp add: charge_bucket_def attempts_at_def split: option.split)

lemma charge_fields [simp]: "rch_key (charge_bucket bs now kl) = fst kl" "rch_limit (charge_bucket bs now kl) = snd kl"
  "rch_hour_start (charge_bucket bs now kl) = hour_of now"
  by (simp_all add: charge_bucket_def)

lemma charges_attempts:
  "b \<in> set (rate_charges command s ctx) \<Longrightarrow>
     rch_attempts b = attempts_at s (rch_key b) (hour_of (ac_now ctx)) + 1 \<and> rch_hour_start b = hour_of (ac_now ctx)"
  by (auto simp: rate_charges_def charge_attempts split: option.split_asm)

lemma put_buckets:
  assumes "\<And>b. b \<in> set bs \<Longrightarrow> ab_hour_start b = h \<and> ab_attempts b = f (ab_key b)"
  shows "obj_get (foldl (\<lambda>rates b. obj_put rates (ab_key b) \<lparr>rb_hour_start = ab_hour_start b, rb_attempts = ab_attempts b\<rparr>) ob bs) k =
    (if k \<in> ab_key ` set bs then Some \<lparr>rb_hour_start = h, rb_attempts = f k\<rparr> else obj_get ob k)"
  using assms by (induction bs arbitrary: ob) auto

text \<open>The buckets an audit record stores: one more attempt in each of the charged ones.\<close>

definition audit_buckets :: "rate_charge list \<Rightarrow> audit_bucket list" where
  "audit_buckets cs = map (\<lambda>b. \<lparr>ab_key = rch_key b, ab_hour_start = rch_hour_start b, ab_attempts = rch_attempts b\<rparr>) cs"

lemma charges_counted:
  assumes "\<And>b. b \<in> set cs \<Longrightarrow> rch_attempts b = attempts_at s (rch_key b) h + 1 \<and> rch_hour_start b = h"
    and "aa_rate_buckets t = foldl (\<lambda>rates b. obj_put rates (ab_key b)
      \<lparr>rb_hour_start = ab_hour_start b, rb_attempts = ab_attempts b\<rparr>) (aa_rate_buckets s) (audit_buckets cs)"
  shows "attempts_at t key h = attempts_at s key h + (if key \<in> rch_key ` set cs then 1 else 0)"
proof -
  have "ab_hour_start b = h \<and> ab_attempts b = attempts_at s (ab_key b) h + 1" if "b \<in> set (audit_buckets cs)" for b
    using that assms(1) by (auto simp: audit_buckets_def)
  from put_buckets[OF this] have "obj_get (aa_rate_buckets t) key = (if key \<in> ab_key ` set (audit_buckets cs)
      then Some \<lparr>rb_hour_start = h, rb_attempts = attempts_at s key h + 1\<rparr> else obj_get (aa_rate_buckets s) key)"
    by (simp only: assms(2))
  moreover have "ab_key ` set (audit_buckets cs) = rch_key ` set cs" by (force simp: audit_buckets_def)
  ultimately show ?thesis by (simp add: attempts_at_def)
qed

lemma reduce_rates:
  assumes "reduceAdminAuthority cr (Some s) e = Inr t" and "\<forall>p. ae_body e \<noteq> ActionRecorded p"
  shows "aa_rate_buckets t = aa_rate_buckets s"
  using assms
  by (cases "ae_body e") (auto simp: reduceAdminAuthority_def Let_def reduce_terminal_def projectTerminalGrant_def
      cancelPendingConnections_def reduce_withdrawn_def reduce_narrowed_def reduce_granted_def consume_consent_def
      put_approval_def put_lineage_def reduce_connection_prepared_def reduce_connection_cancelled_def reduce_routine_def
      split: option.split_asm if_split_asm sum.split_asm)

lemma fold_rates:
  assumes "fold_events (reduceAdminAuthority cr) (Some s) es = Inr (Some t)"
    and "\<And>e p. e \<in> set es \<Longrightarrow> ae_body e \<noteq> ActionRecorded p"
  shows "aa_rate_buckets t = aa_rate_buckets s"
  using assms
proof (induction es arbitrary: s)
  case (Cons e es)
  then obtain u where u: "reduceAdminAuthority cr (Some s) e = Inr u"
    "fold_events (reduceAdminAuthority cr) (Some u) es = Inr (Some t)" by (auto simp: bind_result_Inr)
  with Cons.IH[OF u(2)] reduce_rates[OF u(1)] Cons.prems(2) show ?case by auto
qed auto

lemma verdict_no_audit: "b \<in> set (vd_bodies (admin_verdict cr command s ctx)) \<Longrightarrow> b \<noteq> ActionRecorded p"
  using verdict_bodies[of b cr command s ctx] grant_bodies[of b cr s ctx] narrow_bodies[of b cr s ctx] by fastforce

lemma fold_some: "fold_events step (Some s) es = Inr so \<Longrightarrow> \<exists>u. so = Some u"
  by (induction es arbitrary: s) (auto simp: bind_result_Inr)

lemma decision_counts:
  assumes "fold_events (reduceAdminAuthority cr) (Some s) (ad_events (decideAdminAuthority cr command s ctx)) = Inr (Some t)"
  shows "attempts_at t key (hour_of (ac_now ctx)) =
    attempts_at s key (hour_of (ac_now ctx)) + (if key \<in> rch_key ` set (rate_charges command s ctx) then 1 else 0)"
proof -
  let ?h = "hour_of (ac_now ctx)"
  from decision_shape[of cr command s ctx] obtain e g q where
    e: "ad_events (decideAdminAuthority cr command s ctx) = decided_events cr command s ctx @ [e]"
      "ae_body e = ActionRecorded (audit_of command s ctx g (vd_reason (admin_verdict cr command s ctx)) q)" by blast
  from assms obtain u where u: "fold_events (reduceAdminAuthority cr) (Some s) (decided_events cr command s ctx) = Inr (Some u)"
    "reduceAdminAuthority cr (Some u) e = Inr t"
    by (auto simp: e(1) fold_events_append bind_result_Inr dest: fold_some)
  have same: "aa_rate_buckets u = aa_rate_buckets s"
  proof (rule fold_rates[OF u(1)])
    fix e' p assume "e' \<in> set (decided_events cr command s ctx)"
    then have "ae_body e' \<in> set (vd_bodies (admin_verdict cr command s ctx))"
      using decided_bodies[of cr command s ctx] by (metis imageI list.set_map)
    then show "ae_body e' \<noteq> ActionRecorded p" by (rule verdict_no_audit)
  qed
  have "aa_rate_buckets t = foldl (\<lambda>rates b. obj_put rates (ab_key b)
      \<lparr>rb_hour_start = ab_hour_start b, rb_attempts = ab_attempts b\<rparr>) (aa_rate_buckets s)
      (audit_buckets (rate_charges command s ctx))"
    using u(2) same by (auto simp: reduceAdminAuthority_def Let_def e(2) audit_of_def audit_buckets_def split: if_split_asm)
  from charges_counted[OF charges_attempts this] show ?thesis .
qed

section \<open>Within the limits\<close>

lemma replay_refused:
  assumes "verified_replay command s ctx"
  shows "vd_reason (admin_verdict cr command s ctx) \<noteq> None"
proof -
  from assms obtain g lid n l where g: "Option.bind (cmd_grant_id command) (obj_get (aa_grants s)) = Some g"
    and c: "cmd_generation command = Some (lid, n)" and l: "obj_get (aa_lineages s) lid = Some l" "n < li_generation l"
    by (auto simp: verified_replay_def split: option.split_asm prod.split_asm)
  have rotate: "vd_reason (decide_rotate s ctx g r lid n scopes) \<noteq> None" for r scopes
    using l by (simp add: decide_rotate_def)
  have "vd_reason (decide_on_grant cr command s ctx g) \<noteq> None"
    using c rotate by (cases command) (auto simp: decide_on_grant_def decide_credential_def)
  with g c assms show ?thesis by (cases command) (auto simp: admin_verdict_def)
qed

lemma accepted_within:
  assumes "vd_reason (admin_verdict cr command s ctx) = None" and "cmd_client command = None"
    and "b \<in> set (rate_charges command s ctx)"
  shows "\<not> over_limit b"
proof -
  have "\<not> verified_replay command s ctx" using replay_refused assms(1) by blast
  with assms show ?thesis by (auto simp: admin_verdict_def list_ex_iff split: if_split_asm)
qed

section \<open>A run of one hour\<close>

type_synonym admin_turn = "admin_command \<times> admin_ctx \<times> (string \<Rightarrow> string)"

text \<open>The accepted decisions of a run that satisfy a predicate of account, command and context.\<close>

fun accepted_turns ::
  "crypto \<Rightarrow> (admin_account \<Rightarrow> admin_command \<Rightarrow> admin_ctx \<Rightarrow> bool) \<Rightarrow> admin_account option \<Rightarrow> admin_turn list \<Rightarrow> nat" where
  "accepted_turns cr P so [] = 0"
| "accepted_turns cr P so ((command, ctx, bindings) # turns) =
     (let s = with_sessions bindings (account_of so); d = decideAdminAuthority cr command s ctx in
      (if ad_ok d \<and> P s command ctx then 1 else 0) +
      (case project_account cr so (ad_events d) of Inl _ \<Rightarrow> 0 | Inr t \<Rightarrow> accepted_turns cr P t turns))"

definition charged :: "string \<Rightarrow> number \<Rightarrow> admin_account \<Rightarrow> admin_command \<Rightarrow> admin_ctx \<Rightarrow> bool" where
  "charged key limit s command ctx \<longleftrightarrow> cmd_client command = None \<and>
     (\<exists>b \<in> set (rate_charges command s ctx). rch_key b = key \<and> rch_limit b = limit)"

lemma turn_counts:
  assumes "project_account cr so (ad_events (decideAdminAuthority cr command (with_sessions b (account_of so)) ctx)) = Inr t"
  shows "attempts_at (account_of t) key (hour_of (ac_now ctx)) = attempts_at (account_of so) key (hour_of (ac_now ctx)) +
    (if key \<in> rch_key ` set (rate_charges command (with_sessions b (account_of so)) ctx) then 1 else 0)"
proof -
  let ?ss = "with_sessions b (account_of so)"
  let ?es = "ad_events (decideAdminAuthority cr command ?ss ctx)"
  have "fold_events (reduceAdminAuthority cr) so ?es = fold_events (reduceAdminAuthority cr) (Some (account_of so)) ?es"
    by (rule fold_account_of[OF decision_has_events])
  with assms obtain u where u: "fold_events (reduceAdminAuthority cr) (Some (account_of so)) ?es = Inr (Some u)"
    "t = Some (stored u)"
    by (cases "fold_events (reduceAdminAuthority cr) (Some (account_of so)) ?es")
      (auto simp: project_account_def dest: fold_some)
  from fold_stored[OF u(1), of ?ss] obtain v where v: "fold_events (reduceAdminAuthority cr) (Some ?ss) ?es = Inr (Some v)"
    "stored v = stored u" by auto
  have "aa_rate_buckets v = aa_rate_buckets u" using v(2) by (metis stored_simps(3))
  with decision_counts[OF v(1), of key] show ?thesis
    by (simp add: u(2) attempts_at_def account_of_def)
qed

lemma accepted_charge:
  assumes "ad_ok (decideAdminAuthority cr command s ctx)" and "charged key limit s command ctx"
  shows "0 \<le> attempts_at s key (hour_of (ac_now ctx))" "attempts_at s key (hour_of (ac_now ctx)) + 1 \<le> limit"
    "key \<in> rch_key ` set (rate_charges command s ctx)"
proof -
  from assms(2) obtain b where b: "b \<in> set (rate_charges command s ctx)" "rch_key b = key" "rch_limit b = limit"
    "cmd_client command = None" by (auto simp: charged_def)
  with accepted_within[of cr command s ctx b] assms(1) have "\<not> over_limit b" by simp
  with charges_attempts[OF b(1)] b(2,3) show "0 \<le> attempts_at s key (hour_of (ac_now ctx))"
    "attempts_at s key (hour_of (ac_now ctx)) + 1 \<le> limit" by (simp_all add: over_limit_def)
  show "key \<in> rch_key ` set (rate_charges command s ctx)" using b(1,2) by blast
qed

lemma accepted_turns_bound:
  assumes "\<And>command ctx bindings. (command, ctx, bindings) \<in> set turns \<Longrightarrow> hour_of (ac_now ctx) = h"
    and "\<And>s command ctx. P s command ctx \<Longrightarrow> ad_ok (decideAdminAuthority cr command s ctx) \<Longrightarrow> charged key limit s command ctx"
  shows "accepted_turns cr P so turns = 0 \<or> attempts_at (account_of so) key h + of_nat (accepted_turns cr P so turns) \<le> limit \<and>
    of_nat (accepted_turns cr P so turns) \<le> limit"
  using assms(1)
proof (induction turns arbitrary: so)
  case (Cons turn turns)
  obtain command ctx bindings where turn: "turn = (command, ctx, bindings)" by (cases turn)
  let ?s = "with_sessions bindings (account_of so)"
  let ?d = "decideAdminAuthority cr command ?s ctx"
  have h: "hour_of (ac_now ctx) = h" by (rule Cons.prems[of command ctx bindings]) (simp add: turn)
  have at: "attempts_at ?s key h = attempts_at (account_of so) key h" by (simp add: attempts_at_def)
  have hit: "0 \<le> attempts_at (account_of so) key h \<and> attempts_at (account_of so) key h + 1 \<le> limit \<and>
      key \<in> rch_key ` set (rate_charges command ?s ctx)" if "ad_ok ?d" "P ?s command ctx"
    using accepted_charge[OF that(1) assms(2)[OF that(2,1)]] h at by simp
  show ?case
  proof (cases "project_account cr so (ad_events ?d)")
    case (Inl e)
    then show ?thesis using hit by (auto simp: turn Let_def)
  next
    case (Inr t)
    note count = turn_counts[OF Inr, of key, unfolded h]
    have "accepted_turns cr P t turns = 0 \<or> attempts_at (account_of t) key h + of_nat (accepted_turns cr P t turns) \<le> limit \<and>
      of_nat (accepted_turns cr P t turns) \<le> limit"
    proof (rule Cons.IH)
      fix c x b assume "(c, x, b) \<in> set turns"
      then show "hour_of (ac_now x) = h" by (intro Cons.prems[of c x b]) simp
    qed
    with hit count show ?thesis by (auto simp: turn Inr Let_def split: if_split_asm)
  qed
qed simp

end
