(* ===== verification/AdminReconcile.thy ===== *)
theory AdminReconcile
  imports AdminRates
begin

text \<open>
  \<open>adminAccountWithDurableGrants\<close>: the rows of the database only take authority away, and the account
  then shows their states.
\<close>

definition settle :: "durable_grant \<Rightarrow> admin_grant \<Rightarrow> admin_grant" where
  "settle row g = (if ag_state g = dg_state row then g
     else (terminate_grant (dg_state row) (the (durable_time row)) (the (dg_reason_code row)) g)
       \<lparr>ag_revoked_at := dg_revoked_at row, ag_suspended_at := dg_suspended_at row\<rparr>)"

lemma settle_manifest: "same_manifest (settle row g) g"
  by (simp add: settle_def terminate_grant_def same_manifest_def admin_manifest.truncate_def)

lemma settle_fields [simp]: "ag_state (settle row g) = dg_state row" "ag_grant_id (settle row g) = ag_grant_id g"
  "ag_consent_receipt_id (settle row g) = ag_consent_receipt_id g" "ag_owner_user_id (settle row g) = ag_owner_user_id g"
  "ag_created_at (settle row g) = ag_created_at g" "ag_withdrawn_workspace_ids (settle row g) = ag_withdrawn_workspace_ids g"
  by (simp_all add: settle_def terminate_grant_def)

lemma reconcile_get:
  "obj_get (aa_grants (reconcile_row s row)) j =
     (if j = dg_grant_id row then map_option (settle row) (obj_get (aa_grants s) j) else obj_get (aa_grants s) j)"
  by (auto simp: reconcile_row_def Let_def settle_def split: option.split)

text \<open>An admitted row names a grant it does not bring back.\<close>

lemma durable_row_okD:
  assumes "durable_row_ok s row"
  obtains g where "obj_get (aa_grants s) (dg_grant_id row) = Some g"
    and "dg_state row = GrantIsActive \<Longrightarrow> ag_state g = GrantIsActive"
  using assms by (auto simp: durable_row_ok_def split: option.split_asm)

lemma touch_ok:
  assumes ok: "account_ok cr s" and g: "obj_get (aa_grants s) i = Some g"
  shows "account_ok cr (s\<lparr>aa_grants := obj_put (aa_grants s) i (g\<lparr>ag_revoked_at := a, ag_suspended_at := b\<rparr>)\<rparr>)"
    (is "account_ok cr ?t")
proof -
  let ?g = "g\<lparr>ag_revoked_at := a, ag_suspended_at := b\<rparr>"
  note inv = account_okD[OF ok]
  have same: "same_manifest ?g g" by (simp add: same_manifest_def admin_manifest.truncate_def)
  have act: "grant_active ?t j \<longleftrightarrow> grant_active s j" for j
    using grant_active_put[of ?t s i ?g j] g by (auto simp: grant_active_def)
  show ?thesis
  proof (rule account_okI)
    show "rows_keyed ?t" using inv(1) keyed_grant[OF ok g] by (simp add: rows_keyed_def)
    show "grants_ok cr ?t"
      using inv(2) g same_manifest_static[OF same] same_manifest_fields(2)[OF same]
      by (intro grants_ok_put[of cr s ?t i ?g g]) (auto simp: grants_ok_def)
    show "lineages_ok ?t" using inv(3) by (rule lineages_ok_keep) (simp_all add: act)
    show "attempts_ok ?t" using inv(4) by (rule attempts_ok_keep) (simp_all add: act)
    show "invitations_ok ?t" using inv(5) by (simp add: invitations_ok_def routine_of_def act[unfolded fun_eq_iff])
    show "spend_ok ?t" using inv(6) g by (auto simp: spend_ok_def routine_of_def split: if_splits)
  qed
qed

lemma reconcile_ok:
  assumes ok: "account_ok cr s" and row: "obj_get (aa_grants s) (dg_grant_id row) = Some g"
    and down: "dg_state row = GrantIsActive \<Longrightarrow> ag_state g = GrantIsActive"
  shows "account_ok cr (reconcile_row s row)"
proof (cases "ag_state g = dg_state row")
  case True
  then show ?thesis using ok row by (simp add: reconcile_row_def)
next
  case False
  with down have st: "dg_state row \<noteq> GrantIsActive" by auto
  let ?t = "projectTerminalGrant s (dg_grant_id row) g (dg_state row) (the (durable_time row)) (the (dg_reason_code row))"
  have "account_ok cr ?t" by (rule terminal_ok[OF ok row st])
  from touch_ok[OF this, of "dg_grant_id row"] show ?thesis
    using False by (simp add: reconcile_row_def row Let_def)
qed

lemma reconcile_rows:
  assumes "account_ok cr s" and "distinct (map dg_grant_id rows)"
    and "\<And>row. row \<in> set rows \<Longrightarrow> \<exists>g. obj_get (aa_grants s) (dg_grant_id row) = Some g \<and>
      (dg_state row = GrantIsActive \<longrightarrow> ag_state g = GrantIsActive)"
  shows "account_ok cr (foldl reconcile_row s rows) \<and>
    (\<forall>i. obj_get (aa_grants (foldl reconcile_row s rows)) i =
      (case find (\<lambda>row. dg_grant_id row = i) rows of None \<Rightarrow> obj_get (aa_grants s) i
       | Some row \<Rightarrow> map_option (settle row) (obj_get (aa_grants s) i)))"
  using assms
proof (induction rows arbitrary: s)
  case (Cons row rows)
  from Cons.prems(3)[of row] obtain g where g: "obj_get (aa_grants s) (dg_grant_id row) = Some g"
    "dg_state row = GrantIsActive \<longrightarrow> ag_state g = GrantIsActive" by auto
  let ?t = "reconcile_row s row"
  have other: "dg_grant_id r \<noteq> dg_grant_id row" if "r \<in> set rows" for r
    using Cons.prems(2) imageI[OF that, of dg_grant_id] by (auto simp del: imageI)
  have t: "account_ok cr ?t" using reconcile_ok[OF Cons.prems(1) g(1)] g(2) by simp
  have "account_ok cr (foldl reconcile_row ?t rows) \<and> (\<forall>i. obj_get (aa_grants (foldl reconcile_row ?t rows)) i =
      (case find (\<lambda>row. dg_grant_id row = i) rows of None \<Rightarrow> obj_get (aa_grants ?t) i
       | Some r \<Rightarrow> map_option (settle r) (obj_get (aa_grants ?t) i)))"
  proof (rule Cons.IH[OF t])
    fix r assume r: "r \<in> set rows"
    note other[OF r]
    with Cons.prems(3)[of r] r show "\<exists>g. obj_get (aa_grants ?t) (dg_grant_id r) = Some g \<and>
        (dg_state r = GrantIsActive \<longrightarrow> ag_state g = GrantIsActive)" by (simp add: reconcile_get)
  qed (use Cons.prems(2) in simp)
  moreover have "find (\<lambda>r. dg_grant_id r = dg_grant_id row) rows = None"
    using other by (auto simp: find_None_iff)
  ultimately show ?case by (simp add: reconcile_get split: option.split)
qed simp

text \<open>The rows name every grant.\<close>

lemma rows_cover:
  assumes "keyed ag_grant_id ob" and "length rows = length (obj_keys ob)" and "distinct (map dg_grant_id rows)"
    and "\<And>row. row \<in> set rows \<Longrightarrow> obj_get ob (dg_grant_id row) \<noteq> None" and "obj_get ob i = Some g"
  shows "\<exists>row \<in> set rows. dg_grant_id row = i"
proof -
  have keys: "x \<in> set (obj_keys ob) \<longleftrightarrow> obj_get ob x \<noteq> None" for x
    by (simp add: obj_keys_def obj_get_def map_of_eq_None_iff)
  have "set (map dg_grant_id rows) \<subseteq> set (obj_keys ob)" using assms(4) keys by auto
  moreover have "distinct (obj_keys ob)" using assms(1) by (simp add: keyed_def obj_wf_def obj_keys_def)
  ultimately have "set (map dg_grant_id rows) = set (obj_keys ob)"
    using assms(2,3) distinct_card[OF assms(3)] by (intro card_subset_eq) (auto simp: distinct_card)
  with keys[of i] assms(5) have "i \<in> dg_grant_id ` set rows" by simp
  then show ?thesis by (rule imageE) blast
qed

end
