(* ===== verification/AdminSample.thy ===== *)
theory AdminSample
  imports AdminReconcile
begin

text \<open>
  A small account for the instances: a person prepares a consent to read, grants it, the runtime takes
  out a credential and refreshes it once. The digest is a stand-in.
\<close>

definition sample_digest :: crypto where
  "sample_digest = \<lparr>cr_sha256 = (\<lambda>_. ''d''), cr_num_text = (\<lambda>_. ''9'')\<rparr>"

abbreviation read_uuid :: string where
  "read_uuid \<equiv> ''00000000-0000-4000-8000-000000000001''"

definition read_manifest :: admin_manifest where
  "read_manifest = \<lparr>am_admin_identity_id = read_uuid, am_connection_id = read_uuid, am_client_id = ''client'',
     am_resource = ADMIN_RESOURCE, am_mode = Granular, am_registry_version = 2,
     am_capability_names = [''admin_read_metadata''], am_availability_digest = ''d'', am_scope_names = [''admin:read''],
     am_workspace_selector = Selected, am_workspace_ids = [], am_created_scope_names = [],
     am_target_rules = \<lparr>tr_seat_ids = [], tr_own_seats = False, tr_grant_created_seats = False,
       tr_recipient_user_ids = [], tr_recipient_connection_ids = [], tr_transports = []\<rparr>,
     am_worker_scope_ceiling = [], am_role_ceiling = ''member'',
     am_renewal_limits = \<lparr>rn_grant_kinds = [], rn_principal_ids = [], rn_bearer_seconds = 0, rn_horizon_seconds = 0,
       rn_successors_per_worker = 0, rn_successors_per_grant = 0\<rparr>,
     am_issuance_limits = \<lparr>il_workspaces = 0, il_live_seats = 0, il_total_seats = 0, il_invitations = 0,
       il_live_agent_invitations = 0, il_worker_credentials = 0, il_connection_attempts = 0\<rparr>,
     am_expires_at = 100000, am_refresh_deadline = 100000\<rparr>"

lemma sample_identity: "identity_ok sample_digest read_manifest i"
proof -
  have "ADMIN_UUID_RE read_uuid" by code_simp
  moreover have "scopes_ok 2 [''admin:read'']" by code_simp
  moreover have "ADMIN_AVAILABILITY 2 \<noteq> None" by code_simp
  moreover have "adminAvailabilityDigest sample_digest 2 = Some ''d''"
    by (simp add: adminAvailabilityDigest_def ADMIN_AVAILABILITY_def ADMIN_REGISTRY_VERSION_def sample_digest_def)
  moreover have "uuids_ok []" by (simp add: uuids_ok_def)
  ultimately show ?thesis by (simp add: identity_ok_def read_manifest_def ADMIN_REGISTRY_VERSION_def)
qed

lemma sample_capabilities: "capabilities_ok sample_digest read_manifest"
proof -
  have "capability_in 2 ''admin_read_metadata'' = Some (capability_of ''admin:read'' ''Read-only'' True)" by code_simp
  then show ?thesis by (simp add: capabilities_ok_def read_manifest_def capability_of_def)
qed

lemma sample_limits: "limits_ok read_manifest"
proof -
  have "limit_ok 0 c" if "0 \<le> c" for c using that by (simp add: limit_ok_def max_safe_integer_def)
  then show ?thesis
    by (simp add: limits_ok_def read_manifest_def Let_def uuids_ok_def ADMIN_RENEWAL_CEILINGS_def ADMIN_ISSUANCE_CEILINGS_def)
qed

lemma sample_policies: "policies_ok read_manifest"
proof -
  have "scopes_ok 2 []" by code_simp
  then show ?thesis by (simp add: policies_ok_def read_manifest_def uuids_ok_def)
qed

lemma sample_static: "manifest_static sample_digest read_manifest"
  by (simp add: manifest_static_def sample_identity sample_capabilities sample_limits sample_policies)

lemma sample_valid:
  assumes "0 \<le> now" and "now \<le> 99000"
  shows "adminManifestValid sample_digest (manifest_value read_manifest) now i"
proof -
  have "times_ok read_manifest now i"
    using assms by (simp add: times_ok_def read_manifest_def max_safe_integer_def ADMIN_REFRESH_MAX_LIFETIME_SECONDS_def
        ADMIN_GRANT_TTL_SECONDS_def)
  then show ?thesis
    by (simp add: manifest_valid_iff manifest_ok_def sample_identity sample_capabilities sample_limits sample_policies)
qed

definition sample_admin_ctx :: "admin_actor \<Rightarrow> number \<Rightarrow> admin_ctx" where
  "sample_admin_ctx a now = \<lparr>ac_actor = a, ac_owner_user_id = ''o'', ac_now = now, ac_command_id = ''c'', ac_stream_id = ''o'',
     ac_request_digest = ''q'', ac_nextSeq = of_nat, ac_nextEventId = (\<lambda>_. ''e''), ac_current_workspace_rights = True,
     ac_withdrawing_workspace_owner = False, ac_target_workspace_owned_by_grantor = False,
     ac_presenting_refresh_generation = Some 0, ac_presenting_refresh_lineage_id = Some ''l'', ac_client_policy = None\<rparr>"

abbreviation sample_person :: admin_actor where
  "sample_person \<equiv> HumanActor ''o'' ''s''"

abbreviation sample_runtime :: admin_actor where
  "sample_runtime \<equiv> CredentialRuntime read_uuid ''client'' ADMIN_RESOURCE"

definition sample_consent :: "string \<Rightarrow> number option \<Rightarrow> admin_consent" where
  "sample_consent session consumed = \<lparr>co_consent_receipt_id = ''r'', co_owner_user_id = ''o'', co_session_binding = session,
     co_manifest_digest = ''m'', co_manifest = read_manifest, co_full_account_selected = False,
     co_expires_at = 1000, co_consumed_at = consumed\<rparr>"

definition read_grant :: admin_grant where
  "read_grant = admin_manifest.extend read_manifest
     (admin_grant.fields ''g'' ''o'' ''r'' ''m'' 2 GrantIsActive None None None [])"

definition sample_lineage :: "number \<Rightarrow> admin_lineage" where
  "sample_lineage n = \<lparr>li_credential_lineage_id = ''l'', li_grant_id = ''g'', li_generation = n,
     li_scope_names = [''admin:read''], li_access_expires_at = 100000, li_refresh_deadline = 100000, li_state = LineageActive\<rparr>"

abbreviation prepared_account :: admin_account where
  "prepared_account \<equiv> emptyAdminAccount\<lparr>aa_consents := [(''r'', sample_consent [] None)]\<rparr>"

text \<open>The account after the grant, with its credential at generation \<open>n\<close> and the buckets given.\<close>

definition sample_account :: "admin_lineage obj \<Rightarrow> rate_bucket obj \<Rightarrow> admin_account" where
  "sample_account ls bs = emptyAdminAccount\<lparr>aa_consents := [(''r'', sample_consent [] (Some 2))],
     aa_grants := [(''g'', read_grant)], aa_lineages := ls, aa_rate_buckets := bs,
     aa_routine := Some (emptyAdminRoutine\<lparr>rt_spend := [(''g'', zero_spend)]\<rparr>)\<rparr>"

lemma sample_grant_fields [simp]:
  "ag_grant_id read_grant = ''g''" "ag_owner_user_id read_grant = ''o''" "ag_consent_receipt_id read_grant = ''r''"
  "ag_state read_grant = GrantIsActive" "am_connection_id read_grant = read_uuid" "am_client_id read_grant = ''client''"
  "am_expires_at read_grant = 100000" "am_refresh_deadline read_grant = 100000" "am_registry_version read_grant = 2"
  "am_scope_names read_grant = [''admin:read'']" "am_workspace_ids read_grant = []"
  "am_admin_identity_id read_grant = read_uuid" "am_resource read_grant = ADMIN_RESOURCE"
  "am_availability_digest read_grant = ''d''" "am_capability_names read_grant = [''admin_read_metadata'']"
  "ag_manifest_digest read_grant = ''m''" "ag_withdrawn_workspace_ids read_grant = []"
  by (simp_all add: read_grant_def read_manifest_def admin_manifest.extend_def admin_grant.fields_def)

lemma sample_grant_static: "manifest_static sample_digest read_grant"
  by (simp add: read_grant_def same_manifest_static[OF same_manifest_extend] sample_static)

lemma sample_ctx_fields [simp]:
  "ac_actor (sample_admin_ctx a now) = a" "ac_owner_user_id (sample_admin_ctx a now) = ''o''" "ac_now (sample_admin_ctx a now) = now"
  "ac_current_workspace_rights (sample_admin_ctx a now)" "ac_client_policy (sample_admin_ctx a now) = None"
  "ac_presenting_refresh_generation (sample_admin_ctx a now) = Some 0"
  "ac_presenting_refresh_lineage_id (sample_admin_ctx a now) = Some ''l''"
  by (simp_all add: sample_admin_ctx_def)

lemma sample_account_fields [simp]:
  "aa_consents (sample_account ls bs) = [(''r'', sample_consent [] (Some 2))]"
  "aa_grants (sample_account ls bs) = [(''g'', read_grant)]" "aa_lineages (sample_account ls bs) = ls"
  "aa_rate_buckets (sample_account ls bs) = bs" "aa_connections (sample_account ls bs) = None"
  "aa_client_approvals (sample_account ls bs) = None"
  by (simp_all add: sample_account_def emptyAdminAccount_def)

lemma sample_account_update [simp]:
  "(sample_account ls bs)\<lparr>aa_lineages := l\<rparr> = sample_account l bs"
  "(sample_account ls bs)\<lparr>aa_rate_buckets := r\<rparr> = sample_account ls r"
  by (simp_all add: sample_account_def)

lemma sample_lineage_fields [simp]:
  "li_grant_id (sample_lineage n) = ''g''" "li_state (sample_lineage n) = LineageActive"
  "li_generation (sample_lineage n) = n" "li_scope_names (sample_lineage n) = [''admin:read'']"
  "li_refresh_deadline (sample_lineage n) = 100000" "li_credential_lineage_id (sample_lineage n) = ''l''"
  by (simp_all add: sample_lineage_def)

section \<open>Its turns\<close>

lemma sample_manifest_fields [simp]: "am_mode read_manifest = Granular" "am_connection_id read_manifest = read_uuid"
  by (simp_all add: read_manifest_def)

lemma sample_grant_of [simp]:
  "grant_of_payload (granted_payload (sample_admin_ctx sample_person 2) ''g'' None (sample_consent ''s'' None)) = read_grant"
  by (simp add: grant_of_payload_def granted_payload_def read_grant_def admin_manifest.extend_def
      grant_payload.fields_def admin_manifest.truncate_def admin_grant.fields_def sample_consent_def sample_admin_ctx_def)

lemma sample_prepared_sessions: "with_sessions (\<lambda>_. ''s'') prepared_account =
    emptyAdminAccount\<lparr>aa_consents := [(''r'', sample_consent ''s'' None)]\<rparr>"
  by (simp add: with_sessions_def obj_map_def sample_consent_def)

lemma sample_grant_verdict:
  "admin_verdict sample_digest (GrantDelegation ''g'' ''r'' None) (with_sessions (\<lambda>_. ''s'') prepared_account)
     (sample_admin_ctx sample_person 2) = \<lparr>vd_reason = None,
       vd_bodies = [DelegationGranted (granted_payload (sample_admin_ctx sample_person 2) ''g'' None (sample_consent ''s'' None))],
       vd_grant = Some read_grant\<rparr>"
  using sample_valid[of 2 True] sample_grant_of unfolding sample_prepared_sessions
  by (simp add: admin_verdict_def verified_replay_def rate_charges_def audit_grant_of_def decide_grant_def Let_def
      consent_usable_def sample_consent_def emptyAdminAccount_def obj_values_def)

lemma sample_hour [simp]: "0 \<le> now \<Longrightarrow> now < 3600000 \<Longrightarrow> hour_of now = 0"
  by (simp add: hour_of_def floor_eq_iff)

definition mutation_buckets :: "rate_bucket obj" where
  "mutation_buckets = (let b = \<lparr>rb_hour_start = 0, rb_attempts = 1\<rparr> in
     [(''mutation:grant:g'', b), (''mutation:connection:'' @ read_uuid, b), (''mutation:account:o'', b)])"

definition refresh_buckets :: "rate_bucket obj" where
  "refresh_buckets = (let b = \<lparr>rb_hour_start = 0, rb_attempts = 1\<rparr> in
     mutation_buckets @ [(''refresh:lineage:l'', b), (''refresh:connection:'' @ read_uuid, b)])"

lemma with_sessions_empty: "with_sessions b emptyAdminAccount = emptyAdminAccount"
  by (simp add: with_sessions_def emptyAdminAccount_def obj_map_def)

lemma sample_agrees [simp]: "policy_agrees cr s (sample_admin_ctx a now)"
  by (simp add: policy_agrees_def)

lemma sample_ok: "account_ok sample_digest (sample_account [(''l'', sample_lineage 1)] refresh_buckets)"
proof -
  have r: "routine_of (sample_account ls bs) = emptyAdminRoutine\<lparr>rt_spend := [(''g'', zero_spend)]\<rparr>" for ls bs
    by (simp add: routine_of_def sample_account_def)
  show ?thesis using sample_grant_static
    by (auto simp: account_ok_def rows_keyed_def grants_ok_def lineages_ok_def attempts_ok_def invitations_ok_def spend_ok_def
        keyed_def obj_wf_def r emptyAdminRoutine_def zero_spend_def ADMIN_ISSUANCE_CEILINGS_def ADMIN_RENEWAL_CEILINGS_def
        grant_active_def sample_consent_def split: if_splits)
qed

text \<open>With a connection of the grant that awaits its authorisation, and an open invitation of the grant.\<close>

definition open_invitation :: routine_invitation where
  "open_invitation = \<lparr>ri_invitation_id = ''i'', ri_workspace_id = ''w'', ri_parent_admin_grant_id = ''g'',
     ri_invitation_kind = MemberInvitation, ri_recipient_user_id = ''u'', ri_recipient_connection_id = None,
     ri_expires_at = 60004, ri_revoked_at = None, ri_accepted_at = None\<rparr>"

definition waiting_attempt :: connection_attempt where
  "waiting_attempt = \<lparr>at_attempt_id = ''a'', at_parent_admin_grant_id = ''g'', at_workspace_id = ''w'',
       at_intended_owner_user_id = ''o'', at_intended_agent_id = ''p'', at_recipient_connection_id = ''k'',
       at_requested_name = lit ''n'', at_transport = LocalTransport, at_ttl_seconds = 60, at_capability_set = [],
       at_state = AwaitingAuthorization, at_created_at = 4, at_expires_at = 60004, at_cancelled_at = None, at_reason_code = None\<rparr>"

definition busy_account :: admin_account where
  "busy_account = (sample_account [(''l'', sample_lineage 1)] refresh_buckets)\<lparr>
     aa_connections := Some [(''a'', waiting_attempt)],
     aa_routine := Some (emptyAdminRoutine\<lparr>rt_spend := [(''g'', zero_spend)], rt_invitations := [(''i'', open_invitation)]\<rparr>)\<rparr>"

lemma busy_fields [simp]:
  "aa_grants busy_account = [(''g'', read_grant)]" "aa_lineages busy_account = [(''l'', sample_lineage 1)]"
  "aa_connections busy_account = Some [(''a'', waiting_attempt)]" "aa_consents busy_account = [(''r'', sample_consent [] (Some 2))]"
  "routine_of busy_account = emptyAdminRoutine\<lparr>rt_spend := [(''g'', zero_spend)], rt_invitations := [(''i'', open_invitation)]\<rparr>"
  by (simp_all add: busy_account_def routine_of_def)

lemma pending_fields [simp]:
  "at_attempt_id waiting_attempt = ''a''" "at_parent_admin_grant_id waiting_attempt = ''g''"
  "at_state waiting_attempt = AwaitingAuthorization" "ri_invitation_id open_invitation = ''i''"
  "ri_parent_admin_grant_id open_invitation = ''g''" "ri_accepted_at open_invitation = None"
  by (simp_all add: waiting_attempt_def open_invitation_def)

lemma busy_ok: "account_ok sample_digest busy_account"
proof (rule account_okI)
  note inv = account_okD[OF sample_ok]
  have act: "grant_active busy_account j = grant_active (sample_account [(''l'', sample_lineage 1)] refresh_buckets) j" for j
    by (simp add: grant_active_def)
  have g: "grant_active busy_account ''g''" by (simp add: grant_active_def)
  show "grants_ok sample_digest busy_account" using inv(2) by (simp only: grants_ok_def busy_fields sample_account_fields)
  show "lineages_ok busy_account" using inv(3) by (simp only: lineages_ok_def act busy_fields sample_account_fields)
  show "rows_keyed busy_account" using inv(1) by (simp add: rows_keyed_def keyed_def obj_wf_def)
  show "attempts_ok busy_account" using g by (simp add: attempts_ok_def)
  show "invitations_ok busy_account"
    using g by (simp add: invitations_ok_def keyed_def obj_wf_def emptyAdminRoutine_def)
  show "spend_ok busy_account"
    by (simp add: spend_ok_def zero_spend_def ADMIN_ISSUANCE_CEILINGS_def ADMIN_RENEWAL_CEILINGS_def)
qed

end
