(* ===== verification/AdminProperties.thy ===== *)
theory AdminProperties
  imports AdminSample
begin

text \<open>
  Properties of delegated administration: what is admitted as a manifest, that every account stays
  sound under its own log, that no decision of a delegate creates, widens or revives authority, the
  audit record, the hourly limits, stolen refresh credentials and the reconciliation with the database.
\<close>

section \<open>Helpers\<close>

text \<open>A refusal changes nothing but for a stolen refresh credential.\<close>

definition quiet :: "verdict \<Rightarrow> bool" where
  "quiet v \<longleftrightarrow> vd_reason v = None \<or> vd_bodies v = [] \<or> vd_reason v = Some ''refresh_replay''"

lemma quiet_simps [simp]: "quiet (deny r)" "quiet (allow bs)"
  by (simp_all add: quiet_def)

lemma quiet_client: "quiet (decide_client_approval command s ctx)"
  by (simp add: decide_client_approval_def split: option.split admin_command.split)

lemma quiet_prepare: "quiet (decide_prepare_consent cr s ctx c)"
  by (simp add: decide_prepare_consent_def split: admin_actor.split)

lemma quiet_grant: "quiet (decide_grant cr s ctx gid receipt replaces)"
  by (auto simp: decide_grant_def Let_def quiet_def split: admin_actor.split option.split)

lemma quiet_end: "quiet (decide_end command s ctx g r)" "quiet (decide_expire s ctx g)"
    "quiet (decide_withdraw ctx g w r)" "quiet (decide_narrow cr s ctx g m d c)" "quiet (metadata_read ctx x)"
  by (simp_all add: decide_end_def decide_expire_def decide_withdraw_def decide_narrow_def metadata_read_def Let_def
      split: admin_actor.split option.split)

lemma quiet_read: "quiet (decide_read cr ctx g x)"
  by (simp add: decide_read_def quiet_end)

lemma quiet_credential: "quiet (decide_credential command s ctx g)"
proof -
  have "quiet (decide_rotate s ctx g r l n scopes)" for r l n scopes
    by (auto simp: decide_rotate_def quiet_def split: option.split)
  moreover have "quiet (decide_issue s ctx g l)" for l by (simp add: decide_issue_def)
  ultimately show ?thesis by (simp add: decide_credential_def split: admin_command.split)
qed

lemma quiet_verdict: "quiet (admin_verdict cr command s ctx)"
proof -
  have "quiet (decide_on_grant cr c s ctx g)" for c g
    by (simp add: decide_on_grant_def quiet_end quiet_read quiet_credential split: admin_command.split)
  then show ?thesis
    by (simp add: admin_verdict_def quiet_client quiet_prepare quiet_grant split: admin_command.split option.split)
qed

lemma decided_no_audit:
  "e \<in> set (decided_events cr command s ctx) \<Longrightarrow> ae_body e \<noteq> ActionRecorded p"
  using decided_bodies[of cr command s ctx] verdict_no_audit[of "ae_body e" cr command s ctx p]
  by (metis imageI list.set_map)

lemma decision_event:
  assumes "b \<in> set (vd_bodies (admin_verdict cr command s ctx))"
  shows "\<exists>e \<in> set (ad_events (decideAdminAuthority cr command s ctx)). ae_body e = b"
proof -
  from assms have "b \<in> ae_body ` set (decided_events cr command s ctx)"
    using decided_bodies[of cr command s ctx] by (metis list.set_map)
  with decision_shape[of cr command s ctx] show ?thesis by auto
qed

text \<open>A grant that is over.\<close>

lemma ended_refuses:
  assumes "obj_get (aa_grants s) i = Some g" and "ag_state g \<noteq> GrantIsActive"
    and "\<not> human_owner ctx"
    and "command = ReadMetadata i ws \<or> command = IssueCredential i l \<or> command = RotateCredential i l n sc"
  shows "\<not> ad_ok (decideAdminAuthority cr command s ctx)"
proof -
  have "\<not> grant_live ctx g" using assms(2) by (simp add: grant_live_def)
  then have "vd_reason (decide_on_grant cr command s ctx g) \<noteq> None"
    using assms(3,4) by (auto simp: decide_on_grant_def)
  with assms show ?thesis by (auto simp: admin_verdict_def)
qed

section \<open>Manifests\<close>

text \<open>
  C40. What validation admits is what its type says: an object of unknown type that
  \<open>adminManifestValid\<close> accepts, and whose two ids and mode are texts, is the value of a manifest record that
  keeps every rule of the policy: known scopes and capabilities with reading among them, capability names in
  order, worker scopes off the denylist, limits under the ceilings, deadlines in order.
\<close>

theorem admitted_manifest_is_typed:
  assumes "adminManifestValid cr (JObject ob) now initial"
    and "obj_get ob ''admin_identity_id'' = Some (JString ident)" and "obj_get ob ''connection_id'' = Some (JString conn)"
    and "obj_get ob ''mode'' = Some (JString md)"
  shows "\<exists>m :: admin_manifest. json_same (JObject ob) (manifest_value m) \<and>
    identity_ok cr m initial \<and> capabilities_ok cr m \<and> policies_ok m \<and> limits_ok m \<and> times_ok m now initial"
  using admitted_typed[OF assms] by (simp add: manifest_ok_def)

theorem admitted_manifest_is_typed_witness:
  "\<exists>ob m. manifest_value read_manifest = JObject ob \<and> adminManifestValid sample_digest (JObject ob) 1 True \<and>
     json_same (JObject ob) (manifest_value (m :: admin_manifest)) \<and> limits_ok m"
proof -
  obtain ob where ob: "manifest_value read_manifest = JObject ob" using manifest_value_object by blast
  have v: "adminManifestValid sample_digest (JObject ob) 1 True" using sample_valid[of 1 True] ob by simp
  from admitted_manifest_is_typed[OF v] manifest_fields[OF ob] show ?thesis
    using ob v by (simp add: read_manifest_def) blast
qed

section \<open>Grants\<close>

text \<open>
  C35. A grant that is over stays over: no accepted log, of any length and of any events, brings back a
  grant that was suspended, revoked or expired, gives a grant another owner or returns a workspace that was
  withdrawn from it; and on a grant that is over nobody but the owner reads, takes out or refreshes a credential.
\<close>

theorem ended_grant_stays_ended:
  assumes "fold_events (reduceAdminAuthority cr) (Some s) es = Inr (Some t)" and "obj_get (aa_grants s) i = Some g"
  shows "\<exists>h. obj_get (aa_grants t) i = Some h \<and> ag_owner_user_id h = ag_owner_user_id g \<and>
    set (ag_withdrawn_workspace_ids g) \<subseteq> set (ag_withdrawn_workspace_ids h) \<and>
    (ag_state g \<noteq> GrantIsActive \<longrightarrow> ag_state h \<noteq> GrantIsActive \<and>
      (\<forall>command ctx. \<not> human_owner ctx \<and>
        (\<exists>ws l n sc. command = ReadMetadata i ws \<or> command = IssueCredential i l \<or> command = RotateCredential i l n sc) \<longrightarrow>
        \<not> ad_ok (decideAdminAuthority cr command t ctx)))"
proof -
  from fold_grant_le[OF assms] obtain h where h: "obj_get (aa_grants t) i = Some h" "grant_le g h" by blast
  with ended_refuses[OF h(1)] show ?thesis unfolding grant_le_def by blast
qed

theorem ended_grant_stays_ended_witness:
  "\<exists>s t es. s = (sample_account [] [])\<lparr>aa_grants := [(''g'', read_grant\<lparr>ag_state := GrantRevoked\<rparr>)]\<rparr> \<and>
     es = ad_events (decideAdminAuthority sample_digest (ReadMetadata ''g'' None) s (sample_admin_ctx sample_person 5)) \<and>
     fold_events (reduceAdminAuthority sample_digest) (Some s) es = Inr (Some t) \<and>
     \<not> ad_ok (decideAdminAuthority sample_digest (IssueCredential ''g'' ''l'') t (sample_admin_ctx sample_runtime 6))"
proof -
  let ?s = "(sample_account [] [])\<lparr>aa_grants := [(''g'', read_grant\<lparr>ag_state := GrantRevoked\<rparr>)]\<rparr>"
  let ?x = "sample_admin_ctx sample_person 5"
  let ?es = "ad_events (decideAdminAuthority sample_digest (ReadMetadata ''g'' None) ?s ?x)"
  have charges: "rate_charges (ReadMetadata ''g'' None) ?s ?x = []"
    by (simp add: rate_charges_def audit_grant_of_def adminRatePolicy_def rate_actor_exempt_def)
  have "fold_events (reduceAdminAuthority sample_digest) (Some ?s) ?es = Inr (Some ?s)"
    by (simp add: decideAdminAuthority_def finish_def admin_verdict_def verified_replay_def charges decide_on_grant_def
        binding_mismatch_def scopes_exceed_def human_owner_def metadata_read_def Let_def number_from_at
        reduceAdminAuthority_def audit_of_def)
  moreover have "obj_get (aa_grants ?s) ''g'' = Some (read_grant\<lparr>ag_state := GrantRevoked\<rparr>)" by simp
  ultimately have "\<not> ad_ok (decideAdminAuthority sample_digest (IssueCredential ''g'' ''l'') ?s (sample_admin_ctx sample_runtime 6))"
    using ended_grant_stays_ended[of sample_digest ?s ?es ?s "''g''" "read_grant\<lparr>ag_state := GrantRevoked\<rparr>"]
    by (auto simp: human_owner_def)
  with \<open>fold_events (reduceAdminAuthority sample_digest) (Some ?s) ?es = Inr (Some ?s)\<close> show ?thesis by blast
qed

text \<open>
  C34. Only the person hands out authority: a decision emits a new grant, or new terms of one, only
  for the owner of the account acting in a session, from a consent receipt that this session prepared,
  that is neither spent nor expired and that holds exactly the manifest of the event. A new grant's manifest is valid
  now, and in full-account mode the person chose that mode.
\<close>

theorem only_the_person_grants:
  assumes "e \<in> set (ad_events (decideAdminAuthority cr command s ctx))"
    and "ae_body e = DelegationGranted p \<or> ae_body e = DelegationNarrowed q"
  shows "\<exists>session receipt c. ac_actor ctx = HumanActor (ac_owner_user_id ctx) session \<and>
    obj_get (aa_consents s) receipt = Some c \<and> co_session_binding c = session \<and> co_consumed_at c = None \<and>
    ac_now ctx < co_expires_at c \<and>
    (ae_body e = DelegationGranted p \<longrightarrow> admin_manifest.truncate p = admin_manifest.truncate (co_manifest c) \<and>
      adminManifestValid cr (manifest_value (co_manifest c)) (ac_now ctx) True \<and>
      (am_mode p = FullAccount \<longrightarrow> co_full_account_selected c)) \<and>
    (ae_body e = DelegationNarrowed q \<longrightarrow> canonicalAdminJson (cr_num_text cr) (manifest_value (np_manifest q)) =
      canonicalAdminJson (cr_num_text cr) (manifest_value (co_manifest c)))"
proof -
  let ?v = "vd_bodies (admin_verdict cr command s ctx)"
  have b: "ae_body e \<in> set ?v" "\<not> plain (ae_body e)" using decision_body[OF assms(1)] assms(2) by auto
  from verdict_bodies[OF b(1)] b(2) consider
      (grant) gid receipt replaces where "?v = vd_bodies (decide_grant cr s ctx gid receipt replaces)"
    | (narrow) m digest receipt g where "?v = vd_bodies (decide_narrow cr s ctx g m digest receipt)" by blast
  then show ?thesis
  proof cases
    case grant
    from grant_bodies[OF b(1)[unfolded grant]] b(2) obtain session c where
      c: "ac_actor ctx = HumanActor (ac_owner_user_id ctx) session" "obj_get (aa_consents s) receipt = Some c"
        "consent_usable cr ctx session c" "ae_body e = DelegationGranted (granted_payload ctx gid replaces c)" by auto
    have "same_manifest (granted_payload ctx gid replaces c) (co_manifest c)" by (rule granted_payload_manifest)
    with c same_manifest_fields(5)[OF this] show ?thesis
      by (intro exI[of _ session] exI[of _ receipt] exI[of _ c]) (auto simp: consent_usable_def same_manifest_def)
  next
    case narrow
    from narrow_bodies[OF b(1)[unfolded narrow]] obtain session c where
      c: "ac_actor ctx = HumanActor (ac_owner_user_id ctx) session" "obj_get (aa_consents s) receipt = Some c"
        "co_session_binding c = session" "co_consumed_at c = None" "ac_now ctx < co_expires_at c"
        "canonicalAdminJson (cr_num_text cr) (manifest_value (co_manifest c)) = canonicalAdminJson (cr_num_text cr) (manifest_value m)"
        "\<exists>p. ae_body e = DelegationNarrowed p \<and> np_manifest p = m" by blast
    then show ?thesis
      by (intro exI[of _ session] exI[of _ receipt] exI[of _ c]) auto
  qed
qed

theorem only_the_person_grants_witness:
  "\<exists>e p session. e \<in> set (ad_events (decideAdminAuthority sample_digest (GrantDelegation ''g'' ''r'' None)
      (with_sessions (\<lambda>_. ''s'') prepared_account) (sample_admin_ctx sample_person 2))) \<and> ae_body e = DelegationGranted p \<and>
     sample_person = HumanActor ''o'' session"
proof -
  let ?s = "with_sessions (\<lambda>_. ''s'') prepared_account" and ?x = "sample_admin_ctx sample_person 2"
  let ?p = "granted_payload ?x ''g'' None (sample_consent ''s'' None)"
  let ?d = "decideAdminAuthority sample_digest (GrantDelegation ''g'' ''r'' None) ?s ?x"
  have "DelegationGranted ?p \<in> set (vd_bodies (admin_verdict sample_digest (GrantDelegation ''g'' ''r'' None) ?s ?x))"
    by (simp add: sample_grant_verdict)
  from decision_event[OF this] obtain e where e: "e \<in> set (ad_events ?d)" "ae_body e = DelegationGranted ?p" by blast
  with only_the_person_grants[OF e(1), of ?p undefined] show ?thesis by auto
qed

text \<open>
  C39. Every attempt leaves one record: the events of a decision end in one audit record, the only one, that names
  the events before it and the outcome. A refused command changes nothing else, with one exception: a stolen refresh
  credential, refused as \<open>refresh_replay\<close>, also ends its grant.
\<close>

theorem every_attempt_is_audited:
  "\<exists>es e p. ad_events (decideAdminAuthority cr command s ctx) = es @ [e] \<and> ae_body e = ActionRecorded p \<and>
    au_related_event_ids p = map ae_event_id es \<and> au_action p = admin_kind command \<and>
    au_reason_code p = ad_reason (decideAdminAuthority cr command s ctx) \<and>
    (au_outcome p = ''accepted'' \<longleftrightarrow> ad_ok (decideAdminAuthority cr command s ctx)) \<and>
    (\<forall>e' \<in> set es. \<forall>q. ae_body e' \<noteq> ActionRecorded q) \<and>
    (\<not> ad_ok (decideAdminAuthority cr command s ctx) \<longrightarrow>
      es = [] \<or> ad_reason (decideAdminAuthority cr command s ctx) = Some ''refresh_replay'')"
proof -
  let ?es = "decided_events cr command s ctx"
  from decision_shape[of cr command s ctx] obtain e g where
    e: "ad_events (decideAdminAuthority cr command s ctx) = ?es @ [e]"
      "ae_body e = ActionRecorded (audit_of command s ctx g (vd_reason (admin_verdict cr command s ctx)) (map ae_event_id ?es))" by blast
  have "?es = [] \<longleftrightarrow> vd_bodies (admin_verdict cr command s ctx) = []" using decided_bodies[of cr command s ctx] by auto
  with quiet_verdict[of cr command s ctx] have quiet: "vd_reason (admin_verdict cr command s ctx) \<noteq> None \<longrightarrow>
      ?es = [] \<or> vd_reason (admin_verdict cr command s ctx) = Some ''refresh_replay''" by (auto simp: quiet_def)
  have none: "\<forall>e' \<in> set ?es. \<forall>q. ae_body e' \<noteq> ActionRecorded q" using decided_no_audit by blast
  show ?thesis
    by (rule exI[of _ ?es], rule exI[of _ e], rule exI, intro conjI, rule e(1), rule e(2))
      (simp_all add: audit_of_def quiet none del: not_None_eq)
qed

theorem every_attempt_is_audited_witness:
  "\<exists>e. ad_events (decideAdminAuthority sample_digest (RevokeDelegation ''x'' ''r'') emptyAdminAccount
     (sample_admin_ctx sample_person 1)) = [e]"
proof -
  have "admin_verdict sample_digest (RevokeDelegation ''x'' ''r'') emptyAdminAccount (sample_admin_ctx sample_person 1) =
      deny ''grant_unavailable''"
    by (simp add: admin_verdict_def verified_replay_def rate_charges_def audit_grant_of_def emptyAdminAccount_def)
  with every_attempt_is_audited[of sample_digest "RevokeDelegation ''x'' ''r''" emptyAdminAccount "sample_admin_ctx sample_person 1"]
  show ?thesis by auto
qed

section \<open>Limits\<close>

lemma read_charged:
  assumes "ac_actor ctx = DelegatedAdmin ident gid conn scopes expires resource" and "command = ReadMetadata gid ws"
    and "ad_ok (decideAdminAuthority cr command s ctx)"
  shows "charged (''read:grant:'' @ gid) (rl_lineage ADMIN_READ_RATE_PER_HOUR) s command ctx"
proof -
  from assms obtain g where g: "obj_get (aa_grants s) gid = Some g" "vd_reason (decide_on_grant cr command s ctx g) = None"
    by (auto simp: admin_verdict_def split: if_split_asm option.split_asm)
  then have "ag_grant_id g = gid" using assms(1) by (auto simp: decide_on_grant_def binding_mismatch_def split: if_split_asm)
  with g(1) assms(1,2) show ?thesis
    by (simp add: charged_def rate_charges_def audit_grant_of_def adminRatePolicy_def rate_actor_exempt_def)
qed

lemma refresh_charged:
  assumes "command = RotateCredential i lid n scopes" and "ad_ok (decideAdminAuthority cr command s ctx)"
  shows "charged (''refresh:lineage:'' @ lid) ADMIN_REFRESH_RATE_PER_HOUR s command ctx"
proof -
  from assms obtain g where g: "obj_get (aa_grants s) i = Some g" "vd_reason (decide_on_grant cr command s ctx g) = None"
    by (auto simp: admin_verdict_def split: if_split_asm option.split_asm)
  then have "runtime_of ctx g" using assms(1) by (auto simp: decide_on_grant_def decide_credential_def split: if_split_asm)
  with g(1) assms(1) show ?thesis
    by (simp add: charged_def rate_charges_def audit_grant_of_def adminRatePolicy_def rate_actor_exempt_def runtime_of_def)
qed

lemma run_bound:
  assumes "\<forall>(command, ctx, bindings) \<in> set turns. hour_of (ac_now ctx) = h" and "limit = of_nat k"
    and "\<And>s command ctx. P s command ctx \<Longrightarrow> ad_ok (decideAdminAuthority cr command s ctx) \<Longrightarrow> charged key limit s command ctx"
  shows "accepted_turns cr P so turns \<le> k"
proof -
  have "accepted_turns cr P so turns = 0 \<or> of_nat (accepted_turns cr P so turns) \<le> limit"
    using accepted_turns_bound[of turns h P cr key limit so] assms(1,3) by blast
  then show ?thesis by (auto simp: assms(2))
qed

text \<open>
  C37. The hourly limits hold for every run: however the commands of one hour are ordered, repeated and mixed
  with those of others, and whatever the account was before, at most 120 reads by the delegate of a grant and
  at most 20 refreshes of a credential are accepted, since every attempt counts, refused ones included.
\<close>

theorem hourly_rate_is_bounded:
  assumes "\<forall>(command, ctx, bindings) \<in> set turns. hour_of (ac_now ctx) = h"
  shows "accepted_turns cr (\<lambda>s command ctx.
      (\<exists>ident conn scopes expires resource. ac_actor ctx = DelegatedAdmin ident gid conn scopes expires resource) \<and>
      (\<exists>ws. command = ReadMetadata gid ws)) so turns \<le> 120 \<and>
    accepted_turns cr (\<lambda>s command ctx. \<exists>i n scopes. command = RotateCredential i lid n scopes) so turns \<le> 20"
proof
  let ?P = "\<lambda>s command ctx.
      (\<exists>ident conn scopes expires resource. ac_actor ctx = DelegatedAdmin ident gid conn scopes expires resource) \<and>
      (\<exists>ws. command = ReadMetadata gid ws)"
  show "accepted_turns cr ?P so turns \<le> 120"
  proof (rule run_bound[OF assms])
    fix s command ctx assume "?P s command ctx" and ok: "ad_ok (decideAdminAuthority cr command s ctx)"
    then obtain ident conn scopes expires resource ws where
      "ac_actor ctx = DelegatedAdmin ident gid conn scopes expires resource" "command = ReadMetadata gid ws" by blast
    then show "charged (''read:grant:'' @ gid) (rl_lineage ADMIN_READ_RATE_PER_HOUR) s command ctx" using ok by (rule read_charged)
  qed (simp add: ADMIN_READ_RATE_PER_HOUR_def)
  show "accepted_turns cr (\<lambda>s command ctx. \<exists>i n scopes. command = RotateCredential i lid n scopes) so turns \<le> 20"
  proof (rule run_bound[OF assms])
    fix s command ctx assume "\<exists>i n scopes. command = RotateCredential i lid n scopes"
      and ok: "ad_ok (decideAdminAuthority cr command s ctx)"
    then obtain i n scopes where "command = RotateCredential i lid n scopes" by blast
    then show "charged (''refresh:lineage:'' @ lid) ADMIN_REFRESH_RATE_PER_HOUR s command ctx" using ok by (rule refresh_charged)
  qed (simp add: ADMIN_REFRESH_RATE_PER_HOUR_def)
qed

theorem hourly_rate_is_bounded_witness:
  "accepted_turns sample_digest (\<lambda>s command ctx. \<exists>i n scopes. command = RotateCredential i ''l'' n scopes)
     (Some (sample_account [(''l'', sample_lineage 0)] mutation_buckets))
     (replicate 30 (RotateCredential ''g'' ''l'' 0 [''admin:read''], sample_admin_ctx sample_runtime 4, \<lambda>_. [])) \<le> 20"
  using hourly_rate_is_bounded[of "replicate 30 (RotateCredential ''g'' ''l'' 0 [''admin:read''], sample_admin_ctx sample_runtime 4, \<lambda>_. [])"
    0 sample_digest "[]" "Some (sample_account [(''l'', sample_lineage 0)] mutation_buckets)" "''l''"] by simp

section \<open>Stolen credentials and the database\<close>

lemma replay_verdict:
  assumes "command = RotateCredential gid lid n scopes \<or> command = RecordReplay gid lid n scopes"
    and "obj_get (aa_grants s) gid = Some g" and "ag_owner_user_id g = ac_owner_user_id ctx" and "ag_grant_id g = gid"
    and "grant_live ctx g" and "obj_get (aa_lineages s) lid = Some l" and "li_grant_id l = gid" and "li_state l = LineageActive"
    and "n < li_generation l" and "runtime_of ctx g" and "ac_presenting_refresh_lineage_id ctx = Some lid"
    and "ac_presenting_refresh_generation ctx = Some n"
  shows "admin_verdict cr command s ctx = \<lparr>vd_reason = Some ''refresh_replay'',
    vd_bodies = [CredentialReplayDetected gid (li_credential_lineage_id l) n (ac_now ctx) ''refresh_replay'',
      DelegationRevoked (terminalPayload g s (ac_now ctx) ''refresh_replay'')], vd_grant = None\<rparr>"
proof -
  have r: "ac_actor ctx = CredentialRuntime (am_connection_id g) (am_client_id g) ADMIN_RESOURCE"
    using assms(10) by (simp add: runtime_of_def)
  have "verified_replay command s ctx" using assms by (auto simp: verified_replay_def)
  with assms r show ?thesis
    by (auto simp: admin_verdict_def decide_on_grant_def binding_mismatch_def scopes_exceed_def decide_credential_def
        decide_rotate_def)
qed

lemma revoked_by:
  assumes "fold_events (reduceAdminAuthority cr) (Some s) (ad_events (decideAdminAuthority cr command s ctx)) = Inr (Some t)"
    and "vd_bodies (admin_verdict cr command s ctx) = [CredentialReplayDetected a b c d e, DelegationRevoked p]"
  shows "\<exists>g v x. obj_get (aa_grants s) (tp_grant_id p) = Some g \<and>
    v = projectTerminalGrant s (tp_grant_id p) g GrantRevoked x (tp_reason_code p) \<and>
    aa_grants t = aa_grants v \<and> aa_connections t = aa_connections v \<and> aa_routine t = aa_routine v"
proof -
  from decided_bodies[of cr command s ctx] assms(2) obtain x y where
    x: "decided_events cr command s ctx = [x, y]" "ae_body x = CredentialReplayDetected a b c d e" "ae_body y = DelegationRevoked p"
    by auto
  from decision_shape[of cr command s ctx] obtain z q where
    z: "ad_events (decideAdminAuthority cr command s ctx) = [x, y, z]" "ae_body z = ActionRecorded q" by (auto simp: x(1))
  from assms(1) obtain u v where u: "reduceAdminAuthority cr (Some s) x = Inr u" "reduceAdminAuthority cr (Some u) y = Inr v"
    "reduceAdminAuthority cr (Some v) z = Inr t" by (auto simp: z(1) bind_result_Inr)
  have "u = s" using u(1) x(2) by (simp add: reduceAdminAuthority_def split: if_split_asm)
  with u(2) x(3) have "\<exists>g. obj_get (aa_grants s) (tp_grant_id p) = Some g \<and>
      v = projectTerminalGrant s (tp_grant_id p) g GrantRevoked (ae_occurred_at y) (tp_reason_code p)"
    by (auto simp: reduceAdminAuthority_def Let_def reduce_terminal_def split: if_split_asm option.split_asm)
  moreover have "aa_grants t = aa_grants v" "aa_connections t = aa_connections v" "aa_routine t = aa_routine v"
    using u(3) z(2) by (auto simp: reduceAdminAuthority_def Let_def split: if_split_asm)
  ultimately show ?thesis by blast
qed

text \<open>What was pending on a grant is still there after its end, and over.\<close>

lemma terminal_pending:
  assumes "v = projectTerminalGrant s i g GrantRevoked x r" and "aa_connections t = aa_connections v" and "aa_routine t = aa_routine v"
  shows "obj_get (obj_or_empty (aa_connections s)) k = Some a \<Longrightarrow> at_parent_admin_grant_id a = i \<Longrightarrow>
      at_state a = AwaitingAuthorization \<Longrightarrow> \<exists>b. obj_get (obj_or_empty (aa_connections t)) k = Some b \<and> at_state b = AttemptCancelled"
    "obj_get (rt_invitations (routine_of s)) k = Some n \<Longrightarrow> ri_parent_admin_grant_id n = i \<Longrightarrow> ri_accepted_at n = None \<Longrightarrow>
      \<exists>m. obj_get (rt_invitations (routine_of t)) k = Some m \<and> ri_revoked_at m \<noteq> None"
proof -
  have c: "aa_connections t = map_option (obj_map (cancel_attempt i x r None)) (aa_connections s)"
    "aa_routine t = map_option (\<lambda>q. q\<lparr>rt_invitations := obj_map (cancel_invitation i x) (rt_invitations q)\<rparr>) (aa_routine s)"
    by (simp_all add: assms projectTerminalGrant_def Let_def cancelPendingConnections_def)
  show "obj_get (obj_or_empty (aa_connections s)) k = Some a \<Longrightarrow> at_parent_admin_grant_id a = i \<Longrightarrow>
      at_state a = AwaitingAuthorization \<Longrightarrow> \<exists>b. obj_get (obj_or_empty (aa_connections t)) k = Some b \<and> at_state b = AttemptCancelled"
    by (cases "aa_connections s") (simp_all add: c cancel_attempt_def)
  show "obj_get (rt_invitations (routine_of s)) k = Some n \<Longrightarrow> ri_parent_admin_grant_id n = i \<Longrightarrow> ri_accepted_at n = None \<Longrightarrow>
      \<exists>m. obj_get (rt_invitations (routine_of t)) k = Some m \<and> ri_revoked_at m \<noteq> None"
    by (cases "aa_routine s") (auto simp: c routine_of_def emptyAdminRoutine_def cancel_invitation_def split: option.split)
qed

text \<open>
  C36. A stolen refresh credential ends the grant: when the runtime of a live grant presents a generation
  older than the current one, to refresh or to report it, the command is refused as \<open>refresh_replay\<close> whatever the
  rate buckets hold, and in the account after its events the grant is revoked, its credentials are revoked, each
  connection of it that awaited its authorisation is there cancelled and each open invitation of it is there revoked. The
  account is any sound one, with the connections and invitations a delegate made, and the client approval the transaction
  read is one the account holds.
\<close>

theorem stolen_refresh_ends_the_grant:
  assumes "account_ok cr s" and "policy_agrees cr s ctx"
    and "command = RotateCredential gid lid n scopes \<or> command = RecordReplay gid lid n scopes"
    and "obj_get (aa_grants s) gid = Some g" and "ag_owner_user_id g = ac_owner_user_id ctx"
    and "ac_now ctx < am_expires_at g" and "ac_now ctx < am_refresh_deadline g"
    and "obj_get (aa_lineages s) lid = Some l" and "li_grant_id l = gid" and "li_state l = LineageActive"
    and "n < li_generation l"
    and "ac_actor ctx = CredentialRuntime (am_connection_id g) (am_client_id g) ADMIN_RESOURCE"
    and "ac_presenting_refresh_lineage_id ctx = Some lid" and "ac_presenting_refresh_generation ctx = Some n"
  shows "ad_reason (decideAdminAuthority cr command s ctx) = Some ''refresh_replay'' \<and>
    (\<exists>t h. fold_events (reduceAdminAuthority cr) (Some s) (ad_events (decideAdminAuthority cr command s ctx)) = Inr (Some t) \<and>
      obj_get (aa_grants t) gid = Some h \<and> ag_state h = GrantRevoked \<and>
      (\<forall>k m. obj_get (aa_lineages t) k = Some m \<and> li_grant_id m = gid \<longrightarrow> li_state m = LineageRevoked) \<and>
      (\<forall>k a. obj_get (obj_or_empty (aa_connections s)) k = Some a \<and> at_parent_admin_grant_id a = gid \<and>
        at_state a = AwaitingAuthorization \<longrightarrow>
        (\<exists>b. obj_get (obj_or_empty (aa_connections t)) k = Some b \<and> at_state b = AttemptCancelled)) \<and>
      (\<forall>k i. obj_get (rt_invitations (routine_of s)) k = Some i \<and> ri_parent_admin_grant_id i = gid \<and>
        ri_accepted_at i = None \<longrightarrow>
        (\<exists>j. obj_get (rt_invitations (routine_of t)) k = Some j \<and> ri_revoked_at j \<noteq> None)) \<and>
      (\<forall>k a. obj_get (obj_or_empty (aa_connections t)) k = Some a \<and> at_parent_admin_grant_id a = gid \<longrightarrow>
        at_state a \<noteq> AwaitingAuthorization) \<and>
      (\<forall>k i. obj_get (rt_invitations (routine_of t)) k = Some i \<and> ri_parent_admin_grant_id i = gid \<longrightarrow>
        ri_accepted_at i \<noteq> None \<or> ri_revoked_at i \<noteq> None))"
proof -
  note ok = assms(1)
  have key: "ag_grant_id g = gid" by (rule keyed_grant[OF ok assms(4)])
  have "ag_state g = GrantIsActive"
    using account_okD(3)[OF ok] assms(4,8-10) unfolding lineages_ok_def grant_active_def by force
  then have "grant_live ctx g" using assms(6,7) by (simp add: grant_live_def)
  note v = replay_verdict[OF assms(3-5) key this assms(8-11) _ assms(13,14), of cr]
  have v: "vd_reason (admin_verdict cr command s ctx) = Some ''refresh_replay''"
    "vd_bodies (admin_verdict cr command s ctx) = [CredentialReplayDetected gid (li_credential_lineage_id l) n (ac_now ctx)
      ''refresh_replay'', DelegationRevoked (terminalPayload g s (ac_now ctx) ''refresh_replay'')]"
    using v assms(12) by (simp_all add: runtime_of_def)
  from authority_projects[OF ok assms(2), of command] obtain t where
    t: "fold_events (reduceAdminAuthority cr) (Some s) (ad_events (decideAdminAuthority cr command s ctx)) = Inr (Some t)"
      "account_ok cr t" by blast
  have gid: "tp_grant_id (terminalPayload g s (ac_now ctx) ''refresh_replay'') = gid" by (simp add: terminalPayload_def key Let_def)
  from revoked_by[OF t(1) v(2), unfolded gid] obtain x r where
    h: "aa_grants t = aa_grants (projectTerminalGrant s gid g GrantRevoked x r)"
      "aa_connections t = aa_connections (projectTerminalGrant s gid g GrantRevoked x r)"
      "aa_routine t = aa_routine (projectTerminalGrant s gid g GrantRevoked x r)" using assms(4) by auto
  then have over: "\<not> grant_active t gid" "obj_get (aa_grants t) gid = Some (terminate_grant GrantRevoked x r g)"
    by (simp_all add: grant_active_def projectTerminalGrant_def Let_def terminate_grant_def)
  have "li_state m = LineageRevoked" if "obj_get (aa_lineages t) k = Some m" "li_grant_id m = gid" for k m
    using account_okD(3)[OF t(2)] over(1) that unfolding lineages_ok_def by (cases "li_state m") auto
  moreover have "at_state a \<noteq> AwaitingAuthorization"
    if "obj_get (obj_or_empty (aa_connections t)) k = Some a" "at_parent_admin_grant_id a = gid" for k a
    using account_okD(4)[OF t(2)] over(1) that unfolding attempts_ok_def by blast
  moreover have "ri_accepted_at i \<noteq> None \<or> ri_revoked_at i \<noteq> None"
    if "obj_get (rt_invitations (routine_of t)) k = Some i" "ri_parent_admin_grant_id i = gid" for k i
    using account_okD(5)[OF t(2)] over(1) that unfolding invitations_ok_def by blast
  moreover note terminal_pending[OF refl h(2,3)]
  moreover have "ag_state (terminate_grant GrantRevoked x r g) = GrantRevoked" by (simp add: terminate_grant_def)
  ultimately show ?thesis using v(1) t(1) over(2) unfolding decision_reason by blast
qed

theorem stolen_refresh_ends_the_grant_witness:
  "\<exists>t b m. fold_events (reduceAdminAuthority sample_digest) (Some busy_account)
     (ad_events (decideAdminAuthority sample_digest (RotateCredential ''g'' ''l'' 0 [''admin:read'']) busy_account
       (sample_admin_ctx sample_runtime 5))) = Inr (Some t) \<and>
     obj_get (obj_or_empty (aa_connections t)) ''a'' = Some b \<and> at_state b = AttemptCancelled \<and>
     obj_get (rt_invitations (routine_of t)) ''i'' = Some m \<and> ri_revoked_at m \<noteq> None"
proof -
  let ?es = "ad_events (decideAdminAuthority sample_digest (RotateCredential ''g'' ''l'' 0 [''admin:read'']) busy_account
       (sample_admin_ctx sample_runtime 5))"
  from stolen_refresh_ends_the_grant[OF busy_ok, of "sample_admin_ctx sample_runtime 5"
      "RotateCredential ''g'' ''l'' 0 [''admin:read'']" "''g''" "''l''" 0 "[''admin:read'']" read_grant "sample_lineage 1"]
  obtain t where t: "fold_events (reduceAdminAuthority sample_digest) (Some busy_account) ?es = Inr (Some t)"
    and c: "\<And>k a. obj_get (obj_or_empty (aa_connections busy_account)) k = Some a \<Longrightarrow> at_parent_admin_grant_id a = ''g'' \<Longrightarrow>
      at_state a = AwaitingAuthorization \<Longrightarrow> \<exists>b. obj_get (obj_or_empty (aa_connections t)) k = Some b \<and> at_state b = AttemptCancelled"
    and i: "\<And>k i. obj_get (rt_invitations (routine_of busy_account)) k = Some i \<Longrightarrow> ri_parent_admin_grant_id i = ''g'' \<Longrightarrow>
      ri_accepted_at i = None \<Longrightarrow> \<exists>m. obj_get (rt_invitations (routine_of t)) k = Some m \<and> ri_revoked_at m \<noteq> None"
    by (auto simp del: busy_fields(4))
  have "\<exists>b. obj_get (obj_or_empty (aa_connections t)) ''a'' = Some b \<and> at_state b = AttemptCancelled"
    by (rule c[of _ waiting_attempt]) simp_all
  moreover have "\<exists>m. obj_get (rt_invitations (routine_of t)) ''i'' = Some m \<and> ri_revoked_at m \<noteq> None"
    by (rule i[of _ open_invitation]) simp_all
  ultimately show ?thesis using t by blast
qed

text \<open>
  C38. The database only takes authority away: on any sound account, with its connections and
  invitations, rows are accepted only when they name each grant of the account exactly once; then the account that results is
  sound, so nothing pends on a grant that is over, each grant has the state of its row and the terms and the
  owner it had, and no grant is live that the account did not hold as live.
\<close>

theorem durable_rows_only_reduce:
  assumes "account_ok cr s" and "adminAccountWithDurableGrants s rows = Some t"
  shows "distinct (map dg_grant_id rows) \<and> set (map dg_grant_id rows) = set (obj_keys (aa_grants s)) \<and>
    account_ok cr t \<and> (\<forall>i g. obj_get (aa_grants s) i = Some g \<longrightarrow>
      (\<exists>h row. obj_get (aa_grants t) i = Some h \<and> row \<in> set rows \<and> dg_grant_id row = i \<and>
        ag_state h = dg_state row \<and> admin_manifest.truncate h = admin_manifest.truncate g \<and>
        ag_owner_user_id h = ag_owner_user_id g \<and> (ag_state h = GrantIsActive \<longrightarrow> ag_state g = GrantIsActive)))"
proof -
  from assms(2) have rows: "length rows = length (obj_keys (aa_grants s))" "distinct (map dg_grant_id rows)"
    "list_all (durable_row_ok s) rows" "t = foldl reconcile_row s rows"
    by (auto simp: adminAccountWithDurableGrants_def split: if_split_asm)
  have each: "\<exists>g. obj_get (aa_grants s) (dg_grant_id row) = Some g \<and> (dg_state row = GrantIsActive \<longrightarrow> ag_state g = GrantIsActive)"
    if "row \<in> set rows" for row
    using rows(3) that by (auto simp: list_all_iff elim!: durable_row_okD)
  note all = reconcile_rows[OF assms(1) rows(2) each]
  have keyed: "keyed ag_grant_id (aa_grants s)" using account_okD(1)[OF assms(1)] by (simp add: rows_keyed_def)
  have cover: "\<exists>row \<in> set rows. dg_grant_id row = i" if "obj_get (aa_grants s) i = Some g" for i g
    using rows_cover[OF keyed rows(1,2) _ that] each by fastforce
  have "x \<in> set (obj_keys (aa_grants s)) \<longleftrightarrow> obj_get (aa_grants s) x \<noteq> None" for x
    by (simp add: obj_keys_def obj_get_def map_of_eq_None_iff)
  then have names: "set (map dg_grant_id rows) = set (obj_keys (aa_grants s))" using each cover by fastforce
  have grant: "\<exists>h row. obj_get (aa_grants t) i = Some h \<and> row \<in> set rows \<and> dg_grant_id row = i \<and>
        ag_state h = dg_state row \<and> admin_manifest.truncate h = admin_manifest.truncate g \<and>
        ag_owner_user_id h = ag_owner_user_id g \<and> (ag_state h = GrantIsActive \<longrightarrow> ag_state g = GrantIsActive)"
    if g: "obj_get (aa_grants s) i = Some g" for i g
  proof -
    from cover[OF g] obtain row where row: "find (\<lambda>r. dg_grant_id r = i) rows = Some row"
      by (cases "find (\<lambda>r. dg_grant_id r = i) rows") (auto simp: find_None_iff)
    then have "row \<in> set rows" "dg_grant_id row = i" by (auto simp: find_Some_iff)
    moreover have "obj_get (aa_grants t) i = Some (settle row g)" using all rows(4) row g by simp
    ultimately show ?thesis using each[of row] g settle_manifest[of row g] by (auto simp: same_manifest_def)
  qed
  show ?thesis using rows(2,4) names all grant by blast
qed

theorem durable_rows_only_reduce_witness:
  "\<exists>t row. row = \<lparr>dg_grant_id = ''g'', dg_state = GrantSuspended, dg_manifest_digest = ''m'', dg_expires_at = 100000,
      dg_refresh_deadline = 100000, dg_revoked_at = None, dg_suspended_at = Some 7, dg_reason_code = Some ''policy''\<rparr> \<and>
    adminAccountWithDurableGrants busy_account [row] = Some t \<and> account_ok sample_digest t"
proof -
  let ?row = "\<lparr>dg_grant_id = ''g'', dg_state = GrantSuspended, dg_manifest_digest = ''m'', dg_expires_at = 100000,
      dg_refresh_deadline = 100000, dg_revoked_at = None, dg_suspended_at = Some 7, dg_reason_code = Some ''policy''\<rparr>"
  have "durable_row_ok busy_account ?row"
    by (simp add: durable_row_ok_def durable_time_def max_safe_integer_def truthy_def)
  then obtain t where t: "adminAccountWithDurableGrants busy_account [?row] = Some t"
    by (simp add: adminAccountWithDurableGrants_def obj_keys_def)
  from durable_rows_only_reduce[OF busy_ok t] t show ?thesis by auto
qed

section \<open>What validation lets through\<close>

text \<open>
  The mode is tested through \<open>String(m.mode)\<close>: an array holding the text of a mode is admitted as well. Such
  a manifest selects every owned workspace, as full-account mode does, and is held to none of the rules of that mode.
\<close>

theorem array_mode_is_admitted:
  assumes "adminManifestValid cr (JObject ob) now initial"
    and "new = obj_put (obj_put ob ''mode'' (JArray [JString ''full_account''])) ''workspace_selector'' (JString ''owned_and_selected'')"
  shows "adminManifestValid cr (JObject new) now initial"
proof -
  have other: "obj_get new k = obj_get ob k" if "k \<noteq> ''mode''" "k \<noteq> ''workspace_selector''" for k
    using that by (simp add: assms(2))
  have mode: "obj_get new ''mode'' = Some (JArray [JString ''full_account''])"
    "obj_get new ''workspace_selector'' = Some (JString ''owned_and_selected'')" by (simp_all add: assms(2))
  have keys: "''mode'' \<in> set (obj_keys ob)" "''workspace_selector'' \<in> set (obj_keys ob)"
    using assms(1) by (simp_all add: adminManifestValid_def adminExactKeys_def MANIFEST_KEYS_def)
  then have "obj_keys new = obj_keys ob" by (simp add: assms(2) obj_keys_def obj_put_def update_keys)
  moreover from this have "length new = length ob" unfolding obj_keys_def by (metis length_map)
  ultimately have exact: "adminExactKeys new ks = adminExactKeys ob ks" for ks by (simp add: adminExactKeys_def)
  have "targets_valid new = targets_valid ob" "worker_scopes_valid new = worker_scopes_valid ob"
    "renewal_valid new = renewal_valid ob" "times_valid new now initial = times_valid ob now initial"
    "created_policy_valid new v = created_policy_valid ob v" for v
    by (simp_all add: targets_valid_def worker_scopes_valid_def renewal_valid_def times_valid_def created_policy_valid_def
        on_field_def on_strings_def on_number_def on_object_def on_boolean_def other)
  moreover have "identity_valid cr ob v initial \<Longrightarrow> identity_valid cr new v initial" for v
    by (simp add: identity_valid_def on_field_def on_strings_def other mode)
  moreover have "capabilities_valid cr ob ds \<Longrightarrow> capabilities_valid cr new ds" for ds
    by (simp add: capabilities_valid_def on_field_def on_strings_def other mode split: option.split_asm)
  moreover have "obj_get new ''registry_version'' = obj_get ob ''registry_version''" by (simp add: other)
  ultimately show ?thesis
    using assms(1) by (auto simp: adminManifestValid_def exact on_number_def on_field_def split: option.splits json.splits jsnum.splits)
qed

theorem array_mode_is_admitted_witness:
  "\<exists>ob. adminManifestValid sample_digest (JObject (obj_put (obj_put ob ''mode'' (JArray [JString ''full_account'']))
    ''workspace_selector'' (JString ''owned_and_selected''))) 1 True"
proof -
  obtain ob where "manifest_value read_manifest = JObject ob" using manifest_value_object by blast
  with sample_valid[of 1 True] array_mode_is_admitted[of sample_digest ob 1 True] show ?thesis by auto
qed

end
