(* ===== verification/AdminRoutine.thy ===== *)
theory AdminRoutine
  imports AdminDecision
begin

text \<open>
  The commands a delegate sends on a grant, \<open>src/protocol/admin-routine.ts\<close>: their types, the validation
  \<open>parseAdminRoutineCommand\<close> of a value of unknown type, and the facts of the transaction. Names are
  Latin-1 strings in a command and code units in an event.
\<close>

section \<open>Commands\<close>

datatype routine_action =
    PrepareConnection string string string string agent_transport number
      \<comment> \<open>\<open>intended_owner_user_id\<close>, \<open>intended_agent_id\<close>, \<open>recipient_connection_id\<close>, \<open>requested_name\<close>, \<open>transport\<close>, \<open>ttl_seconds\<close>\<close>
  | CancelConnection string string \<comment> \<open>\<open>attempt_id\<close>, \<open>reason_code\<close>\<close>
  | CreateWorkspace string
  | CreateSeat string "string option" agent_transport \<comment> \<open>\<open>name\<close>, \<open>model\<close>, \<open>transport\<close>\<close>
  | ProvisionSeat string string "string list" number number number
      \<comment> \<open>\<open>principal_id\<close>, \<open>recipient_connection_id\<close>, \<open>worker_scope_names\<close>, \<open>bearer_seconds\<close>, \<open>horizon_seconds\<close>, \<open>max_successors\<close>\<close>
  | RenewSeat string string string "string list" number
      \<comment> \<open>\<open>principal_id\<close>, \<open>predecessor_credential_id\<close>, \<open>recipient_connection_id\<close>, \<open>worker_scope_names\<close>, \<open>bearer_seconds\<close>\<close>
  | ReplaceUndelivered string string string \<comment> \<open>\<open>principal_id\<close>, \<open>credential_id\<close>, \<open>recipient_connection_id\<close>\<close>
  | RevokeSeat string string \<comment> \<open>\<open>principal_id\<close>, \<open>reason_code\<close>\<close>
  | RevokeSeatCredential string string string \<comment> \<open>\<open>principal_id\<close>, \<open>credential_id\<close>, \<open>reason_code\<close>\<close>
  | InviteMember string number \<comment> \<open>\<open>recipient_user_id\<close>, \<open>ttl_seconds\<close>; \<open>role\<close> is always \<open>'member'\<close>\<close>
  | IssueAgentInvitation string string agent_transport number "string list" number
      \<comment> \<open>\<open>intended_owner_user_id\<close>, \<open>recipient_connection_id\<close>, \<open>transport\<close>, \<open>seat_limit\<close>, \<open>worker_scope_names\<close>, \<open>ttl_seconds\<close>\<close>
  | RevokeInvitationById invitation_kind string string \<comment> \<open>which of the two kinds, \<open>invitation_id\<close>, \<open>reason_code\<close>\<close>

record routine_command =
  rq_grant_id :: string
  rq_workspace_id :: string
  rq_action :: routine_action

fun routine_kind :: "routine_action \<Rightarrow> string" where
  "routine_kind (PrepareConnection _ _ _ _ _ _) = ''admin_prepare_connection''"
| "routine_kind (CancelConnection _ _) = ''admin_cancel_connection''"
| "routine_kind (CreateWorkspace _) = ''admin_create_workspace''"
| "routine_kind (CreateSeat _ _ _) = ''admin_create_seat''"
| "routine_kind (ProvisionSeat _ _ _ _ _ _) = ''admin_provision_seat''"
| "routine_kind (RenewSeat _ _ _ _ _) = ''admin_renew_seat''"
| "routine_kind (ReplaceUndelivered _ _ _) = ''admin_replace_undelivered_seat_credential''"
| "routine_kind (RevokeSeat _ _) = ''admin_revoke_seat''"
| "routine_kind (RevokeSeatCredential _ _ _) = ''admin_revoke_seat_credential''"
| "routine_kind (InviteMember _ _) = ''admin_invite_member''"
| "routine_kind (IssueAgentInvitation _ _ _ _ _ _) = ''admin_issue_agent_invitation''"
| "routine_kind (RevokeInvitationById MemberInvitation _ _) = ''admin_revoke_invitation''"
| "routine_kind (RevokeInvitationById AgentInvitation _ _) = ''admin_revoke_agent_invitation''"

text \<open>A command as the object it is.\<close>

fun action_fields :: "routine_action \<Rightarrow> json obj" where
  "action_fields (PrepareConnection owner agent conn name transport ttl) =
     [(''intended_owner_user_id'', JString owner), (''intended_agent_id'', JString agent),
      (''recipient_connection_id'', JString conn), (''requested_name'', JString name),
      (''transport'', JString (transport_text transport)), (''ttl_seconds'', json_num ttl)]"
| "action_fields (CancelConnection attempt reason) =
     [(''attempt_id'', JString attempt), (''reason_code'', JString reason)]"
| "action_fields (CreateWorkspace name) = [(''name'', JString name)]"
| "action_fields (CreateSeat name model transport) =
     [(''name'', JString name), (''model'', case model of None \<Rightarrow> JNull | Some m \<Rightarrow> JString m),
      (''transport'', JString (transport_text transport))]"
| "action_fields (ProvisionSeat pid conn scopes bearer horizon successors) =
     [(''principal_id'', JString pid), (''recipient_connection_id'', JString conn),
      (''worker_scope_names'', json_strings scopes), (''bearer_seconds'', json_num bearer),
      (''horizon_seconds'', json_num horizon), (''max_successors'', json_num successors)]"
| "action_fields (RenewSeat pid predecessor conn scopes bearer) =
     [(''principal_id'', JString pid), (''predecessor_credential_id'', JString predecessor),
      (''recipient_connection_id'', JString conn), (''worker_scope_names'', json_strings scopes),
      (''bearer_seconds'', json_num bearer)]"
| "action_fields (ReplaceUndelivered pid credential conn) =
     [(''principal_id'', JString pid), (''credential_id'', JString credential), (''recipient_connection_id'', JString conn)]"
| "action_fields (RevokeSeat pid reason) = [(''principal_id'', JString pid), (''reason_code'', JString reason)]"
| "action_fields (RevokeSeatCredential pid credential reason) =
     [(''principal_id'', JString pid), (''credential_id'', JString credential), (''reason_code'', JString reason)]"
| "action_fields (InviteMember recipient ttl) =
     [(''recipient_user_id'', JString recipient), (''role'', JString ''member''), (''ttl_seconds'', json_num ttl)]"
| "action_fields (IssueAgentInvitation owner conn transport seats scopes ttl) =
     [(''intended_owner_user_id'', JString owner), (''recipient_connection_id'', JString conn),
      (''transport'', JString (transport_text transport)), (''seat_limit'', json_num seats),
      (''worker_scope_names'', json_strings scopes), (''ttl_seconds'', json_num ttl)]"
| "action_fields (RevokeInvitationById _ invitation reason) =
     [(''invitation_id'', JString invitation), (''reason_code'', JString reason)]"

definition routine_value :: "routine_command \<Rightarrow> json" where
  "routine_value c = JObject ([(''kind'', JString (routine_kind (rq_action c))), (''grant_id'', JString (rq_grant_id c)),
     (''workspace_id'', JString (rq_workspace_id c))] @ action_fields (rq_action c))"

section \<open>Validation\<close>

definition uuid_value :: "json \<Rightarrow> bool" where
  "uuid_value v \<longleftrightarrow> (case string_value v of None \<Rightarrow> False | Some s \<Rightarrow> ADMIN_UUID_RE s)"

definition text_ok :: "nat \<Rightarrow> string \<Rightarrow> bool" where
  "text_ok top_length s \<longleftrightarrow> 0 < length s \<and> length s \<le> top_length \<and> trim (lit s) = lit s \<and>
     list_all (\<lambda>c. 31 < c \<and> c \<noteq> 127) (lit s)"

definition text_value :: "nat \<Rightarrow> json \<Rightarrow> bool" where
  "text_value top_length v \<longleftrightarrow> (case string_value v of None \<Rightarrow> False | Some s \<Rightarrow> text_ok top_length s)"

definition positive :: "jsnum \<Rightarrow> bool" where
  "positive x \<longleftrightarrow> is_safe_integer x \<and> 0 < finite_value x"

definition positive_value :: "json \<Rightarrow> bool" where
  "positive_value v \<longleftrightarrow> (case v of JNumber x \<Rightarrow> positive x | _ \<Rightarrow> False)"

text \<open>The regular expression \<open>/^[a-z][a-z0-9_:.-]*$/u\<close>.\<close>

definition scope_chars :: "string \<Rightarrow> bool" where
  "scope_chars s \<longleftrightarrow> s \<noteq> [] \<and> hd s \<in> set ''abcdefghijklmnopqrstuvwxyz'' \<and>
     list_all (\<lambda>c. c \<in> set ''abcdefghijklmnopqrstuvwxyz0123456789_:.-'') (tl s)"

definition worker_scopes :: "json \<Rightarrow> bool" where
  "worker_scopes v \<longleftrightarrow> (case string_items v of
     None \<Rightarrow> False
   | Some xs \<Rightarrow> 0 < length xs \<and> length xs \<le> 100 \<and>
       list_all (\<lambda>s. text_ok 80 s \<and> scope_chars s \<and> \<not> isAgentScopeDenylisted (lit s)) xs \<and> distinct xs)"

definition code_value :: "json \<Rightarrow> bool" where
  "code_value v \<longleftrightarrow> (case string_value v of None \<Rightarrow> False | Some s \<Rightarrow> reason_code_text s)"

definition transport_value :: "crypto \<Rightarrow> json \<Rightarrow> bool" where
  "transport_value cr v \<longleftrightarrow> js_string (cr_num_text cr) v \<in> set [''local'', ''hosted_mcp'']"

text \<open>The keys of each kind with the test of its value, in the order of the switch; \<open>None\<close> for a kind
  the switch does not list.\<close>

definition routine_shape :: "crypto \<Rightarrow> string \<Rightarrow> (string \<times> (json \<Rightarrow> bool)) list option" where
  "routine_shape cr kind =
    (if kind = ''admin_prepare_connection'' then Some
       [(''intended_owner_user_id'', uuid_value), (''intended_agent_id'', uuid_value), (''recipient_connection_id'', uuid_value),
        (''requested_name'', text_value 80), (''transport'', transport_value cr), (''ttl_seconds'', positive_value)]
     else if kind = ''admin_cancel_connection'' then Some [(''attempt_id'', uuid_value), (''reason_code'', code_value)]
     else if kind = ''admin_create_workspace'' then Some [(''name'', text_value 80)]
     else if kind = ''admin_create_seat'' then Some
       [(''name'', text_value 80), (''model'', \<lambda>v. v = JNull \<or> text_value 120 v), (''transport'', transport_value cr)]
     else if kind = ''admin_provision_seat'' then Some
       [(''principal_id'', uuid_value), (''recipient_connection_id'', uuid_value), (''worker_scope_names'', worker_scopes),
        (''bearer_seconds'', positive_value), (''horizon_seconds'', positive_value), (''max_successors'', positive_value)]
     else if kind = ''admin_renew_seat'' then Some
       [(''principal_id'', uuid_value), (''predecessor_credential_id'', uuid_value), (''recipient_connection_id'', uuid_value),
        (''worker_scope_names'', worker_scopes), (''bearer_seconds'', positive_value)]
     else if kind = ''admin_replace_undelivered_seat_credential'' then Some
       [(''principal_id'', uuid_value), (''credential_id'', uuid_value), (''recipient_connection_id'', uuid_value)]
     else if kind = ''admin_revoke_seat'' then Some [(''principal_id'', uuid_value), (''reason_code'', code_value)]
     else if kind = ''admin_revoke_seat_credential'' then Some
       [(''principal_id'', uuid_value), (''credential_id'', uuid_value), (''reason_code'', code_value)]
     else if kind = ''admin_invite_member'' then Some
       [(''recipient_user_id'', uuid_value), (''role'', \<lambda>v. v = JString ''member''), (''ttl_seconds'', positive_value)]
     else if kind = ''admin_issue_agent_invitation'' then Some
       [(''intended_owner_user_id'', uuid_value), (''recipient_connection_id'', uuid_value), (''transport'', transport_value cr),
        (''seat_limit'', positive_value), (''worker_scope_names'', worker_scopes), (''ttl_seconds'', positive_value)]
     else if kind = ''admin_revoke_invitation'' \<or> kind = ''admin_revoke_agent_invitation'' then Some
       [(''invitation_id'', uuid_value), (''reason_code'', code_value)]
     else None)"

text \<open>The command itself where it is valid.\<close>

definition parseAdminRoutineCommand :: "crypto \<Rightarrow> json \<Rightarrow> json obj option" where
  "parseAdminRoutineCommand cr v = (case adminRecord v of
     None \<Rightarrow> None
   | Some c \<Rightarrow>
       (case obj_get c ''kind'' of
          Some (JString kind) \<Rightarrow>
            if \<not> adminCapabilityAvailable kind ADMIN_REGISTRY_VERSION \<or> \<not> on_field c ''grant_id'' uuid_value \<or>
               \<not> on_field c ''workspace_id'' uuid_value then None
            else (case routine_shape cr kind of
                None \<Rightarrow> None
              | Some shape \<Rightarrow>
                  if adminExactKeys c ([''kind'', ''grant_id'', ''workspace_id''] @ map fst shape) \<and>
                     list_all (\<lambda>(k, test). on_field c k test) shape then Some c else None)
        | _ \<Rightarrow> None))"

section \<open>The facts of the transaction\<close>

text \<open>Counters come from the adapter and are tested before they are used; \<open>nextResourceId\<close> hands out
  its n-th value on its n-th call.\<close>

record admin_routine_ctx = admin_ctx +
  rx_workspace :: "admin_routine workspace_state option"
  rx_workspace_stream_id :: string
  rx_workspace_seq :: number
  rx_owned_workspaces :: jsnum
  rx_workspace_creations_last_day :: jsnum
  rx_invitations_last_day :: jsnum
  rx_live_invitations_person :: jsnum
  rx_live_principals :: jsnum
  rx_live_members_and_invitations :: jsnum
  rx_live_agent_invitations_person :: jsnum
  rx_live_agent_invitations_workspace :: jsnum
  rx_human_worker_scopes :: "string list"
  rx_recipient_exists :: bool
  rx_recipient_is_member :: bool
  rx_delivery_connection_id :: "string option"
  rx_target_credential :: "routine_credential option"
  rx_principal_lineage_ids :: "string list"
  rx_nextResourceId :: "nat \<Rightarrow> string"

end
