(* ===== verification/AdminRoutineDecision.thy ===== *)
theory AdminRoutineDecision
  imports AdminRoutine
begin

text \<open>
  The decision of the routine commands, \<open>decideAdminRoutine\<close> of \<open>src/protocol/admin-routine.ts\<close>: the
  checks every command passes (\<open>routine_gate\<close>), one definition per branch, and the numbering of what a
  branch emits. A branch gives a refusal, or none with what it emits in order; a routine event goes to
  the account and to the workspace.
\<close>

section \<open>Rates\<close>

definition owns_now :: "admin_routine_ctx \<Rightarrow> bool" where
  "owns_now ctx \<longleftrightarrow> (case rx_workspace ctx of None \<Rightarrow> False
     | Some w \<Rightarrow> (case obj_get (ws_members w) (ac_owner_user_id ctx) of None \<Rightarrow> False
         | Some m \<Rightarrow> wm_role m = RoleOwner))"

definition live_member :: "admin_routine_ctx \<Rightarrow> bool" where
  "live_member ctx \<longleftrightarrow> (case rx_workspace ctx of None \<Rightarrow> False
     | Some w \<Rightarrow> (case obj_get (ws_members w) (ac_owner_user_id ctx) of None \<Rightarrow> False
         | Some m \<Rightarrow> wm_revoked_at m = None))"

definition routine_of_account :: "admin_account \<Rightarrow> admin_routine" where
  "routine_of_account s = (case aa_routine s of None \<Rightarrow> emptyAdminRoutine | Some r \<Rightarrow> r)"

definition audited_grant :: "routine_command \<Rightarrow> admin_account \<Rightarrow> admin_routine_ctx \<Rightarrow> admin_grant option" where
  "audited_grant command s ctx = (case delegated_grant (ac_actor ctx) of
     Some gid \<Rightarrow> obj_get (aa_grants s) gid
   | None \<Rightarrow> obj_get (aa_grants s) (rq_grant_id command))"

text \<open>The workspace counts as one of the grant's where the grant created it or owns it now.\<close>

definition rate_grant :: "routine_command \<Rightarrow> admin_account \<Rightarrow> admin_routine_ctx \<Rightarrow> admin_grant \<Rightarrow> admin_grant" where
  "rate_grant command s ctx g =
     (if (case Option.bind (aa_routine s) (\<lambda>r. obj_get (rt_created_workspaces r) (rq_workspace_id command)) of
            None \<Rightarrow> False | Some w \<Rightarrow> cw_grant_id w = ag_grant_id g) \<or>
         (am_workspace_selector g = OwnedAndSelected \<and> owns_now ctx \<and> live_member ctx)
      then g\<lparr>am_workspace_ids := js_set (am_workspace_ids g @ [rq_workspace_id command])\<rparr> else g)"

definition routine_charges :: "routine_command \<Rightarrow> admin_account \<Rightarrow> admin_routine_ctx \<Rightarrow> rate_charge list" where
  "routine_charges command s ctx = (case audited_grant command s ctx of
     None \<Rightarrow> []
   | Some g \<Rightarrow> map (charge_bucket (aa_rate_buckets s) (ac_now ctx))
       (adminRatePolicy (ac_actor ctx) (rate_grant command s ctx g) (routine_kind (rq_action command))
         (Some (rq_workspace_id command)) None (Some (rq_grant_id command))))"

section \<open>What a branch emits\<close>

type_synonym routine_event = "routine_fields ws_event"

datatype emission =
    OnAccount admin_body
  | OnBoth admin_routine_type routine_fields
  | OnWorkspace workspace_event_type "routine_fields ws_fields"

record outcome =
  oc_reason :: "string option"
  oc_emissions :: "emission list"
  oc_pending :: "connection_attempt option"

definition refusal :: "string \<Rightarrow> outcome" where
  "refusal r = \<lparr>oc_reason = Some r, oc_emissions = [], oc_pending = None\<rparr>"

definition success :: "emission list \<Rightarrow> outcome" where
  "success es = \<lparr>oc_reason = None, oc_emissions = es, oc_pending = None\<rparr>"

definition awaiting :: "emission list \<Rightarrow> connection_attempt \<Rightarrow> outcome" where
  "awaiting es a = \<lparr>oc_reason = None, oc_emissions = es, oc_pending = Some a\<rparr>"

section \<open>The checks every command passes\<close>

definition bound_to :: "routine_command \<Rightarrow> admin_routine_ctx \<Rightarrow> admin_grant \<Rightarrow> bool" where
  "bound_to command ctx g \<longleftrightarrow> ag_owner_user_id g = ac_owner_user_id ctx \<and>
     (case ac_actor ctx of
        DelegatedAdmin ident gid conn _ _ resource \<Rightarrow> gid = ag_grant_id g \<and> ident = am_admin_identity_id g \<and>
          conn = am_connection_id g \<and> resource = ADMIN_RESOURCE
      | _ \<Rightarrow> False)"

fun actor_scopes :: "admin_actor \<Rightarrow> string list" where
  "actor_scopes (DelegatedAdmin _ _ _ scopes _ _) = scopes"
| "actor_scopes _ = []"

fun actor_expires :: "admin_actor \<Rightarrow> number" where
  "actor_expires (DelegatedAdmin _ _ _ _ expires _) = expires"
| "actor_expires _ = 0"

definition kind_scope :: "string \<Rightarrow> string option" where
  "kind_scope kind = Option.bind (ADMIN_AVAILABILITY ADMIN_REGISTRY_VERSION)
     (\<lambda>ds. map_option cp_scope (obj_get ds kind))"

definition workspace_allowed :: "routine_command \<Rightarrow> admin_routine \<Rightarrow> admin_routine_ctx \<Rightarrow> admin_grant \<Rightarrow> string \<Rightarrow> bool" where
  "workspace_allowed command r ctx g scope \<longleftrightarrow>
     (let ws = rq_workspace_id command; created = obj_get (rt_created_workspaces r) ws;
          mine = (case created of None \<Rightarrow> False | Some c \<Rightarrow> cw_grant_id c = ag_grant_id g) in
      \<not> (ws \<in> set (ag_withdrawn_workspace_ids g) \<or>
         \<not> (ws \<in> set (am_workspace_ids g) \<or> (am_workspace_selector g = OwnedAndSelected \<and> owns_now ctx) \<or> mine) \<or>
         (mine \<and> (scope \<notin> set (cw_scope_names (the created)) \<or> scope \<notin> set (am_created_scope_names g)))))"

definition current_rights :: "admin_routine_ctx \<Rightarrow> bool" where
  "current_rights ctx \<longleftrightarrow> (case rx_workspace ctx of
     None \<Rightarrow> False
   | Some w \<Rightarrow> wr_archived_at (ws_workspace w) = None \<and>
       (case obj_get (ws_members w) (ac_owner_user_id ctx) of
          None \<Rightarrow> False
        | Some m \<Rightarrow> wm_revoked_at m = None \<and> wm_role m \<in> set [RoleOwner, RoleAdmin]))"

definition counter_ok :: "jsnum \<Rightarrow> bool" where
  "counter_ok n \<longleftrightarrow> is_safe_integer n \<and> js_le (Fin 0) n"

definition counters_ok :: "routine_spend \<Rightarrow> admin_routine_ctx \<Rightarrow> bool" where
  "counters_ok sp ctx \<longleftrightarrow>
     list_all (\<lambda>n. counter_ok (Fin n)) [sp_workspaces sp, sp_total_seats sp, sp_invitations sp,
       sp_worker_credentials sp, sp_successors sp] \<and>
     list_all counter_ok [rx_owned_workspaces ctx, rx_workspace_creations_last_day ctx, rx_invitations_last_day ctx,
       rx_live_invitations_person ctx, rx_live_principals ctx, rx_live_members_and_invitations ctx,
       rx_live_agent_invitations_person ctx, rx_live_agent_invitations_workspace ctx]"

fun is_create_workspace :: "routine_action \<Rightarrow> bool" where
  "is_create_workspace (CreateWorkspace _) = True"
| "is_create_workspace _ = False"

definition over_rate :: "rate_charge \<Rightarrow> bool" where
  "over_rate b \<longleftrightarrow> \<not> positive (Fin (rch_attempts b)) \<or> rch_limit b < rch_attempts b"

text \<open>The refusal of the checks, or the grant and its spend.\<close>

definition routine_gate ::
  "crypto \<Rightarrow> routine_command \<Rightarrow> admin_account \<Rightarrow> admin_routine_ctx \<Rightarrow> string + admin_grant \<times> routine_spend" where
  "routine_gate cr command s ctx =
     (let kind = routine_kind (rq_action command); r = routine_of_account s in
      if parseAdminRoutineCommand cr (routine_value command) = None then Inl ''invalid_request''
      else if delegated_grant (ac_actor ctx) = None then Inl ''credential_kind_forbidden''
      else case obj_get (aa_grants s) (rq_grant_id command) of
        None \<Rightarrow> Inl ''grant_binding_mismatch''
      | Some g \<Rightarrow>
          if \<not> bound_to command ctx g then Inl ''grant_binding_mismatch''
          else if ag_state g \<noteq> GrantIsActive \<or>
            \<not> adminManifestValid cr (manifest_value (adminGrantManifest g)) (ac_now ctx) False then Inl ''grant_inactive''
          else if actor_expires (ac_actor ctx) \<le> ac_now ctx then Inl ''credential_expired''
          else if list_ex over_rate (routine_charges command s ctx) then Inl ''rate_limited''
          else if \<not> subset_list (actor_scopes (ac_actor ctx)) (am_scope_names g) then Inl ''scope_expansion_forbidden''
          else (case kind_scope kind of
              None \<Rightarrow> Inl ''scope_forbidden''
            | Some scope \<Rightarrow>
                if \<not> truthy (Some scope) \<or> scope \<notin> set (am_scope_names g) \<or> scope \<notin> set (actor_scopes (ac_actor ctx))
                then Inl ''scope_forbidden''
                else if kind \<notin> set (adminEffectiveCapabilities cr g (actor_scopes (ac_actor ctx)))
                then Inl ''capability_forbidden''
                else if \<not> is_create_workspace (rq_action command) \<and> \<not> workspace_allowed command r ctx g scope
                then Inl ''workspace_forbidden''
                else if \<not> is_create_workspace (rq_action command) \<and> \<not> current_rights ctx
                then Inl ''current_rights_required''
                else (case obj_get (rt_spend r) (ag_grant_id g) of
                    None \<Rightarrow> Inl ''counter_invalid''
                  | Some sp \<Rightarrow> if \<not> counters_ok sp ctx then Inl ''counter_invalid'' else Inr (g, sp))))"

section \<open>Connections\<close>

text \<open>The earliest of an instant and the two deadlines of the grant.\<close>

definition grant_deadline :: "admin_grant \<Rightarrow> number \<Rightarrow> number" where
  "grant_deadline g t = min3 t (am_expires_at g) (am_refresh_deadline g)"

definition prepare_connection ::
  "routine_command \<Rightarrow> admin_account \<Rightarrow> admin_routine_ctx \<Rightarrow> admin_grant \<Rightarrow>
     string \<Rightarrow> string \<Rightarrow> string \<Rightarrow> string \<Rightarrow> agent_transport \<Rightarrow> number \<Rightarrow> outcome" where
  "prepare_connection command s ctx g owner agent conn name transport ttl =
     (let rules = am_target_rules g;
          attempts = filter (\<lambda>a. at_parent_admin_grant_id a = ag_grant_id g) (obj_values (obj_or_empty (aa_connections s))) in
      if owner \<noteq> ac_owner_user_id ctx then refusal ''human_confirmation_required''
      else if \<not> rx_recipient_exists ctx \<or> owner \<notin> set (tr_recipient_user_ids rules) \<or>
        conn \<notin> set (tr_recipient_connection_ids rules) \<or> transport \<notin> set (tr_transports rules)
      then refusal ''recipient_forbidden''
      else if al_attempt_seconds ADMIN_INVITATION_AND_ATTEMPT_TTL < ttl then refusal ''connection_ttl_invalid''
      else case find (\<lambda>a. at_workspace_id a = rq_workspace_id command \<and> at_intended_owner_user_id a = owner \<and>
          at_intended_agent_id a = agent) attempts of
        Some prior \<Rightarrow>
          if at_recipient_connection_id prior \<noteq> conn \<or> at_requested_name prior \<noteq> lit name \<or>
             at_transport prior \<noteq> transport \<or> at_ttl_seconds prior \<noteq> ttl then refusal ''connection_target_conflict''
          else if at_state prior = AttemptCancelled then refusal ''connection_attempt_cancelled''
          else if at_expires_at prior \<le> ac_now ctx then refusal ''connection_attempt_expired''
          else awaiting [] prior
      | None \<Rightarrow>
          if \<not> of_nat (length attempts) < il_connection_attempts (am_issuance_limits g)
          then refusal ''connection_attempt_limit_reached''
          else
            (let a = \<lparr>at_attempt_id = rx_nextResourceId ctx 0, at_parent_admin_grant_id = ag_grant_id g,
                at_workspace_id = rq_workspace_id command, at_intended_owner_user_id = owner,
                at_intended_agent_id = agent, at_recipient_connection_id = conn, at_requested_name = lit name,
                at_transport = transport, at_ttl_seconds = ttl, at_capability_set = [], at_state = AwaitingAuthorization,
                at_created_at = ac_now ctx, at_expires_at = grant_deadline g (ac_now ctx + ttl * 1000),
                at_cancelled_at = None, at_reason_code = None\<rparr> in
             awaiting [OnAccount (ConnectionPrepared a)] a))"

definition cancel_connection ::
  "routine_command \<Rightarrow> admin_account \<Rightarrow> admin_routine_ctx \<Rightarrow> admin_grant \<Rightarrow> string \<Rightarrow> string \<Rightarrow> outcome" where
  "cancel_connection command s ctx g attempt_id reason =
     (case obj_get (obj_or_empty (aa_connections s)) attempt_id of
        None \<Rightarrow> refusal ''connection_attempt_forbidden''
      | Some a \<Rightarrow>
          if at_parent_admin_grant_id a \<noteq> ag_grant_id g \<or> at_workspace_id a \<noteq> rq_workspace_id command
          then refusal ''connection_attempt_forbidden''
          else if at_state a = AttemptCancelled then success []
          else success [OnAccount (ConnectionCancelled (at_attempt_id a) (ac_now ctx) reason)])"

section \<open>Workspaces and seats\<close>

definition create_workspace ::
  "routine_command \<Rightarrow> admin_routine_ctx \<Rightarrow> admin_grant \<Rightarrow> routine_spend \<Rightarrow> string \<Rightarrow> outcome" where
  "create_workspace command ctx g sp name =
     (if rx_workspace ctx \<noteq> None then refusal ''workspace_exists''
      else if \<not> sp_workspaces sp < il_workspaces (am_issuance_limits g) \<or>
        js_le (Fin (rc_owned_workspaces ADMIN_EXISTING_RESOURCE_CEILINGS)) (rx_owned_workspaces ctx) \<or>
        js_le (Fin ADMIN_WORKSPACE_CREATE_PER_DAY) (rx_workspace_creations_last_day ctx)
      then refusal ''workspace_limit_reached''
      else success
        [OnWorkspace WorkspaceCreated (no_fields\<lparr>w_workspace_id := Some (rq_workspace_id command),
           w_name := Some (lit name), w_created_by := Some (ac_owner_user_id ctx), w_created_at := Some (ac_now ctx)\<rparr>),
         OnBoth AdminWorkspaceCreated (no_routine_fields\<lparr>rp_workspace_id := Some (rq_workspace_id command),
           rp_name := Some (lit name), rp_owner_user_id := Some (ac_owner_user_id ctx),
           rp_created_workspace_policy := Some (am_created_scope_names g),
           rp_applied_scope_names := Some (am_created_scope_names g), rp_created_at := Some (ac_now ctx)\<rparr>)])"

fun action_principal :: "routine_action \<Rightarrow> string option" where
  "action_principal (ProvisionSeat p _ _ _ _ _) = Some p"
| "action_principal (RenewSeat p _ _ _ _) = Some p"
| "action_principal (ReplaceUndelivered p _ _) = Some p"
| "action_principal (RevokeSeat p _) = Some p"
| "action_principal (RevokeSeatCredential p _ _) = Some p"
| "action_principal _ = None"

fun is_revoke_seat :: "routine_action \<Rightarrow> bool" where
  "is_revoke_seat (RevokeSeat _ _) = True"
| "is_revoke_seat _ = False"

definition workspace_principals :: "admin_routine_ctx \<Rightarrow> workspace_principal obj" where
  "workspace_principals ctx = (case rx_workspace ctx of None \<Rightarrow> [] | Some w \<Rightarrow> ws_principals w)"

definition seat_of_grant :: "admin_routine \<Rightarrow> admin_grant \<Rightarrow> string \<Rightarrow> bool" where
  "seat_of_grant r g pid \<longleftrightarrow> (case obj_get (rt_seats r) pid of None \<Rightarrow> False
     | Some seat \<Rightarrow> se_grant_id seat = ag_grant_id g)"

text \<open>The seat a command names: a refusal, or the principal.\<close>

definition seat_gate ::
  "admin_routine \<Rightarrow> admin_routine_ctx \<Rightarrow> admin_grant \<Rightarrow> routine_action \<Rightarrow> string \<Rightarrow> string + workspace_principal" where
  "seat_gate r ctx g act pid =
     (case obj_get (workspace_principals ctx) pid of
        None \<Rightarrow> Inl ''target_forbidden''
      | Some p \<Rightarrow>
          if wp_owner_user_id p \<noteq> ac_owner_user_id ctx \<or>
             \<not> (wp_principal_id p \<in> set (tr_seat_ids (am_target_rules g)) \<or> tr_own_seats (am_target_rules g) \<or>
                (tr_grant_created_seats (am_target_rules g) \<and> seat_of_grant r g (wp_principal_id p)))
          then Inl ''target_forbidden''
          else if wp_transport p \<notin> set (tr_transports (am_target_rules g)) then Inl ''transport_forbidden''
          else if wp_revoked_at p \<noteq> None \<and> \<not> is_revoke_seat act then Inl ''principal_revoked''
          else Inr p)"

definition create_seat ::
  "routine_command \<Rightarrow> admin_routine \<Rightarrow> admin_routine_ctx \<Rightarrow> admin_grant \<Rightarrow> routine_spend \<Rightarrow>
     string \<Rightarrow> string option \<Rightarrow> agent_transport \<Rightarrow> outcome" where
  "create_seat command r ctx g sp name model transport =
     (let live = obj_count (\<lambda>s. se_grant_id s = ag_grant_id g \<and> se_revoked_at s = None) (rt_seats r) in
      if \<not> tr_grant_created_seats (am_target_rules g) \<or> transport \<notin> set (tr_transports (am_target_rules g))
      then refusal ''target_forbidden''
      else if \<not> sp_total_seats sp < il_total_seats (am_issuance_limits g) \<or>
        \<not> of_nat live < il_live_seats (am_issuance_limits g) \<or>
        js_le (Fin (rc_principals ADMIN_EXISTING_RESOURCE_CEILINGS)) (rx_live_principals ctx)
      then refusal ''seat_limit_reached''
      else if list_ex (\<lambda>p. wp_name p = lit name) (obj_values (workspace_principals ctx))
      then refusal ''principal_name_taken''
      else
        (let pid = rx_nextResourceId ctx 0 in success
          [OnWorkspace AgentPrincipalCreated (no_fields\<lparr>w_workspace_id := Some (rq_workspace_id command),
             w_principal_id := Some pid, w_owner_user_id := Some (ac_owner_user_id ctx), w_name := Some (lit name),
             w_model := Some (map_option lit model), w_transport := Some (Some (Inl transport)),
             w_turn_only := Some (Some (Inl (transport = HostedMcp))), w_created_at := Some (ac_now ctx)\<rparr>),
           OnBoth AdminSeatCreated (no_routine_fields\<lparr>rp_workspace_id := Some (rq_workspace_id command),
             rp_principal_id := Some pid, rp_owner_user_id := Some (ac_owner_user_id ctx), rp_name := Some (lit name),
             rp_model := Some (map_option lit model), rp_transport := Some (Some transport),
             rp_turn_only := Some (transport = HostedMcp), rp_created_at := Some (ac_now ctx),
             rp_connection_attempt_id := Some None\<rparr>)]))"

section \<open>Invitations\<close>

text \<open>What both kinds of invitation test first.\<close>

definition invitation_gate ::
  "admin_routine_ctx \<Rightarrow> admin_grant \<Rightarrow> routine_spend \<Rightarrow> bool \<Rightarrow> string \<Rightarrow> string option" where
  "invitation_gate ctx g sp agent recipient =
     (if \<not> rx_recipient_exists ctx \<or> recipient \<notin> set (tr_recipient_user_ids (am_target_rules g))
      then Some ''recipient_forbidden''
      else if \<not> sp_invitations sp < il_invitations (am_issuance_limits g) \<or>
        js_le (Fin ADMIN_INVITATION_ISSUE_PER_DAY) (rx_invitations_last_day ctx) \<or>
        (\<not> agent \<and> js_le (Fin ADMIN_INVITATIONS_LIVE_PER_PERSON) (rx_live_invitations_person ctx))
      then Some ''invitation_limit_reached''
      else if \<not> agent \<and> (rx_recipient_is_member ctx \<or>
        js_le (Fin (rc_members_and_invitations ADMIN_EXISTING_RESOURCE_CEILINGS)) (rx_live_members_and_invitations ctx))
      then Some ''member_limit_reached''
      else None)"

definition invitation_fields ::
  "routine_command \<Rightarrow> admin_routine_ctx \<Rightarrow> admin_grant \<Rightarrow> invitation_kind \<Rightarrow> string \<Rightarrow> number \<Rightarrow> routine_fields" where
  "invitation_fields command ctx g kind recipient ttl = no_routine_fields\<lparr>
     rp_invitation_id := Some (rx_nextResourceId ctx 0), rp_workspace_id := Some (rq_workspace_id command),
     rp_recipient_ref := Some recipient, rp_recipient_user_id := Some recipient,
     rp_intended_owner_user_id := Some recipient, rp_invitation_kind := Some kind, rp_role := Some ''member'',
     rp_expires_at := Some (grant_deadline g (ac_now ctx + ttl * 1000)),
     rp_parent_admin_grant_id := Some (Some (ag_grant_id g)), rp_delivery_state := Some ''awaiting_authorization''\<rparr>"

definition invite_member ::
  "routine_command \<Rightarrow> admin_routine_ctx \<Rightarrow> admin_grant \<Rightarrow> routine_spend \<Rightarrow> string \<Rightarrow> number \<Rightarrow> outcome" where
  "invite_member command ctx g sp recipient ttl =
     (case invitation_gate ctx g sp False recipient of
        Some reason \<Rightarrow> refusal reason
      | None \<Rightarrow>
          if al_member_seconds ADMIN_INVITATION_AND_ATTEMPT_TTL < ttl then refusal ''invitation_ttl_invalid''
          else success [OnBoth AdminMemberInvited ((invitation_fields command ctx g MemberInvitation recipient ttl)\<lparr>
            rp_recipient_connection_id := Some None, rp_transport := Some None, rp_seat_limit := Some None,
            rp_worker_scope_ceiling := Some [], rp_worker_policy := Some (InvitationPolicy None),
            rp_delivery_channel := Some ''recipient_app_inbox''\<rparr>)])"

definition issue_agent_invitation ::
  "routine_command \<Rightarrow> admin_routine \<Rightarrow> admin_routine_ctx \<Rightarrow> admin_grant \<Rightarrow> routine_spend \<Rightarrow>
     string \<Rightarrow> string \<Rightarrow> agent_transport \<Rightarrow> number \<Rightarrow> string list \<Rightarrow> number \<Rightarrow> outcome" where
  "issue_agent_invitation command r ctx g sp owner conn transport seats scopes ttl =
     (case invitation_gate ctx g sp True owner of
        Some reason \<Rightarrow> refusal reason
      | None \<Rightarrow>
          (let live = obj_count (\<lambda>i. ri_parent_admin_grant_id i = ag_grant_id g \<and> ri_invitation_kind i = AgentInvitation \<and>
                 ri_revoked_at i = None \<and> ri_accepted_at i = None \<and> ac_now ctx < ri_expires_at i) (rt_invitations r) in
           if ''seats:create'' \<notin> set (actor_scopes (ac_actor ctx)) \<or> ''seats:create'' \<notin> set (am_scope_names g)
           then refusal ''scope_forbidden''
           else if owner \<noteq> ac_owner_user_id ctx then refusal ''human_confirmation_required''
           else if conn \<notin> set (tr_recipient_connection_ids (am_target_rules g)) \<or>
             transport \<notin> set (tr_transports (am_target_rules g)) \<or>
             \<not> list_all (\<lambda>x. x \<in> set (am_worker_scope_ceiling g) \<and> x \<in> set (rx_human_worker_scopes ctx)) scopes
           then refusal ''recipient_forbidden''
           else if \<not> of_nat live < il_live_agent_invitations (am_issuance_limits g) \<or>
             js_le (Fin (rc_joins_per_person ADMIN_EXISTING_RESOURCE_CEILINGS)) (rx_live_agent_invitations_person ctx) \<or>
             js_le (Fin (rc_joins_per_workspace ADMIN_EXISTING_RESOURCE_CEILINGS)) (rx_live_agent_invitations_workspace ctx) \<or>
             al_agent_seats ADMIN_INVITATION_AND_ATTEMPT_TTL < seats \<or>
             ttl < al_agent_min_seconds ADMIN_INVITATION_AND_ATTEMPT_TTL \<or>
             al_agent_max_seconds ADMIN_INVITATION_AND_ATTEMPT_TTL < ttl
           then refusal ''invitation_limit_reached''
           else success [OnBoth AdminAgentInvitationIssued
             ((invitation_fields command ctx g AgentInvitation owner ttl)\<lparr>
               rp_recipient_connection_id := Some (Some conn), rp_transport := Some (Some transport),
               rp_seat_limit := Some (Some seats), rp_worker_scope_ceiling := Some scopes,
               rp_worker_policy := Some (InvitationPolicy (Some (am_renewal_limits g)))\<rparr>)]))"

definition revoke_invitation ::
  "routine_command \<Rightarrow> admin_routine \<Rightarrow> admin_routine_ctx \<Rightarrow> admin_grant \<Rightarrow> invitation_kind \<Rightarrow> string \<Rightarrow> string \<Rightarrow> outcome" where
  "revoke_invitation command r ctx g kind invitation_id reason =
     (case obj_get (rt_invitations r) invitation_id of
        None \<Rightarrow> refusal ''target_forbidden''
      | Some i \<Rightarrow>
          if ri_workspace_id i \<noteq> rq_workspace_id command \<or> ri_parent_admin_grant_id i \<noteq> ag_grant_id g \<or>
             ri_invitation_kind i \<noteq> kind \<or> ri_recipient_user_id i \<notin> set (tr_recipient_user_ids (am_target_rules g))
          then refusal ''target_forbidden''
          else if ri_accepted_at i \<noteq> None then refusal ''invitation_already_accepted''
          else if ri_revoked_at i \<noteq> None \<or> ri_expires_at i \<le> ac_now ctx then success []
          else success [OnBoth AdminInvitationRevoked (no_routine_fields\<lparr>
            rp_invitation_id := Some (ri_invitation_id i), rp_invitation_kind := Some (ri_invitation_kind i),
            rp_workspace_id := Some (rq_workspace_id command), rp_revoked_at := Some (ac_now ctx),
            rp_reason_code := Some reason\<rparr>)])"

section \<open>Stopping a seat\<close>

definition revoked_seat_fields ::
  "admin_routine_ctx \<Rightarrow> workspace_principal \<Rightarrow> string option \<Rightarrow> string list \<Rightarrow> string \<Rightarrow> routine_fields" where
  "revoked_seat_fields ctx p credential affected reason = no_routine_fields\<lparr>
     rp_principal_id := Some (wp_principal_id p), rp_credential_id := Some credential,
     rp_transport := Some (Some (wp_transport p)), rp_affected_lineage_ids := Some (js_set affected),
     rp_revoked_at := Some (ac_now ctx), rp_reason_code := Some reason\<rparr>"

definition revoke_whole_seat ::
  "admin_routine \<Rightarrow> admin_routine_ctx \<Rightarrow> workspace_principal \<Rightarrow> string \<Rightarrow> outcome" where
  "revoke_whole_seat r ctx p reason =
     (let credentials = filter (\<lambda>c. rc_principal_id c = wp_principal_id p \<and> rc_revoked_at c = None)
            (obj_values (rt_credentials r)) in
      if wp_revoked_at p \<noteq> None then success []
      else success
        [OnWorkspace AgentPrincipalRevoked (no_fields\<lparr>w_principal_id := Some (wp_principal_id p),
           w_revoked_at := Some (ac_now ctx)\<rparr>),
         OnBoth AdminSeatRevoked (revoked_seat_fields ctx p None
           (rx_principal_lineage_ids ctx @ map rc_worker_lineage_id credentials) reason)])"

definition revoke_seat_credential ::
  "routine_command \<Rightarrow> admin_routine_ctx \<Rightarrow> workspace_principal \<Rightarrow> string \<Rightarrow> string \<Rightarrow> outcome" where
  "revoke_seat_credential command ctx p credential reason =
     (case rx_target_credential ctx of
        None \<Rightarrow> refusal ''target_forbidden''
      | Some target \<Rightarrow>
          if rc_principal_id target \<noteq> wp_principal_id p \<or> rc_workspace_id target \<noteq> rq_workspace_id command
          then refusal ''target_forbidden''
          else if rc_revoked_at target \<noteq> None then success []
          else success
            [OnWorkspace AgentTokenRevoked (no_fields\<lparr>w_token_id := Some credential, w_revoked_at := Some (ac_now ctx)\<rparr>),
             OnBoth AdminSeatCredentialRevoked (revoked_seat_fields ctx p (Some credential)
               [rc_worker_lineage_id target] reason)])"

end
