(* ===== verification/AdminRoutineVerdict.thy ===== *)
theory AdminRoutineVerdict
  imports AdminRoutineDecision
begin

text \<open>
  The worker credentials a delegate hands out (the last branch of \<open>decideAdminRoutine\<close> of
  \<open>src/protocol/admin-routine.ts\<close>), the decision as a whole with its events numbered.
\<close>

section \<open>Credentials\<close>

text \<open>The three commands that hand out a credential, with what they have in common.\<close>

record issue_request =
  iq_type :: admin_routine_type
  iq_recipient :: string \<comment> \<open>\<open>recipient_connection_id\<close>\<close>
  iq_predecessor :: "string option" \<comment> \<open>\<open>None\<close> for a provisioning\<close>
  iq_scopes :: "string list option" \<comment> \<open>\<open>None\<close> for a replacement\<close>
  iq_bearer :: "number option"
  iq_horizon :: "number option" \<comment> \<open>for a provisioning\<close>
  iq_successors :: "number option"

fun issue_of :: "routine_action \<Rightarrow> issue_request option" where
  "issue_of (ProvisionSeat _ conn scopes bearer horizon successors) = Some
     \<lparr>iq_type = AdminSeatProvisioned, iq_recipient = conn, iq_predecessor = None, iq_scopes = Some scopes,
      iq_bearer = Some bearer, iq_horizon = Some horizon, iq_successors = Some successors\<rparr>"
| "issue_of (RenewSeat _ predecessor conn scopes bearer) = Some
     \<lparr>iq_type = AdminSeatRenewed, iq_recipient = conn, iq_predecessor = Some predecessor, iq_scopes = Some scopes,
      iq_bearer = Some bearer, iq_horizon = None, iq_successors = None\<rparr>"
| "issue_of (ReplaceUndelivered _ credential conn) = Some
     \<lparr>iq_type = AdminSeatCredentialReplaced, iq_recipient = conn, iq_predecessor = Some credential, iq_scopes = None,
      iq_bearer = None, iq_horizon = None, iq_successors = None\<rparr>"
| "issue_of _ = None"

definition predecessor_usable ::
  "routine_command \<Rightarrow> admin_routine_ctx \<Rightarrow> admin_grant \<Rightarrow> workspace_principal \<Rightarrow> issue_request \<Rightarrow> string \<Rightarrow>
     routine_credential \<Rightarrow> bool" where
  "predecessor_usable command ctx g p q predecessor c \<longleftrightarrow>
     rc_credential_id c = predecessor \<and> rc_workspace_id c = rq_workspace_id command \<and>
     rc_principal_id c = wp_principal_id p \<and> rc_recipient_connection_id c = iq_recipient q \<and>
     rc_revoked_at c = None \<and> \<not> rc_superseded c \<and> \<not> rc_suspended c \<and> rc_device_valid c \<and>
     ac_now ctx < rc_expires_at c \<and>
     (rc_parent_admin_grant_id c = None \<or> rc_parent_admin_grant_id c = Some (ag_grant_id g))"

definition renewal_policy_ok :: "routine_credential \<Rightarrow> bool" where
  "renewal_policy_ok c \<longleftrightarrow>
     is_safe_integer (Fin (rc_successors_used c)) \<and> 0 \<le> rc_successors_used c \<and> positive (Fin (rc_bearer_seconds c)) \<and>
     ADMIN_UUID_RE (rc_run_id c) \<and> ADMIN_UUID_RE (rc_task_id c) \<and>
     is_safe_integer (Fin (rc_epoch c)) \<and> 0 \<le> rc_epoch c \<and>
     (if rc_kind c = Timeboxed then (case rc_max_successors c of None \<Rightarrow> False | Some n \<Rightarrow> positive (Fin n))
      else rc_max_successors c = None \<and> rc_horizon_expires_at c = None)"

definition successors_left :: "admin_grant \<Rightarrow> routine_spend \<Rightarrow> routine_credential \<Rightarrow> bool" where
  "successors_left g sp c \<longleftrightarrow>
     sp_successors sp < rn_successors_per_grant (am_renewal_limits g) \<and>
     rc_successors_used c < rn_successors_per_worker (am_renewal_limits g) \<and>
     (case rc_max_successors c of None \<Rightarrow> True | Some n \<Rightarrow> rc_successors_used c < n)"

text \<open>The checks on a predecessor, for a renewal or a replacement.\<close>

definition succession_gate ::
  "routine_command \<Rightarrow> admin_routine \<Rightarrow> admin_routine_ctx \<Rightarrow> admin_grant \<Rightarrow> routine_spend \<Rightarrow> workspace_principal \<Rightarrow>
     issue_request \<Rightarrow> string \<Rightarrow> string option" where
  "succession_gate command r ctx g sp p q predecessor =
     (let limits = am_renewal_limits g; now = ac_now ctx in
      case rx_target_credential ctx of
        None \<Rightarrow> Some ''predecessor_unavailable''
      | Some c \<Rightarrow>
          if \<not> predecessor_usable command ctx g p q predecessor c then Some ''predecessor_unavailable''
          else if \<not> renewal_policy_ok c then Some ''renewal_policy_invalid''
          else if rc_kind c \<notin> set (rn_grant_kinds limits) \<or>
            (rc_principal_id c \<notin> set (rn_principal_ids limits) \<and> \<not> seat_of_grant r g (rc_principal_id c))
          then Some ''renewal_policy_forbidden''
          else if rc_kind c = Timeboxed \<and> (case rc_horizon_expires_at c of None \<Rightarrow> True
            | Some h \<Rightarrow> h \<le> now \<or> rn_horizon_seconds limits * 1000 < h - now)
          then Some ''renewal_horizon_reached''
          else if (if iq_type q = AdminSeatRenewed then rc_first_used_at c = None else rc_first_used_at c \<noteq> None)
          then Some ''credential_delivery_state_forbidden''
          else if \<not> successors_left g sp c then Some ''renewal_successors_exhausted''
          else None)"

definition already_issued :: "admin_routine \<Rightarrow> admin_routine_ctx \<Rightarrow> workspace_principal \<Rightarrow> bool" where
  "already_issued r ctx p \<longleftrightarrow>
     list_ex (\<lambda>c. rc_principal_id c = wp_principal_id p) (obj_values (rt_credentials r)) \<or>
     (case rx_workspace ctx of None \<Rightarrow> False
      | Some w \<Rightarrow> list_ex (\<lambda>t. wt_principal_id t = wp_principal_id p) (obj_values (ws_tokens w)))"

text \<open>The scopes and the lifetime a request asks for; a replacement takes those of its predecessor.\<close>

definition requested_scopes :: "admin_routine_ctx \<Rightarrow> issue_request \<Rightarrow> string list" where
  "requested_scopes ctx q = (case iq_scopes q of Some xs \<Rightarrow> xs
     | None \<Rightarrow> (case rx_target_credential ctx of None \<Rightarrow> [] | Some c \<Rightarrow> rc_worker_scope_names c))"

definition requested_seconds :: "admin_routine_ctx \<Rightarrow> issue_request \<Rightarrow> number" where
  "requested_seconds ctx q = (case iq_bearer q of Some n \<Rightarrow> n
     | None \<Rightarrow> (case rx_target_credential ctx of None \<Rightarrow> 0 | Some c \<Rightarrow> rc_bearer_seconds c))"

definition issue_gate ::
  "routine_command \<Rightarrow> admin_routine \<Rightarrow> admin_routine_ctx \<Rightarrow> admin_grant \<Rightarrow> routine_spend \<Rightarrow> workspace_principal \<Rightarrow>
     issue_request \<Rightarrow> string option" where
  "issue_gate command r ctx g sp p q =
     (let limits = am_renewal_limits g; prior = rx_target_credential ctx; seconds = requested_seconds ctx q in
      if wp_transport p \<noteq> LocalTransport then Some ''hosted_runtime_authorization_required''
      else if iq_recipient q \<notin> set (tr_recipient_connection_ids (am_target_rules g)) \<or>
        rx_delivery_connection_id ctx \<noteq> Some (iq_recipient q) then Some ''recipient_runtime_required''
      else if \<not> sp_worker_credentials sp < il_worker_credentials (am_issuance_limits g) then Some ''credential_limit_reached''
      else case (case iq_predecessor q of
          Some predecessor \<Rightarrow> succession_gate command r ctx g sp p q predecessor
        | None \<Rightarrow> if already_issued r ctx p then Some ''credential_already_issued'' else None) of
        Some reason \<Rightarrow> Some reason
      | None \<Rightarrow>
          if \<not> list_all (\<lambda>x. x \<in> set (am_worker_scope_ceiling g) \<and> x \<in> set (rx_human_worker_scopes ctx) \<and>
               (case prior of None \<Rightarrow> True | Some c \<Rightarrow> x \<in> set (rc_worker_scope_names c))) (requested_scopes ctx q)
          then Some ''worker_scope_forbidden''
          else if \<not> positive (Fin seconds) \<or> rn_bearer_seconds limits < seconds \<or>
            (case prior of None \<Rightarrow> False | Some c \<Rightarrow> rc_bearer_seconds c < seconds)
          then Some ''renewal_policy_forbidden''
          else if iq_predecessor q = None \<and> (Timeboxed \<notin> set (rn_grant_kinds limits) \<or>
            (case iq_horizon q of None \<Rightarrow> False | Some n \<Rightarrow> rn_horizon_seconds limits < n) \<or>
            (case iq_successors q of None \<Rightarrow> False | Some n \<Rightarrow> rn_successors_per_worker limits < n))
          then Some ''renewal_policy_forbidden''
          else None)"

definition issue_horizon :: "admin_routine_ctx \<Rightarrow> admin_grant \<Rightarrow> issue_request \<Rightarrow> number" where
  "issue_horizon ctx g q = (case Option.bind (rx_target_credential ctx) rc_horizon_expires_at of
     Some h \<Rightarrow> h
   | None \<Rightarrow> grant_deadline g (ac_now ctx + (case iq_horizon q of Some n \<Rightarrow> n | None \<Rightarrow> 0) * 1000))"

fun is_standing :: "routine_credential option \<Rightarrow> bool" where
  "is_standing (Some c) = (rc_kind c = Standing)"
| "is_standing None = False"

definition issue_expiry :: "admin_routine_ctx \<Rightarrow> admin_grant \<Rightarrow> issue_request \<Rightarrow> number" where
  "issue_expiry ctx g q =
     (let prior = rx_target_credential ctx; t = grant_deadline g (ac_now ctx + requested_seconds ctx q * 1000);
          u = (if is_standing prior then t else min t (issue_horizon ctx g q)) in
      case prior of
        Some c \<Rightarrow> if iq_type q = AdminSeatCredentialReplaced then min u (rc_expires_at c) else u
      | None \<Rightarrow> u)"

text \<open>The resources of a first credential are numbered after the credential itself.\<close>

definition issued_credential ::
  "routine_command \<Rightarrow> admin_routine_ctx \<Rightarrow> admin_grant \<Rightarrow> workspace_principal \<Rightarrow> issue_request \<Rightarrow> routine_credential" where
  "issued_credential command ctx g p q =
     (let prior = rx_target_credential ctx;
          inherit = (\<lambda>f n. case prior of Some c \<Rightarrow> f c | None \<Rightarrow> rx_nextResourceId ctx n) in
      \<lparr>rc_credential_id = rx_nextResourceId ctx 0, rc_workspace_id = rq_workspace_id command,
       rc_principal_id = wp_principal_id p, rc_worker_lineage_id = inherit rc_worker_lineage_id 1,
       rc_parent_admin_grant_id = (case prior of Some c \<Rightarrow> rc_parent_admin_grant_id c | None \<Rightarrow> Some (ag_grant_id g)),
       rc_recipient_connection_id = iq_recipient q, rc_worker_scope_names = requested_scopes ctx q,
       rc_expires_at = issue_expiry ctx g q,
       rc_horizon_expires_at = (if is_standing prior then None else Some (issue_horizon ctx g q)),
       rc_bearer_seconds = requested_seconds ctx q,
       rc_max_successors = (case prior of Some c \<Rightarrow> rc_max_successors c
         | None \<Rightarrow> Some (case iq_successors q of Some n \<Rightarrow> n | None \<Rightarrow> 0)),
       rc_successors_used = (case prior of Some c \<Rightarrow> rc_successors_used c + 1 | None \<Rightarrow> 0),
       rc_kind = (case prior of Some c \<Rightarrow> rc_kind c | None \<Rightarrow> Timeboxed),
       rc_revoked_at = None, rc_first_used_at = None, rc_superseded = False, rc_suspended = False, rc_device_valid = True,
       rc_run_id = inherit rc_run_id 2, rc_task_id = inherit rc_task_id 3,
       rc_epoch = (case prior of Some c \<Rightarrow> rc_epoch c | None \<Rightarrow> 0),
       rc_renewal_grant_id = inherit rc_renewal_grant_id 4, rc_device_id = inherit rc_device_id 5\<rparr>)"

text \<open>The payload spreads the whole credential; the fields neither reducer reads (its run, task, device, state and
  policy) are in \<open>rp_credential\<close> alone.\<close>

definition issued_fields ::
  "admin_routine_ctx \<Rightarrow> admin_grant \<Rightarrow> routine_spend \<Rightarrow> routine_credential \<Rightarrow> routine_fields" where
  "issued_fields ctx g sp c =
     (let prior = rx_target_credential ctx; prior_id = map_option rc_credential_id prior; limits = am_renewal_limits g in
      no_routine_fields\<lparr>
        rp_workspace_id := Some (rc_workspace_id c), rp_principal_id := Some (rc_principal_id c),
        rp_credential_id := Some (Some (rc_credential_id c)), rp_worker_lineage_id := Some (rc_worker_lineage_id c),
        rp_parent_admin_grant_id := Some (rc_parent_admin_grant_id c),
        rp_recipient_connection_id := Some (Some (rc_recipient_connection_id c)),
        rp_worker_scope_names := Some (rc_worker_scope_names c), rp_expires_at := Some (rc_expires_at c),
        rp_credential := Some c, rp_predecessor_credential_id := Some prior_id,
        rp_successor_credential_id := Some (rc_credential_id c), rp_revoked_credential_id := Some prior_id,
        rp_replacement_credential_id := Some (rc_credential_id c),
        rp_worker_policy := Some (CredentialPolicy (rc_kind c) (rc_horizon_expires_at c) (rc_max_successors c) (rc_bearer_seconds c)),
        rp_dependent_on_admin_grant := Some (rc_parent_admin_grant_id c \<noteq> None),
        rp_credential_expires_at := Some (rc_expires_at c),
        rp_remaining_budget := Some (min (rn_successors_per_worker limits - rc_successors_used c)
          (rn_successors_per_grant limits - sp_successors sp - (if prior = None then 0 else 1))),
        rp_delivery_state := Some ''awaiting_delivery'', rp_policy_digest := Some (ac_request_digest ctx),
        rp_worker_policy_digest := Some (ac_request_digest ctx)\<rparr>)"

definition minted_fields :: "admin_routine_ctx \<Rightarrow> routine_credential \<Rightarrow> routine_fields ws_fields" where
  "minted_fields ctx c = no_fields\<lparr>w_token_id := Some (rc_credential_id c), w_principal_id := Some (rc_principal_id c),
     w_run_id := Some (rc_run_id c), w_task_id := Some (Some (rc_task_id c)), w_epoch := Some (Some (rc_epoch c)),
     w_scopes := Some (map lit (rc_worker_scope_names c)), w_issued_at := Some (ac_now ctx),
     w_expires_at := Some (rc_expires_at c)\<rparr>"

definition issue_credential ::
  "routine_command \<Rightarrow> admin_routine \<Rightarrow> admin_routine_ctx \<Rightarrow> admin_grant \<Rightarrow> routine_spend \<Rightarrow> workspace_principal \<Rightarrow>
     issue_request \<Rightarrow> outcome" where
  "issue_credential command r ctx g sp p q =
     (case issue_gate command r ctx g sp p q of
        Some reason \<Rightarrow> refusal reason
      | None \<Rightarrow>
          (let c = issued_credential command ctx g p q in
           success ((if iq_type q = AdminSeatCredentialReplaced
               then [OnWorkspace AgentTokenRevoked (no_fields\<lparr>
                 w_token_id := map_option rc_credential_id (rx_target_credential ctx), w_revoked_at := Some (ac_now ctx)\<rparr>)]
               else []) @
             [OnWorkspace AgentTokenMinted (minted_fields ctx c),
              OnBoth (iq_type q) (issued_fields ctx g sp c)])))"

section \<open>The branches\<close>

definition on_seat ::
  "routine_command \<Rightarrow> admin_routine \<Rightarrow> admin_routine_ctx \<Rightarrow> admin_grant \<Rightarrow> routine_spend \<Rightarrow> string \<Rightarrow> outcome" where
  "on_seat command r ctx g sp pid =
     (let act = rq_action command in
      case seat_gate r ctx g act pid of
        Inl reason \<Rightarrow> refusal reason
      | Inr p \<Rightarrow>
          (case act of
             RevokeSeat _ reason \<Rightarrow> revoke_whole_seat r ctx p reason
           | RevokeSeatCredential _ credential reason \<Rightarrow> revoke_seat_credential command ctx p credential reason
           | _ \<Rightarrow> (case issue_of act of
               None \<Rightarrow> refusal ''human_confirmation_required''
             | Some q \<Rightarrow> issue_credential command r ctx g sp p q)))"

definition routine_branch ::
  "routine_command \<Rightarrow> admin_account \<Rightarrow> admin_routine_ctx \<Rightarrow> admin_grant \<Rightarrow> routine_spend \<Rightarrow> outcome" where
  "routine_branch command s ctx g sp =
     (let r = routine_of_account s in
      case rq_action command of
        PrepareConnection owner agent conn name transport ttl \<Rightarrow> prepare_connection command s ctx g owner agent conn name transport ttl
      | CancelConnection attempt reason \<Rightarrow> cancel_connection command s ctx g attempt reason
      | CreateWorkspace name \<Rightarrow> create_workspace command ctx g sp name
      | CreateSeat name model transport \<Rightarrow> create_seat command r ctx g sp name model transport
      | InviteMember recipient ttl \<Rightarrow> invite_member command ctx g sp recipient ttl
      | IssueAgentInvitation owner conn transport seats scopes ttl \<Rightarrow>
          issue_agent_invitation command r ctx g sp owner conn transport seats scopes ttl
      | RevokeInvitationById kind invitation reason \<Rightarrow> revoke_invitation command r ctx g kind invitation reason
      | act \<Rightarrow> on_seat command r ctx g sp (the (action_principal act)))"

definition routine_outcome :: "crypto \<Rightarrow> routine_command \<Rightarrow> admin_account \<Rightarrow> admin_routine_ctx \<Rightarrow> outcome" where
  "routine_outcome cr command s ctx = (case routine_gate cr command s ctx of
     Inl reason \<Rightarrow> refusal reason
   | Inr (g, sp) \<Rightarrow> routine_branch command s ctx g sp)"

section \<open>Emitting\<close>

definition account_event ::
  "admin_account \<Rightarrow> admin_routine_ctx \<Rightarrow> admin_grant option \<Rightarrow> number \<Rightarrow> string \<Rightarrow> admin_body \<Rightarrow> admin_event" where
  "account_event s ctx audited seq event_id body =
     \<lparr>ae_stream_kind = ''account'', ae_owner_user_id = ac_owner_user_id ctx, ae_stream_id = ac_stream_id ctx,
      ae_seq = seq, ae_event_id = event_id, ae_command_id = ac_command_id ctx, ae_schema_version = 1,
      ae_actor_user = None, ae_actor_agent_principal = None, ae_actor_run = None,
      ae_admin_identity_id = map_option am_admin_identity_id audited, ae_grant_id = map_option ag_grant_id audited,
      ae_grant_manifest_digest = map_option ag_manifest_digest audited, ae_occurred_at = ac_now ctx, ae_body = body\<rparr>"

definition workspace_event ::
  "routine_command \<Rightarrow> admin_routine_ctx \<Rightarrow> admin_grant \<Rightarrow> nat \<Rightarrow> string \<Rightarrow> workspace_event_type \<Rightarrow>
     routine_fields ws_fields \<Rightarrow> routine_event" where
  "workspace_event command ctx g n event_id ty p =
     \<lparr>ev_workspace_id = rq_workspace_id command, ev_stream_id = rx_workspace_stream_id ctx,
      ev_seq = rx_workspace_seq ctx + of_nat n + 1, ev_event_id = event_id, ev_command_id = ac_command_id ctx,
      ev_type = ty, ev_schema_version = 1, ev_actor_user = None, ev_actor_agent_principal = None, ev_actor_run = None,
      ev_occurred_at_server = ac_now ctx, ev_admin_identity_id = Some (am_admin_identity_id g),
      ev_grant_id = Some (ag_grant_id g), ev_grant_manifest_digest = Some (ag_manifest_digest g), ev_payload = Fields p\<rparr>"

text \<open>The emissions in order, as account events and workspace events, from the i-th event identifier,
  the k-th account sequence number and the n-th workspace event on.\<close>

fun number_emissions ::
  "routine_command \<Rightarrow> admin_account \<Rightarrow> admin_routine_ctx \<Rightarrow> admin_grant option \<Rightarrow> admin_grant \<Rightarrow> nat \<Rightarrow> nat \<Rightarrow> nat \<Rightarrow>
     emission list \<Rightarrow> admin_event list \<times> routine_event list" where
  "number_emissions command s ctx audited g i k n [] = ([], [])"
| "number_emissions command s ctx audited g i k n (OnAccount body # es) =
     (let (as, ws) = number_emissions command s ctx audited g (Suc i) (Suc k) n es in
      (account_event s ctx audited (ac_nextSeq ctx k) (ac_nextEventId ctx i) body # as, ws))"
| "number_emissions command s ctx audited g i k n (OnWorkspace ty p # es) =
     (let (as, ws) = number_emissions command s ctx audited g (Suc i) k (Suc n) es in
      (as, workspace_event command ctx g n (ac_nextEventId ctx i) ty p # ws))"
| "number_emissions command s ctx audited g i k n (OnBoth ty p # es) =
     (let (as, ws) = number_emissions command s ctx audited g (Suc (Suc i)) (Suc k) (Suc n) es in
      (account_event s ctx audited (ac_nextSeq ctx k) (ac_nextEventId ctx i) (RoutineEvent ty p) # as,
       workspace_event command ctx g n (ac_nextEventId ctx (Suc i)) (AdminRoutine ty)
         (no_fields\<lparr>w_routine := Some p\<rparr>) # ws))"

section \<open>The audit record\<close>

fun action_target :: "routine_action \<Rightarrow> (string \<times> string) option" where
  "action_target (CancelConnection attempt _) = Some (''connection'', attempt)"
| "action_target (RevokeInvitationById _ invitation _) = Some (''invitation'', invitation)"
| "action_target act = map_option (Pair ''seat'') (action_principal act)"

text \<open>What the audit record calls the target: its kind and identifier.\<close>

definition audit_target :: "routine_command \<Rightarrow> connection_attempt option \<Rightarrow> string \<times> string" where
  "audit_target command waiting = (case waiting of
     Some a \<Rightarrow> (''connection'', at_attempt_id a)
   | None \<Rightarrow> (case action_target (rq_action command) of
       Some target \<Rightarrow> target | None \<Rightarrow> (''workspace'', rq_workspace_id command)))"

fun emitted_type :: "emission \<Rightarrow> admin_routine_type option" where
  "emitted_type (OnBoth ty _) = Some ty"
| "emitted_type _ = None"

fun has_delivery_state :: "emission \<Rightarrow> bool" where
  "has_delivery_state (OnBoth _ p) = truthy (rp_delivery_state p)"
| "has_delivery_state (OnAccount (ConnectionPrepared _)) = True"
| "has_delivery_state _ = False"

definition awaits_recipient :: "emission \<Rightarrow> bool" where
  "awaits_recipient e \<longleftrightarrow> emitted_type e \<in> Some ` set [AdminSeatProvisioned, AdminSeatRenewed,
     AdminSeatCredentialReplaced, AdminMemberInvited, AdminAgentInvitationIssued]"

fun is_invite_member :: "routine_action \<Rightarrow> bool" where
  "is_invite_member (InviteMember _ _) = True"
| "is_invite_member _ = False"

definition next_action_text :: "routine_command \<Rightarrow> outcome \<Rightarrow> string" where
  "next_action_text command oc =
     (if oc_reason oc \<noteq> None then ''Ask the granting person to review access.''
      else if is_invite_member (rq_action command) then ''The recipient must sign in to /app, review the shared audience and history, and choose whether to join. The workspace owner must first confirm shared workspace settings.''
      else if oc_pending oc \<noteq> None \<or> list_ex has_delivery_state (oc_emissions oc)
      then ''The recipient must authorize setup and verify its connection.'' else ''none'')"

definition routine_audit ::
  "routine_command \<Rightarrow> admin_account \<Rightarrow> admin_routine_ctx \<Rightarrow> outcome \<Rightarrow> nat \<Rightarrow> string list \<Rightarrow> audit_payload" where
  "routine_audit command s ctx oc i related =
     (let audited = audited_grant command s ctx; reason = oc_reason oc in
      \<lparr>au_audit_record_id = ac_nextEventId ctx i, au_grant_id = map_option ag_grant_id audited,
       au_admin_identity_id = map_option am_admin_identity_id audited,
       au_connection_id = map_option am_connection_id audited,
       au_action = routine_kind (rq_action command),
       au_target_kind = fst (audit_target command (oc_pending oc)),
       au_target_id = Some (snd (audit_target command (oc_pending oc))), au_client = None,
       au_workspace_id = Some (rq_workspace_id command), au_manifest_digest = map_option ag_manifest_digest audited,
       au_request_digest = ac_request_digest ctx,
       au_outcome = (if reason \<noteq> None then ''refused''
         else if oc_pending oc \<noteq> None \<or> list_ex awaits_recipient (oc_emissions oc) then ''pending'' else ''accepted''),
       au_reason_code = reason,
       au_attempt = (if reason \<noteq> None then None else map_option (\<lambda>a. (at_attempt_id a, at_state a)) (oc_pending oc)),
       au_result = (case reason of None \<Rightarrow> ''passed'' | Some x \<Rightarrow> x),
       au_buckets = map (\<lambda>b. \<lparr>ab_key = rch_key b, ab_hour_start = rch_hour_start b, ab_attempts = rch_attempts b\<rparr>)
         (routine_charges command s ctx),
       au_related_event_ids = related, au_next_action = next_action_text command oc,
       au_recovery_kind = (if reason \<noteq> None then ''human'' else ''none'')\<rparr>)"

record routine_decision =
  rd_ok :: bool
  rd_reason :: "string option"
  rd_events :: "admin_event list"
  rd_workspace_events :: "routine_event list"

text \<open>The audit record takes the identifier after those of the emissions, its event the one after that.\<close>

definition routine_finish ::
  "routine_command \<Rightarrow> admin_account \<Rightarrow> admin_routine_ctx \<Rightarrow> outcome \<Rightarrow> routine_decision" where
  "routine_finish command s ctx oc =
     (let audited = audited_grant command s ctx;
          (as, ws) = (case obj_get (aa_grants s) (rq_grant_id command) of
            None \<Rightarrow> ([], [])
          | Some g \<Rightarrow> number_emissions command s ctx audited g 0 0 0 (oc_emissions oc));
          i = length as + length ws;
          audit = routine_audit command s ctx oc i (map ae_event_id as @ map ev_event_id ws) in
      \<lparr>rd_ok = (oc_reason oc = None), rd_reason = oc_reason oc,
       rd_events = as @ [account_event s ctx audited (ac_nextSeq ctx (length as)) (ac_nextEventId ctx (Suc i))
         (ActionRecorded audit)],
       rd_workspace_events = ws\<rparr>)"

definition decideAdminRoutine ::
  "crypto \<Rightarrow> routine_command \<Rightarrow> admin_account \<Rightarrow> admin_routine_ctx \<Rightarrow> routine_decision" where
  "decideAdminRoutine cr command s ctx = routine_finish command s ctx (routine_outcome cr command s ctx)"

end
