(* ===== verification/AdminRoutineParse.thy ===== *)
theory AdminRoutineParse
  imports AdminRoutineVerdict AdminManifest
begin

text \<open>
  What \<open>parseAdminRoutineCommand\<close> admits: on a command of the declared type it is \<open>command_ok\<close>, and a
  value it admits is, up to the order of its keys, the object of such a command when its transport, if
  it has one, is a string.
\<close>

section \<open>The typed reading\<close>

definition scopes_valid :: "string list \<Rightarrow> bool" where
  "scopes_valid xs \<longleftrightarrow> xs \<noteq> [] \<and> length xs \<le> 100 \<and> distinct xs \<and>
     (\<forall>x \<in> set xs. text_ok 80 x \<and> scope_chars x \<and> \<not> isAgentScopeDenylisted (lit x))"

fun action_ok :: "routine_action \<Rightarrow> bool" where
  "action_ok (PrepareConnection owner agent conn name _ ttl) \<longleftrightarrow> ADMIN_UUID_RE owner \<and> ADMIN_UUID_RE agent \<and>
     ADMIN_UUID_RE conn \<and> text_ok 80 name \<and> positive (Fin ttl)"
| "action_ok (CancelConnection attempt reason) \<longleftrightarrow> ADMIN_UUID_RE attempt \<and> reason_code_text reason"
| "action_ok (CreateWorkspace name) \<longleftrightarrow> text_ok 80 name"
| "action_ok (CreateSeat name model _) \<longleftrightarrow> text_ok 80 name \<and> (\<forall>m. model = Some m \<longrightarrow> text_ok 120 m)"
| "action_ok (ProvisionSeat pid conn scopes bearer horizon successors) \<longleftrightarrow> ADMIN_UUID_RE pid \<and> ADMIN_UUID_RE conn \<and>
     scopes_valid scopes \<and> positive (Fin bearer) \<and> positive (Fin horizon) \<and> positive (Fin successors)"
| "action_ok (RenewSeat pid predecessor conn scopes bearer) \<longleftrightarrow> ADMIN_UUID_RE pid \<and> ADMIN_UUID_RE predecessor \<and>
     ADMIN_UUID_RE conn \<and> scopes_valid scopes \<and> positive (Fin bearer)"
| "action_ok (ReplaceUndelivered pid credential conn) \<longleftrightarrow> ADMIN_UUID_RE pid \<and> ADMIN_UUID_RE credential \<and> ADMIN_UUID_RE conn"
| "action_ok (RevokeSeat pid reason) \<longleftrightarrow> ADMIN_UUID_RE pid \<and> reason_code_text reason"
| "action_ok (RevokeSeatCredential pid credential reason) \<longleftrightarrow> ADMIN_UUID_RE pid \<and> ADMIN_UUID_RE credential \<and>
     reason_code_text reason"
| "action_ok (InviteMember recipient ttl) \<longleftrightarrow> ADMIN_UUID_RE recipient \<and> positive (Fin ttl)"
| "action_ok (IssueAgentInvitation owner conn _ seats scopes ttl) \<longleftrightarrow> ADMIN_UUID_RE owner \<and> ADMIN_UUID_RE conn \<and>
     positive (Fin seats) \<and> scopes_valid scopes \<and> positive (Fin ttl)"
| "action_ok (RevokeInvitationById _ invitation reason) \<longleftrightarrow> ADMIN_UUID_RE invitation \<and> reason_code_text reason"

definition command_ok :: "routine_command \<Rightarrow> bool" where
  "command_ok c \<longleftrightarrow> ADMIN_UUID_RE (rq_grant_id c) \<and> ADMIN_UUID_RE (rq_workspace_id c) \<and> action_ok (rq_action c)"

lemma value_tests [simp]:
  "uuid_value (JString s) \<longleftrightarrow> ADMIN_UUID_RE s" "text_value n (JString s) \<longleftrightarrow> text_ok n s" "\<not> text_value n JNull"
  "positive_value (json_num r) \<longleftrightarrow> positive (Fin r)" "code_value (JString s) \<longleftrightarrow> reason_code_text s"
  "worker_scopes (json_strings xs) \<longleftrightarrow> scopes_valid xs" "transport_value cr (JString (transport_text t))"
  by (auto simp: uuid_value_def text_value_def positive_value_def json_num_def code_value_def worker_scopes_def scopes_valid_def
      list_all_iff transport_value_def) (cases t; simp)

lemma kinds_available: "adminCapabilityAvailable (routine_kind act) ADMIN_REGISTRY_VERSION"
proof -
  have "list_all (\<lambda>k. adminCapabilityAvailable k ADMIN_REGISTRY_VERSION)
    [''admin_prepare_connection'', ''admin_cancel_connection'', ''admin_create_workspace'', ''admin_create_seat'',
     ''admin_provision_seat'', ''admin_renew_seat'', ''admin_replace_undelivered_seat_credential'', ''admin_revoke_seat'',
     ''admin_revoke_seat_credential'', ''admin_invite_member'', ''admin_issue_agent_invitation'', ''admin_revoke_invitation'',
     ''admin_revoke_agent_invitation'']" by code_simp
  then show ?thesis by (cases act rule: routine_kind.cases) simp_all
qed

lemma parse_typed:
  "parseAdminRoutineCommand cr (routine_value c) \<noteq> None \<longleftrightarrow> command_ok c"
proof -
  obtain act where act: "rq_action c = act" by simp
  show ?thesis
    using kinds_available[of act]
    by (cases act rule: routine_kind.cases)
      (auto simp: parseAdminRoutineCommand_def routine_value_def command_ok_def act obj_get_def on_field_def
        routine_shape_def adminExactKeys_def obj_keys_def list_all_iff split: option.split)
qed

section \<open>An admitted value is a command\<close>

lemma exact_object:
  assumes "adminExactKeys ob (map fst ys)" and "distinct (map fst ys)"
    and "\<And>k w. (k, w) \<in> set ys \<Longrightarrow> obj_get ob k = Some w"
  shows "json_same (JObject ob) (JObject ys)"
proof (rule same_objectI)
  show "distinct (map fst ob)" "set (map fst ob) = set (map fst ys)" using exact_keys[OF assms(1,2)] by simp_all
  fix k v w assume "obj_get ob k = Some v" "obj_get ys k = Some w"
  with assms(3)[of k w] show "json_same v w" by (auto simp: obj_get_def dest: map_of_SomeD intro: json_same.same_refl)
qed (rule assms(2))

lemma field_uuid: "on_field ob k uuid_value \<Longrightarrow> \<exists>s. obj_get ob k = Some (JString s) \<and> ADMIN_UUID_RE s"
  by (auto simp: on_field_def uuid_value_def split: option.split_asm elim: string_value.elims)

lemma field_text: "on_field ob k (text_value n) \<Longrightarrow> \<exists>s. obj_get ob k = Some (JString s) \<and> text_ok n s"
  by (auto simp: on_field_def text_value_def split: option.split_asm elim: string_value.elims)

lemma field_model: "on_field ob k (\<lambda>v. v = JNull \<or> text_value n v) \<Longrightarrow>
    \<exists>m. obj_get ob k = Some (case m of None \<Rightarrow> JNull | Some s \<Rightarrow> JString s) \<and> (\<forall>s. m = Some s \<longrightarrow> text_ok n s)"
proof -
  assume f: "on_field ob k (\<lambda>v. v = JNull \<or> text_value n v)"
  show ?thesis
  proof (cases "obj_get ob k = Some JNull")
    case True
    then show ?thesis by (intro exI[of _ None]) simp
  next
    case False
    with f have "on_field ob k (text_value n)" by (auto simp: on_field_def split: option.split_asm)
    from field_text[OF this] obtain s where "obj_get ob k = Some (JString s)" "text_ok n s" by blast
    then show ?thesis by (intro exI[of _ "Some s"]) simp
  qed
qed

lemma field_positive: "on_field ob k positive_value \<Longrightarrow> \<exists>r. obj_get ob k = Some (json_num r) \<and> positive (Fin r)"
  by (auto simp: on_field_def positive_value_def json_num_def positive_def split: option.split_asm json.split_asm
      elim: is_safe_integer.elims)

lemma field_scopes: "on_field ob k worker_scopes \<Longrightarrow> \<exists>xs. obj_get ob k = Some (json_strings xs) \<and> scopes_valid xs"
  by (auto simp: on_field_def worker_scopes_def scopes_valid_def list_all_iff split: option.split_asm dest!: string_items_Some)

lemma field_code: "on_field ob k code_value \<Longrightarrow> \<exists>s. obj_get ob k = Some (JString s) \<and> reason_code_text s"
  by (auto simp: on_field_def code_value_def split: option.split_asm elim: string_value.elims)

lemma field_is: "on_field ob k (\<lambda>v. v = w) \<Longrightarrow> obj_get ob k = Some w"
  by (auto simp: on_field_def split: option.split_asm)

lemma field_transport:
  assumes "on_field ob k (transport_value cr)" and "\<And>v. obj_get ob k = Some v \<Longrightarrow> \<exists>s. v = JString s"
  shows "\<exists>t. obj_get ob k = Some (JString (transport_text t))"
proof -
  from assms(1) obtain v where v: "obj_get ob k = Some v" "transport_value cr v" by (auto simp: on_field_def split: option.split_asm)
  with assms(2) obtain s where "v = JString s" by blast
  with v have "obj_get ob k = Some (JString s)" "s = transport_text LocalTransport \<or> s = transport_text HostedMcp"
    by (auto simp: transport_value_def)
  then show ?thesis by blast
qed

lemmas field_dests = field_uuid field_text field_model field_positive field_scopes field_code field_is field_transport

text \<open>The fields of an action are those of its kind.\<close>

definition fields_read :: "json obj \<Rightarrow> routine_action \<Rightarrow> bool" where
  "fields_read ob act \<longleftrightarrow> action_ok act \<and> (\<forall>(k, w) \<in> set (action_fields act). obj_get ob k = Some w)"

lemma shape_keys: "\<exists>shape. routine_shape cr (routine_kind act) = Some shape \<and> map fst (action_fields act) = map fst shape"
  by (cases act rule: routine_kind.cases) (simp_all add: routine_shape_def)

lemma read_seats:
  assumes shape: "routine_shape cr kind = Some shape" and f: "list_all (\<lambda>(k, test). on_field ob k test) shape"
    and t: "\<And>v. obj_get ob ''transport'' = Some v \<Longrightarrow> \<exists>s. v = JString s"
    and kind: "kind = ''admin_create_seat''
      \<or> kind = ''admin_provision_seat''
      \<or> kind = ''admin_renew_seat''
      \<or> kind = ''admin_replace_undelivered_seat_credential''
      \<or> kind = ''admin_revoke_seat''
      \<or> kind = ''admin_revoke_seat_credential''"
  shows "\<exists>act. routine_kind act = kind \<and> fields_read ob act"
proof -
  note reads = field_uuid field_text field_model field_positive field_scopes field_code field_is field_transport[OF _ t]
  from kind show ?thesis
  proof (elim disjE)
    assume k: "kind = ''admin_create_seat''"
    from f[unfolded shape[unfolded k routine_shape_def, simplified, symmetric], simplified]
    obtain n m t where v: "obj_get ob ''name'' = Some (JString n)"
      "text_ok 80 n"
      "obj_get ob ''model'' = Some ((case m of None \<Rightarrow> JNull | Some s \<Rightarrow> JString s))"
      "\<forall>s. m = Some s \<longrightarrow> text_ok 120 s"
      "obj_get ob ''transport'' = Some (JString (transport_text t))"
      by (auto dest!: reads)
    then show ?thesis by (intro exI[of _ "CreateSeat n m t"]) (auto simp: fields_read_def k)
  next
    assume k: "kind = ''admin_provision_seat''"
    from f[unfolded shape[unfolded k routine_shape_def, simplified, symmetric], simplified]
    obtain p c xs b h n where v: "obj_get ob ''principal_id'' = Some (JString p)"
      "ADMIN_UUID_RE p"
      "obj_get ob ''recipient_connection_id'' = Some (JString c)"
      "ADMIN_UUID_RE c"
      "obj_get ob ''worker_scope_names'' = Some (json_strings xs)"
      "scopes_valid xs"
      "obj_get ob ''bearer_seconds'' = Some (json_num b)"
      "positive (Fin b)"
      "obj_get ob ''horizon_seconds'' = Some (json_num h)"
      "positive (Fin h)"
      "obj_get ob ''max_successors'' = Some (json_num n)"
      "positive (Fin n)"
      by (auto dest!: reads)
    then show ?thesis by (intro exI[of _ "ProvisionSeat p c xs b h n"]) (auto simp: fields_read_def k)
  next
    assume k: "kind = ''admin_renew_seat''"
    from f[unfolded shape[unfolded k routine_shape_def, simplified, symmetric], simplified]
    obtain p o' c xs b where v: "obj_get ob ''principal_id'' = Some (JString p)"
      "ADMIN_UUID_RE p"
      "obj_get ob ''predecessor_credential_id'' = Some (JString o')"
      "ADMIN_UUID_RE o'"
      "obj_get ob ''recipient_connection_id'' = Some (JString c)"
      "ADMIN_UUID_RE c"
      "obj_get ob ''worker_scope_names'' = Some (json_strings xs)"
      "scopes_valid xs"
      "obj_get ob ''bearer_seconds'' = Some (json_num b)"
      "positive (Fin b)"
      by (auto dest!: reads)
    then show ?thesis by (intro exI[of _ "RenewSeat p o' c xs b"]) (auto simp: fields_read_def k)
  next
    assume k: "kind = ''admin_replace_undelivered_seat_credential''"
    from f[unfolded shape[unfolded k routine_shape_def, simplified, symmetric], simplified]
    obtain p d c where v: "obj_get ob ''principal_id'' = Some (JString p)"
      "ADMIN_UUID_RE p"
      "obj_get ob ''credential_id'' = Some (JString d)"
      "ADMIN_UUID_RE d"
      "obj_get ob ''recipient_connection_id'' = Some (JString c)"
      "ADMIN_UUID_RE c"
      by (auto dest!: reads)
    then show ?thesis by (intro exI[of _ "ReplaceUndelivered p d c"]) (auto simp: fields_read_def k)
  next
    assume k: "kind = ''admin_revoke_seat''"
    from f[unfolded shape[unfolded k routine_shape_def, simplified, symmetric], simplified]
    obtain p r where v: "obj_get ob ''principal_id'' = Some (JString p)"
      "ADMIN_UUID_RE p"
      "obj_get ob ''reason_code'' = Some (JString r)"
      "reason_code_text r"
      by (auto dest!: reads)
    then show ?thesis by (intro exI[of _ "RevokeSeat p r"]) (auto simp: fields_read_def k)
  next
    assume k: "kind = ''admin_revoke_seat_credential''"
    from f[unfolded shape[unfolded k routine_shape_def, simplified, symmetric], simplified]
    obtain p d r where v: "obj_get ob ''principal_id'' = Some (JString p)"
      "ADMIN_UUID_RE p"
      "obj_get ob ''credential_id'' = Some (JString d)"
      "ADMIN_UUID_RE d"
      "obj_get ob ''reason_code'' = Some (JString r)"
      "reason_code_text r"
      by (auto dest!: reads)
    then show ?thesis by (intro exI[of _ "RevokeSeatCredential p d r"]) (auto simp: fields_read_def k)
  qed
qed

lemma read_others:
  assumes shape: "routine_shape cr kind = Some shape" and f: "list_all (\<lambda>(k, test). on_field ob k test) shape"
    and t: "\<And>v. obj_get ob ''transport'' = Some v \<Longrightarrow> \<exists>s. v = JString s"
    and kind: "kind = ''admin_prepare_connection''
      \<or> kind = ''admin_cancel_connection''
      \<or> kind = ''admin_create_workspace''
      \<or> kind = ''admin_invite_member''
      \<or> kind = ''admin_issue_agent_invitation''
      \<or> kind = ''admin_revoke_invitation''
      \<or> kind = ''admin_revoke_agent_invitation''"
  shows "\<exists>act. routine_kind act = kind \<and> fields_read ob act"
proof -
  note reads = field_uuid field_text field_model field_positive field_scopes field_code field_is field_transport[OF _ t]
  from kind show ?thesis
  proof (elim disjE)
    assume k: "kind = ''admin_prepare_connection''"
    from f[unfolded shape[unfolded k routine_shape_def, simplified, symmetric], simplified]
    obtain o' a c n t x where v: "obj_get ob ''intended_owner_user_id'' = Some (JString o')"
      "ADMIN_UUID_RE o'"
      "obj_get ob ''intended_agent_id'' = Some (JString a)"
      "ADMIN_UUID_RE a"
      "obj_get ob ''recipient_connection_id'' = Some (JString c)"
      "ADMIN_UUID_RE c"
      "obj_get ob ''requested_name'' = Some (JString n)"
      "text_ok 80 n"
      "obj_get ob ''transport'' = Some (JString (transport_text t))"
      "obj_get ob ''ttl_seconds'' = Some (json_num x)"
      "positive (Fin x)"
      by (auto dest!: reads)
    then show ?thesis by (intro exI[of _ "PrepareConnection o' a c n t x"]) (auto simp: fields_read_def k)
  next
    assume k: "kind = ''admin_cancel_connection''"
    from f[unfolded shape[unfolded k routine_shape_def, simplified, symmetric], simplified]
    obtain a r where v: "obj_get ob ''attempt_id'' = Some (JString a)"
      "ADMIN_UUID_RE a"
      "obj_get ob ''reason_code'' = Some (JString r)"
      "reason_code_text r"
      by (auto dest!: reads)
    then show ?thesis by (intro exI[of _ "CancelConnection a r"]) (auto simp: fields_read_def k)
  next
    assume k: "kind = ''admin_create_workspace''"
    from f[unfolded shape[unfolded k routine_shape_def, simplified, symmetric], simplified]
    obtain n where v: "obj_get ob ''name'' = Some (JString n)"
      "text_ok 80 n"
      by (auto dest!: reads)
    then show ?thesis by (intro exI[of _ "CreateWorkspace n"]) (auto simp: fields_read_def k)
  next
    assume k: "kind = ''admin_invite_member''"
    from f[unfolded shape[unfolded k routine_shape_def, simplified, symmetric], simplified]
    obtain u x where v: "obj_get ob ''recipient_user_id'' = Some (JString u)"
      "ADMIN_UUID_RE u"
      "obj_get ob ''role'' = Some (JString ''member'')"
      "obj_get ob ''ttl_seconds'' = Some (json_num x)"
      "positive (Fin x)"
      by (auto dest!: reads)
    then show ?thesis by (intro exI[of _ "InviteMember u x"]) (auto simp: fields_read_def k)
  next
    assume k: "kind = ''admin_issue_agent_invitation''"
    from f[unfolded shape[unfolded k routine_shape_def, simplified, symmetric], simplified]
    obtain o' c t n xs x where v: "obj_get ob ''intended_owner_user_id'' = Some (JString o')"
      "ADMIN_UUID_RE o'"
      "obj_get ob ''recipient_connection_id'' = Some (JString c)"
      "ADMIN_UUID_RE c"
      "obj_get ob ''transport'' = Some (JString (transport_text t))"
      "obj_get ob ''seat_limit'' = Some (json_num n)"
      "positive (Fin n)"
      "obj_get ob ''worker_scope_names'' = Some (json_strings xs)"
      "scopes_valid xs"
      "obj_get ob ''ttl_seconds'' = Some (json_num x)"
      "positive (Fin x)"
      by (auto dest!: reads)
    then show ?thesis by (intro exI[of _ "IssueAgentInvitation o' c t n xs x"]) (auto simp: fields_read_def k)
  next
    assume k: "kind = ''admin_revoke_invitation''"
    from f[unfolded shape[unfolded k routine_shape_def, simplified, symmetric], simplified]
    obtain i r where v: "obj_get ob ''invitation_id'' = Some (JString i)"
      "ADMIN_UUID_RE i"
      "obj_get ob ''reason_code'' = Some (JString r)"
      "reason_code_text r"
      by (auto dest!: reads)
    then show ?thesis by (intro exI[of _ "RevokeInvitationById MemberInvitation i r"]) (auto simp: fields_read_def k)
  next
    assume k: "kind = ''admin_revoke_agent_invitation''"
    from f[unfolded shape[unfolded k routine_shape_def, simplified, symmetric], simplified]
    obtain i r where v: "obj_get ob ''invitation_id'' = Some (JString i)"
      "ADMIN_UUID_RE i"
      "obj_get ob ''reason_code'' = Some (JString r)"
      "reason_code_text r"
      by (auto dest!: reads)
    then show ?thesis by (intro exI[of _ "RevokeInvitationById AgentInvitation i r"]) (auto simp: fields_read_def k)
  qed
qed

lemma shape_read:
  assumes "routine_shape cr kind = Some shape" and "list_all (\<lambda>(k, test). on_field ob k test) shape"
    and "\<And>v. obj_get ob ''transport'' = Some v \<Longrightarrow> \<exists>s. v = JString s"
  shows "\<exists>act. routine_kind act = kind \<and> fields_read ob act"
proof (rule ccontr)
  assume none: "\<nexists>act. routine_kind act = kind \<and> fields_read ob act"
  have a: "\<not> (kind = ''admin_create_seat'' \<or> kind = ''admin_provision_seat'' \<or> kind = ''admin_renew_seat'' \<or>
      kind = ''admin_replace_undelivered_seat_credential'' \<or> kind = ''admin_revoke_seat'' \<or>
      kind = ''admin_revoke_seat_credential'')" by (rule contrapos_nn[OF none], rule read_seats[OF assms])
  have b: "\<not> (kind = ''admin_prepare_connection'' \<or> kind = ''admin_cancel_connection'' \<or> kind = ''admin_create_workspace'' \<or>
      kind = ''admin_invite_member'' \<or> kind = ''admin_issue_agent_invitation'' \<or> kind = ''admin_revoke_invitation'' \<or>
      kind = ''admin_revoke_agent_invitation'')" by (rule contrapos_nn[OF none], rule read_others[OF assms])
  have "routine_shape cr kind = None" using a b by (simp add: routine_shape_def)
  with assms(1) show False by simp
qed

lemma fields_distinct: "distinct ([''kind'', ''grant_id'', ''workspace_id''] @ map fst (action_fields act))"
  by (cases act) simp_all

lemma parsed_typed:
  assumes parsed: "parseAdminRoutineCommand cr (JObject ob) = Some x"
    and t: "\<And>v. obj_get ob ''transport'' = Some v \<Longrightarrow> \<exists>s. v = JString s"
  shows "x = ob \<and> (\<exists>c. json_same (JObject ob) (routine_value c) \<and> command_ok c)"
proof -
  from parsed obtain kind shape where k: "obj_get ob ''kind'' = Some (JString kind)" "routine_shape cr kind = Some shape"
    "on_field ob ''grant_id'' uuid_value" "on_field ob ''workspace_id'' uuid_value" "x = ob"
    "adminExactKeys ob ([''kind'', ''grant_id'', ''workspace_id''] @ map fst shape)"
    "list_all (\<lambda>(k, test). on_field ob k test) shape"
    by (auto simp: parseAdminRoutineCommand_def split: option.split_asm json.split_asm if_split_asm)
  from shape_read[OF k(2,7) t] obtain act where act: "routine_kind act = kind" "fields_read ob act" by blast
  from shape_keys[of cr act] k(2) act(1) have keys: "map fst (action_fields act) = map fst shape" by auto
  from k(3,4) obtain gid ws where ids: "obj_get ob ''grant_id'' = Some (JString gid)" "ADMIN_UUID_RE gid"
    "obj_get ob ''workspace_id'' = Some (JString ws)" "ADMIN_UUID_RE ws" by (auto dest!: field_uuid)
  let ?c = "\<lparr>rq_grant_id = gid, rq_workspace_id = ws, rq_action = act\<rparr>"
  let ?ys = "[(''kind'', JString kind), (''grant_id'', JString gid), (''workspace_id'', JString ws)] @ action_fields act"
  have "json_same (JObject ob) (JObject ?ys)"
  proof (rule exact_object)
    show "adminExactKeys ob (map fst ?ys)" using k(6) keys by simp
    show "distinct (map fst ?ys)" using fields_distinct[of act] by simp
    fix f w assume "(f, w) \<in> set ?ys"
    with act(2) k(1) ids show "obj_get ob f = Some w" by (auto simp: fields_read_def)
  qed
  moreover have "routine_value ?c = JObject ?ys" by (simp add: routine_value_def act(1))
  moreover have "command_ok ?c" using ids act(2) by (simp add: command_ok_def fields_read_def)
  ultimately show ?thesis using k(5) by metis
qed

end
