(* ===== verification/AdminRoutineFolds.thy ===== *)
theory AdminRoutineFolds
  imports AdminRoutineParse AdminRates
begin

text \<open>
  The account events of a routine decision pass \<open>reduceAdminAuthority\<close> and keep the invariant of the
  account. A decision emits at most one account event before its audit record; \<open>emission_fits\<close> says what
  each branch guarantees of it.
\<close>

section \<open>Account bodies\<close>

fun account_body :: "emission \<Rightarrow> admin_body list" where
  "account_body (OnAccount b) = [b]"
| "account_body (OnBoth ty p) = [RoutineEvent ty p]"
| "account_body (OnWorkspace _ _) = []"

definition account_bodies :: "emission list \<Rightarrow> admin_body list" where
  "account_bodies es = concat (map account_body es)"

lemma account_bodies_simps [simp]:
  "account_bodies [] = []" "account_bodies (e # es) = account_body e @ account_bodies es"
  "account_bodies (es @ fs) = account_bodies es @ account_bodies fs"
  by (simp_all add: account_bodies_def)

definition delegate_event :: "admin_routine_ctx \<Rightarrow> admin_grant option \<Rightarrow> admin_event \<Rightarrow> bool" where
  "delegate_event ctx audited e \<longleftrightarrow> ae_schema_version e = 1 \<and> ae_stream_kind e = ''account'' \<and>
     ae_owner_user_id e = ac_owner_user_id ctx \<and> ae_occurred_at e = ac_now ctx \<and> ae_actor_user e = None \<and>
     ae_grant_id e = map_option ag_grant_id audited"

lemma delegate_event_account [simp]: "delegate_event ctx audited (account_event s ctx audited k i b)"
  by (simp add: delegate_event_def account_event_def)

lemma account_event_body [simp]: "ae_body (account_event s ctx audited k i b) = b"
  by (simp add: account_event_def)

lemma number_emissions_account:
  "map ae_body (fst (number_emissions command s ctx audited g i k n es)) = account_bodies es \<and>
   list_all (delegate_event ctx audited) (fst (number_emissions command s ctx audited g i k n es))"
proof (induction es arbitrary: i k n)
  case (Cons e es)
  then show ?case by (cases e) (simp_all add: case_prod_beta)
qed simp

section \<open>The grant of an accepted decision\<close>

lemma gate_grant:
  assumes "routine_gate cr command s ctx = Inr (g, sp)"
  shows "obj_get (aa_grants s) (rq_grant_id command) = Some g" "ag_state g = GrantIsActive" "bound_to command ctx g"
    "manifest_ok cr g (ac_now ctx) False" "obj_get (rt_spend (routine_of s)) (ag_grant_id g) = Some sp"
    "counters_ok sp ctx" "parseAdminRoutineCommand cr (routine_value command) \<noteq> None"
    "\<not> list_ex over_rate (routine_charges command s ctx)" "ac_now ctx < actor_expires (ac_actor ctx)"
    "set (actor_scopes (ac_actor ctx)) \<subseteq> set (am_scope_names g)"
    "routine_kind (rq_action command) \<in> set (adminEffectiveCapabilities cr g (actor_scopes (ac_actor ctx)))"
    "is_create_workspace (rq_action command) \<or> current_rights ctx"
    "\<exists>scope. kind_scope (routine_kind (rq_action command)) = Some scope \<and> scope \<in> set (am_scope_names g) \<and>
      scope \<in> set (actor_scopes (ac_actor ctx)) \<and>
      (is_create_workspace (rq_action command) \<or> workspace_allowed command (routine_of_account s) ctx g scope)"
proof -
  have same: "manifest_value (adminGrantManifest g) = manifest_value g"
    by (simp add: adminGrantManifest_def manifest_value_def admin_manifest.truncate_def)
  have r: "routine_of_account s = routine_of s" by (simp add: routine_of_account_def routine_of_def)
  note gate = assms[unfolded routine_gate_def Let_def r]
  show "obj_get (aa_grants s) (rq_grant_id command) = Some g" "ag_state g = GrantIsActive" "bound_to command ctx g"
    "obj_get (rt_spend (routine_of s)) (ag_grant_id g) = Some sp" "counters_ok sp ctx"
    "parseAdminRoutineCommand cr (routine_value command) \<noteq> None" "\<not> list_ex over_rate (routine_charges command s ctx)"
    "ac_now ctx < actor_expires (ac_actor ctx)" "set (actor_scopes (ac_actor ctx)) \<subseteq> set (am_scope_names g)"
    "routine_kind (rq_action command) \<in> set (adminEffectiveCapabilities cr g (actor_scopes (ac_actor ctx)))"
    "is_create_workspace (rq_action command) \<or> current_rights ctx"
    using gate by (auto simp: subset_list_set not_le split: if_split_asm option.split_asm)
  show "manifest_ok cr g (ac_now ctx) False"
    using gate by (auto simp: manifest_valid_iff[symmetric] same split: if_split_asm option.split_asm)
  show "\<exists>scope. kind_scope (routine_kind (rq_action command)) = Some scope \<and> scope \<in> set (am_scope_names g) \<and>
      scope \<in> set (actor_scopes (ac_actor ctx)) \<and>
      (is_create_workspace (rq_action command) \<or> workspace_allowed command (routine_of_account s) ctx g scope)"
    using gate by (auto simp: r split: if_split_asm option.split_asm)
qed

lemma outcome_cases:
  assumes "routine_outcome cr command s ctx = oc"
  obtains (refused) r where "oc = refusal r" "routine_gate cr command s ctx = Inl r"
    | (branch) g sp where "routine_gate cr command s ctx = Inr (g, sp)" "oc = routine_branch command s ctx g sp"
  using assms by (cases "routine_gate cr command s ctx") (auto simp: routine_outcome_def)

section \<open>What the branches guarantee of it\<close>

text \<open>Room in the counters of the grant for an event.\<close>

fun spend_room :: "admin_grant \<Rightarrow> routine_spend \<Rightarrow> admin_routine_type \<Rightarrow> bool" where
  "spend_room g sp AdminWorkspaceCreated \<longleftrightarrow> sp_workspaces sp < il_workspaces (am_issuance_limits g)"
| "spend_room g sp AdminSeatCreated \<longleftrightarrow> sp_total_seats sp < il_total_seats (am_issuance_limits g)"
| "spend_room g sp AdminMemberInvited \<longleftrightarrow> sp_invitations sp < il_invitations (am_issuance_limits g)"
| "spend_room g sp AdminAgentInvitationIssued \<longleftrightarrow> sp_invitations sp < il_invitations (am_issuance_limits g)"
| "spend_room g sp AdminSeatProvisioned \<longleftrightarrow> sp_worker_credentials sp < il_worker_credentials (am_issuance_limits g)"
| "spend_room g sp AdminSeatRenewed \<longleftrightarrow> sp_worker_credentials sp < il_worker_credentials (am_issuance_limits g) \<and>
     sp_successors sp < rn_successors_per_grant (am_renewal_limits g)"
| "spend_room g sp AdminSeatCredentialReplaced \<longleftrightarrow> sp_worker_credentials sp < il_worker_credentials (am_issuance_limits g) \<and>
     sp_successors sp < rn_successors_per_grant (am_renewal_limits g)"
| "spend_room g sp _ \<longleftrightarrow> True"

fun routine_fits :: "admin_account \<Rightarrow> admin_routine_ctx \<Rightarrow> admin_grant \<Rightarrow> routine_spend \<Rightarrow> admin_body \<Rightarrow> bool" where
  "routine_fits s ctx g sp (ConnectionPrepared a) \<longleftrightarrow> at_attempt_id a = rx_nextResourceId ctx 0 \<and>
     at_parent_admin_grant_id a = ag_grant_id g \<and> at_state a = AwaitingAuthorization \<and> at_cancelled_at a = None \<and>
     at_expires_at a = grant_deadline g (ac_now ctx + at_ttl_seconds a * 1000) \<and> positive (Fin (at_ttl_seconds a))"
| "routine_fits s ctx g sp (ConnectionCancelled i t reason) \<longleftrightarrow>
     (\<exists>k a. obj_get (obj_or_empty (aa_connections s)) k = Some a \<and> at_attempt_id a = i \<and>
       at_parent_admin_grant_id a = ag_grant_id g)"
| "routine_fits s ctx g sp (RoutineEvent ty p) \<longleftrightarrow> routine_complete ty p \<and> ty \<noteq> AdminMemberInvitationAccepted \<and>
     spend_room g sp ty \<and> (ty = AdminInvitationRevoked \<longrightarrow>
       (\<exists>k i. obj_get (rt_invitations (routine_of s)) k = Some i \<and> rp_invitation_id p = Some (ri_invitation_id i)))"
| "routine_fits s ctx g sp _ \<longleftrightarrow> False"

text \<open>At most one account event, and it fits.\<close>

definition one_fit :: "admin_account \<Rightarrow> admin_routine_ctx \<Rightarrow> admin_grant \<Rightarrow> routine_spend \<Rightarrow> outcome \<Rightarrow> bool" where
  "one_fit s ctx g sp oc \<longleftrightarrow> account_bodies (oc_emissions oc) = [] \<or>
     (\<exists>b. account_bodies (oc_emissions oc) = [b] \<and> routine_fits s ctx g sp b)"

lemma outcome_fields [simp]:
  "oc_emissions (refusal r) = []" "oc_emissions (success es) = es" "oc_emissions (awaiting es a) = es"
  "oc_reason (refusal r) = Some r" "oc_reason (success es) = None" "oc_reason (awaiting es a) = None"
  "oc_pending (refusal r) = None" "oc_pending (success es) = None" "oc_pending (awaiting es a) = Some a"
  by (simp_all add: refusal_def success_def awaiting_def)

lemma one_fit_refusal [simp]: "one_fit s ctx g sp (refusal r)"
  by (simp add: one_fit_def)

lemma prepare_fit: "positive (Fin ttl) \<Longrightarrow> one_fit s ctx g sp (prepare_connection command s ctx g owner agent conn name transport ttl)"
  by (auto simp: prepare_connection_def Let_def one_fit_def split: option.split)

lemma cancel_fit: "one_fit s ctx g sp (cancel_connection command s ctx g attempt reason)"
  by (auto simp: cancel_connection_def one_fit_def split: option.split)

lemma workspace_fit: "one_fit s ctx g sp (create_workspace command ctx g sp name)"
  by (simp add: create_workspace_def one_fit_def no_routine_fields_def)

lemma seat_fit: "one_fit s ctx g sp (create_seat command r ctx g sp name model transport)"
  by (simp add: create_seat_def Let_def one_fit_def no_routine_fields_def)

lemma invitation_room: "invitation_gate ctx g sp agent recipient = None \<Longrightarrow> sp_invitations sp < il_invitations (am_issuance_limits g)"
  by (simp add: invitation_gate_def split: if_split_asm)

lemma member_fit: "one_fit s ctx g sp (invite_member command ctx g sp recipient ttl)"
  by (auto simp: invite_member_def one_fit_def invitation_fields_def no_routine_fields_def split: option.split dest: invitation_room)

lemma agent_fit: "one_fit s ctx g sp (issue_agent_invitation command r ctx g sp owner conn transport seats scopes ttl)"
  by (auto simp: issue_agent_invitation_def Let_def one_fit_def invitation_fields_def no_routine_fields_def
      split: option.split dest: invitation_room)

lemma revoke_invitation_fit: "r = routine_of s \<Longrightarrow> one_fit s ctx g sp (revoke_invitation command r ctx g kind i reason)"
  by (auto simp: revoke_invitation_def one_fit_def no_routine_fields_def split: option.split)

lemma revoke_seat_fit: "one_fit s ctx g sp (revoke_whole_seat r ctx p reason)"
  by (simp add: revoke_whole_seat_def Let_def one_fit_def revoked_seat_fields_def no_routine_fields_def)

lemma revoke_credential_fit: "one_fit s ctx g sp (revoke_seat_credential command ctx p credential reason)"
  by (auto simp: revoke_seat_credential_def one_fit_def revoked_seat_fields_def no_routine_fields_def split: option.split)

lemma issue_of_type:
  assumes "issue_of act = Some q"
  shows "iq_type q \<in> {AdminSeatProvisioned, AdminSeatRenewed, AdminSeatCredentialReplaced}"
    "iq_type q = AdminSeatProvisioned \<longleftrightarrow> iq_predecessor q = None"
  using assms by (cases act; auto)+

lemma issued_complete:
  "ty \<in> {AdminSeatProvisioned, AdminSeatRenewed, AdminSeatCredentialReplaced} \<Longrightarrow> routine_complete ty (issued_fields ctx g sp c)"
  by (auto simp: issued_fields_def Let_def no_routine_fields_def)

lemma issue_room:
  assumes q: "issue_of act = Some q" and gate: "issue_gate command r ctx g sp p q = None"
  shows "spend_room g sp (iq_type q)"
proof -
  from gate have room: "sp_worker_credentials sp < il_worker_credentials (am_issuance_limits g)"
    by (simp add: issue_gate_def Let_def split: if_split_asm)
  have "sp_successors sp < rn_successors_per_grant (am_renewal_limits g)" if "iq_predecessor q \<noteq> None"
  proof -
    from that obtain pre where "iq_predecessor q = Some pre" by blast
    with gate have "succession_gate command r ctx g sp p q pre = None"
      by (simp add: issue_gate_def Let_def split: if_split_asm option.split_asm)
    then show ?thesis by (auto simp: succession_gate_def Let_def successors_left_def split: if_split_asm option.split_asm)
  qed
  with issue_of_type[OF q] room show ?thesis by auto
qed

lemma issue_fit:
  assumes "issue_of act = Some q"
  shows "one_fit s ctx g sp (issue_credential command r ctx g sp p q)"
  using issue_room[OF assms] issue_of_type(1)[OF assms] issued_complete[OF issue_of_type(1)[OF assms]]
  by (auto simp: issue_credential_def Let_def one_fit_def split: option.split)

lemma on_seat_fit: "one_fit s ctx g sp (on_seat command r ctx g sp pid)"
proof -
  have issue: "one_fit s ctx g sp (case issue_of act of None \<Rightarrow> refusal x | Some q \<Rightarrow> issue_credential command r ctx g sp p q)"
    for act x p by (auto simp: issue_fit split: option.split)
  show ?thesis
    by (simp add: on_seat_def Let_def revoke_seat_fit revoke_credential_fit issue del: issue_of.simps
        split: sum.split routine_action.split)
qed

lemma branch_fit:
  assumes "action_ok (rq_action command)"
  shows "one_fit s ctx g sp (routine_branch command s ctx g sp)"
proof -
  have r: "routine_of_account s = routine_of s" by (simp add: routine_of_account_def routine_of_def)
  show ?thesis using assms
    by (cases "rq_action command")
      (simp_all add: routine_branch_def Let_def r prepare_fit cancel_fit workspace_fit seat_fit member_fit agent_fit
        revoke_invitation_fit on_seat_fit)
qed

end
