(* ===== verification/AdminRoutineSteps.thy ===== *)
theory AdminRoutineSteps
  imports AdminRoutineFolds
begin

text \<open>
  A fitting account event of a routine decision is accepted by \<open>reduceAdminAuthority\<close>, keeps the invariant
  of the account, and counts at most up to the limits of its grant.
\<close>

section \<open>Whole numbers\<close>

lemma integral_Ints: "integral r \<longleftrightarrow> r \<in> \<int>"
  by (metis Ints_cases Ints_of_int integral_def integral_of_int)

lemma integral_arith [intro]:
  "integral a \<Longrightarrow> integral b \<Longrightarrow> integral (a + b)" "integral a \<Longrightarrow> integral b \<Longrightarrow> integral (a * b)"
  "integral a \<Longrightarrow> integral b \<Longrightarrow> integral (min a b)"
  by (auto simp: integral_Ints min_def)

lemma integral_less: "integral a \<Longrightarrow> integral b \<Longrightarrow> a < b \<Longrightarrow> a + 1 \<le> b"
  by (auto simp: integral_Ints elim!: Ints_cases)

section \<open>Spending\<close>

text \<open>What an event adds to the counters; limits and ceilings as counters to compare with.\<close>

fun spend_step :: "admin_routine_type \<Rightarrow> routine_spend \<Rightarrow> routine_spend" where
  "spend_step AdminWorkspaceCreated sp = sp\<lparr>sp_workspaces := sp_workspaces sp + 1\<rparr>"
| "spend_step AdminSeatCreated sp = sp\<lparr>sp_total_seats := sp_total_seats sp + 1\<rparr>"
| "spend_step AdminMemberInvited sp = sp\<lparr>sp_invitations := sp_invitations sp + 1\<rparr>"
| "spend_step AdminAgentInvitationIssued sp = sp\<lparr>sp_invitations := sp_invitations sp + 1\<rparr>"
| "spend_step AdminSeatProvisioned sp = sp\<lparr>sp_worker_credentials := sp_worker_credentials sp + 1\<rparr>"
| "spend_step AdminSeatRenewed sp = sp\<lparr>sp_worker_credentials := sp_worker_credentials sp + 1,
     sp_successors := sp_successors sp + 1\<rparr>"
| "spend_step AdminSeatCredentialReplaced sp = sp\<lparr>sp_worker_credentials := sp_worker_credentials sp + 1,
     sp_successors := sp_successors sp + 1\<rparr>"
| "spend_step _ sp = sp"

definition caps :: "'a admin_manifest_scheme \<Rightarrow> routine_spend" where
  "caps g = \<lparr>sp_workspaces = il_workspaces (am_issuance_limits g), sp_total_seats = il_total_seats (am_issuance_limits g),
     sp_invitations = il_invitations (am_issuance_limits g),
     sp_worker_credentials = il_worker_credentials (am_issuance_limits g),
     sp_successors = rn_successors_per_grant (am_renewal_limits g)\<rparr>"

definition spend_le :: "routine_spend \<Rightarrow> routine_spend \<Rightarrow> bool" where
  "spend_le a b \<longleftrightarrow> sp_workspaces a \<le> sp_workspaces b \<and> sp_total_seats a \<le> sp_total_seats b \<and>
     sp_invitations a \<le> sp_invitations b \<and> sp_worker_credentials a \<le> sp_worker_credentials b \<and>
     sp_successors a \<le> sp_successors b"

definition ceiling_caps :: routine_spend where
  "ceiling_caps = \<lparr>sp_workspaces = il_workspaces ADMIN_ISSUANCE_CEILINGS,
     sp_total_seats = il_total_seats ADMIN_ISSUANCE_CEILINGS, sp_invitations = il_invitations ADMIN_ISSUANCE_CEILINGS,
     sp_worker_credentials = il_worker_credentials ADMIN_ISSUANCE_CEILINGS,
     sp_successors = rn_successors_per_grant ADMIN_RENEWAL_CEILINGS\<rparr>"

lemma spend_le_trans: "spend_le a b \<Longrightarrow> spend_le b c \<Longrightarrow> spend_le a c"
  by (auto simp: spend_le_def)

lemma spend_le_refl [simp]: "spend_le a a"
  by (simp add: spend_le_def)

lemma caps_narrower: "manifest_narrower h g \<Longrightarrow> spend_le (caps h) (caps g)"
  by (simp add: manifest_narrower_def issuance_narrower_def renewals_narrower_def spend_le_def caps_def)

lemma caps_ceiling: "limits_ok g \<Longrightarrow> spend_le (caps g) ceiling_caps"
  by (simp add: limits_ok_def limit_ok_def Let_def spend_le_def caps_def ceiling_caps_def)

definition spend_integral :: "routine_spend \<Rightarrow> bool" where
  "spend_integral a \<longleftrightarrow> integral (sp_workspaces a) \<and> integral (sp_total_seats a) \<and> integral (sp_invitations a) \<and>
     integral (sp_worker_credentials a) \<and> integral (sp_successors a)"

lemma caps_integral: "limits_ok g \<Longrightarrow> spend_integral (caps g)"
  by (simp add: limits_ok_def limit_ok_def Let_def spend_integral_def caps_def)

lemma counters_integral: "counters_ok sp ctx \<Longrightarrow> spend_integral sp"
  by (simp add: counters_ok_def counter_ok_def spend_integral_def)

lemma spend_step_le:
  assumes "spend_integral sp" and "limits_ok g" and "spend_room g sp ty" and "spend_le sp b" and "spend_le (caps g) b"
  shows "spend_le (spend_step ty sp) b"
proof -
  note i = assms(1)[unfolded spend_integral_def] caps_integral[OF assms(2), unfolded spend_integral_def]
  have up: "x + 1 \<le> c" if "integral x" "integral y" "x < y" "y \<le> c" for x y c :: number
    using integral_less[OF that(1-3)] that(4) by simp
  show ?thesis
    using assms(3-5) i by (cases ty) (auto simp: spend_le_def caps_def intro: up)
qed

lemma routine_step_spend:
  "routine_step ty gid t p sp r = Inr (sp', r') \<Longrightarrow> sp' = spend_step ty sp \<and> rt_spend r' = rt_spend r"
  by (cases ty) (auto simp: revoke_seat_def split: option.split_asm if_split_asm)

section \<open>Routine events\<close>

text \<open>The routine after an event, on the account side and on the workspace side.\<close>

lemma routine_reduced:
  assumes "routine_complete ty p" and "gid \<noteq> []" and "routine_step ty gid t p sp (routine_of s) = Inr (sp', r')"
    and "obj_get (rt_spend (routine_of s)) gid = Some sp"
  shows "reduceAdminRoutine (aa_routine s) ty (Some gid) t p = Inr (r'\<lparr>rt_spend := obj_put (rt_spend (routine_of s)) gid sp'\<rparr>)"
proof -
  have r: "(case aa_routine s of None \<Rightarrow> emptyAdminRoutine | Some s \<Rightarrow> s) = routine_of s" by (simp add: routine_of_def)
  show ?thesis
    using assms routine_step_spend[OF assms(3)] by (simp add: reduceAdminRoutine_def r Let_def truthy_def)
qed

text \<open>Every invitation of the routine after a fitting event was there, or is open under the acting grant.\<close>

lemma routine_step_runs:
  assumes fit: "routine_fits s ctx g sp (RoutineEvent ty p)" and "invitations_ok s"
  shows "\<exists>r'. routine_step ty gid t p sp (routine_of s) = Inr (spend_step ty sp, r') \<and>
    keyed ri_invitation_id (rt_invitations r') \<and>
    (\<forall>k i. obj_get (rt_invitations r') k = Some i \<longrightarrow> ri_accepted_at i = None \<longrightarrow> ri_revoked_at i = None \<longrightarrow>
      obj_get (rt_invitations (routine_of s)) k = Some i \<or> ri_parent_admin_grant_id i = gid)"
proof -
  from assms(2) have keyed: "keyed ri_invitation_id (rt_invitations (routine_of s))" by (simp add: invitations_ok_def)
  show ?thesis
  proof (cases "ty = AdminInvitationRevoked")
    case True
    from fit[simplified, unfolded True, simplified] obtain k i where
      i: "obj_get (rt_invitations (routine_of s)) k = Some i" "rp_invitation_id p = Some (ri_invitation_id i)"
      by auto
    with keyed_get[OF keyed i(1)] keyed show ?thesis by (auto simp: True)
  next
    case False
    with fit keyed show ?thesis by (cases ty) (auto simp: revoke_seat_def)
  qed
qed

lemma routine_event_ok:
  assumes ok: "account_ok cr s" and g: "obj_get (aa_grants s) (ag_grant_id g) = Some g" "ag_state g = GrantIsActive"
    and sp: "obj_get (rt_spend (routine_of s)) (ag_grant_id g) = Some sp" "spend_integral sp"
    and fit: "routine_fits s ctx g sp (RoutineEvent ty p)" and gid: "ag_grant_id g \<noteq> []"
    and e: "delegate_event ctx (Some g) e" "ae_body e = RoutineEvent ty p"
  shows "\<exists>t. reduceAdminAuthority cr (Some s) e = Inr t \<and> account_ok cr t \<and> aa_grants t = aa_grants s \<and>
    aa_rate_buckets t = aa_rate_buckets s \<and>
    rt_spend (routine_of t) = obj_put (rt_spend (routine_of s)) (ag_grant_id g) (spend_step ty sp)"
proof -
  note inv = account_okD[OF ok]
  from routine_step_runs[OF fit inv(5)] obtain r' where
    r': "routine_step ty (ag_grant_id g) (ac_now ctx) p sp (routine_of s) = Inr (spend_step ty sp, r')"
      "keyed ri_invitation_id (rt_invitations r')"
      "\<forall>k i. obj_get (rt_invitations r') k = Some i \<longrightarrow> ri_accepted_at i = None \<longrightarrow> ri_revoked_at i = None \<longrightarrow>
        obj_get (rt_invitations (routine_of s)) k = Some i \<or> ri_parent_admin_grant_id i = ag_grant_id g" by blast
  let ?r = "r'\<lparr>rt_spend := obj_put (rt_spend (routine_of s)) (ag_grant_id g) (spend_step ty sp)\<rparr>"
  let ?t = "s\<lparr>aa_routine := Some ?r\<rparr>"
  from fit have f: "routine_complete ty p" "ty \<noteq> AdminMemberInvitationAccepted" "spend_room g sp ty" by auto
  have red: "reduceAdminAuthority cr (Some s) e = Inr ?t"
    using e f(2) routine_reduced[OF f(1) gid r'(1) sp(1)]
    by (simp add: reduceAdminAuthority_def Let_def delegate_event_def reduce_routine_def)
  have active: "grant_active s (ag_grant_id g)" using g by (simp add: grant_active_def)
  have act: "grant_active ?t j = grant_active s j" for j by (simp add: grant_active_def)
  have lim: "limits_ok g" using inv(2) g(1) by (auto simp: grants_ok_def manifest_static_def)
  have cap: "spend_le sp ceiling_caps" using inv(6) sp(1) by (auto simp: spend_ok_def spend_le_def ceiling_caps_def)
  have up: "spend_le (spend_step ty sp) ceiling_caps"
    by (rule spend_step_le[OF sp(2) lim f(3) cap caps_ceiling[OF lim]])
  have "account_ok cr ?t"
  proof (rule account_okI)
    show "invitations_ok ?t" using r'(2,3) inv(5) active unfolding invitations_ok_def act by simp metis
    show "spend_ok ?t"
      using inv(6) up by (auto simp: spend_ok_def spend_le_def ceiling_caps_def)
    show "lineages_ok ?t" by (rule lineages_ok_keep[OF inv(3)]) (simp, simp only: act)
    show "attempts_ok ?t" by (rule attempts_ok_keep[OF inv(4)]) (simp, simp only: act)
  qed (use inv in \<open>simp_all add: rows_keyed_def grants_ok_def\<close>)
  with red show ?thesis by (intro exI[of _ ?t]) simp
qed

section \<open>Connections\<close>

text \<open>The clock is a whole number and the identifiers handed out are new.\<close>

definition clock_ok :: "admin_routine_ctx \<Rightarrow> bool" where
  "clock_ok ctx \<longleftrightarrow> integral (ac_now ctx) \<and> 0 \<le> ac_now ctx"

lemma deadline_after:
  assumes m: "manifest_ok cr g (ac_now ctx) False" and c: "clock_ok ctx" and ttl: "positive (Fin ttl)"
  shows "ac_now ctx < grant_deadline g (ac_now ctx + ttl * 1000)"
    "is_safe_integer (Fin (grant_deadline g (ac_now ctx + ttl * 1000)))"
    "grant_deadline g (ac_now ctx + ttl * 1000) \<le> am_expires_at g"
    "grant_deadline g (ac_now ctx + ttl * 1000) \<le> am_refresh_deadline g"
proof -
  from m have t: "is_safe_integer (Fin (am_expires_at g))" "is_safe_integer (Fin (am_refresh_deadline g))"
    "ac_now ctx < am_expires_at g" "am_expires_at g \<le> am_refresh_deadline g" by (simp_all add: manifest_ok_def times_ok_def)
  from ttl have x: "integral ttl" "0 < ttl" by (simp_all add: positive_def)
  show a: "ac_now ctx < grant_deadline g (ac_now ctx + ttl * 1000)"
    "grant_deadline g (ac_now ctx + ttl * 1000) \<le> am_expires_at g"
    "grant_deadline g (ac_now ctx + ttl * 1000) \<le> am_refresh_deadline g"
    using t(3,4) x(2) by (auto simp: grant_deadline_def min3_def min_def)
  have "integral (grant_deadline g (ac_now ctx + ttl * 1000))"
    unfolding grant_deadline_def min3_def using t(1,2) x(1) c by (intro integral_arith) (simp_all add: clock_ok_def)
  moreover have "0 \<le> grant_deadline g (ac_now ctx + ttl * 1000)" using a(1) c by (simp add: clock_ok_def)
  ultimately show "is_safe_integer (Fin (grant_deadline g (ac_now ctx + ttl * 1000)))"
    using a(2) t(1) by simp
qed

lemma connections_ok:
  assumes ok: "account_ok cr s" and key: "at_attempt_id a = k"
    and act: "at_state a = AwaitingAuthorization \<Longrightarrow> grant_active s (at_parent_admin_grant_id a)"
  shows "account_ok cr (s\<lparr>aa_connections := Some (obj_put (obj_or_empty (aa_connections s)) k a)\<rparr>)"
proof -
  note inv = account_okD[OF ok]
  let ?t = "s\<lparr>aa_connections := Some (obj_put (obj_or_empty (aa_connections s)) k a)\<rparr>"
  have ga: "grant_active ?t j = grant_active s j" for j by (simp add: grant_active_def)
  have "attempts_ok ?t" using inv(4) act unfolding attempts_ok_def ga by auto
  with inv key show ?thesis
    by (simp add: account_ok_def rows_keyed_def grants_ok_def lineages_ok_def invitations_ok_def spend_ok_def ga routine_of_def)
qed

lemma account_step:
  assumes ok: "account_ok cr s" and g: "obj_get (aa_grants s) (ag_grant_id g) = Some g" "ag_state g = GrantIsActive"
    and sp: "obj_get (rt_spend (routine_of s)) (ag_grant_id g) = Some sp" "spend_integral sp"
    and fit: "routine_fits s ctx g sp b" and gid: "ag_grant_id g \<noteq> []"
    and m: "manifest_ok cr g (ac_now ctx) False" and c: "clock_ok ctx"
    and fresh: "obj_get (obj_or_empty (aa_connections s)) (rx_nextResourceId ctx 0) = None"
    and e: "delegate_event ctx (Some g) e" "ae_body e = b"
  shows "\<exists>t. reduceAdminAuthority cr (Some s) e = Inr t \<and> account_ok cr t \<and> aa_grants t = aa_grants s \<and>
    aa_rate_buckets t = aa_rate_buckets s \<and>
    rt_spend (routine_of t) = (case b of RoutineEvent ty p \<Rightarrow>
        obj_put (rt_spend (routine_of s)) (ag_grant_id g) (spend_step ty sp)
      | _ \<Rightarrow> rt_spend (routine_of s))"
proof (cases b)
  case (RoutineEvent ty p)
  with routine_event_ok[OF ok g sp _ gid e(1), of ty p] fit e(2) show ?thesis by simp
next
  case (ConnectionPrepared a)
  with fit have a: "at_attempt_id a = rx_nextResourceId ctx 0" "at_parent_admin_grant_id a = ag_grant_id g"
    "at_state a = AwaitingAuthorization" "at_cancelled_at a = None"
    "at_expires_at a = grant_deadline g (ac_now ctx + at_ttl_seconds a * 1000)" "positive (Fin (at_ttl_seconds a))" by simp_all
  let ?t = "s\<lparr>aa_connections := Some (obj_put (obj_or_empty (aa_connections s)) (at_attempt_id a) a)\<rparr>"
  have "reduceAdminAuthority cr (Some s) e = Inr ?t"
    using e ConnectionPrepared a gid g(1) fresh deadline_after(1,2)[OF m c a(6)]
    by (simp add: reduceAdminAuthority_def Let_def delegate_event_def reduce_connection_prepared_def truthy_def)
  moreover have "account_ok cr ?t"
    by (rule connections_ok[OF ok refl]) (use a(2) g in \<open>simp add: grant_active_def\<close>)
  ultimately show ?thesis by (intro exI[of _ ?t]) (simp add: ConnectionPrepared routine_of_def)
next
  case (ConnectionCancelled i x reason)
  with fit obtain k a where a: "obj_get (obj_or_empty (aa_connections s)) k = Some a" "at_attempt_id a = i"
    "at_parent_admin_grant_id a = ag_grant_id g" by auto
  have k: "k = i" using account_okD(1)[OF ok] a(1,2) by (auto simp: rows_keyed_def dest: keyed_get)
  let ?a = "a\<lparr>at_state := AttemptCancelled,
    at_cancelled_at := (case at_cancelled_at a of None \<Rightarrow> Some (ae_occurred_at e) | t \<Rightarrow> t),
    at_reason_code := (case at_reason_code a of None \<Rightarrow> Some reason | t \<Rightarrow> t)\<rparr>"
  let ?t = "s\<lparr>aa_connections := Some (obj_put (obj_or_empty (aa_connections s)) (at_attempt_id a) ?a)\<rparr>"
  have "reduceAdminAuthority cr (Some s) e = Inr ?t"
    using e ConnectionCancelled a k
    by (simp add: reduceAdminAuthority_def Let_def delegate_event_def reduce_connection_cancelled_def)
  moreover have "account_ok cr ?t" by (rule connections_ok[OF ok]) simp_all
  ultimately show ?thesis by (intro exI[of _ ?t]) (simp add: ConnectionCancelled routine_of_def)
qed (use fit in simp_all)

end
