(* ===== verification/AdminRoutineRuns.thy ===== *)
theory AdminRoutineRuns
  imports AdminRoutineSteps
begin

text \<open>
  An account under both decisions: the turns of the person and the runtime (\<open>decideAdminAuthority\<close>) and of
  the delegate (\<open>decideAdminRoutine\<close>) on one log. Every turn folds and keeps the invariant
  (\<open>delegation_core\<close>); what a turn spends and counts.
\<close>

section \<open>One routine decision\<close>

lemma decision_grant:
  assumes ok: "account_ok cr s" and gate: "routine_gate cr command s ctx = Inr (g, sp)"
  shows "rq_grant_id command = ag_grant_id g" "obj_get (aa_grants s) (ag_grant_id g) = Some g" "ag_grant_id g \<noteq> []"
    "audited_grant command s ctx = Some g" "command_ok command"
proof -
  note gg = gate_grant[OF gate]
  show key: "rq_grant_id command = ag_grant_id g" using keyed_grant[OF ok gg(1)] by simp
  show here: "obj_get (aa_grants s) (ag_grant_id g) = Some g" using gg(1) key by simp
  show c: "command_ok command" using gg(7) parse_typed by blast
  then show "ag_grant_id g \<noteq> []" using key by (auto simp: command_ok_def ADMIN_UUID_RE_def)
  show "audited_grant command s ctx = Some g"
    using gg(3) here by (auto simp: bound_to_def audited_grant_def split: admin_actor.split_asm)
qed

definition decided_account_events :: "crypto \<Rightarrow> routine_command \<Rightarrow> admin_account \<Rightarrow> admin_routine_ctx \<Rightarrow> admin_event list" where
  "decided_account_events cr command s ctx = (case obj_get (aa_grants s) (rq_grant_id command) of
     None \<Rightarrow> []
   | Some g \<Rightarrow> fst (number_emissions command s ctx (audited_grant command s ctx) g 0 0 0
       (oc_emissions (routine_outcome cr command s ctx))))"

lemma refused_emissions: "routine_gate cr command s ctx = Inl r \<Longrightarrow> routine_outcome cr command s ctx = refusal r"
  by (simp add: routine_outcome_def)

lemma decided_account_bodies:
  "map ae_body (decided_account_events cr command s ctx) = account_bodies (oc_emissions (routine_outcome cr command s ctx))"
  "list_all (delegate_event ctx (audited_grant command s ctx)) (decided_account_events cr command s ctx)"
proof -
  have none: "oc_emissions (routine_outcome cr command s ctx) = []" if "obj_get (aa_grants s) (rq_grant_id command) = None"
  proof (cases "routine_gate cr command s ctx")
    case (Inr x)
    with that gate_grant(1)[of cr command s ctx "fst x" "snd x"] show ?thesis by simp
  qed (simp add: refused_emissions)
  then show "map ae_body (decided_account_events cr command s ctx) = account_bodies (oc_emissions (routine_outcome cr command s ctx))"
    "list_all (delegate_event ctx (audited_grant command s ctx)) (decided_account_events cr command s ctx)"
    by (auto simp: decided_account_events_def number_emissions_account split: option.split)
qed

lemma routine_shape_of:
  "\<exists>e i related. rd_events (decideAdminRoutine cr command s ctx) = decided_account_events cr command s ctx @ [e] \<and>
     delegate_event ctx (audited_grant command s ctx) e \<and> related = map ae_event_id (decided_account_events cr command s ctx) @
       map ev_event_id (rd_workspace_events (decideAdminRoutine cr command s ctx)) \<and>
     ae_body e = ActionRecorded (routine_audit command s ctx (routine_outcome cr command s ctx) i related)"
proof (cases "obj_get (aa_grants s) (rq_grant_id command)")
  case None
  then show ?thesis
    by (simp add: decideAdminRoutine_def routine_finish_def Let_def decided_account_events_def) blast
next
  case (Some g)
  then show ?thesis
    by (simp add: decideAdminRoutine_def routine_finish_def Let_def decided_account_events_def case_prod_beta) blast
qed

lemma routine_decision_reason [simp]:
  "rd_reason (decideAdminRoutine cr command s ctx) = oc_reason (routine_outcome cr command s ctx)"
  "rd_ok (decideAdminRoutine cr command s ctx) \<longleftrightarrow> oc_reason (routine_outcome cr command s ctx) = None"
  by (simp_all add: decideAdminRoutine_def routine_finish_def Let_def case_prod_beta)

text \<open>What a decision adds to the counters of its grant.\<close>

definition spends :: "outcome \<Rightarrow> routine_spend \<Rightarrow> routine_spend" where
  "spends oc sp = (case account_bodies (oc_emissions oc) of [RoutineEvent ty _] \<Rightarrow> spend_step ty sp | _ \<Rightarrow> sp)"

definition fresh_attempt :: "admin_account \<Rightarrow> admin_routine_ctx \<Rightarrow> bool" where
  "fresh_attempt s ctx \<longleftrightarrow> obj_get (obj_or_empty (aa_connections s)) (rx_nextResourceId ctx 0) = None"

lemma decided_step:
  assumes ok: "account_ok cr s" and c: "clock_ok ctx" and fresh: "fresh_attempt s ctx"
  shows "\<exists>t. fold_events (reduceAdminAuthority cr) (Some s) (decided_account_events cr command s ctx) = Inr (Some t) \<and>
    account_ok cr t \<and> aa_grants t = aa_grants s \<and> aa_rate_buckets t = aa_rate_buckets s \<and>
    (rt_spend (routine_of t) = rt_spend (routine_of s) \<or>
     (\<exists>g sp ty. routine_gate cr command s ctx = Inr (g, sp) \<and> spend_room g sp ty \<and>
        rt_spend (routine_of t) = obj_put (rt_spend (routine_of s)) (ag_grant_id g) (spend_step ty sp)))"
proof (cases "routine_gate cr command s ctx")
  case (Inl r)
  then have "decided_account_events cr command s ctx = []"
    using decided_account_bodies(1)[of cr command s ctx] by (simp add: refused_emissions)
  then show ?thesis using ok by simp
next
  case (Inr x)
  obtain g sp where x: "x = (g, sp)" by (cases x)
  note gate = Inr[unfolded x]
  note gg = gate_grant[OF gate] and dg = decision_grant[OF ok gate]
  have "routine_outcome cr command s ctx = routine_branch command s ctx g sp" by (simp add: routine_outcome_def gate)
  with branch_fit[of command s ctx g sp] dg(5) have "one_fit s ctx g sp (routine_outcome cr command s ctx)"
    by (simp add: command_ok_def)
  then consider "decided_account_events cr command s ctx = []"
    | e b where "decided_account_events cr command s ctx = [e]" "ae_body e = b" "routine_fits s ctx g sp b"
    using decided_account_bodies(1)[of cr command s ctx] by (auto simp: one_fit_def)
  then show ?thesis
  proof cases
    case 1
    then show ?thesis using ok by simp
  next
    case (2 e b)
    have e: "delegate_event ctx (Some g) e" using decided_account_bodies(2)[of ctx command s cr] 2(1) dg(4) by simp
    from account_step[OF ok dg(2) gg(2,5) counters_integral[OF gg(6)] 2(3) dg(3) gg(4) c fresh[unfolded fresh_attempt_def] e 2(2)]
    obtain t where t: "reduceAdminAuthority cr (Some s) e = Inr t" "account_ok cr t" "aa_grants t = aa_grants s"
      "aa_rate_buckets t = aa_rate_buckets s" and sp': "rt_spend (routine_of t) = (case b of RoutineEvent ty p \<Rightarrow>
        obj_put (rt_spend (routine_of s)) (ag_grant_id g) (spend_step ty sp) | _ \<Rightarrow> rt_spend (routine_of s))" by blast
    have "rt_spend (routine_of t) = rt_spend (routine_of s) \<or> (\<exists>ty. spend_room g sp ty \<and>
        rt_spend (routine_of t) = obj_put (rt_spend (routine_of s)) (ag_grant_id g) (spend_step ty sp))"
      using sp' 2(3) by (cases b) auto
    with t 2(1) gate show ?thesis by auto
  qed
qed

lemma routine_projects:
  assumes "account_ok cr s" and "clock_ok ctx" and "fresh_attempt s ctx"
  shows "\<exists>t. fold_events (reduceAdminAuthority cr) (Some s) (rd_events (decideAdminRoutine cr command s ctx)) = Inr (Some t) \<and>
    account_ok cr t \<and> aa_grants t = aa_grants s \<and>
    (rt_spend (routine_of t) = rt_spend (routine_of s) \<or>
     (\<exists>g sp ty. routine_gate cr command s ctx = Inr (g, sp) \<and> spend_room g sp ty \<and>
        rt_spend (routine_of t) = obj_put (rt_spend (routine_of s)) (ag_grant_id g) (spend_step ty sp))) \<and>
    (\<forall>key. attempts_at t key (hour_of (ac_now ctx)) =
      attempts_at s key (hour_of (ac_now ctx)) + (if key \<in> rch_key ` set (routine_charges command s ctx) then 1 else 0))"
proof -
  from decided_step[OF assms, of command] obtain u where
    u: "fold_events (reduceAdminAuthority cr) (Some s) (decided_account_events cr command s ctx) = Inr (Some u)"
      "account_ok cr u" "aa_grants u = aa_grants s" "aa_rate_buckets u = aa_rate_buckets s"
    and sp: "rt_spend (routine_of u) = rt_spend (routine_of s) \<or>
     (\<exists>g sp ty. routine_gate cr command s ctx = Inr (g, sp) \<and> spend_room g sp ty \<and>
        rt_spend (routine_of u) = obj_put (rt_spend (routine_of s)) (ag_grant_id g) (spend_step ty sp))" by blast
  from routine_shape_of[of cr command s ctx] obtain e i q where
    e: "rd_events (decideAdminRoutine cr command s ctx) = decided_account_events cr command s ctx @ [e]"
      "delegate_event ctx (audited_grant command s ctx) e"
      "ae_body e = ActionRecorded (routine_audit command s ctx (routine_outcome cr command s ctx) i q)" by blast
  let ?cs = "routine_charges command s ctx"
  let ?t = "u\<lparr>aa_rate_buckets := foldl (\<lambda>rates b. obj_put rates (ab_key b)
      \<lparr>rb_hour_start = ab_hour_start b, rb_attempts = ab_attempts b\<rparr>) (aa_rate_buckets s) (audit_buckets ?cs)\<rparr>"
  have red: "reduceAdminAuthority cr (Some u) e = Inr ?t"
    using e(2,3) u(4) by (simp add: reduceAdminAuthority_def delegate_event_def Let_def routine_audit_def audit_buckets_def)
  have "rch_attempts b = attempts_at s (rch_key b) (hour_of (ac_now ctx)) + 1 \<and> rch_hour_start b = hour_of (ac_now ctx)"
    if "b \<in> set ?cs" for b
    using that by (auto simp: routine_charges_def charge_attempts split: option.split_asm)
  then have counts: "attempts_at ?t key (hour_of (ac_now ctx)) =
      attempts_at s key (hour_of (ac_now ctx)) + (if key \<in> rch_key ` set ?cs then 1 else 0)" for key
    by (rule charges_counted) simp_all
  have "account_ok cr ?t" by (rule account_ok_frame[OF u(2)]) simp_all
  moreover have "routine_of ?t = routine_of u" by (simp add: routine_of_def)
  ultimately show ?thesis
    using u(1,3) sp counts red by (intro exI[of _ ?t]) (simp add: e(1) fold_events_append)
qed

end
