(* ===== verification/AdminDelegation.thy ===== *)
theory AdminDelegation
  imports AdminRoutineRuns
begin

text \<open>
  Accounts under turns of both kinds. Every turn folds (\<open>delegation_core\<close>); what a run spends stays within
  the limits of each grant, and the accepted commands of one hour within its rates.
\<close>

section \<open>Turns\<close>

datatype delegation_turn =
    AuthorityTurn admin_command admin_ctx "string \<Rightarrow> string" \<comment> \<open>with the session bindings of the adapter\<close>
  | RoutineTurn routine_command admin_routine_ctx

fun turn_events :: "crypto \<Rightarrow> admin_account option \<Rightarrow> delegation_turn \<Rightarrow> admin_event list" where
  "turn_events cr so (AuthorityTurn command ctx b) = ad_events (decideAdminAuthority cr command (with_sessions b (account_of so)) ctx)"
| "turn_events cr so (RoutineTurn command ctx) = rd_events (decideAdminRoutine cr command (account_of so) ctx)"

text \<open>What the transaction promises of its facts.\<close>

fun turn_facts :: "crypto \<Rightarrow> admin_account option \<Rightarrow> delegation_turn \<Rightarrow> bool" where
  "turn_facts cr so (AuthorityTurn command ctx b) \<longleftrightarrow> policy_agrees cr (account_of so) ctx"
| "turn_facts cr so (RoutineTurn command ctx) \<longleftrightarrow> clock_ok ctx \<and> fresh_attempt (account_of so) ctx"

fun turn_hour :: "delegation_turn \<Rightarrow> number" where
  "turn_hour (AuthorityTurn _ ctx _) = hour_of (ac_now ctx)"
| "turn_hour (RoutineTurn _ ctx) = hour_of (ac_now ctx)"

lemma turn_has_events: "turn_events cr so turn \<noteq> []"
proof (cases turn)
  case (AuthorityTurn command ctx b)
  then show ?thesis by (simp add: decision_has_events)
next
  case (RoutineTurn command ctx)
  then show ?thesis using routine_shape_of[of cr command "account_of so" ctx] by auto
qed

text \<open>Grants stay and only narrow; what is spent stays under any bound of its start and of its limits.\<close>

definition keeps_terms :: "admin_account \<Rightarrow> admin_account \<Rightarrow> bool" where
  "keeps_terms s t \<longleftrightarrow>
     (\<forall>i g. obj_get (aa_grants s) i = Some g \<longrightarrow>
        (\<exists>g'. obj_get (aa_grants t) i = Some g' \<and> manifest_narrower g' g) \<and>
        (\<forall>sp b. obj_get (rt_spend (routine_of s)) i = Some sp \<longrightarrow> spend_le sp b \<longrightarrow> spend_le (caps g) b \<longrightarrow>
          (\<exists>sp'. obj_get (rt_spend (routine_of t)) i = Some sp' \<and> spend_le sp' b)))"

lemma keeps_terms_trans:
  assumes "keeps_terms s t" and "keeps_terms t u"
  shows "keeps_terms s u"
  unfolding keeps_terms_def
proof (intro allI impI conjI)
  fix i g assume g: "obj_get (aa_grants s) i = Some g"
  with assms(1) obtain g' where g': "obj_get (aa_grants t) i = Some g'" "manifest_narrower g' g" unfolding keeps_terms_def by blast
  with assms(2) obtain g'' where g'': "obj_get (aa_grants u) i = Some g''" "manifest_narrower g'' g'" unfolding keeps_terms_def by blast
  with narrower_trans[OF g''(2) g'(2)] show "\<exists>g'. obj_get (aa_grants u) i = Some g' \<and> manifest_narrower g' g" by blast
  fix sp b assume sp: "obj_get (rt_spend (routine_of s)) i = Some sp" "spend_le sp b" "spend_le (caps g) b"
  with assms(1) g obtain sp' where "obj_get (rt_spend (routine_of t)) i = Some sp'" "spend_le sp' b"
    unfolding keeps_terms_def by blast
  with assms(2) g'(1) spend_le_trans[OF caps_narrower[OF g'(2)] sp(3)]
  show "\<exists>sp'. obj_get (rt_spend (routine_of u)) i = Some sp' \<and> spend_le sp' b" unfolding keeps_terms_def by blast
qed

lemma reduce_spend:
  assumes "reduceAdminAuthority cr (Some s) e = Inr t" and "\<forall>ty p. ae_body e \<noteq> RoutineEvent ty p"
    and "obj_get (aa_grants s) i \<noteq> None"
  shows "obj_get (rt_spend (routine_of t)) i = obj_get (rt_spend (routine_of s)) i"
proof -
  have ended: "obj_get (rt_spend (routine_of (projectTerminalGrant s j g st x r))) i = obj_get (rt_spend (routine_of s)) i"
    for j g st x r by (simp add: terminal_routine)
  show ?thesis
  proof (cases "ae_body e")
    case (DelegationGranted p)
    with assms show ?thesis
      by (auto simp: reduceAdminAuthority_def Let_def reduce_granted_def consume_consent_def routine_of_def
          split: option.split_asm if_split_asm)
  qed (use assms ended in \<open>auto simp: reduceAdminAuthority_def Let_def reduce_terminal_def reduce_withdrawn_def
      cancelPendingConnections_def reduce_narrowed_def consume_consent_def put_approval_def put_lineage_def
      reduce_connection_prepared_def reduce_connection_cancelled_def routine_of_def
      split: option.split_asm if_split_asm\<close>)
qed

lemma fold_spend:
  assumes "fold_events (reduceAdminAuthority cr) (Some s) es = Inr (Some t)"
    and "\<And>e ty p. e \<in> set es \<Longrightarrow> ae_body e \<noteq> RoutineEvent ty p" and "obj_get (aa_grants s) i = Some g"
  shows "obj_get (rt_spend (routine_of t)) i = obj_get (rt_spend (routine_of s)) i"
  using assms
proof (induction es arbitrary: s g)
  case (Cons e es)
  then obtain u where u: "reduceAdminAuthority cr (Some s) e = Inr u"
    "fold_events (reduceAdminAuthority cr) (Some u) es = Inr (Some t)" by (auto simp: bind_result_Inr)
  from step_grant_le[OF u(1) Cons.prems(3)] obtain h where h: "obj_get (aa_grants u) i = Some h" by blast
  have "obj_get (rt_spend (routine_of u)) i = obj_get (rt_spend (routine_of s)) i"
    using reduce_spend[OF u(1), of i] Cons.prems(2,3) by auto
  with Cons.IH[OF u(2) _ h] Cons.prems(2) show ?case by auto
qed simp

lemma authority_no_routine:
  assumes "e \<in> set (ad_events (decideAdminAuthority cr command s ctx))"
  shows "ae_body e \<noteq> RoutineEvent ty p"
  using decision_body[OF assms] verdict_bodies[of "ae_body e" cr command s ctx] grant_bodies[of "ae_body e" cr s ctx]
    narrow_bodies[of "ae_body e" cr s ctx] by fastforce

lemma authority_keeps_terms:
  assumes ok: "account_ok cr s"
    and fold: "fold_events (reduceAdminAuthority cr) (Some s) (ad_events (decideAdminAuthority cr command s ctx)) = Inr (Some t)"
  shows "keeps_terms s t"
  unfolding keeps_terms_def
proof (intro conjI allI impI)
  fix i g assume g: "obj_get (aa_grants s) i = Some g"
  show "\<exists>g'. obj_get (aa_grants t) i = Some g' \<and> manifest_narrower g' g" by (rule decision_narrows[OF ok fold g])
  fix sp b assume "obj_get (rt_spend (routine_of s)) i = Some sp" "spend_le sp b"
  moreover have "obj_get (rt_spend (routine_of t)) i = obj_get (rt_spend (routine_of s)) i"
    by (rule fold_spend[OF fold authority_no_routine g])
  ultimately show "\<exists>sp'. obj_get (rt_spend (routine_of t)) i = Some sp' \<and> spend_le sp' b" by simp
qed

lemma routine_keeps_terms:
  assumes ok: "account_ok cr s" and c: "clock_ok ctx" and fresh: "fresh_attempt s ctx"
    and fold: "fold_events (reduceAdminAuthority cr) (Some s) (rd_events (decideAdminRoutine cr command s ctx)) = Inr (Some t)"
  shows "keeps_terms s t"
proof -
  from routine_projects[OF ok c fresh, of command] fold have t: "aa_grants t = aa_grants s"
    "rt_spend (routine_of t) = rt_spend (routine_of s) \<or>
     (\<exists>g sp ty. routine_gate cr command s ctx = Inr (g, sp) \<and> spend_room g sp ty \<and>
        rt_spend (routine_of t) = obj_put (rt_spend (routine_of s)) (ag_grant_id g) (spend_step ty sp))"
    by auto
  have spent: "\<exists>sp'. obj_get (rt_spend (routine_of t)) i = Some sp' \<and> spend_le sp' b"
    if i: "obj_get (aa_grants s) i = Some g" "obj_get (rt_spend (routine_of s)) i = Some sp" "spend_le sp b" "spend_le (caps g) b"
    for i g sp b
    using t(2)
  proof
    assume "\<exists>g sp ty. routine_gate cr command s ctx = Inr (g, sp) \<and> spend_room g sp ty \<and>
        rt_spend (routine_of t) = obj_put (rt_spend (routine_of s)) (ag_grant_id g) (spend_step ty sp)"
    then obtain g' sp' ty where x: "routine_gate cr command s ctx = Inr (g', sp')" "spend_room g' sp' ty"
      "rt_spend (routine_of t) = obj_put (rt_spend (routine_of s)) (ag_grant_id g') (spend_step ty sp')" by blast
    note gg = gate_grant[OF x(1)] and dg = decision_grant[OF ok x(1)]
    show ?thesis
    proof (cases "i = ag_grant_id g'")
      case True
      with i(1,2) dg(2) gg(5) have same: "g' = g" "sp' = sp" by auto
      have "limits_ok g" using gg(4) same by (simp add: manifest_ok_def)
      with spend_step_le[OF counters_integral[OF gg(6)], of g' ty b] x(2,3) i(3,4) same True show ?thesis by simp
    qed (use x(3) i in simp)
  qed (use i in auto)
  have same: "\<exists>g'. obj_get (aa_grants t) i = Some g' \<and> manifest_narrower g' g" if "obj_get (aa_grants s) i = Some g" for i g
    using that t(1) by (simp add: narrower_refl same_manifest_def)
  show ?thesis unfolding keeps_terms_def using spent same by blast
qed

section \<open>The core of both decisions\<close>

lemma turn_projects:
  assumes ok: "account_ok cr (account_of so)" and facts: "turn_facts cr so turn"
  shows "\<exists>t. project_account cr so (turn_events cr so turn) = Inr (Some t) \<and> account_ok cr t \<and>
    keeps_terms (account_of so) t \<and> (\<forall>key. attempts_at (account_of so) key (turn_hour turn) \<le> attempts_at t key (turn_hour turn))"
proof -
  have fold: "fold_events (reduceAdminAuthority cr) so (turn_events cr so turn) =
      fold_events (reduceAdminAuthority cr) (Some (account_of so)) (turn_events cr so turn)"
    by (rule fold_account_of[OF turn_has_events])
  have lift: "?thesis" if v: "fold_events (reduceAdminAuthority cr) (Some (account_of so)) (turn_events cr so turn) = Inr (Some v)"
    "account_ok cr v" "keeps_terms (account_of so) v"
    "\<And>key. attempts_at (account_of so) key (turn_hour turn) \<le> attempts_at v key (turn_hour turn)" for v
    using v by (intro exI[of _ "stored v"])
      (simp add: project_account_def fold keeps_terms_def routine_of_def attempts_at_def)
  show ?thesis
  proof (cases turn)
    case (RoutineTurn command ctx)
    with facts have c: "clock_ok ctx" "fresh_attempt (account_of so) ctx" by simp_all
    from routine_projects[OF ok c, of command] obtain v where
      v: "fold_events (reduceAdminAuthority cr) (Some (account_of so)) (rd_events (decideAdminRoutine cr command (account_of so) ctx)) =
        Inr (Some v)" "account_ok cr v" "\<forall>key. attempts_at v key (hour_of (ac_now ctx)) =
        attempts_at (account_of so) key (hour_of (ac_now ctx)) +
        (if key \<in> rch_key ` set (routine_charges command (account_of so) ctx) then 1 else 0)" by blast
    show ?thesis
      by (rule lift[of v]) (use v routine_keeps_terms[OF ok c v(1)] RoutineTurn in simp_all)
  next
    case (AuthorityTurn command ctx b)
    let ?s = "with_sessions b (account_of so)"
    from authority_projects[of cr ?s ctx command] ok facts AuthorityTurn obtain w where
      w: "fold_events (reduceAdminAuthority cr) (Some ?s) (ad_events (decideAdminAuthority cr command ?s ctx)) = Inr (Some w)"
      "account_ok cr w" by auto
    from fold_stored[OF w(1), of "account_of so"] obtain v where
      v: "fold_events (reduceAdminAuthority cr) (Some (account_of so)) (ad_events (decideAdminAuthority cr command ?s ctx)) =
        Inr (Some v)" "stored v = stored w" by auto
    have same: "aa_grants v = aa_grants w" "routine_of v = routine_of w" "aa_rate_buckets v = aa_rate_buckets w"
      using v(2) stored_simps by (metis, metis routine_of_def stored_simps(5), metis stored_simps(3))
    have rs: "routine_of ?s = routine_of (account_of so)" by (simp add: routine_of_def)
    have "keeps_terms (account_of so) v"
      using authority_keeps_terms[OF _ w(1)] ok rs by (simp add: keeps_terms_def same)
    moreover have "attempts_at (account_of so) key (hour_of (ac_now ctx)) \<le> attempts_at v key (hour_of (ac_now ctx))" for key
      using decision_counts[OF w(1), of key] by (simp add: attempts_at_def same)
    moreover have "account_ok cr v" using w(2) v(2) by (metis account_ok_stored)
    ultimately show ?thesis using v(1) AuthorityTurn by (intro lift[of v]) simp_all
  qed
qed

interpretation delegation_core: decision_core "\<lambda>so turn (_ :: unit). Inr (turn_events cr so turn) :: unit + admin_event list"
  id "project_account cr" "\<lambda>so turn _. turn_facts cr so turn" "account_ok cr" for cr
proof
  fix so :: "admin_account option" and turn :: delegation_turn and x :: unit and d
  assume "Inr (turn_events cr so turn) = (Inr d :: unit + admin_event list)" and f: "turn_facts cr so turn" and ok: "opt_all (account_ok cr) so"
  then have d: "d = turn_events cr so turn" by simp
  from ok have "account_ok cr (account_of so)" by (cases so) (simp_all add: account_of_def account_ok_empty)
  from turn_projects[OF this f] show "\<exists>s'. project_account cr so (id d) = Inr s' \<and> opt_all (account_ok cr) s'"
    by (auto simp: d)
qed

text \<open>The accounts that turns of both kinds reach.\<close>

definition delegated :: "crypto \<Rightarrow> admin_account option \<Rightarrow> bool" where
  "delegated cr = reach (\<lambda>so turn (_ :: unit). Inr (turn_events cr so turn) :: unit + admin_event list) id (project_account cr)
     (\<lambda>so turn _. turn_facts cr so turn)"

lemma delegated_ok: "delegated cr so \<Longrightarrow> account_ok cr (account_of so)"
  using delegation_core.reach_inv[of cr so] by (cases so) (simp_all add: delegated_def account_of_def account_ok_empty)

lemma delegated_turn:
  assumes "delegated cr so" and "turn_facts cr so turn" and "project_account cr so (turn_events cr so turn) = Inr so'"
  shows "delegated cr so'"
  unfolding delegated_def
  by (rule reach.reach_step[of _ _ _ _ so turn "()" "turn_events cr so turn"]) (use assms in \<open>simp_all add: delegated_def\<close>)

text \<open>A run from a stored account.\<close>

inductive delegation_run :: "crypto \<Rightarrow> admin_account option \<Rightarrow> delegation_turn list \<Rightarrow> admin_account option \<Rightarrow> bool" for cr where
  run_none: "delegation_run cr so [] so"
| run_turn: "turn_facts cr so turn \<Longrightarrow> project_account cr so (turn_events cr so turn) = Inr so' \<Longrightarrow>
     delegation_run cr so' turns so'' \<Longrightarrow> delegation_run cr so (turn # turns) so''"

inductive_cases run_ConsE: "delegation_run cr so (turn # turns) so'"
inductive_simps run_Nil_iff: "delegation_run cr so [] so'"

lemma run_keeps_terms:
  assumes "delegation_run cr so turns so'" and "account_ok cr (account_of so)"
  shows "keeps_terms (account_of so) (account_of so') \<and> account_ok cr (account_of so')"
  using assms
proof (induction rule: delegation_run.induct)
  case (run_none so)
  then show ?case by (auto simp: keeps_terms_def narrower_refl same_manifest_def)
next
  case (run_turn so turn so' turns so'')
  from turn_projects[OF run_turn.prems run_turn.hyps(1)] run_turn.hyps(2) obtain t where
    t: "so' = Some t" "account_ok cr t" "keeps_terms (account_of so) t" by auto
  with run_turn.IH keeps_terms_trans[OF t(3)] show ?case by (auto simp: account_of_def)
qed

section \<open>Accepted commands of a run\<close>

fun accepted_in :: "crypto \<Rightarrow> (routine_command \<Rightarrow> bool) \<Rightarrow> admin_account option \<Rightarrow> delegation_turn list \<Rightarrow> nat" where
  "accepted_in cr P so [] = 0"
| "accepted_in cr P so (turn # turns) =
     (case turn of
        RoutineTurn command ctx \<Rightarrow> if rd_ok (decideAdminRoutine cr command (account_of so) ctx) \<and> P command then 1 else 0
      | AuthorityTurn _ _ _ \<Rightarrow> 0) +
     (case project_account cr so (turn_events cr so turn) of Inl _ \<Rightarrow> 0 | Inr so' \<Rightarrow> accepted_in cr P so' turns)"

lemma accepted_gate:
  assumes "rd_ok (decideAdminRoutine cr command s ctx)"
  obtains g sp where "routine_gate cr command s ctx = Inr (g, sp)"
  using assms by (cases "routine_gate cr command s ctx") (auto simp: refused_emissions)

definition routine_charged :: "string \<Rightarrow> number \<Rightarrow> routine_command \<Rightarrow> admin_account \<Rightarrow> admin_routine_ctx \<Rightarrow> bool" where
  "routine_charged key limit command s ctx \<longleftrightarrow>
     (\<exists>b \<in> set (routine_charges command s ctx). rch_key b = key \<and> rch_limit b = limit)"

lemma routine_charge:
  assumes "rd_ok (decideAdminRoutine cr command s ctx)" and "routine_charged key limit command s ctx"
  shows "0 \<le> attempts_at s key (hour_of (ac_now ctx))" "attempts_at s key (hour_of (ac_now ctx)) + 1 \<le> limit"
    "key \<in> rch_key ` set (routine_charges command s ctx)"
proof -
  from accepted_gate[OF assms(1)] obtain g sp where gate: "routine_gate cr command s ctx = Inr (g, sp)" .
  from assms(2) obtain b where b: "b \<in> set (routine_charges command s ctx)" "rch_key b = key" "rch_limit b = limit"
    by (auto simp: routine_charged_def)
  with gate_grant(8)[OF gate] have over: "\<not> over_rate b" by (auto simp: list_ex_iff)
  have n: "rch_attempts b = attempts_at s key (hour_of (ac_now ctx)) + 1"
    using b(1,2) by (auto simp: routine_charges_def charge_attempts split: option.split_asm)
  from over have x: "integral (rch_attempts b)" "0 < rch_attempts b" "rch_attempts b \<le> limit"
    by (auto simp: over_rate_def positive_def b(3))
  with integral_less[OF integral_0 x(1,2)] n show "0 \<le> attempts_at s key (hour_of (ac_now ctx))"
    "attempts_at s key (hour_of (ac_now ctx)) + 1 \<le> limit" by simp_all
  show "key \<in> rch_key ` set (routine_charges command s ctx)" using b(1,2) by blast
qed

lemma accepted_in_bound:
  assumes "delegation_run cr so turns so'" and "account_ok cr (account_of so)" and "\<And>turn. turn \<in> set turns \<Longrightarrow> turn_hour turn = h"
    and "\<And>command s ctx. RoutineTurn command ctx \<in> set turns \<Longrightarrow> P command \<Longrightarrow> account_ok cr s \<Longrightarrow>
      rd_ok (decideAdminRoutine cr command s ctx) \<Longrightarrow> routine_charged key limit command s ctx"
  shows "accepted_in cr P so turns = 0 \<or> attempts_at (account_of so) key h + of_nat (accepted_in cr P so turns) \<le> limit \<and>
    of_nat (accepted_in cr P so turns) \<le> limit"
  using assms
proof (induction rule: delegation_run.induct)
  case (run_turn so turn so' turns so'')
  have h: "turn_hour turn = h" by (rule run_turn.prems(2)) simp
  from turn_projects[OF run_turn.prems(1) run_turn.hyps(1)] run_turn.hyps(2) obtain t where
    t: "so' = Some t" "account_ok cr t" "attempts_at (account_of so) key h \<le> attempts_at t key h" using h by auto
  from run_turn.IH t run_turn.prems(2,3) have IH: "accepted_in cr P so' turns = 0 \<or>
      attempts_at t key h + of_nat (accepted_in cr P so' turns) \<le> limit \<and> of_nat (accepted_in cr P so' turns) \<le> limit"
    by (auto simp: account_of_def)
  show ?case
  proof (cases "\<exists>command ctx. turn = RoutineTurn command ctx \<and> rd_ok (decideAdminRoutine cr command (account_of so) ctx) \<and> P command")
    case False
    with IH t(3) run_turn.hyps(2) show ?thesis by (cases turn) auto
  next
    case True
    then obtain command ctx where c: "turn = RoutineTurn command ctx" "rd_ok (decideAdminRoutine cr command (account_of so) ctx)"
      "P command" by blast
    note charge = routine_charge[OF c(2) run_turn.prems(3)[OF _ c(3) run_turn.prems(1) c(2)]]
    from run_turn.hyps(1) c(1) have f: "clock_ok ctx" "fresh_attempt (account_of so) ctx" by simp_all
    from routine_projects[OF run_turn.prems(1) f, of command] obtain v where
      v: "fold_events (reduceAdminAuthority cr) (Some (account_of so)) (turn_events cr so turn) = Inr (Some v)"
      "attempts_at v key h = attempts_at (account_of so) key h + 1" using charge(3) h c(1) by auto
    have "project_account cr so (turn_events cr so turn) = Inr (Some (stored v))"
      unfolding project_account_def by (subst fold_account_of[OF turn_has_events]) (simp add: v(1))
    with run_turn.hyps(2) t(1) have "t = stored v" by simp
    then have "attempts_at t key h = attempts_at (account_of so) key h + 1" using v(2) by (simp add: attempts_at_def)
    with IH charge h c run_turn.hyps(2) show ?thesis by auto
  qed
qed simp

text \<open>The buckets of an accepted command.\<close>

lemma allowed_counted:
  assumes allowed: "workspace_allowed command (routine_of_account s) ctx g scope" and live: "live_member ctx"
  shows "rq_workspace_id command \<in> set (am_workspace_ids (rate_grant command s ctx g))"
proof -
  let ?created = "Option.bind (aa_routine s) (\<lambda>r. obj_get (rt_created_workspaces r) (rq_workspace_id command))"
  have created: "obj_get (rt_created_workspaces (routine_of_account s)) (rq_workspace_id command) = ?created"
    by (cases "aa_routine s") (simp_all add: routine_of_account_def emptyAdminRoutine_def)
  from allowed have "rq_workspace_id command \<in> set (am_workspace_ids g) \<or>
      (am_workspace_selector g = OwnedAndSelected \<and> owns_now ctx) \<or>
      (case ?created of None \<Rightarrow> False | Some c \<Rightarrow> cw_grant_id c = ag_grant_id g)"
    by (simp add: workspace_allowed_def Let_def created)
  with live show ?thesis by (auto simp: rate_grant_def)
qed

lemma accepted_charges:
  assumes ok: "account_ok cr s" and acc: "rd_ok (decideAdminRoutine cr command s ctx)"
  shows "routine_charged (''mutation:grant:'' @ rq_grant_id command) (rl_lineage ADMIN_MUTATION_RATE_PER_HOUR) command s ctx"
    "routine_charged (''mutation:account:'' @ ac_owner_user_id ctx) (rl_account ADMIN_MUTATION_RATE_PER_HOUR) command s ctx"
    "\<not> is_create_workspace (rq_action command) \<Longrightarrow> routine_charged (''mutation:workspace:'' @ rq_workspace_id command)
      (rl_workspace ADMIN_MUTATION_RATE_PER_HOUR) command s ctx"
proof -
  from accepted_gate[OF acc] obtain g sp where gate: "routine_gate cr command s ctx = Inr (g, sp)" .
  note gg = gate_grant[OF gate] and dg = decision_grant[OF ok gate]
  let ?g = "rate_grant command s ctx g"
  from gg(3) obtain i c sc x where actor: "ac_actor ctx = DelegatedAdmin i (ag_grant_id g) c sc x ADMIN_RESOURCE"
    and owner: "ag_owner_user_id g = ac_owner_user_id ctx"
    by (auto simp: bound_to_def split: admin_actor.split_asm)
  have fields: "ag_grant_id ?g = ag_grant_id g" "ag_owner_user_id ?g = ag_owner_user_id g" by (simp_all add: rate_grant_def)
  have kind: "routine_kind (rq_action command) \<noteq> ''surrender_admin_delegation''" "routine_kind (rq_action command) \<noteq> ''admin_read_metadata''"
    by (cases "rq_action command" rule: routine_kind.cases; simp)+
  have policy: "adminRatePolicy (ac_actor ctx) ?g (routine_kind (rq_action command)) (Some (rq_workspace_id command)) None
      (Some (rq_grant_id command)) =
    [(''mutation:grant:'' @ ag_grant_id g, rl_lineage ADMIN_MUTATION_RATE_PER_HOUR),
     (''mutation:connection:'' @ am_connection_id ?g, rl_connection ADMIN_MUTATION_RATE_PER_HOUR),
     (''mutation:account:'' @ ac_owner_user_id ctx, rl_account ADMIN_MUTATION_RATE_PER_HOUR)] @
    (if rq_workspace_id command \<in> set (am_workspace_ids ?g)
     then [(''mutation:workspace:'' @ rq_workspace_id command, rl_workspace ADMIN_MUTATION_RATE_PER_HOUR)] else [])"
    using kind by (simp add: adminRatePolicy_def rate_actor_exempt_def actor fields owner)
  have charges: "routine_charges command s ctx = map (charge_bucket (aa_rate_buckets s) (ac_now ctx))
    ([(''mutation:grant:'' @ ag_grant_id g, rl_lineage ADMIN_MUTATION_RATE_PER_HOUR),
     (''mutation:connection:'' @ am_connection_id ?g, rl_connection ADMIN_MUTATION_RATE_PER_HOUR),
     (''mutation:account:'' @ ac_owner_user_id ctx, rl_account ADMIN_MUTATION_RATE_PER_HOUR)] @
    (if rq_workspace_id command \<in> set (am_workspace_ids ?g)
     then [(''mutation:workspace:'' @ rq_workspace_id command, rl_workspace ADMIN_MUTATION_RATE_PER_HOUR)] else []))"
    unfolding routine_charges_def dg(4) option.case policy by (rule refl)
  show "routine_charged (''mutation:grant:'' @ rq_grant_id command) (rl_lineage ADMIN_MUTATION_RATE_PER_HOUR) command s ctx"
    "routine_charged (''mutation:account:'' @ ac_owner_user_id ctx) (rl_account ADMIN_MUTATION_RATE_PER_HOUR) command s ctx"
    by (simp_all add: routine_charged_def charges dg(1))
  assume not_create: "\<not> is_create_workspace (rq_action command)"
  from gg(13) not_create obtain scope where "workspace_allowed command (routine_of_account s) ctx g scope" by blast
  moreover from gg(12) not_create have "live_member ctx"
    by (auto simp: current_rights_def live_member_def split: option.split_asm)
  ultimately have "rq_workspace_id command \<in> set (am_workspace_ids ?g)"
    by (rule allowed_counted)
  then show "routine_charged (''mutation:workspace:'' @ rq_workspace_id command) (rl_workspace ADMIN_MUTATION_RATE_PER_HOUR) command s ctx"
    by (simp add: routine_charged_def charges)
qed

section \<open>No turn widens a grant\<close>

lemma routine_no_narrowing:
  assumes "e \<in> set (rd_events (decideAdminRoutine cr command s ctx))"
  shows "ae_body e \<noteq> DelegationNarrowed p"
proof
  assume n: "ae_body e = DelegationNarrowed p"
  with assms routine_shape_of[of cr command s ctx] have "e \<in> set (decided_account_events cr command s ctx)" by auto
  with n have b: "DelegationNarrowed p \<in> set (account_bodies (oc_emissions (routine_outcome cr command s ctx)))"
    using decided_account_bodies(1)[of cr command s ctx] by (metis imageI list.set_map)
  show False
  proof (rule outcome_cases[of cr command s ctx, OF refl])
    fix g sp assume gate: "routine_gate cr command s ctx = Inr (g, sp)"
      and out: "routine_outcome cr command s ctx = routine_branch command s ctx g sp"
    have "command_ok command" using gate_grant(7)[OF gate] parse_typed by blast
    with branch_fit[of command s ctx g sp] b out show False by (auto simp: one_fit_def command_ok_def)
  qed (use b in simp)
qed

text \<open>Whatever the facts of the turn.\<close>

lemma turn_narrows:
  assumes ok: "account_ok cr (account_of so)" and t: "project_account cr so (turn_events cr so turn) = Inr (Some t)"
    and g: "obj_get (aa_grants (account_of so)) i = Some g"
  shows "\<exists>h. obj_get (aa_grants t) i = Some h \<and> manifest_narrower h g \<and> grant_le g h"
proof -
  let ?es = "turn_events cr so turn"
  have "fold_events (reduceAdminAuthority cr) so ?es = fold_events (reduceAdminAuthority cr) (Some (account_of so)) ?es"
    by (rule fold_account_of[OF turn_has_events])
  with t have "map_sum id (map_option stored) (fold_events (reduceAdminAuthority cr) (Some (account_of so)) ?es) = Inr (Some t)"
    by (simp only: project_account_def)
  then obtain v where v: "fold_events (reduceAdminAuthority cr) (Some (account_of so)) ?es = Inr (Some v)" "t = stored v"
    by (cases "fold_events (reduceAdminAuthority cr) (Some (account_of so)) ?es") auto
  from fold_grant_le[OF v(1) g] obtain h where h: "obj_get (aa_grants v) i = Some h" "grant_le g h" by blast
  have "\<exists>k. obj_get (aa_grants v) i = Some k \<and> manifest_narrower k g"
  proof (cases turn)
    case (RoutineTurn command ctx)
    show ?thesis by (rule fold_no_narrowing[OF v(1) _ g]) (use routine_no_narrowing RoutineTurn in auto)
  next
    case (AuthorityTurn command ctx b)
    let ?s = "with_sessions b (account_of so)"
    from fold_stored[OF v(1), of ?s] obtain w where
      w: "fold_events (reduceAdminAuthority cr) (Some ?s) ?es = Inr (Some w)" "stored w = stored v" by auto
    then have "aa_grants w = aa_grants v" by (metis stored_simps(1))
    with decision_narrows[of cr ?s command ctx w i g] w(1) ok g AuthorityTurn show ?thesis by simp
  qed
  with h v(2) show ?thesis by auto
qed

lemma workspace_allowed_narrower:
  assumes "manifest_narrower h g" and "grant_le g h" and "workspace_allowed command r ctx h scope"
  shows "workspace_allowed command r ctx g scope"
  using assms by (auto simp: workspace_allowed_def Let_def manifest_narrower_def grant_le_def split: option.split_asm)

end
