(* ===== verification/AdminCredentials.thy ===== *)
theory AdminCredentials
  imports AdminDelegation
begin

text \<open>
  The credential a routine event hands out: it is the one of the command's seat, after every check of the
  credential branch, and what those checks say of its scopes, its instants and its succession.
\<close>

section \<open>Where a credential comes from\<close>

lemma routine_event_in:
  assumes "e \<in> set (rd_events (decideAdminRoutine cr command s ctx))" and "ae_body e = RoutineEvent ty p"
  obtains g sp where "routine_gate cr command s ctx = Inr (g, sp)"
    "RoutineEvent ty p \<in> set (account_bodies (oc_emissions (routine_branch command s ctx g sp)))"
proof -
  from assms routine_shape_of[of cr command s ctx] have "e \<in> set (decided_account_events cr command s ctx)" by auto
  with assms(2) have b: "RoutineEvent ty p \<in> set (account_bodies (oc_emissions (routine_outcome cr command s ctx)))"
    using decided_account_bodies(1)[of cr command s ctx] by (metis imageI list.set_map)
  show ?thesis
    by (rule outcome_cases[of cr command s ctx, OF refl]) (use b that in auto)
qed

lemma no_credential [simp]: "rp_credential no_routine_fields = None"
  by (simp add: no_routine_fields_def)

lemma issued_is [simp]: "rp_credential (issued_fields ctx g sp c) = Some c"
  by (simp add: issued_fields_def Let_def)

definition credential_from ::
  "routine_command \<Rightarrow> admin_account \<Rightarrow> admin_routine_ctx \<Rightarrow> admin_grant \<Rightarrow> routine_spend \<Rightarrow> admin_routine_type \<Rightarrow>
     routine_credential \<Rightarrow> workspace_principal \<Rightarrow> issue_request \<Rightarrow> bool" where
  "credential_from command s ctx g sp ty c pr q \<longleftrightarrow>
     (\<exists>pid. seat_gate (routine_of_account s) ctx g (rq_action command) pid = Inr pr \<and>
       action_principal (rq_action command) = Some pid) \<and>
     issue_of (rq_action command) = Some q \<and> ty = iq_type q \<and>
     issue_gate command (routine_of_account s) ctx g sp pr q = None \<and> c = issued_credential command ctx g pr q"

lemma issue_credential_in:
  assumes "RoutineEvent ty p \<in> set (account_bodies (oc_emissions (issue_credential command r ctx g sp pr q)))"
    and "rp_credential p = Some c"
  shows "issue_gate command r ctx g sp pr q = None \<and> ty = iq_type q \<and> c = issued_credential command ctx g pr q"
  using assms by (auto simp: issue_credential_def Let_def split: option.split_asm if_split_asm)

lemma stop_no_credential:
  assumes "RoutineEvent ty p \<in> set (account_bodies (oc_emissions oc))"
    and "oc = revoke_whole_seat r ctx pr reason \<or> oc = revoke_seat_credential command ctx pr credential reason"
  shows "rp_credential p = None"
  using assms by (auto simp: revoke_whole_seat_def revoke_seat_credential_def Let_def revoked_seat_fields_def
      split: option.split_asm if_split_asm)

lemma on_seat_credential:
  assumes "RoutineEvent ty p \<in> set (account_bodies (oc_emissions (on_seat command (routine_of_account s) ctx g sp pid)))"
    and c: "rp_credential p = Some c" and pid: "action_principal (rq_action command) = Some pid"
  shows "\<exists>pr q. credential_from command s ctx g sp ty c pr q"
proof -
  from assms(1) obtain pr where pr: "seat_gate (routine_of_account s) ctx g (rq_action command) pid = Inr pr"
    by (cases "seat_gate (routine_of_account s) ctx g (rq_action command) pid") (auto simp: on_seat_def Let_def)
  note event = assms(1)[unfolded on_seat_def Let_def pr sum.case]
  show ?thesis
  proof (cases "issue_of (rq_action command)")
    case None
    with event c pid show ?thesis
      by (cases "rq_action command") (auto dest: stop_no_credential)
  next
    case (Some q)
    with event have "RoutineEvent ty p \<in> set (account_bodies (oc_emissions
        (issue_credential command (routine_of_account s) ctx g sp pr q)))"
      by (cases "rq_action command") auto
    from issue_credential_in[OF this c] pr pid Some show ?thesis unfolding credential_from_def by blast
  qed
qed

lemma branch_credential:
  assumes e: "RoutineEvent ty p \<in> set (account_bodies (oc_emissions (routine_branch command s ctx g sp)))"
    and c: "rp_credential p = Some c"
  shows "\<exists>pr q. credential_from command s ctx g sp ty c pr q"
proof (cases "action_principal (rq_action command)")
  case None
  with e c have False
    by (cases "rq_action command") (auto simp: routine_branch_def Let_def prepare_connection_def cancel_connection_def
        create_workspace_def create_seat_def invite_member_def issue_agent_invitation_def revoke_invitation_def
        invitation_fields_def split: option.split_asm if_split_asm)
  then show ?thesis ..
next
  case (Some pid)
  with e have "RoutineEvent ty p \<in> set (account_bodies (oc_emissions (on_seat command (routine_of_account s) ctx g sp pid)))"
    by (cases "rq_action command") (simp_all add: routine_branch_def Let_def)
  with c Some show ?thesis by (blast intro: on_seat_credential)
qed

section \<open>What the checks say of it\<close>

text \<open>The adapter (\<open>supabase/functions/command/admin-routine.ts\<close>) looks up a target only for a command that names a
  credential.\<close>

definition target_named :: "routine_command \<Rightarrow> admin_routine_ctx \<Rightarrow> bool" where
  "target_named command ctx \<longleftrightarrow>
     (\<forall>q. issue_of (rq_action command) = Some q \<longrightarrow> iq_predecessor q = None \<longrightarrow> rx_target_credential ctx = None)"

lemma issue_gateD:
  assumes "issue_gate command r ctx g sp pr q = None"
  shows "wp_transport pr = LocalTransport" "iq_recipient q \<in> set (tr_recipient_connection_ids (am_target_rules g))"
    "rx_delivery_connection_id ctx = Some (iq_recipient q)"
    "case iq_predecessor q of Some predecessor \<Rightarrow> succession_gate command r ctx g sp pr q predecessor = None
       | None \<Rightarrow> \<not> already_issued r ctx pr"
    "set (requested_scopes ctx q) \<subseteq> set (am_worker_scope_ceiling g) \<inter> set (rx_human_worker_scopes ctx)"
    "positive (Fin (requested_seconds ctx q))" "requested_seconds ctx q \<le> rn_bearer_seconds (am_renewal_limits g)"
    "\<And>c. rx_target_credential ctx = Some c \<Longrightarrow> set (requested_scopes ctx q) \<subseteq> set (rc_worker_scope_names c) \<and>
       requested_seconds ctx q \<le> rc_bearer_seconds c"
    "\<And>h n. iq_predecessor q = None \<Longrightarrow> iq_horizon q = Some h \<Longrightarrow> iq_successors q = Some n \<Longrightarrow>
       Timeboxed \<in> set (rn_grant_kinds (am_renewal_limits g)) \<and> h \<le> rn_horizon_seconds (am_renewal_limits g) \<and>
       n \<le> rn_successors_per_worker (am_renewal_limits g)"
  using assms by (auto simp: issue_gate_def Let_def list_all_iff not_less split: if_split_asm option.split_asm)

lemma succession_gateD:
  assumes "succession_gate command r ctx g sp pr q predecessor = None"
  obtains c where "rx_target_credential ctx = Some c" "predecessor_usable command ctx g pr q predecessor c"
    "renewal_policy_ok c" "rc_kind c \<in> set (rn_grant_kinds (am_renewal_limits g))"
    "rc_kind c = Timeboxed \<Longrightarrow> \<exists>h. rc_horizon_expires_at c = Some h \<and> ac_now ctx < h \<and>
       h - ac_now ctx \<le> rn_horizon_seconds (am_renewal_limits g) * 1000"
    "successors_left g sp c"
  using assms by (auto simp: succession_gate_def Let_def not_le split: if_split_asm option.split_asm)

lemma deadline_le:
  "grant_deadline g t \<le> t" "grant_deadline g t \<le> am_expires_at g" "grant_deadline g t \<le> am_refresh_deadline g"
  by (auto simp: grant_deadline_def min3_def)

lemma issue_expiry_le:
  "issue_expiry ctx g q \<le> grant_deadline g (ac_now ctx + requested_seconds ctx q * 1000)"
  "\<not> is_standing (rx_target_credential ctx) \<Longrightarrow> issue_expiry ctx g q \<le> issue_horizon ctx g q"
  "rx_target_credential ctx = Some c \<Longrightarrow> iq_type q = AdminSeatCredentialReplaced \<Longrightarrow> issue_expiry ctx g q \<le> rc_expires_at c"
  by (auto simp: issue_expiry_def Let_def split: option.split)

text \<open>It is usable now.\<close>

lemma issue_expiry_after:
  assumes m: "manifest_ok cr g (ac_now ctx) False" and gate: "issue_gate command r ctx g sp pr q = None"
    and q: "issue_of act = Some q" and act: "action_ok act" and first: "iq_predecessor q = None \<Longrightarrow> rx_target_credential ctx = None"
  shows "ac_now ctx < issue_expiry ctx g q"
proof -
  note gt = issue_gateD[OF gate]
  from m have t: "ac_now ctx < am_expires_at g" "ac_now ctx < am_refresh_deadline g" by (auto simp: manifest_ok_def times_ok_def)
  have later: "ac_now ctx < grant_deadline g (ac_now ctx + x * 1000)" if "0 < x" for x
    using t that by (simp add: grant_deadline_def min3_def)
  have bearer: "ac_now ctx < grant_deadline g (ac_now ctx + requested_seconds ctx q * 1000)"
    using gt(6) by (intro later) (simp add: positive_def)
  show ?thesis
  proof (cases "iq_predecessor q")
    case None
    with q act obtain h where h: "iq_horizon q = Some h" "0 < h" by (cases act) (auto simp: positive_def)
    have "ac_now ctx < issue_horizon ctx g q" using first[OF None] h later[of h] by (simp add: issue_horizon_def)
    with bearer first[OF None] show ?thesis by (simp add: issue_expiry_def Let_def)
  next
    case (Some predecessor)
    with gt(4) have "succession_gate command r ctx g sp pr q predecessor = None" by simp
    then obtain c where c: "rx_target_credential ctx = Some c" "predecessor_usable command ctx g pr q predecessor c"
      "rc_kind c = Timeboxed \<Longrightarrow> \<exists>h. rc_horizon_expires_at c = Some h \<and> ac_now ctx < h \<and>
         h - ac_now ctx \<le> rn_horizon_seconds (am_renewal_limits g) * 1000" by (rule succession_gateD) blast
    have "rc_kind c = Standing \<or> (\<exists>h. rc_horizon_expires_at c = Some h \<and> ac_now ctx < h)"
      using c(3) by (cases "rc_kind c") auto
    with bearer c(1,2) show ?thesis
      by (auto simp: issue_expiry_def Let_def issue_horizon_def predecessor_usable_def)
  qed
qed


lemma credential_common:
  assumes src: "credential_from command s ctx g sp ty c pr q" and ok: "action_ok (rq_action command)"
    and m: "manifest_ok cr g (ac_now ctx) False" and named: "target_named command ctx"
  shows "pr \<in> set (obj_values (workspace_principals ctx)) \<and> wp_principal_id pr = rc_principal_id c \<and>
    wp_owner_user_id pr = ac_owner_user_id ctx \<and> wp_revoked_at pr = None \<and> wp_transport pr = LocalTransport"
    "rc_recipient_connection_id c \<in> set (tr_recipient_connection_ids (am_target_rules g)) \<and>
    rx_delivery_connection_id ctx = Some (rc_recipient_connection_id c)"
    "set (rc_worker_scope_names c) \<subseteq> set (am_worker_scope_ceiling g) \<inter> set (rx_human_worker_scopes ctx)"
    "ac_now ctx < rc_expires_at c \<and> rc_expires_at c \<le> am_expires_at g \<and> rc_expires_at c \<le> am_refresh_deadline g"
    "rc_expires_at c \<le> ac_now ctx + rn_bearer_seconds (am_renewal_limits g) * 1000"
    "\<forall>h. rc_horizon_expires_at c = Some h \<longrightarrow> rc_expires_at c \<le> h"
proof -
  from src obtain pid where pid: "seat_gate (routine_of_account s) ctx g (rq_action command) pid = Inr pr"
    "action_principal (rq_action command) = Some pid" and q: "issue_of (rq_action command) = Some q"
    and gate: "issue_gate command (routine_of_account s) ctx g sp pr q = None" and c: "c = issued_credential command ctx g pr q"
    by (auto simp: credential_from_def)
  note gt = issue_gateD[OF gate]
  have "\<not> is_revoke_seat (rq_action command)" using q by (cases "rq_action command") auto
  with pid(1) gt(1) show "pr \<in> set (obj_values (workspace_principals ctx)) \<and> wp_principal_id pr = rc_principal_id c \<and>
    wp_owner_user_id pr = ac_owner_user_id ctx \<and> wp_revoked_at pr = None \<and> wp_transport pr = LocalTransport"
    by (auto simp: seat_gate_def c issued_credential_def Let_def dest: obj_get_values split: option.split_asm if_split_asm)
  show "rc_recipient_connection_id c \<in> set (tr_recipient_connection_ids (am_target_rules g)) \<and>
    rx_delivery_connection_id ctx = Some (rc_recipient_connection_id c)"
    "set (rc_worker_scope_names c) \<subseteq> set (am_worker_scope_ceiling g) \<inter> set (rx_human_worker_scopes ctx)"
    using gt(2,3,5) by (simp_all add: c issued_credential_def Let_def)
  have e: "rc_expires_at c = issue_expiry ctx g q" by (simp add: c issued_credential_def Let_def)
  have "ac_now ctx < rc_expires_at c" unfolding e
    by (rule issue_expiry_after[OF m gate q ok]) (use named q in \<open>simp add: target_named_def\<close>)
  with issue_expiry_le(1)[of ctx g q] deadline_le[of g "ac_now ctx + requested_seconds ctx q * 1000"] gt(7)
  show "ac_now ctx < rc_expires_at c \<and> rc_expires_at c \<le> am_expires_at g \<and> rc_expires_at c \<le> am_refresh_deadline g"
    "rc_expires_at c \<le> ac_now ctx + rn_bearer_seconds (am_renewal_limits g) * 1000"
    unfolding e by linarith+
  show "\<forall>h. rc_horizon_expires_at c = Some h \<longrightarrow> rc_expires_at c \<le> h"
    using issue_expiry_le(2)[of ctx g q] by (auto simp: e) (auto simp: c issued_credential_def Let_def split: if_split_asm)
qed

lemma first_credential:
  assumes src: "credential_from command s ctx g sp ty c pr q" and none: "rx_target_credential ctx = None"
  shows "\<not> already_issued (routine_of_account s) ctx pr \<and> rc_parent_admin_grant_id c = Some (ag_grant_id g) \<and>
    rc_kind c = Timeboxed \<and> rc_successors_used c = 0 \<and>
    (\<exists>n. rc_max_successors c = Some n \<and> n \<le> rn_successors_per_worker (am_renewal_limits g))"
proof -
  from src have q: "issue_of (rq_action command) = Some q"
    and gate: "issue_gate command (routine_of_account s) ctx g sp pr q = None" and c: "c = issued_credential command ctx g pr q"
    by (auto simp: credential_from_def)
  note gt = issue_gateD[OF gate]
  have first: "iq_predecessor q = None"
    using gt(4) none by (cases "iq_predecessor q") (auto elim: succession_gateD)
  with q obtain h n where "iq_horizon q = Some h" "iq_successors q = Some n" by (cases "rq_action command") auto
  with gt(4,9) first none show ?thesis by (simp add: c issued_credential_def Let_def)
qed

lemma next_credential:
  assumes src: "credential_from command s ctx g sp ty c pr q" and prior: "rx_target_credential ctx = Some prior"
    and named: "target_named command ctx"
  shows "rc_principal_id c = rc_principal_id prior \<and> rc_worker_lineage_id c = rc_worker_lineage_id prior \<and>
    rc_kind c = rc_kind prior \<and> rc_max_successors c = rc_max_successors prior \<and>
    rc_horizon_expires_at c = rc_horizon_expires_at prior \<and> rc_revoked_at prior = None"
    "set (rc_worker_scope_names c) \<subseteq> set (rc_worker_scope_names prior) \<and> rc_bearer_seconds c \<le> rc_bearer_seconds prior"
    "rc_successors_used c = rc_successors_used prior + 1"
    "rc_successors_used prior < rn_successors_per_worker (am_renewal_limits g) \<and>
    (\<forall>n. rc_max_successors prior = Some n \<longrightarrow> rc_successors_used prior < n)"
    "ty = AdminSeatCredentialReplaced \<Longrightarrow> rc_expires_at c \<le> rc_expires_at prior"
proof -
  from src have q: "issue_of (rq_action command) = Some q" "ty = iq_type q"
    and gate: "issue_gate command (routine_of_account s) ctx g sp pr q = None" and c: "c = issued_credential command ctx g pr q"
    by (auto simp: credential_from_def)
  note gt = issue_gateD[OF gate]
  from named q(1) prior obtain x where x: "iq_predecessor q = Some x" by (cases "iq_predecessor q") (auto simp: target_named_def)
  with gt(4) have "succession_gate command (routine_of_account s) ctx g sp pr q x = None" by simp
  then have p: "predecessor_usable command ctx g pr q x prior" "renewal_policy_ok prior"
    "rc_kind prior = Timeboxed \<Longrightarrow> \<exists>h. rc_horizon_expires_at prior = Some h" "successors_left g sp prior"
    using prior by (auto elim!: succession_gateD)
  have "rc_horizon_expires_at c = rc_horizon_expires_at prior"
    using p(2,3) prior by (cases "rc_kind prior") (auto simp: c issued_credential_def Let_def issue_horizon_def renewal_policy_ok_def)
  with p(1) prior show "rc_principal_id c = rc_principal_id prior \<and> rc_worker_lineage_id c = rc_worker_lineage_id prior \<and>
    rc_kind c = rc_kind prior \<and> rc_max_successors c = rc_max_successors prior \<and>
    rc_horizon_expires_at c = rc_horizon_expires_at prior \<and> rc_revoked_at prior = None"
    by (simp add: c issued_credential_def Let_def predecessor_usable_def)
  show "set (rc_worker_scope_names c) \<subseteq> set (rc_worker_scope_names prior) \<and> rc_bearer_seconds c \<le> rc_bearer_seconds prior"
    "rc_successors_used c = rc_successors_used prior + 1"
    using gt(8)[OF prior] prior by (simp_all add: c issued_credential_def Let_def)
  show "rc_successors_used prior < rn_successors_per_worker (am_renewal_limits g) \<and>
    (\<forall>n. rc_max_successors prior = Some n \<longrightarrow> rc_successors_used prior < n)"
    using p(4) by (auto simp: successors_left_def split: option.split_asm)
  show "rc_expires_at c \<le> rc_expires_at prior" if "ty = AdminSeatCredentialReplaced"
    using issue_expiry_le(3)[OF prior, of q g] that q(2) by (simp add: c issued_credential_def Let_def)
qed

end
