(* ===== verification/AdminRoutineSample.thy ===== *)
theory AdminRoutineSample
  imports AdminCredentials AdminSample WorkspaceProperties
begin

text \<open>
  A small account with a delegate for the instances: a person consents to connections and seat credentials and
  grants them; the delegate prepares a connection and provisions one seat of the person.
\<close>

section \<open>The grant\<close>

definition seat_id :: string where
  "seat_id = read_uuid"

definition seat_manifest :: admin_manifest where
  "seat_manifest = read_manifest\<lparr>
     am_capability_names := [''admin_prepare_connection'', ''admin_provision_seat'', ''admin_read_metadata''],
     am_scope_names := [''admin:read'', ''onboarding:connect'', ''seats:create''], am_workspace_ids := [seat_id],
     am_target_rules := \<lparr>tr_seat_ids = [seat_id], tr_own_seats = False, tr_grant_created_seats = False,
       tr_recipient_user_ids = [seat_id], tr_recipient_connection_ids = [seat_id], tr_transports = [LocalTransport]\<rparr>,
     am_worker_scope_ceiling := [''signal''],
     am_renewal_limits := \<lparr>rn_grant_kinds = [Timeboxed], rn_principal_ids = [], rn_bearer_seconds = 60,
       rn_horizon_seconds = 600, rn_successors_per_worker = 2, rn_successors_per_grant = 4\<rparr>,
     am_issuance_limits := \<lparr>il_workspaces = 0, il_live_seats = 0, il_total_seats = 0, il_invitations = 0,
       il_live_agent_invitations = 0, il_worker_credentials = 3, il_connection_attempts = 2\<rparr>\<rparr>"

lemma sample_uuid [simp]: "ADMIN_UUID_RE seat_id" "seat_id \<noteq> []" "uuids_ok [seat_id]" "uuids_ok []"
proof -
  show u: "ADMIN_UUID_RE seat_id" by code_simp
  show "seat_id \<noteq> []" by code_simp
  show "uuids_ok [seat_id]" "uuids_ok []" using u by (simp_all add: uuids_ok_def)
qed

lemma seat_capability:
  "capability_in 2 ''admin_read_metadata'' = Some (capability_of ''admin:read'' ''Read-only'' True)"
  "capability_in 2 ''admin_provision_seat'' = Some (capability_of ''seats:create'' ''Create seats'' True)"
  "capability_in 2 ''admin_prepare_connection'' = Some (capability_of ''onboarding:connect'' ''Set up connections'' True)"
  by code_simp+

lemma seat_identity: "identity_ok sample_digest seat_manifest i"
proof -
  have "scopes_ok 2 [''admin:read'', ''onboarding:connect'', ''seats:create'']" by code_simp
  then show ?thesis using sample_identity[of i]
    by (simp add: identity_ok_def seat_manifest_def read_manifest_def)
qed

lemma seat_capabilities: "capabilities_ok sample_digest seat_manifest"
proof -
  have "''admin_provision_seat'' < ''admin_read_metadata''" "''admin_prepare_connection'' < ''admin_provision_seat''"
    "''admin_prepare_connection'' < ''admin_read_metadata''" by (simp_all add: less_char_def)
  then show ?thesis by (simp add: capabilities_ok_def seat_manifest_def read_manifest_def seat_capability capability_of_def)
qed

lemma seat_policies: "policies_ok seat_manifest"
proof -
  have "scopes_ok 2 []" "worker_scope_text ''signal''" by code_simp+
  with code_signal(1) show ?thesis by (simp add: policies_ok_def seat_manifest_def read_manifest_def)
qed

lemma seat_limits: "limits_ok seat_manifest"
proof -
  have "limit_ok (of_nat n) c" if "of_nat n \<le> c" "n \<le> 1000" for n c
    using that by (simp add: limit_ok_def max_safe_integer_def integral_Ints)
  from this[of 0] this[of 2] this[of 3] this[of 4] this[of 60] this[of 600] show ?thesis
    by (simp add: limits_ok_def seat_manifest_def read_manifest_def Let_def ADMIN_RENEWAL_CEILINGS_def ADMIN_ISSUANCE_CEILINGS_def)
qed

lemma seat_times: "0 \<le> now \<Longrightarrow> now \<le> 99000 \<Longrightarrow> times_ok seat_manifest now i"
  by (simp add: times_ok_def seat_manifest_def read_manifest_def max_safe_integer_def ADMIN_REFRESH_MAX_LIFETIME_SECONDS_def
      ADMIN_GRANT_TTL_SECONDS_def)

lemma seat_valid: "0 \<le> now \<Longrightarrow> now \<le> 99000 \<Longrightarrow> adminManifestValid sample_digest (manifest_value seat_manifest) now i"
  by (simp add: manifest_valid_iff manifest_ok_def seat_identity seat_capabilities seat_policies seat_limits seat_times)

definition seat_grant :: admin_grant where
  "seat_grant = admin_manifest.extend seat_manifest
     (admin_grant.fields seat_id seat_id ''r'' ''m'' 2 GrantIsActive None None None [])"

lemma seat_grant_fields [simp]:
  "ag_grant_id seat_grant = seat_id" "ag_owner_user_id seat_grant = seat_id" "ag_consent_receipt_id seat_grant = ''r''"
  "ag_state seat_grant = GrantIsActive" "am_connection_id seat_grant = read_uuid" "am_admin_identity_id seat_grant = read_uuid"
  "am_scope_names seat_grant = [''admin:read'', ''onboarding:connect'', ''seats:create'']"
  "am_workspace_ids seat_grant = [seat_id]" "am_expires_at seat_grant = 100000" "am_refresh_deadline seat_grant = 100000"
  "ag_withdrawn_workspace_ids seat_grant = []" "am_registry_version seat_grant = 2" "am_resource seat_grant = ADMIN_RESOURCE"
  "am_target_rules seat_grant = am_target_rules seat_manifest" "am_renewal_limits seat_grant = am_renewal_limits seat_manifest"
  "am_issuance_limits seat_grant = am_issuance_limits seat_manifest" "am_worker_scope_ceiling seat_grant = [''signal'']"
  "am_workspace_selector seat_grant = Selected" "ag_manifest_digest seat_grant = ''m''" "am_availability_digest seat_grant = ''d''"
  "am_capability_names seat_grant = [''admin_prepare_connection'', ''admin_provision_seat'', ''admin_read_metadata'']"
  by (simp_all add: seat_grant_def seat_manifest_def read_manifest_def admin_manifest.extend_def admin_grant.fields_def)

lemma seat_grant_value: "manifest_value (adminGrantManifest seat_grant) = manifest_value seat_manifest"
  by (simp add: manifest_value_def adminGrantManifest_def seat_grant_def admin_manifest.truncate_def admin_manifest.extend_def)

lemma seat_grant_static: "manifest_static sample_digest seat_grant"
  unfolding seat_grant_def same_manifest_static[OF same_manifest_extend]
  by (simp add: manifest_static_def seat_identity seat_capabilities seat_policies seat_limits)

section \<open>The account\<close>

definition seat_consent :: "string \<Rightarrow> number option \<Rightarrow> admin_consent" where
  "seat_consent session consumed = \<lparr>co_consent_receipt_id = ''r'', co_owner_user_id = seat_id, co_session_binding = session,
     co_manifest_digest = ''m'', co_manifest = seat_manifest, co_full_account_selected = False,
     co_expires_at = 1000, co_consumed_at = consumed\<rparr>"

definition seat_account :: admin_account where
  "seat_account = emptyAdminAccount\<lparr>aa_consents := [(''r'', seat_consent [] (Some 2))],
     aa_grants := [(seat_id, seat_grant)],
     aa_routine := Some (emptyAdminRoutine\<lparr>rt_spend := [(seat_id, zero_spend)]\<rparr>)\<rparr>"

lemma seat_account_fields [simp]:
  "aa_grants seat_account = [(seat_id, seat_grant)]" "aa_rate_buckets seat_account = []" "aa_lineages seat_account = []"
  "aa_consents seat_account = [(''r'', seat_consent [] (Some 2))]" "aa_connections seat_account = None"
  "aa_routine seat_account = Some (emptyAdminRoutine\<lparr>rt_spend := [(seat_id, zero_spend)]\<rparr>)"
  "routine_of seat_account = emptyAdminRoutine\<lparr>rt_spend := [(seat_id, zero_spend)]\<rparr>"
  "routine_of_account seat_account = emptyAdminRoutine\<lparr>rt_spend := [(seat_id, zero_spend)]\<rparr>"
  by (simp_all add: seat_account_def emptyAdminAccount_def routine_of_def routine_of_account_def)

lemma seat_account_ok: "account_ok sample_digest seat_account"
proof (rule account_okI)
  show "rows_keyed seat_account"
    by (simp add: rows_keyed_def keyed_def obj_wf_def seat_consent_def)
  show "grants_ok sample_digest seat_account" using seat_grant_static by (auto simp: grants_ok_def seat_consent_def split: if_splits)
  show "lineages_ok seat_account" "attempts_ok seat_account" by (simp_all add: lineages_ok_def attempts_ok_def)
  show "invitations_ok seat_account" by (simp add: invitations_ok_def keyed_def obj_wf_def emptyAdminRoutine_def)
  show "spend_ok seat_account"
    by (simp add: spend_ok_def zero_spend_def ADMIN_ISSUANCE_CEILINGS_def ADMIN_RENEWAL_CEILINGS_def)
qed

section \<open>The delegate\<close>

abbreviation seat_delegate :: admin_actor where
  "seat_delegate \<equiv> DelegatedAdmin read_uuid seat_id read_uuid [''admin:read'', ''onboarding:connect'', ''seats:create''] 90000 ADMIN_RESOURCE"

definition seat_workspace :: "admin_routine workspace_state" where
  "seat_workspace = \<lparr>ws_admin_routine = None,
     ws_workspace = \<lparr>wr_workspace_id = seat_id, wr_name = lit ''w'', wr_created_by = seat_id, wr_created_at = 0, wr_archived_at = None\<rparr>,
     ws_members = [(seat_id, \<lparr>wm_user_id = seat_id, wm_role = RoleOwner, wm_invited_by = None, wm_joined_at = 0, wm_revoked_at = None\<rparr>)],
     ws_invitations = [],
     ws_principals = [(seat_id, \<lparr>wp_principal_id = seat_id, wp_owner_user_id = seat_id, wp_name = lit ''p'', wp_model = None,
       wp_transport = LocalTransport, wp_turn_only = False, wp_created_at = 0, wp_revoked_at = None\<rparr>)],
     ws_tokens = [], ws_owners_count = 1\<rparr>"

definition seat_ctx :: admin_routine_ctx where
  "seat_ctx = admin_ctx.extend ((sample_admin_ctx seat_delegate 3)\<lparr>ac_owner_user_id := seat_id\<rparr>)
     (admin_routine_ctx.fields (Some seat_workspace) seat_id 7 (Fin 0) (Fin 0) (Fin 0) (Fin 0) (Fin 0) (Fin 0) (Fin 0) (Fin 0)
       [''signal''] True True (Some seat_id) None [] (\<lambda>n. replicate (Suc n) CHR ''n''))"

lemma seat_ctx_fields [simp]:
  "ac_actor seat_ctx = seat_delegate" "ac_owner_user_id seat_ctx = seat_id" "ac_now seat_ctx = 3"
  "rx_workspace seat_ctx = Some seat_workspace" "rx_target_credential seat_ctx = None" "rx_human_worker_scopes seat_ctx = [''signal'']"
  "rx_delivery_connection_id seat_ctx = Some seat_id" "rx_recipient_exists seat_ctx" "rx_nextResourceId seat_ctx 0 = ''n''"
  by (simp_all add: seat_ctx_def sample_admin_ctx_def admin_ctx.extend_def admin_routine_ctx.fields_def)

definition seat_prepare :: routine_command where
  "seat_prepare = \<lparr>rq_grant_id = seat_id, rq_workspace_id = seat_id,
     rq_action = PrepareConnection seat_id seat_id seat_id ''n'' LocalTransport 60\<rparr>"

definition seat_provision :: routine_command where
  "seat_provision = \<lparr>rq_grant_id = seat_id, rq_workspace_id = seat_id,
     rq_action = ProvisionSeat seat_id seat_id [''signal''] 60 600 2\<rparr>"

lemma seat_facts: "clock_ok seat_ctx" "fresh_attempt seat_account seat_ctx" "hour_of (ac_now seat_ctx) = 0"
  by (simp_all add: clock_ok_def fresh_attempt_def integral_Ints)

lemma seat_charges:
  assumes "rq_grant_id command = seat_id" and "rq_workspace_id command = seat_id"
  shows "\<not> list_ex over_rate (routine_charges command seat_account seat_ctx)"
proof -
  have "routine_kind (rq_action command) \<noteq> ''surrender_admin_delegation''" "routine_kind (rq_action command) \<noteq> ''admin_read_metadata''"
    by (cases "rq_action command" rule: routine_kind.cases; simp)+
  then show ?thesis
    by (simp add: routine_charges_def audited_grant_def rate_grant_def adminRatePolicy_def rate_actor_exempt_def
        charge_bucket_def over_rate_def positive_def max_safe_integer_def ADMIN_MUTATION_RATE_PER_HOUR_def assms)
qed

lemma seat_gate_open:
  assumes c: "command_ok command" "rq_grant_id command = seat_id" "rq_workspace_id command = seat_id"
    and kind: "capability_in 2 (routine_kind (rq_action command)) = Some (capability_of scope label True)" "scope \<noteq> []"
      "routine_kind (rq_action command) \<in> set (am_capability_names seat_grant)" "scope \<in> set (am_scope_names seat_grant)"
      "\<not> is_create_workspace (rq_action command)"
  shows "routine_gate sample_digest command seat_account seat_ctx = Inr (seat_grant, zero_spend)"
proof -
  from kind(1) obtain ds where ds: "ADMIN_AVAILABILITY 2 = Some ds"
    "obj_get ds (routine_kind (rq_action command)) = Some (capability_of scope label True)"
    by (auto simp: capability_in_def split: option.split_asm)
  have scope: "kind_scope (routine_kind (rq_action command)) = Some scope"
    by (simp add: kind_scope_def ADMIN_REGISTRY_VERSION_def ds capability_of_def)
  have "Some ''d'' = adminAvailabilityDigest sample_digest 2"
    using sample_identity[of True] by (simp add: identity_ok_def read_manifest_def)
  then have cap: "routine_kind (rq_action command) \<in> set (adminEffectiveCapabilities sample_digest seat_grant
      [''admin:read'', ''onboarding:connect'', ''seats:create''])"
    unfolding effective_iff using ds kind(3,4) by (auto simp: ADMIN_REGISTRY_VERSION_def capability_of_def)
  have "parseAdminRoutineCommand sample_digest (routine_value command) \<noteq> None" using c(1) parse_typed by blast
  moreover have "workspace_allowed command (routine_of_account seat_account) seat_ctx seat_grant scope"
    by (simp add: workspace_allowed_def c emptyAdminRoutine_def)
  moreover have "current_rights seat_ctx" by (simp add: current_rights_def seat_workspace_def)
  moreover have "counters_ok zero_spend seat_ctx"
    by (simp add: counters_ok_def counter_ok_def zero_spend_def seat_ctx_def admin_ctx.extend_def admin_routine_ctx.fields_def
        max_safe_integer_def)
  moreover have "adminManifestValid sample_digest (manifest_value (adminGrantManifest seat_grant)) 3 False"
    by (simp add: seat_grant_value seat_valid)
  moreover have "bound_to command seat_ctx seat_grant" by (simp add: bound_to_def)
  ultimately show ?thesis
    using scope cap seat_charges[OF c(2,3)] kind(2,4,5)
    by (simp add: routine_gate_def Let_def c truthy_def subset_list_def)
qed

lemma small_positive: "0 < n \<Longrightarrow> n \<le> 1000 \<Longrightarrow> positive (Fin (of_nat n))"
  by (simp add: positive_def integral_Ints max_safe_integer_def)

lemma sample_texts: "text_ok 80 ''n''" "text_ok 80 ''signal''" "scope_chars ''signal''"
  by (simp_all add: text_ok_def scope_chars_def trim_def lit_def white_unit_def of_char_def horner_sum_simps)

lemma seat_prepare_gate: "routine_gate sample_digest seat_prepare seat_account seat_ctx = Inr (seat_grant, zero_spend)"
proof (rule seat_gate_open[where scope = "''onboarding:connect''" and label = "''Set up connections''"])
  have "positive (Fin 60)" using small_positive[of 60] by simp
  then show "command_ok seat_prepare" by (simp add: command_ok_def seat_prepare_def sample_texts)
qed (simp_all add: seat_prepare_def seat_capability)

lemma seat_provision_gate: "routine_gate sample_digest seat_provision seat_account seat_ctx = Inr (seat_grant, zero_spend)"
proof (rule seat_gate_open[where scope = "''seats:create''" and label = "''Create seats''"])
  have "positive (Fin 60)" "positive (Fin 600)" "positive (Fin 2)"
    using small_positive[of 60] small_positive[of 600] small_positive[of 2] by simp_all
  then show "command_ok seat_provision" using code_signal(1)
    by (simp add: command_ok_def seat_provision_def scopes_valid_def sample_texts)
qed (simp_all add: seat_provision_def seat_capability)

section \<open>Its turns\<close>

definition seat_person :: "number \<Rightarrow> admin_ctx" where
  "seat_person now = (sample_admin_ctx (HumanActor seat_id ''s'') now)\<lparr>ac_owner_user_id := seat_id\<rparr>"

definition seat_prepared :: admin_account where
  "seat_prepared = emptyAdminAccount\<lparr>aa_consents := [(''r'', seat_consent [] None)]\<rparr>"

lemma seat_person_fields [simp]:
  "ac_actor (seat_person now) = HumanActor seat_id ''s''" "ac_owner_user_id (seat_person now) = seat_id"
  "ac_now (seat_person now) = now" "ac_client_policy (seat_person now) = None" "ac_current_workspace_rights (seat_person now)"
  by (simp_all add: seat_person_def sample_admin_ctx_def)

lemma seat_agrees: "policy_agrees sample_digest s (seat_person now)"
  by (simp add: policy_agrees_def)

lemma seat_mode [simp]: "am_mode seat_manifest = Granular" "am_connection_id seat_manifest = read_uuid"
  by (simp_all add: seat_manifest_def read_manifest_def)

lemma seat_prepare_turn:
  "project_account sample_digest None (turn_events sample_digest None
     (AuthorityTurn (PrepareConsent (seat_consent ''s'' None)) (seat_person 1) b)) = Inr (Some seat_prepared)"
proof -
  have "admin_verdict sample_digest (PrepareConsent (seat_consent ''s'' None)) emptyAdminAccount (seat_person 1) =
      allow [ConsentPrepared ''r'' seat_id seat_manifest ''m'' False 1000]"
    using seat_valid[of 1 True]
    by (simp add: admin_verdict_def verified_replay_def rate_charges_def audit_grant_of_def decide_prepare_consent_def
        seat_consent_def ADMIN_ACCESS_TTL_SECONDS_def emptyAdminAccount_def)
  then show ?thesis
    by (simp add: account_of_def with_sessions_empty decideAdminAuthority_def finish_def Let_def number_from_at
        project_account_def reduceAdminAuthority_def audit_of_def rate_charges_def audit_grant_of_def emptyAdminAccount_def
        stored_def with_sessions_def obj_map_def seat_prepared_def seat_consent_def obj_put_def)
qed

lemma seat_grant_of [simp]:
  "grant_of_payload (granted_payload (seat_person 2) seat_id None (seat_consent ''s'' None)) = seat_grant"
  by (simp add: grant_of_payload_def granted_payload_def seat_grant_def seat_manifest_def read_manifest_def
      admin_manifest.extend_def grant_payload.fields_def admin_manifest.truncate_def admin_grant.fields_def seat_consent_def
      seat_person_def sample_admin_ctx_def)

lemma seat_sessions: "with_sessions (\<lambda>_. ''s'') seat_prepared =
    emptyAdminAccount\<lparr>aa_consents := [(''r'', seat_consent ''s'' None)]\<rparr>"
  by (simp add: with_sessions_def obj_map_def seat_prepared_def seat_consent_def)

lemma seat_grant_verdict:
  "admin_verdict sample_digest (GrantDelegation seat_id ''r'' None) (with_sessions (\<lambda>_. ''s'') seat_prepared) (seat_person 2) =
     \<lparr>vd_reason = None,
       vd_bodies = [DelegationGranted (granted_payload (seat_person 2) seat_id None (seat_consent ''s'' None))],
       vd_grant = Some seat_grant\<rparr>"
  using seat_valid[of 2 True] seat_grant_of unfolding seat_sessions
  by (simp add: admin_verdict_def verified_replay_def rate_charges_def audit_grant_of_def decide_grant_def Let_def
      consent_usable_def emptyAdminAccount_def obj_values_def seat_consent_def)

lemma seat_grant_turn:
  "project_account sample_digest (Some seat_prepared) (turn_events sample_digest (Some seat_prepared)
     (AuthorityTurn (GrantDelegation seat_id ''r'' None) (seat_person 2) (\<lambda>_. ''s''))) = Inr (Some seat_account)"
proof -
  have c: "(seat_consent [] None)\<lparr>co_consumed_at := Some 2\<rparr> = seat_consent [] (Some 2)"
    "(seat_consent b x)\<lparr>co_session_binding := []\<rparr> = seat_consent [] x" "co_consent_receipt_id (seat_consent b x) = ''r''" for b x
    by (simp_all add: seat_consent_def)
  have p: "gp_grant_id (granted_payload (seat_person 2) seat_id None (seat_consent ''s'' None)) = seat_id"
    "gp_consent_receipt_id (granted_payload (seat_person 2) seat_id None (seat_consent ''s'' None)) = ''r''"
    by (simp_all add: granted_payload_def grant_payload.fields_def admin_manifest.extend_def seat_consent_def)
  have fold: "fold_events (reduceAdminAuthority sample_digest) (Some seat_prepared)
     (ad_events (decideAdminAuthority sample_digest (GrantDelegation seat_id ''r'' None) (with_sessions (\<lambda>_. ''s'') seat_prepared)
       (seat_person 2))) = Inr (Some seat_account)"
    unfolding decideAdminAuthority_def seat_grant_verdict unfolding seat_sessions
    by (simp add: finish_def Let_def number_from_at reduceAdminAuthority_def audit_of_def rate_charges_def
        audit_grant_of_def reduce_granted_def consume_consent_def emptyAdminAccount_def seat_prepared_def
        seat_account_def emptyAdminRoutine_def obj_put_def p c)
  have "stored seat_account = seat_account"
    by (simp add: stored_def with_sessions_def obj_map_def seat_account_def c)
  with fold show ?thesis by (simp add: project_account_def account_of_def)
qed

lemma seat_delegated: "delegated sample_digest (Some seat_account)"
proof -
  have "delegated sample_digest None" by (simp add: delegated_def reach_start)
  from delegated_turn[OF this _ seat_prepare_turn] have "delegated sample_digest (Some seat_prepared)" by (simp add: seat_agrees)
  from delegated_turn[OF this _ seat_grant_turn] show ?thesis by (simp add: seat_agrees)
qed

text \<open>What the delegate's two commands do.\<close>

lemma seat_prepare_outcome:
  "\<exists>a. routine_outcome sample_digest seat_prepare seat_account seat_ctx = awaiting [OnAccount (ConnectionPrepared a)] a \<and>
    at_attempt_id a = ''n'' \<and> at_parent_admin_grant_id a = seat_id \<and> at_state a = AwaitingAuthorization"
proof -
  have gate: "routine_outcome sample_digest seat_prepare seat_account seat_ctx =
      routine_branch seat_prepare seat_account seat_ctx seat_grant zero_spend"
    by (simp add: routine_outcome_def seat_prepare_gate)
  show ?thesis unfolding gate
    by (simp add: routine_branch_def prepare_connection_def Let_def seat_prepare_def zero_spend_def
        seat_manifest_def obj_values_def emptyAdminRoutine_def ADMIN_INVITATION_AND_ATTEMPT_TTL_def)
      (intro exI conjI, rule refl, simp_all)
qed

lemma seat_provision_outcome:
  "\<exists>c. oc_reason (routine_outcome sample_digest seat_provision seat_account seat_ctx) = None \<and>
    account_bodies (oc_emissions (routine_outcome sample_digest seat_provision seat_account seat_ctx)) =
      [RoutineEvent AdminSeatProvisioned (issued_fields seat_ctx seat_grant zero_spend c)] \<and>
    rc_principal_id c = seat_id \<and> rc_worker_scope_names c = [''signal'']"
proof -
  have gate: "routine_outcome sample_digest seat_provision seat_account seat_ctx =
      routine_branch seat_provision seat_account seat_ctx seat_grant zero_spend"
    by (simp add: routine_outcome_def seat_provision_gate)
  show ?thesis unfolding gate using small_positive[of 60]
    by (simp add: routine_branch_def on_seat_def Let_def seat_provision_def seat_gate_def
        workspace_principals_def seat_workspace_def seat_manifest_def issue_credential_def issue_gate_def already_issued_def
        obj_values_def emptyAdminRoutine_def zero_spend_def requested_scopes_def requested_seconds_def issued_credential_def)
      (intro exI conjI, rule refl, simp_all)
qed

text \<open>The account after the delegate prepared its connection has it there, awaiting its authorisation.\<close>

lemma seat_prepare_lands:
  assumes "project_account sample_digest (Some seat_account)
    (turn_events sample_digest (Some seat_account) (RoutineTurn seat_prepare seat_ctx)) = Inr (Some t)"
  shows "\<exists>a. obj_get (obj_or_empty (aa_connections t)) ''n'' = Some a \<and> at_state a = AwaitingAuthorization"
proof -
  from seat_prepare_outcome obtain a where a: "at_attempt_id a = ''n''" "at_state a = AwaitingAuthorization"
    "account_bodies (oc_emissions (routine_outcome sample_digest seat_prepare seat_account seat_ctx)) = [ConnectionPrepared a]"
    by auto
  from decided_account_bodies(1)[of sample_digest seat_prepare seat_account seat_ctx] a(3) obtain d where
    d: "decided_account_events sample_digest seat_prepare seat_account seat_ctx = [d]" "ae_body d = ConnectionPrepared a"
    by (auto simp: map_eq_Cons_conv)
  from routine_shape_of[of sample_digest seat_prepare seat_account seat_ctx] d(1) obtain e audit where
    e: "rd_events (decideAdminRoutine sample_digest seat_prepare seat_account seat_ctx) = [d, e]" "ae_body e = ActionRecorded audit"
    by auto
  from assms obtain v where fold: "fold_events (reduceAdminAuthority sample_digest) (Some seat_account) [d, e] = Inr (Some v)" "t = stored v"
    by (cases "fold_events (reduceAdminAuthority sample_digest) (Some seat_account) [d, e]")
      (auto simp: project_account_def account_of_def e(1))
  then obtain u where u: "reduceAdminAuthority sample_digest (Some seat_account) d = Inr u"
    and v: "reduceAdminAuthority sample_digest (Some u) e = Inr v" "t = stored v"
    by (auto simp: result_simps)
  have "obj_get (obj_or_empty (aa_connections u)) ''n'' = Some a"
    using u a(1) by (auto simp: reduceAdminAuthority_def d(2) reduce_connection_prepared_def Let_def split: if_split_asm)
  moreover have "aa_connections t = aa_connections u"
    using v by (auto simp: reduceAdminAuthority_def e(2) stored_def with_sessions_def split: if_split_asm)
  ultimately show ?thesis using a(2) by simp
qed

lemma seat_provision_run: "\<exists>t. delegation_run sample_digest (Some seat_account) [RoutineTurn seat_provision seat_ctx] (Some t)"
proof -
  have facts: "turn_facts sample_digest (Some seat_account) (RoutineTurn seat_provision seat_ctx)"
    by (simp add: seat_facts account_of_def)
  have "account_ok sample_digest (account_of (Some seat_account))" by (simp add: account_of_def seat_account_ok)
  from turn_projects[OF this facts] facts show ?thesis by (blast intro: delegation_run.intros)
qed

end
