(* ===== verification/AdminRoutineProperties.thy ===== *)
theory AdminRoutineProperties
  imports AdminRoutineSample
begin

text \<open>
  Properties of what a delegate does on a grant: the account never halts on the log of the person, the
  runtime and the delegate together, the budgets and the hourly rates of a grant hold over every run, every
  accepted command is within the consent, and a worker credential handed out is confined by the grant and by
  the credential it succeeds.
\<close>

section \<open>Helpers\<close>

text \<open>A refusal emits nothing.\<close>

definition quiet_outcome :: "outcome \<Rightarrow> bool" where
  "quiet_outcome oc \<longleftrightarrow> oc_reason oc = None \<or> oc_emissions oc = []"

lemma quiet_outcomes [simp]: "quiet_outcome (refusal r)" "quiet_outcome (success es)" "quiet_outcome (awaiting es a)"
  by (simp_all add: quiet_outcome_def)

lemma quiet_branch: "quiet_outcome (routine_branch command s ctx g sp)"
proof -
  have "quiet_outcome (issue_credential command r ctx g sp p q)" for r p q
    by (simp add: issue_credential_def Let_def split: option.split)
  then have "quiet_outcome (case issue_of act of None \<Rightarrow> refusal x | Some q \<Rightarrow> issue_credential command r ctx g sp p q)"
    for act x r p by (simp split: option.split)
  then have "quiet_outcome (on_seat command r ctx g sp pid)" for r pid
    by (simp add: on_seat_def Let_def revoke_whole_seat_def revoke_seat_credential_def del: issue_of.simps
        split: sum.split routine_action.split option.split)
  then show ?thesis
    by (cases "rq_action command") (simp_all add: routine_branch_def Let_def prepare_connection_def cancel_connection_def
      create_workspace_def create_seat_def invite_member_def issue_agent_invitation_def revoke_invitation_def split: option.split)
qed

lemma refused_emits_nothing:
  assumes "\<not> rd_ok (decideAdminRoutine cr command s ctx)"
  shows "oc_emissions (routine_outcome cr command s ctx) = []"
proof (cases "routine_gate cr command s ctx")
  case (Inr x)
  then have "routine_outcome cr command s ctx = routine_branch command s ctx (fst x) (snd x)"
    by (simp add: routine_outcome_def case_prod_beta)
  with assms quiet_branch[of command s ctx "fst x" "snd x"] show ?thesis by (auto simp: quiet_outcome_def)
qed (simp add: refused_emissions)

section \<open>The log\<close>

text \<open>
  C32. The account never halts on its own log: in every account that turns of the person, the runtime and
  the delegate reach in any order, the events of a further turn, whatever the command and the actor, pass every
  check of the reducer, and the account stored after them is sound: one live grant per connection, every grant
  from a spent consent and under a valid manifest, no live lineage, awaiting connection or open invitation of a
  grant that is over, no counter over its ceiling. The facts of the transaction are those of the database: approvals
  are those the account holds, the clock is a whole number and a new attempt's identifier is new.
\<close>

theorem delegation_log_is_sound:
  assumes "delegated cr so" and "turn_facts cr so turn"
  shows "\<exists>t. project_account cr so (turn_events cr so turn) = Inr (Some t) \<and> delegated cr (Some t) \<and>
    rows_keyed t \<and> grants_ok cr t \<and> lineages_ok t \<and> attempts_ok t \<and> invitations_ok t \<and> spend_ok t"
proof -
  from turn_projects[OF delegated_ok[OF assms(1)] assms(2)] obtain t where
    t: "project_account cr so (turn_events cr so turn) = Inr (Some t)" "account_ok cr t" by blast
  from delegated_turn[OF assms t(1)] t show ?thesis by (auto simp: account_ok_def)
qed

theorem delegation_log_is_sound_witness:
  "\<exists>t. delegated sample_digest (Some t) \<and> attempts_ok t \<and> invitations_ok t \<and>
    (\<exists>a. obj_get (obj_or_empty (aa_connections t)) ''n'' = Some a \<and> at_state a = AwaitingAuthorization)"
proof -
  have "turn_facts sample_digest (Some seat_account) (RoutineTurn seat_prepare seat_ctx)"
    by (simp add: seat_facts account_of_def)
  from delegation_log_is_sound[OF seat_delegated this] seat_prepare_lands show ?thesis by blast
qed



section \<open>Budgets\<close>



text \<open>
  The hourly rates of the delegate hold over every run: however its commands of one hour are ordered,
  repeated and mixed with turns of the person and the runtime, at most 20 commands on one grant, 60 on one account and
  60 on one workspace are accepted.
\<close>

theorem delegated_hour_is_bounded:
  assumes "delegation_run cr so turns so'" and "delegated cr so" and "\<And>turn. turn \<in> set turns \<Longrightarrow> turn_hour turn = h"
    and "\<And>command ctx. RoutineTurn command ctx \<in> set turns \<Longrightarrow> ac_owner_user_id ctx = owner"
  shows "accepted_in cr (\<lambda>command. rq_grant_id command = gid) so turns \<le> 20 \<and> accepted_in cr (\<lambda>_. True) so turns \<le> 60 \<and>
    accepted_in cr (\<lambda>command. rq_workspace_id command = ws \<and> \<not> is_create_workspace (rq_action command)) so turns \<le> 60"
proof -
  note bound = accepted_in_bound[OF assms(1) delegated_ok[OF assms(2)] assms(3)]
  have "accepted_in cr (\<lambda>command. rq_grant_id command = gid) so turns = 0 \<or>
      of_nat (accepted_in cr (\<lambda>command. rq_grant_id command = gid) so turns) \<le> rl_lineage ADMIN_MUTATION_RATE_PER_HOUR"
    using bound[of "\<lambda>command. rq_grant_id command = gid" "''mutation:grant:'' @ gid" "rl_lineage ADMIN_MUTATION_RATE_PER_HOUR"]
      accepted_charges(1) by blast
  moreover have "accepted_in cr (\<lambda>_. True) so turns = 0 \<or>
      of_nat (accepted_in cr (\<lambda>_. True) so turns) \<le> rl_account ADMIN_MUTATION_RATE_PER_HOUR"
    using bound[of "\<lambda>_. True" "''mutation:account:'' @ owner" "rl_account ADMIN_MUTATION_RATE_PER_HOUR"]
      accepted_charges(2) assms(4) by blast
  moreover have "accepted_in cr (\<lambda>command. rq_workspace_id command = ws \<and> \<not> is_create_workspace (rq_action command)) so turns = 0 \<or>
      of_nat (accepted_in cr (\<lambda>command. rq_workspace_id command = ws \<and> \<not> is_create_workspace (rq_action command)) so turns) \<le>
        rl_workspace ADMIN_MUTATION_RATE_PER_HOUR"
    using bound[of "\<lambda>command. rq_workspace_id command = ws \<and> \<not> is_create_workspace (rq_action command)"
        "''mutation:workspace:'' @ ws" "rl_workspace ADMIN_MUTATION_RATE_PER_HOUR"] accepted_charges(3) by blast
  ultimately show ?thesis by (auto simp: ADMIN_MUTATION_RATE_PER_HOUR_def)
qed

theorem delegated_hour_is_bounded_witness:
  "accepted_in sample_digest (\<lambda>command. rq_grant_id command = seat_id) (Some seat_account)
    [RoutineTurn seat_provision seat_ctx] \<in> {1..20}"
proof -
  from seat_provision_run obtain t where t: "delegation_run sample_digest (Some seat_account) [RoutineTurn seat_provision seat_ctx] (Some t)" ..
  have "rd_ok (decideAdminRoutine sample_digest seat_provision seat_account seat_ctx)" "rq_grant_id seat_provision = seat_id"
    using seat_provision_outcome by (auto simp: seat_provision_def)
  with delegated_hour_is_bounded[OF t seat_delegated, of 0 seat_id seat_id seat_id] seat_facts(3) show ?thesis
    by (simp add: account_of_def)
qed

section \<open>Consent\<close>

text \<open>
  C7. A delegate acts within the consent: an accepted command comes from a credential of the very identity,
  grant and connection the person consented to, unexpired, on a live grant of the account under a valid manifest; the
  scope of its kind is one of the grant's and of the credential's, and its kind one the person granted; and outside the
  creation of a workspace the person owns or administers the workspace now and the workspace is one of the grant's,
  not withdrawn. Any other command is refused with nothing but its audit record.
\<close>

theorem delegate_acts_within_consent:
  shows "if rd_ok (decideAdminRoutine cr command s ctx) then
      (\<exists>g connection scopes expires scope. obj_get (aa_grants s) (rq_grant_id command) = Some g \<and>
        ac_actor ctx = DelegatedAdmin (am_admin_identity_id g) (ag_grant_id g) (am_connection_id g) scopes expires ADMIN_RESOURCE \<and>
        ag_owner_user_id g = ac_owner_user_id ctx \<and> ag_state g = GrantIsActive \<and> manifest_ok cr g (ac_now ctx) False \<and>
        ac_now ctx < expires \<and> ac_now ctx < am_expires_at g \<and>
        kind_scope (routine_kind (rq_action command)) = Some scope \<and> scope \<in> set (am_scope_names g) \<and> scope \<in> set scopes \<and>
        routine_kind (rq_action command) \<in> set (am_capability_names g) \<and>
        (is_create_workspace (rq_action command) \<or>
          current_rights ctx \<and> rq_workspace_id command \<notin> set (ag_withdrawn_workspace_ids g) \<and>
          (rq_workspace_id command \<in> set (am_workspace_ids g) \<or> (am_workspace_selector g = OwnedAndSelected \<and> owns_now ctx) \<or>
           (\<exists>c. obj_get (rt_created_workspaces (routine_of s)) (rq_workspace_id command) = Some c \<and>
             cw_grant_id c = ag_grant_id g \<and> scope \<in> set (cw_scope_names c)))))
    else rd_workspace_events (decideAdminRoutine cr command s ctx) = [] \<and>
      (\<exists>e audit. rd_events (decideAdminRoutine cr command s ctx) = [e] \<and> ae_body e = ActionRecorded audit \<and>
        au_outcome audit = ''refused'' \<and> au_reason_code audit = rd_reason (decideAdminRoutine cr command s ctx))"
proof (cases "rd_ok (decideAdminRoutine cr command s ctx)")
  case True
  from accepted_gate[OF True] obtain g sp where gate: "routine_gate cr command s ctx = Inr (g, sp)" .
  note gg = gate_grant[OF gate]
  have r: "routine_of_account s = routine_of s" by (simp add: routine_of_account_def routine_of_def)
  from gg(3) obtain scopes expires where actor: "ac_actor ctx = DelegatedAdmin (am_admin_identity_id g) (ag_grant_id g)
      (am_connection_id g) scopes expires ADMIN_RESOURCE" "ag_owner_user_id g = ac_owner_user_id ctx"
    by (auto simp: bound_to_def split: admin_actor.split_asm)
  from gg(13) obtain scope where scope: "kind_scope (routine_kind (rq_action command)) = Some scope" "scope \<in> set (am_scope_names g)"
    "scope \<in> set scopes" "is_create_workspace (rq_action command) \<or> workspace_allowed command (routine_of s) ctx g scope"
    by (auto simp: actor(1) r)
  have cap: "routine_kind (rq_action command) \<in> set (am_capability_names g)" using gg(11) unfolding effective_iff by blast
  have ws: "is_create_workspace (rq_action command) \<or>
      current_rights ctx \<and> rq_workspace_id command \<notin> set (ag_withdrawn_workspace_ids g) \<and>
      (rq_workspace_id command \<in> set (am_workspace_ids g) \<or> (am_workspace_selector g = OwnedAndSelected \<and> owns_now ctx) \<or>
       (\<exists>c. obj_get (rt_created_workspaces (routine_of s)) (rq_workspace_id command) = Some c \<and>
         cw_grant_id c = ag_grant_id g \<and> scope \<in> set (cw_scope_names c)))"
    using scope(4) gg(12) by (auto simp: workspace_allowed_def Let_def split: option.split_asm)
  have "ac_now ctx < am_expires_at g" using gg(4) by (simp add: manifest_ok_def times_ok_def)
  with True gg(1,2,4,9) actor scope(1-3) cap ws show ?thesis by auto
next
  case False
  note none = refused_emits_nothing[OF False]
  then have "decided_account_events cr command s ctx = []" using decided_account_bodies(1)[of cr command s ctx] by simp
  with routine_shape_of[of cr command s ctx] obtain e i q where e: "rd_events (decideAdminRoutine cr command s ctx) = [e]"
    "ae_body e = ActionRecorded (routine_audit command s ctx (routine_outcome cr command s ctx) i q)" by auto
  have "rd_workspace_events (decideAdminRoutine cr command s ctx) = []"
    by (simp add: decideAdminRoutine_def routine_finish_def Let_def none split: option.split)
  with False e show ?thesis by (auto simp: routine_audit_def Let_def)
qed

theorem delegate_acts_within_consent_witness:
  "\<exists>g. obj_get (aa_grants seat_account) (rq_grant_id seat_provision) = Some g \<and> ag_state g = GrantIsActive \<and>
    current_rights seat_ctx"
proof -
  have ok: "rd_ok (decideAdminRoutine sample_digest seat_provision seat_account seat_ctx)"
    and other: "\<not> is_create_workspace (rq_action seat_provision)"
    using seat_provision_outcome by (auto simp: seat_provision_def)
  show ?thesis
    by (insert delegate_acts_within_consent[of sample_digest seat_provision seat_account seat_ctx, unfolded if_P[OF ok]],
      (erule exE)+, (erule conjE)+, erule disjE, erule notE[OF other], (erule conjE)+, intro exI conjI, assumption+)
qed

section \<open>Credentials\<close>

text \<open>
  C28. A worker credential a delegate hands out is confined: it goes to a live local seat of the person, on a
  connection the grant names and the delegate is on, with scopes under the ceiling of the grant and of the person and off
  the denylist; it is valid now and ends with the grant, with its horizon and after the longest bearer time of the grant. A
  first one is the only one of its seat. A successor keeps lineage, kind, horizon and the limit on successors, has no scope and no
  longer bearer time than its predecessor, counts one more successor, and ends with the one it replaces undelivered. The adapter looks up a predecessor
  (\<open>target_credential\<close>) only for a command that names one, \<open>target_named\<close>.
\<close>

theorem issued_credential_is_confined:
  assumes "e \<in> set (rd_events (decideAdminRoutine cr command s ctx))" and "ae_body e = RoutineEvent ty p"
    and "rp_credential p = Some c" and "target_named command ctx"
  shows "\<exists>g pr. obj_get (aa_grants s) (rq_grant_id command) = Some g \<and> ag_state g = GrantIsActive \<and>
    pr \<in> set (obj_values (workspace_principals ctx)) \<and> wp_principal_id pr = rc_principal_id c \<and>
    wp_owner_user_id pr = ac_owner_user_id ctx \<and> wp_revoked_at pr = None \<and> wp_transport pr = LocalTransport \<and>
    rc_recipient_connection_id c \<in> set (tr_recipient_connection_ids (am_target_rules g)) \<and>
    rx_delivery_connection_id ctx = Some (rc_recipient_connection_id c) \<and>
    set (rc_worker_scope_names c) \<subseteq> set (am_worker_scope_ceiling g) \<inter> set (rx_human_worker_scopes ctx) \<and>
    (\<forall>x \<in> set (rc_worker_scope_names c). \<not> isAgentScopeDenylisted (lit x)) \<and>
    ac_now ctx < rc_expires_at c \<and> rc_expires_at c \<le> am_expires_at g \<and> rc_expires_at c \<le> am_refresh_deadline g \<and>
    rc_expires_at c \<le> ac_now ctx + rn_bearer_seconds (am_renewal_limits g) * 1000 \<and>
    (\<forall>h. rc_horizon_expires_at c = Some h \<longrightarrow> rc_expires_at c \<le> h) \<and>
    (case rx_target_credential ctx of
       None \<Rightarrow> \<not> already_issued (routine_of s) ctx pr \<and> rc_parent_admin_grant_id c = Some (ag_grant_id g) \<and>
         rc_kind c = Timeboxed \<and> rc_successors_used c = 0 \<and> (\<exists>n. rc_max_successors c = Some n \<and>
         n \<le> rn_successors_per_worker (am_renewal_limits g))
     | Some prior \<Rightarrow> rc_principal_id c = rc_principal_id prior \<and> rc_worker_lineage_id c = rc_worker_lineage_id prior \<and>
         rc_kind c = rc_kind prior \<and> rc_max_successors c = rc_max_successors prior \<and>
         rc_horizon_expires_at c = rc_horizon_expires_at prior \<and> rc_revoked_at prior = None \<and>
         set (rc_worker_scope_names c) \<subseteq> set (rc_worker_scope_names prior) \<and> rc_bearer_seconds c \<le> rc_bearer_seconds prior \<and>
         rc_successors_used c = rc_successors_used prior + 1 \<and>
         rc_successors_used prior < rn_successors_per_worker (am_renewal_limits g) \<and>
         (\<forall>n. rc_max_successors prior = Some n \<longrightarrow> rc_successors_used prior < n) \<and>
         (ty = AdminSeatCredentialReplaced \<longrightarrow> rc_expires_at c \<le> rc_expires_at prior))"
proof -
  from routine_event_in[OF assms(1,2)] obtain g sp where gate: "routine_gate cr command s ctx = Inr (g, sp)"
    and e: "RoutineEvent ty p \<in> set (account_bodies (oc_emissions (routine_branch command s ctx g sp)))" .
  note gg = gate_grant[OF gate]
  from branch_credential[OF e assms(3)] obtain pr q where src: "credential_from command s ctx g sp ty c pr q" by blast
  have "command_ok command" using gg(7) parse_typed by blast
  then have ok: "action_ok (rq_action command)" by (simp add: command_ok_def)
  note common = credential_common[OF src ok gg(4) assms(4)]
  have deny: "\<forall>x \<in> set (rc_worker_scope_names c). \<not> isAgentScopeDenylisted (lit x)"
    using common(3) gg(4) by (auto simp: manifest_ok_def policies_ok_def)
  have r: "routine_of_account s = routine_of s" by (simp add: routine_of_account_def routine_of_def)
  have "case rx_target_credential ctx of
       None \<Rightarrow> \<not> already_issued (routine_of s) ctx pr \<and> rc_parent_admin_grant_id c = Some (ag_grant_id g) \<and>
         rc_kind c = Timeboxed \<and> rc_successors_used c = 0 \<and> (\<exists>n. rc_max_successors c = Some n \<and>
         n \<le> rn_successors_per_worker (am_renewal_limits g))
     | Some prior \<Rightarrow> rc_principal_id c = rc_principal_id prior \<and> rc_worker_lineage_id c = rc_worker_lineage_id prior \<and>
         rc_kind c = rc_kind prior \<and> rc_max_successors c = rc_max_successors prior \<and>
         rc_horizon_expires_at c = rc_horizon_expires_at prior \<and> rc_revoked_at prior = None \<and>
         set (rc_worker_scope_names c) \<subseteq> set (rc_worker_scope_names prior) \<and> rc_bearer_seconds c \<le> rc_bearer_seconds prior \<and>
         rc_successors_used c = rc_successors_used prior + 1 \<and>
         rc_successors_used prior < rn_successors_per_worker (am_renewal_limits g) \<and>
         (\<forall>n. rc_max_successors prior = Some n \<longrightarrow> rc_successors_used prior < n) \<and>
         (ty = AdminSeatCredentialReplaced \<longrightarrow> rc_expires_at c \<le> rc_expires_at prior)"
    using first_credential[OF src] next_credential[OF src _ assms(4)]
    by (cases "rx_target_credential ctx") (simp_all add: r)
  with gg(1,2) common deny show ?thesis by blast
qed

theorem issued_credential_is_confined_witness:
  "\<exists>e c. e \<in> set (rd_events (decideAdminRoutine sample_digest seat_provision seat_account seat_ctx)) \<and>
    ae_body e = RoutineEvent AdminSeatProvisioned (issued_fields seat_ctx seat_grant zero_spend c) \<and>
    3 < rc_expires_at c \<and> rc_successors_used c = 0"
proof -
  from seat_provision_outcome obtain c where
    "account_bodies (oc_emissions (routine_outcome sample_digest seat_provision seat_account seat_ctx)) =
      [RoutineEvent AdminSeatProvisioned (issued_fields seat_ctx seat_grant zero_spend c)]" by blast
  then obtain e where e: "e \<in> set (decided_account_events sample_digest seat_provision seat_account seat_ctx)"
    "ae_body e = RoutineEvent AdminSeatProvisioned (issued_fields seat_ctx seat_grant zero_spend c)"
    using decided_account_bodies(1)[of sample_digest seat_provision seat_account seat_ctx] by (auto simp: map_eq_Cons_conv)
  then have "e \<in> set (rd_events (decideAdminRoutine sample_digest seat_provision seat_account seat_ctx))"
    using routine_shape_of[of sample_digest seat_provision seat_account seat_ctx] by auto
  moreover have "rp_credential (issued_fields seat_ctx seat_grant zero_spend c) = Some c"
    "target_named seat_provision seat_ctx" by (simp_all add: issued_fields_def Let_def target_named_def)
  ultimately show ?thesis
    using issued_credential_is_confined[of e sample_digest seat_provision seat_account seat_ctx] e(2) by fastforce
qed

end
