(* ===== verification/Spec2Isabelle.thy ===== *)
theory Spec2Isabelle
  imports TaskProperties IdempotencyProperties Upcast WorkspaceFinality HostedProperties
    HostedCheckProperties TodoProperties ObjectProperties AdminProperties AdminRoutineProperties
begin

text \<open>
  Verification of the authority core of CommonSwarm, \<open>src/protocol/*.ts\<close>: the pure functions that
  decide which commands of people, agents and hosted seats are allowed and fold the resulting
  events into projections. The command function (\<open>supabase/functions/command\<close>) wraps them in
  one transaction: it loads a projection and the facts a decision may consult, calls a decision
  function, appends the emitted events to a stream and applies a reducer. Database, HTTP,
  listener and CLI are not modelled; what the core asks of them is an argument of the
  definitions (\<open>decide_ctx\<close>, \<open>ws_ctx\<close>, \<open>hosted_facts\<close>, \<open>check_facts\<close>, \<open>todo_ctx\<close>, \<open>object_ctx\<close>, \<open>admin_ctx\<close>,
  \<open>admin_routine_ctx\<close>, \<open>crypto\<close>).

  Theories, in the order of the code.
  \<^item> \<open>Prelude\<close>: JavaScript numbers (\<open>number\<close> is a rational; \<open>jsnum\<close> adds NaN and the infinities where
    a value comes from outside), results with errors, dictionaries (\<open>obj\<close>, own keys in insertion order),
    the event envelope, the field check \<open>req\<close>, and the interfaces: \<open>event_stream\<close> (a
    sequence-checked fold), \<open>invariant_stream\<close>, \<open>monotone_stream\<close> (its steps keep an invariant,
    climb a preorder) and \<open>decision_core\<close> (decisions whose events always project). Each is
    interpreted on the definitions of every core it fits.
  \<^item> \<open>TaskEvents\<close>, \<open>TaskReducer\<close>, \<open>TaskCommands\<close>: \<open>events.ts\<close>, \<open>reducer.ts\<close>, \<open>commands.ts\<close>, the lease and
    review life cycle of a task. \<open>TaskLifecycle\<close>: the precondition and effect columns of the lease
    table, the task invariant, reachable tasks and the fencing order. \<open>TaskProperties\<close>: C1 to C4.
  \<^item> \<open>Idempotency\<close>, \<open>IdempotencyProperties\<close>: \<open>idempotency.ts\<close>, canonical JSON, request hashes and the
    command ledger; the hash and the text of a number are parameters. C5.
  \<^item> \<open>Upcast\<close>: \<open>upcasters.ts\<close>, the loop shown to end by the distance to the current version. C6.
  \<^item> \<open>JsText\<close>, \<open>WorkspaceEvents\<close>, \<open>WorkspaceReducer\<close>: UTF-16 text, \<open>workspace-events.ts\<close> and
    \<open>workspace-reducer.ts\<close>, one definition per event; the nested admin routine
    (\<open>admin-routine.ts\<close>) is the parameter \<open>ra\<close>, with its payload and state types (\<open>AdminReducer\<close> has its model).
  \<^item> \<open>WorkspaceScopes\<close>, \<open>WorkspaceCommands\<close>: \<open>workspace-commands.ts\<close>, the scope denylist, the text
    normalisation and \<open>decideWorkspace\<close>, one definition per command.
  \<^item> \<open>WorkspaceLifecycle\<close>, \<open>WorkspaceEffects\<close>: what each emitted event does, that every decision
    projects, which events a command may emit, frames, and what replay never undoes.
    \<open>WorkspaceProperties\<close> C8 to C12, \<open>WorkspaceFinality\<close> C13.
  \<^item> \<open>HostedAuthority\<close>, \<open>HostedReducer\<close>, \<open>HostedProperties\<close>: \<open>hosted-authority.ts\<close>, grants and seats of
    hosted MCP agents. \<open>facts_agree\<close> is the adapter's promise that its transaction-locked facts are
    those of the projection. C14, C15. This theory: C16, which spans the hosted and the workspace core.
  \<^item> \<open>IsoDate\<close>, \<open>JsSort\<close>: calendar days, \<open>Date.parse\<close> and \<open>toISOString\<close> on the ISO format, and
    \<open>Array.prototype.sort\<close> with the interface \<open>sort_order\<close> of what makes its result unique,
    interpreted on the order of signals, of queues and of object ids.
  \<^item> \<open>HostedCheck\<close>, \<open>HostedCheckProperties\<close>: \<open>hosted-check.ts\<close>, the batches in which a seat reads its
    signals. \<open>js_host\<close> holds \<open>localeCompare\<close> and \<open>Date.parse\<close> outside the ISO format. C17, C18.
  \<^item> \<open>HouseholdPolicy\<close>: \<open>household-object-policy.ts\<close> and \<open>household-todo-policy.ts\<close>, who may read and write
    content, the limits, and the work state shown for an agent.
  \<^item> \<open>TodoData\<close>, \<open>TodoReducer\<close>, \<open>TodoDecision\<close>: \<open>household-todos.ts\<close>; the reducer takes whole to-dos, a
    command is a sequence of steps that draft events (\<open>step\<close>: a throw, a refusal or a new draft).
    \<open>TodoInvariant\<close>: acyclic gates, ranked queues, quotas. \<open>TodoDrafts\<close>, \<open>TodoReplay\<close>: drafted events fold
    to the drafted projection. \<open>TodoSample\<close>: a small household for the instances, and a bound
    of the JSON size of an event. \<open>TodoProperties\<close>: C19 to C23.
  \<^item> \<open>ObjectData\<close>, \<open>ObjectReducer\<close>, \<open>ObjectDecision\<close>: \<open>household-object-events.ts\<close> and
    \<open>household-objects.ts\<close>, contents, patches, terms, the reducer, \<open>decideHouseholdObject\<close> (one definition
    per branch) and \<open>readHouseholdObjects\<close>. \<open>object_host\<close> holds case folding, the classes of letters and
    digits and the length of a number's text. \<open>ObjectInvariant\<close>: what replay keeps and never loses.
    \<open>ObjectReplay\<close>: the decision's event passes every check of replay, branch by branch.
    \<open>ObjectPatch\<close>, \<open>ObjectTerms\<close>, \<open>ObjectReading\<close>: patches against their specification, phrase search, paging.
    \<open>ObjectSample\<close>: a document created, changed and changed from an old revision.
    \<open>ObjectProperties\<close>: C24 to C27, C29, C30.
  \<^item> \<open>AdminPolicy\<close>, \<open>AdminManifest\<close>: \<open>admin-policy.ts\<close>, the registry of capabilities, the manifest a person
    consents to and \<open>adminManifestValid\<close> on a value of unknown type; the manifests of the declared type it admits.
  \<^item> \<open>AdminData\<close>, \<open>AdminReducer\<close>, \<open>AdminAuthority\<close>, \<open>AdminDecision\<close>: \<open>admin-authority.ts\<close> and the reducer of
    \<open>admin-routine.ts\<close>: an account of consents, grants, credential lineages, rate buckets, connections and routine
    state; \<open>decideAdminAuthority\<close>, one definition per command; the audit record; the reconciliation with the grant rows.
    \<open>AdminInvariant\<close>, \<open>AdminProjection\<close>: the invariant \<open>account_ok\<close> and that every decision folds. \<open>AdminEffects\<close>,
    \<open>AdminGuards\<close>, \<open>AdminRuns\<close>, \<open>AdminRates\<close>, \<open>AdminReconcile\<close>: what logs never undo, which decision emits what, the
    stored account (session bindings blanked), the counters of attempts, and the reconciliation.
    \<open>AdminSample\<close>: an account with one grant, a waiting connection and an open invitation. \<open>AdminProperties\<close>: C34 to C40.
  \<^item> \<open>AdminRoutine\<close>, \<open>AdminRoutineDecision\<close>, \<open>AdminRoutineVerdict\<close>: the commands a delegate sends on a grant,
    \<open>parseAdminRoutineCommand\<close> and \<open>decideAdminRoutine\<close> of \<open>admin-routine.ts\<close>, one definition per branch, with the events on
    the account and on the workspace. \<open>AdminRoutineParse\<close>, \<open>AdminRoutineFolds\<close>, \<open>AdminRoutineSteps\<close>,
    \<open>AdminRoutineRuns\<close>: the typed commands the parser admits, and that the account events of a decision fold and keep
    \<open>account_ok\<close>. \<open>AdminDelegation\<close>: turns of the person, the runtime and the delegate on one log, a \<open>decision_core\<close>
    (\<open>delegation_core\<close>), and runs of them. \<open>AdminCredentials\<close>: what each check says of a worker credential.
    \<open>AdminRoutineSample\<close>: an account that two turns of a person reach, and two commands of its delegate.
    \<open>AdminRoutineProperties\<close>: the properties of whole accounts and of the delegate, C7, C28, C31 to C33.

  Conventions. Server time and the sequence numbers, epochs and versions stored in projections are
  exact: the code's doubles agree with them for integers below \<open>2 ^ 53\<close>, and no
  rounding is modelled. The counters \<open>nextSeq\<close> and \<open>nextEventId\<close> are functions of the number
  of envelopes a decision has built so far. Every \<open>throw\<close> is the left value of a sum, every
  refusal a constructor of the decision type, with the code's reason; details that interpolate
  numbers are kept as data. A payload lists the fields of its stream as options (\<open>undefined\<close> is
  \<open>None\<close>); values have their declared types except where a reducer tests them. Dictionaries are
  not looked up by the names of \<open>Object.prototype\<close>. Loops over lists are structural recursion, so
  no fuel is used anywhere; the numeric loop \<open>upcast_loop\<close>, the walk along gates and the page reader
  \<open>walk_pages\<close> end by a measure.

  What the lemma groups show. Decisions: the exact precondition of each command and the events it
  emits. Reducers: the exact effect of each event on well-formed projections, and an invariant. Cores: every
  decision's events fold (\<open>task_core\<close>, \<open>ws_core\<close>, \<open>hosted_core\<close>, \<open>delegation_core\<close>, \<open>committed_replays\<close>, \<open>decision_accepted\<close>), so a
  projection never halts on its own log. Orders: epochs, versions, consumed invitations, revoked
  tokens, delivered signals and histories only go up.

  Not proved: that the workspace events of \<open>decideAdminRoutine\<close> pass the workspace reducer (its account events do).

  Not modelled: \<open>workspace-skills.ts\<close> and \<open>household-tool-registry.ts\<close> (validation of packages and tables of
  tools), \<open>household-invitations.ts\<close>, \<open>agent-join-limits.ts\<close>, \<open>brain-version-window.ts\<close>,
  \<open>read-provenance.ts\<close> and the smaller tables of \<open>src/protocol\<close>, and everything that performs input and output.
\<close>

section \<open>Hosted seats in the workspace\<close>

text \<open>
  A seat claim is one event of the workspace stream, folded by both reducers. \<open>workspace_view\<close> reads
  the hosted payload as a workspace payload.
\<close>

definition workspace_view :: "hosted_envelope \<Rightarrow> 'p ws_event" where
  "workspace_view e = \<lparr>ev_workspace_id = ev_workspace_id e, ev_stream_id = ev_stream_id e,
     ev_seq = ev_seq e, ev_event_id = ev_event_id e, ev_command_id = ev_command_id e,
     ev_type = (case ev_type e of
         GrantBegun \<Rightarrow> HostedMcpGrantBegun | WorkspaceConsented \<Rightarrow> HostedMcpWorkspaceConsented
       | GrantActivated \<Rightarrow> HostedMcpGrantActivated | hosted_event_type.GrantRevoked \<Rightarrow> HostedMcpGrantRevoked
       | SeatClaimed \<Rightarrow> HostedMcpSeatClaimed | SeatRevoked \<Rightarrow> HostedMcpSeatRevoked
       | SeatReleased \<Rightarrow> HostedMcpSeatReleased | OtherHostedEvent x \<Rightarrow> UnknownWorkspaceEvent x),
     ev_schema_version = ev_schema_version e, ev_actor_user = ev_actor_user e,
     ev_actor_agent_principal = ev_actor_agent_principal e, ev_actor_run = ev_actor_run e,
     ev_occurred_at_server = ev_occurred_at_server e, ev_admin_identity_id = ev_admin_identity_id e,
     ev_grant_id = ev_grant_id e, ev_grant_manifest_digest = ev_grant_manifest_digest e,
     ev_payload = (case ev_payload e of
         NullPayload \<Rightarrow> NullPayload | PrimitivePayload \<Rightarrow> PrimitivePayload
       | Fields p \<Rightarrow> Fields (no_fields\<lparr>w_workspace_id := h_workspace_id p, w_name := h_name p,
           w_created_at := h_created_at p, w_revoked_at := h_revoked_at p,
           w_principal_id := h_principal_id p, w_owner_user_id := h_owner_user_id p,
           w_transport := map_option (\<lambda>t. Some (if t = ''hosted_mcp'' then Inl HostedMcp
             else if t = ''local'' then Inl LocalTransport else Inr t)) (h_transport p),
           w_turn_only := map_option (\<lambda>b. Some (Inl b)) (h_turn_only p),
           w_seat_id := h_seat_id p, w_grant_id := h_grant_id p,
           w_handle := map_option lit (h_handle p)\<rparr>))\<rparr>"

lemma claim_event:
  assumes "decideHostedAuthority (ClaimSeat gid sid h pid w u n) f ctx = HostedOk [e] r p"
  shows "w = hc_workspace_id ctx \<and> e = hosted_event ctx SeatClaimed (no_hosted_fields\<lparr>
    h_kind := Some ''claim_hosted_seat'', h_grant_id := Some gid, h_seat_id := Some sid,
    h_handle := Some h, h_principal_id := Some pid, h_workspace_id := Some w, h_owner_user_id := Some u,
    h_name := Some n, h_transport := Some ''hosted_mcp'', h_turn_only := Some True,
    h_created_at := Some (hc_now ctx)\<rparr>)"
proof -
  from assms obtain g where "decide_claim f ctx g gid sid h pid w u n = HostedOk [e] r p"
    by (rule decideHosted_cases) (simp_all add: decide_with_grant_def)
  from claim_accepted[OF this] show ?thesis by (auto split: option.split_asm)
qed

text \<open>A claim event as the workspace reducer sees it, and its effect for a fresh principal.\<close>

definition claim_view :: "'p ws_event \<Rightarrow> string \<Rightarrow> string \<Rightarrow> string \<Rightarrow> string \<Rightarrow> string \<Rightarrow> string \<Rightarrow> jstext \<Rightarrow> number \<Rightarrow> bool" where
  "claim_view e gid sid h pid w u n c \<longleftrightarrow> ev_type e = HostedMcpSeatClaimed \<and> ev_schema_version e = SCHEMA_VERSION \<and>
     ev_payload e = Fields (no_fields\<lparr>w_workspace_id := Some w, w_name := Some n, w_created_at := Some c,
       w_principal_id := Some pid, w_owner_user_id := Some u,
       w_transport := Some (Some (Inl HostedMcp)), w_turn_only := Some (Some (Inl True)),
       w_seat_id := Some sid, w_grant_id := Some gid, w_handle := Some (lit h)\<rparr>)"

lemma claim_is_viewed:
  "claim_view (workspace_view (hosted_event ctx SeatClaimed (no_hosted_fields\<lparr>h_kind := k,
      h_grant_id := Some gid, h_seat_id := Some sid, h_handle := Some h,
      h_principal_id := Some pid, h_workspace_id := Some w, h_owner_user_id := Some u, h_name := Some n,
      h_transport := Some ''hosted_mcp'', h_turn_only := Some True, h_created_at := Some c\<rparr>)))
    gid sid h pid w u n c"
  by (simp add: claim_view_def workspace_view_def hosted_event_def no_hosted_fields_def no_fields_def)

lemma claim_in_workspace:
  assumes "claim_view e gid sid h pid w u n c"
    and "owners_ok s" and "obj_get (ws_principals s) pid = None" and "w = wr_workspace_id (ws_workspace s)"
  shows "reduceWorkspace ra (Some s) e =
    Inr (s\<lparr>ws_principals := obj_put (ws_principals s) pid \<lparr>wp_principal_id = pid, wp_owner_user_id = u,
      wp_name = n, wp_model = None, wp_transport = HostedMcp, wp_turn_only = True, wp_created_at = c,
      wp_revoked_at = None\<rparr>\<rparr>)"
proof -
  note e = assms(1)[unfolded claim_view_def]
  have seat: "ws_seat_claimed s e = Inr (s\<lparr>ws_principals := obj_put (ws_principals s) pid
      \<lparr>wp_principal_id = pid, wp_owner_user_id = u, wp_name = n, wp_model = None, wp_transport = HostedMcp,
       wp_turn_only = True, wp_created_at = c, wp_revoked_at = None\<rparr>\<rparr>)"
    using assms(3,4) by (simp add: ws_seat_claimed_def ws_req_def e no_fields_def)
  show ?thesis
    using assms(2) by (simp add: reduceWorkspace_def e WORKSPACE_EVENT_TYPES_def reduce_ws_event_def seat)
qed

text \<open>
  C16. A hosted seat never holds a bearer token of its own: a claim the hosted core accepts for a fresh
  principal also folds into the workspace projection, as a hosted, turn-only agent of the grant's
  owner, and the workspace core then refuses to mint or renew a token for that agent, whoever asks.
\<close>

theorem hosted_seat_holds_no_token:
  fixes es :: "'p ws_event list"
  assumes "decideHostedAuthority (ClaimSeat gid sid h pid w u n) f hx = HostedOk [e] r p"
    and "reduceWorkspaceStream ra evs = Inr (Some s)"
    and "wr_workspace_id (ws_workspace s) = hc_workspace_id hx" and "obj_get (ws_principals s) pid = None"
    and "cmd = MintAgentToken tid pid run task ep sc ttl \<or>
      (cmd = RenewAgentToken tid sc \<and> act_agent_principal (wc_actor ctx) = Some pid)"
  shows "\<exists>t. reduceWorkspace ra (Some s) (workspace_view e) = Inr t \<and> ws_wf t \<and>
    (\<exists>a. obj_get (ws_principals t) pid = Some a \<and> wp_owner_user_id a = u \<and> wp_name a = n \<and>
      wp_transport a = HostedMcp \<and> wp_turn_only a \<and> wp_revoked_at a = None) \<and>
    decideWorkspace (Some t) cmd ctx \<noteq> Inr (Accepted es)"
proof -
  have wf: "ws_wf s" using assms(2) by (rule replayed_wf)
  let ?a = "\<lparr>wp_principal_id = pid, wp_owner_user_id = u, wp_name = n, wp_model = None, wp_transport = HostedMcp,
    wp_turn_only = True, wp_created_at = hc_now hx, wp_revoked_at = None\<rparr>"
  let ?t = "s\<lparr>ws_principals := obj_put (ws_principals s) pid ?a\<rparr>"
  from claim_event[OF assms(1)] have c: "claim_view (workspace_view e) gid sid h pid w u n (hc_now hx)"
    and w: "w = hc_workspace_id hx" by (simp_all add: claim_is_viewed)
  have t: "reduceWorkspace ra (Some s) (workspace_view e) = Inr ?t"
    by (rule claim_in_workspace[OF c]) (use wf assms(3,4) w in \<open>simp_all add: ws_wf_def\<close>)
  have "decideWorkspace (Some ?t) cmd ctx \<noteq> Inr (Accepted es)"
  proof
    assume "decideWorkspace (Some ?t) cmd ctx = Inr (Accepted es)"
    then obtain v where v: "decide_in_workspace ?t cmd ctx v = Inr (Accepted es)" by (rule accepted_inside)
    from assms(5) show False
    proof
      assume "cmd = MintAgentToken tid pid run task ep sc ttl"
      with v have "decide_mint_token ?t ctx v tid pid run task ep sc ttl = Accepted es"
        by (simp add: decide_in_workspace_def decide_member_command_def split: if_splits)
      then show False by (rule mint_accepted) auto
    next
      assume c: "cmd = RenewAgentToken tid sc \<and> act_agent_principal (wc_actor ctx) = Some pid"
      with v have "decide_renew_token ?t ctx tid sc = Accepted es"
        by (simp add: decide_in_workspace_def decide_member_command_def split: if_splits)
      then show False by (rule renew_accepted) (use c in auto)
    qed
  qed
  with t reduceWorkspace_wf[OF t] wf show ?thesis by auto
qed

theorem hosted_seat_holds_no_token_witness:
  "\<exists>e t. decideHostedAuthority (ClaimSeat ''g'' ''t2'' ''h2'' ''p2'' ''w'' ''o'' (lit ''Bob''))
       (hfacts (Some sample_gf) None) (hctx HostedGrantKind None 4) = HostedOk [e] None (Some []) \<and>
     reduceWorkspace no_routine (Some sample_ws) (workspace_view e) = Inr t \<and>
     decideWorkspace (Some t) (MintAgentToken ''x'' ''p2'' ''r'' ''k'' (Fin 0) [lit ''signal''] None)
       (wctx HumanCredential ''o'' None None 50) \<noteq> Inr (Accepted ([] :: unit ws_event list))"
proof -
  have "wr_workspace_id (ws_workspace sample_ws) = hc_workspace_id (hctx HostedGrantKind None 4)"
    by (simp add: sample_ws_def sample_base_def)
  from hosted_seat_holds_no_token[OF sample_claimed sample_ws_replay this] sample_claimed show ?thesis
    by fastforce
qed

section \<open>Rejections and full replay\<close>

text \<open>
  Two folds of one task log: a member's command on a task that does not exist emits one committed
  rejection; the projection loop of the command function passes over it and keeps no task, while
  the full replay of the same log halts on it.
\<close>

theorem rejection_before_task_halts_replay:
  assumes "canonicalPrincipal (dc_actor ctx) = Inr me" and "dc_isMember ctx me"
    and "\<forall>tid slug. cmd \<noteq> Create tid slug"
  shows "\<exists>e. decide None cmd ctx = Inr (Rejected Domain unknown_task (Detail ''no such task in this stream'') [e]) \<and>
    ev_type e = CommandRejected \<and> project_events None [e] = Inr None \<and>
    reduceStream [e] = Inl (StreamIntegrityError CommandRejected (dc_nextSeq ctx 0) RejectedBeforeTask)"
proof -
  from assms have "\<exists>e. decide None cmd ctx = Inr (Rejected Domain unknown_task (Detail ''no such task in this stream'') [e]) \<and>
      ev_type e = CommandRejected \<and> ev_schema_version e = SCHEMA_VERSION \<and> ev_seq e = dc_nextSeq ctx 0"
    by (cases cmd) (simp_all add: decide_def task_domain_def task_env_def)
  then show ?thesis
    by (auto simp: reduceStream_def reduceTask_def EVENT_TYPES_def)
qed

theorem rejection_before_task_halts_replay_witness:
  "\<exists>e. decide None (Acquire ''t'' (Fin 5)) (sample_ctx ''a'' 5 1) =
      Inr (Rejected Domain unknown_task (Detail ''no such task in this stream'') [e]) \<and>
    project_events None [e] = Inr None \<and>
    reduceStream [e] = Inl (StreamIntegrityError CommandRejected 1 RejectedBeforeTask)"
proof -
  have "canonicalPrincipal (dc_actor (sample_ctx ''a'' 5 1)) = Inr ''a''" "dc_isMember (sample_ctx ''a'' 5 1) ''a''"
    "dc_nextSeq (sample_ctx ''a'' 5 1) 0 = 1" by (simp_all add: sample_ctx_def)
  with rejection_before_task_halts_replay[OF this(1,2), of "Acquire ''t'' (Fin 5)"] show ?thesis by auto
qed

end
